(* ===== verification/Kikimora_Prelude.thy ===== *)
theory Kikimora_Prelude
  imports Main "HOL-Library.Word" "HOL-Library.AList"
begin

text \<open>
  Shared vocabulary of the development.

  \<^item> Go's \<^verbatim>\<open>error\<close> values: an error is built by \<^verbatim>\<open>fmt.Errorf\<close> (its text is
    the format string; verbs other than \<^verbatim>\<open>%w\<close> are left as they stand in the source), by
    wrapping another error, or it is one of the sentinel variables the program declares.
    \<open>errorsIs\<close> is \<^verbatim>\<open>errors.Is\<close>.
  \<^item> Go maps: association lists with distinct keys. The list order stands for one of the
    iteration orders the runtime may choose; lemmas about iteration state when the result
    does not depend on it.
  \<^item> Stateful fallible code: a transaction takes a state and returns either an error or a
    value, together with the state reached. The state survives an error, as the fields of
    a Go receiver do.
\<close>

section \<open>Collections of facts\<close>

named_theorems tx_simps \<open>unfolding rules of the transaction combinators\<close>
named_theorems gomap_simps \<open>lookup rules of association-list maps\<close>

section \<open>Machine types\<close>

type_synonym u64 = "64 word"
type_synonym u32 = "32 word"
type_synonym u16 = "16 word"

text \<open>Times are nanoseconds; the zero value of \<^verbatim>\<open>time.Time\<close> is 0.\<close>

type_synonym gotime = int

section \<open>Errors\<close>

text \<open>The sentinel error variables of the modelled packages.\<close>

datatype sentinel =
    ErrToadRestartPending
  | ErrValidationPending
  | ErrUnderlayPathUnavailable
  | ErrEndpointResolutionPending
  | ErrRecoveryCancelled
  | ErrRoutesStillParked
  | ErrResolutionUnavailable
  | errParkNotProven
  | errRestorationNotWinning
  | ErrContextCanceled
  | ErrContextDeadlineExceeded
  | ErrNotExist
  | ErrSelectedRouteUnsupported
  | ErrSelectedRouteObserverUnsupported
  | errRepairInvalidState
  | SyscallEEXIST
  | SyscallEBUSY
  | SyscallENOENT
  | ERROR_NOT_FOUND
  | ERROR_OBJECT_ALREADY_EXISTS

datatype goerror =
    Errorf string
  | Wrapf string goerror
  | Sentinel sentinel
  | SelectedRouteDeniedError string string string string
  | SelectedRouteConflictError string string string

fun errorsIs :: "goerror \<Rightarrow> sentinel \<Rightarrow> bool" where
  "errorsIs (Sentinel s) t = (s = t)"
| "errorsIs (Wrapf m e) t = errorsIs e t"
| "errorsIs _ t = False"

text \<open>\<^verbatim>\<open>os.IsNotExist\<close>, which does not look behind a wrapping error.\<close>

fun os_IsNotExist :: "goerror \<Rightarrow> bool" where
  "os_IsNotExist (Sentinel s) = (s = ErrNotExist \<or> s = SyscallENOENT)"
| "os_IsNotExist _ = False"

text \<open>\<^verbatim>\<open>Error()\<close>. The message of a wrapping error is its format with \<^verbatim>\<open>%w\<close> replaced.\<close>

fun sentinel_text :: "sentinel \<Rightarrow> string" where
  "sentinel_text ErrToadRestartPending = ''Toad restart started; awaiting replacement generation''"
| "sentinel_text ErrValidationPending = ''Toad validation is temporarily unhealthy''"
| "sentinel_text ErrUnderlayPathUnavailable = ''required physical underlay path is temporarily unavailable''"
| "sentinel_text ErrEndpointResolutionPending = ''endpoint resolution is temporarily unavailable''"
| "sentinel_text ErrRecoveryCancelled = ''recovery transaction was cancelled''"
| "sentinel_text ErrRoutesStillParked = ''selected routes still parked''"
| "sentinel_text ErrResolutionUnavailable = ''endpoint resolution temporarily unavailable''"
| "sentinel_text errParkNotProven = ''parked restoration is not proven yet''"
| "sentinel_text errRestorationNotWinning = ''restored selected route does not win over the park''"
| "sentinel_text ErrContextCanceled = ''context canceled''"
| "sentinel_text ErrContextDeadlineExceeded = ''context deadline exceeded''"
| "sentinel_text ErrNotExist = ''file does not exist''"
| "sentinel_text ErrSelectedRouteUnsupported = ''selected-route writer unsupported''"
| "sentinel_text ErrSelectedRouteObserverUnsupported = ''selected-route observer unsupported''"
| "sentinel_text errRepairInvalidState = ''repair requires an active record''"
| "sentinel_text SyscallEEXIST = ''file exists''"
| "sentinel_text SyscallEBUSY = ''device or resource busy''"
| "sentinel_text SyscallENOENT = ''no such file or directory''"
| "sentinel_text ERROR_NOT_FOUND = ''Element not found.''"
| "sentinel_text ERROR_OBJECT_ALREADY_EXISTS = ''The object already exists.''"

fun expand_w :: "string \<Rightarrow> string \<Rightarrow> string" where
  "expand_w [] t = []"
| "expand_w [c] t = [c]"
| "expand_w (c # d # cs) t =
     (if c = CHR ''%'' \<and> d = CHR ''w'' then t @ expand_w cs t else c # expand_w (d # cs) t)"

fun error_text :: "goerror \<Rightarrow> string" where
  "error_text (Errorf m) = m"
| "error_text (Wrapf m e) = expand_w m (error_text e)"
| "error_text (Sentinel s) = sentinel_text s"
| "error_text (SelectedRouteDeniedError role zone prefix reason) =
     ''route '' @ prefix @ '' denied for role '' @ [CHR 0x22] @ '''' @ role @ '''' @ [CHR 0x22] @ '': '' @ reason"
| "error_text (SelectedRouteConflictError role zone prefix) =
     ''route '' @ prefix @ '' conflicts with a foreign row for role '' @ [CHR 0x22] @ '''' @ role @ '''' @ [CHR 0x22] @ ''''"

text \<open>\<^verbatim>\<open>strings.Contains\<close>: a contiguous occurrence.\<close>

fun has_prefix :: "string \<Rightarrow> string \<Rightarrow> bool" where
  "has_prefix [] s = True"
| "has_prefix (p # ps) [] = False"
| "has_prefix (p # ps) (c # cs) = (p = c \<and> has_prefix ps cs)"

fun strings_Contains :: "string \<Rightarrow> string \<Rightarrow> bool" where
  "strings_Contains [] sub = (sub = [])"
| "strings_Contains (c # cs) sub = (has_prefix sub (c # cs) \<or> strings_Contains cs sub)"

section \<open>Transactions: state, error or value\<close>

type_synonym ('s, 'a) tx = "'s \<Rightarrow> (goerror + 'a) \<times> 's"

definition returnT :: "'a \<Rightarrow> ('s, 'a) tx" where
  "returnT a = (\<lambda>s. (Inr a, s))"

definition throwT :: "goerror \<Rightarrow> ('s, 'a) tx" where
  "throwT e = (\<lambda>s. (Inl e, s))"

definition bindT :: "('s, 'a) tx \<Rightarrow> ('a \<Rightarrow> ('s, 'b) tx) \<Rightarrow> ('s, 'b) tx" where
  "bindT m f = (\<lambda>s. case m s of (Inl e, s') \<Rightarrow> (Inl e, s') | (Inr a, s') \<Rightarrow> f a s')"

definition getT :: "('s \<Rightarrow> 'a) \<Rightarrow> ('s, 'a) tx" where
  "getT f = (\<lambda>s. (Inr (f s), s))"

definition putT :: "('s \<Rightarrow> 's) \<Rightarrow> ('s, unit) tx" where
  "putT f = (\<lambda>s. (Inr (), f s))"

text \<open>\<^verbatim>\<open>if !cond { return err }\<close>\<close>

definition requireT :: "bool \<Rightarrow> goerror \<Rightarrow> ('s, unit) tx" where
  "requireT c e = (if c then returnT () else throwT e)"

text \<open>A loop over a slice whose body may return an error.\<close>

fun eachT :: "('a \<Rightarrow> ('s, unit) tx) \<Rightarrow> 'a list \<Rightarrow> ('s, unit) tx" where
  "eachT f [] = returnT ()"
| "eachT f (x # xs) = bindT (f x) (\<lambda>_. eachT f xs)"

text \<open>Replacing an error on its way out, and a pure result as a step.\<close>

definition mapErrT :: "(goerror \<Rightarrow> goerror) \<Rightarrow> ('s, 'a) tx \<Rightarrow> ('s, 'a) tx" where
  "mapErrT f t s = (case t s of (Inl e, s') \<Rightarrow> (Inl (f e), s') | (Inr a, s') \<Rightarrow> (Inr a, s'))"

definition fromSum :: "goerror + 'a \<Rightarrow> ('s, 'a) tx" where
  "fromSum x = (case x of Inl e \<Rightarrow> throwT e | Inr a \<Rightarrow> returnT a)"

text \<open>The outcome of a step as a value, for a caller that handles its error.\<close>

definition tryT :: "('s, 'a) tx \<Rightarrow> ('s, goerror + 'a) tx" where
  "tryT t s = (case t s of (r, s') \<Rightarrow> (Inr r, s'))"

text \<open>\<^verbatim>\<open>if err := call(); err != nil && !tolerated(err) { return err }\<close>\<close>

definition tolerateT :: "(goerror \<Rightarrow> bool) \<Rightarrow> ('s, unit) tx \<Rightarrow> ('s, unit) tx" where
  "tolerateT ok t s =
     (case t s of
        (Inl e, s') \<Rightarrow> if ok e then (Inr (), s') else (Inl e, s')
      | (Inr u, s') \<Rightarrow> (Inr (), s'))"

lemmas tx_defs = returnT_def throwT_def bindT_def getT_def putT_def requireT_def

lemma bindT_Inr_iff:
  "bindT m f s = (Inr b, s'') \<longleftrightarrow> (\<exists>a s'. m s = (Inr a, s') \<and> f a s' = (Inr b, s''))"
  by (auto simp: bindT_def split: prod.splits sum.splits)

lemma mapErrT_Inr_iff: "mapErrT f t s = (Inr a, s') \<longleftrightarrow> t s = (Inr a, s')"
  by (auto simp: mapErrT_def split: prod.splits sum.splits)

lemma fromSum_Inr_iff: "fromSum x s = (Inr a, s') \<longleftrightarrow> x = Inr a \<and> s' = s"
  by (cases x) (auto simp: fromSum_def throwT_def returnT_def)

lemma bindT_cases:
  assumes "bindT m f s = (r, s'')"
  obtains (err) e where "m s = (Inl e, s'')" "r = Inl e"
  | (val) a s' where "m s = (Inr a, s')" "f a s' = (r, s'')"
  using assms by (auto simp: bindT_def split: prod.splits sum.splits)

lemma returnT_apply [simp, tx_simps]: "returnT a s = (Inr a, s)"
  by (simp add: returnT_def)

lemma throwT_apply [simp, tx_simps]: "throwT e s = (Inl e, s)"
  by (simp add: throwT_def)

lemma getT_apply [simp, tx_simps]: "getT f s = (Inr (f s), s)"
  by (simp add: getT_def)

lemma putT_apply [simp, tx_simps]: "putT f s = (Inr (), f s)"
  by (simp add: putT_def)

lemma requireT_apply [tx_simps]:
  "requireT c e s = (if c then (Inr (), s) else (Inl e, s))"
  by (simp add: requireT_def)

lemma bindT_apply [tx_simps]:
  "bindT m f s = (case m s of (Inl e, s') \<Rightarrow> (Inl e, s') | (Inr a, s') \<Rightarrow> f a s')"
  by (simp add: bindT_def)

lemma bindT_returnT [simp]: "bindT (returnT a) f = f a"
  by (simp add: bindT_def returnT_def)

lemma bindT_throwT [simp]: "bindT (throwT e) f = throwT e"
  by (simp add: bindT_def throwT_def)

lemma bindT_right_unit [simp]: "bindT m returnT = m"
  by (rule ext) (simp add: bindT_def returnT_def split: prod.splits sum.splits)

lemma bindT_assoc: "bindT (bindT m f) g = bindT m (\<lambda>a. bindT (f a) g)"
  by (rule ext) (simp add: bindT_def split: prod.splits sum.splits)

text \<open>A predicate on states that a transaction keeps, whatever it returns.\<close>

definition keepsT :: "('s \<Rightarrow> bool) \<Rightarrow> ('s, 'a) tx \<Rightarrow> bool" where
  "keepsT P m \<longleftrightarrow> (\<forall>s. P s \<longrightarrow> P (snd (m s)))"

lemma keepsTI:
  assumes "\<And>s r s'. P s \<Longrightarrow> m s = (r, s') \<Longrightarrow> P s'"
  shows "keepsT P m"
  unfolding keepsT_def
proof (intro allI impI)
  fix s
  assume "P s"
  obtain r s' where "m s = (r, s')" by (cases "m s")
  with \<open>P s\<close> assms show "P (snd (m s))" by simp
qed

lemma keepsTD: "keepsT P m \<Longrightarrow> P s \<Longrightarrow> m s = (r, s') \<Longrightarrow> P s'"
  by (auto simp: keepsT_def dest: spec [of _ s])

lemma keepsT_return [simp, intro]: "keepsT P (returnT a)"
  by (simp add: keepsT_def)

lemma keepsT_throw [simp, intro]: "keepsT P (throwT e)"
  by (simp add: keepsT_def)

lemma keepsT_get [simp, intro]: "keepsT P (getT f)"
  by (simp add: keepsT_def)

lemma keepsT_require [simp, intro]: "keepsT P (requireT c e)"
  by (simp add: keepsT_def requireT_apply)

lemma keepsT_put [intro]: "(\<And>s. P s \<Longrightarrow> P (f s)) \<Longrightarrow> keepsT P (putT f)"
  by (simp add: keepsT_def)

lemma keepsT_bind [intro]:
  assumes "keepsT P m" and "\<And>a. keepsT P (f a)"
  shows "keepsT P (bindT m f)"
proof (rule keepsTI)
  fix s r s'
  assume P: "P s" and run: "bindT m f s = (r, s')"
  from run show "P s'"
  proof (cases rule: bindT_cases)
    case (err e)
    with P assms(1) show ?thesis by (blast intro: keepsTD)
  next
    case (val a s1)
    with P assms(1) have "P s1" by (blast intro: keepsTD)
    with val(2) assms(2) show ?thesis by (blast intro: keepsTD)
  qed
qed

lemma keepsT_tolerate [intro]: "keepsT P t \<Longrightarrow> keepsT P (tolerateT ok t)"
  by (fastforce simp: keepsT_def tolerateT_def split: prod.splits sum.splits)

lemma keepsT_try: "keepsT P t \<Longrightarrow> keepsT P (tryT t)"
  by (auto simp: keepsT_def tryT_def split: prod.splits)

lemma keepsT_each [intro]:
  "(\<And>x. x \<in> set xs \<Longrightarrow> keepsT P (f x)) \<Longrightarrow> keepsT P (eachT f xs)"
  by (induction xs) auto

lemma keepsT_if [intro]:
  "(c \<Longrightarrow> keepsT P m) \<Longrightarrow> (\<not> c \<Longrightarrow> keepsT P n) \<Longrightarrow> keepsT P (if c then m else n)"
  by simp

lemma keepsT_option [intro]:
  "(x = None \<Longrightarrow> keepsT P m) \<Longrightarrow> (\<And>a. x = Some a \<Longrightarrow> keepsT P (f a)) \<Longrightarrow>
     keepsT P (case x of None \<Rightarrow> m | Some a \<Rightarrow> f a)"
  by (cases x) auto

lemma keepsT_mapErr [intro]: "keepsT P t \<Longrightarrow> keepsT P (mapErrT f t)"
  by (fastforce simp: keepsT_def mapErrT_def split: prod.splits sum.splits)

lemma keepsT_fromSum [simp, intro]: "keepsT P (fromSum x)"
  by (cases x) (simp_all add: fromSum_def)

subsection \<open>Hoare triples\<close>

text \<open>\<open>tripleT P t Q E\<close>: from a state of \<open>P\<close> the transaction returns a value in a state of \<open>Q\<close>,
  or an error in a state of \<open>E\<close>.\<close>

definition tripleT :: "('s \<Rightarrow> bool) \<Rightarrow> ('s, 'a) tx \<Rightarrow> ('a \<Rightarrow> 's \<Rightarrow> bool) \<Rightarrow> ('s \<Rightarrow> bool) \<Rightarrow> bool" where
  "tripleT P t Q E \<longleftrightarrow> (\<forall>s. P s \<longrightarrow> (case t s of (Inl e, s') \<Rightarrow> E s' | (Inr a, s') \<Rightarrow> Q a s'))"

lemma tripleI:
  assumes "\<And>s e s'. P s \<Longrightarrow> t s = (Inl e, s') \<Longrightarrow> E s'" and "\<And>s a s'. P s \<Longrightarrow> t s = (Inr a, s') \<Longrightarrow> Q a s'"
  shows "tripleT P t Q E"
  using assms by (auto simp: tripleT_def split: prod.splits sum.splits)

lemma triple_value: "tripleT P t Q E \<Longrightarrow> P s \<Longrightarrow> t s = (Inr a, s') \<Longrightarrow> Q a s'"
  by (auto simp: tripleT_def dest: spec [of _ s])

lemma triple_error: "tripleT P t Q E \<Longrightarrow> P s \<Longrightarrow> t s = (Inl e, s') \<Longrightarrow> E s'"
  by (auto simp: tripleT_def dest: spec [of _ s])

lemma triple_return: "(\<And>s. P s \<Longrightarrow> Q a s) \<Longrightarrow> tripleT P (returnT a) Q E"
  by (simp add: tripleT_def)

lemma triple_throw: "(\<And>s. P s \<Longrightarrow> E s) \<Longrightarrow> tripleT P (throwT e) Q E"
  by (simp add: tripleT_def)

lemma triple_get: "(\<And>s. P s \<Longrightarrow> Q (f s) s) \<Longrightarrow> tripleT P (getT f) Q E"
  by (simp add: tripleT_def)

lemma triple_put: "(\<And>s. P s \<Longrightarrow> Q () (f s)) \<Longrightarrow> tripleT P (putT f) Q E"
  by (simp add: tripleT_def)

lemma triple_require:
  "(\<And>s. P s \<Longrightarrow> c \<Longrightarrow> Q () s) \<Longrightarrow> (\<And>s. P s \<Longrightarrow> \<not> c \<Longrightarrow> E s) \<Longrightarrow> tripleT P (requireT c e) Q E"
  by (simp add: tripleT_def requireT_apply)

lemma triple_bind:
  assumes "tripleT P m R E" and "\<And>a. tripleT (R a) (f a) Q E"
  shows "tripleT P (bindT m f) Q E"
proof (rule tripleI)
  fix s e s'
  assume P: "P s" and run: "bindT m f s = (Inl e, s')"
  from run show "E s'"
    by (cases rule: bindT_cases) (auto dest: triple_error [OF assms(1) P] triple_value [OF assms(1) P] triple_error [OF assms(2)])
next
  fix s a s'
  assume P: "P s" and run: "bindT m f s = (Inr a, s')"
  from run show "Q a s'"
    by (cases rule: bindT_cases) (auto dest: triple_value [OF assms(1) P] triple_value [OF assms(2)])
qed

lemma triple_conseq:
  "tripleT P t Q E \<Longrightarrow> (\<And>s. P' s \<Longrightarrow> P s) \<Longrightarrow> (\<And>a s. Q a s \<Longrightarrow> Q' a s) \<Longrightarrow> (\<And>s. E s \<Longrightarrow> E' s) \<Longrightarrow> tripleT P' t Q' E'"
  by (fastforce simp: tripleT_def split: prod.splits sum.splits)

lemma triple_keeps: "keepsT I t \<Longrightarrow> tripleT I t (\<lambda>_. I) I"
  by (fastforce simp: tripleT_def keepsT_def split: prod.splits sum.splits)

lemma triple_keep_bind:
  "keepsT I m \<Longrightarrow> (\<And>a. tripleT I (f a) Q I) \<Longrightarrow> tripleT I (bindT m f) Q I"
  by (rule triple_bind [OF triple_keeps])

lemma triple_head:
  "keepsT I m \<Longrightarrow> (\<And>s. I s \<Longrightarrow> E s) \<Longrightarrow> (\<And>a. tripleT I (f a) Q E) \<Longrightarrow> tripleT I (bindT m f) Q E"
  by (rule triple_bind [OF triple_conseq [OF triple_keeps]])

lemma triple_state:
  assumes "tripleT P t (\<lambda>_. Q) Q" and "P s"
  shows "Q (snd (t s))"
proof (cases "t s")
  case (Pair r s')
  show ?thesis
  proof (cases r)
    case (Inl e)
    with Pair triple_error [OF assms, of e s'] show ?thesis by simp
  next
    case (Inr a)
    with Pair triple_value [OF assms, of a s'] show ?thesis by simp
  qed
qed

lemma triple_keeps_back: "tripleT I t (\<lambda>_. I) I \<Longrightarrow> keepsT I t"
  by (simp add: keepsT_def triple_state)

lemma triple_if:
  "(c \<Longrightarrow> tripleT P t Q E) \<Longrightarrow> (\<not> c \<Longrightarrow> tripleT P u Q E) \<Longrightarrow> tripleT P (if c then t else u) Q E"
  by simp

lemma triple_pure_sum:
  "(\<And>a. x = Inr a \<Longrightarrow> tripleT P (f a) Q E) \<Longrightarrow> (\<And>s. P s \<Longrightarrow> E s) \<Longrightarrow> tripleT P (bindT (fromSum x) f) Q E"
  by (cases x) (simp_all add: fromSum_def triple_throw)

lemma triple_pure: "(c \<Longrightarrow> tripleT P t Q E) \<Longrightarrow> tripleT (\<lambda>s. P s \<and> c) t Q E"
  by (cases c) (simp_all add: tripleT_def)

lemma triple_and:
  "tripleT P t Q E \<Longrightarrow> tripleT P' t Q' E' \<Longrightarrow> tripleT (\<lambda>s. P s \<and> P' s) t (\<lambda>a s. Q a s \<and> Q' a s) (\<lambda>s. E s \<and> E' s)"
  by (fastforce simp: tripleT_def split: prod.splits sum.splits)

lemma triple_each:
  "(\<And>x. x \<in> set xs \<Longrightarrow> tripleT I (f x) (\<lambda>_. I) E) \<Longrightarrow> (\<And>s. I s \<Longrightarrow> E s) \<Longrightarrow> tripleT I (eachT f xs) (\<lambda>_. I) E"
  by (induction xs) (auto intro!: triple_return triple_bind)

lemma triple_mapErr: "tripleT P t Q E \<Longrightarrow> tripleT P (mapErrT f t) Q E"
  by (fastforce simp: tripleT_def mapErrT_def split: prod.splits sum.splits)

lemma map_sum_Inr_iff [simp]: "map_sum id g x = Inr y \<longleftrightarrow> (\<exists>a. x = Inr a \<and> y = g a)"
  by (cases x) auto

lemma map_sum_Inl_iff [simp]: "map_sum id g x = Inl e \<longleftrightarrow> x = Inl e"
  by (cases x) auto

lemma option_eq_if: "(\<And>v. a = Some v \<longleftrightarrow> c \<and> b = Some v) \<Longrightarrow> a = (if c then b else None)"
  by (cases a; cases b) auto

section \<open>Go maps\<close>

type_synonym ('k, 'v) gomap = "('k \<times> 'v) list"

abbreviation gomap_lookup :: "('k, 'v) gomap \<Rightarrow> 'k \<Rightarrow> 'v option" where
  "gomap_lookup \<equiv> map_of"

abbreviation gomap_put :: "'k \<Rightarrow> 'v \<Rightarrow> ('k, 'v) gomap \<Rightarrow> ('k, 'v) gomap" where
  "gomap_put \<equiv> AList.update"

abbreviation gomap_del :: "'k \<Rightarrow> ('k, 'v) gomap \<Rightarrow> ('k, 'v) gomap" where
  "gomap_del \<equiv> AList.delete"

text \<open>A loop \<^verbatim>\<open>for k, v := range m { m[k] = f(v) }\<close>.\<close>

definition gomap_map :: "('k \<Rightarrow> 'v \<Rightarrow> 'w) \<Rightarrow> ('k, 'v) gomap \<Rightarrow> ('k, 'w) gomap" where
  "gomap_map f m = map (\<lambda>(k, v). (k, f k v)) m"

definition gomap_wf :: "('k, 'v) gomap \<Rightarrow> bool" where
  "gomap_wf m \<longleftrightarrow> distinct (map fst m)"

lemma gomap_put_lookup [simp, gomap_simps]:
  "map_of (AList.update k v m) = (map_of m)(k \<mapsto> v)"
  by (rule AList.update_conv')

lemma gomap_del_lookup [simp, gomap_simps]:
  "map_of (AList.delete k m) = (map_of m)(k := None)"
  by (rule AList.delete_conv')

lemma gomap_map_lookup [simp, gomap_simps]:
  "map_of (gomap_map f m) k = map_option (f k) (map_of m k)"
  by (induction m) (auto simp: gomap_map_def)

lemma gomap_wf_empty [simp]: "gomap_wf []"
  by (simp add: gomap_wf_def)

lemma gomap_wf_put [simp, intro]: "gomap_wf m \<Longrightarrow> gomap_wf (AList.update k v m)"
  by (simp add: gomap_wf_def AList.distinct_update)

lemma gomap_wf_del [simp, intro]: "gomap_wf m \<Longrightarrow> gomap_wf (AList.delete k m)"
  by (simp add: gomap_wf_def AList.distinct_delete)

lemma gomap_wf_map [simp]: "gomap_wf (gomap_map f m) = gomap_wf m"
proof -
  have "map fst (gomap_map f m) = map fst m"
    by (induction m) (auto simp: gomap_map_def)
  then show ?thesis by (simp add: gomap_wf_def)
qed

lemma gomap_mem_iff: "gomap_wf m \<Longrightarrow> (k, v) \<in> set m \<longleftrightarrow> map_of m k = Some v"
  by (auto simp: gomap_wf_def)

lemma gomap_ball_iff:
  "gomap_wf m \<Longrightarrow> (\<forall>(k, v) \<in> set m. P k v) \<longleftrightarrow> (\<forall>k v. map_of m k = Some v \<longrightarrow> P k v)"
  by (auto simp: gomap_mem_iff [symmetric])

end
