(* ===== verification/Netip.thy ===== *)
theory Netip
  imports Kikimora_Prelude "HOL-Library.Char_ord" "HOL-Library.List_Lexorder"
begin

unbundle bit_operations_syntax

text \<open>
  The part of Go's \<^verbatim>\<open>net/netip\<close> the program uses: addresses, prefixes, masking, and
  their text form. An address is the zero value, an IPv4 address or an IPv6 address with
  a zone; a prefix holds an address and, as in the library, its bit count plus one
  (0 for an invalid prefix).
\<close>

section \<open>Addresses\<close>

datatype addr = AddrZero | Addr4 "32 word" | Addr6 "128 word" string

definition addr_IsValid :: "addr \<Rightarrow> bool" where
  "addr_IsValid a = (a \<noteq> AddrZero)"

fun addr_Is4 :: "addr \<Rightarrow> bool" where
  "addr_Is4 (Addr4 w) = True"
| "addr_Is4 _ = False"

fun addr_Is6 :: "addr \<Rightarrow> bool" where
  "addr_Is6 (Addr6 w z) = True"
| "addr_Is6 _ = False"

text \<open>\<open>::ffff:a.b.c.d\<close>\<close>

fun addr_Is4In6 :: "addr \<Rightarrow> bool" where
  "addr_Is4In6 (Addr6 w z) = (drop_bit 32 w = 0xffff)"
| "addr_Is4In6 _ = False"

fun addr_Unmap :: "addr \<Rightarrow> addr" where
  "addr_Unmap (Addr6 w z) = (if drop_bit 32 w = 0xffff then Addr4 (ucast w) else Addr6 w z)"
| "addr_Unmap a = a"

fun addr_BitLen :: "addr \<Rightarrow> nat" where
  "addr_BitLen AddrZero = 0"
| "addr_BitLen (Addr4 w) = 32"
| "addr_BitLen (Addr6 w z) = 128"

fun addr_withoutZone :: "addr \<Rightarrow> addr" where
  "addr_withoutZone (Addr6 w z) = Addr6 w []"
| "addr_withoutZone a = a"

definition addr_IsLoopback :: "addr \<Rightarrow> bool" where
  "addr_IsLoopback a = (case addr_Unmap a of
      AddrZero \<Rightarrow> False
    | Addr4 w \<Rightarrow> drop_bit 24 w = 127
    | Addr6 w z \<Rightarrow> w = 1)"

fun addr_IsUnspecified :: "addr \<Rightarrow> bool" where
  "addr_IsUnspecified AddrZero = False"
| "addr_IsUnspecified (Addr4 w) = (w = 0)"
| "addr_IsUnspecified (Addr6 w z) = (w = 0 \<and> z = [])"

section \<open>Prefixes\<close>

datatype netprefix = Prefix (prefix_Addr: addr) (bitsPlusOne: nat)

abbreviation prefix_zero :: netprefix where
  "prefix_zero \<equiv> Prefix AddrZero 0"

definition prefix_Bits :: "netprefix \<Rightarrow> int" where
  "prefix_Bits p = int (bitsPlusOne p) - 1"

definition prefix_IsValid :: "netprefix \<Rightarrow> bool" where
  "prefix_IsValid p = (0 < bitsPlusOne p)"

definition PrefixFrom :: "addr \<Rightarrow> int \<Rightarrow> netprefix" where
  "PrefixFrom a bits =
     Prefix (addr_withoutZone a)
       (if a \<noteq> AddrZero \<and> 0 \<le> bits \<and> bits \<le> int (addr_BitLen a) then nat bits + 1 else 0)"

text \<open>Clear all but the top \<open>b\<close> bits of a word.\<close>

definition mask_top :: "nat \<Rightarrow> 'a::len word \<Rightarrow> 'a word" where
  "mask_top b w = push_bit (LENGTH('a) - b) (drop_bit (LENGTH('a) - b) w)"

text \<open>\<^verbatim>\<open>Addr.Prefix\<close> with the error of a bad bit count as \<^term>\<open>None\<close>, and
  \<^verbatim>\<open>Prefix.Masked\<close>, which drops the error.\<close>

definition addr_Prefix :: "addr \<Rightarrow> int \<Rightarrow> netprefix option" where
  "addr_Prefix a b =
     (if b < 0 then None
      else case a of
        AddrZero \<Rightarrow> Some prefix_zero
      | Addr4 w \<Rightarrow> if 32 < b then None else Some (PrefixFrom (Addr4 (mask_top (nat b) w)) b)
      | Addr6 w z \<Rightarrow> if 128 < b then None else Some (PrefixFrom (Addr6 (mask_top (nat b) w) []) b))"

definition prefix_Masked :: "netprefix \<Rightarrow> netprefix" where
  "prefix_Masked p =
     (case addr_Prefix (prefix_Addr p) (prefix_Bits p) of None \<Rightarrow> prefix_zero | Some m \<Rightarrow> m)"

section \<open>Text form\<close>

definition digit_char :: "int \<Rightarrow> char" where
  "digit_char n = char_of (if n < 10 then 48 + n else 87 + n)"

text \<open>Number to text in base \<open>b\<close>, without leading zeros.\<close>

function show_base :: "int \<Rightarrow> int \<Rightarrow> string" where
  "show_base b n =
     (if n < b \<or> b \<le> 1 then [digit_char n] else show_base b (n div b) @ [digit_char (n mod b)])"
  by pat_completeness auto
termination
  by (relation "measure (\<lambda>(b, n). nat n)")
     (auto simp: not_less not_le intro: int_div_less_self)

declare show_base.simps [simp del]

abbreviation show_dec :: "int \<Rightarrow> string" where "show_dec \<equiv> show_base 10"
abbreviation show_hex :: "int \<Rightarrow> string" where "show_hex \<equiv> show_base 16"

text \<open>Byte \<open>i\<close> (from the top) of an IPv4 address, group \<open>i\<close> (from the top) of an IPv6 one.\<close>

definition v4_byte :: "32 word \<Rightarrow> nat \<Rightarrow> int" where
  "v4_byte w i = uint (drop_bit (24 - 8 * i) w) mod 256"

definition v6u16 :: "128 word \<Rightarrow> nat \<Rightarrow> int" where
  "v6u16 w i = uint (drop_bit (112 - 16 * i) w) mod 65536"

definition string4 :: "32 word \<Rightarrow> string" where
  "string4 w = show_dec (v4_byte w 0) @ ''.'' @ show_dec (v4_byte w 1) @ ''.'' @
               show_dec (v4_byte w 2) @ ''.'' @ show_dec (v4_byte w 3)"

text \<open>The longest run of at least two zero groups, the first of several longest ones, as
  (start, length).\<close>

fun zero_run :: "int list \<Rightarrow> nat" where
  "zero_run [] = 0"
| "zero_run (g # gs) = (if g = 0 then Suc (zero_run gs) else 0)"

fun longest_zero_run :: "nat \<Rightarrow> int list \<Rightarrow> (nat \<times> nat) option \<Rightarrow> (nat \<times> nat) option" where
  "longest_zero_run i [] best = best"
| "longest_zero_run i (g # gs) best =
     (let l = zero_run (g # gs);
          best' = (if 2 \<le> l \<and> (case best of None \<Rightarrow> True | Some (_, bl) \<Rightarrow> bl < l) then Some (i, l) else best)
      in longest_zero_run (Suc i) gs best')"

fun join_colon :: "string list \<Rightarrow> string" where
  "join_colon [] = []"
| "join_colon [s] = s"
| "join_colon (s # ss) = s @ '':'' @ join_colon ss"

definition string6 :: "128 word \<Rightarrow> string" where
  "string6 w =
     (let gs = map (v6u16 w) [0..<8]
      in case longest_zero_run 0 gs None of
           None \<Rightarrow> join_colon (map show_hex gs)
         | Some (i, l) \<Rightarrow> join_colon (map show_hex (take i gs)) @ ''::'' @
                          join_colon (map show_hex (drop (i + l) gs)))"

fun addr_String :: "addr \<Rightarrow> string" where
  "addr_String AddrZero = ''invalid IP''"
| "addr_String (Addr4 w) = string4 w"
| "addr_String (Addr6 w z) =
     ((if drop_bit 32 w = 0xffff then ''::ffff:'' @ string4 (ucast w) else string6 w) @
      (if z = [] then [] else ''%'' @ z))"

definition prefix_String :: "netprefix \<Rightarrow> string" where
  "prefix_String p =
     (if prefix_IsValid p then addr_String (prefix_Addr p) @ ''/'' @ show_dec (prefix_Bits p)
      else ''invalid Prefix'')"

section \<open>Parsing\<close>

definition is_digit :: "char \<Rightarrow> bool" where
  "is_digit c = (48 \<le> (of_char c :: int) \<and> (of_char c :: int) \<le> 57)"

definition hex_value :: "char \<Rightarrow> int option" where
  "hex_value c =
     (let n = of_char c in
      if 48 \<le> n \<and> n \<le> 57 then Some (n - 48)
      else if 97 \<le> n \<and> n \<le> 102 then Some (n - 87)
      else if 65 \<le> n \<and> n \<le> 70 then Some (n - 55) else None)"

fun split_on :: "char \<Rightarrow> string \<Rightarrow> string list" where
  "split_on d [] = [[]]"
| "split_on d (c # cs) =
     (if c = d then [] # split_on d cs
      else case split_on d cs of [] \<Rightarrow> [[c]] | f # fs \<Rightarrow> (c # f) # fs)"

text \<open>One octet: one to three digits, no leading zero, at most 255.\<close>

definition parse_octet :: "string \<Rightarrow> int option" where
  "parse_octet s =
     (if s = [] \<or> \<not> list_all is_digit s \<or> (1 < length s \<and> hd s = CHR ''0'') then None
      else let v = foldl (\<lambda>a c. a * 10 + (of_char c - 48)) 0 s in if 255 < v then None else Some v)"

definition parseIPv4Fields :: "string \<Rightarrow> int list option" where
  "parseIPv4Fields s =
     (let os = map parse_octet (split_on (CHR ''.'') s)
      in if length os = 4 \<and> list_all (\<lambda>x. x \<noteq> None) os then Some (map the os) else None)"

definition word_of_groups :: "int \<Rightarrow> int list \<Rightarrow> 'a::len word" where
  "word_of_groups b gs = word_of_int (foldl (\<lambda>a g. a * b + g) 0 gs)"

definition parseIPv4 :: "string \<Rightarrow> addr option" where
  "parseIPv4 s = map_option (\<lambda>os. Addr4 (word_of_groups 256 os)) (parseIPv4Fields s)"

text \<open>
  The groups of the text after a leading ellipsis, left to right: a list of at most eight
  16-bit groups and the position of an ellipsis. The first argument bounds the number of
  groups still allowed (\<^verbatim>\<open>for i < 16\<close> counts two bytes a group).
\<close>

definition parse_hex_group :: "string \<Rightarrow> (int \<times> string) option" where
  "parse_hex_group s =
     (let h = takeWhile (\<lambda>c. hex_value c \<noteq> None) s
      in if h = [] \<or> 4 < length h then None
         else Some (foldl (\<lambda>a c. a * 16 + the (hex_value c)) 0 h, drop (length h) s))"

fun parse_groups :: "nat \<Rightarrow> string \<Rightarrow> int list \<Rightarrow> nat option \<Rightarrow> (int list \<times> nat option) option" where
  "parse_groups 0 s acc ell = (if s = [] then Some (acc, ell) else None)"
| "parse_groups (Suc n) s acc ell =
     (case parse_hex_group s of
        None \<Rightarrow> None
      | Some (g, r) \<Rightarrow>
          (case r of
             [] \<Rightarrow> Some (acc @ [g], ell)
           | c # cs \<Rightarrow>
               if c = CHR ''.'' then
                 (if (ell = None \<and> length acc \<noteq> 6) \<or> 6 < length acc then None
                  else case parseIPv4Fields s of
                         None \<Rightarrow> None
                       | Some os \<Rightarrow> Some (acc @ [os ! 0 * 256 + os ! 1, os ! 2 * 256 + os ! 3], ell))
               else if c \<noteq> CHR '':'' then None
               else case cs of
                      [] \<Rightarrow> None
                    | d # ds \<Rightarrow>
                        if d = CHR '':'' then
                          (if ell \<noteq> None then None
                           else if ds = [] then Some (acc @ [g], Some (Suc (length acc)))
                           else parse_groups n ds (acc @ [g]) (Some (Suc (length acc))))
                        else parse_groups n cs (acc @ [g]) ell))"

definition expand_groups :: "int list \<Rightarrow> nat option \<Rightarrow> int list option" where
  "expand_groups gs ell =
     (if length gs < 8
      then (case ell of None \<Rightarrow> None
            | Some e \<Rightarrow> Some (take e gs @ replicate (8 - length gs) 0 @ drop e gs))
      else if ell \<noteq> None then None else Some gs)"

definition parseIPv6 :: "string \<Rightarrow> addr option" where
  "parseIPv6 s0 =
     (let s = takeWhile (\<lambda>c. c \<noteq> CHR ''%'') s0;
          z = drop (Suc (length s)) s0
      in if length s < length s0 \<and> z = [] then None
         else if s = ''::'' then Some (Addr6 0 z)
         else case (if take 2 s = ''::'' then parse_groups 8 (drop 2 s) [] (Some 0)
                    else parse_groups 8 s [] None) of
                None \<Rightarrow> None
              | Some (gs, ell) \<Rightarrow>
                  map_option (\<lambda>g. Addr6 (word_of_groups 65536 g) z) (expand_groups gs ell))"

fun ParseAddr_scan :: "string \<Rightarrow> string \<Rightarrow> addr option" where
  "ParseAddr_scan s [] = None"
| "ParseAddr_scan s (c # cs) =
     (if c = CHR ''.'' then parseIPv4 s
      else if c = CHR '':'' then parseIPv6 s
      else if c = CHR ''%'' then None
      else ParseAddr_scan s cs)"

definition ParseAddr :: "string \<Rightarrow> addr option" where
  "ParseAddr s = ParseAddr_scan s s"

definition parse_bits :: "string \<Rightarrow> int option" where
  "parse_bits s =
     (if s = [] \<or> \<not> list_all is_digit s \<or> (1 < length s \<and> hd s = CHR ''0'') then None
      else Some (foldl (\<lambda>a c. a * 10 + (of_char c - 48)) 0 s))"

definition ParsePrefix :: "string \<Rightarrow> netprefix option" where
  "ParsePrefix s =
     (let r = takeWhile (\<lambda>c. c \<noteq> CHR ''/'') (rev s);
          i = length s - length r
      in if i = 0 then None
         else case ParseAddr (take (i - 1) s) of
                None \<Rightarrow> None
              | Some a \<Rightarrow>
                  if addr_Is6 a \<and> addr_withoutZone a \<noteq> a then None
                  else case parse_bits (rev r) of
                         None \<Rightarrow> None
                       | Some b \<Rightarrow> if int (addr_BitLen a) < b then None else Some (PrefixFrom a b))"

section \<open>Facts\<close>

lemma prefix_Bits_PrefixFrom:
  "a \<noteq> AddrZero \<Longrightarrow> 0 \<le> b \<Longrightarrow> b \<le> int (addr_BitLen a) \<Longrightarrow> prefix_Bits (PrefixFrom a b) = b"
  by (simp add: PrefixFrom_def prefix_Bits_def)

lemma mask_top_idem [simp]: "mask_top b (mask_top b w) = mask_top b w"
  by (rule bit_word_eqI) (auto simp: mask_top_def bit_simps)

lemma BitLen_withoutZone [simp]: "addr_BitLen (addr_withoutZone a) = addr_BitLen a"
  by (cases a) auto

lemma prefix_Masked_idem [simp]: "prefix_Masked (prefix_Masked p) = prefix_Masked p"
proof -
  obtain a b where p: "p = Prefix a b" by (cases p)
  show ?thesis
    by (cases a)
       (auto simp: p prefix_Masked_def addr_Prefix_def PrefixFrom_def prefix_Bits_def)
qed

lemma prefix_Masked_valid:
  assumes "prefix_IsValid p" and "p = prefix_Masked p"
  shows "prefix_Addr p \<noteq> AddrZero"
proof
  assume zero: "prefix_Addr p = AddrZero"
  then have "prefix_Masked p = prefix_zero"
    by (simp add: prefix_Masked_def addr_Prefix_def)
  with assms show False by (simp add: prefix_IsValid_def)
qed

end
