(* ===== verification/Netstate.thy ===== *)
theory Netstate
  imports Netip
begin

text \<open>
  The physical underlay as the core sees it (\<^verbatim>\<open>toad/internal/netstate\<close>): one path per
  address family, an identity comparison that ignores timestamps and connectivity
  metadata, the epoch counter that advances exactly on identity changes, and the publish
  step of the coalescer that turns raw invalidations into canonical changes.
\<close>

section \<open>Snapshots\<close>

record net_path =
  pa_Family :: int
  pa_IfIndex :: int
  pa_Interface :: string
  pa_Gateway :: addr
  pa_PreferredSrc :: addr
  pa_MTU :: int
  pa_Table :: int
  pa_Metric :: u32

record net_metadata =
  md_ConnectionID :: string
  md_BSSID :: string

record netstate_snapshot =
  ns_Epoch :: u64
  ns_IPv4 :: "net_path option"
  ns_IPv6 :: "net_path option"
  ns_Metadata :: net_metadata
  ns_ObservedAt :: gotime

datatype change_reason =
    ReasonNone
  | ChangeInitial
  | ChangeInterface
  | ChangeGateway
  | ChangePreferredSource
  | ChangeAvailability
  | ChangeWiFiIdentity
  | ChangeResumeValidation

fun change_reason_text :: "change_reason \<Rightarrow> string" where
  "change_reason_text ReasonNone = ''''"
| "change_reason_text ChangeInitial = ''initial''"
| "change_reason_text ChangeInterface = ''default-interface-changed''"
| "change_reason_text ChangeGateway = ''gateway-changed''"
| "change_reason_text ChangePreferredSource = ''source-address-changed''"
| "change_reason_text ChangeAvailability = ''underlay-availability-changed''"
| "change_reason_text ChangeWiFiIdentity = ''wifi-identity-changed''"
| "change_reason_text ChangeResumeValidation = ''resume-validation''"

text \<open>The zero value of \<^verbatim>\<open>Snapshot\<close>.\<close>

definition netstate_zero :: netstate_snapshot where
  "netstate_zero = \<lparr>ns_Epoch = 0, ns_IPv4 = None, ns_IPv6 = None,
     ns_Metadata = \<lparr>md_ConnectionID = [], md_BSSID = []\<rparr>, ns_ObservedAt = 0\<rparr>"

section \<open>Identity\<close>

fun path_equal :: "net_path option \<Rightarrow> net_path option \<Rightarrow> bool" where
  "path_equal (Some p) (Some q) =
     (pa_Family p = pa_Family q \<and> pa_IfIndex p = pa_IfIndex q \<and> pa_Interface p = pa_Interface q \<and>
      pa_Gateway p = pa_Gateway q \<and> pa_PreferredSrc p = pa_PreferredSrc q \<and> pa_MTU p = pa_MTU q \<and>
      pa_Table p = pa_Table q \<and> pa_Metric p = pa_Metric q)"
| "path_equal p q = (p = None \<and> q = None)"

definition IdentityEqual :: "netstate_snapshot \<Rightarrow> netstate_snapshot \<Rightarrow> bool" where
  "IdentityEqual a b =
     (path_equal (ns_IPv4 a) (ns_IPv4 b) \<and> path_equal (ns_IPv6 a) (ns_IPv6 b) \<and>
      md_BSSID (ns_Metadata a) = md_BSSID (ns_Metadata b))"

definition Available :: "netstate_snapshot \<Rightarrow> int \<Rightarrow> bool" where
  "Available s family =
     (if family = 4 then (case ns_IPv4 s of None \<Rightarrow> False | Some p \<Rightarrow> addr_IsValid (pa_PreferredSrc p))
      else if family = 6 then (case ns_IPv6 s of None \<Rightarrow> False | Some p \<Rightarrow> addr_IsValid (pa_PreferredSrc p))
      else False)"

definition IsMappedIPv6 :: "addr \<Rightarrow> bool" where
  "IsMappedIPv6 a = (addr_Is6 a \<and> addr_Is4 (addr_Unmap a))"

section \<open>Comparison\<close>

fun addrChanged :: "net_path option \<Rightarrow> net_path option \<Rightarrow> (net_path \<Rightarrow> addr) \<Rightarrow> bool" where
  "addrChanged (Some a) (Some b) v = (v a \<noteq> v b)"
| "addrChanged _ _ v = False"

fun pathIdentityChanged :: "net_path option \<Rightarrow> net_path option \<Rightarrow> bool" where
  "pathIdentityChanged (Some a) (Some b) =
     (pa_IfIndex a \<noteq> pa_IfIndex b \<or> pa_Interface a \<noteq> pa_Interface b)"
| "pathIdentityChanged _ _ = False"

definition Compare ::
  "netstate_snapshot \<Rightarrow> netstate_snapshot \<Rightarrow> netstate_snapshot \<times> change_reason \<times> bool" where
  "Compare old nxt =
     (if ns_Epoch old = 0 \<and> \<not> IdentityEqual old nxt then (nxt\<lparr>ns_Epoch := 1\<rparr>, ChangeInitial, True)
      else if IdentityEqual old nxt then (nxt\<lparr>ns_Epoch := ns_Epoch old\<rparr>, ReasonNone, False)
      else if pathIdentityChanged (ns_IPv4 old) (ns_IPv4 nxt) \<or> pathIdentityChanged (ns_IPv6 old) (ns_IPv6 nxt)
        then (nxt\<lparr>ns_Epoch := ns_Epoch old + 1\<rparr>, ChangeInterface, True)
      else if addrChanged (ns_IPv4 old) (ns_IPv4 nxt) pa_Gateway \<or> addrChanged (ns_IPv6 old) (ns_IPv6 nxt) pa_Gateway
        then (nxt\<lparr>ns_Epoch := ns_Epoch old + 1\<rparr>, ChangeGateway, True)
      else if addrChanged (ns_IPv4 old) (ns_IPv4 nxt) pa_PreferredSrc \<or> addrChanged (ns_IPv6 old) (ns_IPv6 nxt) pa_PreferredSrc
        then (nxt\<lparr>ns_Epoch := ns_Epoch old + 1\<rparr>, ChangePreferredSource, True)
      else if (ns_IPv4 old = None) \<noteq> (ns_IPv4 nxt = None) \<or> (ns_IPv6 old = None) \<noteq> (ns_IPv6 nxt = None)
        then (nxt\<lparr>ns_Epoch := ns_Epoch old + 1\<rparr>, ChangeAvailability, True)
      else if md_BSSID (ns_Metadata old) \<noteq> md_BSSID (ns_Metadata nxt)
        then (nxt\<lparr>ns_Epoch := ns_Epoch old + 1\<rparr>, ChangeWiFiIdentity, True)
      else (nxt\<lparr>ns_Epoch := ns_Epoch old + 1\<rparr>, ChangeInterface, True))"

section \<open>Coalescer\<close>

text \<open>
  The publish step: \<^verbatim>\<open>Build\<close> has returned \<open>built\<close>, an error or a snapshot, and the
  context error is \<open>ctxErr\<close>. The result is the canonical snapshot kept by the loop and
  the change handed to the callback, if any.
\<close>

record net_change =
  ch_Snapshot :: netstate_snapshot
  ch_Reason :: change_reason
  ch_Resume :: bool

definition coalescer_publish ::
  "goerror + netstate_snapshot \<Rightarrow> goerror option \<Rightarrow> netstate_snapshot \<Rightarrow> bool \<Rightarrow>
     netstate_snapshot \<times> (goerror + net_change option)" where
  "coalescer_publish built ctxErr current resume =
     (case built of
        Inl e \<Rightarrow> (current, Inl e)
      | Inr nxt \<Rightarrow>
          (let (merged, reason, changed) = Compare current nxt
           in if \<not> changed \<and> \<not> resume then (current, Inr None)
              else
                let merged' = (if changed then merged else nxt\<lparr>ns_Epoch := ns_Epoch current\<rparr>);
                    reason' = (if changed then reason else ChangeResumeValidation)
                in case ctxErr of
                     Some e \<Rightarrow> (merged', Inl e)
                   | None \<Rightarrow> (merged', Inr (Some \<lparr>ch_Snapshot = merged', ch_Reason = reason', ch_Resume = resume\<rparr>))))"

section \<open>Facts\<close>

lemma path_equal_iff: "path_equal p q \<longleftrightarrow> p = q"
  by (cases "(p, q)" rule: path_equal.cases) (auto intro: net_path.equality)

lemma IdentityEqual_iff:
  "IdentityEqual a b \<longleftrightarrow>
     ns_IPv4 a = ns_IPv4 b \<and> ns_IPv6 a = ns_IPv6 b \<and>
     md_BSSID (ns_Metadata a) = md_BSSID (ns_Metadata b)"
  by (simp add: IdentityEqual_def path_equal_iff)

lemma IdentityEqual_refl [simp]: "IdentityEqual a a"
  and IdentityEqual_sym: "IdentityEqual a b \<Longrightarrow> IdentityEqual b a"
  and IdentityEqual_trans: "IdentityEqual a b \<Longrightarrow> IdentityEqual b c \<Longrightarrow> IdentityEqual a c"
  by (auto simp: IdentityEqual_iff)

lemma Compare_unchanged_iff: "snd (snd (Compare old nxt)) \<longleftrightarrow> \<not> IdentityEqual old nxt"
  by (simp add: Compare_def)

lemma Compare_epoch:
  "ns_Epoch (fst (Compare old nxt)) =
     (if IdentityEqual old nxt then ns_Epoch old else ns_Epoch old + 1)"
  by (auto simp: Compare_def)

lemma Compare_identity:
  "fst (Compare old nxt) = nxt\<lparr>ns_Epoch := ns_Epoch (fst (Compare old nxt))\<rparr>"
  by (auto simp: Compare_def)

lemma IdentityEqual_epoch [simp]:
  "IdentityEqual (a\<lparr>ns_Epoch := e\<rparr>) b = IdentityEqual a b"
  "IdentityEqual a (b\<lparr>ns_Epoch := e\<rparr>) = IdentityEqual a b"
  by (simp_all add: IdentityEqual_def)

end
