(* ===== verification/Toadctl.thy ===== *)
theory Toadctl
  imports Netip
begin

text \<open>
  The control protocol between the core and a Toad process (\<^verbatim>\<open>toad/internal/toadctl\<close>):
  snapshots, capabilities, per-family readiness and the length-prefixed frames the two
  sides exchange. JSON encoding is a parameter of the framing functions.
\<close>

section \<open>Protocol data\<close>

record path_binding =
  pb_IfIndex :: int
  pb_Interface :: string
  pb_Source :: addr

record underlay_binding =
  ub_IPv4 :: "path_binding option"
  ub_IPv6 :: "path_binding option"

record capabilities =
  cap_Validate :: bool
  cap_Rebind :: bool
  cap_RestartTransportKeepingTUN :: bool
  cap_ReportsLiveEndpoints :: bool

record family_readiness =
  fr_Configured :: bool
  fr_Ready :: bool
  fr_Reason :: string

record route_families =
  rf_IPv4 :: family_readiness
  rf_IPv6 :: family_readiness

record validation_result =
  vr_Healthy :: bool
  vr_State :: string
  vr_Reason :: string
  vr_Families :: route_families

record transport_endpoint =
  te_Network :: string
  te_Address :: "addr \<times> u16"
  te_Hostname :: string
  te_Port :: u16
  te_ObservedAt :: gotime
  te_Active :: bool

record toad_snapshot =
  ts_ProtocolVersion :: int
  ts_Revision :: u64
  ts_Generation :: u64
  ts_State :: string
  ts_Reason :: string
  ts_InterfaceName :: string
  ts_IfIndex :: int
  ts_MTU :: int
  ts_Addresses :: "string list"
  ts_RouteReady :: bool
  ts_Families :: route_families
  ts_SessionConnected :: bool
  ts_LastHandshakeAgeMS :: "int option"
  ts_RXBytes :: u64
  ts_TXBytes :: u64
  ts_Endpoint :: string
  ts_Capabilities :: capabilities
  ts_Endpoints :: "transport_endpoint list"
  ts_UpdatedAt :: gotime

text \<open>Zero values.\<close>

definition families_zero :: route_families where
  "families_zero = \<lparr>rf_IPv4 = \<lparr>fr_Configured = False, fr_Ready = False, fr_Reason = []\<rparr>,
                    rf_IPv6 = \<lparr>fr_Configured = False, fr_Ready = False, fr_Reason = []\<rparr>\<rparr>"

definition validation_zero :: validation_result where
  "validation_zero = \<lparr>vr_Healthy = False, vr_State = [], vr_Reason = [], vr_Families = families_zero\<rparr>"

definition capabilities_zero :: capabilities where
  "capabilities_zero = \<lparr>cap_Validate = False, cap_Rebind = False,
     cap_RestartTransportKeepingTUN = False, cap_ReportsLiveEndpoints = False\<rparr>"

definition toad_zero :: toad_snapshot where
  "toad_zero = \<lparr>ts_ProtocolVersion = 0, ts_Revision = 0, ts_Generation = 0, ts_State = [],
     ts_Reason = [], ts_InterfaceName = [], ts_IfIndex = 0, ts_MTU = 0, ts_Addresses = [],
     ts_RouteReady = False, ts_Families = families_zero, ts_SessionConnected = False,
     ts_LastHandshakeAgeMS = None, ts_RXBytes = 0, ts_TXBytes = 0, ts_Endpoint = [],
     ts_Capabilities = capabilities_zero, ts_Endpoints = [], ts_UpdatedAt = 0\<rparr>"

text \<open>\<^verbatim>\<open>RouteFamilies.Ready\<close>: at least one usable family.\<close>

definition families_Ready :: "route_families \<Rightarrow> bool" where
  "families_Ready f = (fr_Ready (rf_IPv4 f) \<or> fr_Ready (rf_IPv6 f))"

section \<open>Frames\<close>

type_synonym byte = "8 word"

definition maxFrame :: int where
  "maxFrame = 1024 * 1024"

definition bigEndian_PutUint32 :: "u32 \<Rightarrow> byte list" where
  "bigEndian_PutUint32 n = [ucast (drop_bit 24 n), ucast (drop_bit 16 n), ucast (drop_bit 8 n), ucast n]"

fun bigEndian_Uint32 :: "byte list \<Rightarrow> u32" where
  "bigEndian_Uint32 [a, b, c, d] =
     push_bit 24 (ucast a) + push_bit 16 (ucast b) + push_bit 8 (ucast c) + ucast d"
| "bigEndian_Uint32 _ = 0"

text \<open>
  Reading consumes a byte stream; a stream that ends early is the error of
  \<^verbatim>\<open>io.ReadFull\<close>. \<open>unmarshal\<close> stands for \<^verbatim>\<open>json.Unmarshal\<close> into the value.
\<close>

definition readFrame :: "(byte list \<Rightarrow> goerror + 'a) \<Rightarrow> byte list \<Rightarrow> (goerror + 'a) \<times> byte list" where
  "readFrame unmarshal r =
     (if length r < 4 then (Inl (Errorf ''unexpected EOF''), [])
      else let n = bigEndian_Uint32 (take 4 r); r' = drop 4 r
           in if n = 0 \<or> uint n > maxFrame then (Inl (Errorf ''invalid frame size %d''), r')
              else if int (length r') < uint n then (Inl (Errorf ''unexpected EOF''), [])
              else (unmarshal (take (unat n) r'), drop (unat n) r'))"

definition writeFrame :: "('a \<Rightarrow> goerror + byte list) \<Rightarrow> 'a \<Rightarrow> goerror + byte list" where
  "writeFrame marshal v =
     (case marshal v of
        Inl e \<Rightarrow> Inl e
      | Inr b \<Rightarrow>
          if b = [] \<or> int (length b) > maxFrame then Inl (Errorf ''invalid frame size'')
          else Inr (bigEndian_PutUint32 (word_of_nat (length b)) @ b))"

lemma bigEndian_roundtrip: "bigEndian_Uint32 (bigEndian_PutUint32 n) = n"
proof -
  have "push_bit 24 (ucast (ucast (drop_bit 24 n) :: byte)) + push_bit 16 (ucast (ucast (drop_bit 16 n) :: byte))
        + push_bit 8 (ucast (ucast (drop_bit 8 n) :: byte)) + ucast (ucast n :: byte) = n"
    (is "?a + ?b + ?c + ?d = n")
  proof -
    have 1: "?a + ?b = or ?a ?b"
      by (rule disjunctive_add) (auto simp: bit_simps)
    have 2: "or ?a ?b + ?c = or (or ?a ?b) ?c"
      by (rule disjunctive_add) (auto simp: bit_simps)
    have 3: "or (or ?a ?b) ?c + ?d = or (or (or ?a ?b) ?c) ?d"
      by (rule disjunctive_add) (auto simp: bit_simps)
    have "or (or (or ?a ?b) ?c) ?d = n"
    proof (rule bit_word_eqI)
      fix i
      assume "i < LENGTH(32)"
      then consider "i < 8" | "8 \<le> i \<and> i < 16" | "16 \<le> i \<and> i < 24" | "24 \<le> i \<and> i < 32"
        by fastforce
      then show "bit (or (or (or ?a ?b) ?c) ?d) i = bit n i"
        by cases (auto simp: bit_simps)
    qed
    then show ?thesis by (simp add: 1 2 3)
  qed
  then show ?thesis by (simp add: bigEndian_PutUint32_def)
qed

section \<open>Requests\<close>

text \<open>
  Requests and responses of a Toad's control socket (\<^verbatim>\<open>toadctl/protocol.go\<close>), shared by the core,
  which sends them, and the Toad runtime, which answers them.
\<close>

record start_request =
  sr_Generation :: u64
  sr_Underlay :: underlay_binding

record toad_request =
  rq_Version :: int
  rq_ID :: string
  rq_Method :: string
  rq_Generation :: u64
  rq_Start :: "start_request option"
  rq_Binding :: "underlay_binding option"

record api_error =
  ae_Code :: string
  ae_Message :: string
  ae_Retryable :: bool

record toad_response =
  rsp_Version :: int
  rsp_ID :: string
  rsp_OK :: bool
  rsp_Error :: "api_error option"
  rsp_Capabilities :: "capabilities option"
  rsp_Snapshot :: "toad_snapshot option"
  rsp_Validation :: "validation_result option"

definition ProtocolVersion :: int where
  "ProtocolVersion = 1"

definition binding_zero :: underlay_binding where
  "binding_zero = \<lparr>ub_IPv4 = None, ub_IPv6 = None\<rparr>"

definition BindingValue :: "toad_request \<Rightarrow> underlay_binding" where
  "BindingValue r = (case rq_Binding r of None \<Rightarrow> binding_zero | Some b \<Rightarrow> b)"

definition response_zero :: toad_response where
  "response_zero = \<lparr>rsp_Version = 0, rsp_ID = [], rsp_OK = False, rsp_Error = None, rsp_Capabilities = None,
     rsp_Snapshot = None, rsp_Validation = None\<rparr>"

definition api_goerror :: "api_error \<Rightarrow> goerror" where
  "api_goerror e = Errorf (ae_Message e)"

end
