(* ===== verification/Routing_Core.thy ===== *)
theory Routing_Core
  imports Netip
begin

text \<open>
  The neutral routing vocabulary (\<^verbatim>\<open>toad/internal/routing\<close>): operations, transactions and
  kernel states, the executor contract with its in-memory and serialized
  implementations, and the legacy ownership registry.
\<close>

section \<open>Operations and kernel state\<close>

definition IsHostPrefix :: "netprefix \<Rightarrow> bool" where
  "IsHostPrefix p = (prefix_IsValid p \<and> addr_IsValid (prefix_Addr p) \<and>
                     prefix_Bits p = int (addr_BitLen (prefix_Addr p)))"

record operation =
  op_Kind :: string
  op_Family :: int
  op_Prefix :: string
  op_Table :: int
  op_Priority :: int
  op_IfIndex :: int
  op_Metric :: u32
  op_Gateway :: string
  op_Source :: string
  op_Protocol :: int
  op_InterfaceLuid :: u64

definition operation_zero :: operation where
  "operation_zero = \<lparr>op_Kind = [], op_Family = 0, op_Prefix = [], op_Table = 0, op_Priority = 0,
     op_IfIndex = 0, op_Metric = 0, op_Gateway = [], op_Source = [], op_Protocol = 0,
     op_InterfaceLuid = 0\<rparr>"

record transaction =
  tr_ID :: u64
  tr_Role :: string
  tr_Operations :: "operation list"

record kernel_state =
  ks_Routes :: "operation list"
  ks_Rules :: "operation list"

section \<open>Executors\<close>

text \<open>
  \<^verbatim>\<open>routing.Executor\<close> over a state \<open>'s\<close> of the executor: \<^verbatim>\<open>Apply\<close> returns an optional
  error and the new state, \<^verbatim>\<open>Snapshot\<close> an error or the observed kernel state.
\<close>

record 's executor =
  ex_Apply :: "transaction \<Rightarrow> 's \<Rightarrow> goerror option \<times> 's"
  ex_Snapshot :: "'s \<Rightarrow> goerror + kernel_state"

subsection \<open>The in-memory executor\<close>

record fake_executor =
  fk_Transactions :: "transaction list"
  fk_State :: kernel_state

definition removeOperation_matches :: "operation \<Rightarrow> operation \<Rightarrow> bool" where
  "removeOperation_matches item target =
     ((op_Kind item = op_Kind target \<or>
       (op_Kind target = ''delete-park'' \<and> op_Kind item = ''park'') \<or>
       (op_Kind target = ''delete-route'' \<and> op_Kind item = ''route'')) \<and>
      (if op_Kind target = ''rule'' \<or> op_Kind target = ''delete-rule''
       then op_Prefix item = op_Prefix target \<and> op_Table item = op_Table target \<and>
            op_Priority item = op_Priority target
       else op_Prefix item = op_Prefix target \<and> op_Table item = op_Table target \<and>
            op_IfIndex item = op_IfIndex target))"

definition removeOperation :: "operation list \<Rightarrow> operation \<Rightarrow> operation list" where
  "removeOperation items target = filter (\<lambda>item. \<not> removeOperation_matches item target) items"

definition fake_apply_op :: "kernel_state \<Rightarrow> operation \<Rightarrow> kernel_state" where
  "fake_apply_op k op =
     (if op_Kind op \<in> {''route'', ''unreachable'', ''park''}
        then k\<lparr>ks_Routes := removeOperation (ks_Routes k) op @ [op]\<rparr>
      else if op_Kind op \<in> {''delete-route'', ''delete-park''}
        then k\<lparr>ks_Routes := removeOperation (ks_Routes k) op\<rparr>
      else if op_Kind op = ''rule''
        then k\<lparr>ks_Rules := removeOperation (ks_Rules k) op @ [op]\<rparr>
      else if op_Kind op = ''delete-rule''
        then k\<lparr>ks_Rules := removeOperation (ks_Rules k) op\<rparr>
      else k)"

definition fake_Apply :: "transaction \<Rightarrow> fake_executor \<Rightarrow> goerror option \<times> fake_executor" where
  "fake_Apply t f =
     (None, f\<lparr>fk_Transactions := fk_Transactions f @ [t],
              fk_State := foldl fake_apply_op (fk_State f) (tr_Operations t)\<rparr>)"

definition fake_Snapshot :: "fake_executor \<Rightarrow> goerror + kernel_state" where
  "fake_Snapshot f = Inr (fk_State f)"

definition Fake :: "fake_executor executor" where
  "Fake = \<lparr>ex_Apply = fake_Apply, ex_Snapshot = fake_Snapshot\<rparr>"

subsection \<open>The serialized executor\<close>

text \<open>\<^verbatim>\<open>Serialized\<close> forwards to an inner executor under a mutex; without one it does nothing.\<close>

definition Serialized :: "'s executor option \<Rightarrow> 's executor" where
  "Serialized inner =
     (case inner of
        None \<Rightarrow> \<lparr>ex_Apply = (\<lambda>t s. (None, s)),
                 ex_Snapshot = (\<lambda>s. Inr \<lparr>ks_Routes = [], ks_Rules = []\<rparr>)\<rparr>
      | Some ex \<Rightarrow> \<lparr>ex_Apply = ex_Apply ex, ex_Snapshot = ex_Snapshot ex\<rparr>)"

subsection \<open>The contract of an executor\<close>

text \<open>
  What the parking code relies on. A transaction of park operations that is applied
  without an error is visible: every operation has a park (or unreachable) row with its
  prefix, and a metric of the transaction, in the next snapshot. A transaction of park deletions keeps every row
  that forwards traffic. The interface fixes the executor's operations.
\<close>

definition is_park_row :: "operation \<Rightarrow> bool" where
  "is_park_row r = (op_Kind r = ''park'' \<or> op_Kind r = ''unreachable'')"

locale parking_executor =
  fixes ex :: "'s executor"
  assumes parks_visible:
    "ex_Apply ex t s = (None, s') \<Longrightarrow> \<forall>op \<in> set (tr_Operations t). op_Kind op = ''park'' \<Longrightarrow>
     ex_Snapshot ex s' = Inr k \<Longrightarrow> op \<in> set (tr_Operations t) \<Longrightarrow>
     \<exists>r \<in> set (ks_Routes k). is_park_row r \<and> op_Prefix r = op_Prefix op \<and>
       op_Metric r \<in> op_Metric ` set (tr_Operations t)"
    and routes_kept:
    "ex_Apply ex t s = (None, s') \<Longrightarrow> \<forall>op \<in> set (tr_Operations t). op_Kind op = ''delete-park'' \<Longrightarrow>
     ex_Snapshot ex s = Inr k \<Longrightarrow> ex_Snapshot ex s' = Inr k' \<Longrightarrow>
     r \<in> set (ks_Routes k) \<Longrightarrow> op_Kind r = ''route'' \<Longrightarrow> r \<in> set (ks_Routes k')"

section \<open>The legacy ownership registry\<close>

record selected_route_owner =
  ow_Role :: string
  ow_Interface :: string
  ow_IfIndex :: int
  ow_Prefix :: netprefix

type_synonym memory_ownership = "(string, selected_route_owner list) gomap"

definition ownership_Snapshot :: "memory_ownership \<Rightarrow> string \<Rightarrow> selected_route_owner list" where
  "ownership_Snapshot m role = (case map_of m role of None \<Rightarrow> [] | Some rs \<Rightarrow> rs)"

definition ownership_Replace ::
  "memory_ownership \<Rightarrow> string \<Rightarrow> selected_route_owner list \<Rightarrow> memory_ownership" where
  "ownership_Replace m role routes =
     (if role = [] then m
      else if routes = [] then gomap_del role m
      else gomap_put role routes m)"

definition ownership_Remove :: "memory_ownership \<Rightarrow> string \<Rightarrow> memory_ownership" where
  "ownership_Remove m role = gomap_del role m"

text \<open>The contract of \<^verbatim>\<open>OwnershipRegistry\<close> as its clients read it.\<close>

locale ownership_registry =
  fixes snap :: "'m \<Rightarrow> string \<Rightarrow> selected_route_owner list"
    and replace :: "'m \<Rightarrow> string \<Rightarrow> selected_route_owner list \<Rightarrow> 'm"
    and remove :: "'m \<Rightarrow> string \<Rightarrow> 'm"
  assumes snap_replace: "role \<noteq> [] \<Longrightarrow>
      snap (replace m role rs) role' = (if role' = role then rs else snap m role')"
    and snap_remove: "snap (remove m role) role' = (if role' = role then [] else snap m role')"
begin

lemma replace_replace:
  "role \<noteq> [] \<Longrightarrow> snap (replace (replace m role rs) role rs') = snap (replace m role rs')"
  by (rule ext) (simp add: snap_replace)

lemma remove_after_replace:
  "role \<noteq> [] \<Longrightarrow> snap (remove (replace m role rs) role) = snap (remove m role)"
  by (rule ext) (simp add: snap_replace snap_remove)

end

interpretation mem_own: ownership_registry ownership_Snapshot ownership_Replace ownership_Remove
  by unfold_locales
     (auto simp: ownership_Snapshot_def ownership_Replace_def ownership_Remove_def)

section \<open>The in-memory executor meets the contract\<close>

lemma removeOperation_subset: "set (removeOperation items op) \<subseteq> set items"
  by (auto simp: removeOperation_def)

lemma fake_parks_fold:
  assumes "\<forall>op \<in> set ops. op_Kind op = ''park''"
    and "op \<in> set ops \<or> op \<in> set (ks_Routes k) \<and> op_Kind op = ''park''"
  shows "\<exists>r \<in> set (ks_Routes (foldl fake_apply_op k ops)).
           op_Kind r = ''park'' \<and> op_Prefix r = op_Prefix op \<and> op_Table r = op_Table op \<and>
           op_IfIndex r = op_IfIndex op \<and>
           (r = op \<or> r \<in> set ops)"
  using assms
proof (induction ops arbitrary: k op)
  case Nil
  then show ?case by auto
next
  case (Cons a ops)
  let ?k = "fake_apply_op k a"
  have a: "op_Kind a = ''park''" and ops: "\<forall>op \<in> set ops. op_Kind op = ''park''"
    using Cons.prems(1) by auto
  have k': "ks_Routes ?k = removeOperation (ks_Routes k) a @ [a]"
    by (simp add: fake_apply_op_def a)
  have split: "foldl fake_apply_op k (a # ops) = foldl fake_apply_op ?k ops" by simp
  show ?case
  proof (cases "op \<in> set ops \<or> op \<in> set (ks_Routes ?k) \<and> op_Kind op = ''park''")
    case True
    from Cons.IH [OF ops True] show ?thesis by auto
  next
    case False
    with Cons.prems(2) k' a have gone: "op \<in> set (ks_Routes k)" "op_Kind op = ''park''" "removeOperation_matches op a"
      by (auto simp: removeOperation_def)
    have "a \<in> set (ks_Routes ?k) \<and> op_Kind a = ''park''" using k' a by simp
    then obtain r where r: "r \<in> set (ks_Routes (foldl fake_apply_op ?k ops))"
        "op_Kind r = ''park''" "op_Prefix r = op_Prefix a" "op_Table r = op_Table a"
        "op_IfIndex r = op_IfIndex a" "r = a \<or> r \<in> set ops"
      using Cons.IH [OF ops, of a ?k] by blast
    from gone a have "op_Prefix op = op_Prefix a" "op_Table op = op_Table a" "op_IfIndex op = op_IfIndex a"
      by (auto simp: removeOperation_matches_def)
    with r show ?thesis by (metis split list.set_intros(1) list.set_intros(2))
  qed
qed

lemma fake_deletes_keep:
  assumes "\<forall>op \<in> set ops. op_Kind op = ''delete-park''"
    and "r \<in> set (ks_Routes k)" and "op_Kind r = ''route''"
  shows "r \<in> set (ks_Routes (foldl fake_apply_op k ops))"
  using assms
proof (induction ops arbitrary: k)
  case Nil
  then show ?case by simp
next
  case (Cons a ops)
  then have "r \<in> set (ks_Routes (fake_apply_op k a))"
    by (auto simp: fake_apply_op_def removeOperation_def removeOperation_matches_def)
  with Cons show ?case by simp
qed

interpretation fake_parks: parking_executor Fake
proof unfold_locales
  fix t :: transaction and s s' :: fake_executor and k op
  assume run: "ex_Apply Fake t s = (None, s')" and snap: "ex_Snapshot Fake s' = Inr k"
    and parks: "\<forall>op \<in> set (tr_Operations t). op_Kind op = ''park''" and op: "op \<in> set (tr_Operations t)"
  have k: "k = foldl fake_apply_op (fk_State s) (tr_Operations t)"
    using run snap by (auto simp: Fake_def fake_Apply_def fake_Snapshot_def)
  from fake_parks_fold [OF parks, of op "fk_State s"] op
  obtain r where r: "r \<in> set (ks_Routes k)" "op_Kind r = ''park''" "op_Prefix r = op_Prefix op"
      "r = op \<or> r \<in> set (tr_Operations t)"
    unfolding k by auto
  with op have "op_Metric r \<in> op_Metric ` set (tr_Operations t)" by auto
  with r show "\<exists>r \<in> set (ks_Routes k). is_park_row r \<and> op_Prefix r = op_Prefix op \<and>
       op_Metric r \<in> op_Metric ` set (tr_Operations t)"
    by (auto simp: is_park_row_def)
next
  fix t :: transaction and s s' :: fake_executor and k k' r
  assume "ex_Apply Fake t s = (None, s')" "\<forall>op \<in> set (tr_Operations t). op_Kind op = ''delete-park''"
    "ex_Snapshot Fake s = Inr k" "ex_Snapshot Fake s' = Inr k'" "r \<in> set (ks_Routes k)"
    "op_Kind r = ''route''"
  then show "r \<in> set (ks_Routes k')"
    using fake_deletes_keep [of "tr_Operations t" r k]
    by (auto simp: Fake_def fake_Apply_def fake_Snapshot_def)
qed

lemma Serialized_forwards: "Serialized (Some ex) = (ex :: 's executor)"
  by (simp add: Serialized_def)

end
