(* ===== verification/Parking.thy ===== *)
theory Parking
  imports Routing_Core
begin

text \<open>
  The parking manager (\<^verbatim>\<open>toad/internal/parking\<close>): before a role's routes are withdrawn
  every owned host prefix is covered by an unreachable route of metric 42760, and a park is
  released only when a read-back shows a real route that wins over it. The manager runs over
  any executor; what it promises is proved for every executor that meets the contract of the
  locale \<^verbatim>\<open>parking_executor\<close>.
\<close>

section \<open>State\<close>

record parking_state =
  pk_Active :: bool
  pk_Count :: int
  pk_Prefixes :: "netprefix list"

definition parking_zero :: parking_state where
  "parking_zero = \<lparr>pk_Active = False, pk_Count = 0, pk_Prefixes = []\<rparr>"

record owned_route =
  or_Role :: string
  or_Interface :: string
  or_IfIndex :: int
  or_Prefix :: netprefix

record parking_checkpoint =
  cp_BootID :: string
  cp_CoreInstanceID :: string
  cp_Role :: string
  cp_Interface :: string
  cp_IfIndex :: int
  cp_Baseline :: "owned_route list"
  cp_Observed :: "owned_route list"
  cp_Parked :: "owned_route list"

text \<open>\<^verbatim>\<open>Manager\<close>: the executor (\<^term>\<open>None\<close> for nil) is passed to the operations, its state
  is the field \<open>pm_Kernel\<close>.\<close>

record 'e parking_manager =
  pm_States :: "(string, parking_state) gomap"
  pm_Kernel :: 'e

definition parking_NewManager :: "'e \<Rightarrow> 'e parking_manager" where
  "parking_NewManager e = \<lparr>pm_States = [], pm_Kernel = e\<rparr>"

definition IsCandidate :: "owned_route \<Rightarrow> (netprefix, bool) gomap \<Rightarrow> bool" where
  "IsCandidate route baseline =
     (IsHostPrefix (or_Prefix route) \<and> map_of baseline (or_Prefix route) \<noteq> Some True)"

definition staticProtocol :: int where
  "staticProtocol = 4"

definition park_operation :: "string \<Rightarrow> netprefix \<Rightarrow> operation" where
  "park_operation kind prefix =
     operation_zero\<lparr>op_Kind := kind, op_Prefix := prefix_String prefix, op_Table := 254,
       op_Metric := 42760, op_Protocol := staticProtocol\<rparr>"

section \<open>Operations\<close>

text \<open>\<^verbatim>\<open>Snapshot\<close>: a missing role reads as the zero state.\<close>

definition parking_Snapshot :: "'e parking_manager \<Rightarrow> string \<Rightarrow> parking_state" where
  "parking_Snapshot m role =
     (case map_of (pm_States m) role of None \<Rightarrow> parking_zero | Some s \<Rightarrow> s)"

definition checkpoint_verified :: "kernel_state \<Rightarrow> owned_route \<Rightarrow> bool" where
  "checkpoint_verified kst parked =
     list_ex (\<lambda>route. (op_Kind route = ''park'' \<or> op_Kind route = ''unreachable'') \<and>
                      op_Prefix route = prefix_String (or_Prefix parked) \<and> 42760 \<le> op_Metric route)
       (ks_Routes kst)"

definition RestoreCheckpoint ::
  "'e executor option \<Rightarrow> parking_checkpoint \<Rightarrow> 'e parking_manager \<Rightarrow> goerror option \<times> 'e parking_manager" where
  "RestoreCheckpoint routes checkpoint m =
     (case routes of
        None \<Rightarrow> (Some (Errorf ''parking route executor is nil''), m)
      | Some ex \<Rightarrow>
          (case ex_Snapshot ex (pm_Kernel m) of
             Inl e \<Rightarrow> (Some e, m)
           | Inr kst \<Rightarrow>
               (let verified = map or_Prefix (filter (checkpoint_verified kst) (cp_Parked checkpoint))
                in (None, m\<lparr>pm_States :=
                      (if verified = [] then gomap_del (cp_Role checkpoint) (pm_States m)
                       else gomap_put (cp_Role checkpoint)
                              \<lparr>pk_Active = True, pk_Count = int (length verified), pk_Prefixes = verified\<rparr>
                              (pm_States m))\<rparr>))))"

definition PrepareWithdrawal ::
  "'e executor option \<Rightarrow> string \<Rightarrow> netprefix list \<Rightarrow> 'e parking_manager \<Rightarrow> goerror option \<times> 'e parking_manager" where
  "PrepareWithdrawal routes role prefixes m =
     (if role = [] then (None, m)
      else
        let valid = filter IsHostPrefix prefixes;
            ops = map (park_operation ''park'') valid
        in if ops = [] then (None, m\<lparr>pm_States := gomap_put role parking_zero (pm_States m)\<rparr>)
           else case routes of
                  None \<Rightarrow> (Some (Sentinel ErrContextCanceled), m)
                | Some ex \<Rightarrow>
                    (case ex_Apply ex \<lparr>tr_ID = 0, tr_Role = role, tr_Operations = ops\<rparr> (pm_Kernel m) of
                       (Some e, k) \<Rightarrow> (Some e, m\<lparr>pm_Kernel := k\<rparr>)
                     | (None, k) \<Rightarrow>
                         (None, m\<lparr>pm_Kernel := k,
                                  pm_States := gomap_put role
                                    \<lparr>pk_Active = True, pk_Count = int (length valid), pk_Prefixes = valid\<rparr>
                                    (pm_States m)\<rparr>)))"

definition owner_verified :: "kernel_state \<Rightarrow> selected_route_owner \<Rightarrow> bool" where
  "owner_verified kst owner =
     list_ex (\<lambda>route. op_Kind route = ''route'' \<and> op_Table route \<noteq> 51890 \<and>
                      op_IfIndex route = ow_IfIndex owner \<and> op_Protocol route = staticProtocol \<and>
                      op_Prefix route = prefix_String (ow_Prefix owner))
       (ks_Routes kst)"

text \<open>The loop over the owners; the second argument is the \<^verbatim>\<open>seen\<close> set.\<close>

fun verified_prefixes ::
  "string \<Rightarrow> kernel_state \<Rightarrow> netprefix list \<Rightarrow> selected_route_owner list \<Rightarrow> netprefix list" where
  "verified_prefixes role kst seen [] = []"
| "verified_prefixes role kst seen (owner # owned) =
     (if ow_Role owner \<noteq> role \<or> ow_IfIndex owner \<le> 0 \<or> \<not> IsHostPrefix (ow_Prefix owner) \<or>
         ow_Prefix owner \<in> set seen
      then verified_prefixes role kst seen owned
      else if owner_verified kst owner
      then ow_Prefix owner # verified_prefixes role kst (ow_Prefix owner # seen) owned
      else verified_prefixes role kst seen owned)"

definition PrepareOwnedWithdrawal ::
  "'e executor option \<Rightarrow> string \<Rightarrow> selected_route_owner list \<Rightarrow> 'e parking_manager \<Rightarrow>
     goerror option \<times> 'e parking_manager" where
  "PrepareOwnedWithdrawal routes role owned m =
     (case routes of
        None \<Rightarrow> (Some (Errorf ''parking route executor is nil''), m)
      | Some ex \<Rightarrow>
          (case ex_Snapshot ex (pm_Kernel m) of
             Inl e \<Rightarrow> (Some e, m)
           | Inr kst \<Rightarrow> PrepareWithdrawal routes role (verified_prefixes role kst [] owned) m))"

text \<open>The deletion's error is dropped, as in the source.\<close>

definition parking_ObserveRestoration ::
  "'e executor option \<Rightarrow> string \<Rightarrow> netprefix \<Rightarrow> 'e parking_manager \<Rightarrow> bool \<times> 'e parking_manager" where
  "parking_ObserveRestoration routes role prefix m =
     (let s = parking_Snapshot m role;
          remaining = filter (\<lambda>p. p \<noteq> prefix) (pk_Prefixes s)
      in if prefix \<notin> set (pk_Prefixes s) then (False, m)
         else
           let m' = m\<lparr>pm_States := gomap_put role
                        (s\<lparr>pk_Prefixes := remaining, pk_Count := int (length remaining),
                           pk_Active := (int (length remaining) \<noteq> 0)\<rparr>) (pm_States m)\<rparr>
           in case routes of
                None \<Rightarrow> (True, m')
              | Some ex \<Rightarrow>
                  (True, m'\<lparr>pm_Kernel := snd (ex_Apply ex \<lparr>tr_ID = 0, tr_Role = role,
                     tr_Operations = [park_operation ''delete-park'' prefix]\<rparr> (pm_Kernel m))\<rparr>))"

definition winning_route :: "kernel_state \<Rightarrow> netprefix \<Rightarrow> bool" where
  "winning_route kst prefix =
     list_ex (\<lambda>route. op_Kind route = ''route'' \<and> op_Table route \<noteq> 51890 \<and>
                      op_Prefix route = prefix_String prefix \<and> op_Metric route < 42760)
       (ks_Routes kst)"

fun release_loop ::
  "'e executor option \<Rightarrow> string \<Rightarrow> kernel_state \<Rightarrow> netprefix list \<Rightarrow> int \<Rightarrow> 'e parking_manager \<Rightarrow>
     int \<times> 'e parking_manager" where
  "release_loop routes role kst [] released m = (released, m)"
| "release_loop routes role kst (prefix # prefixes) released m =
     (if winning_route kst prefix
      then (case parking_ObserveRestoration routes role prefix m of
              (found, m') \<Rightarrow> release_loop routes role kst prefixes
                               (if found then released + 1 else released) m')
      else release_loop routes role kst prefixes released m)"

definition ObserveRestorationFromKernel ::
  "'e executor option \<Rightarrow> string \<Rightarrow> 'e parking_manager \<Rightarrow> (goerror + int) \<times> 'e parking_manager" where
  "ObserveRestorationFromKernel routes role m =
     (case routes of
        None \<Rightarrow> (Inl (Errorf ''parking route executor is nil''), m)
      | Some ex \<Rightarrow>
          (case ex_Snapshot ex (pm_Kernel m) of
             Inl e \<Rightarrow> (Inl e, m)
           | Inr kst \<Rightarrow>
               (case release_loop routes role kst (pk_Prefixes (parking_Snapshot m role)) 0 m of
                  (released, m') \<Rightarrow> (Inr released, m'))))"

definition parking_Clear ::
  "'e executor option \<Rightarrow> string \<Rightarrow> 'e parking_manager \<Rightarrow> goerror option \<times> 'e parking_manager" where
  "parking_Clear routes role m =
     (let s = parking_Snapshot m role;
          m' = m\<lparr>pm_States := gomap_del role (pm_States m)\<rparr>
      in case routes of
           None \<Rightarrow> (None, m')
         | Some ex \<Rightarrow>
             if \<not> pk_Active s then (None, m')
             else case ex_Apply ex \<lparr>tr_ID = 0, tr_Role = role,
                         tr_Operations = map (park_operation ''delete-park'') (pk_Prefixes s)\<rparr> (pm_Kernel m) of
                    (r, k) \<Rightarrow> (r, m'\<lparr>pm_Kernel := k\<rparr>))"

section \<open>The manager's invariant\<close>

text \<open>The summary fields agree with the prefix list of every role.\<close>

definition parking_state_ok :: "parking_state \<Rightarrow> bool" where
  "parking_state_ok s \<longleftrightarrow>
     pk_Count s = int (length (pk_Prefixes s)) \<and> (pk_Active s \<longleftrightarrow> pk_Prefixes s \<noteq> [])"

definition parking_ok :: "'e parking_manager \<Rightarrow> bool" where
  "parking_ok m \<longleftrightarrow> (\<forall>role s. map_of (pm_States m) role = Some s \<longrightarrow> parking_state_ok s)"

lemma parking_zero_ok [simp]: "parking_state_ok parking_zero"
  by (simp add: parking_state_ok_def parking_zero_def)

lemma parking_ok_Snapshot: "parking_ok m \<Longrightarrow> parking_state_ok (parking_Snapshot m role)"
  by (auto simp: parking_ok_def parking_Snapshot_def split: option.splits)

lemma parking_ok_put:
  "parking_ok m \<Longrightarrow> parking_state_ok s \<Longrightarrow> parking_ok (m\<lparr>pm_States := gomap_put role s (pm_States m)\<rparr>)"
  by (auto simp: parking_ok_def)

lemma parking_ok_del: "parking_ok m \<Longrightarrow> parking_ok (m\<lparr>pm_States := gomap_del role (pm_States m)\<rparr>)"
  by (auto simp: parking_ok_def)

lemma parking_ok_kernel [simp]: "parking_ok (m\<lparr>pm_Kernel := k\<rparr>) = parking_ok m"
  by (simp add: parking_ok_def)

lemma parking_NewManager_ok: "parking_ok (parking_NewManager e)"
  by (simp add: parking_ok_def parking_NewManager_def)

lemma RestoreCheckpoint_ok:
  "parking_ok m \<Longrightarrow> parking_ok (snd (RestoreCheckpoint routes c m))"
  by (auto simp: RestoreCheckpoint_def Let_def parking_state_ok_def
           intro!: parking_ok_put parking_ok_del split: option.splits sum.splits)

lemma PrepareWithdrawal_ok:
  "parking_ok m \<Longrightarrow> parking_ok (snd (PrepareWithdrawal routes role ps m))"
  using parking_ok_put [of m "\<lparr>pk_Active = True, pk_Count = int (length (filter IsHostPrefix ps)),
                              pk_Prefixes = filter IsHostPrefix ps\<rparr>" role]
  by (auto simp: PrepareWithdrawal_def Let_def parking_state_ok_def parking_ok_def parking_zero_def
           split: option.splits prod.splits)

lemma PrepareOwnedWithdrawal_ok:
  "parking_ok m \<Longrightarrow> parking_ok (snd (PrepareOwnedWithdrawal routes role owned m))"
  by (auto simp: PrepareOwnedWithdrawal_def intro!: PrepareWithdrawal_ok split: option.splits sum.splits)

lemma parking_ObserveRestoration_ok:
  "parking_ok m \<Longrightarrow> parking_ok (snd (parking_ObserveRestoration routes role p m))"
  by (auto simp: parking_ObserveRestoration_def Let_def parking_state_ok_def
           intro!: parking_ok_put split: option.splits)

lemma release_loop_ok:
  "parking_ok m \<Longrightarrow> parking_ok (snd (release_loop routes role kst ps n m))"
proof (induction ps arbitrary: n m)
  case (Cons p ps)
  then show ?case
    using parking_ObserveRestoration_ok [of m routes role p] by (auto split: prod.splits)
qed simp

lemma ObserveRestorationFromKernel_ok:
  "parking_ok m \<Longrightarrow> parking_ok (snd (ObserveRestorationFromKernel routes role m))"
  using release_loop_ok [of m routes role]
  by (auto simp: ObserveRestorationFromKernel_def split: option.splits sum.splits prod.splits)
     (metis snd_conv)

lemma parking_Clear_ok: "parking_ok m \<Longrightarrow> parking_ok (snd (parking_Clear routes role m))"
  by (auto simp: parking_Clear_def Let_def intro!: parking_ok_del split: option.splits prod.splits)

section \<open>What the manager promises\<close>

lemma parking_Snapshot_put [simp]:
  "parking_Snapshot (m\<lparr>pm_States := gomap_put role s (pm_States m)\<rparr>) role' =
     (if role' = role then s else parking_Snapshot m role')"
  by (simp add: parking_Snapshot_def)

lemma parking_Snapshot_kernel [simp]:
  "parking_Snapshot (m\<lparr>pm_Kernel := k\<rparr>) role = parking_Snapshot m role"
  by (simp add: parking_Snapshot_def)

lemma ObserveRestoration_prefixes:
  assumes "parking_ObserveRestoration routes role p m = (found, m')"
  shows "found \<longleftrightarrow> p \<in> set (pk_Prefixes (parking_Snapshot m role))"
    and "pk_Prefixes (parking_Snapshot m' role) = filter (\<lambda>q. q \<noteq> p) (pk_Prefixes (parking_Snapshot m role))"
    and "role' \<noteq> role \<Longrightarrow> parking_Snapshot m' role' = parking_Snapshot m role'"
proof -
  have keep: "filter (\<lambda>q. q \<noteq> p) xs = xs" if "p \<notin> set xs" for xs :: "netprefix list"
    using that by (auto simp: filter_id_conv)
  show "found \<longleftrightarrow> p \<in> set (pk_Prefixes (parking_Snapshot m role))"
    and "pk_Prefixes (parking_Snapshot m' role) = filter (\<lambda>q. q \<noteq> p) (pk_Prefixes (parking_Snapshot m role))"
    and "role' \<noteq> role \<Longrightarrow> parking_Snapshot m' role' = parking_Snapshot m role'"
    using assms
    by (auto simp: parking_ObserveRestoration_def Let_def keep split: if_splits option.splits)
qed

lemma release_loop_prefixes:
  assumes "release_loop routes role kst ps n m = (r, m')"
  shows "pk_Prefixes (parking_Snapshot m' role) =
           filter (\<lambda>q. \<not> (q \<in> set ps \<and> winning_route kst q)) (pk_Prefixes (parking_Snapshot m role)) \<and>
         r = n + int (card {q \<in> set ps. winning_route kst q \<and> q \<in> set (pk_Prefixes (parking_Snapshot m role))}) \<and>
         (\<forall>role'. role' \<noteq> role \<longrightarrow> parking_Snapshot m' role' = parking_Snapshot m role')"
  using assms
proof (induction ps arbitrary: n m)
  case Nil
  then show ?case by simp
next
  case (Cons p ps)
  let ?S = "\<lambda>m. set (pk_Prefixes (parking_Snapshot m role))"
  show ?case
  proof (cases "winning_route kst p")
    case True
    obtain found m1 where o: "parking_ObserveRestoration routes role p m = (found, m1)" by force
    note obs = ObserveRestoration_prefixes [OF o]
    from Cons.prems True o
    have run: "release_loop routes role kst ps (if found then n + 1 else n) m1 = (r, m')" by simp
    note ih = Cons.IH [OF run]
    have "?S m1 = ?S m - {p}" by (auto simp: obs(2))
    then have sets: "{q \<in> set (p # ps). winning_route kst q \<and> q \<in> ?S m} =
        (if found then {p} else {}) \<union> {q \<in> set ps. winning_route kst q \<and> q \<in> ?S m1}"
      using True by (auto simp: obs(1))
    have "p \<notin> {q \<in> set ps. winning_route kst q \<and> q \<in> ?S m1}"
      using \<open>?S m1 = ?S m - {p}\<close> by simp
    then have "int (card {q \<in> set (p # ps). winning_route kst q \<and> q \<in> ?S m}) =
        (if found then 1 else 0) + int (card {q \<in> set ps. winning_route kst q \<and> q \<in> ?S m1})"
      unfolding sets by simp
    moreover have "filter (\<lambda>q. \<not> (q \<in> set ps \<and> winning_route kst q)) (pk_Prefixes (parking_Snapshot m1 role)) =
        filter (\<lambda>q. \<not> (q \<in> set (p # ps) \<and> winning_route kst q)) (pk_Prefixes (parking_Snapshot m role))"
      unfolding obs(2) filter_filter by (rule filter_cong) (use True in auto)
    ultimately show ?thesis using ih obs(3) by auto
  next
    case False
    with Cons.prems have run: "release_loop routes role kst ps n m = (r, m')" by simp
    have "{q \<in> set (p # ps). winning_route kst q \<and> q \<in> ?S m} = {q \<in> set ps. winning_route kst q \<and> q \<in> ?S m}"
      and "filter (\<lambda>q. \<not> (q \<in> set ps \<and> winning_route kst q)) (pk_Prefixes (parking_Snapshot m role)) =
        filter (\<lambda>q. \<not> (q \<in> set (p # ps) \<and> winning_route kst q)) (pk_Prefixes (parking_Snapshot m role))"
      using False by (auto intro!: filter_cong)
    with Cons.IH [OF run] show ?thesis by simp
  qed
qed

lemma verified_prefixes_sound:
  "p \<in> set (verified_prefixes role kst seen owned) \<Longrightarrow>
     p \<notin> set seen \<and> IsHostPrefix p \<and>
     (\<exists>owner \<in> set owned. ow_Prefix owner = p \<and> ow_Role owner = role \<and> 0 < ow_IfIndex owner \<and>
        owner_verified kst owner)"
proof (induction owned arbitrary: seen)
  case (Cons a owned)
  show ?case
  proof (cases "p \<in> set (verified_prefixes role kst seen owned)")
    case True
    with Cons.IH [of seen] show ?thesis by auto
  next
    case False
    with Cons.prems Cons.IH [of "ow_Prefix a # seen"] show ?thesis
      by (auto split: if_splits)
  qed
qed simp

lemma verified_prefixes_complete:
  assumes "owner \<in> set owned" "ow_Role owner = role" "0 < ow_IfIndex owner" "IsHostPrefix (ow_Prefix owner)"
    "owner_verified kst owner" "ow_Prefix owner \<notin> set seen"
  shows "ow_Prefix owner \<in> set (verified_prefixes role kst seen owned)"
  using assms
proof (induction owned arbitrary: seen)
  case (Cons a owned)
  show ?case
  proof (cases "owner = a")
    case False
    then have "owner \<in> set owned" using Cons.prems(1) by simp
    then show ?thesis using Cons.IH Cons.prems by (cases "ow_Prefix owner = ow_Prefix a") simp_all
  qed (use Cons.prems in simp)
qed simp

lemma verified_prefixes_distinct: "distinct (verified_prefixes role kst seen owned)"
  by (induction owned arbitrary: seen) (auto dest: verified_prefixes_sound)

lemma host_parks [simp]:
  "IsHostPrefix p \<Longrightarrow> op_Kind (park_operation k p) = k"
  by (simp add: park_operation_def)

context parking_executor
begin

lemma prepare_verified:
  assumes run: "PrepareWithdrawal (Some ex) role ps m = (None, m')"
    and role: "role \<noteq> []" and p: "p \<in> set ps" "IsHostPrefix p"
    and snap: "ex_Snapshot ex (pm_Kernel m') = Inr k"
    and route: "or_Prefix route = p"
  shows "checkpoint_verified k route"
proof -
  let ?t = "\<lparr>tr_ID = 0, tr_Role = role, tr_Operations = map (park_operation ''park'') (filter IsHostPrefix ps)\<rparr>"
  have ne: "filter IsHostPrefix ps \<noteq> []" using p by (auto simp: filter_empty_conv)
  with run role have app: "ex_Apply ex ?t (pm_Kernel m) = (None, pm_Kernel m')"
    by (auto simp: PrepareWithdrawal_def Let_def split: option.splits prod.splits)
  have "park_operation ''park'' p \<in> set (tr_Operations ?t)" using p by auto
  from parks_visible [OF app _ snap this]
  obtain r where "r \<in> set (ks_Routes k)" "is_park_row r" "op_Prefix r = prefix_String p" "op_Metric r = 42760"
    by (auto simp: park_operation_def)
  then show ?thesis
    by (auto simp: checkpoint_verified_def list_ex_iff is_park_row_def route)
qed

lemma checkpoint_roundtrip:
  assumes run: "PrepareWithdrawal (Some ex) role ps m = (None, m')"
    and role: "role \<noteq> []" and snap: "ex_Snapshot ex (pm_Kernel m') = Inr k"
    and cp: "cp_Role c = role" "map or_Prefix (cp_Parked c) = pk_Prefixes (parking_Snapshot m' role)"
    and fresh: "pm_Kernel fresh = pm_Kernel m'"
  shows "fst (RestoreCheckpoint (Some ex) c fresh) = None \<and>
         parking_Snapshot (snd (RestoreCheckpoint (Some ex) c fresh)) role = parking_Snapshot m' role"
proof -
  let ?valid = "filter IsHostPrefix ps"
  have st: "parking_Snapshot m' role = (if ?valid = [] then parking_zero
        else \<lparr>pk_Active = True, pk_Count = int (length ?valid), pk_Prefixes = ?valid\<rparr>)"
    using run role by (auto simp: PrepareWithdrawal_def Let_def parking_Snapshot_def split: option.splits prod.splits if_splits)
  then have parked: "map or_Prefix (cp_Parked c) = ?valid"
    using cp(2) by (simp add: parking_zero_def split: if_splits)
  have "checkpoint_verified k r" if "r \<in> set (cp_Parked c)" for r
  proof -
    from that have "or_Prefix r \<in> set ?valid" using parked by (metis image_eqI list.set_map)
    with prepare_verified [OF run role _ _ snap refl] show ?thesis by auto
  qed
  then have "filter (checkpoint_verified k) (cp_Parked c) = cp_Parked c"
    by (simp add: filter_id_conv)
  moreover have "length (cp_Parked c) = length ?valid" using parked by (metis length_map)
  ultimately show ?thesis
    using parked
    by (cases "?valid = []")
       (simp_all add: RestoreCheckpoint_def Let_def fresh snap cp(1) st, simp add: parking_Snapshot_def)
qed

end

end
