(* ===== verification/Endpoint.thy ===== *)
theory Endpoint
  imports Netip
begin

text \<open>
  Endpoint candidates (\<^verbatim>\<open>toad/internal/endpoint\<close>): the line-oriented specification
  parser, name resolution and the manager that keeps the last-known-good candidate set when a
  refresh fails. Text is ASCII: \<^verbatim>\<open>TrimSpace\<close> and \<^verbatim>\<open>Fields\<close> leave the spaces
  of Unicode outside it alone, which Go's trim. The DNS resolver, the provider and the contents of files and
  command outputs are parameters.
\<close>

section \<open>Strings of the standard library\<close>

definition is_space :: "char \<Rightarrow> bool" where
  "is_space c = (c \<in> set [CHR '' '', CHR 0x09, CHR 0x0A, CHR 0x0B, CHR 0x0C, CHR 0x0D])"

definition TrimSpace :: "string \<Rightarrow> string" where
  "TrimSpace s = rev (dropWhile is_space (rev (dropWhile is_space s)))"

fun strings_Fields_from :: "string \<Rightarrow> string \<Rightarrow> string list" where
  "strings_Fields_from cur [] = (if cur = [] then [] else [cur])"
| "strings_Fields_from cur (c # cs) =
     (if is_space c then (if cur = [] then [] else [cur]) @ strings_Fields_from [] cs
      else strings_Fields_from (cur @ [c]) cs)"

definition strings_Fields :: "string \<Rightarrow> string list" where
  "strings_Fields s = strings_Fields_from [] s"

definition ContainsAny :: "string \<Rightarrow> string \<Rightarrow> bool" where
  "ContainsAny s chars = list_ex (\<lambda>c. c \<in> set chars) s"

text \<open>The text before the first and after the last occurrence of a byte.\<close>

definition before_first :: "char \<Rightarrow> string \<Rightarrow> string" where
  "before_first d s = takeWhile (\<lambda>c. c \<noteq> d) s"

definition after_last :: "char \<Rightarrow> string \<Rightarrow> string" where
  "after_last d s = rev (takeWhile (\<lambda>c. c \<noteq> d) (rev s))"

definition before_last :: "char \<Rightarrow> string \<Rightarrow> string" where
  "before_last d s = take (length s - length (after_last d s) - 1) s"

text \<open>\<^verbatim>\<open>net.SplitHostPort\<close>\<close>

definition SplitHostPort :: "string \<Rightarrow> (string \<times> string) option" where
  "SplitHostPort s =
     (if CHR '':'' \<notin> set s then None
      else
        let i = length s - length (after_last (CHR '':'') s) - 1;
            port = after_last (CHR '':'') s
        in if hd s = CHR ''['' then
             (if CHR '']'' \<notin> set s then None
              else let e = length (before_first (CHR '']'') s) in
                if e + 1 \<noteq> i then None
                else if CHR ''['' \<in> set (drop 1 s) \<or> CHR '']'' \<in> set (drop (e + 1) s) then None
                else Some (drop 1 (take e s), port))
           else
             let host = take i s in
             if CHR '':'' \<in> set host then None
             else if CHR ''['' \<in> set s \<or> CHR '']'' \<in> set s then None
             else Some (host, port))"

definition digits_value :: "string \<Rightarrow> int option" where
  "digits_value s =
     (if s = [] \<or> \<not> list_all is_digit s then None
      else Some (foldl (\<lambda>a c. a * 10 + (of_char c - 48)) 0 s))"

text \<open>\<^verbatim>\<open>strconv.Atoi\<close>, up to its range error: an optional sign and decimal digits.\<close>

fun Atoi :: "string \<Rightarrow> int option" where
  "Atoi [] = None"
| "Atoi (c # cs) =
     (if c = CHR ''+'' then digits_value cs
      else if c = CHR ''-'' then map_option uminus (digits_value cs)
      else digits_value (c # cs))"

text \<open>\<^verbatim>\<open>bufio.Scanner\<close> with \<^verbatim>\<open>ScanLines\<close>: the raw lines, a final line without a newline
  counted when it is not empty; a line that fills the buffer is an error when it is reached.\<close>

definition raw_lines :: "string \<Rightarrow> string list" where
  "raw_lines s = (let ls = split_on (CHR 0x0A) s in if last ls = [] then butlast ls else ls)"

definition MaxScanTokenSize :: int where
  "MaxScanTokenSize = 65536"

definition drop_cr :: "string \<Rightarrow> string" where
  "drop_cr l = (if l \<noteq> [] \<and> last l = CHR 0x0D then butlast l else l)"

fun scan_lines :: "(string \<Rightarrow> goerror + 'a list) \<Rightarrow> string list \<Rightarrow> goerror + 'a list" where
  "scan_lines f [] = Inr []"
| "scan_lines f (l # ls) =
     (if MaxScanTokenSize \<le> int (length l) then Inl (Errorf ''bufio.Scanner: token too long'')
      else case f (drop_cr l) of
             Inl e \<Rightarrow> Inl e
           | Inr xs \<Rightarrow> (case scan_lines f ls of Inl e \<Rightarrow> Inl e | Inr ys \<Rightarrow> Inr (xs @ ys)))"

text \<open>A loop over tokens that stops at the first error.\<close>

fun collect_tokens :: "('t \<Rightarrow> goerror + 'a) \<Rightarrow> 't list \<Rightarrow> goerror + 'a list" where
  "collect_tokens f [] = Inr []"
| "collect_tokens f (t # ts) =
     (case f t of
        Inl e \<Rightarrow> Inl e
      | Inr a \<Rightarrow> (case collect_tokens f ts of Inl e \<Rightarrow> Inl e | Inr as \<Rightarrow> Inr (a # as)))"

section \<open>Addresses with ports\<close>

type_synonym addrport = "addr \<times> u16"

definition addrport_zero :: addrport where
  "addrport_zero = (AddrZero, 0)"

definition addrport_IsValid :: "addrport \<Rightarrow> bool" where
  "addrport_IsValid ap = addr_IsValid (fst ap)"

fun addrport_String :: "addrport \<Rightarrow> string" where
  "addrport_String (AddrZero, p) = ''invalid AddrPort''"
| "addrport_String (Addr4 w, p) = addr_String (Addr4 w) @ '':'' @ show_dec (uint p)"
| "addrport_String (Addr6 w z, p) = ''['' @ addr_String (Addr6 w z) @ '']:'' @ show_dec (uint p)"

definition ParseAddrPort :: "string \<Rightarrow> goerror + addrport" where
  "ParseAddrPort s =
     (if CHR '':'' \<notin> set s then Inl (Errorf ''not an ip:port'')
      else
        let ip = before_last (CHR '':'') s; port = after_last (CHR '':'') s;
            v6 = (ip \<noteq> [] \<and> hd ip = CHR ''['')
        in if ip = [] then Inl (Errorf ''no IP'')
           else if port = [] then Inl (Errorf ''no port'')
           else if v6 \<and> (length ip < 2 \<or> last ip \<noteq> CHR '']'') then Inl (Errorf ''missing ]'')
           else
             let ip' = (if v6 then butlast (drop 1 ip) else ip) in
             case digits_value port of
               None \<Rightarrow> Inl (Errorf ''invalid port'')
             | Some n \<Rightarrow>
                 if 65535 < n then Inl (Errorf ''invalid port'')
                 else case ParseAddr ip' of
                        None \<Rightarrow> Inl (Errorf ''ParseAddr: unable to parse IP'')
                      | Some a \<Rightarrow>
                          if v6 \<and> addr_Is4 a then Inl (Errorf ''square brackets can only be used with IPv6 addresses'')
                          else if \<not> v6 \<and> addr_Is6 a then Inl (Errorf ''IPv6 addresses must be surrounded by square brackets'')
                          else Inr (a, word_of_int n))"

section \<open>Specifications\<close>

record endpoint_spec =
  es_Network :: string
  es_Hostname :: string
  es_Address :: addrport
  es_Port :: u16

record endpoint_route =
  er_Prefix :: netprefix
  er_Gateway :: addr
  er_IfIndex :: int
  er_Metric :: u32

record endpoint_policy =
  ep_Role :: string
  ep_Zone :: string
  ep_Priority :: int
  ep_Source :: string
  ep_StaticFile :: string
  ep_Command :: string
  ep_Routes :: "endpoint_route list"

definition policy_Valid :: "endpoint_policy \<Rightarrow> bool" where
  "policy_Valid p = (ep_Role p \<noteq> [] \<and> ep_Zone p \<noteq> [] \<and> 0 < ep_Priority p)"

definition parsePort :: "string \<Rightarrow> u16" where
  "parsePort raw =
     (case Atoi raw of
        None \<Rightarrow> 0
      | Some v \<Rightarrow> if v < 1 \<or> 65535 < v then 0 else word_of_int v)"

definition addr_spec :: "string \<Rightarrow> addr \<Rightarrow> u16 \<Rightarrow> endpoint_spec" where
  "addr_spec network a port = \<lparr>es_Network = network, es_Hostname = [], es_Address = (a, port), es_Port = port\<rparr>"

text \<open>The host and port a token names: the second half of \<^verbatim>\<open>ParseSpec\<close>'s splitting.\<close>

definition spec_host_port :: "string \<Rightarrow> u16 \<Rightarrow> goerror + string \<times> u16" where
  "spec_host_port raw defaultPort =
     (case SplitHostPort raw of
        Some (h, p) \<Rightarrow>
          if parsePort p = 0 then Inl (Errorf ''invalid endpoint port in %q'') else Inr (h, parsePort p)
      | None \<Rightarrow>
          if length (filter (\<lambda>c. c = CHR '':'') raw) = 1 then
            (let h = before_first (CHR '':'') raw; p = drop (Suc (length h)) raw
             in if parsePort p = 0 then Inl (Errorf ''invalid endpoint port in %q'') else Inr (h, parsePort p))
          else Inr (raw, defaultPort))"

definition ParseSpec :: "string \<Rightarrow> string \<Rightarrow> u16 \<Rightarrow> goerror + endpoint_spec" where
  "ParseSpec raw network defaultPort =
     (if raw = [] \<or> ContainsAny raw [CHR ''/'', CHR '' '', CHR 0x09, CHR 0x0D, CHR 0x0A]
      then Inl (Errorf ''invalid endpoint %q'')
      else case ParseAddr raw of
             Some a \<Rightarrow> Inr (addr_spec network a defaultPort)
           | None \<Rightarrow>
               (case spec_host_port raw defaultPort of
                  Inl e \<Rightarrow> Inl e
                | Inr (host, port) \<Rightarrow>
                    (case ParseAddr host of
                       Some a \<Rightarrow> Inr (addr_spec network a port)
                     | None \<Rightarrow>
                         if host = [] \<or> ContainsAny host ''[]:?'' \<or> strings_Contains host ''..''
                         then Inl (Errorf ''invalid endpoint host %q'')
                         else Inr \<lparr>es_Network = network, es_Hostname = host,
                                   es_Address = addrport_zero, es_Port = port\<rparr>)))"

text \<open>One line of \<^verbatim>\<open>ParseSpecs\<close>: blanks trimmed, a comment cut off, the remaining tokens.\<close>

definition spec_tokens :: "string \<Rightarrow> string list" where
  "spec_tokens text =
     (let line = TrimSpace text;
          line = (if CHR ''#'' \<in> set line then TrimSpace (before_first (CHR ''#'') line) else line)
      in if line = [] \<or> has_prefix ''#'' line then [] else strings_Fields line)"

definition ParseSpecs :: "string \<Rightarrow> string \<Rightarrow> u16 \<Rightarrow> goerror + endpoint_spec list" where
  "ParseSpecs r network defaultPort =
     (let network = (if network = [] then ''tcp'' else network);
          defaultPort = (if defaultPort = 0 then 443 else defaultPort)
      in scan_lines (\<lambda>text. collect_tokens (\<lambda>token. ParseSpec token network defaultPort) (spec_tokens text))
           (raw_lines r))"

text \<open>Providers, over the outcome of reading the file or running the command.\<close>

definition readBounded :: "(goerror + string) \<Rightarrow> int \<Rightarrow> goerror + string" where
  "readBounded file maxBytes =
     (let limit = (if maxBytes \<le> 0 then 64 * 1024 else maxBytes)
      in case file of
           Inl e \<Rightarrow> Inl e
         | Inr out \<Rightarrow> if limit < int (length out) then Inl (Errorf ''endpoint provider output too large'') else Inr out)"

definition static_ResolveSpecs ::
  "string \<Rightarrow> int \<Rightarrow> (goerror + string) \<Rightarrow> string \<Rightarrow> u16 \<Rightarrow> goerror + endpoint_spec list" where
  "static_ResolveSpecs path maxBytes file network defaultPort =
     (if path = [] then Inl (Errorf ''static endpoint file is empty'')
      else case readBounded file maxBytes of
             Inl e \<Rightarrow> Inl e
           | Inr out \<Rightarrow> ParseSpecs out network defaultPort)"

definition static_Resolve :: "string \<Rightarrow> int \<Rightarrow> (goerror + string) \<Rightarrow> goerror + addrport list" where
  "static_Resolve path maxBytes file =
     (if path = [] then Inl (Errorf ''static endpoint file is empty'')
      else case readBounded file maxBytes of
             Inl e \<Rightarrow> Inl e
           | Inr out \<Rightarrow>
               scan_lines (\<lambda>text. let v = TrimSpace text in
                  if v = [] then Inr [] else map_sum id (\<lambda>a. [a]) (ParseAddrPort v)) (raw_lines out))"

text \<open>\<open>run args\<close> stands for executing the command under its allow-listed environment.\<close>

definition command_output :: "string \<Rightarrow> int \<Rightarrow> (string list \<Rightarrow> goerror + string) \<Rightarrow> goerror + string" where
  "command_output command maxBytes run =
     (if command = [] \<or> strings_Fields command = [] then Inl (Errorf ''endpoint command is empty'')
      else case run (strings_Fields command) of
             Inl e \<Rightarrow> Inl e
           | Inr out \<Rightarrow>
               if (if maxBytes \<le> 0 then 64 * 1024 else maxBytes) < int (length out)
               then Inl (Errorf ''endpoint command output too large'') else Inr out)"

definition command_ResolveSpecs ::
  "string \<Rightarrow> int \<Rightarrow> (string list \<Rightarrow> goerror + string) \<Rightarrow> string \<Rightarrow> u16 \<Rightarrow> goerror + endpoint_spec list" where
  "command_ResolveSpecs command maxBytes run network defaultPort =
     (case command_output command maxBytes run of
        Inl e \<Rightarrow> Inl e
      | Inr out \<Rightarrow> ParseSpecs out network defaultPort)"

definition command_Resolve ::
  "string \<Rightarrow> int \<Rightarrow> (string list \<Rightarrow> goerror + string) \<Rightarrow> goerror + addrport list" where
  "command_Resolve command maxBytes run =
     (case command_output command maxBytes run of
        Inl e \<Rightarrow> Inl e
      | Inr out \<Rightarrow>
          scan_lines (\<lambda>text. collect_tokens ParseAddrPort
              (takeWhile (\<lambda>raw. \<not> has_prefix ''#'' raw) (strings_Fields text)))
            (raw_lines out))"

definition allowedProviderEnv :: "string list" where
  "allowedProviderEnv =
     [''KIKIMORA_ENDPOINT_ROLE'', ''KIKIMORA_ENDPOINT_INTERFACE'',
      ''KIKIMORA_ENDPOINTS_DIR'', ''KIKIMORA_VPN_CONFIG'',
      ''KIKIMORA_HAPP_STATE_DIR'', ''KIKIMORA_HAPP_PROBE_URL'',
      ''KIKIMORA_HAPP_PROBE_ROUNDS'', ''KIKIMORA_HAPP_PROBE_MIN_BYTES'',
      ''KIKIMORA_HAPP_PROBE_DOMINANCE'', ''KIKIMORA_HAPP_CACHE_TTL'',
      ''KIKIMORA_IP'', ''KIKIMORA_SS'', ''KIKIMORA_CURL'',
      ''KIKIMORA_GETENT'', ''KIKIMORA_SLEEP'', ''KIKIMORA_PGREP'']"

definition allowlistedEnv :: "string \<Rightarrow> (string, string) gomap \<Rightarrow> string list" where
  "allowlistedEnv pathVar extra =
     (let values = foldl (\<lambda>m (key, v). if key \<in> set allowedProviderEnv then gomap_put key v m else m)
                     [(''PATH'', pathVar), (''LANG'', ''C''), (''LC_ALL'', ''C'')] extra
      in map (\<lambda>key. key @ ''='' @ the (map_of values key)) (sort (map fst values)))"

section \<open>Resolution\<close>

type_synonym resolver = "string \<Rightarrow> goerror + addr list"

definition Resolve :: "resolver \<Rightarrow> string \<Rightarrow> u16 \<Rightarrow> goerror + addrport list" where
  "Resolve r host port =
     (case r host of
        Inl e \<Rightarrow> Inl e
      | Inr addrs \<Rightarrow>
          Inr (map (\<lambda>a. (a, port)) (filter (\<lambda>a. \<not> addr_Is4In6 a \<and> (addr_Is4 a \<or> addr_Is6 a)) addrs)))"

section \<open>The manager\<close>

record endpoint_state =
  en_State :: string
  en_AppliedUnderlayEpoch :: u64
  en_Configured :: "string list"
  en_Resolved :: "addrport list"
  en_Live :: "addrport list"
  en_LastError :: string

definition endpoint_zero :: endpoint_state where
  "endpoint_zero = \<lparr>en_State = [], en_AppliedUnderlayEpoch = 0, en_Configured = [], en_Resolved = [],
     en_Live = [], en_LastError = []\<rparr>"

definition specPort :: "endpoint_spec \<Rightarrow> u16" where
  "specPort spec =
     (if addrport_IsValid (es_Address spec) then snd (es_Address spec)
      else if es_Port spec \<noteq> 0 then es_Port spec else 443)"

definition keepDegraded :: "endpoint_state \<Rightarrow> string \<Rightarrow> endpoint_state" where
  "keepDegraded previous message = previous\<lparr>en_State := ''degraded'', en_LastError := message\<rparr>"

definition endpoint_commit :: "u64 \<Rightarrow> addrport list \<Rightarrow> endpoint_spec list \<Rightarrow> endpoint_state" where
  "endpoint_commit epoch addresses configured =
     \<lparr>en_State = ''ready'', en_AppliedUnderlayEpoch = epoch,
      en_Configured = map (\<lambda>spec. if addrport_IsValid (es_Address spec)
                                  then addrport_String (es_Address spec) else es_Hostname spec) configured,
      en_Resolved = addresses, en_Live = addresses, en_LastError = []\<rparr>"

text \<open>The loop of \<^verbatim>\<open>RefreshSpecsWithError\<close>: either every candidate's addresses, or the
  message to keep and the error to return.\<close>

fun resolve_all ::
  "resolver option \<Rightarrow> endpoint_spec list \<Rightarrow> (string \<times> goerror option) + addrport list" where
  "resolve_all rs [] = Inr []"
| "resolve_all rs (spec # specs) =
     (if addrport_IsValid (es_Address spec)
      then map_sum id (\<lambda>as. es_Address spec # as) (resolve_all rs specs)
      else if es_Hostname spec = [] \<or> rs = None then Inl (''endpoint has no resolvable address'', None)
      else case Resolve (the rs) (es_Hostname spec) (specPort spec) of
             Inl e \<Rightarrow> Inl (error_text e, Some (Wrapf ''%w: %v'' (Sentinel ErrResolutionUnavailable)))
           | Inr [] \<Rightarrow> Inl (sentinel_text ErrContextDeadlineExceeded,
                           Some (Wrapf ''%w: %v'' (Sentinel ErrResolutionUnavailable)))
           | Inr (a # as) \<Rightarrow> map_sum id (\<lambda>bs. (a # as) @ bs) (resolve_all rs specs))"

text \<open>The manager's only state is its endpoint state: the argument is the state before, the
  result the returned state, which is also the state after, and the error.\<close>

definition RefreshSpecsWithError ::
  "u64 \<Rightarrow> endpoint_spec list \<Rightarrow> resolver option \<Rightarrow> endpoint_state \<Rightarrow> endpoint_state \<times> goerror option" where
  "RefreshSpecsWithError epoch configured rs previous =
     (if configured = [] then (keepDegraded previous ''endpoint provider returned no endpoints'', None)
      else case resolve_all rs configured of
             Inl (message, err) \<Rightarrow> (keepDegraded previous message, err)
           | Inr resolved \<Rightarrow> (endpoint_commit epoch resolved configured, None))"

definition endpoint_Refresh ::
  "(goerror + addrport list) option \<Rightarrow> u64 \<Rightarrow> string list \<Rightarrow> endpoint_state \<Rightarrow> endpoint_state" where
  "endpoint_Refresh provider epoch configured previous =
     (case provider of
        None \<Rightarrow> keepDegraded previous ''endpoint provider is nil''
      | Some (Inl e) \<Rightarrow> keepDegraded previous (error_text e)
      | Some (Inr addresses) \<Rightarrow>
          \<lparr>en_State = ''ready'', en_AppliedUnderlayEpoch = epoch, en_Configured = configured,
           en_Resolved = addresses, en_Live = addresses, en_LastError = []\<rparr>)"

section \<open>Facts\<close>

lemma parseIPv4_valid: "parseIPv4 s = Some a \<Longrightarrow> addr_IsValid a"
  by (auto simp: parseIPv4_def addr_IsValid_def)

lemma parseIPv6_valid: "parseIPv6 s = Some a \<Longrightarrow> addr_IsValid a"
  by (auto simp: parseIPv6_def addr_IsValid_def Let_def split: if_splits option.splits)

lemma ParseAddr_valid: "ParseAddr s = Some a \<Longrightarrow> addr_IsValid a"
proof -
  have "ParseAddr_scan s t = Some a \<Longrightarrow> addr_IsValid a" for t
    by (induction t) (auto split: if_splits dest: parseIPv4_valid parseIPv6_valid)
  then show "ParseAddr s = Some a \<Longrightarrow> addr_IsValid a" by (simp add: ParseAddr_def)
qed

lemma spec_host_port_port:
  "spec_host_port raw dp = Inr (h, p) \<Longrightarrow> dp \<noteq> 0 \<Longrightarrow> p \<noteq> 0"
  by (auto simp: spec_host_port_def Let_def split: option.splits if_splits)

text \<open>A parsed specification is either an address with the token's port, or a host name
  free of brackets, colons and empty labels; the port is never zero.\<close>

definition spec_wf :: "string \<Rightarrow> endpoint_spec \<Rightarrow> bool" where
  "spec_wf network spec \<longleftrightarrow>
     es_Network spec = network \<and> es_Port spec \<noteq> 0 \<and> specPort spec = es_Port spec \<and>
     (if addrport_IsValid (es_Address spec) then es_Hostname spec = []
      else es_Address spec = addrport_zero \<and> es_Hostname spec \<noteq> [] \<and>
           \<not> ContainsAny (es_Hostname spec) ''[]:?'' \<and> \<not> strings_Contains (es_Hostname spec) ''..'')"

lemma addr_spec_wf: "addr_IsValid a \<Longrightarrow> p \<noteq> 0 \<Longrightarrow> spec_wf network (addr_spec network a p)"
  by (simp add: spec_wf_def addr_spec_def specPort_def addrport_IsValid_def)

lemma ParseSpec_wf:
  assumes "ParseSpec raw network dp = Inr spec" and "dp \<noteq> 0"
  shows "spec_wf network spec"
  using assms
  by (auto simp: ParseSpec_def split: if_splits option.splits sum.splits prod.splits
           intro!: addr_spec_wf dest: ParseAddr_valid spec_host_port_port)
     (auto simp: spec_wf_def specPort_def addrport_IsValid_def addrport_zero_def addr_IsValid_def
           dest: spec_host_port_port)

lemma collect_tokens_Inr:
  "collect_tokens f ts = Inr as \<Longrightarrow> list_all2 (\<lambda>t a. f t = Inr a) ts as"
  by (induction ts arbitrary: as) (auto simp: list_all2_Cons1 split: sum.splits)

lemma scan_lines_Inr_mem:
  "scan_lines f ls = Inr xs \<Longrightarrow> x \<in> set xs \<Longrightarrow> \<exists>l \<in> set ls. \<exists>ys. f (drop_cr l) = Inr ys \<and> x \<in> set ys"
  by (induction ls arbitrary: xs) (auto split: if_splits sum.splits)

lemma ParseSpecs_wf:
  assumes "ParseSpecs text network dp = Inr specs" and "spec \<in> set specs"
  shows "spec_wf (if network = [] then ''tcp'' else network) spec"
proof -
  let ?nw = "if network = [] then ''tcp'' else network" and ?dp = "if dp = 0 then 443 else dp"
  from scan_lines_Inr_mem [OF assms(1) [unfolded ParseSpecs_def Let_def] assms(2)]
  obtain l ys where "collect_tokens (\<lambda>token. ParseSpec token ?nw ?dp) (spec_tokens (drop_cr l)) = Inr ys"
      and "spec \<in> set ys" by auto
  then obtain token where "ParseSpec token ?nw ?dp = Inr spec"
    by (auto dest!: collect_tokens_Inr simp: list_all2_conv_all_nth in_set_conv_nth) blast
  then show ?thesis by (rule ParseSpec_wf) (simp split: if_splits)
qed

text \<open>The addresses one candidate contributes; empty when it cannot be resolved.\<close>

definition spec_addresses :: "resolver option \<Rightarrow> endpoint_spec \<Rightarrow> addrport list" where
  "spec_addresses rs spec =
     (if addrport_IsValid (es_Address spec) then [es_Address spec]
      else if es_Hostname spec = [] then []
      else case rs of
             None \<Rightarrow> []
           | Some r \<Rightarrow> (case Resolve r (es_Hostname spec) (specPort spec) of Inl e \<Rightarrow> [] | Inr as \<Rightarrow> as))"

lemma resolve_all_Inr:
  "(\<forall>spec \<in> set specs. spec_addresses rs spec \<noteq> []) \<Longrightarrow>
     resolve_all rs specs = Inr (concat (map (spec_addresses rs) specs))"
  by (induction specs) (auto simp: spec_addresses_def split: sum.splits list.splits option.splits if_splits)

lemma resolve_all_Inl:
  "spec \<in> set specs \<Longrightarrow> spec_addresses rs spec = [] \<Longrightarrow> \<exists>m. resolve_all rs specs = Inl m"
proof (induction specs)
  case (Cons a specs)
  show ?case
  proof (cases "spec_addresses rs a = []")
    case True
    then show ?thesis
      by (auto simp: spec_addresses_def split: if_splits option.splits sum.splits list.splits)
  next
    case False
    with Cons obtain m where "resolve_all rs specs = Inl m" by auto
    then show ?thesis by (auto split: sum.splits list.splits)
  qed
qed simp

lemma keepDegraded_fields [simp]:
  "en_AppliedUnderlayEpoch (keepDegraded s m) = en_AppliedUnderlayEpoch s"
  "en_Configured (keepDegraded s m) = en_Configured s"
  "en_Resolved (keepDegraded s m) = en_Resolved s"
  "en_Live (keepDegraded s m) = en_Live s"
  "en_State (keepDegraded s m) = ''degraded''"
  by (simp_all add: keepDegraded_def)

end
