(* ===== verification/Core_Controller.thy ===== *)
theory Core_Controller
  imports Netstate Toadctl Parking Endpoint
begin

text \<open>
  The product controller (\<^verbatim>\<open>toad/internal/core\<close>: model.go, events.go, snapshot.go,
  controller.go): one record per role, the underlay snapshot with its epoch and a revision
  counter, changed by the operations below. An operation that returns \<^verbatim>\<open>false\<close> or an error
  leaves the controller as it was.
\<close>

section \<open>State\<close>

datatype role_state =
    RoleStopped | RoleWaitingForUnderlay | RolePreparingEndpoint | RoleStarting | RoleValidating
  | RoleReady | RoleRecovering | RoleStopping | RoleFailed

record validation_token =
  vt_Role :: string
  vt_Operation :: u64
  vt_ToadGeneration :: u64
  vt_UnderlayEpoch :: u64

text \<open>The recovery steps; \<open>StepNone\<close> is the empty string.\<close>

datatype recovery_step =
    StepNone
  | RecoveryObserveRoutes
  | RecoveryPark
  | RecoveryWithdrawSelected
  | RecoveryWithdraw
  | RecoveryQuiesce
  | RecoveryApplyEndpoint
  | RecoveryRebind
  | RecoveryStartTransport
  | RecoveryValidate
  | RecoveryPublish
  | RecoveryResyncLeshy
  | RecoveryObserveRestore
  | RecoveryFreezeSelected
  | RecoveryRestoreSelected
  | RecoveryUnfreezeSelected

record recovery_state =
  rs_Step :: recovery_step
  rs_Operation :: u64
  rs_Epoch :: u64
  rs_Attempt :: int
  rs_LastError :: string
  rs_NextRetryAt :: "gotime option"

record publication_state =
  pu_Published :: bool
  pu_Zone :: string
  pu_Interface :: string
  pu_Generation :: u64
  pu_Families :: route_families

record role_spec =
  sp_ID :: string
  sp_Protocol :: string
  sp_Interface :: string
  sp_LeshyZone :: string

record role_runtime =
  rr_Desired :: bool
  rr_State :: role_state
  rr_Reason :: string
  rr_Operation :: u64
  rr_ToadGeneration :: u64
  rr_ValidatedEpoch :: u64
  rr_Toad :: toad_snapshot
  rr_Endpoint :: endpoint_state
  rr_Publication :: publication_state
  rr_Parking :: parking_state
  rr_Recovery :: recovery_state
  rr_Validation :: validation_result
  rr_LastError :: string

definition recovery_zero :: recovery_state where
  "recovery_zero = \<lparr>rs_Step = StepNone, rs_Operation = 0, rs_Epoch = 0, rs_Attempt = 0,
     rs_LastError = [], rs_NextRetryAt = None\<rparr>"

definition publication_zero :: publication_state where
  "publication_zero = \<lparr>pu_Published = False, pu_Zone = [], pu_Interface = [], pu_Generation = 0,
     pu_Families = families_zero\<rparr>"

definition role_zero :: role_runtime where
  "role_zero = \<lparr>rr_Desired = False, rr_State = RoleStopped, rr_Reason = [], rr_Operation = 0,
     rr_ToadGeneration = 0, rr_ValidatedEpoch = 0, rr_Toad = toad_zero, rr_Endpoint = endpoint_zero,
     rr_Publication = publication_zero, rr_Parking = parking_zero, rr_Recovery = recovery_zero,
     rr_Validation = validation_zero, rr_LastError = []\<rparr>"

record controller =
  co_Roles :: "(string, role_runtime) gomap"
  co_Specs :: "(string, role_spec) gomap"
  co_Underlay :: netstate_snapshot
  co_Revision :: u64
  co_ActiveProfile :: string
  co_LastReason :: change_reason
  co_LastChangeAt :: gotime

definition underlay_zero :: netstate_snapshot where
  "underlay_zero = \<lparr>ns_Epoch = 0, ns_IPv4 = None, ns_IPv6 = None,
     ns_Metadata = \<lparr>md_ConnectionID = [], md_BSSID = []\<rparr>, ns_ObservedAt = 0\<rparr>"

definition NewController :: "role_spec list \<Rightarrow> controller" where
  "NewController specs =
     foldl (\<lambda>c s. c\<lparr>co_Specs := gomap_put (sp_ID s) s (co_Specs c),
                    co_Roles := gomap_put (sp_ID s) role_zero (co_Roles c)\<rparr>)
       \<lparr>co_Roles = [], co_Specs = [], co_Underlay = underlay_zero, co_Revision = 1,
        co_ActiveProfile = ''default'', co_LastReason = ReasonNone, co_LastChangeAt = 0\<rparr> specs"

text \<open>Events of the controller's queue.\<close>

record operation_result =
  re_Err :: "goerror option"
  re_Reason :: string

datatype core_event =
    UnderlayInvalidated string
  | UnderlayChanged netstate_snapshot netstate_snapshot change_reason
  | ResumeValidation
  | DesiredRoleChanged string bool
  | ToadStateChanged string u64 toad_snapshot
  | OperationCompleted string u64 u64 operation_result
  | RouteStateChanged
  | RetryDue string u64

section \<open>Operations\<close>

definition bump :: "controller \<Rightarrow> controller" where
  "bump c = c\<lparr>co_Revision := co_Revision c + 1\<rparr>"

text \<open>\<open>now\<close> is the clock's reading.\<close>

definition bumpReason :: "gotime \<Rightarrow> change_reason \<Rightarrow> controller \<Rightarrow> controller" where
  "bumpReason now reason c = bump (c\<lparr>co_LastReason := reason, co_LastChangeAt := now\<rparr>)"

text \<open>\<^verbatim>\<open>c.roles[role] = r; c.bump()\<close>\<close>

definition put_role :: "string \<Rightarrow> role_runtime \<Rightarrow> controller \<Rightarrow> controller" where
  "put_role role r c = bump (c\<lparr>co_Roles := gomap_put role r (co_Roles c)\<rparr>)"

definition controller_Role :: "controller \<Rightarrow> string \<Rightarrow> role_runtime option" where
  "controller_Role c role = map_of (co_Roles c) role"

definition SetRoleDesired :: "string \<Rightarrow> bool \<Rightarrow> controller \<Rightarrow> goerror option \<times> controller" where
  "SetRoleDesired role enabled c =
     (case map_of (co_Roles c) role of
        None \<Rightarrow> (Some (Errorf ''unknown role %q''), c)
      | Some r \<Rightarrow>
          if rr_Desired r = enabled then (None, c)
          else
            let r1 = r\<lparr>rr_Desired := enabled, rr_Operation := rr_Operation r + 1\<rparr>;
                r2 = (if enabled then r1\<lparr>rr_State := RoleStarting, rr_Reason := ''desired state enabled''\<rparr>
                      else r1\<lparr>rr_State := RoleStopped, rr_Reason := ''desired state disabled''\<rparr>)
            in (None, put_role role r2 c))"

definition underlay_available :: "netstate_snapshot \<Rightarrow> bool" where
  "underlay_available n = (ns_IPv4 n \<noteq> None \<or> ns_IPv6 n \<noteq> None)"

text \<open>The body of the loop of \<^verbatim>\<open>SetUnderlay\<close> over the roles.\<close>

definition underlay_role ::
  "bool \<Rightarrow> netstate_snapshot \<Rightarrow> change_reason \<Rightarrow> role_runtime \<Rightarrow> role_runtime" where
  "underlay_role initial nxt reason role =
     (if \<not> rr_Desired role then role
      else if \<not> underlay_available nxt then
        role\<lparr>rr_ValidatedEpoch := 0, rr_State := RoleWaitingForUnderlay,
             rr_Reason := ''physical underlay unavailable''\<rparr>
      else if \<not> initial \<and> (rr_State role = RoleReady \<or> rr_State role = RoleWaitingForUnderlay) \<and>
              rr_ValidatedEpoch role \<noteq> ns_Epoch nxt then
        role\<lparr>rr_State := RoleRecovering, rr_ValidatedEpoch := 0, rr_Reason := change_reason_text reason\<rparr>
      else role)"

definition accept_underlay ::
  "gotime \<Rightarrow> netstate_snapshot \<Rightarrow> change_reason \<Rightarrow> controller \<Rightarrow> controller" where
  "accept_underlay now nxt reason c =
     bumpReason now reason
       (c\<lparr>co_Underlay := nxt,
          co_Roles := gomap_map (\<lambda>_. underlay_role (ns_Epoch (co_Underlay c) = 0) nxt reason) (co_Roles c)\<rparr>)"

definition SetUnderlay ::
  "gotime \<Rightarrow> netstate_snapshot \<Rightarrow> change_reason \<Rightarrow> controller \<Rightarrow> controller" where
  "SetUnderlay now nxt reason c =
     (if ns_Epoch nxt = 0 then
        (case Compare (co_Underlay c) nxt of
           (merged, computedReason, changed) \<Rightarrow>
             if \<not> changed then c
             else accept_underlay now merged (if reason = ReasonNone then computedReason else reason) c)
      else if ns_Epoch nxt < ns_Epoch (co_Underlay c) then c
      else if ns_Epoch nxt = ns_Epoch (co_Underlay c) then
        (if IdentityEqual (co_Underlay c) nxt
         then c\<lparr>co_Underlay := (co_Underlay c)\<lparr>ns_ObservedAt := ns_ObservedAt nxt\<rparr>\<rparr> else c)
      else accept_underlay now nxt reason c)"

text \<open>The role part of \<^verbatim>\<open>observeToadLocked\<close>, after the generation guard.\<close>

definition observe_role :: "u64 \<Rightarrow> toad_snapshot \<Rightarrow> role_runtime \<Rightarrow> role_runtime" where
  "observe_role epoch snapshot r0 =
     (let r = r0\<lparr>rr_ToadGeneration := ts_Generation snapshot, rr_Toad := snapshot\<rparr>;
          r' =
            (if \<not> ts_RouteReady snapshot then
               (let r = r\<lparr>rr_ValidatedEpoch := 0\<rparr> in
                if \<not> rr_Desired r then r
                else if ts_State snapshot = ''failed'' then
                  r\<lparr>rr_State := RoleFailed, rr_LastError := ts_Reason snapshot\<rparr>
                else if ts_State snapshot = ''stopped'' then r\<lparr>rr_State := RoleStopped\<rparr>
                else if rr_State r \<noteq> RoleRecovering then
                  r\<lparr>rr_State := RoleValidating, rr_Reason := ''managed route target requires validation''\<rparr>
                else r)
             else if ts_State snapshot = ''failed'' then
               r\<lparr>rr_State := RoleFailed, rr_ValidatedEpoch := 0, rr_LastError := ts_Reason snapshot\<rparr>
             else if ts_State snapshot = ''stopped'' then
               r\<lparr>rr_State := RoleStopped, rr_ValidatedEpoch := 0\<rparr>
             else if ts_State snapshot = ''recovering'' \<or> ts_State snapshot = ''quiesced'' then
               r\<lparr>rr_State := RoleRecovering, rr_ValidatedEpoch := 0\<rparr>
             else if ts_State snapshot = ''reconnecting'' then
               r\<lparr>rr_State := RoleRecovering, rr_ValidatedEpoch := 0\<rparr>
             else if ts_State snapshot = ''ready'' \<or> ts_State snapshot = ''online'' then
               (if rr_Desired r \<and> rr_ValidatedEpoch r \<noteq> epoch \<and> rr_State r \<noteq> RoleRecovering then
                  r\<lparr>rr_State := RoleValidating, rr_Reason := ''managed route target ready; validation required''\<rparr>
                else r)
             else r)
      in if rr_Reason r' = [] then r'\<lparr>rr_Reason := ts_Reason snapshot\<rparr> else r')"

definition ObserveToad :: "string \<Rightarrow> toad_snapshot \<Rightarrow> controller \<Rightarrow> bool \<times> controller" where
  "ObserveToad role snapshot c =
     (case map_of (co_Roles c) role of
        None \<Rightarrow> (False, c)
      | Some r \<Rightarrow>
          if rr_ToadGeneration r \<noteq> 0 \<and> rr_ToadGeneration r \<noteq> ts_Generation snapshot then (False, c)
          else if rr_ToadGeneration r = ts_Generation snapshot \<and> rr_Toad r = snapshot then (True, c)
          else (True, put_role role (observe_role (ns_Epoch (co_Underlay c)) snapshot r) c))"

definition Complete :: "string \<Rightarrow> u64 \<Rightarrow> u64 \<Rightarrow> operation_result \<Rightarrow> controller \<Rightarrow> bool \<times> controller" where
  "Complete role op epoch result c =
     (case map_of (co_Roles c) role of
        None \<Rightarrow> (False, c)
      | Some r \<Rightarrow>
          if rr_Operation r \<noteq> op \<or> ns_Epoch (co_Underlay c) \<noteq> epoch then (False, c)
          else
            let r' = (case re_Err result of
                        Some e \<Rightarrow> r\<lparr>rr_State := RoleFailed, rr_LastError := error_text e, rr_Reason := re_Reason result\<rparr>
                      | None \<Rightarrow> r\<lparr>rr_State := RoleReady, rr_ValidatedEpoch := epoch, rr_LastError := [],
                                  rr_Reason := re_Reason result\<rparr>)
            in (True, put_role role r' c))"

definition resume_role :: "role_runtime \<Rightarrow> role_runtime" where
  "resume_role r =
     (if rr_Desired r \<and> rr_State r = RoleReady then
        r\<lparr>rr_ValidatedEpoch := 0, rr_State := RoleValidating, rr_Reason := ''resume validation requested''\<rparr>
      else r)"

definition RequestResumeValidation :: "controller \<Rightarrow> controller" where
  "RequestResumeValidation c = bump (c\<lparr>co_Roles := gomap_map (\<lambda>_. resume_role) (co_Roles c)\<rparr>)"

definition apply_event :: "gotime \<Rightarrow> core_event \<Rightarrow> controller \<Rightarrow> controller" where
  "apply_event now e c =
     (case e of
        UnderlayChanged old nxt reason \<Rightarrow> SetUnderlay now nxt reason c
      | ResumeValidation \<Rightarrow> RequestResumeValidation c
      | DesiredRoleChanged role enabled \<Rightarrow> snd (SetRoleDesired role enabled c)
      | ToadStateChanged role generation snapshot \<Rightarrow> snd (ObserveToad role snapshot c)
      | OperationCompleted role op epoch result \<Rightarrow> snd (Complete role op epoch result c)
      | _ \<Rightarrow> c)"

text \<open>The writes of the recovery coordinator and the supervision timers.\<close>

definition SetRecovery ::
  "string \<Rightarrow> recovery_state \<Rightarrow> role_state \<Rightarrow> string \<Rightarrow> controller \<Rightarrow> bool \<times> controller" where
  "SetRecovery role recovery state reason c =
     (case map_of (co_Roles c) role of
        None \<Rightarrow> (False, c)
      | Some r \<Rightarrow>
          (True, put_role role
             (r\<lparr>rr_Recovery := recovery\<lparr>rs_NextRetryAt := rs_NextRetryAt (rr_Recovery r)\<rparr>,
                rr_State := state, rr_Reason := reason\<rparr>) c))"

definition SetRetrySchedule :: "string \<Rightarrow> gotime \<Rightarrow> controller \<Rightarrow> bool \<times> controller" where
  "SetRetrySchedule role nxt c =
     (case map_of (co_Roles c) role of
        None \<Rightarrow> (False, c)
      | Some r \<Rightarrow>
          (True, put_role role
             (r\<lparr>rr_Recovery := (rr_Recovery r)\<lparr>rs_NextRetryAt := (if nxt = 0 then None else Some nxt)\<rparr>\<rparr>) c))"

definition BeginValidation :: "string \<Rightarrow> controller \<Rightarrow> validation_token option \<times> controller" where
  "BeginValidation role c =
     (case map_of (co_Roles c) role of
        None \<Rightarrow> (None, c)
      | Some r \<Rightarrow>
          if \<not> rr_Desired r \<or> rr_ToadGeneration r = 0 \<or> \<not> ts_RouteReady (rr_Toad r) \<or>
             ns_Epoch (co_Underlay c) = 0 \<or> \<not> underlay_available (co_Underlay c)
          then (None, c)
          else (Some \<lparr>vt_Role = role, vt_Operation = rr_Operation r,
                      vt_ToadGeneration = rr_ToadGeneration r,
                      vt_UnderlayEpoch = ns_Epoch (co_Underlay c)\<rparr>,
                put_role role (r\<lparr>rr_State := RoleValidating, rr_Reason := ''validation requested''\<rparr>) c))"

text \<open>The guard the two completions share.\<close>

definition token_current :: "validation_token \<Rightarrow> controller \<Rightarrow> role_runtime \<Rightarrow> bool" where
  "token_current token c r =
     (rr_Desired r \<and> ts_RouteReady (rr_Toad r) \<and> rr_Operation r = vt_Operation token \<and>
      rr_ToadGeneration r = vt_ToadGeneration token \<and> ns_Epoch (co_Underlay c) = vt_UnderlayEpoch token)"

definition CompleteValidation ::
  "validation_token \<Rightarrow> validation_result \<Rightarrow> controller \<Rightarrow> bool \<times> controller" where
  "CompleteValidation token result c =
     (case map_of (co_Roles c) (vt_Role token) of
        None \<Rightarrow> (False, c)
      | Some r \<Rightarrow>
          if \<not> token_current token c r then (False, c)
          else if vr_Healthy result then
            (let reason = (if vr_Reason result = [] then ''validation complete'' else vr_Reason result)
             in (True, put_role (vt_Role token)
                   (r\<lparr>rr_Validation := result, rr_State := RoleReady,
                      rr_ValidatedEpoch := vt_UnderlayEpoch token, rr_LastError := [], rr_Reason := reason\<rparr>) c))
          else
            (let reason = (if vr_Reason result = [] then ''validation failed'' else vr_Reason result)
             in (True, put_role (vt_Role token)
                   (r\<lparr>rr_Validation := result, rr_State := RoleFailed, rr_ValidatedEpoch := 0,
                      rr_LastError := reason, rr_Reason := reason\<rparr>) c)))"

definition CompleteValidationPending ::
  "validation_token \<Rightarrow> validation_result \<Rightarrow> controller \<Rightarrow> bool \<times> controller" where
  "CompleteValidationPending token result c =
     (case map_of (co_Roles c) (vt_Role token) of
        None \<Rightarrow> (False, c)
      | Some r \<Rightarrow>
          if \<not> token_current token c r then (False, c)
          else
            (let reason = (if vr_Reason result = [] then ''validation temporarily unhealthy'' else vr_Reason result)
             in (True, put_role (vt_Role token)
                   (r\<lparr>rr_Validation := result, rr_State := RoleRecovering, rr_ValidatedEpoch := 0,
                      rr_LastError := reason, rr_Reason := reason\<rparr>) c)))"

definition RequestRoleValidation :: "string \<Rightarrow> string \<Rightarrow> controller \<Rightarrow> bool \<times> controller" where
  "RequestRoleValidation role reason c =
     (case map_of (co_Roles c) role of
        None \<Rightarrow> (False, c)
      | Some r \<Rightarrow>
          if \<not> rr_Desired r \<or> rr_ToadGeneration r = 0 \<or> \<not> ts_RouteReady (rr_Toad r) then (False, c)
          else (True, put_role role
                  (r\<lparr>rr_ValidatedEpoch := 0, rr_State := RoleValidating,
                     rr_Reason := (if reason = [] then ''validation requested'' else reason)\<rparr>) c))"

definition MarkRecovering :: "string \<Rightarrow> string \<Rightarrow> controller \<Rightarrow> bool \<times> controller" where
  "MarkRecovering role reason c =
     (case map_of (co_Roles c) role of
        None \<Rightarrow> (False, c)
      | Some r \<Rightarrow>
          if \<not> rr_Desired r then (False, c)
          else (True, put_role role
                  (r\<lparr>rr_State := RoleRecovering, rr_ValidatedEpoch := 0, rr_Reason := reason\<rparr>) c))"

definition BeginToadGeneration :: "string \<Rightarrow> controller \<Rightarrow> bool \<times> controller" where
  "BeginToadGeneration role c =
     (case map_of (co_Roles c) role of
        None \<Rightarrow> (False, c)
      | Some r \<Rightarrow>
          (let r' = r\<lparr>rr_ToadGeneration := 0, rr_Toad := toad_zero, rr_ValidatedEpoch := 0,
                      rr_Validation := validation_zero\<rparr>
           in (True, put_role role (if rr_Desired r' then r'\<lparr>rr_State := RoleStarting\<rparr> else r') c)))"

definition SetRoleDiagnostic :: "string \<Rightarrow> string \<Rightarrow> controller \<Rightarrow> bool \<times> controller" where
  "SetRoleDiagnostic role reason c =
     (case map_of (co_Roles c) role of
        None \<Rightarrow> (False, c)
      | Some r \<Rightarrow> (True, put_role role (r\<lparr>rr_LastError := reason\<rparr>) c))"

definition UpdateRoleResources ::
  "string \<Rightarrow> endpoint_state \<Rightarrow> publication_state \<Rightarrow> parking_state \<Rightarrow> validation_result \<Rightarrow> controller \<Rightarrow>
     bool \<times> controller" where
  "UpdateRoleResources role endpointState publication parkingState validation c =
     (case map_of (co_Roles c) role of
        None \<Rightarrow> (False, c)
      | Some r \<Rightarrow>
          (let r1 = r\<lparr>rr_Endpoint := endpointState, rr_Publication := publication,
                      rr_Parking := parkingState, rr_Validation := validation\<rparr>;
               r2 = (if vr_State validation \<noteq> [] \<or> vr_Reason validation \<noteq> [] \<or> vr_Healthy validation
                     then r1\<lparr>rr_LastError :=
                            (if \<not> vr_Healthy validation \<and> vr_Reason validation \<noteq> [] then vr_Reason validation else [])\<rparr>
                     else r1)
           in (True, put_role role r2 c)))"

section \<open>The aggregate of a snapshot\<close>

record aggregate_flags =
  ag_A :: string
  ag_Any :: bool
  ag_Ready :: bool
  ag_ReadyCount :: int
  ag_Waiting :: bool
  ag_Recovering :: bool
  ag_Failed :: bool

definition aggregate_init :: aggregate_flags where
  "aggregate_init = \<lparr>ag_A = ''Stopped'', ag_Any = False, ag_Ready = True, ag_ReadyCount = 0,
     ag_Waiting = False, ag_Recovering = False, ag_Failed = False\<rparr>"

definition aggregate_role :: "aggregate_flags \<Rightarrow> role_runtime \<Rightarrow> aggregate_flags" where
  "aggregate_role f r =
     \<lparr>ag_A = (if rr_State r = RoleRecovering then ''Recovering''
              else if rr_State r \<noteq> RoleStopped \<and> rr_State r \<noteq> RoleFailed then ''Connecting'' else ag_A f),
      ag_Any = (ag_Any f \<or> rr_Desired r),
      ag_Ready = (ag_Ready f \<and> \<not> (rr_Desired r \<and> rr_State r \<noteq> RoleReady)),
      ag_ReadyCount = (if rr_Desired r \<and> rr_State r = RoleReady then ag_ReadyCount f + 1 else ag_ReadyCount f),
      ag_Waiting = (ag_Waiting f \<or> rr_State r = RoleWaitingForUnderlay),
      ag_Recovering = (ag_Recovering f \<or> rr_State r = RoleRecovering),
      ag_Failed = (ag_Failed f \<or> rr_State r = RoleFailed)\<rparr>"

definition aggregate_result :: "aggregate_flags \<Rightarrow> string" where
  "aggregate_result f =
     (if ag_Any f \<and> ag_Ready f then ''Ready''
      else if ag_Recovering f then ''Recovering''
      else if ag_Waiting f then ''WaitingForUnderlay''
      else if 0 < ag_ReadyCount f then ''PartiallyReady''
      else if ag_Failed f then ''Failed''
      else ag_A f)"

definition aggregate :: "role_runtime list \<Rightarrow> string" where
  "aggregate rs = aggregate_result (foldl aggregate_role aggregate_init rs)"

record core_snapshot =
  cs_Schema :: int
  cs_Revision :: u64
  cs_CoreState :: string
  cs_AggregateState :: string
  cs_ActiveProfile :: string
  cs_Underlay :: netstate_snapshot
  cs_Roles :: "(string, role_runtime) gomap"
  cs_LastChangeReason :: change_reason
  cs_LastChangeAt :: gotime

definition controller_Snapshot :: "controller \<Rightarrow> core_snapshot" where
  "controller_Snapshot c =
     \<lparr>cs_Schema = 2, cs_Revision = co_Revision c, cs_CoreState = ''Ready'',
      cs_AggregateState = aggregate (map snd (co_Roles c)), cs_ActiveProfile = co_ActiveProfile c,
      cs_Underlay = co_Underlay c, cs_Roles = co_Roles c, cs_LastChangeReason = co_LastReason c,
      cs_LastChangeAt = co_LastChangeAt c\<rparr>"

text \<open>What the aggregate says of a set of roles, without any order.\<close>

definition aggregate_spec :: "role_runtime set \<Rightarrow> string" where
  "aggregate_spec R =
     (if (\<exists>r \<in> R. rr_Desired r) \<and> (\<forall>r \<in> R. rr_Desired r \<longrightarrow> rr_State r = RoleReady) then ''Ready''
      else if (\<exists>r \<in> R. rr_State r = RoleRecovering) then ''Recovering''
      else if (\<exists>r \<in> R. rr_State r = RoleWaitingForUnderlay) then ''WaitingForUnderlay''
      else if (\<exists>r \<in> R. rr_Desired r \<and> rr_State r = RoleReady) then ''PartiallyReady''
      else if (\<exists>r \<in> R. rr_State r = RoleFailed) then ''Failed''
      else if (\<forall>r \<in> R. rr_State r = RoleStopped) then ''Stopped''
      else ''Connecting'')"

lemma aggregate_flags:
  "ag_Any (foldl aggregate_role f rs) \<longleftrightarrow> ag_Any f \<or> (\<exists>r \<in> set rs. rr_Desired r)"
  "ag_Ready (foldl aggregate_role f rs) \<longleftrightarrow>
     ag_Ready f \<and> (\<forall>r \<in> set rs. rr_Desired r \<longrightarrow> rr_State r = RoleReady)"
  "ag_ReadyCount (foldl aggregate_role f rs) =
     ag_ReadyCount f + int (length (filter (\<lambda>r. rr_Desired r \<and> rr_State r = RoleReady) rs))"
  "ag_Waiting (foldl aggregate_role f rs) \<longleftrightarrow> ag_Waiting f \<or> (\<exists>r \<in> set rs. rr_State r = RoleWaitingForUnderlay)"
  "ag_Recovering (foldl aggregate_role f rs) \<longleftrightarrow> ag_Recovering f \<or> (\<exists>r \<in> set rs. rr_State r = RoleRecovering)"
  "ag_Failed (foldl aggregate_role f rs) \<longleftrightarrow> ag_Failed f \<or> (\<exists>r \<in> set rs. rr_State r = RoleFailed)"
  by (induction rs arbitrary: f) (auto simp: aggregate_role_def)

lemma aggregate_A:
  assumes "\<forall>r \<in> set rs. rr_State r \<noteq> RoleRecovering \<and> rr_State r \<noteq> RoleFailed"
  shows "ag_A (foldl aggregate_role f rs) =
           (if \<forall>r \<in> set rs. rr_State r = RoleStopped then ag_A f else ''Connecting'')"
  using assms by (induction rs arbitrary: f) (auto simp: aggregate_role_def)

lemma aggregate_eq_spec: "aggregate rs = aggregate_spec (set rs)"
proof -
  let ?f = "foldl aggregate_role aggregate_init rs"
  have cnt: "0 < ag_ReadyCount ?f \<longleftrightarrow> (\<exists>r \<in> set rs. rr_Desired r \<and> rr_State r = RoleReady)"
    by (auto simp: aggregate_flags aggregate_init_def filter_empty_conv)
  have a: "ag_A ?f = (if \<forall>r \<in> set rs. rr_State r = RoleStopped then ''Stopped'' else ''Connecting'')"
    if "\<not> ag_Recovering ?f" "\<not> ag_Failed ?f"
    using that aggregate_A [of rs aggregate_init] by (auto simp: aggregate_flags aggregate_init_def)
  show ?thesis
    unfolding aggregate_def aggregate_result_def aggregate_spec_def
    using a unfolding cnt by (auto simp: aggregate_flags aggregate_init_def)
qed

section \<open>Steps and reachable states\<close>

text \<open>
  One step is one call of an operation, with any arguments. Two of them can write \<^const>\<open>RoleReady\<close>
  without a validation: the commit of a recovery run that succeeded (\<^verbatim>\<open>SetRecovery\<close>), and
  \<^verbatim>\<open>Complete\<close> for the epoch of an unknown underlay. The second argument of a step is the roles
  it wrote so, and the second argument of a reachable state is the roles that were written so and
  have been shown Ready ever since.
\<close>

inductive controller_step :: "controller \<Rightarrow> string set \<Rightarrow> controller \<Rightarrow> bool" where
  step_desired: "controller_step c {} (snd (SetRoleDesired role enabled c))"
| step_underlay: "controller_step c {} (SetUnderlay now nxt reason c)"
| step_toad: "controller_step c {} (snd (ObserveToad role snapshot c))"
| step_resume: "controller_step c {} (RequestResumeValidation c)"
| step_complete: "controller_step c (if epoch = 0 then {role} else {}) (snd (Complete role op epoch result c))"
| step_begin: "controller_step c {} (snd (BeginValidation role c))"
| step_validated: "fst (BeginValidation role c0) = Some token \<Longrightarrow>
    controller_step c {} (snd (CompleteValidation token result c))"
| step_pending: "controller_step c {} (snd (CompleteValidationPending token result c))"
| step_request: "controller_step c {} (snd (RequestRoleValidation role reason c))"
| step_recovering: "controller_step c {} (snd (MarkRecovering role reason c))"
| step_generation: "controller_step c {} (snd (BeginToadGeneration role c))"
| step_diagnostic: "controller_step c {} (snd (SetRoleDiagnostic role reason c))"
| step_resources: "controller_step c {} (snd (UpdateRoleResources role e p k v c))"
| step_retry: "controller_step c {} (snd (SetRetrySchedule role at c))"
| step_recovery: "controller_step c (if state = RoleReady then {role} else {}) (snd (SetRecovery role recovery state reason c))"

definition role_ready :: "controller \<Rightarrow> string \<Rightarrow> bool" where
  "role_ready c role = (case map_of (co_Roles c) role of None \<Rightarrow> False | Some r \<Rightarrow> rr_State r = RoleReady)"

inductive controller_reachable :: "role_spec list \<Rightarrow> string set \<Rightarrow> controller \<Rightarrow> bool" for specs where
  reach_new: "controller_reachable specs {} (NewController specs)"
| reach_step: "controller_reachable specs unproved c \<Longrightarrow> controller_step c committed c' \<Longrightarrow>
    controller_reachable specs {role \<in> unproved \<union> committed. role_ready c' role} c'"

inductive_cases controller_stepE: "controller_step c committed c'"

subsection \<open>Lookups after an operation\<close>

lemma put_role_lookup [simp]:
  "map_of (co_Roles (put_role role r c)) role' = (if role' = role then Some r else map_of (co_Roles c) role')"
  "co_Underlay (put_role role r c) = co_Underlay c"
  by (simp_all add: put_role_def bump_def)

lemma accept_underlay_lookup [simp]:
  "map_of (co_Roles (accept_underlay now nxt reason c)) role =
     map_option (underlay_role (ns_Epoch (co_Underlay c) = 0) nxt reason) (map_of (co_Roles c) role)"
  "co_Underlay (accept_underlay now nxt reason c) = nxt"
  by (simp_all add: accept_underlay_def bumpReason_def bump_def)

lemma RequestResumeValidation_lookup [simp]:
  "map_of (co_Roles (RequestResumeValidation c)) role = map_option resume_role (map_of (co_Roles c) role)"
  "co_Underlay (RequestResumeValidation c) = co_Underlay c"
  by (simp_all add: RequestResumeValidation_def bump_def)

subsection \<open>Ready is always validated against the current underlay\<close>

definition role_validated :: "u64 \<Rightarrow> role_runtime \<Rightarrow> bool" where
  "role_validated epoch r \<longleftrightarrow>
     (rr_Desired r \<and> rr_State r = RoleReady \<longrightarrow> rr_ValidatedEpoch r = epoch \<and> epoch \<noteq> 0)"

definition ready_validated :: "string set \<Rightarrow> controller \<Rightarrow> bool" where
  "ready_validated unproved c \<longleftrightarrow>
     (\<forall>role r. map_of (co_Roles c) role = Some r \<longrightarrow> role \<in> unproved \<or> role_validated (ns_Epoch (co_Underlay c)) r)"

lemma role_validated_zero [simp]: "role_validated e role_zero"
  by (simp add: role_validated_def role_zero_def)

lemma ready_validated_put:
  "ready_validated U c \<Longrightarrow> role \<in> U \<or> role_validated (ns_Epoch (co_Underlay c)) r \<Longrightarrow> ready_validated U (put_role role r c)"
  by (simp add: ready_validated_def)

lemma NewController_roles:
  "map_of (co_Roles (foldl (\<lambda>c s. c\<lparr>co_Specs := gomap_put (sp_ID s) s (co_Specs c),
       co_Roles := gomap_put (sp_ID s) role_zero (co_Roles c)\<rparr>) c specs)) role = Some r \<Longrightarrow>
   r = role_zero \<or> map_of (co_Roles c) role = Some r"
  by (induction specs arbitrary: c) (fastforce split: if_splits)+

lemma NewController_role: "map_of (co_Roles (NewController specs)) role = Some r \<Longrightarrow> r = role_zero"
  unfolding NewController_def by (drule NewController_roles) simp

lemma NewController_validated: "ready_validated U (NewController specs)"
  by (auto simp: ready_validated_def dest: NewController_role)

lemma underlay_role_validated:
  assumes "role_validated old r"
  shows "role_validated (ns_Epoch nxt) (underlay_role (old = 0) nxt reason r)"
  using assms by (auto simp: role_validated_def underlay_role_def)

lemma SetUnderlay_validated:
  assumes "ready_validated U c"
  shows "ready_validated U (SetUnderlay now nxt reason c)"
proof -
  have acc: "ready_validated U (accept_underlay now n reason' c)" for n reason'
    using assms by (auto simp: ready_validated_def) (metis underlay_role_validated)
  show ?thesis
    unfolding SetUnderlay_def using acc assms
    by (auto split: prod.splits simp: ready_validated_def) blast+
qed

lemma observe_role_validated:
  "role_validated epoch r \<Longrightarrow> role_validated epoch (observe_role epoch snapshot r)"
  by (auto simp: role_validated_def observe_role_def Let_def)

lemma resume_role_validated: "role_validated epoch (resume_role r)"
  by (auto simp: role_validated_def resume_role_def)

lemma BeginValidation_epoch:
  "fst (BeginValidation role c) = Some token \<Longrightarrow> vt_UnderlayEpoch token \<noteq> 0"
  by (auto simp: BeginValidation_def split: option.splits if_splits)

lemma controller_step_validated:
  assumes "controller_step c X c'" and "ready_validated U c"
  shows "ready_validated (U \<union> X) c'"
  using assms(1)
proof cases
  case (step_toad role snapshot)
  then show ?thesis
    using assms(2)
    by (auto simp: ObserveToad_def ready_validated_def split: option.splits) (metis observe_role_validated)+
next
  case (step_validated role c0 token result)
  then show ?thesis
    using assms(2) BeginValidation_epoch [of role c0 token]
    by (auto simp: CompleteValidation_def token_current_def role_validated_def Let_def
             intro!: ready_validated_put split: option.splits)
next
  case (step_resume)
  then show ?thesis
    using assms(2) by (auto simp: ready_validated_def resume_role_validated)
next
  case (step_resources role e p k v)
  then show ?thesis
    using assms(2)
    by (auto simp: UpdateRoleResources_def Let_def ready_validated_def role_validated_def split: option.splits)
next
  case (step_complete epoch role op result)
  then show ?thesis
    using assms(2) by (auto simp: Complete_def Let_def ready_validated_def role_validated_def split: option.splits)
next
  case (step_recovery state role recovery reason)
  then show ?thesis
    using assms(2) by (auto simp: SetRecovery_def ready_validated_def role_validated_def split: option.splits)
qed (use assms(2) SetUnderlay_validated in
      \<open>auto simp: SetRoleDesired_def BeginValidation_def CompleteValidationPending_def
         RequestRoleValidation_def MarkRecovering_def BeginToadGeneration_def SetRoleDiagnostic_def
         SetRetrySchedule_def Let_def role_validated_def ready_validated_def split: option.splits\<close>)

lemma ready_validated_shrink:
  "ready_validated U c \<Longrightarrow> ready_validated {role \<in> U. role_ready c role} c"
  by (auto simp: ready_validated_def role_ready_def role_validated_def)

lemma controller_reachable_validated: "controller_reachable specs U c \<Longrightarrow> ready_validated U c"
proof (induction rule: controller_reachable.induct)
  case reach_new
  show ?case by (rule NewController_validated)
next
  case (reach_step unproved c committed c')
  then show ?case by (intro ready_validated_shrink controller_step_validated)
qed

end
