(* ===== verification/Core_Recovery.thy ===== *)
theory Core_Recovery
  imports Core_Controller
begin

text \<open>
  Recovery (\<^verbatim>\<open>toad/internal/core\<close>: recovery.go, reconciler.go, recovery_runner.go,
  engine.go, role_executor.go): the decision which action a role needs, the step sequences,
  the runner that stops at the first failing step, and the engine that commits the outcome to
  the controller. The recovery driver is a record of functions over a world that holds the
  controller and the driver's own state, since drivers write to the controller too.
\<close>

section \<open>Decision\<close>

datatype recovery_action =
    ActionStop | ActionWaitForUnderlay | ActionValidate | ActionRebind | ActionRestartTransport
  | ActionRestartToad | ActionNone

definition restart_action :: "capabilities \<Rightarrow> recovery_action" where
  "restart_action caps = (if cap_RestartTransportKeepingTUN caps then ActionRestartTransport else ActionRestartToad)"

definition DecideRole :: "role_runtime \<Rightarrow> netstate_snapshot \<Rightarrow> capabilities \<Rightarrow> recovery_action" where
  "DecideRole r underlay caps =
     (if \<not> rr_Desired r then ActionStop
      else if ns_IPv4 underlay = None \<and> ns_IPv6 underlay = None then ActionWaitForUnderlay
      else if rr_State r = RoleStopped \<or> rr_State r = RoleFailed then ActionRestartToad
      else if rr_State r = RoleValidating then ActionValidate
      else if rr_State r = RoleRecovering \<and> rr_ToadGeneration r \<noteq> 0 \<and> \<not> ts_RouteReady (rr_Toad r)
        then restart_action caps
      else if rr_ToadGeneration r \<noteq> 0 \<and> ts_RouteReady (rr_Toad r) \<and> ts_State (rr_Toad r) = ''reconnecting''
        then restart_action caps
      else if rr_ValidatedEpoch r \<noteq> ns_Epoch underlay
        then (if cap_Rebind caps then ActionRebind else restart_action caps)
      else if rr_State r = RoleReady then ActionNone
      else ActionValidate)"

definition SelectTransportAction :: "role_runtime \<Rightarrow> netstate_snapshot \<Rightarrow> capabilities \<Rightarrow> recovery_action" where
  "SelectTransportAction = DecideRole"

section \<open>Sequences\<close>

definition RecoverySequence :: "recovery_step list" where
  "RecoverySequence =
     [RecoveryObserveRoutes, RecoveryPark, RecoveryWithdraw, RecoveryQuiesce, RecoveryApplyEndpoint,
      RecoveryStartTransport, RecoveryValidate, RecoveryPublish, RecoveryResyncLeshy, RecoveryObserveRestore]"

fun RecoverySequenceForAction :: "recovery_action \<Rightarrow> recovery_step list" where
  "RecoverySequenceForAction ActionValidate = [RecoveryValidate]"
| "RecoverySequenceForAction ActionRebind =
     [RecoveryObserveRoutes, RecoveryPark, RecoveryWithdraw, RecoveryQuiesce, RecoveryApplyEndpoint,
      RecoveryRebind, RecoveryValidate, RecoveryPublish, RecoveryResyncLeshy, RecoveryObserveRestore]"
| "RecoverySequenceForAction ActionRestartTransport =
     [RecoveryObserveRoutes, RecoveryPark, RecoveryWithdraw, RecoveryQuiesce, RecoveryApplyEndpoint,
      RecoveryStartTransport, RecoveryValidate, RecoveryPublish, RecoveryResyncLeshy, RecoveryObserveRestore]"
| "RecoverySequenceForAction ActionRestartToad = RecoverySequence"
| "RecoverySequenceForAction _ = []"

fun ManagedRecoverySequenceForAction :: "recovery_action \<Rightarrow> recovery_step list" where
  "ManagedRecoverySequenceForAction ActionValidate = [RecoveryValidate]"
| "ManagedRecoverySequenceForAction ActionRebind =
     [RecoveryFreezeSelected, RecoveryObserveRoutes, RecoveryPark, RecoveryWithdrawSelected,
      RecoveryWithdraw, RecoveryQuiesce, RecoveryApplyEndpoint, RecoveryRebind, RecoveryValidate,
      RecoveryRestoreSelected, RecoveryObserveRestore, RecoveryPublish, RecoveryResyncLeshy,
      RecoveryUnfreezeSelected]"
| "ManagedRecoverySequenceForAction ActionRestartTransport =
     [RecoveryFreezeSelected, RecoveryObserveRoutes, RecoveryPark, RecoveryWithdrawSelected,
      RecoveryWithdraw, RecoveryQuiesce, RecoveryApplyEndpoint, RecoveryStartTransport, RecoveryValidate,
      RecoveryRestoreSelected, RecoveryObserveRestore, RecoveryPublish, RecoveryResyncLeshy,
      RecoveryUnfreezeSelected]"
| "ManagedRecoverySequenceForAction ActionRestartToad =
     [RecoveryFreezeSelected, RecoveryObserveRoutes, RecoveryPark, RecoveryWithdrawSelected,
      RecoveryWithdraw, RecoveryQuiesce, RecoveryApplyEndpoint, RecoveryStartTransport, RecoveryValidate,
      RecoveryRestoreSelected, RecoveryObserveRestore, RecoveryPublish, RecoveryResyncLeshy,
      RecoveryUnfreezeSelected]"
| "ManagedRecoverySequenceForAction _ = []"

section \<open>Runner\<close>

type_synonym 'w recovery_work = "recovery_step \<Rightarrow> 'w \<Rightarrow> goerror option \<times> 'w"

fun run_steps ::
  "'w recovery_work \<Rightarrow> recovery_step list \<Rightarrow> recovery_state \<Rightarrow> 'w \<Rightarrow> goerror option \<times> recovery_state \<times> 'w" where
  "run_steps work [] rec w = (None, rec\<lparr>rs_Step := StepNone, rs_LastError := []\<rparr>, w)"
| "run_steps work (step # steps) rec w =
     (let rec = rec\<lparr>rs_Step := step, rs_LastError := []\<rparr>
      in case work step w of
           (Some e, w') \<Rightarrow> (Some e, rec\<lparr>rs_LastError := error_text e\<rparr>, w')
         | (None, w') \<Rightarrow> run_steps work steps rec w')"

definition RunRecoverySteps ::
  "role_runtime \<Rightarrow> u64 \<Rightarrow> u64 \<Rightarrow> recovery_step list \<Rightarrow> 'w recovery_work \<Rightarrow> 'w \<Rightarrow>
     goerror option \<times> role_runtime \<times> 'w" where
  "RunRecoverySteps role op epoch steps work w =
     (let rec = (rr_Recovery role)\<lparr>rs_Operation := op, rs_Epoch := epoch,
                                  rs_Attempt := rs_Attempt (rr_Recovery role) + 1\<rparr>
      in case run_steps work steps rec w of
           (err, rec', w') \<Rightarrow> (err, role\<lparr>rr_Recovery := rec'\<rparr>, w'))"

definition RunRecovery ::
  "role_runtime \<Rightarrow> u64 \<Rightarrow> u64 \<Rightarrow> 'w recovery_work \<Rightarrow> 'w \<Rightarrow> goerror option \<times> role_runtime \<times> 'w" where
  "RunRecovery role op epoch work w = RunRecoverySteps role op epoch RecoverySequence work w"

section \<open>Engine\<close>

record 'd engine_world =
  ew_Controller :: controller
  ew_Driver :: 'd

type_synonym 'd driver_call = "string \<Rightarrow> 'd engine_world \<Rightarrow> goerror option \<times> 'd engine_world"

record 'd recovery_driver =
  dr_ObserveRoutes :: "'d driver_call"
  dr_Park :: "'d driver_call"
  dr_Withdraw :: "'d driver_call"
  dr_Quiesce :: "'d driver_call"
  dr_ApplyEndpoint :: "'d driver_call"
  dr_Rebind :: "'d driver_call"
  dr_StartTransport :: "'d driver_call"
  dr_Validate :: "'d driver_call"
  dr_Publish :: "'d driver_call"
  dr_ResyncLeshy :: "'d driver_call"
  dr_ObserveRestoration :: "'d driver_call"
  dr_FreezeSelected :: "'d driver_call"
  dr_WithdrawSelected :: "'d driver_call"
  dr_RestoreSelected :: "'d driver_call"
  dr_UnfreezeSelected :: "'d driver_call"
  dr_ReleaseResources :: "'d driver_call"

record 'd engine =
  eg_Configured :: bool
  eg_Driver :: "'d recovery_driver"
  eg_Cancelled :: "('d engine_world \<Rightarrow> bool) option"
  eg_ManagedSelectedRoutes :: "(string \<Rightarrow> bool) option"

definition engine_cancelled :: "'d engine \<Rightarrow> 'd engine_world \<Rightarrow> bool" where
  "engine_cancelled e w = (case eg_Cancelled e of None \<Rightarrow> False | Some f \<Rightarrow> f w)"

fun driver_step :: "'d recovery_driver \<Rightarrow> recovery_step \<Rightarrow> 'd driver_call" where
  "driver_step d RecoveryObserveRoutes = dr_ObserveRoutes d"
| "driver_step d RecoveryPark = dr_Park d"
| "driver_step d RecoveryWithdrawSelected = dr_WithdrawSelected d"
| "driver_step d RecoveryWithdraw = dr_Withdraw d"
| "driver_step d RecoveryQuiesce = dr_Quiesce d"
| "driver_step d RecoveryApplyEndpoint = dr_ApplyEndpoint d"
| "driver_step d RecoveryRebind = dr_Rebind d"
| "driver_step d RecoveryStartTransport = dr_StartTransport d"
| "driver_step d RecoveryValidate = dr_Validate d"
| "driver_step d RecoveryPublish = dr_Publish d"
| "driver_step d RecoveryResyncLeshy = dr_ResyncLeshy d"
| "driver_step d RecoveryObserveRestore = dr_ObserveRestoration d"
| "driver_step d RecoveryFreezeSelected = dr_FreezeSelected d"
| "driver_step d RecoveryRestoreSelected = dr_RestoreSelected d"
| "driver_step d RecoveryUnfreezeSelected = dr_UnfreezeSelected d"
| "driver_step d StepNone = (\<lambda>role w. (Some (Errorf ''unknown recovery step %q''), w))"

definition engine_work :: "'d engine \<Rightarrow> string \<Rightarrow> 'd engine_world recovery_work" where
  "engine_work e role step w =
     (if engine_cancelled e w then (Some (Sentinel ErrRecoveryCancelled), w)
      else driver_step (eg_Driver e) step role w)"

definition failed_state :: "goerror \<Rightarrow> role_state" where
  "failed_state err =
     (if errorsIs err ErrRoutesStillParked then RoleRecovering
      else if errorsIs err ErrValidationPending then RoleRecovering
      else if errorsIs err ErrUnderlayPathUnavailable then RoleRecovering
      else if errorsIs err ErrEndpointResolutionPending then RoleRecovering
      else if errorsIs err ErrToadRestartPending then RoleStarting
      else RoleFailed)"

definition engine_steps :: "'d engine \<Rightarrow> string \<Rightarrow> role_runtime \<Rightarrow> netstate_snapshot \<Rightarrow> recovery_step list" where
  "engine_steps e role current underlay =
     (let action = SelectTransportAction current underlay (ts_Capabilities (rr_Toad current))
      in if (case eg_ManagedSelectedRoutes e of None \<Rightarrow> False | Some f \<Rightarrow> f role)
         then ManagedRecoverySequenceForAction action else RecoverySequenceForAction action)"

definition commit_recovery ::
  "string \<Rightarrow> recovery_state \<Rightarrow> role_state \<Rightarrow> string \<Rightarrow> 'd engine_world \<Rightarrow> 'd engine_world" where
  "commit_recovery role rec state reason w =
     w\<lparr>ew_Controller := snd (SetRecovery role rec state reason (ew_Controller w))\<rparr>"

definition Recover ::
  "'d engine \<Rightarrow> string \<Rightarrow> u64 \<Rightarrow> u64 \<Rightarrow> 'd engine_world \<Rightarrow> goerror option \<times> 'd engine_world" where
  "Recover e role operation epoch w =
     (if \<not> eg_Configured e then (Some (Errorf ''recovery engine is not configured''), w)
      else case controller_Role (ew_Controller w) role of
             None \<Rightarrow> (Some (Errorf ''unknown role %q''), w)
           | Some current \<Rightarrow>
               let steps = engine_steps e role current (cs_Underlay (controller_Snapshot (ew_Controller w)))
               in if steps = [] then (None, w)
                  else case RunRecoverySteps current operation epoch steps (engine_work e role) w of
                         (Some err, state, w') \<Rightarrow>
                           if errorsIs err ErrRecoveryCancelled \<or> engine_cancelled e w' then (Some err, w')
                           else (Some err, commit_recovery role (rr_Recovery state) (failed_state err)
                                             (rs_LastError (rr_Recovery state)) w')
                       | (None, state, w') \<Rightarrow>
                           if engine_cancelled e w' then (Some (Sentinel ErrRecoveryCancelled), w')
                           else (None, commit_recovery role (rr_Recovery state) RoleReady ''recovery complete'' w'))"

section \<open>Per-role workers\<close>

text \<open>
  \<^verbatim>\<open>RoleExecutor\<close>: the cancel functions are the identifiers of the contexts they cancel. A
  worker is submitted, may be cancelled, and at its end runs the deferred clean-up.
\<close>

record role_executor =
  rx_Next :: "(string, u64) gomap"
  rx_Cancel :: "(string, nat) gomap"
  rx_Cancelled :: "nat list"
  rx_Started :: nat

definition NewRoleExecutor :: role_executor where
  "NewRoleExecutor = \<lparr>rx_Next = [], rx_Cancel = [], rx_Cancelled = [], rx_Started = 0\<rparr>"

definition executor_Submit :: "string \<Rightarrow> u64 \<Rightarrow> role_executor \<Rightarrow> nat \<times> role_executor" where
  "executor_Submit role op e =
     (let ctx = rx_Started e;
          e1 = (case map_of (rx_Cancel e) role of
                  None \<Rightarrow> e
                | Some previous \<Rightarrow> e\<lparr>rx_Cancelled := previous # rx_Cancelled e\<rparr>)
      in (ctx, e1\<lparr>rx_Next := gomap_put role op (rx_Next e), rx_Cancel := gomap_put role ctx (rx_Cancel e),
                  rx_Started := Suc ctx\<rparr>))"

definition executor_finish :: "string \<Rightarrow> u64 \<Rightarrow> role_executor \<Rightarrow> role_executor" where
  "executor_finish role op e =
     (if map_of (rx_Next e) role = Some op \<or> map_of (rx_Next e) role = None \<and> op = 0
      then e\<lparr>rx_Cancel := gomap_del role (rx_Cancel e)\<rparr> else e)"

definition executor_Cancel :: "string \<Rightarrow> role_executor \<Rightarrow> role_executor" where
  "executor_Cancel role e =
     (case map_of (rx_Cancel e) role of
        None \<Rightarrow> e
      | Some ctx \<Rightarrow> e\<lparr>rx_Cancelled := ctx # rx_Cancelled e, rx_Cancel := gomap_del role (rx_Cancel e)\<rparr>)"

definition executor_Current :: "string \<Rightarrow> role_executor \<Rightarrow> u64" where
  "executor_Current role e = (case map_of (rx_Next e) role of None \<Rightarrow> 0 | Some op \<Rightarrow> op)"

section \<open>What a run does\<close>

text \<open>The same work with a log of the calls made and what they returned.\<close>

definition logged :: "'w recovery_work \<Rightarrow> ('w \<times> (recovery_step \<times> goerror option) list) recovery_work" where
  "logged work step s =
     (case s of (w, log) \<Rightarrow> (case work step w of (r, w') \<Rightarrow> (r, (w', log @ [(step, r)]))))"

lemma logged_apply [simp]:
  "logged work step (w, log) = (case work step w of (r, w') \<Rightarrow> (r, (w', log @ [(step, r)])))"
  by (simp add: logged_def)

lemma run_steps_log:
  assumes "run_steps (logged work) steps rec (w, log) = (err, rec', (w', log'))"
  shows "run_steps work steps rec w = (err, rec', w') \<and>
    (\<exists>ran rest. log' = log @ ran \<and> steps = map fst ran @ rest \<and>
       (\<forall>x \<in> set (butlast ran). snd x = None) \<and>
       (case err of
          None \<Rightarrow> rest = [] \<and> (\<forall>x \<in> set ran. snd x = None) \<and> rs_Step rec' = StepNone
        | Some e \<Rightarrow> ran \<noteq> [] \<and> last ran = (rs_Step rec', Some e) \<and> rs_LastError rec' = error_text e))"
  using assms
proof (induction steps arbitrary: rec w log)
  case Nil
  then show ?case by auto
next
  case (Cons step steps)
  obtain r w1 where call: "work step w = (r, w1)" by force
  show ?case
  proof (cases r)
    case None
    let ?rec = "rec\<lparr>rs_Step := step, rs_LastError := []\<rparr>"
    from Cons.prems call None
    have run: "run_steps (logged work) steps ?rec (w1, log @ [(step, None)]) = (err, rec', (w', log'))"
      by (simp add: Let_def)
    from Cons.IH [OF run] obtain ran rest where ih: "run_steps work steps ?rec w1 = (err, rec', w')"
        "log' = (log @ [(step, None)]) @ ran" "steps = map fst ran @ rest"
        "\<forall>x \<in> set (butlast ran). snd x = None"
        "case err of None \<Rightarrow> rest = [] \<and> (\<forall>x \<in> set ran. snd x = None) \<and> rs_Step rec' = StepNone
          | Some e \<Rightarrow> ran \<noteq> [] \<and> last ran = (rs_Step rec', Some e) \<and> rs_LastError rec' = error_text e"
      by blast
    show ?thesis
      using ih call None
      by (intro conjI exI [of _ "(step, None) # ran"] exI [of _ rest]) (auto split: option.splits)
  next
    case (Some e)
    with Cons.prems call show ?thesis
      by (auto simp: Let_def intro!: exI [of _ "[(step, Some e)]"])
  qed
qed

lemma log_exists:
  "\<exists>err rec' w' log. run_steps (logged work) steps rec (w, []) = (err, rec', (w', log))"
  by (metis surj_pair)

text \<open>A step is called only when every step before it in the sequence was called and succeeded.\<close>

lemma called_after_predecessors:
  assumes run: "run_steps (logged work) steps rec (w, []) = (err, rec', (w', pre @ (s, r) # post))"
    and dist: "distinct steps" and q: "q \<in> set (takeWhile (\<lambda>t. t \<noteq> s) steps)"
  shows "(q, None) \<in> set pre"
proof -
  from run_steps_log [OF run] obtain rest where
    steps: "steps = map fst (pre @ (s, r) # post) @ rest"
    and none: "\<forall>x \<in> set (butlast (pre @ (s, r) # post)). snd x = None"
    by auto
  have "s \<notin> set (map fst pre)" using dist steps by auto
  then have "takeWhile (\<lambda>t. t \<noteq> s) steps = map fst pre"
    unfolding steps by (induction pre) auto
  with q obtain x where "x \<in> set pre" "fst x = q" by auto
  moreover from \<open>x \<in> set pre\<close> none have "snd x = None" by (auto simp: butlast_append)
  ultimately show ?thesis by (metis prod.collapse)
qed

lemma sequences_distinct [simp]:
  "distinct (RecoverySequenceForAction a)" "distinct (ManagedRecoverySequenceForAction a)"
  by (cases a; simp add: RecoverySequence_def)+

lemma RunRecoverySteps_eq:
  "RunRecoverySteps role op epoch steps work w = (err, role', w') \<Longrightarrow>
     role' = role\<lparr>rr_Recovery := rr_Recovery role'\<rparr> \<and>
     run_steps work steps ((rr_Recovery role)\<lparr>rs_Operation := op, rs_Epoch := epoch,
        rs_Attempt := rs_Attempt (rr_Recovery role) + 1\<rparr>) w = (err, rr_Recovery role', w')"
  by (auto simp: RunRecoverySteps_def Let_def split: prod.splits)

lemma run_steps_fields:
  "run_steps work steps rec w = (err, rec', w') \<Longrightarrow>
     rs_Operation rec' = rs_Operation rec \<and> rs_Epoch rec' = rs_Epoch rec \<and> rs_Attempt rec' = rs_Attempt rec \<and>
     rs_NextRetryAt rec' = rs_NextRetryAt rec"
  by (induction steps arbitrary: rec w) (fastforce simp: Let_def split: prod.splits option.splits)+

lemma run_steps_failure:
  "run_steps work steps rec w = (err, rec', w') \<Longrightarrow>
     (case err of None \<Rightarrow> rs_Step rec' = StepNone
      | Some x \<Rightarrow> rs_Step rec' \<in> set steps \<and> rs_LastError rec' = error_text x)"
  by (induction steps arbitrary: rec w) (fastforce simp: Let_def split: prod.splits option.splits)+

text \<open>An invariant of the world that every driver call keeps is kept by the run.\<close>

lemma run_steps_keeps:
  assumes "\<And>step w r w'. step \<in> set steps \<Longrightarrow> I w \<Longrightarrow> work step w = (r, w') \<Longrightarrow> I w'"
    and "run_steps work steps rec w = (err, rec', w')" and "I w"
  shows "I w'"
  using assms
proof (induction steps arbitrary: rec w)
  case (Cons step steps)
  obtain r w1 where call: "work step w = (r, w1)" by force
  with Cons.prems have "I w1" by auto
  show ?case
  proof (cases r)
    case None
    with Cons.prems(2) call
    have "run_steps work steps (rec\<lparr>rs_Step := step, rs_LastError := []\<rparr>) w1 = (err, rec', w')"
      by (simp add: Let_def)
    with Cons.IH [OF _ _ \<open>I w1\<close>] Cons.prems(1) show ?thesis by (meson list.set_intros(2))
  next
    case (Some e)
    with Cons.prems(2) call \<open>I w1\<close> show ?thesis by (auto simp: Let_def)
  qed
qed auto

end
