(* ===== verification/Core_Properties.thy ===== *)
theory Core_Properties
  imports Core_Recovery
begin

text \<open>
  The properties of the core (\<^verbatim>\<open>toad/internal/core\<close>, \<^verbatim>\<open>netstate\<close>, \<^verbatim>\<open>toadctl\<close>, \<^verbatim>\<open>endpoint\<close>): epochs
  of the underlay, frames of the control protocol, endpoint refresh, the controller's state
  machine and the recovery engine.
\<close>

section \<open>Underlay\<close>

text \<open>C30: comparing an observed underlay with the current one keeps everything observed, advances the
  epoch by one exactly when the identity changed (the paths of both families or the access point,
  not the timestamps), and reports a change exactly then.\<close>

theorem underlay_epoch_tracks_identity:
  "Compare old nxt =
     (nxt\<lparr>ns_Epoch := (if IdentityEqual old nxt then ns_Epoch old else ns_Epoch old + 1)\<rparr>,
      fst (snd (Compare old nxt)), \<not> IdentityEqual old nxt) \<and>
   (IdentityEqual old nxt \<longleftrightarrow> ns_IPv4 old = ns_IPv4 nxt \<and> ns_IPv6 old = ns_IPv6 nxt \<and>
      md_BSSID (ns_Metadata old) = md_BSSID (ns_Metadata nxt))"
  using Compare_identity [of old nxt] Compare_unchanged_iff [of old nxt]
  by (auto simp: prod_eq_iff IdentityEqual_iff Compare_epoch)

section \<open>Frames\<close>

text \<open>A value written as a frame is read back from any stream that starts with it, and the rest
  of the stream is left, whenever the encoding itself can be undone.\<close>

lemma frame_roundtrip:
  assumes "writeFrame marshal v = Inr bytes" and "\<And>b. marshal v = Inr b \<Longrightarrow> unmarshal b = Inr v"
  shows "readFrame unmarshal (bytes @ rest) = (Inr v, rest)"
proof -
  from assms(1) obtain b where b: "marshal v = Inr b" "b \<noteq> []" "int (length b) \<le> maxFrame"
    "bytes = bigEndian_PutUint32 (word_of_nat (length b)) @ b"
    by (auto simp: writeFrame_def split: sum.splits if_splits)
  let ?n = "word_of_nat (length b) :: u32"
  from b(3) have small: "length b < 2 ^ 32" by (simp add: maxFrame_def)
  then have unat: "unat ?n = length b" by (simp add: unsigned_of_nat take_bit_nat_eq_self)
  have len: "length (bigEndian_PutUint32 ?n) = 4" by (simp add: bigEndian_PutUint32_def)
  have uint: "uint ?n = int (length b)" by (metis uint_nat unat)
  have "?n \<noteq> 0" using b(2) unat by (metis length_0_conv unat_0)
  then show ?thesis
    using b assms(2) [OF b(1)] len unat uint
    by (simp add: readFrame_def Let_def bigEndian_roundtrip)
qed

text \<open>Reading a frame never takes more than the four bytes of the header and the announced
  size, which is between one byte and one megabyte.\<close>

lemma frame_bounds:
  assumes "readFrame unmarshal r = (Inr v, rest)"
  shows "\<exists>n. 0 < n \<and> int n \<le> maxFrame \<and> length r = 4 + n + length rest \<and> unmarshal (take n (drop 4 r)) = Inr v"
proof -
  let ?n = "bigEndian_Uint32 (take 4 r)"
  from assms have n: "4 \<le> length r" "?n \<noteq> 0" "uint ?n \<le> maxFrame" "uint ?n \<le> int (length r) - 4"
    "unmarshal (take (unat ?n) (drop 4 r)) = Inr v" "rest = drop (unat ?n) (drop 4 r)"
    by (auto simp: readFrame_def Let_def split: if_splits)
  have u: "uint ?n = int (unat ?n)" by (rule uint_nat)
  then have "unat ?n + 4 \<le> length r" using n(1, 4) by linarith
  moreover have "0 < unat ?n" using n(2) by (simp add: unat_gt_0)
  moreover have "int (unat ?n) \<le> maxFrame" using n(3) unfolding u .
  ultimately show ?thesis using n(5, 6) by (intro exI [of _ "unat ?n"] conjI) simp_all
qed

section \<open>Endpoints\<close>

text \<open>Refreshing the endpoints of a role is all or nothing: it commits the addresses of every
  candidate, in order and for the given epoch, when each of them has one, and otherwise keeps what
  was applied before and only reports the state as degraded.\<close>

lemma endpoint_refresh_all_or_nothing:
  "if specs \<noteq> [] \<and> (\<forall>spec \<in> set specs. spec_addresses rs spec \<noteq> [])
   then (\<exists>st. RefreshSpecsWithError epoch specs rs previous = (st, None) \<and> en_State st = ''ready'' \<and>
           en_AppliedUnderlayEpoch st = epoch \<and> en_Live st = concat (map (spec_addresses rs) specs))
   else (\<exists>st err. RefreshSpecsWithError epoch specs rs previous = (st, err) \<and> en_State st = ''degraded'' \<and>
           en_AppliedUnderlayEpoch st = en_AppliedUnderlayEpoch previous \<and> en_Live st = en_Live previous \<and>
           en_Resolved st = en_Resolved previous \<and> en_Configured st = en_Configured previous)"
proof (cases "specs \<noteq> [] \<and> (\<forall>spec \<in> set specs. spec_addresses rs spec \<noteq> [])")
  case True
  then show ?thesis by (auto simp: RefreshSpecsWithError_def resolve_all_Inr endpoint_commit_def)
next
  case False
  show ?thesis
  proof (cases "specs = []")
    case True
    then show ?thesis by (simp add: RefreshSpecsWithError_def)
  next
    case ne: False
    with False obtain spec where "spec \<in> set specs" "spec_addresses rs spec = []" by blast
    from resolve_all_Inl [OF this] obtain msg err where "resolve_all rs specs = Inl (msg, err)" by (metis prod.collapse)
    with False ne show ?thesis by (simp add: RefreshSpecsWithError_def)
  qed
qed

text \<open>Every endpoint specification read from a provider's text is well formed: of the requested
  network, with a port that is not zero, and either a valid address or a host name without
  brackets, colons, question marks and empty labels.\<close>

lemma parsed_specs_well_formed:
  assumes "ParseSpecs text network port = Inr specs" and "spec \<in> set specs"
  shows "spec_wf (if network = [] then ''tcp'' else network) spec"
  by (rule ParseSpecs_wf [OF assms])

lemma parsed_specs_well_formed_witness:
  "\<exists>specs spec. ParseSpecs ''10.0.0.1:51820'' [] 0 = Inr specs \<and> spec \<in> set specs \<and> spec_wf ''tcp'' spec"
proof -
  have "case ParseSpecs ''10.0.0.1:51820'' [] 0 of Inl e \<Rightarrow> False | Inr specs \<Rightarrow> specs \<noteq> []" by code_simp
  then obtain specs where specs: "ParseSpecs ''10.0.0.1:51820'' [] 0 = Inr specs" "specs \<noteq> []"
    by (auto split: sum.splits)
  then have "hd specs \<in> set specs" by simp
  from parsed_specs_well_formed [OF specs(1) this] have "spec_wf ''tcp'' (hd specs)" by simp
  with specs(1) \<open>hd specs \<in> set specs\<close> show ?thesis by blast
qed

section \<open>The controller\<close>

text \<open>C31: in every state the controller reaches through any of its operations, a role that is desired and
  reported ready was validated against the current, known underlay, unless its Ready was written
  by one of the two operations that do not ask for a validation (the final commit of a recovery
  run, and a completion for the epoch of an unknown underlay) and it has been reported ready ever
  since. No other operation, in any order and with any arguments, makes or leaves an unvalidated
  role ready.\<close>

theorem ready_means_validated:
  assumes "controller_reachable specs unproved c" and "controller_Role c role = Some r"
    and "rr_Desired r" and "rr_State r = RoleReady" and "role \<notin> unproved"
  shows "rr_ValidatedEpoch r = ns_Epoch (co_Underlay c) \<and> ns_Epoch (co_Underlay c) \<noteq> 0"
proof -
  have "role_validated (ns_Epoch (co_Underlay c)) r"
    using controller_reachable_validated [OF assms(1)] assms(2,5) by (auto simp: ready_validated_def controller_Role_def)
  with assms(3,4) show ?thesis by (simp add: role_validated_def)
qed

definition wired_path :: net_path where
  "wired_path = \<lparr>pa_Family = 4, pa_IfIndex = 2, pa_Interface = ''eth0'', pa_Gateway = Addr4 1, pa_PreferredSrc = Addr4 2,
     pa_MTU = 1500, pa_Table = 254, pa_Metric = 100\<rparr>"

definition wired :: netstate_snapshot where
  "wired = netstate_zero\<lparr>ns_IPv4 := Some wired_path\<rparr>"

definition home_spec :: role_spec where
  "home_spec = \<lparr>sp_ID = ''home'', sp_Protocol = ''wireguard'', sp_Interface = ''tun0'', sp_LeshyZone = ''z''\<rparr>"

definition online :: "u64 \<Rightarrow> toad_snapshot" where
  "online g = toad_zero\<lparr>ts_Generation := g, ts_State := ''online'', ts_RouteReady := True, ts_IfIndex := 7\<rparr>"

definition healthy :: validation_result where
  "healthy = validation_zero\<lparr>vr_Healthy := True\<rparr>"

text \<open>A role brought up: desired, on an underlay, its Toad online, validation begun.\<close>

definition validating :: controller where
  "validating = snd (ObserveToad ''home'' (online 1)
     (SetUnderlay 0 wired ReasonNone (snd (SetRoleDesired ''home'' True (NewController [home_spec])))))"

definition brought_up :: controller where
  "brought_up = (case BeginValidation ''home'' validating of
     (None, c) \<Rightarrow> c | (Some token, c) \<Rightarrow> snd (CompleteValidation token healthy c))"

lemma reach_checked: "controller_reachable specs {} c \<Longrightarrow> controller_step c {} c' \<Longrightarrow> controller_reachable specs {} c'"
  by (drule (1) reach_step) simp

lemma validating_reachable: "controller_reachable [home_spec] {} validating"
  unfolding validating_def
  by (intro reach_checked [OF _ step_toad] reach_checked [OF _ step_underlay] reach_checked [OF _ step_desired] reach_new)

lemma brought_up_reachable: "controller_reachable [home_spec] {} brought_up"
proof -
  obtain x c where b: "BeginValidation ''home'' validating = (x, c)" by force
  have c: "controller_reachable [home_spec] {} c"
    using reach_checked [OF validating_reachable step_begin [of validating "''home''"]] b by simp
  show ?thesis
  proof (cases x)
    case (Some token)
    with b have "fst (BeginValidation ''home'' validating) = Some token" by simp
    from reach_checked [OF c step_validated [OF this, of c healthy]] b Some show ?thesis by (simp add: brought_up_def)
  qed (use b c in \<open>simp add: brought_up_def\<close>)
qed

theorem ready_means_validated_witness:
  "\<exists>r. controller_Role brought_up ''home'' = Some r \<and> rr_State r = RoleReady \<and>
     rr_ValidatedEpoch r = ns_Epoch (co_Underlay brought_up)"
proof -
  have "map_option (\<lambda>r. (rr_Desired r, rr_State r)) (controller_Role brought_up ''home'') = Some (True, RoleReady)" by code_simp
  then obtain r where r: "controller_Role brought_up ''home'' = Some r" "rr_Desired r" "rr_State r = RoleReady" by auto
  from ready_means_validated [OF brought_up_reachable r] r show ?thesis by simp
qed

text \<open>A validation that was begun before the role was switched, its Toad was replaced or the
  underlay changed cannot complete any more: the late result is refused and changes nothing.\<close>

lemma stale_validation_refused:
  assumes "fst (BeginValidation role c0) = Some token" and "controller_Role c role = Some r"
    and "rr_Operation r \<noteq> vt_Operation token \<or> rr_ToadGeneration r \<noteq> vt_ToadGeneration token \<or>
         ns_Epoch (co_Underlay c) \<noteq> vt_UnderlayEpoch token \<or> \<not> rr_Desired r"
  shows "CompleteValidation token result c = (False, c) \<and> CompleteValidationPending token result c = (False, c)"
proof -
  have "vt_Role token = role"
    using assms(1) by (auto simp: BeginValidation_def split: option.splits if_splits)
  moreover have "\<not> token_current token c r" using assms(3) by (auto simp: token_current_def)
  ultimately show ?thesis
    using assms(2) by (simp add: CompleteValidation_def CompleteValidationPending_def controller_Role_def)
qed

definition mobile :: netstate_snapshot where
  "mobile = netstate_zero\<lparr>ns_IPv4 := Some (wired_path\<lparr>pa_IfIndex := 3, pa_Interface := ''wwan0''\<rparr>)\<rparr>"

definition validation_begun :: validation_token where
  "validation_begun = \<lparr>vt_Role = ''home'', vt_Operation = 1, vt_ToadGeneration = 1, vt_UnderlayEpoch = 1\<rparr>"

lemma stale_validation_refused_witness:
  "fst (CompleteValidation validation_begun healthy (SetUnderlay 0 mobile ReasonNone (snd (BeginValidation ''home'' validating)))) = False"
proof -
  let ?c = "SetUnderlay 0 mobile ReasonNone (snd (BeginValidation ''home'' validating))"
  have token: "fst (BeginValidation ''home'' validating) = Some validation_begun" by code_simp
  have "controller_Role ?c ''home'' \<noteq> None" by code_simp
  then obtain r where r: "controller_Role ?c ''home'' = Some r" by blast
  have "ns_Epoch (co_Underlay ?c) \<noteq> vt_UnderlayEpoch validation_begun" by code_simp
  with stale_validation_refused [OF token r, of healthy] show ?thesis by simp
qed

text \<open>The report of a Toad process of another generation than the current one is refused and
  changes nothing, and starting a new generation takes back everything the old one had proved.\<close>

lemma toad_generation_isolated:
  assumes "controller_Role c role = Some r"
  shows "(rr_ToadGeneration r \<noteq> 0 \<and> rr_ToadGeneration r \<noteq> ts_Generation snapshot \<longrightarrow>
            ObserveToad role snapshot c = (False, c)) \<and>
         (\<exists>r'. controller_Role (snd (BeginToadGeneration role c)) role = Some r' \<and> rr_ToadGeneration r' = 0 \<and>
            rr_Toad r' = toad_zero \<and> rr_ValidatedEpoch r' = 0 \<and> rr_Validation r' = validation_zero \<and>
            (rr_Desired r \<longrightarrow> rr_State r' = RoleStarting))"
  using assms by (simp add: ObserveToad_def BeginToadGeneration_def controller_Role_def Let_def)

section \<open>The recovery engine\<close>

text \<open>C32: in a run of a managed recovery a step is called only after every step before it in the
  sequence was called and succeeded; in particular routes are withdrawn only from a frozen role whose
  parks are in place, and a role is opened again only after its restoration was observed and
  published.\<close>

theorem managed_recovery_order:
  assumes "run_steps (logged work) (ManagedRecoverySequenceForAction a) rec (w, []) = (err, rec', (w', log))"
  shows "(log = pre @ (RecoveryWithdrawSelected, x) # post \<longrightarrow>
            (RecoveryFreezeSelected, None) \<in> set pre \<and> (RecoveryPark, None) \<in> set pre) \<and>
         (log = pre @ (RecoveryUnfreezeSelected, x) # post \<longrightarrow>
            (RecoveryValidate, None) \<in> set pre \<and> (RecoveryObserveRestore, None) \<in> set pre \<and>
            (RecoveryPublish, None) \<in> set pre)"
proof -
  note after = called_after_predecessors [OF _ sequences_distinct(2) [of a], of work rec w err rec' w']
  have called: "s \<in> set (ManagedRecoverySequenceForAction a)" if "log = pre @ (s, x) # post" for s
    using run_steps_log [OF assms] that by (auto simp: append_eq_append_conv2) 
  show ?thesis
  proof (intro conjI impI)
    assume log: "log = pre @ (RecoveryWithdrawSelected, x) # post"
    from assms log have run: "run_steps (logged work) (ManagedRecoverySequenceForAction a) rec (w, []) =
        (err, rec', (w', pre @ (RecoveryWithdrawSelected, x) # post))" by simp
    from called [OF log] after [OF run] show "(RecoveryFreezeSelected, None) \<in> set pre" "(RecoveryPark, None) \<in> set pre"
      by (cases a; simp)+
  next
    assume log: "log = pre @ (RecoveryUnfreezeSelected, x) # post"
    from assms log have run: "run_steps (logged work) (ManagedRecoverySequenceForAction a) rec (w, []) =
        (err, rec', (w', pre @ (RecoveryUnfreezeSelected, x) # post))" by simp
    from called [OF log] after [OF run] show "(RecoveryValidate, None) \<in> set pre"
      "(RecoveryObserveRestore, None) \<in> set pre" "(RecoveryPublish, None) \<in> set pre"
      by (cases a; simp)+
  qed
qed

theorem managed_recovery_order_witness:
  "(RecoveryFreezeSelected, None :: goerror option) \<in> set (map (\<lambda>s. (s, None)) (takeWhile (\<lambda>s. s \<noteq> RecoveryWithdrawSelected)
      (ManagedRecoverySequenceForAction ActionRebind)))"
proof -
  let ?steps = "ManagedRecoverySequenceForAction ActionRebind"
  let ?log = "map (\<lambda>s. (s, None :: goerror option)) ?steps"
  have run: "run_steps (logged (\<lambda>s w. (None, w))) ?steps recovery_zero ((), []) = (None, recovery_zero, ((), ?log))"
    by (simp add: Let_def recovery_zero_def)
  have "?log = map (\<lambda>s. (s, None)) (takeWhile (\<lambda>s. s \<noteq> RecoveryWithdrawSelected) ?steps) @
      (RecoveryWithdrawSelected, None) # map (\<lambda>s. (s, None)) (drop 4 ?steps)" by simp
  with managed_recovery_order [OF run] show ?thesis by blast
qed

text \<open>A recovery that had steps to run and was not cancelled commits its verdict to the role: after
  a success the role is Ready and no step is pending; after a failure the role is never Ready, its
  state says whether the failure is worth a retry, and it names the step that failed. Every run
  counts as one more attempt of the operation it was started for.\<close>

lemma recover_commits_verdict:
  assumes "Recover e role op epoch w = (res, w')" and "eg_Configured e"
    and "controller_Role (ew_Controller w) role = Some current"
    and "engine_steps e role current (co_Underlay (ew_Controller w)) \<noteq> []"
    and "\<not> engine_cancelled e w'" and "\<And>err. res = Some err \<Longrightarrow> \<not> errorsIs err ErrRecoveryCancelled"
    and "\<And>x y. ew_Driver x = ew_Driver y \<Longrightarrow> engine_cancelled e x = engine_cancelled e y"
    and "controller_Role (ew_Controller w') role = Some r"
  shows "rs_Operation (rr_Recovery r) = op \<and> rs_Epoch (rr_Recovery r) = epoch \<and>
    rs_Attempt (rr_Recovery r) = rs_Attempt (rr_Recovery current) + 1 \<and>
    (case res of
       None \<Rightarrow> rr_State r = RoleReady \<and> rs_Step (rr_Recovery r) = StepNone
     | Some err \<Rightarrow> rr_State r = failed_state err \<and> rr_State r \<noteq> RoleReady \<and>
         rs_LastError (rr_Recovery r) = error_text err \<and>
         rs_Step (rr_Recovery r) \<in> set (engine_steps e role current (co_Underlay (ew_Controller w))))"
proof -
  let ?steps = "engine_steps e role current (co_Underlay (ew_Controller w))"
  obtain err state w1 where run: "RunRecoverySteps current op epoch ?steps (engine_work e role) w = (err, state, w1)"
    using prod_cases3 by blast
  have same: "engine_cancelled e (commit_recovery role rec st why w1) = engine_cancelled e w1" for rec st why
    by (rule assms(7)) (simp add: commit_recovery_def)
  have steps: "run_steps (engine_work e role) ?steps ((rr_Recovery current)\<lparr>rs_Operation := op, rs_Epoch := epoch,
      rs_Attempt := rs_Attempt (rr_Recovery current) + 1\<rparr>) w = (err, rr_Recovery state, w1)"
    using RunRecoverySteps_eq [OF run] by simp
  from run_steps_fields [OF steps] run_steps_failure [OF steps]
  have fields: "rs_Operation (rr_Recovery state) = op" "rs_Epoch (rr_Recovery state) = epoch"
    "rs_Attempt (rr_Recovery state) = rs_Attempt (rr_Recovery current) + 1"
    and at: "case err of None \<Rightarrow> rs_Step (rr_Recovery state) = StepNone
      | Some x \<Rightarrow> rs_Step (rr_Recovery state) \<in> set ?steps \<and> rs_LastError (rr_Recovery state) = error_text x" by simp_all
  have res: "res = err" and w': "w' = commit_recovery role (rr_Recovery state)
      (case err of None \<Rightarrow> RoleReady | Some x \<Rightarrow> failed_state x)
      (case err of None \<Rightarrow> ''recovery complete'' | Some x \<Rightarrow> rs_LastError (rr_Recovery state)) w1"
    using assms(1 - 6) run same
    by (auto simp: Recover_def Let_def controller_Snapshot_def split: option.splits if_splits)
  show ?thesis
    using assms(8) at fields unfolding w' res
    by (auto simp: commit_recovery_def SetRecovery_def controller_Role_def failed_state_def split: option.splits if_splits)
qed

text \<open>A driver whose calls all succeed, one whose validation stays pending, and one that validates
  the role and loses the underlay it validated while it publishes.\<close>

definition quiet :: "unit recovery_driver" where
  "quiet = (let ok = (\<lambda>role w. (None, w)) in
     \<lparr>dr_ObserveRoutes = ok, dr_Park = ok, dr_Withdraw = ok, dr_Quiesce = ok, dr_ApplyEndpoint = ok, dr_Rebind = ok,
      dr_StartTransport = ok, dr_Validate = ok, dr_Publish = ok, dr_ResyncLeshy = ok, dr_ObserveRestoration = ok,
      dr_FreezeSelected = ok, dr_WithdrawSelected = ok, dr_RestoreSelected = ok, dr_UnfreezeSelected = ok,
      dr_ReleaseResources = ok\<rparr>)"

definition engine_on :: "'d recovery_driver \<Rightarrow> 'd engine" where
  "engine_on d = \<lparr>eg_Configured = True, eg_Driver = d, eg_Cancelled = None, eg_ManagedSelectedRoutes = None\<rparr>"

definition failing :: "unit recovery_driver" where
  "failing = quiet\<lparr>dr_Validate := \<lambda>role w. (Some (Sentinel ErrValidationPending), w)\<rparr>"

definition roaming :: "unit recovery_driver" where
  "roaming = quiet\<lparr>
     dr_Validate := \<lambda>role w. (case BeginValidation role (ew_Controller w) of
        (None, c) \<Rightarrow> (Some (Errorf ''validation refused''), w)
      | (Some token, c) \<Rightarrow> (None, w\<lparr>ew_Controller := snd (CompleteValidation token healthy c)\<rparr>)),
     dr_Publish := \<lambda>role w. (None, w\<lparr>ew_Controller := SetUnderlay 0 mobile ReasonNone (ew_Controller w)\<rparr>)\<rparr>"

definition roamed :: "unit engine_world" where
  "roamed = \<lparr>ew_Controller = SetUnderlay 0 (mobile\<lparr>ns_IPv6 := Some wired_path\<rparr>) ReasonNone brought_up, ew_Driver = ()\<rparr>"

text \<open>A recovery run commits Ready without asking whether the underlay it validated is still the
  current one: when the underlay changes after the validation step, the controller
  takes the validation back and asks for a recovery, and the run overwrites that: the role ends Ready
  with no validated epoch.\<close>

lemma recovery_commits_stale_ready:
  "\<exists>r. fst (Recover (engine_on roaming) ''home'' 5 2 roamed) = None \<and>
     controller_Role (ew_Controller (snd (Recover (engine_on roaming) ''home'' 5 2 roamed))) ''home'' = Some r \<and>
     rr_State r = RoleReady \<and>
     rr_ValidatedEpoch r = 0 \<and> rr_Desired r"
proof -
  let ?run = "Recover (engine_on roaming) ''home'' 5 2 roamed"
  have "fst ?run = None" by code_simp
  moreover have "map_option (\<lambda>r. (rr_State r, rr_ValidatedEpoch r, rr_Desired r))
      (controller_Role (ew_Controller (snd ?run)) ''home'') = Some (RoleReady, 0, True)" by code_simp
  ultimately show ?thesis by auto
qed

end
