(* ===== verification/Selected_Registry.thy ===== *)
theory Selected_Registry
  imports Routing_Core "HOL-Library.Product_Lexorder"
begin

text \<open>
  The registry of selected routes (\<^verbatim>\<open>toad/internal/routing/selected_registry.go\<close>): exact
  kernel identities, the selected-route and the park transaction machines, and the
  checkpoint that restores them. A record holds its park by pointer, and a snapshot copies the
  pointer: the model keeps the parks in a heap of the registry, so that a record taken from a
  snapshot sees later transitions of its park as the Go code does.
\<close>

section \<open>Identities\<close>

definition ManagedSelectedRouteTable :: int where
  "ManagedSelectedRouteTable = 254"

definition ManagedParkMetric :: u32 where
  "ManagedParkMetric = 42760"

definition ScopeUniverse :: int where
  "ScopeUniverse = 0"

definition ScopeLink :: int where
  "ScopeLink = 253"

datatype selected_source = SelectedDNS | SelectedStatic | SourceOther string

datatype selected_state =
    SelectedPending | SelectedApplying | SelectedActive | SelectedRetiring | StateOther string

datatype selected_park_state =
    SelectedParkPending | SelectedParkApplying | SelectedParkActive | SelectedParkRetiring
  | ParkStateOther string

datatype selected_park_kind = SelectedParkUnreachable | SelectedParkLoopback | ParkKindOther string

record selected_identity =
  si_Table :: int
  si_IfIndex :: int
  si_NextHop :: string
  si_Protocol :: int
  si_Metric :: u32
  si_Scope :: int
  si_InterfaceLuid :: u64

record park_identity =
  pi_Kind :: selected_park_kind
  pi_Table :: int
  pi_IfIndex :: int
  pi_NextHop :: string
  pi_Protocol :: int
  pi_Metric :: u32
  pi_Scope :: int
  pi_InterfaceLuid :: u64

definition IsCanonicalPrefix :: "netprefix \<Rightarrow> bool" where
  "IsCanonicalPrefix prefix = (prefix_IsValid prefix \<and> prefix = prefix_Masked prefix)"

definition prefixFamily :: "netprefix \<Rightarrow> int" where
  "prefixFamily prefix = (if addr_Is4 (prefix_Addr prefix) then 4 else 6)"

text \<open>A next hop fits a prefix when it parses and has the prefix's family.\<close>

definition hop_error :: "string \<Rightarrow> string \<Rightarrow> string \<Rightarrow> netprefix \<Rightarrow> goerror option" where
  "hop_error unparsed mismatch nextHop prefix =
     (case ParseAddr nextHop of
        None \<Rightarrow> Some (Errorf unparsed)
      | Some hop \<Rightarrow>
          if addr_Is4In6 hop \<or> addr_Is4 hop \<noteq> addr_Is4 (prefix_Addr prefix)
          then Some (Errorf mismatch) else None)"

definition identity_Validate :: "selected_identity \<Rightarrow> netprefix \<Rightarrow> goerror option" where
  "identity_Validate i prefix =
     (if \<not> prefix_IsValid prefix \<or> \<not> IsCanonicalPrefix prefix
        then Some (Errorf ''identity prefix %q is not canonical'')
      else if si_Table i \<noteq> ManagedSelectedRouteTable
        then Some (Errorf ''identity table %d must be %d'')
      else if si_IfIndex i \<le> 0
        then Some (Errorf ''identity ifindex %d must be positive'')
      else case (if si_NextHop i \<noteq> []
                 then hop_error ''identity next hop %q does not parse''
                        ''identity next hop %q does not match the prefix family'' (si_NextHop i) prefix
                 else None) of
             Some e \<Rightarrow> Some e
           | None \<Rightarrow>
               if si_Protocol i \<le> 0 then Some (Errorf ''identity protocol %d must be positive'')
               else if si_Scope i = 0 \<or> si_Scope i = ScopeLink then None
               else Some (Errorf ''identity scope %d is not a valid Linux route scope''))"

definition park_kind_error :: "park_identity \<Rightarrow> netprefix \<Rightarrow> goerror option" where
  "park_kind_error i prefix =
     (case pi_Kind i of
        SelectedParkUnreachable \<Rightarrow>
          if pi_IfIndex i \<noteq> 0 \<or> pi_NextHop i \<noteq> [] \<or> pi_InterfaceLuid i \<noteq> 0
          then Some (Errorf ''unreachable park must have no interface and no next hop'') else None
      | SelectedParkLoopback \<Rightarrow>
          if pi_IfIndex i \<le> 0 then Some (Errorf ''loopback park requires a positive ifindex'')
          else (case hop_error ''loopback park next hop %q does not parse''
                       ''loopback park next hop %q does not match the prefix family'' (pi_NextHop i) prefix of
                  Some e \<Rightarrow> Some e
                | None \<Rightarrow>
                    (case ParseAddr (pi_NextHop i) of
                       None \<Rightarrow> None
                     | Some hop \<Rightarrow>
                         if addr_IsLoopback hop then None
                         else Some (Errorf ''loopback park next hop %q is not a loopback address'')))
      | ParkKindOther k \<Rightarrow> Some (Errorf ''unknown park kind %q''))"

definition park_Validate :: "park_identity \<Rightarrow> netprefix \<Rightarrow> goerror option" where
  "park_Validate i prefix =
     (if \<not> prefix_IsValid prefix \<or> \<not> IsCanonicalPrefix prefix
        then Some (Errorf ''park prefix %q is not canonical'')
      else if pi_Table i \<noteq> ManagedSelectedRouteTable then Some (Errorf ''park table %d must be %d'')
      else if pi_Protocol i \<le> 0 then Some (Errorf ''park protocol %d must be positive'')
      else if pi_Metric i \<noteq> ManagedParkMetric then Some (Errorf ''park metric %d must be %d'')
      else case park_kind_error i prefix of
             Some e \<Rightarrow> Some e
           | None \<Rightarrow>
               if pi_Scope i = 0 \<or> pi_Scope i = ScopeLink then None
               else Some (Errorf ''park scope %d is not a valid Linux route scope''))"

section \<open>Records and the registry\<close>

record selected_park =
  sk_State :: selected_park_state
  sk_Desired :: park_identity
  sk_Owned :: "park_identity option"
  sk_RetireDesired :: bool

text \<open>A record over its representation of the park: a pointer inside the process, the park
  itself in a checkpoint.\<close>

record 'p selected_route =
  sr_Role :: string
  sr_Zone :: string
  sr_Prefix :: netprefix
  sr_Source :: selected_source
  sr_ToadGeneration :: u64
  sr_RouteGeneration :: u64
  sr_Interface :: string
  sr_Desired :: selected_identity
  sr_Owned :: "selected_identity option"
  sr_State :: selected_state
  sr_RetireDesired :: bool
  sr_Park :: "'p option"

definition with_park :: "'q option \<Rightarrow> 'p selected_route \<Rightarrow> 'q selected_route" where
  "with_park p e =
     \<lparr>sr_Role = sr_Role e, sr_Zone = sr_Zone e, sr_Prefix = sr_Prefix e, sr_Source = sr_Source e,
      sr_ToadGeneration = sr_ToadGeneration e, sr_RouteGeneration = sr_RouteGeneration e,
      sr_Interface = sr_Interface e, sr_Desired = sr_Desired e, sr_Owned = sr_Owned e,
      sr_State = sr_State e, sr_RetireDesired = sr_RetireDesired e, sr_Park = p\<rparr>"

type_synonym route_key = "string \<times> netprefix"
type_synonym park_ref = nat
type_synonym route_record = "park_ref selected_route"
type_synonym route_value = "selected_park selected_route"
type_synonym park_heap = "selected_park list"

record selected_registry =
  rg_Entries :: "(route_key, route_record) gomap"
  rg_Parks :: park_heap

definition NewMemorySelectedRegistry :: selected_registry where
  "NewMemorySelectedRegistry = \<lparr>rg_Entries = [], rg_Parks = []\<rparr>"

text \<open>Following the pointer of a record.\<close>

definition deref :: "park_heap \<Rightarrow> route_record \<Rightarrow> route_value" where
  "deref h e = with_park (map_option (nth h) (sr_Park e)) e"

section \<open>Transitions\<close>

text \<open>The transitions of a record that do not touch its park.\<close>

fun MarkApplying_entry :: "'p selected_route \<Rightarrow> goerror + 'p selected_route" where
  "MarkApplying_entry e =
     (case sr_State e of
        SelectedPending \<Rightarrow> Inr (e\<lparr>sr_State := SelectedApplying\<rparr>)
      | SelectedApplying \<Rightarrow> Inr e
      | _ \<Rightarrow> Inl (Errorf ''MarkApplying requires state pending or applying, got %q''))"

definition MarkActive_entry :: "selected_identity \<Rightarrow> 'p selected_route \<Rightarrow> goerror + 'p selected_route" where
  "MarkActive_entry observed e =
     (if sr_State e \<noteq> SelectedApplying \<and> sr_State e \<noteq> SelectedActive
        then Inl (Errorf ''MarkActive requires state applying or active, got %q'')
      else if observed \<noteq> sr_Desired e
        then Inl (Errorf ''MarkActive observed identity does not equal the desired identity'')
      else Inr (e\<lparr>sr_Owned := Some observed, sr_State := SelectedActive\<rparr>))"

definition MarkRetiring_entry :: "'p selected_route \<Rightarrow> goerror + 'p selected_route" where
  "MarkRetiring_entry e =
     (if sr_State e \<in> {SelectedPending, SelectedApplying, SelectedActive}
      then Inr (e\<lparr>sr_RetireDesired := (sr_State e = SelectedApplying), sr_State := SelectedRetiring\<rparr>)
      else Inl (Errorf ''MarkRetiring is illegal from state %q''))"

definition BeginRepair_entry :: "'p selected_route \<Rightarrow> goerror + 'p selected_route" where
  "BeginRepair_entry e =
     (if sr_State e \<noteq> SelectedActive then Inl (Errorf ''BeginRepair requires state active, got %q'')
      else Inr (e\<lparr>sr_State := SelectedPending, sr_RetireDesired := False\<rparr>))"

text \<open>The transitions of a park.\<close>

definition ReservePark_park :: "park_identity \<Rightarrow> bool \<Rightarrow> selected_park \<Rightarrow> selected_park" where
  "ReservePark_park desired forcePending k =
     (if sk_Desired k = desired \<and> \<not> forcePending \<and> sk_State k = SelectedParkActive then k
      else if sk_Desired k \<noteq> desired \<or> forcePending
        then k\<lparr>sk_State := SelectedParkPending, sk_RetireDesired := False, sk_Desired := desired\<rparr>
      else k)"

definition MarkParkApplying_park :: "selected_park \<Rightarrow> goerror + selected_park" where
  "MarkParkApplying_park k =
     (if sk_State k \<noteq> SelectedParkPending
        then Inl (Errorf ''MarkParkApplying requires park state pending, got %q'')
      else Inr (k\<lparr>sk_State := SelectedParkApplying\<rparr>))"

definition MarkParkActive_park :: "park_identity \<Rightarrow> selected_park \<Rightarrow> goerror + selected_park" where
  "MarkParkActive_park observed k =
     (if sk_State k \<noteq> SelectedParkApplying \<and> sk_State k \<noteq> SelectedParkActive
        then Inl (Errorf ''MarkParkActive requires park state applying or active, got %q'')
      else if observed \<noteq> sk_Desired k
        then Inl (Errorf ''MarkParkActive observed identity does not equal the desired park identity'')
      else Inr (k\<lparr>sk_Owned := Some observed, sk_State := SelectedParkActive\<rparr>))"

definition MarkParkRetiring_park :: "selected_park \<Rightarrow> goerror + selected_park" where
  "MarkParkRetiring_park k =
     (if sk_State k \<in> {SelectedParkApplying, SelectedParkActive}
      then Inr (k\<lparr>sk_RetireDesired := (sk_State k = SelectedParkApplying), sk_State := SelectedParkRetiring\<rparr>)
      else Inl (Errorf ''MarkParkRetiring is illegal from park state %q''))"

text \<open>\<^verbatim>\<open>transition\<close>: the mutation sees a copy of the record and the park heap; its error
  leaves the registry alone.\<close>

definition transition ::
  "string \<Rightarrow> netprefix \<Rightarrow> (route_record \<Rightarrow> park_heap \<Rightarrow> goerror + route_record \<times> park_heap) \<Rightarrow>
     (selected_registry, unit) tx" where
  "transition role prefix mutate r =
     (if \<not> prefix_IsValid prefix \<or> \<not> IsCanonicalPrefix prefix
        then (Inl (Errorf ''selected route transition: prefix %q is not canonical''), r)
      else case map_of (rg_Entries r) (role, prefix) of
             None \<Rightarrow> (Inl (Errorf ''selected route %s/%s is not registered''), r)
           | Some entry \<Rightarrow>
               (case mutate entry (rg_Parks r) of
                  Inl e \<Rightarrow> (Inl e, r)
                | Inr (entry', parks) \<Rightarrow>
                    (Inr (), \<lparr>rg_Entries = gomap_put (role, prefix) entry' (rg_Entries r), rg_Parks = parks\<rparr>)))"

definition on_entry ::
  "(route_record \<Rightarrow> goerror + route_record) \<Rightarrow> route_record \<Rightarrow> park_heap \<Rightarrow> goerror + route_record \<times> park_heap" where
  "on_entry f e h = map_sum id (\<lambda>e'. (e', h)) (f e)"

text \<open>Writing through the park pointer; \<open>missing\<close> is the error of a nil pointer.\<close>

definition on_park ::
  "string \<Rightarrow> (selected_park \<Rightarrow> goerror + selected_park) \<Rightarrow> route_record \<Rightarrow> park_heap \<Rightarrow>
     goerror + route_record \<times> park_heap" where
  "on_park missing f e h =
     (case sr_Park e of
        None \<Rightarrow> Inl (Errorf missing)
      | Some p \<Rightarrow> map_sum id (\<lambda>k. (e, h[p := k])) (f (h ! p)))"

text \<open>The entry \<^verbatim>\<open>Reserve\<close> stores: an identical re-reserve keeps the entry, a changed
  \<^verbatim>\<open>Desired\<close> demotes an active one.\<close>

definition reserve_entry ::
  "string \<Rightarrow> string \<Rightarrow> netprefix \<Rightarrow> selected_source \<Rightarrow> u64 \<Rightarrow> u64 \<Rightarrow> string \<Rightarrow> selected_identity \<Rightarrow>
     'p selected_route option \<Rightarrow> 'p selected_route" where
  "reserve_entry role zone prefix source toadGeneration routeGeneration iface desired existing =
     (case existing of
        None \<Rightarrow>
          \<lparr>sr_Role = role, sr_Zone = zone, sr_Prefix = prefix, sr_Source = source,
           sr_ToadGeneration = toadGeneration, sr_RouteGeneration = routeGeneration,
           sr_Interface = iface, sr_Desired = desired, sr_Owned = None,
           sr_State = SelectedPending, sr_RetireDesired = False, sr_Park = None\<rparr>
      | Some e \<Rightarrow>
          if sr_Desired e = desired \<and> sr_Zone e = zone \<and> sr_Source e = source \<and>
             sr_Interface e = iface \<and> sr_ToadGeneration e = toadGeneration \<and>
             sr_RouteGeneration e = routeGeneration
          then e
          else
            let nxt = e\<lparr>sr_Role := role, sr_Zone := zone, sr_Prefix := prefix, sr_Source := source,
                        sr_ToadGeneration := toadGeneration, sr_RouteGeneration := routeGeneration,
                        sr_Interface := iface, sr_Desired := desired\<rparr>
            in if sr_State nxt = SelectedActive \<and> sr_Desired e \<noteq> desired
               then nxt\<lparr>sr_State := SelectedPending\<rparr> else nxt)"

definition Reserve ::
  "string \<Rightarrow> string \<Rightarrow> netprefix \<Rightarrow> selected_source \<Rightarrow> u64 \<Rightarrow> u64 \<Rightarrow> string \<Rightarrow> selected_identity \<Rightarrow>
     (selected_registry, unit) tx" where
  "Reserve role zone prefix source toadGeneration routeGeneration iface desired r =
     (if role = [] then (Inl (Errorf ''selected route reserve: role is required''), r)
      else case identity_Validate desired prefix of
             Some e \<Rightarrow> (Inl (Wrapf ''selected route reserve: %w'' e), r)
           | None \<Rightarrow>
               (Inr (), r\<lparr>rg_Entries := gomap_put (role, prefix)
                  (reserve_entry role zone prefix source toadGeneration routeGeneration iface desired
                     (map_of (rg_Entries r) (role, prefix)))
                  (rg_Entries r)\<rparr>))"

definition MarkApplying :: "string \<Rightarrow> netprefix \<Rightarrow> (selected_registry, unit) tx" where
  "MarkApplying role prefix = transition role prefix (on_entry MarkApplying_entry)"

definition MarkActive :: "string \<Rightarrow> netprefix \<Rightarrow> selected_identity \<Rightarrow> (selected_registry, unit) tx" where
  "MarkActive role prefix observed = transition role prefix (on_entry (MarkActive_entry observed))"

definition MarkRetiring :: "string \<Rightarrow> netprefix \<Rightarrow> (selected_registry, unit) tx" where
  "MarkRetiring role prefix = transition role prefix (on_entry MarkRetiring_entry)"

definition BeginRepair :: "string \<Rightarrow> netprefix \<Rightarrow> (selected_registry, unit) tx" where
  "BeginRepair role prefix = transition role prefix (on_entry BeginRepair_entry)"

definition ReservePark ::
  "string \<Rightarrow> netprefix \<Rightarrow> park_identity \<Rightarrow> bool \<Rightarrow> (selected_registry, unit) tx" where
  "ReservePark role prefix desired forcePending r =
     (case park_Validate desired prefix of
        Some e \<Rightarrow> (Inl (Wrapf ''reserve park: %w'' e), r)
      | None \<Rightarrow>
          transition role prefix (\<lambda>entry parks.
            case sr_Park entry of
              None \<Rightarrow> Inr (entry\<lparr>sr_Park := Some (length parks)\<rparr>,
                          parks @ [\<lparr>sk_State = SelectedParkPending, sk_Desired = desired,
                                    sk_Owned = None, sk_RetireDesired = False\<rparr>])
            | Some p \<Rightarrow> Inr (entry, parks[p := ReservePark_park desired forcePending (parks ! p)])) r)"

definition MarkParkApplying :: "string \<Rightarrow> netprefix \<Rightarrow> (selected_registry, unit) tx" where
  "MarkParkApplying role prefix =
     transition role prefix (on_park ''MarkParkApplying without a park transaction'' MarkParkApplying_park)"

definition MarkParkActive :: "string \<Rightarrow> netprefix \<Rightarrow> park_identity \<Rightarrow> (selected_registry, unit) tx" where
  "MarkParkActive role prefix observed =
     transition role prefix
       (on_park ''MarkParkActive without a park transaction'' (MarkParkActive_park observed))"

definition MarkParkRetiring :: "string \<Rightarrow> netprefix \<Rightarrow> (selected_registry, unit) tx" where
  "MarkParkRetiring role prefix =
     transition role prefix (on_park ''MarkParkRetiring without a park transaction'' MarkParkRetiring_park)"

definition ClearPark :: "string \<Rightarrow> netprefix \<Rightarrow> (selected_registry, unit) tx" where
  "ClearPark role prefix =
     transition role prefix (\<lambda>entry parks.
       case sr_Park entry of
         None \<Rightarrow> Inr (entry, parks)
       | Some p \<Rightarrow>
           if sk_State (parks ! p) \<in> {SelectedParkPending, SelectedParkRetiring}
           then Inr (entry\<lparr>sr_Park := None\<rparr>, parks)
           else Inl (Errorf ''ClearPark is illegal from park state %q''))"

definition registry_Remove :: "string \<Rightarrow> netprefix \<Rightarrow> selected_registry \<Rightarrow> selected_registry" where
  "registry_Remove role prefix r = r\<lparr>rg_Entries := gomap_del (role, prefix) (rg_Entries r)\<rparr>"

definition registry_RemoveRole :: "string \<Rightarrow> selected_registry \<Rightarrow> selected_registry" where
  "registry_RemoveRole role r = r\<lparr>rg_Entries := filter (\<lambda>(key, e). fst key \<noteq> role) (rg_Entries r)\<rparr>"

section \<open>Snapshots\<close>

definition snapshotLocked :: "(route_record \<Rightarrow> bool) \<Rightarrow> selected_registry \<Rightarrow> route_record list" where
  "snapshotLocked keep r =
     sort_key (\<lambda>e. (prefix_String (sr_Prefix e), sr_Role e)) (filter keep (map snd (rg_Entries r)))"

definition registry_Snapshot :: "string \<Rightarrow> selected_registry \<Rightarrow> route_record list" where
  "registry_Snapshot role = snapshotLocked (\<lambda>e. sr_Role e = role)"

definition registry_SnapshotFamily :: "string \<Rightarrow> int \<Rightarrow> selected_registry \<Rightarrow> route_record list" where
  "registry_SnapshotFamily role family =
     snapshotLocked (\<lambda>e. sr_Role e = role \<and> prefixFamily (sr_Prefix e) = family)"

section \<open>Checkpoints\<close>

record selected_checkpoint =
  ck_Schema :: int
  ck_Role :: string
  ck_RouteGeneration :: u64
  ck_Entries :: "route_value list option"
  ck_ActivationID :: string
  ck_ModeGeneration :: u64
  ck_Platform :: string

definition validateParkTransaction :: "selected_park \<Rightarrow> netprefix \<Rightarrow> goerror option" where
  "validateParkTransaction park prefix =
     (if park_Validate (sk_Desired park) prefix \<noteq> None then Some (Errorf ''invalid desired park identity'')
      else case sk_State park of
             SelectedParkPending \<Rightarrow>
               if sk_RetireDesired park then Some (Errorf ''park pending must not carry retire_desired'') else None
           | SelectedParkApplying \<Rightarrow>
               if sk_RetireDesired park then Some (Errorf ''park applying must not carry retire_desired'') else None
           | SelectedParkActive \<Rightarrow>
               if sk_Owned park \<noteq> Some (sk_Desired park)
                 then Some (Errorf ''park active requires owned == desired'')
               else if sk_RetireDesired park
                 then Some (Errorf ''park active must not carry retire_desired'') else None
           | SelectedParkRetiring \<Rightarrow> None
           | ParkStateOther s \<Rightarrow> Some (Errorf ''unknown park state %q''))"

definition known_state :: "selected_state \<Rightarrow> bool" where
  "known_state s = (s \<in> {SelectedPending, SelectedApplying, SelectedActive, SelectedRetiring})"

text \<open>The checks of one restored entry, in the order of \<^verbatim>\<open>RestoreRole\<close>.\<close>

definition restore_entry_error :: "route_value \<Rightarrow> goerror option" where
  "restore_entry_error entry =
     (if \<not> known_state (sr_State entry) then Some (Errorf ''restore: unknown selected state %q'')
      else if identity_Validate (sr_Desired entry) (sr_Prefix entry) \<noteq> None
        then Some (Errorf ''restore: entry %s has an invalid desired identity'')
      else if sr_State entry = SelectedActive \<and> sr_Owned entry \<noteq> Some (sr_Desired entry)
        then Some (Errorf ''restore: active entry %s requires owned == desired'')
      else if sr_State entry \<noteq> SelectedRetiring \<and> sr_RetireDesired entry
        then Some (Errorf ''restore: retire_desired must be false for state %q'')
      else case sr_Park entry of
             None \<Rightarrow> None
           | Some park \<Rightarrow>
               (case validateParkTransaction park (sr_Prefix entry) of
                  None \<Rightarrow> None
                | Some e \<Rightarrow> Some (Wrapf ''restore: entry %s park transaction: %w'' e)))"

fun restore_errors :: "route_key list \<Rightarrow> route_value list \<Rightarrow> goerror option" where
  "restore_errors seen [] = None"
| "restore_errors seen (entry # entries) =
     (let key = (sr_Role entry, sr_Prefix entry)
      in if key \<in> set seen then Some (Errorf ''restore: duplicate prefix %s'')
         else case restore_entry_error entry of
                Some e \<Rightarrow> Some e
              | None \<Rightarrow> restore_errors (key # seen) entries)"

text \<open>Storing a decoded entry: its park moves to a fresh cell of the heap.\<close>

definition install_entry :: "route_value \<Rightarrow> selected_registry \<Rightarrow> selected_registry" where
  "install_entry entry r =
     (case sr_Park entry of
        None \<Rightarrow> r\<lparr>rg_Entries := gomap_put (sr_Role entry, sr_Prefix entry) (with_park None entry) (rg_Entries r)\<rparr>
      | Some park \<Rightarrow>
          \<lparr>rg_Entries = gomap_put (sr_Role entry, sr_Prefix entry)
                          (with_park (Some (length (rg_Parks r))) entry) (rg_Entries r),
           rg_Parks = rg_Parks r @ [park]\<rparr>)"

definition RestoreRole :: "selected_checkpoint \<Rightarrow> (selected_registry, unit) tx" where
  "RestoreRole checkpoint r =
     (let entries = (case ck_Entries checkpoint of None \<Rightarrow> [] | Some es \<Rightarrow> es)
      in if ck_Role checkpoint = [] then (Inl (Errorf ''restore: checkpoint role is required''), r)
         else case restore_errors [] entries of
                Some e \<Rightarrow> (Inl e, r)
              | None \<Rightarrow> (Inr (), foldl (\<lambda>r entry. install_entry entry r) r entries))"

definition SelectedRoutesCheckpointSchema :: int where
  "SelectedRoutesCheckpointSchema = 2"

definition RuntimeCheckpointPlatform :: "bool \<Rightarrow> string" where
  "RuntimeCheckpointPlatform isWindowsRuntime = (if isWindowsRuntime then ''windows'' else ''linux'')"

text \<open>The checks of one decoded entry, in the order of \<^verbatim>\<open>ValidateSelectedRoutesCheckpoint\<close>.\<close>

definition checkpoint_entry_error :: "string \<Rightarrow> string \<Rightarrow> route_value \<Rightarrow> goerror option" where
  "checkpoint_entry_error expectedRole expectedZone entry =
     (if sr_Role entry \<noteq> expectedRole
        then Some (Errorf ''entry %d role %q does not match the checkpoint role'')
      else if expectedZone \<noteq> [] \<and> sr_Zone entry \<noteq> expectedZone
        then Some (Errorf ''entry %d zone %q does not match the configured zone %q'')
      else if \<not> IsCanonicalPrefix (sr_Prefix entry)
        then Some (Errorf ''entry %d prefix %q is not canonical'')
      else if sr_Source entry = SelectedDNS \<and> \<not> IsHostPrefix (sr_Prefix entry)
        then Some (Errorf ''dns entry %d must be a host prefix'')
      else if sr_Source entry \<noteq> SelectedDNS \<and> sr_Source entry \<noteq> SelectedStatic
        then Some (Errorf ''entry %d has an unknown source %q'')
      else if \<not> known_state (sr_State entry)
        then Some (Errorf ''entry %d has an unknown state %q'')
      else if sr_ToadGeneration entry = 0
        then Some (Errorf ''entry %d must carry a real toad generation'')
      else if sr_RouteGeneration entry = 0
        then Some (Errorf ''entry %d must carry a route generation'')
      else case identity_Validate (sr_Desired entry) (sr_Prefix entry) of
             Some e \<Rightarrow> Some (Wrapf ''entry %d desired identity: %w'' e)
           | None \<Rightarrow>
               if sr_State entry = SelectedActive \<and> sr_Owned entry \<noteq> Some (sr_Desired entry)
                 then Some (Errorf ''active entry %d requires owned == desired'')
               else if sr_State entry \<noteq> SelectedRetiring \<and> sr_RetireDesired entry
                 then Some (Errorf ''entry %d retire_desired must be false for state %q'')
               else case sr_Park entry of
                      None \<Rightarrow> None
                    | Some park \<Rightarrow>
                        map_option (Wrapf ''entry %d park transaction: %w'')
                          (validateParkTransaction park (sr_Prefix entry)))"

fun checkpoint_errors :: "string \<Rightarrow> string \<Rightarrow> netprefix list \<Rightarrow> route_value list \<Rightarrow> goerror option" where
  "checkpoint_errors role zone seen [] = None"
| "checkpoint_errors role zone seen (entry # entries) =
     (case checkpoint_entry_error role zone entry of
        Some e \<Rightarrow> Some e
      | None \<Rightarrow>
          if sr_Prefix entry \<in> set seen then Some (Errorf ''duplicate prefix %s'')
          else checkpoint_errors role zone (sr_Prefix entry # seen) entries)"

definition ValidateSelectedRoutesCheckpoint ::
  "selected_checkpoint \<Rightarrow> string \<Rightarrow> string \<Rightarrow> goerror option" where
  "ValidateSelectedRoutesCheckpoint c expectedRole expectedZone =
     (if ck_Schema c \<noteq> SelectedRoutesCheckpointSchema
        then Some (Errorf ''selected-routes checkpoint schema %d is not supported'')
      else if ck_Role c \<noteq> expectedRole
        then Some (Errorf ''checkpoint role %q does not match expected %q'')
      else if ck_Platform c \<noteq> ''linux'' \<and> ck_Platform c \<noteq> ''windows''
        then Some (Errorf ''checkpoint platform %q is not supported'')
      else case ck_Entries c of
             None \<Rightarrow> Some (Errorf ''checkpoint entries must be present'')
           | Some entries \<Rightarrow> checkpoint_errors expectedRole expectedZone [] entries)"

text \<open>\<^verbatim>\<open>ReadSelectedRoutesCheckpoint\<close>, over the outcome of reading the file and the two
  decodings (the schema probe and the whole record).\<close>

definition ReadSelectedRoutesCheckpoint ::
  "(goerror + 'b) \<Rightarrow> ('b \<Rightarrow> goerror + int) \<Rightarrow> ('b \<Rightarrow> goerror + selected_checkpoint) \<Rightarrow>
     goerror + selected_checkpoint" where
  "ReadSelectedRoutesCheckpoint file decodeSchema decode =
     (case file of
        Inl e \<Rightarrow> Inl e
      | Inr b \<Rightarrow>
          (case decodeSchema b of
             Inl e \<Rightarrow> Inl (Wrapf ''decode selected-routes checkpoint: %w'' e)
           | Inr schema \<Rightarrow>
               if schema = 1
                 then Inl (Errorf ''selected-routes checkpoint schema 1 is not supported; exact identity cannot be inferred from it'')
               else case decode b of
                      Inl e \<Rightarrow> Inl (Wrapf ''decode selected-routes checkpoint: %w'' e)
                    | Inr c \<Rightarrow>
                        (case ValidateSelectedRoutesCheckpoint c (ck_Role c) [] of
                           Some e \<Rightarrow> Inl (Wrapf ''selected-routes checkpoint is invalid: %w'' e)
                         | None \<Rightarrow> Inr c)))"

end
