(* ===== verification/Registry_Refinement.thy ===== *)
theory Registry_Refinement
  imports Selected_Registry
begin

text \<open>
  What the registry promises. The abstract registry is a partial map from (role, prefix) to
  records that hold their parks by value; the locale \<^verbatim>\<open>registry_contract\<close> is the contract of
  the interface \<^verbatim>\<open>SelectedRouteRegistry\<close>: every operation acts on the abstract map as the
  pure transition says. The in-memory registry with its shared park pointers is an
  instance, and the record invariant is proved from the contract alone.
\<close>

section \<open>The abstract registry\<close>

type_synonym abstract_registry = "route_key \<rightharpoonup> route_value"

definition registry_abs :: "selected_registry \<Rightarrow> abstract_registry" where
  "registry_abs r = (\<lambda>key. map_option (deref (rg_Parks r)) (map_of (rg_Entries r) key))"

text \<open>The park pointers are inside the heap and no two records share one.\<close>

definition heap_ok :: "selected_registry \<Rightarrow> bool" where
  "heap_ok r \<longleftrightarrow>
     (\<forall>key e p. map_of (rg_Entries r) key = Some e \<and> sr_Park e = Some p \<longrightarrow> p < length (rg_Parks r)) \<and>
     (\<forall>key key' e e' p. map_of (rg_Entries r) key = Some e \<and> map_of (rg_Entries r) key' = Some e' \<and>
        sr_Park e = Some p \<and> sr_Park e' = Some p \<longrightarrow> key = key')"

lemma heap_ok_range: "heap_ok r \<Longrightarrow> map_of (rg_Entries r) key = Some e \<Longrightarrow> sr_Park e = Some p \<Longrightarrow> p < length (rg_Parks r)"
  unfolding heap_ok_def by blast

lemma heap_ok_unique:
  "heap_ok r \<Longrightarrow> map_of (rg_Entries r) key = Some e \<Longrightarrow> map_of (rg_Entries r) key' = Some e' \<Longrightarrow>
     sr_Park e = Some p \<Longrightarrow> sr_Park e' = Some p \<Longrightarrow> key = key'"
  unfolding heap_ok_def by blast

definition abs_transition ::
  "string \<Rightarrow> netprefix \<Rightarrow> (route_value \<Rightarrow> goerror + route_value) \<Rightarrow> (abstract_registry, unit) tx" where
  "abs_transition role prefix f m =
     (if \<not> prefix_IsValid prefix \<or> \<not> IsCanonicalPrefix prefix
        then (Inl (Errorf ''selected route transition: prefix %q is not canonical''), m)
      else case m (role, prefix) of
             None \<Rightarrow> (Inl (Errorf ''selected route %s/%s is not registered''), m)
           | Some v \<Rightarrow>
               (case f v of
                  Inl e \<Rightarrow> (Inl e, m)
                | Inr v' \<Rightarrow> (Inr (), m((role, prefix) \<mapsto> v'))))"

text \<open>The transitions of the park on a record that holds it by value.\<close>

definition park_value ::
  "string \<Rightarrow> (selected_park \<Rightarrow> goerror + selected_park) \<Rightarrow> route_value \<Rightarrow> goerror + route_value" where
  "park_value missing f v =
     (case sr_Park v of
        None \<Rightarrow> Inl (Errorf missing)
      | Some k \<Rightarrow> map_sum id (\<lambda>k'. v\<lparr>sr_Park := Some k'\<rparr>) (f k))"

definition ReservePark_value :: "park_identity \<Rightarrow> bool \<Rightarrow> route_value \<Rightarrow> goerror + route_value" where
  "ReservePark_value desired forcePending v =
     Inr (v\<lparr>sr_Park := Some (case sr_Park v of
        None \<Rightarrow> \<lparr>sk_State = SelectedParkPending, sk_Desired = desired, sk_Owned = None, sk_RetireDesired = False\<rparr>
      | Some k \<Rightarrow> ReservePark_park desired forcePending k)\<rparr>)"

definition ClearPark_value :: "route_value \<Rightarrow> goerror + route_value" where
  "ClearPark_value v =
     (case sr_Park v of
        None \<Rightarrow> Inr v
      | Some k \<Rightarrow>
          if sk_State k \<in> {SelectedParkPending, SelectedParkRetiring} then Inr (v\<lparr>sr_Park := None\<rparr>)
          else Inl (Errorf ''ClearPark is illegal from park state %q''))"

definition abs_Reserve ::
  "string \<Rightarrow> string \<Rightarrow> netprefix \<Rightarrow> selected_source \<Rightarrow> u64 \<Rightarrow> u64 \<Rightarrow> string \<Rightarrow> selected_identity \<Rightarrow>
     (abstract_registry, unit) tx" where
  "abs_Reserve role zone prefix source tg rg iface desired m =
     (if role = [] then (Inl (Errorf ''selected route reserve: role is required''), m)
      else case identity_Validate desired prefix of
             Some e \<Rightarrow> (Inl (Wrapf ''selected route reserve: %w'' e), m)
           | None \<Rightarrow> (Inr (), m((role, prefix) \<mapsto>
               reserve_entry role zone prefix source tg rg iface desired (m (role, prefix)))))"

definition abs_ReservePark ::
  "string \<Rightarrow> netprefix \<Rightarrow> park_identity \<Rightarrow> bool \<Rightarrow> (abstract_registry, unit) tx" where
  "abs_ReservePark role prefix desired forcePending m =
     (case park_Validate desired prefix of
        Some e \<Rightarrow> (Inl (Wrapf ''reserve park: %w'' e), m)
      | None \<Rightarrow> abs_transition role prefix (ReservePark_value desired forcePending) m)"

definition abs_RestoreRole :: "selected_checkpoint \<Rightarrow> (abstract_registry, unit) tx" where
  "abs_RestoreRole checkpoint m =
     (let entries = (case ck_Entries checkpoint of None \<Rightarrow> [] | Some es \<Rightarrow> es)
      in if ck_Role checkpoint = [] then (Inl (Errorf ''restore: checkpoint role is required''), m)
         else case restore_errors [] entries of
                Some e \<Rightarrow> (Inl e, m)
              | None \<Rightarrow> (Inr (), foldl (\<lambda>m v. m((sr_Role v, sr_Prefix v) \<mapsto> v)) m entries))"

section \<open>The record invariant\<close>

text \<open>
  A record is well formed when \<^verbatim>\<open>RestoreRole\<close> would accept it and its key is its role and
  prefix: an active record owns exactly its desired identity, retire-desired is set only while
  retiring, and the park transaction is valid on its own.
\<close>

definition record_ok :: "route_key \<Rightarrow> route_value \<Rightarrow> bool" where
  "record_ok key v \<longleftrightarrow> key = (sr_Role v, sr_Prefix v) \<and> restore_entry_error v = None"

definition records_ok :: "abstract_registry \<Rightarrow> bool" where
  "records_ok m \<longleftrightarrow> (\<forall>key v. m key = Some v \<longrightarrow> record_ok key v)"

lemma restore_entry_ok_iff:
  "restore_entry_error v = None \<longleftrightarrow>
     known_state (sr_State v) \<and> identity_Validate (sr_Desired v) (sr_Prefix v) = None \<and>
     (sr_State v = SelectedActive \<longrightarrow> sr_Owned v = Some (sr_Desired v)) \<and>
     (sr_RetireDesired v \<longrightarrow> sr_State v = SelectedRetiring) \<and>
     (\<forall>k. sr_Park v = Some k \<longrightarrow> validateParkTransaction k (sr_Prefix v) = None)"
  by (auto simp: restore_entry_error_def split: option.splits)

lemma park_ok_iff:
  "validateParkTransaction k prefix = None \<longleftrightarrow>
     park_Validate (sk_Desired k) prefix = None \<and>
     sk_State k \<in> {SelectedParkPending, SelectedParkApplying, SelectedParkActive, SelectedParkRetiring} \<and>
     (sk_State k = SelectedParkActive \<longrightarrow> sk_Owned k = Some (sk_Desired k)) \<and>
     (sk_RetireDesired k \<longrightarrow> sk_State k = SelectedParkRetiring)"
  by (auto simp: validateParkTransaction_def split: selected_park_state.splits)

text \<open>A pure transition that keeps the record's key and validity.\<close>

definition keeps_record :: "(route_value \<Rightarrow> goerror + route_value) \<Rightarrow> bool" where
  "keeps_record f \<longleftrightarrow> (\<forall>key v v'. record_ok key v \<and> f v = Inr v' \<longrightarrow> record_ok key v')"

lemma MarkApplying_keeps: "keeps_record MarkApplying_entry"
  by (auto simp: keeps_record_def record_ok_def restore_entry_ok_iff known_state_def
           split: selected_state.splits)

lemma MarkActive_keeps: "keeps_record (MarkActive_entry observed)"
  by (auto simp: keeps_record_def record_ok_def restore_entry_ok_iff known_state_def MarkActive_entry_def
           split: if_splits)

lemma MarkRetiring_keeps: "keeps_record MarkRetiring_entry"
  by (auto simp: keeps_record_def record_ok_def restore_entry_ok_iff known_state_def MarkRetiring_entry_def
           split: if_splits)

lemma BeginRepair_keeps: "keeps_record BeginRepair_entry"
  by (auto simp: keeps_record_def record_ok_def restore_entry_ok_iff known_state_def BeginRepair_entry_def
           split: if_splits)

definition keeps_park :: "(selected_park \<Rightarrow> goerror + selected_park) \<Rightarrow> bool" where
  "keeps_park f \<longleftrightarrow> (\<forall>prefix k k'. validateParkTransaction k prefix = None \<and> f k = Inr k' \<longrightarrow>
     validateParkTransaction k' prefix = None)"

lemma park_value_keeps: "keeps_park f \<Longrightarrow> keeps_record (park_value missing f)"
  by (fastforce simp: keeps_record_def keeps_park_def record_ok_def restore_entry_ok_iff park_value_def
      split: option.splits)

lemma MarkParkApplying_keeps: "keeps_park MarkParkApplying_park"
  by (auto simp: keeps_park_def park_ok_iff MarkParkApplying_park_def split: if_splits)

lemma MarkParkActive_keeps: "keeps_park (MarkParkActive_park observed)"
  by (auto simp: keeps_park_def park_ok_iff MarkParkActive_park_def split: if_splits)

lemma MarkParkRetiring_keeps: "keeps_park MarkParkRetiring_park"
  by (auto simp: keeps_park_def park_ok_iff MarkParkRetiring_park_def split: if_splits)

lemma ClearPark_keeps: "keeps_record ClearPark_value"
  by (auto simp: keeps_record_def record_ok_def restore_entry_ok_iff ClearPark_value_def
           split: option.splits if_splits)

lemma ReservePark_park_ok:
  "park_Validate desired prefix = None \<Longrightarrow> validateParkTransaction k prefix = None \<Longrightarrow>
     validateParkTransaction (ReservePark_park desired forcePending k) prefix = None"
  by (auto simp: park_ok_iff ReservePark_park_def)

lemma ReservePark_keeps:
  assumes desired: "park_Validate desired prefix = None" and ok: "record_ok (role, prefix) v"
    and run: "ReservePark_value desired forcePending v = Inr v'"
  shows "record_ok (role, prefix) v'"
proof -
  have prefix: "sr_Prefix v = prefix" using ok by (simp add: record_ok_def)
  define k where "k = (case sr_Park v of
        None \<Rightarrow> \<lparr>sk_State = SelectedParkPending, sk_Desired = desired, sk_Owned = None, sk_RetireDesired = False\<rparr>
      | Some k \<Rightarrow> ReservePark_park desired forcePending k)"
  have "validateParkTransaction k prefix = None"
  proof (cases "sr_Park v")
    case None
    with desired show ?thesis by (simp add: k_def park_ok_iff)
  next
    case (Some k0)
    with ok prefix have "validateParkTransaction k0 prefix = None"
      by (simp add: record_ok_def restore_entry_ok_iff)
    with Some desired show ?thesis by (simp add: k_def ReservePark_park_ok)
  qed
  moreover have "v' = v\<lparr>sr_Park := Some k\<rparr>" using run by (simp add: ReservePark_value_def k_def)
  ultimately show ?thesis using ok prefix by (simp add: record_ok_def restore_entry_ok_iff)
qed

lemma reserve_entry_ok:
  assumes "identity_Validate desired prefix = None"
    and "\<And>e. existing = Some e \<Longrightarrow> record_ok (role, prefix) e"
  shows "record_ok (role, prefix) (reserve_entry role zone prefix source tg rg iface desired existing)"
proof (cases existing)
  case None
  with assms(1) show ?thesis
    by (simp add: reserve_entry_def record_ok_def restore_entry_ok_iff known_state_def)
next
  case (Some e)
  with assms(2) have "record_ok (role, prefix) e" by simp
  with Some assms(1) show ?thesis
    by (auto simp: reserve_entry_def record_ok_def restore_entry_ok_iff known_state_def Let_def)
qed

lemma records_ok_put: "records_ok m \<Longrightarrow> record_ok key v \<Longrightarrow> records_ok (m(key \<mapsto> v))"
  by (simp add: records_ok_def)

lemma abs_transition_ok:
  assumes "records_ok m" and "\<And>v v'. record_ok (role, prefix) v \<Longrightarrow> f v = Inr v' \<Longrightarrow> record_ok (role, prefix) v'"
  shows "records_ok (snd (abs_transition role prefix f m))"
  using assms by (fastforce simp: abs_transition_def records_ok_def split: option.splits sum.splits)

lemma abs_transition_keeps: "keeps_record f \<Longrightarrow> keepsT records_ok (abs_transition role prefix f)"
  by (auto simp: keepsT_def keeps_record_def intro!: abs_transition_ok)

lemma abs_Reserve_keeps: "keepsT records_ok (abs_Reserve role zone prefix source tg rg iface desired)"
  unfolding keepsT_def
proof (intro allI impI)
  fix m :: abstract_registry
  assume ok: "records_ok m"
  have "record_ok (role, prefix) (reserve_entry role zone prefix source tg rg iface desired (m (role, prefix)))"
    if "identity_Validate desired prefix = None"
    using ok by (intro reserve_entry_ok [OF that]) (auto simp: records_ok_def)
  with ok show "records_ok (snd (abs_Reserve role zone prefix source tg rg iface desired m))"
    by (auto simp: abs_Reserve_def records_ok_def split: option.splits)
qed

lemma abs_ReservePark_keeps: "keepsT records_ok (abs_ReservePark role prefix desired forcePending)"
  by (auto simp: keepsT_def abs_ReservePark_def intro!: abs_transition_ok intro: ReservePark_keeps
           split: option.splits)

lemma restore_errors_all:
  "restore_errors seen entries = None \<Longrightarrow>
     (\<forall>v \<in> set entries. restore_entry_error v = None) \<and>
     distinct (map (\<lambda>v. (sr_Role v, sr_Prefix v)) entries) \<and>
     (\<forall>v \<in> set entries. (sr_Role v, sr_Prefix v) \<notin> set seen)"
proof (induction entries arbitrary: seen)
  case (Cons a entries)
  let ?key = "(sr_Role a, sr_Prefix a)"
  from Cons.prems have "?key \<notin> set seen" "restore_entry_error a = None"
    and "restore_errors (?key # seen) entries = None"
    by (auto simp: Let_def split: if_splits option.splits)
  with Cons.IH [of "?key # seen"] show ?case by auto
qed simp

lemma restore_errors_None:
  "\<forall>v \<in> set entries. restore_entry_error v = None \<Longrightarrow>
   distinct (map (\<lambda>v. (sr_Role v, sr_Prefix v)) entries) \<Longrightarrow>
   \<forall>v \<in> set entries. (sr_Role v, sr_Prefix v) \<notin> set seen \<Longrightarrow> restore_errors seen entries = None"
proof (induction entries arbitrary: seen)
  case (Cons a entries)
  have "\<forall>v \<in> set entries. (sr_Role v, sr_Prefix v) \<notin> set ((sr_Role a, sr_Prefix a) # seen)"
  proof
    fix v
    assume "v \<in> set entries"
    with Cons.prems(2, 3) show "(sr_Role v, sr_Prefix v) \<notin> set ((sr_Role a, sr_Prefix a) # seen)"
      by (auto simp: image_iff)
  qed
  with Cons show ?case by (simp add: Let_def)
qed simp

lemma install_all_ok:
  "records_ok m \<Longrightarrow> \<forall>v \<in> set entries. restore_entry_error v = None \<Longrightarrow>
     records_ok (foldl (\<lambda>m v. m((sr_Role v, sr_Prefix v) \<mapsto> v)) m entries)"
  by (induction entries arbitrary: m) (simp_all add: records_ok_put record_ok_def)

lemma abs_RestoreRole_keeps: "keepsT records_ok (abs_RestoreRole checkpoint)"
  unfolding keepsT_def
proof (intro allI impI)
  fix m :: abstract_registry
  assume "records_ok m"
  then show "records_ok (snd (abs_RestoreRole checkpoint m))"
    using install_all_ok restore_errors_all by (auto simp: abs_RestoreRole_def Let_def split: option.splits)
qed

section \<open>The contract of the interface\<close>

definition valid_under :: "('r \<Rightarrow> bool) \<Rightarrow> ('r \<Rightarrow> abstract_registry) \<Rightarrow> 'r \<Rightarrow> bool" where
  "valid_under rep_ok absf r \<longleftrightarrow> rep_ok r \<and> records_ok (absf r)"

locale registry_contract =
  fixes rep_ok :: "'r \<Rightarrow> bool"
    and absf :: "'r \<Rightarrow> abstract_registry"
    and reserve :: "string \<Rightarrow> string \<Rightarrow> netprefix \<Rightarrow> selected_source \<Rightarrow> u64 \<Rightarrow> u64 \<Rightarrow> string \<Rightarrow>
                    selected_identity \<Rightarrow> ('r, unit) tx"
    and mark_applying mark_retiring begin_repair mark_park_applying mark_park_retiring clear_park ::
          "string \<Rightarrow> netprefix \<Rightarrow> ('r, unit) tx"
    and mark_active :: "string \<Rightarrow> netprefix \<Rightarrow> selected_identity \<Rightarrow> ('r, unit) tx"
    and reserve_park :: "string \<Rightarrow> netprefix \<Rightarrow> park_identity \<Rightarrow> bool \<Rightarrow> ('r, unit) tx"
    and mark_park_active :: "string \<Rightarrow> netprefix \<Rightarrow> park_identity \<Rightarrow> ('r, unit) tx"
    and restore_role :: "selected_checkpoint \<Rightarrow> ('r, unit) tx"
  assumes reserve_abs: "rep_ok r \<Longrightarrow> reserve role zone prefix source tg rg iface desired r = (res, r') \<Longrightarrow>
      rep_ok r' \<and> abs_Reserve role zone prefix source tg rg iface desired (absf r) = (res, absf r')"
    and mark_applying_abs: "rep_ok r \<Longrightarrow> mark_applying role prefix r = (res, r') \<Longrightarrow>
      rep_ok r' \<and> abs_transition role prefix MarkApplying_entry (absf r) = (res, absf r')"
    and mark_active_abs: "rep_ok r \<Longrightarrow> mark_active role prefix observed r = (res, r') \<Longrightarrow>
      rep_ok r' \<and> abs_transition role prefix (MarkActive_entry observed) (absf r) = (res, absf r')"
    and mark_retiring_abs: "rep_ok r \<Longrightarrow> mark_retiring role prefix r = (res, r') \<Longrightarrow>
      rep_ok r' \<and> abs_transition role prefix MarkRetiring_entry (absf r) = (res, absf r')"
    and begin_repair_abs: "rep_ok r \<Longrightarrow> begin_repair role prefix r = (res, r') \<Longrightarrow>
      rep_ok r' \<and> abs_transition role prefix BeginRepair_entry (absf r) = (res, absf r')"
    and reserve_park_abs: "rep_ok r \<Longrightarrow> reserve_park role prefix pdesired force r = (res, r') \<Longrightarrow>
      rep_ok r' \<and> abs_ReservePark role prefix pdesired force (absf r) = (res, absf r')"
    and mark_park_applying_abs: "rep_ok r \<Longrightarrow> mark_park_applying role prefix r = (res, r') \<Longrightarrow>
      rep_ok r' \<and> abs_transition role prefix
        (park_value ''MarkParkApplying without a park transaction'' MarkParkApplying_park) (absf r) = (res, absf r')"
    and mark_park_active_abs: "rep_ok r \<Longrightarrow> mark_park_active role prefix pobserved r = (res, r') \<Longrightarrow>
      rep_ok r' \<and> abs_transition role prefix
        (park_value ''MarkParkActive without a park transaction'' (MarkParkActive_park pobserved)) (absf r) = (res, absf r')"
    and mark_park_retiring_abs: "rep_ok r \<Longrightarrow> mark_park_retiring role prefix r = (res, r') \<Longrightarrow>
      rep_ok r' \<and> abs_transition role prefix
        (park_value ''MarkParkRetiring without a park transaction'' MarkParkRetiring_park) (absf r) = (res, absf r')"
    and clear_park_abs: "rep_ok r \<Longrightarrow> clear_park role prefix r = (res, r') \<Longrightarrow>
      rep_ok r' \<and> abs_transition role prefix ClearPark_value (absf r) = (res, absf r')"
    and restore_role_abs: "rep_ok r \<Longrightarrow> restore_role checkpoint r = (res, r') \<Longrightarrow>
      rep_ok r' \<and> abs_RestoreRole checkpoint (absf r) = (res, absf r')"
begin

lemma keeps_valid:
  assumes "\<And>r res r'. rep_ok r \<Longrightarrow> m r = (res, r') \<Longrightarrow> rep_ok r' \<and> am (absf r) = (res, absf r')"
    and "keepsT records_ok am"
  shows "keepsT (valid_under rep_ok absf) m"
proof (rule keepsTI)
  fix r res r'
  assume valid: "valid_under rep_ok absf r" and run: "m r = (res, r')"
  then have "rep_ok r" and old: "records_ok (absf r)" by (simp_all add: valid_under_def)
  from assms(1) [OF \<open>rep_ok r\<close> run] have "rep_ok r'" and am: "am (absf r) = (res, absf r')" by simp_all
  moreover from keepsTD [OF assms(2) old am] have "records_ok (absf r')" .
  ultimately show "valid_under rep_ok absf r'" by (simp add: valid_under_def)
qed

lemma reserve_keeps: "keepsT (valid_under rep_ok absf) (reserve role zone prefix source tg rg iface desired)"
  by (rule keeps_valid [OF reserve_abs abs_Reserve_keeps])

lemma mark_applying_keeps: "keepsT (valid_under rep_ok absf) (mark_applying role prefix)"
  by (rule keeps_valid [OF mark_applying_abs abs_transition_keeps [OF MarkApplying_keeps]])

lemma mark_active_keeps: "keepsT (valid_under rep_ok absf) (mark_active role prefix observed)"
  by (rule keeps_valid [OF mark_active_abs abs_transition_keeps [OF MarkActive_keeps]])

lemma mark_retiring_keeps: "keepsT (valid_under rep_ok absf) (mark_retiring role prefix)"
  by (rule keeps_valid [OF mark_retiring_abs abs_transition_keeps [OF MarkRetiring_keeps]])

lemma begin_repair_keeps: "keepsT (valid_under rep_ok absf) (begin_repair role prefix)"
  by (rule keeps_valid [OF begin_repair_abs abs_transition_keeps [OF BeginRepair_keeps]])

lemma reserve_park_keeps: "keepsT (valid_under rep_ok absf) (reserve_park role prefix pdesired force)"
  by (rule keeps_valid [OF reserve_park_abs abs_ReservePark_keeps])

lemma mark_park_applying_keeps: "keepsT (valid_under rep_ok absf) (mark_park_applying role prefix)"
  by (rule keeps_valid [OF mark_park_applying_abs abs_transition_keeps [OF park_value_keeps [OF MarkParkApplying_keeps]]])

lemma mark_park_active_keeps: "keepsT (valid_under rep_ok absf) (mark_park_active role prefix pobserved)"
  by (rule keeps_valid [OF mark_park_active_abs abs_transition_keeps [OF park_value_keeps [OF MarkParkActive_keeps]]])

lemma mark_park_retiring_keeps: "keepsT (valid_under rep_ok absf) (mark_park_retiring role prefix)"
  by (rule keeps_valid [OF mark_park_retiring_abs abs_transition_keeps [OF park_value_keeps [OF MarkParkRetiring_keeps]]])

lemma clear_park_keeps: "keepsT (valid_under rep_ok absf) (clear_park role prefix)"
  by (rule keeps_valid [OF clear_park_abs abs_transition_keeps [OF ClearPark_keeps]])

lemma restore_role_keeps: "keepsT (valid_under rep_ok absf) (restore_role checkpoint)"
  by (rule keeps_valid [OF restore_role_abs abs_RestoreRole_keeps])

end

section \<open>The in-memory registry implements the contract\<close>

lemma with_park_fields [simp]:
  "sr_Role (with_park p e) = sr_Role e" "sr_Zone (with_park p e) = sr_Zone e"
  "sr_Prefix (with_park p e) = sr_Prefix e" "sr_Source (with_park p e) = sr_Source e"
  "sr_ToadGeneration (with_park p e) = sr_ToadGeneration e"
  "sr_RouteGeneration (with_park p e) = sr_RouteGeneration e"
  "sr_Interface (with_park p e) = sr_Interface e" "sr_Desired (with_park p e) = sr_Desired e"
  "sr_Owned (with_park p e) = sr_Owned e" "sr_State (with_park p e) = sr_State e"
  "sr_RetireDesired (with_park p e) = sr_RetireDesired e" "sr_Park (with_park p e) = p"
  by (simp_all add: with_park_def)

lemma deref_fields [simp]:
  "sr_Role (deref h e) = sr_Role e" "sr_Zone (deref h e) = sr_Zone e"
  "sr_Prefix (deref h e) = sr_Prefix e" "sr_Source (deref h e) = sr_Source e"
  "sr_ToadGeneration (deref h e) = sr_ToadGeneration e"
  "sr_RouteGeneration (deref h e) = sr_RouteGeneration e"
  "sr_Interface (deref h e) = sr_Interface e" "sr_Desired (deref h e) = sr_Desired e"
  "sr_Owned (deref h e) = sr_Owned e" "sr_State (deref h e) = sr_State e"
  "sr_RetireDesired (deref h e) = sr_RetireDesired e" "sr_Park (deref h e) = map_option (nth h) (sr_Park e)"
  by (simp_all add: deref_def)

text \<open>A mutation of a record and its heap refines a pure transition when it returns the same
  result on the value, changes no cell but the record's own, and points nowhere new but to a
  fresh cell.\<close>

definition mutation_refines ::
  "(route_record \<Rightarrow> park_heap \<Rightarrow> goerror + route_record \<times> park_heap) \<Rightarrow> (route_value \<Rightarrow> goerror + route_value) \<Rightarrow> bool" where
  "mutation_refines mutate f \<longleftrightarrow>
     (\<forall>e h. (\<forall>p. sr_Park e = Some p \<longrightarrow> p < length h) \<longrightarrow>
        (case mutate e h of
           Inl err \<Rightarrow> f (deref h e) = Inl err
         | Inr (e', h') \<Rightarrow>
             f (deref h e) = Inr (deref h' e') \<and> length h \<le> length h' \<and>
             (\<forall>q < length h. sr_Park e \<noteq> Some q \<longrightarrow> h' ! q = h ! q) \<and>
             (\<forall>p. sr_Park e' = Some p \<longrightarrow> p < length h' \<and> (sr_Park e = Some p \<or> length h \<le> p))))"

lemma on_entry_refines:
  assumes "\<And>h e. f (deref h e) = map_sum id (deref h) (g e)" and "\<And>e e'. g e = Inr e' \<Longrightarrow> sr_Park e' = sr_Park e"
  shows "mutation_refines (on_entry g) f"
  unfolding mutation_refines_def on_entry_def
proof (intro allI impI)
  fix e :: route_record and h :: park_heap
  assume p: "\<forall>p. sr_Park e = Some p \<longrightarrow> p < length h"
  show "case map_sum id (\<lambda>e'. (e', h)) (g e) of
          Inl err \<Rightarrow> f (deref h e) = Inl err
        | Inr (e', h') \<Rightarrow> f (deref h e) = Inr (deref h' e') \<and> length h \<le> length h' \<and>
             (\<forall>q < length h. sr_Park e \<noteq> Some q \<longrightarrow> h' ! q = h ! q) \<and>
             (\<forall>p. sr_Park e' = Some p \<longrightarrow> p < length h' \<and> (sr_Park e = Some p \<or> length h \<le> p))"
    using p assms(1) [of h e] assms(2) [of e] by (cases "g e") auto
qed

lemma on_park_refines: "mutation_refines (on_park missing f) (park_value missing f)"
  unfolding mutation_refines_def on_park_def park_value_def
proof (intro allI impI)
  fix e :: route_record and h :: park_heap
  assume p: "\<forall>p. sr_Park e = Some p \<longrightarrow> p < length h"
  show "case case sr_Park e of None \<Rightarrow> Inl (Errorf missing)
          | Some p \<Rightarrow> map_sum id (\<lambda>k. (e, h[p := k])) (f (h ! p)) of
          Inl err \<Rightarrow> (case sr_Park (deref h e) of None \<Rightarrow> Inl (Errorf missing)
             | Some k \<Rightarrow> map_sum id (\<lambda>k'. deref h e\<lparr>sr_Park := Some k'\<rparr>) (f k)) = Inl err
        | Inr (e', h') \<Rightarrow> (case sr_Park (deref h e) of None \<Rightarrow> Inl (Errorf missing)
             | Some k \<Rightarrow> map_sum id (\<lambda>k'. deref h e\<lparr>sr_Park := Some k'\<rparr>) (f k)) = Inr (deref h' e') \<and>
             length h \<le> length h' \<and> (\<forall>q < length h. sr_Park e \<noteq> Some q \<longrightarrow> h' ! q = h ! q) \<and>
             (\<forall>p. sr_Park e' = Some p \<longrightarrow> p < length h' \<and> (sr_Park e = Some p \<or> length h \<le> p))"
  proof (cases "sr_Park e")
    case (Some q)
    with p have "q < length h" by simp
    then show ?thesis
      using Some by (cases "f (h ! q)") (auto simp: deref_def with_park_def)
  qed simp
qed

lemma transition_refines:
  assumes m: "mutation_refines mutate f" and ok: "heap_ok r" and run: "transition role prefix mutate r = (res, r')"
  shows "heap_ok r' \<and> abs_transition role prefix f (registry_abs r) = (res, registry_abs r')"
proof (cases "(\<not> prefix_IsValid prefix \<or> \<not> IsCanonicalPrefix prefix) \<or> map_of (rg_Entries r) (role, prefix) = None")
  case True
  with ok run show ?thesis by (auto simp: transition_def abs_transition_def registry_abs_def split: if_splits)
next
  case False
  then obtain e where e: "map_of (rg_Entries r) (role, prefix) = Some e" by auto
  have pe: "\<forall>p. sr_Park e = Some p \<longrightarrow> p < length (rg_Parks r)"
    using ok e by (auto simp: heap_ok_def)
  note ref = m [unfolded mutation_refines_def, rule_format, of e "rg_Parks r"] pe
  show ?thesis
  proof (cases "mutate e (rg_Parks r)")
    case (Inl err)
    with ref False e run ok show ?thesis
      by (auto simp: transition_def abs_transition_def registry_abs_def)
  next
    case (Inr eh)
    obtain e' h' where eh: "eh = (e', h')" by (cases eh)
    with Inr False e run have r': "r' = \<lparr>rg_Entries = gomap_put (role, prefix) e' (rg_Entries r), rg_Parks = h'\<rparr>"
        and res: "res = Inr ()" by (auto simp: transition_def)
    from ref Inr eh have f: "f (deref (rg_Parks r) e) = Inr (deref h' e')" and len: "length (rg_Parks r) \<le> length h'"
      and same: "\<forall>q < length (rg_Parks r). sr_Park e \<noteq> Some q \<longrightarrow> h' ! q = rg_Parks r ! q"
      and new: "\<forall>p. sr_Park e' = Some p \<longrightarrow> p < length h' \<and> (sr_Park e = Some p \<or> length (rg_Parks r) \<le> p)"
      by auto
    have others: "deref h' e2 = deref (rg_Parks r) e2"
      if "key \<noteq> (role, prefix)" "map_of (rg_Entries r) key = Some e2" for key e2
    proof (cases "sr_Park e2")
      case (Some q)
      with that ok e have "q < length (rg_Parks r)" "sr_Park e \<noteq> Some q"
        unfolding heap_ok_def by blast+
      with same Some show ?thesis by (simp add: deref_def)
    qed (simp add: deref_def)
    have "registry_abs r' = (registry_abs r)((role, prefix) \<mapsto> deref h' e')"
    proof (rule ext)
      fix key
      show "registry_abs r' key = ((registry_abs r)((role, prefix) \<mapsto> deref h' e')) key"
        using others [of key] by (cases "map_of (rg_Entries r) key") (auto simp: registry_abs_def r')
    qed
    moreover have "heap_ok r'"
      unfolding heap_ok_def
    proof (intro conjI allI impI)
      fix key e2 p
      assume a: "map_of (rg_Entries r') key = Some e2 \<and> sr_Park e2 = Some p"
      show "p < length (rg_Parks r')"
      proof (cases "key = (role, prefix)")
        case True
        with a new show ?thesis unfolding r' by simp
      next
        case False
        with a have "map_of (rg_Entries r) key = Some e2" unfolding r' by simp
        with a heap_ok_range [OF ok] len show ?thesis unfolding r' by fastforce
      qed
    next
      fix key key' e2 e3 p
      assume a: "map_of (rg_Entries r') key = Some e2 \<and> map_of (rg_Entries r') key' = Some e3 \<and>
          sr_Park e2 = Some p \<and> sr_Park e3 = Some p"
      have old: "sr_Park e4 \<noteq> sr_Park e'" if "k \<noteq> (role, prefix)" "map_of (rg_Entries r) k = Some e4"
          "sr_Park e' = Some p" for k e4
      proof
        assume "sr_Park e4 = sr_Park e'"
        with that have e4: "sr_Park e4 = Some p" by simp
        from heap_ok_range [OF ok that(2) e4] new that(3) have "sr_Park e = Some p" by auto
        from heap_ok_unique [OF ok that(2) e e4 this] that(1) show False by simp
      qed
      have both: "key = key'" if "key \<noteq> (role, prefix)" "key' \<noteq> (role, prefix)"
      proof -
        from a that have "map_of (rg_Entries r) key = Some e2" "map_of (rg_Entries r) key' = Some e3"
          unfolding r' by simp_all
        with a ok show ?thesis by (blast intro: heap_ok_unique)
      qed
      show "key = key'"
      proof (cases "key = (role, prefix)")
        case True
        then have "sr_Park e' = Some p" using a unfolding r' by simp
        with True a old [of key' e3] show ?thesis unfolding r' by (cases "key' = (role, prefix)") simp_all
      next
        case False
        show ?thesis
        proof (cases "key' = (role, prefix)")
          case True
          then have "sr_Park e' = Some p" using a unfolding r' by simp
          with False a old [of key e2] show ?thesis unfolding r' by simp
        qed (use False both in simp)
      qed
    qed
    ultimately show ?thesis
      using False e f by (simp add: abs_transition_def registry_abs_def res)
  qed
qed

lemma with_park_update [simp]:
  "with_park q (e\<lparr>sr_State := st\<rparr>) = (with_park q e)\<lparr>sr_State := st\<rparr>"
  "with_park q (e\<lparr>sr_Owned := ow\<rparr>) = (with_park q e)\<lparr>sr_Owned := ow\<rparr>"
  "with_park q (e\<lparr>sr_RetireDesired := rd\<rparr>) = (with_park q e)\<lparr>sr_RetireDesired := rd\<rparr>"
  by (simp_all add: with_park_def)

lemma MarkApplying_refines: "mutation_refines (on_entry MarkApplying_entry) MarkApplying_entry"
  by (rule on_entry_refines) (auto simp: deref_def split: selected_state.splits)

lemma MarkActive_refines: "mutation_refines (on_entry (MarkActive_entry observed)) (MarkActive_entry observed)"
  by (rule on_entry_refines) (auto simp: deref_def MarkActive_entry_def split: if_splits)

lemma MarkRetiring_refines: "mutation_refines (on_entry MarkRetiring_entry) MarkRetiring_entry"
  by (rule on_entry_refines) (auto simp: deref_def MarkRetiring_entry_def split: if_splits)

lemma BeginRepair_refines: "mutation_refines (on_entry BeginRepair_entry) BeginRepair_entry"
  by (rule on_entry_refines) (auto simp: deref_def BeginRepair_entry_def split: if_splits)

lemma deref_set: "p < length h \<Longrightarrow> sr_Park e = Some p \<Longrightarrow> deref (h[p := k]) e = deref h e\<lparr>sr_Park := Some k\<rparr>"
  by (simp add: deref_def with_park_def)

lemma deref_clear: "deref h (e\<lparr>sr_Park := None\<rparr>) = deref h e\<lparr>sr_Park := None\<rparr>"
  by (simp add: deref_def with_park_def)

lemma deref_fresh: "deref (h @ [k]) (e\<lparr>sr_Park := Some (length h)\<rparr>) = deref h e\<lparr>sr_Park := Some k\<rparr>"
  by (simp add: deref_def with_park_def)

lemma deref_append: "(\<And>p. sr_Park e = Some p \<Longrightarrow> p < length h) \<Longrightarrow> deref (h @ ks) e = deref h e"
  by (cases "sr_Park e") (auto simp: deref_def nth_append)

lemma ReservePark_refines:
  "mutation_refines
     (\<lambda>entry parks. case sr_Park entry of
              None \<Rightarrow> Inr (entry\<lparr>sr_Park := Some (length parks)\<rparr>,
                          parks @ [\<lparr>sk_State = SelectedParkPending, sk_Desired = desired,
                                    sk_Owned = None, sk_RetireDesired = False\<rparr>])
            | Some p \<Rightarrow> Inr (entry, parks[p := ReservePark_park desired forcePending (parks ! p)]))
     (ReservePark_value desired forcePending)"
  unfolding mutation_refines_def
  by (auto simp: ReservePark_value_def deref_set deref_fresh nth_append split: option.splits)

lemma ClearPark_refines:
  "mutation_refines
     (\<lambda>entry parks. case sr_Park entry of
         None \<Rightarrow> Inr (entry, parks)
       | Some p \<Rightarrow>
           if sk_State (parks ! p) \<in> {SelectedParkPending, SelectedParkRetiring}
           then Inr (entry\<lparr>sr_Park := None\<rparr>, parks)
           else Inl (Errorf ''ClearPark is illegal from park state %q''))
     ClearPark_value"
  unfolding mutation_refines_def
  by (auto simp: ClearPark_value_def deref_clear split: option.splits)

lemma reserve_entry_deref:
  "reserve_entry role zone prefix source tg rg iface desired (map_option (deref h) x) =
     deref h (reserve_entry role zone prefix source tg rg iface desired x)"
  by (cases x) (auto simp: reserve_entry_def deref_def with_park_def Let_def)

lemma reserve_entry_park:
  "sr_Park (reserve_entry role zone prefix source tg rg iface desired x) =
     (case x of None \<Rightarrow> None | Some e \<Rightarrow> sr_Park e)"
  by (auto simp: reserve_entry_def Let_def split: option.splits)

lemma heap_ok_put:
  assumes ok: "heap_ok r" and p: "sr_Park e' = None \<or> (\<exists>e. map_of (rg_Entries r) key = Some e \<and> sr_Park e' = sr_Park e)"
  shows "heap_ok (r\<lparr>rg_Entries := gomap_put key e' (rg_Entries r)\<rparr>)" (is "heap_ok ?r")
proof -
  have src: "\<exists>e0. map_of (rg_Entries r) k = Some e0 \<and> sr_Park e0 = Some q"
    if "map_of (rg_Entries ?r) k = Some e" "sr_Park e = Some q" for k e q
    using that p by (cases "k = key") auto
  show ?thesis
    unfolding heap_ok_def
  proof (intro conjI allI impI)
    fix k e q
    assume "map_of (rg_Entries ?r) k = Some e \<and> sr_Park e = Some q"
    with src heap_ok_range [OF ok] have "q < length (rg_Parks r)" by blast
    then show "q < length (rg_Parks ?r)" by simp
  next
    fix k1 k2 e1 e2 q
    assume a: "map_of (rg_Entries ?r) k1 = Some e1 \<and> map_of (rg_Entries ?r) k2 = Some e2 \<and>
      sr_Park e1 = Some q \<and> sr_Park e2 = Some q"
    from src [of k1 e1 q] src [of k2 e2 q] a obtain e3 e4 where
      "map_of (rg_Entries r) k1 = Some e3" "sr_Park e3 = Some q"
      "map_of (rg_Entries r) k2 = Some e4" "sr_Park e4 = Some q"
      by blast
    then show "k1 = k2" using heap_ok_unique [OF ok] by blast
  qed
qed

lemma registry_abs_put:
  "registry_abs (r\<lparr>rg_Entries := gomap_put key e (rg_Entries r)\<rparr>) = (registry_abs r)(key \<mapsto> deref (rg_Parks r) e)"
  by (rule ext) (simp add: registry_abs_def)

lemma Reserve_refines:
  assumes ok: "heap_ok r" and run: "Reserve role zone prefix source tg rg iface desired r = (res, r')"
  shows "heap_ok r' \<and> abs_Reserve role zone prefix source tg rg iface desired (registry_abs r) = (res, registry_abs r')"
proof (cases "role = [] \<or> identity_Validate desired prefix \<noteq> None")
  case True
  with ok run show ?thesis by (auto simp: Reserve_def abs_Reserve_def split: if_splits)
next
  case False
  let ?x = "map_of (rg_Entries r) (role, prefix)"
  let ?e = "reserve_entry role zone prefix source tg rg iface desired ?x"
  from False run have r': "r' = r\<lparr>rg_Entries := gomap_put (role, prefix) ?e (rg_Entries r)\<rparr>" and res: "res = Inr ()"
    by (auto simp: Reserve_def)
  have "heap_ok r'"
    unfolding r' by (rule heap_ok_put [OF ok]) (auto simp: reserve_entry_park split: option.splits)
  moreover have "registry_abs r (role, prefix) = map_option (deref (rg_Parks r)) ?x" by (simp add: registry_abs_def)
  ultimately show ?thesis
    using False by (auto simp: abs_Reserve_def res r' registry_abs_put reserve_entry_deref)
qed

lemma deref_no_park: "sr_Park v = None \<Longrightarrow> deref h (with_park None v) = v"
  by (simp add: deref_def with_park_def)

lemma install_refines:
  assumes ok: "heap_ok r"
  shows "heap_ok (install_entry v r) \<and>
         registry_abs (install_entry v r) = (registry_abs r)((sr_Role v, sr_Prefix v) \<mapsto> v)"
proof (cases "sr_Park v")
  case None
  let ?e = "with_park None v :: route_record"
  have v: "deref (rg_Parks r) ?e = v" by (rule deref_no_park [OF None])
  have "heap_ok (r\<lparr>rg_Entries := gomap_put (sr_Role v, sr_Prefix v) ?e (rg_Entries r)\<rparr>)"
    by (rule heap_ok_put [OF ok]) simp
  then show ?thesis using None by (simp add: install_entry_def registry_abs_put v)
next
  case (Some k)
  let ?key = "(sr_Role v, sr_Prefix v)" and ?n = "length (rg_Parks r)"
  let ?e = "with_park (Some ?n) v :: route_record"
  let ?r = "\<lparr>rg_Entries = gomap_put ?key ?e (rg_Entries r), rg_Parks = rg_Parks r @ [k]\<rparr>"
  have inst: "install_entry v r = ?r" using Some by (simp add: install_entry_def)
  have new: "deref (rg_Parks r @ [k]) ?e = v"
    using Some by (simp add: deref_def with_park_def)
  have old: "deref (rg_Parks r @ [k]) e = deref (rg_Parks r) e" if "map_of (rg_Entries r) key = Some e" for key e
    by (rule deref_append) (rule heap_ok_range [OF ok that])
  have "registry_abs ?r = (registry_abs r)(?key \<mapsto> v)"
  proof (rule ext)
    fix key
    show "registry_abs ?r key = ((registry_abs r)(?key \<mapsto> v)) key"
      using new old [of key] by (cases "map_of (rg_Entries r) key") (auto simp: registry_abs_def)
  qed
  moreover have "heap_ok ?r"
    unfolding heap_ok_def
  proof (intro conjI allI impI)
    fix key e p
    assume "map_of (rg_Entries ?r) key = Some e \<and> sr_Park e = Some p"
    then show "p < length (rg_Parks ?r)"
      using heap_ok_range [OF ok, of key e p] by (cases "key = ?key") auto
  next
    fix k1 k2 e1 e2 p
    assume a: "map_of (rg_Entries ?r) k1 = Some e1 \<and> map_of (rg_Entries ?r) k2 = Some e2 \<and>
      sr_Park e1 = Some p \<and> sr_Park e2 = Some p"
    have lt: "p < ?n" if "j \<noteq> ?key" "map_of (rg_Entries ?r) j = Some e" "sr_Park e = Some p" for j e
      using that heap_ok_range [OF ok, of j e p] by simp
    have eq: "p = ?n" if "map_of (rg_Entries ?r) ?key = Some e" "sr_Park e = Some p" for e
      using that by auto
    show "k1 = k2"
    proof (cases "k1 = ?key"; cases "k2 = ?key")
      assume "k1 \<noteq> ?key" "k2 \<noteq> ?key"
      with a have "map_of (rg_Entries r) k1 = Some e1" "map_of (rg_Entries r) k2 = Some e2" by simp_all
      with a show "k1 = k2" by (blast intro: heap_ok_unique [OF ok])
    qed (use a lt [of k1 e1] lt [of k2 e2] eq [of e1] eq [of e2] in auto)
  qed
  ultimately show ?thesis by (simp add: inst)
qed

lemma install_all_refines:
  "heap_ok r \<Longrightarrow> heap_ok (foldl (\<lambda>r v. install_entry v r) r vs) \<and>
     registry_abs (foldl (\<lambda>r v. install_entry v r) r vs) =
       foldl (\<lambda>m v. m((sr_Role v, sr_Prefix v) \<mapsto> v)) (registry_abs r) vs"
proof (induction vs arbitrary: r)
  case (Cons v vs)
  from install_refines [OF Cons.prems, of v] Cons.IH [of "install_entry v r"] show ?case by simp
qed simp

lemma RestoreRole_refines:
  "heap_ok r \<Longrightarrow> RestoreRole checkpoint r = (res, r') \<Longrightarrow>
     heap_ok r' \<and> abs_RestoreRole checkpoint (registry_abs r) = (res, registry_abs r')"
  using install_all_refines [of r]
  by (auto simp: RestoreRole_def abs_RestoreRole_def Let_def split: option.splits if_splits)

lemma ReservePark_transition_refines:
  "heap_ok r \<Longrightarrow> ReservePark role prefix pdesired force r = (res, r') \<Longrightarrow>
     heap_ok r' \<and> abs_ReservePark role prefix pdesired force (registry_abs r) = (res, registry_abs r')"
  using transition_refines [OF ReservePark_refines [of pdesired force], of r role prefix res r']
  by (cases "park_Validate pdesired prefix") (simp_all add: ReservePark_def abs_ReservePark_def)

interpretation mem_registry: registry_contract heap_ok registry_abs Reserve MarkApplying MarkRetiring
  BeginRepair MarkParkApplying MarkParkRetiring ClearPark MarkActive ReservePark MarkParkActive RestoreRole
  by (unfold_locales, erule (1) Reserve_refines,
      unfold MarkApplying_def MarkActive_def MarkRetiring_def BeginRepair_def MarkParkApplying_def
        MarkParkActive_def MarkParkRetiring_def ClearPark_def,
      erule (1) transition_refines [OF MarkApplying_refines], erule (1) transition_refines [OF MarkActive_refines],
      erule (1) transition_refines [OF MarkRetiring_refines], erule (1) transition_refines [OF BeginRepair_refines],
      erule (1) ReservePark_transition_refines,
      erule (1) transition_refines [OF on_park_refines], erule (1) transition_refines [OF on_park_refines],
      erule (1) transition_refines [OF on_park_refines], erule (1) transition_refines [OF ClearPark_refines],
      erule (1) RestoreRole_refines)

end
