(* ===== verification/Registry_Runs.thy ===== *)
theory Registry_Runs
  imports Registry_Refinement "HOL-Library.Multiset"
begin

text \<open>
  Sequences of registry operations: the in-memory registry simulates the abstract one step by
  step, every record it ever holds is well formed, and what a role's snapshot persists is
  exactly what a later process restores.
\<close>

section \<open>Operations as data\<close>

datatype registry_op =
    OpReserve string string netprefix selected_source u64 u64 string selected_identity
  | OpMarkApplying string netprefix
  | OpMarkActive string netprefix selected_identity
  | OpMarkRetiring string netprefix
  | OpBeginRepair string netprefix
  | OpReservePark string netprefix park_identity bool
  | OpMarkParkApplying string netprefix
  | OpMarkParkActive string netprefix park_identity
  | OpMarkParkRetiring string netprefix
  | OpClearPark string netprefix
  | OpRestoreRole selected_checkpoint
  | OpRemove string netprefix
  | OpRemoveRole string

fun run_op :: "registry_op \<Rightarrow> (selected_registry, unit) tx" where
  "run_op (OpReserve role zone prefix source tg rg iface desired) = Reserve role zone prefix source tg rg iface desired"
| "run_op (OpMarkApplying role prefix) = MarkApplying role prefix"
| "run_op (OpMarkActive role prefix observed) = MarkActive role prefix observed"
| "run_op (OpMarkRetiring role prefix) = MarkRetiring role prefix"
| "run_op (OpBeginRepair role prefix) = BeginRepair role prefix"
| "run_op (OpReservePark role prefix desired force) = ReservePark role prefix desired force"
| "run_op (OpMarkParkApplying role prefix) = MarkParkApplying role prefix"
| "run_op (OpMarkParkActive role prefix observed) = MarkParkActive role prefix observed"
| "run_op (OpMarkParkRetiring role prefix) = MarkParkRetiring role prefix"
| "run_op (OpClearPark role prefix) = ClearPark role prefix"
| "run_op (OpRestoreRole checkpoint) = RestoreRole checkpoint"
| "run_op (OpRemove role prefix) = putT (registry_Remove role prefix)"
| "run_op (OpRemoveRole role) = putT (registry_RemoveRole role)"

fun abs_op :: "registry_op \<Rightarrow> (abstract_registry, unit) tx" where
  "abs_op (OpReserve role zone prefix source tg rg iface desired) =
     abs_Reserve role zone prefix source tg rg iface desired"
| "abs_op (OpMarkApplying role prefix) = abs_transition role prefix MarkApplying_entry"
| "abs_op (OpMarkActive role prefix observed) = abs_transition role prefix (MarkActive_entry observed)"
| "abs_op (OpMarkRetiring role prefix) = abs_transition role prefix MarkRetiring_entry"
| "abs_op (OpBeginRepair role prefix) = abs_transition role prefix BeginRepair_entry"
| "abs_op (OpReservePark role prefix desired force) = abs_ReservePark role prefix desired force"
| "abs_op (OpMarkParkApplying role prefix) = abs_transition role prefix
     (park_value ''MarkParkApplying without a park transaction'' MarkParkApplying_park)"
| "abs_op (OpMarkParkActive role prefix observed) = abs_transition role prefix
     (park_value ''MarkParkActive without a park transaction'' (MarkParkActive_park observed))"
| "abs_op (OpMarkParkRetiring role prefix) = abs_transition role prefix
     (park_value ''MarkParkRetiring without a park transaction'' MarkParkRetiring_park)"
| "abs_op (OpClearPark role prefix) = abs_transition role prefix ClearPark_value"
| "abs_op (OpRestoreRole checkpoint) = abs_RestoreRole checkpoint"
| "abs_op (OpRemove role prefix) = putT (\<lambda>m. m((role, prefix) := None))"
| "abs_op (OpRemoveRole role) = putT (\<lambda>m key. if fst key = role then None else m key)"

fun run_ops :: "registry_op list \<Rightarrow> selected_registry \<Rightarrow> selected_registry" where
  "run_ops [] r = r"
| "run_ops (op # ops) r = run_ops ops (snd (run_op op r))"

fun abs_ops :: "registry_op list \<Rightarrow> abstract_registry \<Rightarrow> abstract_registry" where
  "abs_ops [] m = m"
| "abs_ops (op # ops) m = abs_ops ops (snd (abs_op op m))"

section \<open>Simulation\<close>

lemma map_of_filter_key: "map_of (filter (\<lambda>(k, v). P k) m) key = (if P key then map_of m key else None)"
  by (induction m) auto

lemma Remove_refines:
  "heap_ok r \<Longrightarrow> heap_ok (registry_Remove role prefix r) \<and>
     registry_abs (registry_Remove role prefix r) = (registry_abs r)((role, prefix) := None)"
  unfolding heap_ok_def registry_Remove_def registry_abs_def
  by (auto split: if_splits)

lemma RemoveRole_refines:
  assumes ok: "heap_ok r"
  shows "heap_ok (registry_RemoveRole role r) \<and>
     registry_abs (registry_RemoveRole role r) = (\<lambda>key. if fst key = role then None else registry_abs r key)"
proof -
  have sub: "map_of (rg_Entries (registry_RemoveRole role r)) key =
      (if fst key \<noteq> role then map_of (rg_Entries r) key else None)" for key
    using map_of_filter_key [of "\<lambda>k. fst k \<noteq> role" "rg_Entries r" key]
    by (simp add: registry_RemoveRole_def)
  have parks: "rg_Parks (registry_RemoveRole role r) = rg_Parks r" by (simp add: registry_RemoveRole_def)
  have "heap_ok (registry_RemoveRole role r)"
    unfolding heap_ok_def sub parks
  proof (intro conjI allI impI)
    fix key e p
    assume "(if fst key \<noteq> role then map_of (rg_Entries r) key else None) = Some e \<and> sr_Park e = Some p"
    then show "p < length (rg_Parks r)" using heap_ok_range [OF ok] by (metis option.distinct(1))
  next
    fix key key' e e' p
    assume "(if fst key \<noteq> role then map_of (rg_Entries r) key else None) = Some e \<and>
        (if fst key' \<noteq> role then map_of (rg_Entries r) key' else None) = Some e' \<and>
        sr_Park e = Some p \<and> sr_Park e' = Some p"
    then show "key = key'" using heap_ok_unique [OF ok] by (metis option.distinct(1))
  qed
  then show ?thesis by (simp add: registry_abs_def sub parks fun_eq_iff)
qed

lemma run_op_refines:
  assumes "heap_ok r" and "run_op op r = (res, r')"
  shows "heap_ok r' \<and> abs_op op (registry_abs r) = (res, registry_abs r')"
proof (cases op)
  case (OpRemove role prefix)
  with assms Remove_refines [of r role prefix] show ?thesis by (auto simp: putT_def)
next
  case (OpRemoveRole role)
  with assms RemoveRole_refines [of r role] show ?thesis by (auto simp: putT_def)
next
  case OpReserve
  from assms show ?thesis unfolding OpReserve run_op.simps abs_op.simps by (rule mem_registry.reserve_abs)
next
  case OpMarkApplying
  from assms show ?thesis unfolding OpMarkApplying run_op.simps abs_op.simps by (rule mem_registry.mark_applying_abs)
next
  case OpMarkActive
  from assms show ?thesis unfolding OpMarkActive run_op.simps abs_op.simps by (rule mem_registry.mark_active_abs)
next
  case OpMarkRetiring
  from assms show ?thesis unfolding OpMarkRetiring run_op.simps abs_op.simps by (rule mem_registry.mark_retiring_abs)
next
  case OpBeginRepair
  from assms show ?thesis unfolding OpBeginRepair run_op.simps abs_op.simps by (rule mem_registry.begin_repair_abs)
next
  case OpReservePark
  from assms show ?thesis unfolding OpReservePark run_op.simps abs_op.simps by (rule mem_registry.reserve_park_abs)
next
  case OpMarkParkApplying
  from assms show ?thesis unfolding OpMarkParkApplying run_op.simps abs_op.simps by (rule mem_registry.mark_park_applying_abs)
next
  case OpMarkParkActive
  from assms show ?thesis unfolding OpMarkParkActive run_op.simps abs_op.simps by (rule mem_registry.mark_park_active_abs)
next
  case OpMarkParkRetiring
  from assms show ?thesis unfolding OpMarkParkRetiring run_op.simps abs_op.simps by (rule mem_registry.mark_park_retiring_abs)
next
  case OpClearPark
  from assms show ?thesis unfolding OpClearPark run_op.simps abs_op.simps by (rule mem_registry.clear_park_abs)
next
  case OpRestoreRole
  from assms show ?thesis unfolding OpRestoreRole run_op.simps abs_op.simps by (rule mem_registry.restore_role_abs)
qed

lemma run_ops_refines:
  "heap_ok r \<Longrightarrow> heap_ok (run_ops ops r) \<and> registry_abs (run_ops ops r) = abs_ops ops (registry_abs r)"
proof (induction ops arbitrary: r)
  case (Cons op ops)
  obtain res r' where run: "run_op op r = (res, r')" by force
  from run_op_refines [OF Cons.prems run] Cons.IH [of r'] show ?case by (simp add: run)
qed simp

lemma abs_op_keeps: "keepsT records_ok (abs_op op)"
  by (cases op)
     (auto simp: records_ok_def
        intro!: abs_Reserve_keeps abs_ReservePark_keeps abs_RestoreRole_keeps keepsT_put abs_transition_keeps
          MarkApplying_keeps MarkActive_keeps MarkRetiring_keeps BeginRepair_keeps ClearPark_keeps park_value_keeps
          MarkParkApplying_keeps MarkParkActive_keeps MarkParkRetiring_keeps split: if_splits)

lemma abs_ops_keeps: "records_ok m \<Longrightarrow> records_ok (abs_ops ops m)"
  by (induction ops arbitrary: m) (auto intro: abs_op_keeps [unfolded keepsT_def, rule_format])

lemma new_registry_ok [simp]:
  "heap_ok NewMemorySelectedRegistry" "registry_abs NewMemorySelectedRegistry = Map.empty"
  "gomap_wf (rg_Entries NewMemorySelectedRegistry)"
  by (simp_all add: heap_ok_def NewMemorySelectedRegistry_def registry_abs_def)

lemma records_ok_empty [simp]: "records_ok Map.empty"
  by (simp add: records_ok_def)

text \<open>The entries of the in-memory registry keep distinct keys.\<close>

lemma transition_wf: "keepsT (\<lambda>r. gomap_wf (rg_Entries r)) (transition role prefix mutate)"
  by (auto simp: keepsT_def transition_def split: option.splits sum.splits)

lemma install_wf: "gomap_wf (rg_Entries r) \<Longrightarrow> gomap_wf (rg_Entries (install_entry v r))"
  by (auto simp: install_entry_def split: option.splits)

lemma install_all_wf:
  "gomap_wf (rg_Entries r) \<Longrightarrow> gomap_wf (rg_Entries (foldl (\<lambda>r v. install_entry v r) r vs))"
  by (induction vs arbitrary: r) (auto intro: install_wf)

lemma RemoveRole_wf: "gomap_wf (rg_Entries r) \<Longrightarrow> gomap_wf (rg_Entries (registry_RemoveRole role r))"
  by (simp add: registry_RemoveRole_def gomap_wf_def distinct_map_filter)

lemma run_op_wf: "keepsT (\<lambda>r. gomap_wf (rg_Entries r)) (run_op op)"
proof (cases op)
  case (OpReserve role zone prefix source tg rg iface desired)
  then show ?thesis by (auto simp: keepsT_def Reserve_def split: option.splits)
next
  case (OpReservePark role prefix desired force)
  then show ?thesis
    using transition_wf unfolding keepsT_def by (auto simp: ReservePark_def split: option.splits)
next
  case (OpRestoreRole c)
  then show ?thesis
    by (auto simp: keepsT_def RestoreRole_def Let_def install_all_wf split: option.splits)
qed (auto simp: MarkApplying_def MarkActive_def MarkRetiring_def BeginRepair_def MarkParkApplying_def
       MarkParkActive_def MarkParkRetiring_def ClearPark_def transition_wf registry_Remove_def RemoveRole_wf
       intro!: keepsT_put)

lemma run_ops_wf: "gomap_wf (rg_Entries r) \<Longrightarrow> gomap_wf (rg_Entries (run_ops ops r))"
  by (induction ops arbitrary: r) (auto intro: run_op_wf [unfolded keepsT_def, rule_format])

section \<open>The frame of an operation\<close>

fun op_key :: "registry_op \<Rightarrow> route_key option" where
  "op_key (OpReserve role zone prefix source tg rg iface desired) = Some (role, prefix)"
| "op_key (OpMarkApplying role prefix) = Some (role, prefix)"
| "op_key (OpMarkActive role prefix observed) = Some (role, prefix)"
| "op_key (OpMarkRetiring role prefix) = Some (role, prefix)"
| "op_key (OpBeginRepair role prefix) = Some (role, prefix)"
| "op_key (OpReservePark role prefix desired force) = Some (role, prefix)"
| "op_key (OpMarkParkApplying role prefix) = Some (role, prefix)"
| "op_key (OpMarkParkActive role prefix observed) = Some (role, prefix)"
| "op_key (OpMarkParkRetiring role prefix) = Some (role, prefix)"
| "op_key (OpClearPark role prefix) = Some (role, prefix)"
| "op_key (OpRemove role prefix) = Some (role, prefix)"
| "op_key (OpRestoreRole checkpoint) = None"
| "op_key (OpRemoveRole role) = None"

lemma abs_transition_frame: "key \<noteq> (role, prefix) \<Longrightarrow> snd (abs_transition role prefix f M) key = M key"
  by (simp add: abs_transition_def split: option.splits sum.splits)

lemma abs_op_frame: "op_key op = Some k \<Longrightarrow> key \<noteq> k \<Longrightarrow> snd (abs_op op M) key = M key"
  by (cases op) (auto simp: abs_transition_frame abs_Reserve_def abs_ReservePark_def split: option.splits)

lemma transition_frame:
  "key \<noteq> (role, prefix) \<Longrightarrow> map_of (rg_Entries (snd (transition role prefix f r))) key = map_of (rg_Entries r) key"
  by (auto simp: transition_def split: option.splits sum.splits)

lemma run_op_frame:
  "op_key op = Some k \<Longrightarrow> key \<noteq> k \<Longrightarrow> map_of (rg_Entries (snd (run_op op r))) key = map_of (rg_Entries r) key"
  by (cases op)
     (auto simp: transition_frame Reserve_def ReservePark_def MarkApplying_def MarkActive_def MarkRetiring_def
        BeginRepair_def MarkParkApplying_def MarkParkActive_def MarkParkRetiring_def ClearPark_def registry_Remove_def
      split: option.splits)

section \<open>Snapshots and checkpoints\<close>

text \<open>What the caller persists: the role's snapshot with the parks followed.\<close>

definition snapshot_values :: "string \<Rightarrow> selected_registry \<Rightarrow> route_value list" where
  "snapshot_values role r = map (deref (rg_Parks r)) (registry_Snapshot role r)"

lemma snapshot_values_set:
  assumes "gomap_wf (rg_Entries r)"
  shows "set (snapshot_values role r) = {v. \<exists>key. registry_abs r key = Some v \<and> sr_Role v = role}"
proof -
  have "set (registry_Snapshot role r) = {e. \<exists>key. map_of (rg_Entries r) key = Some e \<and> sr_Role e = role}"
    using ran_distinct [OF assms [unfolded gomap_wf_def]]
    by (auto simp: registry_Snapshot_def snapshotLocked_def ran_def set_eq_iff image_iff)
  then show ?thesis by (fastforce simp: snapshot_values_def registry_abs_def)
qed

lemma snapshot_keys_distinct:
  assumes wf: "gomap_wf (rg_Entries r)" and ok: "records_ok (registry_abs r)"
  shows "distinct (map (\<lambda>v. (sr_Role v, sr_Prefix v)) (snapshot_values role r))"
proof -
  have keys: "key = (sr_Role e, sr_Prefix e)" if "(key, e) \<in> set (rg_Entries r)" for key e
  proof -
    from that have "registry_abs r key = Some (deref (rg_Parks r) e)"
      using gomap_mem_iff [OF wf] by (simp add: registry_abs_def)
    with ok have "record_ok key (deref (rg_Parks r) e)" unfolding records_ok_def by blast
    then show ?thesis by (simp add: record_ok_def)
  qed
  have fsts: "map (\<lambda>e. (sr_Role e, sr_Prefix e)) (map snd (rg_Entries r)) = map fst (rg_Entries r)"
    unfolding map_map by (rule map_cong [OF refl]) (auto dest!: keys)
  have "distinct (map (\<lambda>e. (sr_Role e, sr_Prefix e)) (map snd (rg_Entries r)))"
    unfolding fsts using wf unfolding gomap_wf_def .
  then have dist: "distinct (map (\<lambda>e. (sr_Role e, sr_Prefix e)) (filter (\<lambda>e. sr_Role e = role) (map snd (rg_Entries r))))"
    by (rule distinct_map_filter)
  have "mset (map (\<lambda>e. (sr_Role e, sr_Prefix e)) (registry_Snapshot role r)) =
      mset (map (\<lambda>e. (sr_Role e, sr_Prefix e)) (filter (\<lambda>e. sr_Role e = role) (map snd (rg_Entries r))))"
    unfolding registry_Snapshot_def snapshotLocked_def mset_map mset_sort ..
  from mset_eq_imp_distinct_iff [OF this] dist
  have "distinct (map (\<lambda>e. (sr_Role e, sr_Prefix e)) (registry_Snapshot role r))" by blast
  then show ?thesis by (simp add: snapshot_values_def comp_def)
qed

lemma install_map:
  "distinct (map (\<lambda>v. (sr_Role v, sr_Prefix v)) vs) \<Longrightarrow>
     foldl (\<lambda>m v. m((sr_Role v, sr_Prefix v) \<mapsto> v)) m vs =
       m ++ map_of (map (\<lambda>v. ((sr_Role v, sr_Prefix v), v)) vs)"
proof (induction vs arbitrary: m)
  case (Cons v vs)
  let ?k = "(sr_Role v, sr_Prefix v)" and ?M = "map_of (map (\<lambda>v. ((sr_Role v, sr_Prefix v), v)) vs)"
  have new: "?k \<notin> dom ?M"
    using Cons.prems by (auto simp: dom_map_of_conv_image_fst image_iff)
  have "foldl (\<lambda>m v. m((sr_Role v, sr_Prefix v) \<mapsto> v)) m (v # vs) = m(?k \<mapsto> v) ++ ?M"
    unfolding foldl_Cons by (rule Cons.IH) (use Cons.prems in simp)
  also have "\<dots> = (m ++ ?M)(?k \<mapsto> v)" by (rule map_add_upd_left [OF new])
  also have "\<dots> = m ++ ?M(?k \<mapsto> v)" by (rule map_add_upd [symmetric])
  finally show ?case by (simp only: list.map map_of.simps fst_conv snd_conv)
qed simp

lemma snapshot_map:
  assumes wf: "gomap_wf (rg_Entries r)" and ok: "records_ok (registry_abs r)"
  shows "map_of (map (\<lambda>v. ((sr_Role v, sr_Prefix v), v)) (snapshot_values role r)) =
           (\<lambda>key. if fst key = role then registry_abs r key else None)"
proof (rule ext)
  fix key :: route_key
  let ?vs = "snapshot_values role r" and ?kv = "\<lambda>v. ((sr_Role v, sr_Prefix v), v)"
  have dist: "distinct (map fst (map ?kv ?vs))"
    using snapshot_keys_distinct [OF wf ok, of role] by (simp add: comp_def)
  have key_of: "k = (sr_Role v, sr_Prefix v)" if "registry_abs r k = Some v" for k v
    using ok that unfolding records_ok_def record_ok_def by blast
  have "map_of (map ?kv ?vs) key = Some v \<longleftrightarrow> fst key = role \<and> registry_abs r key = Some v" for v
  proof -
    have "map_of (map ?kv ?vs) key = Some v \<longleftrightarrow> (key, v) \<in> set (map ?kv ?vs)"
      using dist by simp
    also have "\<dots> \<longleftrightarrow> v \<in> set ?vs \<and> key = (sr_Role v, sr_Prefix v)" by auto
    also have "\<dots> \<longleftrightarrow> fst key = role \<and> registry_abs r key = Some v"
    proof
      assume a: "v \<in> set ?vs \<and> key = (sr_Role v, sr_Prefix v)"
      then obtain k where "registry_abs r k = Some v" "sr_Role v = role"
        unfolding snapshot_values_set [OF wf] by blast
      moreover from this key_of have "k = key" using a by blast
      ultimately show "fst key = role \<and> registry_abs r key = Some v" using a by simp
    next
      assume a: "fst key = role \<and> registry_abs r key = Some v"
      with key_of have "key = (sr_Role v, sr_Prefix v)" by blast
      with a show "v \<in> set ?vs \<and> key = (sr_Role v, sr_Prefix v)"
        unfolding snapshot_values_set [OF wf] by auto
    qed
    finally show ?thesis .
  qed
  then show "map_of (map ?kv ?vs) key = (if fst key = role then registry_abs r key else None)"
    by (rule option_eq_if)
qed

lemma restore_snapshot:
  assumes wf: "gomap_wf (rg_Entries r)" and ok: "records_ok (registry_abs r)"
    and cp: "ck_Role c = role" "role \<noteq> []" "ck_Entries c = Some (snapshot_values role r)"
    and heap: "heap_ok r0"
  shows "\<exists>r'. RestoreRole c r0 = (Inr (), r') \<and> heap_ok r' \<and>
           registry_abs r' = registry_abs r0 ++ (\<lambda>key. if fst key = role then registry_abs r key else None)"
proof -
  let ?vs = "snapshot_values role r"
  have "\<forall>v \<in> set ?vs. restore_entry_error v = None"
    using ok unfolding snapshot_values_set [OF wf] records_ok_def record_ok_def by blast
  then have none: "restore_errors [] ?vs = None"
    by (rule restore_errors_None) (use snapshot_keys_distinct [OF wf ok] in simp_all)
  obtain res r' where run: "RestoreRole c r0 = (res, r')" by force
  then have res: "res = Inr ()" using cp none by (simp add: RestoreRole_def)
  from RestoreRole_refines [OF heap run]
  have "heap_ok r'" and "abs_RestoreRole c (registry_abs r0) = (res, registry_abs r')" by simp_all
  then have "registry_abs r' = foldl (\<lambda>m v. m((sr_Role v, sr_Prefix v) \<mapsto> v)) (registry_abs r0) ?vs"
    using cp none by (simp add: abs_RestoreRole_def)
  also have "\<dots> = registry_abs r0 ++ (\<lambda>key. if fst key = role then registry_abs r key else None)"
    by (simp only: install_map [OF snapshot_keys_distinct [OF wf ok]] snapshot_map [OF wf ok])
  finally show ?thesis using \<open>heap_ok r'\<close> run res by blast
qed

end
