(* ===== verification/Selected_Plan.thy ===== *)
theory Selected_Plan
  imports Selected_Registry "HOL-Library.Multiset"
begin

text \<open>
  The reconciliation rules every platform shares
  (\<^verbatim>\<open>toad/internal/routing/selected_plan.go\<close>): which kernel rows of a prefix a record may
  claim, and what has to be done to them. A record is read through its park pointer, so the
  planner works on records that hold their parks by value.
\<close>

section \<open>Kernel rows\<close>

record selected_desired =
  sd_Role :: string
  sd_Prefix :: netprefix
  sd_IfIndex :: int
  sd_Gateway :: addr

datatype kernel_row_kind = SelectedKernelRoute | SelectedKernelPark | SelectedKernelForeign

record kernel_row =
  kr_Kind :: kernel_row_kind
  kr_Route :: selected_identity
  kr_Park :: park_identity
  kr_Description :: string

record reconcile_result =
  rc_Mutated :: bool
  rc_Verified :: selected_identity

record park_reconcile_result =
  pr_Mutated :: bool
  pr_Verified :: park_identity

datatype invalidation_kind = SelectedInvalidatePrefix | SelectedInvalidateInterface | SelectedInvalidateFull

record route_invalidation =
  ri_Kind :: invalidation_kind
  ri_Prefix :: netprefix
  ri_IfIndex :: int
  ri_Sequence :: u64

datatype reconcile_action = SelectedActionNone | SelectedActionAdd | SelectedActionReplace

definition SelectedRowMatchesIdentity :: "kernel_row \<Rightarrow> selected_identity \<Rightarrow> bool" where
  "SelectedRowMatchesIdentity row identity = (kr_Kind row = SelectedKernelRoute \<and> kr_Route row = identity)"

definition SelectedParkMatchesIdentity :: "kernel_row \<Rightarrow> park_identity \<Rightarrow> bool" where
  "SelectedParkMatchesIdentity row identity = (kr_Kind row = SelectedKernelPark \<and> kr_Park row = identity)"

definition matches_owned :: "kernel_row \<Rightarrow> park_identity option \<Rightarrow> bool" where
  "matches_owned row owned = (case owned of None \<Rightarrow> False | Some i \<Rightarrow> SelectedParkMatchesIdentity row i)"

definition parkRowAuthorized :: "kernel_row \<Rightarrow> route_value \<Rightarrow> bool" where
  "parkRowAuthorized row rec =
     (case sr_Park rec of
        None \<Rightarrow> False
      | Some park \<Rightarrow>
          (case sk_State park of
             SelectedParkPending \<Rightarrow> matches_owned row (sk_Owned park)
           | SelectedParkApplying \<Rightarrow>
               SelectedParkMatchesIdentity row (sk_Desired park) \<or> matches_owned row (sk_Owned park)
           | SelectedParkActive \<Rightarrow> matches_owned row (sk_Owned park)
           | SelectedParkRetiring \<Rightarrow>
               matches_owned row (sk_Owned park) \<or>
               sk_RetireDesired park \<and> SelectedParkMatchesIdentity row (sk_Desired park)
           | ParkStateOther s \<Rightarrow> False))"

text \<open>The classification loop: the counts of exact desired and stale owned rows.\<close>

fun classify_rows :: "route_value \<Rightarrow> kernel_row list \<Rightarrow> int \<Rightarrow> int \<Rightarrow> goerror + int \<times> int" where
  "classify_rows rec [] desiredCount ownedCount = Inr (desiredCount, ownedCount)"
| "classify_rows rec (row # rows) desiredCount ownedCount =
     (if kr_Kind row = SelectedKernelForeign
        then Inl (Errorf ''prefix conflicts with a foreign row: %s'')
      else if kr_Kind row = SelectedKernelPark then
        (if \<not> parkRowAuthorized row rec
         then Inl (Errorf ''prefix conflicts with an unauthorized park row: %s'')
         else classify_rows rec rows desiredCount ownedCount)
      else if SelectedRowMatchesIdentity row (sr_Desired rec)
        then classify_rows rec rows (desiredCount + 1) ownedCount
      else if (case sr_Owned rec of None \<Rightarrow> False | Some i \<Rightarrow> SelectedRowMatchesIdentity row i)
        then classify_rows rec rows desiredCount (ownedCount + 1)
      else Inl (Errorf ''prefix conflicts with a foreign row: %s''))"

definition PlanSelectedRoute :: "kernel_row list \<Rightarrow> route_value option \<Rightarrow> goerror + reconcile_action" where
  "PlanSelectedRoute rows rec =
     (case rec of
        None \<Rightarrow>
          if rows = [] then Inr SelectedActionAdd
          else Inl (Errorf ''prefix conflicts with %d foreign row(s): no registry record owns it'')
      | Some rec \<Rightarrow>
          if sr_State rec = SelectedRetiring
            then Inl (Errorf ''selected route %s is retiring; retirement owns its cleanup'')
          else case classify_rows rec rows 0 0 of
                 Inl e \<Rightarrow> Inl e
               | Inr (desiredCount, ownedCount) \<Rightarrow>
                   if 1 < desiredCount then Inl (Errorf ''prefix has %d identical desired rows'')
                   else if sr_Owned rec = None \<and> ownedCount = 0 \<and> 0 < desiredCount \<and> sr_State rec \<noteq> SelectedApplying
                     then Inl (Errorf ''prefix has an unauthorized existing row: %q state may not adopt it'')
                   else if desiredCount = 1 \<and> ownedCount = 0 then Inr SelectedActionNone
                   else if desiredCount = 0 \<and> ownedCount = 0 then Inr SelectedActionAdd
                   else if desiredCount = 0 \<and> 0 < ownedCount then Inr SelectedActionReplace
                   else Inr SelectedActionReplace)"

section \<open>What a verdict means\<close>

text \<open>The rows a record accounts for.\<close>

definition desired_row :: "route_value \<Rightarrow> kernel_row \<Rightarrow> bool" where
  "desired_row rec row = SelectedRowMatchesIdentity row (sr_Desired rec)"

definition stale_row :: "route_value \<Rightarrow> kernel_row \<Rightarrow> bool" where
  "stale_row rec row \<longleftrightarrow> \<not> desired_row rec row \<and>
     (\<exists>i. sr_Owned rec = Some i \<and> SelectedRowMatchesIdentity row i)"

definition park_row :: "route_value \<Rightarrow> kernel_row \<Rightarrow> bool" where
  "park_row rec row \<longleftrightarrow> kr_Kind row = SelectedKernelPark \<and> parkRowAuthorized row rec"

definition accounted :: "route_value \<Rightarrow> kernel_row \<Rightarrow> bool" where
  "accounted rec row \<longleftrightarrow> desired_row rec row \<or> stale_row rec row \<or> park_row rec row"

lemma classify_rows_spec:
  "classify_rows rec rows d k =
     (if \<forall>row \<in> set rows. accounted rec row
      then Inr (d + int (length (filter (desired_row rec) rows)), k + int (length (filter (stale_row rec) rows)))
      else classify_rows rec rows d k) \<and>
   ((\<exists>p. classify_rows rec rows d k = Inr p) \<longleftrightarrow> (\<forall>row \<in> set rows. accounted rec row))"
proof (induction rows arbitrary: d k)
  case (Cons row rows)
  consider (foreign) "kr_Kind row = SelectedKernelForeign" | (park) "kr_Kind row = SelectedKernelPark"
    | (route) "kr_Kind row = SelectedKernelRoute" by (cases "kr_Kind row") auto
  then show ?case
  proof cases
    case foreign
    then have "\<not> accounted rec row"
      by (auto simp: accounted_def desired_row_def stale_row_def park_row_def SelectedRowMatchesIdentity_def)
    with foreign show ?thesis by simp
  next
    case park
    then have "\<not> desired_row rec row" "\<not> stale_row rec row"
      by (auto simp: desired_row_def stale_row_def SelectedRowMatchesIdentity_def)
    with park Cons.IH show ?thesis by (auto simp: accounted_def park_row_def)
  next
    case route
    then have np: "\<not> park_row rec row" by (simp add: park_row_def)
    show ?thesis
    proof (cases "desired_row rec row")
      case True
      then have "\<not> stale_row rec row" by (simp add: stale_row_def)
      moreover have "classify_rows rec (row # rows) d k = classify_rows rec rows (d + 1) k"
        using True route by (simp add: desired_row_def)
      ultimately show ?thesis using True Cons.IH [of "d + 1" k] by (auto simp: accounted_def)
    next
      case False
      show ?thesis
      proof (cases "stale_row rec row")
        case True
        then have "classify_rows rec (row # rows) d k = classify_rows rec rows d (k + 1)"
          using False route by (auto simp: desired_row_def stale_row_def)
        with True False Cons.IH [of d "k + 1"] show ?thesis by (auto simp: accounted_def)
      next
        case stale: False
        then have "\<not> accounted rec row" using False np by (simp add: accounted_def)
        with False stale route show ?thesis by (auto simp: desired_row_def stale_row_def split: option.splits)
      qed
    qed
  qed
qed simp

lemma classify_rows_Inr:
  "classify_rows rec rows d k = Inr p \<longleftrightarrow>
     (\<forall>row \<in> set rows. accounted rec row) \<and>
     p = (d + int (length (filter (desired_row rec) rows)), k + int (length (filter (stale_row rec) rows)))"
  using classify_rows_spec [of rec rows d k] by (metis sum.inject(2))

definition plan_counts :: "route_value \<Rightarrow> kernel_row list \<Rightarrow> nat \<times> nat" where
  "plan_counts rec rows = (length (filter (desired_row rec) rows), length (filter (stale_row rec) rows))"

lemma Plan_Inr_iff:
  "PlanSelectedRoute rows (Some rec) = Inr action \<longleftrightarrow>
     sr_State rec \<noteq> SelectedRetiring \<and> (\<forall>row \<in> set rows. accounted rec row) \<and>
     (case plan_counts rec rows of (d, k) \<Rightarrow>
        d \<le> 1 \<and> (sr_Owned rec = None \<and> d = 1 \<longrightarrow> sr_State rec = SelectedApplying) \<and>
        action = (if k > 0 then SelectedActionReplace else if d = 1 then SelectedActionNone else SelectedActionAdd))"
proof -
  have stale: "length (filter (stale_row rec) rows) = 0" if "sr_Owned rec = None"
    using that by (auto simp: stale_row_def filter_empty_conv)
  show ?thesis
  proof (cases "sr_State rec = SelectedRetiring")
    case False
    show ?thesis
    proof (cases "\<forall>row \<in> set rows. accounted rec row")
      case True
      define d k where "d = length (filter (desired_row rec) rows)" and "k = length (filter (stale_row rec) rows)"
      have "classify_rows rec rows 0 0 = Inr (int d, int k)"
        using True by (simp add: classify_rows_Inr d_def k_def)
      moreover have "plan_counts rec rows = (d, k)" by (simp add: plan_counts_def d_def k_def)
      moreover have "sr_Owned rec = None \<longrightarrow> k = 0" using stale by (simp add: k_def)
      ultimately show ?thesis using True False by (auto simp: PlanSelectedRoute_def)
    next
      case bad: False
      then obtain e where "classify_rows rec rows 0 0 = Inl e"
        using classify_rows_Inr [of rec rows 0 0] by (cases "classify_rows rec rows 0 0") auto
      with bad False show ?thesis by (simp add: PlanSelectedRoute_def)
    qed
  qed (simp add: PlanSelectedRoute_def)
qed

lemma plan_counts_perm: "mset rows = mset rows' \<Longrightarrow> plan_counts rec rows = plan_counts rec rows'"
  unfolding plan_counts_def by (metis mset_filter size_mset)

end
