(* ===== verification/Routing_Properties.thy ===== *)
theory Routing_Properties
  imports Parking Registry_Runs Selected_Plan
begin

text \<open>
  The properties of the routing packages (\<^verbatim>\<open>toad/internal/routing\<close>, \<^verbatim>\<open>toad/internal/parking\<close>): the
  registry against its abstract map, the records and their checkpoints, the planner's verdict
  and the legacy parking manager.
\<close>

section \<open>The registry\<close>

text \<open>C29: the in-memory registry with its shared park pointers behaves as a partial map from role and
  prefix to records that hold their park by value: every sequence of operations on it has on
  the map the effect of the same sequence of abstract operations.\<close>

theorem registry_implements_map:
  "registry_abs (run_ops ops NewMemorySelectedRegistry) = abs_ops ops Map.empty"
  using run_ops_refines [of NewMemorySelectedRegistry ops] by simp

text \<open>Whatever operations were applied, each record stands under its own role and prefix and is
  consistent: an active one owns exactly its desired identity, only a retiring one is to be
  retired, and the same holds of the park it carries.\<close>

lemma registry_records_consistent:
  assumes "registry_abs (run_ops ops NewMemorySelectedRegistry) key = Some v"
  shows "key = (sr_Role v, sr_Prefix v) \<and> identity_Validate (sr_Desired v) (sr_Prefix v) = None \<and>
         (sr_State v = SelectedActive \<longrightarrow> sr_Owned v = Some (sr_Desired v)) \<and>
         (sr_RetireDesired v \<longrightarrow> sr_State v = SelectedRetiring) \<and>
         (\<forall>k. sr_Park v = Some k \<longrightarrow> park_Validate (sk_Desired k) (sr_Prefix v) = None \<and>
            (sk_State k = SelectedParkActive \<longrightarrow> sk_Owned k = Some (sk_Desired k)) \<and>
            (sk_RetireDesired k \<longrightarrow> sk_State k = SelectedParkRetiring))"
proof -
  have "records_ok (registry_abs (run_ops ops NewMemorySelectedRegistry))"
    using run_ops_refines [of NewMemorySelectedRegistry ops] abs_ops_keeps [of Map.empty ops] by simp
  with assms have "record_ok key v" unfolding records_ok_def by blast
  then show ?thesis by (auto simp: record_ok_def restore_entry_ok_iff park_ok_iff)
qed

definition host_prefix :: netprefix where
  "host_prefix = Prefix (Addr4 0x0a000001) 33"

definition tun_identity :: selected_identity where
  "tun_identity = \<lparr>si_Table = 254, si_IfIndex = 7, si_NextHop = [], si_Protocol = 4, si_Metric = 100,
     si_Scope = 253, si_InterfaceLuid = 0\<rparr>"

definition active_run :: "registry_op list" where
  "active_run = [OpReserve ''home'' ''z'' host_prefix SelectedDNS 1 1 ''tun0'' tun_identity,
     OpMarkApplying ''home'' host_prefix, OpMarkActive ''home'' host_prefix tun_identity]"

lemma registry_records_consistent_witness:
  "\<exists>v. registry_abs (run_ops active_run NewMemorySelectedRegistry) (''home'', host_prefix) = Some v \<and>
     sr_State v = SelectedActive \<and> sr_Owned v = Some (sr_Desired v)"
proof -
  let ?rec = "registry_abs (run_ops active_run NewMemorySelectedRegistry) (''home'', host_prefix)"
  have "map_option sr_State ?rec = Some SelectedActive" by code_simp
  then obtain v where v: "?rec = Some v" "sr_State v = SelectedActive" by auto
  from registry_records_consistent [OF v(1)] v show ?thesis by simp
qed

text \<open>What a role's snapshot persists is what a later process gets back: restoring the checkpoint
  of a role into another registry succeeds and leaves there exactly that role's records, parks
  included, beside the records of the other roles.\<close>

lemma registry_checkpoint_roundtrip:
  assumes "ck_Role c = role" and "role \<noteq> []"
    and "ck_Entries c = Some (snapshot_values role (run_ops ops NewMemorySelectedRegistry))"
  shows "\<exists>r. RestoreRole c NewMemorySelectedRegistry = (Inr (), r) \<and>
           registry_abs r = (\<lambda>key. if fst key = role
              then registry_abs (run_ops ops NewMemorySelectedRegistry) key else None)"
proof -
  let ?r = "run_ops ops NewMemorySelectedRegistry"
  have "gomap_wf (rg_Entries ?r)" "records_ok (registry_abs ?r)"
    using run_ops_wf [of NewMemorySelectedRegistry ops] run_ops_refines [of NewMemorySelectedRegistry ops]
      abs_ops_keeps [of Map.empty ops] by simp_all
  from restore_snapshot [OF this assms, of NewMemorySelectedRegistry] show ?thesis by auto
qed

section \<open>The planner\<close>

text \<open>The planner accepts the kernel rows of a prefix exactly when the record is not retiring,
  accounts for every row (its desired row, a row it still owns, or a park it is authorized to
  have), there is at most one desired row, and such a row is adopted without ownership only while
  applying. It then adds, keeps or replaces by what is there.\<close>

lemma plan_verdict:
  "PlanSelectedRoute rows (Some rec) = Inr action \<longleftrightarrow>
     sr_State rec \<noteq> SelectedRetiring \<and> (\<forall>row \<in> set rows. accounted rec row) \<and>
     (let d = length (filter (desired_row rec) rows); k = length (filter (stale_row rec) rows)
      in d \<le> 1 \<and> (sr_Owned rec = None \<and> d = 1 \<longrightarrow> sr_State rec = SelectedApplying) \<and>
         action = (if k > 0 then SelectedActionReplace else if d = 1 then SelectedActionNone else SelectedActionAdd))"
  unfolding Plan_Inr_iff by (simp add: plan_counts_def Let_def)

lemma plan_verdict_witness:
  "PlanSelectedRoute [] (registry_abs (run_ops active_run NewMemorySelectedRegistry) (''home'', host_prefix)) = Inr SelectedActionAdd"
proof -
  let ?rec = "registry_abs (run_ops active_run NewMemorySelectedRegistry) (''home'', host_prefix)"
  have "map_option sr_State ?rec = Some SelectedActive" by code_simp
  then obtain v where v: "?rec = Some v" "sr_State v = SelectedActive" by auto
  then show ?thesis using plan_verdict [of "[]" v SelectedActionAdd] by simp
qed

text \<open>The planner's verdict does not depend on the order in which the kernel lists the rows.\<close>

lemma plan_order_independent:
  assumes "mset rows = mset rows'"
  shows "PlanSelectedRoute rows (Some rec) = Inr action \<longleftrightarrow> PlanSelectedRoute rows' (Some rec) = Inr action"
  unfolding Plan_Inr_iff plan_counts_perm [OF assms] mset_eq_setD [OF assms] ..

section \<open>Legacy parking\<close>

text \<open>Over every route executor whose applied parks are visible in its next snapshot, the parks a
  withdrawal prepared are exactly what a restarted process reads back from its checkpoint and the
  kernel.\<close>

lemma parking_checkpoint_roundtrip:
  assumes "parking_executor ex" and "PrepareWithdrawal (Some ex) role ps m = (None, m')" and "role \<noteq> []"
    and "ex_Snapshot ex (pm_Kernel m') = Inr k" and "cp_Role c = role"
    and "map or_Prefix (cp_Parked c) = pk_Prefixes (parking_Snapshot m' role)" and "pm_Kernel fresh = pm_Kernel m'"
  shows "fst (RestoreCheckpoint (Some ex) c fresh) = None \<and>
         parking_Snapshot (snd (RestoreCheckpoint (Some ex) c fresh)) role = parking_Snapshot m' role"
  by (rule parking_executor.checkpoint_roundtrip [OF assms])

definition fake_manager :: "fake_executor parking_manager" where
  "fake_manager = parking_NewManager \<lparr>fk_Transactions = [], fk_State = \<lparr>ks_Routes = [], ks_Rules = []\<rparr>\<rparr>"

definition home_parked :: "fake_executor parking_manager" where
  "home_parked = snd (PrepareWithdrawal (Some Fake) ''home'' [host_prefix] fake_manager)"

definition home_checkpoint :: parking_checkpoint where
  "home_checkpoint = \<lparr>cp_BootID = [], cp_CoreInstanceID = [], cp_Role = ''home'', cp_Interface = [], cp_IfIndex = 0,
     cp_Baseline = [], cp_Observed = [], cp_Parked = [\<lparr>or_Role = ''home'', or_Interface = [], or_IfIndex = 7, or_Prefix = host_prefix\<rparr>]\<rparr>"

text \<open>Observing the kernel releases from a role's parks exactly the prefixes for which the snapshot
  holds a forwarding route that wins over the park, reports their number, and leaves the parks of
  every other role alone.\<close>

lemma release_exactly_winning:
  assumes "ex_Snapshot ex (pm_Kernel m) = Inr k"
    and "ObserveRestorationFromKernel (Some ex) role m = (Inr released, m')"
  shows "pk_Prefixes (parking_Snapshot m' role) =
           filter (\<lambda>p. \<not> winning_route k p) (pk_Prefixes (parking_Snapshot m role)) \<and>
         released = int (card {p \<in> set (pk_Prefixes (parking_Snapshot m role)). winning_route k p}) \<and>
         (\<forall>other. other \<noteq> role \<longrightarrow> parking_Snapshot m' other = parking_Snapshot m other)"
proof -
  from assms have "release_loop (Some ex) role k (pk_Prefixes (parking_Snapshot m role)) 0 m = (released, m')"
    by (auto simp: ObserveRestorationFromKernel_def split: prod.splits)
  from release_loop_prefixes [OF this] show ?thesis
    by (auto simp: conj_commute intro!: filter_cong) (meson conj_commute)+
qed

text \<open>A withdrawal of owned routes parks a prefix exactly when an owner of the role on a real
  interface claims that host prefix and the kernel shows the owner's own route, each once.\<close>

lemma owned_withdrawal_exact:
  assumes "role \<noteq> []" and "ex_Snapshot ex (pm_Kernel m) = Inr k"
    and "PrepareOwnedWithdrawal (Some ex) role owned m = (None, m')"
  shows "distinct (pk_Prefixes (parking_Snapshot m' role)) \<and>
         (p \<in> set (pk_Prefixes (parking_Snapshot m' role)) \<longleftrightarrow>
            (\<exists>owner \<in> set owned. ow_Prefix owner = p \<and> ow_Role owner = role \<and> 0 < ow_IfIndex owner \<and>
               IsHostPrefix p \<and> owner_verified k owner))"
proof -
  let ?ps = "verified_prefixes role k [] owned"
  have host: "filter IsHostPrefix ?ps = ?ps"
    by (auto simp: filter_id_conv dest: verified_prefixes_sound)
  from assms(2, 3) have "PrepareWithdrawal (Some ex) role ?ps m = (None, m')" by (simp add: PrepareOwnedWithdrawal_def)
  then have "pk_Prefixes (parking_Snapshot m' role) = ?ps"
    using assms(1) host
    by (auto simp: PrepareWithdrawal_def Let_def parking_Snapshot_def parking_zero_def split: prod.splits option.splits if_splits)
  moreover have "p \<in> set ?ps \<longleftrightarrow> (\<exists>owner \<in> set owned. ow_Prefix owner = p \<and> ow_Role owner = role \<and> 0 < ow_IfIndex owner \<and>
      IsHostPrefix p \<and> owner_verified k owner)"
    using verified_prefixes_sound [of p role k "[]" owned] verified_prefixes_complete [of _ owned role k "[]"] by fastforce
  ultimately show ?thesis by (simp add: verified_prefixes_distinct)
qed

definition routed_manager :: "fake_executor parking_manager" where
  "routed_manager = parking_NewManager \<lparr>fk_Transactions = [], fk_State = \<lparr>ks_Routes =
     [operation_zero\<lparr>op_Kind := ''route'', op_Prefix := ''10.0.0.1/32'', op_Table := 254, op_IfIndex := 7,
        op_Protocol := 4\<rparr>], ks_Rules = []\<rparr>\<rparr>"

definition home_owner :: selected_route_owner where
  "home_owner = \<lparr>ow_Role = ''home'', ow_Interface = ''tun0'', ow_IfIndex = 7, ow_Prefix = host_prefix\<rparr>"

section \<open>Runs of the parking manager\<close>

datatype parking_op =
    ParkRestoreCheckpoint parking_checkpoint
  | ParkPrepare string "netprefix list"
  | ParkPrepareOwned string "selected_route_owner list"
  | ParkObserve string netprefix
  | ParkObserveKernel string
  | ParkClear string

fun parking_apply :: "'e executor option \<Rightarrow> parking_op \<Rightarrow> 'e parking_manager \<Rightarrow> 'e parking_manager" where
  "parking_apply ex (ParkRestoreCheckpoint c) m = snd (RestoreCheckpoint ex c m)"
| "parking_apply ex (ParkPrepare role ps) m = snd (PrepareWithdrawal ex role ps m)"
| "parking_apply ex (ParkPrepareOwned role owned) m = snd (PrepareOwnedWithdrawal ex role owned m)"
| "parking_apply ex (ParkObserve role p) m = snd (parking_ObserveRestoration ex role p m)"
| "parking_apply ex (ParkObserveKernel role) m = snd (ObserveRestorationFromKernel ex role m)"
| "parking_apply ex (ParkClear role) m = snd (parking_Clear ex role m)"

lemma parking_apply_ok: "parking_ok m \<Longrightarrow> parking_ok (parking_apply ex op m)"
  by (cases op) (simp_all add: RestoreCheckpoint_ok PrepareWithdrawal_ok PrepareOwnedWithdrawal_ok
      parking_ObserveRestoration_ok ObserveRestorationFromKernel_ok parking_Clear_ok)

lemma parking_run_ok: "parking_ok m \<Longrightarrow> parking_ok (foldl (\<lambda>m op. parking_apply ex op m) m ops)"
  by (induction ops arbitrary: m) (simp_all add: parking_apply_ok)

text \<open>After any sequence of parking operations over any executor, the summary of every role agrees
  with its list of parked prefixes: the count is the length, and the role is active exactly when
  something is parked.\<close>

lemma parking_summary_agrees:
  "parking_state_ok (parking_Snapshot (foldl (\<lambda>m op. parking_apply ex op m) (parking_NewManager e) ops) role)"
  by (rule parking_ok_Snapshot [OF parking_run_ok [OF parking_NewManager_ok]])

end
