(* ===== verification/Selected_Manager.thy ===== *)
theory Selected_Manager
  imports Core_Controller Selected_Plan
begin

text \<open>
  The selected-route manager (\<^verbatim>\<open>toad/internal/control\<close>: selected_routes.go,
  selected_transactions.go and the token part of selected_reconcile_support.go): the
  single-writer transactions that register a destination, authorize a kernel mutation by a
  durable checkpoint, apply it and prove it by read-back.

  The manager runs over an environment: the platform writer, the product state of the roles,
  the zone index, the state directories, the checkpoint writer and the failpoint hook. Every
  platform call is a transaction on the host state \<open>'k\<close>, which it may change even when it
  only observes or fails, so nothing is assumed about other writers of the routing table.
  Successful checkpoint writes are remembered in \<open>sm_Disk\<close>. Locks are left out: an
  operation of one role runs under that role's \<^verbatim>\<open>applyMu\<close> from its first to its last
  transition.
\<close>

section \<open>The platform and the environment\<close>

record 'k route_manager =
  rm_NormalizeSelectedRoute :: "selected_desired \<Rightarrow> ('k, selected_identity) tx"
  rm_PreflightSelectedRoute :: "netprefix \<Rightarrow> selected_identity \<Rightarrow> route_value \<Rightarrow> ('k, unit) tx"
  rm_ReconcileSelectedRoute :: "selected_desired \<Rightarrow> route_value \<Rightarrow> ('k, reconcile_result) tx"
  rm_RemoveSelectedRoute :: "route_value \<Rightarrow> ('k, unit) tx"
  rm_NormalizeManagedPark :: "netprefix \<Rightarrow> ('k, park_identity) tx"
  rm_PreflightManagedPark :: "netprefix \<Rightarrow> park_identity \<Rightarrow> route_value \<Rightarrow> ('k, unit) tx"
  rm_ReconcileManagedPark :: "string \<Rightarrow> netprefix \<Rightarrow> route_value \<Rightarrow> ('k, park_reconcile_result) tx"
  rm_ObserveManagedPark :: "netprefix \<Rightarrow> park_identity \<Rightarrow> ('k, bool) tx"
  rm_RemoveManagedPark :: "string \<Rightarrow> netprefix \<Rightarrow> selected_park \<Rightarrow> ('k, unit) tx"
  rm_SnapshotSelectedRoutes :: "('k, (netprefix, kernel_row list) gomap) tx"
  rm_CurrentSelectedRouteSequence :: "('k \<Rightarrow> u64) option"
  rm_SelectedWinsOverPark :: "(netprefix \<Rightarrow> selected_identity \<Rightarrow> park_identity \<Rightarrow> ('k, bool) tx) option"
  rm_Executor :: "'k executor option"

record 'k manager_env =
  se_Routes :: "'k route_manager option"
  se_RoleRuntime :: "string \<Rightarrow> role_runtime option"
  se_ZoneRoles :: "(string, string list) gomap"
  se_StateDir :: "string \<Rightarrow> string option"
  se_Capacity :: int
  se_Managed :: "(string, bool) gomap"
  se_AuthorityError :: string
  se_WriteCheckpoint :: "string \<Rightarrow> selected_checkpoint \<Rightarrow> ('k, unit) tx"
  se_Windows :: bool
  se_Failpoint :: "(string \<Rightarrow> string \<Rightarrow> netprefix \<Rightarrow> goerror option) option"

definition SelectedRouteCapacity :: int where
  "SelectedRouteCapacity = 16384"

definition selectedRouteProtocol :: int where
  "selectedRouteProtocol = 4"

section \<open>The state\<close>

record selected_verification =
  sv_ToadGeneration :: u64
  sv_RouteGeneration :: u64
  sv_Identity :: selected_identity

text \<open>\<open>rl_inFlightZero\<close>: \<^term>\<open>None\<close> for the nil channel, \<^term>\<open>Some True\<close> once it is closed.\<close>

record selected_role_state =
  rl_frozen :: bool
  rl_inFlight :: int
  rl_routeGeneration :: u64
  rl_inFlightZero :: "bool option"
  rl_restorePending :: bool
  rl_integrityQuarantined :: bool
  rl_integrityReason :: string
  rl_verification :: "(netprefix, selected_verification) gomap"
  rl_ensures :: u64
  rl_duplicateHits :: u64
  rl_kernelMutations :: u64
  rl_denials :: u64
  rl_conflicts :: u64
  rl_capacityDenials :: u64
  rl_forgets :: u64
  rl_restores :: u64

definition new_role_state :: selected_role_state where
  "new_role_state = \<lparr>rl_frozen = False, rl_inFlight = 0, rl_routeGeneration = 1, rl_inFlightZero = None,
     rl_restorePending = False, rl_integrityQuarantined = False, rl_integrityReason = [],
     rl_verification = [], rl_ensures = 0, rl_duplicateHits = 0, rl_kernelMutations = 0, rl_denials = 0,
     rl_conflicts = 0, rl_capacityDenials = 0, rl_forgets = 0, rl_restores = 0\<rparr>"

record 'k selected_manager =
  sm_Registry :: selected_registry
  sm_Roles :: "(string, selected_role_state) gomap"
  sm_Kernel :: 'k
  sm_Disk :: "(string, selected_checkpoint) gomap"
  sm_ProcessedSequence :: u64
  sm_AuthorityReady :: bool
  sm_ObserverErrors :: u64
  sm_AuditSkippedBusy :: u64
  sm_AuditFailures :: u64
  sm_Audits :: u64
  sm_DriftRepairs :: u64

definition NewSelectedRouteManager :: "'k \<Rightarrow> 'k selected_manager" where
  "NewSelectedRouteManager k = \<lparr>sm_Registry = NewMemorySelectedRegistry, sm_Roles = [], sm_Kernel = k,
     sm_Disk = [], sm_ProcessedSequence = 0, sm_AuthorityReady = False, sm_ObserverErrors = 0,
     sm_AuditSkippedBusy = 0, sm_AuditFailures = 0, sm_Audits = 0, sm_DriftRepairs = 0\<rparr>"

text \<open>\<^verbatim>\<open>roleState\<close> creates a missing state; reading it is reading the fresh one.\<close>

definition roleState :: "string \<Rightarrow> 'k selected_manager \<Rightarrow> selected_role_state" where
  "roleState role m = (case map_of (sm_Roles m) role of None \<Rightarrow> new_role_state | Some s \<Rightarrow> s)"

definition update_role ::
  "string \<Rightarrow> (selected_role_state \<Rightarrow> selected_role_state) \<Rightarrow> 'k selected_manager \<Rightarrow> 'k selected_manager" where
  "update_role role f m = m\<lparr>sm_Roles := gomap_put role (f (roleState role m)) (sm_Roles m)\<rparr>"

text \<open>The registry's and the platform's transactions inside the manager's.\<close>

definition on_registry :: "(selected_registry, 'a) tx \<Rightarrow> ('k selected_manager, 'a) tx" where
  "on_registry t m = (case t (sm_Registry m) of (r, g) \<Rightarrow> (r, m\<lparr>sm_Registry := g\<rparr>))"

definition on_kernel :: "('k, 'a) tx \<Rightarrow> ('k selected_manager, 'a) tx" where
  "on_kernel t m = (case t (sm_Kernel m) of (r, k) \<Rightarrow> (r, m\<lparr>sm_Kernel := k\<rparr>))"

text \<open>A record as the platform reads it: its park pointer followed now.\<close>

definition read_record :: "route_record \<Rightarrow> 'k selected_manager \<Rightarrow> route_value" where
  "read_record rec m = deref (rg_Parks (sm_Registry m)) rec"

definition registryEntry :: "string \<Rightarrow> netprefix \<Rightarrow> 'k selected_manager \<Rightarrow> route_record option" where
  "registryEntry role prefix m = find (\<lambda>e. sr_Prefix e = prefix) (registry_Snapshot role (sm_Registry m))"

definition routeGenerationLocked :: "string \<Rightarrow> 'k selected_manager \<Rightarrow> u64" where
  "routeGenerationLocked role m = rl_routeGeneration (roleState role m)"

definition runFailpoint :: "'k manager_env \<Rightarrow> string \<Rightarrow> string \<Rightarrow> netprefix \<Rightarrow> ('k selected_manager, unit) tx" where
  "runFailpoint env point role prefix =
     (case se_Failpoint env of
        None \<Rightarrow> returnT ()
      | Some hook \<Rightarrow> (case hook point role prefix of None \<Rightarrow> returnT () | Some e \<Rightarrow> throwT e))"

section \<open>Checkpoints\<close>

definition manager_checkpoint :: "'k manager_env \<Rightarrow> string \<Rightarrow> u64 \<Rightarrow> 'k selected_manager \<Rightarrow> selected_checkpoint" where
  "manager_checkpoint env role generation m =
     \<lparr>ck_Schema = SelectedRoutesCheckpointSchema, ck_Role = role, ck_RouteGeneration = generation,
      ck_Entries = Some (map (\<lambda>e. read_record e m) (registry_Snapshot role (sm_Registry m))),
      ck_ActivationID = [], ck_ModeGeneration = 0, ck_Platform = RuntimeCheckpointPlatform (se_Windows env)\<rparr>"

definition writeCheckpoint :: "'k manager_env \<Rightarrow> string \<Rightarrow> u64 \<Rightarrow> ('k selected_manager, unit) tx" where
  "writeCheckpoint env role generation m =
     (case se_StateDir env role of
        None \<Rightarrow> (Inr (), m)
      | Some dir \<Rightarrow>
          if dir = [] then (Inr (), m)
          else
            let c = manager_checkpoint env role generation m
            in case se_WriteCheckpoint env (dir @ ''/selected-routes.json'') c (sm_Kernel m) of
                 (Inl e, k) \<Rightarrow> (Inl e, m\<lparr>sm_Kernel := k\<rparr>)
               | (Inr _, k) \<Rightarrow> (Inr (), m\<lparr>sm_Kernel := k, sm_Disk := gomap_put role c (sm_Disk m)\<rparr>))"

text \<open>\<^verbatim>\<open>m.writeCheckpoint(role, m.routeGenerationLocked(role))\<close>; reading the generation creates
  a missing role state.\<close>

definition touch_role :: "string \<Rightarrow> 'k selected_manager \<Rightarrow> 'k selected_manager" where
  "touch_role role = update_role role id"

definition checkpointNow :: "'k manager_env \<Rightarrow> string \<Rightarrow> ('k selected_manager, unit) tx" where
  "checkpointNow env role m = writeCheckpoint env role (routeGenerationLocked role m) (touch_role role m)"

section \<open>Verification tokens\<close>

definition mintVerificationToken :: "string \<Rightarrow> route_record \<Rightarrow> 'k selected_manager \<Rightarrow> 'k selected_manager" where
  "mintVerificationToken role entry m =
     (case map_of (sm_Roles m) role of
        None \<Rightarrow> m
      | Some state \<Rightarrow>
          m\<lparr>sm_Roles := gomap_put role
             (state\<lparr>rl_verification := gomap_put (sr_Prefix entry)
                \<lparr>sv_ToadGeneration = sr_ToadGeneration entry, sv_RouteGeneration = rl_routeGeneration state,
                 sv_Identity = sr_Desired entry\<rparr> (rl_verification state)\<rparr>) (sm_Roles m)\<rparr>)"

definition ClearVerification :: "string \<Rightarrow> 'k selected_manager \<Rightarrow> 'k selected_manager" where
  "ClearVerification role m =
     (case map_of (sm_Roles m) role of
        None \<Rightarrow> m
      | Some state \<Rightarrow> m\<lparr>sm_Roles := gomap_put role (state\<lparr>rl_verification := []\<rparr>) (sm_Roles m)\<rparr>)"

definition ClearAllVerification :: "'k selected_manager \<Rightarrow> 'k selected_manager" where
  "ClearAllVerification m = m\<lparr>sm_Roles := gomap_map (\<lambda>_ s. s\<lparr>rl_verification := []\<rparr>) (sm_Roles m)\<rparr>"

definition clearVerificationForPrefix :: "netprefix \<Rightarrow> 'k selected_manager \<Rightarrow> 'k selected_manager" where
  "clearVerificationForPrefix prefix m =
     m\<lparr>sm_Roles := gomap_map (\<lambda>_ s. s\<lparr>rl_verification := gomap_del prefix (rl_verification s)\<rparr>) (sm_Roles m)\<rparr>"

definition clearVerificationForIfindex :: "int \<Rightarrow> 'k selected_manager \<Rightarrow> 'k selected_manager" where
  "clearVerificationForIfindex ifindex m =
     m\<lparr>sm_Roles := gomap_map (\<lambda>_ s. s\<lparr>rl_verification :=
          filter (\<lambda>(p, t). si_IfIndex (sv_Identity t) \<noteq> ifindex) (rl_verification s)\<rparr>) (sm_Roles m)\<rparr>"

definition fastPathAllowed :: "'k manager_env \<Rightarrow> 'k selected_manager \<Rightarrow> bool" where
  "fastPathAllowed env m =
     (case se_Routes env of
        None \<Rightarrow> True
      | Some rm \<Rightarrow>
          (case rm_CurrentSelectedRouteSequence rm of
             None \<Rightarrow> True
           | Some seq \<Rightarrow> sm_ProcessedSequence m = seq (sm_Kernel m)))"

definition noteProcessedSequence :: "u64 \<Rightarrow> 'k selected_manager \<Rightarrow> 'k selected_manager" where
  "noteProcessedSequence sequence m =
     (if sm_ProcessedSequence m < sequence then m\<lparr>sm_ProcessedSequence := sequence\<rparr> else m)"

section \<open>The canonical transactions\<close>

fun isConflictErr :: "goerror \<Rightarrow> bool" where
  "isConflictErr (SelectedRouteConflictError r z p) = True"
| "isConflictErr (Wrapf m e) = isConflictErr e"
| "isConflictErr _ = False"

fun isDeniedErr :: "goerror \<Rightarrow> bool" where
  "isDeniedErr (SelectedRouteDeniedError r z p t) = True"
| "isDeniedErr (Wrapf m e) = isDeniedErr e"
| "isDeniedErr _ = False"

definition isForeignRowError :: "goerror \<Rightarrow> bool" where
  "isForeignRowError e = strings_Contains (error_text e) ''conflicts with a foreign row''"

definition noWriter :: goerror where
  "noWriter = Errorf ''this platform has no selected-route writer''"

text \<open>\<^verbatim>\<open>driveTransaction\<close>: the authorized tail.\<close>

definition driveTransaction ::
  "'k manager_env \<Rightarrow> 'k route_manager \<Rightarrow> string \<Rightarrow> route_record \<Rightarrow> ('k selected_manager, bool) tx" where
  "driveTransaction env rm role rec =
     (if sr_State rec \<noteq> SelectedApplying then throwT (Errorf ''drive %s requires state applying, got %q'')
      else
        bindT (\<lambda>m. on_kernel (rm_ReconcileSelectedRoute rm
                 \<lparr>sd_Role = role, sd_Prefix = sr_Prefix rec, sd_IfIndex = si_IfIndex (sr_Desired rec), sd_Gateway = AddrZero\<rparr>
                 (read_record rec m)) m) (\<lambda>result.
        bindT (runFailpoint env ''route.after_kernel_reconcile'' role (sr_Prefix rec)) (\<lambda>_.
        bindT (requireT (rc_Verified result = sr_Desired rec)
                 (Errorf ''reconcile verified %v but the desired identity is %v'')) (\<lambda>_.
        bindT (on_registry (MarkActive role (sr_Prefix rec) (rc_Verified result))) (\<lambda>_.
        bindT (runFailpoint env ''route.after_mark_active'' role (sr_Prefix rec)) (\<lambda>_.
        bindT (checkpointNow env role) (\<lambda>_.
        bindT (runFailpoint env ''route.after_active_checkpoint'' role (sr_Prefix rec)) (\<lambda>_.
        bindT (putT (mintVerificationToken role rec)) (\<lambda>_.
        returnT (rc_Mutated result))))))))))"

text \<open>The Pending path of \<^verbatim>\<open>reconcileRecordLocked\<close>, entered with the record to check.\<close>

definition reconcile_pending ::
  "'k manager_env \<Rightarrow> 'k route_manager \<Rightarrow> string \<Rightarrow> netprefix \<Rightarrow> route_record \<Rightarrow> ('k selected_manager, bool) tx" where
  "reconcile_pending env rm role prefix rec =
     bindT (mapErrT (\<lambda>e. if isForeignRowError e
                         then SelectedRouteConflictError role (sr_Zone rec) (prefix_String prefix) else e)
              (\<lambda>m. on_kernel (rm_PreflightSelectedRoute rm prefix (sr_Desired rec) (read_record rec m)) m)) (\<lambda>_.
     bindT (runFailpoint env ''route.after_preflight'' role prefix) (\<lambda>_.
     bindT (on_registry (MarkApplying role prefix)) (\<lambda>_.
     bindT (checkpointNow env role) (\<lambda>_.
     bindT (runFailpoint env ''route.after_applying_checkpoint'' role prefix) (\<lambda>_.
     bindT (getT (registryEntry role prefix)) (\<lambda>rec'.
     case rec' of
       None \<Rightarrow> throwT (Errorf ''nil record'')
     | Some rec' \<Rightarrow> driveTransaction env rm role rec'))))))"

definition reconcileRecordLocked ::
  "'k manager_env \<Rightarrow> string \<Rightarrow> netprefix \<Rightarrow> ('k selected_manager, bool) tx" where
  "reconcileRecordLocked env role prefix =
     (case se_Routes env of
        None \<Rightarrow> throwT noWriter
      | Some rm \<Rightarrow>
          bindT (getT (registryEntry role prefix)) (\<lambda>entry.
          case entry of
            None \<Rightarrow> throwT (Errorf ''reconcile %s: the record is not registered'')
          | Some rec \<Rightarrow>
              (case sr_State rec of
                 SelectedActive \<Rightarrow>
                   bindT (on_registry (BeginRepair role prefix)) (\<lambda>_.
                   bindT (checkpointNow env role) (\<lambda>_.
                   bindT (getT (registryEntry role prefix)) (\<lambda>rec'.
                   case rec' of
                     None \<Rightarrow> throwT (Errorf ''nil record'')
                   | Some rec' \<Rightarrow> reconcile_pending env rm role prefix rec')))
               | SelectedPending \<Rightarrow> reconcile_pending env rm role prefix rec
               | SelectedApplying \<Rightarrow> driveTransaction env rm role rec
               | SelectedRetiring \<Rightarrow> throwT (Errorf ''reconcile %s: a retiring record is owned by retirement'')
               | StateOther s \<Rightarrow> throwT (Errorf ''reconcile %s: unknown state %q''))))"

definition resumeParkRetirementLocked ::
  "'k manager_env \<Rightarrow> 'k route_manager \<Rightarrow> string \<Rightarrow> netprefix \<Rightarrow> ('k selected_manager, unit) tx" where
  "resumeParkRetirementLocked env rm role prefix =
     bindT (getT (\<lambda>m. map_option (\<lambda>e. read_record e m) (registryEntry role prefix m))) (\<lambda>rec.
     case rec of
       None \<Rightarrow> returnT ()
     | Some v \<Rightarrow>
         (case sr_Park v of
            None \<Rightarrow> returnT ()
          | Some park \<Rightarrow>
              bindT (on_kernel (rm_RemoveManagedPark rm role prefix park)) (\<lambda>_.
              bindT (runFailpoint env ''park.after_kernel_delete'' role prefix) (\<lambda>_.
              bindT (on_registry (ClearPark role prefix)) (\<lambda>_.
              checkpointNow env role)))))"

text \<open>The park half of \<^verbatim>\<open>retireRecordLocked\<close>.\<close>

definition retire_park ::
  "'k manager_env \<Rightarrow> 'k route_manager \<Rightarrow> string \<Rightarrow> netprefix \<Rightarrow> route_record \<Rightarrow> ('k selected_manager, unit) tx" where
  "retire_park env rm role prefix rec m =
     (case sr_Park (read_record rec m) of
        None \<Rightarrow> (Inr (), m)
      | Some park \<Rightarrow>
          (case sk_State park of
             SelectedParkPending \<Rightarrow>
               bindT (on_registry (ClearPark role prefix)) (\<lambda>_. checkpointNow env role) m
           | SelectedParkRetiring \<Rightarrow> resumeParkRetirementLocked env rm role prefix m
           | ParkStateOther s \<Rightarrow> (Inr (), m)
           | _ \<Rightarrow>
               bindT (on_registry (MarkParkRetiring role prefix)) (\<lambda>_.
               bindT (checkpointNow env role) (\<lambda>_.
               resumeParkRetirementLocked env rm role prefix)) m))"

definition retireRecordLocked :: "'k manager_env \<Rightarrow> string \<Rightarrow> netprefix \<Rightarrow> ('k selected_manager, unit) tx" where
  "retireRecordLocked env role prefix =
     (case se_Routes env of
        None \<Rightarrow> throwT noWriter
      | Some rm \<Rightarrow>
          bindT (getT (registryEntry role prefix)) (\<lambda>entry.
          case entry of
            None \<Rightarrow> returnT ()
          | Some rec0 \<Rightarrow>
              bindT (if sr_State rec0 \<noteq> SelectedRetiring
                     then bindT (on_registry (MarkRetiring role prefix)) (\<lambda>_.
                          bindT (checkpointNow env role) (\<lambda>_.
                          getT (registryEntry role prefix)))
                     else returnT (Some rec0)) (\<lambda>rec.
              case rec of
                None \<Rightarrow> throwT (Errorf ''nil record'')
              | Some rec \<Rightarrow>
                  bindT (\<lambda>m. on_kernel (rm_RemoveSelectedRoute rm (read_record rec m)) m) (\<lambda>_.
                  bindT (retire_park env rm role prefix rec) (\<lambda>_.
                  bindT (putT (\<lambda>m. m\<lparr>sm_Registry := registry_Remove role prefix (sm_Registry m)\<rparr>)) (\<lambda>_.
                  bindT (checkpointNow env role) (\<lambda>_.
                  putT (clearVerificationForPrefix prefix))))))))"

text \<open>\<^verbatim>\<open>applySelectedRouteCanonical\<close>; the result is true for the zero-I/O fast path and for a
  reconcile that found the row in place.\<close>

definition token_proves ::
  "'k manager_env \<Rightarrow> string \<Rightarrow> string \<Rightarrow> netprefix \<Rightarrow> selected_source \<Rightarrow> u64 \<Rightarrow> u64 \<Rightarrow> selected_identity \<Rightarrow>
     'k selected_manager \<Rightarrow> bool" where
  "token_proves env role zone prefix source generation toadGeneration identity m =
     ((case map_of (rl_verification (roleState role m)) prefix of
         None \<Rightarrow> False
       | Some token \<Rightarrow>
           fastPathAllowed env m \<and> sv_Identity token = identity \<and>
           sv_ToadGeneration token = toadGeneration \<and> sv_RouteGeneration token = generation) \<and>
      list_ex (\<lambda>e. sr_Prefix e = prefix \<and> sr_State e = SelectedActive \<and> sr_Zone e = zone \<and>
                   sr_Source e = source \<and> sr_Desired e = identity \<and> sr_Owned e = Some (sr_Desired e))
        (registry_Snapshot role (sm_Registry m)))"

definition applySelectedRouteCanonical ::
  "'k manager_env \<Rightarrow> string \<Rightarrow> string \<Rightarrow> netprefix \<Rightarrow> selected_source \<Rightarrow> int \<Rightarrow> string \<Rightarrow> u64 \<Rightarrow> u64 \<Rightarrow>
     ('k selected_manager, bool) tx" where
  "applySelectedRouteCanonical env role zone prefix source ifIndex iface generation toadGeneration =
     (case se_Routes env of
        None \<Rightarrow> throwT (SelectedRouteDeniedError role zone (prefix_String prefix)
                  ''this platform has no selected-route writer'')
      | Some rm \<Rightarrow>
          bindT (on_kernel (rm_NormalizeSelectedRoute rm
                   \<lparr>sd_Role = role, sd_Prefix = prefix, sd_IfIndex = ifIndex, sd_Gateway = AddrZero\<rparr>)) (\<lambda>identity.
          bindT (getT (token_proves env role zone prefix source generation toadGeneration identity)) (\<lambda>fastPath.
          if fastPath then returnT True
          else
            bindT (on_registry (Reserve role zone prefix source toadGeneration generation iface identity)) (\<lambda>_.
            bindT (mapErrT (Wrapf ''checkpoint reserved ownership: %w'') (writeCheckpoint env role generation)) (\<lambda>_.
            bindT (runFailpoint env ''route.after_pending_checkpoint'' role prefix) (\<lambda>_.
            mapErrT (\<lambda>e. if isForeignRowError e
                         then SelectedRouteConflictError role zone (prefix_String prefix) else e)
              (bindT (reconcileRecordLocked env role prefix) (\<lambda>mutated. returnT (\<not> mutated)))))))))"

end
