(* ===== verification/Linux_Routes.thy ===== *)
theory Linux_Routes
  imports Endpoint Parking Selected_Manager
begin

text \<open>
  The Linux route writer (\<^verbatim>\<open>toad/internal/platform/linux/netlink\<close>: routes.go and
  selected_parks.go): endpoint policies, parking operations, the exact selected routes and the
  managed parks, over the netlink library. The library is a parameter: a record of its calls,
  each a transaction on the kernel's state \<open>'k\<close>, which other programs change as well.
  Contexts and the process-wide \<^verbatim>\<open>kernelMu\<close> are left out.
\<close>

section \<open>The netlink library\<close>

text \<open>A destination of a row: \<^verbatim>\<open>net.IPNet\<close> by the size of its mask. A \<^verbatim>\<open>net.IP\<close> is an address
  without a zone, nil the zero address.\<close>

record ipnet =
  in_IP :: addr
  in_Ones :: int
  in_Bits :: int

record nl_route =
  nr_Dst :: "ipnet option"
  nr_Table :: int
  nr_Type :: int
  nr_Protocol :: int
  nr_Priority :: int
  nr_Scope :: int
  nr_LinkIndex :: int
  nr_Gw :: addr
  nr_Src :: addr

record nl_rule =
  nu_Family :: int
  nu_Priority :: int
  nu_Table :: int
  nu_Dst :: "ipnet option"

datatype nl_filter = RT_FILTER_DST | RT_FILTER_TABLE

record 'k netlink =
  nk_RouteListFiltered :: "int \<Rightarrow> nl_route \<Rightarrow> nl_filter list \<Rightarrow> ('k, nl_route list) tx"
  nk_RouteAdd :: "nl_route \<Rightarrow> ('k, unit) tx"
  nk_RouteReplace :: "nl_route \<Rightarrow> ('k, unit) tx"
  nk_RouteDel :: "nl_route \<Rightarrow> ('k, unit) tx"
  nk_RuleList :: "int \<Rightarrow> ('k, nl_rule list) tx"
  nk_RuleAdd :: "nl_rule \<Rightarrow> ('k, unit) tx"
  nk_RuleDel :: "nl_rule \<Rightarrow> ('k, unit) tx"

definition FAMILY_V4 :: int where "FAMILY_V4 = 2"
definition FAMILY_V6 :: int where "FAMILY_V6 = 10"
definition RT_TABLE_UNSPEC :: int where "RT_TABLE_UNSPEC = 0"
definition RT_TABLE_MAIN :: int where "RT_TABLE_MAIN = 254"
definition RTPROT_STATIC :: int where "RTPROT_STATIC = 4"
definition rtnUnreachable :: int where "rtnUnreachable = 7"
definition endpointTable :: int where "endpointTable = 51890"
definition endpointRouteProtocol :: int where "endpointRouteProtocol = 4"
definition selectedRouteTable :: int where "selectedRouteTable = RT_TABLE_MAIN"
definition selectedRouteProtocolLinux :: int where "selectedRouteProtocolLinux = RTPROT_STATIC"

definition nl_route_zero :: nl_route where
  "nl_route_zero = \<lparr>nr_Dst = None, nr_Table = 0, nr_Type = 0, nr_Protocol = 0, nr_Priority = 0, nr_Scope = 0,
     nr_LinkIndex = 0, nr_Gw = AddrZero, nr_Src = AddrZero\<rparr>"

section \<open>The parts of \<^verbatim>\<open>net\<close> the writer uses\<close>

text \<open>The 16-byte form of an address, which \<^verbatim>\<open>net.ParseIP\<close> returns.\<close>

fun addr_As16 :: "addr \<Rightarrow> addr" where
  "addr_As16 (Addr4 w) = Addr6 (push_bit 32 0xffff OR ucast w) []"
| "addr_As16 a = a"

definition net_ParseIP :: "string \<Rightarrow> addr option" where
  "net_ParseIP s =
     (case ParseAddr s of
        None \<Rightarrow> None
      | Some a \<Rightarrow> if addr_withoutZone a \<noteq> a then None else Some (addr_As16 a))"

definition ip_String :: "addr \<Rightarrow> string" where
  "ip_String a = addr_String (addr_Unmap a)"

definition ipString :: "addr \<Rightarrow> string" where
  "ipString a = (if a = AddrZero then [] else ip_String a)"

text \<open>\<^verbatim>\<open>dtoi\<close> of a mask: decimal digits only, leading zeros allowed.\<close>

definition cidr_bits :: "string \<Rightarrow> int option" where
  "cidr_bits s =
     (if s = [] \<or> \<not> list_all is_digit s then None
      else Some (foldl (\<lambda>a c. a * 10 + (of_char c - 48)) 0 s))"

text \<open>\<^verbatim>\<open>net.ParseCIDR\<close>: the network, with the host part cleared.\<close>

definition net_ParseCIDR :: "string \<Rightarrow> ipnet option" where
  "net_ParseCIDR s =
     (let a = before_first (CHR ''/'') s;
          m = drop (Suc (length a)) s
      in if CHR ''/'' \<notin> set s then None
         else case ParseAddr a of
                None \<Rightarrow> None
              | Some ip \<Rightarrow>
                  if addr_withoutZone ip \<noteq> ip then None
                  else case cidr_bits m of
                         None \<Rightarrow> None
                       | Some n \<Rightarrow>
                           if int (addr_BitLen ip) < n then None
                           else Some \<lparr>in_IP = prefix_Addr (prefix_Masked (PrefixFrom ip n)), in_Ones = n,
                                      in_Bits = int (addr_BitLen ip)\<rparr>)"

definition ipnet_String :: "ipnet \<Rightarrow> string" where
  "ipnet_String n =
     (let ip = addr_Unmap (in_IP n)
      in if ip = AddrZero then ''<nil>''
         else if in_Bits n = int (addr_BitLen ip) then ip_String ip @ ''/'' @ show_dec (in_Ones n)
         else if addr_Is4 ip \<and> in_Bits n = 128 then ip_String ip @ ''/'' @ show_dec (max 0 (in_Ones n - 96))
         else ''<nil>'')"

text \<open>\<^verbatim>\<open>net.IPNet\<close> of a prefix, as \<^verbatim>\<open>net.CIDRMask\<close> builds it.\<close>

definition prefix_ipnet :: "netprefix \<Rightarrow> ipnet" where
  "prefix_ipnet p = \<lparr>in_IP = prefix_Addr p, in_Ones = prefix_Bits p, in_Bits = int (addr_BitLen (prefix_Addr p))\<rparr>"

definition prefixFromIPNet :: "ipnet \<Rightarrow> netprefix option" where
  "prefixFromIPNet n =
     (if in_IP n = AddrZero then None
      else if in_Bits n = 0 \<or> in_Ones n < 0 \<or> in_Bits n < in_Ones n then None
      else Some (PrefixFrom (addr_Unmap (in_IP n)) (in_Ones n)))"

definition netipAddr :: "addr \<Rightarrow> addr" where
  "netipAddr ip = addr_Unmap ip"

definition familyOf :: "netprefix \<Rightarrow> int" where
  "familyOf prefix = (if addr_Is6 (prefix_Addr prefix) then FAMILY_V6 else FAMILY_V4)"

section \<open>Operations\<close>

definition routeForOperation :: "operation \<Rightarrow> goerror + nl_route" where
  "routeForOperation op =
     (let route = nl_route_zero\<lparr>nr_Table := op_Table op, nr_LinkIndex := op_IfIndex op, nr_Priority := uint (op_Metric op)\<rparr>;
          route = (if op_Protocol op \<noteq> 0 then route\<lparr>nr_Protocol := op_Protocol op\<rparr> else route)
      in case (if op_Prefix op \<noteq> [] then map_option Some (net_ParseCIDR (op_Prefix op)) else Some None) of
           None \<Rightarrow> Inl (Errorf ''invalid CIDR address'')
         | Some dst \<Rightarrow>
             (case (if op_Gateway op \<noteq> [] then net_ParseIP (op_Gateway op) else Some AddrZero) of
                None \<Rightarrow> Inl (Errorf ''invalid route gateway %q'')
              | Some gw \<Rightarrow>
                  (case (if op_Source op \<noteq> [] then net_ParseIP (op_Source op) else Some AddrZero) of
                     None \<Rightarrow> Inl (Errorf ''invalid route source %q'')
                   | Some src \<Rightarrow>
                       let route = route\<lparr>nr_Dst := dst, nr_Gw := gw, nr_Src := src\<rparr>
                       in Inr (if op_Kind op = ''unreachable'' \<or> op_Kind op = ''park''
                               then route\<lparr>nr_Type := rtnUnreachable, nr_LinkIndex := 0\<rparr> else route))))"

text \<open>The family of a rule, the prefix's when the operation names none.\<close>

definition rule_family :: "operation \<Rightarrow> goerror + int" where
  "rule_family op =
     (if op_Family op \<noteq> 0 then Inr (op_Family op)
      else if op_Prefix op = [] then Inr FAMILY_V4
      else case ParsePrefix (op_Prefix op) of
             None \<Rightarrow> Inl (Errorf ''netip.ParsePrefix'')
           | Some prefix \<Rightarrow> Inr (if addr_Is6 (prefix_Addr prefix) then FAMILY_V6 else FAMILY_V4))"

text \<open>\<^verbatim>\<open>netlink.NewRule\<close> leaves the fields the writer does not set at the library's defaults.\<close>

definition ruleForOperation :: "operation \<Rightarrow> goerror + nl_rule" where
  "ruleForOperation op =
     (case rule_family op of
        Inl e \<Rightarrow> Inl e
      | Inr family \<Rightarrow>
          (case (if op_Prefix op \<noteq> [] then map_option Some (net_ParseCIDR (op_Prefix op)) else Some None) of
             None \<Rightarrow> Inl (Errorf ''invalid CIDR address'')
           | Some dst \<Rightarrow>
               Inr \<lparr>nu_Family = family, nu_Priority = op_Priority op, nu_Table = op_Table op, nu_Dst = dst\<rparr>))"

definition applyOperation :: "'k netlink \<Rightarrow> operation \<Rightarrow> ('k, unit) tx" where
  "applyOperation nl op =
     (if op_Kind op = ''rule'' \<or> op_Kind op = ''delete-rule'' then
        bindT (fromSum (ruleForOperation op)) (\<lambda>rule.
        if op_Kind op = ''delete-rule'' then nk_RuleDel nl rule
        else bindT (tolerateT os_IsNotExist (nk_RuleDel nl rule)) (\<lambda>_. nk_RuleAdd nl rule))
      else
        bindT (fromSum (routeForOperation op)) (\<lambda>route.
        if op_Kind op = ''delete-route'' \<or> op_Kind op = ''delete-park'' then nk_RouteDel nl route
        else if op_Kind op = ''park'' then tolerateT (\<lambda>e. errorsIs e SyscallEEXIST) (nk_RouteAdd nl route)
        else nk_RouteReplace nl route))"

definition linux_Apply :: "'k netlink \<Rightarrow> transaction \<Rightarrow> ('k, unit) tx" where
  "linux_Apply nl t = eachT (applyOperation nl) (tr_Operations t)"

section \<open>Snapshots\<close>

definition route_operation :: "int \<Rightarrow> nl_route \<Rightarrow> operation" where
  "route_operation family route = operation_zero\<lparr>
     op_Kind := (if nr_Type route = rtnUnreachable then ''unreachable'' else ''route''),
     op_Family := family,
     op_Prefix := (case nr_Dst route of
                     None \<Rightarrow> if family = FAMILY_V6 then ''::/0'' else ''0.0.0.0/0''
                   | Some dst \<Rightarrow> ipnet_String dst),
     op_Table := nr_Table route, op_IfIndex := nr_LinkIndex route, op_Metric := word_of_int (nr_Priority route),
     op_Gateway := ipString (nr_Gw route), op_Source := ipString (nr_Src route), op_Protocol := nr_Protocol route\<rparr>"

definition rule_operation :: "int \<Rightarrow> nl_rule \<Rightarrow> operation" where
  "rule_operation family rule = operation_zero\<lparr>
     op_Kind := ''rule'', op_Family := family,
     op_Prefix := (case nu_Dst rule of None \<Rightarrow> [] | Some dst \<Rightarrow> ipnet_String dst),
     op_Table := nu_Table rule, op_Priority := nu_Priority rule\<rparr>"

fun snapshot_families :: "'k netlink \<Rightarrow> int list \<Rightarrow> kernel_state \<Rightarrow> ('k, kernel_state) tx" where
  "snapshot_families nl [] state = returnT state"
| "snapshot_families nl (family # families) state =
     bindT (nk_RouteListFiltered nl family (nl_route_zero\<lparr>nr_Table := RT_TABLE_UNSPEC\<rparr>) [RT_FILTER_TABLE]) (\<lambda>routes.
     bindT (nk_RuleList nl family) (\<lambda>rules.
     snapshot_families nl families
       \<lparr>ks_Routes = ks_Routes state @ map (route_operation family) routes,
        ks_Rules = ks_Rules state @ map (rule_operation family) rules\<rparr>))"

definition snapshotKernelUnlocked :: "'k netlink \<Rightarrow> ('k, kernel_state) tx" where
  "snapshotKernelUnlocked nl = snapshot_families nl [FAMILY_V4, FAMILY_V6] \<lparr>ks_Routes = [], ks_Rules = []\<rparr>"

section \<open>Endpoint policies\<close>

definition containsRoute :: "operation list \<Rightarrow> operation \<Rightarrow> bool" where
  "containsRoute routes want =
     list_ex (\<lambda>got. op_Kind got = op_Kind want \<and> op_Family got = op_Family want \<and> op_Prefix got = op_Prefix want \<and>
        op_Table got = op_Table want \<and> op_IfIndex got = op_IfIndex want \<and> op_Metric got = op_Metric want \<and>
        op_Gateway got = op_Gateway want \<and> op_Protocol got = op_Protocol want) routes"

definition containsRule :: "operation list \<Rightarrow> operation \<Rightarrow> bool" where
  "containsRule rules want =
     list_ex (\<lambda>got. op_Kind got = ''rule'' \<and> op_Family got = op_Family want \<and> op_Prefix got = op_Prefix want \<and>
        op_Table got = op_Table want \<and> op_Priority got = op_Priority want) rules"

definition endpoint_operation :: "endpoint_route \<Rightarrow> operation" where
  "endpoint_operation route = operation_zero\<lparr>
     op_Kind := ''route'', op_Family := familyOf (er_Prefix route), op_Prefix := prefix_String (er_Prefix route),
     op_Table := endpointTable, op_IfIndex := er_IfIndex route,
     op_Metric := (if er_Metric route = 0 then 1 else er_Metric route),
     op_Protocol := endpointRouteProtocol,
     op_Gateway := (if addr_IsValid (er_Gateway route) then addr_String (er_Gateway route) else [])\<rparr>"

fun desired_routes :: "endpoint_route list \<Rightarrow> (string, operation) gomap \<Rightarrow> goerror + (string, operation) gomap" where
  "desired_routes [] desired = Inr desired"
| "desired_routes (route # routes) desired =
     (if \<not> IsHostPrefix (er_Prefix route) \<or> er_IfIndex route \<le> 0 then Inl (Errorf ''invalid endpoint route'')
      else let op = endpoint_operation route in desired_routes routes (gomap_put (op_Prefix op) op desired))"

definition endpoint_sentinels :: "operation list" where
  "endpoint_sentinels =
     [operation_zero\<lparr>op_Kind := ''unreachable'', op_Family := FAMILY_V4, op_Prefix := ''0.0.0.0/0'',
        op_Table := endpointTable, op_Metric := 32767, op_Protocol := endpointRouteProtocol\<rparr>,
      operation_zero\<lparr>op_Kind := ''unreachable'', op_Family := FAMILY_V6, op_Prefix := ''::/0'',
        op_Table := endpointTable, op_Metric := 32767, op_Protocol := endpointRouteProtocol\<rparr>]"

definition endpoint_rule :: "int \<Rightarrow> operation \<Rightarrow> operation" where
  "endpoint_rule priority route = operation_zero\<lparr>op_Kind := ''rule'', op_Family := op_Family route,
     op_Prefix := op_Prefix route, op_Table := endpointTable, op_Priority := priority\<rparr>"

text \<open>The prefix an operation names, when it is a host prefix.\<close>

definition host_prefix_of :: "operation \<Rightarrow> string option" where
  "host_prefix_of op =
     (case ParsePrefix (op_Prefix op) of
        None \<Rightarrow> None
      | Some prefix \<Rightarrow> if IsHostPrefix prefix then Some (prefix_String prefix) else None)"

definition plan_adds :: "kernel_state \<Rightarrow> int \<Rightarrow> (string, operation) gomap \<Rightarrow> operation list" where
  "plan_adds current priority desired =
     concat (map (\<lambda>prefix.
        case map_of desired prefix of
          None \<Rightarrow> []
        | Some route \<Rightarrow>
            (if containsRoute (ks_Routes current) route then [] else [route]) @
            (if containsRule (ks_Rules current) (endpoint_rule priority route) then []
             else [endpoint_rule priority route]))
       (sort (map fst desired)))"

definition plan_stale_rules :: "kernel_state \<Rightarrow> int \<Rightarrow> (string, operation) gomap \<Rightarrow> operation list" where
  "plan_stale_rules current priority desired =
     map (\<lambda>rule. rule\<lparr>op_Kind := ''delete-rule''\<rparr>)
       (filter (\<lambda>rule. op_Table rule = endpointTable \<and> op_Priority rule = priority \<and>
          (case host_prefix_of rule of None \<Rightarrow> False | Some prefix \<Rightarrow> map_of desired prefix = None))
        (ks_Rules current))"

text \<open>Whether another owner's rule or the policy itself still refers to a prefix.\<close>

definition final_ref :: "kernel_state \<Rightarrow> int \<Rightarrow> (string, operation) gomap \<Rightarrow> string \<Rightarrow> bool" where
  "final_ref current priority desired prefix =
     (list_ex (\<lambda>rule. op_Table rule = endpointTable \<and> op_Priority rule \<noteq> priority \<and>
        host_prefix_of rule = Some prefix) (ks_Rules current) \<or> map_of desired prefix \<noteq> None)"

definition plan_stale_routes :: "kernel_state \<Rightarrow> int \<Rightarrow> (string, operation) gomap \<Rightarrow> operation list" where
  "plan_stale_routes current priority desired =
     map (\<lambda>route. route\<lparr>op_Kind := ''delete-route''\<rparr>)
       (filter (\<lambda>route. op_Kind route = ''route'' \<and> op_Table route = endpointTable \<and>
          (case host_prefix_of route of None \<Rightarrow> False | Some prefix \<Rightarrow> \<not> final_ref current priority desired prefix))
        (ks_Routes current))"

definition plan_last_sentinels :: "kernel_state \<Rightarrow> int \<Rightarrow> operation list" where
  "plan_last_sentinels current priority =
     (if list_ex (\<lambda>rule. op_Table rule = endpointTable \<and> op_Priority rule \<noteq> priority) (ks_Rules current) then []
      else map (\<lambda>route. route\<lparr>op_Kind := ''delete-route''\<rparr>)
             (filter (\<lambda>route. op_Kind route = ''unreachable'' \<and> op_Table route = endpointTable \<and>
                op_Protocol route = endpointRouteProtocol) (ks_Routes current)))"

definition endpointPolicyPlan :: "kernel_state \<Rightarrow> endpoint_policy \<Rightarrow> bool \<Rightarrow> goerror + operation list" where
  "endpointPolicyPlan current p remove =
     (if \<not> policy_Valid p then Inl (Errorf ''invalid endpoint policy'')
      else case (if remove then Inr [] else desired_routes (ep_Routes p) []) of
             Inl e \<Rightarrow> Inl e
           | Inr desired \<Rightarrow>
               Inr ((if remove then [] else filter (\<lambda>s. \<not> containsRoute (ks_Routes current) s) endpoint_sentinels) @
                    plan_adds current (ep_Priority p) desired @
                    plan_stale_rules current (ep_Priority p) desired @
                    plan_stale_routes current (ep_Priority p) desired @
                    (if remove then plan_last_sentinels current (ep_Priority p) else [])))"

definition run_endpoint_plan :: "'k netlink \<Rightarrow> endpoint_policy \<Rightarrow> bool \<Rightarrow> ('k, unit) tx" where
  "run_endpoint_plan nl p remove =
     bindT (requireT (policy_Valid p) (Errorf ''invalid endpoint policy'')) (\<lambda>_.
     bindT (snapshotKernelUnlocked nl) (\<lambda>current.
     bindT (fromSum (endpointPolicyPlan current p remove)) (\<lambda>ops.
     eachT (applyOperation nl) ops)))"

definition ReconcileEndpointPolicy :: "'k netlink \<Rightarrow> endpoint_policy \<Rightarrow> ('k, unit) tx" where
  "ReconcileEndpointPolicy nl p = run_endpoint_plan nl p False"

definition RemoveEndpointPolicy :: "'k netlink \<Rightarrow> endpoint_policy \<Rightarrow> ('k, unit) tx" where
  "RemoveEndpointPolicy nl p = run_endpoint_plan nl p True"

record parking_desired =
  pd_Role :: string
  pd_Prefixes :: "netprefix list"

definition ApplyParking :: "'k netlink \<Rightarrow> parking_desired \<Rightarrow> ('k, unit) tx" where
  "ApplyParking nl p =
     linux_Apply nl \<lparr>tr_ID = 0, tr_Role = pd_Role p, tr_Operations =
       map (\<lambda>prefix. operation_zero\<lparr>op_Kind := ''park'', op_Family := familyOf prefix,
              op_Prefix := prefix_String prefix, op_Table := 254, op_Metric := 42760,
              op_Protocol := endpointRouteProtocol\<rparr>)
         (filter IsHostPrefix (pd_Prefixes p))\<rparr>"

section \<open>Selected routes\<close>

definition selectedRouteRows :: "'k netlink \<Rightarrow> int \<Rightarrow> netprefix \<Rightarrow> ('k, nl_route list) tx" where
  "selectedRouteRows nl family prefix =
     (case net_ParseCIDR (prefix_String prefix) of
        None \<Rightarrow> throwT (Errorf ''invalid CIDR address'')
      | Some dst \<Rightarrow>
          nk_RouteListFiltered nl family (nl_route_zero\<lparr>nr_Dst := Some dst, nr_Table := selectedRouteTable\<rparr>)
            [RT_FILTER_DST, RT_FILTER_TABLE])"

definition row_description :: string where
  "row_description = ''ifindex %d gw %v proto %d metric %d scope %d type %d''"

definition identity_none :: selected_identity where
  "identity_none = \<lparr>si_Table = 0, si_IfIndex = 0, si_NextHop = [], si_Protocol = 0, si_Metric = 0, si_Scope = 0,
     si_InterfaceLuid = 0\<rparr>"

definition park_none :: park_identity where
  "park_none = \<lparr>pi_Kind = ParkKindOther [], pi_Table = 0, pi_IfIndex = 0, pi_NextHop = [], pi_Protocol = 0,
     pi_Metric = 0, pi_Scope = 0, pi_InterfaceLuid = 0\<rparr>"

definition foreign_row :: kernel_row where
  "foreign_row = \<lparr>kr_Kind = SelectedKernelForeign, kr_Route = identity_none, kr_Park = park_none,
     kr_Description = row_description\<rparr>"

text \<open>The identities a forwarding and an unreachable row stand for.\<close>

definition row_identity :: "nl_route \<Rightarrow> selected_identity" where
  "row_identity row = identity_none\<lparr>
     si_Table := selectedRouteTable, si_IfIndex := nr_LinkIndex row,
     si_NextHop := (if addr_IsValid (netipAddr (nr_Gw row)) then addr_String (netipAddr (nr_Gw row)) else []),
     si_Protocol := nr_Protocol row, si_Metric := word_of_int (nr_Priority row), si_Scope := nr_Scope row\<rparr>"

definition row_park :: "nl_route \<Rightarrow> park_identity" where
  "row_park row = park_none\<lparr>pi_Kind := SelectedParkUnreachable, pi_Table := selectedRouteTable,
     pi_Protocol := nr_Protocol row, pi_Metric := word_of_int (nr_Priority row), pi_Scope := nr_Scope row\<rparr>"

definition selectedKernelRow :: "nl_route \<Rightarrow> netprefix \<Rightarrow> kernel_row" where
  "selectedKernelRow row prefix =
     (if nr_Type row = rtnUnreachable then
        (if nr_Protocol row = selectedRouteProtocolLinux \<and> word_of_int (nr_Priority row) = ManagedParkMetric \<and>
            nr_LinkIndex row = 0 \<and> nr_Gw row = AddrZero
         then foreign_row\<lparr>kr_Kind := SelectedKernelPark, kr_Park := row_park row\<rparr>
         else foreign_row)
      else if identity_Validate (row_identity row) prefix \<noteq> None then foreign_row
      else foreign_row\<lparr>kr_Kind := SelectedKernelRoute, kr_Route := row_identity row\<rparr>)"

definition selectedRoutePlan :: "nl_route list \<Rightarrow> netprefix \<Rightarrow> route_value option \<Rightarrow> goerror + reconcile_action" where
  "selectedRoutePlan existing prefix rec = PlanSelectedRoute (map (\<lambda>row. selectedKernelRow row prefix) existing) rec"

definition selectedRouteMetric :: "netprefix \<Rightarrow> int" where
  "selectedRouteMetric prefix = (if \<not> addr_Is4 (prefix_Addr prefix) then 1024 else 0)"

definition selectedRouteFor :: "netprefix \<Rightarrow> selected_identity \<Rightarrow> nl_route" where
  "selectedRouteFor prefix identity = nl_route_zero\<lparr>
     nr_Dst := Some (prefix_ipnet prefix), nr_Table := si_Table identity, nr_LinkIndex := si_IfIndex identity,
     nr_Priority := uint (si_Metric identity), nr_Protocol := si_Protocol identity,
     nr_Gw := (if si_NextHop identity \<noteq> [] then (case ParseAddr (si_NextHop identity) of None \<Rightarrow> AddrZero | Some gw \<Rightarrow> gw)
               else AddrZero),
     nr_Scope := (if si_NextHop identity \<noteq> [] then ScopeUniverse else ScopeLink)\<rparr>"

definition linux_NormalizeSelectedRoute :: "selected_desired \<Rightarrow> goerror + selected_identity" where
  "linux_NormalizeSelectedRoute desired =
     (if \<not> prefix_IsValid (sd_Prefix desired) \<or> sd_Prefix desired \<noteq> prefix_Masked (sd_Prefix desired)
        then Inl (Errorf ''selected route prefix %v is not canonical'')
      else if sd_IfIndex desired \<le> 0 then Inl (Errorf ''selected route %v has no interface'')
      else
        let is4 = addr_Is4 (prefix_Addr (sd_Prefix desired));
            gateway = addr_IsValid (sd_Gateway desired);
            identity = identity_none\<lparr>
              si_Table := selectedRouteTable, si_IfIndex := sd_IfIndex desired,
              si_Protocol := selectedRouteProtocolLinux,
              si_Metric := word_of_int (selectedRouteMetric (sd_Prefix desired)),
              si_Scope := (if is4 then (if gateway then ScopeUniverse else ScopeLink) else 0),
              si_NextHop := (if gateway then addr_String (sd_Gateway desired) else [])\<rparr>
        in case identity_Validate identity (sd_Prefix desired) of
             Some e \<Rightarrow> Inl e
           | None \<Rightarrow> Inr identity)"

definition linux_PreflightSelectedRoute ::
  "'k netlink \<Rightarrow> netprefix \<Rightarrow> route_value option \<Rightarrow> ('k, unit) tx" where
  "linux_PreflightSelectedRoute nl prefix rec =
     bindT (selectedRouteRows nl (familyOf prefix) prefix) (\<lambda>rows.
     bindT (fromSum (selectedRoutePlan rows prefix rec)) (\<lambda>_. returnT ()))"

definition retryable :: "goerror \<Rightarrow> bool" where
  "retryable e = (errorsIs e SyscallEEXIST \<or> errorsIs e SyscallEBUSY)"

text \<open>The family by the address of the prefix, as the selected-route writers compute it.\<close>

definition prefix_nl_family :: "netprefix \<Rightarrow> int" where
  "prefix_nl_family prefix = (if addr_Is4 (prefix_Addr prefix) then FAMILY_V4 else FAMILY_V6)"

definition linux_apply_action ::
  "'k netlink \<Rightarrow> reconcile_action \<Rightarrow> netprefix \<Rightarrow> selected_identity \<Rightarrow> ('k, bool) tx" where
  "linux_apply_action nl action prefix identity =
     (case action of
        SelectedActionNone \<Rightarrow> returnT False
      | SelectedActionAdd \<Rightarrow>
          bindT (tolerateT retryable (nk_RouteAdd nl (selectedRouteFor prefix identity))) (\<lambda>_. returnT True)
      | SelectedActionReplace \<Rightarrow>
          bindT (nk_RouteReplace nl (selectedRouteFor prefix identity)) (\<lambda>_. returnT True))"

definition linux_ReconcileSelectedRoute ::
  "'k netlink \<Rightarrow> selected_desired \<Rightarrow> route_value option \<Rightarrow> ('k, reconcile_result) tx" where
  "linux_ReconcileSelectedRoute nl desired rec =
     (let prefix = sd_Prefix desired; family = prefix_nl_family prefix
      in if \<not> prefix_IsValid prefix \<or> prefix \<noteq> prefix_Masked prefix
           then throwT (Errorf ''selected route prefix %v is not canonical'')
         else if sd_IfIndex desired \<le> 0 then throwT (Errorf ''selected route %v has no interface'')
         else
           bindT (selectedRouteRows nl family prefix) (\<lambda>existing.
           bindT (fromSum (selectedRoutePlan existing prefix rec)) (\<lambda>action.
           case rec of
             None \<Rightarrow> throwT (Errorf ''selected route %v is not registered'')
           | Some v \<Rightarrow>
               bindT (linux_apply_action nl action prefix (sr_Desired v)) (\<lambda>mutated.
               bindT (selectedRouteRows nl family prefix) (\<lambda>rows.
               bindT (mapErrT (Wrapf ''selected route %v is not exactly present after the apply: %w'')
                        (fromSum (selectedRoutePlan rows prefix rec))) (\<lambda>verified.
               bindT (requireT (verified = SelectedActionNone) (Errorf ''selected route %v still needs %d after the apply'')) (\<lambda>_.
               returnT \<lparr>rc_Mutated = mutated, rc_Verified = sr_Desired v\<rparr>)))))))"

text \<open>Candidates for deletion, each once, in order.\<close>

fun first_occurrences :: "'a list \<Rightarrow> 'a list \<Rightarrow> 'a list" where
  "first_occurrences seen [] = []"
| "first_occurrences seen (x # xs) =
     (if x \<in> set seen then first_occurrences seen xs else x # first_occurrences (x # seen) xs)"

text \<open>The first row that matches is deleted; a row that is gone is fine.\<close>

definition delete_first :: "'k netlink \<Rightarrow> (nl_route \<Rightarrow> bool) \<Rightarrow> nl_route list \<Rightarrow> ('k, bool) tx" where
  "delete_first nl match rows =
     (case find match rows of
        None \<Rightarrow> returnT False
      | Some row \<Rightarrow> bindT (tolerateT os_IsNotExist (nk_RouteDel nl row)) (\<lambda>_. returnT True))"

definition route_candidates :: "route_value \<Rightarrow> (goerror + selected_identity list)" where
  "route_candidates v =
     (let owned = (case sr_Owned v of None \<Rightarrow> [] | Some i \<Rightarrow> [i])
      in case sr_State v of
           SelectedApplying \<Rightarrow> Inr (owned @ [sr_Desired v])
         | SelectedRetiring \<Rightarrow> Inr (owned @ (if sr_RetireDesired v then [sr_Desired v] else []))
         | SelectedPending \<Rightarrow> Inr owned
         | SelectedActive \<Rightarrow> Inr owned
         | _ \<Rightarrow> Inl (Errorf ''selected route %v has an unknown state %q''))"

definition linux_RemoveSelectedRoute :: "'k netlink \<Rightarrow> route_value \<Rightarrow> ('k, unit) tx" where
  "linux_RemoveSelectedRoute nl v =
     (let prefix = sr_Prefix v
      in if \<not> prefix_IsValid prefix \<or> prefix \<noteq> prefix_Masked prefix
           then throwT (Errorf ''selected route prefix %v is not canonical'')
         else
           bindT (selectedRouteRows nl (prefix_nl_family prefix) prefix) (\<lambda>rows.
           bindT (fromSum (route_candidates v)) (\<lambda>candidates.
           eachT (\<lambda>candidate.
              bindT (delete_first nl (\<lambda>row. SelectedRowMatchesIdentity (selectedKernelRow row prefix) candidate) rows) (\<lambda>_.
              returnT ())) (first_occurrences [] candidates))))"

section \<open>Managed parks\<close>

definition parkRowFor :: "netprefix \<Rightarrow> park_identity \<Rightarrow> nl_route" where
  "parkRowFor prefix identity = nl_route_zero\<lparr>
     nr_Dst := Some (prefix_ipnet prefix), nr_Table := pi_Table identity, nr_Type := rtnUnreachable,
     nr_Protocol := pi_Protocol identity, nr_Priority := uint (pi_Metric identity), nr_Scope := pi_Scope identity\<rparr>"

definition linux_NormalizeManagedPark :: "netprefix \<Rightarrow> goerror + park_identity" where
  "linux_NormalizeManagedPark prefix =
     (if \<not> prefix_IsValid prefix \<or> \<not> IsCanonicalPrefix prefix then Inl (Errorf ''park prefix %q is not canonical'')
      else
        let identity = park_none\<lparr>pi_Kind := SelectedParkUnreachable, pi_Table := selectedRouteTable,
              pi_Protocol := selectedRouteProtocolLinux, pi_Metric := ManagedParkMetric, pi_Scope := ScopeUniverse\<rparr>
        in case park_Validate identity prefix of Some e \<Rightarrow> Inl e | None \<Rightarrow> Inr identity)"

definition selectedRowAuthorizedForPark :: "selected_identity \<Rightarrow> route_value option \<Rightarrow> bool" where
  "selectedRowAuthorizedForPark row rec =
     (case rec of
        None \<Rightarrow> False
      | Some v \<Rightarrow> row = sr_Desired v \<or> sr_Owned v = Some row)"

definition parkRowAuthorizedForPreflight :: "park_identity \<Rightarrow> route_value option \<Rightarrow> bool" where
  "parkRowAuthorizedForPreflight row rec =
     (case rec of
        None \<Rightarrow> False
      | Some v \<Rightarrow>
          (case sr_Park v of
             None \<Rightarrow> False
           | Some park \<Rightarrow>
               (case sk_State park of
                  SelectedParkPending \<Rightarrow> sk_Owned park = Some row
                | SelectedParkApplying \<Rightarrow> row = sk_Desired park \<or> sk_Owned park = Some row
                | SelectedParkActive \<Rightarrow> sk_Owned park = Some row
                | SelectedParkRetiring \<Rightarrow> sk_Owned park = Some row \<or> sk_RetireDesired park \<and> row = sk_Desired park
                | ParkStateOther s \<Rightarrow> False)))"

fun classifyParkPrefixRows :: "netprefix \<Rightarrow> route_value option \<Rightarrow> nl_route list \<Rightarrow> goerror + unit" where
  "classifyParkPrefixRows prefix rec [] = Inr ()"
| "classifyParkPrefixRows prefix rec (row # rows) =
     (let projected = selectedKernelRow row prefix
      in case kr_Kind projected of
           SelectedKernelForeign \<Rightarrow> Inl (Errorf ''%s %s: foreign row: %s'')
         | SelectedKernelRoute \<Rightarrow>
             if selectedRowAuthorizedForPark (kr_Route projected) rec then classifyParkPrefixRows prefix rec rows
             else Inl (Errorf ''%s %s: unauthorized forwarding row: %s'')
         | SelectedKernelPark \<Rightarrow>
             if parkRowAuthorizedForPreflight (kr_Park projected) rec then classifyParkPrefixRows prefix rec rows
             else Inl (Errorf ''%s %s: unauthorized park row %v''))"

definition linux_PreflightManagedPark :: "'k netlink \<Rightarrow> netprefix \<Rightarrow> route_value option \<Rightarrow> ('k, unit) tx" where
  "linux_PreflightManagedPark nl prefix rec =
     bindT (selectedRouteRows nl (familyOf prefix) prefix) (\<lambda>rows.
     fromSum (classifyParkPrefixRows prefix rec rows))"

definition is_park :: "netprefix \<Rightarrow> park_identity \<Rightarrow> nl_route \<Rightarrow> bool" where
  "is_park prefix identity row = SelectedParkMatchesIdentity (selectedKernelRow row prefix) identity"

text \<open>The removal of the previous park, after the new one was added.\<close>

definition drop_stale_park ::
  "'k netlink \<Rightarrow> netprefix \<Rightarrow> selected_park \<Rightarrow> nl_route list \<Rightarrow> ('k, bool) tx" where
  "drop_stale_park nl prefix park rows =
     (case sk_Owned park of
        None \<Rightarrow> returnT False
      | Some owned \<Rightarrow>
          if list_ex (is_park prefix owned) rows \<and> owned \<noteq> sk_Desired park then
            bindT (selectedRouteRows nl (familyOf prefix) prefix) (\<lambda>rows'.
            delete_first nl (is_park prefix owned) rows')
          else returnT False)"

definition linux_ReconcileManagedPark ::
  "'k netlink \<Rightarrow> netprefix \<Rightarrow> route_value option \<Rightarrow> ('k, park_reconcile_result) tx" where
  "linux_ReconcileManagedPark nl prefix rec =
     (case (case rec of None \<Rightarrow> None | Some v \<Rightarrow> sr_Park v) of
        None \<Rightarrow> throwT (Errorf ''reconcile managed park %s: no park transaction'')
      | Some park \<Rightarrow>
          if sk_State park \<noteq> SelectedParkApplying
            then throwT (Errorf ''reconcile managed park %s requires park state applying, got %q'')
          else if \<not> prefix_IsValid prefix \<or> \<not> IsCanonicalPrefix prefix
            then throwT (Errorf ''park prefix %q is not canonical'')
          else case park_Validate (sk_Desired park) prefix of
                 Some e \<Rightarrow> throwT e
               | None \<Rightarrow>
                   bindT (selectedRouteRows nl (familyOf prefix) prefix) (\<lambda>rows.
                   bindT (fromSum (classifyParkPrefixRows prefix rec rows)) (\<lambda>_.
                   bindT (if list_ex (is_park prefix (sk_Desired park)) rows then returnT False
                          else bindT (tolerateT retryable (nk_RouteAdd nl (parkRowFor prefix (sk_Desired park)))) (\<lambda>_.
                               returnT True)) (\<lambda>added.
                   bindT (drop_stale_park nl prefix park rows) (\<lambda>dropped.
                   bindT (selectedRouteRows nl (familyOf prefix) prefix) (\<lambda>after.
                   bindT (requireT (list_ex (is_park prefix (sk_Desired park)) after)
                            (Errorf ''park %s is not exactly present after the apply'')) (\<lambda>_.
                   returnT \<lparr>pr_Mutated = (added \<or> dropped), pr_Verified = sk_Desired park\<rparr>)))))))"

definition linux_ObserveManagedPark :: "'k netlink \<Rightarrow> netprefix \<Rightarrow> park_identity \<Rightarrow> ('k, bool) tx" where
  "linux_ObserveManagedPark nl prefix expected =
     bindT (selectedRouteRows nl (familyOf prefix) prefix) (\<lambda>rows.
     returnT (list_ex (is_park prefix expected) rows))"

text \<open>The identities the park transaction authorizes to delete; \<^term>\<open>None\<close> for a Pending park, for
  which nothing is done.\<close>

definition park_candidates :: "selected_park \<Rightarrow> goerror + park_identity list option" where
  "park_candidates park =
     (let owned = (case sk_Owned park of None \<Rightarrow> [] | Some i \<Rightarrow> [i])
      in case sk_State park of
           SelectedParkPending \<Rightarrow> Inr None
         | SelectedParkApplying \<Rightarrow> Inr (Some (owned @ [sk_Desired park]))
         | SelectedParkActive \<Rightarrow>
             if sk_Owned park = None then Inl (Errorf ''active park %s has no owned identity'') else Inr (Some owned)
         | SelectedParkRetiring \<Rightarrow> Inr (Some (owned @ (if sk_RetireDesired park then [sk_Desired park] else [])))
         | ParkStateOther s \<Rightarrow> Inl (Errorf ''park %s has an unknown state %q''))"

definition linux_RemoveManagedPark :: "'k netlink \<Rightarrow> netprefix \<Rightarrow> selected_park \<Rightarrow> ('k, unit) tx" where
  "linux_RemoveManagedPark nl prefix park =
     bindT (fromSum (park_candidates park)) (\<lambda>cs.
     case cs of
       None \<Rightarrow> returnT ()
     | Some candidates \<Rightarrow>
         bindT (selectedRouteRows nl (familyOf prefix) prefix) (\<lambda>rows.
         bindT (eachT (\<lambda>candidate. bindT (delete_first nl (is_park prefix candidate) rows) (\<lambda>_. returnT ()))
                  (first_occurrences [] candidates)) (\<lambda>_.
         bindT (selectedRouteRows nl (familyOf prefix) prefix) (\<lambda>after.
         requireT (\<not> list_ex (\<lambda>row. list_ex (\<lambda>candidate. is_park prefix candidate row) candidates) after)
           (Errorf ''park %s identity %v is still present after the delete'')))))"

section \<open>Observation\<close>

text \<open>The rows of one family, grouped by prefix.\<close>

fun group_rows ::
  "nl_route list \<Rightarrow> (netprefix, kernel_row list) gomap \<Rightarrow> (netprefix, kernel_row list) gomap" where
  "group_rows [] out = out"
| "group_rows (row # rows) out =
     (case (case nr_Dst row of None \<Rightarrow> None | Some dst \<Rightarrow> prefixFromIPNet dst) of
        None \<Rightarrow> group_rows rows out
      | Some p \<Rightarrow>
          let prefix = prefix_Masked p;
              old = (case map_of out prefix of None \<Rightarrow> [] | Some rs \<Rightarrow> rs)
          in group_rows rows (gomap_put prefix (old @ [selectedKernelRow row prefix]) out))"

fun snapshot_selected ::
  "'k netlink \<Rightarrow> int list \<Rightarrow> (netprefix, kernel_row list) gomap \<Rightarrow> ('k, (netprefix, kernel_row list) gomap) tx" where
  "snapshot_selected nl [] out = returnT out"
| "snapshot_selected nl (family # families) out =
     bindT (nk_RouteListFiltered nl family (nl_route_zero\<lparr>nr_Table := selectedRouteTable\<rparr>) [RT_FILTER_TABLE]) (\<lambda>rows.
     snapshot_selected nl families (group_rows rows out))"

definition linux_SnapshotSelectedRoutes :: "'k netlink \<Rightarrow> ('k, (netprefix, kernel_row list) gomap) tx" where
  "linux_SnapshotSelectedRoutes nl = snapshot_selected nl [FAMILY_V4, FAMILY_V6] []"

text \<open>The next number of the observation sequence; \<^term>\<open>None\<close> is the panic of an overflow.\<close>

definition nextObservationSequence :: "u64 \<Rightarrow> u64 option" where
  "nextObservationSequence sequence = (if sequence + 1 = 0 then None else Some (sequence + 1))"

definition classifyRouteUpdate :: "nl_route \<Rightarrow> route_invalidation" where
  "classifyRouteUpdate update =
     (let full = \<lparr>ri_Kind = SelectedInvalidateFull, ri_Prefix = prefix_zero, ri_IfIndex = 0, ri_Sequence = 0\<rparr>
      in if nr_Table update \<noteq> selectedRouteTable then full
         else case (case nr_Dst update of None \<Rightarrow> None | Some dst \<Rightarrow> prefixFromIPNet dst) of
                None \<Rightarrow> full
              | Some prefix \<Rightarrow> \<lparr>ri_Kind = SelectedInvalidatePrefix, ri_Prefix = prefix_Masked prefix,
                                ri_IfIndex = nr_LinkIndex update, ri_Sequence = 0\<rparr>)"

text \<open>One update of the subscription loop: a route or the index of a link that changed.\<close>

definition publish_update :: "nl_route + int \<Rightarrow> u64 \<Rightarrow> (u64 \<times> route_invalidation) option" where
  "publish_update update sequence =
     (case nextObservationSequence sequence of
        None \<Rightarrow> None
      | Some n \<Rightarrow>
          Some (n, (case update of
                      Inl route \<Rightarrow> (classifyRouteUpdate route)\<lparr>ri_Sequence := n\<rparr>
                    | Inr index \<Rightarrow> \<lparr>ri_Kind = SelectedInvalidateInterface, ri_Prefix = prefix_zero,
                                    ri_IfIndex = index, ri_Sequence = n\<rparr>)))"

section \<open>The platform contract\<close>

text \<open>The executor as the generic and as the selected-route manager see it. \<open>sequence\<close> reads the
  process-wide observation sequence.\<close>

definition linux_executor :: "'k netlink \<Rightarrow> 'k executor" where
  "linux_executor nl =
     \<lparr>ex_Apply = (\<lambda>t k. case linux_Apply nl t k of (Inl e, k') \<Rightarrow> (Some e, k') | (Inr _, k') \<Rightarrow> (None, k')),
      ex_Snapshot = (\<lambda>k. fst (snapshotKernelUnlocked nl k))\<rparr>"

definition linux_route_manager :: "'k netlink \<Rightarrow> ('k \<Rightarrow> u64) \<Rightarrow> 'k route_manager" where
  "linux_route_manager nl sequence =
     \<lparr>rm_NormalizeSelectedRoute = (\<lambda>d. fromSum (linux_NormalizeSelectedRoute d)),
      rm_PreflightSelectedRoute = (\<lambda>p i v. linux_PreflightSelectedRoute nl p (Some v)),
      rm_ReconcileSelectedRoute = (\<lambda>d v. linux_ReconcileSelectedRoute nl d (Some v)),
      rm_RemoveSelectedRoute = linux_RemoveSelectedRoute nl,
      rm_NormalizeManagedPark = (\<lambda>p. fromSum (linux_NormalizeManagedPark p)),
      rm_PreflightManagedPark = (\<lambda>p i v. linux_PreflightManagedPark nl p (Some v)),
      rm_ReconcileManagedPark = (\<lambda>role p v. linux_ReconcileManagedPark nl p (Some v)),
      rm_ObserveManagedPark = linux_ObserveManagedPark nl,
      rm_RemoveManagedPark = (\<lambda>role p k. linux_RemoveManagedPark nl p k),
      rm_SnapshotSelectedRoutes = linux_SnapshotSelectedRoutes nl,
      rm_CurrentSelectedRouteSequence = Some sequence,
      rm_SelectedWinsOverPark = None,
      rm_Executor = Some (linux_executor nl)\<rparr>"

lemma first_occurrences_subset: "x \<in> set (first_occurrences seen xs) \<Longrightarrow> x \<in> set xs"
  by (induction xs arbitrary: seen) (auto split: if_splits)

section \<open>What a record owns\<close>

text \<open>The identities the state of a record, or of its park, allows a writer to delete
  (\<^verbatim>\<open>routes.go\<close> and \<^verbatim>\<open>selected_parks.go\<close>, the comments of the removals): what was proved
  installed before, except that a Pending park deletes nothing; and the desired identity only
  while it may be in the table, that is in state Applying, or in state Retiring when it is marked.\<close>

definition owns_route :: "route_value \<Rightarrow> selected_identity \<Rightarrow> bool" where
  "owns_route v i \<longleftrightarrow> sr_Owned v = Some i \<or>
     i = sr_Desired v \<and> (sr_State v = SelectedApplying \<or> sr_State v = SelectedRetiring \<and> sr_RetireDesired v)"

definition owns_park :: "selected_park \<Rightarrow> park_identity \<Rightarrow> bool" where
  "owns_park park i \<longleftrightarrow>
     sk_State park \<in> {SelectedParkApplying, SelectedParkActive, SelectedParkRetiring} \<and> sk_Owned park = Some i \<or>
     i = sk_Desired park \<and>
     (sk_State park = SelectedParkApplying \<or> sk_State park = SelectedParkRetiring \<and> sk_RetireDesired park)"

lemma route_candidates_owned: "route_candidates v = Inr cs \<Longrightarrow> i \<in> set cs \<Longrightarrow> owns_route v i"
  by (auto simp: route_candidates_def owns_route_def Let_def split: selected_state.splits option.splits if_splits)

lemma park_candidates_owned: "park_candidates park = Inr (Some cs) \<Longrightarrow> i \<in> set cs \<Longrightarrow> owns_park park i"
  by (auto simp: park_candidates_def owns_park_def Let_def split: selected_park_state.splits option.splits if_splits)

end
