(* ===== verification/Linux_Facts.thy ===== *)
theory Linux_Facts
  imports Linux_Routes
begin

text \<open>
  What the Linux writer asks of the kernel. The netlink library is instrumented so that every
  list of rows it returned and every route it was asked to add, replace or delete is logged; over
  the log, a mutation is justified by the rows read last and by the record.
\<close>

section \<open>Instrumentation\<close>

datatype nl_call = SawRows "nl_route list" | CallAdd nl_route | CallReplace nl_route | CallDel nl_route

definition note_call :: "nl_call \<Rightarrow> ('k, 'a) tx \<Rightarrow> ('k \<times> nl_call list, 'a) tx" where
  "note_call c t s = (case t (fst s) of (r, k) \<Rightarrow> (r, (k, snd s @ [c])))"

definition quietly :: "('k, 'a) tx \<Rightarrow> ('k \<times> nl_call list, 'a) tx" where
  "quietly t s = (case t (fst s) of (r, k) \<Rightarrow> (r, (k, snd s)))"

definition note_rows :: "('k, nl_route list) tx \<Rightarrow> ('k \<times> nl_call list, nl_route list) tx" where
  "note_rows t s =
     (case t (fst s) of
        (Inl e, k) \<Rightarrow> (Inl e, (k, snd s))
      | (Inr rows, k) \<Rightarrow> (Inr rows, (k, snd s @ [SawRows rows])))"

definition logged_netlink :: "'k netlink \<Rightarrow> ('k \<times> nl_call list) netlink" where
  "logged_netlink nl =
     \<lparr>nk_RouteListFiltered = (\<lambda>family filter flags. note_rows (nk_RouteListFiltered nl family filter flags)),
      nk_RouteAdd = (\<lambda>r. note_call (CallAdd r) (nk_RouteAdd nl r)),
      nk_RouteReplace = (\<lambda>r. note_call (CallReplace r) (nk_RouteReplace nl r)),
      nk_RouteDel = (\<lambda>r. note_call (CallDel r) (nk_RouteDel nl r)),
      nk_RuleList = (\<lambda>family. quietly (nk_RuleList nl family)),
      nk_RuleAdd = (\<lambda>r. quietly (nk_RuleAdd nl r)),
      nk_RuleDel = (\<lambda>r. quietly (nk_RuleDel nl r))\<rparr>"

fun last_rows :: "nl_route list \<Rightarrow> nl_call list \<Rightarrow> nl_route list" where
  "last_rows rows [] = rows"
| "last_rows rows (SawRows rows' # cs) = last_rows rows' cs"
| "last_rows rows (_ # cs) = last_rows rows cs"

text \<open>The rows of the kernel that stand for an identity, and the rows the writer may ask for: field by
  field, with the forwarding interface, the next hop, the protocol, the metric and the scope.\<close>

definition row_is_route :: "selected_identity \<Rightarrow> nl_route \<Rightarrow> bool" where
  "row_is_route i row \<longleftrightarrow> nr_Type row \<noteq> rtnUnreachable \<and> si_Table i = selectedRouteTable \<and>
     nr_LinkIndex row = si_IfIndex i \<and> nr_Protocol row = si_Protocol i \<and> word_of_int (nr_Priority row) = si_Metric i \<and>
     nr_Scope row = si_Scope i \<and>
     (if addr_IsValid (netipAddr (nr_Gw row)) then addr_String (netipAddr (nr_Gw row)) = si_NextHop i else si_NextHop i = [])"

definition row_is_park :: "park_identity \<Rightarrow> nl_route \<Rightarrow> bool" where
  "row_is_park i row \<longleftrightarrow> nr_Type row = rtnUnreachable \<and> nr_LinkIndex row = 0 \<and> nr_Gw row = AddrZero \<and>
     nr_Protocol row = selectedRouteProtocolLinux \<and> nr_Protocol row = pi_Protocol i \<and>
     word_of_int (nr_Priority row) = pi_Metric i \<and> pi_Metric i = ManagedParkMetric \<and> nr_Scope row = pi_Scope i"

definition asks_route :: "netprefix \<Rightarrow> selected_identity \<Rightarrow> nl_route \<Rightarrow> bool" where
  "asks_route p i r \<longleftrightarrow> nr_Dst r = Some (prefix_ipnet p) \<and> nr_Type r = 0 \<and> nr_Table r = si_Table i \<and>
     nr_LinkIndex r = si_IfIndex i \<and> nr_Protocol r = si_Protocol i \<and> nr_Priority r = uint (si_Metric i) \<and>
     (si_NextHop i = [] \<longrightarrow> nr_Gw r = AddrZero) \<and> (\<forall>gw. ParseAddr (si_NextHop i) = Some gw \<and> si_NextHop i \<noteq> [] \<longrightarrow> nr_Gw r = gw)"

definition asks_park :: "netprefix \<Rightarrow> park_identity \<Rightarrow> nl_route \<Rightarrow> bool" where
  "asks_park p i r \<longleftrightarrow> nr_Dst r = Some (prefix_ipnet p) \<and> nr_Type r = rtnUnreachable \<and> nr_Table r = pi_Table i \<and>
     nr_Protocol r = pi_Protocol i \<and> nr_Priority r = uint (pi_Metric i) \<and> nr_Scope r = pi_Scope i"

lemma matching_row: "SelectedRowMatchesIdentity (selectedKernelRow row p) i \<Longrightarrow> row_is_route i row"
  by (auto simp: SelectedRowMatchesIdentity_def selectedKernelRow_def row_is_route_def row_identity_def identity_none_def
      foreign_row_def split: if_splits)

lemma matching_park: "is_park p i row \<Longrightarrow> row_is_park i row"
  by (auto simp: is_park_def SelectedParkMatchesIdentity_def selectedKernelRow_def row_is_park_def row_park_def park_none_def
      foreign_row_def split: if_splits)

lemma built_rows [simp]: "asks_route p i (selectedRouteFor p i)" "asks_park p j (parkRowFor p j)"
  by (auto simp: asks_route_def asks_park_def selectedRouteFor_def parkRowFor_def nl_route_zero_def)

text \<open>What a record allows: deleting a row that carries an identity its state owns, adding or
  replacing its desired row when the planner says so about the rows read last, adding its
  desired park while the park is Applying.\<close>

definition deletable :: "route_value \<Rightarrow> nl_route \<Rightarrow> bool" where
  "deletable v row \<longleftrightarrow>
     (\<exists>i. owns_route v i \<and> row_is_route i row) \<or> (\<exists>park i. sr_Park v = Some park \<and> owns_park park i \<and> row_is_park i row)"

fun justified :: "netprefix \<Rightarrow> route_value \<Rightarrow> nl_route list \<Rightarrow> nl_call \<Rightarrow> bool" where
  "justified p v rows (SawRows _) = True"
| "justified p v rows (CallAdd r) =
     (asks_route p (sr_Desired v) r \<and> selectedRoutePlan rows p (Some v) = Inr SelectedActionAdd \<or>
      (\<exists>park. sr_Park v = Some park \<and> sk_State park = SelectedParkApplying \<and> asks_park p (sk_Desired park) r))"
| "justified p v rows (CallReplace r) =
     (asks_route p (sr_Desired v) r \<and> selectedRoutePlan rows p (Some v) = Inr SelectedActionReplace)"
| "justified p v rows (CallDel r) = (r \<in> set rows \<and> deletable v r)"

fun careful :: "netprefix \<Rightarrow> route_value \<Rightarrow> nl_route list \<Rightarrow> nl_call list \<Rightarrow> bool" where
  "careful p v rows [] = True"
| "careful p v rows (c # cs) = (justified p v rows c \<and> careful p v (last_rows rows [c]) cs)"

lemma last_rows_append: "last_rows rows (xs @ ys) = last_rows (last_rows rows xs) ys"
  by (induction rows xs rule: last_rows.induct) auto

lemma careful_append: "careful p v rows (xs @ ys) = (careful p v rows xs \<and> careful p v (last_rows rows xs) ys)"
proof (induction xs arbitrary: rows)
  case (Cons c cs)
  have "last_rows (last_rows rows [c]) cs = last_rows rows (c # cs)" using last_rows_append [of rows "[c]" cs] by simp
  with Cons show ?case by simp
qed simp

section \<open>The monitor\<close>

definition calm :: "netprefix \<Rightarrow> route_value \<Rightarrow> 'k \<times> nl_call list \<Rightarrow> bool" where
  "calm p v s \<longleftrightarrow> careful p v [] (snd s)"

text \<open>The rows read last.\<close>

definition saw :: "netprefix \<Rightarrow> route_value \<Rightarrow> nl_route list \<Rightarrow> 'k \<times> nl_call list \<Rightarrow> bool" where
  "saw p v rows s \<longleftrightarrow> calm p v s \<and> last_rows [] (snd s) = rows"

lemma saw_calm: "saw p v rows s \<Longrightarrow> calm p v s"
  by (simp add: saw_def)

lemma triple_note_rows: "tripleT (calm p v) (note_rows t) (saw p v) (calm p v)"
  by (auto simp: tripleT_def note_rows_def saw_def calm_def careful_append last_rows_append split: prod.splits sum.splits)

lemma keeps_note_call:
  "justified p v rows c \<Longrightarrow> last_rows rows [c] = rows \<Longrightarrow> keepsT (saw p v rows) (note_call c t)"
  by (auto simp: keepsT_def note_call_def saw_def calm_def careful_append last_rows_append split: prod.splits)

lemma triple_rows: "tripleT (calm p v) (selectedRouteRows (logged_netlink nl) family q) (saw p v) (calm p v)"
proof (cases "net_ParseCIDR (prefix_String q)")
  case None
  then show ?thesis by (simp add: selectedRouteRows_def triple_throw)
next
  case (Some dst)
  then show ?thesis by (simp add: selectedRouteRows_def logged_netlink_def triple_note_rows)
qed

lemma keeps_add:
  "justified p v rows (CallAdd r) \<Longrightarrow> keepsT (saw p v rows) (nk_RouteAdd (logged_netlink nl) r)"
  by (simp add: logged_netlink_def keeps_note_call)

lemma keeps_replace:
  "justified p v rows (CallReplace r) \<Longrightarrow> keepsT (saw p v rows) (nk_RouteReplace (logged_netlink nl) r)"
  by (simp add: logged_netlink_def keeps_note_call)

lemma keeps_del:
  "justified p v rows (CallDel r) \<Longrightarrow> keepsT (saw p v rows) (nk_RouteDel (logged_netlink nl) r)"
  by (simp add: logged_netlink_def keeps_note_call)

lemma keeps_delete_first:
  assumes "\<And>row. row \<in> set rows \<Longrightarrow> match row \<Longrightarrow> deletable v row"
  shows "keepsT (saw p v rows) (delete_first (logged_netlink nl) match rows)"
proof (cases "find match rows")
  case None
  then show ?thesis by (simp add: delete_first_def)
next
  case (Some row)
  then have "row \<in> set rows" "match row" by (auto simp: find_Some_iff)
  with assms Some show ?thesis 
    by (auto simp: delete_first_def intro!: keepsT_bind [OF keepsT_tolerate [OF keeps_del]])
qed

text \<open>A step that keeps the rows read last, then the rest.\<close>

lemma triple_saw:
  "keepsT (saw p v rows) t \<Longrightarrow> tripleT (saw p v rows) t (\<lambda>_. saw p v rows) (calm p v)"
  by (drule triple_keeps) (erule triple_conseq, auto dest: saw_calm)

lemma triple_forget_rows: "tripleT (calm p v) t Q E \<Longrightarrow> tripleT (saw p v rows) t Q E"
  by (erule triple_conseq) (auto dest: saw_calm)

section \<open>Selected routes\<close>

lemma apply_action_saw:
  "selectedRoutePlan rows p (Some v) = Inr action \<Longrightarrow>
     keepsT (saw p v rows) (linux_apply_action (logged_netlink nl) action p (sr_Desired v))"
  by (cases action)
     (auto simp: linux_apply_action_def intro!: keepsT_bind [OF keepsT_tolerate [OF keeps_add]] keepsT_bind [OF keeps_replace])

lemma linux_reconcile_triple:
  "tripleT (calm (sd_Prefix d) v) (linux_ReconcileSelectedRoute (logged_netlink nl) d (Some v))
     (\<lambda>res s. \<exists>rows. saw (sd_Prefix d) v rows s \<and> rc_Verified res = sr_Desired v \<and>
        selectedRoutePlan rows (sd_Prefix d) (Some v) = Inr SelectedActionNone)
     (calm (sd_Prefix d) v)"
proof -
  let ?p = "sd_Prefix d"
  have reading: "tripleT (calm ?p v)
      (bindT (selectedRouteRows (logged_netlink nl) (prefix_nl_family ?p) ?p) (\<lambda>rows.
       bindT (mapErrT (Wrapf ''selected route %v is not exactly present after the apply: %w'')
                (fromSum (selectedRoutePlan rows ?p (Some v)))) (\<lambda>verified.
       bindT (requireT (verified = SelectedActionNone) (Errorf ''selected route %v still needs %d after the apply'')) (\<lambda>_.
       returnT \<lparr>rc_Mutated = mutated, rc_Verified = sr_Desired v\<rparr>))))
      (\<lambda>res s. \<exists>rows. saw ?p v rows s \<and> rc_Verified res = sr_Desired v \<and>
         selectedRoutePlan rows ?p (Some v) = Inr SelectedActionNone)
      (calm ?p v)" for mutated
    by (rule triple_bind [OF triple_rows])
       (auto simp: tripleT_def bindT_def mapErrT_def fromSum_def requireT_apply saw_calm split: sum.splits)
  have "tripleT (saw ?p v rows) (linux_apply_action (logged_netlink nl) action ?p (sr_Desired v))
      (\<lambda>_. saw ?p v rows) (calm ?p v)" if "selectedRoutePlan rows ?p (Some v) = Inr action" for rows action
    by (rule triple_saw [OF apply_action_saw [OF that]])
  then show ?thesis
    unfolding linux_ReconcileSelectedRoute_def Let_def option.case
    by (intro triple_if triple_throw triple_bind [OF triple_rows] triple_pure_sum
        triple_bind [OF _ triple_forget_rows [OF reading]]) (auto dest: saw_calm)
qed

lemma keeps_delete_each:
  assumes "\<And>i row. i \<in> set cs \<Longrightarrow> row \<in> set rows \<Longrightarrow> match i row \<Longrightarrow> deletable v row"
  shows "keepsT (saw p v rows)
    (eachT (\<lambda>i. bindT (delete_first (logged_netlink nl) (match i) rows) (\<lambda>_. returnT ())) (first_occurrences [] cs))"
  by (auto intro!: keepsT_each keepsT_bind [OF keeps_delete_first] dest!: first_occurrences_subset intro: assms)

lemma linux_remove_triple:
  "tripleT (calm (sr_Prefix v) v) (linux_RemoveSelectedRoute (logged_netlink nl) v) (\<lambda>_. calm (sr_Prefix v) v)
     (calm (sr_Prefix v) v)"
proof -
  let ?p = "sr_Prefix v"
  have "keepsT (saw ?p v rows)
      (eachT (\<lambda>i. bindT (delete_first (logged_netlink nl) (\<lambda>row. SelectedRowMatchesIdentity (selectedKernelRow row ?p) i) rows)
         (\<lambda>_. returnT ())) (first_occurrences [] cs))" if "route_candidates v = Inr cs" for rows cs
    using that by (intro keeps_delete_each) (auto simp: deletable_def dest: route_candidates_owned matching_row)
  note loop = triple_conseq [OF triple_saw [OF this]]
  show ?thesis
    unfolding linux_RemoveSelectedRoute_def Let_def
    by (intro triple_if triple_throw triple_bind [OF triple_rows] triple_pure_sum loop) (auto dest: saw_calm)
qed

section \<open>Managed parks\<close>

lemma park_remove_triple:
  assumes "sr_Park v = Some park"
  shows "tripleT (calm p v) (linux_RemoveManagedPark (logged_netlink nl) p park)
     (\<lambda>_ s. park_candidates park = Inr None \<and> calm p v s \<or>
        (\<exists>cs rows. park_candidates park = Inr (Some cs) \<and> saw p v rows s \<and> (\<forall>row \<in> set rows. \<forall>i \<in> set cs. \<not> is_park p i row)))
     (calm p v)"
proof -
  have keep: "keepsT (saw p v rows)
      (eachT (\<lambda>i. bindT (delete_first (logged_netlink nl) (is_park p i) rows) (\<lambda>_. returnT ())) (first_occurrences [] cs))"
    if "park_candidates park = Inr (Some cs)" for rows cs
    using that assms by (intro keeps_delete_each) (auto simp: deletable_def dest: park_candidates_owned matching_park)
  show ?thesis
  proof (cases "park_candidates park")
    case (Inl e)
    then show ?thesis by (simp add: linux_RemoveManagedPark_def fromSum_def triple_throw)
  next
    case (Inr x)
    show ?thesis
    proof (cases x)
      case None
      with Inr show ?thesis by (simp add: linux_RemoveManagedPark_def fromSum_def tripleT_def)
    next
      case (Some cs)
      with Inr have cs: "park_candidates park = Inr (Some cs)" by simp
      show ?thesis
        unfolding linux_RemoveManagedPark_def cs fromSum_def sum.case option.case bindT_returnT
        by (intro triple_bind [OF triple_rows] triple_bind [OF triple_saw [OF keep [OF cs]]]
            triple_bind [OF triple_forget_rows [OF triple_rows]] triple_require)
           (auto simp: list_ex_iff dest: saw_calm)
    qed
  qed
qed

lemma drop_stale_triple:
  assumes "sr_Park v = Some park" and "sk_State park = SelectedParkApplying"
  shows "tripleT (calm p v) (drop_stale_park (logged_netlink nl) p park rows) (\<lambda>_. calm p v) (calm p v)"
proof (cases "sk_Owned park")
  case None
  then show ?thesis by (simp add: drop_stale_park_def triple_return)
next
  case (Some owned)
  with assms have "owns_park park owned" by (simp add: owns_park_def)
  with assms have "keepsT (saw p v rows') (delete_first (logged_netlink nl) (is_park p owned) rows')" for rows'
    by (intro keeps_delete_first) (auto simp: deletable_def dest: matching_park)
  note del = triple_conseq [OF triple_saw [OF this]]
  from Some show ?thesis
    by (auto simp: drop_stale_park_def intro!: triple_return triple_bind [OF triple_rows] del dest: saw_calm)
qed

lemma park_reconcile_triple:
  "tripleT (calm p v) (linux_ReconcileManagedPark (logged_netlink nl) p (Some v))
     (\<lambda>res s. \<exists>park rows. sr_Park v = Some park \<and> pr_Verified res = sk_Desired park \<and> saw p v rows s \<and>
        list_ex (is_park p (sk_Desired park)) rows)
     (calm p v)"
proof (cases "sr_Park v")
  case None
  then show ?thesis by (simp add: linux_ReconcileManagedPark_def triple_throw)
next
  case (Some park)
  show ?thesis
  proof (cases "sk_State park = SelectedParkApplying")
    case False
    with Some show ?thesis by (simp add: linux_ReconcileManagedPark_def triple_throw)
  next
    case True
    have add: "tripleT (saw p v rows)
        (if list_ex (is_park p (sk_Desired park)) rows then returnT False
         else bindT (tolerateT retryable (nk_RouteAdd (logged_netlink nl) (parkRowFor p (sk_Desired park)))) (\<lambda>_. returnT True))
        (\<lambda>_. calm p v) (calm p v)" for rows
      using Some True
      by (intro triple_if triple_return triple_bind [OF triple_saw [OF keepsT_tolerate [OF keeps_add]]]) (auto dest: saw_calm)
    show ?thesis
    proof (cases "park_Validate (sk_Desired park) p")
      case None
      show ?thesis
        unfolding linux_ReconcileManagedPark_def option.case Some None
        by (intro triple_if triple_throw triple_bind [OF triple_rows] triple_pure_sum triple_bind [OF add]
            triple_bind [OF drop_stale_triple [OF Some True]] triple_bind [OF triple_require] triple_return)
           (auto dest: saw_calm)
    qed (simp add: linux_ReconcileManagedPark_def Some triple_throw)
  qed
qed

section \<open>Endpoint policies\<close>

text \<open>A routing table that obeys the operations of a plan: adding replaces the row or rule with the
  same key, deleting removes what the operation names.\<close>

definition same_route :: "operation \<Rightarrow> operation \<Rightarrow> bool" where
  "same_route a b = (op_Family a = op_Family b \<and> op_Prefix a = op_Prefix b \<and> op_Table a = op_Table b \<and>
     op_Metric a = op_Metric b)"

definition same_rule :: "operation \<Rightarrow> operation \<Rightarrow> bool" where
  "same_rule a b = (op_Family a = op_Family b \<and> op_Prefix a = op_Prefix b \<and> op_Table a = op_Table b \<and>
     op_Priority a = op_Priority b)"

definition is_rule_op :: "operation \<Rightarrow> bool" where
  "is_rule_op op = (op_Kind op = ''rule'' \<or> op_Kind op = ''delete-rule'')"

definition obey :: "kernel_state \<Rightarrow> operation \<Rightarrow> kernel_state" where
  "obey k op =
     (if is_rule_op op
      then k\<lparr>ks_Rules := filter (\<lambda>r. \<not> same_rule op r) (ks_Rules k) @ (if op_Kind op = ''rule'' then [op] else [])\<rparr>
      else k\<lparr>ks_Routes := filter (\<lambda>r. \<not> same_route op r) (ks_Routes k) @ (if op_Kind op = ''delete-route'' then [] else [op])\<rparr>)"

text \<open>Both components run the same machine: an operation kills some elements and may add itself.\<close>

fun churn :: "('a \<Rightarrow> 'b \<Rightarrow> bool) \<Rightarrow> ('a \<Rightarrow> 'b list) \<Rightarrow> 'a list \<Rightarrow> 'b list \<Rightarrow> 'b list" where
  "churn kills adds [] xs = xs"
| "churn kills adds (op # ops) xs = churn kills adds ops (filter (\<lambda>x. \<not> kills op x) xs @ adds op)"

lemma churn_append: "churn kills adds (ops @ ops') xs = churn kills adds ops' (churn kills adds ops xs)"
  by (induction ops arbitrary: xs) auto

lemma churn_origin: "x \<in> set (churn kills adds ops xs) \<Longrightarrow> x \<in> set xs \<or> (\<exists>op \<in> set ops. x \<in> set (adds op))"
  by (induction ops arbitrary: xs) fastforce+

lemma churn_keeps: "x \<in> set xs \<Longrightarrow> (\<And>op. op \<in> set ops \<Longrightarrow> \<not> kills op x) \<Longrightarrow> x \<in> set (churn kills adds ops xs)"
  by (induction ops arbitrary: xs) auto

lemma churn_kills:
  assumes "op \<in> set ops" and "kills op x" and "\<And>op'. op' \<in> set ops \<Longrightarrow> x \<notin> set (adds op')"
  shows "x \<notin> set (churn kills adds ops xs)"
proof -
  from assms(1) obtain a b where ops: "ops = a @ op # b" by (meson split_list)
  let ?ys = "filter (\<lambda>y. \<not> kills op y) (churn kills adds a xs) @ adds op"
  have "x \<notin> set ?ys" using assms(2, 3) ops by auto
  then show ?thesis
    using churn_origin [of x kills adds b ?ys] assms(3) unfolding ops churn_append by auto
qed

lemma churn_adds:
  assumes "op \<in> set ops" and "x \<in> set (adds op)" and "\<And>op'. op' \<in> set ops \<Longrightarrow> kills op' x \<Longrightarrow> x \<in> set (adds op')"
  shows "x \<in> set (churn kills adds ops xs)"
  using assms
proof (induction ops arbitrary: xs op)
  case (Cons o1 ops)
  let ?ys = "filter (\<lambda>y. \<not> kills o1 y) xs @ adds o1"
  show ?case
  proof (cases "\<exists>op' \<in> set ops. x \<in> set (adds op')")
    case True
    then obtain op' where "op' \<in> set ops" "x \<in> set (adds op')" by blast
    moreover have "x \<in> set (adds q)" if "q \<in> set ops" "kills q x" for q using Cons.prems(3) that by simp
    ultimately show ?thesis using Cons.IH [of op' ?ys] by simp
  next
    case False
    with Cons.prems have "o1 = op" by auto
    with Cons.prems have "x \<in> set ?ys" by simp
    with False Cons.prems show ?thesis by (auto intro!: churn_keeps)
  qed
qed simp

definition route_kills :: "operation \<Rightarrow> operation \<Rightarrow> bool" where
  "route_kills op r = (\<not> is_rule_op op \<and> same_route op r)"

definition route_adds :: "operation \<Rightarrow> operation list" where
  "route_adds op = (if is_rule_op op \<or> op_Kind op = ''delete-route'' then [] else [op])"

definition rule_kills :: "operation \<Rightarrow> operation \<Rightarrow> bool" where
  "rule_kills op r = (is_rule_op op \<and> same_rule op r)"

definition rule_adds :: "operation \<Rightarrow> operation list" where
  "rule_adds op = (if op_Kind op = ''rule'' then [op] else [])"

lemma obey_routes: "ks_Routes (foldl obey k ops) = churn route_kills route_adds ops (ks_Routes k)"
  by (induction ops arbitrary: k) (auto simp: obey_def route_kills_def route_adds_def)

lemma obey_rules: "ks_Rules (foldl obey k ops) = churn rule_kills rule_adds ops (ks_Rules k)"
  by (induction ops arbitrary: k) (auto simp: obey_def rule_kills_def rule_adds_def is_rule_op_def)

end
