(* ===== verification/Endpoint_Plan.thy ===== *)
theory Endpoint_Plan
  imports Linux_Facts
begin

text \<open>
  The endpoint planner of the Linux writer: what a plan contains, what it leaves alone, and that
  carrying it out on a table that obeys leaves nothing to do.
\<close>

section \<open>The desired routes\<close>

text \<open>\<^verbatim>\<open>netip\<close> reads back what it prints for the prefixes of the policy.\<close>

definition readable :: "endpoint_policy \<Rightarrow> bool" where
  "readable p \<longleftrightarrow> (\<forall>r \<in> set (ep_Routes p). ParsePrefix (prefix_String (er_Prefix r)) = Some (er_Prefix r))"

lemma desired_routes_from:
  "desired_routes rs d = Inr desired \<Longrightarrow> map_of desired q = Some op \<Longrightarrow>
     map_of d q = Some op \<or> (\<exists>r \<in> set rs. op = endpoint_operation r \<and> op_Prefix op = q \<and> IsHostPrefix (er_Prefix r))"
proof (induction rs arbitrary: d)
  case (Cons r rs)
  let ?op = "endpoint_operation r"
  from Cons.prems have host: "IsHostPrefix (er_Prefix r)"
    and rest: "desired_routes rs (gomap_put (op_Prefix ?op) ?op d) = Inr desired" by (auto simp: Let_def split: if_splits)
  from Cons.IH [OF rest Cons.prems(2)] host show ?case by (auto split: if_splits)
qed simp

lemma desired_route:
  assumes "desired_routes (ep_Routes p) [] = Inr desired" and "readable p" and "map_of desired q = Some op"
  shows "op_Prefix op = q" "host_prefix_of op = Some q" "op_Table op = endpointTable" "op_Kind op = ''route''"
proof -
  from desired_routes_from [OF assms(1, 3)] obtain r where
    r: "r \<in> set (ep_Routes p)" "op = endpoint_operation r" "op_Prefix op = q" "IsHostPrefix (er_Prefix r)" by auto
  with assms(2) show "op_Prefix op = q" "host_prefix_of op = Some q" "op_Table op = endpointTable" "op_Kind op = ''route''"
    by (auto simp: readable_def host_prefix_of_def endpoint_operation_def)
qed

lemma host_prefix_cong: "op_Prefix a = op_Prefix b \<Longrightarrow> host_prefix_of a = host_prefix_of b"
  by (simp add: host_prefix_of_def)

lemma sentinel_no_host: "s \<in> set endpoint_sentinels \<Longrightarrow> host_prefix_of s = None"
proof -
  have "list_all (\<lambda>s. host_prefix_of s = None) endpoint_sentinels" by code_simp
  then show "s \<in> set endpoint_sentinels \<Longrightarrow> host_prefix_of s = None" by (simp add: list_all_iff)
qed

section \<open>The operations of a plan\<close>

datatype plan_part = AddSentinel | AddRoute | AddRule | DropRule | DropRoute

text \<open>Why an operation is in the plan of a reconciliation.\<close>

inductive planned :: "kernel_state \<Rightarrow> int \<Rightarrow> (string, operation) gomap \<Rightarrow> plan_part \<Rightarrow> operation \<Rightarrow> bool"
  for k prio desired where
  add_sentinel: "s \<in> set endpoint_sentinels \<Longrightarrow> \<not> containsRoute (ks_Routes k) s \<Longrightarrow> planned k prio desired AddSentinel s"
| add_route: "map_of desired q = Some r \<Longrightarrow> \<not> containsRoute (ks_Routes k) r \<Longrightarrow> planned k prio desired AddRoute r"
| add_rule: "map_of desired q = Some r \<Longrightarrow> \<not> containsRule (ks_Rules k) (endpoint_rule prio r) \<Longrightarrow>
    planned k prio desired AddRule (endpoint_rule prio r)"
| drop_rule: "u \<in> set (ks_Rules k) \<Longrightarrow> op_Table u = endpointTable \<Longrightarrow> op_Priority u = prio \<Longrightarrow>
    host_prefix_of u = Some q \<Longrightarrow> map_of desired q = None \<Longrightarrow> planned k prio desired DropRule (u\<lparr>op_Kind := ''delete-rule''\<rparr>)"
| drop_route: "t \<in> set (ks_Routes k) \<Longrightarrow> op_Kind t = ''route'' \<Longrightarrow> op_Table t = endpointTable \<Longrightarrow>
    host_prefix_of t = Some q \<Longrightarrow> \<not> final_ref k prio desired q \<Longrightarrow> planned k prio desired DropRoute (t\<lparr>op_Kind := ''delete-route''\<rparr>)"

lemma set_plan_adds:
  "op \<in> set (plan_adds k prio desired) \<longleftrightarrow> planned k prio desired AddRoute op \<or> planned k prio desired AddRule op"
proof -
  have body: "op \<in> set (case map_of desired q of None \<Rightarrow> []
       | Some route \<Rightarrow>
           (if containsRoute (ks_Routes k) route then [] else [route]) @
           (if containsRule (ks_Rules k) (endpoint_rule prio route) then [] else [endpoint_rule prio route])) \<longleftrightarrow>
      (\<exists>r. map_of desired q = Some r \<and>
         (op = r \<and> \<not> containsRoute (ks_Routes k) r \<or>
          op = endpoint_rule prio r \<and> \<not> containsRule (ks_Rules k) (endpoint_rule prio r)))" for q
    by (cases "map_of desired q") auto
  have union: "set (plan_adds k prio desired) = (\<Union>q \<in> fst ` set desired. set (case map_of desired q of None \<Rightarrow> []
       | Some route \<Rightarrow>
           (if containsRoute (ks_Routes k) route then [] else [route]) @
           (if containsRule (ks_Rules k) (endpoint_rule prio route) then [] else [endpoint_rule prio route])))"
    by (simp add: plan_adds_def)
  have "op \<in> set (plan_adds k prio desired) \<longleftrightarrow>
      (\<exists>q \<in> fst ` set desired. \<exists>r. map_of desired q = Some r \<and>
         (op = r \<and> \<not> containsRoute (ks_Routes k) r \<or>
          op = endpoint_rule prio r \<and> \<not> containsRule (ks_Rules k) (endpoint_rule prio r)))"
    by (simp only: union UN_iff body)
  also have "\<dots> \<longleftrightarrow>
      (\<exists>q r. map_of desired q = Some r \<and>
         (op = r \<and> \<not> containsRoute (ks_Routes k) r \<or>
          op = endpoint_rule prio r \<and> \<not> containsRule (ks_Rules k) (endpoint_rule prio r)))"
    by (metis domI dom_map_of_conv_image_fst)
  finally show ?thesis by (auto simp: planned.simps)
qed

lemma set_plan_stale_rules: "op \<in> set (plan_stale_rules k prio desired) \<longleftrightarrow> planned k prio desired DropRule op"
  by (auto simp: plan_stale_rules_def planned.simps split: option.splits)

lemma set_plan_stale_routes: "op \<in> set (plan_stale_routes k prio desired) \<longleftrightarrow> planned k prio desired DropRoute op"
  by (auto simp: plan_stale_routes_def planned.simps split: option.splits)

text \<open>A reconciliation plan as a set.\<close>

lemma reconcile_plan_set:
  assumes "endpointPolicyPlan k p False = Inr ops"
  obtains desired where "desired_routes (ep_Routes p) [] = Inr desired"
    "\<And>op. op \<in> set ops \<longleftrightarrow> (\<exists>part. planned k (ep_Priority p) desired part op)"
proof -
  from assms obtain desired where d: "desired_routes (ep_Routes p) [] = Inr desired"
    and ops: "ops = filter (\<lambda>s. \<not> containsRoute (ks_Routes k) s) endpoint_sentinels @ plan_adds k (ep_Priority p) desired @
       plan_stale_rules k (ep_Priority p) desired @ plan_stale_routes k (ep_Priority p) desired"
    by (auto simp: endpointPolicyPlan_def split: if_splits sum.splits)
  have "op \<in> set ops \<longleftrightarrow> (\<exists>part. planned k (ep_Priority p) desired part op)" for op
  proof -
    have "(\<exists>part. planned k (ep_Priority p) desired part op) \<longleftrightarrow>
        planned k (ep_Priority p) desired AddSentinel op \<or> planned k (ep_Priority p) desired AddRoute op \<or>
        planned k (ep_Priority p) desired AddRule op \<or> planned k (ep_Priority p) desired DropRule op \<or>
        planned k (ep_Priority p) desired DropRoute op" by (metis plan_part.exhaust)
    moreover have "op \<in> set (filter (\<lambda>s. \<not> containsRoute (ks_Routes k) s) endpoint_sentinels) \<longleftrightarrow>
        planned k (ep_Priority p) desired AddSentinel op" by (auto simp: planned.simps)
    ultimately show ?thesis
      unfolding ops by (simp add: set_plan_adds set_plan_stale_rules set_plan_stale_routes)
  qed
  with d that show thesis by blast
qed

section \<open>Carrying out a plan\<close>

lemma containsRoute_refl: "r \<in> set rs \<Longrightarrow> containsRoute rs r"
  by (auto simp: containsRoute_def list_ex_iff)

lemma containsRouteE:
  assumes "containsRoute rs r"
  obtains g where "g \<in> set rs" "same_route r g" "containsRoute [g] r"
  using assms by (fastforce simp: containsRoute_def list_ex_iff same_route_def)

lemma containsRoute_mono: "containsRoute [g] r \<Longrightarrow> g \<in> set rs \<Longrightarrow> containsRoute rs r"
  by (auto simp: containsRoute_def list_ex_iff)

lemma containsRuleE:
  assumes "containsRule rs r"
  obtains g where "g \<in> set rs" "same_rule r g" "containsRule [g] r"
  using assms by (fastforce simp: containsRule_def list_ex_iff same_rule_def)

lemma containsRule_mono: "containsRule [g] r \<Longrightarrow> g \<in> set rs \<Longrightarrow> containsRule rs r"
  by (auto simp: containsRule_def list_ex_iff)

lemma containsRule_refl: "r \<in> set rs \<Longrightarrow> op_Kind r = ''rule'' \<Longrightarrow> containsRule rs r"
  by (auto simp: containsRule_def list_ex_iff)

lemma same_route_prefix: "same_route a b \<Longrightarrow> op_Prefix a = op_Prefix b"
  by (simp add: same_route_def)

lemma sentinel_shape:
  assumes "s \<in> set endpoint_sentinels"
  shows "op_Kind s = ''unreachable''" "op_Table s = endpointTable" "\<not> is_rule_op s"
  using assms by (auto simp: endpoint_sentinels_def is_rule_op_def)

lemma sentinel_key: "s \<in> set endpoint_sentinels \<Longrightarrow> s' \<in> set endpoint_sentinels \<Longrightarrow> op_Prefix s = op_Prefix s' \<Longrightarrow> s = s'"
  by (auto simp: endpoint_sentinels_def)

lemma endpoint_rule_shape [simp]:
  "op_Kind (endpoint_rule prio r) = ''rule''" "op_Prefix (endpoint_rule prio r) = op_Prefix r"
  "op_Priority (endpoint_rule prio r) = prio" "op_Table (endpoint_rule prio r) = endpointTable"
  by (simp_all add: endpoint_rule_def)

text \<open>Which planned operation can remove a row or a rule.\<close>

lemma kills_sentinel:
  assumes d: "desired_routes (ep_Routes p) [] = Inr desired" and rd: "readable p"
    and s: "s \<in> set endpoint_sentinels" and op: "planned k prio desired part op"
    and kill: "route_kills op g" and g: "same_route s g"
  shows "part = AddSentinel \<and> op = s"
proof -
  have pre: "op_Prefix op = op_Prefix s" and nr: "\<not> is_rule_op op"
    using kill g by (auto simp: route_kills_def same_route_def)
  then have host: "host_prefix_of op = None" using sentinel_no_host [OF s] host_prefix_cong by metis
  from op show ?thesis
  proof cases
    case add_sentinel
    with pre s show ?thesis by (simp add: sentinel_key)
  next
    case (add_route q)
    with desired_route [OF d rd, of q op] host show ?thesis by simp
  next
    case (add_rule q r)
    with nr show ?thesis by (simp add: is_rule_op_def)
  next
    case (drop_rule u q)
    with nr show ?thesis by (simp add: is_rule_op_def)
  next
    case (drop_route t q)
    with host show ?thesis by (simp add: host_prefix_of_def)
  qed
qed

lemma kills_desired:
  assumes d: "desired_routes (ep_Routes p) [] = Inr desired" and rd: "readable p"
    and q: "map_of desired q = Some r" and op: "planned k prio desired part op"
    and kill: "route_kills op g" and g: "op_Prefix g = q"
  shows "part = AddRoute \<and> op = r"
proof -
  have pre: "op_Prefix op = op_Prefix r" and nr: "\<not> is_rule_op op"
    using kill g desired_route [OF d rd q] by (auto simp: route_kills_def same_route_def)
  then have host: "host_prefix_of op = Some q" using desired_route [OF d rd q] host_prefix_cong by metis
  from op show ?thesis
  proof cases
    case add_sentinel
    with host show ?thesis by (simp add: sentinel_no_host)
  next
    case (add_route q')
    with desired_route [OF d rd, of q' op] host q show ?thesis by simp
  next
    case (add_rule q' r')
    with nr show ?thesis by (simp add: is_rule_op_def)
  next
    case (drop_rule u q')
    with nr show ?thesis by (simp add: is_rule_op_def)
  next
    case (drop_route t q')
    then have "q' = q" using host by (simp add: host_prefix_of_def)
    with drop_route q show ?thesis by (simp add: final_ref_def)
  qed
qed

lemma kills_rule:
  assumes d: "desired_routes (ep_Routes p) [] = Inr desired" and rd: "readable p"
    and q: "map_of desired q = Some r" and op: "planned k prio desired part op"
    and kill: "rule_kills op g" and g: "op_Prefix g = q"
  shows "part = AddRule \<and> op = endpoint_rule prio r"
proof -
  have pre: "op_Prefix op = op_Prefix r" and rl: "is_rule_op op"
    using kill g desired_route [OF d rd q] by (auto simp: rule_kills_def same_rule_def)
  then have host: "host_prefix_of op = Some q" using desired_route [OF d rd q] host_prefix_cong by metis
  from op show ?thesis
  proof cases
    case add_sentinel
    with rl show ?thesis by (simp add: sentinel_shape)
  next
    case (add_route q')
    with desired_route [OF d rd, of q' op] rl show ?thesis by (simp add: is_rule_op_def)
  next
    case (add_rule q' r')
    then have "q' = q"
      using desired_route [OF d rd, of q' r'] pre desired_route [OF d rd q] by simp
    with add_rule q show ?thesis by simp
  next
    case (drop_rule u q')
    then have "q' = q" using host by (simp add: host_prefix_of_def)
    with drop_rule q show ?thesis by simp
  next
    case (drop_route t q')
    with rl show ?thesis by (simp add: is_rule_op_def)
  qed
qed

lemma kills_own_rules:
  "planned k prio desired part op \<Longrightarrow> desired_routes (ep_Routes p) [] = Inr desired \<Longrightarrow> readable p \<Longrightarrow>
     rule_kills op u \<Longrightarrow> op_Priority u = prio"
  by (erule planned.cases)
     (auto simp: rule_kills_def same_rule_def is_rule_op_def dest: sentinel_shape(3) desired_route(4))

text \<open>A reconciliation plan with its reasons, carried out.\<close>

definition carried_out ::
  "kernel_state \<Rightarrow> endpoint_policy \<Rightarrow> (string, operation) gomap \<Rightarrow> operation list \<Rightarrow> kernel_state \<Rightarrow> bool" where
  "carried_out k p desired ops k' \<longleftrightarrow>
     desired_routes (ep_Routes p) [] = Inr desired \<and> readable p \<and>
     (\<forall>op. op \<in> set ops \<longleftrightarrow> (\<exists>part. planned k (ep_Priority p) desired part op)) \<and> k' = foldl obey k ops"

lemma churn_contains_route:
  assumes killer: "\<And>op g. op \<in> set ops \<Longrightarrow> route_kills op g \<Longrightarrow> same_route r g \<Longrightarrow> op = r \<and> \<not> containsRoute rs r"
    and added: "\<not> containsRoute rs r \<Longrightarrow> r \<in> set ops" "r \<in> set (route_adds r)"
  shows "containsRoute (churn route_kills route_adds ops rs) r"
proof (cases "containsRoute rs r")
  case True
  then obtain g where g: "g \<in> set rs" "same_route r g" "containsRoute [g] r" by (rule containsRouteE)
  then have "g \<in> set (churn route_kills route_adds ops rs)" using killer True by (blast intro: churn_keeps)
  with g(3) show ?thesis by (rule containsRoute_mono)
next
  case False
  have "same_route r r" by (simp add: same_route_def)
  then have "r \<in> set (route_adds op)" if "op \<in> set ops" "route_kills op r" for op
    using killer [OF that] added(2) by simp
  with False added have "r \<in> set (churn route_kills route_adds ops rs)" by (intro churn_adds [of r]) auto
  then show ?thesis by (rule containsRoute_refl)
qed

lemma carried_sentinels:
  assumes "carried_out k p desired ops k'" and s: "s \<in> set endpoint_sentinels"
  shows "containsRoute (ks_Routes k') s"
proof -
  have d: "desired_routes (ep_Routes p) [] = Inr desired" "readable p"
    and ops: "\<And>op. op \<in> set ops \<longleftrightarrow> (\<exists>part. planned k (ep_Priority p) desired part op)"
    and k': "ks_Routes k' = churn route_kills route_adds ops (ks_Routes k)"
    using assms(1) by (auto simp: carried_out_def obey_routes)
  show ?thesis
    unfolding k'
  proof (rule churn_contains_route)
    fix op g
    assume kill: "op \<in> set ops" "route_kills op g" "same_route s g"
    with ops obtain part where part: "planned k (ep_Priority p) desired part op" by blast
    from kills_sentinel [OF d s part kill(2, 3)] part show "op = s \<and> \<not> containsRoute (ks_Routes k) s" by (auto simp: planned.simps)
  qed (use s ops sentinel_shape [OF s] in \<open>auto simp: planned.simps route_adds_def\<close>)
qed

lemma carried_routes:
  assumes "carried_out k p desired ops k'" and q: "map_of desired q = Some r"
  shows "containsRoute (ks_Routes k') r"
proof -
  have d: "desired_routes (ep_Routes p) [] = Inr desired" "readable p"
    and ops: "\<And>op. op \<in> set ops \<longleftrightarrow> (\<exists>part. planned k (ep_Priority p) desired part op)"
    and k': "ks_Routes k' = churn route_kills route_adds ops (ks_Routes k)"
    using assms(1) by (auto simp: carried_out_def obey_routes)
  note r = desired_route [OF d q]
  show ?thesis
    unfolding k'
  proof (rule churn_contains_route)
    fix op g
    assume kill: "op \<in> set ops" "route_kills op g" "same_route r g"
    with ops obtain part where part: "planned k (ep_Priority p) desired part op" by blast
    have "op_Prefix g = q" using kill(3) r(1) by (simp add: same_route_def)
    from kills_desired [OF d q part kill(2) this] part show "op = r \<and> \<not> containsRoute (ks_Routes k) r" by (auto simp: planned.simps)
  qed (use q ops r in \<open>auto simp: route_adds_def is_rule_op_def intro: planned.add_route\<close>)
qed

lemma carried_rules:
  assumes "carried_out k p desired ops k'" and q: "map_of desired q = Some r"
  shows "containsRule (ks_Rules k') (endpoint_rule (ep_Priority p) r)"
proof -
  let ?rule = "endpoint_rule (ep_Priority p) r"
  have d: "desired_routes (ep_Routes p) [] = Inr desired" "readable p"
    and ops: "\<And>op. op \<in> set ops \<longleftrightarrow> (\<exists>part. planned k (ep_Priority p) desired part op)"
    and k': "ks_Rules k' = churn rule_kills rule_adds ops (ks_Rules k)"
    using assms(1) by (auto simp: carried_out_def obey_rules)
  note r = desired_route [OF d q]
  have killer: "op = ?rule \<and> \<not> containsRule (ks_Rules k) ?rule" if kill: "op \<in> set ops" "rule_kills op g" "same_rule ?rule g" for op g
  proof -
    from kill(1) ops obtain part where part: "planned k (ep_Priority p) desired part op" by blast
    have "op_Prefix g = q" using kill(3) r(1) by (simp add: same_rule_def)
    from kills_rule [OF d q part kill(2) this] part show ?thesis by (auto simp: planned.simps)
  qed
  show ?thesis
  proof (cases "containsRule (ks_Rules k) ?rule")
    case True
    then obtain g where g: "g \<in> set (ks_Rules k)" "same_rule ?rule g" "containsRule [g] ?rule" by (rule containsRuleE)
    then have "g \<in> set (ks_Rules k')" unfolding k' using killer True by (blast intro: churn_keeps)
    with g(3) show ?thesis by (rule containsRule_mono)
  next
    case False
    with q ops have "?rule \<in> set ops" by (blast intro: planned.add_rule)
    moreover have "?rule \<in> set (rule_adds ?rule)" by (simp add: rule_adds_def)
    moreover have "same_rule ?rule ?rule" by (simp add: same_rule_def)
    ultimately have "?rule \<in> set (ks_Rules k')" unfolding k' using killer by (intro churn_adds [of ?rule]) auto
    then show ?thesis by (rule containsRule_refl) simp
  qed
qed

lemma rule_adds_planned:
  assumes "carried_out k p desired ops k'" and "op \<in> set ops" and "u \<in> set (rule_adds op)"
  shows "\<exists>q r. map_of desired q = Some r \<and> u = endpoint_rule (ep_Priority p) r \<and> host_prefix_of u = Some q"
proof -
  from assms(1, 2) obtain part where part: "planned k (ep_Priority p) desired part op"
    and d: "desired_routes (ep_Routes p) [] = Inr desired" "readable p" by (auto simp: carried_out_def)
  from assms(3) have op: "op_Kind op = ''rule''" "u = op" by (auto simp: rule_adds_def split: if_splits)
  from part show ?thesis
  proof cases
    case add_sentinel
    with op show ?thesis by (simp add: sentinel_shape)
  next
    case (add_route q)
    with op desired_route(4) [OF d, of q op] show ?thesis by simp
  next
    case (add_rule q r)
    with op desired_route [OF d add_rule(3)] show ?thesis
      by (metis endpoint_rule_shape(2) host_prefix_cong)
  qed (use op in auto)
qed

lemma route_adds_planned:
  assumes "carried_out k p desired ops k'" and "op \<in> set ops" and "t \<in> set (route_adds op)"
  shows "host_prefix_of t = None \<or> (\<exists>q r. map_of desired q = Some r \<and> host_prefix_of t = Some q)"
proof -
  from assms(1, 2) obtain part where part: "planned k (ep_Priority p) desired part op"
    and d: "desired_routes (ep_Routes p) [] = Inr desired" "readable p" by (auto simp: carried_out_def)
  from assms(3) have op: "op_Kind op \<noteq> ''delete-route''" "\<not> is_rule_op op" "t = op" by (auto simp: route_adds_def split: if_splits)
  from part show ?thesis
  proof cases
    case add_sentinel
    with op show ?thesis by (simp add: sentinel_no_host)
  next
    case (add_route q)
    with op desired_route(2) [OF d, of q op] show ?thesis by auto
  qed (use op in \<open>auto simp: is_rule_op_def\<close>)
qed

lemma carried_no_stale_rules:
  assumes "carried_out k p desired ops k'"
  shows "\<not> planned k' (ep_Priority p) desired DropRule op"
proof
  assume "planned k' (ep_Priority p) desired DropRule op"
  then obtain u q where u: "u \<in> set (ks_Rules k')" "op_Table u = endpointTable" "op_Priority u = ep_Priority p"
    "host_prefix_of u = Some q" "map_of desired q = None" by (auto simp: planned.simps)
  have k': "ks_Rules k' = churn rule_kills rule_adds ops (ks_Rules k)" using assms by (auto simp: carried_out_def obey_rules)
  have fresh: "u \<notin> set (rule_adds op')" if "op' \<in> set ops" for op'
    using rule_adds_planned [OF assms that, of u] u by auto
  with u(1) churn_origin [of u rule_kills rule_adds ops "ks_Rules k"] have old: "u \<in> set (ks_Rules k)" unfolding k' by auto
  let ?del = "u\<lparr>op_Kind := ''delete-rule''\<rparr>"
  have "planned k (ep_Priority p) desired DropRule ?del" using old u by (blast intro: planned.drop_rule)
  then have "?del \<in> set ops" using assms by (auto simp: carried_out_def)
  moreover have "rule_kills ?del u" by (simp add: rule_kills_def is_rule_op_def same_rule_def)
  ultimately show False using churn_kills [of ?del ops rule_kills u rule_adds "ks_Rules k"] fresh u(1) unfolding k' by blast
qed

lemma carried_final_ref:
  assumes "carried_out k p desired ops k'" and "final_ref k (ep_Priority p) desired q"
  shows "final_ref k' (ep_Priority p) desired q"
proof (cases "map_of desired q")
  case None
  have k': "ks_Rules k' = churn rule_kills rule_adds ops (ks_Rules k)" using assms(1) by (auto simp: carried_out_def obey_rules)
  from None assms(2) obtain u where u: "u \<in> set (ks_Rules k)" "op_Table u = endpointTable" "op_Priority u \<noteq> ep_Priority p"
    "host_prefix_of u = Some q" by (auto simp: final_ref_def list_ex_iff)
  have "\<not> rule_kills op u" if "op \<in> set ops" for op
    using assms(1) that kills_own_rules [of k "ep_Priority p" desired _ op p u] u(3) by (auto simp: carried_out_def)
  with u(1) have "u \<in> set (ks_Rules k')" unfolding k' by (blast intro: churn_keeps)
  with u show ?thesis by (auto simp: final_ref_def list_ex_iff)
qed (simp add: final_ref_def)

lemma carried_no_stale_routes:
  assumes "carried_out k p desired ops k'"
  shows "\<not> planned k' (ep_Priority p) desired DropRoute op"
proof
  assume "planned k' (ep_Priority p) desired DropRoute op"
  then obtain t q where t: "t \<in> set (ks_Routes k')" "op_Kind t = ''route''" "op_Table t = endpointTable"
    "host_prefix_of t = Some q" "\<not> final_ref k' (ep_Priority p) desired q" by (auto simp: planned.simps)
  have k': "ks_Routes k' = churn route_kills route_adds ops (ks_Routes k)" using assms by (auto simp: carried_out_def obey_routes)
  have fresh: "t \<notin> set (route_adds op')" if "op' \<in> set ops" for op'
    using route_adds_planned [OF assms that, of t] t(4, 5) by (auto simp: final_ref_def)
  with t(1) churn_origin [of t route_kills route_adds ops "ks_Routes k"] have old: "t \<in> set (ks_Routes k)" unfolding k' by auto
  let ?del = "t\<lparr>op_Kind := ''delete-route''\<rparr>"
  have "\<not> final_ref k (ep_Priority p) desired q" using carried_final_ref [OF assms] t(5) by blast
  then have "planned k (ep_Priority p) desired DropRoute ?del" using old t by (blast intro: planned.drop_route)
  then have "?del \<in> set ops" using assms by (auto simp: carried_out_def)
  moreover have "route_kills ?del t" by (simp add: route_kills_def is_rule_op_def same_route_def)
  ultimately show False using churn_kills [of ?del ops route_kills t route_adds "ks_Routes k"] fresh t(1) unfolding k' by blast
qed

lemma plan_converges:
  assumes plan: "endpointPolicyPlan k p False = Inr ops" and rd: "readable p"
  shows "endpointPolicyPlan (foldl obey k ops) p False = Inr []"
proof -
  let ?k = "foldl obey k ops"
  from reconcile_plan_set [OF plan] obtain desired where
    d: "desired_routes (ep_Routes p) [] = Inr desired" and "carried_out k p desired ops ?k"
    using rd by (metis carried_out_def)
  note c = carried_sentinels [OF this(2)] carried_routes [OF this(2)] carried_rules [OF this(2)]
    carried_no_stale_rules [OF this(2)] carried_no_stale_routes [OF this(2)]
  have "\<not> planned ?k (ep_Priority p) desired part op" for part op
    using c by (cases part) (auto simp: planned.simps)
  moreover obtain ops' where plan': "endpointPolicyPlan ?k p False = Inr ops'"
    using plan d by (auto simp: endpointPolicyPlan_def split: if_splits)
  ultimately have "set ops' = {}" using reconcile_plan_set [OF plan'] d by (metis Inr_inject all_not_in_conv)
  with plan' show ?thesis by simp
qed

section \<open>Other owners\<close>

text \<open>An operation of a plan stays inside the endpoint table, and a deleted route is one no rule of
  another owner refers to.\<close>

definition spares :: "kernel_state \<Rightarrow> endpoint_policy \<Rightarrow> operation \<Rightarrow> bool" where
  "spares k p op \<longleftrightarrow> op_Table op = endpointTable \<and>
     (is_rule_op op \<longrightarrow> op_Priority op = ep_Priority p) \<and>
     (op_Kind op = ''delete-route'' \<longrightarrow>
        (\<forall>rule \<in> set (ks_Rules k). op_Table rule = endpointTable \<and> op_Priority rule \<noteq> ep_Priority p \<longrightarrow>
           host_prefix_of op = None \<or> host_prefix_of rule \<noteq> host_prefix_of op))"

lemma desired_route_shape:
  "desired_routes rs [] = Inr desired \<Longrightarrow> map_of desired q = Some op \<Longrightarrow> op_Table op = endpointTable \<and> op_Kind op = ''route''"
  using desired_routes_from [of rs "[]" desired q op] by (auto simp: endpoint_operation_def)

lemma planned_spares:
  assumes "desired_routes rs [] = Inr desired" and "planned k (ep_Priority p) desired part op"
  shows "spares k p op"
  using assms(2)
proof cases
  case add_sentinel
  with sentinel_shape [OF add_sentinel(2)] show ?thesis by (simp add: spares_def)
next
  case (add_route q)
  with desired_route_shape [OF assms(1)] show ?thesis by (fastforce simp: spares_def is_rule_op_def)
next
  case (add_rule q r)
  then show ?thesis by (simp add: spares_def)
next
  case (drop_rule u q)
  then show ?thesis by (simp add: spares_def)
next
  case (drop_route t q)
  then show ?thesis by (auto simp: spares_def is_rule_op_def final_ref_def list_ex_iff host_prefix_of_def)
qed

lemma plan_spares:
  assumes plan: "endpointPolicyPlan k p remove = Inr ops" and op: "op \<in> set ops"
  shows "spares k p op"
proof (cases remove)
  case False
  with plan have "endpointPolicyPlan k p False = Inr ops" by simp
  from reconcile_plan_set [OF this] op planned_spares show ?thesis by metis
next
  case True
  with plan have ops: "ops = plan_adds k (ep_Priority p) [] @ plan_stale_rules k (ep_Priority p) [] @
      plan_stale_routes k (ep_Priority p) [] @ plan_last_sentinels k (ep_Priority p)"
    by (auto simp: endpointPolicyPlan_def split: if_splits)
  show ?thesis
  proof (cases "op \<in> set (plan_last_sentinels k (ep_Priority p))")
    case True
    then show ?thesis by (auto simp: plan_last_sentinels_def spares_def is_rule_op_def list_ex_iff split: if_splits)
  next
    case False
    with op ops obtain part where "planned k (ep_Priority p) [] part op"
      by (auto simp: set_plan_adds set_plan_stale_rules set_plan_stale_routes)
    from planned_spares [OF _ this, of "[]"] show ?thesis by simp
  qed
qed

end
