(* ===== verification/Linux_Properties.thy ===== *)
theory Linux_Properties
  imports Linux_Facts Endpoint_Plan
begin

text \<open>
  The Linux writer over a routing table that does what it is asked. A selected route read back from
  the table is the identity it was written for, so one reconciliation of an Applying record
  reaches its desired row.
\<close>

section \<open>Reading back a row\<close>

text \<open>What the kernel lists for a row it was given: a row without a type is a unicast route, and IPv6
  routes have no scope.\<close>

definition RTN_UNICAST :: int where
  "RTN_UNICAST = 1"

definition reported :: "nl_route \<Rightarrow> nl_route" where
  "reported r =
     (let r = (if nr_Type r = 0 then r\<lparr>nr_Type := RTN_UNICAST\<rparr> else r)
      in case nr_Dst r of
           None \<Rightarrow> r
         | Some dst \<Rightarrow> if in_Bits dst = 128 then r\<lparr>nr_Scope := 0\<rparr> else r)"

lemma normalized_shape:
  assumes "linux_NormalizeSelectedRoute d = Inr i" and "sd_Gateway d = AddrZero"
  shows "si_NextHop i = []" "si_Table i = selectedRouteTable" "si_Protocol i = selectedRouteProtocolLinux"
    "si_InterfaceLuid i = 0" "identity_Validate i (sd_Prefix d) = None"
    "si_Scope i = (if addr_Is4 (prefix_Addr (sd_Prefix d)) then ScopeLink else 0)"
    "si_Metric i = word_of_int (selectedRouteMetric (sd_Prefix d))"
  using assms by (auto simp: linux_NormalizeSelectedRoute_def identity_none_def addr_IsValid_def Let_def split: if_splits option.splits)

lemma identity_eqI:
  "si_Table a = si_Table b \<Longrightarrow> si_IfIndex a = si_IfIndex b \<Longrightarrow> si_NextHop a = si_NextHop b \<Longrightarrow> si_Protocol a = si_Protocol b \<Longrightarrow>
   si_Metric a = si_Metric b \<Longrightarrow> si_Scope a = si_Scope b \<Longrightarrow> si_InterfaceLuid a = si_InterfaceLuid b \<Longrightarrow> a = (b :: selected_identity)"
  by (cases a; cases b) simp

lemma valid_is_4_or_6: "a \<noteq> AddrZero \<Longrightarrow> addr_BitLen a = (if addr_Is4 a then 32 else 128)"
  by (cases a) auto

lemma selected_readback:
  assumes "linux_NormalizeSelectedRoute d = Inr i" and "sd_Gateway d = AddrZero"
  shows "selectedKernelRow (reported (selectedRouteFor (sd_Prefix d) i)) (sd_Prefix d) =
    foreign_row\<lparr>kr_Kind := SelectedKernelRoute, kr_Route := i\<rparr>"
proof -
  note n = normalized_shape [OF assms]
  let ?row = "reported (selectedRouteFor (sd_Prefix d) i)"
  from assms(1) have "prefix_IsValid (sd_Prefix d)" "sd_Prefix d = prefix_Masked (sd_Prefix d)"
    by (auto simp: linux_NormalizeSelectedRoute_def split: if_splits)
  note bits = valid_is_4_or_6 [OF prefix_Masked_valid [OF this]]
  have "row_identity ?row = i"
    by (rule identity_eqI)
       (simp_all add: row_identity_def reported_def selectedRouteFor_def prefix_ipnet_def identity_none_def nl_route_zero_def
          netipAddr_def addr_IsValid_def n bits)
  moreover have "nr_Type ?row \<noteq> rtnUnreachable"
    by (simp add: reported_def selectedRouteFor_def nl_route_zero_def RTN_UNICAST_def rtnUnreachable_def Let_def split: option.splits)
  ultimately show ?thesis using n(5) by (simp add: selectedKernelRow_def)
qed

section \<open>A table that obeys\<close>

definition same_key :: "nl_route \<Rightarrow> nl_route \<Rightarrow> bool" where
  "same_key a b = (nr_Dst a = nr_Dst b \<and> nr_Table a = nr_Table b \<and> nr_Priority a = nr_Priority b)"

text \<open>A row of the main table for a prefix, as the kernel lists it.\<close>

definition row_of :: "netprefix \<Rightarrow> nl_route \<Rightarrow> bool" where
  "row_of p row = (nr_Dst row = Some (prefix_ipnet p) \<and> nr_Table row = selectedRouteTable \<and>
     0 \<le> nr_Priority row \<and> nr_Priority row < 2 ^ 32)"

text \<open>The rows of a prefix can be read, a row with a new key is added to them, and a replacement takes
  the place of the row with its key.\<close>

definition obeys :: "'k netlink \<Rightarrow> netprefix \<Rightarrow> ('k \<Rightarrow> nl_route list) \<Rightarrow> bool" where
  "obeys nl p rows \<longleftrightarrow>
     (\<forall>k. selectedRouteRows nl (prefix_nl_family p) p k = (Inr (rows k), k)) \<and>
     (\<forall>k r. nr_Dst r = Some (prefix_ipnet p) \<and> nr_Table r = selectedRouteTable \<longrightarrow>
        (\<not> list_ex (same_key r) (rows k) \<longrightarrow>
           (\<exists>k'. nk_RouteAdd nl r k = (Inr (), k') \<and> rows k' = rows k @ [reported r])) \<and>
        (\<exists>k'. nk_RouteReplace nl r k = (Inr (), k') \<and> rows k' = filter (\<lambda>x. \<not> same_key r x) (rows k) @ [reported r]))"

lemma obeys_row:
  assumes "obeys nl p rows" and "nr_Dst r = Some (prefix_ipnet p)" and "nr_Table r = selectedRouteTable"
  shows "\<not> list_ex (same_key r) (rows k) \<Longrightarrow> \<exists>k'. nk_RouteAdd nl r k = (Inr (), k') \<and> rows k' = rows k @ [reported r]"
    and "\<exists>k'. nk_RouteReplace nl r k = (Inr (), k') \<and> rows k' = filter (\<lambda>x. \<not> same_key r x) (rows k) @ [reported r]"
  using assms unfolding obeys_def by blast+

lemma priority_eq: "0 \<le> x \<Longrightarrow> x < 2 ^ 32 \<Longrightarrow> word_of_int x = (w :: u32) \<Longrightarrow> x = uint w"
  by (auto simp: uint_word_of_int)

lemma route_row_key:
  assumes "row_of p row" and "SelectedRowMatchesIdentity (selectedKernelRow row p) i" and "si_Metric i = si_Metric j"
    and "si_Table j = selectedRouteTable"
  shows "same_key (selectedRouteFor p j) row"
proof -
  from assms(2) have "i = row_identity row"
    by (auto simp: SelectedRowMatchesIdentity_def selectedKernelRow_def foreign_row_def split: if_splits)
  then have "word_of_int (nr_Priority row) = si_Metric j" using assms(3) by (simp add: row_identity_def)
  with assms(1) have "nr_Priority row = uint (si_Metric j)" by (intro priority_eq) (auto simp: row_of_def)
  with assms(1, 4) show ?thesis by (simp add: same_key_def selectedRouteFor_def row_of_def)
qed

lemma park_row_key:
  assumes "kr_Kind (selectedKernelRow row p) = SelectedKernelPark" and "si_Metric j = word_of_int (selectedRouteMetric q)"
  shows "\<not> same_key (selectedRouteFor p j) row"
proof
  assume "same_key (selectedRouteFor p j) row"
  then have "nr_Priority row = uint (si_Metric j)" by (simp add: same_key_def selectedRouteFor_def)
  moreover have "word_of_int (nr_Priority row) = ManagedParkMetric"
    using assms(1) by (auto simp: selectedKernelRow_def foreign_row_def split: if_splits)
  ultimately have "si_Metric j = ManagedParkMetric" by simp
  with assms(2) show False by (simp add: selectedRouteMetric_def ManagedParkMetric_def split: if_splits)
qed

section \<open>One reconciliation is enough\<close>

text \<open>A record that may be driven: Applying, its identity normalized, its previous identity of the same
  metric.\<close>

definition drivable :: "selected_desired \<Rightarrow> route_value \<Rightarrow> bool" where
  "drivable d v \<longleftrightarrow> sr_State v = SelectedApplying \<and> linux_NormalizeSelectedRoute d = Inr (sr_Desired v) \<and>
     sd_Gateway d = AddrZero \<and> (\<forall>i. sr_Owned v = Some i \<longrightarrow> si_Metric i = si_Metric (sr_Desired v))"

lemma parks_then_desired:
  assumes d: "drivable d v" and parks: "\<And>row. row \<in> set rows \<Longrightarrow> park_row v (selectedKernelRow row (sd_Prefix d))"
  shows "selectedRoutePlan (rows @ [reported (selectedRouteFor (sd_Prefix d) (sr_Desired v))]) (sd_Prefix d) (Some v) =
    Inr SelectedActionNone"
proof -
  let ?K = "\<lambda>row. selectedKernelRow row (sd_Prefix d)"
  let ?new = "?K (reported (selectedRouteFor (sd_Prefix d) (sr_Desired v)))"
  have new: "desired_row v ?new" "\<not> stale_row v ?new"
    using selected_readback [of d "sr_Desired v"] d
    by (auto simp: drivable_def desired_row_def stale_row_def SelectedRowMatchesIdentity_def foreign_row_def)
  have "\<not> desired_row v (?K row)" "\<not> stale_row v (?K row)" if "row \<in> set rows" for row
    using parks [OF that] by (auto simp: park_row_def desired_row_def stale_row_def SelectedRowMatchesIdentity_def)
  then have "filter (desired_row v) (map ?K rows) = []" "filter (stale_row v) (map ?K rows) = []"
    by (auto simp: filter_empty_conv)
  with new parks d show ?thesis
    by (auto simp: selectedRoutePlan_def Plan_Inr_iff plan_counts_def accounted_def drivable_def)
qed

lemma plan_add_rows:
  assumes "PlanSelectedRoute ks (Some v) = Inr SelectedActionAdd" and "row \<in> set ks"
  shows "\<not> desired_row v row" "\<not> stale_row v row"
proof -
  from assms(1) have "length (filter (desired_row v) ks) \<le> 1" "length (filter (desired_row v) ks) \<noteq> 1"
    "length (filter (stale_row v) ks) = 0"
    by (auto simp: Plan_Inr_iff plan_counts_def split: if_splits)
  then have "length (filter (desired_row v) ks) = 0" "length (filter (stale_row v) ks) = 0" by linarith+
  then have "filter (desired_row v) ks = []" "filter (stale_row v) ks = []" by simp_all
  with assms(2) show "\<not> desired_row v row" "\<not> stale_row v row" by (auto simp: filter_empty_conv)
qed

text \<open>The action of the planner, carried out on an obeying table, leaves nothing to do.\<close>

lemma apply_action_reaches:
  assumes nl: "obeys nl (sd_Prefix d) rows" and d: "drivable d v"
    and listed: "\<And>row. row \<in> set (rows k) \<Longrightarrow> row_of (sd_Prefix d) row"
    and plan: "selectedRoutePlan (rows k) (sd_Prefix d) (Some v) = Inr action"
  shows "\<exists>k'. linux_apply_action nl action (sd_Prefix d) (sr_Desired v) k = (Inr (action \<noteq> SelectedActionNone), k') \<and>
    selectedRoutePlan (rows k') (sd_Prefix d) (Some v) = Inr SelectedActionNone"
proof -
  let ?p = "sd_Prefix d" and ?r = "selectedRouteFor (sd_Prefix d) (sr_Desired v)"
  let ?K = "\<lambda>row. selectedKernelRow row ?p"
  from d have norm: "linux_NormalizeSelectedRoute d = Inr (sr_Desired v)" "sd_Gateway d = AddrZero"
    and owned: "sr_Owned v = Some i \<Longrightarrow> si_Metric i = si_Metric (sr_Desired v)" for i by (auto simp: drivable_def)
  note n = normalized_shape [OF norm]
  have r: "nr_Dst ?r = Some (prefix_ipnet ?p)" "nr_Table ?r = selectedRouteTable"
    using n(2) by (simp_all add: selectedRouteFor_def)
  have accounted: "accounted v (?K row)" if "row \<in> set (rows k)" for row
    using plan that by (auto simp: selectedRoutePlan_def Plan_Inr_iff)
  have key: "same_key ?r row" if "row \<in> set (rows k)" "desired_row v (?K row) \<or> stale_row v (?K row)" for row
    using that listed [OF that(1)] n(2) owned
    by (auto simp: desired_row_def stale_row_def intro: route_row_key)
  have other: "park_row v (?K row)" if "row \<in> set (rows k)" "\<not> same_key ?r row" for row
    using accounted [OF that(1)] key [OF that(1)] that(2) by (auto simp: accounted_def)
  show ?thesis
  proof (cases action)
    case SelectedActionNone
    with plan show ?thesis by (simp add: linux_apply_action_def)
  next
    case SelectedActionAdd
    with plan have "PlanSelectedRoute (map ?K (rows k)) (Some v) = Inr SelectedActionAdd" by (simp add: selectedRoutePlan_def)
    from plan_add_rows [OF this] have parks: "park_row v (?K row)" if "row \<in> set (rows k)" for row
      using accounted [OF that] that by (auto simp: accounted_def)
    then have "\<not> list_ex (same_key ?r) (rows k)"
      using park_row_key [OF _ n(7)] by (auto simp: list_ex_iff park_row_def)
    with obeys_row [OF nl r] obtain k' where "nk_RouteAdd nl ?r k = (Inr (), k')" "rows k' = rows k @ [reported ?r]" by blast
    with parks_then_desired [OF d parks] SelectedActionAdd show ?thesis
      by (simp add: linux_apply_action_def tolerateT_def bindT_def)
  next
    case SelectedActionReplace
    from obeys_row [OF nl r] obtain k' where "nk_RouteReplace nl ?r k = (Inr (), k')"
      "rows k' = filter (\<lambda>x. \<not> same_key ?r x) (rows k) @ [reported ?r]" by blast
    with parks_then_desired [OF d, of "filter (\<lambda>x. \<not> same_key ?r x) (rows k)"] other SelectedActionReplace show ?thesis
      by (simp add: linux_apply_action_def bindT_def)
  qed
qed

lemma reconcile_reaches:
  assumes nl: "obeys nl (sd_Prefix d) rows" and d: "drivable d v"
    and listed: "\<And>row. row \<in> set (rows k) \<Longrightarrow> row_of (sd_Prefix d) row"
    and plan: "selectedRoutePlan (rows k) (sd_Prefix d) (Some v) = Inr action"
  shows "\<exists>k'. linux_ReconcileSelectedRoute nl d (Some v) k =
    (Inr \<lparr>rc_Mutated = (action \<noteq> SelectedActionNone), rc_Verified = sr_Desired v\<rparr>, k')"
proof -
  from apply_action_reaches [OF assms] obtain k' where
    k': "linux_apply_action nl action (sd_Prefix d) (sr_Desired v) k = (Inr (action \<noteq> SelectedActionNone), k')"
      "selectedRoutePlan (rows k') (sd_Prefix d) (Some v) = Inr SelectedActionNone" by blast
  have "prefix_IsValid (sd_Prefix d)" "sd_Prefix d = prefix_Masked (sd_Prefix d)" "\<not> sd_IfIndex d \<le> 0"
    using d by (auto simp: drivable_def linux_NormalizeSelectedRoute_def split: if_splits)
  moreover have "selectedRouteRows nl (prefix_nl_family (sd_Prefix d)) (sd_Prefix d) x = (Inr (rows x), x)" for x
    using nl by (simp add: obeys_def)
  ultimately show ?thesis
    using plan k' by (simp add: linux_ReconcileSelectedRoute_def Let_def bindT_def fromSum_def mapErrT_def requireT_apply)
qed

section \<open>The writer over every library\<close>

text \<open>
  The properties of the Linux route writer, over every netlink library, and a small routing table
  to evaluate them on.
\<close>

section \<open>A routing table\<close>

text \<open>A table of rows: a listing shows the rows of a destination and table, a row with a key that
  exists is not added again, a replacement takes the place of the row with the same key.\<close>

definition table_netlink :: "nl_route list netlink" where
  "table_netlink =
     \<lparr>nk_RouteListFiltered = (\<lambda>family filt flags k.
        (Inr (filter (\<lambda>r. (RT_FILTER_DST \<in> set flags \<longrightarrow> nr_Dst r = nr_Dst filt) \<and> nr_Table r = nr_Table filt) k), k)),
      nk_RouteAdd = (\<lambda>r k. if list_ex (same_key r) k then (Inl (Sentinel SyscallEEXIST), k) else (Inr (), k @ [reported r])),
      nk_RouteReplace = (\<lambda>r k. (Inr (), filter (\<lambda>x. \<not> same_key r x) k @ [reported r])),
      nk_RouteDel = (\<lambda>r k. if r \<in> set k then (Inr (), remove1 r k) else (Inl (Sentinel SyscallENOENT), k)),
      nk_RuleList = (\<lambda>family k. (Inr [], k)),
      nk_RuleAdd = (\<lambda>r k. (Inr (), k)),
      nk_RuleDel = (\<lambda>r k. (Inl (Sentinel SyscallENOENT), k))\<rparr>"

definition table_prefix :: netprefix where
  "table_prefix = Prefix (Addr4 0x0a000001) 33"

definition table_identity :: "int \<Rightarrow> selected_identity" where
  "table_identity i = \<lparr>si_Table = 254, si_IfIndex = i, si_NextHop = [], si_Protocol = 4, si_Metric = 0,
     si_Scope = 253, si_InterfaceLuid = 0\<rparr>"

definition table_park :: park_identity where
  "table_park = \<lparr>pi_Kind = SelectedParkUnreachable, pi_Table = 254, pi_IfIndex = 0, pi_NextHop = [], pi_Protocol = 4,
     pi_Metric = ManagedParkMetric, pi_Scope = 0, pi_InterfaceLuid = 0\<rparr>"

definition applying_value :: route_value where
  "applying_value = \<lparr>sr_Role = ''home'', sr_Zone = ''z'', sr_Prefix = table_prefix, sr_Source = SelectedDNS,
     sr_ToadGeneration = 1, sr_RouteGeneration = 1, sr_Interface = ''tun0'', sr_Desired = table_identity 8,
     sr_Owned = Some (table_identity 7), sr_State = SelectedApplying, sr_RetireDesired = False,
     sr_Park = Some \<lparr>sk_State = SelectedParkApplying, sk_Desired = table_park, sk_Owned = None, sk_RetireDesired = False\<rparr>\<rparr>"

definition table_desired :: selected_desired where
  "table_desired = \<lparr>sd_Role = ''home'', sd_Prefix = table_prefix, sd_IfIndex = 8, sd_Gateway = AddrZero\<rparr>"


section \<open>Authorization\<close>



section \<open>Proof by read-back\<close>

text \<open>When the reconciliation of a route succeeds, the identity it reports is the record's
  desired one and the rows read last prove it: every row of the prefix is accounted for by the
  record, exactly one is the desired row, and no row of the previous identity is left.\<close>

lemma linux_reconcile_proves:
  assumes "linux_ReconcileSelectedRoute (logged_netlink nl) d (Some v) (k, []) = (Inr res, (k', log))"
  defines "rows \<equiv> map (\<lambda>row. selectedKernelRow row (sd_Prefix d)) (last_rows [] log)"
  shows "rc_Verified res = sr_Desired v \<and> (\<forall>row \<in> set rows. accounted v row) \<and>
    length (filter (desired_row v) rows) = 1 \<and> filter (stale_row v) rows = []"
proof -
  have "calm (sd_Prefix d) v (k, [])" by (simp add: calm_def)
  from triple_value [OF linux_reconcile_triple this assms(1)] have
    "rc_Verified res = sr_Desired v" "PlanSelectedRoute rows (Some v) = Inr SelectedActionNone"
    by (auto simp: saw_def selectedRoutePlan_def rows_def)
  then show ?thesis by (auto simp: Plan_Inr_iff plan_counts_def split: if_splits)
qed

text \<open>The previous route is replaced by the desired one.\<close>

text \<open>When a park was removed, the rows read last show none of the identities its transaction
  authorized to delete; when a park was reconciled, they show the desired park.\<close>

lemma linux_park_proves:
  "(linux_RemoveManagedPark (logged_netlink nl) p park (k, []) = (Inr u, (k', log)) \<longrightarrow>
      park_candidates park = Inr None \<or>
      (\<exists>cs. park_candidates park = Inr (Some cs) \<and> (\<forall>row \<in> set (last_rows [] log). \<forall>i \<in> set cs. \<not> is_park p i row))) \<and>
   (linux_ReconcileManagedPark (logged_netlink nl) p (Some v) (k, []) = (Inr res, (k', log)) \<longrightarrow>
      (\<exists>park. sr_Park v = Some park \<and> pr_Verified res = sk_Desired park \<and>
         (\<exists>row \<in> set (last_rows [] log). is_park p (sk_Desired park) row)))"
proof (intro conjI impI)
  assume run: "linux_RemoveManagedPark (logged_netlink nl) p park (k, []) = (Inr u, (k', log))"
  have "calm p (v\<lparr>sr_Park := Some park\<rparr>) (k, [])" by (simp add: calm_def)
  from triple_value [OF park_remove_triple this run]
  show "park_candidates park = Inr None \<or>
      (\<exists>cs. park_candidates park = Inr (Some cs) \<and> (\<forall>row \<in> set (last_rows [] log). \<forall>i \<in> set cs. \<not> is_park p i row))"
    by (auto simp: saw_def)
next
  assume run: "linux_ReconcileManagedPark (logged_netlink nl) p (Some v) (k, []) = (Inr res, (k', log))"
  have "calm p v (k, [])" by (simp add: calm_def)
  from triple_value [OF park_reconcile_triple this run]
  show "\<exists>park. sr_Park v = Some park \<and> pr_Verified res = sk_Desired park \<and>
         (\<exists>row \<in> set (last_rows [] log). is_park p (sk_Desired park) row)"
    by (auto simp: saw_def list_ex_iff)
qed

text \<open>A park whose previous identity has another scope.\<close>

definition rescoped_value :: route_value where
  "rescoped_value = applying_value\<lparr>sr_Park := Some \<lparr>sk_State = SelectedParkApplying, sk_Desired = table_park,
     sk_Owned = Some (table_park\<lparr>pi_Scope := ScopeLink\<rparr>), sk_RetireDesired = False\<rparr>\<rparr>"

text \<open>The replacement of a park is not safe. The previous park has the key of the desired one, so the
  kernel refuses to add the desired park, the refusal is tolerated, and the previous park is deleted
  before the desired one was seen: the reconciliation fails and leaves the prefix with no park at
  all.\<close>

lemma park_replacement_uncovers:
  "linux_ReconcileManagedPark table_netlink table_prefix (Some rescoped_value)
     [parkRowFor table_prefix (table_park\<lparr>pi_Scope := ScopeLink\<rparr>)] =
   (Inl (Errorf ''park %s is not exactly present after the apply''), [])"
  by code_simp

section \<open>Progress\<close>

text \<open>C34: on a routing table that does what it is asked, one reconciliation of an Applying record whose
  identity was normalized for its prefix, and whose previous identity has the same metric, is
  enough: it succeeds, with the desired identity verified, whenever the planner accepts the rows
  of the prefix, and it reports a mutation exactly when the planner asked for one.\<close>

theorem linux_reconcile_succeeds:
  assumes "obeys nl (sd_Prefix d) rows" and "drivable d v"
    and "\<And>row. row \<in> set (rows k) \<Longrightarrow> row_of (sd_Prefix d) row"
    and "selectedRoutePlan (rows k) (sd_Prefix d) (Some v) = Inr action"
  shows "\<exists>k'. linux_ReconcileSelectedRoute nl d (Some v) k =
    (Inr \<lparr>rc_Mutated = (action \<noteq> SelectedActionNone), rc_Verified = sr_Desired v\<rparr>, k')"
  using assms by (rule reconcile_reaches)

definition table_rows :: "netprefix \<Rightarrow> nl_route list \<Rightarrow> nl_route list" where
  "table_rows p k = filter (\<lambda>r. nr_Dst r = Some (prefix_ipnet p) \<and> nr_Table r = selectedRouteTable) k"

lemma table_obeys:
  assumes "net_ParseCIDR (prefix_String p) = Some (prefix_ipnet p)"
  shows "obeys table_netlink p (table_rows p)"
proof -
  have "nr_Dst (reported r) = nr_Dst r" "nr_Table (reported r) = nr_Table r" for r
    by (simp_all add: reported_def Let_def split: option.splits)
  then show ?thesis
    using assms
    by (auto simp: obeys_def table_netlink_def selectedRouteRows_def table_rows_def same_key_def list_ex_iff nl_route_zero_def
        intro!: filter_cong) metis
qed

theorem linux_reconcile_succeeds_witness:
  "\<exists>k'. linux_ReconcileSelectedRoute table_netlink table_desired (Some applying_value)
      [reported (selectedRouteFor table_prefix (table_identity 7))] =
    (Inr \<lparr>rc_Mutated = True, rc_Verified = table_identity 8\<rparr>, k')"
proof -
  let ?k = "[reported (selectedRouteFor table_prefix (table_identity 7))]" and ?p = "sd_Prefix table_desired"
  have "net_ParseCIDR (prefix_String ?p) = Some (prefix_ipnet ?p)" by code_simp
  note o = table_obeys [OF this]
  have "linux_NormalizeSelectedRoute table_desired = Inr (sr_Desired applying_value)" by code_simp
  then have d: "drivable table_desired applying_value"
    by (simp add: drivable_def applying_value_def table_identity_def table_desired_def)
  have "list_all (row_of ?p) (table_rows ?p ?k)" by code_simp
  then have listed: "row_of ?p row" if "row \<in> set (table_rows ?p ?k)" for row using that by (simp add: list_all_iff)
  have "selectedRoutePlan (table_rows ?p ?k) ?p (Some applying_value) = Inr SelectedActionReplace" by code_simp
  from linux_reconcile_succeeds [OF o d listed this] show ?thesis by (simp add: applying_value_def)
qed

section \<open>Endpoint policies\<close>

definition sample_policy :: endpoint_policy where
  "sample_policy = \<lparr>ep_Role = ''home'', ep_Zone = ''z'', ep_Priority = 100, ep_Source = [], ep_StaticFile = [],
     ep_Command = [], ep_Routes = [\<lparr>er_Prefix = table_prefix, er_Gateway = Addr4 0x0a0000fe, er_IfIndex = 2, er_Metric = 0\<rparr>]\<rparr>"

text \<open>A stale route and rule of the policy, and a rule of another owner.\<close>

definition sample_kernel :: kernel_state where
  "sample_kernel =
     \<lparr>ks_Routes = [operation_zero\<lparr>op_Kind := ''route'', op_Family := FAMILY_V4, op_Prefix := ''10.0.0.9/32'',
        op_Table := endpointTable, op_IfIndex := 2, op_Metric := 1, op_Protocol := endpointRouteProtocol\<rparr>],
      ks_Rules = [operation_zero\<lparr>op_Kind := ''rule'', op_Family := FAMILY_V4, op_Prefix := ''10.0.0.9/32'',
          op_Table := endpointTable, op_Priority := 100\<rparr>,
        operation_zero\<lparr>op_Kind := ''rule'', op_Family := FAMILY_V4, op_Prefix := ''10.0.0.7/32'',
          op_Table := endpointTable, op_Priority := 200\<rparr>]\<rparr>"

definition sample_plan :: "operation list" where
  "sample_plan = projr (endpointPolicyPlan sample_kernel sample_policy False)"

lemma sample_plan: "endpointPolicyPlan sample_kernel sample_policy False = Inr sample_plan"
proof -
  have "\<not> isl (endpointPolicyPlan sample_kernel sample_policy False)" by code_simp
  then show ?thesis by (simp add: sample_plan_def)
qed

text \<open>The endpoint planner converges. Once the operations of a plan are carried out, a new plan for
  the same policy is empty: every desired route, rule and sentinel is there, and no rule or route
  of the policy is stale.\<close>

lemma endpoint_plan_converges:
  assumes "endpointPolicyPlan k p False = Inr ops" and "readable p"
  shows "endpointPolicyPlan (foldl obey k ops) p False = Inr []"
  using assms by (rule plan_converges)

lemma endpoint_plan_converges_witness:
  "length sample_plan = 6 \<and> endpointPolicyPlan (foldl obey sample_kernel sample_plan) sample_policy False = Inr []"
proof -
  have "length sample_plan = 6" unfolding sample_plan_def by code_simp
  moreover have "readable sample_policy" unfolding readable_def by code_simp
  ultimately show ?thesis using endpoint_plan_converges [OF sample_plan] by blast
qed

text \<open>Policies of different roles do not disturb each other. Every operation of a plan, of a
  reconciliation or of a removal, stays in the endpoint table; it adds and deletes rules of the
  policy's own priority only; and it deletes no route of a host that a rule of another priority
  still refers to.\<close>

lemma endpoint_plan_spares_others:
  assumes "endpointPolicyPlan k p remove = Inr ops" and "op \<in> set ops"
  shows "op_Table op = endpointTable \<and> (is_rule_op op \<longrightarrow> op_Priority op = ep_Priority p) \<and>
     (op_Kind op = ''delete-route'' \<longrightarrow>
        (\<forall>rule \<in> set (ks_Rules k). op_Table rule = endpointTable \<and> op_Priority rule \<noteq> ep_Priority p \<longrightarrow>
           host_prefix_of op = None \<or> host_prefix_of rule \<noteq> host_prefix_of op))"
  using plan_spares [OF assms] by (simp add: spares_def)

lemma endpoint_plan_spares_others_witness:
  "\<exists>op \<in> set sample_plan. op_Kind op = ''delete-rule'' \<and> op_Priority op = 100"
proof -
  have "list_ex (\<lambda>op. op_Kind op = ''delete-rule'') sample_plan" unfolding sample_plan_def by code_simp
  then obtain op where op: "op \<in> set sample_plan" "op_Kind op = ''delete-rule''" by (auto simp: list_ex_iff)
  with endpoint_plan_spares_others [OF sample_plan op(1)] show ?thesis
    by (auto simp: is_rule_op_def sample_policy_def)
qed

end
