(* ===== verification/Selected_Operations.thy ===== *)
theory Selected_Operations
  imports Selected_Manager
begin

text \<open>
  The public operations of the selected-route manager (\<^verbatim>\<open>control/selected_routes.go\<close>,
  \<^verbatim>\<open>selected_transactions.go\<close>, \<^verbatim>\<open>leshy_routes_api.go\<close>): the admission pipeline of an
  intent, forgetting and flushing, freezing and reopening a role, restoring its routes and
  the start-up from checkpoints.
\<close>

section \<open>Intents\<close>

datatype leshy_source = LeshyRouteDNS | LeshyRouteStatic | LeshyOther string

record leshy_intent =
  li_Zone :: string
  li_Prefix :: string
  li_Source :: leshy_source

record leshy_result =
  lr_Role :: string
  lr_Zone :: string
  lr_Prefix :: string
  lr_Family :: int
  lr_Generation :: u64
  lr_State :: string
  lr_Reason :: string

fun leshyRouteFamily :: "string \<Rightarrow> int" where
  "leshyRouteFamily [] = 0"
| "leshyRouteFamily (c # cs) =
     (if c = CHR '':'' then 6 else if c = CHR ''.'' then 4 else leshyRouteFamily cs)"

definition canonicalIntentPrefix :: "leshy_intent \<Rightarrow> goerror + netprefix" where
  "canonicalIntentPrefix intent =
     (case ParsePrefix (li_Prefix intent) of
        None \<Rightarrow> Inl (Errorf ''prefix %q does not parse'')
      | Some prefix \<Rightarrow>
          if prefix \<noteq> prefix_Masked prefix then Inl (Errorf ''prefix %q is not canonical'')
          else if addr_Is4In6 (prefix_Addr prefix) then Inl (Errorf ''mapped IPv6 prefix %q is rejected'')
          else (case li_Source intent of
                  LeshyRouteDNS \<Rightarrow>
                    if \<not> IsHostPrefix prefix then Inl (Errorf ''DNS intents require a host prefix, got %q'')
                    else Inr prefix
                | LeshyRouteStatic \<Rightarrow> Inr prefix
                | LeshyOther s \<Rightarrow> Inl (Errorf ''unknown route source %q'')))"

section \<open>Ensure\<close>

definition beginFlight :: "selected_role_state \<Rightarrow> selected_role_state" where
  "beginFlight s =
     s\<lparr>rl_inFlightZero := (if rl_inFlight s = 0 then Some False else rl_inFlightZero s),
       rl_inFlight := rl_inFlight s + 1\<rparr>"

definition endFlight :: "selected_role_state \<Rightarrow> selected_role_state" where
  "endFlight s =
     s\<lparr>rl_inFlight := rl_inFlight s - 1,
       rl_inFlightZero := (if rl_inFlight s - 1 = 0 then Some True else rl_inFlightZero s)\<rparr>"

definition managedSelected :: "'k manager_env \<Rightarrow> string \<Rightarrow> bool" where
  "managedSelected env role = (map_of (se_Managed env) role = Some True)"

text \<open>The reason a family that is not ready is refused; Leshy matches its head.\<close>

definition family_reason :: "int \<Rightarrow> validation_result \<Rightarrow> string" where
  "family_reason family v =
     (let specific = (if family = 6 then fr_Reason (rf_IPv6 (vr_Families v)) else fr_Reason (rf_IPv4 (vr_Families v)))
      in ''family '' @ show_dec family @ '' is not ready for this role'' @
         (if specific \<noteq> [] then '': '' @ specific else []))"

definition family_ready :: "int \<Rightarrow> validation_result \<Rightarrow> bool" where
  "family_ready family v =
     (if family = 4 then fr_Ready (rf_IPv4 (vr_Families v)) else fr_Ready (rf_IPv6 (vr_Families v)))"

definition dns_used :: "string \<Rightarrow> netprefix \<Rightarrow> 'k selected_manager \<Rightarrow> int" where
  "dns_used role prefix m =
     int (length (filter (\<lambda>e. sr_Source e = SelectedDNS \<and> sr_Prefix e \<noteq> prefix)
       (registry_Snapshot role (sm_Registry m))))"

text \<open>The admission checks (3) to (7) and the capacity bound: the reason of a denial, with a
  flag when the family is what is not ready, or the product role to apply for.\<close>

definition admission ::
  "'k manager_env \<Rightarrow> leshy_intent \<Rightarrow> string \<Rightarrow> netprefix \<Rightarrow> int \<Rightarrow> 'k selected_manager \<Rightarrow>
     (string \<times> bool) + role_runtime" where
  "admission env intent role prefix family m =
     (if rl_frozen (roleState role m) then Inl (''role selected-route state is frozen for recovery'', False)
      else case se_RoleRuntime env role of
             None \<Rightarrow> Inl (''role is not configured in the product state'', False)
           | Some runtime \<Rightarrow>
               if \<not> rr_Desired runtime then Inl (''role is not desired'', False)
               else if \<not> vr_Healthy (rr_Validation runtime) then
                 Inl (if vr_Reason (rr_Validation runtime) = [] then ''current validation is not healthy''
                      else vr_Reason (rr_Validation runtime), False)
               else if \<not> family_ready family (rr_Validation runtime) then
                 Inl (family_reason family (rr_Validation runtime), True)
               else if ts_IfIndex (rr_Toad runtime) \<le> 0 then
                 Inl (''the current Toad snapshot has no managed interface'', False)
               else if li_Source intent = LeshyRouteDNS \<and> se_Capacity env \<le> dns_used role prefix m then
                 Inl (''selected-route capacity %d reached for this role'', False)
               else Inr runtime)"

definition intent_result :: "string \<Rightarrow> leshy_intent \<Rightarrow> string \<Rightarrow> int \<Rightarrow> string \<Rightarrow> leshy_result" where
  "intent_result role intent prefix family st =
     \<lparr>lr_Role = role, lr_Zone = li_Zone intent, lr_Prefix = prefix, lr_Family = family, lr_Generation = 0,
      lr_State = st, lr_Reason = []\<rparr>"

text \<open>The verdict of an admitted intent, after the transaction.\<close>

definition ensure_apply ::
  "'k manager_env \<Rightarrow> leshy_intent \<Rightarrow> string \<Rightarrow> netprefix \<Rightarrow> role_runtime \<Rightarrow> leshy_result \<Rightarrow> 'k selected_manager \<Rightarrow>
     (leshy_result \<times> goerror option) \<times> 'k selected_manager" where
  "ensure_apply env intent role prefix runtime result m0 =
     (let m1 = update_role role beginFlight m0;
          generation = rl_routeGeneration (roleState role m1);
          source = (if li_Source intent = LeshyRouteStatic then SelectedStatic else SelectedDNS)
      in case applySelectedRouteCanonical env role (li_Zone intent) prefix source
                (ts_IfIndex (rr_Toad runtime)) (ts_InterfaceName (rr_Toad runtime)) generation
                (rr_ToadGeneration runtime) m1 of
           (Inl e, m2) \<Rightarrow>
             ((result\<lparr>lr_Generation := generation\<rparr>, Some e), update_role role endFlight m2)
         | (Inr fastPath, m2) \<Rightarrow>
             (if fastPath then
                ((result\<lparr>lr_Generation := generation, lr_State := ''already-applied''\<rparr>, None),
                 update_role role endFlight (update_role role (\<lambda>s. s\<lparr>rl_duplicateHits := rl_duplicateHits s + 1\<rparr>) m2))
              else
                ((result\<lparr>lr_Generation := generation, lr_State := ''applied''\<rparr>, None),
                 update_role role endFlight (update_role role (\<lambda>s. s\<lparr>rl_kernelMutations := rl_kernelMutations s + 1\<rparr>) m2))))"

definition ensure_intent ::
  "'k manager_env \<Rightarrow> leshy_intent \<Rightarrow> 'k selected_manager \<Rightarrow> (leshy_result \<times> goerror option) \<times> 'k selected_manager" where
  "ensure_intent env intent m =
     (case (case map_of (se_ZoneRoles env) (li_Zone intent) of None \<Rightarrow> [] | Some rs \<Rightarrow> rs) of
        [role] \<Rightarrow>
          (case canonicalIntentPrefix intent of
             Inl e \<Rightarrow>
               ((intent_result [] intent (li_Prefix intent) 0 ''denied'',
                 Some (SelectedRouteDeniedError [] (li_Zone intent) (li_Prefix intent) (error_text e))), m)
           | Inr prefix \<Rightarrow>
               (let family = (if addr_Is4 (prefix_Addr prefix) then 4 else 6);
                    result = intent_result role intent (prefix_String prefix) family [];
                    denied = (\<lambda>reason. SelectedRouteDeniedError role (li_Zone intent) (prefix_String prefix) reason)
                in if managedSelected env role \<and> \<not> sm_AuthorityReady m then
                     ((result, Some (denied (if se_AuthorityError env = [] then ''route authority is initializing''
                                             else se_AuthorityError env))), m)
                   else
                     let m1 = update_role role (\<lambda>s. s\<lparr>rl_ensures := rl_ensures s + 1\<rparr>) m
                     in case admission env intent role prefix family m1 of
                          Inl (reason, familyNotReady) \<Rightarrow>
                            ((if familyNotReady then result\<lparr>lr_Reason := reason\<rparr> else result,
                              Some (denied reason)), m1)
                        | Inr runtime \<Rightarrow> ensure_apply env intent role prefix runtime result m1))
      | candidates \<Rightarrow>
          ((intent_result [] intent (li_Prefix intent) 0 ''denied'',
            Some (SelectedRouteDeniedError [] (li_Zone intent) (li_Prefix intent) ''zone maps to %d configured roles'')), m))"

definition countRoleStat ::
  "string \<Rightarrow> (selected_role_state \<Rightarrow> selected_role_state) \<Rightarrow> 'k selected_manager \<Rightarrow> 'k selected_manager" where
  "countRoleStat role f m = (if role = [] then m else update_role role f m)"

definition Ensure ::
  "'k manager_env \<Rightarrow> leshy_intent \<Rightarrow> 'k selected_manager \<Rightarrow> (leshy_result \<times> goerror option) \<times> 'k selected_manager" where
  "Ensure env intent m =
     (case ensure_intent env intent m of
        ((result, None), m') \<Rightarrow> ((result, None), m')
      | ((result, Some err), m') \<Rightarrow>
          if isConflictErr err then
            ((result\<lparr>lr_State := ''conflict''\<rparr>, Some err),
             countRoleStat (lr_Role result) (\<lambda>s. s\<lparr>rl_conflicts := rl_conflicts s + 1\<rparr>) m')
          else if isDeniedErr err then
            ((result\<lparr>lr_State := ''denied''\<rparr>, Some err),
             countRoleStat (lr_Role result)
               (\<lambda>s. s\<lparr>rl_denials := rl_denials s + 1,
                      rl_capacityDenials := (if strings_Contains (error_text err) ''capacity''
                                             then rl_capacityDenials s + 1 else rl_capacityDenials s)\<rparr>) m')
          else ((result, Some err), m'))"

section \<open>Forget and flush\<close>

definition zone_role :: "'k manager_env \<Rightarrow> string \<Rightarrow> string option" where
  "zone_role env zone =
     (case map_of (se_ZoneRoles env) zone of Some [role] \<Rightarrow> Some role | _ \<Rightarrow> None)"

definition Forget :: "'k manager_env \<Rightarrow> leshy_intent \<Rightarrow> ('k selected_manager, unit) tx" where
  "Forget env intent m =
     (case canonicalIntentPrefix intent of
        Inl e \<Rightarrow> (Inl (SelectedRouteDeniedError [] (li_Zone intent) (li_Prefix intent) (error_text e)), m)
      | Inr prefix \<Rightarrow>
          (case zone_role env (li_Zone intent) of
             None \<Rightarrow> (Inl (SelectedRouteDeniedError [] (li_Zone intent) (prefix_String prefix)
                             ''zone maps to %d configured roles''), m)
           | Some role \<Rightarrow>
               (let m1 = update_role role (beginFlight \<circ> (\<lambda>s. s\<lparr>rl_forgets := rl_forgets s + 1\<rparr>)) m
                in case retireRecordLocked env role prefix m1 of
                     (r, m2) \<Rightarrow> (r, update_role role endFlight m2))))"

text \<open>The flush keeps going after a failure and reports the first one.\<close>

fun flush_entries ::
  "'k manager_env \<Rightarrow> string \<Rightarrow> string \<Rightarrow> route_record list \<Rightarrow> goerror option \<Rightarrow> 'k selected_manager \<Rightarrow>
     goerror option \<times> 'k selected_manager" where
  "flush_entries env role zone [] firstErr m = (firstErr, m)"
| "flush_entries env role zone (e # es) firstErr m =
     (if sr_Zone e \<noteq> zone then flush_entries env role zone es firstErr m
      else case retireRecordLocked env role (sr_Prefix e) m of
             (Inl err, m') \<Rightarrow> flush_entries env role zone es (if firstErr = None then Some err else firstErr) m'
           | (Inr _, m') \<Rightarrow> flush_entries env role zone es firstErr m')"

definition FlushZone :: "'k manager_env \<Rightarrow> string \<Rightarrow> 'k selected_manager \<Rightarrow> goerror option \<times> 'k selected_manager" where
  "FlushZone env zone m =
     (case zone_role env zone of
        None \<Rightarrow> (Some (SelectedRouteDeniedError [] zone [] ''zone maps to %d configured roles''), m)
      | Some role \<Rightarrow>
          (let m1 = update_role role beginFlight m;
               generation = rl_routeGeneration (roleState role m1)
           in case flush_entries env role zone (registry_Snapshot role (sm_Registry m1)) None m1 of
                (firstErr, m2) \<Rightarrow>
                  (case writeCheckpoint env role generation m2 of
                     (Inl e, m3) \<Rightarrow> (if firstErr = None then Some e else firstErr, update_role role endFlight m3)
                   | (Inr _, m3) \<Rightarrow> (firstErr, update_role role endFlight m3))))"

section \<open>Freeze, unfreeze, restore\<close>

text \<open>An open zero-in-flight signal is waited on; \<open>ctxErr\<close> is the error of the context when it
  ends before the signal closes.\<close>

definition Freeze :: "goerror \<Rightarrow> string \<Rightarrow> ('k selected_manager, route_record list \<times> u64) tx" where
  "Freeze ctxErr role m =
     (let m1 = update_role role (\<lambda>s. s\<lparr>rl_frozen := True\<rparr>) m
      in if rl_inFlightZero (roleState role m1) = Some False then (Inl ctxErr, m1)
         else (Inr (registry_Snapshot role (sm_Registry m1), rl_routeGeneration (roleState role m1)), m1))"

definition Unfreeze :: "string \<Rightarrow> 'k selected_manager \<Rightarrow> u64 \<times> 'k selected_manager" where
  "Unfreeze role m =
     (let m1 = update_role role (\<lambda>s. s\<lparr>rl_frozen := False, rl_routeGeneration := rl_routeGeneration s + 1\<rparr>) m
      in (rl_routeGeneration (roleState role m1), m1))"

definition restore_skips :: "int \<Rightarrow> bool \<Rightarrow> bool \<Rightarrow> route_record \<Rightarrow> bool" where
  "restore_skips ifIndex v4Ready v6Ready e =
     (sr_Source e = SelectedDNS \<and> \<not> IsHostPrefix (sr_Prefix e) \<or>
      sr_State e = SelectedRetiring \<or>
      (addr_Is4 (prefix_Addr (sr_Prefix e)) \<and> \<not> v4Ready) \<or>
      (\<not> addr_Is4 (prefix_Addr (sr_Prefix e)) \<and> \<not> v6Ready) \<or>
      sr_State e = SelectedActive \<and> sr_Owned e = Some (sr_Desired e) \<and> si_IfIndex (sr_Desired e) = ifIndex)"

definition restore_entry ::
  "'k manager_env \<Rightarrow> 'k route_manager \<Rightarrow> string \<Rightarrow> role_runtime \<Rightarrow> bool \<Rightarrow> bool \<Rightarrow> route_record \<Rightarrow>
     ('k selected_manager, unit) tx" where
  "restore_entry env rm role runtime v4Ready v6Ready e =
     (if restore_skips (ts_IfIndex (rr_Toad runtime)) v4Ready v6Ready e then returnT ()
      else
        bindT (on_kernel (rm_NormalizeSelectedRoute rm
                 \<lparr>sd_Role = role, sd_Prefix = sr_Prefix e, sd_IfIndex = ts_IfIndex (rr_Toad runtime), sd_Gateway = AddrZero\<rparr>)) (\<lambda>identity.
        bindT (\<lambda>m. on_registry (Reserve role (sr_Zone e) (sr_Prefix e) (sr_Source e) (rr_ToadGeneration runtime)
                     (routeGenerationLocked role m) (ts_InterfaceName (rr_Toad runtime)) identity) m) (\<lambda>_.
        bindT (reconcileRecordLocked env role (sr_Prefix e)) (\<lambda>_. returnT ()))))"

definition Restore :: "'k manager_env \<Rightarrow> string \<Rightarrow> bool \<Rightarrow> bool \<Rightarrow> ('k selected_manager, unit) tx" where
  "Restore env role v4Ready v6Ready =
     (case se_Routes env of
        None \<Rightarrow> throwT noWriter
      | Some rm \<Rightarrow>
          (case se_RoleRuntime env role of
             None \<Rightarrow> throwT (Errorf ''role %q is not configured in the product state'')
           | Some runtime \<Rightarrow>
               bindT (putT (update_role role (\<lambda>s. s\<lparr>rl_restores := rl_restores s + 1\<rparr>))) (\<lambda>_.
               bindT (requireT (0 < ts_IfIndex (rr_Toad runtime))
                        (Errorf ''role %q has no managed interface to restore onto'')) (\<lambda>_.
               bindT (getT (\<lambda>m. registry_Snapshot role (sm_Registry m))) (\<lambda>entries.
               bindT (eachT (restore_entry env rm role runtime v4Ready v6Ready) entries) (\<lambda>_.
               checkpointNow env role))))))"

section \<open>Legacy-shaped parking\<close>

definition managed_park :: park_identity where
  "managed_park = \<lparr>pi_Kind = SelectedParkUnreachable, pi_Table = ManagedSelectedRouteTable, pi_IfIndex = 0,
     pi_NextHop = [], pi_Protocol = selectedRouteProtocol, pi_Metric = ManagedParkMetric, pi_Scope = 0,
     pi_InterfaceLuid = 0\<rparr>"

definition mark_parked_one :: "'k manager_env \<Rightarrow> string \<Rightarrow> netprefix \<Rightarrow> ('k selected_manager, unit) tx" where
  "mark_parked_one env role prefix =
     bindT (on_registry (ReservePark role prefix managed_park False)) (\<lambda>_.
     bindT (checkpointNow env role) (\<lambda>_.
     bindT (on_registry (MarkParkApplying role prefix)) (\<lambda>_.
     bindT (checkpointNow env role) (\<lambda>_.
     bindT (case se_Routes env of
              None \<Rightarrow> returnT ()
            | Some rm \<Rightarrow>
                (case rm_Executor rm of
                   None \<Rightarrow> throwT (Errorf ''this platform has no parking writer'')
                 | Some ex \<Rightarrow>
                     on_kernel (\<lambda>k. case ex_Apply ex
                       \<lparr>tr_ID = 0, tr_Role = role, tr_Operations =
                          [operation_zero\<lparr>op_Kind := ''park'', op_Prefix := prefix_String prefix,
                             op_Table := ManagedSelectedRouteTable, op_Metric := ManagedParkMetric,
                             op_Protocol := selectedRouteProtocol\<rparr>]\<rparr> k of
                         (Some e, k') \<Rightarrow> (Inl e, k') | (None, k') \<Rightarrow> (Inr (), k')))) (\<lambda>_.
     bindT (on_registry (MarkParkActive role prefix managed_park)) (\<lambda>_.
     checkpointNow env role))))))"

definition MarkParked :: "'k manager_env \<Rightarrow> string \<Rightarrow> netprefix list \<Rightarrow> ('k selected_manager, unit) tx" where
  "MarkParked env role prefixes = eachT (mark_parked_one env role) prefixes"

section \<open>Start-up\<close>

text \<open>One role of \<^verbatim>\<open>restoreManagedCheckpoints\<close>; \<open>file\<close> is what
  \<^verbatim>\<open>ReadSelectedRoutesCheckpoint\<close> returned for it.\<close>

definition restore_managed_role ::
  "'k manager_env \<Rightarrow> string \<Rightarrow> (goerror + selected_checkpoint) \<Rightarrow> ('k selected_manager, unit) tx" where
  "restore_managed_role env role file m =
     (if se_StateDir env role = None \<or> se_StateDir env role = Some [] then (Inr (), m)
      else case file of
             Inl e \<Rightarrow>
               if errorsIs e ErrNotExist then (Inr (), m)
               else (Inl (Wrapf ''managed checkpoint %s for role %q: %w'' e), m)
           | Inr c \<Rightarrow>
               if ck_Platform c \<noteq> RuntimeCheckpointPlatform (se_Windows env)
                 then (Inl (Errorf ''managed checkpoint %s platform %q does not match this runtime''), m)
               else case on_registry (RestoreRole c) m of
                      (Inl e, m') \<Rightarrow> (Inl (Wrapf ''restore managed checkpoint %s for role %q: %w'' e), m')
                    | (Inr _, m') \<Rightarrow>
                        (Inr (), update_role role (\<lambda>s.
                           let seeded = ck_RouteGeneration c + 1;
                               s1 = (if rl_routeGeneration s < seeded then s\<lparr>rl_routeGeneration := seeded\<rparr> else s);
                               s2 = (if ck_Entries c \<noteq> None \<and> ck_Entries c \<noteq> Some []
                                     then s1\<lparr>rl_frozen := True, rl_restorePending := True\<rparr> else s1)
                           in s2\<lparr>rl_verification := []\<rparr>) m'))"

definition startup_complete :: "selected_role_state \<Rightarrow> route_record \<Rightarrow> bool" where
  "startup_complete state e =
     (sr_State e = SelectedActive \<and> sr_Owned e = Some (sr_Desired e) \<and> sr_Park e = None \<and>
      (case map_of (rl_verification state) (sr_Prefix e) of
         None \<Rightarrow> False
       | Some token \<Rightarrow> sv_Identity token = sr_Desired e \<and> sv_ToadGeneration token = sr_ToadGeneration e \<and>
                       sv_RouteGeneration token = rl_routeGeneration state))"

definition CompleteStartupRestore :: "string \<Rightarrow> 'k selected_manager \<Rightarrow> bool \<times> 'k selected_manager" where
  "CompleteStartupRestore role m =
     (case map_of (sm_Roles m) role of
        None \<Rightarrow> (False, m)
      | Some state \<Rightarrow>
          if list_all (startup_complete state) (registry_Snapshot role (sm_Registry m))
          then (True, update_role role (\<lambda>s. s\<lparr>rl_frozen := False, rl_restorePending := False\<rparr>) m)
          else (False, m))"

section \<open>Diagnostics\<close>

record selected_stats =
  st_Registered :: int
  st_Active :: int
  st_Parked :: int
  st_Retiring :: int
  st_DriftRepairs :: u64
  st_ParkPending :: int
  st_ParkApplying :: int
  st_ParkActive :: int
  st_ParkRetiring :: int
  st_Ensures :: u64
  st_DuplicateHits :: u64
  st_KernelMutations :: u64
  st_Denials :: u64
  st_Conflicts :: u64
  st_CapacityDenials :: u64
  st_Forgets :: u64
  st_Restores :: u64

definition park_count :: "selected_park_state \<Rightarrow> string \<Rightarrow> 'k selected_manager \<Rightarrow> int" where
  "park_count ps role m =
     int (length (filter (\<lambda>e. map_option sk_State (sr_Park (read_record e m)) = Some ps)
       (registry_Snapshot role (sm_Registry m))))"

text \<open>The counters stay zero for a role with no state yet; \<open>Parked\<close> is never counted.\<close>

definition Diagnostics :: "string \<Rightarrow> 'k selected_manager \<Rightarrow> selected_stats" where
  "Diagnostics role m =
     (let es = registry_Snapshot role (sm_Registry m);
          counter = (\<lambda>f. case map_of (sm_Roles m) role of None \<Rightarrow> 0 | Some s \<Rightarrow> f s)
      in \<lparr>st_Registered = int (length es),
          st_Active = int (length (filter (\<lambda>e. sr_State e = SelectedActive) es)),
          st_Parked = 0,
          st_Retiring = int (length (filter (\<lambda>e. sr_State e = SelectedRetiring) es)),
          st_DriftRepairs = counter (\<lambda>_. sm_DriftRepairs m),
          st_ParkPending = park_count SelectedParkPending role m,
          st_ParkApplying = park_count SelectedParkApplying role m,
          st_ParkActive = park_count SelectedParkActive role m,
          st_ParkRetiring = park_count SelectedParkRetiring role m,
          st_Ensures = counter rl_ensures,
          st_DuplicateHits = counter rl_duplicateHits,
          st_KernelMutations = counter rl_kernelMutations,
          st_Denials = counter rl_denials,
          st_Conflicts = counter rl_conflicts,
          st_CapacityDenials = counter rl_capacityDenials,
          st_Forgets = counter rl_forgets,
          st_Restores = counter rl_restores\<rparr>)"

end
