(* ===== verification/Selected_Parking.thy ===== *)
theory Selected_Parking
  imports Selected_Operations Parking
begin

text \<open>
  Managed parking, withdrawal and restoration (\<^verbatim>\<open>control/selected_parking.go\<close>): every
  registered destination of a frozen role is covered by a proven park before its route is
  withdrawn, and a park is retired only once the restored route is proven to win.
\<close>

section \<open>The parking view\<close>

definition park_proven :: "route_value \<Rightarrow> bool" where
  "park_proven v =
     (case sr_Park v of
        None \<Rightarrow> False
      | Some k \<Rightarrow> sk_State k = SelectedParkActive \<and> sk_Owned k = Some (sk_Desired k))"

definition park_listed :: "route_value \<Rightarrow> bool" where
  "park_listed v =
     (case sr_Park v of
        None \<Rightarrow> False
      | Some k \<Rightarrow> sk_Owned k \<noteq> None \<and> (sk_State k = SelectedParkActive \<or> sk_State k = SelectedParkRetiring))"

definition parkingState :: "route_value list \<Rightarrow> parking_state" where
  "parkingState entries =
     (let prefixes = map sr_Prefix (filter park_listed entries);
          allProven = (entries \<noteq> [] \<and> list_all (\<lambda>v. sr_State v = SelectedRetiring \<or> park_proven v) entries)
      in \<lparr>pk_Active = (allProven \<and> length prefixes = length entries), pk_Count = int (length prefixes),
          pk_Prefixes = prefixes\<rparr>)"

definition ParkingState :: "string \<Rightarrow> 'k selected_manager \<Rightarrow> parking_state" where
  "ParkingState role m = parkingState (map (\<lambda>e. read_record e m) (registry_Snapshot role (sm_Registry m)))"

section \<open>Park transactions\<close>

text \<open>\<^verbatim>\<open>applyParkTransaction\<close>. The record is the caller's; its park is read through the pointer
  when the platform is called, after the registry moved it to Applying.\<close>

definition applyParkTransaction ::
  "'k manager_env \<Rightarrow> 'k route_manager \<Rightarrow> string \<Rightarrow> netprefix \<Rightarrow> park_identity \<Rightarrow> route_record \<Rightarrow>
     ('k selected_manager, unit) tx" where
  "applyParkTransaction env rm role prefix parkDesired rec =
     bindT (on_registry (MarkParkApplying role prefix)) (\<lambda>_.
     bindT (checkpointNow env role) (\<lambda>_.
     bindT (runFailpoint env ''park.after_applying_checkpoint'' role prefix) (\<lambda>_.
     bindT (\<lambda>m. on_kernel (rm_ReconcileManagedPark rm role prefix (read_record rec m)) m) (\<lambda>result.
     bindT (runFailpoint env ''park.after_kernel_reconcile'' role prefix) (\<lambda>_.
     bindT (requireT (pr_Verified result = parkDesired)
              (Errorf ''park reconcile verified %v but the desired identity is %v'')) (\<lambda>_.
     bindT (on_registry (MarkParkActive role prefix (pr_Verified result))) (\<lambda>_.
     bindT (runFailpoint env ''park.after_mark_active'' role prefix) (\<lambda>_.
     bindT (checkpointNow env role) (\<lambda>_.
     runFailpoint env ''park.after_active_checkpoint'' role prefix)))))))))"

definition need_record :: "string \<Rightarrow> netprefix \<Rightarrow> ('k selected_manager, route_record) tx" where
  "need_record role prefix =
     bindT (getT (registryEntry role prefix)) (\<lambda>e.
       case e of None \<Rightarrow> throwT (Errorf ''nil record'') | Some rec \<Rightarrow> returnT rec)"

definition preflight_park ::
  "'k route_manager \<Rightarrow> netprefix \<Rightarrow> park_identity \<Rightarrow> route_record \<Rightarrow> ('k selected_manager, unit) tx" where
  "preflight_park rm prefix parkDesired rec m =
     on_kernel (rm_PreflightManagedPark rm prefix parkDesired (read_record rec m)) m"

definition runParkTransaction ::
  "'k manager_env \<Rightarrow> 'k route_manager \<Rightarrow> string \<Rightarrow> netprefix \<Rightarrow> park_identity \<Rightarrow> bool \<Rightarrow>
     ('k selected_manager, unit) tx" where
  "runParkTransaction env rm role prefix parkDesired preflight =
     bindT (on_registry (ReservePark role prefix parkDesired False)) (\<lambda>_.
     bindT (checkpointNow env role) (\<lambda>_.
     bindT (runFailpoint env ''park.after_pending_checkpoint'' role prefix) (\<lambda>_.
     bindT (need_record role prefix) (\<lambda>rec.
     bindT (if preflight
            then bindT (preflight_park rm prefix parkDesired rec) (\<lambda>_.
                 runFailpoint env ''park.after_preflight'' role prefix)
            else returnT ()) (\<lambda>_.
     bindT (need_record role prefix) (\<lambda>latest.
     applyParkTransaction env rm role prefix parkDesired latest))))))"

definition resumeParkRetirement ::
  "'k manager_env \<Rightarrow> 'k route_manager \<Rightarrow> string \<Rightarrow> netprefix \<Rightarrow> selected_park \<Rightarrow> ('k selected_manager, unit) tx" where
  "resumeParkRetirement env rm role prefix park =
     bindT (on_kernel (rm_RemoveManagedPark rm role prefix park)) (\<lambda>_.
     bindT (runFailpoint env ''park.after_kernel_delete'' role prefix) (\<lambda>_.
     bindT (on_registry (ClearPark role prefix)) (\<lambda>_.
     checkpointNow env role)))"

text \<open>The re-reserve with a forced Pending that two branches of \<^verbatim>\<open>parkOne\<close> share.\<close>

definition force_pending ::
  "'k manager_env \<Rightarrow> string \<Rightarrow> netprefix \<Rightarrow> park_identity \<Rightarrow> ('k selected_manager, route_record) tx" where
  "force_pending env role prefix parkDesired =
     bindT (on_registry (ReservePark role prefix parkDesired True)) (\<lambda>_.
     bindT (checkpointNow env role) (\<lambda>_.
     need_record role prefix))"

definition parkOne ::
  "'k manager_env \<Rightarrow> 'k route_manager \<Rightarrow> string \<Rightarrow> route_record \<Rightarrow> ('k selected_manager, unit) tx" where
  "parkOne env rm role entry =
     (let prefix = sr_Prefix entry
      in bindT (on_kernel (rm_NormalizeManagedPark rm prefix)) (\<lambda>parkDesired.
         bindT (getT (\<lambda>m. sr_Park (read_record entry m))) (\<lambda>park.
         case park of
           None \<Rightarrow> runParkTransaction env rm role prefix parkDesired True
         | Some park \<Rightarrow>
             (case sk_State park of
                SelectedParkPending \<Rightarrow>
                  bindT (if sk_Desired park \<noteq> parkDesired then force_pending env role prefix parkDesired
                         else returnT entry) (\<lambda>current.
                  bindT (preflight_park rm prefix parkDesired current) (\<lambda>_.
                  applyParkTransaction env rm role prefix parkDesired current))
              | SelectedParkApplying \<Rightarrow> applyParkTransaction env rm role prefix parkDesired entry
              | SelectedParkActive \<Rightarrow>
                  bindT (case sk_Owned park of
                           None \<Rightarrow> returnT False
                         | Some owned \<Rightarrow>
                             if sk_Desired park = parkDesired then on_kernel (rm_ObserveManagedPark rm prefix owned)
                             else returnT False) (\<lambda>present.
                  if present then returnT ()
                  else
                    bindT (force_pending env role prefix parkDesired) (\<lambda>refreshed.
                    bindT (preflight_park rm prefix parkDesired refreshed) (\<lambda>_.
                    applyParkTransaction env rm role prefix parkDesired refreshed)))
              | SelectedParkRetiring \<Rightarrow>
                  bindT (resumeParkRetirement env rm role prefix park) (\<lambda>_.
                  runParkTransaction env rm role prefix parkDesired True)
              | ParkStateOther s \<Rightarrow> runParkTransaction env rm role prefix parkDesired False))))"

definition noParkWriter :: goerror where
  "noParkWriter = Errorf ''this platform has no managed-park writer''"

definition ParkRegistered :: "'k manager_env \<Rightarrow> string \<Rightarrow> ('k selected_manager, unit) tx" where
  "ParkRegistered env role =
     bindT (putT (touch_role role)) (\<lambda>_.
     bindT (getT (\<lambda>m. rl_frozen (roleState role m))) (\<lambda>frozen.
     bindT (requireT frozen (Errorf ''ParkRegistered for role %q requires a frozen role'')) (\<lambda>_.
     case se_Routes env of
       None \<Rightarrow> throwT noParkWriter
     | Some rm \<Rightarrow>
         bindT (getT (\<lambda>m. registry_Snapshot role (sm_Registry m))) (\<lambda>entries.
         eachT (\<lambda>entry. if sr_State entry = SelectedRetiring then returnT () else parkOne env rm role entry) entries))))"

section \<open>Withdrawal\<close>

text \<open>The validation pass: every record's proven park is observed.\<close>

definition withdraw_check :: "'k route_manager \<Rightarrow> route_record \<Rightarrow> ('k selected_manager, unit) tx" where
  "withdraw_check rm entry m =
     (case sr_Park (read_record entry m) of
        None \<Rightarrow> (Inl (Errorf ''withdraw %s: record %s has no exact Active park''), m)
      | Some park \<Rightarrow>
          if \<not> park_proven (read_record entry m)
            then (Inl (Errorf ''withdraw %s: record %s has no exact Active park''), m)
          else bindT (on_kernel (rm_ObserveManagedPark rm (sr_Prefix entry) (the (sk_Owned park)))) (\<lambda>present.
               requireT present (Errorf ''withdraw %s: the recorded park for %s is missing'')) m)"

definition withdraw_remove :: "'k route_manager \<Rightarrow> route_record \<Rightarrow> ('k selected_manager, unit) tx" where
  "withdraw_remove rm entry m = on_kernel (rm_RemoveSelectedRoute rm (read_record entry m)) m"

definition withdraw_verify :: "'k route_manager \<Rightarrow> netprefix \<times> park_identity \<Rightarrow> ('k selected_manager, unit) tx" where
  "withdraw_verify rm item =
     (case item of (prefix, park) \<Rightarrow>
        bindT (on_kernel (rm_ObserveManagedPark rm prefix park)) (\<lambda>present.
        requireT present (Errorf ''withdraw %s: the park for %s vanished during the withdrawal'')))"

definition WithdrawSelected :: "'k manager_env \<Rightarrow> string \<Rightarrow> ('k selected_manager, unit) tx" where
  "WithdrawSelected env role =
     bindT (putT (touch_role role)) (\<lambda>_.
     bindT (getT (\<lambda>m. rl_frozen (roleState role m))) (\<lambda>frozen.
     bindT (requireT frozen (Errorf ''WithdrawSelected for role %q requires a frozen role'')) (\<lambda>_.
     case se_Routes env of
       None \<Rightarrow> throwT noWriter
     | Some rm \<Rightarrow>
         bindT (getT (\<lambda>m. filter (\<lambda>e. sr_State e \<noteq> SelectedRetiring) (registry_Snapshot role (sm_Registry m)))) (\<lambda>plan.
         bindT (eachT (withdraw_check rm) plan) (\<lambda>_.
         bindT (getT (\<lambda>m. map (\<lambda>e. (sr_Prefix e, the (sk_Owned (the (sr_Park (read_record e m)))))) plan)) (\<lambda>parks.
         bindT (eachT (withdraw_remove rm) plan) (\<lambda>_.
         eachT (withdraw_verify rm) parks)))))))"

section \<open>Restoration\<close>

text \<open>The scan of the prefix rows before the unpark: an error, or whether the selected row is
  present.\<close>

fun unpark_scan :: "route_record \<Rightarrow> park_identity \<Rightarrow> kernel_row list \<Rightarrow> bool \<Rightarrow> goerror + bool" where
  "unpark_scan e owned [] present = Inr present"
| "unpark_scan e owned (row # rows) present =
     (if kr_Kind row = SelectedKernelForeign then Inl (Errorf ''unpark %s: foreign row %s'')
      else if kr_Kind row = SelectedKernelPark \<and> kr_Park row \<noteq> owned
        then Inl (Errorf ''unpark %s: unexpected park row %v'')
      else unpark_scan e owned rows (present \<or> SelectedRowMatchesIdentity row (sr_Desired e)))"

text \<open>The scan after the delete.\<close>

fun unparked_scan :: "route_record \<Rightarrow> park_identity \<Rightarrow> kernel_row list \<Rightarrow> bool \<Rightarrow> goerror + bool" where
  "unparked_scan e owned [] present = Inr present"
| "unparked_scan e owned (row # rows) present =
     (let present = (present \<or> SelectedRowMatchesIdentity row (sr_Desired e))
      in if kr_Kind row = SelectedKernelPark \<and> kr_Park row = owned
           then Inl (Errorf ''unpark %s: the persisted park identity is still present after the delete'')
         else unparked_scan e owned rows present)"

definition prefix_rows :: "netprefix \<Rightarrow> (netprefix, kernel_row list) gomap \<Rightarrow> kernel_row list" where
  "prefix_rows prefix rows = (case map_of rows prefix of None \<Rightarrow> [] | Some rs \<Rightarrow> rs)"

text \<open>The proof that a present park may go: no foreign row, the selected row present and winning.\<close>

definition prove_unpark ::
  "'k route_manager \<Rightarrow> route_record \<Rightarrow> park_identity \<Rightarrow> ('k selected_manager, unit) tx" where
  "prove_unpark rm entry owned =
     bindT (on_kernel (rm_SnapshotSelectedRoutes rm)) (\<lambda>rows.
     bindT (fromSum (unpark_scan entry owned (prefix_rows (sr_Prefix entry) rows) False)) (\<lambda>selectedPresent.
     bindT (requireT selectedPresent (Sentinel errParkNotProven)) (\<lambda>_.
     bindT (case rm_SelectedWinsOverPark rm of
              None \<Rightarrow> returnT (si_Metric (sr_Desired entry) < pi_Metric owned)
            | Some prover \<Rightarrow> on_kernel (prover (sr_Prefix entry) (sr_Desired entry) owned)) (\<lambda>wins.
     requireT wins (Wrapf ''unpark %s: %w (selected %d vs park %d)'' (Sentinel errRestorationNotWinning))))))"

definition retireProvenPark ::
  "'k manager_env \<Rightarrow> 'k route_manager \<Rightarrow> string \<Rightarrow> route_record \<Rightarrow> ('k selected_manager, unit) tx" where
  "retireProvenPark env rm role entry =
     (let prefix = sr_Prefix entry
      in bindT (requireT (sr_State entry = SelectedActive \<and> sr_Owned entry = Some (sr_Desired entry))
                  (Sentinel errParkNotProven)) (\<lambda>_.
         bindT (getT (\<lambda>m. sr_Park (read_record entry m))) (\<lambda>park.
         case park of
           None \<Rightarrow> throwT (Errorf ''nil park'')
         | Some park \<Rightarrow>
             (case sk_Owned park of
                None \<Rightarrow> throwT (Sentinel errParkNotProven)
              | Some owned \<Rightarrow>
                  bindT (requireT (owned = sk_Desired park) (Sentinel errParkNotProven)) (\<lambda>_.
                  bindT (on_kernel (rm_ObserveManagedPark rm prefix owned)) (\<lambda>present.
                  bindT (if present then prove_unpark rm entry owned else returnT ()) (\<lambda>_.
                  bindT (on_registry (MarkParkRetiring role prefix)) (\<lambda>_.
                  bindT (checkpointNow env role) (\<lambda>_.
                  bindT (runFailpoint env ''park.after_retiring_checkpoint'' role prefix) (\<lambda>_.
                  bindT (\<lambda>m. on_kernel (rm_RemoveManagedPark rm role prefix (the (sr_Park (read_record entry m)))) m) (\<lambda>_.
                  bindT (runFailpoint env ''park.after_kernel_delete'' role prefix) (\<lambda>_.
                  bindT (on_kernel (rm_SnapshotSelectedRoutes rm)) (\<lambda>after.
                  bindT (fromSum (unparked_scan entry owned (prefix_rows prefix after) False)) (\<lambda>selectedPresent.
                  bindT (requireT selectedPresent
                           (Errorf ''unpark %s: the exact selected identity vanished during the unpark'')) (\<lambda>_.
                  bindT (on_registry (ClearPark role prefix)) (\<lambda>_.
                  checkpointNow env role))))))))))))))))"

text \<open>An error \<^verbatim>\<open>errors.Is(err, errParkNotProven)\<close> keeps the park and lets the loop go on.\<close>

definition ignoreNotProven :: "('s, unit) tx \<Rightarrow> ('s, unit) tx" where
  "ignoreNotProven t s =
     (case t s of
        (Inl e, s') \<Rightarrow> if errorsIs e errParkNotProven then (Inr (), s') else (Inl e, s')
      | (Inr u, s') \<Rightarrow> (Inr u, s'))"

definition observe_entry ::
  "'k manager_env \<Rightarrow> 'k route_manager \<Rightarrow> string \<Rightarrow> route_record \<Rightarrow> ('k selected_manager, unit) tx" where
  "observe_entry env rm role entry m =
     (case sr_Park (read_record entry m) of
        None \<Rightarrow> (Inr (), m)
      | Some park \<Rightarrow>
          (case sk_State park of
             SelectedParkPending \<Rightarrow> (Inl (Sentinel ErrRoutesStillParked), m)
           | SelectedParkApplying \<Rightarrow> (Inl (Sentinel ErrRoutesStillParked), m)
           | SelectedParkActive \<Rightarrow> ignoreNotProven (retireProvenPark env rm role entry) m
           | SelectedParkRetiring \<Rightarrow> resumeParkRetirement env rm role (sr_Prefix entry) park m
           | ParkStateOther s \<Rightarrow> (Inr (), m)))"

definition ObserveRestoration :: "'k manager_env \<Rightarrow> string \<Rightarrow> ('k selected_manager, unit) tx" where
  "ObserveRestoration env role =
     (case se_Routes env of
        None \<Rightarrow> throwT noParkWriter
      | Some rm \<Rightarrow>
          bindT (putT (touch_role role)) (\<lambda>_.
          bindT (getT (\<lambda>m. registry_Snapshot role (sm_Registry m))) (\<lambda>entries.
          bindT (eachT (observe_entry env rm role) entries) (\<lambda>_.
          bindT (getT (\<lambda>m. list_all (\<lambda>e. sr_Park e = None) (registry_Snapshot role (sm_Registry m)))) (\<lambda>unparked.
          requireT unparked (Sentinel ErrRoutesStillParked))))))"

end
