(* ===== verification/Selected_Reconciler.thy ===== *)
theory Selected_Reconciler
  imports Selected_Parking
begin

text \<open>
  The selected-route reconciler (\<^verbatim>\<open>control/selected_route_reconciler.go\<close> and
  \<^verbatim>\<open>selected_reconcile_support.go\<close>): the safety audit over one stable snapshot, the debounced
  native events, the authority gate and the integrity quarantine. Requests for a managed
  recovery and diagnostics on the product surface are recorded in the order they are made.
\<close>

section \<open>State\<close>

record 'k reconciler =
  rq_Manager :: "'k selected_manager"
  rq_Processed :: u64
  rq_AuthorityError :: string
  rq_Requests :: "(string \<times> string) list"
  rq_Diagnostics :: "(string \<times> string) list"
  rq_AuditRunning :: bool
  rq_AuditSkipped :: u64
  rq_AuditFailures :: u64
  rq_ObserverErrors :: u64
  rq_Audits :: u64

definition on_manager :: "('k selected_manager, 'a) tx \<Rightarrow> ('k reconciler, 'a) tx" where
  "on_manager t r = (case t (rq_Manager r) of (x, m) \<Rightarrow> (x, r\<lparr>rq_Manager := m\<rparr>))"

definition modify_manager :: "('k selected_manager \<Rightarrow> 'k selected_manager) \<Rightarrow> 'k reconciler \<Rightarrow> 'k reconciler" where
  "modify_manager f r = r\<lparr>rq_Manager := f (rq_Manager r)\<rparr>"

definition request_recovery :: "string \<Rightarrow> string \<Rightarrow> 'k reconciler \<Rightarrow> 'k reconciler" where
  "request_recovery role reason r = r\<lparr>rq_Requests := rq_Requests r @ [(role, reason)]\<rparr>"

definition managedRoleNames :: "'k manager_env \<Rightarrow> string list" where
  "managedRoleNames env = map fst (filter (\<lambda>(role, on). on) (se_Managed env))"

section \<open>Quarantine\<close>

definition quarantine :: "goerror \<Rightarrow> selected_role_state \<Rightarrow> selected_role_state" where
  "quarantine err s =
     s\<lparr>rl_frozen := True, rl_integrityQuarantined := True, rl_integrityReason := error_text err, rl_verification := []\<rparr>"

definition failSelectedRouteIntegrity :: "string \<Rightarrow> goerror \<Rightarrow> 'k reconciler \<Rightarrow> 'k reconciler" where
  "failSelectedRouteIntegrity role err r =
     r\<lparr>rq_Manager := update_role role (quarantine err) (rq_Manager r),
       rq_Diagnostics := rq_Diagnostics r @ [(role, ''selected-route integrity: '' @ error_text err)]\<rparr>"

definition foreign_remains :: "string \<Rightarrow> (netprefix, kernel_row list) gomap \<Rightarrow> 'k selected_manager \<Rightarrow> bool" where
  "foreign_remains role rows m =
     list_ex (\<lambda>e. list_ex (\<lambda>row. kr_Kind row = SelectedKernelForeign) (prefix_rows (sr_Prefix e) rows))
       (registry_Snapshot role (sm_Registry m))"

definition retryQuarantinedRole :: "'k manager_env \<Rightarrow> string \<Rightarrow> ('k selected_manager, unit) tx" where
  "retryQuarantinedRole env role =
     bindT (putT (touch_role role)) (\<lambda>_.
     bindT (getT (\<lambda>m. rl_integrityQuarantined (roleState role m))) (\<lambda>quarantined.
     bindT (requireT quarantined (Errorf ''role %q is not quarantined'')) (\<lambda>_.
     case se_Routes env of
       None \<Rightarrow> throwT noWriter
     | Some rm \<Rightarrow>
         bindT (on_kernel (rm_SnapshotSelectedRoutes rm)) (\<lambda>snapshot.
         bindT (getT (foreign_remains role snapshot)) (\<lambda>remains.
         bindT (requireT (\<not> remains) (Errorf ''integrity conflict remains on %s: %s'')) (\<lambda>_.
         putT (update_role role (\<lambda>s. s\<lparr>rl_integrityQuarantined := False, rl_integrityReason := []\<rparr>))))))))"

section \<open>The audit of one record\<close>

definition audit_drift ::
  "'k manager_env \<Rightarrow> string \<Rightarrow> netprefix \<Rightarrow> ('k selected_manager, unit) tx" where
  "audit_drift env role prefix =
     bindT (on_registry (BeginRepair role prefix)) (\<lambda>_.
     bindT (checkpointNow env role) (\<lambda>_.
     bindT (runFailpoint env ''route.after_pending_checkpoint'' role prefix) (\<lambda>_.
     bindT (reconcileRecordLocked env role prefix) (\<lambda>_.
     putT (\<lambda>m. m\<lparr>sm_DriftRepairs := sm_DriftRepairs m + 1\<rparr>)))))"

text \<open>The branches of \<^verbatim>\<open>auditRecord\<close> after the planner accepted the rows.\<close>

definition audit_state ::
  "'k manager_env \<Rightarrow> string \<Rightarrow> route_record \<Rightarrow> kernel_row list \<Rightarrow> ('k selected_manager, unit) tx" where
  "audit_state env role entry rows =
     (case sr_State entry of
        SelectedRetiring \<Rightarrow> retireRecordLocked env role (sr_Prefix entry)
      | SelectedActive \<Rightarrow>
          if length rows = 1 \<and> SelectedRowMatchesIdentity (hd rows) (sr_Desired entry)
          then putT (mintVerificationToken role entry)
          else audit_drift env role (sr_Prefix entry)
      | StateOther s \<Rightarrow> returnT ()
      | _ \<Rightarrow> bindT (reconcileRecordLocked env role (sr_Prefix entry)) (\<lambda>_. returnT ()))"

definition auditRecord ::
  "'k manager_env \<Rightarrow> string \<Rightarrow> route_record \<Rightarrow> kernel_row list \<Rightarrow> ('k reconciler, unit) tx" where
  "auditRecord env role entry rows r =
     (let pending = rl_restorePending (roleState role (rq_Manager r))
      in if sr_Park entry \<noteq> None then
           (Inr (), if pending then request_recovery role ''resume checkpointed managed park transaction'' r else r)
         else if pending then (Inr (), request_recovery role ''resume restored managed ownership'' r)
         else case PlanSelectedRoute rows (Some (read_record entry (rq_Manager r))) of
                Inl e \<Rightarrow>
                  (let conflict = Wrapf ''foreign same-prefix row on %s: %w'' e
                   in (Inl conflict, failSelectedRouteIntegrity role conflict r))
              | Inr _ \<Rightarrow> on_manager (audit_state env role entry rows) r)"

section \<open>The audit\<close>

record stable_snapshot =
  ss_Rows :: "(netprefix, kernel_row list) gomap"
  ss_Sequence :: u64

definition currentSequence :: "'k manager_env \<Rightarrow> 'k reconciler \<Rightarrow> u64" where
  "currentSequence env r =
     (case se_Routes env of
        None \<Rightarrow> rq_Processed r
      | Some rm \<Rightarrow>
          (case rm_CurrentSelectedRouteSequence rm of
             None \<Rightarrow> rq_Processed r
           | Some seq \<Rightarrow> seq (sm_Kernel (rq_Manager r))))"

text \<open>The retry loop until the audit deadline; the first argument bounds the attempts that fit
  before it.\<close>

fun stableSnapshot :: "nat \<Rightarrow> 'k manager_env \<Rightarrow> 'k route_manager \<Rightarrow> ('k reconciler, stable_snapshot) tx" where
  "stableSnapshot 0 env rm r = (Inl (Errorf ''stable snapshot deadline exceeded''), r)"
| "stableSnapshot (Suc n) env rm r =
     (let before = currentSequence env r
      in case on_manager (on_kernel (rm_SnapshotSelectedRoutes rm)) r of
           (Inl e, r') \<Rightarrow> (Inl e, r')
         | (Inr rows, r') \<Rightarrow>
             if before = currentSequence env r'
             then (Inr \<lparr>ss_Rows = rows, ss_Sequence = currentSequence env r'\<rparr>, r')
             else stableSnapshot n env rm r')"

text \<open>One role's entries: the result tells whether every record was fresh and active.\<close>

fun audit_entries ::
  "'k manager_env \<Rightarrow> string \<Rightarrow> stable_snapshot \<Rightarrow> route_record list \<Rightarrow> bool \<Rightarrow> ('k reconciler, bool) tx" where
  "audit_entries env role snapshot [] complete r = (Inr complete, r)"
| "audit_entries env role snapshot (entry # entries) complete r =
     (case registryEntry role (sr_Prefix entry) (rq_Manager r) of
        None \<Rightarrow> audit_entries env role snapshot entries False r
      | Some current \<Rightarrow>
          if sr_State current \<noteq> sr_State entry \<or> sr_Desired current \<noteq> sr_Desired entry
          then audit_entries env role snapshot entries False r
          else case auditRecord env role current (prefix_rows (sr_Prefix entry) (ss_Rows snapshot)) r of
                 (Inl e, r') \<Rightarrow> (Inl e, r')
               | (Inr _, r') \<Rightarrow>
                   audit_entries env role snapshot entries (complete \<and> sr_State current = SelectedActive) r')"

definition audit_role :: "'k manager_env \<Rightarrow> stable_snapshot \<Rightarrow> string \<Rightarrow> ('k reconciler, unit) tx" where
  "audit_role env snapshot role r0 =
     (let r = modify_manager (touch_role role) r0;
          entries = registry_Snapshot role (sm_Registry (rq_Manager r))
      in case audit_entries env role snapshot entries (entries \<noteq> []) r of
           (Inl e, r') \<Rightarrow> (Inl e, r')
         | (Inr complete, r') \<Rightarrow>
             (Inr (), if rl_restorePending (roleState role (rq_Manager r')) \<and> complete
                      then modify_manager (\<lambda>m. snd (CompleteStartupRestore role m)) r' else r'))"

definition reconcileSnapshotChecked :: "'k manager_env \<Rightarrow> stable_snapshot \<Rightarrow> ('k reconciler, unit) tx" where
  "reconcileSnapshotChecked env snapshot = eachT (audit_role env snapshot) (managedRoleNames env)"

definition store_processed :: "u64 \<Rightarrow> 'k reconciler \<Rightarrow> 'k reconciler" where
  "store_processed sequence r = modify_manager (noteProcessedSequence sequence) (r\<lparr>rq_Processed := sequence\<rparr>)"

text \<open>The failure tail of \<^verbatim>\<open>audit\<close>: verification is cleared, the sequence stays.\<close>

definition audit_failed :: "goerror \<Rightarrow> 'k reconciler \<Rightarrow> (goerror + unit) \<times> 'k reconciler" where
  "audit_failed e r =
     (Inl e, modify_manager ClearAllVerification (r\<lparr>rq_AuditFailures := rq_AuditFailures r + 1, rq_AuditRunning := False\<rparr>))"

definition record_audit :: "bool \<Rightarrow> 'k reconciler \<Rightarrow> 'k reconciler" where
  "record_audit failed r =
     modify_manager (\<lambda>m. m\<lparr>sm_Audits := sm_Audits m + 1,
         sm_AuditFailures := (if failed then sm_AuditFailures m + 1 else sm_AuditFailures m)\<rparr>)
       (r\<lparr>rq_Audits := rq_Audits r + 1\<rparr>)"

definition audit :: "nat \<Rightarrow> 'k manager_env \<Rightarrow> ('k reconciler, unit) tx" where
  "audit attempts env r0 =
     (case se_Routes env of
        None \<Rightarrow> (Inr (), r0)
      | Some rm \<Rightarrow>
          if rq_AuditRunning r0 then
            (Inl (Errorf ''audit skipped: previous audit still running''),
             modify_manager (\<lambda>m. m\<lparr>sm_AuditSkippedBusy := sm_AuditSkippedBusy m + 1\<rparr>)
               (r0\<lparr>rq_AuditSkipped := rq_AuditSkipped r0 + 1\<rparr>))
          else
            case stableSnapshot attempts env rm (r0\<lparr>rq_AuditRunning := True\<rparr>) of
              (Inl e, r) \<Rightarrow> audit_failed e (record_audit True r)
            | (Inr snapshot, r) \<Rightarrow>
                (case reconcileSnapshotChecked env snapshot (record_audit False r) of
                   (Inl e, r') \<Rightarrow> audit_failed e r'
                 | (Inr _, r') \<Rightarrow> (Inr (), (store_processed (ss_Sequence snapshot) r')\<lparr>rq_AuditRunning := False\<rparr>)))"

section \<open>Events\<close>

definition maxU64 :: "u64 \<Rightarrow> u64 \<Rightarrow> u64" where
  "maxU64 a b = (if b < a then a else b)"

definition full_invalidation :: "u64 \<Rightarrow> route_invalidation" where
  "full_invalidation sequence =
     \<lparr>ri_Kind = SelectedInvalidateFull, ri_Prefix = prefix_zero, ri_IfIndex = 0, ri_Sequence = sequence\<rparr>"

definition mergeInvalidations :: "route_invalidation \<Rightarrow> route_invalidation \<Rightarrow> route_invalidation" where
  "mergeInvalidations a b =
     (let sequence = maxU64 (ri_Sequence a) (ri_Sequence b)
      in if ri_Kind a = SelectedInvalidateFull \<or> ri_Kind b = SelectedInvalidateFull then full_invalidation sequence
         else if ri_Kind a = SelectedInvalidatePrefix \<and> ri_Kind b = SelectedInvalidatePrefix \<and> ri_Prefix a = ri_Prefix b
           then \<lparr>ri_Kind = SelectedInvalidatePrefix, ri_Prefix = ri_Prefix a, ri_IfIndex = 0, ri_Sequence = sequence\<rparr>
         else if ri_Kind a = SelectedInvalidateInterface \<and> ri_Kind b = SelectedInvalidateInterface \<and> ri_IfIndex a = ri_IfIndex b
           then \<lparr>ri_Kind = SelectedInvalidateInterface, ri_Prefix = prefix_zero, ri_IfIndex = ri_IfIndex a, ri_Sequence = sequence\<rparr>
         else full_invalidation sequence)"

text \<open>One more event of the debounce window.\<close>

definition debounce_event :: "route_invalidation \<Rightarrow> route_invalidation \<Rightarrow> route_invalidation" where
  "debounce_event batch nxt =
     (if ri_Sequence nxt \<noteq> ri_Sequence batch + 1 \<and> ri_Sequence batch < ri_Sequence nxt
        then full_invalidation (ri_Sequence nxt)
      else
        mergeInvalidations
          (if ri_Sequence batch < ri_Sequence nxt then batch\<lparr>ri_Sequence := ri_Sequence nxt\<rparr> else batch) nxt)"

definition debounce :: "route_invalidation \<Rightarrow> route_invalidation list \<Rightarrow> route_invalidation" where
  "debounce first events = foldl debounce_event first events"

text \<open>One role of \<^verbatim>\<open>handlePrefixInvalidation\<close>: the error of its transaction, and whether the
  handler returns at once.\<close>

definition invalidate_prefix_role ::
  "'k manager_env \<Rightarrow> netprefix \<Rightarrow> string \<Rightarrow> 'k reconciler \<Rightarrow> (goerror option \<times> bool) \<times> 'k reconciler" where
  "invalidate_prefix_role env prefix role r0 =
     (let r = modify_manager (touch_role role) r0;
          s = roleState role (rq_Manager r)
      in case registryEntry role prefix (rq_Manager r) of
           None \<Rightarrow> ((None, False), r)
         | Some rec \<Rightarrow>
             if rl_restorePending s \<and> sr_Park rec \<noteq> None then
               ((None, True), request_recovery role ''prefix invalidation on a checkpointed managed park'' r)
             else if rl_integrityQuarantined s then ((None, False), r)
             else if rl_frozen s \<and> \<not> rl_restorePending s then ((None, False), r)
             else
               case on_manager
                 (case sr_State rec of
                    SelectedRetiring \<Rightarrow> retireRecordLocked env role prefix
                  | StateOther t \<Rightarrow> returnT ()
                  | _ \<Rightarrow> bindT (reconcileRecordLocked env role prefix) (\<lambda>_. returnT ())) r of
                 (Inl e, r') \<Rightarrow> ((Some e, False), r')
               | (Inr _, r') \<Rightarrow> ((None, False), r'))"

fun invalidate_prefix_roles ::
  "'k manager_env \<Rightarrow> netprefix \<Rightarrow> string list \<Rightarrow> goerror option \<Rightarrow> 'k reconciler \<Rightarrow> goerror option \<times> 'k reconciler" where
  "invalidate_prefix_roles env prefix [] firstErr r = (firstErr, r)"
| "invalidate_prefix_roles env prefix (role # roles) firstErr r =
     (case invalidate_prefix_role env prefix role r of
        ((e, stop), r') \<Rightarrow>
          if stop then (None, r')
          else invalidate_prefix_roles env prefix roles (if firstErr = None then e else firstErr) r')"

definition handlePrefixInvalidation ::
  "'k manager_env \<Rightarrow> netprefix \<Rightarrow> 'k reconciler \<Rightarrow> goerror option \<times> 'k reconciler" where
  "handlePrefixInvalidation env prefix r =
     invalidate_prefix_roles env prefix (managedRoleNames env) None
       (modify_manager (clearVerificationForPrefix prefix) r)"

definition handleInterfaceInvalidation :: "'k manager_env \<Rightarrow> int \<Rightarrow> 'k reconciler \<Rightarrow> 'k reconciler" where
  "handleInterfaceInvalidation env ifindex r0 =
     foldl (\<lambda>r role.
        if (case map_of (sm_Roles (rq_Manager r)) role of None \<Rightarrow> False | Some s \<Rightarrow> rl_integrityQuarantined s)
        then r else request_recovery role ''managed interface identity changed'' r)
       (modify_manager (clearVerificationForIfindex ifindex) r0) (managedRoleNames env)"

definition processBatch ::
  "nat \<Rightarrow> 'k manager_env \<Rightarrow> route_invalidation \<Rightarrow> 'k reconciler \<Rightarrow> goerror option \<times> 'k reconciler" where
  "processBatch attempts env batch r =
     (case (case ri_Kind batch of
              SelectedInvalidatePrefix \<Rightarrow> handlePrefixInvalidation env (ri_Prefix batch) r
            | SelectedInvalidateInterface \<Rightarrow> (None, handleInterfaceInvalidation env (ri_IfIndex batch) r)
            | SelectedInvalidateFull \<Rightarrow>
                (case audit attempts env (modify_manager ClearAllVerification r) of
                   (Inl e, r') \<Rightarrow> (Some e, r') | (Inr _, r') \<Rightarrow> (None, r'))) of
        (Some e, r') \<Rightarrow> (Some e, r')
      | (None, r') \<Rightarrow> (None, store_processed (ri_Sequence batch) r'))"

section \<open>The authority gate\<close>

definition openAuthorityGate :: "'k reconciler \<Rightarrow> 'k reconciler" where
  "openAuthorityGate r = modify_manager (\<lambda>m. m\<lparr>sm_AuthorityReady := True\<rparr>) (r\<lparr>rq_AuthorityError := []\<rparr>)"

definition closeAuthorityGate :: "string \<Rightarrow> 'k reconciler \<Rightarrow> 'k reconciler" where
  "closeAuthorityGate reason r = modify_manager (\<lambda>m. m\<lparr>sm_AuthorityReady := False\<rparr>) (r\<lparr>rq_AuthorityError := reason\<rparr>)"

text \<open>\<^verbatim>\<open>initialAuthorityProof\<close>, over the outcome of the subscription.\<close>

definition initialAuthorityProof ::
  "nat \<Rightarrow> 'k manager_env \<Rightarrow> ('k, unit) tx \<Rightarrow> ('k reconciler, unit) tx" where
  "initialAuthorityProof attempts env subscribe =
     (case se_Routes env of
        None \<Rightarrow> throwT (Errorf ''no selected-route writer'')
      | Some rm \<Rightarrow>
          bindT (mapErrT (Wrapf ''observer subscribe failed: %w'') (on_manager (on_kernel subscribe))) (\<lambda>_.
          bindT (mapErrT (Wrapf ''stable snapshot failed: %w'') (stableSnapshot attempts env rm)) (\<lambda>snapshot.
          bindT (mapErrT (Wrapf ''initial reconcile failed: %w'') (reconcileSnapshotChecked env snapshot)) (\<lambda>_.
          putT (\<lambda>r. openAuthorityGate (store_processed (ss_Sequence snapshot) r))))))"

text \<open>Observer loss: the gate closes before the replacement proof starts.\<close>

definition observerLost :: "'k reconciler \<Rightarrow> 'k reconciler" where
  "observerLost r =
     modify_manager (\<lambda>m. ClearAllVerification (m\<lparr>sm_ObserverErrors := sm_ObserverErrors m + 1\<rparr>))
       (closeAuthorityGate ''route observer lost / reinitializing'' (r\<lparr>rq_ObserverErrors := rq_ObserverErrors r + 1\<rparr>))"

end
