(* ===== verification/Manager_Facts.thy ===== *)
theory Manager_Facts
  imports Selected_Reconciler Registry_Runs
begin

text \<open>
  What the manager's transactions keep. The locale \<^verbatim>\<open>record_stable\<close> is the interface between a
  predicate on managers and the transactions of one record: whatever the registry operations
  of a key, the platform calls and the checkpoint writer keep, every transaction of that key
  keeps. It is used for the validity of records and checkpoints and for the frame of a
  transaction. Its base \<^verbatim>\<open>record_kept\<close> asks less of the role states and serves the
  predicates that read them.
\<close>

section \<open>Projections\<close>

lemma update_role_fields [simp]:
  "sm_Registry (update_role role f m) = sm_Registry m" "sm_Kernel (update_role role f m) = sm_Kernel m"
  "sm_Disk (update_role role f m) = sm_Disk m"
  by (simp_all add: update_role_def)

lemma touch_role_fields [simp]:
  "sm_Registry (touch_role role m) = sm_Registry m" "sm_Kernel (touch_role role m) = sm_Kernel m"
  "sm_Disk (touch_role role m) = sm_Disk m"
  by (simp_all add: touch_role_def)

lemma read_record_role [simp]:
  "read_record e (update_role role f m) = read_record e m" "read_record e (touch_role role m) = read_record e m"
  by (simp_all add: read_record_def)

lemma writeCheckpoint_registry [simp]: "sm_Registry (snd (writeCheckpoint env role g m)) = sm_Registry m"
  by (auto simp: writeCheckpoint_def Let_def split: option.splits prod.splits sum.splits)

lemma checkpointNow_registry [simp]: "sm_Registry (snd (checkpointNow env role m)) = sm_Registry m"
  by (simp add: checkpointNow_def)

lemmas tx_keeps = keepsT_bind keepsT_each keepsT_if keepsT_option keepsT_mapErr keepsT_return keepsT_throw
  keepsT_get keepsT_require keepsT_fromSum

lemma keeps_failpoint: "keepsT P (runFailpoint env point role prefix)"
  by (auto simp: runFailpoint_def split: option.splits)

lemma keeps_at: "(\<And>m. keepsT P (f m)) \<Longrightarrow> keepsT P (\<lambda>m. f m m)"
  by (simp add: keepsT_def)

section \<open>Transactions of one record\<close>

locale record_kept =
  fixes P :: "'k selected_manager \<Rightarrow> bool" and env :: "'k manager_env" and role :: string and prefix :: netprefix
  assumes reserve: "keepsT P (on_registry (Reserve role zone prefix source tg rg iface d))"
    and mark_applying: "keepsT P (on_registry (MarkApplying role prefix))"
    and mark_active: "keepsT P (on_registry (MarkActive role prefix observed))"
    and mark_retiring: "keepsT P (on_registry (MarkRetiring role prefix))"
    and begin_repair: "keepsT P (on_registry (BeginRepair role prefix))"
    and reserve_park: "keepsT P (on_registry (ReservePark role prefix pd force))"
    and mark_park_applying: "keepsT P (on_registry (MarkParkApplying role prefix))"
    and mark_park_active: "keepsT P (on_registry (MarkParkActive role prefix po))"
    and mark_park_retiring: "keepsT P (on_registry (MarkParkRetiring role prefix))"
    and clear_park: "keepsT P (on_registry (ClearPark role prefix))"
    and remove: "P m \<Longrightarrow> P (m\<lparr>sm_Registry := registry_Remove role prefix (sm_Registry m)\<rparr>)"
    and platform: "P (m\<lparr>sm_Kernel := k\<rparr>) = P m"
    and checkpoint: "keepsT P (writeCheckpoint env role g)"
    and touch: "P m \<Longrightarrow> P (touch_role role m)"
    and mint: "P m \<Longrightarrow> P (mintVerificationToken role e m)"
    and clear: "P m \<Longrightarrow> P (clearVerificationForPrefix prefix m)"
    and drift: "P (m\<lparr>sm_DriftRepairs := n\<rparr>) = P m"
begin

lemma platform_step: "keepsT P (on_kernel t)"
  by (auto simp: keepsT_def on_kernel_def platform split: prod.splits)

lemma platform_at: "keepsT P (\<lambda>m. on_kernel (f m) m)"
  by (rule keeps_at) (rule platform_step)

lemma reserve_at: "keepsT P (\<lambda>m. on_registry (Reserve role zone prefix source tg (g m) iface d) m)"
  by (rule keeps_at) (rule reserve)

lemma touch_step: "keepsT P (putT (touch_role role))"
  by (simp add: keepsT_def touch)

lemma checkpoint_now: "keepsT P (checkpointNow env role)"
  using checkpoint by (simp add: keepsT_def checkpointNow_def touch)

lemma mint_step: "keepsT P (putT (mintVerificationToken role e))"
  by (simp add: keepsT_def mint)

lemma clear_step: "keepsT P (putT (clearVerificationForPrefix prefix))"
  by (simp add: keepsT_def clear)

lemma remove_step: "keepsT P (putT (\<lambda>m. m\<lparr>sm_Registry := registry_Remove role prefix (sm_Registry m)\<rparr>))"
  by (simp add: keepsT_def remove)

lemma count_step: "keepsT P (putT (\<lambda>m. m\<lparr>sm_DriftRepairs := sm_DriftRepairs m + 1\<rparr>))"
  by (simp add: keepsT_def drift)

lemmas steps = tx_keeps keeps_failpoint reserve reserve_at mark_applying mark_active mark_retiring begin_repair
  reserve_park mark_park_applying mark_park_active mark_park_retiring clear_park platform_step platform_at
  checkpoint checkpoint_now mint_step clear_step remove_step count_step touch_step

lemma drive:
  assumes [simp]: "sr_Prefix rec = prefix"
  shows "keepsT P (driveTransaction env rm role rec)"
  unfolding driveTransaction_def by (auto intro!: steps)

lemma entry_prefix: "registryEntry role prefix m = Some rec \<Longrightarrow> sr_Prefix rec = prefix"
  by (auto simp: registryEntry_def find_Some_iff)

lemma drive_current:
  "keepsT P (bindT (getT (registryEntry role prefix)) (\<lambda>rec.
     case rec of None \<Rightarrow> throwT e | Some rec \<Rightarrow> driveTransaction env rm role rec))"
  unfolding keepsT_def
proof (intro allI impI)
  fix m :: "'k selected_manager"
  assume "P m"
  then show "P (snd (bindT (getT (registryEntry role prefix)) (\<lambda>rec.
     case rec of None \<Rightarrow> throwT e | Some rec \<Rightarrow> driveTransaction env rm role rec) m))"
    using drive [unfolded keepsT_def, rule_format] entry_prefix [of m]
    by (cases "registryEntry role prefix m") (simp_all add: bindT_apply)
qed

lemma pending: "keepsT P (reconcile_pending env rm role prefix rec)"
  unfolding reconcile_pending_def
  by (intro keepsT_bind keepsT_mapErr platform_at keeps_failpoint mark_applying checkpoint_now drive_current)

lemma reconcile:
  "keepsT P (reconcileRecordLocked env role prefix)"
  unfolding keepsT_def
proof (intro allI impI)
  fix m :: "'k selected_manager"
  assume P: "P m"
  have repair: "keepsT P (bindT (on_registry (BeginRepair role prefix)) (\<lambda>_.
                   bindT (checkpointNow env role) (\<lambda>_.
                   bindT (getT (registryEntry role prefix)) (\<lambda>rec'.
                   case rec' of None \<Rightarrow> throwT e | Some rec' \<Rightarrow> reconcile_pending env rm role prefix rec'))))" for rm e
    by (auto intro!: steps begin_repair pending)
  show "P (snd (reconcileRecordLocked env role prefix m))"
  proof (cases "se_Routes env")
    case (Some rm)
    show ?thesis
    proof (cases "registryEntry role prefix m")
      case (Some rec)
      from entry_prefix [OF this] have pre: "sr_Prefix rec = prefix" .
      show ?thesis
        using P Some \<open>se_Routes env = Some rm\<close> repair [where rm = rm, unfolded keepsT_def, rule_format]
          pending [unfolded keepsT_def, rule_format] drive [OF pre, unfolded keepsT_def, rule_format]
        by (cases "sr_State rec") (simp_all add: reconcileRecordLocked_def bindT_apply)
    qed (use P Some in \<open>simp add: reconcileRecordLocked_def bindT_apply\<close>)
  qed (use P in \<open>simp add: reconcileRecordLocked_def\<close>)
qed

lemma resume_park_locked: "keepsT P (resumeParkRetirementLocked env rm role prefix)"
  unfolding resumeParkRetirementLocked_def by (auto intro!: steps)

lemma retire_park_keeps:
  "keepsT P (retire_park env rm role prefix rec)"
  unfolding keepsT_def
proof (intro allI impI)
  fix m :: "'k selected_manager"
  assume P: "P m"
  have a: "keepsT P (bindT (on_registry (ClearPark role prefix)) (\<lambda>_. checkpointNow env role))"
    and b: "keepsT P (bindT (on_registry (MarkParkRetiring role prefix)) (\<lambda>_.
               bindT (checkpointNow env role) (\<lambda>_. resumeParkRetirementLocked env rm role prefix)))"
    by (auto intro!: steps resume_park_locked)
  show "P (snd (retire_park env rm role prefix rec m))"
    using P a [unfolded keepsT_def, rule_format, OF P] b [unfolded keepsT_def, rule_format, OF P]
      resume_park_locked [unfolded keepsT_def, rule_format, OF P]
    by (simp add: retire_park_def split: option.splits selected_park_state.splits)
qed

lemma retire: "keepsT P (retireRecordLocked env role prefix)"
  unfolding retireRecordLocked_def
  by (auto intro!: steps retire_park_keeps remove_step split: option.splits)

lemma apply_canonical:
  "keepsT P (applySelectedRouteCanonical env role zone prefix source ifIndex iface g tg)"
  unfolding applySelectedRouteCanonical_def
  by (auto intro!: steps reconcile split: option.splits)

lemma restore_one:
  assumes [simp]: "sr_Prefix e = prefix"
  shows "keepsT P (restore_entry env rm role runtime v4 v6 e)"
  unfolding restore_entry_def by (auto intro!: steps reconcile)

lemma park_apply: "keepsT P (applyParkTransaction env rm role prefix pdesired rec)"
  unfolding applyParkTransaction_def by (auto intro!: steps)

lemma need: "keepsT P (need_record role prefix)"
  unfolding need_record_def by (auto intro!: tx_keeps)

lemma preflight: "keepsT P (preflight_park rm prefix pdesired rec)"
  unfolding preflight_park_def by (rule platform_at)

lemma park_run: "keepsT P (runParkTransaction env rm role prefix pdesired pre)"
  unfolding runParkTransaction_def
  by (auto intro!: steps need preflight park_apply)

lemma park_resume: "keepsT P (resumeParkRetirement env rm role prefix park)"
  unfolding resumeParkRetirement_def by (auto intro!: steps)

lemma park_force: "keepsT P (force_pending env role prefix pdesired)"
  unfolding force_pending_def by (auto intro!: steps need)

lemma park_one:
  assumes [simp]: "sr_Prefix entry = prefix"
  shows "keepsT P (parkOne env rm role entry)"
  unfolding parkOne_def Let_def
  by (auto intro!: steps park_run park_apply park_force park_resume preflight
           split: selected_park_state.splits)

lemma unpark_proof: "keepsT P (prove_unpark rm entry owned)"
  unfolding prove_unpark_def by (auto intro!: steps)

lemma unpark:
  assumes [simp]: "sr_Prefix entry = prefix"
  shows "keepsT P (retireProvenPark env rm role entry)"
  unfolding retireProvenPark_def Let_def
  by (auto intro!: steps unpark_proof)

lemma mark_parked: "keepsT P (mark_parked_one env role prefix)"
  unfolding mark_parked_one_def
  by (auto intro!: steps split: option.splits)

lemma audit_drift_keeps: "keepsT P (audit_drift env role prefix)"
  unfolding audit_drift_def by (auto intro!: steps reconcile count_step)

lemma audit_state_keeps:
  assumes [simp]: "sr_Prefix entry = prefix"
  shows "keepsT P (audit_state env role entry rows)"
  unfolding audit_state_def
  by (auto intro!: steps retire reconcile audit_drift_keeps split: selected_state.splits)

end

text \<open>A predicate that does not read the role states at all.\<close>

locale record_stable = record_kept P env role prefix
  for P :: "'k selected_manager \<Rightarrow> bool" and env :: "'k manager_env" and role :: string and prefix :: netprefix +
  assumes roles: "P (m\<lparr>sm_Roles := rs\<rparr>) = P m"
begin

lemma update_step: "keepsT P (putT (update_role role f))"
  by (simp add: keepsT_def update_role_def roles)

lemmas stable_steps = steps update_step

end

text \<open>An instance from the operations of the key.\<close>

lemma record_stableI:
  assumes ops: "\<And>op. op_key op = Some (role, prefix) \<Longrightarrow> keepsT P (on_registry (run_op op))"
    and rest: "\<And>m k. P (m\<lparr>sm_Kernel := k\<rparr>) = P m" "\<And>g. keepsT P (writeCheckpoint env role g)"
      "\<And>m rs. P (m\<lparr>sm_Roles := rs\<rparr>) = P m" "\<And>m n. P (m\<lparr>sm_DriftRepairs := n\<rparr>) = P m"
  shows "record_stable P env role prefix"
proof
  show "keepsT P (on_registry (Reserve role zone prefix source tg rg iface d))" for zone source tg rg iface d
    using ops [of "OpReserve role zone prefix source tg rg iface d"] by simp
  show "keepsT P (on_registry (MarkApplying role prefix))" using ops [of "OpMarkApplying role prefix"] by simp
  show "keepsT P (on_registry (MarkActive role prefix observed))" for observed
    using ops [of "OpMarkActive role prefix observed"] by simp
  show "keepsT P (on_registry (MarkRetiring role prefix))" using ops [of "OpMarkRetiring role prefix"] by simp
  show "keepsT P (on_registry (BeginRepair role prefix))" using ops [of "OpBeginRepair role prefix"] by simp
  show "keepsT P (on_registry (ReservePark role prefix pd force))" for pd force
    using ops [of "OpReservePark role prefix pd force"] by simp
  show "keepsT P (on_registry (MarkParkApplying role prefix))" using ops [of "OpMarkParkApplying role prefix"] by simp
  show "keepsT P (on_registry (MarkParkActive role prefix po))" for po
    using ops [of "OpMarkParkActive role prefix po"] by simp
  show "keepsT P (on_registry (MarkParkRetiring role prefix))" using ops [of "OpMarkParkRetiring role prefix"] by simp
  show "keepsT P (on_registry (ClearPark role prefix))" using ops [of "OpClearPark role prefix"] by simp
  show "P m \<Longrightarrow> P (m\<lparr>sm_Registry := registry_Remove role prefix (sm_Registry m)\<rparr>)" for m
    using ops [of "OpRemove role prefix"] by (simp add: keepsT_def on_registry_def)
qed (use rest in \<open>auto simp: touch_role_def update_role_def mintVerificationToken_def
       clearVerificationForPrefix_def split: option.splits\<close>)

end
