(* ===== verification/Manager_Invariants.thy ===== *)
theory Manager_Invariants
  imports Manager_Facts
begin

text \<open>
  The invariant of the selected-route manager: the registry holds only well-formed records, and
  every checkpoint it ever wrote would be restored by \<^verbatim>\<open>RestoreRole\<close>. It is proved for each
  transaction through \<^verbatim>\<open>record_stable\<close>, for each public operation and for the audit, and then for
  every sequence of operations from a fresh manager.
\<close>

section \<open>The invariant\<close>

definition registry_ok :: "selected_registry \<Rightarrow> bool" where
  "registry_ok r \<longleftrightarrow> gomap_wf (rg_Entries r) \<and> valid_under heap_ok registry_abs r"

definition checkpoint_ok :: "string \<Rightarrow> selected_checkpoint \<Rightarrow> bool" where
  "checkpoint_ok role c \<longleftrightarrow> ck_Schema c = SelectedRoutesCheckpointSchema \<and> ck_Role c = role \<and>
     ck_Platform c \<in> {''linux'', ''windows''} \<and>
     (case ck_Entries c of
        None \<Rightarrow> False
      | Some es \<Rightarrow> restore_errors [] es = None \<and> list_all (\<lambda>v. sr_Role v = role) es)"

definition disk_ok :: "(string, selected_checkpoint) gomap \<Rightarrow> bool" where
  "disk_ok d \<longleftrightarrow> (\<forall>role c. map_of d role = Some c \<longrightarrow> checkpoint_ok role c)"

definition manager_ok :: "'k selected_manager \<Rightarrow> bool" where
  "manager_ok m \<longleftrightarrow> registry_ok (sm_Registry m) \<and> disk_ok (sm_Disk m)"

lemma registry_ok_op: "keepsT registry_ok (run_op op)"
proof (rule keepsTI)
  fix r res r'
  assume ok: "registry_ok r" and run: "run_op op r = (res, r')"
  then have ok': "gomap_wf (rg_Entries r)" "heap_ok r" "records_ok (registry_abs r)"
    by (auto simp: registry_ok_def valid_under_def)
  from run_op_refines [OF ok'(2) run]
  have "heap_ok r'" and a: "abs_op op (registry_abs r) = (res, registry_abs r')" by auto
  moreover from keepsTD [OF abs_op_keeps ok'(3) a] have "records_ok (registry_abs r')" .
  moreover from keepsTD [OF run_op_wf ok'(1) run] have "gomap_wf (rg_Entries r')" .
  ultimately show "registry_ok r'" by (simp add: registry_ok_def valid_under_def)
qed

lemma snapshot_checkpoint_ok:
  assumes "registry_ok (sm_Registry m)"
  shows "checkpoint_ok role (manager_checkpoint env role g m)"
proof -
  from assms have wf: "gomap_wf (rg_Entries (sm_Registry m))" and ok: "records_ok (registry_abs (sm_Registry m))"
    by (auto simp: registry_ok_def valid_under_def)
  let ?vs = "snapshot_values role (sm_Registry m)"
  have vs: "map (\<lambda>e. read_record e m) (registry_Snapshot role (sm_Registry m)) = ?vs"
    by (simp add: snapshot_values_def read_record_def)
  have "\<forall>v \<in> set ?vs. restore_entry_error v = None \<and> sr_Role v = role"
    using ok unfolding snapshot_values_set [OF wf] records_ok_def record_ok_def by blast
  moreover from this have "restore_errors [] ?vs = None"
    by (intro restore_errors_None) (use snapshot_keys_distinct [OF wf ok] in auto)
  ultimately show ?thesis
    by (simp add: checkpoint_ok_def manager_checkpoint_def RuntimeCheckpointPlatform_def vs list_all_iff)
qed

lemma disk_ok_put: "disk_ok d \<Longrightarrow> checkpoint_ok role c \<Longrightarrow> disk_ok (gomap_put role c d)"
  by (simp add: disk_ok_def)

lemma manager_ok_registry:
  assumes "keepsT registry_ok t"
  shows "keepsT manager_ok (on_registry t)"
proof (rule keepsTI)
  fix m res m'
  assume ok: "manager_ok m" and run: "on_registry t m = (res, m')"
  obtain res' r' where t: "t (sm_Registry m) = (res', r')" by force
  from ok have "registry_ok (sm_Registry m)" by (simp add: manager_ok_def)
  from keepsTD [OF assms this t] ok run t show "manager_ok m'"
    by (auto simp: manager_ok_def on_registry_def)
qed

lemma manager_ok_checkpoint: "keepsT manager_ok (writeCheckpoint env role g)"
  by (auto simp: keepsT_def writeCheckpoint_def manager_ok_def Let_def
      intro!: disk_ok_put snapshot_checkpoint_ok split: option.splits prod.splits sum.splits)

lemma manager_ok_op: "keepsT manager_ok (on_registry (run_op op))"
  by (rule manager_ok_registry [OF registry_ok_op])

interpretation valid: record_stable manager_ok env role prefix for env role prefix
  by (rule record_stableI) (auto simp: manager_ok_def manager_ok_op manager_ok_checkpoint)

section \<open>The public operations\<close>

lemma manager_ok_role [simp]:
  "manager_ok (update_role role f m) = manager_ok m" "manager_ok (touch_role role m) = manager_ok m"
  "manager_ok (m\<lparr>sm_Roles := rs\<rparr>) = manager_ok m" "manager_ok (m\<lparr>sm_Kernel := k\<rparr>) = manager_ok m"
  by (simp_all add: manager_ok_def)

lemma ensure_apply_ok: "manager_ok m \<Longrightarrow> manager_ok (snd (ensure_apply env intent role prefix runtime result m))"
proof -
  assume ok: "manager_ok m"
  let ?m = "update_role role beginFlight m"
  obtain x m' where run: "applySelectedRouteCanonical env role (li_Zone intent) prefix
      (if li_Source intent = LeshyRouteStatic then SelectedStatic else SelectedDNS)
      (ts_IfIndex (rr_Toad runtime)) (ts_InterfaceName (rr_Toad runtime))
      (rl_routeGeneration (roleState role ?m)) (rr_ToadGeneration runtime) ?m = (x, m')" by force
  from ok have "manager_ok ?m" by simp
  from keepsTD [OF valid.apply_canonical this run] have "manager_ok m'" .
  with run show ?thesis by (cases x) (auto simp: ensure_apply_def Let_def)
qed

lemma Ensure_ok: "manager_ok m \<Longrightarrow> manager_ok (snd (Ensure env intent m))"
proof -
  assume ok: "manager_ok m"
  have "manager_ok (snd (ensure_intent env intent m))"
    using ok by (auto simp: ensure_intent_def Let_def ensure_apply_ok split: list.splits sum.splits)
  then show ?thesis
    by (auto simp: Ensure_def countRoleStat_def split: prod.splits option.splits)
qed

lemma Forget_ok: "keepsT manager_ok (Forget env intent)"
proof (rule keepsTI)
  fix m res m'
  assume ok: "manager_ok m" and run: "Forget env intent m = (res, m')"
  show "manager_ok m'"
  proof (cases "canonicalIntentPrefix intent")
    case (Inr prefix)
    show ?thesis
    proof (cases "zone_role env (li_Zone intent)")
      case (Some role)
      let ?m = "update_role role (beginFlight \<circ> (\<lambda>s. s\<lparr>rl_forgets := rl_forgets s + 1\<rparr>)) m"
      obtain x m2 where r: "retireRecordLocked env role prefix ?m = (x, m2)" by force
      from ok have "manager_ok ?m" by simp
      from keepsTD [OF valid.retire this r] r run Inr Some show ?thesis by (auto simp: Forget_def Let_def)
    qed (use ok run Inr in \<open>simp add: Forget_def\<close>)
  qed (use ok run in \<open>simp add: Forget_def\<close>)
qed

lemma flush_entries_ok: "manager_ok m \<Longrightarrow> manager_ok (snd (flush_entries env role zone es firstErr m))"
proof (induction es arbitrary: firstErr m)
  case (Cons e es)
  obtain x m2 where r: "retireRecordLocked env role (sr_Prefix e) m = (x, m2)" by force
  from keepsTD [OF valid.retire Cons.prems r] Cons.IH Cons.prems r show ?case by (cases x) auto
qed simp

lemma FlushZone_ok: "manager_ok m \<Longrightarrow> manager_ok (snd (FlushZone env zone m))"
proof (cases "zone_role env zone")
  case (Some role)
  assume ok: "manager_ok m"
  let ?m = "update_role role beginFlight m"
  obtain fe m2 where fl: "flush_entries env role zone (registry_Snapshot role (sm_Registry ?m)) None ?m = (fe, m2)"
    by force
  with flush_entries_ok [of ?m env role zone _ None] ok have ok2: "manager_ok m2" by (metis manager_ok_role(1) snd_conv)
  obtain x m3 where w: "writeCheckpoint env role (rl_routeGeneration (roleState role ?m)) m2 = (x, m3)" by force
  from keepsTD [OF manager_ok_checkpoint ok2 w] fl w Some show ?thesis
    by (cases x) (auto simp: FlushZone_def Let_def)
qed (simp add: FlushZone_def)

lemma Restore_ok: "keepsT manager_ok (Restore env role v4 v6)"
  unfolding Restore_def by (auto intro!: valid.stable_steps valid.restore_one [OF refl])

lemma MarkParked_ok: "keepsT manager_ok (MarkParked env role prefixes)"
  unfolding MarkParked_def by (intro keepsT_each valid.mark_parked)

lemma ParkRegistered_ok: "keepsT manager_ok (ParkRegistered env role)"
  unfolding ParkRegistered_def by (auto intro!: valid.stable_steps valid.park_one [OF refl])

lemma observe_ok: "keepsT manager_ok (bindT (on_kernel t) (\<lambda>present. requireT present err))"
  by (intro valid.stable_steps)

lemma withdraw_steps_ok:
  "keepsT manager_ok (withdraw_check rm e)" "keepsT manager_ok (withdraw_remove rm e)"
  "keepsT manager_ok (withdraw_verify rm item)"
proof -
  show "keepsT manager_ok (withdraw_check rm e)"
    using observe_ok [unfolded keepsT_def] by (auto simp: keepsT_def withdraw_check_def split: option.splits)
  show "keepsT manager_ok (withdraw_remove rm e)" unfolding withdraw_remove_def by (rule valid.platform_at)
  show "keepsT manager_ok (withdraw_verify rm item)" unfolding withdraw_verify_def by (cases item) (auto intro!: observe_ok)
qed

lemma WithdrawSelected_ok: "keepsT manager_ok (WithdrawSelected env role)"
  unfolding WithdrawSelected_def by (auto intro!: valid.stable_steps withdraw_steps_ok)

lemma observe_entry_ok: "keepsT manager_ok (observe_entry env rm role entry)"
proof (rule keepsTI)
  fix m res m'
  assume ok: "manager_ok m" and run: "observe_entry env rm role entry m = (res, m')"
  obtain x m1 where r1: "retireProvenPark env rm role entry m = (x, m1)" by force
  obtain y m2 where r2: "resumeParkRetirement env rm role (sr_Prefix entry)
      (the (sr_Park (read_record entry m))) m = (y, m2)" by force
  from keepsTD [OF valid.unpark [OF refl] ok r1] keepsTD [OF valid.park_resume ok r2] ok run r1 r2
  show "manager_ok m'"
    by (auto simp: observe_entry_def ignoreNotProven_def split: option.splits selected_park_state.splits sum.splits if_splits)
qed

lemma ObserveRestoration_ok: "keepsT manager_ok (ObserveRestoration env role)"
  unfolding ObserveRestoration_def by (auto intro!: valid.stable_steps observe_entry_ok)

lemma restore_managed_role_ok: "keepsT manager_ok (restore_managed_role env role file)"
proof (rule keepsTI)
  fix m res m'
  assume ok: "manager_ok m" and run: "restore_managed_role env role file m = (res, m')"
  show "manager_ok m'"
  proof (cases "file")
    case (Inr c)
    obtain x m1 where r: "on_registry (RestoreRole c) m = (x, m1)" by force
    from manager_ok_op [of "OpRestoreRole c"] have "keepsT manager_ok (on_registry (RestoreRole c))" by simp
    from keepsTD [OF this ok r] ok run r Inr show ?thesis
      by (auto simp: restore_managed_role_def split: if_splits sum.splits)
  qed (use ok run in \<open>auto simp: restore_managed_role_def split: if_splits\<close>)
qed

lemma CompleteStartupRestore_ok: "manager_ok m \<Longrightarrow> manager_ok (snd (CompleteStartupRestore role m))"
  by (auto simp: CompleteStartupRestore_def split: option.splits)

lemma Freeze_ok: "keepsT manager_ok (Freeze e role)"
  by (auto simp: keepsT_def Freeze_def Let_def)

lemma Unfreeze_ok: "manager_ok m \<Longrightarrow> manager_ok (snd (Unfreeze role m))"
  by (simp add: Unfreeze_def Let_def)

lemma retryQuarantinedRole_ok: "keepsT manager_ok (retryQuarantinedRole env role)"
  unfolding retryQuarantinedRole_def by (auto intro!: valid.stable_steps)

section \<open>The reconciler\<close>

abbreviation reconciler_ok :: "'k reconciler \<Rightarrow> bool" where
  "reconciler_ok r \<equiv> manager_ok (rq_Manager r)"

lemma counters_ok [simp]:
  "manager_ok (m\<lparr>sm_AuditSkippedBusy := n\<rparr>) = manager_ok m"
  "manager_ok (m\<lparr>sm_Audits := n\<rparr>) = manager_ok m"
  "manager_ok (m\<lparr>sm_AuditFailures := n\<rparr>) = manager_ok m"
  "manager_ok (m\<lparr>sm_ProcessedSequence := q\<rparr>) = manager_ok m"
  "manager_ok (m\<lparr>sm_AuthorityReady := b\<rparr>) = manager_ok m"
  "manager_ok (m\<lparr>sm_ObserverErrors := n\<rparr>) = manager_ok m"
  "manager_ok (ClearAllVerification m) = manager_ok m"
  "manager_ok (clearVerificationForPrefix prefix m) = manager_ok m"
  "manager_ok (clearVerificationForIfindex i m) = manager_ok m"
  "manager_ok (noteProcessedSequence q m) = manager_ok m"
  by (simp_all add: manager_ok_def ClearAllVerification_def clearVerificationForPrefix_def
      clearVerificationForIfindex_def noteProcessedSequence_def)

lemma on_manager_ok:
  assumes "keepsT manager_ok t"
  shows "keepsT reconciler_ok (on_manager t)"
  by (rule keepsTI) (auto simp: on_manager_def split: prod.splits intro: keepsTD [OF assms])

lemma modify_manager_ok [simp]: "rq_Manager (modify_manager f r) = f (rq_Manager r)"
  by (simp add: modify_manager_def)

lemma request_recovery_manager [simp]: "rq_Manager (request_recovery role reason r) = rq_Manager r"
  by (simp add: request_recovery_def)

lemma auditRecord_ok: "keepsT reconciler_ok (auditRecord env role entry rows)"
proof (rule keepsTI)
  fix r res r'
  assume ok: "reconciler_ok r" and run: "auditRecord env role entry rows r = (res, r')"
  obtain x r1 where a: "on_manager (audit_state env role entry rows) r = (x, r1)" by force
  from keepsTD [OF on_manager_ok [OF valid.audit_state_keeps [OF refl]] ok a] ok run a
  show "reconciler_ok r'"
    by (auto simp: auditRecord_def failSelectedRouteIntegrity_def Let_def split: if_splits sum.splits)
qed

lemma audit_entries_ok: "keepsT reconciler_ok (audit_entries env role snapshot entries complete)"
proof (induction entries arbitrary: complete)
  case (Cons e entries)
  show ?case
  proof (rule keepsTI)
    fix r res r'
    assume ok: "reconciler_ok r" and run: "audit_entries env role snapshot (e # entries) complete r = (res, r')"
    show "reconciler_ok r'"
    proof (cases "registryEntry role (sr_Prefix e) (rq_Manager r)")
      case None
      with run show ?thesis by (auto intro: keepsTD [OF Cons.IH ok])
    next
      case (Some current)
      obtain x r1 where a: "auditRecord env role current (prefix_rows (sr_Prefix e) (ss_Rows snapshot)) r = (x, r1)"
        by force
      from keepsTD [OF auditRecord_ok ok a] have ok1: "reconciler_ok r1" .
      from ok1 run Some a show ?thesis
        by (auto split: if_splits sum.splits intro: keepsTD [OF Cons.IH ok] keepsTD [OF Cons.IH ok1])
    qed
  qed
qed (simp add: keepsT_def)

lemma audit_role_ok: "keepsT reconciler_ok (audit_role env snapshot role)"
proof (rule keepsTI)
  fix r res r'
  assume ok: "reconciler_ok r" and run: "audit_role env snapshot role r = (res, r')"
  let ?r = "modify_manager (touch_role role) r"
  let ?es = "registry_Snapshot role (sm_Registry (rq_Manager ?r))"
  obtain x r1 where a: "audit_entries env role snapshot ?es (?es \<noteq> []) ?r = (x, r1)" by force
  from ok have "reconciler_ok ?r" by simp
  from keepsTD [OF audit_entries_ok this a] have "reconciler_ok r1" .
  with run a show "reconciler_ok r'"
    by (auto simp: audit_role_def Let_def CompleteStartupRestore_ok split: sum.splits)
qed

lemma snapshot_checked_ok: "keepsT reconciler_ok (reconcileSnapshotChecked env snapshot)"
  unfolding reconcileSnapshotChecked_def by (intro keepsT_each audit_role_ok)

lemma stableSnapshot_ok: "keepsT reconciler_ok (stableSnapshot n env rm)"
proof (induction n)
  case (Suc n)
  show ?case
  proof (rule keepsTI)
    fix r res r'
    assume ok: "reconciler_ok r" and run: "stableSnapshot (Suc n) env rm r = (res, r')"
    obtain x r1 where a: "on_manager (on_kernel (rm_SnapshotSelectedRoutes rm)) r = (x, r1)" by force
    from keepsTD [OF on_manager_ok [OF valid.platform_step] ok a] have ok1: "reconciler_ok r1" .
    with run a show "reconciler_ok r'"
      by (auto simp: Let_def split: sum.splits if_splits intro: keepsTD [OF Suc.IH ok1])
  qed
qed (simp add: keepsT_def)

lemma audit_ok: "keepsT reconciler_ok (audit n env)"
proof (rule keepsTI)
  fix r res r'
  assume ok: "reconciler_ok r" and run: "audit n env r = (res, r')"
  show "reconciler_ok r'"
  proof (cases "se_Routes env")
    case (Some rm)
    obtain x r1 where a: "stableSnapshot n env rm (r\<lparr>rq_AuditRunning := True\<rparr>) = (x, r1)" by force
    from ok have "reconciler_ok (r\<lparr>rq_AuditRunning := True\<rparr>)" by simp
    from keepsTD [OF stableSnapshot_ok this a] have ok1: "reconciler_ok (record_audit b r1)" for b
      by (simp add: record_audit_def)
    obtain y r2 where b: "reconcileSnapshotChecked env (case x of Inr s \<Rightarrow> s) (record_audit False r1) = (y, r2)" by force
    from keepsTD [OF snapshot_checked_ok ok1 b] ok1 ok run Some a b show ?thesis
      by (auto simp: audit_def audit_failed_def store_processed_def split: sum.splits if_splits)
  qed (use ok run in \<open>simp add: audit_def\<close>)
qed

lemma invalidate_role_ok:
  "reconciler_ok r \<Longrightarrow> reconciler_ok (snd (invalidate_prefix_role env prefix role r))"
proof -
  assume ok: "reconciler_ok r"
  let ?r = "modify_manager (touch_role role) r"
  from ok have ok1: "reconciler_ok ?r" by simp
  have steps: "keepsT reconciler_ok (on_manager (case st of
      SelectedRetiring \<Rightarrow> retireRecordLocked env role prefix | StateOther t \<Rightarrow> returnT ()
    | _ \<Rightarrow> bindT (reconcileRecordLocked env role prefix) (\<lambda>_. returnT ())))" for st
    by (rule on_manager_ok)
       (auto intro!: valid.stable_steps valid.retire valid.reconcile split: selected_state.splits)
  show ?thesis
  proof (cases "registryEntry role prefix (rq_Manager ?r)")
    case (Some rec)
    obtain x r2 where a: "on_manager (case sr_State rec of
      SelectedRetiring \<Rightarrow> retireRecordLocked env role prefix | StateOther t \<Rightarrow> returnT ()
    | _ \<Rightarrow> bindT (reconcileRecordLocked env role prefix) (\<lambda>_. returnT ())) ?r = (x, r2)" by force
    from keepsTD [OF steps ok1 a] ok a Some show ?thesis
      by (auto simp: invalidate_prefix_role_def Let_def split: sum.splits)
  qed (use ok in \<open>simp add: invalidate_prefix_role_def Let_def\<close>)
qed

lemma invalidate_roles_ok:
  "reconciler_ok r \<Longrightarrow> reconciler_ok (snd (invalidate_prefix_roles env prefix roles firstErr r))"
proof (induction roles arbitrary: firstErr r)
  case (Cons role roles)
  obtain e stop r1 where a: "invalidate_prefix_role env prefix role r = ((e, stop), r1)" by (metis prod.exhaust)
  with invalidate_role_ok [OF Cons.prems, of env prefix role] have "reconciler_ok r1" by simp
  with Cons.IH a show ?case by auto
qed simp

lemma request_all_manager:
  "rq_Manager (foldl (\<lambda>r role. if c r role then r else request_recovery role t r) r0 roles) = rq_Manager r0"
  by (induction roles arbitrary: r0) simp_all

lemma handleInterface_ok: "reconciler_ok (handleInterfaceInvalidation env i r) = reconciler_ok r"
  by (simp add: handleInterfaceInvalidation_def
      request_all_manager [where c = "\<lambda>r role. case map_of (sm_Roles (rq_Manager r)) role of None \<Rightarrow> False | Some s \<Rightarrow> rl_integrityQuarantined s"])

lemma processBatch_ok: "reconciler_ok r \<Longrightarrow> reconciler_ok (snd (processBatch n env batch r))"
proof -
  assume ok: "reconciler_ok r"
  let ?clear = "modify_manager ClearAllVerification r"
  obtain x r1 where a: "audit n env ?clear = (x, r1)" by force
  from ok have "reconciler_ok ?clear" by simp
  from keepsTD [OF audit_ok this a] have ok1: "reconciler_ok r1" .
  obtain e r2 where h: "handlePrefixInvalidation env (ri_Prefix batch) r = (e, r2)" by force
  with invalidate_roles_ok [of "modify_manager (clearVerificationForPrefix (ri_Prefix batch)) r" env
      "ri_Prefix batch" "managedRoleNames env" None] ok
  have ok2: "reconciler_ok r2" by (simp add: handlePrefixInvalidation_def)
  show ?thesis
    using ok ok1 ok2 a h handleInterface_ok [of env "ri_IfIndex batch" r]
    by (cases "ri_Kind batch")
       (auto simp: processBatch_def store_processed_def split: option.splits sum.splits)
qed

section \<open>Runs\<close>

text \<open>The entry points of the process on the selected routes, as data. Each step runs under the
  environment of its moment, so the product state, the platform and the failpoints may change
  between steps.\<close>

datatype system_op =
    SysEnsure leshy_intent
  | SysForget leshy_intent
  | SysFlushZone string
  | SysFreeze goerror string
  | SysUnfreeze string
  | SysRestore string bool bool
  | SysMarkParked string "netprefix list"
  | SysParkRegistered string
  | SysWithdrawSelected string
  | SysObserveRestoration string
  | SysRestoreCheckpoint string "goerror + selected_checkpoint"
  | SysCompleteStartupRestore string
  | SysRetryQuarantined string
  | SysAudit nat
  | SysBatch nat route_invalidation
  | SysObserverLost

fun run_system :: "'k manager_env \<Rightarrow> system_op \<Rightarrow> 'k reconciler \<Rightarrow> 'k reconciler" where
  "run_system env (SysEnsure intent) r = modify_manager (\<lambda>m. snd (Ensure env intent m)) r"
| "run_system env (SysForget intent) r = modify_manager (\<lambda>m. snd (Forget env intent m)) r"
| "run_system env (SysFlushZone zone) r = modify_manager (\<lambda>m. snd (FlushZone env zone m)) r"
| "run_system env (SysFreeze e role) r = modify_manager (\<lambda>m. snd (Freeze e role m)) r"
| "run_system env (SysUnfreeze role) r = modify_manager (\<lambda>m. snd (Unfreeze role m)) r"
| "run_system env (SysRestore role v4 v6) r = modify_manager (\<lambda>m. snd (Restore env role v4 v6 m)) r"
| "run_system env (SysMarkParked role ps) r = modify_manager (\<lambda>m. snd (MarkParked env role ps m)) r"
| "run_system env (SysParkRegistered role) r = modify_manager (\<lambda>m. snd (ParkRegistered env role m)) r"
| "run_system env (SysWithdrawSelected role) r = modify_manager (\<lambda>m. snd (WithdrawSelected env role m)) r"
| "run_system env (SysObserveRestoration role) r = modify_manager (\<lambda>m. snd (ObserveRestoration env role m)) r"
| "run_system env (SysRestoreCheckpoint role c) r = modify_manager (\<lambda>m. snd (restore_managed_role env role c m)) r"
| "run_system env (SysCompleteStartupRestore role) r = modify_manager (\<lambda>m. snd (CompleteStartupRestore role m)) r"
| "run_system env (SysRetryQuarantined role) r = modify_manager (\<lambda>m. snd (retryQuarantinedRole env role m)) r"
| "run_system env (SysAudit n) r = snd (audit n env r)"
| "run_system env (SysBatch n batch) r = snd (processBatch n env batch r)"
| "run_system env SysObserverLost r = observerLost r"

fun run_all :: "('k manager_env \<times> system_op) list \<Rightarrow> 'k reconciler \<Rightarrow> 'k reconciler" where
  "run_all [] r = r"
| "run_all ((env, op) # ops) r = run_all ops (run_system env op r)"

lemmas operations_ok = Forget_ok Freeze_ok Restore_ok MarkParked_ok ParkRegistered_ok WithdrawSelected_ok
  ObserveRestoration_ok restore_managed_role_ok retryQuarantinedRole_ok audit_ok

lemma run_system_ok: "reconciler_ok r \<Longrightarrow> reconciler_ok (run_system env op r)"
  by (cases op)
     (simp_all add: operations_ok [unfolded keepsT_def, rule_format] Ensure_ok FlushZone_ok Unfreeze_ok
        CompleteStartupRestore_ok processBatch_ok observerLost_def closeAuthorityGate_def)

lemma run_all_ok: "reconciler_ok r \<Longrightarrow> reconciler_ok (run_all ops r)"
  by (induction ops r rule: run_all.induct) (simp_all add: run_system_ok)

definition new_reconciler :: "'k \<Rightarrow> 'k reconciler" where
  "new_reconciler k = \<lparr>rq_Manager = NewSelectedRouteManager k, rq_Processed = 0, rq_AuthorityError = [],
     rq_Requests = [], rq_Diagnostics = [], rq_AuditRunning = False, rq_AuditSkipped = 0, rq_AuditFailures = 0,
     rq_ObserverErrors = 0, rq_Audits = 0\<rparr>"

lemma new_reconciler_ok: "reconciler_ok (new_reconciler k)"
  by (simp add: new_reconciler_def NewSelectedRouteManager_def manager_ok_def registry_ok_def valid_under_def disk_ok_def)

text \<open>A restart from a valid checkpoint.\<close>

lemma checkpoint_restarts:
  assumes "checkpoint_ok role c" and "role \<noteq> []"
  shows "\<exists>r es. ck_Entries c = Some es \<and> RestoreRole c NewMemorySelectedRegistry = (Inr (), r) \<and>
           registry_abs r = map_of (map (\<lambda>v. ((sr_Role v, sr_Prefix v), v)) es)"
proof -
  from assms obtain es where es: "ck_Entries c = Some es" "restore_errors [] es = None" "ck_Role c \<noteq> []"
    by (auto simp: checkpoint_ok_def split: option.splits)
  obtain x r where run: "RestoreRole c NewMemorySelectedRegistry = (x, r)" by force
  with es have "x = Inr ()" by (simp add: RestoreRole_def)
  moreover have "abs_RestoreRole c Map.empty = (x, registry_abs r)"
    using RestoreRole_refines [OF new_registry_ok(1) run] by simp
  ultimately have "registry_abs r = foldl (\<lambda>m v. m((sr_Role v, sr_Prefix v) \<mapsto> v)) Map.empty es"
    using es by (simp add: abs_RestoreRole_def)
  also have "\<dots> = map_of (map (\<lambda>v. ((sr_Role v, sr_Prefix v), v)) es)"
    by (subst install_map) (use restore_errors_all [OF es(2)] in auto)
  finally show ?thesis using es run \<open>x = Inr ()\<close> by blast
qed

text \<open>
  A restart reads the checkpoint before it restores it, and the reader asks for a little more than
  \<^verbatim>\<open>RestoreRole\<close>. Of a well-formed record it remains to check the source and the two generations.
\<close>

definition reader_demands :: "route_value \<Rightarrow> bool" where
  "reader_demands v \<longleftrightarrow>
     (sr_Source v = SelectedDNS \<and> IsHostPrefix (sr_Prefix v) \<or> sr_Source v = SelectedStatic) \<and>
     sr_ToadGeneration v \<noteq> 0 \<and> sr_RouteGeneration v \<noteq> 0"

lemma identity_canonical: "identity_Validate i prefix = None \<Longrightarrow> IsCanonicalPrefix prefix"
  by (auto simp: identity_Validate_def split: if_splits)

lemma restored_entry_readable:
  assumes "restore_entry_error v = None"
  shows "checkpoint_entry_error (sr_Role v) [] v = None \<longleftrightarrow> reader_demands v"
  using assms identity_canonical
  by (auto simp: restore_entry_ok_iff checkpoint_entry_error_def reader_demands_def split: option.splits)

lemma checkpoint_errors_None_iff:
  "checkpoint_errors role zone seen es = None \<longleftrightarrow>
     (\<forall>v \<in> set es. checkpoint_entry_error role zone v = None) \<and> distinct (map sr_Prefix es) \<and>
     set seen \<inter> sr_Prefix ` set es = {}"
  by (induction es arbitrary: seen) (auto split: option.splits)

lemma checkpoint_readable:
  assumes "checkpoint_ok role c" and "ck_Entries c = Some es"
  shows "ValidateSelectedRoutesCheckpoint c role [] = None \<longleftrightarrow> list_all reader_demands es"
proof -
  from assms have ok: "restore_errors [] es = None" and role: "\<forall>v \<in> set es. sr_Role v = role"
    by (auto simp: checkpoint_ok_def list_all_iff)
  have "distinct (map sr_Prefix es)"
    using restore_errors_all [OF ok] role unfolding distinct_map inj_on_def by (metis prod.inject)
  moreover have "\<forall>v \<in> set es. checkpoint_entry_error role [] v = None \<longleftrightarrow> reader_demands v"
    using restore_errors_all [OF ok] role restored_entry_readable by metis
  ultimately have "checkpoint_errors role [] [] es = None \<longleftrightarrow> list_all reader_demands es"
    by (simp add: checkpoint_errors_None_iff list_all_iff)
  with assms show ?thesis by (auto simp: ValidateSelectedRoutesCheckpoint_def checkpoint_ok_def)
qed

end
