(* ===== verification/Manager_Outcomes.thy ===== *)
theory Manager_Outcomes
  imports Manager_Invariants
begin

text \<open>
  What a successful operation of the manager leaves behind: an ensured destination is active on
  the identity the platform normalized, and a parked role has a proven park under every record
  that is not retiring. The frame of a transaction, that no record of another key moves, is an
  instance of \<^verbatim>\<open>record_stable\<close>.
\<close>

section \<open>Predicates on the abstract registry\<close>

definition regK :: "(abstract_registry \<Rightarrow> bool) \<Rightarrow> 'k selected_manager \<Rightarrow> bool" where
  "regK Q m \<longleftrightarrow> manager_ok m \<and> Q (registry_abs (sm_Registry m))"

lemma on_registry_abs:
  assumes "manager_ok m" and "on_registry (run_op op) m = (res, m')"
  shows "abs_op op (registry_abs (sm_Registry m)) = (res, registry_abs (sm_Registry m'))"
proof -
  obtain res' r' where r: "run_op op (sm_Registry m) = (res', r')" by force
  from assms(1) have "heap_ok (sm_Registry m)" by (simp add: manager_ok_def registry_ok_def valid_under_def)
  from run_op_refines [OF this r] r assms(2) show ?thesis by (auto simp: on_registry_def)
qed

lemma regK_registry:
  assumes "\<And>M res M'. Q M \<Longrightarrow> abs_op op M = (res, M') \<Longrightarrow> Q M'"
  shows "keepsT (regK Q) (on_registry (run_op op))"
proof (rule keepsTI)
  fix m res m'
  assume k: "regK Q m" and run: "on_registry (run_op op) m = (res, m')"
  then have ok: "manager_ok m" and Q: "Q (registry_abs (sm_Registry m))" by (simp_all add: regK_def)
  from keepsTD [OF manager_ok_op ok run] assms [OF Q on_registry_abs [OF ok run]]
  show "regK Q m'" by (simp add: regK_def)
qed

lemma regK_platform: "keepsT (regK Q) (on_kernel t)"
  by (auto simp: keepsT_def on_kernel_def regK_def split: prod.splits)

lemma regK_platform_at: "keepsT (regK Q) (\<lambda>m. on_kernel (f m) m)"
  by (rule keeps_at) (rule regK_platform)

lemma regK_checkpoint: "keepsT (regK Q) (writeCheckpoint env role g)"
proof (rule keepsTI)
  fix m res m'
  assume k: "regK Q m" and run: "writeCheckpoint env role g m = (res, m')"
  then have "manager_ok m'" using keepsTD [OF manager_ok_checkpoint _ run] by (simp add: regK_def)
  moreover have "sm_Registry m' = sm_Registry m" using writeCheckpoint_registry [of env role g m] run by simp
  ultimately show "regK Q m'" using k by (simp add: regK_def)
qed

lemma regK_role [simp]:
  "regK Q (update_role role f m) = regK Q m" "regK Q (touch_role role m) = regK Q m"
  by (simp_all add: regK_def)

lemma regK_checkpoint_now: "keepsT (regK Q) (checkpointNow env role)"
  using regK_checkpoint [of Q env role] by (simp add: keepsT_def checkpointNow_def)

lemma regK_mint: "keepsT (regK Q) (putT (mintVerificationToken role e))"
  by (auto simp: keepsT_def regK_def manager_ok_def mintVerificationToken_def split: option.splits)

lemmas regK_steps = tx_keeps keeps_failpoint regK_platform regK_platform_at regK_checkpoint regK_checkpoint_now regK_mint

section \<open>Applying a record\<close>

definition desires :: "route_key \<Rightarrow> selected_identity \<Rightarrow> abstract_registry \<Rightarrow> bool" where
  "desires key i M \<longleftrightarrow> (\<exists>v. M key = Some v \<and> sr_Desired v = i)"

definition active_on :: "route_key \<Rightarrow> selected_identity \<Rightarrow> abstract_registry \<Rightarrow> bool" where
  "active_on key i M \<longleftrightarrow> (\<exists>v. M key = Some v \<and> sr_State v = SelectedActive \<and> sr_Desired v = i \<and> sr_Owned v = Some i)"

lemma transition_desires:
  assumes "\<And>v v'. f v = Inr v' \<Longrightarrow> sr_Desired v' = sr_Desired v"
    and "desires key i M" and "abs_transition role prefix f M = (res, M')"
  shows "desires key i M'"
proof -
  from assms(2) obtain v where v: "M key = Some v" "sr_Desired v = i" by (auto simp: desires_def)
  show ?thesis
  proof (cases "key = (role, prefix) \<and> res = Inr ()")
    case True
    with assms(3) v obtain v' where "f v = Inr v'" "M' = M(key \<mapsto> v')"
      by (auto simp: abs_transition_def split: if_splits sum.splits)
    with assms(1) [of v v'] v show ?thesis by (simp add: desires_def)
  next
    case False
    with assms(3) v show ?thesis
      by (auto simp: desires_def abs_transition_def split: if_splits option.splits sum.splits)
  qed
qed

lemma applying_desires: "MarkApplying_entry v = Inr v' \<Longrightarrow> sr_Desired v' = sr_Desired v"
  by (auto split: selected_state.splits)

lemma repair_desires: "BeginRepair_entry v = Inr v' \<Longrightarrow> sr_Desired v' = sr_Desired v"
  by (auto simp: BeginRepair_entry_def split: if_splits)

lemma regK_mark_applying: "keepsT (regK (desires key i)) (on_registry (MarkApplying role prefix))"
  using regK_registry [of "desires key i" "OpMarkApplying role prefix"]
  by (auto intro: transition_desires [OF applying_desires])

lemma regK_begin_repair: "keepsT (regK (desires key i)) (on_registry (BeginRepair role prefix))"
  using regK_registry [of "desires key i" "OpBeginRepair role prefix"]
  by (auto intro: transition_desires [OF repair_desires])

lemma mark_active_abs:
  "desires (role, prefix) i M \<Longrightarrow> abs_transition role prefix (MarkActive_entry observed) M = (Inr x, M') \<Longrightarrow>
     active_on (role, prefix) i M'"
  by (auto simp: desires_def active_on_def abs_transition_def MarkActive_entry_def
      split: if_splits option.splits sum.splits)

lemma mark_active_triple:
  "tripleT (regK (desires (role, prefix) i)) (on_registry (MarkActive role prefix observed))
     (\<lambda>_. regK (active_on (role, prefix) i)) (\<lambda>_. True)"
proof (rule tripleI)
  fix m x m'
  assume k: "regK (desires (role, prefix) i) m" and run: "on_registry (MarkActive role prefix observed) m = (Inr x, m')"
  then have ok: "manager_ok m" by (simp add: regK_def)
  from run have run': "on_registry (run_op (OpMarkActive role prefix observed)) m = (Inr x, m')" by simp
  from on_registry_abs [OF ok run'] k have "active_on (role, prefix) i (registry_abs (sm_Registry m'))"
    by (auto simp: regK_def intro: mark_active_abs)
  with keepsTD [OF manager_ok_op ok run'] show "regK (active_on (role, prefix) i) m'" by (simp add: regK_def)
qed simp

lemma drive_triple:
  assumes "sr_Prefix rec = prefix"
  shows "tripleT (regK (desires (role, prefix) i)) (driveTransaction env rm role rec)
           (\<lambda>_. regK (active_on (role, prefix) i)) (\<lambda>_. True)"
proof -
  have tail: "tripleT (regK (active_on (role, prefix) i)) t (\<lambda>_. regK (active_on (role, prefix) i)) (\<lambda>_. True)"
    if "keepsT (regK (active_on (role, prefix) i)) t" for t :: "('k selected_manager, 'a) tx"
    by (rule triple_conseq [OF triple_keeps [OF that]]) auto
  show ?thesis
    unfolding driveTransaction_def assms
    by (cases "sr_State rec = SelectedApplying")
       (auto intro!: triple_throw triple_return triple_head regK_steps triple_bind [OF mark_active_triple] tail)
qed

text \<open>Whatever the drive of the current record achieves, the reconciliation of the record achieves:
  it ends in a drive or fails.\<close>

definition drive_achieves ::
  "'k manager_env \<Rightarrow> 'k route_manager \<Rightarrow> string \<Rightarrow> netprefix \<Rightarrow> selected_identity \<Rightarrow> ('k selected_manager \<Rightarrow> bool) \<Rightarrow> bool" where
  "drive_achieves env rm role prefix i Q \<longleftrightarrow>
     (\<forall>rec. tripleT (\<lambda>m. regK (desires (role, prefix) i) m \<and> Some rec = registryEntry role prefix m)
        (driveTransaction env rm role rec) (\<lambda>_. Q) (\<lambda>_. True))"

lemma drive_current_triple:
  assumes "drive_achieves env rm role prefix i Q"
  shows "tripleT (regK (desires (role, prefix) i))
     (bindT (getT (registryEntry role prefix)) (\<lambda>rec.
        case rec of None \<Rightarrow> throwT e | Some rec \<Rightarrow> driveTransaction env rm role rec)) (\<lambda>_. Q) (\<lambda>_. True)"
proof (rule triple_bind [where R = "\<lambda>x m. regK (desires (role, prefix) i) m \<and> x = registryEntry role prefix m"])
  show "tripleT (\<lambda>m. regK (desires (role, prefix) i) m \<and> x = registryEntry role prefix m)
     (case x of None \<Rightarrow> throwT e | Some rec \<Rightarrow> driveTransaction env rm role rec) (\<lambda>_. Q) (\<lambda>_. True)" for x
    using assms by (cases x) (auto simp: drive_achieves_def intro!: triple_throw)
qed (auto intro!: triple_get)

lemma pending_triple:
  assumes "drive_achieves env rm role prefix i Q"
  shows "tripleT (regK (desires (role, prefix) i)) (reconcile_pending env rm role prefix rec) (\<lambda>_. Q) (\<lambda>_. True)"
  unfolding reconcile_pending_def
  by (intro triple_head regK_mark_applying drive_current_triple [OF assms])
     (auto intro!: keepsT_mapErr regK_steps)

lemma reconcile_achieves:
  assumes rm: "se_Routes env = Some rm" and drive: "drive_achieves env rm role prefix i Q"
  shows "tripleT (regK (desires (role, prefix) i)) (reconcileRecordLocked env role prefix) (\<lambda>_. Q) (\<lambda>_. True)"
proof -
  let ?P = "regK (desires (role, prefix) i)" and ?Q = "\<lambda>_ :: bool. Q"
  have repair: "tripleT ?P (bindT (on_registry (BeginRepair role prefix)) (\<lambda>_.
       bindT (checkpointNow env role) (\<lambda>_. bindT (getT (registryEntry role prefix)) (\<lambda>rec'.
       case rec' of None \<Rightarrow> throwT (Errorf ''nil record'') | Some rec' \<Rightarrow> reconcile_pending env rm role prefix rec'))))
      ?Q (\<lambda>_. True)"
    by (intro triple_head regK_begin_repair regK_checkpoint_now keepsT_get)
       (auto intro!: pending_triple [OF drive] triple_throw split: option.splits)
  have step: "tripleT (\<lambda>m. ?P m \<and> x = registryEntry role prefix m)
      (case x of None \<Rightarrow> throwT (Errorf ''reconcile %s: the record is not registered'')
       | Some rec \<Rightarrow> (case sr_State rec of
            SelectedActive \<Rightarrow> bindT (on_registry (BeginRepair role prefix)) (\<lambda>_.
               bindT (checkpointNow env role) (\<lambda>_. bindT (getT (registryEntry role prefix)) (\<lambda>rec'.
               case rec' of None \<Rightarrow> throwT (Errorf ''nil record'') | Some rec' \<Rightarrow> reconcile_pending env rm role prefix rec')))
          | SelectedPending \<Rightarrow> reconcile_pending env rm role prefix rec
          | SelectedApplying \<Rightarrow> driveTransaction env rm role rec
          | SelectedRetiring \<Rightarrow> throwT e1 | StateOther s \<Rightarrow> throwT e2)) ?Q (\<lambda>_. True)" for x e1 e2
  proof (cases x)
    case (Some rec)
    have weak: "tripleT (\<lambda>m. ?P m \<and> x = registryEntry role prefix m) t ?Q (\<lambda>_. True)" if "tripleT ?P t ?Q (\<lambda>_. True)" for t
      by (rule triple_conseq [OF that]) auto
    have drive': "tripleT (\<lambda>m. ?P m \<and> x = registryEntry role prefix m) (driveTransaction env rm role rec) ?Q (\<lambda>_. True)"
      using drive Some by (simp add: drive_achieves_def)
    have throw: "tripleT (\<lambda>m. ?P m \<and> x = registryEntry role prefix m) (throwT e) ?Q (\<lambda>_. True)" for e
      by (rule triple_throw) simp
    show ?thesis
      unfolding Some option.case
      using weak [OF repair] weak [OF pending_triple [OF drive]] drive' throw
      by (cases "sr_State rec") (simp_all only: selected_state.case Some)
  qed (auto intro!: triple_throw)
  show ?thesis
    unfolding reconcileRecordLocked_def rm option.case
    by (rule triple_bind [OF triple_get step]) simp
qed

text \<open>What the drives of an environment achieve: an active record and, on the host, \<open>shown\<close>.\<close>

definition achieves :: "'k manager_env \<Rightarrow> (netprefix \<Rightarrow> selected_identity \<Rightarrow> 'k \<Rightarrow> bool) \<Rightarrow> bool" where
  "achieves env shown \<longleftrightarrow> (\<forall>rm role prefix i. se_Routes env = Some rm \<longrightarrow>
     drive_achieves env rm role prefix i (\<lambda>m. regK (active_on (role, prefix) i) m \<and> shown prefix i (sm_Kernel m)))"

lemma drive_active: "drive_achieves env rm role prefix i (regK (active_on (role, prefix) i))"
  unfolding drive_achieves_def
proof
  fix rec
  show "tripleT (\<lambda>m. regK (desires (role, prefix) i) m \<and> Some rec = registryEntry role prefix m)
      (driveTransaction env rm role rec) (\<lambda>_. regK (active_on (role, prefix) i)) (\<lambda>_. True)"
  proof (cases "sr_Prefix rec = prefix")
    case True
    show ?thesis by (rule triple_conseq [OF drive_triple [OF True]]) auto
  qed (auto simp: tripleT_def dest: valid.entry_prefix [OF sym])
qed

lemma achieves_active: "achieves env (\<lambda>_ _ _. True)"
  by (simp add: achieves_def drive_active)

section \<open>Ensure\<close>

lemma snapshot_active:
  assumes ok: "manager_ok m" and e: "e \<in> set (registry_Snapshot role (sm_Registry m))" "sr_Prefix e = prefix"
  shows "registry_abs (sm_Registry m) (role, prefix) = Some (read_record e m)"
proof -
  from ok have wf: "gomap_wf (rg_Entries (sm_Registry m))" and valid: "records_ok (registry_abs (sm_Registry m))"
    by (auto simp: manager_ok_def registry_ok_def valid_under_def)
  from e(1) have "read_record e m \<in> set (snapshot_values role (sm_Registry m))"
    by (auto simp: snapshot_values_def read_record_def)
  then obtain key where key: "registry_abs (sm_Registry m) key = Some (read_record e m)" "sr_Role (read_record e m) = role"
    unfolding snapshot_values_set [OF wf] by blast
  with valid have "key = (sr_Role (read_record e m), sr_Prefix (read_record e m))"
    unfolding records_ok_def record_ok_def by blast
  with key e(2) show ?thesis by (simp add: read_record_def)
qed

lemma token_active:
  assumes "manager_ok m" and "token_proves env role zone prefix source g tg identity m"
  shows "regK (active_on (role, prefix) identity) m"
proof -
  from assms(2) obtain e where "e \<in> set (registry_Snapshot role (sm_Registry m))" "sr_Prefix e = prefix"
    "sr_State e = SelectedActive" "sr_Desired e = identity" "sr_Owned e = Some (sr_Desired e)"
    by (auto simp: token_proves_def list_ex_iff)
  with snapshot_active [OF assms(1) this(1, 2)] assms(1) show ?thesis
    by (simp add: regK_def active_on_def read_record_def)
qed

lemma reserve_triple:
  "tripleT manager_ok (on_registry (Reserve role zone prefix source tg rg iface identity))
     (\<lambda>_. regK (desires (role, prefix) identity)) (\<lambda>_. True)"
proof (rule tripleI)
  fix m x m'
  assume ok: "manager_ok m" and run: "on_registry (Reserve role zone prefix source tg rg iface identity) m = (Inr x, m')"
  then have run': "on_registry (run_op (OpReserve role zone prefix source tg rg iface identity)) m = (Inr x, m')" by simp
  have "desires (role, prefix) identity M'" if "abs_op (OpReserve role zone prefix source tg rg iface identity) M = (Inr x, M')" for M M'
    using that by (auto simp: desires_def abs_Reserve_def reserve_entry_def Let_def split: if_splits option.splits)
  from this [OF on_registry_abs [OF ok run']] keepsTD [OF manager_ok_op ok run']
  show "regK (desires (role, prefix) identity) m'" by (simp add: regK_def)
qed simp

text \<open>The identity is what the platform normalized for the interface, in some host state.\<close>

definition normalized :: "'k route_manager \<Rightarrow> string \<Rightarrow> netprefix \<Rightarrow> int \<Rightarrow> selected_identity \<Rightarrow> bool" where
  "normalized rm role prefix ifIndex i \<longleftrightarrow> (\<exists>k k'. rm_NormalizeSelectedRoute rm
     \<lparr>sd_Role = role, sd_Prefix = prefix, sd_IfIndex = ifIndex, sd_Gateway = AddrZero\<rparr> k = (Inr i, k'))"

text \<open>A destination is ensured: its record is active and, unless a token proved it already, the host
  shows it.\<close>

definition ensured ::
  "'k manager_env \<Rightarrow> (netprefix \<Rightarrow> selected_identity \<Rightarrow> 'k \<Rightarrow> bool) \<Rightarrow> string \<Rightarrow> netprefix \<Rightarrow> int \<Rightarrow> bool \<Rightarrow>
     'k selected_manager \<Rightarrow> bool" where
  "ensured env shown role prefix ifIndex already m \<longleftrightarrow> manager_ok m \<and>
     (\<exists>rm i. se_Routes env = Some rm \<and> normalized rm role prefix ifIndex i \<and>
        active_on (role, prefix) i (registry_abs (sm_Registry m)) \<and> (already \<or> shown prefix i (sm_Kernel m)))"

lemma apply_triple:
  fixes env :: "'k manager_env"
  assumes achieves: "achieves env shown"
  shows "tripleT manager_ok (applySelectedRouteCanonical env role zone prefix source ifIndex iface g tg)
     (ensured env shown role prefix ifIndex) (\<lambda>_. True)"
proof (cases "se_Routes env")
  case (Some rm)
  let ?norm = "normalized rm role prefix ifIndex"
  let ?done = "\<lambda>i m. regK (active_on (role, prefix) i) m \<and> shown prefix i (sm_Kernel m)"
  have result: "tripleT (\<lambda>m. ?norm i \<and> P m) t (ensured env shown role prefix ifIndex) (\<lambda>_. True)"
    if "tripleT P t (\<lambda>_. ?done i) (\<lambda>_. True)" for P i and t :: "('k selected_manager, bool) tx"
    by (rule triple_conseq [OF triple_and [OF that, of "\<lambda>_. ?norm i" "\<lambda>_ _. ?norm i" "\<lambda>_. True"]])
       (auto simp: ensured_def regK_def Some tripleT_def split: prod.splits sum.splits)
  have norm: "tripleT manager_ok (on_kernel (rm_NormalizeSelectedRoute rm
      \<lparr>sd_Role = role, sd_Prefix = prefix, sd_IfIndex = ifIndex, sd_Gateway = AddrZero\<rparr>))
      (\<lambda>i m. ?norm i \<and> manager_ok m) (\<lambda>_. True)"
    by (auto simp: tripleT_def on_kernel_def normalized_def split: prod.splits sum.splits)
  have "drive_achieves env rm role prefix i (?done i)" for i using achieves Some by (simp add: achieves_def)
  note reconcile = reconcile_achieves [OF Some this]
  have slow: "tripleT manager_ok (bindT (on_registry (Reserve role zone prefix source tg g iface i)) (\<lambda>_.
       bindT (mapErrT f1 (writeCheckpoint env role g)) (\<lambda>_.
       bindT (runFailpoint env point role prefix) (\<lambda>_.
       mapErrT f2 (bindT (reconcileRecordLocked env role prefix) (\<lambda>mutated. returnT (\<not> mutated)))))))
      (\<lambda>_. ?done i) (\<lambda>_. True)" for i f1 f2 point
    by (rule triple_bind [OF reserve_triple], rule triple_head [OF keepsT_mapErr [OF regK_checkpoint]], simp,
        rule triple_head [OF keeps_failpoint], simp, rule triple_mapErr, rule triple_bind [OF reconcile],
        rule triple_return)
  have body: "tripleT (\<lambda>m. ?norm i \<and> manager_ok m)
      (bindT (getT (token_proves env role zone prefix source g tg i)) (\<lambda>fastPath.
         if fastPath then returnT True else t)) (ensured env shown role prefix ifIndex) (\<lambda>_. True)"
    if "tripleT manager_ok t (\<lambda>_. ?done i) (\<lambda>_. True)" for t i
  proof (rule triple_bind [OF triple_get])
    fix m :: "'k selected_manager"
    assume "?norm i \<and> manager_ok m"
    then show "?norm i \<and> manager_ok m \<and> (token_proves env role zone prefix source g tg i m \<longrightarrow>
        ensured env shown role prefix ifIndex True m)"
      using token_active [of m env role zone prefix source g tg i] Some by (auto simp: ensured_def regK_def)
  next
    fix fast
    show "tripleT (\<lambda>m. ?norm i \<and> manager_ok m \<and> (fast \<longrightarrow> ensured env shown role prefix ifIndex True m))
      (if fast then returnT True else t) (ensured env shown role prefix ifIndex) (\<lambda>_. True)"
      by (cases fast) (auto intro!: triple_return triple_conseq [OF result [OF that]])
  qed
  show ?thesis
    unfolding applySelectedRouteCanonical_def Some option.case by (rule triple_bind [OF norm body [OF slow]])
qed (auto simp: applySelectedRouteCanonical_def intro!: triple_throw)

lemma ensured_role [simp]: "ensured env shown role prefix i b (update_role role' f m) = ensured env shown role prefix i b m"
  by (simp add: ensured_def)

text \<open>The gates an admitted intent has passed.\<close>

definition admitted :: "'k manager_env \<Rightarrow> leshy_intent \<Rightarrow> string \<Rightarrow> netprefix \<Rightarrow> role_runtime \<Rightarrow> 'k selected_manager \<Rightarrow> bool" where
  "admitted env intent role prefix runtime m \<longleftrightarrow>
     zone_role env (li_Zone intent) = Some role \<and> canonicalIntentPrefix intent = Inr prefix \<and>
     (managedSelected env role \<longrightarrow> sm_AuthorityReady m) \<and> \<not> rl_frozen (roleState role m) \<and>
     se_RoleRuntime env role = Some runtime \<and> rr_Desired runtime \<and> vr_Healthy (rr_Validation runtime) \<and>
     family_ready (if addr_Is4 (prefix_Addr prefix) then 4 else 6) (rr_Validation runtime) \<and>
     0 < ts_IfIndex (rr_Toad runtime) \<and>
     (li_Source intent = LeshyRouteDNS \<longrightarrow> dns_used role prefix m < se_Capacity env)"

lemma roleState_update [simp]: "roleState role (update_role role f m) = f (roleState role m)"
  by (simp add: roleState_def update_role_def)

lemma dns_used_role [simp]: "dns_used role prefix (update_role role' f m) = dns_used role prefix m"
  by (simp add: dns_used_def)

lemma admission_Inr:
  "admission env intent role prefix family (update_role role (\<lambda>s. s\<lparr>rl_ensures := n s\<rparr>) m) = Inr runtime \<longleftrightarrow>
     \<not> rl_frozen (roleState role m) \<and> se_RoleRuntime env role = Some runtime \<and> rr_Desired runtime \<and>
     vr_Healthy (rr_Validation runtime) \<and> family_ready family (rr_Validation runtime) \<and>
     0 < ts_IfIndex (rr_Toad runtime) \<and>
     (li_Source intent = LeshyRouteDNS \<longrightarrow> dns_used role prefix m < se_Capacity env)"
  by (auto simp: admission_def split: option.splits if_splits)

lemma ensure_apply_success:
  assumes achieves: "achieves env shown" and ok: "manager_ok m" and run: "ensure_apply env intent role prefix runtime result m = ((res, None), m')"
  shows "ensured env shown role prefix (ts_IfIndex (rr_Toad runtime)) (lr_State res = ''already-applied'') m' \<and>
      lr_State res \<in> {''applied'', ''already-applied''}"
proof -
  let ?m = "update_role role beginFlight m"
  let ?t = "applySelectedRouteCanonical env role (li_Zone intent) prefix
      (if li_Source intent = LeshyRouteStatic then SelectedStatic else SelectedDNS)
      (ts_IfIndex (rr_Toad runtime)) (ts_InterfaceName (rr_Toad runtime))
      (rl_routeGeneration (roleState role ?m)) (rr_ToadGeneration runtime)"
  obtain x m1 where t: "?t ?m = (x, m1)" by force
  from ok have ok': "manager_ok ?m" by simp
  show ?thesis
  proof (cases x)
    case (Inl e)
    with run t show ?thesis by (simp add: ensure_apply_def Let_def)
  next
    case (Inr fast)
    with triple_value [OF apply_triple [OF achieves] ok'] t have "ensured env shown role prefix (ts_IfIndex (rr_Toad runtime)) fast m1" by blast
    with run t Inr show ?thesis by (auto simp: ensure_apply_def Let_def split: if_splits)
  qed
qed

lemma ensure_intent_success:
  assumes achieves: "achieves env shown" and ok: "manager_ok m" and run: "ensure_intent env intent m = ((res, None), m')"
  shows "\<exists>role prefix runtime. admitted env intent role prefix runtime m \<and>
           ensured env shown role prefix (ts_IfIndex (rr_Toad runtime)) (lr_State res = ''already-applied'') m' \<and>
      lr_State res \<in> {''applied'', ''already-applied''}"
proof -
  from run obtain role where role: "map_of (se_ZoneRoles env) (li_Zone intent) = Some [role]"
    by (auto simp: ensure_intent_def split: option.splits list.splits)
  with run obtain prefix where prefix: "canonicalIntentPrefix intent = Inr prefix"
    by (auto simp: ensure_intent_def split: sum.splits)
  let ?family = "if addr_Is4 (prefix_Addr prefix) then 4 else 6 :: int"
  let ?m = "update_role role (\<lambda>s. s\<lparr>rl_ensures := rl_ensures s + 1\<rparr>) m"
  from run role prefix have gate: "managedSelected env role \<longrightarrow> sm_AuthorityReady m"
    by (auto simp: ensure_intent_def Let_def split: if_splits)
  with run role prefix obtain runtime where adm: "admission env intent role prefix ?family ?m = Inr runtime"
    by (auto simp: ensure_intent_def Let_def split: sum.splits if_splits)
  with run role prefix gate have "ensure_apply env intent role prefix runtime
      (intent_result role intent (prefix_String prefix) ?family []) ?m = ((res, None), m')"
    by (auto simp: ensure_intent_def Let_def split: if_splits)
  from ensure_apply_success [OF achieves _ this] ok have
    "ensured env shown role prefix (ts_IfIndex (rr_Toad runtime)) (lr_State res = ''already-applied'') m' \<and>
      lr_State res \<in> {''applied'', ''already-applied''}" by simp
  moreover from adm role prefix gate have "admitted env intent role prefix runtime m"
    by (simp add: admitted_def admission_Inr zone_role_def)
  ultimately show ?thesis by blast
qed

lemma ensure_intent_refused:
  assumes "\<And>role prefix runtime. \<not> admitted env intent role prefix runtime m"
  shows "\<exists>res e m'. ensure_intent env intent m = ((res, Some e), m') \<and> isDeniedErr e \<and> \<not> isConflictErr e \<and>
           sm_Registry m' = sm_Registry m \<and> sm_Kernel m' = sm_Kernel m \<and> sm_Disk m' = sm_Disk m"
proof (cases "\<exists>role prefix. map_of (se_ZoneRoles env) (li_Zone intent) = Some [role] \<and> canonicalIntentPrefix intent = Inr prefix")
  case False
  then show ?thesis
    by (auto simp: ensure_intent_def split: option.splits list.splits sum.splits)
next
  case True
  then obtain role prefix where role: "map_of (se_ZoneRoles env) (li_Zone intent) = Some [role]"
    and prefix: "canonicalIntentPrefix intent = Inr prefix" by blast
  let ?m = "update_role role (\<lambda>s. s\<lparr>rl_ensures := rl_ensures s + 1\<rparr>) m"
  let ?family = "if addr_Is4 (prefix_Addr prefix) then 4 else 6 :: int"
  show ?thesis
  proof (cases "managedSelected env role \<and> \<not> sm_AuthorityReady m")
    case True
    with role prefix show ?thesis by (auto simp: ensure_intent_def Let_def)
  next
    case False
    have "admission env intent role prefix ?family ?m \<noteq> Inr runtime" for runtime
      using assms [of role prefix runtime] False role prefix by (auto simp: admission_Inr admitted_def zone_role_def)
    then obtain reason flag where "admission env intent role prefix ?family ?m = Inl (reason, flag)"
      by (cases "admission env intent role prefix ?family ?m") auto
    with role prefix False show ?thesis by (auto simp: ensure_intent_def Let_def)
  qed
qed

end
