(* ===== verification/Linux_Platform.thy ===== *)
theory Linux_Platform
  imports Manager_Outcomes Linux_Facts
begin

text \<open>
  What the selected-route manager relies on when it calls a platform (the contract of
  \<^verbatim>\<open>RouteManager\<close> in \<^verbatim>\<open>toad/internal/platform/contracts.go\<close>): a reconciliation that succeeds
  leaves a host that shows the desired identity of the record, and writing a checkpoint does
  not take that back. Over such a platform an applied intent is shown by the host.
\<close>

locale proving_platform =
  fixes env :: "'k manager_env" and shown :: "netprefix \<Rightarrow> selected_identity \<Rightarrow> 'k \<Rightarrow> bool"
  assumes reconcile_shows:
      "se_Routes env = Some rm \<Longrightarrow> rm_ReconcileSelectedRoute rm d v k = (Inr res, k') \<Longrightarrow> shown (sd_Prefix d) (sr_Desired v) k'"
    and checkpoint_keeps: "shown p i k \<Longrightarrow> se_WriteCheckpoint env path c k = (r, k') \<Longrightarrow> shown p i k'"
begin

lemma keeps_checkpoint: "keepsT (\<lambda>m. shown p i (sm_Kernel m)) (writeCheckpoint env role g)"
proof (rule keepsTI)
  fix m r m'
  assume "shown p i (sm_Kernel m)" and "writeCheckpoint env role g m = (r, m')"
  then show "shown p i (sm_Kernel m')"
    using checkpoint_keeps by (auto simp: writeCheckpoint_def Let_def split: option.splits if_splits prod.splits sum.splits)
qed

lemma keeps_checkpoint_now: "keepsT (\<lambda>m. shown p i (sm_Kernel m)) (checkpointNow env role)"
  using keeps_checkpoint [of p i role] by (simp add: keepsT_def checkpointNow_def touch_role_def)

lemma keeps_shown_registry: "keepsT (\<lambda>m. shown p i (sm_Kernel m)) (on_registry t)"
  by (auto simp: keepsT_def on_registry_def split: prod.splits)

lemma keeps_shown_mint: "keepsT (\<lambda>m. shown p i (sm_Kernel m)) (putT (mintVerificationToken role e))"
  by (auto simp: keepsT_def mintVerificationToken_def split: option.splits)

lemmas keeps_shown = keeps_checkpoint_now keeps_shown_registry keeps_shown_mint

lemma drive_shows:
  assumes rm: "se_Routes env = Some rm"
  shows "tripleT (\<lambda>_. True) (driveTransaction env rm role rec)
    (\<lambda>_ m. shown (sr_Prefix rec) (sr_Desired rec) (sm_Kernel m)) (\<lambda>_. True)"
proof -
  let ?d = "\<lparr>sd_Role = role, sd_Prefix = sr_Prefix rec, sd_IfIndex = si_IfIndex (sr_Desired rec), sd_Gateway = AddrZero\<rparr>"
  let ?S = "\<lambda>m. shown (sr_Prefix rec) (sr_Desired rec) (sm_Kernel m)"
  have call: "tripleT (\<lambda>_. True) (\<lambda>m. on_kernel (rm_ReconcileSelectedRoute rm ?d (read_record rec m)) m) (\<lambda>_. ?S) (\<lambda>_. True)"
    using reconcile_shows [OF rm, of ?d]
    by (auto simp: tripleT_def on_kernel_def read_record_def split: prod.splits sum.splits) fastforce
  show ?thesis
    unfolding driveTransaction_def
    by (auto intro!: triple_throw triple_bind [OF call] triple_head [OF keeps_failpoint] triple_head [OF keepsT_require]
        triple_head [OF keeps_shown(1)] triple_head [OF keeps_shown(2)] triple_head [OF keeps_shown(3)] triple_return)
qed

lemma drives_show: "achieves env shown"
  unfolding achieves_def drive_achieves_def
proof (intro allI impI)
  fix rm role prefix i rec
  assume rm: "se_Routes env = Some rm"
  let ?P = "\<lambda>m. regK (desires (role, prefix) i) m \<and> Some rec = registryEntry role prefix m"
  have active: "tripleT ?P (driveTransaction env rm role rec) (\<lambda>_. regK (active_on (role, prefix) i)) (\<lambda>_. True)"
    using drive_active [of env rm role prefix i] by (simp add: drive_achieves_def)
  have rec: "sr_Prefix rec = prefix \<and> sr_Desired rec = i" if "?P m" for m
  proof -
    from that have e: "rec \<in> set (registry_Snapshot role (sm_Registry m))" "sr_Prefix rec = prefix" and "manager_ok m"
      by (auto simp: registryEntry_def find_Some_iff regK_def eq_commute [of "Some rec"])
    from snapshot_active [OF this(3) e] that e(2) show ?thesis by (simp add: regK_def desires_def read_record_def)
  qed
  have "tripleT ?P (driveTransaction env rm role rec) (\<lambda>_ m. shown prefix i (sm_Kernel m)) (\<lambda>_. True)"
  proof (cases "sr_Prefix rec = prefix \<and> sr_Desired rec = i")
    case True
    with drive_shows [OF rm, of role rec] show ?thesis by (auto elim: triple_conseq)
  next
    case False
    with rec show ?thesis by (auto simp: tripleT_def)
  qed
  from triple_and [OF active this] show "tripleT ?P (driveTransaction env rm role rec)
      (\<lambda>_ m. regK (active_on (role, prefix) i) m \<and> shown prefix i (sm_Kernel m)) (\<lambda>_. True)"
    by (simp add: conj_ac)
qed

end

section \<open>The Linux writer\<close>

text \<open>
  The Linux writer under the selected-route manager: what a host shows is what the kernel listed
  last, and the writer keeps the contract of the manager for every netlink library.
\<close>

section \<open>What the host shows\<close>

text \<open>The rows the kernel listed last hold the route exactly once, and beside it parks only.\<close>

definition linux_shown :: "netprefix \<Rightarrow> selected_identity \<Rightarrow> 'k \<times> nl_call list \<Rightarrow> bool" where
  "linux_shown p i s =
     (let rows = map (\<lambda>row. selectedKernelRow row p) (last_rows [] (snd s))
      in length (filter (\<lambda>row. SelectedRowMatchesIdentity row i) rows) = 1 \<and>
         list_all (\<lambda>row. SelectedRowMatchesIdentity row i \<or> kr_Kind row = SelectedKernelPark) rows)"

text \<open>An environment of the manager over the Linux writer; the checkpoint writer does not use netlink.\<close>

definition linux_env :: "'k netlink \<Rightarrow> ('k \<times> nl_call list \<Rightarrow> u64) \<Rightarrow> (string \<Rightarrow> selected_checkpoint \<Rightarrow> ('k, unit) tx) \<Rightarrow>
    ('k \<times> nl_call list) manager_env \<Rightarrow> ('k \<times> nl_call list) manager_env" where
  "linux_env nl sequence writer env = env\<lparr>se_Routes := Some (linux_route_manager (logged_netlink nl) sequence),
     se_WriteCheckpoint := (\<lambda>path c. quietly (writer path c))\<rparr>"

section \<open>The contract\<close>

lemma triple_any: "tripleT P t (\<lambda>_ _. True) (\<lambda>_. True)"
  by (simp add: tripleT_def split: prod.splits sum.splits)

lemma triple_rows_read:
  "tripleT P (selectedRouteRows (logged_netlink nl) family q) (\<lambda>rows s. last_rows [] (snd s) = rows) (\<lambda>_. True)"
  by (cases "net_ParseCIDR (prefix_String q)")
     (auto simp: selectedRouteRows_def logged_netlink_def note_rows_def tripleT_def last_rows_append split: prod.splits sum.splits)

lemma reconcile_reads:
  "tripleT (\<lambda>_. True) (linux_ReconcileSelectedRoute (logged_netlink nl) d (Some v))
     (\<lambda>_ s. selectedRoutePlan (last_rows [] (snd s)) (sd_Prefix d) (Some v) = Inr SelectedActionNone) (\<lambda>_. True)"
proof -
  let ?p = "sd_Prefix d"
  have reading: "tripleT (\<lambda>_. True)
      (bindT (selectedRouteRows (logged_netlink nl) (prefix_nl_family ?p) ?p) (\<lambda>rows.
       bindT (mapErrT f (fromSum (selectedRoutePlan rows ?p (Some v)))) (\<lambda>verified.
       bindT (requireT (verified = SelectedActionNone) e) (\<lambda>_. returnT x))))
      (\<lambda>_ s. selectedRoutePlan (last_rows [] (snd s)) ?p (Some v) = Inr SelectedActionNone) (\<lambda>_. True)" for f e and x :: reconcile_result
    by (rule triple_bind [OF triple_rows_read])
       (auto simp: tripleT_def bindT_def mapErrT_def fromSum_def requireT_apply split: sum.splits)
  show ?thesis
    unfolding linux_ReconcileSelectedRoute_def Let_def option.case
    by (intro triple_if triple_throw triple_bind [OF triple_any] triple_pure_sum reading) auto
qed

lemma plan_none_rows:
  assumes "PlanSelectedRoute rows (Some v) = Inr SelectedActionNone"
  shows "length (filter (desired_row v) rows) = 1" "list_all (\<lambda>row. desired_row v row \<or> park_row v row) rows"
proof -
  from assms have "\<forall>row \<in> set rows. accounted v row" and one: "length (filter (desired_row v) rows) = 1"
    and none: "length (filter (stale_row v) rows) = 0"
    by (auto simp: Plan_Inr_iff plan_counts_def split: if_splits)
  moreover from none have "\<not> stale_row v row" if "row \<in> set rows" for row using that by (auto simp: filter_empty_conv)
  ultimately show "length (filter (desired_row v) rows) = 1" "list_all (\<lambda>row. desired_row v row \<or> park_row v row) rows"
    by (auto simp: accounted_def list_all_iff)
qed

lemma planned_shown:
  assumes "selectedRoutePlan (last_rows [] (snd s)) p (Some v) = Inr SelectedActionNone"
  shows "linux_shown p (sr_Desired v) s"
proof -
  note rows = plan_none_rows [OF assms [unfolded selectedRoutePlan_def]]
  have "list_all (\<lambda>row. SelectedRowMatchesIdentity row (sr_Desired v) \<or> kr_Kind row = SelectedKernelPark)
      (map (\<lambda>row. selectedKernelRow row p) (last_rows [] (snd s)))"
    by (rule list.pred_mono_strong [OF rows(2)]) (auto simp: desired_row_def park_row_def)
  with rows(1) show ?thesis unfolding linux_shown_def Let_def desired_row_def by blast
qed

interpretation linux: proving_platform "linux_env nl sequence writer env" linux_shown for nl sequence writer env
proof
  fix rm d v k res k'
  assume "se_Routes (linux_env nl sequence writer env) = Some rm" and "rm_ReconcileSelectedRoute rm d v k = (Inr res, k')"
  then have "linux_ReconcileSelectedRoute (logged_netlink nl) d (Some v) k = (Inr res, k')"
    by (auto simp: linux_env_def linux_route_manager_def)
  from triple_value [OF reconcile_reads _ this] show "linux_shown (sd_Prefix d) (sr_Desired v) k'"
    by (intro planned_shown) simp
next
  fix p i k path c r k'
  assume "linux_shown p i k" and "se_WriteCheckpoint (linux_env nl sequence writer env) path c k = (r, k')"
  then show "linux_shown p i k'" by (auto simp: linux_env_def linux_shown_def quietly_def split: prod.splits)
qed

end
