(* ===== verification/Windows_Routes.thy ===== *)
theory Windows_Routes
  imports Linux_Routes
begin

text \<open>
  The Windows route writer (\<^verbatim>\<open>toad/internal/platform/windows/routes\<close>): operations and endpoint
  routes, the exact selected routes with their coherent cache, the loopback parks and the effective
  metric. The IP Helper interface \<^verbatim>\<open>windowsRouteApi\<close> is a parameter: a record of its calls, each
  a transaction on the state \<open>'k\<close> of the host, which other programs change as well. The
  counters that the notification callback increments at any time belong to the host. The executor
  mutex is left out.
\<close>

section \<open>The IP Helper interface\<close>

text \<open>A forwarding row, by the fields the writer sets or reads. A next hop that was not set is
  \<^term>\<open>AddrZero\<close>.\<close>

record mib_row =
  mr_Prefix :: netprefix
  mr_InterfaceIndex :: u32
  mr_InterfaceLUID :: u64
  mr_NextHop :: addr
  mr_Metric :: u32
  mr_Protocol :: int
  mr_ValidLifetime :: u32
  mr_PreferredLifetime :: u32

definition AF_INET :: int where "AF_INET = 2"
definition AF_INET6 :: int where "AF_INET6 = 23"

text \<open>\<open>wa_encodable\<close> tells the addresses the socket address structures accept. \<open>wa_attempts\<close> bounds
  the rounds of a refresh that notifications keep interrupting.\<close>

record 'k windows_api =
  wa_routeTable :: "int \<Rightarrow> ('k, mib_row list) tx"
  wa_createRoute :: "mib_row \<Rightarrow> ('k, unit) tx"
  wa_deleteRoute :: "mib_row \<Rightarrow> ('k, unit) tx"
  wa_interfaceMetricByLuid :: "u64 \<Rightarrow> int \<Rightarrow> ('k, u32) tx"
  wa_luidFromIndex :: "u32 \<Rightarrow> ('k, u64) tx"
  wa_loopbackIndex :: "'k \<Rightarrow> u32"
  wa_unicastAddress :: "int \<Rightarrow> u32 \<Rightarrow> ('k, addr) tx"
  wa_notifyGeneration :: "'k \<Rightarrow> u64"
  wa_observationSequence :: "'k \<Rightarrow> u64"
  wa_encodable :: "addr \<Rightarrow> bool"
  wa_attempts :: nat

record 'k windows_executor =
  we_host :: 'k
  we_selectedCache :: "(netprefix, kernel_row list) gomap"
  we_selectedCacheReady :: bool
  we_cacheGeneration :: u64

definition windows_NewExecutor :: "'k \<Rightarrow> 'k windows_executor" where
  "windows_NewExecutor k = \<lparr>we_host = k, we_selectedCache = [], we_selectedCacheReady = False, we_cacheGeneration = 0\<rparr>"

definition on_host :: "('k, 'a) tx \<Rightarrow> ('k windows_executor, 'a) tx" where
  "on_host t e = (case t (we_host e) of (r, k) \<Rightarrow> (r, e\<lparr>we_host := k\<rparr>))"

definition ownedRouteProtocol :: int where
  "ownedRouteProtocol = 3"

definition endpointRouteMetric :: u32 where
  "endpointRouteMetric = 1"

definition parkRouteMetric :: u32 where
  "parkRouteMetric = 42760"

definition kernelTable :: int where
  "kernelTable = 254"

section \<open>Rows\<close>

definition row_init :: "operation \<Rightarrow> mib_row" where
  "row_init op = \<lparr>mr_Prefix = prefix_zero, mr_InterfaceIndex = 0, mr_InterfaceLUID = 0, mr_NextHop = AddrZero,
     mr_Metric = op_Metric op, mr_Protocol = ownedRouteProtocol, mr_ValidLifetime = 0xFFFFFFFF,
     mr_PreferredLifetime = 0xFFFFFFFF\<rparr>"

text \<open>Setting the LUID of the interface a row already names; an interface without one keeps zero.\<close>

definition row_luid :: "'k windows_api \<Rightarrow> mib_row \<Rightarrow> ('k windows_executor, mib_row) tx" where
  "row_luid api row =
     bindT (tryT (on_host (wa_luidFromIndex api (mr_InterfaceIndex row)))) (\<lambda>res.
     returnT (case res of Inl e \<Rightarrow> row | Inr luid \<Rightarrow> row\<lparr>mr_InterfaceLUID := luid\<rparr>))"

definition row_interface :: "'k windows_api \<Rightarrow> operation \<Rightarrow> mib_row \<Rightarrow> ('k windows_executor, mib_row) tx" where
  "row_interface api op row =
     (if op_InterfaceLuid op \<noteq> 0
        then returnT (row\<lparr>mr_InterfaceLUID := op_InterfaceLuid op, mr_InterfaceIndex := word_of_int (op_IfIndex op)\<rparr>)
      else if 0 < op_IfIndex op then row_luid api (row\<lparr>mr_InterfaceIndex := word_of_int (op_IfIndex op)\<rparr>)
      else returnT row)"

definition row_hop ::
  "'k windows_api \<Rightarrow> string \<Rightarrow> addr \<Rightarrow> mib_row \<Rightarrow> ('k windows_executor, mib_row) tx" where
  "row_hop api err hop row =
     bindT (requireT (wa_encodable api hop) (Errorf err)) (\<lambda>_. returnT (row\<lparr>mr_NextHop := hop\<rparr>))"

text \<open>The loopback interface and next hop of a park.\<close>

definition row_loopback ::
  "'k windows_api \<Rightarrow> operation \<Rightarrow> netprefix \<Rightarrow> mib_row \<Rightarrow> ('k windows_executor, mib_row) tx" where
  "row_loopback api op prefix row =
     bindT (if op_InterfaceLuid op = 0 then
              bindT (if 0 < op_IfIndex op then returnT (word_of_int (op_IfIndex op))
                     else getT (\<lambda>e. wa_loopbackIndex api (we_host e))) (\<lambda>index.
              row_luid api (row\<lparr>mr_InterfaceIndex := index\<rparr>))
            else returnT row)
       (row_hop api ''encode loopback next hop for %q: %w''
          (if addr_Is6 (prefix_Addr prefix) then Addr6 1 [] else Addr4 0x7f000001))"

definition is_delete :: "operation \<Rightarrow> bool" where
  "is_delete op = (op_Kind op = ''delete-route'' \<or> op_Kind op = ''delete-park'')"

definition rowForOperation :: "'k windows_api \<Rightarrow> operation \<Rightarrow> ('k windows_executor, mib_row) tx" where
  "rowForOperation api op =
     (case ParsePrefix (op_Prefix op) of
        None \<Rightarrow> throwT (Errorf ''parse route prefix %q: %w'')
      | Some prefix \<Rightarrow>
          bindT (requireT (wa_encodable api (prefix_Addr prefix)) (Errorf ''encode route prefix %q: %w'')) (\<lambda>_.
          bindT (row_interface api op ((row_init op)\<lparr>mr_Prefix := prefix\<rparr>)) (\<lambda>row.
          if op_InterfaceLuid op \<noteq> 0 \<and> is_delete op \<and> op_Gateway op = [] then returnT row
          else if op_Kind op = ''park'' \<or> op_Kind op = ''unreachable'' \<or> op_Kind op = ''delete-park''
            then row_loopback api op prefix row
          else if op_Gateway op \<noteq> [] then
            (case ParseAddr (op_Gateway op) of
               None \<Rightarrow> throwT (Errorf ''invalid route gateway %q: %w'')
             | Some gateway \<Rightarrow> row_hop api ''encode next hop %q: %w'' gateway row)
          else
            bindT (mapErrT (Wrapf ''resolve on-link next hop for %q: %w'')
                     (on_host (wa_unicastAddress api (if addr_Is6 (prefix_Addr prefix) then AF_INET6 else AF_INET)
                        (mr_InterfaceIndex row)))) (\<lambda>source.
            row_hop api ''encode on-link next hop for %q: %w'' source row))))"

section \<open>Operations\<close>

definition notFound :: "goerror \<Rightarrow> bool" where
  "notFound e = errorsIs e ERROR_NOT_FOUND"

definition alreadyExists :: "goerror \<Rightarrow> bool" where
  "alreadyExists e = errorsIs e ERROR_OBJECT_ALREADY_EXISTS"

definition create_row :: "'k windows_api \<Rightarrow> mib_row \<Rightarrow> ('k windows_executor, unit) tx" where
  "create_row api row = on_host (wa_createRoute api row)"

definition delete_row :: "'k windows_api \<Rightarrow> mib_row \<Rightarrow> ('k windows_executor, unit) tx" where
  "delete_row api row = on_host (wa_deleteRoute api row)"

text \<open>The replacement of a row that exists: a deletion that fails for another reason ends it without an
  error.\<close>

definition replace_row :: "'k windows_api \<Rightarrow> mib_row \<Rightarrow> ('k windows_executor, unit) tx" where
  "replace_row api row =
     bindT (tryT (delete_row api row)) (\<lambda>deleted.
     if (case deleted of Inl e \<Rightarrow> notFound e | Inr u \<Rightarrow> True)
     then mapErrT (Wrapf ''replace %s on windows: %w'') (tolerateT alreadyExists (create_row api row))
     else returnT ())"

definition windows_applyOperation :: "'k windows_api \<Rightarrow> operation \<Rightarrow> ('k windows_executor, unit) tx" where
  "windows_applyOperation api op =
     (if op_Kind op = ''rule'' \<or> op_Kind op = ''delete-rule''
        then throwT (Errorf ''policy rules do not exist on windows: %s %s'')
      else if is_delete op then
        bindT (rowForOperation api op) (\<lambda>row.
        mapErrT (Wrapf ''delete %s on windows: %w'') (tolerateT notFound (delete_row api row)))
      else if op_Kind op = ''park'' then
        bindT (rowForOperation api op) (\<lambda>row.
        mapErrT (Wrapf ''park %s on windows: %w'') (tolerateT alreadyExists (create_row api row)))
      else
        bindT (rowForOperation api op) (\<lambda>row.
        bindT (tryT (create_row api row)) (\<lambda>created.
        case created of
          Inr u \<Rightarrow> returnT ()
        | Inl e \<Rightarrow> if alreadyExists e then replace_row api row
                   else throwT (Wrapf ''apply %s on windows: %w'' e))))"

definition windows_Apply :: "'k windows_api \<Rightarrow> transaction \<Rightarrow> ('k windows_executor, unit) tx" where
  "windows_Apply api t = eachT (windows_applyOperation api) (tr_Operations t)"

section \<open>Snapshots\<close>

definition mib_gateway :: "mib_row \<Rightarrow> string" where
  "mib_gateway row =
     (let hop = mr_NextHop row in if addr_IsValid hop \<and> \<not> addr_IsUnspecified hop then addr_String hop else [])"

definition mibToOperation :: "mib_row \<Rightarrow> operation" where
  "mibToOperation row = operation_zero\<lparr>op_Kind := ''route'', op_Prefix := prefix_String (mr_Prefix row),
     op_Table := kernelTable, op_IfIndex := uint (mr_InterfaceIndex row), op_InterfaceLuid := mr_InterfaceLUID row,
     op_Protocol := mr_Protocol row, op_Metric := mr_Metric row, op_Gateway := mib_gateway row\<rparr>"

definition familyNumber :: "int \<Rightarrow> int" where
  "familyNumber family = (if family = AF_INET6 then 6 else 4)"

fun windows_snapshot_families ::
  "'k windows_api \<Rightarrow> int list \<Rightarrow> kernel_state \<Rightarrow> ('k windows_executor, kernel_state) tx" where
  "windows_snapshot_families api [] state = returnT state"
| "windows_snapshot_families api (family # families) state =
     bindT (mapErrT (Wrapf ''read IP forwarding table: %w'') (on_host (wa_routeTable api family))) (\<lambda>rows.
     windows_snapshot_families api families
       (state\<lparr>ks_Routes := ks_Routes state @ map (\<lambda>row. (mibToOperation row)\<lparr>op_Family := familyNumber family\<rparr>) rows\<rparr>))"

definition snapshotUnlocked :: "'k windows_api \<Rightarrow> ('k windows_executor, kernel_state) tx" where
  "snapshotUnlocked api = windows_snapshot_families api [AF_INET, AF_INET6] \<lparr>ks_Routes = [], ks_Rules = []\<rparr>"

section \<open>Endpoint policies and parking operations\<close>

definition windows_endpoint_operation :: "endpoint_route \<Rightarrow> operation" where
  "windows_endpoint_operation route = operation_zero\<lparr>
     op_Kind := ''route'', op_Prefix := prefix_String (er_Prefix route), op_Table := kernelTable,
     op_IfIndex := er_IfIndex route,
     op_Metric := (if er_Metric route = 0 then endpointRouteMetric else er_Metric route),
     op_Protocol := ownedRouteProtocol,
     op_Family := (if addr_Is6 (prefix_Addr (er_Prefix route)) then 6 else 4),
     op_Gateway := (if addr_IsValid (er_Gateway route) then addr_String (er_Gateway route) else [])\<rparr>"

definition windows_ReconcileEndpointPolicy :: "'k windows_api \<Rightarrow> endpoint_policy \<Rightarrow> ('k windows_executor, unit) tx" where
  "windows_ReconcileEndpointPolicy api p =
     bindT (requireT (policy_Valid p) (Errorf ''invalid endpoint policy'')) (\<lambda>_.
     bindT (snapshotUnlocked api) (\<lambda>current.
     eachT (\<lambda>route.
        bindT (requireT (IsHostPrefix (er_Prefix route) \<and> 0 < er_IfIndex route) (Errorf ''invalid endpoint route'')) (\<lambda>_.
        let op = windows_endpoint_operation route
        in if containsRoute (ks_Routes current) op then returnT () else windows_applyOperation api op)) (ep_Routes p)))"

definition owned_endpoint_row :: "endpoint_route \<Rightarrow> operation \<Rightarrow> bool" where
  "owned_endpoint_row route existing =
     (op_Prefix existing = prefix_String (er_Prefix route) \<and> op_Protocol existing = ownedRouteProtocol \<and>
      \<not> (0 < er_IfIndex route \<and> op_IfIndex existing \<noteq> er_IfIndex route))"

definition windows_RemoveEndpointPolicy :: "'k windows_api \<Rightarrow> endpoint_policy \<Rightarrow> ('k windows_executor, unit) tx" where
  "windows_RemoveEndpointPolicy api p =
     bindT (requireT (policy_Valid p) (Errorf ''invalid endpoint policy'')) (\<lambda>_.
     bindT (snapshotUnlocked api) (\<lambda>current.
     eachT (\<lambda>route.
        eachT (\<lambda>existing.
           windows_applyOperation api (operation_zero\<lparr>op_Kind := ''delete-route'', op_Prefix := op_Prefix existing,
             op_IfIndex := op_IfIndex existing, op_Metric := op_Metric existing, op_Protocol := op_Protocol existing\<rparr>))
          (filter (owned_endpoint_row route) (ks_Routes current))) (ep_Routes p)))"

definition windows_ApplyParking :: "'k windows_api \<Rightarrow> parking_desired \<Rightarrow> ('k windows_executor, unit) tx" where
  "windows_ApplyParking api p =
     windows_Apply api \<lparr>tr_ID = 0, tr_Role = pd_Role p, tr_Operations =
       map (\<lambda>prefix. operation_zero\<lparr>op_Kind := ''park'', op_Prefix := prefix_String prefix, op_Table := kernelTable,
              op_Metric := parkRouteMetric, op_Protocol := ownedRouteProtocol\<rparr>)
         (filter IsHostPrefix (pd_Prefixes p))\<rparr>"

section \<open>Rows of a prefix\<close>

definition windows_description :: string where
  "windows_description = ''ifindex %d gw %s proto %d metric %d''"

definition gateway_hop :: "string \<Rightarrow> addr" where
  "gateway_hop gateway =
     (if gateway \<noteq> [] then (case ParseAddr gateway of None \<Rightarrow> AddrZero | Some parsed \<Rightarrow> parsed) else AddrZero)"

definition operation_park :: "operation \<Rightarrow> park_identity" where
  "operation_park row = park_none\<lparr>pi_Kind := SelectedParkLoopback, pi_Table := kernelTable, pi_IfIndex := op_IfIndex row,
     pi_NextHop := addr_String (gateway_hop (op_Gateway row)), pi_Protocol := op_Protocol row, pi_Metric := op_Metric row,
     pi_InterfaceLuid := op_InterfaceLuid row\<rparr>"

definition operation_identity :: "operation \<Rightarrow> selected_identity" where
  "operation_identity row = identity_none\<lparr>si_Table := kernelTable, si_IfIndex := op_IfIndex row,
     si_Protocol := op_Protocol row, si_Metric := op_Metric row, si_InterfaceLuid := op_InterfaceLuid row,
     si_NextHop := (let hop = gateway_hop (op_Gateway row) in if addr_IsValid hop then addr_String hop else [])\<rparr>"

definition windows_row :: "netprefix \<Rightarrow> operation \<Rightarrow> kernel_row" where
  "windows_row prefix row =
     (let foreign = \<lparr>kr_Kind = SelectedKernelForeign, kr_Route = identity_none, kr_Park = park_none,
            kr_Description = windows_description\<rparr>;
          hop = gateway_hop (op_Gateway row)
      in if op_Protocol row = ownedRouteProtocol \<and> op_Metric row = parkRouteMetric \<and> addr_IsValid hop \<and> addr_IsLoopback hop
           then foreign\<lparr>kr_Kind := SelectedKernelPark, kr_Park := operation_park row\<rparr>
         else if identity_Validate (operation_identity row) prefix \<noteq> None \<or>
              si_Protocol (operation_identity row) \<noteq> ownedRouteProtocol then foreign
         else foreign\<lparr>kr_Kind := SelectedKernelRoute, kr_Route := operation_identity row\<rparr>)"

definition selectedRowsFor :: "kernel_state \<Rightarrow> netprefix \<Rightarrow> kernel_row list" where
  "selectedRowsFor current prefix =
     map (windows_row prefix)
       (filter (\<lambda>row. op_Kind row = ''route'' \<and> op_Prefix row = prefix_String prefix \<and> op_Table row = kernelTable)
          (ks_Routes current))"

section \<open>The coherent cache\<close>

fun windows_group ::
  "mib_row list \<Rightarrow> (netprefix, kernel_row list) gomap \<Rightarrow> (netprefix, kernel_row list) gomap" where
  "windows_group [] out = out"
| "windows_group (row # rows) out =
     (if \<not> prefix_IsValid (mr_Prefix row) then windows_group rows out
      else let prefix = prefix_Masked (mr_Prefix row);
               old = (case map_of out prefix of None \<Rightarrow> [] | Some rs \<Rightarrow> rs)
           in windows_group rows
                (gomap_put prefix (old @ selectedRowsFor \<lparr>ks_Routes = [mibToOperation row], ks_Rules = []\<rparr> prefix) out))"

fun snapshot_tables ::
  "'k windows_api \<Rightarrow> int list \<Rightarrow> (netprefix, kernel_row list) gomap \<Rightarrow>
     ('k windows_executor, (netprefix, kernel_row list) gomap) tx" where
  "snapshot_tables api [] out = returnT out"
| "snapshot_tables api (family # families) out =
     bindT (on_host (wa_routeTable api family)) (\<lambda>rows. snapshot_tables api families (windows_group rows out))"

definition buildSelectedSnapshot ::
  "'k windows_api \<Rightarrow> ('k windows_executor, (netprefix, kernel_row list) gomap) tx" where
  "buildSelectedSnapshot api = snapshot_tables api [AF_INET, AF_INET6] []"

definition notify_generation :: "'k windows_api \<Rightarrow> ('k windows_executor, u64) tx" where
  "notify_generation api = getT (\<lambda>e. wa_notifyGeneration api (we_host e))"

text \<open>The refresh loop; a refresh that is interrupted in every round does not return, which the model
  reports as an error after the bound.\<close>

fun stable_refresh ::
  "'k windows_api \<Rightarrow> nat \<Rightarrow> ('k windows_executor, (netprefix, kernel_row list) gomap) tx" where
  "stable_refresh api 0 = throwT (Errorf ''interrupted in every round'')"
| "stable_refresh api (Suc n) =
     bindT (notify_generation api) (\<lambda>earlier.
     bindT (buildSelectedSnapshot api) (\<lambda>rows.
     bindT (notify_generation api) (\<lambda>after.
     if after = earlier then
       bindT (notify_generation api) (\<lambda>again.
       if again \<noteq> after then stable_refresh api n
       else bindT (putT (\<lambda>e. e\<lparr>we_selectedCache := rows, we_cacheGeneration := after\<rparr>)) (\<lambda>_. returnT rows))
     else stable_refresh api n)))"

definition stableSelectedRefreshLocked ::
  "'k windows_api \<Rightarrow> ('k windows_executor, (netprefix, kernel_row list) gomap) tx" where
  "stableSelectedRefreshLocked api = stable_refresh api (wa_attempts api)"

definition rows_at :: "netprefix \<Rightarrow> (netprefix, kernel_row list) gomap \<Rightarrow> kernel_row list" where
  "rows_at prefix rows = (case map_of rows prefix of None \<Rightarrow> [] | Some rs \<Rightarrow> rs)"

definition cached_rows :: "netprefix \<Rightarrow> ('k windows_executor, kernel_row list) tx" where
  "cached_rows prefix = getT (\<lambda>e. rows_at prefix (we_selectedCache e))"

definition cachedSelectedRowsLocked :: "'k windows_api \<Rightarrow> netprefix \<Rightarrow> ('k windows_executor, kernel_row list) tx" where
  "cachedSelectedRowsLocked api prefix =
     bindT (getT we_selectedCacheReady) (\<lambda>ready.
     if \<not> ready then
       bindT (stableSelectedRefreshLocked api) (\<lambda>_.
       bindT (putT (\<lambda>e. e\<lparr>we_selectedCacheReady := True\<rparr>)) (\<lambda>_. cached_rows prefix))
     else
       bindT (getT (\<lambda>e. we_cacheGeneration e = wa_notifyGeneration api (we_host e))) (\<lambda>coherent.
       if coherent then cached_rows prefix
       else bindT (stableSelectedRefreshLocked api) (\<lambda>rows. returnT (rows_at prefix rows))))"

definition refreshAfterLocalMutationLocked ::
  "'k windows_api \<Rightarrow> netprefix \<Rightarrow> ('k windows_executor, kernel_row list) tx" where
  "refreshAfterLocalMutationLocked api prefix = bindT (stableSelectedRefreshLocked api) (\<lambda>_. cached_rows prefix)"

definition windows_SnapshotSelectedRoutes ::
  "'k windows_api \<Rightarrow> ('k windows_executor, (netprefix, kernel_row list) gomap) tx" where
  "windows_SnapshotSelectedRoutes api = stableSelectedRefreshLocked api"

section \<open>Selected routes\<close>

definition selectedRouteOperation :: "netprefix \<Rightarrow> selected_identity \<Rightarrow> operation" where
  "selectedRouteOperation prefix identity = operation_zero\<lparr>op_Kind := ''route'', op_Prefix := prefix_String prefix,
     op_Table := si_Table identity, op_IfIndex := si_IfIndex identity, op_Metric := si_Metric identity,
     op_Protocol := si_Protocol identity, op_InterfaceLuid := si_InterfaceLuid identity, op_Gateway := si_NextHop identity\<rparr>"

definition deleteRouteOperation :: "netprefix \<Rightarrow> selected_identity \<Rightarrow> operation" where
  "deleteRouteOperation prefix identity = (selectedRouteOperation prefix identity)\<lparr>op_Kind := ''delete-route''\<rparr>"

definition windows_NormalizeSelectedRoute ::
  "'k windows_api \<Rightarrow> selected_desired \<Rightarrow> ('k windows_executor, selected_identity) tx" where
  "windows_NormalizeSelectedRoute api desired =
     (if \<not> prefix_IsValid (sd_Prefix desired) \<or> sd_Prefix desired \<noteq> prefix_Masked (sd_Prefix desired)
        then throwT (Errorf ''selected route prefix %v is not canonical'')
      else if sd_IfIndex desired \<le> 0 then throwT (Errorf ''selected route %v has no interface'')
      else
        bindT (tryT (on_host (wa_luidFromIndex api (word_of_int (sd_IfIndex desired))))) (\<lambda>luid.
        returnT (identity_none\<lparr>si_Table := kernelTable, si_IfIndex := sd_IfIndex desired,
          si_Protocol := ownedRouteProtocol, si_Metric := 0,
          si_InterfaceLuid := (case luid of Inl e \<Rightarrow> 0 | Inr l \<Rightarrow> l),
          si_NextHop := (if addr_IsValid (sd_Gateway desired) then addr_String (sd_Gateway desired) else [])\<rparr>)))"

definition windows_PreflightSelectedRoute ::
  "'k windows_api \<Rightarrow> netprefix \<Rightarrow> route_value option \<Rightarrow> ('k windows_executor, unit) tx" where
  "windows_PreflightSelectedRoute api prefix rec =
     bindT (cachedSelectedRowsLocked api prefix) (\<lambda>rows.
     bindT (fromSum (PlanSelectedRoute rows rec)) (\<lambda>_. returnT ()))"

text \<open>The rows after a creation was refused because the row exists: the number of desired rows and
  whether the previous identity is still there.\<close>

fun classify_existing :: "route_value \<Rightarrow> kernel_row list \<Rightarrow> int \<Rightarrow> bool \<Rightarrow> goerror + int \<times> bool" where
  "classify_existing rec [] desiredCount staleOwned = Inr (desiredCount, staleOwned)"
| "classify_existing rec (row # rows) desiredCount staleOwned =
     (if kr_Kind row = SelectedKernelForeign then Inl (Errorf ''selected route %v conflicts with a foreign row: %s'')
      else if kr_Kind row = SelectedKernelPark then classify_existing rec rows desiredCount staleOwned
      else if SelectedRowMatchesIdentity row (sr_Desired rec) then classify_existing rec rows (desiredCount + 1) staleOwned
      else if (case sr_Owned rec of None \<Rightarrow> False | Some i \<Rightarrow> SelectedRowMatchesIdentity row i)
        then classify_existing rec rows desiredCount True
      else Inl (Errorf ''selected route %v conflicts with an unauthorized row: %s''))"

definition classifyEEXIST :: "'k windows_api \<Rightarrow> netprefix \<Rightarrow> route_value \<Rightarrow> ('k windows_executor, unit) tx" where
  "classifyEEXIST api prefix rec =
     bindT (refreshAfterLocalMutationLocked api prefix) (\<lambda>rows.
     bindT (fromSum (classify_existing rec rows 0 False)) (\<lambda>(desiredCount, staleOwned).
     bindT (requireT (desiredCount \<le> 1) (Errorf ''selected route %v has %d identical desired rows'')) (\<lambda>_.
     case sr_Owned rec of
       None \<Rightarrow> returnT ()
     | Some owned \<Rightarrow>
         if staleOwned \<and> desiredCount = 1 \<and> owned \<noteq> sr_Desired rec
         then windows_applyOperation api (deleteRouteOperation prefix owned) else returnT ())))"

text \<open>Creating the desired row: whether it was created, or found to exist.\<close>

definition create_desired :: "'k windows_api \<Rightarrow> netprefix \<Rightarrow> route_value \<Rightarrow> ('k windows_executor, bool) tx" where
  "create_desired api prefix rec =
     bindT (rowForOperation api (selectedRouteOperation prefix (sr_Desired rec))) (\<lambda>row.
     bindT (tryT (create_row api row)) (\<lambda>created.
     case created of
       Inr u \<Rightarrow> returnT True
     | Inl e \<Rightarrow>
         if alreadyExists e then bindT (classifyEEXIST api prefix rec) (\<lambda>_. returnT False)
         else throwT e))"

definition delete_owned :: "'k windows_api \<Rightarrow> netprefix \<Rightarrow> route_value \<Rightarrow> ('k windows_executor, bool) tx" where
  "delete_owned api prefix rec =
     (case sr_Owned rec of
        None \<Rightarrow> returnT False
      | Some owned \<Rightarrow>
          if owned = sr_Desired rec then returnT False
          else
            bindT (rowForOperation api (deleteRouteOperation prefix owned)) (\<lambda>row.
            bindT (tolerateT notFound (delete_row api row)) (\<lambda>_. returnT True)))"

definition prove_desired ::
  "netprefix \<Rightarrow> route_value \<Rightarrow> bool \<Rightarrow> kernel_row list \<Rightarrow> ('k windows_executor, reconcile_result) tx" where
  "prove_desired prefix rec mutated afterRows =
     bindT (mapErrT (Wrapf ''selected route %v is not exactly present after the apply: %w'')
              (fromSum (PlanSelectedRoute afterRows (Some rec)))) (\<lambda>verified.
     bindT (requireT (verified = SelectedActionNone) (Errorf ''selected route %v still needs %d after the apply'')) (\<lambda>_.
     returnT \<lparr>rc_Mutated = mutated, rc_Verified = sr_Desired rec\<rparr>))"

definition reprove ::
  "'k windows_api \<Rightarrow> netprefix \<Rightarrow> route_value \<Rightarrow> kernel_row list \<Rightarrow> bool \<Rightarrow> ('k windows_executor, reconcile_result) tx" where
  "reprove api prefix rec rows mutated =
     bindT (if mutated then refreshAfterLocalMutationLocked api prefix else returnT rows) (prove_desired prefix rec mutated)"

definition windows_ReconcileSelectedRoute ::
  "'k windows_api \<Rightarrow> selected_desired \<Rightarrow> route_value option \<Rightarrow> ('k windows_executor, reconcile_result) tx" where
  "windows_ReconcileSelectedRoute api desired rec =
     (let prefix = sd_Prefix desired
      in if \<not> prefix_IsValid prefix \<or> prefix \<noteq> prefix_Masked prefix
           then throwT (Errorf ''selected route prefix %v is not canonical'')
         else if sd_IfIndex desired \<le> 0 then throwT (Errorf ''selected route %v has no interface'')
         else
           bindT (cachedSelectedRowsLocked api prefix) (\<lambda>rows.
           bindT (fromSum (PlanSelectedRoute rows rec)) (\<lambda>action.
           case rec of
             None \<Rightarrow> throwT (Errorf ''selected route %v is not registered'')
           | Some v \<Rightarrow>
               (case action of
                  SelectedActionNone \<Rightarrow> reprove api prefix v rows False
                | SelectedActionAdd \<Rightarrow>
                    bindT (create_desired api prefix v) (\<lambda>created.
                    if created then reprove api prefix v rows True
                    else returnT \<lparr>rc_Mutated = True, rc_Verified = sr_Desired v\<rparr>)
                | SelectedActionReplace \<Rightarrow>
                    bindT (create_desired api prefix v) (\<lambda>created.
                    bindT (delete_owned api prefix v) (\<lambda>deleted.
                    reprove api prefix v rows (created \<or> deleted)))))))"

definition windows_RemoveSelectedRoute :: "'k windows_api \<Rightarrow> route_value \<Rightarrow> ('k windows_executor, unit) tx" where
  "windows_RemoveSelectedRoute api v =
     (let prefix = sr_Prefix v
      in if \<not> prefix_IsValid prefix \<or> prefix \<noteq> prefix_Masked prefix
           then throwT (Errorf ''selected route prefix %v is not canonical'')
         else
           bindT (cachedSelectedRowsLocked api prefix) (\<lambda>rows.
           bindT (fromSum (route_candidates v)) (\<lambda>candidates.
           eachT (\<lambda>candidate.
              if list_ex (\<lambda>row. SelectedRowMatchesIdentity row candidate) rows
              then windows_applyOperation api (deleteRouteOperation prefix candidate) else returnT ())
             (first_occurrences [] candidates))))"

section \<open>Managed parks\<close>

definition windows_NormalizeManagedPark :: "'k windows_api \<Rightarrow> netprefix \<Rightarrow> ('k windows_executor, park_identity) tx" where
  "windows_NormalizeManagedPark api prefix =
     (if \<not> prefix_IsValid prefix \<or> \<not> IsCanonicalPrefix prefix then throwT (Errorf ''park prefix %q is not canonical'')
      else
        bindT (getT (\<lambda>e. wa_loopbackIndex api (we_host e))) (\<lambda>index.
        let identity = park_none\<lparr>pi_Kind := SelectedParkLoopback, pi_Table := kernelTable, pi_IfIndex := uint index,
              pi_NextHop := (if addr_Is4 (prefix_Addr prefix) then ''127.0.0.1'' else ''::1''),
              pi_Protocol := ownedRouteProtocol, pi_Metric := ManagedParkMetric\<rparr>
        in case park_Validate identity prefix of Some e \<Rightarrow> throwT e | None \<Rightarrow> returnT identity))"

fun classifyParkRowsForRecord :: "netprefix \<Rightarrow> route_value option \<Rightarrow> kernel_row list \<Rightarrow> goerror + unit" where
  "classifyParkRowsForRecord prefix rec [] = Inr ()"
| "classifyParkRowsForRecord prefix rec (row # rows) =
     (case kr_Kind row of
        SelectedKernelForeign \<Rightarrow> Inl (Errorf ''%s %s: foreign row: %s'')
      | SelectedKernelRoute \<Rightarrow>
          if selectedRowAuthorizedForPark (kr_Route row) rec then classifyParkRowsForRecord prefix rec rows
          else Inl (Errorf ''%s %s: unauthorized forwarding row: %s'')
      | SelectedKernelPark \<Rightarrow>
          if parkRowAuthorizedForPreflight (kr_Park row) rec then classifyParkRowsForRecord prefix rec rows
          else Inl (Errorf ''%s %s: unauthorized park row %v''))"

definition windows_PreflightManagedPark ::
  "'k windows_api \<Rightarrow> netprefix \<Rightarrow> route_value option \<Rightarrow> ('k windows_executor, unit) tx" where
  "windows_PreflightManagedPark api prefix rec =
     bindT (snapshotUnlocked api) (\<lambda>current. fromSum (classifyParkRowsForRecord prefix rec (selectedRowsFor current prefix)))"

definition windows_park_operation :: "string \<Rightarrow> netprefix \<Rightarrow> park_identity \<Rightarrow> operation" where
  "windows_park_operation kind prefix identity = operation_zero\<lparr>op_Kind := kind, op_Prefix := prefix_String prefix,
     op_Table := pi_Table identity, op_IfIndex := pi_IfIndex identity, op_Gateway := pi_NextHop identity,
     op_Protocol := pi_Protocol identity, op_Metric := pi_Metric identity\<rparr>"

definition park_listed_in :: "park_identity \<Rightarrow> kernel_row list \<Rightarrow> bool" where
  "park_listed_in identity rows = list_ex (\<lambda>row. SelectedParkMatchesIdentity row identity) rows"

definition createParkRow :: "'k windows_api \<Rightarrow> netprefix \<Rightarrow> park_identity \<Rightarrow> ('k windows_executor, unit) tx" where
  "createParkRow api prefix identity =
     bindT (rowForOperation api (windows_park_operation ''park'' prefix identity)) (\<lambda>row.
     bindT (tryT (create_row api row)) (\<lambda>created.
     case created of
       Inr u \<Rightarrow> returnT ()
     | Inl e \<Rightarrow>
         if alreadyExists e then
           bindT (cachedSelectedRowsLocked api prefix) (\<lambda>rows.
           requireT (park_listed_in identity rows)
             (Errorf ''park %s create hit an existing row that is not the desired identity''))
         else throwT (Wrapf ''park %s on windows: %w'' e)))"

definition deleteExactParkRow :: "'k windows_api \<Rightarrow> netprefix \<Rightarrow> park_identity \<Rightarrow> ('k windows_executor, unit) tx" where
  "deleteExactParkRow api prefix identity =
     bindT (rowForOperation api (windows_park_operation ''delete-park'' prefix identity)) (\<lambda>row.
     mapErrT (Wrapf ''delete park %s on windows: %w'') (tolerateT notFound (delete_row api row)))"

definition windows_ReconcileManagedPark ::
  "'k windows_api \<Rightarrow> netprefix \<Rightarrow> route_value option \<Rightarrow> ('k windows_executor, park_reconcile_result) tx" where
  "windows_ReconcileManagedPark api prefix rec =
     (case (case rec of None \<Rightarrow> None | Some v \<Rightarrow> sr_Park v) of
        None \<Rightarrow> throwT (Errorf ''reconcile managed park %s: no park transaction'')
      | Some park \<Rightarrow>
          if sk_State park \<noteq> SelectedParkApplying
            then throwT (Errorf ''reconcile managed park %s requires park state applying, got %q'')
          else if \<not> prefix_IsValid prefix \<or> \<not> IsCanonicalPrefix prefix
            then throwT (Errorf ''park prefix %q is not canonical'')
          else case park_Validate (sk_Desired park) prefix of
                 Some e \<Rightarrow> throwT e
               | None \<Rightarrow>
                   bindT (cachedSelectedRowsLocked api prefix) (\<lambda>rows.
                   bindT (fromSum (classifyParkRowsForRecord prefix rec rows)) (\<lambda>_.
                   bindT (if park_listed_in (sk_Desired park) rows then returnT False
                          else bindT (createParkRow api prefix (sk_Desired park)) (\<lambda>_. returnT True)) (\<lambda>added.
                   bindT (case sk_Owned park of
                            None \<Rightarrow> returnT False
                          | Some owned \<Rightarrow>
                              if park_listed_in owned rows \<and> owned \<noteq> sk_Desired park
                              then bindT (deleteExactParkRow api prefix owned) (\<lambda>_. returnT True) else returnT False) (\<lambda>dropped.
                   bindT (cachedSelectedRowsLocked api prefix) (\<lambda>after.
                   bindT (requireT (park_listed_in (sk_Desired park) after)
                            (Errorf ''park %s is not exactly present after the apply'')) (\<lambda>_.
                   returnT \<lparr>pr_Mutated = (added \<or> dropped), pr_Verified = sk_Desired park\<rparr>)))))))"

definition windows_ObserveManagedPark ::
  "'k windows_api \<Rightarrow> netprefix \<Rightarrow> park_identity \<Rightarrow> ('k windows_executor, bool) tx" where
  "windows_ObserveManagedPark api prefix expected =
     bindT (cachedSelectedRowsLocked api prefix) (\<lambda>rows. returnT (park_listed_in expected rows))"

definition windows_RemoveManagedPark ::
  "'k windows_api \<Rightarrow> netprefix \<Rightarrow> selected_park \<Rightarrow> ('k windows_executor, unit) tx" where
  "windows_RemoveManagedPark api prefix park =
     bindT (fromSum (park_candidates park)) (\<lambda>cs.
     case cs of
       None \<Rightarrow> returnT ()
     | Some candidates \<Rightarrow>
         bindT (eachT (deleteExactParkRow api prefix) candidates) (\<lambda>_.
         bindT (cachedSelectedRowsLocked api prefix) (\<lambda>after.
         requireT (\<not> list_ex (\<lambda>candidate. park_listed_in candidate after) candidates)
           (Errorf ''park %s identity %v is still present after the delete''))))"

section \<open>Effective metrics\<close>

definition SelectedWinsOverPark ::
  "'k windows_api \<Rightarrow> netprefix \<Rightarrow> selected_identity \<Rightarrow> park_identity \<Rightarrow> ('k windows_executor, bool) tx" where
  "SelectedWinsOverPark api prefix selected park =
     (let family = (if addr_Is4 (prefix_Addr prefix) then AF_INET else AF_INET6)
      in bindT (on_host (wa_interfaceMetricByLuid api (si_InterfaceLuid selected) family)) (\<lambda>selectedIfMetric.
         bindT (on_host (wa_interfaceMetricByLuid api (pi_InterfaceLuid park) family)) (\<lambda>parkIfMetric.
         let selectedEffective = (ucast (si_Metric selected) :: u64) + ucast selectedIfMetric;
             parkEffective = (ucast (pi_Metric park) :: u64) + ucast parkIfMetric
         in returnT (selectedEffective < parkEffective))))"

section \<open>Observation\<close>

definition classifyNotification :: "mib_row option \<Rightarrow> route_invalidation" where
  "classifyNotification row =
     (let full = \<lparr>ri_Kind = SelectedInvalidateFull, ri_Prefix = prefix_zero, ri_IfIndex = 0, ri_Sequence = 0\<rparr>
      in case row of
           None \<Rightarrow> full
         | Some r \<Rightarrow>
             if \<not> prefix_IsValid (mr_Prefix r) then full
             else \<lparr>ri_Kind = SelectedInvalidatePrefix, ri_Prefix = prefix_Masked (mr_Prefix r),
                   ri_IfIndex = uint (mr_InterfaceIndex r), ri_Sequence = 0\<rparr>)"

text \<open>A full stream gets a full invalidation instead when the consumer took an element meanwhile
  (\<open>drained\<close>), else the invalidation is lost.\<close>

definition send_invalidation ::
  "nat \<Rightarrow> bool \<Rightarrow> route_invalidation \<Rightarrow> route_invalidation list \<Rightarrow> route_invalidation list" where
  "send_invalidation capacity drained invalidation out =
     (if length out < capacity then out @ [invalidation]
      else if drained then tl out @ [\<lparr>ri_Kind = SelectedInvalidateFull, ri_Prefix = prefix_zero, ri_IfIndex = 0,
                                       ri_Sequence = ri_Sequence invalidation\<rparr>]
      else out)"

text \<open>The callback: both counters advance before anything else. \<^term>\<open>None\<close> is the panic of an overflow.\<close>

definition windows_notify ::
  "nat \<Rightarrow> bool \<Rightarrow> mib_row option \<Rightarrow> u64 \<times> u64 \<times> route_invalidation list \<Rightarrow>
     (u64 \<times> u64 \<times> route_invalidation list) option" where
  "windows_notify capacity drained row state =
     (case state of (generation, sequence, out) \<Rightarrow>
        if generation + 1 = 0 \<or> sequence + 1 = 0 then None
        else Some (generation + 1, sequence + 1,
                   send_invalidation capacity drained ((classifyNotification row)\<lparr>ri_Sequence := sequence + 1\<rparr>) out))"

section \<open>The platform contract\<close>

definition windows_executor_of :: "'k windows_api \<Rightarrow> 'k windows_executor executor" where
  "windows_executor_of api =
     \<lparr>ex_Apply = (\<lambda>t e. case windows_Apply api t e of (Inl err, e') \<Rightarrow> (Some err, e') | (Inr _, e') \<Rightarrow> (None, e')),
      ex_Snapshot = (\<lambda>e. fst (snapshotUnlocked api e))\<rparr>"

definition windows_route_manager :: "'k windows_api \<Rightarrow> 'k windows_executor route_manager" where
  "windows_route_manager api =
     \<lparr>rm_NormalizeSelectedRoute = windows_NormalizeSelectedRoute api,
      rm_PreflightSelectedRoute = (\<lambda>p i v. windows_PreflightSelectedRoute api p (Some v)),
      rm_ReconcileSelectedRoute = (\<lambda>d v. windows_ReconcileSelectedRoute api d (Some v)),
      rm_RemoveSelectedRoute = windows_RemoveSelectedRoute api,
      rm_NormalizeManagedPark = windows_NormalizeManagedPark api,
      rm_PreflightManagedPark = (\<lambda>p i v. windows_PreflightManagedPark api p (Some v)),
      rm_ReconcileManagedPark = (\<lambda>role p v. windows_ReconcileManagedPark api p (Some v)),
      rm_ObserveManagedPark = windows_ObserveManagedPark api,
      rm_RemoveManagedPark = (\<lambda>role p k. windows_RemoveManagedPark api p k),
      rm_SnapshotSelectedRoutes = windows_SnapshotSelectedRoutes api,
      rm_CurrentSelectedRouteSequence = Some (\<lambda>e. wa_observationSequence api (we_host e)),
      rm_SelectedWinsOverPark = Some (SelectedWinsOverPark api),
      rm_Executor = Some (windows_executor_of api)\<rparr>"

end
