(* ===== verification/Windows_Facts.thy ===== *)
theory Windows_Facts
  imports Windows_Routes
begin

text \<open>
  What the Windows writer asks of the IP Helper interface: the interface is instrumented so that
  every row it was asked to create or delete is logged, and each such row carries what an identity
  the record owns names.
\<close>

section \<open>Instrumentation\<close>

datatype win_call = WinCreate mib_row | WinDelete mib_row

definition win_note :: "win_call \<Rightarrow> ('k, 'a) tx \<Rightarrow> ('k \<times> win_call list, 'a) tx" where
  "win_note c t s = (case t (fst s) of (r, k) \<Rightarrow> (r, (k, snd s @ [c])))"

definition win_quiet :: "('k, 'a) tx \<Rightarrow> ('k \<times> win_call list, 'a) tx" where
  "win_quiet t s = (case t (fst s) of (r, k) \<Rightarrow> (r, (k, snd s)))"

definition logged_api :: "'k windows_api \<Rightarrow> ('k \<times> win_call list) windows_api" where
  "logged_api api =
     \<lparr>wa_routeTable = (\<lambda>family. win_quiet (wa_routeTable api family)),
      wa_createRoute = (\<lambda>row. win_note (WinCreate row) (wa_createRoute api row)),
      wa_deleteRoute = (\<lambda>row. win_note (WinDelete row) (wa_deleteRoute api row)),
      wa_interfaceMetricByLuid = (\<lambda>luid family. win_quiet (wa_interfaceMetricByLuid api luid family)),
      wa_luidFromIndex = (\<lambda>index. win_quiet (wa_luidFromIndex api index)),
      wa_loopbackIndex = (\<lambda>s. wa_loopbackIndex api (fst s)),
      wa_unicastAddress = (\<lambda>family index. win_quiet (wa_unicastAddress api family index)),
      wa_notifyGeneration = (\<lambda>s. wa_notifyGeneration api (fst s)),
      wa_observationSequence = (\<lambda>s. wa_observationSequence api (fst s)),
      wa_encodable = wa_encodable api,
      wa_attempts = wa_attempts api\<rparr>"

section \<open>Rows that carry an operation\<close>

definition loopback_kind :: "operation \<Rightarrow> bool" where
  "loopback_kind op = (op_Kind op = ''park'' \<or> op_Kind op = ''unreachable'' \<or> op_Kind op = ''delete-park'')"

text \<open>The fields of the interface, and everything an operation names.\<close>

definition based :: "operation \<Rightarrow> mib_row \<Rightarrow> bool" where
  "based op row \<longleftrightarrow> ParsePrefix (op_Prefix op) = Some (mr_Prefix row) \<and> mr_Protocol row = ownedRouteProtocol \<and>
     mr_Metric row = op_Metric op \<and>
     (0 < op_IfIndex op \<or> op_InterfaceLuid op \<noteq> 0 \<longrightarrow> mr_InterfaceIndex row = word_of_int (op_IfIndex op)) \<and>
     (op_InterfaceLuid op \<noteq> 0 \<longrightarrow> mr_InterfaceLUID row = op_InterfaceLuid op)"

definition carries :: "operation \<Rightarrow> mib_row \<Rightarrow> bool" where
  "carries op row \<longleftrightarrow> based op row \<and>
     (if loopback_kind op then \<not> (op_InterfaceLuid op \<noteq> 0 \<and> is_delete op \<and> op_Gateway op = []) \<longrightarrow> addr_IsLoopback (mr_NextHop row)
      else op_Gateway op \<noteq> [] \<longrightarrow> ParseAddr (op_Gateway op) = Some (mr_NextHop row))"

section \<open>The monitor\<close>

text \<open>A row of the forwarding table that stands for a route identity of a prefix: its prefix, the
  writer's protocol, the metric, and the interface index, the LUID and the next hop as far as the
  identity names them. A park stands behind a loopback next hop.\<close>

definition win_route_row :: "netprefix \<Rightarrow> selected_identity \<Rightarrow> mib_row \<Rightarrow> bool" where
  "win_route_row p i row \<longleftrightarrow>
     ParsePrefix (prefix_String p) = Some (mr_Prefix row) \<and> mr_Protocol row = ownedRouteProtocol \<and> mr_Metric row = si_Metric i \<and>
     (0 < si_IfIndex i \<or> si_InterfaceLuid i \<noteq> 0 \<longrightarrow> mr_InterfaceIndex row = word_of_int (si_IfIndex i)) \<and>
     (si_InterfaceLuid i \<noteq> 0 \<longrightarrow> mr_InterfaceLUID row = si_InterfaceLuid i) \<and>
     (si_NextHop i \<noteq> [] \<longrightarrow> ParseAddr (si_NextHop i) = Some (mr_NextHop row))"

definition win_park_row :: "netprefix \<Rightarrow> park_identity \<Rightarrow> mib_row \<Rightarrow> bool" where
  "win_park_row p i row \<longleftrightarrow>
     ParsePrefix (prefix_String p) = Some (mr_Prefix row) \<and> mr_Protocol row = ownedRouteProtocol \<and> mr_Metric row = pi_Metric i \<and>
     (0 < pi_IfIndex i \<longrightarrow> mr_InterfaceIndex row = word_of_int (pi_IfIndex i)) \<and> addr_IsLoopback (mr_NextHop row)"

lemma carries_route:
  "carries (selectedRouteOperation p i) row \<Longrightarrow> win_route_row p i row"
  "carries (deleteRouteOperation p i) row \<Longrightarrow> win_route_row p i row"
  by (auto simp: carries_def based_def loopback_kind_def win_route_row_def selectedRouteOperation_def deleteRouteOperation_def
      operation_zero_def)

lemma carries_park:
  "carries (windows_park_operation ''park'' p i) row \<Longrightarrow> win_park_row p i row"
  "carries (windows_park_operation ''delete-park'' p i) row \<Longrightarrow> win_park_row p i row"
  by (auto simp: carries_def based_def loopback_kind_def win_park_row_def windows_park_operation_def operation_zero_def)

fun win_authorized :: "netprefix \<Rightarrow> route_value \<Rightarrow> win_call \<Rightarrow> bool" where
  "win_authorized p v (WinCreate row) =
     (sr_State v \<noteq> SelectedRetiring \<and> win_route_row p (sr_Desired v) row \<or>
      (\<exists>park. sr_Park v = Some park \<and> sk_State park = SelectedParkApplying \<and> win_park_row p (sk_Desired park) row))"
| "win_authorized p v (WinDelete row) =
     ((\<exists>i. owns_route v i \<and> win_route_row p i row) \<or>
      (\<exists>park i. sr_Park v = Some park \<and> owns_park park i \<and> win_park_row p i row))"

definition licit :: "netprefix \<Rightarrow> route_value \<Rightarrow> ('k \<times> win_call list) windows_executor \<Rightarrow> bool" where
  "licit p v e \<longleftrightarrow> list_all (win_authorized p v) (snd (we_host e))"

lemma keeps_quiet: "keepsT (licit p v) (on_host (win_quiet t))"
  by (auto simp: keepsT_def on_host_def win_quiet_def licit_def split: prod.splits)

lemma keeps_create: "win_authorized p v (WinCreate row) \<Longrightarrow> keepsT (licit p v) (create_row (logged_api api) row)"
  by (auto simp: keepsT_def on_host_def create_row_def logged_api_def win_note_def licit_def split: prod.splits)

lemma keeps_delete: "win_authorized p v (WinDelete row) \<Longrightarrow> keepsT (licit p v) (delete_row (logged_api api) row)"
  by (auto simp: keepsT_def on_host_def delete_row_def logged_api_def win_note_def licit_def split: prod.splits)

lemma keeps_cache:
  "keepsT (licit p v) (putT (\<lambda>e. e\<lparr>we_selectedCache := rows, we_cacheGeneration := g\<rparr>))"
  "keepsT (licit p v) (putT (\<lambda>e. e\<lparr>we_selectedCacheReady := b\<rparr>))"
  by (auto simp: keepsT_def licit_def)

lemma keeps_table: "keepsT (licit p v) (on_host (wa_routeTable (logged_api api) family))"
  by (simp add: logged_api_def keeps_quiet)

lemma keeps_tables: "keepsT (licit p v) (snapshot_tables (logged_api api) families out)"
  by (induction families arbitrary: out) (auto intro!: keepsT_bind keeps_table)

lemma keeps_refresh_rounds: "keepsT (licit p v) (stable_refresh (logged_api api) n)"
proof (induction n)
  case 0
  then show ?case by (simp add: keepsT_def)
next
  case (Suc n)
  then show ?case
    by (auto simp: buildSelectedSnapshot_def notify_generation_def intro!: keepsT_bind keeps_table keepsT_if keeps_cache)
qed

lemma keeps_refresh: "keepsT (licit p v) (stableSelectedRefreshLocked (logged_api api))"
  by (simp add: stableSelectedRefreshLocked_def keeps_refresh_rounds)

lemma keeps_cached: "keepsT (licit p v) (cachedSelectedRowsLocked (logged_api api) q)"
  by (auto simp: cachedSelectedRowsLocked_def cached_rows_def intro!: keepsT_bind keepsT_if keeps_refresh keeps_cache)

lemma keeps_reread: "keepsT (licit p v) (refreshAfterLocalMutationLocked (logged_api api) q)"
  by (auto simp: refreshAfterLocalMutationLocked_def cached_rows_def intro!: keepsT_bind keeps_refresh)

section \<open>Building a row\<close>

lemma luid_triple:
  "tripleT (licit p v) (row_luid (logged_api api) row) (\<lambda>r e. licit p v e \<and> (\<exists>luid. r = row\<lparr>mr_InterfaceLUID := luid\<rparr>)) (licit p v)"
proof -
  have "\<exists>luid. (case res of Inl e \<Rightarrow> row | Inr luid \<Rightarrow> row\<lparr>mr_InterfaceLUID := luid\<rparr>) = row\<lparr>mr_InterfaceLUID := luid\<rparr>" for res
    by (cases res) (auto intro: exI [of _ "mr_InterfaceLUID row"])
  then show ?thesis
    unfolding row_luid_def logged_api_def
    by (auto intro!: triple_keep_bind keepsT_try keeps_quiet triple_return)
qed

lemma interface_triple:
  assumes "mr_Prefix row = prefix" "ParsePrefix (op_Prefix op) = Some prefix" "mr_Protocol row = ownedRouteProtocol"
    "mr_Metric row = op_Metric op"
  shows "tripleT (licit p v) (row_interface (logged_api api) op row) (\<lambda>r e. licit p v e \<and> based op r) (licit p v)"
  using assms unfolding row_interface_def
  by (intro triple_if triple_return) (auto simp: based_def intro!: triple_conseq [OF luid_triple] triple_return)

lemma hop_triple:
  "(\<And>e. P e \<Longrightarrow> Q (row\<lparr>mr_NextHop := hop\<rparr>) e) \<Longrightarrow> (\<And>e. P e \<Longrightarrow> E e) \<Longrightarrow> tripleT P (row_hop api err hop row) Q E"
  unfolding row_hop_def by (rule triple_bind [OF triple_require triple_return, where R = "\<lambda>_. P"]) auto

lemma loopback_triple:
  assumes "loopback_kind op" and "\<not> (op_InterfaceLuid op \<noteq> 0 \<and> is_delete op \<and> op_Gateway op = [])" and row: "based op row"
  shows "tripleT (licit p v) (row_loopback (logged_api api) op prefix row)
     (\<lambda>r e. licit p v e \<and> carries op r) (licit p v)"
proof -
  let ?B = "\<lambda>r e. licit p v e \<and> based op r"
  have index: "tripleT (licit p v) (bindT (if 0 < op_IfIndex op then returnT (word_of_int (op_IfIndex op)) else getT f)
      (\<lambda>index. row_luid (logged_api api) (row\<lparr>mr_InterfaceIndex := index\<rparr>))) ?B (licit p v)"
    if "op_InterfaceLuid op = 0" for f
  proof (rule triple_bind [where R = "\<lambda>i e. licit p v e \<and> (0 < op_IfIndex op \<longrightarrow> i = word_of_int (op_IfIndex op))"])
    show "tripleT (\<lambda>e. licit p v e \<and> (0 < op_IfIndex op \<longrightarrow> i = word_of_int (op_IfIndex op)))
        (row_luid (logged_api api) (row\<lparr>mr_InterfaceIndex := i\<rparr>)) ?B (licit p v)" for i
      using row that by (intro triple_pure triple_conseq [OF luid_triple]) (auto simp: based_def)
  qed (auto intro!: triple_return triple_get)
  have hop: "tripleT (?B r) (row_hop (logged_api api) err (if addr_Is6 a then Addr6 1 [] else Addr4 0x7f000001) r)
      (\<lambda>r e. licit p v e \<and> carries op r) (licit p v)" for r err a
    using assms by (intro hop_triple) (auto simp: carries_def based_def addr_IsLoopback_def)
  show ?thesis
    unfolding row_loopback_def using row
    by (intro triple_bind [OF _ hop] triple_if index triple_return) auto
qed

lemma row_triple:
  "tripleT (licit p v) (rowForOperation (logged_api api) op) (\<lambda>row e. licit p v e \<and> carries op row) (licit p v)"
proof (cases "ParsePrefix (op_Prefix op)")
  case None
  then show ?thesis by (simp add: rowForOperation_def triple_throw)
next
  case (Some prefix)
  let ?Q = "\<lambda>row e. licit p v e \<and> carries op row"
  have start: "tripleT (licit p v) (row_interface (logged_api api) op ((row_init op)\<lparr>mr_Prefix := prefix\<rparr>))
      (\<lambda>row e. licit p v e \<and> based op row) (licit p v)"
    by (rule interface_triple) (auto simp: row_init_def Some)
  have gateway: "tripleT (licit p v) (case ParseAddr (op_Gateway op) of None \<Rightarrow> throwT e | Some gw \<Rightarrow> row_hop (logged_api api) err gw row)
      ?Q (licit p v)" if "\<not> loopback_kind op" "based op row" for row e err
    using that by (auto simp: carries_def based_def intro!: triple_throw hop_triple split: option.splits)
  have onlink: "tripleT (licit p v) (bindT (mapErrT f (on_host (wa_unicastAddress (logged_api api) family i)))
      (\<lambda>source. row_hop (logged_api api) err source row)) ?Q (licit p v)"
    if "\<not> loopback_kind op" "based op row" "op_Gateway op = []" for row f family i err
    using that
    by (intro triple_keep_bind hop_triple) (auto simp: logged_api_def carries_def based_def intro!: keepsT_mapErr keeps_quiet)
  have "tripleT (licit p v) (returnT row) ?Q (licit p v)"
    if "based op row" "op_InterfaceLuid op \<noteq> 0 \<and> is_delete op \<and> op_Gateway op = []" for row
    using that by (intro triple_return) (simp add: carries_def)
  note branches = this loopback_triple gateway onlink
  show ?thesis
    unfolding rowForOperation_def Some option.case loopback_kind_def [symmetric]
    by (rule triple_keep_bind [OF keepsT_require], rule triple_bind [OF start], rule triple_pure, intro triple_if branches) auto
qed

section \<open>The operations\<close>

text \<open>A row that was built for an authorized operation may be created or deleted.\<close>

lemma keeps_built:
  assumes "\<And>row. carries op row \<Longrightarrow> keepsT (licit p v) (f row)"
  shows "keepsT (licit p v) (bindT (rowForOperation (logged_api api) op) f)"
proof (rule triple_keeps_back)
  show "tripleT (licit p v) (bindT (rowForOperation (logged_api api) op) f) (\<lambda>_. licit p v) (licit p v)"
    by (rule triple_bind [OF row_triple], rule triple_pure, rule triple_keeps, rule assms)
qed

lemma keeps_delete_op:
  assumes "is_delete op" and "\<And>row. carries op row \<Longrightarrow> win_authorized p v (WinDelete row)"
  shows "keepsT (licit p v) (windows_applyOperation (logged_api api) op)"
proof -
  have "op_Kind op \<noteq> ''rule''" "op_Kind op \<noteq> ''delete-rule''" using assms(1) by (auto simp: is_delete_def)
  then show ?thesis
    using assms by (auto simp: windows_applyOperation_def intro!: keeps_built keepsT_mapErr keepsT_tolerate keeps_delete)
qed

lemma is_delete_route [simp]: "is_delete (deleteRouteOperation p i)"
  by (simp add: is_delete_def deleteRouteOperation_def)

lemma keeps_delete_route: "owns_route v i \<Longrightarrow> keepsT (licit p v) (windows_applyOperation (logged_api api) (deleteRouteOperation p i))"
  by (rule keeps_delete_op) (auto dest: carries_route)

lemma keeps_existing: "keepsT (licit p v) (classifyEEXIST (logged_api api) p v)"
  unfolding classifyEEXIST_def
  by (auto intro!: keepsT_bind keeps_reread keeps_delete_route keepsT_fromSum keepsT_require keepsT_if
      simp: owns_route_def split: option.splits prod.splits)

lemma keeps_create_desired:
  "sr_State v \<noteq> SelectedRetiring \<Longrightarrow> keepsT (licit p v) (create_desired (logged_api api) p v)"
  unfolding create_desired_def
  by (intro keeps_built keepsT_bind [OF keepsT_try [OF keeps_create]])
     (auto intro!: keepsT_bind keeps_existing keepsT_if dest: carries_route split: sum.splits)

lemma delete_authorized: "owns_route v i \<Longrightarrow> carries (deleteRouteOperation p i) row \<Longrightarrow> win_authorized p v (WinDelete row)"
  using carries_route(2) by auto

lemma keeps_delete_owned: "keepsT (licit p v) (delete_owned (logged_api api) p v)"
  unfolding delete_owned_def
  by (auto intro!: keeps_built keepsT_bind keepsT_tolerate keeps_delete delete_authorized simp: owns_route_def
      simp del: win_authorized.simps split: option.splits)

lemma keeps_reprove: "keepsT (licit p v) (reprove (logged_api api) p v rows mutated)"
  unfolding reprove_def prove_desired_def
  by (intro keepsT_bind keepsT_if keeps_reread keepsT_mapErr keepsT_fromSum keepsT_require keepsT_return)

lemma plan_not_retiring: "PlanSelectedRoute rows (Some v) = Inr action \<Longrightarrow> sr_State v \<noteq> SelectedRetiring"
  by (auto simp: PlanSelectedRoute_def)

lemma keeps_reconcile_route:
  "keepsT (licit (sd_Prefix d) v) (windows_ReconcileSelectedRoute (logged_api api) d (Some v))"
proof (rule triple_keeps_back)
  let ?p = "sd_Prefix d"
  have act: "keepsT (licit ?p v) (case action of
      SelectedActionNone \<Rightarrow> reprove (logged_api api) ?p v rows False
    | SelectedActionAdd \<Rightarrow> bindT (create_desired (logged_api api) ?p v) (\<lambda>created.
        if created then reprove (logged_api api) ?p v rows True else returnT res)
    | SelectedActionReplace \<Rightarrow> bindT (create_desired (logged_api api) ?p v) (\<lambda>created.
        bindT (delete_owned (logged_api api) ?p v) (\<lambda>deleted. reprove (logged_api api) ?p v rows (created \<or> deleted))))"
    if "PlanSelectedRoute rows (Some v) = Inr action" for rows action res
    using plan_not_retiring [OF that]
    by (cases action) (auto intro!: keepsT_bind keepsT_if keeps_reprove keeps_create_desired keeps_delete_owned)
  show "tripleT (licit ?p v) (windows_ReconcileSelectedRoute (logged_api api) d (Some v)) (\<lambda>_. licit ?p v) (licit ?p v)"
    unfolding windows_ReconcileSelectedRoute_def Let_def option.case
    by (intro triple_if triple_throw triple_keep_bind keeps_cached triple_pure_sum triple_keeps act)
qed

lemma keeps_remove_route: "keepsT (licit (sr_Prefix v) v) (windows_RemoveSelectedRoute (logged_api api) v)"
proof (rule triple_keeps_back)
  let ?p = "sr_Prefix v"
  have "keepsT (licit ?p v) (eachT (\<lambda>candidate. if list_ex (\<lambda>row. SelectedRowMatchesIdentity row candidate) rows
        then windows_applyOperation (logged_api api) (deleteRouteOperation ?p candidate) else returnT ())
      (first_occurrences [] cs))" if "route_candidates v = Inr cs" for rows cs
    using that
    by (intro keepsT_each keepsT_if keeps_delete_route keepsT_return, drule_tac first_occurrences_subset)
       (auto intro: route_candidates_owned)
  note loop = triple_keeps [OF this]
  show "tripleT (licit ?p v) (windows_RemoveSelectedRoute (logged_api api) v) (\<lambda>_. licit ?p v) (licit ?p v)"
    unfolding windows_RemoveSelectedRoute_def Let_def
    by (intro triple_if triple_throw triple_keep_bind keeps_cached triple_pure_sum loop)
qed

lemma keeps_create_park:
  assumes "sr_Park v = Some park" and "sk_State park = SelectedParkApplying"
  shows "keepsT (licit p v) (createParkRow (logged_api api) p (sk_Desired park))"
  unfolding createParkRow_def using assms
  by (intro keeps_built keepsT_bind [OF keepsT_try [OF keeps_create]])
     (auto intro!: keepsT_bind keeps_cached keepsT_require keepsT_if dest: carries_park split: sum.splits)

lemma keeps_delete_park:
  assumes "sr_Park v = Some park" and "owns_park park i"
  shows "keepsT (licit p v) (deleteExactParkRow (logged_api api) p i)"
  unfolding deleteExactParkRow_def using assms
  by (intro keeps_built keepsT_mapErr keepsT_tolerate keeps_delete) (auto dest: carries_park)

lemma keeps_reconcile_park: "keepsT (licit p v) (windows_ReconcileManagedPark (logged_api api) p (Some v))"
proof (cases "sr_Park v")
  case (Some park)
  show ?thesis
  proof (cases "sk_State park = SelectedParkApplying")
    case True
    show ?thesis
      unfolding windows_ReconcileManagedPark_def option.case Some using True Some
      by (auto intro!: keepsT_if keepsT_bind keeps_cached keepsT_fromSum keeps_create_park keeps_delete_park keepsT_require
          simp: owns_park_def split: option.splits)
  qed (simp add: windows_ReconcileManagedPark_def Some keepsT_throw)
qed (simp add: windows_ReconcileManagedPark_def keepsT_throw)

lemma keeps_remove_park:
  assumes "sr_Park v = Some park"
  shows "keepsT (licit p v) (windows_RemoveManagedPark (logged_api api) p park)"
proof (rule triple_keeps_back)
  have "keepsT (licit p v) (case cs of None \<Rightarrow> returnT () | Some candidates \<Rightarrow>
        bindT (eachT (deleteExactParkRow (logged_api api) p) candidates) (\<lambda>_.
        bindT (cachedSelectedRowsLocked (logged_api api) p) (\<lambda>after.
        requireT (\<not> list_ex (\<lambda>candidate. park_listed_in candidate after) candidates) e)))"
    if "park_candidates park = Inr cs" for cs e
    using that assms park_candidates_owned [of park]
    by (cases cs) (auto intro!: keepsT_bind keepsT_each keeps_delete_park keeps_cached keepsT_require)
  note rest = triple_keeps [OF this]
  show "tripleT (licit p v) (windows_RemoveManagedPark (logged_api api) p park) (\<lambda>_. licit p v) (licit p v)"
    unfolding windows_RemoveManagedPark_def by (intro triple_pure_sum rest)
qed

section \<open>The cache\<close>

text \<open>The table lists every row with the LUID of its interface.\<close>

definition lists_luids :: "'k windows_api \<Rightarrow> bool" where
  "lists_luids api \<longleftrightarrow> (\<forall>family k rows k'. wa_routeTable api family k = (Inr rows, k') \<longrightarrow> (\<forall>row \<in> set rows. mr_InterfaceLUID row \<noteq> 0))"

definition luid_row :: "kernel_row \<Rightarrow> bool" where
  "luid_row row \<longleftrightarrow> (kr_Kind row = SelectedKernelPark \<longrightarrow> pi_InterfaceLuid (kr_Park row) \<noteq> 0)"

definition luid_map :: "(netprefix, kernel_row list) gomap \<Rightarrow> bool" where
  "luid_map rows \<longleftrightarrow> (\<forall>p rs. map_of rows p = Some rs \<longrightarrow> list_all luid_row rs)"

definition luid_cache :: "'k windows_executor \<Rightarrow> bool" where
  "luid_cache e \<longleftrightarrow> luid_map (we_selectedCache e)"

lemma luid_rows_at: "luid_map rows \<Longrightarrow> list_all luid_row (rows_at p rows)"
  by (auto simp: luid_map_def rows_at_def split: option.splits)

lemma luid_group:
  "luid_map out \<Longrightarrow> (\<And>row. row \<in> set rows \<Longrightarrow> mr_InterfaceLUID row \<noteq> 0) \<Longrightarrow> luid_map (windows_group rows out)"
proof (induction rows arbitrary: out)
  case (Cons row rows)
  have new: "list_all luid_row (selectedRowsFor \<lparr>ks_Routes = [mibToOperation row], ks_Rules = []\<rparr> p)" for p
    using Cons.prems(2) [of row]
    by (auto simp: selectedRowsFor_def windows_row_def luid_row_def operation_park_def mibToOperation_def Let_def park_none_def)
  show ?case
  proof (cases "prefix_IsValid (mr_Prefix row)")
    case True
    have "luid_map (gomap_put q (rows_at q out @ selectedRowsFor \<lparr>ks_Routes = [mibToOperation row], ks_Rules = []\<rparr> q) out)" for q
      using Cons.prems(1) new luid_rows_at [OF Cons.prems(1), of q] by (auto simp: luid_map_def)
    from Cons.IH [OF this] Cons.prems(2) True show ?thesis by (simp add: Let_def rows_at_def)
  qed (use Cons in simp)
qed simp

lemma keeps_host_cache: "keepsT luid_cache (on_host t)"
  by (auto simp: keepsT_def on_host_def luid_cache_def split: prod.splits)

lemma tables_luids:
  assumes "lists_luids api" and "luid_map out"
  shows "tripleT luid_cache (snapshot_tables api families out) (\<lambda>rows e. luid_cache e \<and> luid_map rows) luid_cache"
  using assms(2)
proof (induction families arbitrary: out)
  case (Cons family families)
  have "tripleT luid_cache (on_host (wa_routeTable api family))
      (\<lambda>rows e. luid_cache e \<and> (\<forall>row \<in> set rows. mr_InterfaceLUID row \<noteq> 0)) luid_cache"
    using assms(1) by (auto simp: tripleT_def on_host_def lists_luids_def luid_cache_def split: prod.splits sum.splits)
  then show ?case
    unfolding snapshot_tables.simps
    by (rule triple_bind) (rule triple_pure, rule Cons.IH, rule luid_group [OF Cons.prems], blast)
qed (auto intro!: triple_return)

lemma refresh_luids:
  assumes "lists_luids api"
  shows "tripleT luid_cache (stable_refresh api n) (\<lambda>rows e. luid_cache e \<and> luid_map rows) luid_cache"
proof (induction n)
  case (Suc n)
  have "luid_map []" by (simp add: luid_map_def)
  note tables = tables_luids [OF assms this, of "[AF_INET, AF_INET6]"]
  show ?case
    unfolding stable_refresh.simps notify_generation_def buildSelectedSnapshot_def
    by (intro triple_keep_bind [OF keepsT_get] triple_bind [OF tables] triple_pure triple_if Suc.IH
        triple_bind [OF triple_put [where Q = "\<lambda>_. luid_cache"]] triple_return) (auto simp: luid_cache_def)
qed (simp add: tripleT_def)

lemma cached_luids:
  assumes "lists_luids api"
  shows "tripleT luid_cache (cachedSelectedRowsLocked api p) (\<lambda>rows e. luid_cache e \<and> list_all luid_row rows) luid_cache"
proof -
  have read: "tripleT luid_cache (cached_rows q) (\<lambda>rows e. luid_cache e \<and> list_all luid_row rows) luid_cache"
    for q :: netprefix
    unfolding cached_rows_def by (rule triple_get) (auto simp: luid_cache_def intro: luid_rows_at)
  show ?thesis
    unfolding cachedSelectedRowsLocked_def stableSelectedRefreshLocked_def
    by (intro triple_keep_bind [OF keepsT_get] triple_if triple_bind [OF refresh_luids [OF assms]] triple_pure read
        triple_bind [OF triple_put [where Q = "\<lambda>_. luid_cache"]] triple_return) (auto simp: luid_cache_def intro: luid_rows_at)
qed

text \<open>A park identity without a LUID matches no row of such a cache.\<close>

lemma luid_unlisted: "list_all luid_row rows \<Longrightarrow> pi_InterfaceLuid i = 0 \<Longrightarrow> \<not> park_listed_in i rows"
  by (auto simp: park_listed_in_def list_ex_iff list_all_iff luid_row_def SelectedParkMatchesIdentity_def)

lemma keeps_row_cache: "keepsT luid_cache (rowForOperation api op)"
  unfolding rowForOperation_def row_interface_def row_luid_def row_loopback_def row_hop_def
  by (auto intro!: keepsT_bind keepsT_if keepsT_require keepsT_try keepsT_mapErr keeps_host_cache split: option.splits)

lemma keeps_cached_cache: "lists_luids api \<Longrightarrow> keepsT luid_cache (cachedSelectedRowsLocked api p)"
  by (rule triple_keeps_back, rule triple_conseq [OF cached_luids]) auto

lemma keeps_park_cache:
  assumes "lists_luids api"
  shows "keepsT luid_cache (createParkRow api p i)" "keepsT luid_cache (deleteExactParkRow api p i)"
  unfolding createParkRow_def deleteExactParkRow_def create_row_def delete_row_def
  by (auto intro!: keepsT_bind keepsT_if keepsT_try keepsT_mapErr keepsT_tolerate keeps_row_cache keeps_host_cache
      keeps_cached_cache [OF assms] keepsT_require split: sum.splits)

lemma park_unproved:
  assumes api: "lists_luids api" and park: "sr_Park v = Some park" "pi_InterfaceLuid (sk_Desired park) = 0"
  shows "tripleT luid_cache (windows_ReconcileManagedPark api p (Some v)) (\<lambda>_ _. False) luid_cache"
proof -
  have last: "tripleT luid_cache (bindT (cachedSelectedRowsLocked api p) (\<lambda>after.
      bindT (requireT (park_listed_in (sk_Desired park) after) e) (\<lambda>_. returnT (r :: park_reconcile_result)))) (\<lambda>_ _. False) luid_cache"
    for e r
    using luid_unlisted park(2)
    by (intro triple_bind [OF cached_luids [OF api]] triple_pure) (auto simp: requireT_def intro!: triple_throw)
  show ?thesis
  proof (cases "park_Validate (sk_Desired park) p")
    case None
    show ?thesis
      unfolding windows_ReconcileManagedPark_def option.case park(1) None
      by (intro triple_if triple_throw triple_keep_bind keeps_cached_cache [OF api] keepsT_fromSum keepsT_if keepsT_bind
          keeps_park_cache [OF api] keepsT_option keepsT_return last)
  qed (simp add: windows_ReconcileManagedPark_def park triple_throw)
qed

section \<open>The refresh returns\<close>

text \<open>A bound on the notifications that may still arrive while the table is read.\<close>

definition settles :: "'k windows_api \<Rightarrow> ('k \<Rightarrow> nat) \<Rightarrow> bool" where
  "settles api pending \<longleftrightarrow> (\<forall>family k. \<exists>rows k'. wa_routeTable api family k = (Inr rows, k') \<and>
     (wa_notifyGeneration api k' = wa_notifyGeneration api k \<and> pending k' \<le> pending k \<or> pending k' < pending k))"

text \<open>A coherent reading: the rows are what the two tables list one after the other, starting at a state
  of the host whose generation is still the current one when they have been read, so that no
  notification arrived in between.\<close>

definition coherent_reading :: "'k windows_api \<Rightarrow> (netprefix, kernel_row list) gomap \<Rightarrow> 'k \<Rightarrow> bool" where
  "coherent_reading api rows k' \<longleftrightarrow>
     (\<exists>k k1 rows4 rows6. wa_routeTable api AF_INET k = (Inr rows4, k1) \<and> wa_routeTable api AF_INET6 k1 = (Inr rows6, k') \<and>
        rows = windows_group rows6 (windows_group rows4 []) \<and> wa_notifyGeneration api k = wa_notifyGeneration api k')"

lemma settles_tables:
  assumes "settles api pending"
  shows "\<exists>rows k'. snapshot_tables api families out e = (Inr rows, e\<lparr>we_host := k'\<rparr>) \<and>
    (wa_notifyGeneration api k' = wa_notifyGeneration api (we_host e) \<and> pending k' \<le> pending (we_host e) \<or>
     pending k' < pending (we_host e))"
proof (induction families arbitrary: out e)
  case Nil
  have "e = e\<lparr>we_host := we_host e\<rparr>" by simp
  then show ?case by (auto intro!: exI [of _ "we_host e"])
next
  case (Cons family families)
  from assms obtain rows k1 where t: "wa_routeTable api family (we_host e) = (Inr rows, k1)"
    "wa_notifyGeneration api k1 = wa_notifyGeneration api (we_host e) \<and> pending k1 \<le> pending (we_host e) \<or>
     pending k1 < pending (we_host e)" unfolding settles_def by blast
  from Cons.IH [of "windows_group rows out" "e\<lparr>we_host := k1\<rparr>"] obtain all k2 where
    r: "snapshot_tables api families (windows_group rows out) (e\<lparr>we_host := k1\<rparr>) = (Inr all, e\<lparr>we_host := k2\<rparr>)"
    "wa_notifyGeneration api k2 = wa_notifyGeneration api k1 \<and> pending k2 \<le> pending k1 \<or> pending k2 < pending k1" by auto
  have "snapshot_tables api (family # families) out e = (Inr all, e\<lparr>we_host := k2\<rparr>)"
    using t(1) r(1) by (simp add: bindT_def on_host_def)
  with t(2) r(2) show ?case by (intro exI [of _ all] exI [of _ k2]) auto
qed

lemma read_tables:
  assumes "snapshot_tables api [AF_INET, AF_INET6] [] e = (Inr rows, e\<lparr>we_host := k'\<rparr>)"
    and "wa_notifyGeneration api (we_host e) = wa_notifyGeneration api k'"
  shows "coherent_reading api rows k'"
proof -
  obtain x k1 where t4: "wa_routeTable api AF_INET (we_host e) = (x, k1)" by force
  with assms(1) obtain rows4 where x: "x = Inr rows4" by (cases x) (simp_all add: bindT_apply on_host_def)
  obtain y k2 where t6: "wa_routeTable api AF_INET6 k1 = (y, k2)" by force
  with assms(1) t4 x obtain rows6 where y: "y = Inr rows6" by (cases y) (simp_all add: bindT_apply on_host_def)
  from assms(1) t4 x t6 y have "rows = windows_group rows6 (windows_group rows4 [])" "e\<lparr>we_host := k2\<rparr> = e\<lparr>we_host := k'\<rparr>"
    by (simp_all add: bindT_apply on_host_def returnT_def)
  moreover from this(2) have "k2 = k'" by (cases e) simp
  ultimately show ?thesis using t4 t6 x y assms(2) by (auto simp: coherent_reading_def)
qed

lemma refresh_returns:
  assumes "settles api pending"
  shows "pending (we_host e) < n \<Longrightarrow> \<exists>rows k'. stable_refresh api n e =
    (Inr rows, e\<lparr>we_host := k', we_selectedCache := rows, we_cacheGeneration := wa_notifyGeneration api k'\<rparr>) \<and>
    coherent_reading api rows k'"
proof (induction n arbitrary: e)
  case (Suc n)
  from settles_tables [OF assms, of "[AF_INET, AF_INET6]" "[]" e] obtain rows k' where
    t: "snapshot_tables api [AF_INET, AF_INET6] [] e = (Inr rows, e\<lparr>we_host := k'\<rparr>)"
    "wa_notifyGeneration api k' = wa_notifyGeneration api (we_host e) \<and> pending k' \<le> pending (we_host e) \<or>
     pending k' < pending (we_host e)" by blast
  show ?case
  proof (cases "wa_notifyGeneration api k' = wa_notifyGeneration api (we_host e)")
    case True
    with t(1) read_tables [OF t(1)] show ?thesis
      by (auto simp: bindT_def notify_generation_def buildSelectedSnapshot_def simp del: snapshot_tables.simps
          intro!: exI [of _ k'])
  next
    case False
    with t(2) Suc.prems have "pending (we_host (e\<lparr>we_host := k'\<rparr>)) < n" by auto
    from Suc.IH [OF this] t(1) False show ?thesis
      by (auto simp: bindT_def notify_generation_def buildSelectedSnapshot_def simp del: snapshot_tables.simps)
  qed
qed simp

end
