(* ===== verification/Windows_Properties.thy ===== *)
theory Windows_Properties
  imports Windows_Facts
begin

text \<open>
  The properties of the Windows route writer, over every IP Helper interface, and a small host to
  evaluate them on.
\<close>

section \<open>A host\<close>

text \<open>A table of rows with the number of notifications delivered. An on-link row is listed with an
  unspecified next hop, and every listed row has a LUID; \<open>prompt\<close> tells whether a change is notified before the next call.\<close>

definition same_row :: "mib_row \<Rightarrow> mib_row \<Rightarrow> bool" where
  "same_row a b = (mr_Prefix a = mr_Prefix b \<and> mr_InterfaceLUID a = mr_InterfaceLUID b \<and> mr_NextHop a = mr_NextHop b)"

definition host_api :: "bool \<Rightarrow> (mib_row list \<times> u64) windows_api" where
  "host_api prompt =
     \<lparr>wa_routeTable = (\<lambda>family k. (Inr (filter (\<lambda>r. mr_InterfaceLUID r \<noteq> 0 \<and>
        addr_Is6 (prefix_Addr (mr_Prefix r)) = (family = AF_INET6)) (fst k)), k)),
      wa_createRoute = (\<lambda>r k.
        let stored = (if mr_NextHop r = Addr4 0x0a630001 then r\<lparr>mr_NextHop := AddrZero\<rparr> else r)
        in if list_ex (same_row stored) (fst k) then (Inl (Sentinel ERROR_OBJECT_ALREADY_EXISTS), k)
           else (Inr (), (fst k @ [stored], if prompt then snd k + 1 else snd k))),
      wa_deleteRoute = (\<lambda>r k.
        if list_ex (same_row r) (fst k)
        then (Inr (), (filter (\<lambda>x. \<not> same_row r x) (fst k), if prompt then snd k + 1 else snd k))
        else (Inl (Sentinel ERROR_NOT_FOUND), k)),
      wa_interfaceMetricByLuid = (\<lambda>luid family. returnT 5),
      wa_luidFromIndex = (\<lambda>i. returnT (ucast i * 1000)),
      wa_loopbackIndex = (\<lambda>k. 1),
      wa_unicastAddress = (\<lambda>family i. returnT (Addr4 0x0a630001)),
      wa_notifyGeneration = snd,
      wa_observationSequence = snd,
      wa_encodable = addr_IsValid,
      wa_attempts = 3\<rparr>"

definition win_prefix :: netprefix where
  "win_prefix = Prefix (Addr4 0x0a000001) 33"

definition win_desired :: selected_desired where
  "win_desired = \<lparr>sd_Role = ''home'', sd_Prefix = win_prefix, sd_IfIndex = 8, sd_Gateway = AddrZero\<rparr>"

definition win_identity :: selected_identity where
  "win_identity = \<lparr>si_Table = 254, si_IfIndex = 8, si_NextHop = [], si_Protocol = 3, si_Metric = 0, si_Scope = 0,
     si_InterfaceLuid = 8000\<rparr>"

definition win_park :: park_identity where
  "win_park = \<lparr>pi_Kind = SelectedParkLoopback, pi_Table = 254, pi_IfIndex = 1, pi_NextHop = ''127.0.0.1'', pi_Protocol = 3,
     pi_Metric = ManagedParkMetric, pi_Scope = 0, pi_InterfaceLuid = 0\<rparr>"

definition win_value :: route_value where
  "win_value = \<lparr>sr_Role = ''home'', sr_Zone = ''z'', sr_Prefix = win_prefix, sr_Source = SelectedDNS,
     sr_ToadGeneration = 1, sr_RouteGeneration = 1, sr_Interface = ''tun0'', sr_Desired = win_identity,
     sr_Owned = None, sr_State = SelectedApplying, sr_RetireDesired = False,
     sr_Park = Some \<lparr>sk_State = SelectedParkApplying, sk_Desired = win_park, sk_Owned = None, sk_RetireDesired = False\<rparr>\<rparr>"

text \<open>The same record once its route is active, and again on its way.\<close>

definition win_active :: route_value where
  "win_active = win_value\<lparr>sr_Owned := Some win_identity, sr_State := SelectedActive\<rparr>"

definition win_again :: route_value where
  "win_again = win_value\<lparr>sr_Owned := Some win_identity\<rparr>"

section \<open>Authorization\<close>

text \<open>C35: the Windows writer changes the forwarding table only with the authority of the record it was
  given. A row it creates stands for the record's desired identity, in any state of the record but
  Retiring, or for the desired identity of a park in state Applying. A row it deletes stands for an
  identity the record owned before, for the desired one only while the record is Applying or is
  Retiring with the desired identity marked, or likewise for one of its park. Standing for a route
  identity means its prefix, the writer's own protocol, the identity's metric, and the interface
  index, LUID and next hop the identity names; a park row has a loopback next hop.\<close>

theorem windows_mutates_only_authorized:
  fixes api :: "'k windows_api"
  assumes "snd (we_host e) = []"
  shows "list_all (win_authorized (sd_Prefix d) v)
      (snd (we_host (snd (windows_ReconcileSelectedRoute (logged_api api) d (Some v) e)))) \<and>
    list_all (win_authorized (sr_Prefix v) v) (snd (we_host (snd (windows_RemoveSelectedRoute (logged_api api) v e)))) \<and>
    list_all (win_authorized p v) (snd (we_host (snd (windows_ReconcileManagedPark (logged_api api) p (Some v) e)))) \<and>
    (sr_Park v = Some park \<longrightarrow>
       list_all (win_authorized p v) (snd (we_host (snd (windows_RemoveManagedPark (logged_api api) p park e)))))"
proof -
  have log: "list_all (win_authorized p v) (snd (we_host (snd (t e))))"
    if "keepsT (licit p v) t" for p and t :: "(('k \<times> win_call list) windows_executor, 'a) tx"
    using that assms by (auto simp: keepsT_def licit_def)
  show ?thesis
    by (intro conjI impI log keeps_reconcile_route keeps_remove_route keeps_reconcile_park keeps_remove_park)
qed

theorem windows_mutates_only_authorized_witness:
  "\<exists>row. snd (we_host (snd (windows_ReconcileSelectedRoute (logged_api (host_api True)) win_desired (Some win_value)
      (windows_NewExecutor (([], 0), []))))) = [WinCreate row] \<and> win_authorized win_prefix win_value (WinCreate row)"
proof -
  let ?e = "windows_NewExecutor (([], 0), []) :: ((mib_row list \<times> u64) \<times> win_call list) windows_executor"
  let ?log = "snd (we_host (snd (windows_ReconcileSelectedRoute (logged_api (host_api True)) win_desired (Some win_value) ?e)))"
  have "(case ?log of [WinCreate row] \<Rightarrow> True | _ \<Rightarrow> False)" by code_simp
  then obtain row where row: "?log = [WinCreate row]" by (auto split: list.splits win_call.splits)
  have "snd (we_host ?e) = []" by (simp add: windows_NewExecutor_def)
  from windows_mutates_only_authorized [OF this, of win_desired win_value "host_api True" win_prefix] row
  show ?thesis by (simp add: win_desired_def)
qed

section \<open>The cache\<close>

text \<open>C36: a refresh of the cache returns, with a coherent cache. When a bounded number of notifications
  can still interrupt the reading of the table and the loop is given more rounds than that, it
  publishes rows that were read from both tables without a notification in between, together with
  the generation of the host, which is the same before and after that reading: a reading during
  which a notification arrived is thrown away.\<close>

theorem windows_refresh_returns:
  assumes "settles api pending" and "pending (we_host e) < wa_attempts api"
  shows "\<exists>rows k'. stableSelectedRefreshLocked api e =
    (Inr rows, e\<lparr>we_host := k', we_selectedCache := rows, we_cacheGeneration := wa_notifyGeneration api k'\<rparr>) \<and>
    coherent_reading api rows k'"
  unfolding stableSelectedRefreshLocked_def using refresh_returns [OF assms] .

text \<open>A host with one notification left to deliver: the first reading of a table delivers it, together
  with a row that was not listed yet.\<close>

definition busy_api :: "(mib_row list \<times> u64) windows_api" where
  "busy_api = (host_api True)\<lparr>wa_routeTable := (\<lambda>family k.
     if snd k = 0 then (Inr [], (fst k, 1)) else wa_routeTable (host_api True) family k)\<rparr>"

definition busy_row :: mib_row where
  "busy_row = \<lparr>mr_Prefix = win_prefix, mr_InterfaceIndex = 8, mr_InterfaceLUID = 8000, mr_NextHop = AddrZero, mr_Metric = 0,
     mr_Protocol = 3, mr_ValidLifetime = 0, mr_PreferredLifetime = 0\<rparr>"

theorem windows_refresh_returns_witness:
  "\<exists>rows. fst (stableSelectedRefreshLocked busy_api (windows_NewExecutor ([busy_row], 0))) = Inr rows \<and>
     map fst rows = [win_prefix] \<and> coherent_reading busy_api rows ([busy_row], 1)"
proof -
  let ?pending = "\<lambda>k :: mib_row list \<times> u64. if snd k = 0 then 1 else 0 :: nat"
  let ?e = "windows_NewExecutor ([busy_row], 0)"
  have "settles busy_api ?pending" by (auto simp: settles_def busy_api_def host_api_def)
  moreover have "?pending (we_host ?e) < wa_attempts busy_api" by (simp add: windows_NewExecutor_def busy_api_def host_api_def)
  ultimately obtain rows k' where run: "stableSelectedRefreshLocked busy_api ?e =
      (Inr rows, ?e\<lparr>we_host := k', we_selectedCache := rows, we_cacheGeneration := wa_notifyGeneration busy_api k'\<rparr>)"
    "coherent_reading busy_api rows k'" using windows_refresh_returns by blast
  have "we_host (snd (stableSelectedRefreshLocked busy_api ?e)) = ([busy_row], 1)"
    "map_sum id (map fst) (fst (stableSelectedRefreshLocked busy_api ?e)) = Inr [win_prefix]" by code_simp+
  with run show ?thesis by auto
qed

text \<open>A route can be reported although it is not there. After a route was removed, the cache still
  lists it until the notification of the removal arrives; a reconciliation before that finds
  nothing to do, reads nothing back and reports the desired identity as verified, while the table
  is empty.\<close>

lemma windows_reports_removed_route:
  "let add = windows_ReconcileSelectedRoute (host_api False) win_desired (Some win_value) (windows_NewExecutor ([], 0));
       removed = windows_RemoveSelectedRoute (host_api False) win_active (snd add);
       again = windows_ReconcileSelectedRoute (host_api False) win_desired (Some win_again) (snd removed)
   in fst add = Inr \<lparr>rc_Mutated = True, rc_Verified = win_identity\<rparr> \<and> fst removed = Inr () \<and>
      fst again = Inr \<lparr>rc_Mutated = False, rc_Verified = win_identity\<rparr> \<and> fst (we_host (snd again)) = []"
  by code_simp

section \<open>Parks\<close>

text \<open>A managed park never becomes active on Windows. The identity that is normalized for a park has
  no LUID, and every row of the table has one, so the read-back never finds the park: the
  reconciliation fails on every host.\<close>

lemma windows_park_never_proved:
  assumes "lists_luids api" and "fst (windows_NormalizeManagedPark api p e0) = Inr i"
    and "sr_Park v = Some park" and "sk_Desired park = i" and "luid_cache e"
  shows "\<exists>err e'. windows_ReconcileManagedPark api p (Some v) e = (Inl err, e')"
proof -
  have "pi_InterfaceLuid i = 0"
    using assms(2)
    by (auto simp: windows_NormalizeManagedPark_def park_none_def bindT_def getT_def Let_def split: if_splits option.splits)
  with assms(4) have luid: "pi_InterfaceLuid (sk_Desired park) = 0" by simp
  obtain r e' where run: "windows_ReconcileManagedPark api p (Some v) e = (r, e')" by force
  show ?thesis
  proof (cases r)
    case (Inr res)
    with run triple_value [OF park_unproved [OF assms(1, 3) luid] assms(5)] show ?thesis by blast
  qed (use run in blast)
qed

lemma windows_park_never_proved_witness:
  "\<exists>err e'. windows_ReconcileManagedPark (host_api True) win_prefix (Some win_value)
     (windows_NewExecutor ([], 0)) = (Inl err, e')"
proof -
  let ?e = "windows_NewExecutor ([], 0) :: (mib_row list \<times> u64) windows_executor"
  have "lists_luids (host_api True)" by (auto simp: lists_luids_def host_api_def)
  moreover have "fst (windows_NormalizeManagedPark (host_api True) win_prefix ?e) = Inr win_park" by code_simp
  moreover have "sr_Park win_value = Some (the (sr_Park win_value))" "sk_Desired (the (sr_Park win_value)) = win_park"
    by (simp_all add: win_value_def)
  moreover have "luid_cache ?e" by (simp add: luid_cache_def luid_map_def windows_NewExecutor_def)
  ultimately show ?thesis by (rule windows_park_never_proved)
qed

section \<open>Effective metrics\<close>

text \<open>The comparison of effective metrics does not overflow: the selected route wins exactly when the
  sum of its metric and the metric of its interface, as natural numbers, is below the sum of the
  park.\<close>

lemma windows_wins_exact:
  fixes api :: "'k windows_api" and m m' :: u32
  assumes "wa_interfaceMetricByLuid api (si_InterfaceLuid i) (if addr_Is4 (prefix_Addr p) then AF_INET else AF_INET6) (we_host e) = (Inr m, k)"
    and "wa_interfaceMetricByLuid api (pi_InterfaceLuid park) (if addr_Is4 (prefix_Addr p) then AF_INET else AF_INET6) k = (Inr m', k')"
  shows "SelectedWinsOverPark api p i park e =
    (Inr (unat (si_Metric i) + unat m < unat (pi_Metric park) + unat m'), e\<lparr>we_host := k'\<rparr>)"
proof -
  have "unat ((ucast a :: u64) + ucast b) = unat a + unat b" for a b :: u32
  proof -
    have "unat a < 2 ^ 32" "unat b < 2 ^ 32" using unsigned_less [of a] unsigned_less [of b] by simp_all
    then show ?thesis by (simp add: unat_word_ariths unsigned_ucast_eq take_bit_nat_eq_self)
  qed
  with assms show ?thesis by (simp add: SelectedWinsOverPark_def Let_def bindT_def on_host_def word_less_nat_alt)
qed

lemma windows_wins_exact_witness:
  "SelectedWinsOverPark (host_api True) win_prefix win_identity win_park (windows_NewExecutor ([], 0)) =
    (Inr True, windows_NewExecutor ([], 0))"
proof -
  have "wa_interfaceMetricByLuid (host_api True) luid family k = (Inr 5, k)" for luid family k
    by (simp add: host_api_def)
  from windows_wins_exact [OF this this, where i = win_identity and p = win_prefix and e = "windows_NewExecutor ([], 0)" and park = win_park]
  show ?thesis by (simp add: win_identity_def win_park_def ManagedParkMetric_def)
qed

end
