(* ===== verification/Manager_Traces.thy ===== *)
theory Manager_Traces
  imports Manager_Invariants
begin

text \<open>
  The order in which the manager asks the host for things. An environment is instrumented so
  that every mutation request, every observation of a park and every durable checkpoint write
  is appended to a trace; the instrumented host answers as the original one does. Over the
  traces: a route mutation is requested only when the last checkpoint of the role on disk holds
  the very record in state Applying (write-ahead), and a withdrawal removes a route only after
  its exact park was observed.
\<close>

section \<open>Instrumented environments\<close>

datatype host_event =
    EvCheckpoint selected_checkpoint
  | EvReconcileRoute selected_desired route_value
  | EvRemoveRoute route_value
  | EvReconcilePark string netprefix route_value
  | EvObservePark netprefix park_identity bool
  | EvRemovePark string netprefix selected_park

record 'h traced =
  th_Host :: 'h
  th_Trace :: "host_event list"

definition hostT :: "('h, 'a) tx \<Rightarrow> ('h traced, 'a) tx" where
  "hostT t s = (case t (th_Host s) of (r, h) \<Rightarrow> (r, s\<lparr>th_Host := h\<rparr>))"

definition noteT :: "host_event \<Rightarrow> ('h traced, unit) tx" where
  "noteT ev = putT (\<lambda>s. s\<lparr>th_Trace := th_Trace s @ [ev]\<rparr>)"

definition requestT :: "host_event \<Rightarrow> ('h, 'a) tx \<Rightarrow> ('h traced, 'a) tx" where
  "requestT ev t = bindT (noteT ev) (\<lambda>_. hostT t)"

definition logged_executor :: "'h executor \<Rightarrow> 'h traced executor" where
  "logged_executor ex =
     \<lparr>ex_Apply = (\<lambda>tr s. case ex_Apply ex tr (th_Host s) of (r, h) \<Rightarrow> (r, s\<lparr>th_Host := h\<rparr>)),
      ex_Snapshot = (\<lambda>s. ex_Snapshot ex (th_Host s))\<rparr>"

definition logged_routes :: "'h route_manager \<Rightarrow> 'h traced route_manager" where
  "logged_routes rm =
     \<lparr>rm_NormalizeSelectedRoute = (\<lambda>d. hostT (rm_NormalizeSelectedRoute rm d)),
      rm_PreflightSelectedRoute = (\<lambda>p i v. hostT (rm_PreflightSelectedRoute rm p i v)),
      rm_ReconcileSelectedRoute = (\<lambda>d v. requestT (EvReconcileRoute d v) (rm_ReconcileSelectedRoute rm d v)),
      rm_RemoveSelectedRoute = (\<lambda>v. requestT (EvRemoveRoute v) (rm_RemoveSelectedRoute rm v)),
      rm_NormalizeManagedPark = (\<lambda>p. hostT (rm_NormalizeManagedPark rm p)),
      rm_PreflightManagedPark = (\<lambda>p i v. hostT (rm_PreflightManagedPark rm p i v)),
      rm_ReconcileManagedPark = (\<lambda>role p v. requestT (EvReconcilePark role p v) (rm_ReconcileManagedPark rm role p v)),
      rm_ObserveManagedPark = (\<lambda>p k. bindT (hostT (rm_ObserveManagedPark rm p k)) (\<lambda>present.
         bindT (noteT (EvObservePark p k present)) (\<lambda>_. returnT present))),
      rm_RemoveManagedPark = (\<lambda>role p k. requestT (EvRemovePark role p k) (rm_RemoveManagedPark rm role p k)),
      rm_SnapshotSelectedRoutes = hostT (rm_SnapshotSelectedRoutes rm),
      rm_CurrentSelectedRouteSequence = map_option (\<lambda>seq s. seq (th_Host s)) (rm_CurrentSelectedRouteSequence rm),
      rm_SelectedWinsOverPark = map_option (\<lambda>f p i k. hostT (f p i k)) (rm_SelectedWinsOverPark rm),
      rm_Executor = map_option logged_executor (rm_Executor rm)\<rparr>"

definition logged_env :: "'h manager_env \<Rightarrow> 'h traced manager_env" where
  "logged_env env =
     \<lparr>se_Routes = map_option logged_routes (se_Routes env), se_RoleRuntime = se_RoleRuntime env,
      se_ZoneRoles = se_ZoneRoles env, se_StateDir = se_StateDir env, se_Capacity = se_Capacity env,
      se_Managed = se_Managed env, se_AuthorityError = se_AuthorityError env,
      se_WriteCheckpoint = (\<lambda>path c. bindT (hostT (se_WriteCheckpoint env path c)) (\<lambda>_. noteT (EvCheckpoint c))),
      se_Windows = se_Windows env, se_Failpoint = se_Failpoint env\<rparr>"

text \<open>The trace of the events since the instrumented host was started.\<close>

abbreviation trace_of :: "'h traced selected_manager \<Rightarrow> host_event list" where
  "trace_of m \<equiv> th_Trace (sm_Kernel m)"

section \<open>Write-ahead\<close>

definition durable :: "(string, selected_checkpoint) gomap \<Rightarrow> string \<Rightarrow> route_value \<Rightarrow> bool" where
  "durable disk role v =
     (case map_of disk role of
        None \<Rightarrow> False
      | Some c \<Rightarrow> (case ck_Entries c of None \<Rightarrow> False | Some es \<Rightarrow> v \<in> set es))"

fun disk_after :: "(string, selected_checkpoint) gomap \<Rightarrow> host_event list \<Rightarrow> (string, selected_checkpoint) gomap" where
  "disk_after disk [] = disk"
| "disk_after disk (EvCheckpoint c # es) = disk_after (gomap_put (ck_Role c) c disk) es"
| "disk_after disk (_ # es) = disk_after disk es"

text \<open>Every route mutation of the trace acts on a record that the checkpoint on disk at that
  moment holds, in state Applying.\<close>

fun write_ahead :: "(string, selected_checkpoint) gomap \<Rightarrow> host_event list \<Rightarrow> bool" where
  "write_ahead disk [] = True"
| "write_ahead disk (EvCheckpoint c # es) = write_ahead (gomap_put (ck_Role c) c disk) es"
| "write_ahead disk (EvReconcileRoute d v # es) =
     (sr_State v = SelectedApplying \<and> durable disk (sd_Role d) v \<and> write_ahead disk es)"
| "write_ahead disk (_ # es) = write_ahead disk es"

lemma write_ahead_append: "write_ahead disk (xs @ ys) = (write_ahead disk xs \<and> write_ahead (disk_after disk xs) ys)"
  by (induction disk xs rule: write_ahead.induct) auto

lemma disk_after_append: "disk_after disk (xs @ ys) = disk_after (disk_after disk xs) ys"
  by (induction disk xs rule: disk_after.induct) auto

text \<open>The monitored state: the trace so far is write-ahead and the manager's view of the disk is
  the trace's.\<close>

definition logged_ok :: "(string, selected_checkpoint) gomap \<Rightarrow> 'h traced selected_manager \<Rightarrow> bool" where
  "logged_ok disk0 m \<longleftrightarrow> write_ahead disk0 (trace_of m) \<and> disk_after disk0 (trace_of m) = sm_Disk m"

text \<open>The role's checkpoint on disk is the registry's current content.\<close>

definition synced :: "string \<Rightarrow> 'k selected_manager \<Rightarrow> bool" where
  "synced role m \<longleftrightarrow> (\<exists>c. map_of (sm_Disk m) role = Some c \<and>
     ck_Entries c = Some (snapshot_values role (sm_Registry m)))"

definition persistent :: "'k manager_env \<Rightarrow> string \<Rightarrow> bool" where
  "persistent env role \<longleftrightarrow> se_StateDir env role \<noteq> None \<and> se_StateDir env role \<noteq> Some []"

subsection \<open>Steps that keep the monitor\<close>

lemma logged_ok_cong:
  "trace_of m' = trace_of m \<Longrightarrow> sm_Disk m' = sm_Disk m \<Longrightarrow> logged_ok disk0 m' = logged_ok disk0 m"
  by (simp add: logged_ok_def)

lemma logged_registry: "keepsT (logged_ok disk0) (on_registry t)"
  by (auto simp: keepsT_def on_registry_def logged_ok_def split: prod.splits)

lemma logged_host: "keepsT (logged_ok disk0) (on_kernel (hostT t))"
  by (auto simp: keepsT_def on_kernel_def hostT_def logged_ok_def split: prod.splits)

lemma logged_put: "(\<And>m. sm_Kernel (f m) = sm_Kernel m \<and> sm_Disk (f m) = sm_Disk m) \<Longrightarrow> keepsT (logged_ok disk0) (putT f)"
  by (simp add: keepsT_def logged_ok_def)

lemma hostT_trace: "hostT t s = (r, s') \<Longrightarrow> th_Trace s' = th_Trace s"
  by (auto simp: hostT_def split: prod.splits)

lemma logged_request:
  assumes "\<And>disk. write_ahead disk [ev]" and "\<And>disk. disk_after disk [ev] = disk"
  shows "keepsT (logged_ok disk0) (on_kernel (requestT ev t))"
  using assms
  by (auto simp: keepsT_def on_kernel_def requestT_def noteT_def bindT_def putT_def hostT_def logged_ok_def
        write_ahead_append disk_after_append split: prod.splits sum.splits)

lemma logged_checkpoint: "keepsT (logged_ok disk0) (writeCheckpoint (logged_env env) role g)"
  by (auto simp: keepsT_def writeCheckpoint_def Let_def logged_env_def bindT_def noteT_def logged_ok_def
        write_ahead_append disk_after_append manager_checkpoint_def
      split: option.splits prod.splits sum.splits dest!: hostT_trace)

lemma logged_checkpoint_now: "keepsT (logged_ok disk0) (checkpointNow (logged_env env) role)"
  using logged_checkpoint [of disk0 env role]
  by (simp add: keepsT_def checkpointNow_def logged_ok_cong [of "touch_role role _"])

lemma logged_mint: "keepsT (logged_ok disk0) (putT (mintVerificationToken role e))"
  by (rule logged_put) (simp add: mintVerificationToken_def split: option.splits)

lemma logged_routes_simps [simp]:
  "rm_NormalizeSelectedRoute (logged_routes rm) = (\<lambda>d. hostT (rm_NormalizeSelectedRoute rm d))"
  "rm_PreflightSelectedRoute (logged_routes rm) = (\<lambda>p i v. hostT (rm_PreflightSelectedRoute rm p i v))"
  "rm_ReconcileSelectedRoute (logged_routes rm) = (\<lambda>d v. requestT (EvReconcileRoute d v) (rm_ReconcileSelectedRoute rm d v))"
  "rm_RemoveSelectedRoute (logged_routes rm) = (\<lambda>v. requestT (EvRemoveRoute v) (rm_RemoveSelectedRoute rm v))"
  by (simp_all add: logged_routes_def)

lemma logged_env_simps [simp]:
  "se_Routes (logged_env env) = map_option logged_routes (se_Routes env)"
  "se_StateDir (logged_env env) = se_StateDir env" "se_ZoneRoles (logged_env env) = se_ZoneRoles env"
  "se_RoleRuntime (logged_env env) = se_RoleRuntime env" "se_Managed (logged_env env) = se_Managed env"
  "persistent (logged_env env) role = persistent env role"
  by (simp_all add: logged_env_def persistent_def)

lemmas logged_steps = tx_keeps keeps_failpoint logged_registry logged_host logged_checkpoint logged_checkpoint_now
  logged_mint

subsection \<open>What a checkpoint authorizes\<close>

lemma checkpoint_synced:
  "persistent env role \<Longrightarrow> writeCheckpoint env role g m = (Inr u, m') \<Longrightarrow> synced role m'"
  by (auto simp: writeCheckpoint_def persistent_def synced_def Let_def manager_checkpoint_def snapshot_values_def
        read_record_def split: option.splits if_splits prod.splits sum.splits)

lemma checkpoint_now_synced:
  "persistent env role \<Longrightarrow> checkpointNow env role m = (Inr u, m') \<Longrightarrow> synced role m'"
  by (simp add: checkpointNow_def checkpoint_synced)

lemma synced_durable:
  assumes "synced role m" and "registryEntry role prefix m = Some rec"
  shows "durable (sm_Disk m) role (read_record rec m)"
proof -
  from assms(2) have "rec \<in> set (registry_Snapshot role (sm_Registry m))"
    by (auto simp: registryEntry_def find_Some_iff)
  with assms(1) show ?thesis
    by (auto simp: synced_def durable_def snapshot_values_def read_record_def)
qed

lemma reconcile_request:
  "tripleT (\<lambda>m. logged_ok disk0 m \<and> durable (sm_Disk m) role (read_record rec m) \<and> sr_State rec = SelectedApplying)
     (\<lambda>m. on_kernel (rm_ReconcileSelectedRoute (logged_routes rm)
             \<lparr>sd_Role = role, sd_Prefix = p, sd_IfIndex = i, sd_Gateway = g\<rparr> (read_record rec m)) m)
     (\<lambda>_. logged_ok disk0) (logged_ok disk0)"
  by (auto simp: tripleT_def on_kernel_def requestT_def noteT_def bindT_def putT_def hostT_def logged_ok_def
        write_ahead_append disk_after_append read_record_def split: prod.splits sum.splits)

lemma drive_logged:
  "tripleT (\<lambda>m. logged_ok disk0 m \<and> durable (sm_Disk m) role (read_record rec m))
     (driveTransaction (logged_env env) (logged_routes rm) role rec) (\<lambda>_. logged_ok disk0) (logged_ok disk0)"
proof (cases "sr_State rec = SelectedApplying")
  case True
  show ?thesis
    unfolding driveTransaction_def True simp_thms if_False
  proof (rule triple_bind [where R = "\<lambda>_. logged_ok disk0"])
    show "tripleT (\<lambda>m. logged_ok disk0 m \<and> durable (sm_Disk m) role (read_record rec m))
      (\<lambda>m. on_kernel (rm_ReconcileSelectedRoute (logged_routes rm)
             \<lparr>sd_Role = role, sd_Prefix = sr_Prefix rec, sd_IfIndex = si_IfIndex (sr_Desired rec), sd_Gateway = AddrZero\<rparr>
             (read_record rec m)) m) (\<lambda>_. logged_ok disk0) (logged_ok disk0)"
      by (rule triple_conseq [OF reconcile_request]) (use True in auto)
  qed (intro triple_keeps logged_steps)
qed (auto simp: driveTransaction_def intro!: triple_throw)

lemma drive_entry_logged:
  "tripleT (\<lambda>m. logged_ok disk0 m \<and> synced role m)
     (bindT (getT (registryEntry role prefix)) (\<lambda>rec.
        case rec of None \<Rightarrow> throwT e | Some rec \<Rightarrow> driveTransaction (logged_env env) (logged_routes rm) role rec))
     (\<lambda>_. logged_ok disk0) (logged_ok disk0)"
proof (rule triple_bind)
  let ?R = "\<lambda>x m. logged_ok disk0 m \<and> (\<forall>rec. x = Some rec \<longrightarrow> durable (sm_Disk m) role (read_record rec m))"
  show "tripleT (\<lambda>m. logged_ok disk0 m \<and> synced role m) (getT (registryEntry role prefix)) ?R (logged_ok disk0)"
    by (auto intro!: triple_get synced_durable)
  show "tripleT (?R x) (case x of None \<Rightarrow> throwT e
      | Some rec \<Rightarrow> driveTransaction (logged_env env) (logged_routes rm) role rec) (\<lambda>_. logged_ok disk0) (logged_ok disk0)" for x
    by (cases x) (auto intro!: triple_throw triple_conseq [OF drive_logged])
qed

lemma checkpoint_now_logged:
  "persistent env role \<Longrightarrow>
   tripleT (logged_ok disk0) (checkpointNow (logged_env env) role) (\<lambda>_ m. logged_ok disk0 m \<and> synced role m) (logged_ok disk0)"
  by (rule tripleI)
     (auto intro: keepsTD [OF logged_checkpoint_now] checkpoint_now_synced [of "logged_env env"])

lemma failpoint_triple: "(\<And>s. P s \<Longrightarrow> E s) \<Longrightarrow> tripleT P (runFailpoint env point role prefix) (\<lambda>_. P) E"
  by (rule triple_conseq [OF triple_keeps [OF keeps_failpoint]])

lemma pending_logged:
  assumes "persistent env role"
  shows "tripleT (logged_ok disk0) (reconcile_pending (logged_env env) (logged_routes rm) role prefix rec)
           (\<lambda>_. logged_ok disk0) (logged_ok disk0)"
proof -
  have tail: "tripleT (\<lambda>m. logged_ok disk0 m \<and> synced role m)
      (bindT (runFailpoint (logged_env env) ''route.after_applying_checkpoint'' role prefix) (\<lambda>_.
       bindT (getT (registryEntry role prefix)) (\<lambda>rec'. case rec' of None \<Rightarrow> throwT (Errorf ''nil record'')
         | Some rec' \<Rightarrow> driveTransaction (logged_env env) (logged_routes rm) role rec')))
      (\<lambda>_. logged_ok disk0) (logged_ok disk0)"
    by (rule triple_bind [OF failpoint_triple drive_entry_logged]) simp
  have preflight: "keepsT (logged_ok disk0) (mapErrT f (\<lambda>m. on_kernel
      (rm_PreflightSelectedRoute (logged_routes rm) prefix (sr_Desired rec) (read_record rec m)) m))" for f
    unfolding logged_routes_simps by (rule keepsT_mapErr, rule keeps_at, rule logged_host)
  show ?thesis
    unfolding reconcile_pending_def
    by (rule triple_keep_bind [OF preflight], rule triple_keep_bind [OF keeps_failpoint],
        rule triple_keep_bind [OF logged_registry], rule triple_bind [OF checkpoint_now_logged [OF assms]], rule tail)
qed

lemma reconcile_logged:
  assumes "persistent env role"
  shows "tripleT (\<lambda>m. logged_ok disk0 m \<and> synced role m) (reconcileRecordLocked (logged_env env) role prefix)
           (\<lambda>_. logged_ok disk0) (logged_ok disk0)"
proof (cases "se_Routes env")
  case (Some rm)
  let ?R = "\<lambda>x m. logged_ok disk0 m \<and> (\<forall>rec. x = Some rec \<longrightarrow> durable (sm_Disk m) role (read_record rec m))"
  note pending = pending_logged [OF assms, of disk0 rm prefix]
  have weak: "tripleT (?R x) t Q E" if "tripleT (logged_ok disk0) t Q E" for x t Q E
    by (rule triple_conseq [OF that]) auto
  have repair: "tripleT (logged_ok disk0)
      (bindT (on_registry (BeginRepair role prefix)) (\<lambda>_.
       bindT (checkpointNow (logged_env env) role) (\<lambda>_.
       bindT (getT (registryEntry role prefix)) (\<lambda>rec'.
       case rec' of None \<Rightarrow> throwT (Errorf ''nil record'')
       | Some rec' \<Rightarrow> reconcile_pending (logged_env env) (logged_routes rm) role prefix rec'))))
      (\<lambda>_. logged_ok disk0) (logged_ok disk0)"
    by (rule triple_keep_bind [OF logged_registry], rule triple_keep_bind [OF logged_checkpoint_now],
        rule triple_keep_bind [OF keepsT_get])
       (auto intro!: pending triple_throw split: option.splits)
  have entry: "tripleT (\<lambda>m. logged_ok disk0 m \<and> synced role m) (getT (registryEntry role prefix)) ?R (logged_ok disk0)"
    by (auto intro!: triple_get synced_durable)
  show ?thesis
    unfolding reconcileRecordLocked_def logged_env_simps Some option.map option.case
  proof (rule triple_bind [OF entry], goal_cases)
    case (1 x)
    show ?case
    proof (cases x)
      case (Some rec)
      have drive: "tripleT (?R x) (driveTransaction (logged_env env) (logged_routes rm) role rec)
          (\<lambda>_. logged_ok disk0) (logged_ok disk0)"
        by (rule triple_conseq [OF drive_logged]) (use Some in auto)
      have throw: "tripleT (?R x) (throwT e) (\<lambda>_. logged_ok disk0) (logged_ok disk0)" for e
        by (rule triple_throw) simp
      show ?thesis
      proof (cases "sr_State rec")
        case SelectedActive
        show ?thesis using weak [OF repair, of x] by (simp only: Some option.case SelectedActive selected_state.case)
      next
        case SelectedPending
        show ?thesis using weak [OF pending, of x rec] by (simp only: Some option.case SelectedPending selected_state.case)
      next
        case SelectedApplying
        show ?thesis using drive by (simp only: Some option.case SelectedApplying selected_state.case)
      next
        case SelectedRetiring
        show ?thesis using throw by (simp only: Some option.case SelectedRetiring selected_state.case)
      next
        case (StateOther t)
        show ?thesis using throw by (simp only: Some option.case StateOther selected_state.case)
      qed
    qed (auto intro!: triple_throw)
  qed
qed (auto simp: reconcileRecordLocked_def intro!: triple_throw)

lemma apply_logged:
  assumes "persistent env role"
  shows "tripleT (logged_ok disk0)
           (applySelectedRouteCanonical (logged_env env) role zone prefix source ifIndex iface g tg)
           (\<lambda>_. logged_ok disk0) (logged_ok disk0)"
proof (cases "se_Routes env")
  case (Some rm)
  have checkpoint: "tripleT (logged_ok disk0) (mapErrT f (writeCheckpoint (logged_env env) role g))
      (\<lambda>_ m. logged_ok disk0 m \<and> synced role m) (logged_ok disk0)" for f
    by (rule triple_mapErr, rule tripleI)
       (use assms in \<open>auto intro: keepsTD [OF logged_checkpoint] checkpoint_synced [of "logged_env env"]\<close>)
  have tail: "tripleT (\<lambda>m. logged_ok disk0 m \<and> synced role m)
      (bindT (runFailpoint (logged_env env) point role prefix) (\<lambda>_.
       mapErrT f (bindT (reconcileRecordLocked (logged_env env) role prefix) (\<lambda>mutated. returnT (\<not> mutated)))))
      (\<lambda>_. logged_ok disk0) (logged_ok disk0)" for point f
    by (rule triple_bind [OF failpoint_triple triple_mapErr [OF triple_bind [OF reconcile_logged [OF assms]]]])
       (auto intro!: triple_return)
  show ?thesis
    unfolding applySelectedRouteCanonical_def logged_env_simps Some option.map option.case logged_routes_simps
    by (rule triple_keep_bind [OF logged_host], rule triple_keep_bind [OF keepsT_get])
       (auto intro!: triple_return triple_keep_bind [OF logged_registry] triple_bind [OF checkpoint tail])
qed (auto simp: applySelectedRouteCanonical_def intro!: triple_throw)

lemma logged_role [simp]: "logged_ok disk0 (update_role role f m) = logged_ok disk0 m"
  by (simp add: logged_ok_def)

lemma ensure_apply_logged:
  assumes "persistent env role" and "logged_ok disk0 m"
  shows "logged_ok disk0 (snd (ensure_apply (logged_env env) intent role prefix runtime result m))"
proof -
  let ?m = "update_role role beginFlight m"
  obtain x m' where run: "applySelectedRouteCanonical (logged_env env) role (li_Zone intent) prefix
      (if li_Source intent = LeshyRouteStatic then SelectedStatic else SelectedDNS)
      (ts_IfIndex (rr_Toad runtime)) (ts_InterfaceName (rr_Toad runtime))
      (rl_routeGeneration (roleState role ?m)) (rr_ToadGeneration runtime) ?m = (x, m')" by force
  from assms(2) have "logged_ok disk0 ?m" by simp
  from keepsTD [OF triple_keeps_back [OF apply_logged [OF assms(1)]] this run] run
  show ?thesis by (cases x) (auto simp: ensure_apply_def Let_def)
qed

lemma Ensure_logged:
  assumes dirs: "\<And>role. zone_role env (li_Zone intent) = Some role \<Longrightarrow> persistent env role"
    and "logged_ok disk0 m"
  shows "logged_ok disk0 (snd (Ensure (logged_env env) intent m))"
proof -
  have dirs': "persistent env role" if "map_of (se_ZoneRoles env) (li_Zone intent) = Some [role]" for role
    using that dirs [of role] by (simp add: zone_role_def)
  have "logged_ok disk0 (snd (ensure_intent (logged_env env) intent m))"
    using assms(2)
    by (auto simp: ensure_intent_def Let_def intro!: ensure_apply_logged dirs' split: option.splits list.splits sum.splits)
  then show ?thesis
    by (auto simp: Ensure_def countRoleStat_def split: prod.splits option.splits)
qed

section \<open>Covered withdrawal\<close>

text \<open>Every route removal of the trace acts on a record with a proven park, and the last
  observation of that exact park before it said it is there.\<close>

fun covered :: "(netprefix \<times> park_identity) list \<Rightarrow> host_event list \<Rightarrow> bool" where
  "covered seen [] = True"
| "covered seen (EvObservePark p k present # es) =
     covered (if present then (p, k) # seen else removeAll (p, k) seen) es"
| "covered seen (EvRemoveRoute v # es) =
     (park_proven v \<and> (sr_Prefix v, the (sk_Owned (the (sr_Park v)))) \<in> set seen \<and> covered seen es)"
| "covered seen (_ # es) = covered seen es"

fun seen_after :: "(netprefix \<times> park_identity) list \<Rightarrow> host_event list \<Rightarrow> (netprefix \<times> park_identity) list" where
  "seen_after seen [] = seen"
| "seen_after seen (EvObservePark p k present # es) =
     seen_after (if present then (p, k) # seen else removeAll (p, k) seen) es"
| "seen_after seen (_ # es) = seen_after seen es"

lemma covered_append: "covered seen (xs @ ys) = (covered seen xs \<and> covered (seen_after seen xs) ys)"
  by (induction seen xs rule: covered.induct) auto

lemma seen_after_append: "seen_after seen (xs @ ys) = seen_after (seen_after seen xs) ys"
  by (induction seen xs rule: seen_after.induct) auto

abbreviation park_key :: "route_value \<Rightarrow> netprefix \<times> park_identity" where
  "park_key v \<equiv> (sr_Prefix v, the (sk_Owned (the (sr_Park v))))"

text \<open>The monitored state of a withdrawal over an unchanged registry: the records of \<open>done\<close> are
  proven and observed.\<close>

definition withdrawing :: "selected_registry \<Rightarrow> route_record list \<Rightarrow> 'h traced selected_manager \<Rightarrow> bool" where
  "withdrawing reg observed m \<longleftrightarrow> sm_Registry m = reg \<and> covered [] (trace_of m) \<and>
     (\<forall>e \<in> set observed. park_proven (read_record e m) \<and> park_key (read_record e m) \<in> set (seen_after [] (trace_of m)))"

lemma observe_event:
  "on_kernel (rm_ObserveManagedPark (logged_routes rm) p k) m = (Inr present, m') \<Longrightarrow>
     trace_of m' = trace_of m @ [EvObservePark p k present] \<and> sm_Registry m' = sm_Registry m"
  "on_kernel (rm_ObserveManagedPark (logged_routes rm) p k) m = (Inl e, m') \<Longrightarrow>
     trace_of m' = trace_of m \<and> sm_Registry m' = sm_Registry m"
  by (auto simp: logged_routes_def on_kernel_def hostT_def noteT_def bindT_def putT_def returnT_def
      split: prod.splits sum.splits)

lemma withdraw_check_step:
  "tripleT (withdrawing reg observed) (withdraw_check (logged_routes rm) e)
     (\<lambda>_. withdrawing reg (e # observed)) (\<lambda>m. covered [] (trace_of m))"
proof (rule tripleI)
  fix m x m'
  assume w: "withdrawing reg observed m" and run: "withdraw_check (logged_routes rm) e m = (Inl x, m')"
  then show "covered [] (trace_of m')"
    by (auto simp: withdraw_check_def withdrawing_def bindT_def requireT_def covered_append
        split: option.splits if_splits prod.splits sum.splits dest!: observe_event)
next
  fix m x m'
  assume w: "withdrawing reg observed m" and run: "withdraw_check (logged_routes rm) e m = (Inr x, m')"
  then obtain park where park: "sr_Park (read_record e m) = Some park" "park_proven (read_record e m)"
    and seen: "on_kernel (rm_ObserveManagedPark (logged_routes rm) (sr_Prefix e) (the (sk_Owned park))) m = (Inr True, m')"
    by (auto simp: withdraw_check_def bindT_def requireT_def
        split: option.splits if_splits prod.splits sum.splits)
  from observe_event(1) [OF seen] w park show "withdrawing reg (e # observed) m'"
    by (auto simp: withdrawing_def covered_append seen_after_append read_record_def)
qed

lemma withdraw_checks:
  "tripleT (withdrawing reg observed) (eachT (withdraw_check (logged_routes rm)) es)
     (\<lambda>_. withdrawing reg (rev es @ observed)) (\<lambda>m. covered [] (trace_of m))"
proof (induction es arbitrary: observed)
  case (Cons e es)
  show ?case
    using triple_bind [OF withdraw_check_step Cons.IH [of "e # observed"]] by simp
qed (auto intro!: triple_return)

lemma withdraw_remove_step:
  "e \<in> set plan \<Longrightarrow> keepsT (withdrawing reg plan) (withdraw_remove (logged_routes rm) e)"
  by (auto simp: keepsT_def withdraw_remove_def withdrawing_def on_kernel_def requestT_def noteT_def bindT_def putT_def
      hostT_def covered_append seen_after_append read_record_def split: prod.splits sum.splits)

lemma withdraw_verify_step:
  "keepsT (\<lambda>m. covered [] (trace_of m)) (withdraw_verify (logged_routes rm) item)"
  by (rule keepsTI)
     (auto simp: withdraw_verify_def bindT_def requireT_def covered_append
       split: prod.splits sum.splits if_splits dest!: observe_event)

lemma withdrawing_covered: "withdrawing reg es m \<Longrightarrow> covered [] (trace_of m)"
  by (simp add: withdrawing_def)

lemma withdrawing_perm: "set es = set es' \<Longrightarrow> withdrawing reg es m = withdrawing reg es' m"
  by (simp add: withdrawing_def)

lemma withdraw_body:
  "tripleT (withdrawing reg [])
     (bindT (eachT (withdraw_check (logged_routes rm)) plan) (\<lambda>_.
      bindT (getT f) (\<lambda>parks.
      bindT (eachT (withdraw_remove (logged_routes rm)) plan) (\<lambda>_.
      eachT (withdraw_verify (logged_routes rm)) parks))))
     (\<lambda>_ m. covered [] (trace_of m)) (\<lambda>m. covered [] (trace_of m))"
proof (rule triple_bind [OF withdraw_checks], unfold append_Nil2)
  have removes: "tripleT (withdrawing reg plan) (eachT (withdraw_remove (logged_routes rm)) plan)
      (\<lambda>_ m. covered [] (trace_of m)) (\<lambda>m. covered [] (trace_of m))"
    by (rule triple_conseq [OF triple_keeps [OF keepsT_each [OF withdraw_remove_step]]])
       (auto dest: withdrawing_covered)
  have verifies: "tripleT (\<lambda>m. covered [] (trace_of m)) (eachT (withdraw_verify (logged_routes rm)) parks)
      (\<lambda>_ m. covered [] (trace_of m)) (\<lambda>m. covered [] (trace_of m))" for parks
    by (rule triple_keeps [OF keepsT_each [OF withdraw_verify_step]])
  show "tripleT (withdrawing reg (rev plan)) (bindT (getT f) (\<lambda>parks.
      bindT (eachT (withdraw_remove (logged_routes rm)) plan) (\<lambda>_. eachT (withdraw_verify (logged_routes rm)) parks)))
     (\<lambda>_ m. covered [] (trace_of m)) (\<lambda>m. covered [] (trace_of m))"
    by (rule triple_bind [OF triple_get triple_bind [OF removes verifies]])
       (simp add: withdrawing_def)
qed

lemma WithdrawSelected_logged:
  assumes "trace_of m = []"
  shows "covered [] (trace_of (snd (WithdrawSelected (logged_env env) role m)))"
proof -
  define reg where "reg = sm_Registry m"
  let ?C = "\<lambda>m :: 'h traced selected_manager. covered [] (trace_of m)"
  have throw: "tripleT (withdrawing reg []) (throwT e) (\<lambda>_. ?C) ?C" for e
    by (auto intro!: triple_throw dest: withdrawing_covered)
  have "tripleT (withdrawing reg []) (WithdrawSelected (logged_env env) role) (\<lambda>_. ?C) ?C"
    unfolding WithdrawSelected_def
  proof (rule triple_head)
    show "keepsT (withdrawing reg []) (putT (touch_role role))" by (auto simp: withdrawing_def)
    show "tripleT (withdrawing reg []) (bindT (getT (\<lambda>m. rl_frozen (roleState role m))) (\<lambda>frozen.
       bindT (requireT frozen e) (\<lambda>_. case se_Routes (logged_env env) of None \<Rightarrow> throwT noWriter
        | Some rm \<Rightarrow> bindT (getT plan) (\<lambda>plan.
         bindT (eachT (withdraw_check rm) plan) (\<lambda>_. bindT (getT (parks plan)) (\<lambda>parks.
         bindT (eachT (withdraw_remove rm) plan) (\<lambda>_. eachT (withdraw_verify rm) parks))))))) (\<lambda>_. ?C) ?C" for e plan parks
      by (rule triple_head [OF keepsT_get withdrawing_covered], assumption,
          rule triple_head [OF keepsT_require withdrawing_covered], assumption, cases "se_Routes env")
         (auto intro!: throw triple_head [OF keepsT_get withdrawing_covered] withdraw_body)
  qed (rule withdrawing_covered)
  from triple_state [OF this] assms show ?thesis by (simp add: withdrawing_def reg_def)
qed

end
