(* ===== verification/Parking_Outcomes.thy ===== *)
theory Parking_Outcomes
  imports Manager_Outcomes
begin

text \<open>
  What parking a role achieves: after a successful \<^verbatim>\<open>ParkRegistered\<close> every record of the role that
  is not retiring has an active park that owns exactly its desired identity. The loop runs over
  the snapshot taken at its start, so the proof needs the frame: parking one record moves no
  other.
\<close>

section \<open>The frame of a transaction\<close>

definition elsewhere ::
  "route_key \<Rightarrow> route_record option \<Rightarrow> route_value option \<Rightarrow> 'k selected_manager \<Rightarrow> bool" where
  "elsewhere key x y m \<longleftrightarrow> manager_ok m \<and> map_of (rg_Entries (sm_Registry m)) key = x \<and>
     registry_abs (sm_Registry m) key = y"

lemma elsewhere_op:
  assumes "op_key op = Some k" and "key \<noteq> k"
  shows "keepsT (elsewhere key x y) (on_registry (run_op op))"
proof (rule keepsTI)
  fix m res m'
  assume e: "elsewhere key x y m" and run: "on_registry (run_op op) m = (res, m')"
  then have ok: "manager_ok m" by (simp add: elsewhere_def)
  from abs_op_frame [OF assms, of "registry_abs (sm_Registry m)"] on_registry_abs [OF ok run]
  have "registry_abs (sm_Registry m') key = registry_abs (sm_Registry m) key" by simp
  moreover have "map_of (rg_Entries (sm_Registry m')) key = map_of (rg_Entries (sm_Registry m)) key"
    using run_op_frame [OF assms, of "sm_Registry m"] run by (auto simp: on_registry_def split: prod.splits)
  ultimately show "elsewhere key x y m'"
    using e keepsTD [OF manager_ok_op ok run] by (simp add: elsewhere_def)
qed

lemma elsewhere_checkpoint: "keepsT (elsewhere key x y) (writeCheckpoint env role g)"
proof (rule keepsTI)
  fix m res m'
  assume e: "elsewhere key x y m" and run: "writeCheckpoint env role g m = (res, m')"
  then have "manager_ok m'" using keepsTD [OF manager_ok_checkpoint _ run] by (simp add: elsewhere_def)
  moreover have "sm_Registry m' = sm_Registry m" using writeCheckpoint_registry [of env role g m] run by simp
  ultimately show "elsewhere key x y m'" using e by (simp add: elsewhere_def)
qed

lemma frame: "key \<noteq> (role, prefix) \<Longrightarrow> record_stable (elsewhere key x y) env role prefix"
  by (rule record_stableI)
     (auto simp: elsewhere_op elsewhere_checkpoint, auto simp: elsewhere_def manager_ok_def)

lemmas frame_kept = record_stable.axioms(1) [OF frame]

section \<open>One record\<close>

definition proven :: "route_key \<Rightarrow> abstract_registry \<Rightarrow> bool" where
  "proven key M \<longleftrightarrow> (\<exists>v. M key = Some v \<and> park_proven v)"

lemma park_value_proven: "park_value t (MarkParkActive_park observed) v = Inr v' \<Longrightarrow> park_proven v'"
  by (auto simp: park_proven_def park_value_def MarkParkActive_park_def split: if_splits option.splits)

lemma mark_park_active_abs:
  "abs_transition role prefix (park_value t (MarkParkActive_park observed)) M = (Inr x, M') \<Longrightarrow> proven (role, prefix) M'"
  by (auto simp: proven_def abs_transition_def dest: park_value_proven split: if_splits option.splits sum.splits)

lemma mark_park_active_triple:
  "tripleT manager_ok (on_registry (MarkParkActive role prefix observed))
     (\<lambda>_. regK (proven (role, prefix))) (\<lambda>_. True)"
proof (rule tripleI)
  fix m x m'
  assume ok: "manager_ok m" and run: "on_registry (MarkParkActive role prefix observed) m = (Inr x, m')"
  then have run': "on_registry (run_op (OpMarkParkActive role prefix observed)) m = (Inr x, m')" by simp
  from on_registry_abs [OF ok run'] have "proven (role, prefix) (registry_abs (sm_Registry m'))"
    by (auto intro: mark_park_active_abs)
  with keepsTD [OF manager_ok_op ok run'] show "regK (proven (role, prefix)) m'" by (simp add: regK_def)
qed simp

lemma apply_park_triple:
  "tripleT manager_ok (applyParkTransaction env rm role prefix pdesired rec)
     (\<lambda>_. regK (proven (role, prefix))) (\<lambda>_. True)"
proof -
  have tail: "tripleT (regK (proven (role, prefix))) t (\<lambda>_. regK (proven (role, prefix))) (\<lambda>_. True)"
    if "keepsT (regK (proven (role, prefix))) t" for t :: "('k selected_manager, unit) tx"
    by (rule triple_conseq [OF triple_keeps [OF that]]) auto
  show ?thesis
    unfolding applyParkTransaction_def
    by (rule triple_head [OF valid.mark_park_applying], simp, rule triple_head [OF valid.checkpoint_now], simp,
        rule triple_head [OF keeps_failpoint], simp, rule triple_head [OF valid.platform_at], simp,
        rule triple_head [OF keeps_failpoint], simp, rule triple_head [OF keepsT_require], simp,
        rule triple_bind [OF mark_park_active_triple], rule tail)
       (intro regK_steps)
qed

lemma run_park_triple:
  "tripleT manager_ok (runParkTransaction env rm role prefix pdesired pre)
     (\<lambda>_. regK (proven (role, prefix))) (\<lambda>_. True)"
proof -
  have pre: "keepsT manager_ok (if pre then bindT (preflight_park rm prefix pdesired rec) (\<lambda>_.
      runFailpoint env point role prefix) else returnT ())" for rec point
    by (auto intro!: valid.stable_steps valid.preflight)
  show ?thesis
    unfolding runParkTransaction_def
    by (rule triple_head [OF valid.reserve_park], simp, rule triple_head [OF valid.checkpoint_now], simp,
        rule triple_head [OF keeps_failpoint], simp, rule triple_head [OF valid.need], simp,
        rule triple_head [OF pre], simp, rule triple_head [OF valid.need], simp, rule apply_park_triple)
qed

text \<open>The record in hand is the registry's.\<close>

definition current :: "string \<Rightarrow> route_record \<Rightarrow> 'k selected_manager \<Rightarrow> bool" where
  "current role e m \<longleftrightarrow> manager_ok m \<and> map_of (rg_Entries (sm_Registry m)) (role, sr_Prefix e) = Some e"

lemma current_platform: "keepsT (current role e) (on_kernel t)"
  by (auto simp: keepsT_def on_kernel_def current_def split: prod.splits)

lemma current_proven:
  assumes "current role e m" and "sr_Park (read_record e m) = Some park" and "sk_State park = SelectedParkActive"
  shows "regK (proven (role, sr_Prefix e)) m"
proof -
  from assms(1) have abs: "registry_abs (sm_Registry m) (role, sr_Prefix e) = Some (read_record e m)"
    and ok: "manager_ok m" by (auto simp: current_def registry_abs_def read_record_def)
  then have "record_ok (role, sr_Prefix e) (read_record e m)"
    by (auto simp: manager_ok_def registry_ok_def valid_under_def records_ok_def)
  with assms(2, 3) have "park_proven (read_record e m)"
    by (auto simp: park_proven_def record_ok_def restore_entry_ok_iff park_ok_iff)
  with abs ok show ?thesis by (auto simp: regK_def proven_def)
qed

lemma park_one_triple:
  fixes env :: "'k manager_env"
  shows "tripleT (current role entry) (parkOne env rm role entry)
           (\<lambda>_. regK (proven (role, sr_Prefix entry))) (\<lambda>_. True)"
proof -
  let ?Q = "\<lambda>_ :: unit. regK (proven (role, sr_Prefix entry))"
  let ?park = "\<lambda>m. sr_Park (read_record entry m)"
  have ok: "tripleT (\<lambda>m. current role entry m \<and> ?park m = x) t ?Q (\<lambda>_. True)" if "tripleT manager_ok t ?Q (\<lambda>_. True)"
    for x and t :: "('k selected_manager, unit) tx"
    by (rule triple_conseq [OF that]) (auto simp: current_def)
  have forced: "tripleT manager_ok (bindT (force_pending env role (sr_Prefix entry) pd) (\<lambda>c.
      bindT (preflight_park rm (sr_Prefix entry) pd c) (\<lambda>_. applyParkTransaction env rm role (sr_Prefix entry) pd c))) ?Q (\<lambda>_. True)" for pd
    by (rule triple_head [OF valid.park_force], simp, rule triple_head [OF valid.preflight], simp, rule apply_park_triple)
  have pending: "tripleT manager_ok (bindT (if c then force_pending env role (sr_Prefix entry) pd else returnT entry) (\<lambda>c.
      bindT (preflight_park rm (sr_Prefix entry) pd c) (\<lambda>_. applyParkTransaction env rm role (sr_Prefix entry) pd c))) ?Q (\<lambda>_. True)" for c pd
    by (rule triple_head, cases c) (auto intro!: valid.park_force triple_head [OF valid.preflight] apply_park_triple)
  have retiring: "tripleT manager_ok (bindT (resumeParkRetirement env rm role (sr_Prefix entry) park) (\<lambda>_.
      runParkTransaction env rm role (sr_Prefix entry) pd True)) ?Q (\<lambda>_. True)" for park pd
    by (rule triple_head [OF valid.park_resume], simp, rule run_park_triple)
  have active: "tripleT (\<lambda>m. current role entry m \<and> ?park m = Some park)
      (bindT (case sk_Owned park of None \<Rightarrow> returnT False
         | Some owned \<Rightarrow> if sk_Desired park = pd then on_kernel (rm_ObserveManagedPark rm (sr_Prefix entry) owned) else returnT False) (\<lambda>present.
       if present then returnT () else bindT (force_pending env role (sr_Prefix entry) pd) (\<lambda>c.
         bindT (preflight_park rm (sr_Prefix entry) pd c) (\<lambda>_. applyParkTransaction env rm role (sr_Prefix entry) pd c)))) ?Q (\<lambda>_. True)"
    if st: "sk_State park = SelectedParkActive" for park pd
  proof (rule triple_head)
    show "keepsT (\<lambda>m. current role entry m \<and> ?park m = Some park) (case sk_Owned park of None \<Rightarrow> returnT False
         | Some owned \<Rightarrow> if sk_Desired park = pd then on_kernel (rm_ObserveManagedPark rm (sr_Prefix entry) owned) else returnT False)"
      by (auto simp: keepsT_def on_kernel_def current_def read_record_def split: option.splits prod.splits)
    show "tripleT (\<lambda>m. current role entry m \<and> ?park m = Some park) (if present then returnT ()
        else bindT (force_pending env role (sr_Prefix entry) pd) (\<lambda>c.
         bindT (preflight_park rm (sr_Prefix entry) pd c) (\<lambda>_. applyParkTransaction env rm role (sr_Prefix entry) pd c))) ?Q (\<lambda>_. True)" for present
      by (cases present) (auto intro!: triple_return ok [OF forced] intro: current_proven [OF _ _ st])
  qed simp
  show ?thesis
    unfolding parkOne_def Let_def
  proof (rule triple_head [OF current_platform], simp, rule triple_bind [OF triple_get [where Q = "\<lambda>x m. current role entry m \<and> ?park m = x"]], goal_cases)
    case (1 pd m)
    then show ?case by simp
  next
    case (2 pd x)
    show ?case
    proof (cases x)
      case None
      show ?thesis unfolding None option.case by (rule ok [OF run_park_triple])
    next
      case (Some park)
      show ?thesis
        unfolding Some option.case
        by (cases "sk_State park")
           (simp_all only: selected_park_state.case ok [OF run_park_triple] ok [OF pending] ok [OF apply_park_triple]
              ok [OF retiring] active)
    qed
  qed
qed

section \<open>The role\<close>

lemma park_one_frame:
  assumes "manager_ok m" and "parkOne env rm role entry m = (res, m')" and "key \<noteq> (role, sr_Prefix entry)"
  shows "registry_abs (sm_Registry m') key = registry_abs (sm_Registry m) key"
    and "map_of (rg_Entries (sm_Registry m')) key = map_of (rg_Entries (sm_Registry m)) key"
proof -
  let ?P = "elsewhere key (map_of (rg_Entries (sm_Registry m)) key) (registry_abs (sm_Registry m) key) :: 'a selected_manager \<Rightarrow> bool"
  from record_kept.park_one [OF frame_kept [OF assms(3)] refl] have "keepsT ?P (parkOne env rm role entry)" .
  from keepsTD [OF this _ assms(2)] assms(1) have "?P m'" by (simp add: elsewhere_def)
  then show "registry_abs (sm_Registry m') key = registry_abs (sm_Registry m) key"
    and "map_of (rg_Entries (sm_Registry m')) key = map_of (rg_Entries (sm_Registry m)) key"
    by (simp_all add: elsewhere_def)
qed

text \<open>A record the loop is through with: retiring ones are left alone, the others are proven.\<close>

definition parked :: "string \<Rightarrow> route_record \<Rightarrow> abstract_registry \<Rightarrow> bool" where
  "parked role e M \<longleftrightarrow> (\<exists>v. M (role, sr_Prefix e) = Some v \<and> (sr_State v = SelectedRetiring \<or> park_proven v))"

definition parking_loop :: "string \<Rightarrow> route_record list \<Rightarrow> route_record list \<Rightarrow> 'k selected_manager \<Rightarrow> bool" where
  "parking_loop role over todo m \<longleftrightarrow> manager_ok m \<and> distinct (map sr_Prefix (over @ todo)) \<and>
     (\<forall>e \<in> set todo. current role e m) \<and> (\<forall>e \<in> set over. parked role e (registry_abs (sm_Registry m))) \<and>
     (\<forall>p. p \<notin> sr_Prefix ` set (over @ todo) \<longrightarrow> registry_abs (sm_Registry m) (role, p) = None)"

lemma parking_step:
  "tripleT (parking_loop role over (e # todo))
     (if sr_State e = SelectedRetiring then returnT () else parkOne env rm role e)
     (\<lambda>_. parking_loop role (e # over) todo) (\<lambda>_. True)"
proof (cases "sr_State e = SelectedRetiring")
  case True
  have "parked role e (registry_abs (sm_Registry m))" if "current role e m" for m
    using that True by (auto simp: parked_def current_def registry_abs_def)
  then show ?thesis unfolding if_P [OF True] by (intro triple_return) (auto simp: parking_loop_def)
next
  case False
  show ?thesis
    unfolding if_not_P [OF False]
  proof (rule tripleI)
    fix m u m'
    assume loop: "parking_loop role over (e # todo) m" and run: "parkOne env rm role e m = (Inr u, m')"
    then have ok: "manager_ok m" and cur: "current role e m" by (simp_all add: parking_loop_def)
    note same = park_one_frame [OF ok run]
    from triple_value [OF park_one_triple cur run] have ok': "manager_ok m'"
      and proven: "parked role e (registry_abs (sm_Registry m'))" by (auto simp: regK_def proven_def parked_def)
    have diff: "(role, sr_Prefix x) \<noteq> (role, sr_Prefix e)" if "x \<in> set over \<union> set todo" for x
      using loop that by (auto simp: parking_loop_def image_iff)
    have "current role x m'" if "x \<in> set todo" for x
      using that loop ok' same(2) [OF diff] by (auto simp: parking_loop_def current_def)
    moreover have "parked role x (registry_abs (sm_Registry m'))" if "x \<in> set over" for x
      using that loop same(1) [OF diff] by (auto simp: parking_loop_def parked_def)
    moreover have "registry_abs (sm_Registry m') (role, p) = None" if "p \<notin> sr_Prefix ` set ((e # over) @ todo)" for p
      using that loop same(1) [of "(role, p)"] by (auto simp: parking_loop_def)
    ultimately show "parking_loop role (e # over) todo m'"
      using loop ok' proven by (auto simp: parking_loop_def)
  qed simp
qed

lemma parking_run:
  "tripleT (parking_loop role over todo)
     (eachT (\<lambda>e. if sr_State e = SelectedRetiring then returnT () else parkOne env rm role e) todo)
     (\<lambda>_. parking_loop role (rev todo @ over) []) (\<lambda>_. True)"
proof (induction todo arbitrary: over)
  case (Cons e todo)
  show ?case using triple_bind [OF parking_step Cons.IH [of "e # over"]] by simp
qed (auto intro!: triple_return)

lemma snapshot_loop:
  assumes "manager_ok m"
  shows "parking_loop role [] (registry_Snapshot role (sm_Registry m)) m"
proof -
  let ?r = "sm_Registry m" and ?es = "registry_Snapshot role (sm_Registry m)"
  from assms have wf: "gomap_wf (rg_Entries ?r)" and ok: "records_ok (registry_abs ?r)"
    by (auto simp: manager_ok_def registry_ok_def valid_under_def)
  have mem: "e \<in> set ?es \<longleftrightarrow> (\<exists>key. map_of (rg_Entries ?r) key = Some e \<and> sr_Role e = role)" for e
    using ran_distinct [OF wf [unfolded gomap_wf_def]]
    by (auto simp: registry_Snapshot_def snapshotLocked_def ran_def set_eq_iff image_iff)
  have key: "key = (sr_Role e, sr_Prefix e)" if "map_of (rg_Entries ?r) key = Some e" for key e
  proof -
    from that have "registry_abs ?r key = Some (deref (rg_Parks ?r) e)" by (simp add: registry_abs_def)
    with ok have "record_ok key (deref (rg_Parks ?r) e)" unfolding records_ok_def by blast
    then show ?thesis by (simp add: record_ok_def)
  qed
  have cur: "current role e m" if "e \<in> set ?es" for e
    using that assms key unfolding mem current_def by auto
  have none: "registry_abs ?r (role, p) = None" if "p \<notin> sr_Prefix ` set ?es" for p
  proof (rule ccontr)
    assume "registry_abs ?r (role, p) \<noteq> None"
    then obtain e where e: "map_of (rg_Entries ?r) (role, p) = Some e" by (auto simp: registry_abs_def)
    with key [OF e] have "e \<in> set ?es" "sr_Prefix e = p" unfolding mem by auto
    with that show False by blast
  qed
  have "distinct (map (\<lambda>v. (sr_Role v, sr_Prefix v)) (snapshot_values role ?r))"
    by (rule snapshot_keys_distinct [OF wf ok])
  then have "distinct (map (\<lambda>e. (sr_Role e, sr_Prefix e)) ?es)" by (simp add: snapshot_values_def comp_def)
  then have "distinct (map sr_Prefix ?es)"
    using mem unfolding distinct_map by (auto simp: inj_on_def)
  with assms cur none show ?thesis by (auto simp: parking_loop_def)
qed

lemma parking_loop_end:
  assumes "parking_loop role over [] m" and "registry_abs (sm_Registry m) (role, p) = Some v" and "sr_State v \<noteq> SelectedRetiring"
  shows "park_proven v"
proof -
  have "p \<in> sr_Prefix ` set over"
  proof (rule ccontr)
    assume "p \<notin> sr_Prefix ` set over"
    with assms(1) have "registry_abs (sm_Registry m) (role, p) = None" by (auto simp: parking_loop_def)
    with assms(2) show False by simp
  qed
  then obtain e where "e \<in> set over" "sr_Prefix e = p" by blast
  with assms show ?thesis by (auto simp: parking_loop_def parked_def)
qed

lemma ParkRegistered_triple:
  "tripleT manager_ok (ParkRegistered env role) (\<lambda>_ m. \<exists>over. parking_loop role over [] m) (\<lambda>_. True)"
proof (cases "se_Routes env")
  case (Some rm)
  show ?thesis
    unfolding ParkRegistered_def Some option.case
    by (rule triple_head [OF valid.touch_step], simp, rule triple_head [OF keepsT_get], simp,
        rule triple_head [OF keepsT_require], simp,
        rule triple_bind [OF triple_get [where Q = "\<lambda>es m. parking_loop role [] es m"]], rule snapshot_loop, assumption,
        rule triple_conseq [OF parking_run]) auto
qed (auto simp: ParkRegistered_def intro!: triple_throw triple_head valid.stable_steps)

section \<open>Deviations\<close>

text \<open>
  Behaviours of the manager that differ from what the comments of the source promise: a park
  interrupted in state Applying is never resumed, the audit quarantines a role with a retiring
  record instead of finishing the retirement, a restore skips records whose route was
  withdrawn, and reopening a role leaves the startup restore pending.
\<close>

section \<open>A park interrupted while applying\<close>

definition stuck :: "string \<Rightarrow> route_record \<Rightarrow> route_value \<Rightarrow> 'k selected_manager \<Rightarrow> bool" where
  "stuck role e v = elsewhere (role, sr_Prefix e) (Some e) (Some v)"

lemma stuck_read: "stuck role e v m \<Longrightarrow> read_record e m = v"
  by (auto simp: stuck_def elsewhere_def registry_abs_def read_record_def)

lemma stuck_platform: "keepsT (stuck role e v) (on_kernel t)"
  by (auto simp: keepsT_def on_kernel_def stuck_def elsewhere_def split: prod.splits)

lemma applying_not_restarted:
  assumes "sr_Park v = Some k" and "sk_State k = SelectedParkApplying"
  shows "tripleT (stuck role e v) (on_registry (MarkParkApplying role (sr_Prefix e))) (\<lambda>_ _. False) (stuck role e v)"
proof (rule tripleI)
  fix m x m'
  assume s: "stuck role e v m" and run: "on_registry (MarkParkApplying role (sr_Prefix e)) m = (Inr x, m')"
  then have run': "on_registry (run_op (OpMarkParkApplying role (sr_Prefix e))) m = (Inr x, m')" by simp
  from s have ok: "manager_ok m" and v: "registry_abs (sm_Registry m) (role, sr_Prefix e) = Some v"
    by (auto simp: stuck_def elsewhere_def)
  from on_registry_abs [OF ok run'] v assms show False
    by (auto simp: abs_transition_def park_value_def MarkParkApplying_park_def split: if_splits)
next
  fix m x m'
  assume s: "stuck role e v m" and run: "on_registry (MarkParkApplying role (sr_Prefix e)) m = (Inl x, m')"
  then have "m' = m"
    by (auto simp: on_registry_def MarkParkApplying_def transition_def split: if_splits option.splits sum.splits prod.splits)
  with s show "stuck role e v m'" by simp
qed

lemma park_one_stuck:
  assumes "sr_Park v = Some k" and "sk_State k = SelectedParkApplying"
  shows "tripleT (stuck role e v) (parkOne env rm role e) (\<lambda>_ _. False) (stuck role e v)"
proof -
  have never: "tripleT (stuck role e v) (applyParkTransaction env rm role (sr_Prefix e) pd rec) (\<lambda>_ _. False) (stuck role e v)" for pd rec
    unfolding applyParkTransaction_def
    by (rule triple_bind [OF applying_not_restarted [OF assms]]) (simp add: tripleT_def)
  show ?thesis
    unfolding parkOne_def Let_def
  proof (rule triple_head [OF stuck_platform], simp,
      rule triple_bind [OF triple_get [where Q = "\<lambda>x m. stuck role e v m \<and> x = Some k"]], goal_cases)
    case (1 pd m)
    then show ?case using stuck_read assms(1) by auto
  next
    case (2 pd x)
    show ?case
    proof (cases "x = Some k")
      case True
      have "tripleT (\<lambda>m. stuck role e v m \<and> x = Some k) (applyParkTransaction env rm role (sr_Prefix e) pd e)
          (\<lambda>_ _. False) (stuck role e v)"
        by (rule triple_conseq [OF never]) auto
      then show ?thesis by (simp add: True assms(2))
    qed (simp add: tripleT_def)
  qed
qed

lemma observe_stuck:
  assumes "sr_Park v = Some k" and "sk_State k = SelectedParkApplying"
  shows "tripleT (stuck role e v) (observe_entry env rm role e) (\<lambda>_ _. False) (stuck role e v)"
  using assms by (auto simp: tripleT_def observe_entry_def stuck_read split: option.splits)

lemma each_stuck:
  assumes "x \<in> set xs" and "tripleT I (f x) (\<lambda>_ _. False) I" and "\<And>y. y \<in> set xs \<Longrightarrow> y \<noteq> x \<Longrightarrow> keepsT I (f y)"
  shows "tripleT I (eachT f xs) (\<lambda>_ _. False) I"
  using assms
proof (induction xs)
  case (Cons y xs)
  show ?case
  proof (cases "y = x")
    case True
    then show ?thesis using triple_bind [OF Cons.prems(2)] by (simp add: tripleT_def)
  next
    case False
    with Cons show ?thesis by (simp add: triple_head)
  qed
qed simp

lemma snapshot_has:
  assumes "manager_ok m" and "registry_abs (sm_Registry m) (role, p) = Some v"
  obtains e where "e \<in> set (registry_Snapshot role (sm_Registry m))" "sr_Prefix e = p" "stuck role e v m"
    "sr_State e = sr_State v"
proof -
  from assms(1) have loop: "parking_loop role [] (registry_Snapshot role (sm_Registry m)) m" by (rule snapshot_loop)
  have "p \<in> sr_Prefix ` set (registry_Snapshot role (sm_Registry m))"
    using loop assms(2) by (auto simp: parking_loop_def)
  then obtain e where e: "e \<in> set (registry_Snapshot role (sm_Registry m))" "sr_Prefix e = p" by blast
  with loop have "current role e m" by (auto simp: parking_loop_def)
  with assms(2) e(2) have "stuck role e v m" "sr_State e = sr_State v"
    by (auto simp: current_def stuck_def elsewhere_def registry_abs_def)
  with e that show thesis by blast
qed

lemma snapshot_others:
  assumes "manager_ok m" and "e \<in> set (registry_Snapshot role (sm_Registry m))"
    and "y \<in> set (registry_Snapshot role (sm_Registry m))" and "y \<noteq> e"
  shows "(role, sr_Prefix e) \<noteq> (role, sr_Prefix y)"
proof -
  have "distinct (map sr_Prefix (registry_Snapshot role (sm_Registry m)))"
    using snapshot_loop [OF assms(1), of role] by (simp add: parking_loop_def)
  with assms(2 - 4) show ?thesis by (auto simp: distinct_map inj_on_def)
qed

lemma observe_keeps:
  assumes "(role, sr_Prefix e) \<noteq> (role, sr_Prefix y)"
  shows "keepsT (stuck role e v) (observe_entry env rm role y)"
proof (rule keepsTI)
  note frame_kept = frame_kept [OF assms, of "Some e" "Some v" env, folded stuck_def]
  fix m res m'
  assume s: "stuck role e v m" and run: "observe_entry env rm role y m = (res, m')"
  obtain x m1 where r1: "retireProvenPark env rm role y m = (x, m1)" by force
  obtain z m2 where r2: "resumeParkRetirement env rm role (sr_Prefix y) (the (sr_Park (read_record y m))) m = (z, m2)" by force
  from keepsTD [OF record_kept.unpark [OF frame_kept refl] s r1] keepsTD [OF record_kept.park_resume [OF frame_kept] s r2] s run r1 r2
  show "stuck role e v m'"
    by (auto simp: observe_entry_def ignoreNotProven_def split: option.splits selected_park_state.splits sum.splits if_splits)
qed

lemma fails_iff: "tripleT P t (\<lambda>_ _. False) E \<Longrightarrow> P s \<Longrightarrow> \<exists>err s'. t s = (Inl err, s') \<and> E s'"
  by (cases "t s"; cases "fst (t s)") (auto dest: triple_value triple_error)

lemma ParkRegistered_stuck:
  assumes ok: "manager_ok m" and v: "registry_abs (sm_Registry m) (role, p) = Some v"
    and live: "sr_State v \<noteq> SelectedRetiring" and park: "sr_Park v = Some k" "sk_State k = SelectedParkApplying"
  shows "\<exists>err m'. ParkRegistered env role m = (Inl err, m') \<and> manager_ok m' \<and>
           registry_abs (sm_Registry m') (role, p) = Some v"
proof -
  let ?es = "registry_Snapshot role (sm_Registry m)"
  from snapshot_has [OF ok v] obtain e where e: "e \<in> set ?es" "sr_Prefix e = p" "stuck role e v m"
    "sr_State e = sr_State v" by blast
  have each: "tripleT (stuck role e v)
      (eachT (\<lambda>x. if sr_State x = SelectedRetiring then returnT () else parkOne env rm role x) ?es)
      (\<lambda>_ _. False) (stuck role e v)" for rm
  proof (rule each_stuck [OF e(1)])
    show "tripleT (stuck role e v) (if sr_State e = SelectedRetiring then returnT () else parkOne env rm role e)
        (\<lambda>_ _. False) (stuck role e v)"
      using park_one_stuck [OF park] live e(4) by simp
    show "keepsT (stuck role e v) (if sr_State y = SelectedRetiring then returnT () else parkOne env rm role y)"
      if "y \<in> set ?es" "y \<noteq> e" for y
      using record_kept.park_one [OF frame_kept [OF snapshot_others [OF ok e(1) that]] refl] by (auto simp: stuck_def)
  qed
  let ?J = "\<lambda>m'. stuck role e v m' \<and> sm_Registry m' = sm_Registry m"
  have keep: "keepsT ?J (putT (touch_role role))" by (auto simp: stuck_def elsewhere_def)
  have "tripleT ?J (ParkRegistered env role) (\<lambda>_ _. False) (stuck role e v)"
    unfolding ParkRegistered_def
  proof (cases "se_Routes env")
    case (Some rm)
    show "tripleT ?J (bindT (putT (touch_role role)) (\<lambda>_. bindT (getT (\<lambda>m. rl_frozen (roleState role m))) (\<lambda>frozen.
        bindT (requireT frozen err) (\<lambda>_. case se_Routes env of None \<Rightarrow> throwT noParkWriter
        | Some rm \<Rightarrow> bindT (getT (\<lambda>m. registry_Snapshot role (sm_Registry m))) (\<lambda>entries.
           eachT (\<lambda>entry. if sr_State entry = SelectedRetiring then returnT () else parkOne env rm role entry) entries)))))
        (\<lambda>_ _. False) (stuck role e v)" for err
      unfolding Some option.case
      by (rule triple_head [OF keep], simp, rule triple_head [OF keepsT_get], simp, rule triple_head [OF keepsT_require], simp,
          rule triple_bind [OF triple_get [where Q = "\<lambda>es m'. stuck role e v m' \<and> es = ?es"]], simp,
          rule triple_pure, simp only:, rule each)
  qed (auto intro!: triple_head [OF keep] triple_head keepsT_get keepsT_require triple_throw)
  from fails_iff [OF this, of m] e(2, 3) show ?thesis by (auto simp: stuck_def elsewhere_def)
qed

lemma ObserveRestoration_stuck:
  assumes ok: "manager_ok m" and v: "registry_abs (sm_Registry m) (role, p) = Some v"
    and park: "sr_Park v = Some k" "sk_State k = SelectedParkApplying"
  shows "\<exists>err m'. ObserveRestoration env role m = (Inl err, m') \<and> manager_ok m' \<and>
           registry_abs (sm_Registry m') (role, p) = Some v"
proof -
  let ?es = "registry_Snapshot role (sm_Registry m)"
  from snapshot_has [OF ok v] obtain e where e: "e \<in> set ?es" "sr_Prefix e = p" "stuck role e v m" by blast
  have each: "tripleT (stuck role e v) (eachT (observe_entry env rm role) ?es) (\<lambda>_ _. False) (stuck role e v)" for rm
    by (rule each_stuck [OF e(1) observe_stuck [OF park]]) (intro observe_keeps snapshot_others [OF ok e(1)])
  let ?J = "\<lambda>m'. stuck role e v m' \<and> sm_Registry m' = sm_Registry m"
  have keep: "keepsT ?J (putT (touch_role role))" by (auto simp: stuck_def elsewhere_def)
  have "tripleT ?J (ObserveRestoration env role) (\<lambda>_ _. False) (stuck role e v)"
  proof (cases "se_Routes env")
    case (Some rm)
    show ?thesis
      unfolding ObserveRestoration_def Some option.case
      by (rule triple_head [OF keep], simp,
          rule triple_bind [OF triple_get [where Q = "\<lambda>es m'. stuck role e v m' \<and> es = ?es"]], simp,
          rule triple_pure, simp only:, rule triple_bind [OF each]) (simp add: tripleT_def)
  qed (auto simp: ObserveRestoration_def intro!: triple_throw)
  from fails_iff [OF this, of m] e(2, 3) show ?thesis by (auto simp: stuck_def elsewhere_def)
qed

section \<open>Retirement under audit\<close>

lemma plan_retiring: "sr_State v = SelectedRetiring \<Longrightarrow> \<exists>e. PlanSelectedRoute rows (Some v) = Inl e"
  by (auto simp: PlanSelectedRoute_def split: sum.splits prod.splits)

lemma quarantined_role [simp]: "rl_integrityQuarantined (quarantine err s)" "rl_frozen (quarantine err s)"
  by (simp_all add: quarantine_def)

lemma audit_retiring:
  assumes "sr_State entry = SelectedRetiring" and "sr_Park entry = None"
    and "\<not> rl_restorePending (roleState role (rq_Manager r))"
  shows "\<exists>err. auditRecord env role entry rows r =
     (Inl err, failSelectedRouteIntegrity role err r)"
proof -
  have "sr_State (read_record entry (rq_Manager r)) = SelectedRetiring"
    using assms(1) by (simp add: read_record_def)
  from plan_retiring [OF this, of rows] obtain e where
    "PlanSelectedRoute rows (Some (read_record entry (rq_Manager r))) = Inl e" by blast
  then show ?thesis using assms by (simp add: auditRecord_def Let_def)
qed

section \<open>Restoring what was withdrawn\<close>

lemma restore_all_skipped:
  assumes "\<And>e. e \<in> set es \<Longrightarrow> restore_skips i v4 v6 e" and "ts_IfIndex (rr_Toad runtime) = i"
  shows "eachT (restore_entry env rm role runtime v4 v6) es m = (Inr (), m)"
  using assms by (induction es) (auto simp: restore_entry_def)

text \<open>A role whose active records are all on the interface: no platform call is made.\<close>

lemma Restore_skips:
  assumes "se_Routes env = Some rm" and "se_RoleRuntime env role = Some runtime" and "0 < ts_IfIndex (rr_Toad runtime)"
    and "\<And>e. e \<in> set (registry_Snapshot role (sm_Registry m)) \<Longrightarrow>
           sr_State e = SelectedActive \<and> sr_Owned e = Some (sr_Desired e) \<and> si_IfIndex (sr_Desired e) = ts_IfIndex (rr_Toad runtime)"
  shows "Restore env role v4 v6 m = checkpointNow env role (update_role role (\<lambda>s. s\<lparr>rl_restores := rl_restores s + 1\<rparr>) m)"
proof -
  let ?m = "update_role role (\<lambda>s. s\<lparr>rl_restores := rl_restores s + 1\<rparr>) m"
  have "eachT (restore_entry env rm role runtime v4 v6) (registry_Snapshot role (sm_Registry ?m)) ?m = (Inr (), ?m)"
    by (rule restore_all_skipped) (use assms(4) in \<open>auto simp: restore_skips_def\<close>)
  then show ?thesis using assms(1 - 3) by (simp add: Restore_def bindT_apply requireT_apply)
qed

section \<open>Reopening a role\<close>

lemma Unfreeze_pending:
  "rl_restorePending (roleState role (snd (Unfreeze role m))) = rl_restorePending (roleState role m)"
  by (simp add: Unfreeze_def Let_def)

lemma startup_stale:
  assumes "e \<in> set (registry_Snapshot role (sm_Registry m))"
    and "\<And>t. map_of (rl_verification (roleState role m)) (sr_Prefix e) = Some t \<Longrightarrow>
           sv_RouteGeneration t \<noteq> rl_routeGeneration (roleState role m)"
  shows "fst (CompleteStartupRestore role m) = False"
proof (cases "map_of (sm_Roles m) role")
  case (Some s)
  then have "roleState role m = s" by (simp add: roleState_def)
  with assms have "\<not> startup_complete s e" by (auto simp: startup_complete_def split: option.splits)
  with assms(1) Some show ?thesis by (auto simp: CompleteStartupRestore_def list_all_iff)
qed (simp add: CompleteStartupRestore_def)

end
