(* ===== verification/Sample_Host.thy ===== *)
theory Sample_Host
  imports Manager_Traces Parking_Outcomes
begin

text \<open>
  A concrete host and environment to evaluate the manager on: one role \<^verbatim>\<open>home\<close> bound to one zone
  \<^verbatim>\<open>z\<close>, ready on interface 7, over a platform that carries out every request.
\<close>

definition sample_identity :: "int \<Rightarrow> selected_identity" where
  "sample_identity i = \<lparr>si_Table = 254, si_IfIndex = i, si_NextHop = [], si_Protocol = 4, si_Metric = 100,
     si_Scope = 253, si_InterfaceLuid = 0\<rparr>"

definition sample_routes :: "unit route_manager" where
  "sample_routes =
     \<lparr>rm_NormalizeSelectedRoute = (\<lambda>d. returnT (sample_identity (sd_IfIndex d))),
      rm_PreflightSelectedRoute = (\<lambda>p i v. returnT ()),
      rm_ReconcileSelectedRoute = (\<lambda>d v. returnT \<lparr>rc_Mutated = True, rc_Verified = sample_identity (sd_IfIndex d)\<rparr>),
      rm_RemoveSelectedRoute = (\<lambda>v. returnT ()),
      rm_NormalizeManagedPark = (\<lambda>p. returnT managed_park),
      rm_PreflightManagedPark = (\<lambda>p i v. returnT ()),
      rm_ReconcileManagedPark = (\<lambda>role p v. returnT \<lparr>pr_Mutated = True, pr_Verified = managed_park\<rparr>),
      rm_ObserveManagedPark = (\<lambda>p k. returnT True),
      rm_RemoveManagedPark = (\<lambda>role p k. returnT ()),
      rm_SnapshotSelectedRoutes = returnT [],
      rm_CurrentSelectedRouteSequence = None,
      rm_SelectedWinsOverPark = None,
      rm_Executor = None\<rparr>"

definition ready_families :: route_families where
  "ready_families = \<lparr>rf_IPv4 = \<lparr>fr_Configured = True, fr_Ready = True, fr_Reason = []\<rparr>,
     rf_IPv6 = \<lparr>fr_Configured = False, fr_Ready = False, fr_Reason = []\<rparr>\<rparr>"

definition sample_runtime :: "int \<Rightarrow> role_runtime" where
  "sample_runtime i = role_zero\<lparr>rr_Desired := True, rr_State := RoleReady, rr_ToadGeneration := 1,
     rr_Toad := toad_zero\<lparr>ts_IfIndex := i, ts_InterfaceName := ''tun0''\<rparr>,
     rr_Validation := \<lparr>vr_Healthy = True, vr_State = [], vr_Reason = [], vr_Families = ready_families\<rparr>\<rparr>"

definition sample_env :: "int \<Rightarrow> unit manager_env" where
  "sample_env i = \<lparr>se_Routes = Some sample_routes, se_RoleRuntime = (\<lambda>role. if role = ''home'' then Some (sample_runtime i) else None),
     se_ZoneRoles = [(''z'', [''home''])], se_StateDir = (\<lambda>_. Some ''/var/lib/toad''), se_Capacity = SelectedRouteCapacity,
     se_Managed = [(''home'', True)], se_AuthorityError = [], se_WriteCheckpoint = (\<lambda>path c. returnT ()),
     se_Windows = False, se_Failpoint = None\<rparr>"

text \<open>The same environment without a managed role, so that the authority gate does not apply, and
  with a failpoint.\<close>

definition open_env :: "int \<Rightarrow> unit manager_env" where
  "open_env i = (sample_env i)\<lparr>se_Managed := []\<rparr>"


definition crash_env :: "string \<Rightarrow> int \<Rightarrow> unit manager_env" where
  "crash_env point i = (sample_env i)\<lparr>se_Failpoint := Some (\<lambda>p role prefix. if p = point then Some (Errorf ''crash'') else None)\<rparr>"

definition sample_intent :: leshy_intent where
  "sample_intent = \<lparr>li_Zone = ''z'', li_Prefix = ''10.0.0.1/32'', li_Source = LeshyRouteDNS\<rparr>"

definition sample_prefix :: netprefix where
  "sample_prefix = Prefix (Addr4 0x0a000001) 33"

text \<open>A manager whose authority gate is open, over an instrumented host.\<close>

definition sample_manager :: "unit traced selected_manager" where
  "sample_manager = (NewSelectedRouteManager \<lparr>th_Host = (), th_Trace = []\<rparr>)\<lparr>sm_AuthorityReady := True\<rparr>"

text \<open>Forgetting the trace starts a new observation.\<close>

definition fresh_trace :: "'h traced selected_manager \<Rightarrow> 'h traced selected_manager" where
  "fresh_trace m = m\<lparr>sm_Kernel := (sm_Kernel m)\<lparr>th_Trace := []\<rparr>\<rparr>"

definition ensured_manager :: "unit traced selected_manager" where
  "ensured_manager = fresh_trace (snd (Ensure (logged_env (sample_env 7)) sample_intent sample_manager))"

text \<open>The role frozen and parked.\<close>

definition parked_manager :: "unit traced selected_manager" where
  "parked_manager = fresh_trace (snd (ParkRegistered (logged_env (sample_env 7)) ''home''
     (snd (Freeze (Errorf []) ''home'' ensured_manager))))"

text \<open>A route mutation in a trace.\<close>

fun is_mutation :: "host_event \<Rightarrow> bool" where
  "is_mutation (EvReconcileRoute d v) = True"
| "is_mutation (EvRemoveRoute v) = True"
| "is_mutation _ = False"

text \<open>A run of the whole manager from its creation, frozen at the end.\<close>

definition frozen_manager :: "unit selected_manager" where
  "frozen_manager = rq_Manager (run_all [(open_env 7, SysEnsure sample_intent), (open_env 7, SysFreeze (Errorf []) ''home'')]
     (new_reconciler ()))"

lemma run_manager_ok: "manager_ok (rq_Manager (run_all ops (new_reconciler k)))"
  by (rule run_all_ok [OF new_reconciler_ok])

text \<open>A park that stopped behind its Applying checkpoint, an apply that stopped behind its own, and a
  retiring record.\<close>

definition interrupted_manager :: "unit selected_manager" where
  "interrupted_manager = rq_Manager (run_all [(open_env 7, SysEnsure sample_intent),
     (open_env 7, SysFreeze (Errorf []) ''home''),
     (crash_env ''park.after_applying_checkpoint'' 7, SysParkRegistered ''home'')] (new_reconciler ()))"

definition crashed_manager :: "unit traced selected_manager" where
  "crashed_manager = fresh_trace (snd (Ensure (logged_env (crash_env ''route.after_applying_checkpoint'' 7))
     sample_intent sample_manager))"

definition retiring_record :: route_record where
  "retiring_record = \<lparr>sr_Role = ''home'', sr_Zone = ''z'', sr_Prefix = sample_prefix, sr_Source = SelectedDNS,
     sr_ToadGeneration = 1, sr_RouteGeneration = 1, sr_Interface = ''tun0'', sr_Desired = sample_identity 7,
     sr_Owned = Some (sample_identity 7), sr_State = SelectedRetiring, sr_RetireDesired = False, sr_Park = None\<rparr>"

end
