(* ===== verification/Role_Config.thy ===== *)
theory Role_Config
  imports Endpoint Selected_Operations
begin

text \<open>
  The part of a role's configuration the core routes by (\<^verbatim>\<open>toad/internal/config/config.go\<close>):
  the effective endpoint policy with the defaults of the two historical roles, the check that
  rule priorities and Leshy zones are not shared, and the transport endpoints a role dials.
  The zone index of the selected-route manager (\<^verbatim>\<open>newSelectedRouteManager\<close>) is built from
  the same policies. TOML decoding and \<^verbatim>\<open>net/url\<close> are parameters.
\<close>

section \<open>Data\<close>

text \<open>A nil section is \<^term>\<open>None\<close>.\<close>

record awg2_config =
  aw_PrivateKey :: string
  aw_PeerPublicKey :: string
  aw_PresharedKey :: string
  aw_Endpoint :: string
  aw_AllowedIPs :: "string list"
  aw_PersistentKeepalive :: int
  aw_JC :: int
  aw_JMin :: int
  aw_JMax :: int
  aw_S :: "int \<times> int \<times> int \<times> int"
  aw_H :: "string \<times> string \<times> string \<times> string"
  aw_I :: "string \<times> string \<times> string \<times> string \<times> string"

record xhttp_config =
  xh_Host :: string
  xh_Path :: string
  xh_Mode :: string
  xh_PaddingBytes :: string
  xh_XmuxMaxConnections :: int

record vless_config =
  vl_Endpoint :: string
  vl_UUID :: string
  vl_ServerName :: string
  vl_PublicKey :: string
  vl_ShortID :: string
  vl_Flow :: string
  vl_Fingerprint :: string
  vl_Transport :: string
  vl_SpiderX :: string
  vl_XHTTP :: "xhttp_config option"

record openconnect_config =
  oc_Gateway :: string
  oc_VPNProtocol :: string
  oc_AuthGroup :: string
  oc_Username :: string
  oc_PasswordFile :: string
  oc_TokenMode :: string
  oc_TokenSecretFile :: string
  oc_UserAgent :: string
  oc_ServerCert :: string
  oc_DisableUDP :: bool
  oc_DisableIPv6 :: bool
  oc_HttpAuth :: string
  oc_ReconnectTimeout :: int
  oc_OpenConnectBinary :: string

record role_config =
  cf_Name :: string
  cf_Protocol :: string
  cf_Interface :: string
  cf_Address :: "string list"
  cf_MTU :: int
  cf_StateDir :: string
  cf_AWG2 :: "awg2_config option"
  cf_VLESS :: "vless_config option"
  cf_OpenConnect :: "openconnect_config option"
  cf_LeshyZone :: string
  cf_Source :: string
  cf_StaticFile :: string
  cf_Command :: string
  cf_RulePriority :: int
  cf_legacyVPNPath :: string
  cf_Profiles :: "string list"

definition policy_zero :: endpoint_policy where
  "policy_zero = \<lparr>ep_Role = [], ep_Zone = [], ep_Priority = 0, ep_Source = [], ep_StaticFile = [],
     ep_Command = [], ep_Routes = []\<rparr>"

section \<open>The endpoint policy\<close>

fun EffectiveEndpointPolicy :: "role_config option \<Rightarrow> endpoint_policy" where
  "EffectiveEndpointPolicy None = policy_zero"
| "EffectiveEndpointPolicy (Some c) =
     (let zone = (if cf_LeshyZone c = [] then
                    (if cf_Name c = ''primary'' then ''primary''
                     else if cf_Name c = ''secondary'' then ''secondary'' else [])
                  else cf_LeshyZone c);
          priority = (if cf_RulePriority c = 0 then
                        (if cf_Name c = ''primary'' then 50
                         else if cf_Name c = ''secondary'' then 51 else 0)
                      else cf_RulePriority c)
      in \<lparr>ep_Role = cf_Name c, ep_Zone = zone, ep_Priority = priority, ep_Source = cf_Source c,
          ep_StaticFile = cf_StaticFile c, ep_Command = cf_Command c, ep_Routes = []\<rparr>)"

text \<open>The loop of \<^verbatim>\<open>ValidateEndpointPolicies\<close>; the map values are the role names.\<close>

fun validate_policies ::
  "(int, string) gomap \<Rightarrow> (string, string) gomap \<Rightarrow> role_config option list \<Rightarrow> goerror option" where
  "validate_policies seen zones [] = None"
| "validate_policies seen zones (c # cs) =
     (let p = EffectiveEndpointPolicy c
      in if ep_Priority p = 0 \<and> ep_Zone p = [] then validate_policies seen zones cs
         else if \<not> policy_Valid p
           then Some (Errorf ''endpoint policy for %q requires zone and positive rule_priority'')
         else if map_of seen (ep_Priority p) \<noteq> None
           then Some (Errorf ''endpoint rule priority %d is used by %q and %q'')
         else if map_of zones (ep_Zone p) \<noteq> None
           then Some (Errorf ''leshy zone %q is used by %q and %q'')
         else validate_policies (gomap_put (ep_Priority p) (ep_Role p) seen)
                (gomap_put (ep_Zone p) (ep_Role p) zones) cs)"

definition ValidateEndpointPolicies :: "role_config option list \<Rightarrow> goerror option" where
  "ValidateEndpointPolicies configs = validate_policies [] [] configs"

section \<open>The zone index\<close>

text \<open>The loop of \<^verbatim>\<open>newSelectedRouteManager\<close> over the role specifications.\<close>

definition index_zone :: "(string, string list) gomap \<Rightarrow> role_spec \<Rightarrow> (string, string list) gomap" where
  "index_zone m s =
     (if sp_LeshyZone s = [] then m
      else gomap_put (sp_LeshyZone s)
             ((case map_of m (sp_LeshyZone s) of None \<Rightarrow> [] | Some rs \<Rightarrow> rs) @ [sp_ID s]) m)"

definition zone_index :: "role_spec list \<Rightarrow> (string, string list) gomap" where
  "zone_index specs = foldl index_zone [] specs"

text \<open>The specification \<^verbatim>\<open>newManager\<close> makes of a loaded configuration.\<close>

definition config_spec :: "string \<times> role_config \<Rightarrow> role_spec" where
  "config_spec r =
     (case r of (name, c) \<Rightarrow>
        \<lparr>sp_ID = name, sp_Protocol = cf_Protocol c, sp_Interface = cf_Interface c,
         sp_LeshyZone = ep_Zone (EffectiveEndpointPolicy (Some c))\<rparr>)"

section \<open>Transport endpoints\<close>

text \<open>What \<^verbatim>\<open>url.Parse\<close> gives: the scheme, whether there is user information, and the results
  of \<^verbatim>\<open>Hostname\<close> and \<^verbatim>\<open>Port\<close>.\<close>

record parsed_url =
  url_Scheme :: string
  url_HasUser :: bool
  url_Hostname :: string
  url_Port :: string

type_synonym url_parser = "string \<Rightarrow> goerror + parsed_url"

definition gateway_port :: "string \<Rightarrow> goerror + u16" where
  "gateway_port port =
     (if port = [] then Inr 443
      else case Atoi port of
             None \<Rightarrow> Inl (Errorf ''invalid OpenConnect gateway port %q'')
           | Some v \<Rightarrow> if v < 1 \<or> 65535 < v then Inl (Errorf ''invalid OpenConnect gateway port %q'')
                        else Inr (word_of_int v))"

definition parseOpenConnectGateway :: "url_parser \<Rightarrow> string \<Rightarrow> goerror + string \<times> u16" where
  "parseOpenConnectGateway parse raw =
     (if raw = [] \<or> raw \<noteq> TrimSpace raw \<or> ContainsAny raw [CHR '' '', CHR 0x09, CHR 0x0D, CHR 0x0A]
      then Inl (Errorf ''invalid OpenConnect gateway %q'')
      else if strings_Contains raw ''://'' then
        (case parse raw of
           Inl e \<Rightarrow> Inl (Wrapf ''parse OpenConnect gateway: %w'' e)
         | Inr u \<Rightarrow>
             if url_Scheme u \<noteq> ''https'' then Inl (Errorf ''OpenConnect gateway scheme %q is not supported'')
             else if url_HasUser u then Inl (Errorf ''OpenConnect gateway userinfo is not allowed'')
             else if url_Hostname u = [] then Inl (Errorf ''OpenConnect gateway hostname is empty'')
             else (case gateway_port (url_Port u) of
                     Inl e \<Rightarrow> Inl e
                   | Inr port \<Rightarrow> Inr (url_Hostname u, port)))
      else case ParseSpec raw ''tcp'' 443 of
             Inl e \<Rightarrow> Inl e
           | Inr spec \<Rightarrow>
               if addrport_IsValid (es_Address spec)
               then Inr (addr_String (fst (es_Address spec)), snd (es_Address spec))
               else Inr (es_Hostname spec, es_Port spec))"

definition protocolTransportDefaults :: "role_config \<Rightarrow> string \<times> u16" where
  "protocolTransportDefaults c = (if cf_Protocol c = ''amneziawg2'' then (''udp'', 51820) else (''tcp'', 443))"

definition endpoint_text_specs :: "role_config \<Rightarrow> string \<Rightarrow> goerror + endpoint_spec list" where
  "endpoint_text_specs c raw =
     (if TrimSpace raw = [] then Inl (Errorf ''configured transport endpoint is empty'')
      else map_sum id (\<lambda>spec. [spec])
             (ParseSpec raw (fst (protocolTransportDefaults c)) (snd (protocolTransportDefaults c))))"

definition gateway_specs :: "url_parser \<Rightarrow> string \<Rightarrow> string \<Rightarrow> goerror + endpoint_spec list" where
  "gateway_specs parse network gateway =
     (case parseOpenConnectGateway parse gateway of
        Inl e \<Rightarrow> Inl e
      | Inr (host, port) \<Rightarrow>
          (case ParseAddr host of
             Some a \<Rightarrow> Inr [\<lparr>es_Network = network, es_Hostname = [], es_Address = (a, port), es_Port = port\<rparr>]
           | None \<Rightarrow> Inr [\<lparr>es_Network = network, es_Hostname = host, es_Address = addrport_zero, es_Port = port\<rparr>]))"

definition TransportEndpointSpecs :: "url_parser \<Rightarrow> role_config option \<Rightarrow> goerror + endpoint_spec list" where
  "TransportEndpointSpecs parse cfg =
     (case cfg of
        None \<Rightarrow> Inl (Errorf ''config is nil'')
      | Some c \<Rightarrow>
          if cf_Protocol c = ''amneziawg2'' then
            (case cf_AWG2 c of
               None \<Rightarrow> Inl (Errorf ''AWG2 config is unavailable'')
             | Some section \<Rightarrow> endpoint_text_specs c (aw_Endpoint section))
          else if cf_Protocol c = ''vless-reality'' then
            (case cf_VLESS c of
               None \<Rightarrow> Inl (Errorf ''VLESS config is unavailable'')
             | Some section \<Rightarrow> endpoint_text_specs c (vl_Endpoint section))
          else if cf_Protocol c = ''openconnect'' then
            (case cf_OpenConnect c of
               None \<Rightarrow> Inl (Errorf ''OpenConnect config is unavailable'')
             | Some oc \<Rightarrow> gateway_specs parse (fst (protocolTransportDefaults c)) (oc_Gateway oc))
          else Inl (Errorf ''unsupported protocol %q''))"

definition transportDefaults :: "url_parser \<Rightarrow> role_config \<Rightarrow> string \<times> u16" where
  "transportDefaults parse c =
     (case protocolTransportDefaults c of (network, port) \<Rightarrow>
        (case TransportEndpointSpecs parse (Some c) of
           Inr [spec] \<Rightarrow>
             if addrport_IsValid (es_Address spec) then (network, snd (es_Address spec))
             else if es_Port spec \<noteq> 0 then (network, es_Port spec) else (network, port)
         | _ \<Rightarrow> (network, port)))"

text \<open>\<open>readFile\<close> and \<open>run\<close> are the file system and the execution of a provider command under
  the given environment.\<close>

definition ResolveTransportEndpoints ::
  "url_parser \<Rightarrow> (string \<Rightarrow> goerror + string) \<Rightarrow> ((string, string) gomap \<Rightarrow> string list \<Rightarrow> goerror + string) \<Rightarrow>
     role_config option \<Rightarrow> goerror + endpoint_spec list" where
  "ResolveTransportEndpoints parse readFile run cfg =
     (case cfg of
        None \<Rightarrow> Inl (Errorf ''config is nil'')
      | Some c \<Rightarrow>
          (case transportDefaults parse c of (network, port) \<Rightarrow>
             let policy = EffectiveEndpointPolicy (Some c)
             in if ep_Source policy = ''static''
                  then static_ResolveSpecs (ep_StaticFile policy) 0 (readFile (ep_StaticFile policy)) network port
                else if ep_Source policy = ''command-compat'' \<or> ep_Source policy = ''happ''
                  then command_ResolveSpecs (ep_Command policy) 0
                         (run [(''KIKIMORA_ENDPOINT_ROLE'', cf_Name c),
                               (''KIKIMORA_ENDPOINT_INTERFACE'', cf_Interface c),
                               (''KIKIMORA_VPN_CONFIG'', cf_legacyVPNPath c)]) network port
                else TransportEndpointSpecs parse (Some c)))"

section \<open>Credentials\<close>

text \<open>\<open>stat\<close> is the error of \<^verbatim>\<open>os.Stat\<close>, if any.\<close>

definition CredentialError :: "(string \<Rightarrow> goerror option) \<Rightarrow> role_config \<Rightarrow> goerror option" where
  "CredentialError stat c =
     (if cf_Protocol c \<noteq> ''openconnect'' then None
      else case cf_OpenConnect c of
             None \<Rightarrow> Some (Errorf ''openconnect section is missing'')
           | Some oc \<Rightarrow>
               if TrimSpace (oc_Username oc) = [] then Some (Errorf ''openconnect needs username'')
               else
                 let password = TrimSpace (oc_PasswordFile oc); token = TrimSpace (oc_TokenSecretFile oc)
                 in if password = [] \<and> token = []
                    then Some (Errorf ''openconnect needs password_file or token_secret_file'')
                    else (case find (\<lambda>path. path \<noteq> [] \<and> stat path \<noteq> None) [password, token] of
                            None \<Rightarrow> None
                          | Some path \<Rightarrow> Some (Wrapf ''openconnect secret file %s: %w'' (the (stat path)))))"

section \<open>Exclusive policies\<close>

declare EffectiveEndpointPolicy.simps(2) [simp del]

lemma policy_of_zone:
  "ep_Zone (EffectiveEndpointPolicy c) \<noteq> [] \<or> ep_Priority (EffectiveEndpointPolicy c) \<noteq> 0 \<Longrightarrow>
     validate_policies seen zones (c # cs) = None \<Longrightarrow>
     policy_Valid (EffectiveEndpointPolicy c) \<and>
     map_of seen (ep_Priority (EffectiveEndpointPolicy c)) = None \<and>
     map_of zones (ep_Zone (EffectiveEndpointPolicy c)) = None \<and>
     validate_policies (gomap_put (ep_Priority (EffectiveEndpointPolicy c)) (ep_Role (EffectiveEndpointPolicy c)) seen)
       (gomap_put (ep_Zone (EffectiveEndpointPolicy c)) (ep_Role (EffectiveEndpointPolicy c)) zones) cs = None"
  by (auto simp: Let_def split: if_splits)

lemma validate_policies_sound:
  "validate_policies seen zones cs = None \<Longrightarrow>
     (\<forall>c \<in> set cs. ep_Zone (EffectiveEndpointPolicy c) \<noteq> [] \<or> ep_Priority (EffectiveEndpointPolicy c) \<noteq> 0 \<longrightarrow>
        policy_Valid (EffectiveEndpointPolicy c) \<and>
        map_of seen (ep_Priority (EffectiveEndpointPolicy c)) = None \<and>
        map_of zones (ep_Zone (EffectiveEndpointPolicy c)) = None) \<and>
     distinct (filter (\<lambda>z. z \<noteq> []) (map (ep_Zone \<circ> EffectiveEndpointPolicy) cs)) \<and>
     distinct (filter (\<lambda>p. p \<noteq> 0) (map (ep_Priority \<circ> EffectiveEndpointPolicy) cs))"
proof (induction cs arbitrary: seen zones)
  case (Cons c cs)
  let ?p = "EffectiveEndpointPolicy c"
  show ?case
  proof (cases "ep_Zone ?p \<noteq> [] \<or> ep_Priority ?p \<noteq> 0")
    case True
    note head = policy_of_zone [OF True Cons.prems]
    from Cons.IH [OF conjunct2 [OF conjunct2 [OF conjunct2 [OF head]]]] head show ?thesis
      by (fastforce simp: policy_Valid_def split: if_splits)
  next
    case False
    with Cons.prems have "validate_policies seen zones cs = None" by (simp add: Let_def)
    from Cons.IH [OF this] False show ?thesis by auto
  qed
qed simp

lemma zone_index_lookup:
  "z \<noteq> [] \<Longrightarrow> map_of (foldl index_zone m specs) z =
     (let ids = map sp_ID (filter (\<lambda>s. sp_LeshyZone s = z) specs)
      in case map_of m z of
           None \<Rightarrow> if ids = [] then None else Some ids
         | Some rs \<Rightarrow> Some (rs @ ids))"
  by (induction specs arbitrary: m) (auto simp: index_zone_def Let_def split: option.splits)

lemma distinct_filter_single:
  "distinct (filter P (map f xs)) \<Longrightarrow> x \<in> set xs \<Longrightarrow> P (f x) \<Longrightarrow> filter (\<lambda>y. f y = f x) xs = [x]"
proof (induction xs)
  case (Cons a xs)
  show ?case
  proof (cases "f a = f x")
    case True
    with Cons.prems(1,3) have "f x \<notin> set (filter P (map f xs))" by simp
    with Cons.prems(3) have none: "y \<in> set xs \<Longrightarrow> f y \<noteq> f x" for y by (auto simp: image_iff)
    then have "filter (\<lambda>y. f y = f x) xs = []" by (auto simp: filter_empty_conv)
    moreover have "a = x" using none Cons.prems(2) by auto
    ultimately show ?thesis by simp
  next
    case False
    with Cons show ?thesis by (auto split: if_splits)
  qed
qed simp

lemma accepted_zone_single:
  assumes ok: "ValidateEndpointPolicies (map (Some \<circ> snd) roles) = None"
    and r: "(name, c) \<in> set roles" and zone: "ep_Zone (EffectiveEndpointPolicy (Some c)) \<noteq> []"
  shows "map_of (zone_index (map config_spec roles)) (ep_Zone (EffectiveEndpointPolicy (Some c))) = Some [name]"
proof -
  let ?f = "\<lambda>r. ep_Zone (EffectiveEndpointPolicy (Some (snd r)))"
  have "distinct (filter (\<lambda>z. z \<noteq> []) (map ?f roles))"
    using validate_policies_sound [OF ok [unfolded ValidateEndpointPolicies_def]] by (simp add: comp_def)
  from distinct_filter_single [OF this r] zone
  have "filter (\<lambda>r. ?f r = ep_Zone (EffectiveEndpointPolicy (Some c))) roles = [(name, c)]" by simp
  then show ?thesis
    using zone
    by (simp add: zone_index_def zone_index_lookup Let_def filter_map comp_def config_spec_def case_prod_unfold)
qed

end
