(* ===== verification/Manager_Book.thy ===== *)
theory Manager_Book
  imports Core_Controller
begin

text \<open>
  The bookkeeping of the core manager (\<^verbatim>\<open>control/control.go\<close>, type \<^verbatim>\<open>Manager\<close>): the
  back-offs, streaks and flags it keeps per role, the active profile, and the goroutines it has
  started and that have not run yet. Back-offs are those of \<^verbatim>\<open>supervisor/backoff.go\<close>.
\<close>

section \<open>Back-off\<close>

text \<open>\<^verbatim>\<open>time.Second\<close>; durations are nanoseconds.\<close>

definition Second :: int where
  "Second = 1000000000"

definition RetryDelays :: "int list" where
  "RetryDelays = [Second, 2 * Second, 5 * Second, 10 * Second, 30 * Second, 60 * Second]"

record backoff =
  bo_Attempt :: int
  bo_StableSince :: gotime

definition backoff_zero :: backoff where
  "backoff_zero = \<lparr>bo_Attempt = 0, bo_StableSince = 0\<rparr>"

definition backoff_Next :: "backoff \<Rightarrow> int \<times> backoff" where
  "backoff_Next b =
     (let n = (if bo_Attempt b < 0 then 0 else bo_Attempt b);
          n = (if int (length RetryDelays) \<le> n then int (length RetryDelays) - 1 else n)
      in (RetryDelays ! nat n, b\<lparr>bo_Attempt := bo_Attempt b + 1\<rparr>))"

definition ResetIfStable :: "gotime \<Rightarrow> backoff \<Rightarrow> backoff" where
  "ResetIfStable now b =
     (if bo_StableSince b \<noteq> 0 \<and> 60 * Second \<le> now - bo_StableSince b then b\<lparr>bo_Attempt := 0\<rparr> else b)"

definition MarkReady :: "gotime \<Rightarrow> backoff \<Rightarrow> backoff" where
  "MarkReady now b = (if bo_StableSince b = 0 then b\<lparr>bo_StableSince := now\<rparr> else b)"

definition ClearReady :: "backoff \<Rightarrow> backoff" where
  "ClearReady b = b\<lparr>bo_StableSince := 0\<rparr>"

section \<open>Goroutines\<close>

text \<open>A goroutine the manager started: the function it runs and the values it captured. A process
  is its identity. A timer is a goroutine that runs its body when it is chosen.\<close>

datatype manager_task =
    WaitTask string nat
  | SubscribeTask string nat string
  | RetryAfterTask string
  | StartRetryTask string
  | RecoverTask string u64 u64
  | RecoveryRetryTask string u64 u64
  | HandoffTask string u64 u64
  | ValidateTask string nat netstate_snapshot
  | SettleProfileTask "string list" "string list"
  | ScheduleValidationsTask
  | RetryPendingStartsTask
  | RecoverStaleTask u64

section \<open>The book\<close>

text \<open>A context with a cancel function is a number: \<^verbatim>\<open>recoveryCancels\<close> maps a role to the
  context of its recovery, \<open>bk_cancelled\<close> lists the contexts that were cancelled, and
  \<open>bk_nextContext\<close> is the next one to be made.\<close>

record manager_book =
  bk_activeProfile :: string
  bk_profileToRoles :: "(string, string list) gomap"
  bk_declaredProfiles :: "string list"
  bk_autoRecovery :: bool
  bk_hasDriver :: bool
  bk_backoffs :: "(string, backoff) gomap"
  bk_recoveryBackoffs :: "(string, backoff) gomap"
  bk_startBackoffs :: "(string, backoff) gomap"
  bk_failureStreak :: "(string, int) gomap"
  bk_recoveryRetryPending :: "(string, bool) gomap"
  bk_startRetryPending :: "(string, bool) gomap"
  bk_restartHandoffPending :: "(string, bool) gomap"
  bk_recoveryCancels :: "(string, nat) gomap"
  bk_nextContext :: nat
  bk_cancelled :: "nat list"
  bk_desiredStateStatus :: string
  bk_shuttingDown :: bool
  bk_suspended :: bool
  bk_tasks :: "manager_task list"

definition new_book :: manager_book where
  "new_book =
     \<lparr>bk_activeProfile = ''default'', bk_profileToRoles = [], bk_declaredProfiles = [], bk_autoRecovery = False,
      bk_hasDriver = False, bk_backoffs = [], bk_recoveryBackoffs = [], bk_startBackoffs = [], bk_failureStreak = [],
      bk_recoveryRetryPending = [], bk_startRetryPending = [], bk_restartHandoffPending = [],
      bk_recoveryCancels = [], bk_nextContext = 0, bk_cancelled = [],
      bk_desiredStateStatus = [], bk_shuttingDown = False, bk_suspended = False, bk_tasks = []\<rparr>"

text \<open>\<^verbatim>\<open>m.recoveryCancels[name] = cancel\<close> for a new context, and \<^verbatim>\<open>cancel()\<close>.\<close>

definition register_context :: "string \<Rightarrow> manager_book \<Rightarrow> manager_book" where
  "register_context name b = b\<lparr>bk_recoveryCancels := gomap_put name (bk_nextContext b) (bk_recoveryCancels b),
                              bk_nextContext := bk_nextContext b + 1\<rparr>"

definition cancel_context :: "nat \<Rightarrow> manager_book \<Rightarrow> manager_book" where
  "cancel_context c b = b\<lparr>bk_cancelled := c # bk_cancelled b\<rparr>"

text \<open>\<^verbatim>\<open>delete(m.recoveryCancels, name)\<close>, and the cancellation of the recovery of a role that has one.\<close>

definition forget_context :: "string \<Rightarrow> manager_book \<Rightarrow> manager_book" where
  "forget_context name b = b\<lparr>bk_recoveryCancels := gomap_del name (bk_recoveryCancels b)\<rparr>"

definition cancel_recovery :: "string \<Rightarrow> manager_book \<Rightarrow> manager_book" where
  "cancel_recovery name b =
     (case map_of (bk_recoveryCancels b) name of
        None \<Rightarrow> b
      | Some c \<Rightarrow> cancel_context c (forget_context name b))"

text \<open>\<^verbatim>\<open>m[name]\<close> on a map of booleans.\<close>

definition flag :: "(string, bool) gomap \<Rightarrow> string \<Rightarrow> bool" where
  "flag m name = (map_of m name = Some True)"

text \<open>The lookup of a back-off that creates it, and its next delay.\<close>

definition next_delay :: "(string, backoff) gomap \<Rightarrow> string \<Rightarrow> int \<times> (string, backoff) gomap" where
  "next_delay m name =
     (case backoff_Next (case map_of m name of None \<Rightarrow> backoff_zero | Some b \<Rightarrow> b) of
        (delay, b) \<Rightarrow> (delay, gomap_put name b m))"

section \<open>Delays\<close>

lemma flag_put [simp]: "flag (gomap_put k v m) name = (if name = k then v else flag m name)"
  by (simp add: flag_def)

lemma flag_del [simp]: "flag (gomap_del k m) name = (name \<noteq> k \<and> flag m name)"
  by (simp add: flag_def)

lemma backoff_delay_bounds:
  "Second \<le> fst (backoff_Next b)" "fst (backoff_Next b) \<le> 60 * Second"
proof -
  let ?n = "if bo_Attempt b < 0 then 0 else bo_Attempt b"
  let ?k = "nat (if int (length RetryDelays) \<le> ?n then int (length RetryDelays) - 1 else ?n)"
  have "?k < length RetryDelays" by (auto simp: RetryDelays_def nat_less_iff)
  then have "RetryDelays ! ?k \<in> set RetryDelays" by (rule nth_mem)
  then have "Second \<le> RetryDelays ! ?k \<and> RetryDelays ! ?k \<le> 60 * Second"
    by (auto simp: RetryDelays_def Second_def)
  then show "Second \<le> fst (backoff_Next b)" "fst (backoff_Next b) \<le> 60 * Second"
    by (simp_all add: backoff_Next_def Let_def)
qed

end
