(* ===== verification/Recovery_Driver.thy ===== *)
theory Recovery_Driver
  imports Core_Recovery Selected_Parking Role_Config Manager_Book Toadctl
begin

text \<open>
  The concrete recovery driver (\<^verbatim>\<open>control/recovery_driver.go\<close>) with the validation entry of
  the core manager it calls (\<^verbatim>\<open>control/control.go\<close>: \<^verbatim>\<open>ValidateRole\<close> and its completions).

  The driver runs in the world of the recovery engine: the product controller, and a driver
  state with the manager's roles and underlay, the selected-route manager, and the driver's own
  maps and the manager's bookkeeping. The host state \<open>'k\<close> is the selected-route manager's, so the legacy executor, the
  platform writer, Leshy, the Toad sockets and the checkpoint files all act on one host. What
  is outside the program, or starts processes, is a field of the services record.
\<close>

section \<open>Services\<close>

record role_publication =
  rp_Role :: string
  rp_Zone :: string
  rp_Interface :: string

record 'k leshy_bridge =
  lb_Publish :: "role_publication \<Rightarrow> ('k, unit) tx"
  lb_Withdraw :: "string \<Rightarrow> ('k, unit) tx"
  lb_Resync :: "string \<Rightarrow> ('k, unit) tx"

record 'k endpoint_writer =
  ew_ReconcileEndpointPolicy :: "endpoint_policy \<Rightarrow> ('k, unit) tx"
  ew_RemoveEndpointPolicy :: "endpoint_policy \<Rightarrow> ('k, unit) tx"

section \<open>State\<close>

text \<open>The state a Toad last reported (\<^verbatim>\<open>state.Snapshot\<close>, with its interface and session).\<close>

record observed_state =
  ob_Schema :: int
  ob_Name :: string
  ob_Protocol :: string
  ob_Generation :: u64
  ob_State :: string
  ob_Reason :: string
  ob_RouteReady :: bool
  ob_InterfaceName :: string
  ob_IfIndex :: int
  ob_MTU :: int
  ob_Addresses :: "string list"
  ob_Families :: route_families
  ob_Connected :: bool
  ob_LastHandshakeAgeMS :: "int option"
  ob_RXBytes :: u64
  ob_TXBytes :: u64
  ob_Endpoint :: string
  ob_UpdatedAt :: gotime

definition observed_zero :: observed_state where
  "observed_zero = \<lparr>ob_Schema = 0, ob_Name = [], ob_Protocol = [], ob_Generation = 0, ob_State = [], ob_Reason = [],
     ob_RouteReady = False, ob_InterfaceName = [], ob_IfIndex = 0, ob_MTU = 0, ob_Addresses = [],
     ob_Families = families_zero, ob_Connected = False, ob_LastHandshakeAgeMS = None, ob_RXBytes = 0, ob_TXBytes = 0,
     ob_Endpoint = [], ob_UpdatedAt = 0\<rparr>"

text \<open>A role of the core manager; a process is its identity.\<close>

record manager_role =
  mr_cfg :: "role_config option"
  mr_process :: "nat option"
  mr_enabled :: bool
  mr_observed :: observed_state
  mr_stateValid :: bool
  mr_streamed :: bool
  mr_controlSocket :: string
  mr_everRouteReady :: bool
  mr_configPath :: string
  mr_lastError :: string
  mr_operation :: u64
  mr_validationInFlight :: bool
  mr_recoveryInFlight :: bool
  mr_validationPendingEpoch :: u64
  mr_startPending :: bool
  mr_startReason :: string

record 'k driver_state =
  dv_Selected :: "'k selected_manager"
  dv_Roles :: "(string, manager_role) gomap"
  dv_Underlay :: netstate_snapshot
  dv_Revision :: u64
  dv_Endpoints :: "(string, endpoint_state) gomap"
  dv_Parking :: "(string, parking_state) gomap"
  dv_Ownership :: memory_ownership
  dv_OwnershipLoaded :: "(string, bool) gomap"
  dv_Baselines :: "(string, owned_route list) gomap"
  dv_FrozenSelected :: "(string, route_record list) gomap"
  dv_Book :: manager_book

type_synonym 'k world = "'k driver_state engine_world"

text \<open>\<open>rv_restartRole\<close> replaces a Toad process; \<open>rv_ctxErr\<close> is the error of a context that ends
  while the driver waits for operations in flight.\<close>

record 'k recovery_services =
  rv_Env :: "'k manager_env"
  rv_Routes :: "'k endpoint_writer option"
  rv_Executor :: "'k executor option"
  rv_Resolver :: "('k \<Rightarrow> resolver) option"
  rv_Leshy :: "'k leshy_bridge option"
  rv_Call :: "string \<Rightarrow> toad_request \<Rightarrow> ('k, toad_response) tx"
  rv_ParseURL :: url_parser
  rv_ReadFile :: "'k \<Rightarrow> string \<Rightarrow> goerror + string"
  rv_RunCommand :: "'k \<Rightarrow> (string, string) gomap \<Rightarrow> string list \<Rightarrow> goerror + string"
  rv_ReadCheckpoint :: "string \<Rightarrow> 'k \<Rightarrow> goerror + parking_checkpoint"
  rv_WriteCheckpoint :: "string \<Rightarrow> parking_checkpoint \<Rightarrow> ('k, unit) tx"
  rv_Rename :: "string \<Rightarrow> string \<Rightarrow> ('k, unit) tx"
  rv_restartRole :: "string \<Rightarrow> ('k world, unit) tx"
  rv_ctxErr :: goerror

definition NewRecoveryDriver ::
  "'k selected_manager \<Rightarrow> (string, manager_role) gomap \<Rightarrow> netstate_snapshot \<Rightarrow> 'k driver_state" where
  "NewRecoveryDriver selected roles underlay =
     \<lparr>dv_Selected = selected, dv_Roles = roles, dv_Underlay = underlay, dv_Revision = 0, dv_Endpoints = [],
      dv_Parking = [], dv_Ownership = [], dv_OwnershipLoaded = [], dv_Baselines = [], dv_FrozenSelected = [],
      dv_Book = new_book\<rparr>"

text \<open>The parts of the world the steps act on.\<close>

definition update_driver :: "('k driver_state \<Rightarrow> 'k driver_state) \<Rightarrow> 'k world \<Rightarrow> 'k world" where
  "update_driver f w = w\<lparr>ew_Driver := f (ew_Driver w)\<rparr>"

definition on_selected :: "('k selected_manager, 'a) tx \<Rightarrow> ('k world, 'a) tx" where
  "on_selected t w =
     (case t (dv_Selected (ew_Driver w)) of (r, s) \<Rightarrow> (r, update_driver (\<lambda>d. d\<lparr>dv_Selected := s\<rparr>) w))"

definition on_host :: "('k, 'a) tx \<Rightarrow> ('k world, 'a) tx" where
  "on_host t = on_selected (on_kernel t)"

definition host :: "'k world \<Rightarrow> 'k" where
  "host w = sm_Kernel (dv_Selected (ew_Driver w))"

definition the_parking :: "'k world \<Rightarrow> 'k parking_manager" where
  "the_parking w = \<lparr>pm_States = dv_Parking (ew_Driver w), pm_Kernel = host w\<rparr>"

definition put_parking :: "'k parking_manager \<Rightarrow> 'k world \<Rightarrow> 'k world" where
  "put_parking m = update_driver (\<lambda>d. d\<lparr>dv_Parking := pm_States m,
     dv_Selected := (dv_Selected d)\<lparr>sm_Kernel := pm_Kernel m\<rparr>\<rparr>)"

definition on_parking :: "('k parking_manager \<Rightarrow> goerror option \<times> 'k parking_manager) \<Rightarrow> ('k world, unit) tx" where
  "on_parking f w =
     (case f (the_parking w) of
        (Some e, m) \<Rightarrow> (Inl e, put_parking m w)
      | (None, m) \<Rightarrow> (Inr (), put_parking m w))"

definition parking_of :: "string \<Rightarrow> 'k world \<Rightarrow> parking_state" where
  "parking_of role w = parking_Snapshot (the_parking w) role"

text \<open>The environment of the selected-route manager reads the product state of now.\<close>

definition env_at :: "'k recovery_services \<Rightarrow> 'k world \<Rightarrow> 'k manager_env" where
  "env_at sv w = (rv_Env sv)\<lparr>se_RoleRuntime := controller_Role (ew_Controller w)\<rparr>"

definition with_env :: "'k recovery_services \<Rightarrow> ('k manager_env \<Rightarrow> ('k selected_manager, 'a) tx) \<Rightarrow> ('k world, 'a) tx" where
  "with_env sv f w = on_selected (f (env_at sv w)) w"

text \<open>\<^verbatim>\<open>product, _ := d.manager.product.Role(role)\<close> and the resource update.\<close>

definition product_role :: "string \<Rightarrow> 'k world \<Rightarrow> role_runtime" where
  "product_role role w = (case controller_Role (ew_Controller w) role of None \<Rightarrow> role_zero | Some r \<Rightarrow> r)"

definition set_resources ::
  "string \<Rightarrow> endpoint_state \<Rightarrow> publication_state \<Rightarrow> parking_state \<Rightarrow> validation_result \<Rightarrow> 'k world \<Rightarrow> 'k world" where
  "set_resources role e p k v w =
     w\<lparr>ew_Controller := snd (UpdateRoleResources role e p k v (ew_Controller w))\<rparr>"

definition publish_parking :: "string \<Rightarrow> parking_state \<Rightarrow> 'k world \<Rightarrow> 'k world" where
  "publish_parking role k w =
     (let product = product_role role w
      in set_resources role (rr_Endpoint product) (rr_Publication product) k (rr_Validation product) w)"

definition publish_publication :: "string \<Rightarrow> publication_state \<Rightarrow> 'k world \<Rightarrow> 'k world" where
  "publish_publication role p w =
     (let product = product_role role w
      in set_resources role (rr_Endpoint product) p (rr_Parking product) (rr_Validation product) w)"

section \<open>Roles\<close>

definition role_of :: "string \<Rightarrow> 'k world \<Rightarrow> manager_role option" where
  "role_of role w = map_of (dv_Roles (ew_Driver w)) role"

definition driver_role :: "string \<Rightarrow> ('k world, manager_role \<times> role_runtime) tx" where
  "driver_role name w =
     (case map_of (dv_Roles (ew_Driver w)) name of
        None \<Rightarrow> (Inl (Errorf ''unknown Toad %q''), w)
      | Some r \<Rightarrow> (Inr (r, product_role name w), w))"

definition driver_managed :: "'k recovery_services \<Rightarrow> string \<Rightarrow> bool" where
  "driver_managed sv role = managedSelected (rv_Env sv) role"

definition currentUnderlay :: "'k world \<Rightarrow> netstate_snapshot" where
  "currentUnderlay w = dv_Underlay (ew_Driver w)"

definition path_binding_of :: "net_path \<Rightarrow> path_binding" where
  "path_binding_of p = \<lparr>pb_IfIndex = pa_IfIndex p, pb_Interface = pa_Interface p, pb_Source = pa_PreferredSrc p\<rparr>"

definition bindingFromUnderlay :: "netstate_snapshot \<Rightarrow> underlay_binding" where
  "bindingFromUnderlay s =
     \<lparr>ub_IPv4 = map_option path_binding_of (ns_IPv4 s), ub_IPv6 = map_option path_binding_of (ns_IPv6 s)\<rparr>"

section \<open>Toad calls\<close>

definition request_of :: "string \<Rightarrow> underlay_binding option \<Rightarrow> toad_request" where
  "request_of method binding =
     \<lparr>rq_Version = ProtocolVersion, rq_ID = [], rq_Method = method, rq_Generation = 0, rq_Start = None, rq_Binding = binding\<rparr>"

definition fill_generation :: "string \<Rightarrow> 'k world \<Rightarrow> toad_request \<Rightarrow> toad_request" where
  "fill_generation role w request =
     (if rq_Generation request = 0 \<and>
         rq_Method request \<in> {''Quiesce'', ''Validate'', ''Rebind'', ''RestartTransport'', ''Stop''}
      then case controller_Role (ew_Controller w) role of
             None \<Rightarrow> request
           | Some product \<Rightarrow> request\<lparr>rq_Generation := rr_ToadGeneration product\<rparr>
      else request)"

definition callToadResponse :: "'k recovery_services \<Rightarrow> string \<Rightarrow> toad_request \<Rightarrow> ('k world, toad_response) tx" where
  "callToadResponse sv role request w =
     (case map_of (dv_Roles (ew_Driver w)) role of
        None \<Rightarrow> (Inl (Errorf ''unknown Toad %q''), w)
      | Some r \<Rightarrow>
          if mr_controlSocket r = [] then (Inl (Errorf ''Toad %q has no live control socket''), w)
          else on_host (rv_Call sv (mr_controlSocket r) (fill_generation role w request)) w)"

definition callToad :: "'k recovery_services \<Rightarrow> string \<Rightarrow> toad_request \<Rightarrow> ('k world, unit) tx" where
  "callToad sv role request =
     bindT (callToadResponse sv role request) (\<lambda>response.
       if rsp_OK response then returnT ()
       else case rsp_Error response of
              Some e \<Rightarrow> throwT (api_goerror e)
            | None \<Rightarrow> throwT (Errorf ''Toad %q rejected %s''))"

section \<open>The ownership checkpoint\<close>

text \<open>\<^verbatim>\<open>filepath.Join(r.cfg.StateDir, "parking.json")\<close>\<close>

definition ownershipCheckpointPath :: "string \<Rightarrow> ('k world, string) tx" where
  "ownershipCheckpointPath role =
     bindT (driver_role role) (\<lambda>(r, _).
       case mr_cfg r of
         None \<Rightarrow> throwT (Errorf ''role %q has no state directory'')
       | Some c \<Rightarrow> if cf_StateDir c = [] then throwT (Errorf ''role %q has no state directory'')
                    else returnT (cf_StateDir c @ ''/parking.json''))"

definition baseline_of :: "string \<Rightarrow> 'k world \<Rightarrow> owned_route list" where
  "baseline_of role w = (case map_of (dv_Baselines (ew_Driver w)) role of None \<Rightarrow> [] | Some b \<Rightarrow> b)"

definition owned_of :: "selected_route_owner \<Rightarrow> owned_route" where
  "owned_of v = \<lparr>or_Role = ow_Role v, or_Interface = ow_Interface v, or_IfIndex = ow_IfIndex v,
     or_Prefix = ow_Prefix v\<rparr>"

definition owner_of :: "string \<Rightarrow> owned_route \<Rightarrow> selected_route_owner" where
  "owner_of role v = \<lparr>ow_Role = role, ow_Interface = or_Interface v, ow_IfIndex = or_IfIndex v,
     ow_Prefix = or_Prefix v\<rparr>"

definition ownership_checkpoint :: "string \<Rightarrow> manager_role \<Rightarrow> 'k world \<Rightarrow> parking_checkpoint" where
  "ownership_checkpoint role r w =
     (let name = ob_InterfaceName (mr_observed r); ifindex = ob_IfIndex (mr_observed r)
      in \<lparr>cp_BootID = [], cp_CoreInstanceID = [], cp_Role = role, cp_Interface = name, cp_IfIndex = ifindex,
          cp_Baseline = baseline_of role w,
          cp_Observed = map owned_of (ownership_Snapshot (dv_Ownership (ew_Driver w)) role),
          cp_Parked = map (\<lambda>prefix. \<lparr>or_Role = role, or_Interface = name, or_IfIndex = ifindex,
                                       or_Prefix = prefix\<rparr>) (pk_Prefixes (parking_of role w))\<rparr>)"

definition writeOwnershipCheckpoint :: "'k recovery_services \<Rightarrow> string \<Rightarrow> ('k world, unit) tx" where
  "writeOwnershipCheckpoint sv role =
     bindT (ownershipCheckpointPath role) (\<lambda>path.
     bindT (driver_role role) (\<lambda>(r, _) w.
       on_host (rv_WriteCheckpoint sv path (ownership_checkpoint role r w)) w))"

definition mark_loaded :: "string \<Rightarrow> 'k world \<Rightarrow> 'k world" where
  "mark_loaded role = update_driver (\<lambda>d. d\<lparr>dv_OwnershipLoaded := gomap_put role True (dv_OwnershipLoaded d)\<rparr>)"

definition put_baseline :: "string \<Rightarrow> owned_route list \<Rightarrow> 'k world \<Rightarrow> 'k world" where
  "put_baseline role b = update_driver (\<lambda>d. d\<lparr>dv_Baselines := gomap_put role b (dv_Baselines d)\<rparr>)"

definition put_ownership :: "(memory_ownership \<Rightarrow> memory_ownership) \<Rightarrow> 'k world \<Rightarrow> 'k world" where
  "put_ownership f = update_driver (\<lambda>d. d\<lparr>dv_Ownership := f (dv_Ownership d)\<rparr>)"

definition restored_owners :: "string \<Rightarrow> parking_checkpoint \<Rightarrow> selected_route_owner list" where
  "restored_owners role c =
     map (owner_of role)
       (filter (\<lambda>v. or_Role v = role \<and> or_IfIndex v = cp_IfIndex c \<and> IsHostPrefix (or_Prefix v)) (cp_Observed c))"

definition adopt_checkpoint ::
  "'k recovery_services \<Rightarrow> string \<Rightarrow> parking_checkpoint \<Rightarrow> ('k world, unit) tx" where
  "adopt_checkpoint sv role c =
     bindT (driver_role role) (\<lambda>(r, _).
     bindT (requireT (cp_Role c = role) (Errorf ''parking checkpoint role mismatch: got %q want %q'')) (\<lambda>_.
     bindT (on_parking (RestoreCheckpoint (rv_Executor sv) c)) (\<lambda>_.
     if cp_Role c = role \<and> cp_Interface c = ob_InterfaceName (mr_observed r) \<and>
        cp_IfIndex c = ob_IfIndex (mr_observed r)
     then putT (mark_loaded role \<circ> put_baseline role (cp_Baseline c) \<circ>
                put_ownership (\<lambda>reg. ownership_Replace reg role (restored_owners role c)))
     else bindT (putT (mark_loaded role \<circ> put_baseline role [] \<circ> put_ownership (\<lambda>reg. ownership_Remove reg role))) (\<lambda>_.
          writeOwnershipCheckpoint sv role))))"

definition restoreOwnershipCheckpoint :: "'k recovery_services \<Rightarrow> string \<Rightarrow> ('k world, unit) tx" where
  "restoreOwnershipCheckpoint sv role w =
     (if map_of (dv_OwnershipLoaded (ew_Driver w)) role = Some True then (Inr (), w)
      else
        bindT (ownershipCheckpointPath role) (\<lambda>path.
        bindT (getT (\<lambda>w. rv_ReadCheckpoint sv path (host w))) (\<lambda>file.
        case file of
          Inl e \<Rightarrow>
            if os_IsNotExist e then putT (mark_loaded role)
            else bindT (putT (mark_loaded role)) (\<lambda>_.
                 bindT (tryT (on_host (rv_Rename sv path (path @ ''.corrupt'')))) (\<lambda>_. returnT ()))
        | Inr c \<Rightarrow> adopt_checkpoint sv role c)) w)"

section \<open>Baseline and delta\<close>

text \<open>The loop of \<^verbatim>\<open>selectedRouteCandidates\<close>; the first argument is the \<^verbatim>\<open>seen\<close> set.\<close>

fun candidate_prefixes :: "netprefix list \<Rightarrow> int \<Rightarrow> operation list \<Rightarrow> netprefix list" where
  "candidate_prefixes seen ifindex [] = []"
| "candidate_prefixes seen ifindex (route # routes) =
     (if op_Kind route \<noteq> ''route'' \<or> op_Table route = 51890 \<or> op_IfIndex route \<noteq> ifindex \<or> op_Protocol route \<noteq> 4
      then candidate_prefixes seen ifindex routes
      else case ParsePrefix (op_Prefix route) of
             None \<Rightarrow> candidate_prefixes seen ifindex routes
           | Some prefix \<Rightarrow>
               if \<not> IsHostPrefix prefix \<or> prefix \<in> set seen then candidate_prefixes seen ifindex routes
               else prefix # candidate_prefixes (prefix # seen) ifindex routes)"

definition selectedRouteCandidates :: "kernel_state \<Rightarrow> string \<Rightarrow> string \<Rightarrow> int \<Rightarrow> owned_route list" where
  "selectedRouteCandidates kst role iface ifindex =
     (if role = [] \<or> iface = [] \<or> ifindex \<le> 0 then []
      else map (\<lambda>p. \<lparr>or_Role = role, or_Interface = iface, or_IfIndex = ifindex, or_Prefix = p\<rparr>)
             (candidate_prefixes [] ifindex (ks_Routes kst)))"

definition role_candidates :: "kernel_state \<Rightarrow> string \<Rightarrow> manager_role \<Rightarrow> owned_route list" where
  "role_candidates kst role r =
     selectedRouteCandidates kst role (ob_InterfaceName (mr_observed r)) (ob_IfIndex (mr_observed r))"

definition captureOwnershipBaseline :: "'k recovery_services \<Rightarrow> string \<Rightarrow> manager_role \<Rightarrow> ('k world, unit) tx" where
  "captureOwnershipBaseline sv role r =
     (case rv_Executor sv of
        None \<Rightarrow> returnT ()
      | Some ex \<Rightarrow>
          bindT (\<lambda>w. (ex_Snapshot ex (host w), w)) (\<lambda>kst.
          bindT (putT (mark_loaded role \<circ> put_baseline role (role_candidates kst role r))) (\<lambda>_.
          writeOwnershipCheckpoint sv role)))"

text \<open>
  \<^verbatim>\<open>baseline := append([]parking.OwnedRoute(nil), d.baselines[role]...)\<close>: appending no
  elements to the nil slice leaves it nil, so the copy of an empty baseline is nil like that of
  a missing one, and the test \<^verbatim>\<open>baseline == nil\<close> holds for both.
\<close>

definition captureOwnedDelta :: "'k recovery_services \<Rightarrow> string \<Rightarrow> manager_role \<Rightarrow> ('k world, unit) tx" where
  "captureOwnedDelta sv role r =
     (case rv_Executor sv of
        None \<Rightarrow> returnT ()
      | Some ex \<Rightarrow>
          bindT (\<lambda>w. (ex_Snapshot ex (host w), w)) (\<lambda>kst.
          bindT (getT (baseline_of role)) (\<lambda>baseline.
          if baseline = [] then returnT ()
          else
            let baselineSet = map (\<lambda>v. (or_Prefix v, True)) baseline;
                owned = map (owner_of role) (filter (\<lambda>v. IsCandidate v baselineSet) (role_candidates kst role r))
            in bindT (putT (put_ownership (\<lambda>reg. if owned \<noteq> [] \<or> ownership_Snapshot reg role = []
                                               then ownership_Replace reg role owned else reg))) (\<lambda>_.
               writeOwnershipCheckpoint sv role))))"

section \<open>Validation\<close>

definition stateFromToadSnapshot :: "string \<Rightarrow> role_config option \<Rightarrow> toad_snapshot \<Rightarrow> observed_state" where
  "stateFromToadSnapshot name cfg s =
     \<lparr>ob_Schema = 1, ob_Name = name, ob_Protocol = (case cfg of None \<Rightarrow> [] | Some c \<Rightarrow> cf_Protocol c),
      ob_Generation = ts_Generation s, ob_State = ts_State s, ob_Reason = ts_Reason s,
      ob_RouteReady = ts_RouteReady s, ob_InterfaceName = ts_InterfaceName s, ob_IfIndex = ts_IfIndex s,
      ob_MTU = ts_MTU s, ob_Addresses = ts_Addresses s, ob_Families = families_zero,
      ob_Connected = ts_SessionConnected s, ob_LastHandshakeAgeMS = ts_LastHandshakeAgeMS s,
      ob_RXBytes = ts_RXBytes s, ob_TXBytes = ts_TXBytes s, ob_Endpoint = ts_Endpoint s,
      ob_UpdatedAt = ts_UpdatedAt s\<rparr>"

text \<open>The critical section the three completions open with.\<close>

definition process_current :: "string \<Rightarrow> nat option \<Rightarrow> 'k world \<Rightarrow> bool" where
  "process_current name p w =
     (case map_of (dv_Roles (ew_Driver w)) name of None \<Rightarrow> False | Some r \<Rightarrow> mr_process r = p)"

definition observeToadSnapshotForProcess ::
  "string \<Rightarrow> nat option \<Rightarrow> toad_snapshot \<Rightarrow> 'k world \<Rightarrow> (bool \<times> bool) \<times> 'k world" where
  "observeToadSnapshotForProcess name p snapshot w =
     (case map_of (dv_Roles (ew_Driver w)) name of
        None \<Rightarrow> ((False, False), w)
      | Some r \<Rightarrow>
          if mr_process r \<noteq> p then ((False, False), w)
          else
            let r' = r\<lparr>mr_observed := stateFromToadSnapshot name (mr_cfg r) snapshot, mr_stateValid := True,
                       mr_streamed := True, mr_everRouteReady := mr_everRouteReady r \<or> ts_RouteReady snapshot\<rparr>;
                w' = update_driver (\<lambda>d. d\<lparr>dv_Roles := gomap_put name r' (dv_Roles d),
                                         dv_Revision := dv_Revision d + 1\<rparr>) w
            in case ObserveToad name snapshot (ew_Controller w') of
                 (accepted, c) \<Rightarrow> ((True, accepted), w'\<lparr>ew_Controller := c\<rparr>))"

definition completeValidationForProcess ::
  "string \<Rightarrow> nat option \<Rightarrow> validation_token \<Rightarrow> validation_result \<Rightarrow> 'k world \<Rightarrow> bool \<times> 'k world" where
  "completeValidationForProcess name p token result w =
     (if \<not> process_current name p w then (False, w)
      else case CompleteValidation token result (ew_Controller w) of
             (ok, c) \<Rightarrow> (ok, w\<lparr>ew_Controller := c\<rparr>))"

definition completePendingValidationForProcess ::
  "string \<Rightarrow> nat option \<Rightarrow> validation_token \<Rightarrow> validation_result \<Rightarrow> 'k world \<Rightarrow> bool \<times> 'k world" where
  "completePendingValidationForProcess name p token result w =
     (if \<not> process_current name p w then (False, w)
      else case CompleteValidationPending token result (ew_Controller w) of
             (ok, c) \<Rightarrow> (ok, w\<lparr>ew_Controller := c\<rparr>))"

text \<open>\<^verbatim>\<open>_ = m.completeValidationForProcess(..., failed result); return err\<close>\<close>

definition fail_validation ::
  "string \<Rightarrow> nat option \<Rightarrow> validation_token \<Rightarrow> goerror \<Rightarrow> ('k world, unit) tx" where
  "fail_validation name p token e w =
     (Inl e, snd (completeValidationForProcess name p token
        \<lparr>vr_Healthy = False, vr_State = ''failed'', vr_Reason = error_text e, vr_Families = families_zero\<rparr> w))"

definition settle_validation ::
  "string \<Rightarrow> nat option \<Rightarrow> validation_token \<Rightarrow> validation_result \<Rightarrow> ('k world, unit) tx" where
  "settle_validation name p token result w =
     (if \<not> vr_Healthy result then
        (case completePendingValidationForProcess name p token result w of
           (False, w') \<Rightarrow> (Inl (Errorf ''validation result for Toad %q became stale''), w')
         | (True, w') \<Rightarrow> (Inl (Wrapf ''%w: Toad %q is not healthy: %s'' (Sentinel ErrValidationPending)), w'))
      else
        (case completeValidationForProcess name p token result w of
           (False, w') \<Rightarrow> (Inl (Errorf ''validation result for Toad %q became stale''), w')
         | (True, w') \<Rightarrow> (Inr (), w')))"

definition read_validation ::
  "string \<Rightarrow> nat option \<Rightarrow> validation_token \<Rightarrow> toad_response \<Rightarrow> ('k world, unit) tx" where
  "read_validation name p token response =
     (if \<not> rsp_OK response
      then fail_validation name p token
             (case rsp_Error response of Some e \<Rightarrow> api_goerror e | None \<Rightarrow> Errorf ''validate Toad %q failed'')
      else
        bindT (case rsp_Snapshot response of
                 None \<Rightarrow> returnT True
               | Some s \<Rightarrow> (\<lambda>w. case observeToadSnapshotForProcess name p s w of ((live, _), w') \<Rightarrow> (Inr live, w'))) (\<lambda>live.
        bindT (requireT live (Errorf ''validation result for Toad %q became stale: process changed'')) (\<lambda>_.
        case rsp_Validation response of
          None \<Rightarrow> fail_validation name p token (Errorf ''validate Toad %q returned no validation result'')
        | Some result \<Rightarrow> settle_validation name p token result)))"

definition ValidateRole :: "'k recovery_services \<Rightarrow> string \<Rightarrow> ('k world, unit) tx" where
  "ValidateRole sv name w =
     (case BeginValidation name (ew_Controller w) of
        (None, _) \<Rightarrow> (Inl (Errorf ''Toad %q is not eligible for current-epoch validation''), w)
      | (Some token, c) \<Rightarrow>
          (let w = w\<lparr>ew_Controller := c\<rparr>
           in case map_of (dv_Roles (ew_Driver w)) name of
                None \<Rightarrow> (Inl (Errorf ''unknown Toad %q''), w)
              | Some r \<Rightarrow>
                  if mr_process r = None \<or> mr_controlSocket r = []
                  then fail_validation name (mr_process r) token (Errorf ''Toad %q has no live control socket'') w
                  else
                    bindT (tryT (on_host (rv_Call sv (mr_controlSocket r)
                             \<lparr>rq_Version = ProtocolVersion, rq_ID = [], rq_Method = ''Validate'',
                              rq_Generation = vt_ToadGeneration token, rq_Start = None, rq_Binding = None\<rparr>))) (\<lambda>reply.
                    case reply of
                      Inl e \<Rightarrow> fail_validation name (mr_process r) token (Wrapf ''validate Toad %q: %w'' e)
                    | Inr response \<Rightarrow> read_validation name (mr_process r) token response) w))"

end
