(* ===== verification/Driver_Steps.thy ===== *)
theory Driver_Steps
  imports Recovery_Driver
begin

text \<open>
  The steps of the recovery driver (\<^verbatim>\<open>control/recovery_driver.go\<close>), each on its managed and
  its legacy branch, the release of a role's resources on a disconnect, and the driver record
  the engine runs them through.
\<close>

section \<open>Observation and parking\<close>

definition driver_ObserveRoutes :: "'k recovery_services \<Rightarrow> string \<Rightarrow> ('k world, unit) tx" where
  "driver_ObserveRoutes sv role =
     (if driver_managed sv role then returnT ()
      else case rv_Executor sv of
             None \<Rightarrow> returnT ()
           | Some ex \<Rightarrow>
               bindT (\<lambda>w. (ex_Snapshot ex (host w), w)) (\<lambda>_.
               restoreOwnershipCheckpoint sv role))"

definition parkRegistered :: "'k recovery_services \<Rightarrow> string \<Rightarrow> ('k world, unit) tx" where
  "parkRegistered sv role =
     bindT (with_env sv (\<lambda>env. ParkRegistered env role)) (\<lambda>_.
     putT (\<lambda>w. publish_parking role (ParkingState role (dv_Selected (ew_Driver w))) w))"

definition driver_Park :: "'k recovery_services \<Rightarrow> string \<Rightarrow> ('k world, unit) tx" where
  "driver_Park sv role =
     (if driver_managed sv role then parkRegistered sv role
      else case rv_Executor sv of
             None \<Rightarrow> returnT ()
           | Some ex \<Rightarrow>
               bindT (restoreOwnershipCheckpoint sv role) (\<lambda>_.
               bindT (getT (parking_of role)) (\<lambda>existing.
               if pk_Active existing
               then bindT (putT (publish_parking role existing)) (\<lambda>_. writeOwnershipCheckpoint sv role)
               else
                 bindT (getT (\<lambda>w. ownership_Snapshot (dv_Ownership (ew_Driver w)) role)) (\<lambda>owned.
                 bindT (on_parking (PrepareOwnedWithdrawal (rv_Executor sv) role owned)) (\<lambda>_.
                 bindT (putT (\<lambda>w. publish_parking role (parking_of role w) w)) (\<lambda>_.
                 writeOwnershipCheckpoint sv role))))))"

section \<open>Leshy\<close>

definition role_zone :: "manager_role \<Rightarrow> string" where
  "role_zone r = ep_Zone (EffectiveEndpointPolicy (mr_cfg r))"

definition driver_Withdraw :: "'k recovery_services \<Rightarrow> string \<Rightarrow> ('k world, unit) tx" where
  "driver_Withdraw sv role =
     (case rv_Leshy sv of
        None \<Rightarrow> returnT ()
      | Some bridge \<Rightarrow>
          bindT (driver_role role) (\<lambda>(r, _).
          bindT (requireT (role_zone r \<noteq> []) (Errorf ''role %q has no Leshy zone'')) (\<lambda>_.
          bindT (on_host (lb_Withdraw bridge (role_zone r))) (\<lambda>_.
          putT (publish_publication role publication_zero)))))"

definition driver_Publish :: "'k recovery_services \<Rightarrow> string \<Rightarrow> ('k world, unit) tx" where
  "driver_Publish sv role =
     (case rv_Leshy sv of
        None \<Rightarrow> returnT ()
      | Some bridge \<Rightarrow>
          bindT (driver_role role) (\<lambda>(r, _).
          bindT (requireT (ob_InterfaceName (mr_observed r) \<noteq> [] \<and> 0 < ob_IfIndex (mr_observed r))
                   (Errorf ''role %q has no validated interface'')) (\<lambda>_.
          bindT (if driver_managed sv role then returnT () else captureOwnershipBaseline sv role r) (\<lambda>_.
          bindT (on_host (lb_Publish bridge
                   \<lparr>rp_Role = role, rp_Zone = role_zone r, rp_Interface = ob_InterfaceName (mr_observed r)\<rparr>)) (\<lambda>_.
          bindT (if driver_managed sv role then on_selected (putT (touch_role role)) else returnT ()) (\<lambda>_.
          putT (\<lambda>w. publish_publication role
                  \<lparr>pu_Published = True, pu_Zone = role_zone r, pu_Interface = ob_InterfaceName (mr_observed r),
                   pu_Generation = (if driver_managed sv role
                                    then rl_routeGeneration (roleState role (dv_Selected (ew_Driver w))) else 0),
                   pu_Families = vr_Families (rr_Validation (product_role role w))\<rparr> w)))))))"

definition driver_ResyncLeshy :: "'k recovery_services \<Rightarrow> string \<Rightarrow> ('k world, unit) tx" where
  "driver_ResyncLeshy sv role =
     (case rv_Leshy sv of
        None \<Rightarrow> returnT ()
      | Some bridge \<Rightarrow>
          bindT (driver_role role) (\<lambda>(r, _).
          bindT (requireT (role_zone r \<noteq> []) (Errorf ''role %q has no Leshy zone'')) (\<lambda>_.
          bindT (on_host (lb_Resync bridge (role_zone r))) (\<lambda>_.
          captureOwnedDelta sv role r))))"

section \<open>Transport\<close>

definition driver_Quiesce :: "'k recovery_services \<Rightarrow> string \<Rightarrow> ('k world, unit) tx" where
  "driver_Quiesce sv role = callToad sv role (request_of ''Quiesce'' None)"

definition driver_Rebind :: "'k recovery_services \<Rightarrow> string \<Rightarrow> ('k world, unit) tx" where
  "driver_Rebind sv role =
     bindT (getT currentUnderlay) (\<lambda>underlay.
     callToad sv role (request_of ''Rebind'' (Some (bindingFromUnderlay underlay))))"

definition driver_StartTransport :: "'k recovery_services \<Rightarrow> string \<Rightarrow> ('k world, unit) tx" where
  "driver_StartTransport sv role =
     bindT (driver_role role) (\<lambda>_.
     bindT (getT currentUnderlay) (\<lambda>underlay.
     bindT (tryT (callToadResponse sv role (request_of ''RestartTransport'' (Some (bindingFromUnderlay underlay))))) (\<lambda>reply.
     if (case reply of Inr response \<Rightarrow> rsp_OK response | Inl _ \<Rightarrow> False) then returnT ()
     else
       case (case reply of Inr response \<Rightarrow> rsp_Error response | Inl _ \<Rightarrow> None) of
         Some e \<Rightarrow>
           if ae_Code e \<noteq> ''capability_unsupported'' then throwT (api_goerror e)
           else bindT (rv_restartRole sv role) (\<lambda>_. throwT (Sentinel ErrToadRestartPending))
       | None \<Rightarrow> bindT (rv_restartRole sv role) (\<lambda>_. throwT (Sentinel ErrToadRestartPending)))))"

definition driver_Validate :: "'k recovery_services \<Rightarrow> string \<Rightarrow> ('k world, unit) tx" where
  "driver_Validate sv role = ValidateRole sv role"

section \<open>The endpoint policy\<close>

text \<open>The loop over the resolved addresses.\<close>

fun endpoint_routes :: "netstate_snapshot \<Rightarrow> addrport list \<Rightarrow> goerror + endpoint_route list" where
  "endpoint_routes underlay [] = Inr []"
| "endpoint_routes underlay (address # addresses) =
     (let a = fst address
      in case (if addr_Is6 a then ns_IPv6 underlay else ns_IPv4 underlay) of
           None \<Rightarrow> Inl (Wrapf ''%w: no physical path for endpoint %s'' (Sentinel ErrUnderlayPathUnavailable))
         | Some path \<Rightarrow>
             if pa_IfIndex path \<le> 0
             then Inl (Wrapf ''%w: no physical path for endpoint %s'' (Sentinel ErrUnderlayPathUnavailable))
             else map_sum id (\<lambda>rs. \<lparr>er_Prefix = PrefixFrom a (int (addr_BitLen a)), er_Gateway = pa_Gateway path,
                                      er_IfIndex = pa_IfIndex path, er_Metric = 1\<rparr> # rs)
                    (endpoint_routes underlay addresses))"

definition endpoint_of :: "string \<Rightarrow> 'k world \<Rightarrow> endpoint_state" where
  "endpoint_of role w = (case map_of (dv_Endpoints (ew_Driver w)) role of None \<Rightarrow> endpoint_zero | Some s \<Rightarrow> s)"

text \<open>\<^verbatim>\<open>endpointManager.RefreshSpecsWithError\<close> on the role's manager and the checks of its result.\<close>

definition refresh_endpoint ::
  "'k recovery_services \<Rightarrow> string \<Rightarrow> netstate_snapshot \<Rightarrow> endpoint_spec list \<Rightarrow> ('k world, endpoint_state) tx" where
  "refresh_endpoint sv role underlay configured w =
     (case RefreshSpecsWithError (ns_Epoch underlay) configured (map_option (\<lambda>f. f (host w)) (rv_Resolver sv))
             (endpoint_of role w) of
        (state, err) \<Rightarrow>
          (let w' = update_driver (\<lambda>d. d\<lparr>dv_Endpoints := gomap_put role state (dv_Endpoints d)\<rparr>) w
           in case err of
                Some e \<Rightarrow>
                  if errorsIs e ErrResolutionUnavailable
                  then (Inl (Wrapf ''%w: endpoint policy for %q: %v'' (Sentinel ErrEndpointResolutionPending)), w')
                  else (Inl (Wrapf ''refresh endpoint policy for %q: %w'' e), w')
              | None \<Rightarrow>
                  if en_State state \<noteq> ''ready'' then (Inl (Errorf ''endpoint policy for %q is %s: %s''), w')
                  else (Inr state, w')))"

definition driver_ApplyEndpoint :: "'k recovery_services \<Rightarrow> string \<Rightarrow> ('k world, unit) tx" where
  "driver_ApplyEndpoint sv role =
     (case rv_Routes sv of
        None \<Rightarrow> returnT ()
      | Some writer \<Rightarrow>
          bindT (driver_role role) (\<lambda>(r, product).
          bindT (requireT (mr_cfg r \<noteq> None) (Errorf ''role %q has no config'')) (\<lambda>_.
          bindT (getT currentUnderlay) (\<lambda>underlay.
          let policy = EffectiveEndpointPolicy (mr_cfg r)
          in bindT (requireT (ep_Zone policy \<noteq> [] \<and> ep_Priority policy \<noteq> 0)
                      (Errorf ''role %q has no endpoint policy zone/priority'')) (\<lambda>_.
             bindT (mapErrT (Wrapf ''resolve endpoint policy for %q: %w'')
                      (\<lambda>w. (ResolveTransportEndpoints (rv_ParseURL sv) (rv_ReadFile sv (host w))
                              (rv_RunCommand sv (host w)) (mr_cfg r), w))) (\<lambda>configured.
             bindT (refresh_endpoint sv role underlay configured) (\<lambda>state.
             bindT (fromSum (endpoint_routes underlay (en_Resolved state))) (\<lambda>routes.
             bindT (on_host (ew_ReconcileEndpointPolicy writer (policy\<lparr>ep_Routes := ep_Routes policy @ routes\<rparr>))) (\<lambda>_.
             putT (set_resources role state (rr_Publication product) (rr_Parking product) (rr_Validation product)))))))))))"

section \<open>Restoration\<close>

definition observeRegisteredRestoration :: "'k recovery_services \<Rightarrow> string \<Rightarrow> ('k world, unit) tx" where
  "observeRegisteredRestoration sv role =
     bindT (tryT (with_env sv (\<lambda>env. ObserveRestoration env role))) (\<lambda>result.
     bindT (putT (\<lambda>w. publish_parking role (ParkingState role (dv_Selected (ew_Driver w))) w)) (\<lambda>_.
     fromSum result))"

definition driver_ObserveRestoration :: "'k recovery_services \<Rightarrow> string \<Rightarrow> ('k world, unit) tx" where
  "driver_ObserveRestoration sv role =
     (if driver_managed sv role then observeRegisteredRestoration sv role
      else case rv_Executor sv of
             None \<Rightarrow> returnT ()
           | Some ex \<Rightarrow>
               bindT (\<lambda>w. case driver_role role w of
                             (Inl _, w) \<Rightarrow> (Inr (), w)
                           | (Inr (r, _), w) \<Rightarrow> captureOwnedDelta sv role r w) (\<lambda>_.
               bindT (on_parking (\<lambda>m. case ObserveRestorationFromKernel (rv_Executor sv) role m of
                                          (Inl e, m') \<Rightarrow> (Some e, m') | (Inr _, m') \<Rightarrow> (None, m'))) (\<lambda>_.
               bindT (getT (parking_of role)) (\<lambda>state.
               bindT (putT (publish_parking role state)) (\<lambda>_.
               bindT (writeOwnershipCheckpoint sv role) (\<lambda>_.
               requireT (\<not> pk_Active state) (Sentinel ErrRoutesStillParked)))))))"

section \<open>The managed steps\<close>

text \<open>\<^verbatim>\<open>FreezeSelected\<close> and \<^verbatim>\<open>UnfreezeSelected\<close> write the same publication with the current
  generation.\<close>

definition republish :: "string \<Rightarrow> u64 \<Rightarrow> 'k world \<Rightarrow> 'k world" where
  "republish role generation w =
     (let product = product_role role w
      in publish_publication role
           \<lparr>pu_Published = pu_Published (rr_Publication product), pu_Zone = pu_Zone (rr_Publication product),
            pu_Interface = pu_Interface (rr_Publication product), pu_Generation = generation,
            pu_Families = vr_Families (rr_Validation product)\<rparr> w)"

definition driver_FreezeSelected :: "'k recovery_services \<Rightarrow> string \<Rightarrow> ('k world, unit) tx" where
  "driver_FreezeSelected sv role =
     (if \<not> driver_managed sv role then returnT ()
      else
        bindT (on_selected (Freeze (rv_ctxErr sv) role)) (\<lambda>(owned, generation).
        putT (republish role generation \<circ>
              update_driver (\<lambda>d. d\<lparr>dv_FrozenSelected := gomap_put role owned (dv_FrozenSelected d)\<rparr>))))"

definition driver_WithdrawSelected :: "'k recovery_services \<Rightarrow> string \<Rightarrow> ('k world, unit) tx" where
  "driver_WithdrawSelected sv role =
     (if \<not> driver_managed sv role then returnT ()
      else with_env sv (\<lambda>env. WithdrawSelected env role))"

definition driver_RestoreSelected :: "'k recovery_services \<Rightarrow> string \<Rightarrow> ('k world, unit) tx" where
  "driver_RestoreSelected sv role =
     (if \<not> driver_managed sv role then returnT ()
      else
        bindT (getT (\<lambda>w. vr_Families (rr_Validation (product_role role w)))) (\<lambda>families.
        with_env sv (\<lambda>env. Restore env role (fr_Ready (rf_IPv4 families)) (fr_Ready (rf_IPv6 families)))))"

definition driver_UnfreezeSelected :: "'k recovery_services \<Rightarrow> string \<Rightarrow> ('k world, unit) tx" where
  "driver_UnfreezeSelected sv role =
     (if \<not> driver_managed sv role then returnT ()
      else
        bindT (on_selected (\<lambda>m. case Unfreeze role m of (g, m') \<Rightarrow> (Inr g, m'))) (\<lambda>generation.
        putT (republish role generation)))"

section \<open>Release\<close>

definition releaseManagedSelected :: "'k recovery_services \<Rightarrow> string \<Rightarrow> 'k world \<Rightarrow> goerror list \<times> 'k world" where
  "releaseManagedSelected sv role w =
     (case driver_role role w of
        (Inl e, w) \<Rightarrow> ([e], w)
      | (Inr (r, _), w) \<Rightarrow>
          (case (if role_zone r \<noteq> []
                 then with_env sv (\<lambda>env m. case FlushZone env (role_zone r) m of
                                              (Some e, m') \<Rightarrow> (Inl e, m') | (None, m') \<Rightarrow> (Inr (), m')) w
                 else (Inr (), w)) of
             (flushed, w1) \<Rightarrow>
               (case flushed of Inl e \<Rightarrow> [Wrapf ''flush registered routes for %q: %w'' e] | Inr _ \<Rightarrow> [],
                (let product = product_role role w1
                 in set_resources role (rr_Endpoint product) publication_zero
                      (ParkingState role (dv_Selected (ew_Driver w1))) (rr_Validation product) w1))))"

text \<open>A call whose error is collected under a format: the errors so far and the world.\<close>

definition collect_error ::
  "string \<Rightarrow> ('k world, unit) tx \<Rightarrow> goerror list \<times> 'k world \<Rightarrow> goerror list \<times> 'k world" where
  "collect_error fmt t s =
     (case s of (errs, w) \<Rightarrow> (case t w of (Inl e, w') \<Rightarrow> (errs @ [Wrapf fmt e], w') | (Inr _, w') \<Rightarrow> (errs, w')))"

text \<open>\<^verbatim>\<open>errors.Join\<close> of the collected errors, reduced to the first.\<close>

definition join_errors :: "string \<Rightarrow> goerror list \<Rightarrow> goerror + unit" where
  "join_errors fmt errs = (case errs of [] \<Rightarrow> Inr () | e # _ \<Rightarrow> Inl (Wrapf fmt e))"

definition release_policy ::
  "'k recovery_services \<Rightarrow> string \<Rightarrow> manager_role \<Rightarrow> role_runtime \<Rightarrow> goerror list \<times> 'k world \<Rightarrow> goerror list \<times> 'k world" where
  "release_policy sv role r product s =
     (if mr_cfg r = None then s
      else
        let policy = EffectiveEndpointPolicy (mr_cfg r);
            s1 = (case rv_Leshy sv of
                    None \<Rightarrow> s
                  | Some bridge \<Rightarrow>
                      if ep_Zone policy = [] then s
                      else collect_error ''withdraw publication for %q: %w''
                             (bindT (on_host (lb_Withdraw bridge (ep_Zone policy))) (\<lambda>_.
                              putT (set_resources role (rr_Endpoint product) publication_zero (rr_Parking product)
                                      (rr_Validation product)))) s)
        in case rv_Routes sv of
             None \<Rightarrow> s1
           | Some writer \<Rightarrow>
               if policy_Valid policy
               then collect_error ''remove endpoint policy for %q: %w'' (on_host (ew_RemoveEndpointPolicy writer policy)) s1
               else s1)"

definition driver_ReleaseResources :: "'k recovery_services \<Rightarrow> string \<Rightarrow> ('k world, unit) tx" where
  "driver_ReleaseResources sv role =
     bindT (driver_role role) (\<lambda>(r, product).
     if driver_managed sv role
     then (\<lambda>w. case releaseManagedSelected sv role w of
                  (errs, w') \<Rightarrow> (join_errors ''managed release for %q: %w'' errs, w'))
     else
       bindT (mapErrT (Wrapf ''load ownership checkpoint for %q: %w'') (restoreOwnershipCheckpoint sv role)) (\<lambda>_ w.
       case collect_error ''clear ownership checkpoint for %q: %w''
              (bindT (putT (put_baseline role [] \<circ> put_ownership (\<lambda>reg. ownership_Remove reg role))) (\<lambda>_.
               writeOwnershipCheckpoint sv role))
              (collect_error ''release parks for %q: %w'' (on_parking (parking_Clear (rv_Executor sv) role))
                (release_policy sv role r product ([], w))) of
         (errs, w') \<Rightarrow>
           (join_errors ''%w (before release: parks-active=%v parked-prefixes=%d owned-routes=%d publication=%v)'' errs, w')))"

section \<open>The driver\<close>

definition as_call :: "(string \<Rightarrow> ('k world, unit) tx) \<Rightarrow> 'k driver_state driver_call" where
  "as_call t role w = (case t role w of (Inl e, w') \<Rightarrow> (Some e, w') | (Inr _, w') \<Rightarrow> (None, w'))"

definition the_driver :: "'k recovery_services \<Rightarrow> 'k driver_state recovery_driver" where
  "the_driver sv =
     \<lparr>dr_ObserveRoutes = as_call (driver_ObserveRoutes sv), dr_Park = as_call (driver_Park sv),
      dr_Withdraw = as_call (driver_Withdraw sv), dr_Quiesce = as_call (driver_Quiesce sv),
      dr_ApplyEndpoint = as_call (driver_ApplyEndpoint sv), dr_Rebind = as_call (driver_Rebind sv),
      dr_StartTransport = as_call (driver_StartTransport sv), dr_Validate = as_call (driver_Validate sv),
      dr_Publish = as_call (driver_Publish sv), dr_ResyncLeshy = as_call (driver_ResyncLeshy sv),
      dr_ObserveRestoration = as_call (driver_ObserveRestoration sv),
      dr_FreezeSelected = as_call (driver_FreezeSelected sv),
      dr_WithdrawSelected = as_call (driver_WithdrawSelected sv),
      dr_RestoreSelected = as_call (driver_RestoreSelected sv),
      dr_UnfreezeSelected = as_call (driver_UnfreezeSelected sv),
      dr_ReleaseResources = as_call (driver_ReleaseResources sv)\<rparr>"

text \<open>The engine \<^verbatim>\<open>recoverRole\<close> builds: cancelled once the role is gone or disabled.\<close>

definition role_cancelled :: "string \<Rightarrow> 'k world \<Rightarrow> bool" where
  "role_cancelled name w =
     (case map_of (dv_Roles (ew_Driver w)) name of None \<Rightarrow> True | Some r \<Rightarrow> \<not> mr_enabled r)"

definition recovery_engine :: "'k recovery_services \<Rightarrow> string \<Rightarrow> 'k driver_state engine" where
  "recovery_engine sv name =
     \<lparr>eg_Configured = True, eg_Driver = the_driver sv, eg_Cancelled = Some (role_cancelled name),
      eg_ManagedSelectedRoutes = Some (driver_managed sv)\<rparr>"

end
