(* ===== verification/Driver_Facts.thy ===== *)
theory Driver_Facts
  imports Driver_Steps Manager_Invariants
begin

text \<open>
  What the steps of the recovery driver keep: a role frozen by \<^verbatim>\<open>FreezeSelected\<close> stays frozen
  through every step but \<^verbatim>\<open>UnfreezeSelected\<close>, the registry is written by the managed steps only,
  and the roles of the controller stay configured.
\<close>

section \<open>Frozen roles\<close>

definition frozen :: "string \<Rightarrow> 'k selected_manager \<Rightarrow> bool" where
  "frozen role m = rl_frozen (roleState role m)"

lemma roleState_updated [simp]:
  "roleState role (update_role role' f m) = (if role = role' then f (roleState role m) else roleState role m)"
  by (simp add: roleState_def update_role_def)

lemma roleState_cong: "sm_Roles m = sm_Roles m' \<Longrightarrow> roleState role m = roleState role m'"
  by (simp add: roleState_def)

lemma frozen_registry: "keepsT (frozen role) (on_registry t)"
  by (auto simp: keepsT_def on_registry_def frozen_def roleState_def split: prod.splits)

lemma frozen_checkpoint: "keepsT (frozen role) (writeCheckpoint env role' g)"
proof (rule keepsTI)
  fix m r m'
  assume "frozen role m" and "writeCheckpoint env role' g m = (r, m')"
  moreover from this(2) have "sm_Roles m' = sm_Roles m"
    by (auto simp: writeCheckpoint_def Let_def split: option.splits if_splits prod.splits sum.splits)
  ultimately show "frozen role m'" by (simp add: frozen_def roleState_def)
qed

interpretation iced: record_kept "frozen role" env role' prefix for role env role' prefix
proof unfold_locales
  fix m :: "'a selected_manager" and e
  show "frozen role m \<Longrightarrow> frozen role (mintVerificationToken role' e m)"
    by (auto simp: frozen_def roleState_def mintVerificationToken_def split: option.splits)
  show "frozen role m \<Longrightarrow> frozen role (clearVerificationForPrefix prefix m)"
    by (auto simp: frozen_def roleState_def clearVerificationForPrefix_def split: option.splits)
qed (simp_all add: frozen_registry frozen_checkpoint touch_role_def,
     auto simp: frozen_def roleState_def update_role_def)

lemma frozen_each:
  "(\<And>e. e \<in> set es \<Longrightarrow> keepsT (frozen role) (f e)) \<Longrightarrow> keepsT (frozen role) (eachT f es)"
  by (rule keepsT_each)

lemma frozen_park: "keepsT (frozen role) (ParkRegistered env role)"
  unfolding ParkRegistered_def by (auto intro!: iced.steps iced.park_one [OF refl])

lemma frozen_withdraw: "keepsT (frozen role) (WithdrawSelected env role)"
proof -
  have check: "keepsT (frozen role) (withdraw_check rm e)" for rm :: "'a route_manager" and e
  proof (rule keepsTI)
    fix m r m'
    assume m: "frozen role m" and run: "withdraw_check rm e m = (r, m')"
    have "keepsT (frozen role) (bindT (on_kernel t) (\<lambda>present. requireT present err))"
      for t :: "('a, bool) tx" and err
      by (auto intro!: iced.steps)
    from keepsTD [OF this m] m run show "frozen role m'"
      by (auto simp: withdraw_check_def split: option.splits if_splits)
  qed
  show ?thesis
    unfolding WithdrawSelected_def withdraw_remove_def withdraw_verify_def
    by (auto intro!: iced.steps check split: prod.splits)
qed

lemma frozen_restores: "keepsT (frozen role) (putT (update_role role (\<lambda>s. s\<lparr>rl_restores := rl_restores s + 1\<rparr>)))"
  by (simp add: keepsT_def frozen_def)

lemma frozen_restore: "keepsT (frozen role) (Restore env role v4 v6)"
  unfolding Restore_def by (auto intro!: iced.steps iced.restore_one [OF refl] frozen_restores)

lemma frozen_observe: "keepsT (frozen role) (ObserveRestoration env role)"
proof -
  have entry: "keepsT (frozen role) (observe_entry env rm role e)" for rm :: "'a route_manager" and e
  proof (rule keepsTI)
    fix m r m'
    assume m: "frozen role m" and run: "observe_entry env rm role e m = (r, m')"
    obtain x m1 where r1: "retireProvenPark env rm role e m = (x, m1)" by force
    obtain z m2 where
      r2: "resumeParkRetirement env rm role (sr_Prefix e) (the (sr_Park (read_record e m))) m = (z, m2)" by force
    from keepsTD [OF iced.unpark [OF refl] m r1] keepsTD [OF iced.park_resume m r2] m run r1 r2
    show "frozen role m'"
      by (auto simp: observe_entry_def ignoreNotProven_def
               split: option.splits selected_park_state.splits sum.splits if_splits)
  qed
  show ?thesis unfolding ObserveRestoration_def by (auto intro!: iced.steps entry)
qed

section \<open>Steps that leave the selected routes alone\<close>

definition selected :: "'k world \<Rightarrow> 'k selected_manager" where
  "selected w = dv_Selected (ew_Driver w)"

lemma selected_update [simp]:
  "selected (w\<lparr>ew_Controller := c\<rparr>) = selected w"
  "selected (set_resources role e p k v w) = selected w"
  "selected (publish_parking role k w) = selected w"
  "selected (publish_publication role p w) = selected w"
  "selected (republish role g w) = selected w"
  "selected (mark_loaded role w) = selected w"
  "selected (put_baseline role b w) = selected w"
  "selected (put_ownership f w) = selected w"
  "selected (update_driver (\<lambda>d. d\<lparr>dv_Endpoints := ends d\<rparr>) w) = selected w"
  "selected (update_driver (\<lambda>d. d\<lparr>dv_FrozenSelected := fs d\<rparr>) w) = selected w"
  "selected (update_driver (\<lambda>d. d\<lparr>dv_Roles := rs d, dv_Revision := n d\<rparr>) w) = selected w"
  by (simp_all add: selected_def set_resources_def publish_parking_def publish_publication_def republish_def
      mark_loaded_def put_baseline_def put_ownership_def update_driver_def Let_def)

text \<open>The operations of the controller keep the set of configured roles.\<close>

definition configured :: "controller \<Rightarrow> string set" where
  "configured c = dom (map_of (co_Roles c))"

lemma configured_put [simp]: "role \<in> configured c \<Longrightarrow> configured (put_role role r c) = configured c"
  by (auto simp: configured_def put_role_def bump_def)

lemma configured_mem: "map_of (co_Roles c) role = Some r \<Longrightarrow> role \<in> configured c"
  by (auto simp: configured_def)

lemma configured_ops [simp]:
  "configured (snd (UpdateRoleResources role e p k v c)) = configured c"
  "configured (snd (SetRecovery role rec st reason c)) = configured c"
  "configured (snd (BeginValidation role c)) = configured c"
  "configured (snd (CompleteValidation token result c)) = configured c"
  "configured (snd (CompleteValidationPending token result c)) = configured c"
  "configured (snd (ObserveToad role snapshot c)) = configured c"
  "configured (snd (SetRoleDesired role b c)) = configured c"
  "configured (snd (MarkRecovering role reason c)) = configured c"
  "configured (snd (BeginToadGeneration role c)) = configured c"
  "configured (snd (SetRetrySchedule role t c)) = configured c"
  by (auto simp: UpdateRoleResources_def SetRecovery_def BeginValidation_def CompleteValidation_def
      CompleteValidationPending_def ObserveToad_def SetRoleDesired_def MarkRecovering_def BeginToadGeneration_def
      SetRetrySchedule_def Let_def configured_mem split: option.splits)

lemma configured_results:
  "BeginValidation role c = (t, c') \<Longrightarrow> configured c' = configured c"
  "CompleteValidation token result c = (b, c') \<Longrightarrow> configured c' = configured c"
  "CompleteValidationPending token result c = (b, c') \<Longrightarrow> configured c' = configured c"
  "ObserveToad role snapshot c = (b, c') \<Longrightarrow> configured c' = configured c"
  using configured_ops by (metis snd_conv)+

definition roles_of :: "'k world \<Rightarrow> string set" where
  "roles_of w = configured (ew_Controller w)"

lemma roles_of_update [simp]:
  "roles_of (w\<lparr>ew_Controller := c\<rparr>) = configured c"
  "roles_of (set_resources role e p k v w) = roles_of w"
  "roles_of (publish_parking role k w) = roles_of w"
  "roles_of (publish_publication role p w) = roles_of w"
  "roles_of (republish role g w) = roles_of w"
  "roles_of (update_driver f w) = roles_of w"
  "roles_of (mark_loaded role w) = roles_of w"
  "roles_of (put_baseline role b w) = roles_of w"
  "roles_of (put_ownership g' w) = roles_of w"
  by (simp_all add: roles_of_def set_resources_def publish_parking_def publish_publication_def republish_def
      mark_loaded_def put_baseline_def put_ownership_def update_driver_def Let_def)

text \<open>What the core manager keeps of a role beside the state its Toad reported, and the part of the
  world that is the manager's own.\<close>

record role_core =
  rc_process :: "nat option"
  rc_enabled :: bool
  rc_recoveryInFlight :: bool
  rc_validationInFlight :: bool
  rc_startPending :: bool

definition core_of :: "manager_role \<Rightarrow> role_core" where
  "core_of r = \<lparr>rc_process = mr_process r, rc_enabled = mr_enabled r, rc_recoveryInFlight = mr_recoveryInFlight r,
     rc_validationInFlight = mr_validationInFlight r, rc_startPending = mr_startPending r\<rparr>"

definition managed :: "'k world \<Rightarrow> manager_book \<times> (string \<Rightarrow> role_core option) \<times> netstate_snapshot" where
  "managed w = (dv_Book (ew_Driver w), (\<lambda>name. map_option core_of (role_of name w)), currentUnderlay w)"

lemma managed_update [simp]:
  "managed (w\<lparr>ew_Controller := c\<rparr>) = managed w"
  "managed (set_resources role e p k v w) = managed w"
  "managed (publish_parking role k w) = managed w"
  "managed (publish_publication role p w) = managed w"
  "managed (republish role g w) = managed w"
  "managed (mark_loaded role w) = managed w"
  "managed (put_baseline role b w) = managed w"
  "managed (put_ownership f w) = managed w"
  "managed (update_driver (\<lambda>d. d\<lparr>dv_Endpoints := ends d\<rparr>) w) = managed w"
  "managed (update_driver (\<lambda>d. d\<lparr>dv_FrozenSelected := fs d\<rparr>) w) = managed w"
  "managed (update_driver (\<lambda>d. d\<lparr>dv_Selected := s d\<rparr>) w) = managed w"
  "managed (update_driver (\<lambda>d. d\<lparr>dv_Parking := ps d, dv_Selected := s d\<rparr>) w) = managed w"
  by (simp_all add: managed_def role_of_def currentUnderlay_def set_resources_def publish_parking_def
      publish_publication_def republish_def mark_loaded_def put_baseline_def put_ownership_def update_driver_def Let_def)

text \<open>
  A view of the world that reads the registry and the role states of the selected-route manager
  and the set of configured roles, and nothing else. The legacy steps, the Leshy steps and the
  transport steps keep every view.
\<close>

locale selected_view =
  fixes P :: "'k world \<Rightarrow> bool" and role :: string
  assumes same: "sm_Registry (selected w) = sm_Registry (selected w') \<Longrightarrow>
      sm_Roles (selected w) = sm_Roles (selected w') \<Longrightarrow> roles_of w = roles_of w' \<Longrightarrow>
      managed w = managed w' \<Longrightarrow> P w \<Longrightarrow> P w'"
    and touched: "P w \<Longrightarrow> P (update_driver (\<lambda>d. d\<lparr>dv_Selected := touch_role role (dv_Selected d)\<rparr>) w)"
begin

lemma put:
  "(\<And>w. selected (f w) = selected w) \<Longrightarrow> (\<And>w. roles_of (f w) = roles_of w) \<Longrightarrow> (\<And>w. managed (f w) = managed w) \<Longrightarrow>
     keepsT P (putT f)"
  using same by (metis keepsT_put)

lemma unchanged:
  assumes "\<And>w r w'. t w = (r, w') \<Longrightarrow>
      sm_Registry (selected w') = sm_Registry (selected w) \<and> sm_Roles (selected w') = sm_Roles (selected w) \<and>
      roles_of w' = roles_of w \<and> managed w' = managed w"
  shows "keepsT P t"
proof (rule keepsTI)
  fix w r w'
  assume "P w" and "t w = (r, w')"
  with assms [OF this(2)] show "P w'" using same [of w w'] by simp
qed

lemma host_step: "keepsT P (on_host t)"
  by (rule unchanged)
     (auto simp: on_host_def on_selected_def on_kernel_def update_driver_def selected_def roles_of_def
      managed_def role_of_def currentUnderlay_def split: prod.splits)

lemma parking_call: "keepsT P (on_parking f)"
  by (rule unchanged)
     (auto simp: on_parking_def put_parking_def update_driver_def selected_def roles_of_def
           managed_def role_of_def currentUnderlay_def split: prod.splits option.splits)

lemma touch_step: "keepsT P (on_selected (putT (touch_role role)))"
proof (rule keepsTI)
  fix w r w'
  assume "P w" and "on_selected (putT (touch_role role)) w = (r, w')"
  then show "P w'" using touched [of w] by (simp add: on_selected_def update_driver_def)
qed

lemma pure_step: "keepsT P (\<lambda>w. (f w, w))"
  by (simp add: keepsT_def)

lemma role_step: "keepsT P (driver_role name)"
  by (auto simp: keepsT_def driver_role_def split: option.splits)

lemma at: "(\<And>w. keepsT P (f w)) \<Longrightarrow> keepsT P (\<lambda>w. f w w)"
  by (simp add: keepsT_def)

lemma host_at: "keepsT P (\<lambda>w. on_host (f w) w)"
  by (rule at) (rule host_step)

lemmas view_steps = keepsT_bind keepsT_each keepsT_if keepsT_option keepsT_mapErr keepsT_return keepsT_throw
  keepsT_get keepsT_require keepsT_fromSum keepsT_try host_step parking_call touch_step pure_step role_step host_at

lemma path: "keepsT P (ownershipCheckpointPath name)"
  unfolding ownershipCheckpointPath_def by (auto intro!: view_steps)

lemma checkpoint: "keepsT P (writeOwnershipCheckpoint sv name)"
  unfolding writeOwnershipCheckpoint_def by (auto intro!: view_steps path split: prod.splits)

lemma adopt: "keepsT P (adopt_checkpoint sv name c)"
  unfolding adopt_checkpoint_def by (auto intro!: view_steps checkpoint put split: prod.splits)

lemma load_checkpoint: "keepsT P (restoreOwnershipCheckpoint sv name)"
proof (rule keepsTI)
  fix w r w'
  assume P: "P w" and run: "restoreOwnershipCheckpoint sv name w = (r, w')"
  have "keepsT P (bindT (ownershipCheckpointPath name) (\<lambda>path.
        bindT (getT (\<lambda>w. rv_ReadCheckpoint sv path (host w))) (\<lambda>file.
        case file of
          Inl e \<Rightarrow>
            if os_IsNotExist e then putT (mark_loaded name)
            else bindT (putT (mark_loaded name)) (\<lambda>_.
                 bindT (tryT (on_host (rv_Rename sv path (path @ ''.corrupt'')))) (\<lambda>_. returnT ()))
        | Inr c \<Rightarrow> adopt_checkpoint sv name c)))"
    by (auto intro!: view_steps path adopt put split: sum.splits)
  from keepsTD [OF this P] P run show "P w'"
    by (auto simp: restoreOwnershipCheckpoint_def split: if_splits)
qed

lemma baseline: "keepsT P (captureOwnershipBaseline sv name r)"
  unfolding captureOwnershipBaseline_def by (auto intro!: view_steps checkpoint put)

lemma delta: "keepsT P (captureOwnedDelta sv name r)"
  unfolding captureOwnedDelta_def Let_def by (auto intro!: view_steps checkpoint put)

lemma call_response: "keepsT P (callToadResponse sv name request)"
proof (rule keepsTI)
  fix w r w'
  assume P: "P w" and run: "callToadResponse sv name request w = (r, w')"
  then show "P w'" using keepsTD [OF host_step P]
    by (auto simp: callToadResponse_def split: option.splits if_splits)
qed

lemma call: "keepsT P (callToad sv name request)"
  unfolding callToad_def by (auto intro!: view_steps call_response)

lemma fail_keeps: "keepsT P (fail_validation name p token e)"
  by (rule unchanged)
     (auto simp: fail_validation_def completeValidationForProcess_def configured_results(2) roles_of_def split: prod.splits)

lemma settle_keeps: "keepsT P (settle_validation name p token result)"
  by (rule unchanged)
     (auto simp: settle_validation_def completeValidationForProcess_def completePendingValidationForProcess_def
           roles_of_def dest: configured_results(2,3) split: if_splits prod.splits bool.splits)

lemma snapshot_keeps:
  "keepsT P (\<lambda>w. case observeToadSnapshotForProcess name p s w of ((live, x), w') \<Rightarrow> (Inr live, w'))"
  by (rule unchanged)
     (auto simp: observeToadSnapshotForProcess_def Let_def roles_of_def update_driver_def selected_def managed_def
           role_of_def currentUnderlay_def core_of_def fun_eq_iff dest: configured_results(4)
           split: option.splits if_splits prod.splits)

lemma read_keeps: "keepsT P (read_validation name p token response)"
  unfolding read_validation_def by (auto intro!: view_steps fail_keeps settle_keeps snapshot_keeps)

lemma validate: "keepsT P (ValidateRole sv name)"
proof (rule keepsTI)
  fix w r w'
  assume P: "P w" and run: "ValidateRole sv name w = (r, w')"
  have step: "keepsT P (bindT (tryT (on_host t)) (\<lambda>reply. case reply of
      Inl e \<Rightarrow> fail_validation name p token (f e) | Inr response \<Rightarrow> read_validation name p token response))" for t p token f
    by (auto intro!: view_steps fail_keeps read_keeps split: sum.splits)
  have P': "P (w\<lparr>ew_Controller := c\<rparr>)" if "BeginValidation name (ew_Controller w) = (t, c)" for t c
    using same [OF _ _ _ _ P] configured_results(1) [OF that] by (simp add: roles_of_def)
  from run show "P w'"
    using P P' keepsTD [OF step P'] keepsTD [OF fail_keeps P']
    by (auto simp: ValidateRole_def Let_def split: prod.splits option.splits if_splits)
qed

lemma observe_routes: "keepsT P (driver_ObserveRoutes sv name)"
  unfolding driver_ObserveRoutes_def by (auto intro!: view_steps load_checkpoint)

lemma withdraw: "keepsT P (driver_Withdraw sv name)"
  unfolding driver_Withdraw_def by (auto intro!: view_steps put split: prod.splits)

lemma publish: "keepsT P (driver_Publish sv role)"
  unfolding driver_Publish_def by (auto intro!: view_steps baseline put split: prod.splits)

lemma resync: "keepsT P (driver_ResyncLeshy sv name)"
  unfolding driver_ResyncLeshy_def by (auto intro!: view_steps delta split: prod.splits)

lemma quiesce: "keepsT P (driver_Quiesce sv name)"
  unfolding driver_Quiesce_def by (rule call)

lemma rebind: "keepsT P (driver_Rebind sv name)"
  unfolding driver_Rebind_def by (auto intro!: view_steps call)

lemma start: "keepsT P (rv_restartRole sv name) \<Longrightarrow> keepsT P (driver_StartTransport sv name)"
  unfolding driver_StartTransport_def by (auto intro!: view_steps call_response)

lemma refresh: "keepsT P (refresh_endpoint sv name underlay specs)"
  by (rule unchanged) (auto simp: refresh_endpoint_def Let_def split: prod.splits option.splits if_splits)

lemma apply_endpoint: "keepsT P (driver_ApplyEndpoint sv name)"
  unfolding driver_ApplyEndpoint_def Let_def by (auto intro!: view_steps refresh put split: prod.splits)

lemma validate_step: "keepsT P (driver_Validate sv name)"
  unfolding driver_Validate_def by (rule validate)

lemmas driver_steps = observe_routes withdraw publish resync quiesce rebind start apply_endpoint validate_step

end

section \<open>The views of a managed recovery\<close>

definition unparked :: "string \<Rightarrow> 'k selected_manager \<Rightarrow> bool" where
  "unparked role m = list_all (\<lambda>e. sr_Park e = None) (registry_Snapshot role (sm_Registry m))"

interpretation frozen_world: selected_view "\<lambda>w. frozen role (selected w)" role' for role role'
  by unfold_locales
     (auto simp: frozen_def roleState_def selected_def update_driver_def touch_role_def update_role_def)

interpretation unparked_world: selected_view "\<lambda>w. unparked role (selected w)" role' for role role'
  by unfold_locales (auto simp: unparked_def selected_def update_driver_def touch_role_def)

interpretation configured_world: selected_view "\<lambda>w. name \<in> roles_of w" role' for name role'
  by unfold_locales auto

lemma selected_step:
  assumes "keepsT Q t"
  shows "keepsT (\<lambda>w. Q (selected w)) (on_selected t)"
proof (rule keepsTI)
  fix w r w'
  assume "Q (selected w)" and "on_selected t w = (r, w')"
  then obtain m where "t (selected w) = (r, m)" "w' = update_driver (\<lambda>d. d\<lparr>dv_Selected := m\<rparr>) w"
    by (auto simp: on_selected_def selected_def split: prod.splits)
  with keepsTD [OF assms \<open>Q (selected w)\<close>] show "Q (selected w')"
    by (simp add: selected_def update_driver_def)
qed

lemma with_env_eq: "with_env sv f = (\<lambda>w. on_selected (f (env_at sv w)) w)"
  by (rule ext) (simp add: with_env_def)

lemma env_step: "(\<And>env. keepsT Q (f env)) \<Longrightarrow> keepsT (\<lambda>w. Q (selected w)) (with_env sv f)"
  unfolding with_env_eq by (rule keeps_at) (rule selected_step)

lemma roles_step: "keepsT (\<lambda>w. name \<in> roles_of w) (on_selected t)"
  by (auto simp: keepsT_def on_selected_def split: prod.splits)

lemma roles_env_step: "keepsT (\<lambda>w. name \<in> roles_of w) (with_env sv f)"
  unfolding with_env_eq by (rule keeps_at) (rule roles_step)

lemma put_keeps: "(\<And>w. P (f w) = P w) \<Longrightarrow> keepsT P (putT f)"
  by (simp add: keepsT_def)

lemmas frozen_env = env_step [where Q = "frozen role" for role]

lemma frozen_driver_Park: "driver_managed sv role \<Longrightarrow> keepsT (\<lambda>w. frozen role (selected w)) (driver_Park sv role)"
  unfolding driver_Park_def parkRegistered_def
  by (simp only: if_True, intro keepsT_bind frozen_env frozen_park put_keeps) simp

lemma frozen_driver_Observe:
  "driver_managed sv role \<Longrightarrow> keepsT (\<lambda>w. frozen role (selected w)) (driver_ObserveRestoration sv role)"
  unfolding driver_ObserveRestoration_def observeRegisteredRestoration_def
  by (simp only: if_True, intro keepsT_bind keepsT_try frozen_env frozen_observe put_keeps keepsT_fromSum) simp

lemma frozen_driver_Withdraw: "keepsT (\<lambda>w. frozen role (selected w)) (driver_WithdrawSelected sv role)"
  unfolding driver_WithdrawSelected_def by (intro keepsT_if keepsT_return frozen_env frozen_withdraw)

lemma frozen_driver_Restore: "keepsT (\<lambda>w. frozen role (selected w)) (driver_RestoreSelected sv role)"
  unfolding driver_RestoreSelected_def
  by (intro keepsT_if keepsT_return keepsT_bind keepsT_get frozen_env frozen_restore)

lemmas frozen_steps = frozen_driver_Park frozen_driver_Observe frozen_driver_Withdraw frozen_driver_Restore

lemma freeze_freezes:
  "driver_managed sv role \<Longrightarrow> frozen role (selected (snd (driver_FreezeSelected sv role w)))"
proof -
  have at: "selected (update_driver (\<lambda>d. d\<lparr>dv_Selected := m\<rparr>) w) = m" for m and w :: "'a world"
    by (simp add: selected_def update_driver_def)
  assume "driver_managed sv role"
  then show ?thesis
    by (auto simp: driver_FreezeSelected_def bindT_apply on_selected_def Freeze_def Let_def at frozen_def)
qed

end
