(* ===== verification/Driver_Runs.thy ===== *)
theory Driver_Runs
  imports Driver_Facts
begin

text \<open>
  Whole recoveries of a managed role through the concrete driver: what a run that succeeds has
  established and what a run that fails leaves behind.
\<close>

section \<open>Runs of steps\<close>

lemma run_steps_append:
  assumes "run_steps work (xs @ ys) rec w = (None, rec', w')"
  obtains rec1 w1 where "run_steps work xs rec w = (None, rec1\<lparr>rs_Step := StepNone, rs_LastError := []\<rparr>, w1)"
    "run_steps work ys rec1 w1 = (None, rec', w')"
  using assms
proof (induction xs arbitrary: rec w thesis)
  case (Cons x xs)
  obtain r w1 where call: "work x w = (r, w1)" by force
  with Cons.prems(2) have "r = None" by (auto simp: Let_def split: option.splits)
  with Cons.prems(2) call
  have "run_steps work (xs @ ys) (rec\<lparr>rs_Step := x, rs_LastError := []\<rparr>) w1 = (None, rec', w')"
    by (simp add: Let_def)
  from Cons.IH [OF _ this] obtain rec1 w2 where
    "run_steps work xs (rec\<lparr>rs_Step := x, rs_LastError := []\<rparr>) w1 =
       (None, rec1\<lparr>rs_Step := StepNone, rs_LastError := []\<rparr>, w2)"
    "run_steps work ys rec1 w2 = (None, rec', w')" by blast
  with Cons.prems(1) [of rec1 w2] call \<open>r = None\<close> show ?case by (simp add: Let_def)
next
  case Nil
  from Nil.prems(1) [of rec w] Nil.prems(2) show ?case by simp
qed

lemma run_steps_success_keeps:
  assumes "run_steps work steps rec w = (None, rec', w')" and "I w"
    and "\<And>step w w'. step \<in> set steps \<Longrightarrow> I w \<Longrightarrow> work step w = (None, w') \<Longrightarrow> I w'"
  shows "I w'"
  using assms
proof (induction steps arbitrary: rec w)
  case (Cons x xs)
  obtain r w1 where call: "work x w = (r, w1)" by force
  with Cons.prems(1) have r: "r = None" by (auto simp: Let_def split: option.splits)
  with Cons.prems(2,3) call have "I w1" by auto
  from Cons.prems(1) call r
  have "run_steps work xs (rec\<lparr>rs_Step := x, rs_LastError := []\<rparr>) w1 = (None, rec', w')" by (simp add: Let_def)
  from Cons.IH [OF this \<open>I w1\<close>] Cons.prems(3) show ?case by (meson list.set_intros(2))
qed simp

text \<open>A run that fails keeps what every step but the last keeps, and the last keeps when it fails.\<close>

lemma run_steps_failure_keeps:
  assumes "run_steps work (xs @ [z]) rec w = (Some err, rec', w')" and "I w"
    and "\<And>step w r w'. step \<in> set xs \<Longrightarrow> I w \<Longrightarrow> work step w = (r, w') \<Longrightarrow> I w'"
    and "\<And>w e w'. I w \<Longrightarrow> work z w = (Some e, w') \<Longrightarrow> I w'"
  shows "I w'"
  using assms
proof (induction xs arbitrary: rec w)
  case Nil
  then show ?case by (auto simp: Let_def split: prod.splits option.splits)
next
  case (Cons x xs)
  obtain r w1 where call: "work x w = (r, w1)" by force
  with Cons.prems(2,3) have "I w1" by auto
  show ?case
  proof (cases r)
    case None
    with Cons.prems(1) call
    have "run_steps work (xs @ [z]) (rec\<lparr>rs_Step := x, rs_LastError := []\<rparr>) w1 = (Some err, rec', w')"
      by (simp add: Let_def)
    from Cons.IH [OF this \<open>I w1\<close>] Cons.prems(3,4) show ?thesis by (meson list.set_intros(2))
  next
    case (Some e)
    with Cons.prems(1) call \<open>I w1\<close> show ?thesis by (auto simp: Let_def)
  qed
qed

section \<open>The managed sequences\<close>

definition disruptive :: "recovery_action set" where
  "disruptive = {ActionRebind, ActionRestartTransport, ActionRestartToad}"

text \<open>The part of a managed sequence between the freeze and the observation of the restored
  routes.\<close>

fun managed_middle :: "recovery_action \<Rightarrow> recovery_step list" where
  "managed_middle ActionRebind =
     [RecoveryObserveRoutes, RecoveryPark, RecoveryWithdrawSelected, RecoveryWithdraw, RecoveryQuiesce,
      RecoveryApplyEndpoint, RecoveryRebind, RecoveryValidate, RecoveryRestoreSelected]"
| "managed_middle _ =
     [RecoveryObserveRoutes, RecoveryPark, RecoveryWithdrawSelected, RecoveryWithdraw, RecoveryQuiesce,
      RecoveryApplyEndpoint, RecoveryStartTransport, RecoveryValidate, RecoveryRestoreSelected]"

lemma managed_sequence:
  "a \<in> disruptive \<Longrightarrow> ManagedRecoverySequenceForAction a =
     RecoveryFreezeSelected # managed_middle a @
       [RecoveryObserveRestore, RecoveryPublish, RecoveryResyncLeshy, RecoveryUnfreezeSelected]"
  by (cases a) (auto simp: disruptive_def)

lemma managed_middle_steps:
  "step \<in> set (managed_middle a) \<Longrightarrow>
     step \<in> {RecoveryObserveRoutes, RecoveryPark, RecoveryWithdrawSelected, RecoveryWithdraw, RecoveryQuiesce,
       RecoveryApplyEndpoint, RecoveryRebind, RecoveryStartTransport, RecoveryValidate, RecoveryRestoreSelected}"
  by (cases a) auto

lemma managed_steps:
  "step \<in> set (managed_middle a) \<union> {RecoveryObserveRestore, RecoveryPublish, RecoveryResyncLeshy} \<Longrightarrow>
     step \<in> {RecoveryObserveRoutes, RecoveryPark, RecoveryWithdrawSelected, RecoveryWithdraw, RecoveryQuiesce,
       RecoveryApplyEndpoint, RecoveryRebind, RecoveryStartTransport, RecoveryValidate, RecoveryRestoreSelected,
       RecoveryObserveRestore, RecoveryPublish, RecoveryResyncLeshy}"
  using managed_middle_steps [of step a] by blast

section \<open>Steps of the concrete driver\<close>

definition driver_work :: "'k recovery_services \<Rightarrow> string \<Rightarrow> 'k world recovery_work" where
  "driver_work sv role = engine_work (recovery_engine sv role) role"

fun driver_tx :: "'k recovery_services \<Rightarrow> recovery_step \<Rightarrow> string \<Rightarrow> ('k world, unit) tx" where
  "driver_tx sv RecoveryObserveRoutes = driver_ObserveRoutes sv"
| "driver_tx sv RecoveryPark = driver_Park sv"
| "driver_tx sv RecoveryWithdrawSelected = driver_WithdrawSelected sv"
| "driver_tx sv RecoveryWithdraw = driver_Withdraw sv"
| "driver_tx sv RecoveryQuiesce = driver_Quiesce sv"
| "driver_tx sv RecoveryApplyEndpoint = driver_ApplyEndpoint sv"
| "driver_tx sv RecoveryRebind = driver_Rebind sv"
| "driver_tx sv RecoveryStartTransport = driver_StartTransport sv"
| "driver_tx sv RecoveryValidate = driver_Validate sv"
| "driver_tx sv RecoveryPublish = driver_Publish sv"
| "driver_tx sv RecoveryResyncLeshy = driver_ResyncLeshy sv"
| "driver_tx sv RecoveryObserveRestore = driver_ObserveRestoration sv"
| "driver_tx sv RecoveryFreezeSelected = driver_FreezeSelected sv"
| "driver_tx sv RecoveryRestoreSelected = driver_RestoreSelected sv"
| "driver_tx sv RecoveryUnfreezeSelected = driver_UnfreezeSelected sv"
| "driver_tx sv StepNone = (\<lambda>role. throwT (Errorf ''unknown recovery step %q''))"

lemma driver_step_tx: "driver_step (the_driver sv) step = as_call (driver_tx sv step)"
  by (cases step) (simp_all add: the_driver_def fun_eq_iff as_call_def [where t = "\<lambda>role. throwT e" for e])

lemma driver_work_eq:
  "driver_work sv role step w =
     (if role_cancelled role w then (Some (Sentinel ErrRecoveryCancelled), w) else as_call (driver_tx sv step) role w)"
  by (simp add: driver_work_def engine_work_def engine_cancelled_def recovery_engine_def driver_step_tx)

lemma work_cases:
  assumes "driver_work sv role step w = (r, w')"
  obtains (cancelled) "r = Some (Sentinel ErrRecoveryCancelled)" "w' = w"
  | (called) "as_call (driver_tx sv step) role w = (r, w')"
  using assms unfolding driver_work_eq by (cases "role_cancelled role w") simp_all

lemma as_call_keeps:
  assumes "keepsT P (t role)" and "P w" and "as_call t role w = (r, w')"
  shows "P w'"
proof -
  from assms(3) obtain x where "t role w = (x, w')" by (auto simp: as_call_def split: prod.splits sum.splits)
  from keepsTD [OF assms(1,2) this] show ?thesis .
qed

lemma as_call_value: "as_call t role w = (None, w') \<longleftrightarrow> (\<exists>u. t role w = (Inr u, w'))"
  by (auto simp: as_call_def split: prod.splits sum.splits)

lemma frozen_middle:
  assumes managed: "driver_managed sv role"
    and restart: "keepsT (\<lambda>w. frozen role (selected w)) (rv_restartRole sv role)"
    and step: "step \<in> set (managed_middle a) \<union> {RecoveryObserveRestore, RecoveryPublish, RecoveryResyncLeshy}"
    and w: "frozen role (selected w)" and run: "driver_work sv role step w = (r, w')"
  shows "frozen role (selected w')"
  using run
proof (cases rule: work_cases)
  case called
  have "keepsT (\<lambda>w. frozen role (selected w)) (driver_tx sv step role)"
    using managed_steps [OF step] frozen_steps(1,2) [OF managed] frozen_steps(3,4) [of role sv]
      frozen_world.driver_steps(1-6,8,9) [where role = role] frozen_world.start [OF restart]
    by (safe; simp only: driver_tx.simps)
  from as_call_keeps [where t = "driver_tx sv step", OF this w called] show ?thesis .
qed (use w in simp)

lemma unfreeze_never_fails: "as_call (driver_UnfreezeSelected sv) role w \<noteq> (Some e, w')"
  by (simp add: as_call_def driver_UnfreezeSelected_def bindT_apply on_selected_def split: prod.splits)

lemma failed_run_frozen:
  assumes managed: "driver_managed sv role" and a: "a \<in> disruptive"
    and restart: "keepsT (\<lambda>w. frozen role (selected w)) (rv_restartRole sv role)"
    and run: "run_steps (driver_work sv role) (ManagedRecoverySequenceForAction a) rec w = (Some err, rec', w')"
    and live: "\<not> errorsIs err ErrRecoveryCancelled"
  shows "frozen role (selected w')"
proof -
  let ?work = "driver_work sv role"
  let ?rest = "managed_middle a @ [RecoveryObserveRestore, RecoveryPublish, RecoveryResyncLeshy]"
  obtain r w1 where call: "?work RecoveryFreezeSelected w = (r, w1)" by force
  show ?thesis
  proof (cases "r = Some (Sentinel ErrRecoveryCancelled)")
    case True
    with run live call managed_sequence [OF a] show ?thesis by (auto simp: Let_def)
  next
    case False
    with call have "as_call (driver_FreezeSelected sv) role w = (r, w1)"
      by (cases rule: work_cases) simp_all
    then have w1: "frozen role (selected w1)"
      using freeze_freezes [OF managed, of w] by (auto simp: as_call_def split: prod.splits sum.splits)
    show ?thesis
    proof (cases r)
      case (Some e)
      with run call w1 managed_sequence [OF a] show ?thesis by (auto simp: Let_def)
    next
      case None
      with run call managed_sequence [OF a]
      obtain rec1 where "run_steps ?work (?rest @ [RecoveryUnfreezeSelected]) rec1 w1 = (Some err, rec', w')"
        by (auto simp: Let_def)
      then show ?thesis
      proof (rule run_steps_failure_keeps [where I = "\<lambda>w. frozen role (selected w)"])
        show "frozen role (selected w1)" by (rule w1)
        show "frozen role (selected v')" if "step \<in> set ?rest" "frozen role (selected v)" "?work step v = (r, v')" for step v r v'
          using frozen_middle [OF managed restart _ that(2,3)] that(1) by auto
        show "frozen role (selected v')" if "frozen role (selected v)" "?work RecoveryUnfreezeSelected v = (Some e, v')" for v e v'
          using that(2) by (cases rule: work_cases) (use that(1) unfreeze_never_fails [of sv role v e v'] in auto)
      qed
    qed
  qed
qed

section \<open>A run that succeeds\<close>

lemma ObserveRestoration_unparked: "ObserveRestoration env role m = (Inr u, m') \<Longrightarrow> unparked role m'"
  by (auto simp: ObserveRestoration_def unparked_def bindT_Inr_iff requireT_apply split: option.splits if_splits)

lemma observe_unparks:
  assumes "driver_managed sv role" and "driver_ObserveRestoration sv role w = (Inr u, w')"
  shows "unparked role (selected w')"
proof -
  from assms obtain r w1 where obs: "tryT (with_env sv (\<lambda>env. ObserveRestoration env role)) w = (Inr r, w1)"
      and w': "selected w' = selected w1" and r: "r = Inr ()"
    by (auto simp: driver_ObserveRestoration_def observeRegisteredRestoration_def bindT_Inr_iff fromSum_Inr_iff)
  from obs r obtain m where "ObserveRestoration (env_at sv w) role (selected w) = (Inr (), m)" "selected w1 = m"
    by (auto simp: tryT_def with_env_def on_selected_def selected_def update_driver_def split: prod.splits)
  with w' ObserveRestoration_unparked show ?thesis by auto
qed

text \<open>Resynchronizing Leshy leaves the controller alone.\<close>

lemma controller_update [simp]:
  "ew_Controller (update_driver f w) = ew_Controller w" "ew_Controller (put_ownership g w) = ew_Controller w"
  by (simp_all add: update_driver_def put_ownership_def)

lemma controller_host: "keepsT (\<lambda>w. ew_Controller w = c) (on_host t)"
  by (auto simp: keepsT_def on_host_def on_selected_def split: prod.splits)

lemma controller_role_step: "keepsT (\<lambda>w. ew_Controller w = c) (driver_role name)"
  by (auto simp: keepsT_def driver_role_def split: option.splits)

lemma controller_checkpoint: "keepsT (\<lambda>w. ew_Controller w = c) (writeOwnershipCheckpoint sv name)"
proof -
  have "keepsT (\<lambda>w. ew_Controller w = c) (\<lambda>w. on_host (f w) w)" for f :: "'a world \<Rightarrow> ('a, unit) tx"
    by (rule keeps_at) (rule controller_host)
  then show ?thesis
    unfolding writeOwnershipCheckpoint_def ownershipCheckpointPath_def
    by (auto intro!: keepsT_bind keepsT_option keepsT_if controller_role_step split: prod.splits)
qed

lemma controller_resync: "keepsT (\<lambda>w. ew_Controller w = c) (driver_ResyncLeshy sv name)"
proof -
  have pure: "keepsT (\<lambda>w. ew_Controller w = c) (\<lambda>w. (f w, w))" for f :: "'a world \<Rightarrow> goerror + kernel_state"
    by (simp add: keepsT_def)
  have "keepsT (\<lambda>w. ew_Controller w = c) (captureOwnedDelta sv name r)" for r
    unfolding captureOwnedDelta_def Let_def
    by (auto intro!: keepsT_option keepsT_bind keepsT_if keepsT_put pure controller_checkpoint)
  then show ?thesis
    unfolding driver_ResyncLeshy_def
    by (auto intro!: keepsT_option keepsT_bind controller_role_step controller_host split: prod.splits)
qed

lemma publication_put:
  "role \<in> roles_of w \<Longrightarrow> rr_Publication (product_role role (publish_publication role p w)) = p"
  by (auto simp: product_role_def publish_publication_def set_resources_def UpdateRoleResources_def controller_Role_def
      put_role_def bump_def Let_def roles_of_def configured_def split: option.splits)

lemma publish_published:
  assumes leshy: "rv_Leshy sv = Some bridge" and role: "role \<in> roles_of w"
    and run: "driver_Publish sv role w = (Inr u, w')"
  shows "pu_Published (rr_Publication (product_role role w'))"
proof -
  let ?I = "\<lambda>w. role \<in> roles_of w"
  have final: "tripleT ?I (putT (\<lambda>w. publish_publication role (p w) w))
      (\<lambda>_ w. pu_Published (rr_Publication (product_role role w))) (\<lambda>_. True)"
    if "\<And>w. pu_Published (p w)" for p :: "'a world \<Rightarrow> publication_state"
    by (rule triple_put) (simp add: publication_put that)
  have "tripleT ?I (driver_Publish sv role)
      (\<lambda>_ w. pu_Published (rr_Publication (product_role role w))) (\<lambda>_. True)"
    unfolding driver_Publish_def leshy option.case case_prod_beta
    by (intro triple_head final configured_world.view_steps configured_world.baseline) simp_all
  from triple_value [OF this role run] show ?thesis .
qed

text \<open>The roles of the controller stay configured through every step that succeeds.\<close>

lemma roles_freeze: "keepsT (\<lambda>w. name \<in> roles_of w) (driver_FreezeSelected sv role)"
  unfolding driver_FreezeSelected_def case_prod_beta
  by (intro keepsT_if keepsT_return keepsT_bind roles_step put_keeps) simp

lemma roles_park: "driver_managed sv role \<Longrightarrow> keepsT (\<lambda>w. name \<in> roles_of w) (driver_Park sv role)"
  unfolding driver_Park_def parkRegistered_def
  by (simp only: if_True, intro keepsT_bind roles_env_step put_keeps) simp

lemma roles_withdraw: "keepsT (\<lambda>w. name \<in> roles_of w) (driver_WithdrawSelected sv role)"
  unfolding driver_WithdrawSelected_def by (intro keepsT_if keepsT_return roles_env_step)

lemma roles_restore: "keepsT (\<lambda>w. name \<in> roles_of w) (driver_RestoreSelected sv role)"
  unfolding driver_RestoreSelected_def
  by (intro keepsT_if keepsT_return keepsT_bind keepsT_get roles_env_step)

lemma roles_observe:
  "driver_managed sv role \<Longrightarrow> keepsT (\<lambda>w. name \<in> roles_of w) (driver_ObserveRestoration sv role)"
  unfolding driver_ObserveRestoration_def observeRegisteredRestoration_def
  by (simp only: if_True, intro keepsT_bind keepsT_try roles_env_step put_keeps keepsT_fromSum) simp

lemma roles_start:
  "driver_StartTransport sv role w = (Inr u, w') \<Longrightarrow> name \<in> roles_of w \<Longrightarrow> name \<in> roles_of w'"
proof -
  assume run: "driver_StartTransport sv role w = (Inr u, w')" and w: "name \<in> roles_of w"
  have restart: "tripleT P (bindT t (\<lambda>_. throwT e)) Q (\<lambda>_. True)" for P Q e and t :: "('a world, unit) tx"
    by (auto simp: tripleT_def bindT_apply split: prod.splits sum.splits)
  have "tripleT (\<lambda>w. name \<in> roles_of w) (driver_StartTransport sv role) (\<lambda>_ w. name \<in> roles_of w) (\<lambda>_. True)"
    unfolding driver_StartTransport_def
    by (intro triple_head configured_world.view_steps configured_world.call_response)
       (auto intro!: triple_return triple_throw restart split: option.splits)
  from triple_value [OF this w run] show ?thesis .
qed

lemma roles_success:
  assumes managed: "driver_managed sv role"
    and step: "step \<in> set (managed_middle a) \<union> {RecoveryObserveRestore, RecoveryPublish, RecoveryResyncLeshy}"
    and w: "name \<in> roles_of w" and run: "driver_work sv role step w = (None, w')"
  shows "name \<in> roles_of w'"
  using run
proof (cases rule: work_cases)
  case called
  show ?thesis
  proof (cases "step = RecoveryStartTransport")
    case True
    with called roles_start w show ?thesis by (auto simp: as_call_value)
  next
    case False
    have "keepsT (\<lambda>w. name \<in> roles_of w) (driver_tx sv step role)"
      using managed_steps [OF step] False roles_park [OF managed] roles_observe [OF managed] roles_withdraw
        roles_restore configured_world.driver_steps(1-6,8,9)
      by (safe; simp only: driver_tx.simps)
    from as_call_keeps [where t = "driver_tx sv step", OF this w called] show ?thesis .
  qed
qed simp

lemma unfreeze_opens:
  assumes managed: "driver_managed sv role" and run: "driver_UnfreezeSelected sv role w = (Inr u, w')"
  shows "\<not> frozen role (selected w')"
    and "unparked role (selected w') = unparked role (selected w)"
    and "roles_of w' = roles_of w"
    and "role \<in> roles_of w \<Longrightarrow> rr_Publication (product_role role w') =
      (rr_Publication (product_role role w))\<lparr>pu_Generation := rl_routeGeneration (roleState role (selected w')),
         pu_Families := vr_Families (rr_Validation (product_role role w))\<rparr>"
proof -
  let ?m = "update_role role (\<lambda>s. s\<lparr>rl_frozen := False, rl_routeGeneration := rl_routeGeneration s + 1\<rparr>) (selected w)"
  let ?w = "update_driver (\<lambda>d. d\<lparr>dv_Selected := ?m\<rparr>) w"
  from managed run have w': "w' = republish role (rl_routeGeneration (roleState role ?m)) ?w"
    by (auto simp: driver_UnfreezeSelected_def bindT_Inr_iff on_selected_def Unfreeze_def Let_def selected_def)
  have sel: "selected ?w = ?m" by (simp add: selected_def update_driver_def)
  have prod: "product_role role ?w = product_role role w" by (simp add: product_role_def)
  show "\<not> frozen role (selected w')" by (simp add: w' sel frozen_def)
  show "unparked role (selected w') = unparked role (selected w)" by (simp add: w' sel unparked_def)
  show "roles_of w' = roles_of w" by (simp add: w')
  show "rr_Publication (product_role role w') =
      (rr_Publication (product_role role w))\<lparr>pu_Generation := rl_routeGeneration (roleState role (selected w')),
         pu_Families := vr_Families (rr_Validation (product_role role w))\<rparr>" if "role \<in> roles_of w"
    using that unfolding w' by (simp add: republish_def Let_def publication_put prod sel)
qed

text \<open>What a managed run that succeeds has established.\<close>

definition reopened :: "string \<Rightarrow> 'k world \<Rightarrow> bool" where
  "reopened role w \<longleftrightarrow>
     \<not> frozen role (selected w) \<and> unparked role (selected w) \<and> role \<in> roles_of w \<and>
     pu_Published (rr_Publication (product_role role w)) \<and>
     pu_Generation (rr_Publication (product_role role w)) = rl_routeGeneration (roleState role (selected w))"

lemma successful_run_reopens:
  assumes managed: "driver_managed sv role" and leshy: "rv_Leshy sv = Some bridge" and a: "a \<in> disruptive"
    and role: "role \<in> roles_of w"
    and run: "run_steps (driver_work sv role) (ManagedRecoverySequenceForAction a) rec w = (None, rec', w')"
  shows "reopened role w'"
proof -
  let ?work = "driver_work sv role"
  let ?head = "RecoveryFreezeSelected # managed_middle a"
  from run_steps_append [OF run [unfolded managed_sequence [OF a] append_Cons [symmetric]]]
  obtain rec1 w1 rec2 where head: "run_steps ?work ?head rec w = (None, rec2, w1)" and
    tail: "run_steps ?work [RecoveryObserveRestore, RecoveryPublish, RecoveryResyncLeshy, RecoveryUnfreezeSelected]
       rec1 w1 = (None, rec', w')" by blast
  have w1: "role \<in> roles_of w1"
  proof (rule run_steps_success_keeps [OF head, where I = "\<lambda>w. role \<in> roles_of w"])
    show "role \<in> roles_of v'" if "step \<in> set ?head" "role \<in> roles_of v" "?work step v = (None, v')" for step v v'
      using that(3)
    proof (cases rule: work_cases)
      case called
      show ?thesis
      proof (cases "step = RecoveryFreezeSelected")
        case True
        then have "keepsT (\<lambda>w. role \<in> roles_of w) (driver_tx sv step role)" by (simp add: roles_freeze)
        from as_call_keeps [where t = "driver_tx sv step", OF this that(2) called] show ?thesis .
      next
        case False
        with that roles_success [OF managed _ that(2,3)] show ?thesis by auto
      qed
    qed simp
  qed (rule role)
  from tail obtain w2 w3 w4 where
    steps: "?work RecoveryObserveRestore w1 = (None, w2)" "?work RecoveryPublish w2 = (None, w3)"
      "?work RecoveryResyncLeshy w3 = (None, w4)" "?work RecoveryUnfreezeSelected w4 = (None, w')"
    by (auto simp: Let_def split: prod.splits option.splits)
  have tx: "\<exists>u. driver_tx sv step role v = (Inr u, v')" if "?work step v = (None, v')" for step v v'
    using that by (cases rule: work_cases) (auto simp: as_call_value)
  from tx [OF steps(1)] tx [OF steps(2)] tx [OF steps(3)] tx [OF steps(4)] obtain u2 u3 u4 u5 where
    d: "driver_ObserveRestoration sv role w1 = (Inr u2, w2)" "driver_Publish sv role w2 = (Inr u3, w3)"
      "driver_ResyncLeshy sv role w3 = (Inr u4, w4)" "driver_UnfreezeSelected sv role w4 = (Inr u5, w')"
    by auto
  have parks: "unparked role (selected w4)"
    using observe_unparks [OF managed d(1)] keepsTD [OF unparked_world.publish _ d(2)]
      keepsTD [OF unparked_world.resync _ d(3)] by blast
  have roles: "role \<in> roles_of w2" "role \<in> roles_of w4"
    using keepsTD [OF roles_observe [OF managed] w1 d(1)] keepsTD [OF configured_world.publish _ d(2)]
      keepsTD [OF configured_world.resync _ d(3)] by blast+
  have "product_role role w4 = product_role role w3"
    using keepsTD [OF controller_resync refl d(3)] by (simp add: product_role_def)
  then have pub: "pu_Published (rr_Publication (product_role role w4))"
    using publish_published [OF leshy roles(1) d(2)] by simp
  show ?thesis
    using unfreeze_opens [OF managed d(4)] parks roles(2) pub by (simp add: reopened_def)
qed

end
