(* ===== verification/File_Store.thy ===== *)
theory File_Store
  imports Kikimora_Prelude Netip
begin

text \<open>
  Durable files: the atomic replacement of \<^verbatim>\<open>toad/internal/fsutil\<close>, the state writer of a Toad
  (\<^verbatim>\<open>toad/internal/state\<close>) and the desired-state store of the core
  (\<^verbatim>\<open>control/desired_state.go\<close>). The operating system is a record of calls on a host state; a
  disk with a page cache, on which calls may fail and power may be lost between any two of them,
  is one such host.
\<close>

section \<open>Paths\<close>

text \<open>\<^verbatim>\<open>path/filepath\<close> on a system whose separator is the slash.\<close>

definition clean_step :: "bool \<Rightarrow> string list \<Rightarrow> string \<Rightarrow> string list" where
  "clean_step rooted acc part =
     (if part = [] \<or> part = ''.'' then acc
      else if part = ''..'' then
        (if acc \<noteq> [] \<and> last acc \<noteq> ''..'' then butlast acc
         else if rooted then acc else acc @ [part])
      else acc @ [part])"

definition join_slash :: "string list \<Rightarrow> string" where
  "join_slash parts = (case parts of [] \<Rightarrow> [] | p # ps \<Rightarrow> p @ concat (map (\<lambda>q. CHR ''/'' # q) ps))"

definition filepath_Clean :: "string \<Rightarrow> string" where
  "filepath_Clean path =
     (if path = [] then ''.''
      else let rooted = hd path = CHR ''/'';
               body = join_slash (foldl (clean_step rooted) [] (split_on (CHR ''/'') path))
           in if rooted then CHR ''/'' # body else if body = [] then ''.'' else body)"

definition filepath_Dir :: "string \<Rightarrow> string" where
  "filepath_Dir path = filepath_Clean (rev (dropWhile (\<lambda>c. c \<noteq> CHR ''/'') (rev path)))"

definition filepath_Base :: "string \<Rightarrow> string" where
  "filepath_Base path =
     (if path = [] then ''.''
      else let stripped = rev (dropWhile (\<lambda>c. c = CHR ''/'') (rev path));
               base = rev (takeWhile (\<lambda>c. c \<noteq> CHR ''/'') (rev stripped))
           in if base = [] then ''/'' else base)"

definition filepath_Join :: "string \<Rightarrow> string \<Rightarrow> string" where
  "filepath_Join dir name =
     (if dir = [] then (if name = [] then [] else filepath_Clean name) else filepath_Clean (dir @ ''/'' @ name))"

definition filepath_IsAbs :: "string \<Rightarrow> bool" where
  "filepath_IsAbs path = has_prefix ''/'' path"

text \<open>\<^verbatim>\<open>strings.ToLower\<close> on ASCII text; Go's also lowers the other letters of Unicode.\<close>

definition strings_ToLower :: "string \<Rightarrow> string" where
  "strings_ToLower s =
     map (\<lambda>c. if CHR ''A'' \<le> c \<and> c \<le> CHR ''Z'' then char_of (of_char c + 32 :: nat) else c) s"

section \<open>The operating system\<close>

text \<open>An open temporary file is known by its name; a directory entry is its name and whether it is a
  directory. \<open>fs_GOOS\<close> is \<^verbatim>\<open>runtime.GOOS\<close>.\<close>

record 'k file_system =
  fs_MkdirAll :: "string \<Rightarrow> ('k, unit) tx"
  fs_CreateTemp :: "string \<Rightarrow> string \<Rightarrow> ('k, string) tx"
  fs_Chmod :: "string \<Rightarrow> int \<Rightarrow> ('k, unit) tx"
  fs_Write :: "string \<Rightarrow> string \<Rightarrow> ('k, unit) tx"
  fs_Sync :: "string \<Rightarrow> ('k, unit) tx"
  fs_Close :: "string \<Rightarrow> ('k, unit) tx"
  fs_Rename :: "string \<Rightarrow> string \<Rightarrow> ('k, unit) tx"
  fs_Remove :: "string \<Rightarrow> ('k, unit) tx"
  fs_Open :: "string \<Rightarrow> ('k, unit) tx"
  fs_SyncOpenDir :: "string \<Rightarrow> ('k, unit) tx"
  fs_ReadFile :: "string \<Rightarrow> ('k, string) tx"
  fs_WriteFile :: "string \<Rightarrow> string \<Rightarrow> ('k, unit) tx"
  fs_Stat :: "string \<Rightarrow> ('k, unit) tx"
  fs_ReadDir :: "string \<Rightarrow> ('k, (string \<times> bool) list) tx"
  fs_GOOS :: string
  fs_Now :: "'k \<Rightarrow> gotime"

text \<open>\<^verbatim>\<open>defer\<close> of a call whose error is dropped, and a call made only when another failed.\<close>

definition deferT :: "('k, unit) tx \<Rightarrow> ('k, 'a) tx \<Rightarrow> ('k, 'a) tx" where
  "deferT cleanup t k = (case t k of (r, k') \<Rightarrow> (r, snd (cleanup k')))"

definition onErrorT :: "('k, unit) tx \<Rightarrow> ('k, 'a) tx \<Rightarrow> ('k, 'a) tx" where
  "onErrorT cleanup t k =
     (case t k of (Inl e, k') \<Rightarrow> (Inl e, snd (cleanup k')) | (Inr a, k') \<Rightarrow> (Inr a, k'))"

section \<open>Atomic replacement\<close>

definition SyncDir :: "'k file_system \<Rightarrow> string \<Rightarrow> ('k, unit) tx" where
  "SyncDir fs path =
     bindT (fs_Open fs path) (\<lambda>_.
       deferT (fs_Close fs path)
         (if fs_GOOS fs = ''windows'' then tolerateT (\<lambda>_. True) (fs_SyncOpenDir fs path)
          else fs_SyncOpenDir fs path))"

text \<open>The stages of a replacement, which the callers name in their errors: the temporary file is
  created beside the target, given its mode, written, synced, closed and renamed over the target,
  and removed on the way out.\<close>

datatype write_stage = CreateStage | ChmodStage | WriteStage | SyncStage | CloseStage | RenameStage

definition fill_temp ::
  "'k file_system \<Rightarrow> (write_stage \<Rightarrow> goerror \<Rightarrow> goerror) \<Rightarrow> string \<Rightarrow> int \<Rightarrow> string \<Rightarrow> ('k, unit) tx" where
  "fill_temp fs wrap name mode data =
     bindT (onErrorT (fs_Close fs name) (mapErrT (wrap ChmodStage) (fs_Chmod fs name mode))) (\<lambda>_.
     bindT (onErrorT (fs_Close fs name) (mapErrT (wrap WriteStage) (fs_Write fs name data))) (\<lambda>_.
     bindT (onErrorT (fs_Close fs name) (mapErrT (wrap SyncStage) (fs_Sync fs name))) (\<lambda>_.
     mapErrT (wrap CloseStage) (fs_Close fs name))))"

definition replace_file ::
  "'k file_system \<Rightarrow> (write_stage \<Rightarrow> goerror \<Rightarrow> goerror) \<Rightarrow> string \<Rightarrow> string \<Rightarrow> string \<Rightarrow> int \<Rightarrow> string \<Rightarrow>
     ('k, unit) tx \<Rightarrow> ('k, unit) tx" where
  "replace_file fs wrap dir pattern path mode data rest =
     bindT (mapErrT (wrap CreateStage) (fs_CreateTemp fs dir pattern)) (\<lambda>name.
       deferT (fs_Remove fs name)
         (bindT (fill_temp fs wrap name mode data) (\<lambda>_.
          bindT (mapErrT (wrap RenameStage) (fs_Rename fs name path)) (\<lambda>_. rest))))"

definition WriteAtomicFile :: "'k file_system \<Rightarrow> string \<Rightarrow> string \<Rightarrow> int \<Rightarrow> ('k, unit) tx" where
  "WriteAtomicFile fs path data mode =
     (let dir = filepath_Dir path
      in bindT (fs_MkdirAll fs dir) (\<lambda>_.
         replace_file fs (\<lambda>_ e. e) dir (''.'' @ filepath_Base path @ ''-'') path mode data (SyncDir fs dir)))"

definition WriteAtomicJSON ::
  "'k file_system \<Rightarrow> ('a \<Rightarrow> goerror + string) \<Rightarrow> string \<Rightarrow> 'a \<Rightarrow> int \<Rightarrow> ('k, unit) tx" where
  "WriteAtomicJSON fs marshal path v mode =
     (case marshal v of
        Inl e \<Rightarrow> throwT (Wrapf ''marshal %s: %w'' e)
      | Inr b \<Rightarrow> WriteAtomicFile fs path (b @ [CHR 0x0A]) mode)"

definition RemoveDurable :: "'k file_system \<Rightarrow> string \<Rightarrow> ('k, unit) tx" where
  "RemoveDurable fs path k =
     (case fs_Remove fs path k of
        (Inl e, k') \<Rightarrow> if errorsIs e ErrNotExist then (Inr (), k') else (Inl e, k')
      | (Inr _, k') \<Rightarrow> SyncDir fs (filepath_Dir path) k')"

section \<open>The state file of a Toad\<close>

fun state_stage :: "write_stage \<Rightarrow> goerror \<Rightarrow> goerror" where
  "state_stage CreateStage e = Wrapf ''create temporary state file: %w'' e"
| "state_stage ChmodStage e = Wrapf ''chmod temporary state file: %w'' e"
| "state_stage WriteStage e = Wrapf ''write temporary state file: %w'' e"
| "state_stage SyncStage e = Wrapf ''sync temporary state file: %w'' e"
| "state_stage CloseStage e = Wrapf ''close temporary state file: %w'' e"
| "state_stage RenameStage e = Wrapf ''publish state: %w'' e"

text \<open>\<open>stamp\<close> puts the schema and the time into the snapshot, \<open>marshal\<close> is
  \<^verbatim>\<open>json.MarshalIndent\<close>.\<close>

definition Writer_Write ::
  "'k file_system \<Rightarrow> ('s \<Rightarrow> goerror + string) \<Rightarrow> (gotime \<Rightarrow> 's \<Rightarrow> 's) \<Rightarrow> string \<Rightarrow> 's \<Rightarrow> ('k, unit) tx" where
  "Writer_Write fs marshal stamp dir snapshot =
     (if dir = [] then throwT (Errorf ''state directory is empty'')
      else
        bindT (mapErrT (Wrapf ''create state directory: %w'') (fs_MkdirAll fs dir)) (\<lambda>_.
        bindT (getT (fs_Now fs)) (\<lambda>now.
        bindT (fromSum (map_sum (Wrapf ''marshal state: %w'') id (marshal (stamp now snapshot)))) (\<lambda>data.
        replace_file fs state_stage dir ''.state.json.tmp-'' (filepath_Join dir ''state.json'') 384
          (data @ [CHR 0x0A]) (mapErrT (Wrapf ''sync state directory: %w'') (SyncDir fs dir))))))"

section \<open>The desired state\<close>

record persisted_desired =
  pd_Schema :: int
  pd_ActiveProfile :: string
  pd_Roles :: "(string, bool) gomap"

record persisted_file = persisted_desired +
  pd_UpdatedAt :: gotime

definition DesiredStateSchema :: int where
  "DesiredStateSchema = 1"

definition fill_profile :: "'a persisted_desired_scheme \<Rightarrow> 'a persisted_desired_scheme" where
  "fill_profile s = (if pd_ActiveProfile s = [] then s\<lparr>pd_ActiveProfile := ''default''\<rparr> else s)"

definition desired_Load ::
  "'k file_system \<Rightarrow> (string \<Rightarrow> goerror + persisted_file) \<Rightarrow> goerror option \<Rightarrow> string \<Rightarrow> ('k, persisted_file) tx" where
  "desired_Load fs unmarshal ctxErr path =
     (case ctxErr of
        Some e \<Rightarrow> throwT e
      | None \<Rightarrow>
          if path = [] then throwT (Errorf ''desired-state path is empty'')
          else
            bindT (fs_ReadFile fs path) (\<lambda>data.
            bindT (fromSum (map_sum (Wrapf ''decode desired state: %w'') id (unmarshal data))) (\<lambda>s.
            if pd_Schema s \<noteq> DesiredStateSchema then throwT (Errorf ''unsupported desired-state schema %d'')
            else returnT (fill_profile s))))"

fun desired_stage :: "write_stage \<Rightarrow> goerror \<Rightarrow> goerror" where
  "desired_stage CreateStage e = Wrapf ''create temporary desired-state file: %w'' e"
| "desired_stage ChmodStage e = Wrapf ''chmod desired-state file: %w'' e"
| "desired_stage WriteStage e = Wrapf ''write desired state: %w'' e"
| "desired_stage SyncStage e = Wrapf ''sync desired-state file: %w'' e"
| "desired_stage CloseStage e = Wrapf ''close desired-state file: %w'' e"
| "desired_stage RenameStage e = Wrapf ''publish desired state: %w'' e"

definition stamped :: "gotime \<Rightarrow> 'a persisted_desired_scheme \<Rightarrow> persisted_file" where
  "stamped now s =
     fill_profile \<lparr>pd_Schema = DesiredStateSchema, pd_ActiveProfile = pd_ActiveProfile s, pd_Roles = pd_Roles s,
                   pd_UpdatedAt = now\<rparr>"

definition desired_Save ::
  "'k file_system \<Rightarrow> (persisted_file \<Rightarrow> goerror + string) \<Rightarrow> goerror option \<Rightarrow> string \<Rightarrow>
     'a persisted_desired_scheme \<Rightarrow> ('k, unit) tx" where
  "desired_Save fs marshal ctxErr path s =
     (case ctxErr of
        Some e \<Rightarrow> throwT e
      | None \<Rightarrow>
          let dir = filepath_Dir path
          in if path = [] then throwT (Errorf ''desired-state path is empty'')
             else if dir = ''.'' \<or> dir = [] then throwT (Errorf ''desired-state path must include a directory'')
             else
               bindT (mapErrT (Wrapf ''create desired-state directory: %w'') (fs_MkdirAll fs dir)) (\<lambda>_.
               bindT (getT (fs_Now fs)) (\<lambda>now.
               bindT (fromSum (map_sum (Wrapf ''encode desired state: %w'') id (marshal (stamped now s)))) (\<lambda>data.
               replace_file fs desired_stage dir ''.desired.json.tmp-'' path 384 (data @ [CHR 0x0A])
                 (bindT (mapErrT (Wrapf ''protect desired-state file: %w'') (fs_Chmod fs path 384)) (\<lambda>_.
                  mapErrT (Wrapf ''sync desired-state directory: %w'') (SyncDir fs dir)))))))"

definition IsDesiredStateMissing :: "goerror \<Rightarrow> bool" where
  "IsDesiredStateMissing e = errorsIs e ErrNotExist"

end
