(* ===== verification/Core_Manager.thy ===== *)
theory Core_Manager
  imports File_Store Driver_Steps Selected_Reconciler
begin

text \<open>
  The core manager (\<^verbatim>\<open>control/control.go\<close>): the desired state of the roles and its store,
  starting, stopping and replacing their processes, and the commands of the operator. The
  manager acts in the world of the recovery driver, which holds its roles, its underlay and its
  book. The launcher, the processes, the store, the configuration files and the clock are
  services. A goroutine is a task in the book; the theory \<^verbatim>\<open>Core_Supervision\<close> runs them.
  A call runs under the context \<open>ms_Ctx\<close> of its services: none for \<^verbatim>\<open>context.Background()\<close>, or that
  of a recovery, which a stop of the role cancels. A deadline that passes is one of the errors
  the services may give at any call.
\<close>

section \<open>Services and state\<close>

text \<open>\<open>ms_Save\<close> is given \<^verbatim>\<open>ctx.Err()\<close> beside the state. \<open>ms_EnsureUnmanaged\<close> gives whether the interface is present and still managed by somebody
  else, and an error.\<close>

record 'k manager_services =
  ms_Ctx :: "nat option"
  ms_Recovery :: "'k recovery_services"
  ms_Start :: "string \<Rightarrow> ('k, nat) tx"
  ms_Stop :: "nat \<Rightarrow> ('k, unit) tx"
  ms_Remove :: "string \<Rightarrow> ('k, unit) tx"
  ms_Save :: "(goerror option \<Rightarrow> persisted_desired \<Rightarrow> ('k, unit) tx) option"
  ms_Load :: "'k \<Rightarrow> string \<Rightarrow> goerror + role_config"
  ms_Stat :: "'k \<Rightarrow> string \<Rightarrow> goerror option"
  ms_EnsureUnmanaged :: "(string \<Rightarrow> 'k \<Rightarrow> (bool \<times> goerror option) \<times> 'k) option"
  ms_Now :: "'k \<Rightarrow> gotime"

definition book :: "'k world \<Rightarrow> manager_book" where
  "book w = dv_Book (ew_Driver w)"

text \<open>\<^verbatim>\<open>ctx.Err()\<close>, and the same services under \<^verbatim>\<open>context.Background()\<close>.\<close>

definition ctx_err :: "'k manager_services \<Rightarrow> 'k world \<Rightarrow> goerror option" where
  "ctx_err ms w =
     (case ms_Ctx ms of
        None \<Rightarrow> None
      | Some c \<Rightarrow> if c \<in> set (bk_cancelled (book w)) then Some (Errorf ''context canceled'') else None)"

definition background :: "'k manager_services \<Rightarrow> 'k manager_services" where
  "background ms = ms\<lparr>ms_Ctx := None\<rparr>"

definition update_book :: "(manager_book \<Rightarrow> manager_book) \<Rightarrow> 'k world \<Rightarrow> 'k world" where
  "update_book f = update_driver (\<lambda>d. d\<lparr>dv_Book := f (dv_Book d)\<rparr>)"

definition set_role :: "string \<Rightarrow> (manager_role \<Rightarrow> manager_role) \<Rightarrow> 'k world \<Rightarrow> 'k world" where
  "set_role name f w =
     (case role_of name w of
        None \<Rightarrow> w
      | Some r \<Rightarrow> update_driver (\<lambda>d. d\<lparr>dv_Roles := gomap_put name (f r) (dv_Roles d)\<rparr>) w)"

definition bumpLocked :: "'k world \<Rightarrow> 'k world" where
  "bumpLocked = update_driver (\<lambda>d. d\<lparr>dv_Revision := dv_Revision d + 1\<rparr>)"

definition on_product :: "(controller \<Rightarrow> 'a \<times> controller) \<Rightarrow> 'k world \<Rightarrow> 'k world" where
  "on_product f w = w\<lparr>ew_Controller := snd (f (ew_Controller w))\<rparr>"

text \<open>\<^verbatim>\<open>go task\<close>\<close>

definition spawn :: "manager_task \<Rightarrow> 'k world \<Rightarrow> 'k world" where
  "spawn t = update_book (\<lambda>b. b\<lparr>bk_tasks := bk_tasks b @ [t]\<rparr>)"

definition unknown_toad :: goerror where
  "unknown_toad = Errorf ''unknown Toad %q''"

definition namesLocked :: "'k world \<Rightarrow> string list" where
  "namesLocked w = sort (map fst (dv_Roles (ew_Driver w)))"

definition role_state_dir :: "manager_role \<Rightarrow> string" where
  "role_state_dir r = (case mr_cfg r of None \<Rightarrow> [] | Some c \<Rightarrow> cf_StateDir c)"

definition role_profiles_of :: "manager_role \<Rightarrow> string list" where
  "role_profiles_of r = (case mr_cfg r of None \<Rightarrow> [] | Some c \<Rightarrow> cf_Profiles c)"

text \<open>\<^verbatim>\<open>errors.Join\<close>, reduced to the first error, and a loop that goes on after an error.\<close>

definition join_results :: "goerror + unit \<Rightarrow> goerror + unit \<Rightarrow> goerror + unit" where
  "join_results a b = (case a of Inl e \<Rightarrow> Inl e | Inr _ \<Rightarrow> b)"

fun collectT :: "('a \<Rightarrow> ('s, unit) tx) \<Rightarrow> 'a list \<Rightarrow> ('s, unit) tx" where
  "collectT f [] s = (Inr (), s)"
| "collectT f (x # xs) s =
     (case f x s of (r, s1) \<Rightarrow> (case collectT f xs s1 of (r', s2) \<Rightarrow> (join_results r r', s2)))"

section \<open>Profiles\<close>

definition insert_profile :: "string \<Rightarrow> string list \<Rightarrow> (string, string list) gomap \<Rightarrow> (string, string list) gomap" where
  "insert_profile p names m = gomap_put p ((case map_of m p of None \<Rightarrow> [] | Some ns \<Rightarrow> ns) @ names) m"

definition declare_profiles :: "string list \<Rightarrow> (string, string list) gomap \<Rightarrow> (string, string list) gomap" where
  "declare_profiles ps m =
     foldl (\<lambda>m p. if p = [] \<or> p = ''default'' \<or> map_of m p \<noteq> None then m else gomap_put p [] m) m ps"

definition rebuildProfileMapLocked :: "'k world \<Rightarrow> 'k world" where
  "rebuildProfileMapLocked w =
     (let m = declare_profiles (bk_declaredProfiles (book w)) [(''default'', namesLocked w)];
          m = foldl (\<lambda>m (name, r). foldl (\<lambda>m p. insert_profile p [name] m) m (role_profiles_of r)) m
                (dv_Roles (ew_Driver w))
      in update_book (\<lambda>b. b\<lparr>bk_profileToRoles := gomap_map (\<lambda>_. sort) m\<rparr>) w)"

definition profiles_of_manager :: "'k world \<Rightarrow> string list" where
  "profiles_of_manager w = sort (map fst (bk_profileToRoles (book w)))"

section \<open>The desired state\<close>

definition desiredStateLocked :: "'k world \<Rightarrow> persisted_desired" where
  "desiredStateLocked w =
     \<lparr>pd_Schema = 1, pd_ActiveProfile = bk_activeProfile (book w),
      pd_Roles = gomap_map (\<lambda>_. mr_enabled) (dv_Roles (ew_Driver w))\<rparr>"

definition set_status :: "string \<Rightarrow> 'k world \<Rightarrow> 'k world" where
  "set_status status = update_book (\<lambda>b. b\<lparr>bk_desiredStateStatus := status\<rparr>)"

definition persistDesiredLocked :: "'k manager_services \<Rightarrow> ('k world, unit) tx" where
  "persistDesiredLocked ms w =
     (case ms_Save ms of
        None \<Rightarrow> (Inr (), w)
      | Some save \<Rightarrow>
          (case on_host (save (ctx_err ms w) (desiredStateLocked w)) w of
             (Inl e, w') \<Rightarrow> (Inl e, set_status (''save failed: '' @ error_text e) w')
           | (Inr _, w') \<Rightarrow> (Inr (), set_status ''persisted'' w')))"

section \<open>Credentials\<close>

definition credentialErrorFor :: "'k manager_services \<Rightarrow> 'k \<Rightarrow> role_config option \<Rightarrow> string \<Rightarrow> goerror option" where
  "credentialErrorFor ms k cfg path =
     (case (if cfg = None \<and> path \<noteq> []
            then map_sum (Wrapf ''role configuration %s is not readable: %w'') Some (ms_Load ms k path)
            else Inr cfg) of
        Inl e \<Rightarrow> Some e
      | Inr None \<Rightarrow> None
      | Inr (Some c) \<Rightarrow> CredentialError (ms_Stat ms k) c)"

definition roleCredentialError :: "'k manager_services \<Rightarrow> string \<Rightarrow> 'k world \<Rightarrow> goerror option" where
  "roleCredentialError ms name w =
     (case role_of name w of
        None \<Rightarrow> None
      | Some r \<Rightarrow> credentialErrorFor ms (host w) (mr_cfg r) (mr_configPath r))"

definition failByConfiguration :: "string \<Rightarrow> goerror \<Rightarrow> 'k world \<Rightarrow> 'k world" where
  "failByConfiguration name e w =
     on_product (SetRoleDesired name False)
       (bumpLocked (set_role name (\<lambda>r. r\<lparr>mr_enabled := False, mr_lastError := error_text e\<rparr>) w))"

section \<open>Starting a process\<close>

definition isTransientStartPrerequisite :: "goerror \<Rightarrow> bool" where
  "isTransientStartPrerequisite e =
     (errorsIs e ErrUnderlayPathUnavailable \<or> errorsIs e ErrEndpointResolutionPending)"

definition scheduleStartRetry :: "'k manager_services \<Rightarrow> string \<Rightarrow> 'k world \<Rightarrow> 'k world" where
  "scheduleStartRetry ms name w =
     (case role_of name w of
        None \<Rightarrow> w
      | Some r \<Rightarrow>
          if \<not> mr_enabled r \<or> mr_process r \<noteq> None \<or> \<not> mr_startPending r \<or>
             flag (bk_startRetryPending (book w)) name
          then w
          else
            (case next_delay (bk_startBackoffs (book w)) name of
               (delay, backoffs) \<Rightarrow>
                 spawn (StartRetryTask name)
                   (on_product (SetRetrySchedule name (ms_Now ms (host w) + delay))
                     (update_book (\<lambda>b. b\<lparr>bk_startBackoffs := backoffs,
                        bk_startRetryPending := gomap_put name True (bk_startRetryPending b)\<rparr>) w))))"

definition defer_start :: "string \<Rightarrow> string \<Rightarrow> 'k world \<Rightarrow> 'k world" where
  "defer_start name reason w =
     (case role_of name w of
        None \<Rightarrow> w
      | Some r \<Rightarrow>
          if mr_enabled r \<and> mr_process r = None
          then bumpLocked (set_role name (\<lambda>r. r\<lparr>mr_startPending := True, mr_startReason := reason, mr_lastError := []\<rparr>) w)
          else w)"

definition start_prepared :: "string \<Rightarrow> 'k world \<Rightarrow> 'k world" where
  "start_prepared name w =
     (if role_of name w = None then w
      else bumpLocked (update_book (\<lambda>b. b\<lparr>bk_startBackoffs := gomap_del name (bk_startBackoffs b),
                                         bk_startRetryPending := gomap_del name (bk_startRetryPending b)\<rparr>)
             (set_role name (\<lambda>r. r\<lparr>mr_startPending := False, mr_startReason := []\<rparr>) w)))"

definition prepareRoleStart :: "'k manager_services \<Rightarrow> string \<Rightarrow> ('k world, bool) tx" where
  "prepareRoleStart ms name w =
     (case role_of name w of
        None \<Rightarrow> (Inl unknown_toad, w)
      | Some r \<Rightarrow>
          if \<not> mr_enabled r \<or> mr_process r \<noteq> None then (Inr False, w)
          else if \<not> bk_autoRecovery (book w) \<or> \<not> bk_hasDriver (book w) then (Inr True, w)
          else
            (case driver_ApplyEndpoint (ms_Recovery ms) name w of
               (Inl e, w1) \<Rightarrow>
                 if \<not> isTransientStartPrerequisite e
                 then (Inl (Wrapf ''prepare endpoint policy for Toad %q: %w'' e), w1)
                 else
                   (let reason = ''waiting for endpoint route before transport start: '' @ error_text e
                    in (Inr False, scheduleStartRetry ms name
                          (on_product (MarkRecovering name reason) (defer_start name reason w1))))
             | (Inr _, w1) \<Rightarrow> (Inr True, start_prepared name w1)))"

definition begin_launch :: "string \<Rightarrow> 'k world \<Rightarrow> 'k world" where
  "begin_launch name w =
     update_book (\<lambda>b. b\<lparr>bk_restartHandoffPending := gomap_del name (bk_restartHandoffPending b)\<rparr>)
       (set_role name (\<lambda>r. r\<lparr>mr_stateValid := False, mr_validationPendingEpoch := 0, mr_startPending := False,
                            mr_startReason := []\<rparr>)
         (on_product (BeginToadGeneration name) w))"

definition adopt_process :: "'k manager_services \<Rightarrow> string \<Rightarrow> nat \<Rightarrow> ('k world, unit) tx" where
  "adopt_process ms name p w =
     (case role_of name w of
        None \<Rightarrow> (Inr (), w)
      | Some r \<Rightarrow>
          if mr_process r \<noteq> None \<or> \<not> mr_enabled r then (Inr (), snd (on_host (ms_Stop ms p) w))
          else
            let socket = role_state_dir r @ ''/control.sock''
            in (Inr (), spawn (SubscribeTask name p socket) (spawn (WaitTask name p)
                  (on_product (SetRetrySchedule name 0) (bumpLocked
                    (set_role name (\<lambda>r. r\<lparr>mr_process := Some p, mr_controlSocket := socket, mr_lastError := []\<rparr>) w))))))"

definition launch_role :: "'k manager_services \<Rightarrow> string \<Rightarrow> ('k world, unit) tx" where
  "launch_role ms name w =
     (case role_of name w of
        None \<Rightarrow> (Inl unknown_toad, w)
      | Some r \<Rightarrow>
          if \<not> mr_enabled r \<or> mr_process r \<noteq> None then (Inr (), w)
          else
            (case on_host (ms_Start ms (mr_configPath r))
                    (snd (on_host (ms_Remove ms (role_state_dir r @ ''/state.json'')) (begin_launch name w))) of
               (Inl e, w1) \<Rightarrow>
                 (Inl (Wrapf ''start Toad %q: %w'' e),
                  if role_of name w1 = None then w1
                  else bumpLocked (set_role name (\<lambda>r. r\<lparr>mr_lastError := error_text e\<rparr>) w1))
             | (Inr p, w1) \<Rightarrow> adopt_process ms name p w1))"

definition startRoleProcess :: "'k manager_services \<Rightarrow> string \<Rightarrow> ('k world, unit) tx" where
  "startRoleProcess ms name w =
     (case roleCredentialError ms name w of
        Some e \<Rightarrow> (Inl e, failByConfiguration name e w)
      | None \<Rightarrow>
          bindT (prepareRoleStart ms name) (\<lambda>ready. if ready then launch_role ms name else returnT ()) w)"

definition retryPendingStarts :: "'k manager_services \<Rightarrow> 'k world \<Rightarrow> 'k world" where
  "retryPendingStarts ms w =
     foldl (\<lambda>w name. snd (startRoleProcess ms name w)) w
       (map fst (filter (\<lambda>(name, r). mr_enabled r \<and> mr_process r = None \<and> mr_startPending r)
                   (dv_Roles (ew_Driver w))))"

section \<open>Stopping and releasing\<close>

definition stopToad :: "'k manager_services \<Rightarrow> string \<Rightarrow> 'k world \<Rightarrow> 'k world" where
  "stopToad ms socket w =
     (if socket = [] then w else snd (on_host (rv_Call (ms_Recovery ms) socket (request_of ''Stop'' None)) w))"

text \<open>The critical section of a stop, which also cancels the recovery in flight.\<close>

definition stop_section :: "string \<Rightarrow> 'k world \<Rightarrow> 'k world" where
  "stop_section name w =
     bumpLocked (update_book (\<lambda>b. (cancel_recovery name b)\<lparr>
         bk_restartHandoffPending := gomap_del name (bk_restartHandoffPending b),
         bk_recoveryRetryPending := gomap_del name (bk_recoveryRetryPending b),
         bk_recoveryBackoffs := gomap_del name (bk_recoveryBackoffs b),
         bk_failureStreak := gomap_del name (bk_failureStreak b)\<rparr>)
       (set_role name (\<lambda>r. r\<lparr>mr_process := None, mr_validationPendingEpoch := 0\<rparr>) w))"

definition stopRoleProcess :: "'k manager_services \<Rightarrow> string \<Rightarrow> ('k world, unit) tx" where
  "stopRoleProcess ms name w =
     (case role_of name w of
        None \<Rightarrow> (Inl unknown_toad, w)
      | Some r \<Rightarrow>
          (case mr_process r of
             None \<Rightarrow> (Inr (), stop_section name w)
           | Some p \<Rightarrow>
               mapErrT (Wrapf ''stop Toad %q: %w'') (on_host (ms_Stop ms p))
                 (stopToad ms (mr_controlSocket r) (stop_section name w))))"

definition set_last_error :: "string \<Rightarrow> string \<Rightarrow> 'k world \<Rightarrow> 'k world" where
  "set_last_error name text w =
     (if role_of name w = None then w else bumpLocked (set_role name (\<lambda>r. r\<lparr>mr_lastError := text\<rparr>) w))"

definition releaseRoleResources :: "'k manager_services \<Rightarrow> string \<Rightarrow> bool \<Rightarrow> ('k world, unit) tx" where
  "releaseRoleResources ms name skipIfEnabled w =
     (if \<not> bk_hasDriver (book w) \<or>
         (skipIfEnabled \<and> (case role_of name w of None \<Rightarrow> False | Some r \<Rightarrow> mr_enabled r)) then (Inr (), w)
      else
        (case driver_ReleaseResources (ms_Recovery ms) name w of
           (Inl e, w1) \<Rightarrow> (Inl e, set_last_error name (''cleanup incomplete: '' @ error_text e) w1)
         | (Inr _, w1) \<Rightarrow>
             (Inr (), case role_of name w1 of
                        None \<Rightarrow> w1
                      | Some r \<Rightarrow> if mr_lastError r \<noteq> [] then set_last_error name [] w1 else w1)))"

text \<open>\<^verbatim>\<open>errors.Join(stopErr, releaseErr)\<close> of a departing role.\<close>

definition stop_and_release :: "'k manager_services \<Rightarrow> string \<Rightarrow> ('k world, unit) tx" where
  "stop_and_release ms name w =
     (case stopRoleProcess ms name w of
        (stopErr, w1) \<Rightarrow>
          (case releaseRoleResources ms name True w1 of (releaseErr, w2) \<Rightarrow> (join_results stopErr releaseErr, w2)))"

section \<open>Commands\<close>

definition ConnectRole :: "'k manager_services \<Rightarrow> string \<Rightarrow> ('k world, unit) tx" where
  "ConnectRole ms name w =
     (case roleCredentialError ms name w of
        Some e \<Rightarrow> (Inl e, failByConfiguration name e w)
      | None \<Rightarrow>
          (case role_of name w of
             None \<Rightarrow> (Inl unknown_toad, w)
           | Some r \<Rightarrow>
               let w1 = on_product (SetRoleDesired name True)
                          (set_role name (\<lambda>r. r\<lparr>mr_operation := (if mr_enabled r then mr_operation r else mr_operation r + 1),
                                               mr_enabled := True\<rparr>) w)
               in case persistDesiredLocked ms w1 of
                    (Inl e, w2) \<Rightarrow>
                      (Inl (Wrapf ''persist desired state: %w'' e),
                       on_product (SetRoleDesired name (mr_enabled r))
                         (set_role name (\<lambda>r'. r'\<lparr>mr_enabled := mr_enabled r, mr_operation := mr_operation r\<rparr>) w2))
                  | (Inr _, w2) \<Rightarrow> startRoleProcess ms name (bumpLocked w2)))"

text \<open>The product side of a disconnect, which \<^verbatim>\<open>DisconnectAll\<close> shares.\<close>

definition product_disconnect :: "string \<Rightarrow> 'k world \<Rightarrow> 'k world" where
  "product_disconnect name w =
     on_product (SetRetrySchedule name 0)
       (on_product (SetRecovery name recovery_zero RoleStopped ''disconnected'')
         (on_product (SetRoleDesired name False) w))"

definition switch_off :: "string \<Rightarrow> 'k world \<Rightarrow> 'k world" where
  "switch_off name w =
     product_disconnect name
       (update_book (\<lambda>b. b\<lparr>bk_startRetryPending := gomap_del name (bk_startRetryPending b),
                          bk_startBackoffs := gomap_del name (bk_startBackoffs b)\<rparr>)
         (set_role name (\<lambda>r. r\<lparr>mr_operation := (if mr_enabled r then mr_operation r + 1 else mr_operation r),
                              mr_enabled := False, mr_startPending := False, mr_startReason := []\<rparr>) w))"

text \<open>The critical section of \<^verbatim>\<open>DisconnectRole\<close>; the process is stopped after the lock was released.\<close>

definition disconnect_section :: "'k manager_services \<Rightarrow> string \<Rightarrow> ('k world, unit) tx" where
  "disconnect_section ms name w =
     (case role_of name w of
        None \<Rightarrow> (Inl unknown_toad, w)
      | Some r \<Rightarrow>
          (case persistDesiredLocked (background ms) (switch_off name w) of
             (Inl e, w2) \<Rightarrow>
               (Inl (Wrapf ''persist desired state: %w'' e),
                on_product (SetRoleDesired name (mr_enabled r))
                  (set_role name (\<lambda>r'. r'\<lparr>mr_enabled := mr_enabled r, mr_operation := mr_operation r\<rparr>) w2))
           | (Inr _, w2) \<Rightarrow> (Inr (), bumpLocked (set_role name (\<lambda>r. r\<lparr>mr_lastError := []\<rparr>) w2))))"

definition DisconnectRole :: "'k manager_services \<Rightarrow> string \<Rightarrow> ('k world, unit) tx" where
  "DisconnectRole ms name = bindT (disconnect_section ms name) (\<lambda>_. stop_and_release ms name)"

text \<open>Rolling the switches of \<^verbatim>\<open>ConnectAll\<close> and \<^verbatim>\<open>DisconnectAll\<close> back.\<close>

definition revert_switch :: "(string \<Rightarrow> bool) \<Rightarrow> string \<Rightarrow> 'k world \<Rightarrow> 'k world" where
  "revert_switch previous name w =
     on_product (SetRoleDesired name (previous name))
       (set_role name (\<lambda>r. r\<lparr>mr_operation := (if mr_enabled r \<noteq> previous name then mr_operation r - 1 else mr_operation r),
                            mr_enabled := previous name\<rparr>) w)"

definition enabled_now :: "'k world \<Rightarrow> string \<Rightarrow> bool" where
  "enabled_now w name = (case role_of name w of None \<Rightarrow> False | Some r \<Rightarrow> mr_enabled r)"

definition connect_switch :: "string \<Rightarrow> 'k world \<Rightarrow> 'k world" where
  "connect_switch name w =
     (let want = (bk_activeProfile (book w) = ''default'' \<or>
                  (case role_of name w of None \<Rightarrow> False
                   | Some r \<Rightarrow> bk_activeProfile (book w) \<in> set (role_profiles_of r)))
      in on_product (SetRoleDesired name want)
           (set_role name (\<lambda>r. r\<lparr>mr_operation := (if mr_enabled r \<noteq> want then mr_operation r + 1 else mr_operation r),
                                mr_enabled := want\<rparr>) w))"

definition ConnectAll :: "'k manager_services \<Rightarrow> ('k world, unit) tx" where
  "ConnectAll ms w =
     (let names = namesLocked w; w1 = foldl (\<lambda>w name. connect_switch name w) w names
      in case persistDesiredLocked ms w1 of
           (Inl e, w2) \<Rightarrow>
             (Inl (Wrapf ''persist desired state: %w'' e),
              foldl (\<lambda>v name. revert_switch (enabled_now w) name v) w2 names)
         | (Inr _, w2) \<Rightarrow>
             collectT (\<lambda>name. mapErrT (Wrapf ''%s: %w'') (startRoleProcess ms name)) names (bumpLocked w2))"

definition disconnect_switch :: "string \<Rightarrow> 'k world \<Rightarrow> 'k world" where
  "disconnect_switch name w =
     product_disconnect name
       (set_role name (\<lambda>r. r\<lparr>mr_operation := (if mr_enabled r then mr_operation r + 1 else mr_operation r),
                            mr_enabled := False\<rparr>) w)"

definition DisconnectAll :: "'k manager_services \<Rightarrow> ('k world, unit) tx" where
  "DisconnectAll ms w =
     (let names = namesLocked w; w1 = foldl (\<lambda>w name. disconnect_switch name w) w names
      in case persistDesiredLocked (background ms) w1 of
           (Inl e, w2) \<Rightarrow>
             (Inl (Wrapf ''persist desired state: %w'' e),
              foldl (\<lambda>v name. revert_switch (enabled_now w) name v) w2 names)
         | (Inr _, w2) \<Rightarrow>
             collectT (\<lambda>name. mapErrT (Wrapf ''%s: %w'') (stop_and_release ms name)) names (bumpLocked w2))"

text \<open>The switch of one role to a profile; the departing role's operation is counted.\<close>

definition profile_switch :: "string list \<Rightarrow> string \<Rightarrow> 'k world \<Rightarrow> 'k world" where
  "profile_switch wanted name w =
     (let want = name \<in> set wanted
      in if enabled_now w name = want then w
         else on_product (SetRoleDesired name want)
                (set_role name (\<lambda>r. r\<lparr>mr_operation := (if mr_enabled r then mr_operation r + 1 else mr_operation r),
                                     mr_enabled := want\<rparr>) w))"

definition restore_switch :: "'k world \<Rightarrow> string \<Rightarrow> 'k world \<Rightarrow> 'k world" where
  "restore_switch w0 name w =
     (case role_of name w0 of
        None \<Rightarrow> w
      | Some r \<Rightarrow>
          on_product (SetRoleDesired name (mr_enabled r))
            (set_role name (\<lambda>r'. r'\<lparr>mr_enabled := mr_enabled r, mr_operation := mr_operation r\<rparr>) w))"

definition SetActiveProfile :: "'k manager_services \<Rightarrow> string \<Rightarrow> ('k world, unit) tx" where
  "SetActiveProfile ms profile w =
     (case map_of (bk_profileToRoles (book w)) profile of
        None \<Rightarrow> (Inl (Errorf ''unknown profile %q''), w)
      | Some wanted \<Rightarrow>
          if bk_activeProfile (book w) = profile then (Inr (), w)
          else
            let names = map fst (dv_Roles (ew_Driver w));
                changed = filter (\<lambda>name. enabled_now w name \<noteq> (name \<in> set wanted)) names;
                w1 = foldl (\<lambda>v name. profile_switch wanted name v)
                       (update_book (\<lambda>b. b\<lparr>bk_activeProfile := profile\<rparr>) w) names
            in case persistDesiredLocked (background ms) w1 of
                 (Inl e, w2) \<Rightarrow>
                   (Inl (Wrapf ''persist active profile: %w'' e),
                    update_book (\<lambda>b. b\<lparr>bk_activeProfile := bk_activeProfile (book w)\<rparr>)
                      (foldl (\<lambda>v name. restore_switch w name v) w2 names))
               | (Inr _, w2) \<Rightarrow> (Inr (), spawn (SettleProfileTask changed wanted) (bumpLocked w2)))"

text \<open>The goroutine of \<^verbatim>\<open>SetActiveProfile\<close>; its errors are only logged.\<close>

definition settle_profile :: "'k manager_services \<Rightarrow> string list \<Rightarrow> string list \<Rightarrow> 'k world \<Rightarrow> 'k world" where
  "settle_profile ms changed wanted w =
     foldl (\<lambda>w name. snd (if name \<in> set wanted then startRoleProcess ms name w else stop_and_release ms name w)) w changed"

definition RediscoverEndpoints :: "string \<Rightarrow> ('k world, unit) tx" where
  "RediscoverEndpoints name w =
     (if role_of name w = None then (Inl unknown_toad, w) else (Inr (), bumpLocked w))"

section \<open>Restoring the desired state\<close>

definition blocked_error :: "'k manager_services \<Rightarrow> string \<Rightarrow> 'k world \<Rightarrow> goerror option" where
  "blocked_error ms name w =
     (case roleCredentialError ms name w of
        Some e \<Rightarrow> Some e
      | None \<Rightarrow> (case role_of name w of
                   None \<Rightarrow> None
                 | Some r \<Rightarrow> credentialErrorFor ms (host w) None (mr_configPath r)))"

definition restore_role ::
  "(string \<Rightarrow> goerror option) \<Rightarrow> (string, bool) gomap \<Rightarrow> string \<Rightarrow> 'k world \<Rightarrow> 'k world" where
  "restore_role blocked desired name w =
     (case (flag desired name, blocked name) of
        (True, Some e) \<Rightarrow>
          on_product (SetRoleDesired name False)
            (set_role name (\<lambda>r. r\<lparr>mr_enabled := False, mr_lastError := error_text e\<rparr>) w)
      | _ \<Rightarrow>
          on_product (SetRoleDesired name (flag desired name))
            (set_role name (\<lambda>r. r\<lparr>mr_enabled := flag desired name\<rparr>) w))"

definition RestoreDesiredState :: "'k manager_services \<Rightarrow> persisted_desired \<Rightarrow> ('k world, unit) tx" where
  "RestoreDesiredState ms desired w =
     (let profiles = bk_profileToRoles (book w);
          profile = (if pd_ActiveProfile desired = [] then ''default'' else pd_ActiveProfile desired);
          blocked = (\<lambda>name. blocked_error ms name w);
          names = namesLocked w
      in if map_of profiles profile = None \<and> map_of profiles ''default'' = None
         then (Inl (Errorf ''persisted active profile %q is not configured and no default profile exists''), w)
         else
           let fallback = (map_of profiles profile = None);
               active = (if fallback then ''default'' else profile);
               w1 = (if fallback then set_status ''restored with fallback from profile %q'' w else w);
               w2 = update_book (\<lambda>b. b\<lparr>bk_activeProfile := active\<rparr>) w1;
               w3 = foldl (\<lambda>v name. restore_role blocked (pd_Roles desired) name v) w2 names;
               start = filter (\<lambda>name. flag (pd_Roles desired) name \<and> blocked name = None) names
           in collectT (\<lambda>name. mapErrT (Wrapf ''%s: %w'') (startRoleProcess ms name)) start
                (bumpLocked (set_status ''restored'' w3)))"

section \<open>Replacing a process\<close>

text \<open>The critical section that takes the process away from the role, and what follows it without
  the manager's lock.\<close>

definition detach_process :: "string \<Rightarrow> 'k world \<Rightarrow> 'k world" where
  "detach_process name w =
     bumpLocked (set_role name (\<lambda>r. r\<lparr>mr_process := None, mr_stateValid := False, mr_streamed := False,
                                     mr_validationPendingEpoch := 0, mr_operation := mr_operation r + 1\<rparr>) w)"

definition replace_process :: "'k manager_services \<Rightarrow> string \<Rightarrow> nat \<Rightarrow> string \<Rightarrow> ('k world, unit) tx" where
  "replace_process ms name p socket w =
     bindT (on_host (ms_Stop ms p)) (\<lambda>_. ConnectRole ms name) (stopToad ms socket w)"

definition restartRole :: "'k manager_services \<Rightarrow> string \<Rightarrow> ('k world, unit) tx" where
  "restartRole ms name w =
     (case role_of name w of
        None \<Rightarrow> (Inl unknown_toad, w)
      | Some r \<Rightarrow>
          (case mr_process r of
             None \<Rightarrow> startRoleProcess ms name w
           | Some p \<Rightarrow> replace_process ms name p (mr_controlSocket r) (detach_process name w)))"

text \<open>The recovery driver of this manager: its process replacement is the manager's own.\<close>

definition wired :: "'k manager_services \<Rightarrow> 'k recovery_services" where
  "wired ms = (ms_Recovery ms)\<lparr>rv_restartRole := restartRole ms\<rparr>"

end
