(* ===== verification/Core_Supervision.thy ===== *)
theory Core_Supervision
  imports Core_Manager
begin

text \<open>
  The supervision of the roles (\<^verbatim>\<open>control/control.go\<close>): what happens when a process exits, a
  Toad reports, the underlay changes or a timer fires, and the recovery worker with its
  bookkeeping. Every goroutine the manager starts is a task of its book; \<open>run_task\<close> is the body
  of each. A body runs from its start to its end as one step, as the operations of a role do in
  the rest of the development. The commands and goroutines that release the manager's lock in
  between are composed of their critical sections, and the last section of this theory lets other
  steps come between the two sections of a replacement, the longest of them.
\<close>

section \<open>The recovery worker\<close>

definition clear_in_flight :: "string \<Rightarrow> 'k world \<Rightarrow> 'k world" where
  "clear_in_flight name = set_role name (\<lambda>r. r\<lparr>mr_recoveryInFlight := False\<rparr>)"

definition end_recovery :: "string \<Rightarrow> u64 \<Rightarrow> 'k world \<Rightarrow> 'k world" where
  "end_recovery name pending =
     set_role name (\<lambda>r. r\<lparr>mr_recoveryInFlight := False, mr_validationPendingEpoch := pending\<rparr>)"

definition discardRecoveryTransaction :: "string \<Rightarrow> 'k world \<Rightarrow> 'k world" where
  "discardRecoveryTransaction name w =
     on_product (SetRetrySchedule name 0)
       (update_book (\<lambda>b. b\<lparr>bk_recoveryBackoffs := gomap_del name (bk_recoveryBackoffs b),
                          bk_failureStreak := gomap_del name (bk_failureStreak b),
                          bk_recoveryRetryPending := gomap_del name (bk_recoveryRetryPending b)\<rparr>)
         (end_recovery name 0 w))"

definition streak_of :: "string \<Rightarrow> 'k world \<Rightarrow> int" where
  "streak_of name w = (case map_of (bk_failureStreak (book w)) name of None \<Rightarrow> 0 | Some n \<Rightarrow> n)"

definition trackRecoveryFailure :: "string \<Rightarrow> goerror option \<Rightarrow> 'k world \<Rightarrow> 'k world" where
  "trackRecoveryFailure name err w =
     (case err of
        None \<Rightarrow> update_book (\<lambda>b. b\<lparr>bk_failureStreak := gomap_del name (bk_failureStreak b)\<rparr>) w
      | Some e \<Rightarrow>
          if errorsIs e ErrValidationPending then w
          else
            let streak = streak_of name w + 1;
                enabled = enabled_now w name;
                w1 = set_role name (\<lambda>r. r\<lparr>mr_lastError := error_text e\<rparr>)
                       (update_book (\<lambda>b. b\<lparr>bk_failureStreak := gomap_put name streak (bk_failureStreak b)\<rparr>) w)
            in if streak < 3 \<or> \<not> enabled then w1
               else
                 let w2 = on_product (SetRoleDesired name False) w1
                 in case controller_Role (ew_Controller w2) name of
                      None \<Rightarrow> w2
                    | Some product \<Rightarrow>
                        on_product (SetRecovery name
                          (recovery_zero\<lparr>rs_Step := RecoveryStartTransport, rs_Operation := rr_Operation product,
                                         rs_Epoch := ns_Epoch (currentUnderlay w)\<rparr>)
                          RoleFailed (error_text e)) w2)"

definition can_retry :: "string \<Rightarrow> u64 \<Rightarrow> u64 \<Rightarrow> 'k world \<Rightarrow> bool" where
  "can_retry name operation epoch w =
     (ns_Epoch (currentUnderlay w) = epoch \<and>
      (case (role_of name w, controller_Role (ew_Controller w) name) of
         (Some r, Some product) \<Rightarrow>
           mr_enabled r \<and> mr_process r \<noteq> None \<and> rr_State product = RoleRecovering \<and> rr_Operation product = operation
       | _ \<Rightarrow> False))"

definition scheduleRecoveryRetry :: "'k manager_services \<Rightarrow> string \<Rightarrow> u64 \<Rightarrow> u64 \<Rightarrow> 'k world \<Rightarrow> 'k world" where
  "scheduleRecoveryRetry ms name operation epoch w =
     (if flag (bk_recoveryRetryPending (book w)) name \<or> \<not> can_retry name operation epoch w then w
      else
        (case next_delay (bk_recoveryBackoffs (book w)) name of
           (delay, backoffs) \<Rightarrow>
             spawn (RecoveryRetryTask name operation epoch)
               (on_product (SetRetrySchedule name (ms_Now ms (host w) + delay))
                 (update_book (\<lambda>b. b\<lparr>bk_recoveryBackoffs := backoffs,
                    bk_recoveryRetryPending := gomap_put name True (bk_recoveryRetryPending b)\<rparr>) w))))"

text \<open>The branches of \<^verbatim>\<open>recoverRole\<close> after the engine returned.\<close>

definition settle_recovery ::
  "'k manager_services \<Rightarrow> string \<Rightarrow> u64 \<Rightarrow> u64 \<Rightarrow> goerror option \<Rightarrow> 'k world \<Rightarrow> 'k world" where
  "settle_recovery ms name operation epoch err w =
     (case err of
        None \<Rightarrow>
          end_recovery name 0
            (update_book (\<lambda>b. b\<lparr>bk_recoveryBackoffs := gomap_del name (bk_recoveryBackoffs b),
                               bk_recoveryRetryPending := gomap_del name (bk_recoveryRetryPending b),
                               bk_restartHandoffPending := gomap_del name (bk_restartHandoffPending b)\<rparr>)
              (on_product (SetRetrySchedule name 0) w))
      | Some e \<Rightarrow>
          if errorsIs e ErrRoutesStillParked
          then scheduleRecoveryRetry ms name operation epoch (clear_in_flight name w)
          else if errorsIs e ErrValidationPending then end_recovery name epoch w
          else if errorsIs e ErrToadRestartPending then
            spawn (HandoffTask name operation epoch)
              (if role_of name w = None then w
               else update_book (\<lambda>b. b\<lparr>bk_restartHandoffPending := gomap_put name True (bk_restartHandoffPending b)\<rparr>)
                      (end_recovery name 0 w))
          else end_recovery name 0 w)"

text \<open>The engine runs under a context of its own, which \<^verbatim>\<open>recoveryCancels\<close> holds meanwhile. At the end
  the entry of the role is deleted whoever registered it.\<close>

definition run_recovery ::
  "'k manager_services \<Rightarrow> string \<Rightarrow> u64 \<Rightarrow> u64 \<Rightarrow> 'k world \<Rightarrow> goerror option \<times> 'k world" where
  "run_recovery ms name operation epoch w =
     Recover (recovery_engine (wired (ms\<lparr>ms_Ctx := Some (bk_nextContext (book w))\<rparr>)) name) name operation epoch
       (update_book (register_context name) w)"

definition end_context :: "string \<Rightarrow> nat \<Rightarrow> 'k world \<Rightarrow> 'k world" where
  "end_context name c = update_book (\<lambda>b. forget_context name (cancel_context c b))"

definition recoverRole ::
  "'k manager_services \<Rightarrow> string \<Rightarrow> u64 \<Rightarrow> u64 \<Rightarrow> 'k world \<Rightarrow> goerror option \<times> 'k world" where
  "recoverRole ms name operation epoch w =
     (case run_recovery ms name operation epoch w of
        (err, w1) \<Rightarrow>
          (err, end_context name (bk_nextContext (book w))
             (if (case err of Some e \<Rightarrow> errorsIs e ErrRecoveryCancelled | None \<Rightarrow> False) \<or> role_cancelled name w1
              then discardRecoveryTransaction name w1
              else settle_recovery ms name operation epoch err (trackRecoveryFailure name err w1))))"

definition set_in_flight :: "string \<Rightarrow> 'k world \<Rightarrow> 'k world" where
  "set_in_flight name = set_role name (\<lambda>r. r\<lparr>mr_recoveryInFlight := True\<rparr>)"

definition recovery_retry_due :: "'k manager_services \<Rightarrow> string \<Rightarrow> u64 \<Rightarrow> u64 \<Rightarrow> 'k world \<Rightarrow> 'k world" where
  "recovery_retry_due ms name operation epoch w =
     (let w1 = update_book (\<lambda>b. b\<lparr>bk_recoveryRetryPending := gomap_put name False (bk_recoveryRetryPending b)\<rparr>) w;
          w2 = on_product (SetRetrySchedule name 0) w1
      in if can_retry name operation epoch w1
         then snd (recoverRole ms name operation epoch (set_in_flight name w2)) else w2)"

definition handoff_due :: "'k manager_services \<Rightarrow> string \<Rightarrow> u64 \<Rightarrow> u64 \<Rightarrow> 'k world \<Rightarrow> 'k world" where
  "handoff_due ms name operation epoch w =
     (case (role_of name w, controller_Role (ew_Controller w) name) of
        (Some r, Some product) \<Rightarrow>
          if \<not> flag (bk_restartHandoffPending (book w)) name \<or> \<not> mr_enabled r \<or> mr_process r = None \<or>
             rr_Operation product \<noteq> operation \<or> ns_Epoch (currentUnderlay w) \<noteq> epoch
          then w
          else scheduleRecoveryRetry ms name operation epoch
                 (clear_in_flight name
                   (update_book (\<lambda>b. b\<lparr>bk_restartHandoffPending := gomap_del name (bk_restartHandoffPending b)\<rparr>) w))
      | _ \<Rightarrow> w)"

section \<open>Requests for a recovery\<close>

definition requestManagedSelectedRecovery :: "string \<Rightarrow> string \<Rightarrow> 'k world \<Rightarrow> 'k world" where
  "requestManagedSelectedRecovery role reason w =
     (case role_of role w of
        None \<Rightarrow> w
      | Some current \<Rightarrow>
          if \<not> mr_enabled current \<or> mr_process current = None \<or> \<not> bk_hasDriver (book w) \<or> mr_recoveryInFlight current
          then w
          else
            let product = product_role role w; epoch = ns_Epoch (currentUnderlay w);
                w1 = set_in_flight role w
            in case SetRecovery role (rr_Recovery product) RoleRecovering reason (ew_Controller w1) of
                 (False, _) \<Rightarrow> clear_in_flight role w1
               | (True, c) \<Rightarrow> spawn (RecoverTask role (rr_Operation product) epoch) (w1\<lparr>ew_Controller := c\<rparr>))"

text \<open>A write to the role that is dropped once its process was replaced.\<close>

definition set_role_of_process :: "string \<Rightarrow> nat \<Rightarrow> (manager_role \<Rightarrow> manager_role) \<Rightarrow> 'k world \<Rightarrow> 'k world" where
  "set_role_of_process name p f w = (if process_current name (Some p) w then set_role name f w else w)"

text \<open>\<^verbatim>\<open>scheduleRouteTargetRecovery\<close> releases the lock between raising the flag and starting the
  worker; when the product refuses, a second critical section lowers the flag of the same process
  only.\<close>

definition begin_route_target :: "string \<Rightarrow> nat \<Rightarrow> 'k world \<Rightarrow> (string \<times> u64) option \<times> 'k world" where
  "begin_route_target name p w =
     (case role_of name w of
        None \<Rightarrow> (None, w)
      | Some r \<Rightarrow>
          if mr_process r \<noteq> Some p \<or> \<not> mr_enabled r \<or> \<not> mr_stateValid r \<or> ob_RouteReady (mr_observed r) \<or>
             \<not> mr_everRouteReady r \<or> mr_recoveryInFlight r \<or> flag (bk_restartHandoffPending (book w)) name \<or>
             bk_suspended (book w) \<or> \<not> bk_autoRecovery (book w) \<or> \<not> bk_hasDriver (book w) \<or>
             ns_Epoch (currentUnderlay w) = 0 \<or> \<not> underlay_available (currentUnderlay w)
          then (None, w)
          else
            (Some (if ob_Reason (mr_observed r) = [] then ''managed route target lost structural readiness''
                   else ob_Reason (mr_observed r), ns_Epoch (currentUnderlay w)),
             set_in_flight name w))"

definition lower_in_flight :: "string \<Rightarrow> nat \<Rightarrow> 'k world \<Rightarrow> 'k world" where
  "lower_in_flight name p = set_role_of_process name p (\<lambda>r. r\<lparr>mr_recoveryInFlight := False\<rparr>)"

definition finish_route_target :: "string \<Rightarrow> nat \<Rightarrow> string \<times> u64 \<Rightarrow> 'k world \<Rightarrow> 'k world" where
  "finish_route_target name p request w =
     (case MarkRecovering name (fst request) (ew_Controller w) of
        (False, c) \<Rightarrow> lower_in_flight name p (w\<lparr>ew_Controller := c\<rparr>)
      | (True, c) \<Rightarrow>
          (case controller_Role c name of
             None \<Rightarrow> lower_in_flight name p (w\<lparr>ew_Controller := c\<rparr>)
           | Some product \<Rightarrow>
               spawn (RecoverTask name (rr_Operation product) (snd request)) (w\<lparr>ew_Controller := c\<rparr>)))"

definition scheduleRouteTargetRecovery :: "string \<Rightarrow> nat \<Rightarrow> 'k world \<Rightarrow> 'k world" where
  "scheduleRouteTargetRecovery name p w =
     (case begin_route_target name p w of
        (None, w1) \<Rightarrow> w1
      | (Some request, w1) \<Rightarrow> finish_route_target name p request w1)"

definition is_stale_role :: "'k world \<Rightarrow> string \<times> manager_role \<Rightarrow> bool" where
  "is_stale_role w entry =
     (case entry of (name, r) \<Rightarrow>
        mr_enabled r \<and> mr_process r \<noteq> None \<and> \<not> mr_recoveryInFlight r \<and>
        (case controller_Role (ew_Controller w) name of None \<Rightarrow> False | Some product \<Rightarrow> rr_State product = RoleRecovering))"

definition recoverStaleRoles :: "'k manager_services \<Rightarrow> u64 \<Rightarrow> 'k world \<Rightarrow> 'k world" where
  "recoverStaleRoles ms epoch w =
     (let stale = map (\<lambda>(name, r). (name, rr_Operation (product_role name w)))
                    (filter (is_stale_role w) (dv_Roles (ew_Driver w)));
          w1 = foldl (\<lambda>v (name, operation). set_in_flight name v) w stale
      in foldl (\<lambda>v (name, operation). snd (recoverRole ms name operation epoch v)) w1 stale)"

section \<open>Validation\<close>

definition scheduleValidation :: "string \<Rightarrow> nat \<Rightarrow> 'k world \<Rightarrow> 'k world" where
  "scheduleValidation name p w =
     (case role_of name w of
        None \<Rightarrow> w
      | Some r \<Rightarrow>
          if mr_process r \<noteq> Some p \<or> \<not> mr_enabled r \<or> \<not> mr_stateValid r \<or> \<not> ob_RouteReady (mr_observed r) \<or>
             mr_validationInFlight r
          then w
          else
            let underlay = currentUnderlay w;
                live = (mr_recoveryInFlight r \<or> flag (bk_recoveryRetryPending (book w)) name)
            in case controller_Role (ew_Controller w) name of
                 None \<Rightarrow> w
               | Some product \<Rightarrow>
                   if ns_Epoch underlay = 0 \<or> \<not> underlay_available underlay \<or>
                      rr_ValidatedEpoch product = ns_Epoch underlay \<or> live
                   then w
                   else spawn (ValidateTask name p underlay)
                          (update_book (\<lambda>b. b\<lparr>bk_restartHandoffPending := gomap_del name (bk_restartHandoffPending b)\<rparr>)
                            (set_role name (\<lambda>r. r\<lparr>mr_recoveryInFlight := False, mr_validationInFlight := True\<rparr>) w)))"

definition finishValidationSchedule :: "string \<Rightarrow> nat \<Rightarrow> 'k world \<Rightarrow> 'k world" where
  "finishValidationSchedule name p = set_role_of_process name p (\<lambda>r. r\<lparr>mr_validationInFlight := False\<rparr>)"

definition finish_recovery :: "string \<Rightarrow> 'k world \<Rightarrow> 'k world" where
  "finish_recovery name w =
     (case controller_Role (ew_Controller w) name of
        None \<Rightarrow> w
      | Some r \<Rightarrow>
          if rs_Step (rr_Recovery r) \<noteq> StepNone \<or> rs_Operation (rr_Recovery r) \<noteq> 0 \<or> rs_Epoch (rr_Recovery r) \<noteq> 0 \<or>
             rs_Attempt (rr_Recovery r) \<noteq> 0 \<or> rs_LastError (rr_Recovery r) \<noteq> []
          then on_product (SetRecovery name recovery_zero RoleReady ''recovery complete'') w
          else w)"

definition activateReadyRole :: "'k manager_services \<Rightarrow> string \<Rightarrow> ('k world, unit) tx" where
  "activateReadyRole ms name w =
     (if \<not> bk_autoRecovery (book w) \<or> \<not> bk_hasDriver (book w) then (Inr (), w)
      else
        (case controller_Role (ew_Controller w) name of
           None \<Rightarrow> (Inl (Errorf ''unknown product role %q''), w)
         | Some role \<Rightarrow>
             if en_AppliedUnderlayEpoch (rr_Endpoint role) = ns_Epoch (currentUnderlay w) \<and>
                en_State (rr_Endpoint role) = ''ready'' \<and> pu_Published (rr_Publication role) \<and>
                \<not> pk_Active (rr_Parking role)
             then (Inr (), finish_recovery name w)
             else
               (bindT (mapErrT (Wrapf ''restore route ownership for %q: %w'') (driver_ObserveRoutes (wired ms) name)) (\<lambda>_.
                bindT (mapErrT (Wrapf ''apply initial endpoint policy for %q: %w'') (driver_ApplyEndpoint (wired ms) name)) (\<lambda>_.
                bindT (mapErrT (Wrapf ''publish initial Leshy route target for %q: %w'') (driver_Publish (wired ms) name)) (\<lambda>_.
                bindT (mapErrT (Wrapf ''resync initial Leshy route target for %q: %w'') (driver_ResyncLeshy (wired ms) name)) (\<lambda>_.
                bindT (mapErrT (Wrapf ''restore selected routes for %q: %w'') (driver_ObserveRestoration (wired ms) name)) (\<lambda>_.
                putT (finish_recovery name))))))) w))"

text \<open>What the validation goroutine does with its outcome.\<close>

definition validation_failed :: "'k manager_services \<Rightarrow> string \<Rightarrow> nat \<Rightarrow> netstate_snapshot \<Rightarrow> goerror \<Rightarrow> 'k world \<Rightarrow> 'k world" where
  "validation_failed ms name p underlay e w =
     (let recovers = (bk_autoRecovery (book w) \<and> bk_hasDriver (book w))
      in if errorsIs e ErrValidationPending then
           (let w1 = on_product (MarkRecovering name (error_text e))
                       (set_role_of_process name p (\<lambda>r. r\<lparr>mr_validationPendingEpoch := ns_Epoch underlay\<rparr>) w)
            in case controller_Role (ew_Controller w1) name of
                 None \<Rightarrow> w1
               | Some role \<Rightarrow>
                   if recovers \<and> ts_State (rr_Toad role) = ''reconnecting''
                   then scheduleRecoveryRetry ms name (rr_Operation role) (ns_Epoch underlay) w1 else w1)
         else if \<not> recovers then w
         else case MarkRecovering name (error_text e) (ew_Controller w) of
                (False, c) \<Rightarrow> w\<lparr>ew_Controller := c\<rparr>
              | (True, c) \<Rightarrow>
                  (case controller_Role c name of
                     None \<Rightarrow> w\<lparr>ew_Controller := c\<rparr>
                   | Some role \<Rightarrow>
                       spawn (RecoverTask name (rr_Operation role) (ns_Epoch (currentUnderlay w))) (w\<lparr>ew_Controller := c\<rparr>)))"

text \<open>Whether somebody else manages the interface; an error is recorded on the role.\<close>

definition interface_owned :: "'k manager_services \<Rightarrow> string \<Rightarrow> nat \<Rightarrow> 'k world \<Rightarrow> bool \<times> 'k world" where
  "interface_owned ms name p w =
     (let iface = (if process_current name (Some p) w
                   then (case role_of name w of None \<Rightarrow> []
                         | Some r \<Rightarrow> (case mr_cfg r of None \<Rightarrow> [] | Some c \<Rightarrow> cf_Interface c))
                   else [])
      in case ms_EnsureUnmanaged ms of
           None \<Rightarrow> (False, w)
         | Some ensure \<Rightarrow>
             if iface = [] then (False, w)
             else
               (case ensure iface (host w) of
                  ((owned, err), k) \<Rightarrow>
                    let w1 = snd (on_host (putT (\<lambda>_. k)) w)
                    in (err \<noteq> None \<or> owned,
                        case err of
                          None \<Rightarrow> w1
                        | Some e \<Rightarrow> if process_current name (Some p) w1 then set_last_error name (error_text e) w1 else w1)))"

definition validate_task :: "'k manager_services \<Rightarrow> string \<Rightarrow> nat \<Rightarrow> netstate_snapshot \<Rightarrow> 'k world \<Rightarrow> 'k world" where
  "validate_task ms name p underlay w =
     (case interface_owned ms name p w of
        (True, w1) \<Rightarrow>
          finishValidationSchedule name p (on_product (MarkRecovering name ''NetworkManager owns managed Toad interface'') w1)
      | (False, w1) \<Rightarrow>
          (case bindT (ValidateRole (wired ms) name) (\<lambda>_.
                bindT (putT (\<lambda>w. update_book (\<lambda>b. b\<lparr>bk_recoveryBackoffs := gomap_del name (bk_recoveryBackoffs b)\<rparr>)
                         (set_role_of_process name p (\<lambda>r. r\<lparr>mr_validationPendingEpoch := 0\<rparr>) w))) (\<lambda>_.
                activateReadyRole ms name)) w1 of
             (Inr _, w2) \<Rightarrow> finishValidationSchedule name p w2
           | (Inl e, w2) \<Rightarrow> validation_failed ms name p underlay e (finishValidationSchedule name p w2)))"

definition scheduleCurrentValidations :: "'k world \<Rightarrow> 'k world" where
  "scheduleCurrentValidations w =
     foldl (\<lambda>v (name, p). scheduleValidation name p v) w
       (map (\<lambda>(name, r). (name, the (mr_process r)))
         (filter (\<lambda>(name, r). mr_enabled r \<and> mr_process r \<noteq> None \<and> mr_stateValid r \<and> ob_RouteReady (mr_observed r))
           (dv_Roles (ew_Driver w))))"

section \<open>Observations\<close>

text \<open>The callback of \<^verbatim>\<open>subscribeToad\<close>.\<close>

definition toad_snapshot_received :: "string \<Rightarrow> nat \<Rightarrow> toad_snapshot \<Rightarrow> 'k world \<Rightarrow> 'k world" where
  "toad_snapshot_received name p snapshot w =
     (case observeToadSnapshotForProcess name (Some p) snapshot w of
        ((live, accepted), w1) \<Rightarrow>
          if live \<and> accepted then scheduleRouteTargetRecovery name p (scheduleValidation name p w1) else w1)"

definition toadSnapshot :: "observed_state \<Rightarrow> toad_snapshot" where
  "toadSnapshot s = toad_zero\<lparr>ts_ProtocolVersion := ProtocolVersion, ts_Generation := ob_Generation s,
     ts_State := strings_ToLower (ob_State s), ts_Reason := ob_Reason s, ts_InterfaceName := ob_InterfaceName s,
     ts_IfIndex := ob_IfIndex s, ts_MTU := ob_MTU s, ts_Addresses := ob_Addresses s, ts_RouteReady := ob_RouteReady s,
     ts_SessionConnected := ob_Connected s, ts_LastHandshakeAgeMS := ob_LastHandshakeAgeMS s,
     ts_RXBytes := ob_RXBytes s, ts_TXBytes := ob_TXBytes s, ts_Endpoint := ob_Endpoint s,
     ts_UpdatedAt := ob_UpdatedAt s\<rparr>"

definition sameState :: "observed_state \<Rightarrow> observed_state \<Rightarrow> bool" where
  "sameState a b = (a\<lparr>ob_UpdatedAt := 0\<rparr> = b\<lparr>ob_UpdatedAt := 0\<rparr>)"

definition observeCompatibilityStateForProcess ::
  "'k manager_services \<Rightarrow> string \<Rightarrow> nat \<Rightarrow> observed_state \<Rightarrow> 'k world \<Rightarrow> (bool \<times> bool) \<times> 'k world" where
  "observeCompatibilityStateForProcess ms name p published w =
     (case role_of name w of
        None \<Rightarrow> ((False, False), w)
      | Some current \<Rightarrow>
          if mr_process current \<noteq> Some p \<or> mr_streamed current then ((False, False), w)
          else if mr_stateValid current \<and> sameState (mr_observed current) published then ((True, False), w)
          else
            let w1 = set_role name (\<lambda>r. r\<lparr>mr_observed := published, mr_stateValid := True,
                                         mr_everRouteReady := mr_everRouteReady r \<or> ob_RouteReady published\<rparr>) w;
                w2 = (case map_of (bk_backoffs (book w1)) name of
                        None \<Rightarrow> w1
                      | Some b \<Rightarrow>
                          if ob_RouteReady published \<and> ob_Connected published
                          then update_book (\<lambda>k. k\<lparr>bk_backoffs := gomap_put name (MarkReady (ms_Now ms (host w)) b) (bk_backoffs k)\<rparr>) w1
                          else w1);
                w3 = bumpLocked w2
            in case ObserveToad name (toadSnapshot published) (ew_Controller w3) of
                 (accepted, c) \<Rightarrow> ((True, accepted), w3\<lparr>ew_Controller := c\<rparr>))"

text \<open>A scan of \<^verbatim>\<open>watchState\<close> that read a decodable file.\<close>

definition state_file_read :: "'k manager_services \<Rightarrow> string \<Rightarrow> nat \<Rightarrow> observed_state \<Rightarrow> 'k world \<Rightarrow> 'k world" where
  "state_file_read ms name p published w =
     (if ob_Name published \<noteq> [] \<and> ob_Name published \<noteq> name then w
      else
        (case observeCompatibilityStateForProcess ms name p published w of
           ((live, accepted), w1) \<Rightarrow>
             if live \<and> accepted then scheduleRouteTargetRecovery name p (scheduleValidation name p w1) else w1))"

definition applyUnderlayChange :: "gotime \<Rightarrow> net_change \<Rightarrow> 'k world \<Rightarrow> 'k world" where
  "applyUnderlayChange now change w =
     (case Compare (currentUnderlay w) (ch_Snapshot change) of
        (merged, reason, materialChanged) \<Rightarrow>
          if \<not> materialChanged \<and> \<not> ch_Resume change then w
          else
            let w1 = (if materialChanged
                      then (update_driver (\<lambda>d. d\<lparr>dv_Underlay := merged,
                              dv_Roles := gomap_map (\<lambda>_ r. r\<lparr>mr_validationPendingEpoch := 0\<rparr>) (dv_Roles d)\<rparr>) w)
                             \<lparr>ew_Controller := SetUnderlay now merged reason (ew_Controller w)\<rparr>
                      else update_driver (\<lambda>d. d\<lparr>dv_Underlay := (dv_Underlay d)
                              \<lparr>ns_ObservedAt := ns_ObservedAt (ch_Snapshot change)\<rparr>\<rparr>) w);
                w2 = bumpLocked w1;
                w3 = (if ch_Resume change then w2\<lparr>ew_Controller := RequestResumeValidation (ew_Controller w2)\<rparr> else w2)
            in if bk_suspended (book w) then w3
               else
                 let w4 = spawn ScheduleValidationsTask w3
                 in if bk_autoRecovery (book w) \<and> bk_hasDriver (book w) \<and> materialChanged \<and> underlay_available merged
                    then spawn (RecoverStaleTask (ns_Epoch merged)) (spawn RetryPendingStartsTask w4)
                    else w4)"

section \<open>Exits and retries\<close>

definition process_exited :: "'k manager_services \<Rightarrow> string \<Rightarrow> nat \<Rightarrow> goerror option \<Rightarrow> 'k world \<Rightarrow> 'k world" where
  "process_exited ms name p err w =
     (if \<not> process_current name (Some p) w then w
      else
        let w1 = update_book (\<lambda>b. b\<lparr>bk_restartHandoffPending := gomap_del name (bk_restartHandoffPending b)\<rparr>)
                   (set_role name (\<lambda>r. r\<lparr>mr_process := None, mr_validationPendingEpoch := 0,
                      mr_lastError := (case err of Some e \<Rightarrow> error_text e | None \<Rightarrow> [])\<rparr>) w)
        in if bk_autoRecovery (book w1) \<and> enabled_now w1 name \<and> \<not> bk_shuttingDown (book w1)
           then (case next_delay (bk_backoffs (book w1)) name of
                   (delay, backoffs) \<Rightarrow>
                     spawn (RetryAfterTask name) (bumpLocked
                       (on_product (SetRetrySchedule name (ms_Now ms (host w1) + delay))
                         (update_book (\<lambda>b. b\<lparr>bk_backoffs := backoffs\<rparr>) w1))))
           else bumpLocked w1)"

definition RetryRole :: "'k manager_services \<Rightarrow> string \<Rightarrow> ('k world, unit) tx" where
  "RetryRole ms name w =
     (case role_of name w of
        None \<Rightarrow> (Inl unknown_toad, w)
      | Some r \<Rightarrow>
          let w1 = snd (on_selected (putT (touch_role name)) w)
          in if rl_integrityQuarantined (roleState name (dv_Selected (ew_Driver w1)))
             then with_env (ms_Recovery ms) (\<lambda>env. retryQuarantinedRole env name) w1
             else if \<not> mr_enabled r then (Inr (), w1)
             else if mr_process r \<noteq> None then
               (let w2 = bumpLocked w1; epoch = ns_Epoch (currentUnderlay w1)
                in (Inr (), case controller_Role (ew_Controller w1) name of
                              None \<Rightarrow> w2
                            | Some product \<Rightarrow>
                                if rr_State product = RoleRecovering \<and> bk_hasDriver (book w1) \<and> epoch \<noteq> 0 \<and>
                                   \<not> mr_recoveryInFlight r
                                then spawn (RecoverTask name (rr_Operation product) epoch) (set_in_flight name w2)
                                else w2))
             else startRoleProcess ms name (bumpLocked (set_role name (\<lambda>r. r\<lparr>mr_lastError := []\<rparr>) w1)))"

definition retry_after_due :: "'k manager_services \<Rightarrow> string \<Rightarrow> 'k world \<Rightarrow> 'k world" where
  "retry_after_due ms name w = snd (RetryRole ms name (on_product (SetRetrySchedule name 0) w))"

definition start_retry_due :: "'k manager_services \<Rightarrow> string \<Rightarrow> 'k world \<Rightarrow> 'k world" where
  "start_retry_due ms name w =
     (let w1 = update_book (\<lambda>b. b\<lparr>bk_startRetryPending := gomap_put name False (bk_startRetryPending b)\<rparr>) w;
          eligible = (case role_of name w1 of None \<Rightarrow> False
                      | Some r \<Rightarrow> mr_enabled r \<and> mr_process r = None \<and> mr_startPending r);
          w2 = on_product (SetRetrySchedule name 0) w1
      in if eligible then snd (startRoleProcess ms name w2) else w2)"

section \<open>Shutdown\<close>

text \<open>The fail-closed preparation of one role for a restart of the daemon.\<close>

definition shutdown_role :: "'k manager_services \<Rightarrow> string \<Rightarrow> ('k world, unit) tx" where
  "shutdown_role ms name w =
     (let safety = (case role_of name w of None \<Rightarrow> False
                    | Some r \<Rightarrow> mr_enabled r \<and> mr_process r \<noteq> None \<and> bk_hasDriver (book w));
          prepared = (if safety
                      then bindT (mapErrT (Wrapf ''%s observe routes: %w'') (driver_ObserveRoutes (wired ms) name)) (\<lambda>_.
                           bindT (mapErrT (Wrapf ''%s park routes: %w'') (driver_Park (wired ms) name)) (\<lambda>_.
                           mapErrT (Wrapf ''%s withdraw publication: %w'') (driver_Withdraw (wired ms) name))) w
                      else (Inr (), w))
      in case prepared of (r1, w1) \<Rightarrow>
           (case mapErrT (Wrapf ''%s: %w'') (stopRoleProcess ms name) w1 of (r2, w2) \<Rightarrow> (join_results r1 r2, w2)))"

definition shut_down :: "(string \<Rightarrow> ('k world, unit) tx) \<Rightarrow> ('k world, unit) tx" where
  "shut_down f w =
     (if bk_shuttingDown (book w) then (Inr (), w)
      else collectT f (namesLocked w) (update_book (\<lambda>b. b\<lparr>bk_shuttingDown := True\<rparr>) w))"

definition ShutdownProduct :: "'k manager_services \<Rightarrow> ('k world, unit) tx" where
  "ShutdownProduct ms = shut_down (shutdown_role ms)"

definition release_role :: "'k manager_services \<Rightarrow> string \<Rightarrow> ('k world, unit) tx" where
  "release_role ms name w =
     (case stopRoleProcess ms name w of
        (stopErr, w1) \<Rightarrow>
          (case releaseRoleResources ms name False w1 of
             (releaseErr, w2) \<Rightarrow>
               (map_sum (Wrapf ''%s: %w'') id (join_results stopErr releaseErr),
                on_product (SetRetrySchedule name 0)
                  (on_product (SetRecovery name recovery_zero RoleStopped ''stopped'') w2))))"

definition ReleaseProduct :: "'k manager_services \<Rightarrow> ('k world, unit) tx" where
  "ReleaseProduct ms = shut_down (release_role ms)"

section \<open>Runs\<close>

fun run_task :: "'k manager_services \<Rightarrow> manager_task \<Rightarrow> 'k world \<Rightarrow> 'k world" where
  "run_task ms (WaitTask name p) w = w"
| "run_task ms (SubscribeTask name p socket) w = w"
| "run_task ms (RetryAfterTask name) w = retry_after_due ms name w"
| "run_task ms (StartRetryTask name) w = start_retry_due ms name w"
| "run_task ms (RecoverTask name operation epoch) w = snd (recoverRole ms name operation epoch w)"
| "run_task ms (RecoveryRetryTask name operation epoch) w = recovery_retry_due ms name operation epoch w"
| "run_task ms (HandoffTask name operation epoch) w = handoff_due ms name operation epoch w"
| "run_task ms (ValidateTask name p underlay) w = validate_task ms name p underlay w"
| "run_task ms (SettleProfileTask changed wanted) w = settle_profile ms changed wanted w"
| "run_task ms ScheduleValidationsTask w = scheduleCurrentValidations w"
| "run_task ms RetryPendingStartsTask w = retryPendingStarts ms w"
| "run_task ms (RecoverStaleTask epoch) w = recoverStaleRoles ms epoch w"

definition take_task :: "manager_task \<Rightarrow> 'k world \<Rightarrow> 'k world" where
  "take_task t = update_book (\<lambda>b. b\<lparr>bk_tasks := remove1 t (bk_tasks b)\<rparr>)"

text \<open>
  What happens without a command of the operator: an observation, the end of a process (which ends
  its \<^verbatim>\<open>wait\<close>), a goroutine that runs, a request of the selected-route reconciler, or the
  shutdown of the daemon.
\<close>

inductive background_step :: "'k world \<Rightarrow> 'k world \<Rightarrow> bool" where
  step_request: "background_step w (requestManagedSelectedRecovery name reason w)"
| step_snapshot: "background_step w (toad_snapshot_received name p snapshot w)"
| step_file: "background_step w (state_file_read ms name p published w)"
| step_underlay: "background_step w (applyUnderlayChange now change w)"
| step_exit: "WaitTask name p \<in> set (bk_tasks (book w)) \<Longrightarrow>
    background_step w (process_exited ms name p err (take_task (WaitTask name p) w))"
| step_task: "t \<in> set (bk_tasks (book w)) \<Longrightarrow> (\<And>name p. t \<noteq> WaitTask name p) \<Longrightarrow>
    background_step w (run_task ms t (take_task t w))"
| step_shutdown: "background_step w (snd (ShutdownProduct ms w))"
| step_release: "background_step w (snd (ReleaseProduct ms w))"

text \<open>One step of the manager.\<close>

inductive manager_step :: "'k world \<Rightarrow> 'k world \<Rightarrow> bool" where
  step_background: "background_step w w' \<Longrightarrow> manager_step w w'"
| step_connect: "manager_step w (snd (ConnectRole ms name w))"
| step_disconnect: "manager_step w (snd (DisconnectRole ms name w))"
| step_connect_all: "manager_step w (snd (ConnectAll ms w))"
| step_disconnect_all: "manager_step w (snd (DisconnectAll ms w))"
| step_profile: "manager_step w (snd (SetActiveProfile ms profile w))"
| step_restore: "manager_step w (snd (RestoreDesiredState ms desired w))"
| step_retry: "manager_step w (snd (RetryRole ms name w))"

section \<open>Interleavings\<close>

text \<open>
  The steps in between. The goroutines of the manager hold its lock only inside their critical
  sections, so that the sections and the calls of one goroutine can fall between those of another.
  Below each of them is a step of its own that may happen at any time, whichever goroutine is at
  that point: the start of a goroutine, a context that is made or cancelled, a call of the recovery
  driver or of the host, a commit to the product, the sections of a start, of a stop and of the
  recovery worker's end, those of a validation and of a request. A process replacement is split in
  two: the first half takes the process away and is remembered, with the context of its recovery,
  until the second half connects the role. \<open>heeds_context\<close> says that there is a desired-state store
  and that it refuses to save under a cancelled context.
\<close>

definition heeds_context :: "'k manager_services \<Rightarrow> bool" where
  "heeds_context ms =
     (case ms_Save ms of
        None \<Rightarrow> False
      | Some save \<Rightarrow> \<forall>e desired k. isl (fst (save (Some e) desired k)))"

type_synonym replacement = "string \<times> nat \<times> string \<times> nat"

inductive interleaved_step :: "replacement list \<times> 'k world \<Rightarrow> replacement list \<times> 'k world \<Rightarrow> bool" where
  il_whole: "background_step w w' \<Longrightarrow> interleaved_step (ps, w) (ps, w')"
| il_detach: "role_of name w = Some r \<Longrightarrow> mr_process r = Some p \<Longrightarrow>
    interleaved_step (ps, w) ((name, p, mr_controlSocket r, c) # ps, detach_process name w)"
| il_replace: "(name, p, socket, c) \<in> set ps \<Longrightarrow> ms_Ctx ms = Some c \<Longrightarrow> heeds_context ms \<Longrightarrow>
    interleaved_step (ps, w) (remove1 (name, p, socket, c) ps, snd (replace_process ms name p socket w))"
| il_take: "interleaved_step (ps, w) (ps, take_task t w)"
| il_register: "interleaved_step (ps, w) (ps, update_book (register_context name) w)"
| il_end_context: "interleaved_step (ps, w) (ps, end_context name c w)"
| il_driver: "interleaved_step (ps, w) (ps, snd (engine_work (recovery_engine (wired ms) name) name step w))"
| il_host: "interleaved_step (ps, w) (ps, snd (on_host (t :: ('k, unit) tx) w))"
| il_product: "interleaved_step (ps, w) (ps, w\<lparr>ew_Controller := k\<rparr>)"
| il_discard: "interleaved_step (ps, w) (ps, discardRecoveryTransaction name w)"
| il_track: "interleaved_step (ps, w) (ps, trackRecoveryFailure name err w)"
| il_settle: "interleaved_step (ps, w) (ps, settle_recovery ms name operation epoch err w)"
| il_start: "interleaved_step (ps, w) (ps, snd (startRoleProcess ms name w))"
| il_prepare: "interleaved_step (ps, w) (ps, snd (prepareRoleStart ms name w))"
| il_begin_launch: "interleaved_step (ps, w) (ps, begin_launch name w)"
| il_adopt: "interleaved_step (ps, w) (ps, snd (adopt_process ms name p w))"
| il_stop: "interleaved_step (ps, w) (ps, stop_section name w)"
| il_release: "interleaved_step (ps, w) (ps, snd (releaseRoleResources ms name skip w))"
| il_activate: "interleaved_step (ps, w) (ps, snd (activateReadyRole ms name w))"
| il_validation_failed: "interleaved_step (ps, w) (ps, validation_failed ms name p underlay e w)"
| il_validation_end: "interleaved_step (ps, w) (ps, finishValidationSchedule name p w)"
| il_begin_target: "interleaved_step (ps, w) (ps, snd (begin_route_target name p w))"
| il_finish_target: "interleaved_step (ps, w) (ps, finish_route_target name p request w)"

end
