(* ===== verification/Sample_Manager.thy ===== *)
theory Sample_Manager
  imports Driver_Steps Sample_Host Core_Supervision
begin

text \<open>
  Concrete services and worlds to evaluate the recovery driver on: the managed role of the sample
  host, and a legacy host with a routing table and a directory of ownership checkpoints.
\<close>

section \<open>A managed role\<close>

text \<open>A host for the witnesses: the sample environment, a Toad that answers every request and
  validates as healthy, a Leshy that accepts every call.\<close>

definition healthy_response :: toad_response where
  "healthy_response = response_zero\<lparr>rsp_OK := True,
     rsp_Validation := Some \<lparr>vr_Healthy = True, vr_State = ''ready'', vr_Reason = [], vr_Families = ready_families\<rparr>\<rparr>"

definition quiet_services :: "'k manager_env \<Rightarrow> 'k recovery_services" where
  "quiet_services env =
     \<lparr>rv_Env = env, rv_Routes = None, rv_Executor = None, rv_Resolver = None,
      rv_Leshy = Some \<lparr>lb_Publish = (\<lambda>p. returnT ()), lb_Withdraw = (\<lambda>z. returnT ()), lb_Resync = (\<lambda>z. returnT ())\<rparr>,
      rv_Call = (\<lambda>socket request. returnT healthy_response), rv_ParseURL = (\<lambda>_. Inl (Errorf [])),
      rv_ReadFile = (\<lambda>_ _. Inl (Sentinel ErrNotExist)), rv_RunCommand = (\<lambda>_ _ _. Inl (Errorf [])),
      rv_ReadCheckpoint = (\<lambda>_ _. Inl (Sentinel ErrNotExist)), rv_WriteCheckpoint = (\<lambda>_ _. returnT ()),
      rv_Rename = (\<lambda>_ _. returnT ()), rv_restartRole = (\<lambda>_. returnT ()), rv_ctxErr = Errorf []\<rparr>"

definition home_awg2 :: awg2_config where
  "home_awg2 = \<lparr>aw_PrivateKey = ''sk'', aw_PeerPublicKey = ''pk'', aw_PresharedKey = [], aw_Endpoint = ''198.51.100.7:51820'',
     aw_AllowedIPs = [''0.0.0.0/0''], aw_PersistentKeepalive = 25, aw_JC = 0, aw_JMin = 0, aw_JMax = 0, aw_S = (0, 0, 0, 0),
     aw_H = ([], [], [], []), aw_I = ([], [], [], [], [])\<rparr>"

definition home_config :: role_config where
  "home_config = \<lparr>cf_Name = ''home'', cf_Protocol = ''amneziawg2'', cf_Interface = ''tun0'', cf_Address = [''10.77.0.2/24''], cf_MTU = 1420, cf_StateDir = ''/var/lib/toad'',
     cf_AWG2 = Some home_awg2, cf_VLESS = None, cf_OpenConnect = None, cf_LeshyZone = ''z'', cf_Source = [],
     cf_StaticFile = [], cf_Command = [], cf_RulePriority = 60, cf_legacyVPNPath = [], cf_Profiles = [''work'']\<rparr>"

definition home_role :: manager_role where
  "home_role = \<lparr>mr_cfg = Some home_config, mr_process = Some 1, mr_enabled = True,
     mr_observed = \<lparr>ob_Schema = 1, ob_Name = ''home'', ob_Protocol = ''amneziawg2'', ob_Generation = 1, ob_State = ''ready'', ob_Reason = [],
       ob_RouteReady = True, ob_InterfaceName = ''tun0'', ob_IfIndex = 7, ob_MTU = 1420,
       ob_Addresses = [], ob_Families = families_zero, ob_Connected = True, ob_LastHandshakeAgeMS = None, ob_RXBytes = 0,
       ob_TXBytes = 0, ob_Endpoint = [], ob_UpdatedAt = 0\<rparr>,
     mr_stateValid = True, mr_streamed = True, mr_controlSocket = ''/run/home.sock'', mr_everRouteReady = True,
     mr_configPath = ''/etc/home.toml'', mr_lastError = [], mr_operation = 1, mr_validationInFlight = False,
     mr_recoveryInFlight = False, mr_validationPendingEpoch = 0, mr_startPending = False, mr_startReason = []\<rparr>"

definition home_underlay :: netstate_snapshot where
  "home_underlay = netstate_zero\<lparr>ns_Epoch := 2, ns_IPv4 := Some \<lparr>pa_Family = 4, pa_IfIndex = 2, pa_Interface = ''eth0'',
     pa_Gateway = Addr4 1, pa_PreferredSrc = Addr4 2, pa_MTU = 1500, pa_Table = 254, pa_Metric = 100\<rparr>\<rparr>"

definition home_runtime :: role_runtime where
  "home_runtime = role_zero\<lparr>rr_Desired := True, rr_State := RoleRecovering, rr_ToadGeneration := 1,
     rr_Toad := toad_zero\<lparr>ts_IfIndex := 7, ts_InterfaceName := ''tun0'', ts_Generation := 1, ts_RouteReady := True,
       ts_State := ''ready'', ts_Capabilities := capabilities_zero\<lparr>cap_Rebind := True\<rparr>\<rparr>\<rparr>"

definition home_world :: "'k selected_manager \<Rightarrow> 'k world" where
  "home_world m = \<lparr>ew_Controller = (NewController [])\<lparr>co_Roles := [(''home'', home_runtime)], co_Underlay := home_underlay\<rparr>,
     ew_Driver = NewRecoveryDriver m [(''home'', home_role)] home_underlay\<rparr>"

section \<open>A legacy host\<close>

text \<open>The in-memory executor and the checkpoint files. Leshy installs the route \<^verbatim>\<open>10.0.0.2/32\<close> through
  interface 7 when it is asked to resynchronize.\<close>

type_synonym legacy_host = "fake_executor \<times> (string, parking_checkpoint) gomap"

definition host_executor :: "legacy_host executor" where
  "host_executor =
     \<lparr>ex_Apply = (\<lambda>t h. (fst (fake_Apply t (fst h)), (snd (fake_Apply t (fst h)), snd h))),
      ex_Snapshot = (\<lambda>h. fake_Snapshot (fst h))\<rparr>"

definition tun_route :: "string \<Rightarrow> operation" where
  "tun_route prefix = operation_zero\<lparr>op_Kind := ''route'', op_Prefix := prefix, op_Table := 254, op_IfIndex := 7,
     op_Metric := 100, op_Protocol := 4\<rparr>"

definition with_routes :: "string list \<Rightarrow> legacy_host" where
  "with_routes prefixes = (\<lparr>fk_Transactions = [], fk_State = \<lparr>ks_Routes = map tun_route prefixes, ks_Rules = []\<rparr>\<rparr>, [])"

definition legacy_env :: "legacy_host manager_env" where
  "legacy_env = \<lparr>se_Routes = None, se_RoleRuntime = (\<lambda>_. None), se_ZoneRoles = [], se_StateDir = (\<lambda>_. None),
     se_Capacity = SelectedRouteCapacity, se_Managed = [], se_AuthorityError = [],
     se_WriteCheckpoint = (\<lambda>path c. returnT ()), se_Windows = False, se_Failpoint = None\<rparr>"

definition legacy_bridge :: "legacy_host leshy_bridge" where
  "legacy_bridge = \<lparr>lb_Publish = (\<lambda>p. returnT ()), lb_Withdraw = (\<lambda>z. returnT ()),
     lb_Resync = (\<lambda>z h. (Inr (), snd (ex_Apply host_executor
        \<lparr>tr_ID = 0, tr_Role = [], tr_Operations = [tun_route ''10.0.0.2/32'']\<rparr> h)))\<rparr>"

definition legacy_services :: "legacy_host executor \<Rightarrow> legacy_host recovery_services" where
  "legacy_services ex = (quiet_services legacy_env)\<lparr>rv_Executor := Some ex, rv_Leshy := Some legacy_bridge,
     rv_ReadCheckpoint := (\<lambda>path h. case map_of (snd h) path of None \<Rightarrow> Inl (Sentinel ErrNotExist) | Some c \<Rightarrow> Inr c),
     rv_WriteCheckpoint := (\<lambda>path c h. (Inr (), (fst h, gomap_put path c (snd h))))\<rparr>"

definition legacy_world :: "string list \<Rightarrow> legacy_host world" where
  "legacy_world prefixes = home_world (NewSelectedRouteManager (with_routes prefixes))"

text \<open>An executor whose transactions fail.\<close>

definition failing_executor :: "legacy_host executor" where
  "failing_executor = host_executor\<lparr>ex_Apply := (\<lambda>t h. (Some (Errorf ''netlink is down''), h))\<rparr>"

interpretation legacy_parks: parking_executor host_executor
proof unfold_locales
  fix t :: transaction and s s' :: legacy_host and k op
  assume "ex_Apply host_executor t s = (None, s')" "\<forall>op \<in> set (tr_Operations t). op_Kind op = ''park''"
    "ex_Snapshot host_executor s' = Inr k" "op \<in> set (tr_Operations t)"
  then show "\<exists>r \<in> set (ks_Routes k). is_park_row r \<and> op_Prefix r = op_Prefix op \<and>
       op_Metric r \<in> op_Metric ` set (tr_Operations t)"
    by (intro fake_parks.parks_visible [of t "fst s" "fst s'"]) (auto simp: host_executor_def Fake_def prod_eq_iff)
next
  fix t :: transaction and s s' :: legacy_host and k k' r
  assume "ex_Apply host_executor t s = (None, s')" "\<forall>op \<in> set (tr_Operations t). op_Kind op = ''delete-park''"
    "ex_Snapshot host_executor s = Inr k" "ex_Snapshot host_executor s' = Inr k'" "r \<in> set (ks_Routes k)"
    "op_Kind r = ''route''"
  then show "r \<in> set (ks_Routes k')"
    by (intro fake_parks.routes_kept [of t "fst s" "fst s'" k k' r]) (auto simp: host_executor_def Fake_def prod_eq_iff)
qed

section \<open>The core manager\<close>

text \<open>
  Concrete services and worlds to evaluate the core manager on: a launcher that hands out process
  2, a store that accepts everything under a live context, and no credentials to miss, on the hosts of the sample driver.
\<close>

definition obedient_store :: "goerror option \<Rightarrow> persisted_desired \<Rightarrow> ('k, unit) tx" where
  "obedient_store ctx desired = (case ctx of None \<Rightarrow> returnT () | Some e \<Rightarrow> throwT e)"

definition manager_on :: "'k recovery_services \<Rightarrow> 'k manager_services" where
  "manager_on sv =
     \<lparr>ms_Ctx = None, ms_Recovery = sv, ms_Start = (\<lambda>path. returnT 2), ms_Stop = (\<lambda>p. returnT ()),
      ms_Remove = (\<lambda>path. returnT ()), ms_Save = Some obedient_store, ms_Load = (\<lambda>k path. Inr home_config),
      ms_Stat = (\<lambda>k path. None), ms_EnsureUnmanaged = None, ms_Now = (\<lambda>k. 0)\<rparr>"

definition quiet_manager :: "legacy_host manager_services" where
  "quiet_manager = manager_on (legacy_services host_executor)"

text \<open>A store that refuses, and a launcher that fails.\<close>

definition full_disk :: "legacy_host manager_services" where
  "full_disk = quiet_manager\<lparr>ms_Save := Some (\<lambda>ctx desired. throwT (Errorf ''no space left on device''))\<rparr>"

definition no_binary :: "legacy_host manager_services" where
  "no_binary = quiet_manager\<lparr>ms_Start := (\<lambda>path. throwT (Errorf ''no such file''))\<rparr>"

text \<open>The running role of the sample driver under a manager with a driver.\<close>

definition desk_world :: "legacy_host world" where
  "desk_world = update_book (\<lambda>b. b\<lparr>bk_hasDriver := True, bk_profileToRoles := [(''default'', [''home'']), (''work'', [''home'']), (''away'', [])]\<rparr>)
     (legacy_world [])"

text \<open>A Leshy that refuses publications, and the role after two failed recoveries in a row.\<close>

definition deaf_leshy :: "legacy_host manager_services" where
  "deaf_leshy = quiet_manager\<lparr>ms_Recovery := (legacy_services host_executor)
     \<lparr>rv_Leshy := Some (legacy_bridge\<lparr>lb_Publish := (\<lambda>p. throwT (Errorf ''leshy is down''))\<rparr>)\<rparr>\<rparr>"

definition worn_world :: "legacy_host world" where
  "worn_world = update_book (\<lambda>b. b\<lparr>bk_failureStreak := [(''home'', 2)]\<rparr>) desk_world"

text \<open>The role once the core has given up on it.\<close>

definition given_up_world :: "legacy_host world" where
  "given_up_world = on_product (SetRecovery ''home'' recovery_zero RoleFailed ''leshy is down'') desk_world"

text \<open>The same role after its process ended.\<close>

definition idle_world :: "legacy_host world" where
  "idle_world = set_role ''home'' (\<lambda>r. r\<lparr>mr_process := None\<rparr>) (update_book (\<lambda>b. b\<lparr>bk_hasDriver := False\<rparr>) desk_world)"

text \<open>The role with a validation of its process 1 pending while process 2 runs.\<close>

definition swapped_world :: "legacy_host world" where
  "swapped_world = spawn (ValidateTask ''home'' 1 home_underlay)
     (set_role ''home'' (\<lambda>r. r\<lparr>mr_process := Some 2, mr_validationInFlight := True\<rparr>) desk_world)"

text \<open>The role with a recovery in flight that has detached its process.\<close>

definition gap_world :: "legacy_host world" where
  "gap_world = detach_process ''home'' (update_book (register_context ''home'') desk_world)"

text \<open>The running role after its route target was lost, under automatic recovery.\<close>

definition lost_world :: "legacy_host world" where
  "lost_world = set_role ''home'' (\<lambda>r. r\<lparr>mr_observed := (mr_observed r)\<lparr>ob_RouteReady := False\<rparr>\<rparr>)
     (update_book (\<lambda>b. b\<lparr>bk_autoRecovery := True\<rparr>) desk_world)"

lemmas desk_defs = desk_world_def legacy_world_def home_world_def NewRecoveryDriver_def home_role_def book_def
  update_book_def update_driver_def

end
