(* ===== verification/Driver_Properties.thy ===== *)
theory Driver_Properties
  imports Driver_Runs Sample_Manager
begin

text \<open>
  The properties of the recovery driver: managed recoveries from the freeze to the new
  publication, the ownership checkpoint of the legacy path, what it captures and what it
  misses, and the release of a role's resources.
\<close>

section \<open>Managed recoveries\<close>

lemma Recover_run:
  assumes managed: "driver_managed sv role" and product: "controller_Role (ew_Controller w) role = Some product"
    and a: "DecideRole product (co_Underlay (ew_Controller w)) (ts_Capabilities (rr_Toad product)) = a"
    and disruptive: "a \<in> disruptive"
    and run: "Recover (recovery_engine sv role) role operation epoch w = (res, w')"
  obtains rec rec' err w1 where
    "run_steps (driver_work sv role) (ManagedRecoverySequenceForAction a) rec w = (err, rec', w1)"
    "selected w' = selected w1"
    "res = None \<Longrightarrow> err = None \<and> w' = commit_recovery role rec' RoleReady ''recovery complete'' w1"
    "\<And>e. res = Some e \<Longrightarrow> \<not> errorsIs e ErrRecoveryCancelled \<Longrightarrow> err = Some e"
proof -
  let ?e = "recovery_engine sv role"
  let ?rec = "(rr_Recovery product)\<lparr>rs_Operation := operation, rs_Epoch := epoch,
      rs_Attempt := rs_Attempt (rr_Recovery product) + 1\<rparr>"
  let ?seq = "ManagedRecoverySequenceForAction a"
  obtain err rec' w1 where steps: "run_steps (driver_work sv role) ?seq ?rec w = (err, rec', w1)"
    by (metis surj_pair)
  have seq: "engine_steps ?e role product (cs_Underlay (controller_Snapshot (ew_Controller w))) = ?seq"
    using managed a by (simp add: engine_steps_def recovery_engine_def SelectTransportAction_def controller_Snapshot_def)
  have ne: "?seq \<noteq> []" using managed_sequence [OF disruptive] by simp
  have conf: "eg_Configured ?e" by (simp add: recovery_engine_def)
  note run' = run [unfolded Recover_def, simplified conf product seq ne option.case Let_def
      RunRecoverySteps_def steps [unfolded driver_work_def] prod.case, simplified]
  show thesis
    by (rule that [OF steps]; use run' in \<open>auto simp: commit_recovery_def selected_def split: option.splits if_splits\<close>)
qed

text \<open>C7: a recovery of a managed role that was disruptive and succeeded leaves the role open: it is
  no longer frozen, none of its registered routes is parked, it is Ready, and its publication is
  out under the route generation the role has now, so that no consumer can mistake routes of
  the generation before the recovery for current ones.\<close>

theorem managed_recovery_reopens:
  assumes "driver_managed sv role" and "rv_Leshy sv = Some bridge"
    and "controller_Role (ew_Controller w) role = Some product"
    and "DecideRole product (co_Underlay (ew_Controller w)) (ts_Capabilities (rr_Toad product)) \<in> disruptive"
    and "Recover (recovery_engine sv role) role operation epoch w = (None, w')"
  shows "\<not> frozen role (selected w') \<and> unparked role (selected w') \<and>
         (\<exists>r. controller_Role (ew_Controller w') role = Some r \<and> rr_State r = RoleReady \<and>
           pu_Published (rr_Publication r) \<and>
           pu_Generation (rr_Publication r) = rl_routeGeneration (roleState role (selected w')))"
proof -
  let ?a = "DecideRole product (co_Underlay (ew_Controller w)) (ts_Capabilities (rr_Toad product))"
  from Recover_run [OF assms(1,3) refl assms(4,5)] obtain rec rec' w1 where
    run: "run_steps (driver_work sv role) (ManagedRecoverySequenceForAction ?a) rec w = (None, rec', w1)"
    and sel: "selected w' = selected w1"
    and w': "w' = commit_recovery role rec' RoleReady ''recovery complete'' w1" by metis
  have "role \<in> roles_of w" using assms(3) by (auto simp: roles_of_def configured_def controller_Role_def)
  from successful_run_reopens [OF assms(1,2,4) this run] have open1: "reopened role w1" .
  then have "\<exists>r. controller_Role (ew_Controller w') role = Some r \<and> rr_State r = RoleReady \<and>
           pu_Published (rr_Publication r) \<and>
           pu_Generation (rr_Publication r) = rl_routeGeneration (roleState role (selected w'))"
    by (auto simp: sel reopened_def w' commit_recovery_def SetRecovery_def controller_Role_def product_role_def
        roles_of_def configured_def put_role_def bump_def)
  with open1 show ?thesis by (simp add: sel reopened_def)
qed

theorem managed_recovery_reopens_witness:
  "\<exists>w'. Recover (recovery_engine (quiet_services (sample_env 7)) ''home'') ''home'' 1 2
           (home_world (NewSelectedRouteManager ())) = (None, w') \<and> \<not> frozen ''home'' (selected w')"
proof -
  let ?w = "home_world (NewSelectedRouteManager ()) :: unit world"
  let ?run = "Recover (recovery_engine (quiet_services (sample_env 7)) ''home'') ''home'' 1 2 ?w"
  have res: "fst ?run = None" by code_simp
  then obtain w' where run: "?run = (None, w')" by (metis prod.collapse)
  have 1: "driver_managed (quiet_services (sample_env 7)) ''home''" by code_simp
  have 2: "rv_Leshy (quiet_services (sample_env 7)) =
      Some \<lparr>lb_Publish = (\<lambda>p. returnT ()), lb_Withdraw = (\<lambda>z. returnT ()), lb_Resync = (\<lambda>z. returnT ())\<rparr>"
    by (simp add: quiet_services_def)
  have 3: "controller_Role (ew_Controller ?w) ''home'' = Some home_runtime"
    by (simp add: home_world_def controller_Role_def)
  have 4: "DecideRole home_runtime (co_Underlay (ew_Controller ?w)) (ts_Capabilities (rr_Toad home_runtime)) \<in> disruptive"
    by code_simp
  from managed_recovery_reopens [OF 1 2 3 4 run] run show ?thesis by blast
qed

text \<open>The other outcome, for any way of replacing a process that does not open the role.\<close>

lemma failed_recovery_frozen:
  assumes "driver_managed sv role" and "keepsT (\<lambda>w. frozen role (selected w)) (rv_restartRole sv role)"
    and "controller_Role (ew_Controller w) role = Some product"
    and "DecideRole product (co_Underlay (ew_Controller w)) (ts_Capabilities (rr_Toad product)) \<in> disruptive"
    and "Recover (recovery_engine sv role) role operation epoch w = (Some err, w')"
    and "\<not> errorsIs err ErrRecoveryCancelled"
  shows "frozen role (selected w')"
proof -
  let ?a = "DecideRole product (co_Underlay (ew_Controller w)) (ts_Capabilities (rr_Toad product))"
  from Recover_run [OF assms(1,3) refl assms(4,5)] assms(6) obtain rec rec' w1 where
    "run_steps (driver_work sv role) (ManagedRecoverySequenceForAction ?a) rec w = (Some err, rec', w1)"
    and sel: "selected w' = selected w1" by metis
  from failed_run_frozen [OF assms(1,4,2) this(1) assms(6)] sel show ?thesis by simp
qed

section \<open>The endpoint step\<close>

text \<open>
  The endpoint step of the recovery driver and the endpoint policies it starts from: which routes
  are handed to the platform, what an outage of name resolution does, and what the check of the
  configured policies guarantees to the zone index.
\<close>

section \<open>The endpoint step\<close>

definition family_path :: "netstate_snapshot \<Rightarrow> addr \<Rightarrow> net_path option" where
  "family_path underlay a = (if addr_Is6 a then ns_IPv6 underlay else ns_IPv4 underlay)"

lemma endpoint_routes_pinned:
  "endpoint_routes underlay addresses = Inr routes \<Longrightarrow>
     list_all2 (\<lambda>address route. \<exists>path. family_path underlay (fst address) = Some path \<and> 0 < pa_IfIndex path \<and>
        er_Prefix route = PrefixFrom (fst address) (int (addr_BitLen (fst address))) \<and>
        er_IfIndex route = pa_IfIndex path \<and> er_Gateway route = pa_Gateway path) addresses routes"
  by (induction addresses arbitrary: routes)
     (auto simp: Let_def family_path_def split: option.splits if_splits)

lemma refresh_ready:
  "refresh_endpoint sv role underlay specs w = (Inr state, w') \<Longrightarrow>
     endpoint_of role w' = state \<and> host w' = host w \<and> dv_Underlay (ew_Driver w') = dv_Underlay (ew_Driver w)"
  by (auto simp: refresh_endpoint_def Let_def endpoint_of_def update_driver_def host_def
      split: prod.splits option.splits if_splits)

lemma host_effect:
  "on_host t w = (Inr u, w') \<Longrightarrow> t (host w) = (Inr u, host w') \<and> endpoint_of role w' = endpoint_of role w"
  by (auto simp: on_host_def on_selected_def on_kernel_def host_def update_driver_def endpoint_of_def split: prod.splits)

text \<open>When the endpoint step succeeds it has handed the platform one policy: the role's zone and
  priority, and for each resolved address, in order, the host route of that address through the
  physical path of its own family. The tunnel interface never carries a route to its own endpoint.\<close>

lemma applied_policy_pins_underlay:
  assumes "rv_Routes sv = Some writer" and "driver_ApplyEndpoint sv role w = (Inr u, w')"
  shows "\<exists>policy. ew_ReconcileEndpointPolicy writer policy (host w) = (Inr (), host w') \<and>
           ep_Zone policy \<noteq> [] \<and> ep_Priority policy \<noteq> 0 \<and>
           list_all2 (\<lambda>address route. \<exists>path. family_path (currentUnderlay w) (fst address) = Some path \<and>
               0 < pa_IfIndex path \<and>
               er_Prefix route = PrefixFrom (fst address) (int (addr_BitLen (fst address))) \<and>
               er_IfIndex route = pa_IfIndex path \<and> er_Gateway route = pa_Gateway path)
             (en_Resolved (endpoint_of role w')) (ep_Routes policy)"
proof -
  from assms obtain cfg specs w1 state routes w2 where
    zone: "ep_Zone (EffectiveEndpointPolicy cfg) \<noteq> []" "ep_Priority (EffectiveEndpointPolicy cfg) \<noteq> 0"
    and refresh: "refresh_endpoint sv role (currentUnderlay w) specs w = (Inr state, w1)"
    and routes: "endpoint_routes (currentUnderlay w) (en_Resolved state) = Inr routes"
    and rec: "on_host (ew_ReconcileEndpointPolicy writer ((EffectiveEndpointPolicy cfg)
        \<lparr>ep_Routes := ep_Routes (EffectiveEndpointPolicy cfg) @ routes\<rparr>)) w1 = (Inr (), w2)"
    and w': "host w' = host w2" "endpoint_of role w' = endpoint_of role w2"
    by (auto simp: driver_ApplyEndpoint_def Let_def bindT_Inr_iff requireT_apply mapErrT_Inr_iff fromSum_Inr_iff
        driver_role_def set_resources_def host_def endpoint_of_def split: option.splits prod.splits if_splits)
  have none: "ep_Routes (EffectiveEndpointPolicy cfg) = []"
    by (cases cfg) (simp_all add: policy_zero_def EffectiveEndpointPolicy.simps Let_def)
  note ready = refresh_ready [OF refresh]
  note eff = host_effect [OF rec, of role]
  show ?thesis
    using zone eff ready w' endpoint_routes_pinned [OF routes] none
    by (intro exI [of _ "(EffectiveEndpointPolicy cfg)\<lparr>ep_Routes := routes\<rparr>"]) simp
qed

text \<open>A host that remembers the last policy, and services that resolve the endpoint to one address.\<close>

definition policy_env :: "'k manager_env" where
  "policy_env = \<lparr>se_Routes = None, se_RoleRuntime = (\<lambda>_. None), se_ZoneRoles = [], se_StateDir = (\<lambda>_. None),
     se_Capacity = SelectedRouteCapacity, se_Managed = [], se_AuthorityError = [],
     se_WriteCheckpoint = (\<lambda>path c. returnT ()), se_Windows = False, se_Failpoint = None\<rparr>"

definition policy_services :: "(string \<Rightarrow> goerror + addr list) \<Rightarrow> endpoint_policy option recovery_services" where
  "policy_services resolve = (quiet_services policy_env)
     \<lparr>rv_Routes := Some \<lparr>ew_ReconcileEndpointPolicy = (\<lambda>p _. (Inr (), Some p)),
        ew_RemoveEndpointPolicy = (\<lambda>p _. (Inr (), None))\<rparr>, rv_Resolver := Some (\<lambda>_. resolve)\<rparr>"

definition policy_world :: "string \<Rightarrow> endpoint_policy option world" where
  "policy_world endpoint =
     (let w = home_world (NewSelectedRouteManager None)
      in w\<lparr>ew_Driver := (ew_Driver w)\<lparr>dv_Roles := [(''home'', home_role\<lparr>mr_cfg := Some (home_config\<lparr>cf_AWG2 := Some (home_awg2\<lparr>aw_Endpoint := endpoint\<rparr>)\<rparr>)\<rparr>)]\<rparr>\<rparr>)"

lemma applied_policy_pins_underlay_witness:
  "\<exists>policy. host (snd (driver_ApplyEndpoint (policy_services (\<lambda>_. Inr [Addr4 0xc6336407])) ''home''
       (policy_world ''vpn.example.org:51820''))) = Some policy \<and> ep_Zone policy = ''z'' \<and> length (ep_Routes policy) = 1"
proof -
  let ?sv = "policy_services (\<lambda>_. Inr [Addr4 0xc6336407])"
  let ?w = "policy_world ''vpn.example.org:51820''"
  let ?run = "driver_ApplyEndpoint ?sv ''home'' ?w"
  have sv: "rv_Routes ?sv = Some \<lparr>ew_ReconcileEndpointPolicy = (\<lambda>p _. (Inr (), Some p)),
        ew_RemoveEndpointPolicy = (\<lambda>p _. (Inr (), None))\<rparr>" by (simp add: policy_services_def)
  have "fst ?run = Inr ()" by code_simp
  then have run: "?run = (Inr (), snd ?run)" by (metis prod.collapse)
  have n: "length (en_Resolved (endpoint_of ''home'' (snd ?run))) = 1" by code_simp
  have z: "map_option ep_Zone (host (snd ?run)) = Some ''z''" by code_simp
  from applied_policy_pins_underlay [OF sv run] obtain policy R where
    stored: "Some policy = host (snd ?run)"
    and pinned: "list_all2 R (en_Resolved (endpoint_of ''home'' (snd ?run))) (ep_Routes policy)"
    by fastforce
  from list_all2_lengthD [OF pinned] n z stored [symmetric] show ?thesis by simp
qed

section \<open>Outages of name resolution\<close>

text \<open>When an endpoint name cannot be resolved the step fails with the error the engine treats as
  temporary: the role stays recovering instead of failing, the last addresses are kept, and neither
  the host nor the controller is touched, so that the policy in force keeps protecting the
  running transport.\<close>

lemma resolution_outage_is_temporary:
  assumes "rv_Routes sv = Some writer" and "map_of (dv_Roles (ew_Driver w)) role = Some r" and "mr_cfg r = Some c"
    and "policy_Valid (EffectiveEndpointPolicy (Some c))"
    and "ResolveTransportEndpoints (rv_ParseURL sv) (rv_ReadFile sv (host w)) (rv_RunCommand sv (host w)) (Some c) = Inr specs"
    and "specs \<noteq> []"
    and "resolve_all (map_option (\<lambda>f. f (host w)) (rv_Resolver sv)) specs = Inl (message, Some e)"
  shows "\<exists>err w'. driver_ApplyEndpoint sv role w = (Inl err, w') \<and>
           errorsIs err ErrEndpointResolutionPending \<and> failed_state err = RoleRecovering \<and>
           host w' = host w \<and> ew_Controller w' = ew_Controller w \<and>
           en_Resolved (endpoint_of role w') = en_Resolved (endpoint_of role w) \<and>
           en_State (endpoint_of role w') = ''degraded''"
proof -
  have unavailable: "resolve_all rs xs = Inl (m, Some e) \<Longrightarrow> errorsIs e ErrResolutionUnavailable" for rs xs m
    by (induction xs) (auto split: if_splits sum.splits list.splits)
  let ?state = "keepDegraded (endpoint_of role w) message"
  let ?w = "update_driver (\<lambda>d. d\<lparr>dv_Endpoints := gomap_put role ?state (dv_Endpoints d)\<rparr>) w"
  let ?err = "Wrapf ''%w: endpoint policy for %q: %v'' (Sentinel ErrEndpointResolutionPending)"
  have "refresh_endpoint sv role (currentUnderlay w) specs w = (Inl ?err, ?w)"
    using assms(6,7) unavailable [OF assms(7)] by (simp add: refresh_endpoint_def RefreshSpecsWithError_def Let_def)
  then have run: "driver_ApplyEndpoint sv role w = (Inl ?err, ?w)"
    using assms(1-5) by (simp add: driver_ApplyEndpoint_def Let_def bindT_apply driver_role_def requireT_apply mapErrT_def
        policy_Valid_def)
  have "host ?w = host w" "ew_Controller ?w = ew_Controller w" "endpoint_of role ?w = ?state"
    by (simp_all add: host_def update_driver_def endpoint_of_def)
  then show ?thesis unfolding run by (simp add: failed_state_def keepDegraded_def)
qed

section \<open>Configured policies\<close>

text \<open>A set of configurations the policy check accepts is safe to index: every zone belongs to
  exactly one role, so that an intent of that zone is admitted for that role and no other, the
  policy of every role with a zone is valid, and no two roles share a rule priority.\<close>

lemma accepted_policies_exclusive:
  assumes ok: "ValidateEndpointPolicies (map (Some \<circ> snd) roles) = None"
    and index: "se_ZoneRoles env = zone_index (map config_spec roles)"
    and r: "(name, c) \<in> set roles" and zone: "ep_Zone (EffectiveEndpointPolicy (Some c)) \<noteq> []"
  shows "zone_role env (ep_Zone (EffectiveEndpointPolicy (Some c))) = Some name \<and>
         policy_Valid (EffectiveEndpointPolicy (Some c)) \<and>
         (\<forall>r' \<in> set roles. ep_Priority (EffectiveEndpointPolicy (Some (snd r'))) =
             ep_Priority (EffectiveEndpointPolicy (Some c)) \<longrightarrow> r' = (name, c))"
proof -
  let ?prio = "\<lambda>r. ep_Priority (EffectiveEndpointPolicy (Some (snd r)))"
  note sound = validate_policies_sound [OF ok [unfolded ValidateEndpointPolicies_def]]
  have valid: "policy_Valid (EffectiveEndpointPolicy (Some c))" using sound r zone by force
  have "distinct (filter (\<lambda>p. p \<noteq> 0) (map ?prio roles))" using sound by (simp add: comp_def)
  from distinct_filter_single [OF this r] valid
  have "filter (\<lambda>r'. ?prio r' = ?prio (name, c)) roles = [(name, c)]" by (simp add: policy_Valid_def)
  then have "set (filter (\<lambda>r'. ?prio r' = ?prio (name, c)) roles) = {(name, c)}" by simp
  then have "\<forall>r' \<in> set roles. ?prio r' = ?prio (name, c) \<longrightarrow> r' = (name, c)"
    unfolding set_filter by blast
  with valid accepted_zone_single [OF ok r zone] index show ?thesis by (simp add: zone_role_def)
qed

end
