(* ===== verification/Ownership_Properties.thy ===== *)
theory Ownership_Properties
  imports Sample_Manager Routing_Properties
begin

text \<open>
  The legacy ownership of selected routes: a baseline taken before a publication, the delta
  captured after it, the checkpoint both are kept in, and the release on a disconnect.
\<close>

section \<open>Reading the world\<close>

definition ownership_of :: "string \<Rightarrow> 'k world \<Rightarrow> selected_route_owner list" where
  "ownership_of role w = ownership_Snapshot (dv_Ownership (ew_Driver w)) role"

definition loaded :: "string \<Rightarrow> 'k world \<Rightarrow> bool" where
  "loaded role w = (map_of (dv_OwnershipLoaded (ew_Driver w)) role = Some True)"

lemmas world_defs = ownership_of_def role_of_def loaded_def baseline_of_def parking_of_def the_parking_def host_def
  parking_Snapshot_def update_driver_def

lemma host_call:
  "on_host t w = (case t (host w) of (r, k) \<Rightarrow>
     (r, update_driver (\<lambda>d. d\<lparr>dv_Selected := (dv_Selected d)\<lparr>sm_Kernel := k\<rparr>\<rparr>) w))"
  by (simp add: on_host_def on_selected_def on_kernel_def host_def update_driver_def split: prod.splits)

lemma kernel_update [simp]:
  "ownership_of role (update_driver (\<lambda>d. d\<lparr>dv_Selected := s d\<rparr>) w) = ownership_of role w"
  "role_of role (update_driver (\<lambda>d. d\<lparr>dv_Selected := s d\<rparr>) w) = role_of role w"
  "loaded role (update_driver (\<lambda>d. d\<lparr>dv_Selected := s d\<rparr>) w) = loaded role w"
  "baseline_of role (update_driver (\<lambda>d. d\<lparr>dv_Selected := s d\<rparr>) w) = baseline_of role w"
  "parking_of role (update_driver (\<lambda>d. d\<lparr>dv_Selected := s d\<rparr>) w) = parking_of role w"
  "host (update_driver (\<lambda>d. d\<lparr>dv_Selected := (dv_Selected d)\<lparr>sm_Kernel := k\<rparr>\<rparr>) w) = k"
  by (simp_all add: world_defs)

lemma loaded_update [simp]:
  "ownership_of role (mark_loaded role' w) = ownership_of role w"
  "role_of role (mark_loaded role' w) = role_of role w"
  "loaded role (mark_loaded role' w) = (role = role' \<or> loaded role w)"
  "baseline_of role (mark_loaded role' w) = baseline_of role w"
  "parking_of role (mark_loaded role' w) = parking_of role w"
  "host (mark_loaded role' w) = host w"
  by (simp_all add: world_defs mark_loaded_def)

lemma baseline_update [simp]:
  "ownership_of role (put_baseline role' b w) = ownership_of role w"
  "role_of role (put_baseline role' b w) = role_of role w"
  "loaded role (put_baseline role' b w) = loaded role w"
  "baseline_of role (put_baseline role' b w) = (if role = role' then b else baseline_of role w)"
  "parking_of role (put_baseline role' b w) = parking_of role w"
  "host (put_baseline role' b w) = host w"
  by (simp_all add: world_defs put_baseline_def)

lemma ownership_update [simp]:
  "ownership_of role (put_ownership f w) = ownership_Snapshot (f (dv_Ownership (ew_Driver w))) role"
  "role_of role (put_ownership f w) = role_of role w"
  "loaded role (put_ownership f w) = loaded role w"
  "baseline_of role (put_ownership f w) = baseline_of role w"
  "parking_of role (put_ownership f w) = parking_of role w"
  "host (put_ownership f w) = host w"
  by (simp_all add: world_defs put_ownership_def)

lemma parking_update [simp]:
  "ownership_of role (put_parking m w) = ownership_of role w"
  "role_of role (put_parking m w) = role_of role w"
  "loaded role (put_parking m w) = loaded role w"
  "baseline_of role (put_parking m w) = baseline_of role w"
  "parking_of role (put_parking m w) = parking_Snapshot m role"
  "host (put_parking m w) = pm_Kernel m"
  by (simp_all add: world_defs put_parking_def)

lemma resources_update [simp]:
  "ownership_of role (set_resources role' e p k v w) = ownership_of role w"
  "role_of role (set_resources role' e p k v w) = role_of role w"
  "loaded role (set_resources role' e p k v w) = loaded role w"
  "baseline_of role (set_resources role' e p k v w) = baseline_of role w"
  "parking_of role (set_resources role' e p k v w) = parking_of role w"
  "host (set_resources role' e p k v w) = host w"
  by (simp_all add: world_defs set_resources_def)

lemma publish_update [simp]:
  "ownership_of role (publish_parking role' k w) = ownership_of role w"
  "role_of role (publish_parking role' k w) = role_of role w"
  "loaded role (publish_parking role' k w) = loaded role w"
  "baseline_of role (publish_parking role' k w) = baseline_of role w"
  "parking_of role (publish_parking role' k w) = parking_of role w"
  "host (publish_parking role' k w) = host w"
  by (simp_all add: publish_parking_def Let_def)

section \<open>The checkpoint\<close>

text \<open>The path of a role that has a configuration with a state directory.\<close>

definition state_path :: "manager_role \<Rightarrow> string option" where
  "state_path r = (case mr_cfg r of None \<Rightarrow> None
     | Some c \<Rightarrow> if cf_StateDir c = [] then None else Some (cf_StateDir c @ ''/parking.json''))"

lemma path_of:
  "ownershipCheckpointPath role w =
     (case role_of role w of
        None \<Rightarrow> (Inl (Errorf ''unknown Toad %q''), w)
      | Some r \<Rightarrow> (case state_path r of None \<Rightarrow> (Inl (Errorf ''role %q has no state directory''), w)
                   | Some path \<Rightarrow> (Inr path, w)))"
  by (simp add: ownershipCheckpointPath_def bindT_apply driver_role_def role_of_def state_path_def split: option.splits)

lemma write_checkpoint:
  "writeOwnershipCheckpoint sv role w =
     (case role_of role w of
        None \<Rightarrow> (Inl (Errorf ''unknown Toad %q''), w)
      | Some r \<Rightarrow> (case state_path r of None \<Rightarrow> (Inl (Errorf ''role %q has no state directory''), w)
                   | Some path \<Rightarrow> on_host (rv_WriteCheckpoint sv path (ownership_checkpoint role r w)) w))"
  by (simp add: writeOwnershipCheckpoint_def bindT_apply path_of driver_role_def role_of_def split: option.splits)

lemma restore_checkpoint:
  "\<not> loaded role w \<Longrightarrow> role_of role w = Some r \<Longrightarrow> state_path r = Some path \<Longrightarrow>
     rv_ReadCheckpoint sv path (host w) = Inr c \<Longrightarrow>
     restoreOwnershipCheckpoint sv role w = adopt_checkpoint sv role c w"
  by (simp add: restoreOwnershipCheckpoint_def loaded_def bindT_apply path_of)

lemma owner_owned: "ow_Role v = role \<Longrightarrow> owner_of role (owned_of v) = v"
  by (simp add: owner_of_def owned_of_def)

lemma restored_own:
  assumes "\<forall>v \<in> set own. ow_Role v = role \<and> IsHostPrefix (ow_Prefix v)" and "cp_Observed c = map owned_of own"
  shows "restored_owners role c = filter (\<lambda>v. ow_IfIndex v = cp_IfIndex c) own"
proof -
  have "map (owner_of role) (filter (\<lambda>v. or_Role v = role \<and> or_IfIndex v = n \<and> IsHostPrefix (or_Prefix v)) (map owned_of xs)) =
      filter (\<lambda>v. ow_IfIndex v = n) xs" if "\<forall>v \<in> set xs. ow_Role v = role \<and> IsHostPrefix (ow_Prefix v)" for n xs
    using that by (induction xs) (simp_all add: owner_owned, simp_all add: owned_of_def)
  with assms show ?thesis by (simp add: restored_owners_def)
qed

lemma restored_parks:
  assumes "ex_Snapshot ex (pm_Kernel m) = Inr kst" and "\<forall>v \<in> set (cp_Parked c). checkpoint_verified kst v"
    and "parking_state_ok s" and "map or_Prefix (cp_Parked c) = pk_Prefixes s" and "map_of (pm_States m) (cp_Role c) = None"
  shows "\<exists>m'. RestoreCheckpoint (Some ex) c m = (None, m') \<and> pm_Kernel m' = pm_Kernel m \<and>
           parking_Snapshot m' (cp_Role c) = s"
proof -
  have filt: "filter (checkpoint_verified kst) (cp_Parked c) = cp_Parked c" using assms(2) by (simp add: filter_id_conv)
  have s: "s = \<lparr>pk_Active = True, pk_Count = int (length (pk_Prefixes s)), pk_Prefixes = pk_Prefixes s\<rparr>"
    if "pk_Prefixes s \<noteq> []" using assms(3) that by (cases s) (simp add: parking_state_ok_def)
  have zero: "parking_zero = s" if "pk_Prefixes s = []"
    using assms(3) that by (cases s) (simp add: parking_state_ok_def parking_zero_def)
  show ?thesis
    using s zero assms(5)
    by (auto simp: RestoreCheckpoint_def assms(1) filt assms(4) Let_def parking_Snapshot_def)
qed

text \<open>A core that starts again on the host and reads the same roles.\<close>

definition restarted :: "'k world \<Rightarrow> 'k world \<Rightarrow> bool" where
  "restarted w v \<longleftrightarrow>
     (\<exists>m underlay. sm_Kernel m = host w \<and> ew_Driver v = NewRecoveryDriver m (dv_Roles (ew_Driver w)) underlay)"

lemma restarted_view:
  "restarted w v \<Longrightarrow> host v = host w \<and> role_of role v = role_of role w \<and> \<not> loaded role v \<and>
     dv_Parking (ew_Driver v) = []"
  by (auto simp: restarted_def NewRecoveryDriver_def world_defs)

text \<open>The ownership checkpoint survives a restart of the core. When it was written and the
  file layer returns what was stored, a core that starts again on that host restores the baseline,
  the parking state and the owned routes of the role's current interface, given that every
  parked prefix is still covered in the kernel.\<close>

lemma ownership_checkpoint_roundtrip:
  assumes ex: "rv_Executor sv = Some ex"
    and files: "\<And>path c k k'. rv_WriteCheckpoint sv path c k = (Inr (), k') \<Longrightarrow>
        rv_ReadCheckpoint sv path k' = Inr c \<and> ex_Snapshot ex k' = ex_Snapshot ex k"
    and stored: "writeOwnershipCheckpoint sv role w = (Inr u, w')"
    and kernel_read: "ex_Snapshot ex (host w) = Inr kst"
    and covered: "\<forall>p \<in> set (pk_Prefixes (parking_of role w)). \<forall>v. or_Prefix v = p \<longrightarrow> checkpoint_verified kst v"
    and own: "\<forall>v \<in> set (ownership_of role w). ow_Role v = role \<and> IsHostPrefix (ow_Prefix v)"
    and parks: "parking_state_ok (parking_of role w)"
    and role: "role_of role w = Some r" "role \<noteq> []"
    and restart: "restarted w' v"
  shows "\<exists>v'. restoreOwnershipCheckpoint sv role v = (Inr (), v') \<and>
           baseline_of role v' = baseline_of role w \<and>
           ownership_of role v' = filter (\<lambda>x. ow_IfIndex x = ob_IfIndex (mr_observed r)) (ownership_of role w) \<and>
           parking_of role v' = parking_of role w"
proof -
  let ?c = "ownership_checkpoint role r w"
  from stored role obtain path k where path: "state_path r = Some path"
      and wr: "rv_WriteCheckpoint sv path ?c (host w) = (Inr (), k)"
      and w': "w' = update_driver (\<lambda>d. d\<lparr>dv_Selected := (dv_Selected d)\<lparr>sm_Kernel := k\<rparr>\<rparr>) w"
    by (auto simp: write_checkpoint host_call split: option.splits prod.splits)
  note view = restarted_view [OF restart, unfolded w', simplified]
  from files [OF wr] have contents: "rv_ReadCheckpoint sv path (host v) = Inr ?c"
    and rows: "ex_Snapshot ex (pm_Kernel (the_parking v)) = Inr kst"
    using view kernel_read by (simp_all add: the_parking_def)
  have fields: "cp_Role ?c = role" "cp_Interface ?c = ob_InterfaceName (mr_observed r)"
      "cp_IfIndex ?c = ob_IfIndex (mr_observed r)" "cp_Baseline ?c = baseline_of role w"
      "cp_Observed ?c = map owned_of (ownership_of role w)"
    by (simp_all add: ownership_checkpoint_def Let_def ownership_of_def)
  have 1: "\<forall>x \<in> set (cp_Parked ?c). checkpoint_verified kst x"
    using covered by (auto simp: ownership_checkpoint_def Let_def)
  have 2: "map or_Prefix (cp_Parked ?c) = pk_Prefixes (parking_of role w)"
    by (simp add: ownership_checkpoint_def Let_def comp_def)
  have 3: "map_of (pm_States (the_parking v)) (cp_Role ?c) = None"
    using view by (simp add: the_parking_def)
  from restored_parks [OF rows 1 parks 2 3]
  obtain m' where rc: "RestoreCheckpoint (Some ex) ?c (the_parking v) = (None, m')"
    "parking_Snapshot m' role = parking_of role w"
    unfolding fields(1) by blast
  have drole: "driver_role role v = (Inr (r, product_role role v), v)"
    using view role by (simp add: driver_role_def role_of_def)
  have "restoreOwnershipCheckpoint sv role v = adopt_checkpoint sv role ?c v"
    using restore_checkpoint [of role v r path sv ?c] view role(1) path contents by simp
  also have "\<dots> = (Inr (), mark_loaded role (put_baseline role (baseline_of role w)
      (put_ownership (\<lambda>reg. ownership_Replace reg role (restored_owners role ?c)) (put_parking m' v))))"
    by (simp add: adopt_checkpoint_def bindT_apply drole fields requireT_apply on_parking_def ex rc)
  finally have run: "restoreOwnershipCheckpoint sv role v = \<dots>" .
  show ?thesis
    unfolding run using rc(2) role(2) restored_own [OF own fields(5)] fields(3)
    by (simp add: mem_own.snap_replace)
qed

lemma verified_prefix: "or_Prefix v = or_Prefix v' \<Longrightarrow> checkpoint_verified kst v = checkpoint_verified kst v'"
  by (simp add: checkpoint_verified_def)

text \<open>A legacy role with the baseline \<^verbatim>\<open>10.0.0.1/32\<close>, after Leshy installed \<^verbatim>\<open>10.0.0.2/32\<close> and after the
  park.\<close>

definition legacy_published :: "string list \<Rightarrow> legacy_host world" where
  "legacy_published prefixes = snd (driver_Publish (legacy_services host_executor) ''home'' (legacy_world prefixes))"

definition legacy_synced :: "string list \<Rightarrow> legacy_host world" where
  "legacy_synced prefixes = snd (driver_ResyncLeshy (legacy_services host_executor) ''home'' (legacy_published prefixes))"

definition legacy_parked :: "string list \<Rightarrow> legacy_host world" where
  "legacy_parked prefixes = snd (driver_Park (legacy_services host_executor) ''home'' (legacy_synced prefixes))"

definition kernel_of :: "legacy_host world \<Rightarrow> kernel_state" where
  "kernel_of w = fk_State (fst (host w))"

lemma legacy_snapshot: "ex_Snapshot host_executor (host w) = Inr (kernel_of w)"
  by (simp add: host_executor_def fake_Snapshot_def kernel_of_def)

lemma legacy_services_simps:
  "rv_Executor (legacy_services ex) = Some ex" "rv_Leshy (legacy_services ex) = Some legacy_bridge"
  "rv_WriteCheckpoint (legacy_services ex) = (\<lambda>path c h. (Inr (), (fst h, gomap_put path c (snd h))))"
  "rv_ReadCheckpoint (legacy_services ex) =
     (\<lambda>path h. case map_of (snd h) path of None \<Rightarrow> Inl (Sentinel ErrNotExist) | Some c \<Rightarrow> Inr c)"
  by (simp_all add: legacy_services_def)

definition legacy_restart :: "legacy_host world" where
  "legacy_restart = (let w = snd (writeOwnershipCheckpoint (legacy_services host_executor) ''home'' (legacy_parked [''10.0.0.1/32'']))
     in \<lparr>ew_Controller = NewController [],
         ew_Driver = NewRecoveryDriver (NewSelectedRouteManager (host w)) (dv_Roles (ew_Driver w)) netstate_zero\<rparr>)"

lemma ownership_checkpoint_roundtrip_witness:
  "\<exists>v'. restoreOwnershipCheckpoint (legacy_services host_executor) ''home'' legacy_restart = (Inr (), v') \<and>
     map ow_Prefix (ownership_of ''home'' v') = [Prefix (Addr4 0x0a000002) 33]"
proof -
  let ?sv = "legacy_services host_executor"
  let ?w = "legacy_parked [''10.0.0.1/32'']"
  let ?run = "writeOwnershipCheckpoint ?sv ''home'' ?w"
  have files: "rv_ReadCheckpoint ?sv path k' = Inr c \<and> ex_Snapshot host_executor k' = ex_Snapshot host_executor k"
    if "rv_WriteCheckpoint ?sv path c k = (Inr (), k')" for path c k k'
    using that by (auto simp: legacy_services_simps host_executor_def)
  have "fst ?run = Inr ()" by code_simp
  then have stored: "?run = (Inr (), snd ?run)" by (metis prod.collapse)
  have "\<forall>p \<in> set (pk_Prefixes (parking_of ''home'' ?w)).
      checkpoint_verified (kernel_of ?w) \<lparr>or_Role = [], or_Interface = [], or_IfIndex = 0, or_Prefix = p\<rparr>" by code_simp
  then have covered: "\<forall>p \<in> set (pk_Prefixes (parking_of ''home'' ?w)). \<forall>v. or_Prefix v = p \<longrightarrow> checkpoint_verified (kernel_of ?w) v"
    using verified_prefix [of _ "\<lparr>or_Role = [], or_Interface = [], or_IfIndex = 0, or_Prefix = p\<rparr>" for p]
    by (metis owned_route.select_convs(4))
  have own: "\<forall>v \<in> set (ownership_of ''home'' ?w). ow_Role v = ''home'' \<and> IsHostPrefix (ow_Prefix v)" by code_simp
  have parks: "parking_state_ok (parking_of ''home'' ?w)" unfolding parking_state_ok_def by code_simp
  have role: "role_of ''home'' ?w = Some home_role" by code_simp
  have restart: "restarted (snd ?run) legacy_restart"
    unfolding restarted_def legacy_restart_def Let_def
    by (rule exI [of _ "NewSelectedRouteManager (host (snd ?run))"], rule exI [of _ netstate_zero])
       (simp add: NewSelectedRouteManager_def)
  have "map ow_Prefix (filter (\<lambda>x. ow_IfIndex x = ob_IfIndex (mr_observed home_role)) (ownership_of ''home'' ?w)) =
      [Prefix (Addr4 0x0a000002) 33]" by code_simp
  moreover have "''home'' \<noteq> []" by simp
  note ownership_checkpoint_roundtrip [OF legacy_services_simps(1) files stored legacy_snapshot covered own parks role this restart]
  ultimately show ?thesis by metis
qed

section \<open>Legacy parking\<close>

lemma restore_loaded: "loaded role w \<Longrightarrow> restoreOwnershipCheckpoint sv role w = (Inr (), w)"
  by (simp add: restoreOwnershipCheckpoint_def loaded_def)

text \<open>A legacy park of a role whose ownership is loaded and that is not parked yet.\<close>

lemma legacy_park:
  assumes "\<not> driver_managed sv role" and "rv_Executor sv = Some ex" and "loaded role w"
    and "\<not> pk_Active (parking_of role w)" and "driver_Park sv role w = (Inr u, w')"
  obtains m where "PrepareOwnedWithdrawal (Some ex) role (ownership_of role w) (the_parking w) = (None, m)"
    and "parking_of role w' = parking_Snapshot m role"
    and "\<exists>path c. rv_WriteCheckpoint sv path c (pm_Kernel m) = (Inr (), host w')"
proof -
  from assms obtain m where
    prep: "PrepareOwnedWithdrawal (Some ex) role (ownership_of role w) (the_parking w) = (None, m)" and
    wr: "writeOwnershipCheckpoint sv role (publish_parking role (parking_Snapshot m role) (put_parking m w)) = (Inr (), w')"
    by (auto simp: driver_Park_def bindT_Inr_iff restore_loaded on_parking_def ownership_of_def split: prod.splits option.splits)
  show thesis
    by (rule that [OF prep]; use wr in \<open>fastforce simp: write_checkpoint host_call split: option.splits prod.splits\<close>)
qed

text \<open>On the legacy path a park that succeeds covers every owned route. For each route the
  driver owns and sees in the kernel the prefix is in the role's parking state, and an
  unreachable row of the park metric for it is in the kernel when the step returns. Writing a
  file is taken not to change the routing table.\<close>

lemma legacy_park_covers:
  assumes "parking_executor ex"
    and "\<not> driver_managed sv role" and "rv_Executor sv = Some ex" and "loaded role w" and "role \<noteq> []"
    and "\<not> pk_Active (parking_of role w)" and "driver_Park sv role w = (Inr u, w')"
    and "ex_Snapshot ex (host w) = Inr kst" and "ex_Snapshot ex (host w') = Inr kst'"
    and files: "\<And>path c k x k'. rv_WriteCheckpoint sv path c k = (x, k') \<Longrightarrow> ex_Snapshot ex k' = ex_Snapshot ex k"
    and owner: "owner \<in> set (ownership_of role w)" "ow_Role owner = role" "0 < ow_IfIndex owner"
      "IsHostPrefix (ow_Prefix owner)" "owner_verified kst owner"
  shows "ow_Prefix owner \<in> set (pk_Prefixes (parking_of role w')) \<and>
         (\<exists>row \<in> set (ks_Routes kst'). is_park_row row \<and> op_Prefix row = prefix_String (ow_Prefix owner) \<and>
            op_Metric row \<ge> 42760)"
proof -
  let ?ps = "verified_prefixes role kst [] (ownership_of role w)"
  from legacy_park [OF assms(2,3,4,6,7)] obtain m where
    prep: "PrepareOwnedWithdrawal (Some ex) role (ownership_of role w) (the_parking w) = (None, m)"
    and parks: "parking_of role w' = parking_Snapshot m role"
    and wr: "\<exists>path c. rv_WriteCheckpoint sv path c (pm_Kernel m) = (Inr (), host w')" by blast
  have p: "ow_Prefix owner \<in> set ?ps"
    using verified_prefixes_complete [of owner "ownership_of role w" role kst "[]"] owner by simp
  have run: "PrepareWithdrawal (Some ex) role ?ps (the_parking w) = (None, m)"
    using prep assms(8) by (simp add: PrepareOwnedWithdrawal_def the_parking_def)
  have "ex_Snapshot ex (pm_Kernel m) = Inr kst'" using wr files assms(9) by metis
  from parking_executor.prepare_verified [OF assms(1) run assms(5) p owner(4) this
      owned_route.select_convs(4) [of role "[]" 0 "ow_Prefix owner" "()"]]
  have row: "\<exists>row \<in> set (ks_Routes kst'). is_park_row row \<and> op_Prefix row = prefix_String (ow_Prefix owner) \<and>
      op_Metric row \<ge> 42760"
    by (auto simp: checkpoint_verified_def list_ex_iff is_park_row_def)
  have "pk_Prefixes (parking_Snapshot m role) = filter IsHostPrefix ?ps"
    using run assms(5)
    by (auto simp: PrepareWithdrawal_def Let_def parking_Snapshot_def parking_zero_def split: prod.splits option.splits if_splits)
  with p owner(4) parks row show ?thesis by simp
qed

definition second_owner :: selected_route_owner where
  "second_owner = \<lparr>ow_Role = ''home'', ow_Interface = ''tun0'', ow_IfIndex = 7, ow_Prefix = Prefix (Addr4 0x0a000002) 33\<rparr>"

lemma legacy_park_covers_witness:
  "ow_Prefix second_owner \<in> set (pk_Prefixes (parking_of ''home'' (legacy_parked [''10.0.0.1/32''])))"
proof -
  let ?sv = "legacy_services host_executor"
  let ?w = "legacy_synced [''10.0.0.1/32'']"
  let ?run = "driver_Park ?sv ''home'' ?w"
  have "fst ?run = Inr ()" by code_simp
  then have run: "?run = (Inr (), legacy_parked [''10.0.0.1/32''])" unfolding legacy_parked_def by (metis prod.collapse)
  have files: "ex_Snapshot host_executor k' = ex_Snapshot host_executor k"
    if "rv_WriteCheckpoint ?sv path c k = (x, k')" for path c k x k'
    using that by (auto simp: legacy_services_simps host_executor_def)
  have m: "\<not> driver_managed ?sv ''home''" by code_simp
  have l: "loaded ''home'' ?w" by code_simp
  have i: "\<not> pk_Active (parking_of ''home'' ?w)" by code_simp
  have o: "second_owner \<in> set (ownership_of ''home'' ?w)" "ow_Role second_owner = ''home''" "0 < ow_IfIndex second_owner"
    "IsHostPrefix (ow_Prefix second_owner)" "owner_verified (kernel_of ?w) second_owner"
    by code_simp+
  from legacy_park_covers [OF legacy_parks.parking_executor_axioms m legacy_services_simps(1) l _ i run legacy_snapshot
      legacy_snapshot files o]
  show ?thesis by simp
qed

text \<open>A delta that is captured against a baseline is exact: the driver owns the host routes of
  the role's interface that the kernel shows and the baseline does not have, and no other,
  unless there is none and it keeps what it owned.\<close>

lemma captured_delta_exact:
  assumes "rv_Executor sv = Some ex" and "ex_Snapshot ex (host w) = Inr kst" and "baseline_of role w \<noteq> []"
    and "role \<noteq> []" and "captureOwnedDelta sv role r w = (Inr u, w')"
  shows "let captured = {p. p \<in> or_Prefix ` set (role_candidates kst role r) \<and> IsHostPrefix p \<and>
                            p \<notin> or_Prefix ` set (baseline_of role w)}
         in if captured = {} \<and> ownership_of role w \<noteq> [] then ownership_of role w' = ownership_of role w
            else ow_Prefix ` set (ownership_of role w') = captured \<and>
                 (\<forall>v \<in> set (ownership_of role w'). ow_Role v = role \<and> ow_IfIndex v = ob_IfIndex (mr_observed r))"
proof -
  let ?set = "map (\<lambda>v. (or_Prefix v, True)) (baseline_of role w)"
  let ?owned = "map (owner_of role) (filter (\<lambda>v. IsCandidate v ?set) (role_candidates kst role r))"
  have base: "map_of (map (\<lambda>v. (or_Prefix v, True)) b) p = Some True \<longleftrightarrow> p \<in> or_Prefix ` set b" for p b
    by (induction b) auto
  from assms have own: "ownership_of role w' =
      (if ?owned \<noteq> [] \<or> ownership_of role w = [] then ?owned else ownership_of role w)"
    by (auto simp: captureOwnedDelta_def bindT_Inr_iff Let_def write_checkpoint host_call ownership_of_def
        mem_own.snap_replace put_ownership_def update_driver_def split: option.splits prod.splits if_splits)
  define captured where "captured = {p. p \<in> or_Prefix ` set (role_candidates kst role r) \<and> IsHostPrefix p \<and>
        p \<notin> or_Prefix ` set (baseline_of role w)}"
  have pre: "ow_Prefix ` set ?owned = captured"
    by (auto simp: captured_def IsCandidate_def base owner_of_def image_iff)
  have ids: "\<forall>v \<in> set ?owned. ow_Role v = role \<and> ow_IfIndex v = ob_IfIndex (mr_observed r)"
    by (auto simp: owner_of_def role_candidates_def selectedRouteCandidates_def split: if_splits)
  have none: "(?owned = []) = (captured = {})"
    unfolding pre [symmetric] by (simp only: image_is_empty set_empty)
  show ?thesis
  proof (cases "captured = {} \<and> ownership_of role w \<noteq> []")
    case True
    then have c: "(captured = {} \<and> ownership_of role w \<noteq> []) = True" by blast
    from True none own have "ownership_of role w' = ownership_of role w" by (metis (no_types))
    then show ?thesis unfolding captured_def [symmetric] Let_def by (simp only: c if_True)
  next
    case False
    then have c: "(captured = {} \<and> ownership_of role w \<noteq> []) = False" by blast
    from False none own have "ownership_of role w' = ?owned" by (metis (no_types))
    with pre ids show ?thesis unfolding captured_def [symmetric] Let_def by (simp only: c if_False simp_thms)
  qed
qed

lemma delta_empty:
  "rv_Executor sv = Some ex \<Longrightarrow> baseline_of role w = [] \<Longrightarrow> captureOwnedDelta sv role r w = (Inr u, w') \<Longrightarrow> w' = w"
  by (auto simp: captureOwnedDelta_def bindT_apply split: sum.splits)

lemma resync_shape:
  assumes "rv_Leshy sv = Some bridge" and "driver_ResyncLeshy sv role w = (Inr u, w1)"
  shows "\<exists>r k. captureOwnedDelta sv role r
    (update_driver (\<lambda>d. d\<lparr>dv_Selected := (dv_Selected d)\<lparr>sm_Kernel := k\<rparr>\<rparr>) w) = (Inr u, w1)"
proof -
  from assms obtain r where "role_of role w = Some r"
    by (cases "role_of role w") (auto simp: driver_ResyncLeshy_def bindT_apply driver_role_def role_of_def)
  moreover obtain x k where "lb_Resync bridge (role_zone r) (host w) = (x, k)" by force
  ultimately show ?thesis
    using assms
    by (cases x) (auto simp: driver_ResyncLeshy_def bindT_apply driver_role_def role_of_def requireT_apply host_call
        split: if_splits)
qed

text \<open>An empty baseline switches the legacy protection off. The copy of an empty slice is nil, and
  a nil baseline ends the capture: after a publication on an interface without routes nothing is
  ever owned, and a park succeeds without one operation on the kernel, whatever routes
  Leshy installed meanwhile.\<close>

lemma empty_baseline_unprotected:
  assumes "\<not> driver_managed sv role" and "rv_Executor sv = Some ex" and "rv_Leshy sv = Some bridge"
    and "baseline_of role w = []" and "ownership_of role w = []" and "loaded role w" and "role \<noteq> []"
    and "\<not> pk_Active (parking_of role w)"
    and "driver_ResyncLeshy sv role w = (Inr u, w1)" and "driver_Park sv role w1 = (Inr v, w2)"
  shows "ownership_of role w1 = [] \<and> parking_of role w2 = parking_zero \<and>
         (\<exists>path c. rv_WriteCheckpoint sv path c (host w1) = (Inr (), host w2))"
proof -
  from resync_shape [OF assms(3,9)] obtain r k where
    delta: "captureOwnedDelta sv role r (update_driver (\<lambda>d. d\<lparr>dv_Selected := (dv_Selected d)\<lparr>sm_Kernel := k\<rparr>\<rparr>) w) = (Inr u, w1)"
    by blast
  have "w1 = update_driver (\<lambda>d. d\<lparr>dv_Selected := (dv_Selected d)\<lparr>sm_Kernel := k\<rparr>\<rparr>) w"
    by (rule delta_empty [OF assms(2) _ delta]) (simp add: assms(4))
  then have w1: "ownership_of role w1 = []" "loaded role w1" "\<not> pk_Active (parking_of role w1)"
    using assms(5,6,8) by simp_all
  from legacy_park [OF assms(1,2) w1(2,3) assms(10)] obtain m where
    prep: "PrepareOwnedWithdrawal (Some ex) role [] (the_parking w1) = (None, m)"
    and parks: "parking_of role w2 = parking_Snapshot m role"
    and wr: "\<exists>path c. rv_WriteCheckpoint sv path c (pm_Kernel m) = (Inr (), host w2)" unfolding w1(1) by blast
  from prep assms(7) have "pm_Kernel m = host w1" "parking_Snapshot m role = parking_zero"
    by (auto simp: PrepareOwnedWithdrawal_def PrepareWithdrawal_def the_parking_def parking_Snapshot_def split: sum.splits)
  with parks wr w1(1) show ?thesis by simp
qed

lemma empty_baseline_unprotected_witness:
  "parking_of ''home'' (legacy_parked []) = parking_zero \<and>
     tun_route ''10.0.0.2/32'' \<in> set (ks_Routes (kernel_of (legacy_parked [])))"
proof -
  let ?sv = "legacy_services host_executor"
  let ?sync = "driver_ResyncLeshy ?sv ''home'' (legacy_published [])"
  let ?park = "driver_Park ?sv ''home'' (legacy_synced [])"
  have "fst ?sync = Inr ()" by code_simp
  then have sync: "?sync = (Inr (), legacy_synced [])" unfolding legacy_synced_def by (metis prod.collapse)
  have "fst ?park = Inr ()" by code_simp
  then have park: "?park = (Inr (), legacy_parked [])" unfolding legacy_parked_def by (metis prod.collapse)
  have m: "\<not> driver_managed ?sv ''home''" by code_simp
  have w: "baseline_of ''home'' (legacy_published []) = []" "ownership_of ''home'' (legacy_published []) = []"
    "loaded ''home'' (legacy_published [])" "\<not> pk_Active (parking_of ''home'' (legacy_published []))" by code_simp+
  have "tun_route ''10.0.0.2/32'' \<in> set (ks_Routes (kernel_of (legacy_parked [])))" by code_simp
  with empty_baseline_unprotected [OF m legacy_services_simps(1,2) w(1,2,3) _ w(4) sync park] show ?thesis by simp
qed

section \<open>Release\<close>

text \<open>The world after a release of a legacy role, whatever it returned: nothing is owned, recorded as
  parked, or in the baseline.\<close>

definition released :: "string \<Rightarrow> 'k world \<Rightarrow> bool" where
  "released role w \<longleftrightarrow> loaded role w \<and> parking_of role w = parking_zero"

lemma host_released: "released role (snd (on_host t w)) = released role w"
  by (simp add: host_call released_def split: prod.splits)

lemma clear_parks:
  "loaded role w \<Longrightarrow> collect_error fmt (on_parking (parking_Clear ex role)) (errs, w) = (errs', w') \<Longrightarrow> released role w'"
  by (auto simp: collect_error_def on_parking_def parking_Clear_def Let_def released_def parking_Snapshot_def the_parking_def
      split: prod.splits option.splits if_splits sum.splits)

lemma collect_same:
  assumes "\<And>v. f (snd (t v)) = f v"
  shows "f (snd (collect_error fmt t s)) = f (snd s)"
proof (cases s)
  case (Pair errs w)
  with assms [of w] show ?thesis by (cases "t w"; cases "fst (t w)") (auto simp: collect_error_def)
qed

lemma policy_same:
  assumes host: "\<And>(t :: ('k, unit) tx) v. f (snd (on_host t v)) = f v" and res: "\<And>e p k x v. f (set_resources role e p k x v) = f v"
  shows "f (snd (release_policy sv role r product s)) = f (snd s)"
proof -
  have "f (snd (bindT (on_host t) (\<lambda>_. putT (set_resources role e p k x)) v)) = f v" for t :: "('k, unit) tx" and e p k x v
    using host [of t v] by (cases "on_host t v"; cases "fst (on_host t v)") (auto simp: bindT_apply res)
  then show ?thesis
    by (simp add: release_policy_def Let_def collect_same [where f = f] host split: option.splits)
qed

lemma host_same:
  "loaded role (snd (on_host t w)) = loaded role w" "parking_of role (snd (on_host t w)) = parking_of role w"
  by (simp_all add: host_call split: prod.splits)

lemma policy_loaded: "loaded role (snd (release_policy sv role r product s)) = loaded role (snd s)"
  by (rule policy_same) (simp_all add: host_same)

lemma policy_released: "released role (snd (release_policy sv role r product s)) = released role (snd s)"
  by (rule policy_same) (simp_all add: host_same released_def)

lemma write_released: "released role (snd (writeOwnershipCheckpoint sv role w)) = released role w"
  by (auto simp: write_checkpoint host_released split: option.splits)

lemma forget_released:
  "released role (snd (bindT (putT (put_baseline role [] \<circ> put_ownership f)) (\<lambda>_. writeOwnershipCheckpoint sv role) w)) =
     released role w"
  by (simp add: bindT_apply write_released) (simp add: released_def)

text \<open>A release of a legacy role, after the role and its checkpoint were read.\<close>

definition release_steps ::
  "'k recovery_services \<Rightarrow> string \<Rightarrow> manager_role \<Rightarrow> role_runtime \<Rightarrow> 'k world \<Rightarrow> goerror list \<times> 'k world" where
  "release_steps sv role r product w =
     collect_error ''clear ownership checkpoint for %q: %w''
       (bindT (putT (put_baseline role [] \<circ> put_ownership (\<lambda>reg. ownership_Remove reg role))) (\<lambda>_.
        writeOwnershipCheckpoint sv role))
       (collect_error ''release parks for %q: %w'' (on_parking (parking_Clear (rv_Executor sv) role))
         (release_policy sv role r product ([], w)))"

lemma release_eq:
  "\<not> driver_managed sv role \<Longrightarrow> loaded role w \<Longrightarrow> role_of role w = Some r \<Longrightarrow>
     driver_ReleaseResources sv role w =
       (case release_steps sv role r (product_role role w) w of (errs, w') \<Rightarrow>
          (join_errors ''%w (before release: parks-active=%v parked-prefixes=%d owned-routes=%d publication=%v)'' errs, w'))"
  by (simp add: driver_ReleaseResources_def bindT_apply driver_role_def role_of_def mapErrT_def restore_loaded release_steps_def)

lemma release_released:
  assumes "loaded role w"
  shows "released role (snd (release_steps sv role r product w))"
proof -
  obtain errs w1 where pol: "release_policy sv role r product ([], w) = (errs, w1)" by force
  with policy_loaded [of role sv r product "([], w)"] assms have "loaded role w1" by simp
  obtain errs2 w2 where
    clr: "collect_error ''release parks for %q: %w'' (on_parking (parking_Clear (rv_Executor sv) role)) (errs, w1) = (errs2, w2)"
    by force
  from clear_parks [OF \<open>loaded role w1\<close> clr] have "released role w2" .
  then show ?thesis
    by (simp add: release_steps_def pol clr collect_same [where f = "released role"] forget_released)
qed

lemma clear_inactive:
  "\<not> pk_Active (parking_of role w) \<Longrightarrow>
     on_parking (parking_Clear (Some ex) role) w = on_parking (parking_Clear (Some ex') role) w"
  by (simp add: on_parking_def parking_Clear_def parking_of_def)

lemma release_again:
  assumes "released role w" and "rv_Executor sv = Some ex"
  shows "release_steps (sv\<lparr>rv_Executor := Some ex'\<rparr>) role r product w = release_steps sv role r product w"
proof -
  obtain errs w1 where pol: "release_policy sv role r product ([], w) = (errs, w1)" by force
  have "release_policy (sv\<lparr>rv_Executor := Some ex'\<rparr>) role r product ([], w) = release_policy sv role r product ([], w)"
    by (simp add: release_policy_def)
  with pol have same: "release_policy (sv\<lparr>rv_Executor := Some ex'\<rparr>) role r product ([], w) = (errs, w1)" by simp
  from policy_released [of role sv r product "([], w)"] pol assms(1) have "\<not> pk_Active (parking_of role w1)"
    by (simp add: released_def parking_zero_def)
  from clear_inactive [OF this, of ex ex'] assms(2)
  have "collect_error fmt (on_parking (parking_Clear (Some ex') role)) (errs, w1) =
      collect_error fmt (on_parking (parking_Clear (rv_Executor sv) role)) (errs, w1)" for fmt
    by (simp add: collect_error_def)
  moreover have "writeOwnershipCheckpoint (sv\<lparr>rv_Executor := Some ex'\<rparr>) role = writeOwnershipCheckpoint sv role"
    by (rule ext) (simp add: write_checkpoint split: option.split)
  ultimately show ?thesis by (simp add: release_steps_def pol same)
qed

text \<open>A release that could not delete the parks forgets them. Whatever the release of a legacy
  role returned, the driver records nothing as parked afterwards, and a second release behaves the
  same over every executor: it asks for no deletion, so that it reports a clean disconnect
  while the parks of the failed release are still in the kernel.\<close>

lemma release_forgets_parks:
  assumes "\<not> driver_managed sv role" and "rv_Executor sv = Some ex" and "loaded role w"
    and "role_of role w = Some r" and "role_of role w1 = Some r1"
    and "driver_ReleaseResources sv role w = (res, w1)"
  shows "parking_of role w1 = parking_zero \<and>
         (\<forall>ex'. driver_ReleaseResources (sv\<lparr>rv_Executor := Some ex'\<rparr>) role w1 = driver_ReleaseResources sv role w1)"
proof -
  have rel: "released role w1"
    using release_released [OF assms(3), of sv r "product_role role w"] assms(6) release_eq [OF assms(1,3,4)]
    by (auto split: prod.splits)
  then have "loaded role w1" by (simp add: released_def)
  moreover have "\<not> driver_managed (sv\<lparr>rv_Executor := Some ex'\<rparr>) role" for ex'
    using assms(1) by (simp add: driver_managed_def)
  ultimately have "driver_ReleaseResources (sv\<lparr>rv_Executor := Some ex'\<rparr>) role w1 = driver_ReleaseResources sv role w1" for ex'
    using release_again [OF rel assms(2), of ex'] assms(1,5) by (simp add: release_eq)
  with rel show ?thesis by (simp add: released_def)
qed

lemma release_forgets_parks_witness:
  "\<exists>err w1. driver_ReleaseResources (legacy_services failing_executor) ''home'' (legacy_parked [''10.0.0.1/32'']) = (Inl err, w1) \<and>
     fst (driver_ReleaseResources (legacy_services host_executor) ''home'' w1) = Inr () \<and>
     list_ex (\<lambda>row. is_park_row row \<and> op_Prefix row = ''10.0.0.2/32'')
       (ks_Routes (kernel_of (snd (driver_ReleaseResources (legacy_services host_executor) ''home'' w1))))"
proof -
  let ?sv = "legacy_services failing_executor"
  let ?w = "legacy_parked [''10.0.0.1/32'']"
  let ?run = "driver_ReleaseResources ?sv ''home'' ?w"
  have m: "\<not> driver_managed ?sv ''home''" by code_simp
  have l: "loaded ''home'' ?w" by code_simp
  have r: "role_of ''home'' ?w = Some home_role" "role_of ''home'' (snd ?run) = Some home_role" by code_simp+
  have run: "?run = (fst ?run, snd ?run)" by simp
  have sv: "?sv\<lparr>rv_Executor := Some host_executor\<rparr> = legacy_services host_executor" by (simp add: legacy_services_def)
  have again: "driver_ReleaseResources (legacy_services host_executor) ''home'' (snd ?run) =
      driver_ReleaseResources ?sv ''home'' (snd ?run)"
    using release_forgets_parks [OF m legacy_services_simps(1) l r run] unfolding sv [symmetric] by blast
  have failed: "case fst ?run of Inl _ \<Rightarrow> True | Inr _ \<Rightarrow> False" by code_simp
  then obtain err where "fst ?run = Inl err" by (cases "fst ?run") (simp_all only: sum.case simp_thms)
  with run have first: "?run = (Inl err, snd ?run)" by simp
  have "fst (driver_ReleaseResources ?sv ''home'' (snd ?run)) = Inr ()" by code_simp
  moreover have "list_ex (\<lambda>row. is_park_row row \<and> op_Prefix row = ''10.0.0.2/32'')
       (ks_Routes (kernel_of (snd (driver_ReleaseResources ?sv ''home'' (snd ?run)))))"
    by code_simp
  ultimately show ?thesis unfolding again [symmetric] using first by (intro exI conjI)
qed

end
