(* ===== verification/Supervision_Facts.thy ===== *)
theory Supervision_Facts
  imports Driver_Runs Core_Supervision
begin

text \<open>
  What one operation of the core manager may change of the manager's own state. A world is calm
  against an earlier one when it has only more tasks, every flag that was raised since stands
  for a task that was started since, a validation in flight is still in flight, and a role that
  was off is still off. All operations but the few that are meant to are calm, and the relation
  composes, so that the invariants of the supervision are consequences.
\<close>

section \<open>Views of the manager's state\<close>

text \<open>A property that reads the manager's own state only is kept by every step of the recovery driver
  but a replacement of the process.\<close>

locale managed_view =
  fixes P :: "'k world \<Rightarrow> bool"
  assumes reads_managed: "managed w' = managed w \<Longrightarrow> P w \<Longrightarrow> P w'"

sublocale managed_view \<subseteq> selected_view P role for role
  by unfold_locales (rule reads_managed; simp)+

context managed_view
begin

lemma selected_call: "keepsT P (on_selected t)"
proof (rule keepsTI)
  fix w r w'
  assume c: "P w" and run: "on_selected t w = (r, w')"
  from run have "managed w' = managed w" by (auto simp: on_selected_def split: prod.splits)
  from reads_managed [OF this c] show "P w'" .
qed

lemma env_call: "keepsT P (with_env sv f)"
  unfolding with_env_eq by (rule keeps_at) (rule selected_call)

lemma collect_call:
  "keepsT P t \<Longrightarrow> P (snd s) \<Longrightarrow> P (snd (collect_error fmt t s))"
  using keepsTD [of "P" t "snd s" "fst (t (snd s))" "snd (t (snd s))"]
  by (auto simp: collect_error_def split: prod.splits sum.splits)

lemma policy_call:
  "P (snd s) \<Longrightarrow> P (snd (release_policy sv role r product s))"
  unfolding release_policy_def Let_def
  by (auto intro!: collect_call keepsT_bind host_step put split: option.splits)

lemma release_managed_call: "P w \<Longrightarrow> P (snd (releaseManagedSelected sv role w))"
proof -
  assume c: "P w"
  have "P w'" if "with_env sv f w = (x, w')" for f and x :: "goerror + unit" and w'
    using keepsTD [OF env_call c that] .
  moreover have "P (w'\<lparr>ew_Controller := k\<rparr>)" if "P w'" for w' k
    by (rule reads_managed [OF _ that]) simp
  ultimately show ?thesis
    using c by (auto simp: releaseManagedSelected_def driver_role_def Let_def set_resources_def
        split: option.splits prod.splits if_splits)
qed

lemma release_resources: "keepsT P (driver_ReleaseResources sv role)"
proof -
  have managed: "keepsT P (\<lambda>w. case releaseManagedSelected sv role w of (errs, w') \<Rightarrow> (join_errors fmt errs, w'))" for fmt
  proof (rule keepsTI)
    fix w r w'
    assume "P w" and "(case releaseManagedSelected sv role w of (errs, w') \<Rightarrow> (join_errors fmt errs, w')) = (r, w')"
    with release_managed_call [of w sv role] show "P w'" by (auto split: prod.splits)
  qed
  have forget: "keepsT P (bindT (putT (put_baseline role [] \<circ> put_ownership (\<lambda>reg. ownership_Remove reg role))) (\<lambda>_.
               writeOwnershipCheckpoint sv role))"
    by (intro keepsT_bind put checkpoint) simp_all
  have legacy: "keepsT P (\<lambda>w.
       case collect_error f1
              (bindT (putT (put_baseline role [] \<circ> put_ownership (\<lambda>reg. ownership_Remove reg role))) (\<lambda>_.
               writeOwnershipCheckpoint sv role))
              (collect_error f2 (on_parking (parking_Clear (rv_Executor sv) role))
                (release_policy sv role r product ([], w))) of
         (errs, w') \<Rightarrow> (join_errors f3 errs, w'))" for r product f1 f2 f3
  proof (rule keepsTI)
    fix w x w'
    assume c: "P w" and run: "(case collect_error f1
              (bindT (putT (put_baseline role [] \<circ> put_ownership (\<lambda>reg. ownership_Remove reg role))) (\<lambda>_.
               writeOwnershipCheckpoint sv role))
              (collect_error f2 (on_parking (parking_Clear (rv_Executor sv) role))
                (release_policy sv role r product ([], w))) of
         (errs, w') \<Rightarrow> (join_errors f3 errs, w')) = (x, w')"
    have "P (snd (collect_error f1
              (bindT (putT (put_baseline role [] \<circ> put_ownership (\<lambda>reg. ownership_Remove reg role))) (\<lambda>_.
               writeOwnershipCheckpoint sv role))
              (collect_error f2 (on_parking (parking_Clear (rv_Executor sv) role))
                (release_policy sv role r product ([], w)))))"
      by (intro collect_call forget parking_call policy_call) (simp add: c)
    with run show "P w'" by (auto split: prod.splits)
  qed
  show ?thesis
    unfolding driver_ReleaseResources_def
    by (intro keepsT_bind role_step)
       (auto intro!: managed legacy keepsT_bind keepsT_mapErr load_checkpoint split: prod.splits)
qed

lemma observe_restoration: "keepsT P (driver_ObserveRestoration sv role)"
proof -
  have capture: "keepsT P (\<lambda>w. case driver_role role w of (Inl _, w) \<Rightarrow> (Inr (), w)
                           | (Inr (r, _), w) \<Rightarrow> captureOwnedDelta sv role r w)"
  proof (rule keepsTI)
    fix w x w'
    assume c: "P w" and run: "(case driver_role role w of (Inl _, w) \<Rightarrow> (Inr (), w)
                           | (Inr (r, _), w) \<Rightarrow> captureOwnedDelta sv role r w) = (x, w')"
    have "P w1" if "captureOwnedDelta sv role r w = (y, w1)" for r y w1
      using keepsTD [OF delta c that] .
    with c run show "P w'" by (auto simp: driver_role_def split: option.splits)
  qed
  show ?thesis
    unfolding driver_ObserveRestoration_def observeRegisteredRestoration_def
    by (auto intro!: keepsT_bind keepsT_try keepsT_fromSum keepsT_get keepsT_require capture env_call put
        parking_call checkpoint)
qed

lemma park_call: "keepsT P (driver_Park sv role)"
  unfolding driver_Park_def parkRegistered_def
  by (auto intro!: keepsT_bind keepsT_get keepsT_option env_call put parking_call
      checkpoint load_checkpoint)

lemma managed_calls:
  "keepsT P (driver_WithdrawSelected sv role)"
  "keepsT P (driver_RestoreSelected sv role)"
  "keepsT P (driver_FreezeSelected sv role)"
  "keepsT P (driver_UnfreezeSelected sv role)"
  unfolding driver_WithdrawSelected_def driver_RestoreSelected_def driver_FreezeSelected_def driver_UnfreezeSelected_def
  by (auto intro!: keepsT_bind keepsT_get env_call selected_call put split: prod.splits)

lemmas managed_view_steps = driver_steps(1-6,8,9) observe_restoration park_call managed_calls

end

section \<open>Reading the manager's state\<close>

lemma book_update [simp]:
  "book (w\<lparr>ew_Controller := c\<rparr>) = book w"
  "book (bumpLocked w) = book w"
  "book (on_product f w) = book w"
  "book (set_role name g w) = book w"
  "book (update_book h w) = h (book w)"
  by (simp_all add: book_def bumpLocked_def on_product_def set_role_def update_book_def update_driver_def split: option.splits)

lemma book_spawn [simp]: "book (spawn t w) = (book w)\<lparr>bk_tasks := bk_tasks (book w) @ [t]\<rparr>"
  by (simp add: spawn_def)

lemma role_update [simp]:
  "role_of n (w\<lparr>ew_Controller := c\<rparr>) = role_of n w"
  "role_of n (bumpLocked w) = role_of n w"
  "role_of n (on_product f w) = role_of n w"
  "role_of n (update_book h w) = role_of n w"
  "role_of n (spawn t w) = role_of n w"
  "role_of n (set_role name g w) = (if n = name then map_option g (role_of n w) else role_of n w)"
  by (auto simp: role_of_def bumpLocked_def on_product_def set_role_def update_book_def spawn_def update_driver_def
      split: option.splits)

lemma book_controller [simp]:
  "ew_Controller (on_product f w) = snd (f (ew_Controller w))"
  "ew_Controller (bumpLocked w) = ew_Controller w"
  "ew_Controller (update_book h w) = ew_Controller w"
  "ew_Controller (spawn t w) = ew_Controller w"
  "ew_Controller (set_role name g w) = ew_Controller w"
  by (simp_all add: bumpLocked_def on_product_def set_role_def update_book_def spawn_def update_driver_def split: option.splits)

lemma underlay_update [simp]:
  "currentUnderlay (w\<lparr>ew_Controller := c\<rparr>) = currentUnderlay w"
  "currentUnderlay (bumpLocked w) = currentUnderlay w"
  "currentUnderlay (on_product f w) = currentUnderlay w"
  "currentUnderlay (update_book h w) = currentUnderlay w"
  "currentUnderlay (spawn t w) = currentUnderlay w"
  "currentUnderlay (set_role name g w) = currentUnderlay w"
  by (simp_all add: currentUnderlay_def bumpLocked_def on_product_def set_role_def update_book_def spawn_def update_driver_def
      split: option.splits)

lemma on_host_reads:
  assumes "on_host t w = (r, w')"
  shows "role_of n w' = role_of n w" "dv_Roles (ew_Driver w') = dv_Roles (ew_Driver w)" "book w' = book w"
    "ew_Controller w' = ew_Controller w" "currentUnderlay w' = currentUnderlay w"
  using assms by (auto simp: on_host_def on_selected_def on_kernel_def update_driver_def role_of_def book_def
      currentUnderlay_def split: prod.splits)

lemmas host_reads [simp] = on_host_reads [OF surjective_pairing]

lemma persist_reads:
  assumes "persistDesiredLocked ms w = (r, w')"
  shows "role_of n w' = role_of n w" "dv_Roles (ew_Driver w') = dv_Roles (ew_Driver w)"
    "ew_Controller w' = ew_Controller w" "\<exists>status. book w' = (book w)\<lparr>bk_desiredStateStatus := status\<rparr>"
proof -
  have old: "\<exists>status. book w = (book w)\<lparr>bk_desiredStateStatus := status\<rparr>"
    by (rule exI [of _ "bk_desiredStateStatus (book w)"]) simp
  from assms show "role_of n w' = role_of n w" "dv_Roles (ew_Driver w') = dv_Roles (ew_Driver w)"
    "ew_Controller w' = ew_Controller w"
    by (auto simp: persistDesiredLocked_def set_status_def on_host_reads update_book_def update_driver_def role_of_def
        split: option.splits prod.splits sum.splits)
  from assms old show "\<exists>status. book w' = (book w)\<lparr>bk_desiredStateStatus := status\<rparr>"
    by (auto simp: persistDesiredLocked_def set_status_def on_host_reads split: option.splits prod.splits sum.splits)
qed

definition in_flight :: "string \<Rightarrow> 'k world \<Rightarrow> bool" where
  "in_flight n w = (case role_of n w of None \<Rightarrow> False | Some r \<Rightarrow> mr_recoveryInFlight r)"

definition validating :: "string \<Rightarrow> 'k world \<Rightarrow> bool" where
  "validating n w = (case role_of n w of None \<Rightarrow> False | Some r \<Rightarrow> mr_validationInFlight r)"

text \<open>A role that is neither desired nor running.\<close>

definition off :: "string \<Rightarrow> 'k world \<Rightarrow> bool" where
  "off n w = (case role_of n w of None \<Rightarrow> True | Some r \<Rightarrow> \<not> mr_enabled r \<and> mr_process r = None)"

definition tasks :: "'k world \<Rightarrow> manager_task list" where
  "tasks w = bk_tasks (book w)"

text \<open>The contexts that were cancelled.\<close>

definition cancelled :: "'k world \<Rightarrow> nat set" where
  "cancelled w = set (bk_cancelled (book w))"

lemma core_reads:
  "in_flight n w = (case map_option core_of (role_of n w) of None \<Rightarrow> False | Some r \<Rightarrow> rc_recoveryInFlight r)"
  "validating n w = (case map_option core_of (role_of n w) of None \<Rightarrow> False | Some r \<Rightarrow> rc_validationInFlight r)"
  "off n w = (case map_option core_of (role_of n w) of None \<Rightarrow> True | Some r \<Rightarrow> \<not> rc_enabled r \<and> rc_process r = None)"
  by (simp_all add: in_flight_def validating_def off_def core_of_def split: option.splits)

lemma managed_reads:
  assumes "managed w' = managed w"
  shows "book w' = book w" "in_flight n w' = in_flight n w" "validating n w' = validating n w" "off n w' = off n w"
  using assms by (simp_all add: managed_def fun_eq_iff core_reads book_def)

section \<open>Calm worlds\<close>

text \<open>The sets name the roles that are exempt: from the account of recoveries in flight, from that of
  validations, and from staying off.\<close>

definition calm_at :: "string set \<Rightarrow> string set \<Rightarrow> string set \<Rightarrow> 'k world \<Rightarrow> 'k world \<Rightarrow> manager_task list \<Rightarrow> string \<Rightarrow> bool" where
  "calm_at F V C w0 w ts n \<longleftrightarrow>
     (in_flight n w \<longrightarrow> n \<in> F \<or> in_flight n w0 \<or> (\<exists>a b. RecoverTask n a b \<in> set ts)) \<and>
     (flag (bk_recoveryRetryPending (book w)) n \<longrightarrow>
        flag (bk_recoveryRetryPending (book w0)) n \<or> (\<exists>a b. RecoveryRetryTask n a b \<in> set ts)) \<and>
     (flag (bk_startRetryPending (book w)) n \<longrightarrow>
        flag (bk_startRetryPending (book w0)) n \<or> StartRetryTask n \<in> set ts) \<and>
     (validating n w0 \<and> n \<notin> V \<longrightarrow> validating n w \<and> (\<forall>p u. ValidateTask n p u \<notin> set ts)) \<and>
     (off n w0 \<and> n \<notin> C \<longrightarrow> off n w)"

definition calm :: "string set \<Rightarrow> string set \<Rightarrow> string set \<Rightarrow> 'k world \<Rightarrow> 'k world \<Rightarrow> bool" where
  "calm F V C w0 w \<longleftrightarrow> cancelled w0 \<subseteq> cancelled w \<and> (\<exists>ts. tasks w = tasks w0 @ ts \<and> (\<forall>n. calm_at F V C w0 w ts n))"

lemma calmI:
  "cancelled w0 \<subseteq> cancelled w \<Longrightarrow> tasks w = tasks w0 @ ts \<Longrightarrow> (\<And>n. calm_at F V C w0 w ts n) \<Longrightarrow> calm F V C w0 w"
  by (auto simp: calm_def)

lemma calm_refl: "calm F V C w w"
  by (rule calmI [where ts = "[]"]) (simp_all add: calm_at_def)

lemma calm_at_trans:
  "calm_at F V C w0 w1 ts n \<Longrightarrow> calm_at F' V C w1 w2 us n \<Longrightarrow> calm_at (F \<union> F') V C w0 w2 (ts @ us) n"
  unfolding calm_at_def set_append Un_iff ex_disj_distrib by (elim conjE, intro conjI; blast)

lemma calm_trans: "calm F V C w0 w1 \<Longrightarrow> calm F' V C w1 w2 \<Longrightarrow> calm (F \<union> F') V C w0 w2"
  unfolding calm_def by (elim exE conjE) (rule conjI, blast, rule exI, rule conjI, simp, blast intro: calm_at_trans)

lemma calm_step: "calm F V C w0 w \<Longrightarrow> calm {} V C w w' \<Longrightarrow> calm F V C w0 w'"
  using calm_trans [of F V C w0 w "{}" w'] by simp

lemma calm_at_mono: "calm_at F V C w0 w ts n \<Longrightarrow> F \<subseteq> F' \<Longrightarrow> V \<subseteq> V' \<Longrightarrow> C \<subseteq> C' \<Longrightarrow> calm_at F' V' C' w0 w ts n"
  unfolding calm_at_def by (elim conjE, intro conjI; blast)

lemma calm_mono: "calm F V C w0 w \<Longrightarrow> F \<subseteq> F' \<Longrightarrow> V \<subseteq> V' \<Longrightarrow> C \<subseteq> C' \<Longrightarrow> calm F' V' C' w0 w"
  unfolding calm_def by (blast intro: calm_at_mono)

lemma calm_managed:
  assumes "managed w' = managed w" and "calm F V C w0 w"
  shows "calm F V C w0 w'"
  using assms(2) unfolding calm_def calm_at_def tasks_def cancelled_def managed_reads [OF assms(1)] .

text \<open>Dropping an exemption.\<close>

lemma calm_grounded: "calm (insert n F) V C w0 w \<Longrightarrow> \<not> in_flight n w \<Longrightarrow> calm F V C w0 w"
proof -
  have "calm_at (insert n F) V C w0 w ts m \<Longrightarrow> \<not> in_flight n w \<Longrightarrow> calm_at F V C w0 w ts m" for ts m
    by (cases "m = n") (simp_all add: calm_at_def)
  then show "calm (insert n F) V C w0 w \<Longrightarrow> \<not> in_flight n w \<Longrightarrow> calm F V C w0 w" unfolding calm_def by blast
qed

lemma calm_on: "calm F V (insert n C) w0 w \<Longrightarrow> \<not> off n w0 \<Longrightarrow> calm F V C w0 w"
proof -
  have "calm_at F V (insert n C) w0 w ts m \<Longrightarrow> \<not> off n w0 \<Longrightarrow> calm_at F V C w0 w ts m" for ts m
    by (cases "m = n") (simp_all add: calm_at_def)
  then show "calm F V (insert n C) w0 w \<Longrightarrow> \<not> off n w0 \<Longrightarrow> calm F V C w0 w" unfolding calm_def by blast
qed

lemma calm_off: "calm F V C w0 w \<Longrightarrow> n \<notin> C \<Longrightarrow> off n w0 \<Longrightarrow> off n w"
  by (auto simp: calm_def calm_at_def)

section \<open>Elementary updates\<close>

definition quiet_role :: "bool \<Rightarrow> manager_role \<Rightarrow> manager_role \<Rightarrow> bool" where
  "quiet_role exempt r r' \<longleftrightarrow> (mr_recoveryInFlight r' \<longrightarrow> mr_recoveryInFlight r) \<and>
     mr_validationInFlight r' = mr_validationInFlight r \<and>
     (\<not> exempt \<and> \<not> mr_enabled r \<and> mr_process r = None \<longrightarrow> \<not> mr_enabled r' \<and> mr_process r' = None)"

definition quiet_book :: "manager_book \<Rightarrow> manager_book \<Rightarrow> bool" where
  "quiet_book b b' \<longleftrightarrow> bk_tasks b' = bk_tasks b \<and> set (bk_cancelled b) \<subseteq> set (bk_cancelled b') \<and>
     (\<forall>n. (flag (bk_recoveryRetryPending b') n \<longrightarrow> flag (bk_recoveryRetryPending b) n) \<and>
          (flag (bk_startRetryPending b') n \<longrightarrow> flag (bk_startRetryPending b) n))"

lemma calm_simps [simp]:
  "calm F V C w0 (w\<lparr>ew_Controller := c\<rparr>) = calm F V C w0 w"
  "calm F V C w0 (bumpLocked w) = calm F V C w0 w"
  "calm F V C w0 (on_product f w) = calm F V C w0 w"
  by (simp_all add: calm_def calm_at_def tasks_def cancelled_def in_flight_def validating_def off_def)

lemmas reads = tasks_def cancelled_def in_flight_def validating_def off_def

lemma calm_role:
  assumes "calm F V C w0 w" and "\<And>r. quiet_role (name \<in> C) r (f r)"
  shows "calm F V C w0 (set_role name f w)"
proof (rule calm_step [OF assms(1)], rule calmI [where ts = "[]"])
  fix n
  show "calm_at {} V C w (set_role name f w) [] n"
    using assms(2) [of "the (role_of name w)"]
    by (auto simp: calm_at_def reads quiet_role_def split: option.splits)
qed (simp_all add: reads)

lemma calm_book:
  assumes "calm F V C w0 w" and "\<And>b. quiet_book b (f b)"
  shows "calm F V C w0 (update_book f w)"
proof (rule calm_step [OF assms(1)], rule calmI [where ts = "[]"])
  fix n
  show "calm_at {} V C w (update_book f w) [] n"
    using assms(2) [of "book w"] by (simp add: calm_at_def reads quiet_book_def)
qed (use assms(2) [of "book w"] in \<open>simp_all add: reads quiet_book_def\<close>)

lemma calm_spawn:
  assumes "calm F V C w0 w" and "\<And>n p u. t \<noteq> ValidateTask n p u"
  shows "calm F V C w0 (spawn t w)"
proof (rule calm_step [OF assms(1)], rule calmI [where ts = "[t]"])
  fix n
  show "calm_at {} V C w (spawn t w) [t] n"
    using assms(2) by (auto simp: calm_at_def reads)
qed (simp_all add: reads)

lemma calm_spawn_recover: "calm (insert n F) V C w0 w \<Longrightarrow> calm F V C w0 (spawn (RecoverTask n a b) w)"
proof -
  have "calm_at (insert n F) V C w0 w ts m \<Longrightarrow> calm_at F V C w0 (spawn (RecoverTask n a b) w) (ts @ [RecoverTask n a b]) m" for ts m
    unfolding calm_at_def by (cases "m = n"; simp add: reads; blast)
  then show "calm (insert n F) V C w0 w \<Longrightarrow> calm F V C w0 (spawn (RecoverTask n a b) w)"
    unfolding calm_def
    by (elim exE conjE) (rule conjI, simp add: cancelled_def, rule_tac x = "ts @ [RecoverTask n a b]" in exI, auto simp: tasks_def)
qed

lemma calm_set_in_flight: "calm F V C w0 w \<Longrightarrow> calm (insert n F) V C w0 (set_in_flight n w)"
proof -
  have "calm {n} V C w (set_in_flight n w)"
    by (rule calmI [where ts = "[]"]) (auto simp: calm_at_def reads set_in_flight_def split: option.splits if_splits)
  from calm_trans [OF _ this, of F w0] show "calm F V C w0 w \<Longrightarrow> calm (insert n F) V C w0 (set_in_flight n w)" by simp
qed

lemma calm_arm_recovery:
  assumes "calm F V C w0 w"
  shows "calm F V C w0 (spawn (RecoveryRetryTask n a e) (on_product g
     (update_book (\<lambda>b. b\<lparr>bk_recoveryBackoffs := bs, bk_recoveryRetryPending := gomap_put n True (bk_recoveryRetryPending b)\<rparr>) w)))"
  by (rule calm_step [OF assms], rule calmI [where ts = "[RecoveryRetryTask n a e]"]) (auto simp: calm_at_def reads)

lemma calm_arm_start:
  assumes "calm F V C w0 w"
  shows "calm F V C w0 (spawn (StartRetryTask n) (on_product g
     (update_book (\<lambda>b. b\<lparr>bk_startBackoffs := bs, bk_startRetryPending := gomap_put n True (bk_startRetryPending b)\<rparr>) w)))"
  by (rule calm_step [OF assms], rule calmI [where ts = "[StartRetryTask n]"]) (auto simp: calm_at_def reads)

interpretation calm_world: managed_view "calm F V C w0" for F V C w0
  by unfold_locales (rule calm_managed)

section \<open>Starting and stopping\<close>

lemmas quiet_simps = quiet_role_def quiet_book_def

lemma snd_keeps: "keepsT P t \<Longrightarrow> P w \<Longrightarrow> P (snd (t w))"
  using keepsTD [of P t w "fst (t w)" "snd (t w)"] by simp

lemma calm_fail_configuration: "calm F V C w0 w \<Longrightarrow> calm F V C w0 (failByConfiguration name e w)"
  unfolding failByConfiguration_def by (simp, rule calm_role) (simp_all add: quiet_simps)

lemma calm_schedule_start: "calm F V C w0 w \<Longrightarrow> calm F V C w0 (scheduleStartRetry ms name w)"
  unfolding scheduleStartRetry_def by (auto split: option.splits prod.splits intro: calm_arm_start)

lemma calm_defer: "calm F V C w0 w \<Longrightarrow> calm F V C w0 (defer_start name reason w)"
  unfolding defer_start_def by (auto split: option.splits intro!: calm_role simp: quiet_simps)

lemma calm_prepared: "calm F V C w0 w \<Longrightarrow> calm F V C w0 (start_prepared name w)"
  unfolding start_prepared_def by (auto intro!: calm_book calm_role simp: quiet_simps)

lemma calm_prepare: "keepsT (calm F V C w0) (prepareRoleStart ms name)"
proof (rule keepsTI)
  fix w r w'
  assume c: "calm F V C w0 w" and run: "prepareRoleStart ms name w = (r, w')"
  have "calm F V C w0 w1" if "driver_ApplyEndpoint (ms_Recovery ms) name w = (x, w1)" for x w1
    using keepsTD [OF calm_world.apply_endpoint c that] .
  with c run show "calm F V C w0 w'"
    by (auto simp: prepareRoleStart_def Let_def split: option.splits if_splits prod.splits sum.splits
        intro!: calm_schedule_start calm_defer calm_prepared)
qed

lemma calm_begin_launch: "calm F V C w0 w \<Longrightarrow> calm F V C w0 (begin_launch name w)"
  unfolding begin_launch_def by (intro calm_book calm_role) (simp_all add: quiet_simps)

lemma calm_last_error: "calm F V C w0 w \<Longrightarrow> calm F V C w0 (set_last_error name text w)"
  unfolding set_last_error_def by (auto intro!: calm_role simp: quiet_simps)

text \<open>A process is adopted by a role that is enabled only.\<close>

lemma calm_adopt: "keepsT (calm F V C w0) (adopt_process ms name p)"
proof (rule keepsTI)
  fix w r w'
  assume c: "calm F V C w0 w" and run: "adopt_process ms name p w = (r, w')"
  have stop: "calm F V C w0 (snd (on_host t w))" for t :: "('a, unit) tx" by (rule snd_keeps [OF calm_world.host_step c])
  have adopt: "calm F V C w0 (set_role name (\<lambda>r. r\<lparr>mr_process := Some p, mr_controlSocket := s, mr_lastError := []\<rparr>) w)"
    if "role_of name w = Some r" "mr_enabled r" for r s
    by (rule calm_step [OF c], rule calmI [where ts = "[]"]) (use that in \<open>auto simp: calm_at_def reads\<close>)
  from c run stop adopt show "calm F V C w0 w'"
    by (auto simp: adopt_process_def Let_def split: option.splits if_splits intro!: calm_spawn)
qed

lemma calm_launch: "keepsT (calm F V C w0) (launch_role ms name)"
proof (rule keepsTI)
  fix w r w'
  assume c: "calm F V C w0 w" and run: "launch_role ms name w = (r, w')"
  let ?v = "\<lambda>r. snd (on_host (ms_Remove ms (role_state_dir r @ ''/state.json'')) (begin_launch name w))"
  have v: "calm F V C w0 (?v r)" for r by (rule snd_keeps [OF calm_world.host_step calm_begin_launch [OF c]])
  have h: "calm F V C w0 w1" if "on_host t (?v r) = (x, w1)" for t :: "('a, nat) tx" and r x w1
    using keepsTD [OF calm_world.host_step v that] .
  have a: "calm F V C w0 w2" if "on_host t (?v r) = (x, w1)" "adopt_process ms name p w1 = (y, w2)"
    for t :: "('a, nat) tx" and r x w1 p y w2
    using keepsTD [OF calm_adopt h [OF that(1)] that(2)] .
  from c run h a show "calm F V C w0 w'"
    by (auto simp: launch_role_def split: option.splits if_splits prod.splits sum.splits intro!: calm_role simp: quiet_simps)
qed

lemma calm_start: "keepsT (calm F V C w0) (startRoleProcess ms name)"
proof (rule keepsTI)
  fix w r w'
  assume c: "calm F V C w0 w" and run: "startRoleProcess ms name w = (r, w')"
  have "keepsT (calm F V C w0) (bindT (prepareRoleStart ms name) (\<lambda>ready. if ready then launch_role ms name else returnT ()))"
    by (intro keepsT_bind calm_prepare keepsT_if calm_launch keepsT_return)
  from keepsTD [OF this c] c run show "calm F V C w0 w'"
    by (auto simp: startRoleProcess_def split: option.splits intro: calm_fail_configuration)
qed

section \<open>Releasing\<close>

lemma calm_stop_toad: "calm F V C w0 w \<Longrightarrow> calm F V C w0 (stopToad ms socket w)"
  unfolding stopToad_def by (auto intro: snd_keeps [OF calm_world.host_step])

lemma context_book [simp]:
  "bk_tasks (register_context n b) = bk_tasks b" "bk_tasks (cancel_context c b) = bk_tasks b"
  "bk_tasks (forget_context n b) = bk_tasks b" "bk_tasks (cancel_recovery n b) = bk_tasks b"
  "bk_recoveryRetryPending (register_context n b) = bk_recoveryRetryPending b"
  "bk_recoveryRetryPending (cancel_context c b) = bk_recoveryRetryPending b"
  "bk_recoveryRetryPending (forget_context n b) = bk_recoveryRetryPending b"
  "bk_startRetryPending (register_context n b) = bk_startRetryPending b"
  "bk_startRetryPending (cancel_context c b) = bk_startRetryPending b"
  "bk_startRetryPending (forget_context n b) = bk_startRetryPending b"
  "bk_startRetryPending (cancel_recovery n b) = bk_startRetryPending b"
  "bk_cancelled (register_context n b) = bk_cancelled b" "bk_cancelled (cancel_context c b) = c # bk_cancelled b"
  "bk_cancelled (forget_context n b) = bk_cancelled b"
  by (simp_all add: register_context_def cancel_context_def forget_context_def cancel_recovery_def split: option.splits)

lemma cancel_recovery_adds: "c \<in> set (bk_cancelled b) \<Longrightarrow> c \<in> set (bk_cancelled (cancel_recovery n b))"
  by (auto simp: cancel_recovery_def split: option.splits)

lemma calm_stop_section: "calm F V C w0 w \<Longrightarrow> calm F V C w0 (stop_section name w)"
  unfolding stop_section_def by (auto intro!: calm_book calm_role simp: quiet_simps cancel_recovery_adds)

lemma calm_stop: "keepsT (calm F V C w0) (stopRoleProcess ms name)"
proof (rule keepsTI)
  fix w r w'
  assume c: "calm F V C w0 w" and run: "stopRoleProcess ms name w = (r, w')"
  let ?w1 = "stop_section name w"
  have w1: "calm F V C w0 ?w1" by (rule calm_stop_section [OF c])
  have "calm F V C w0 w2" if "mapErrT f (on_host t) (stopToad ms s ?w1) = (x, w2)"
    for f and t :: "('a, unit) tx" and s x w2
    using keepsTD [OF keepsT_mapErr [OF calm_world.host_step] calm_stop_toad [OF w1] that] .
  with c run w1 show "calm F V C w0 w'"
    by (auto simp: stopRoleProcess_def Let_def split: option.splits)
qed

lemma calm_release_role: "keepsT (calm F V C w0) (releaseRoleResources ms name skip)"
proof (rule keepsTI)
  fix w r w'
  assume c: "calm F V C w0 w" and run: "releaseRoleResources ms name skip w = (r, w')"
  have "calm F V C w0 w1" if "driver_ReleaseResources (ms_Recovery ms) name w = (x, w1)" for x w1
    using keepsTD [OF calm_world.release_resources c that] .
  with c run show "calm F V C w0 w'"
    by (auto simp: releaseRoleResources_def split: if_splits prod.splits sum.splits option.splits intro!: calm_last_error)
qed

lemma calm_stop_release: "keepsT (calm F V C w0) (stop_and_release ms name)"
proof (rule keepsTI)
  fix w r w'
  assume c: "calm F V C w0 w" and run: "stop_and_release ms name w = (r, w')"
  then obtain x w1 y where "stopRoleProcess ms name w = (x, w1)" "releaseRoleResources ms name True w1 = (y, w')"
    by (auto simp: stop_and_release_def split: prod.splits)
  from keepsTD [OF calm_release_role keepsTD [OF calm_stop c this(1)] this(2)] show "calm F V C w0 w'" .
qed

section \<open>Commands\<close>

lemma calm_persist: "keepsT (calm F V C w0) (persistDesiredLocked ms)"
proof (rule keepsTI)
  fix w r w'
  assume c: "calm F V C w0 w" and run: "persistDesiredLocked ms w = (r, w')"
  have "calm F V C w0 w1" if "on_host t w = (x, w1)" for t :: "('a, unit) tx" and x w1
    using keepsTD [OF calm_world.host_step c that] .
  with c run show "calm F V C w0 w'"
    by (auto simp: persistDesiredLocked_def set_status_def split: option.splits prod.splits sum.splits
        intro!: calm_book simp: quiet_simps)
qed

lemma calm_connect: "name \<in> C \<Longrightarrow> keepsT (calm F V C w0) (ConnectRole ms name)"
proof (rule keepsTI)
  fix w r w'
  assume C: "name \<in> C" and c: "calm F V C w0 w" and run: "ConnectRole ms name w = (r, w')"
  let ?w1 = "on_product (SetRoleDesired name True)
      (set_role name (\<lambda>r. r\<lparr>mr_operation := (if mr_enabled r then mr_operation r else mr_operation r + 1), mr_enabled := True\<rparr>) w)"
  have w1: "calm F V C w0 ?w1" using c C by (auto intro!: calm_role simp: quiet_simps)
  have p: "calm F V C w0 w2" if "persistDesiredLocked ms ?w1 = (x, w2)" for x w2 using keepsTD [OF calm_persist w1 that] .
  have s: "calm F V C w0 w3" if "persistDesiredLocked ms ?w1 = (x, w2)" "startRoleProcess ms name (bumpLocked w2) = (y, w3)" for x w2 y w3
    by (rule keepsTD [OF calm_start _ that(2)]) (simp add: p [OF that(1)])
  from c run p s C show "calm F V C w0 w'"
    by (auto simp: ConnectRole_def Let_def split: option.splits prod.splits sum.splits
        intro!: calm_fail_configuration calm_role simp: quiet_simps)
qed

text \<open>A replacement connects the role it stopped, which was running.\<close>

lemma calm_restart: "keepsT (calm F V C w0) (restartRole ms name)"
proof (rule keepsTI)
  fix w r w'
  assume c: "calm F V C w0 w" and run: "restartRole ms name w = (r, w')"
  show "calm F V C w0 w'"
  proof (cases "off name w \<and> name \<notin> C")
    case True
    with run keepsTD [OF calm_start c] c show ?thesis
      by (auto simp: restartRole_def off_def split: option.splits)
  next
    case False
    then have on: "name \<in> C \<or> \<not> off name w0" using calm_off [OF c] by blast
    let ?C = "insert name C"
    have c': "calm F V ?C w0 w" by (rule calm_mono [OF c]) auto
    have v: "calm F V ?C w0 (stopToad ms s (detach_process name w))" for s
      using c' unfolding detach_process_def by (auto intro!: calm_stop_toad calm_role simp: quiet_simps)
    have "keepsT (calm F V ?C w0) (bindT (on_host (ms_Stop ms p)) (\<lambda>_. ConnectRole ms name))" for p
      by (intro keepsT_bind calm_world.host_step calm_connect) simp
    from keepsTD [OF this v] keepsTD [OF calm_start c'] c' run have "calm F V ?C w0 w'"
      by (auto simp: restartRole_def replace_process_def split: option.splits)
    with on show ?thesis using calm_on [of F V name C w0 w'] by (auto simp: insert_absorb)
  qed
qed

lemma calm_start_transport: "keepsT (calm F V C w0) (driver_StartTransport (wired ms) name)"
  by (rule calm_world.start) (simp add: wired_def calm_restart)

end
