(* ===== verification/Restart_Properties.thy ===== *)
theory Restart_Properties
  imports Supervision_Facts Driver_Properties Sample_Manager
begin

text \<open>
  The recovery driver with the manager's own process replacement: what holds of a recovery
  whatever the replacement does holds of the driver as the manager wires it.
\<close>

section \<open>Process replacement and the selected routes\<close>

lemma book_selected [simp]:
  "selected (w\<lparr>ew_Controller := c\<rparr>) = selected w"
  "selected (bumpLocked w) = selected w"
  "selected (on_product f w) = selected w"
  "selected (update_book h w) = selected w"
  "selected (spawn t w) = selected w"
  "selected (set_role name g w) = selected w"
  by (simp_all add: selected_def bumpLocked_def on_product_def set_role_def update_book_def spawn_def update_driver_def
      split: option.splits)

text \<open>A view of the world that reads the registry and the role states of the selected routes only.\<close>

locale routes_view = selected_view P role for P :: "'k world \<Rightarrow> bool" and role +
  assumes reads_routes: "sm_Registry (selected w') = sm_Registry (selected w) \<Longrightarrow>
      sm_Roles (selected w') = sm_Roles (selected w) \<Longrightarrow> P w \<Longrightarrow> P w'"
begin

lemma manager_update: "selected w' = selected w \<Longrightarrow> P w' = P w"
  using reads_routes [of w w'] reads_routes [of w' w] by auto

lemma manager_updates:
  "P (w\<lparr>ew_Controller := c\<rparr>) = P w" "P (bumpLocked w) = P w" "P (on_product f w) = P w" "P (update_book h w) = P w"
  "P (spawn t w) = P w" "P (set_role name g w) = P w"
  by (rule manager_update; simp)+

lemma prepare_call: "keepsT P (prepareRoleStart ms name)"
proof (rule keepsTI)
  fix w r w'
  assume c: "P w" and run: "prepareRoleStart ms name w = (r, w')"
  have "P v" if "driver_ApplyEndpoint (ms_Recovery ms) name w = (x, v)" for x v
    using keepsTD [OF apply_endpoint c that] .
  with c run show "P w'"
    by (auto simp: prepareRoleStart_def scheduleStartRetry_def defer_start_def start_prepared_def Let_def
        split: option.splits if_splits prod.splits sum.splits simp: manager_updates)
qed

lemma launch_call: "keepsT P (launch_role ms name)"
proof (rule keepsTI)
  fix w r w'
  assume c: "P w" and run: "launch_role ms name w = (r, w')"
  let ?v = "\<lambda>r. snd (on_host (ms_Remove ms (role_state_dir r @ ''/state.json'')) (begin_launch name w))"
  have "P (begin_launch name w)" by (simp add: begin_launch_def manager_updates c)
  then have v: "P (?v r)" for r by (rule snd_keeps [OF host_step])
  have h: "P w1" if "on_host t (?v r) = (x, w1)" for t :: "('k, nat) tx" and r x w1
    using keepsTD [OF host_step v that] .
  have s: "P (snd (on_host t w1))" if "P w1" for t :: "('k, unit) tx" and w1 by (rule snd_keeps [OF host_step that])
  from c run h s show "P w'"
    by (auto simp: launch_role_def adopt_process_def Let_def split: option.splits if_splits prod.splits sum.splits
        simp: manager_updates)
qed

lemma start_process_call: "keepsT P (startRoleProcess ms name)"
proof (rule keepsTI)
  fix w r w'
  assume c: "P w" and run: "startRoleProcess ms name w = (r, w')"
  have "keepsT P (bindT (prepareRoleStart ms name) (\<lambda>ready. if ready then launch_role ms name else returnT ()))"
    by (intro keepsT_bind prepare_call keepsT_if launch_call keepsT_return)
  from keepsTD [OF this c] c run show "P w'"
    by (auto simp: startRoleProcess_def failByConfiguration_def split: option.splits simp: manager_updates)
qed

lemma connect_call: "keepsT P (ConnectRole ms name)"
proof (rule keepsTI)
  fix w r w'
  assume c: "P w" and run: "ConnectRole ms name w = (r, w')"
  let ?w1 = "on_product (SetRoleDesired name True)
      (set_role name (\<lambda>r. r\<lparr>mr_operation := (if mr_enabled r then mr_operation r else mr_operation r + 1), mr_enabled := True\<rparr>) w)"
  have w1: "P ?w1" by (simp add: manager_updates c)
  have h: "P v" if "on_host t ?w1 = (x, v)" for t :: "('k, unit) tx" and x v using keepsTD [OF host_step w1 that] .
  have p: "P v" if "persistDesiredLocked ms ?w1 = (x, v)" for x v
    using that w1 by (auto simp: persistDesiredLocked_def set_status_def split: option.splits prod.splits sum.splits
        dest!: h simp: manager_updates)
  have s: "P w3" if "P w2" "startRoleProcess ms name (bumpLocked w2) = (y, w3)" for w2 y w3
    by (rule keepsTD [OF start_process_call _ that(2)]) (simp add: manager_updates that)
  from c run p s show "P w'"
    by (auto simp: ConnectRole_def failByConfiguration_def Let_def split: option.splits prod.splits sum.splits
        simp: manager_updates)
qed

lemma restart_call: "keepsT P (restartRole ms name)"
proof (rule keepsTI)
  fix w r w'
  assume c: "P w" and run: "restartRole ms name w = (r, w')"
  have "P (detach_process name w)" by (simp add: detach_process_def manager_updates c)
  then have v: "P (stopToad ms socket (detach_process name w))" for socket
    unfolding stopToad_def by (auto intro: snd_keeps [OF host_step])
  have "keepsT P (bindT (on_host (ms_Stop ms p)) (\<lambda>_. ConnectRole ms name))" for p
    by (intro keepsT_bind host_step connect_call)
  from keepsTD [OF this v] keepsTD [OF start_process_call c] c run show "P w'"
    by (auto simp: restartRole_def replace_process_def split: option.splits)
qed

end

interpretation frozen_routes: routes_view "\<lambda>w. frozen role (selected w)" role for role
  by unfold_locales (auto simp: frozen_def roleState_def selected_def update_driver_def touch_role_def update_role_def
      split: option.splits)

section \<open>Failed recoveries\<close>

text \<open>C6: a recovery of a managed role that fails after it froze the role leaves the role frozen, so
  that no intent of Leshy is admitted while its routes may be withdrawn or parked. This holds of
  the driver as the manager wires it, also when the recovery replaced the process of the role.\<close>

theorem wired_failure_stays_frozen:
  assumes "driver_managed (wired ms) role" and "controller_Role (ew_Controller w) role = Some product"
    and "DecideRole product (co_Underlay (ew_Controller w)) (ts_Capabilities (rr_Toad product)) \<in> disruptive"
    and "Recover (recovery_engine (wired ms) role) role operation epoch w = (Some err, w')"
    and "\<not> errorsIs err ErrRecoveryCancelled"
  shows "frozen role (selected w')"
proof -
  have "keepsT (\<lambda>w. frozen role (selected w)) (rv_restartRole (wired ms) role)"
    using frozen_routes.restart_call by (simp add: wired_def)
  from failed_recovery_frozen [OF assms(1) this assms(2-5)] show ?thesis .
qed

theorem wired_failure_stays_frozen_witness:
  "\<exists>err w'. Recover (recovery_engine (wired (manager_on (quiet_services (sample_env 7)))) ''home'') ''home'' 1 2
           (home_world frozen_manager) = (Some err, w') \<and> errorsIs err ErrRoutesStillParked \<and>
      frozen ''home'' (selected w')"
proof -
  let ?w = "home_world frozen_manager :: unit world"
  let ?sv = "wired (manager_on (quiet_services (sample_env 7)))"
  let ?run = "Recover (recovery_engine ?sv ''home'') ''home'' 1 2 ?w"
  have res: "fst ?run = Some (Sentinel ErrRoutesStillParked)" by code_simp
  then obtain w' where run: "?run = (Some (Sentinel ErrRoutesStillParked), w')" by (metis prod.collapse)
  have 1: "driver_managed ?sv ''home''" by code_simp
  have 3: "controller_Role (ew_Controller ?w) ''home'' = Some home_runtime"
    by (simp add: home_world_def controller_Role_def)
  have 4: "DecideRole home_runtime (co_Underlay (ew_Controller ?w)) (ts_Capabilities (rr_Toad home_runtime)) \<in> disruptive"
    by code_simp
  from wired_failure_stays_frozen [OF 1 3 4 run] run show ?thesis by (simp add: exI)
qed

end
