(* ===== verification/Supervision_Runs.thy ===== *)
theory Supervision_Runs
  imports Supervision_Facts
begin

text \<open>
  The recovery worker, the validations, the observations and the timers of the core manager
  against the relation of \<^verbatim>\<open>Supervision_Facts\<close>, and the steps of the manager as a whole.
\<close>

section \<open>The recovery worker\<close>

lemma calm_driver: "keepsT (calm F V C w0) (driver_tx (wired ms) step name)"
  by (cases step)
     (simp_all add: calm_world.managed_view_steps calm_start_transport)

lemma calm_work:
  assumes "calm F V C w0 w1" "driver_work (wired ms) name step w1 = (r, w2)"
  shows "calm F V C w0 w2"
  using assms(2)
proof (cases rule: work_cases)
  case called
  from as_call_keeps [where t = "driver_tx (wired ms) step", OF calm_driver assms(1) called] show ?thesis .
qed (use assms(1) in simp)

lemma calm_recover:
  assumes c: "calm F V C w0 w" and run: "Recover (recovery_engine (wired ms) name) role operation epoch w = (err, w')"
    and role: "role = name"
  shows "calm F V C w0 w'"
proof -
  have steps: "calm F V C w0 w1"
    if "run_steps (engine_work (recovery_engine (wired ms) name) name) ss rec w = (e, rec', w1)" for ss rec e rec' w1
    by (rule run_steps_keeps [where I = "calm F V C w0", OF _ that c]) (use calm_work in \<open>auto simp: driver_work_def\<close>)
  from run c role show ?thesis
    by (auto simp: Recover_def RunRecoverySteps_def Let_def commit_recovery_def dest: steps
        split: option.splits if_splits prod.splits)
qed

text \<open>Every way out of the worker takes the role out of flight.\<close>

lemma grounded_role: "(\<And>r. \<not> mr_recoveryInFlight (f r)) \<Longrightarrow> \<not> in_flight n (set_role n f w)"
  by (simp add: in_flight_def split: option.splits)

lemma flight_keeps [simp]:
  "in_flight n (w\<lparr>ew_Controller := c\<rparr>) = in_flight n w" "in_flight n (bumpLocked w) = in_flight n w"
  "in_flight n (on_product f w) = in_flight n w" "in_flight n (update_book h w) = in_flight n w"
  "in_flight n (spawn t w) = in_flight n w"
  by (simp_all add: in_flight_def)

lemma calm_schedule_recovery: "calm F V C w0 w \<Longrightarrow> calm F V C w0 (scheduleRecoveryRetry ms name operation epoch w)"
  unfolding scheduleRecoveryRetry_def by (auto split: prod.splits intro: calm_arm_recovery)

lemma flight_schedule [simp]: "in_flight n (scheduleRecoveryRetry ms name operation epoch w) = in_flight n w"
  by (simp add: scheduleRecoveryRetry_def split: prod.splits)

lemma calm_track: "calm F V C w0 w \<Longrightarrow> calm F V C w0 (trackRecoveryFailure name err w)"
  unfolding trackRecoveryFailure_def Let_def
  by (auto split: option.splits intro!: calm_role calm_book simp: quiet_simps)

lemma calm_end:
  "calm F V C w0 w \<Longrightarrow> calm F V C w0 (end_recovery name k w)"
  "calm F V C w0 w \<Longrightarrow> calm F V C w0 (clear_in_flight name w)"
  unfolding end_recovery_def clear_in_flight_def by (auto intro!: calm_role simp: quiet_simps)

lemma grounded_end [simp]: "\<not> in_flight name (end_recovery name k w)" "\<not> in_flight name (clear_in_flight name w)"
  unfolding end_recovery_def clear_in_flight_def by (rule grounded_role; simp)+

lemma calm_settle: "calm F V C w0 w \<Longrightarrow> calm F V C w0 (settle_recovery ms name operation epoch err w)"
  unfolding settle_recovery_def
  by (auto split: option.splits intro!: calm_end calm_book calm_spawn calm_schedule_recovery simp: quiet_simps)

lemma grounded_settle: "\<not> in_flight name (settle_recovery ms name operation epoch err w)"
  by (auto simp: settle_recovery_def in_flight_def [where w = w] split: option.splits)

lemma calm_discard: "calm F V C w0 w \<Longrightarrow> calm F V C w0 (discardRecoveryTransaction name w)"
  unfolding discardRecoveryTransaction_def by (auto intro!: calm_end calm_book simp: quiet_simps)

lemma grounded_discard: "\<not> in_flight name (discardRecoveryTransaction name w)"
  by (simp add: discardRecoveryTransaction_def)

lemma calm_register: "calm F V C w0 w \<Longrightarrow> calm F V C w0 (update_book (register_context name) w)"
  by (rule calm_book) (simp_all add: quiet_simps)

lemma calm_end_context: "calm F V C w0 w \<Longrightarrow> calm F V C w0 (end_context name c w)"
  unfolding end_context_def by (rule calm_book) (auto simp: quiet_simps)

lemma calm_recover_role:
  assumes "calm (insert name F) V C w0 w"
  shows "calm F V C w0 (snd (recoverRole ms name operation epoch w))"
proof (rule calm_grounded)
  obtain err w1 where run: "run_recovery ms name operation epoch w = (err, w1)" by force
  from calm_recover [OF calm_register [OF assms] run [unfolded run_recovery_def] refl] run
  show "calm (insert name F) V C w0 (snd (recoverRole ms name operation epoch w))"
    by (simp add: recoverRole_def calm_end_context calm_discard calm_settle calm_track)
  from run show "\<not> in_flight name (snd (recoverRole ms name operation epoch w))"
    by (simp add: recoverRole_def end_context_def grounded_settle grounded_discard)
qed

lemma calm_recover_plain: "calm F V C w0 w \<Longrightarrow> calm F V C w0 (snd (recoverRole ms name operation epoch w))"
  by (rule calm_recover_role, erule calm_mono) auto

section \<open>Timers and requests\<close>

lemma calm_retry_due: "calm F V C w0 w \<Longrightarrow> calm F V C w0 (recovery_retry_due ms name operation epoch w)"
  unfolding recovery_retry_due_def Let_def
  by (auto intro!: calm_recover_role calm_set_in_flight calm_book simp: quiet_simps)

lemma calm_handoff: "calm F V C w0 w \<Longrightarrow> calm F V C w0 (handoff_due ms name operation epoch w)"
  unfolding handoff_due_def
  by (auto split: option.splits intro!: calm_schedule_recovery calm_end calm_book simp: quiet_simps)

lemma calm_request: "calm F V C w0 w \<Longrightarrow> calm F V C w0 (requestManagedSelectedRecovery name reason w)"
proof -
  assume c: "calm F V C w0 w"
  have "calm F V C w0 (clear_in_flight name (set_in_flight name w))"
    by (rule calm_grounded [where n = name]) (auto intro: calm_end calm_set_in_flight c)
  with c show ?thesis
    unfolding requestManagedSelectedRecovery_def Let_def
    by (auto split: option.splits prod.splits bool.splits intro!: calm_spawn_recover calm_set_in_flight)
qed

lemma lower_current: "role_of name w = Some r \<Longrightarrow> mr_process r = Some p \<Longrightarrow> lower_in_flight name p w = clear_in_flight name w"
  by (simp add: lower_in_flight_def clear_in_flight_def set_role_of_process_def process_current_def role_of_def)

lemma calm_lower: "calm F V C w0 w \<Longrightarrow> calm F V C w0 (lower_in_flight name p w)"
  unfolding lower_in_flight_def set_role_of_process_def by (auto intro!: calm_role simp: quiet_simps)

lemma calm_begin_route_target: "calm F V C w0 w \<Longrightarrow> calm (insert name F) V C w0 (snd (begin_route_target name p w))"
proof -
  assume c: "calm F V C w0 w"
  then have "calm (insert name F) V C w0 w" by (rule calm_mono) auto
  with calm_set_in_flight [OF c, of name] show ?thesis by (simp add: begin_route_target_def split: option.splits)
qed

lemma calm_finish_route_target: "calm F V C w0 w \<Longrightarrow> calm F V C w0 (finish_route_target name p request w)"
  unfolding finish_route_target_def by (auto split: prod.splits bool.splits option.splits intro!: calm_lower calm_spawn)

lemma calm_route_target: "calm F V C w0 w \<Longrightarrow> calm F V C w0 (scheduleRouteTargetRecovery name p w)"
proof -
  assume c: "calm F V C w0 w"
  have "calm F V C w0 (lower_in_flight name p ((set_in_flight name w)\<lparr>ew_Controller := k\<rparr>))"
    if "role_of name w = Some r" "mr_process r = Some p" for k r
  proof -
    have "lower_in_flight name p ((set_in_flight name w)\<lparr>ew_Controller := k\<rparr>) =
        clear_in_flight name ((set_in_flight name w)\<lparr>ew_Controller := k\<rparr>)"
      by (rule lower_current [where r = "r\<lparr>mr_recoveryInFlight := True\<rparr>"]) (use that in \<open>simp_all add: set_in_flight_def\<close>)
    moreover have "calm F V C w0 (clear_in_flight name ((set_in_flight name w)\<lparr>ew_Controller := k\<rparr>))"
      by (rule calm_grounded [where n = name]) (auto intro: calm_end simp: calm_set_in_flight c)
    ultimately show ?thesis by simp
  qed
  with c show ?thesis
    unfolding scheduleRouteTargetRecovery_def begin_route_target_def finish_route_target_def
    by (auto split: option.splits prod.splits bool.splits intro!: calm_spawn_recover calm_set_in_flight)
qed

lemma calm_flights:
  "calm F V C w0 w \<Longrightarrow> calm (fst ` set xs \<union> F) V C w0 (foldl (\<lambda>v (name, operation). set_in_flight name v) w xs)"
proof (induction xs arbitrary: F w)
  case (Cons x xs)
  have names: "fst ` set xs \<union> insert (fst x) F = fst ` set (x # xs) \<union> F" by auto
  from Cons.IH [OF calm_set_in_flight [OF Cons.prems, of "fst x"]] show ?case
    unfolding names by (simp add: case_prod_unfold)
qed simp

lemma calm_recoveries:
  "calm (fst ` set xs \<union> F) V C w0 w \<Longrightarrow>
     calm F V C w0 (foldl (\<lambda>v (name, operation). snd (recoverRole ms name operation epoch v)) w xs)"
proof (induction xs arbitrary: w)
  case (Cons x xs)
  then have "calm (insert (fst x) (fst ` set xs \<union> F)) V C w0 w" by simp
  from Cons.IH [OF calm_recover_role [OF this]] show ?case by (simp add: case_prod_unfold)
qed simp

lemma calm_stale: "calm F V C w0 w \<Longrightarrow> calm F V C w0 (recoverStaleRoles ms epoch w)"
  unfolding recoverStaleRoles_def Let_def by (intro calm_recoveries calm_flights)

section \<open>Validation\<close>

text \<open>A validation is scheduled only for a role that has none in flight.\<close>

lemma calm_schedule_validation: "calm F V C w0 w \<Longrightarrow> calm F V C w0 (scheduleValidation name p w)"
proof (erule calm_step)
  let ?w = "\<lambda>u. spawn (ValidateTask name p u)
      (update_book (\<lambda>b. b\<lparr>bk_restartHandoffPending := gomap_del name (bk_restartHandoffPending b)\<rparr>)
        (set_role name (\<lambda>r. r\<lparr>mr_recoveryInFlight := False, mr_validationInFlight := True\<rparr>) w))"
  have "calm {} V C w (?w u)" if "role_of name w = Some r" "\<not> mr_validationInFlight r" for u r
    by (rule calmI [where ts = "[ValidateTask name p u]"]) (use that in \<open>auto simp: calm_at_def reads\<close>)
  then show "calm {} V C w (scheduleValidation name p w)"
    unfolding scheduleValidation_def Let_def by (auto split: option.splits intro: calm_refl)
qed

lemma calm_process: "calm F V C w0 w \<Longrightarrow> (\<And>r. quiet_role (name \<in> C) r (f r)) \<Longrightarrow> calm F V C w0 (set_role_of_process name p f w)"
  unfolding set_role_of_process_def by (auto intro: calm_role)

lemma calm_finish: "name \<in> V \<Longrightarrow> calm F V C w0 w \<Longrightarrow> calm F V C w0 (finishValidationSchedule name p w)"
proof (erule calm_step)
  assume "name \<in> V"
  then show "calm {} V C w (finishValidationSchedule name p w)"
    unfolding finishValidationSchedule_def set_role_of_process_def
    by (auto intro!: calmI [where ts = "[]"] split: option.splits simp: calm_at_def reads)
qed

text \<open>The body of a validation before it settles its flag: a view of the manager that also ignores
  the recovery back-offs survives it.\<close>

locale validation_view = managed_view P for P :: "'k world \<Rightarrow> bool" +
  assumes drops_backoff: "P w \<Longrightarrow> P (update_book (\<lambda>b. b\<lparr>bk_recoveryBackoffs := gomap_del n (bk_recoveryBackoffs b)\<rparr>) w)"
begin

lemma revised_role:
  assumes "P w" and "\<And>r. core_of (f r) = core_of r"
  shows "P (set_role n f w)" "P (bumpLocked (set_role n f w))"
  by (rule reads_managed [OF _ assms(1)];
      use assms(2) in \<open>auto simp: managed_def fun_eq_iff book_def [symmetric] option.map_comp comp_def\<close>)+

lemma owned_call: "P w \<Longrightarrow> P (snd (interface_owned ms name p w))"
proof -
  assume c: "P w"
  have h: "P (snd (on_host (putT f) w))" for f by (rule snd_keeps [OF host_step c])
  with c show ?thesis
    unfolding interface_owned_def Let_def set_last_error_def
    by (auto split: option.splits prod.splits intro!: revised_role simp: core_of_def)
qed

lemma finish_recovery_call: "P w \<Longrightarrow> P (finish_recovery name w)"
  unfolding finish_recovery_def on_product_def by (auto split: option.splits intro: reads_managed [rotated])

lemma activate_call: "keepsT P (activateReadyRole ms name)"
proof (rule keepsTI)
  fix w r w'
  assume c: "P w" and run: "activateReadyRole ms name w = (r, w')"
  have finish: "keepsT P (putT (finish_recovery name))"
    by (auto intro!: keepsTI finish_recovery_call)
  have "keepsT P
     (bindT (mapErrT f1 (driver_ObserveRoutes (wired ms) name)) (\<lambda>_.
      bindT (mapErrT f2 (driver_ApplyEndpoint (wired ms) name)) (\<lambda>_.
      bindT (mapErrT f3 (driver_Publish (wired ms) name)) (\<lambda>_.
      bindT (mapErrT f4 (driver_ResyncLeshy (wired ms) name)) (\<lambda>_.
      bindT (mapErrT f5 (driver_ObserveRestoration (wired ms) name)) (\<lambda>_. putT (finish_recovery name)))))))" for f1 f2 f3 f4 f5
    by (intro keepsT_bind keepsT_mapErr driver_steps(1,8) publish resync observe_restoration finish)
  from keepsTD [OF this c] c run show "P w'"
    by (auto simp: activateReadyRole_def split: if_splits option.splits intro: finish_recovery_call)
qed

lemma validation_call:
  "keepsT P (bindT (ValidateRole (wired ms) name) (\<lambda>_.
     bindT (putT (\<lambda>w. update_book (\<lambda>b. b\<lparr>bk_recoveryBackoffs := gomap_del name (bk_recoveryBackoffs b)\<rparr>)
       (set_role_of_process name p (\<lambda>r. r\<lparr>mr_validationPendingEpoch := 0\<rparr>) w))) (\<lambda>_. activateReadyRole ms name)))"
  by (intro keepsT_bind validate activate_call keepsTI)
     (auto simp: set_role_of_process_def core_of_def intro!: drops_backoff revised_role)

text \<open>So the goroutine ends in a world where it settles the flag, and then reports a failure if it had
  one.\<close>

lemma validation_ends:
  assumes "P w"
  obtains (settled) v where "P v" "validate_task ms name p underlay w = finishValidationSchedule name p v"
  | (failed) v e where "P v" "validate_task ms name p underlay w = validation_failed ms name p underlay e (finishValidationSchedule name p v)"
proof -
  obtain b w1 where owned: "interface_owned ms name p w = (b, w1)" by force
  with owned_call [OF assms, of ms name p] have w1: "P w1" by simp
  have marked: "P (on_product f w1)" for f :: "controller \<Rightarrow> bool \<times> controller"
    by (rule reads_managed [OF _ w1]) (simp add: on_product_def)
  obtain r w2 where body: "bindT (ValidateRole (wired ms) name) (\<lambda>_.
     bindT (putT (\<lambda>w. update_book (\<lambda>b. b\<lparr>bk_recoveryBackoffs := gomap_del name (bk_recoveryBackoffs b)\<rparr>)
       (set_role_of_process name p (\<lambda>r. r\<lparr>mr_validationPendingEpoch := 0\<rparr>) w))) (\<lambda>_. activateReadyRole ms name)) w1 = (r, w2)"
    by force
  from keepsTD [OF validation_call w1 body] have w2: "P w2" .
  show ?thesis
  proof (cases b)
    case True
    with owned marked show ?thesis by (intro settled) (simp_all add: validate_task_def)
  next
    case False
    with owned body w2 show ?thesis
      by (cases r) (auto simp: validate_task_def intro: settled failed)
  qed
qed

end

lemma calm_validation_failed: "calm F V C w0 w \<Longrightarrow> calm F V C w0 (validation_failed ms name p underlay e w)"
  unfolding validation_failed_def Let_def
  by (auto split: option.splits prod.splits bool.splits
      intro!: calm_schedule_recovery calm_process calm_spawn simp: quiet_simps)

interpretation calm_validation: validation_view "calm F V C w0" for F V C w0
  by unfold_locales (auto intro!: calm_book simp: quiet_simps)

lemma calm_validate_task: "name \<in> V \<Longrightarrow> calm F V C w0 w \<Longrightarrow> calm F V C w0 (validate_task ms name p underlay w)"
  by (erule calm_validation.validation_ends [of _ _ _ _ _ ms name p underlay]) (auto intro!: calm_finish calm_validation_failed)

text \<open>A validation whose process was replaced does not lower the flag of its role.\<close>

definition replaced :: "string \<Rightarrow> nat \<Rightarrow> 'k world \<Rightarrow> bool" where
  "replaced name p w \<longleftrightarrow> (case role_of name w of None \<Rightarrow> False | Some r \<Rightarrow> mr_process r \<noteq> Some p)"

lemma replaced_core:
  "replaced name p w \<longleftrightarrow> (case map_option core_of (role_of name w) of None \<Rightarrow> False | Some r \<Rightarrow> rc_process r \<noteq> Some p)"
  by (simp add: replaced_def core_of_def split: option.splits)

interpretation replaced_validation: validation_view "\<lambda>w. calm F V C w0 w \<and> replaced name p w" for F V C w0 name p
proof unfold_locales
  fix w w' :: "'a world"
  assume same: "managed w' = managed w" and "calm F V C w0 w \<and> replaced name p w"
  moreover from same have "map_option core_of (role_of name w') = map_option core_of (role_of name w)"
    by (simp add: managed_def fun_eq_iff)
  ultimately show "calm F V C w0 w' \<and> replaced name p w'"
    using calm_managed [OF same] by (simp add: replaced_core)
qed (auto intro!: calm_book simp: quiet_simps replaced_def)

lemma calm_replaced_validation:
  assumes "calm F V C w0 w" and "replaced name p w"
  shows "calm F V C w0 (validate_task ms name p underlay w)"
proof -
  have "finishValidationSchedule name p v = v" if "replaced name p v" for v :: "'a world"
    using that by (auto simp: finishValidationSchedule_def set_role_of_process_def replaced_def process_current_def role_of_def
        split: option.splits)
  note idle = this
  from assms have "calm F V C w0 w \<and> replaced name p w" ..
  then show ?thesis
    by (rule replaced_validation.validation_ends [where ms = ms and name = name and p = p and underlay = underlay])
       (auto simp: idle intro: calm_validation_failed)
qed

lemma calm_current_validations: "calm F V C w0 w \<Longrightarrow> calm F V C w0 (scheduleCurrentValidations w)"
proof -
  have "calm F V C w0 v \<Longrightarrow> calm F V C w0 (foldl (\<lambda>v (name, p). scheduleValidation name p v) v xs)" for v xs
    by (induction xs arbitrary: v) (auto simp: calm_schedule_validation)
  then show "calm F V C w0 w \<Longrightarrow> calm F V C w0 (scheduleCurrentValidations w)"
    unfolding scheduleCurrentValidations_def .
qed

section \<open>Observations and exits\<close>

lemma calm_snapshot: "calm F V C w0 w \<Longrightarrow> calm F V C w0 (toad_snapshot_received name p snapshot w)"
proof -
  assume c: "calm F V C w0 w"
  obtain live accepted w1 where obs: "observeToadSnapshotForProcess name (Some p) snapshot w = ((live, accepted), w1)"
    by (metis surj_pair)
  have "(case observeToadSnapshotForProcess name (Some p) snapshot w of ((live, x), w') \<Rightarrow> (Inr live, w')) = (Inr live, w1)"
    by (simp add: obs)
  from keepsTD [OF calm_world.snapshot_keeps c this] have "calm F V C w0 w1" .
  with obs show ?thesis
    by (simp add: toad_snapshot_received_def calm_route_target calm_schedule_validation)
qed

lemma calm_compatibility:
  "calm F V C w0 w \<Longrightarrow> calm F V C w0 (snd (observeCompatibilityStateForProcess ms name p published w))"
  unfolding observeCompatibilityStateForProcess_def Let_def
  by (auto split: option.splits prod.splits intro!: calm_book calm_role simp: quiet_simps)

lemma calm_file: "calm F V C w0 w \<Longrightarrow> calm F V C w0 (state_file_read ms name p published w)"
  using calm_compatibility [of F V C w0 w ms name p published]
  by (auto simp: state_file_read_def split: prod.splits intro!: calm_route_target calm_schedule_validation)

lemma calm_underlay: "calm F V C w0 w \<Longrightarrow> calm F V C w0 (applyUnderlayChange now change w)"
proof (erule calm_step)
  have epochs: "calm {} V C w (update_driver (\<lambda>d. d\<lparr>dv_Underlay := u,
      dv_Roles := gomap_map (\<lambda>_ r. r\<lparr>mr_validationPendingEpoch := 0\<rparr>) (dv_Roles d)\<rparr>) w)" for u
    by (rule calmI [where ts = "[]"])
       (auto simp: calm_at_def reads role_of_def book_def update_driver_def split: option.splits)
  have observed: "calm {} V C w (update_driver (\<lambda>d. d\<lparr>dv_Underlay := g d\<rparr>) w)" for g
    by (rule calmI [where ts = "[]"]) (auto simp: calm_at_def reads role_of_def book_def update_driver_def)
  show "calm {} V C w (applyUnderlayChange now change w)"
    unfolding applyUnderlayChange_def Let_def
    by (auto split: prod.splits intro!: calm_spawn simp: epochs observed calm_refl)
qed

lemma calm_exit: "calm F V C w0 w \<Longrightarrow> calm F V C w0 (process_exited ms name p err w)"
  unfolding process_exited_def Let_def
  by (auto split: prod.splits intro!: calm_spawn calm_book calm_role simp: quiet_simps)

lemma calm_retry: "keepsT (calm F V C w0) (RetryRole ms name)"
proof (rule keepsTI)
  fix w r w'
  assume c: "calm F V C w0 w" and run: "RetryRole ms name w = (r, w')"
  let ?w1 = "snd (on_selected (putT (touch_role name)) w)"
  have w1: "calm F V C w0 ?w1" by (rule snd_keeps [OF calm_world.selected_call c])
  have q: "calm F V C w0 v" if "with_env (ms_Recovery ms) f ?w1 = (x, v)" for f and x :: "goerror + unit" and v
    using keepsTD [OF calm_world.env_call w1 that] .
  have s: "calm F V C w0 v" if "startRoleProcess ms name (bumpLocked (set_role name (\<lambda>r. r\<lparr>mr_lastError := []\<rparr>) ?w1)) = (x, v)" for x v
    by (rule keepsTD [OF calm_start _ that]) (auto intro!: calm_role w1 simp: quiet_simps)
  from c run w1 q s show "calm F V C w0 w'"
    by (auto simp: RetryRole_def Let_def split: option.splits if_splits intro!: calm_spawn_recover calm_set_in_flight)
qed

lemma calm_retry_after: "calm F V C w0 w \<Longrightarrow> calm F V C w0 (retry_after_due ms name w)"
  unfolding retry_after_due_def by (rule snd_keeps [OF calm_retry]) simp

lemma calm_start_due: "calm F V C w0 w \<Longrightarrow> calm F V C w0 (start_retry_due ms name w)"
  unfolding start_retry_due_def Let_def
  by (auto intro!: snd_keeps [OF calm_start] calm_book simp: quiet_simps)

lemma calm_pending_starts: "calm F V C w0 w \<Longrightarrow> calm F V C w0 (retryPendingStarts ms w)"
proof -
  have "calm F V C w0 v \<Longrightarrow> calm F V C w0 (foldl (\<lambda>w name. snd (startRoleProcess ms name w)) v xs)" for v xs
    by (induction xs arbitrary: v) (auto simp: snd_keeps [OF calm_start])
  then show "calm F V C w0 w \<Longrightarrow> calm F V C w0 (retryPendingStarts ms w)" unfolding retryPendingStarts_def .
qed

lemma calm_settle_profile: "calm F V C w0 w \<Longrightarrow> calm F V C w0 (settle_profile ms changed wanted w)"
  unfolding settle_profile_def
  by (induction changed arbitrary: w) (auto simp: snd_keeps [OF calm_start] snd_keeps [OF calm_stop_release])

lemma calm_task:
  "(\<And>n p u. t = ValidateTask n p u \<Longrightarrow> n \<in> V) \<Longrightarrow> calm F V C w0 w \<Longrightarrow> calm F V C w0 (run_task ms t w)"
  by (cases t)
     (simp_all add: calm_retry_after calm_start_due calm_recover_plain calm_retry_due calm_handoff calm_validate_task
       calm_settle_profile calm_current_validations calm_pending_starts calm_stale)

lemma calm_collectT: "(\<And>x. keepsT (calm F V C w0) (f x)) \<Longrightarrow> keepsT (calm F V C w0) (collectT f xs)"
proof (induction xs)
  case (Cons x xs)
  show ?case
  proof (rule keepsTI)
    fix w r w'
    assume c: "calm F V C w0 w" and run: "collectT f (x # xs) w = (r, w')"
    then obtain a w1 b where "f x w = (a, w1)" "collectT f xs w1 = (b, w')" by (auto split: prod.splits)
    from keepsTD [OF Cons.IH [OF Cons.prems] keepsTD [OF Cons.prems c this(1)] this(2)] show "calm F V C w0 w'" .
  qed
qed (simp add: keepsT_def)

lemma calm_shut_down:
  assumes "\<And>x. keepsT (calm F V C w0) (f x)" and "calm F V C w0 w"
  shows "calm F V C w0 (snd (shut_down f w))"
proof -
  have "calm F V C w0 (update_book (\<lambda>b. b\<lparr>bk_shuttingDown := True\<rparr>) w)"
    using assms(2) by (auto intro!: calm_book simp: quiet_simps)
  from snd_keeps [OF calm_collectT [where f = f, OF assms(1)] this] assms(2) show ?thesis by (simp add: shut_down_def)
qed

lemma calm_shutdown_role: "keepsT (calm F V C w0) (shutdown_role ms name)"
proof (rule keepsTI)
  fix w r w'
  assume c: "calm F V C w0 w" and run: "shutdown_role ms name w = (r, w')"
  have "keepsT (calm F V C w0) (if b
      then bindT (mapErrT f1 (driver_ObserveRoutes (wired ms) name)) (\<lambda>_.
           bindT (mapErrT f2 (driver_Park (wired ms) name)) (\<lambda>_. mapErrT f3 (driver_Withdraw (wired ms) name)))
      else returnT ())" for b f1 f2 f3
    by (intro keepsT_if keepsT_bind keepsT_mapErr calm_world.observe_routes calm_world.park_call calm_world.withdraw keepsT_return)
  note prepared = keepsTD [OF this c]
  from run obtain b f1 f2 f3 f4 x w1 y where
    "(if b then bindT (mapErrT f1 (driver_ObserveRoutes (wired ms) name)) (\<lambda>_.
           bindT (mapErrT f2 (driver_Park (wired ms) name)) (\<lambda>_. mapErrT f3 (driver_Withdraw (wired ms) name)))
      else returnT ()) w = (x, w1)" "mapErrT f4 (stopRoleProcess ms name) w1 = (y, w')"
    unfolding shutdown_role_def Let_def returnT_apply [symmetric] if_distribR by (auto split: prod.splits)
  from keepsTD [OF keepsT_mapErr [OF calm_stop] prepared [OF this(1)] this(2)] show "calm F V C w0 w'" .
qed

lemma calm_release_product_role: "keepsT (calm F V C w0) (release_role ms name)"
proof (rule keepsTI)
  fix w r w'
  assume c: "calm F V C w0 w" and run: "release_role ms name w = (r, w')"
  then obtain x w1 y w2 where "stopRoleProcess ms name w = (x, w1)" "releaseRoleResources ms name False w1 = (y, w2)"
    and w': "w' = on_product (SetRetrySchedule name 0) (on_product (SetRecovery name recovery_zero RoleStopped ''stopped'') w2)"
    by (auto simp: release_role_def split: prod.splits)
  from keepsTD [OF calm_release_role keepsTD [OF calm_stop c this(1)] this(2)] show "calm F V C w0 w'" by (simp add: w')
qed

section \<open>Commands\<close>

text \<open>A command may turn any role on, so that it is calm up to the roles that were off.\<close>

lemma calm_product_disconnect [simp]: "calm F V C w0 (product_disconnect name w) = calm F V C w0 w"
  by (simp add: product_disconnect_def)

lemma calm_fold: "(\<And>v x. calm F V C w0 v \<Longrightarrow> calm F V C w0 (f v x)) \<Longrightarrow> calm F V C w0 v \<Longrightarrow> calm F V C w0 (foldl f v xs)"
  by (induction xs arbitrary: v) auto

lemma calm_switch:
  "calm F V UNIV w0 w \<Longrightarrow> calm F V UNIV w0 (connect_switch name w)"
  "calm F V UNIV w0 w \<Longrightarrow> calm F V UNIV w0 (disconnect_switch name w)"
  "calm F V UNIV w0 w \<Longrightarrow> calm F V UNIV w0 (revert_switch previous name w)"
  "calm F V UNIV w0 w \<Longrightarrow> calm F V UNIV w0 (profile_switch wanted name w)"
  "calm F V UNIV w0 w \<Longrightarrow> calm F V UNIV w0 (restore_switch w1 name w)"
  "calm F V UNIV w0 w \<Longrightarrow> calm F V UNIV w0 (restore_role blocked desired name w)"
  unfolding connect_switch_def disconnect_switch_def revert_switch_def profile_switch_def restore_switch_def
    restore_role_def Let_def
  by (auto intro!: calm_role split: option.splits bool.splits simp: quiet_simps)

lemma calm_disconnect_section: "keepsT (calm F V UNIV w0) (disconnect_section ms name)"
proof (rule keepsTI)
  fix w r w'
  assume c: "calm F V UNIV w0 w" and run: "disconnect_section ms name w = (r, w')"
  have w1: "calm F V UNIV w0 (switch_off name w)"
    using c unfolding switch_off_def by (auto intro!: calm_book calm_role simp: quiet_simps)
  have "calm F V UNIV w0 w2" if "persistDesiredLocked (background ms) (switch_off name w) = (x, w2)" for x w2
    using keepsTD [OF calm_persist w1 that] .
  with c run show "calm F V UNIV w0 w'"
    by (auto simp: disconnect_section_def split: option.splits prod.splits sum.splits intro!: calm_role simp: quiet_simps)
qed

lemma calm_disconnect: "keepsT (calm F V UNIV w0) (DisconnectRole ms name)"
  unfolding DisconnectRole_def by (intro keepsT_bind calm_disconnect_section calm_stop_release)

text \<open>The commands on all roles: switches, the store, and a loop that starts or stops processes.\<close>

lemma calm_all:
  assumes c: "calm F V UNIV w0 w1" and loop: "\<And>name. keepsT (calm F V UNIV w0) (f name)"
    and run: "(case persistDesiredLocked ms w1 of
        (Inl e, w2) \<Rightarrow> (Inl (g e), foldl (\<lambda>v name. revert_switch previous name v) w2 names)
      | (Inr _, w2) \<Rightarrow> collectT f names (bumpLocked w2)) = (r, w')"
  shows "calm F V UNIV w0 w'"
proof -
  obtain x w2 where p: "persistDesiredLocked ms w1 = (x, w2)" by force
  from keepsTD [OF calm_persist c p] have w2: "calm F V UNIV w0 w2" .
  have "calm F V UNIV w0 v" if "collectT f names (bumpLocked w2) = (y, v)" for y v
    by (rule keepsTD [OF calm_collectT [where f = f, OF loop] _ that]) (simp add: w2)
  with run p w2 show ?thesis by (auto split: sum.splits intro!: calm_fold calm_switch)
qed

lemma calm_connect_all: "keepsT (calm F V UNIV w0) (ConnectAll ms)"
proof (rule keepsTI)
  fix w r w'
  assume c: "calm F V UNIV w0 w" and run: "ConnectAll ms w = (r, w')"
  have "calm F V UNIV w0 (foldl (\<lambda>w name. connect_switch name w) w (namesLocked w))"
    using c by (auto intro!: calm_fold calm_switch)
  from calm_all [OF this _ run [unfolded ConnectAll_def Let_def]] show "calm F V UNIV w0 w'"
    by (simp add: keepsT_mapErr calm_start)
qed

lemma calm_disconnect_all: "keepsT (calm F V UNIV w0) (DisconnectAll ms)"
proof (rule keepsTI)
  fix w r w'
  assume c: "calm F V UNIV w0 w" and run: "DisconnectAll ms w = (r, w')"
  have "calm F V UNIV w0 (foldl (\<lambda>w name. disconnect_switch name w) w (namesLocked w))"
    using c by (auto intro!: calm_fold calm_switch)
  from calm_all [OF this _ run [unfolded DisconnectAll_def Let_def]] show "calm F V UNIV w0 w'"
    by (simp add: keepsT_mapErr calm_stop_release)
qed

lemma calm_profile: "keepsT (calm F V UNIV w0) (SetActiveProfile ms profile)"
proof (rule keepsTI)
  fix w r w'
  assume c: "calm F V UNIV w0 w" and run: "SetActiveProfile ms profile w = (r, w')"
  let ?w1 = "\<lambda>wanted. foldl (\<lambda>v name. profile_switch wanted name v)
      (update_book (\<lambda>b. b\<lparr>bk_activeProfile := profile\<rparr>) w) (map fst (dv_Roles (ew_Driver w)))"
  have w1: "calm F V UNIV w0 (?w1 wanted)" for wanted
    using c by (auto intro!: calm_fold calm_switch calm_book simp: quiet_simps)
  have "calm F V UNIV w0 w2" if "persistDesiredLocked (background ms) (?w1 wanted) = (x, w2)" for wanted x w2
    using keepsTD [OF calm_persist w1 that] .
  with c run show "calm F V UNIV w0 w'"
    by (auto simp: SetActiveProfile_def Let_def split: option.splits if_splits prod.splits sum.splits
        intro!: calm_book calm_fold calm_switch calm_spawn simp: quiet_simps)
qed

lemma calm_restore_desired: "keepsT (calm F V UNIV w0) (RestoreDesiredState ms desired)"
proof (rule keepsTI)
  fix w r w'
  assume c: "calm F V UNIV w0 w" and run: "RestoreDesiredState ms desired w = (r, w')"
  have w3: "calm F V UNIV w0 (bumpLocked (set_status s (foldl (\<lambda>v name. restore_role blocked roles name v)
      (update_book (\<lambda>b. b\<lparr>bk_activeProfile := a\<rparr>) v) names)))" if "calm F V UNIV w0 v" for s blocked roles a names v
    using that by (auto simp: set_status_def intro!: calm_fold calm_switch calm_book simp: quiet_simps)
  have status: "calm F V UNIV w0 (set_status s w)" for s
    using c by (auto simp: set_status_def intro!: calm_book simp: quiet_simps)
  have loop: "keepsT (calm F V UNIV w0) (collectT (\<lambda>name. mapErrT f (startRoleProcess ms name)) names)" for f names
    by (rule calm_collectT) (intro keepsT_mapErr calm_start)
  note started = keepsTD [OF loop w3 [OF c]] keepsTD [OF loop w3 [OF status]]
  from c run started show "calm F V UNIV w0 w'"
    unfolding RestoreDesiredState_def Let_def by (auto split: if_splits)
qed

section \<open>Turning a role off\<close>

lemma stop_section_reads:
  "role_of n (stop_section name w) =
     (if n = name then map_option (\<lambda>r. r\<lparr>mr_process := None, mr_validationPendingEpoch := 0\<rparr>) (role_of n w) else role_of n w)"
  "bk_tasks (book (stop_section name w)) = bk_tasks (book w)" "ew_Controller (stop_section name w) = ew_Controller w"
  "bk_cancelled (book (stop_section name w)) = bk_cancelled (cancel_recovery name (book w))"
  by (simp_all add: stop_section_def)

lemma stopped_role:
  assumes "role_of name w = Some x" "stopRoleProcess ms name w = (r, w')"
  shows "role_of name w' = Some (x\<lparr>mr_process := None, mr_validationPendingEpoch := 0\<rparr>)"
    and "bk_tasks (book w') = bk_tasks (book w)" and "ew_Controller w' = ew_Controller w"
    and "bk_cancelled (book w') = bk_cancelled (cancel_recovery name (book w))"
proof -
  have "role_of name w' = role_of name (stop_section name w) \<and> book w' = book (stop_section name w) \<and>
      ew_Controller w' = ew_Controller (stop_section name w)"
    using assms
    by (auto simp: stopRoleProcess_def stopToad_def mapErrT_def on_host_reads split: option.splits prod.splits sum.splits if_splits)
  then show "role_of name w' = Some (x\<lparr>mr_process := None, mr_validationPendingEpoch := 0\<rparr>)"
    "bk_tasks (book w') = bk_tasks (book w)" "ew_Controller w' = ew_Controller w"
    "bk_cancelled (book w') = bk_cancelled (cancel_recovery name (book w))"
    using assms(1) by (simp_all add: stop_section_reads)
qed

lemma off_stop_release:
  assumes "stop_and_release ms name w = (r, w')" "role_of name w = Some x" "\<not> mr_enabled x"
  shows "off name w'"
proof -
  from assms(1) obtain a w1 b where stop: "stopRoleProcess ms name w = (a, w1)"
    and release: "releaseRoleResources ms name True w1 = (b, w')"
    by (auto simp: stop_and_release_def split: prod.splits)
  have "off name w1" using stopped_role(1) [OF assms(2) stop] assms(3) by (simp add: off_def)
  with calm_off [OF keepsTD [OF calm_release_role calm_refl [where F = "{}" and V = "{}" and C = "{}"] release], of name]
  show ?thesis by simp
qed

lemma disconnected_section:
  assumes "disconnect_section ms name w = (Inr u, w')"
  obtains r where "role_of name w' = Some r" "\<not> mr_enabled r" "bk_recoveryCancels (book w') = bk_recoveryCancels (book w)"
    "bk_cancelled (book w') = bk_cancelled (book w)"
proof -
  from assms obtain x where role: "role_of name w = Some x" by (auto simp: disconnect_section_def split: option.splits)
  obtain s w2 where p: "persistDesiredLocked (background ms) (switch_off name w) = (s, w2)" by force
  with assms role have w': "w' = bumpLocked (set_role name (\<lambda>r. r\<lparr>mr_lastError := []\<rparr>) w2)"
    by (auto simp: disconnect_section_def split: sum.splits)
  show ?thesis
    using that [of "the (role_of name w')"] role persist_reads(1) [OF p, of name] persist_reads(4) [OF p]
    by (auto simp: w' switch_off_def product_disconnect_def)
qed

text \<open>A disconnect that succeeds leaves the role off, and cancels the context registered for it.\<close>

lemma off_disconnect:
  assumes "DisconnectRole ms name w = (Inr u, w')"
  shows "off name w'" and "map_of (bk_recoveryCancels (book w)) name = Some c \<Longrightarrow> c \<in> cancelled w'"
proof -
  from assms obtain u' v where section1: "disconnect_section ms name w = (Inr u', v)" and rest: "stop_and_release ms name v = (Inr u, w')"
    by (auto simp: DisconnectRole_def bindT_apply split: prod.splits sum.splits)
  from disconnected_section [OF section1] obtain x where x: "role_of name v = Some x" "\<not> mr_enabled x"
    "bk_recoveryCancels (book v) = bk_recoveryCancels (book w)" by metis
  from off_stop_release [OF rest x(1,2)] show "off name w'" .
  from rest obtain a w1 b where stop: "stopRoleProcess ms name v = (a, w1)"
    and release: "releaseRoleResources ms name True w1 = (b, w')"
    by (auto simp: stop_and_release_def split: prod.splits)
  assume "map_of (bk_recoveryCancels (book w)) name = Some c"
  then have "c \<in> cancelled w1"
    using stopped_role(4) [OF x(1) stop] x(3) by (simp add: cancelled_def cancel_recovery_def)
  moreover have "calm {} {} {} w1 w'" by (rule keepsTD [OF calm_release_role calm_refl release])
  ultimately show "c \<in> cancelled w'" by (auto simp: calm_def)
qed

end
