(* ===== verification/Supervision_Properties.thy ===== *)
theory Supervision_Properties
  imports Supervision_Runs Sample_Manager
begin

text \<open>
  Invariants of the core manager over all its steps: flags that stand for a goroutine have one, a
  role that is off stays off until a command, and a validation whose process was replaced is
  never accounted for again.
\<close>

section \<open>Taking a task\<close>

lemma take_reads [simp]:
  "tasks (take_task t w) = remove1 t (tasks w)" "in_flight n (take_task t w) = in_flight n w"
  "validating n (take_task t w) = validating n w" "off n (take_task t w) = off n w"
  "bk_recoveryRetryPending (book (take_task t w)) = bk_recoveryRetryPending (book w)"
  "bk_startRetryPending (book (take_task t w)) = bk_startRetryPending (book w)"
  by (simp_all add: take_task_def reads)

section \<open>Steps that keep what calm steps keep\<close>

lemma background_calm:
  assumes "background_step w w'"
  obtains (plain) "calm {} V C w w'"
  | (exit) n p where "calm {} V C (take_task (WaitTask n p) w) w'"
  | (task) t ms where "t \<in> set (tasks w)" "w' = run_task ms t (take_task t w)"
  using assms
proof cases
  case (step_request name reason)
  then show ?thesis using plain calm_request [OF calm_refl] by blast
next
  case (step_snapshot name p snapshot)
  then show ?thesis using plain calm_snapshot [OF calm_refl] by blast
next
  case (step_file ms name p published)
  then show ?thesis using plain calm_file [OF calm_refl] by blast
next
  case (step_underlay now change)
  then show ?thesis using plain calm_underlay [OF calm_refl] by blast
next
  case (step_exit name p ms err)
  then show ?thesis using exit calm_exit [OF calm_refl] by blast
next
  case (step_task t ms)
  then show ?thesis using task unfolding tasks_def by blast
next
  case (step_shutdown ms)
  then show ?thesis
    using plain calm_shut_down [where f = "shutdown_role ms", OF calm_shutdown_role calm_refl] unfolding ShutdownProduct_def by blast
next
  case (step_release ms)
  then show ?thesis
    using plain calm_shut_down [where f = "release_role ms", OF calm_release_product_role calm_refl] unfolding ReleaseProduct_def by blast
qed

lemma command_calm:
  assumes "manager_step w w'"
  obtains (background) "background_step w w'" | (command) "calm {} V UNIV w w'"
  using assms
proof cases
  case (step_connect ms name)
  then show ?thesis using command snd_keeps [OF calm_connect calm_refl] by blast
next
  case (step_disconnect ms name)
  then show ?thesis using command snd_keeps [OF calm_disconnect calm_refl] by blast
next
  case (step_connect_all ms)
  then show ?thesis using command snd_keeps [OF calm_connect_all calm_refl] by blast
next
  case (step_disconnect_all ms)
  then show ?thesis using command snd_keeps [OF calm_disconnect_all calm_refl] by blast
next
  case (step_profile ms profile)
  then show ?thesis using command snd_keeps [OF calm_profile calm_refl] by blast
next
  case (step_restore ms desired)
  then show ?thesis using command snd_keeps [OF calm_restore_desired calm_refl] by blast
next
  case (step_retry ms name)
  then show ?thesis using command snd_keeps [OF calm_retry calm_refl] by blast
qed (rule background)

section \<open>Flags and their goroutines\<close>

definition tracked_at :: "'k world \<Rightarrow> string \<Rightarrow> bool" where
  "tracked_at w n \<longleftrightarrow>
     (in_flight n w \<longrightarrow> (\<exists>a b. RecoverTask n a b \<in> set (tasks w))) \<and>
     (flag (bk_recoveryRetryPending (book w)) n \<longrightarrow> (\<exists>a b. RecoveryRetryTask n a b \<in> set (tasks w))) \<and>
     (flag (bk_startRetryPending (book w)) n \<longrightarrow> StartRetryTask n \<in> set (tasks w))"

definition tracked :: "'k world \<Rightarrow> bool" where
  "tracked w \<longleftrightarrow> (\<forall>n. tracked_at w n)"

lemma tracked_calm: "calm {} V C w w' \<Longrightarrow> tracked w \<Longrightarrow> tracked w'"
proof -
  assume "calm {} V C w w'" and t: "tracked w"
  then obtain ts where ts: "tasks w' = tasks w @ ts" and at: "\<And>n. calm_at {} V C w w' ts n" by (auto simp: calm_def)
  have "tracked_at w' n" for n
    using at [of n] t unfolding tracked_def tracked_at_def calm_at_def ts set_append by (elim allE [of _ n]) blast
  then show "tracked w'" by (simp add: tracked_def)
qed

text \<open>The flag a task stands for is lowered before the task runs.\<close>

lemma mem_remove: "x \<in> set xs \<Longrightarrow> x \<noteq> y \<Longrightarrow> x \<in> set (remove1 y xs)"
  by (simp add: in_set_remove1)

lemma tracked_take:
  assumes "tracked w"
  shows "tracked (clear_in_flight n (take_task (RecoverTask n a b) w))"
    and "tracked (update_book (\<lambda>k. k\<lparr>bk_recoveryRetryPending := gomap_put n False (bk_recoveryRetryPending k)\<rparr>)
           (take_task (RecoveryRetryTask n a b) w))"
    and "tracked (update_book (\<lambda>k. k\<lparr>bk_startRetryPending := gomap_put n False (bk_startRetryPending k)\<rparr>)
           (take_task (StartRetryTask n) w))"
    and "(\<And>n a b. t \<noteq> RecoverTask n a b) \<Longrightarrow> (\<And>n a b. t \<noteq> RecoveryRetryTask n a b) \<Longrightarrow> (\<And>n. t \<noteq> StartRetryTask n) \<Longrightarrow>
           tracked (take_task t w)"
  using assms
  by (auto simp: tracked_def tracked_at_def tasks_def take_task_def clear_in_flight_def in_flight_def
      split: option.splits if_splits intro!: mem_remove) (metis in_set_remove1 manager_task.inject)+

lemma tracked_recover:
  assumes "tracked (clear_in_flight n w)"
  shows "tracked (snd (recoverRole ms n a b w))"
proof -
  have "calm {n} {} {} (clear_in_flight n w) w"
    by (rule calmI [where ts = "[]"]) (auto simp: calm_at_def reads clear_in_flight_def split: option.splits)
  from tracked_calm [OF calm_recover_role [OF this] assms] show ?thesis .
qed

lemma tracked_other: "tracked w \<Longrightarrow> tracked (run_task ms t w)"
  by (rule tracked_calm [OF calm_task [where V = UNIV and C = UNIV, OF _ calm_refl]]) simp_all

lemma tracked_task:
  assumes "tracked w"
  shows "tracked (run_task ms t (take_task t w))"
proof (cases t)
  case (RecoverTask n a b)
  with tracked_recover [OF tracked_take(1) [OF assms]] show ?thesis by simp
next
  case (RecoveryRetryTask n a b)
  let ?v = "on_product (SetRetrySchedule n 0) (update_book (\<lambda>k. k\<lparr>bk_recoveryRetryPending := gomap_put n False (bk_recoveryRetryPending k)\<rparr>)
    (take_task t w))"
  have "calm {} {} {} ?v (snd (recoverRole ms n a b (set_in_flight n ?v)))"
    by (rule calm_recover_role, rule calm_set_in_flight, rule calm_refl)
  moreover have "tracked ?v"
    using tracked_calm [of "{}" "{}" _ ?v, OF _ tracked_take(2) [OF assms, of n a b]] RecoveryRetryTask calm_refl
    by auto
  ultimately show ?thesis
    using tracked_calm RecoveryRetryTask by (auto simp: recovery_retry_due_def Let_def)
next
  case (StartRetryTask n)
  let ?v = "on_product (SetRetrySchedule n 0) (update_book (\<lambda>k. k\<lparr>bk_startRetryPending := gomap_put n False (bk_startRetryPending k)\<rparr>)
    (take_task t w))"
  have "calm {} {} {} ?v (snd (startRoleProcess ms n ?v))"
    by (rule snd_keeps [OF calm_start calm_refl])
  moreover have "tracked ?v"
    using tracked_calm [of "{}" "{}" _ ?v, OF _ tracked_take(3) [OF assms, of n]] StartRetryTask calm_refl
    by auto
  ultimately show ?thesis
    using tracked_calm StartRetryTask by (auto simp: start_retry_due_def Let_def)
qed (auto intro!: tracked_other tracked_take(4) [OF assms] simp del: run_task.simps)

lemma tracked_background: "background_step w w' \<Longrightarrow> tracked w \<Longrightarrow> tracked w'"
proof (erule background_calm [where V = "{}" and C = "{}"])
  fix n p
  assume c: "calm {} {} {} (take_task (WaitTask n p) w) w'" and t: "tracked w"
  have "tracked (take_task (WaitTask n p) w)" by (rule tracked_take(4) [OF t]) simp_all
  from tracked_calm [OF c this] show "tracked w'" .
qed (auto intro: tracked_calm tracked_task)

lemma tracked_step: "manager_step w w' \<Longrightarrow> tracked w \<Longrightarrow> tracked w'"
  by (erule command_calm [where V = "{}"]) (blast intro: tracked_background tracked_calm)+

lemma tracked_run: "manager_step\<^sup>*\<^sup>* w w' \<Longrightarrow> tracked w \<Longrightarrow> tracked w'"
  by (induction rule: rtranclp_induct) (auto intro: tracked_step)

definition at_rest :: "'k world \<Rightarrow> bool" where
  "at_rest w \<longleftrightarrow> (\<forall>(n, r) \<in> set (dv_Roles (ew_Driver w)). \<not> mr_recoveryInFlight r) \<and>
     bk_recoveryRetryPending (book w) = [] \<and> bk_startRetryPending (book w) = []"

lemma at_rest_tracked: "at_rest w \<Longrightarrow> tracked w"
  by (auto simp: tracked_def tracked_at_def at_rest_def in_flight_def role_of_def flag_def
      split: option.splits dest!: map_of_SomeD)

section \<open>Roles that are off\<close>

text \<open>A role that is off while the contexts of a set are cancelled.\<close>

definition quenched :: "string \<Rightarrow> nat set \<Rightarrow> 'k world \<Rightarrow> bool" where
  "quenched n X w \<longleftrightarrow> off n w \<and> X \<subseteq> cancelled w"

lemma quenched_calm: "calm F V C w w' \<Longrightarrow> n \<notin> C \<Longrightarrow> quenched n X w \<Longrightarrow> quenched n X w'"
  using calm_off [of F V C w w' n] by (auto simp: quenched_def calm_def)

lemma quenched_take [simp]: "quenched n X (take_task t w) = quenched n X w"
  by (simp add: quenched_def cancelled_def take_task_def off_def)

lemma quenched_background: "background_step w w' \<Longrightarrow> quenched n X w \<Longrightarrow> quenched n X w'"
proof (erule background_calm [where V = UNIV and C = "{}"])
  fix t ms
  assume "quenched n X w" "w' = run_task ms t (take_task t w)"
  moreover have "calm {} UNIV {} (take_task t w) (run_task ms t (take_task t w))" by (rule calm_task [OF _ calm_refl]) simp
  ultimately show "quenched n X w'" using quenched_calm [of "{}" UNIV "{}" "take_task t w" w' n X] by simp
next
  fix m p
  assume "quenched n X w" "calm {} UNIV {} (take_task (WaitTask m p) w) w'"
  then show "quenched n X w'" using quenched_calm [of "{}" UNIV "{}" "take_task (WaitTask m p) w" w' n X] by simp
qed (use quenched_calm in blast)

lemma calm_replace: "keepsT (calm F V {name} w0) (replace_process ms name p socket)"
proof (rule keepsTI)
  fix w r w'
  assume c: "calm F V {name} w0 w" and run: "replace_process ms name p socket w = (r, w')"
  have "keepsT (calm F V {name} w0) (bindT (on_host (ms_Stop ms p)) (\<lambda>_. ConnectRole ms name))"
    by (intro keepsT_bind calm_world.host_step calm_connect) simp
  from keepsTD [OF this calm_stop_toad [OF c] run [unfolded replace_process_def]] show "calm F V {name} w0 w'" .
qed

text \<open>Connecting a role that is off under a cancelled context leaves it off: the store refuses, and the
  switch is rolled back.\<close>

lemma cancelled_persist:
  assumes "heeds_context ms" "ms_Ctx ms = Some c" "c \<in> cancelled w" "persistDesiredLocked ms w = (r, w')"
  shows "isl r"
proof -
  from assms(1) obtain save where save: "ms_Save ms = Some save" "\<And>e d k. isl (fst (save (Some e) d k))"
    by (auto simp: heeds_context_def split: option.splits)
  have err: "ctx_err ms w = Some (Errorf ''context canceled'')" using assms(2,3) by (simp add: ctx_err_def cancelled_def)
  obtain x v where run: "on_host (save (ctx_err ms w) (desiredStateLocked w)) w = (x, v)" by force
  then have "isl x" using save(2) [of "Errorf ''context canceled''" "desiredStateLocked w"]
    by (auto simp: err on_host_def on_selected_def on_kernel_def split: prod.splits) (metis fst_conv)
  with run save(1) assms(4) show ?thesis by (auto simp: persistDesiredLocked_def split: sum.splits)
qed

lemma cancelled_connect:
  assumes ms: "heeds_context ms" "ms_Ctx ms = Some c" and c: "c \<in> cancelled w" and off: "off name w"
  shows "off name (snd (ConnectRole ms name w))"
proof -
  let ?w1 = "on_product (SetRoleDesired name True)
      (set_role name (\<lambda>r. r\<lparr>mr_operation := (if mr_enabled r then mr_operation r else mr_operation r + 1), mr_enabled := True\<rparr>) w)"
  obtain x w2 where p: "persistDesiredLocked ms ?w1 = (x, w2)" by force
  from c have "c \<in> cancelled ?w1" by (simp add: cancelled_def)
  from cancelled_persist [OF ms this p] obtain e where x: "x = Inl e" by (auto simp: isl_def)
  show ?thesis
    using off p x persist_reads(1) [OF p, of name]
    by (auto simp: ConnectRole_def Let_def off_def failByConfiguration_def split: option.splits)
qed

lemma cancelled_replace:
  assumes ms: "heeds_context ms" "ms_Ctx ms = Some c" and c: "c \<in> cancelled w" and off: "off name w"
  shows "off name (snd (replace_process ms name p socket w))"
proof -
  obtain x v where stop: "on_host (ms_Stop ms p) (stopToad ms socket w) = (x, v)" by force
  have v: "off name v" "c \<in> cancelled v"
    using on_host_reads(1,3) [OF stop] off c by (simp_all add: stopToad_def off_def cancelled_def split: if_splits)
  with stop cancelled_connect [OF ms v(2,1)] show ?thesis
    by (cases x) (simp_all add: replace_process_def bindT_apply)
qed

lemma quenched_replace:
  assumes ms: "heeds_context ms" "ms_Ctx ms = Some c" and w: "quenched n X w" and c: "m = n \<longrightarrow> c \<in> X"
  shows "quenched n X (snd (replace_process ms m p socket w))"
proof -
  have step: "calm {} {} {m} w (snd (replace_process ms m p socket w))" by (rule snd_keeps [OF calm_replace calm_refl])
  show ?thesis
  proof (cases "m = n")
    case True
    with c w have "off n (snd (replace_process ms m p socket w))"
      using cancelled_replace [OF ms, of w n p socket] by (auto simp: quenched_def)
    with step w show ?thesis by (auto simp: quenched_def calm_def)
  qed (use quenched_calm [OF step _ w] in simp)
qed

text \<open>Every other piece of a goroutine is calm.\<close>

lemma calm_piece:
  assumes "interleaved_step (ps, w) (ps', w')"
  obtains (whole) "background_step w w'" "ps' = ps"
  | (detach) name r p socket c where "role_of name w = Some r" "mr_process r = Some p" "ps' = (name, p, socket, c) # ps"
      "w' = detach_process name w"
  | (replace) ms name p socket c where "heeds_context ms" "ms_Ctx ms = Some c" "(name, p, socket, c) \<in> set ps"
      "ps' = remove1 (name, p, socket, c) ps" "w' = snd (replace_process ms name p socket w)"
  | (take) t where "w' = take_task t w" "ps' = ps"
  | (calm) "calm UNIV UNIV {} w w'" "ps' = ps"
  using assms
proof cases
  case (il_driver ms name step)
  then show ?thesis using calm calm_work [OF calm_refl surjective_pairing] unfolding driver_work_def by blast
next
  case (il_host t)
  then show ?thesis using calm snd_keeps [OF calm_world.host_step calm_refl] by blast
next
  case (il_start ms name)
  then show ?thesis using calm snd_keeps [OF calm_start calm_refl] by blast
next
  case (il_prepare ms name)
  then show ?thesis using calm snd_keeps [OF calm_prepare calm_refl] by blast
next
  case (il_adopt ms name p)
  then show ?thesis using calm snd_keeps [OF calm_adopt calm_refl] by blast
next
  case (il_release ms name skip)
  then show ?thesis using calm snd_keeps [OF calm_release_role calm_refl] by blast
next
  case (il_activate ms name)
  then show ?thesis using calm snd_keeps [OF calm_validation.activate_call calm_refl] by blast
next
  case (il_begin_target name p)
  then show ?thesis using calm calm_begin_route_target [where F = UNIV and V = UNIV and C = "{}" and name = name and p = p, OF calm_refl, of w] by simp
qed (use whole detach replace take calm in
    \<open>blast intro: calm_refl calm_register calm_end_context calm_discard calm_track calm_settle calm_begin_launch calm_stop_section
      calm_validation_failed calm_finish calm_finish_route_target\<close> | simp add: calm_refl)+

lemma quenched_interleaved:
  assumes "interleaved_step\<^sup>*\<^sup>* s s'" and "quenched n X (snd s)" and "\<forall>(m, p, socket, c) \<in> set (fst s). m = n \<longrightarrow> c \<in> X"
  shows "quenched n X (snd s') \<and> (\<forall>(m, p, socket, c) \<in> set (fst s'). m = n \<longrightarrow> c \<in> X)"
  using assms
proof (induction rule: rtranclp_induct)
  case (step y z)
  obtain ps w ps' w' where yz: "y = (ps, w)" "z = (ps', w')" by (cases y, cases z) auto
  with step have w: "quenched n X w" and ps: "\<forall>(m, p, socket, c) \<in> set ps. m = n \<longrightarrow> c \<in> X" by auto
  from step.hyps(2) [unfolded yz] have "quenched n X w' \<and> (\<forall>(m, p, socket, c) \<in> set ps'. m = n \<longrightarrow> c \<in> X)"
  proof (cases rule: calm_piece)
    case whole
    then show ?thesis using quenched_background w ps by blast
  next
    case (detach name r p socket c)
    then have "name \<noteq> n" using w by (auto simp: quenched_def off_def)
    moreover have "quenched n X (detach_process name w)"
      using w \<open>name \<noteq> n\<close> by (simp add: quenched_def off_def cancelled_def detach_process_def)
    ultimately show ?thesis using detach ps by auto
  next
    case (replace ms name p socket c)
    from ps replace(3) have "name = n \<longrightarrow> c \<in> X" by auto
    with quenched_replace [OF replace(1,2) w] ps replace(4,5) set_remove1_subset [of "(name, p, socket, c)" ps] show ?thesis
      by blast
  next
    case (take t)
    then show ?thesis using w ps by simp
  next
    case calm
    then show ?thesis using quenched_calm [OF calm(1) _ w] ps by simp
  qed
  with yz show ?case by simp
qed simp

section \<open>Validations that are never settled\<close>

definition stranded :: "string \<Rightarrow> 'k world \<Rightarrow> bool" where
  "stranded n w \<longleftrightarrow> validating n w \<and> (\<forall>p u. ValidateTask n p u \<notin> set (tasks w))"

lemma stranded_calm: "calm F V C w w' \<Longrightarrow> n \<notin> V \<Longrightarrow> stranded n w \<Longrightarrow> stranded n w'"
  unfolding stranded_def calm_def calm_at_def by auto

lemma stranded_take: "stranded n w \<Longrightarrow> stranded n (take_task t w)"
  by (auto simp: stranded_def dest: notin_set_remove1 set_mp [OF set_remove1_subset])

lemma stranded_background:
  assumes "background_step w w'" and "stranded n w"
  shows "stranded n w'"
  using assms(1)
proof (cases rule: background_calm [where V = "{}" and C = UNIV])
  case (task t ms)
  have "calm {} {m. m \<noteq> n} UNIV (take_task t w) w'"
    unfolding task(2) by (rule calm_task [OF _ calm_refl]) (use task(1) assms(2) in \<open>auto simp: stranded_def\<close>)
  from stranded_calm [OF this _ stranded_take [OF assms(2)]] show ?thesis by simp
qed (use assms(2) stranded_calm stranded_take in blast)+

lemma stranded_run: "manager_step\<^sup>*\<^sup>* w w' \<Longrightarrow> stranded n w \<Longrightarrow> stranded n w'"
proof (induction rule: rtranclp_induct)
  case (step v v')
  from step.hyps(2) have "stranded n v \<Longrightarrow> stranded n v'"
    by (rule command_calm [where V = "{}"]) (blast intro: stranded_background stranded_calm)+
  with step.IH step.prems show ?case by blast
qed simp

lemma stranded_schedule: "stranded n w \<Longrightarrow> scheduleValidation n p w = w"
  by (auto simp: stranded_def validating_def scheduleValidation_def split: option.splits)

section \<open>Requests that are cut in two\<close>




lemma flight_role [simp]:
  "(\<And>r. mr_recoveryInFlight (f r) = mr_recoveryInFlight r) \<Longrightarrow> in_flight n (set_role name f w) = in_flight n w"
  by (simp add: in_flight_def split: option.splits)







section \<open>Properties\<close>

text \<open>C5: in every state the manager reaches from one at rest, a flag that stands for a goroutine has
  one: a role whose recovery is in flight has a recovery goroutine, an armed recovery retry and an
  armed start retry have their timers. The commands, the observations and the bodies of the
  goroutines run as whole steps here: no way out of the recovery worker and no command leaves a
  flag behind that nobody will lower. A command between the two critical sections of a request
  does; the last property of this theory shows it.\<close>

theorem raised_flag_has_goroutine:
  assumes "at_rest w0" and "manager_step\<^sup>*\<^sup>* w0 w"
  shows "((case role_of n w of None \<Rightarrow> False | Some r \<Rightarrow> mr_recoveryInFlight r) \<longrightarrow>
           (\<exists>a b. RecoverTask n a b \<in> set (bk_tasks (book w)))) \<and>
         (flag (bk_recoveryRetryPending (book w)) n \<longrightarrow> (\<exists>a b. RecoveryRetryTask n a b \<in> set (bk_tasks (book w)))) \<and>
         (flag (bk_startRetryPending (book w)) n \<longrightarrow> StartRetryTask n \<in> set (bk_tasks (book w)))"
proof -
  from tracked_run [OF assms(2) at_rest_tracked [OF assms(1)]] have "tracked_at w n" by (simp add: tracked_def)
  then show ?thesis by (simp add: tracked_at_def reads)
qed

theorem raised_flag_has_goroutine_witness:
  "\<exists>a b. RecoverTask ''home'' a b \<in> set (bk_tasks (book (snd (RetryRole quiet_manager ''home'' desk_world))))"
proof -
  have rest: "at_rest desk_world" by (simp add: at_rest_def desk_defs new_book_def)
  have run: "manager_step\<^sup>*\<^sup>* desk_world (snd (RetryRole quiet_manager ''home'' desk_world))"
    by (rule r_into_rtranclp, rule step_retry)
  have "case role_of ''home'' (snd (RetryRole quiet_manager ''home'' desk_world)) of None \<Rightarrow> False | Some r \<Rightarrow> mr_recoveryInFlight r"
    by code_simp
  with raised_flag_has_goroutine [OF rest run, of "''home''"] show ?thesis by blast
qed

text \<open>C4: once a disconnect has returned, nothing that happens without a command of the operator turns
  the role on again, in any interleaving of the pieces of the goroutines: it stays disabled and
  without a process through every observation, exit, timer, validation, launch in flight,
  recovery, profile goroutine and shutdown. A process replacement that had taken the process of
  the role away before the disconnect and connects the role after it fails, because the
  disconnect cancelled the context of its recovery and the store refuses to save under it. The
  conditions: such replacements of the role run under the context that is registered for the role
  when the disconnect begins (recoveries of one role do not overlap), the manager has a store that
  heeds its context, and the two critical sections of the disconnect itself run together.\<close>

theorem disconnect_is_final:
  assumes "DisconnectRole ms name w = (Inr u, w1)"
    and "\<forall>(m, p, socket, c) \<in> set ps. m = name \<longrightarrow> map_of (bk_recoveryCancels (book w)) name = Some c"
    and "interleaved_step\<^sup>*\<^sup>* (ps, w1) (ps', w2)"
  shows "case role_of name w2 of None \<Rightarrow> True | Some r \<Rightarrow> \<not> mr_enabled r \<and> mr_process r = None"
proof -
  let ?X = "{c. map_of (bk_recoveryCancels (book w)) name = Some c}"
  have "quenched name ?X w1" using off_disconnect [OF assms(1)] by (auto simp: quenched_def)
  with quenched_interleaved [OF assms(3), of name ?X] assms(2) show ?thesis by (auto simp: quenched_def off_def)
qed

text \<open>The recovery of the role has detached process 1 under context 0; the disconnect completes; then
  the recovery goes on.\<close>

theorem disconnect_is_final_witness:
  "let w1 = snd (DisconnectRole quiet_manager ''home'' gap_world);
       w2 = snd (replace_process (quiet_manager\<lparr>ms_Ctx := Some 0\<rparr>) ''home'' 1 [] w1)
   in case role_of ''home'' w2 of None \<Rightarrow> True | Some r \<Rightarrow> \<not> mr_enabled r \<and> mr_process r = None"
proof -
  let ?w1 = "snd (DisconnectRole quiet_manager ''home'' gap_world)"
  let ?ms = "quiet_manager\<lparr>ms_Ctx := Some 0\<rparr>"
  have "fst (DisconnectRole quiet_manager ''home'' gap_world) = Inr ()" by code_simp
  then have run: "DisconnectRole quiet_manager ''home'' gap_world = (Inr (), ?w1)" by (simp add: prod_eq_iff)
  have "map_of (bk_recoveryCancels (book gap_world)) ''home'' = Some 0" by code_simp
  then have ctx: "\<forall>(m, p, socket, c) \<in> set [(''home'', 1 :: nat, [], 0)]. m = ''home'' \<longrightarrow>
      map_of (bk_recoveryCancels (book gap_world)) ''home'' = Some c" by simp
  have "heeds_context ?ms" by (simp add: heeds_context_def quiet_manager_def manager_on_def obedient_store_def throwT_apply)
  then have "interleaved_step ([(''home'', 1, [], 0)], ?w1)
      (remove1 (''home'', 1, [], 0) [(''home'', 1, [], 0)], snd (replace_process ?ms ''home'' 1 [] ?w1))"
    by (intro il_replace) simp_all
  from disconnect_is_final [OF run ctx r_into_rtranclp [where r = interleaved_step, OF this]] show ?thesis by (simp only: Let_def)
qed

text \<open>C39: a validation that ends after the process of its role was replaced leaves the role's
  validation flag up, and nothing lowers it any more: in no state the manager reaches from there
  is a validation of this role pending, and every attempt to schedule one does nothing.\<close>

theorem replaced_validation_strands_role:
  assumes "role_of n w = Some r" "mr_validationInFlight r" "mr_process r \<noteq> Some p"
    and "\<forall>q v. ValidateTask n q v \<notin> set (remove1 (ValidateTask n p u) (bk_tasks (book w)))"
    and "manager_step\<^sup>*\<^sup>* (run_task ms (ValidateTask n p u) (take_task (ValidateTask n p u) w)) w'"
  shows "scheduleValidation n q w' = w' \<and> (\<forall>q v. ValidateTask n q v \<notin> set (bk_tasks (book w')))"
proof -
  let ?v = "take_task (ValidateTask n p u) w"
  have "replaced n p ?v" using assms(1,3) by (simp add: replaced_def take_task_def)
  then have "calm {} {} {} ?v (run_task ms (ValidateTask n p u) ?v)"
    using calm_replaced_validation [OF calm_refl] by simp
  moreover have "stranded n ?v"
    using assms(1,2,4) by (simp add: stranded_def reads take_task_def)
  ultimately have "stranded n w'" using stranded_calm stranded_run [OF assms(5)] by blast
  then show ?thesis using stranded_schedule by (simp add: stranded_def reads)
qed

theorem replaced_validation_strands_role_witness:
  "let w = run_task quiet_manager (ValidateTask ''home'' 1 home_underlay)
             (take_task (ValidateTask ''home'' 1 home_underlay) swapped_world)
   in scheduleValidation ''home'' 2 (snd (RetryRole quiet_manager ''home'' w)) = snd (RetryRole quiet_manager ''home'' w)"
proof -
  let ?w = "run_task quiet_manager (ValidateTask ''home'' 1 home_underlay)
             (take_task (ValidateTask ''home'' 1 home_underlay) swapped_world)"
  have role: "role_of ''home'' swapped_world = Some (home_role\<lparr>mr_process := Some 2, mr_validationInFlight := True\<rparr>)"
    by code_simp
  have last: "\<forall>q v. ValidateTask ''home'' q v \<notin> set (remove1 (ValidateTask ''home'' 1 home_underlay) (bk_tasks (book swapped_world)))"
    by (simp add: swapped_world_def) (simp add: desk_defs new_book_def)
  have run: "manager_step\<^sup>*\<^sup>* ?w (snd (RetryRole quiet_manager ''home'' ?w))"
    by (rule r_into_rtranclp, rule step_retry)
  from replaced_validation_strands_role [OF role _ _ last run, of 2] show ?thesis by (simp add: Let_def)
qed



end
