(* ===== verification/Core_Snapshot.thy ===== *)
theory Core_Snapshot
  imports Core_Supervision Selected_Operations
begin

text \<open>
  What the core manager tells its clients (\<^verbatim>\<open>control/control.go\<close>): the row of a role with the
  actions a client may offer, and the snapshot of all rows. The process id and the IPv6 switch of
  Leshy are left out of a row, the observer health and the constant fields out of a snapshot.
\<close>

section \<open>The row of a role\<close>

fun role_state_text :: "role_state \<Rightarrow> string" where
  "role_state_text RoleStopped = ''Stopped''"
| "role_state_text RoleWaitingForUnderlay = ''WaitingForUnderlay''"
| "role_state_text RolePreparingEndpoint = ''PreparingEndpoint''"
| "role_state_text RoleStarting = ''Starting''"
| "role_state_text RoleValidating = ''Validating''"
| "role_state_text RoleReady = ''Ready''"
| "role_state_text RoleRecovering = ''Recovering''"
| "role_state_text RoleStopping = ''Stopping''"
| "role_state_text RoleFailed = ''Failed''"

definition titleState :: "string \<Rightarrow> string" where
  "titleState text =
     (let low = strings_ToLower text
      in if low = ''online'' then ''Online''
         else if low = ''ready'' then ''Ready''
         else if low = ''starting'' \<or> low = ''connecting'' then ''Starting''
         else if low = ''degraded'' \<or> low = ''recovering'' then (if low = ''recovering'' then ''Recovering'' else ''Degraded'')
         else if low = ''waitingforunderlay'' \<or> low = ''waiting_for_underlay'' then ''WaitingForUnderlay''
         else if low = ''failed'' then ''Failed''
         else if low = ''stopped'' \<or> low = ''disconnecting'' then ''Stopped''
         else ''Starting'')"

definition roleProfiles :: "string list \<Rightarrow> string list" where
  "roleProfiles cfgs =
     foldl (\<lambda>ps p. if p = [] \<or> p = ''default'' \<or> p \<in> set ps then ps else ps @ [p]) [''default''] cfgs"

record role_snapshot =
  sn_ID :: string
  sn_Profiles :: "string list"
  sn_Protocol :: string
  sn_State :: string
  sn_Reason :: string
  sn_RouteReady :: bool
  sn_Families :: route_families
  sn_InterfaceName :: string
  sn_IfIndex :: int
  sn_Connected :: bool
  sn_AvailableActions :: "string list"
  sn_DesiredEnabled :: bool
  sn_Generation :: u64
  sn_Operation :: u64
  sn_ValidatedEpoch :: u64
  sn_Endpoint :: endpoint_state
  sn_Publication :: publication_state
  sn_SelectedRoutes :: selected_stats
  sn_Parking :: parking_state
  sn_Recovery :: recovery_state
  sn_Validation :: validation_result

text \<open>The published state, once there is one to show.\<close>

definition shown_state :: "manager_role \<Rightarrow> observed_state option" where
  "shown_state r = (if mr_process r \<noteq> None \<and> mr_stateValid r then Some (mr_observed r) else None)"

definition observed_text :: "role_runtime option \<Rightarrow> manager_role \<Rightarrow> string \<times> string" where
  "observed_text product r =
     (let base =
        (if mr_process r = None then
           (if mr_enabled r \<and> mr_startPending r then (''Recovering'', mr_startReason r)
            else if mr_enabled r \<and> mr_lastError r \<noteq> [] then (''Failed'', mr_lastError r)
            else if mr_lastError r \<noteq> [] then (''Stopped'', mr_lastError r)
            else (''Stopped'', []))
         else if \<not> mr_stateValid r then (''Starting'', ''waiting for Toad state snapshot'')
         else (titleState (ob_State (mr_observed r)), ob_Reason (mr_observed r)))
      in case product of
           None \<Rightarrow> base
         | Some p \<Rightarrow>
             if mr_enabled r \<and> mr_process r \<noteq> None \<and> mr_streamed r \<and> (\<not> mr_stateValid r \<or> rr_State p \<noteq> RoleStarting)
             then (role_state_text (rr_State p),
                   if rr_LastError p \<noteq> [] then rr_LastError p
                   else if rr_Reason p \<noteq> [] then rr_Reason p else snd base)
             else base)"

definition availableActions :: "bool \<Rightarrow> string \<Rightarrow> string list" where
  "availableActions enabled state =
     (if \<not> enabled then [''connect'']
      else if state = ''Failed'' then [''retry'']
      else if state \<in> set [''Online'', ''Ready'', ''Starting'', ''Degraded'', ''Recovering''] then [''disconnect'', ''retry'']
      else [''connect''])"

definition configured_text :: "url_parser \<Rightarrow> role_config \<Rightarrow> string list" where
  "configured_text parse c =
     (case TransportEndpointSpecs parse (Some c) of
        Inl _ \<Rightarrow> []
      | Inr specs \<Rightarrow>
          map (\<lambda>s. if addrport_IsValid (es_Address s) then addrport_String (es_Address s) else es_Hostname s) specs)"

definition shown_endpoint ::
  "url_parser \<Rightarrow> role_config \<Rightarrow> u64 \<Rightarrow> bool \<Rightarrow> role_runtime option \<Rightarrow> endpoint_state" where
  "shown_endpoint parse c epoch connected product =
     (let guess = endpoint_zero\<lparr>en_Configured := configured_text parse c\<rparr>;
          guess = (if connected then guess\<lparr>en_State := ''ready'', en_AppliedUnderlayEpoch := epoch, en_Live := []\<rparr> else guess)
      in case product of
           None \<Rightarrow> guess
         | Some p \<Rightarrow> if en_State (rr_Endpoint p) \<noteq> [] then rr_Endpoint p else guess)"

text \<open>\<open>None\<close> is the nil dereference on a role without configuration.\<close>

definition snapshotRoleLocked :: "url_parser \<Rightarrow> string \<Rightarrow> manager_role \<Rightarrow> 'k world \<Rightarrow> role_snapshot option" where
  "snapshotRoleLocked parse name r w =
     (case mr_cfg r of
        None \<Rightarrow> None
      | Some c \<Rightarrow>
          let product = controller_Role (ew_Controller w) name;
              row = (case product of None \<Rightarrow> role_zero | Some p \<Rightarrow> p);
              shown = shown_state r;
              routeReady = (case shown of None \<Rightarrow> False | Some s \<Rightarrow> ob_RouteReady s);
              up = (case shown of None \<Rightarrow> False | Some s \<Rightarrow> ob_Connected s);
              (state, reason) = observed_text product r
          in Some \<lparr>sn_ID = name, sn_Profiles = roleProfiles (cf_Profiles c), sn_Protocol = cf_Protocol c,
                   sn_State = state, sn_Reason = reason, sn_RouteReady = routeReady,
                   sn_Families = pu_Families (rr_Publication row),
                   sn_InterfaceName = (case shown of None \<Rightarrow> [] | Some s \<Rightarrow> ob_InterfaceName s),
                   sn_IfIndex = (case shown of None \<Rightarrow> 0 | Some s \<Rightarrow> ob_IfIndex s), sn_Connected = up,
                   sn_AvailableActions = availableActions (mr_enabled r) state, sn_DesiredEnabled = mr_enabled r,
                   sn_Generation = (case shown of None \<Rightarrow> 0 | Some s \<Rightarrow> ob_Generation s), sn_Operation = mr_operation r,
                   sn_ValidatedEpoch = rr_ValidatedEpoch row,
                   sn_Endpoint = shown_endpoint parse c (ns_Epoch (currentUnderlay w)) (routeReady \<and> up) product,
                   sn_Publication = (if pu_Zone (rr_Publication row) \<noteq> [] then rr_Publication row else publication_zero),
                   sn_SelectedRoutes = Diagnostics name (dv_Selected (ew_Driver w)),
                   sn_Parking = rr_Parking row, sn_Recovery = rr_Recovery row, sn_Validation = rr_Validation row\<rparr>)"

section \<open>The snapshot\<close>

definition underlaySummary :: "netstate_snapshot \<Rightarrow> string" where
  "underlaySummary n =
     (case ns_IPv4 n of
        Some p \<Rightarrow>
          if addr_IsValid (pa_PreferredSrc p)
          then pa_Interface p @ '' '' @ [char_of (0xC2 :: nat), char_of (0xB7 :: nat)] @ '' '' @ addr_String (pa_PreferredSrc p)
          else pa_Interface p
      | None \<Rightarrow> (case ns_IPv6 n of Some p \<Rightarrow> pa_Interface p | None \<Rightarrow> ''Physical network unavailable''))"

record manager_snapshot =
  sp_Revision :: u64
  sp_CoreState :: string
  sp_AggregateState :: string
  sp_ActiveProfile :: string
  sp_Profiles :: "string list"
  sp_UnderlaySummary :: string
  sp_Underlay :: netstate_snapshot
  sp_Roles :: "role_snapshot list"

definition manager_snapshotLocked :: "url_parser \<Rightarrow> 'k world \<Rightarrow> manager_snapshot option" where
  "manager_snapshotLocked parse w =
     (case those (map (\<lambda>name. case role_of name w of None \<Rightarrow> None | Some r \<Rightarrow> snapshotRoleLocked parse name r w) (namesLocked w)) of
        None \<Rightarrow> None
      | Some rows \<Rightarrow>
          let product = controller_Snapshot (ew_Controller w)
          in Some \<lparr>sp_Revision = dv_Revision (ew_Driver w), sp_CoreState = cs_CoreState product,
                   sp_AggregateState = cs_AggregateState product, sp_ActiveProfile = bk_activeProfile (book w),
                   sp_Profiles = profiles_of_manager w, sp_UnderlaySummary = underlaySummary (currentUnderlay w),
                   sp_Underlay = currentUnderlay w, sp_Roles = rows\<rparr>)"

text \<open>\<^verbatim>\<open>WaitForRevision\<close>: whether a caller that has seen \<open>seen\<close> gets a snapshot now or goes on waiting.\<close>

definition newer_snapshot :: "url_parser \<Rightarrow> u64 \<Rightarrow> 'k world \<Rightarrow> manager_snapshot option" where
  "newer_snapshot parse seen w = (if seen < dv_Revision (ew_Driver w) then manager_snapshotLocked parse w else None)"

section \<open>Rows and roles\<close>

lemma roleProfiles_set: "set (roleProfiles cfgs) = insert ''default'' (set cfgs - {[]})"
proof -
  have "''default'' \<in> set ps \<Longrightarrow>
      set (foldl (\<lambda>ps p. if p = [] \<or> p = ''default'' \<or> p \<in> set ps then ps else ps @ [p]) ps cfgs) = set ps \<union> (set cfgs - {[]})" for ps
    by (induction cfgs arbitrary: ps) auto
  from this [of "[''default'']"] show ?thesis unfolding roleProfiles_def by auto
qed

lemma roleProfiles_distinct: "distinct (roleProfiles cfgs)"
proof -
  have "distinct ps \<Longrightarrow>
      distinct (foldl (\<lambda>ps p. if p = [] \<or> p = ''default'' \<or> p \<in> set ps then ps else ps @ [p]) ps cfgs)" for ps
    by (induction cfgs arbitrary: ps) auto
  then show ?thesis unfolding roleProfiles_def by simp
qed

text \<open>A role the core has given up on offers a retry only.\<close>

lemma failed_row_actions:
  assumes "snapshotRoleLocked parse name r w = Some row" "mr_enabled r" "mr_process r = Some p" "mr_streamed r"
    and "controller_Role (ew_Controller w) name = Some product" "rr_State product = RoleFailed"
  shows "sn_State row = ''Failed''" "sn_AvailableActions row = [''retry'']"
  using assms
  by (auto simp: snapshotRoleLocked_def Let_def observed_text_def availableActions_def split: option.splits prod.splits)

end
