(* ===== verification/Command_Properties.thy ===== *)
theory Command_Properties
  imports Supervision_Runs Core_Snapshot Sample_Manager
begin

text \<open>
  The commands of the core manager on every outcome: a profile switch is applied to all roles or to
  none, and what a command that fails, or that meets a goroutine of its own role, leaves behind.
\<close>

section \<open>Profile switches\<close>

definition switch_of :: "string \<Rightarrow> 'k world \<Rightarrow> (bool \<times> u64) option" where
  "switch_of n w = map_option (\<lambda>r. (mr_enabled r, mr_operation r)) (role_of n w)"

lemma enabled_set_role: "enabled_now (set_role m f v) n =
    (if n = m then (case role_of n v of None \<Rightarrow> False | Some r \<Rightarrow> mr_enabled (f r)) else enabled_now v n)"
  by (simp add: enabled_now_def split: option.splits)

lemma enabled_product [simp]: "enabled_now (on_product f v) n = enabled_now v n"
  by (simp add: enabled_now_def)

lemma profile_switch_reads:
  "role_of n v \<noteq> None \<Longrightarrow> enabled_now (profile_switch wanted m v) n = (if n = m then n \<in> set wanted else enabled_now v n)"
  "role_of n (profile_switch wanted m v) = None \<longleftrightarrow> role_of n v = None"
  "book (profile_switch wanted m v) = book v"
  by (auto simp: profile_switch_def Let_def enabled_set_role split: option.splits)

lemma profile_switches:
  "role_of n v \<noteq> None \<Longrightarrow> enabled_now (foldl (\<lambda>v m. profile_switch wanted m v) v names) n =
     (if n \<in> set names then n \<in> set wanted else enabled_now v n)"
  "role_of n (foldl (\<lambda>v m. profile_switch wanted m v) v names) = None \<longleftrightarrow> role_of n v = None"
  "book (foldl (\<lambda>v m. profile_switch wanted m v) v names) = book v"
  by (induction names arbitrary: v) (auto simp: profile_switch_reads simp del: not_None_eq)

lemma restore_switch_reads:
  "role_of n v \<noteq> None \<Longrightarrow> role_of n w \<noteq> None \<Longrightarrow>
     switch_of n (restore_switch w m v) = (if n = m then switch_of n w else switch_of n v)"
  "role_of n (restore_switch w m v) = None \<longleftrightarrow> role_of n v = None"
  "book (restore_switch w m v) = book v"
  by (auto simp: restore_switch_def switch_of_def split: option.splits)

lemma restore_switches:
  "role_of n v \<noteq> None \<Longrightarrow> role_of n w \<noteq> None \<Longrightarrow>
     switch_of n (foldl (\<lambda>v m. restore_switch w m v) v names) = (if n \<in> set names then switch_of n w else switch_of n v)"
  "book (foldl (\<lambda>v m. restore_switch w m v) v names) = book v"
  by (induction names arbitrary: v) (auto simp: restore_switch_reads simp del: not_None_eq)

lemma role_name: "role_of n w \<noteq> None \<Longrightarrow> n \<in> fst ` set (dv_Roles (ew_Driver w))"
  by (simp add: role_of_def map_of_eq_None_iff)

lemma switch_update [simp]:
  "switch_of n (update_book h w) = switch_of n w" "switch_of n (bumpLocked w) = switch_of n w" "switch_of n (spawn t w) = switch_of n w"
  "enabled_now (update_book h w) n = enabled_now w n" "enabled_now (bumpLocked w) n = enabled_now w n"
  "enabled_now (spawn t w) n = enabled_now w n"
  by (simp_all add: switch_of_def enabled_now_def)

text \<open>C21: selecting a profile applies to all roles or to none. When the store accepts the new desired
  state every role is enabled exactly if the profile lists it, and one goroutine is left that
  starts or stops the processes of the roles that changed; when the store refuses, the active
  profile, every role's desired state and operation count and the goroutines are as before.\<close>

theorem profile_switch_all_or_nothing:
  assumes "map_of (bk_profileToRoles (book w)) profile = Some wanted" and "bk_activeProfile (book w) \<noteq> profile"
    and "role_of n w = Some x" and "SetActiveProfile ms profile w = (r, w')"
  shows "case r of
     Inl _ \<Rightarrow> bk_activeProfile (book w') = bk_activeProfile (book w) \<and> bk_tasks (book w') = bk_tasks (book w) \<and>
             (\<exists>y. role_of n w' = Some y \<and> mr_enabled y = mr_enabled x \<and> mr_operation y = mr_operation x)
   | Inr _ \<Rightarrow> bk_activeProfile (book w') = profile \<and> (\<exists>y. role_of n w' = Some y \<and> (mr_enabled y \<longleftrightarrow> n \<in> set wanted)) \<and>
             (\<exists>changed. bk_tasks (book w') = bk_tasks (book w) @ [SettleProfileTask changed wanted] \<and>
                (n \<in> set changed \<longleftrightarrow> (mr_enabled x \<longleftrightarrow> n \<notin> set wanted)))"
proof -
  let ?names = "map fst (dv_Roles (ew_Driver w))"
  let ?changed = "filter (\<lambda>name. enabled_now w name \<noteq> (name \<in> set wanted)) ?names"
  let ?w1 = "foldl (\<lambda>v name. profile_switch wanted name v) (update_book (\<lambda>b. b\<lparr>bk_activeProfile := profile\<rparr>) w) ?names"
  have n: "role_of n w \<noteq> None" "n \<in> set ?names" using assms(3) role_name [of n w] by simp_all
  obtain s w2 where p: "persistDesiredLocked (background ms) ?w1 = (s, w2)" by force
  from persist_reads(4) [OF p] obtain status where
    b: "book w2 = (book w)\<lparr>bk_activeProfile := profile, bk_desiredStateStatus := status\<rparr>" by (auto simp: profile_switches)
  have on: "enabled_now w2 n = (n \<in> set wanted)" "role_of n w2 \<noteq> None"
    using n persist_reads(1) [OF p, of n] profile_switches(1,2) [where v = "update_book (\<lambda>b. b\<lparr>bk_activeProfile := profile\<rparr>) w" and n = n]
    by (simp_all add: enabled_now_def del: not_None_eq)
  show ?thesis
  proof (cases s)
    case (Inl e)
    with assms(1,2,4) p have r: "r = Inl (Wrapf ''persist active profile: %w'' e)"
      "w' = update_book (\<lambda>b. b\<lparr>bk_activeProfile := bk_activeProfile (book w)\<rparr>) (foldl (\<lambda>v name. restore_switch w name v) w2 ?names)"
      by (auto simp: SetActiveProfile_def Let_def)
    from restore_switches(1) [OF on(2) n(1), of ?names] n have "switch_of n w' = switch_of n w" by (simp add: r(2))
    then show ?thesis using assms(3) b by (auto simp: r restore_switches switch_of_def)
  next
    case (Inr u)
    with assms(1,2,4) p have r: "r = Inr ()" "w' = spawn (SettleProfileTask ?changed wanted) (bumpLocked w2)"
      by (auto simp: SetActiveProfile_def Let_def)
    have "n \<in> set ?changed \<longleftrightarrow> (mr_enabled x \<longleftrightarrow> n \<notin> set wanted)" using n assms(3) by (auto simp: enabled_now_def)
    then show ?thesis using on b by (auto simp: r enabled_now_def split: option.splits)
  qed
qed

theorem profile_switch_all_or_nothing_witness:
  "(\<exists>y. role_of ''home'' (snd (SetActiveProfile full_disk ''away'' desk_world)) = Some y \<and> mr_enabled y) \<and>
   (\<exists>y. role_of ''home'' (snd (SetActiveProfile quiet_manager ''away'' desk_world)) = Some y \<and> \<not> mr_enabled y)"
proof -
  have known: "map_of (bk_profileToRoles (book desk_world)) ''away'' = Some []" "bk_activeProfile (book desk_world) \<noteq> ''away''"
    "role_of ''home'' desk_world = Some home_role" by code_simp+
  have refused: "\<not> isl (fst (SetActiveProfile quiet_manager ''away'' desk_world))" "isl (fst (SetActiveProfile full_disk ''away'' desk_world))"
    by code_simp+
  note switch = profile_switch_all_or_nothing [OF known surjective_pairing]
  from switch [of full_disk] switch [of quiet_manager] refused show ?thesis
    by (auto simp: home_role_def split: sum.splits)
qed

section \<open>Commands that fail\<close>

text \<open>The switch and the process of a role, which the driver's steps leave alone.\<close>

definition running_as :: "string \<Rightarrow> (bool \<times> nat option) option \<Rightarrow> 'k world \<Rightarrow> bool" where
  "running_as n x w \<longleftrightarrow> map_option (\<lambda>r. (mr_enabled r, mr_process r)) (role_of n w) = x"

lemma running_as_core: "running_as n x w \<longleftrightarrow> map_option (\<lambda>c. (rc_enabled c, rc_process c)) (map_option core_of (role_of n w)) = x"
  by (simp add: running_as_def core_of_def option.map_comp comp_def)

interpretation running_as_view: managed_view "running_as n x" for n x
  by unfold_locales (simp add: running_as_core managed_def fun_eq_iff)

lemma persist_fails:
  assumes "ms_Save ms = Some save" and "\<forall>d k. \<exists>e. fst (save (ctx_err ms w) d k) = Inl e"
  obtains e w' where "persistDesiredLocked ms w = (Inl e, w')"
proof -
  obtain x w1 where run: "on_host (save (ctx_err ms w) (desiredStateLocked w)) w = (x, w1)" by force
  from assms(2) have "\<exists>e. x = Inl e"
    using run by (auto simp: on_host_def on_selected_def on_kernel_def split: prod.splits) (metis fst_conv)
  with run assms(1) that show ?thesis by (auto simp: persistDesiredLocked_def)
qed

text \<open>A disconnect that the store refuses reports the error and keeps the role enabled, with its
  process and its operation count, but it is not undone: the product sees a role that is starting,
  two operations later, with its recovery state erased, and a start that was pending for the role
  is forgotten.\<close>

lemma refused_disconnect_disturbs_role:
  assumes "role_of name w = Some r" "mr_enabled r" "controller_Role (ew_Controller w) name = Some product" "rr_Desired product"
    and "ms_Save ms = Some save" "\<forall>c d k. \<exists>e. fst (save c d k) = Inl e"
  shows "\<exists>e w' r' product'. DisconnectRole ms name w = (Inl e, w') \<and> role_of name w' = Some r' \<and>
     mr_enabled r' \<and> mr_process r' = mr_process r \<and> mr_operation r' = mr_operation r \<and>
     \<not> mr_startPending r' \<and> \<not> flag (bk_startRetryPending (book w')) name \<and>
     controller_Role (ew_Controller w') name = Some product' \<and> rr_Desired product' \<and> rr_State product' = RoleStarting \<and>
     rr_Operation product' = rr_Operation product + 2 \<and> rr_Recovery product' = recovery_zero"
proof -
  have "ms_Save (background ms) = Some save" using assms(5) by (simp add: background_def)
  from persist_fails [OF this] assms(6) obtain e w2 where p: "persistDesiredLocked (background ms) (switch_off name w) = (Inl e, w2)" by blast
  let ?w' = "on_product (SetRoleDesired name True)
      (set_role name (\<lambda>r'. r'\<lparr>mr_enabled := True, mr_operation := mr_operation r\<rparr>) w2)"
  have run: "DisconnectRole ms name w = (Inl (Wrapf ''persist desired state: %w'' e), ?w')"
    using assms(1,2) p by (simp add: DisconnectRole_def disconnect_section_def bindT_apply)
  have role: "role_of name ?w' = Some (r\<lparr>mr_startPending := False, mr_startReason := [], mr_enabled := True, mr_operation := mr_operation r\<rparr>)"
    using assms(1) persist_reads(1) [OF p, of name] by (simp add: switch_off_def product_disconnect_def)
  have book: "\<not> flag (bk_startRetryPending (book ?w')) name"
    using persist_reads(4) [OF p] by (auto simp: switch_off_def product_disconnect_def)
  have "ew_Controller w2 = ew_Controller (switch_off name w)" by (rule persist_reads(3) [OF p])
  then have "\<exists>product'. controller_Role (ew_Controller ?w') name = Some product' \<and> rr_Desired product' \<and> rr_State product' = RoleStarting \<and>
     rr_Operation product' = rr_Operation product + 2 \<and> rr_Recovery product' = recovery_zero"
    using assms(3,4) by (simp add: switch_off_def product_disconnect_def on_product_def controller_Role_def SetRoleDesired_def SetRecovery_def
        SetRetrySchedule_def recovery_zero_def Let_def)
  with run role book assms(2) show ?thesis by auto
qed

lemma refused_disconnect_disturbs_role_witness:
  "\<exists>e w' product'. DisconnectRole full_disk ''home'' desk_world = (Inl e, w') \<and>
     controller_Role (ew_Controller w') ''home'' = Some product' \<and> rr_State product' = RoleStarting"
proof -
  have "role_of ''home'' desk_world = Some home_role" "mr_enabled home_role"
    "controller_Role (ew_Controller desk_world) ''home'' = Some home_runtime" "rr_Desired home_runtime" by code_simp+
  moreover have "ms_Save full_disk = Some (\<lambda>c d. throwT (Errorf ''no space left on device''))" by (simp add: full_disk_def)
  ultimately show ?thesis
    using refused_disconnect_disturbs_role [of "''home''" desk_world home_role home_runtime full_disk] by (fastforce simp: throwT_apply)
qed

lemma prepared_role:
  assumes "prepareRoleStart ms name w = (Inr True, w1)" "role_of name w = Some r"
  shows "\<exists>x. role_of name w1 = Some x \<and> mr_enabled x \<and> mr_process x = None"
proof -
  from assms have on: "mr_enabled r" "mr_process r = None" by (auto simp: prepareRoleStart_def split: if_splits)
  have w: "running_as name (Some (True, None)) w" using assms(2) on by (simp add: running_as_def)
  have applied: "running_as name (Some (True, None)) v" if "driver_ApplyEndpoint (ms_Recovery ms) name w = (y, v)" for y v
    using keepsTD [OF running_as_view.apply_endpoint w that] .
  from assms on consider "w1 = w" | u v where "driver_ApplyEndpoint (ms_Recovery ms) name w = (Inr u, v)" "w1 = start_prepared name v"
    by (auto simp: prepareRoleStart_def Let_def split: if_splits prod.splits sum.splits)
  then have "running_as name (Some (True, None)) w1"
  proof cases
    case 2
    then show ?thesis using applied [OF 2(1)] by (auto simp: running_as_def start_prepared_def)
  qed (simp add: w)
  then show ?thesis by (auto simp: running_as_def)
qed

text \<open>A role whose launch fails is left without a process and with nothing that would try again:
  it stays enabled, no start is pending for it and no goroutine was started.\<close>

lemma failed_launch_is_not_retried:
  assumes "role_of name w = Some r" "mr_enabled r" "mr_process r = None" "roleCredentialError ms name w = None"
    and "prepareRoleStart ms name w = (Inr True, w1)" and "\<forall>path k. \<exists>e. fst (ms_Start ms path k) = Inl e"
  shows "\<exists>e w' r'. startRoleProcess ms name w = (Inl e, w') \<and> bk_tasks (book w') = bk_tasks (book w1) \<and>
     role_of name w' = Some r' \<and> mr_enabled r' \<and> mr_process r' = None \<and> \<not> mr_startPending r'"
proof -
  let ?v = "\<lambda>x. snd (on_host (ms_Remove ms (role_state_dir x @ ''/state.json'')) (begin_launch name w1))"
  from assms(1-3,5) obtain x where x: "role_of name w1 = Some x" "mr_enabled x" "mr_process x = None"
    using prepared_role [of ms name w w1 r] by blast
  obtain y w2 where run: "on_host (ms_Start ms (mr_configPath x)) (?v x) = (y, w2)" by force
  have "\<exists>e. y = Inl e"
    using run assms(6) by (auto simp: on_host_def on_selected_def on_kernel_def split: prod.splits) (metis fst_conv)
  then obtain e where y: "y = Inl e" ..
  have role: "role_of name w2 = Some (x\<lparr>mr_stateValid := False, mr_validationPendingEpoch := 0, mr_startPending := False, mr_startReason := []\<rparr>)"
    "bk_tasks (book w2) = bk_tasks (book w1)"
    using x by (simp_all add: on_host_reads [OF run] begin_launch_def)
  have "startRoleProcess ms name w = (Inl (Wrapf ''start Toad %q: %w'' e), bumpLocked (set_role name (\<lambda>r. r\<lparr>mr_lastError := error_text e\<rparr>) w2))"
    using assms(4,5) x run y role by (simp add: startRoleProcess_def bindT_apply launch_role_def)
  then show ?thesis using role x by auto
qed

section \<open>Late profile goroutines\<close>

text \<open>The goroutine of a profile switch that stops a departing role does not ask whether the role is
  still departing. When the operator has switched back before it runs, it stops the process of a
  role that is desired again: the role stays enabled, without a process, without a pending start
  and without a goroutine that would start it.\<close>

lemma late_departure_stops_desired_role:
  assumes "role_of n w = Some r" "mr_enabled r" "\<not> mr_startPending r" "n \<notin> set wanted"
    and "SettleProfileTask [n] wanted \<in> set (bk_tasks (book w))"
  shows "\<exists>w' r'. background_step w w' \<and> role_of n w' = Some r' \<and> mr_enabled r' \<and> mr_process r' = None \<and>
     \<not> mr_startPending r' \<and> bk_tasks (book w') = remove1 (SettleProfileTask [n] wanted) (bk_tasks (book w))"
proof -
  let ?t = "SettleProfileTask [n] wanted"
  obtain x v where stop: "stopRoleProcess ms n (take_task ?t w) = (x, v)" by force
  have v: "role_of n v = Some (r\<lparr>mr_process := None, mr_validationPendingEpoch := 0\<rparr>)" "bk_tasks (book v) = remove1 ?t (bk_tasks (book w))"
    using stopped_role [OF _ stop] assms(1) by (simp_all add: take_task_def)
  have "run_task ms ?t (take_task ?t w) = v"
    using assms(2,4) stop v by (simp add: settle_profile_def stop_and_release_def releaseRoleResources_def)
  moreover have "background_step w (run_task ms ?t (take_task ?t w))" by (rule step_task [OF assms(5)]) simp
  ultimately show ?thesis using v assms(2,3) by auto
qed

text \<open>A running role; away and back again, and the goroutines in the other order.\<close>

lemma late_departure_stops_desired_role_witness:
  "\<exists>w w' r'. manager_step\<^sup>*\<^sup>* desk_world w \<and> bk_activeProfile (book w) = ''default'' \<and> background_step w w' \<and>
     role_of ''home'' w' = Some r' \<and> mr_enabled r' \<and> mr_process r' = None \<and> bk_tasks (book w') = []"
proof -
  let ?w1 = "snd (SetActiveProfile quiet_manager ''away'' desk_world)"
  let ?w2 = "snd (SetActiveProfile quiet_manager ''default'' ?w1)"
  let ?t = "SettleProfileTask [''home''] [''home'']"
  let ?w3 = "run_task quiet_manager ?t (take_task ?t ?w2)"
  have "bk_tasks (book ?w2) = [SettleProfileTask [''home''] [], ?t]" by code_simp
  then have "background_step ?w2 ?w3" by (intro step_task) simp_all
  then have run: "manager_step\<^sup>*\<^sup>* desk_world ?w3"
    by (meson step_background step_profile rtranclp.rtrancl_into_rtrancl rtranclp.rtrancl_refl)
  have w3: "map_option (\<lambda>r. (mr_enabled r, mr_process r, mr_startPending r)) (role_of ''home'' ?w3) = Some (True, Some 1, False)"
    "bk_tasks (book ?w3) = [SettleProfileTask [''home''] []]" "bk_activeProfile (book ?w3) = ''default''" by code_simp+
  from w3(1) obtain r where r: "role_of ''home'' ?w3 = Some r" "mr_enabled r" "\<not> mr_startPending r" by auto
  from late_departure_stops_desired_role [OF r, of "[]"] w3 run show ?thesis by fastforce
qed

section \<open>Roles the core has given up on\<close>

text \<open>The retry of a role the core has given up on does nothing while its process is alive. The
  command succeeds, but it starts no goroutine and changes neither the role nor the product's
  view of it, and the row of the role, before and after, offers the retry as its only action.\<close>

lemma retry_of_failed_role_is_idle:
  assumes "role_of name w = Some r" "mr_enabled r" "mr_process r = Some p" "mr_streamed r" "mr_cfg r = Some c"
    and "controller_Role (ew_Controller w) name = Some product" "rr_State product = RoleFailed"
    and "\<not> rl_integrityQuarantined (roleState name (dv_Selected (ew_Driver w)))"
  shows "\<exists>w' row. RetryRole ms name w = (Inr (), w') \<and> bk_tasks (book w') = bk_tasks (book w) \<and>
     role_of name w' = Some r \<and> ew_Controller w' = ew_Controller w \<and>
     snapshotRoleLocked parse name r w' = Some row \<and> sn_State row = ''Failed'' \<and> sn_AvailableActions row = [''retry'']"
proof -
  let ?w1 = "snd (on_selected (putT (touch_role name)) w)"
  have w1: "role_of name ?w1 = Some r" "book ?w1 = book w" "ew_Controller ?w1 = ew_Controller w" "currentUnderlay ?w1 = currentUnderlay w"
    "\<not> rl_integrityQuarantined (roleState name (dv_Selected (ew_Driver ?w1)))"
    using assms(1,8) by (auto simp: on_selected_def role_of_def book_def currentUnderlay_def update_driver_def touch_role_def
        update_role_def roleState_def split: prod.splits)
  have run: "RetryRole ms name w = (Inr (), bumpLocked ?w1)"
    using assms w1 by (simp add: RetryRole_def Let_def)
  have "snapshotRoleLocked parse name r (bumpLocked ?w1) \<noteq> None"
    using assms(5) by (simp add: snapshotRoleLocked_def Let_def split: prod.splits)
  then obtain row where row: "snapshotRoleLocked parse name r (bumpLocked ?w1) = Some row" by blast
  from failed_row_actions [OF row assms(2-4) _ assms(7)] assms(6) w1(3)
  have "sn_State row = ''Failed''" "sn_AvailableActions row = [''retry'']" by simp_all
  with run row w1 show ?thesis by auto
qed

lemma retry_of_failed_role_is_idle_witness:
  "\<exists>w' row. RetryRole quiet_manager ''home'' given_up_world = (Inr (), w') \<and> bk_tasks (book w') = [] \<and>
     snapshotRoleLocked (\<lambda>_. Inl (Errorf [])) ''home'' home_role w' = Some row \<and> sn_AvailableActions row = [''retry'']"
proof -
  let ?product = "home_runtime\<lparr>rr_Recovery := recovery_zero, rr_State := RoleFailed, rr_Reason := ''leshy is down''\<rparr>"
  have ready: "role_of ''home'' given_up_world = Some home_role" "mr_enabled home_role" "mr_process home_role = Some 1"
    "mr_streamed home_role" "mr_cfg home_role = Some home_config"
    "controller_Role (ew_Controller given_up_world) ''home'' = Some ?product" "rr_State ?product = RoleFailed"
    "\<not> rl_integrityQuarantined (roleState ''home'' (dv_Selected (ew_Driver given_up_world)))"
    "bk_tasks (book given_up_world) = []" by code_simp+
  from retry_of_failed_role_is_idle [OF ready(1-8), of quiet_manager "\<lambda>_. Inl (Errorf [])"] ready(9) show ?thesis by auto
qed

lemma third_failure_tracked:
  assumes "\<not> errorsIs e ErrValidationPending" "role_of name w = Some r" "mr_enabled r" "streak_of name w = 2"
    and "controller_Role (ew_Controller w) name = Some product"
  shows "\<exists>product'. role_of name (trackRecoveryFailure name (Some e) w) = Some (r\<lparr>mr_lastError := error_text e\<rparr>) \<and>
     controller_Role (ew_Controller (trackRecoveryFailure name (Some e) w)) name = Some product' \<and>
     \<not> rr_Desired product' \<and> rr_State product' = RoleFailed \<and>
     bk_tasks (book (trackRecoveryFailure name (Some e) w)) = bk_tasks (book w)"
  using assms
  by (auto simp: trackRecoveryFailure_def enabled_now_def Let_def controller_Role_def SetRoleDesired_def SetRecovery_def)

text \<open>C22: the third failure of a recovery in a row, of any kind but a pending validation, is final: the
  product no longer desires the role, which it shows as failed, and no retry is armed, although
  the role stays enabled with the process it has.\<close>

theorem third_failure_gives_up:
  assumes "run_recovery ms name operation epoch w = (Some e, w1)"
    and "\<not> errorsIs e ErrRecoveryCancelled" "\<not> errorsIs e ErrValidationPending" "\<not> role_cancelled name w1"
    and "role_of name w1 = Some r" "mr_enabled r" "streak_of name w1 = 2"
    and "controller_Role (ew_Controller w1) name = Some product"
    and "recoverRole ms name operation epoch w = (err, w')"
  shows "\<exists>r' product'. role_of name w' = Some r' \<and> mr_enabled r' \<and> mr_process r' = mr_process r \<and>
     mr_lastError r' = error_text e \<and> controller_Role (ew_Controller w') name = Some product' \<and>
     \<not> rr_Desired product' \<and> rr_State product' = RoleFailed \<and>
     set (bk_tasks (book w')) \<subseteq> set (bk_tasks (book w1)) \<union> {HandoffTask name operation epoch}"
proof -
  let ?v = "trackRecoveryFailure name (Some e) w1"
  from assms have w': "w' = end_context name (bk_nextContext (book w)) (settle_recovery ms name operation epoch (Some e) ?v)"
    by (auto simp: recoverRole_def)
  from third_failure_tracked [OF assms(3,5-8)] obtain product' where
    v: "role_of name ?v = Some (r\<lparr>mr_lastError := error_text e\<rparr>)" "controller_Role (ew_Controller ?v) name = Some product'"
       "\<not> rr_Desired product'" "rr_State product' = RoleFailed" "bk_tasks (book ?v) = bk_tasks (book w1)" by blast
  have "scheduleRecoveryRetry ms name operation epoch (clear_in_flight name ?v) = clear_in_flight name ?v"
    using v by (simp add: scheduleRecoveryRetry_def can_retry_def clear_in_flight_def)
  then show ?thesis
    using v assms(3,6) by (auto simp: w' end_context_def settle_recovery_def clear_in_flight_def end_recovery_def)
qed

theorem third_failure_gives_up_witness:
  "\<exists>product'. controller_Role (ew_Controller (snd (recoverRole deaf_leshy ''home'' 0 2 worn_world))) ''home'' = Some product' \<and>
     rr_State product' = RoleFailed"
proof -
  let ?run = "run_recovery deaf_leshy ''home'' 0 2 worn_world"
  have run: "fst ?run = Some (Errorf ''leshy is down'')" "\<not> role_cancelled ''home'' (snd ?run)"
    "role_of ''home'' (snd ?run) = Some home_role" "mr_enabled home_role" "streak_of ''home'' (snd ?run) = 2"
    "controller_Role (ew_Controller (snd ?run)) ''home'' \<noteq> None" by code_simp+
  from run(6) obtain product where product: "controller_Role (ew_Controller (snd ?run)) ''home'' = Some product" by blast
  have other: "\<not> errorsIs (Errorf ''leshy is down'') ErrRecoveryCancelled" "\<not> errorsIs (Errorf ''leshy is down'') ErrValidationPending"
    by simp_all
  from run(1) have "?run = (Some (Errorf ''leshy is down''), snd ?run)" by (simp add: prod_eq_iff)
  from third_failure_gives_up [OF this other run(2-5) product surjective_pairing] show ?thesis by blast
qed

section \<open>A restart during a disconnect\<close>

interpretation enabled_view: managed_view "\<lambda>w. enabled_now w n" for n
proof unfold_locales
  fix w w' :: "'a world"
  have core: "enabled_now v n = (case map_option core_of (role_of n v) of None \<Rightarrow> False | Some c \<Rightarrow> rc_enabled c)" for v :: "'a world"
    by (simp add: enabled_now_def core_of_def split: option.splits)
  assume "managed w' = managed w" and "enabled_now w n"
  then show "enabled_now w' n" unfolding core by (simp add: managed_def fun_eq_iff)
qed

lemma enabled_keeps [simp]:
  "enabled_now (scheduleStartRetry ms name w) n = enabled_now w n"
  "enabled_now (defer_start name reason w) n = enabled_now w n"
  "enabled_now (start_prepared name w) n = enabled_now w n"
  "enabled_now (begin_launch name w) n = enabled_now w n"
  "enabled_now (snd (on_host t w)) n = enabled_now w n"
  "enabled_now (stopToad ms socket w) n = enabled_now w n"
  by (simp_all add: scheduleStartRetry_def defer_start_def start_prepared_def begin_launch_def stopToad_def enabled_now_def
      split: option.splits prod.splits)

lemma enabled_prepare: "keepsT (\<lambda>w. enabled_now w n) (prepareRoleStart ms name)"
proof (rule keepsTI)
  fix w r w'
  assume on: "enabled_now w n" and run: "prepareRoleStart ms name w = (r, w')"
  have "enabled_now v n" if "driver_ApplyEndpoint (ms_Recovery ms) name w = (y, v)" for y v
    using keepsTD [OF enabled_view.apply_endpoint on that] .
  with on run show "enabled_now w' n"
    by (auto simp: prepareRoleStart_def Let_def split: option.splits if_splits prod.splits sum.splits)
qed

lemma enabled_launch: "keepsT (\<lambda>w. enabled_now w n) (launch_role ms name)"
proof (rule keepsTI)
  fix w r w'
  assume on: "enabled_now w n" and run: "launch_role ms name w = (r, w')"
  have h: "enabled_now v n" if "on_host t (snd (on_host t' (begin_launch name w))) = (x, v)"
    for t :: "('a, nat) tx" and t' :: "('a, unit) tx" and x v
    using on by (simp add: enabled_now_def on_host_reads [OF that]) (auto simp: begin_launch_def split: option.splits)
  from on run show "enabled_now w' n"
    by (auto simp: launch_role_def adopt_process_def Let_def enabled_set_role split: option.splits if_splits prod.splits sum.splits
        dest!: h simp: enabled_now_def)
qed

lemma started_role:
  assumes "startRoleProcess ms name w = (Inr u, w')" "enabled_now w n"
  shows "enabled_now w' n"
proof -
  have "keepsT (\<lambda>w. enabled_now w n) (bindT (prepareRoleStart ms name) (\<lambda>ready. if ready then launch_role ms name else returnT ()))"
    by (intro keepsT_bind enabled_prepare keepsT_if enabled_launch keepsT_return)
  from keepsTD [OF this assms(2)] assms(1) show ?thesis by (auto simp: startRoleProcess_def split: option.splits)
qed

lemma connected_role:
  assumes "ConnectRole ms name w = (Inr u, w')"
  shows "role_of name w \<noteq> None" "enabled_now w' name"
proof -
  from assms show role: "role_of name w \<noteq> None" by (auto simp: ConnectRole_def split: option.splits)
  let ?w1 = "on_product (SetRoleDesired name True)
      (set_role name (\<lambda>r. r\<lparr>mr_operation := (if mr_enabled r then mr_operation r else mr_operation r + 1), mr_enabled := True\<rparr>) w)"
  obtain s w2 where p: "persistDesiredLocked ms ?w1 = (s, w2)" by force
  from assms p have "startRoleProcess ms name (bumpLocked w2) = (Inr u, w')"
    by (auto simp: ConnectRole_def Let_def split: option.splits sum.splits)
  moreover have "enabled_now w2 name" using role persist_reads(1) [OF p, of name] by (auto simp: enabled_now_def)
  ultimately show "enabled_now w' name" using started_role [of ms name "bumpLocked w2" u w' name] by simp
qed

lemma replaced_role:
  assumes "replace_process ms name p socket w = (Inr u, w')"
  shows "enabled_now w' name"
proof -
  obtain x v where stop: "on_host (ms_Stop ms p) (stopToad ms socket w) = (x, v)" by force
  with assms have "ConnectRole ms name v = (Inr u, w')"
    by (auto simp: replace_process_def bindT_apply split: sum.splits)
  then show ?thesis by (rule connected_role(2))
qed

text \<open>C23: a disconnect has a gap between the critical section that turns the role off and the one that
  stops its process and cancels the recovery. When the recovery in flight has taken the process of
  the role away to replace it, and connects the role in that gap, its context is still live: the
  role is enabled again and launched. The disconnect then stops the new process, cancels the
  recovery too late, and skips the release because it finds the role enabled. It reports what the
  stop reports, and leaves the role enabled without a process, with its resources in place.\<close>

theorem disconnect_gap_reenables_role:
  assumes "map_of (bk_recoveryCancels (book w)) name = Some c" "c \<notin> set (bk_cancelled (book w))" "ms_Ctx recovery = Some c"
    and "disconnect_section ms name w = (Inr u, w1)"
    and "replace_process recovery name p socket w1 = (Inr u', w2)"
    and "stop_and_release ms name w2 = (r, w3)"
  shows "ctx_err recovery w1 = None \<and> (\<exists>x. role_of name w1 = Some x \<and> \<not> mr_enabled x) \<and>
     (\<exists>x. role_of name w3 = Some x \<and> mr_enabled x \<and> mr_process x = None) \<and>
     stop_and_release ms name w2 = stopRoleProcess ms name w2"
proof -
  from disconnected_section [OF assms(4)] obtain x where
    x: "role_of name w1 = Some x" "\<not> mr_enabled x" "bk_cancelled (book w1) = bk_cancelled (book w)" by metis
  from x(3) assms(2,3) have live: "ctx_err recovery w1 = None" by (simp add: ctx_err_def)
  from replaced_role [OF assms(5)] obtain y where y: "role_of name w2 = Some y" "mr_enabled y"
    by (auto simp: enabled_now_def split: option.splits)
  obtain a v where stop: "stopRoleProcess ms name w2 = (a, v)" by force
  note stopped = stopped_role(1) [OF y(1) stop]
  have "releaseRoleResources ms name True v = (Inr (), v)"
    using stopped y(2) by (simp add: releaseRoleResources_def)
  then have "stop_and_release ms name w2 = (a, v)"
    using stop by (simp add: stop_and_release_def join_results_def split: sum.splits)
  with assms(6) stop stopped x live y(2) show ?thesis by simp
qed

text \<open>The recovery of the role runs under context 0 and has detached process 1.\<close>

theorem disconnect_gap_reenables_role_witness:
  "let w1 = snd (disconnect_section quiet_manager ''home'' gap_world);
       w2 = snd (replace_process (quiet_manager\<lparr>ms_Ctx := Some 0\<rparr>) ''home'' 1 [] w1);
       w3 = snd (stop_and_release quiet_manager ''home'' w2)
   in fst (stop_and_release quiet_manager ''home'' w2) = Inr () \<and>
      (\<exists>x. role_of ''home'' w3 = Some x \<and> mr_enabled x \<and> mr_process x = None)"
proof -
  let ?w1 = "snd (disconnect_section quiet_manager ''home'' gap_world)"
  let ?ms = "quiet_manager\<lparr>ms_Ctx := Some 0\<rparr>"
  let ?w2 = "snd (replace_process ?ms ''home'' 1 [] ?w1)"
  have ctx: "map_of (bk_recoveryCancels (book gap_world)) ''home'' = Some 0" "0 \<notin> set (bk_cancelled (book gap_world))"
    "ms_Ctx ?ms = Some 0" by code_simp+
  have ok: "fst (disconnect_section quiet_manager ''home'' gap_world) = Inr ()" "fst (replace_process ?ms ''home'' 1 [] ?w1) = Inr ()"
    "fst (stop_and_release quiet_manager ''home'' ?w2) = Inr ()" by code_simp+
  have "disconnect_section quiet_manager ''home'' gap_world = (Inr (), ?w1)" "replace_process ?ms ''home'' 1 [] ?w1 = (Inr (), ?w2)"
    using ok(1,2) by (simp_all add: prod_eq_iff)
  from disconnect_gap_reenables_role [OF ctx this surjective_pairing] ok(3) show ?thesis unfolding Let_def by blast
qed

end
