(* ===== verification/Disk_Model.thy ===== *)
theory Disk_Model
  imports File_Store
begin

text \<open>
  What the atomic replacement needs of the operating system, as a locale, and a disk that has it:
  names and file contents live in a page cache, a file's data and a directory's names reach the
  medium when they are synced, any call may fail, and the power may go at any point. The lemmas of
  the locale say what a replacement may leave behind.
\<close>

section \<open>The contract\<close>

text \<open>\<open>views k p\<close> is what \<open>p\<close> may hold after a loss of power, \<open>temp k n x d\<close> that \<open>n\<close> is a new
  file holding \<open>x\<close>, synced if \<open>d\<close>, and \<open>placed k p x\<close> that \<open>p\<close> now names a synced file holding
  \<open>x\<close>.\<close>

locale durable_files =
  fixes fs :: "'k file_system"
    and ok :: "'k \<Rightarrow> bool"
    and views :: "'k \<Rightarrow> string \<Rightarrow> string option set"
    and temp :: "'k \<Rightarrow> string \<Rightarrow> string \<Rightarrow> bool \<Rightarrow> bool"
    and placed :: "'k \<Rightarrow> string \<Rightarrow> string \<Rightarrow> bool"
  assumes create: "tripleT (\<lambda>k. ok k \<and> views k p = V) (fs_CreateTemp fs dir pattern)
      (\<lambda>n k. ok k \<and> (n \<noteq> p \<longrightarrow> views k p = V) \<and> temp k n [] False \<and> has_prefix (dir @ ''/'' @ pattern) n)
      (\<lambda>k. ok k \<and> views k p = V)"
    and chmod: "keepsT (\<lambda>k. ok k \<and> views k p = V) (fs_Chmod fs q mode)"
      "keepsT (\<lambda>k. temp k n x b) (fs_Chmod fs q mode)" "keepsT (\<lambda>k. placed k p x) (fs_Chmod fs q mode)"
    and append_temp: "n \<noteq> p \<Longrightarrow> tripleT (\<lambda>k. ok k \<and> views k p = V \<and> temp k n [] False) (fs_Write fs n x)
      (\<lambda>_ k. ok k \<and> views k p = V \<and> temp k n x False) (\<lambda>k. ok k \<and> views k p = V)"
    and sync_temp: "n \<noteq> p \<Longrightarrow> tripleT (\<lambda>k. ok k \<and> views k p = V \<and> temp k n x b) (fs_Sync fs n)
      (\<lambda>_ k. ok k \<and> views k p = V \<and> temp k n x True) (\<lambda>k. ok k \<and> views k p = V)"
    and close: "keepsT (\<lambda>k. ok k \<and> views k p = V) (fs_Close fs q)"
      "keepsT (\<lambda>k. temp k n x b) (fs_Close fs q)" "keepsT (\<lambda>k. placed k p x) (fs_Close fs q)"
    and rename: "n \<noteq> p \<Longrightarrow> tripleT (\<lambda>k. ok k \<and> views k p = V \<and> temp k n x True) (fs_Rename fs n p)
      (\<lambda>_ k. ok k \<and> views k p \<subseteq> insert (Some x) V \<and> placed k p x) (\<lambda>k. ok k \<and> views k p = V)"
    and remove: "q \<noteq> p \<Longrightarrow> keepsT (\<lambda>k. ok k \<and> views k p = V) (fs_Remove fs q)"
    and open_dir: "keepsT (\<lambda>k. ok k \<and> views k p = V) (fs_Open fs q)" "keepsT (\<lambda>k. placed k p x) (fs_Open fs q)"
    and sync_dir: "tripleT (\<lambda>k. ok k \<and> views k p = V \<and> placed k p x) (fs_SyncOpenDir fs dir)
      (\<lambda>_ k. ok k \<and> views k p \<subseteq> insert (Some x) V \<and> (has_prefix (dir @ ''/'') p \<longrightarrow> views k p = {Some x}))
      (\<lambda>k. ok k \<and> views k p = V)"
    and mkdir: "keepsT (\<lambda>k. ok k \<and> views k p = V) (fs_MkdirAll fs q)"
    and posix: "fs_GOOS fs \<noteq> ''windows''"
begin

text \<open>A call that keeps every exact set of views keeps every bound on it.\<close>

lemma keeps_bound:
  assumes "\<And>V. keepsT (\<lambda>k. ok k \<and> views k p = V) t"
  shows "keepsT (\<lambda>k. ok k \<and> Q (views k p)) t"
proof (rule keepsTI)
  fix k r k'
  assume "ok k \<and> Q (views k p)" and run: "t k = (r, k')"
  moreover from this keepsTD [OF assms [of "views k p"] _ run] have "ok k' \<and> views k' p = views k p" by simp
  ultimately show "ok k' \<and> Q (views k' p)" by simp
qed

lemma keeps_both: "keepsT P t \<Longrightarrow> keepsT Q t \<Longrightarrow> keepsT (\<lambda>k. P k \<and> Q k) t"
  by (simp add: keepsT_def)

lemma triple_onError:
  "tripleT P t Q E \<Longrightarrow> keepsT E c \<Longrightarrow> tripleT P (onErrorT c t) Q E"
  by (fastforce simp: tripleT_def keepsT_def onErrorT_def split: prod.splits sum.splits)

lemma triple_defer:
  assumes "tripleT P t Q E" and "\<And>a. keepsT (Q a) c" and "keepsT E c"
  shows "tripleT P (deferT c t) Q E"
  using assms by (fastforce simp: tripleT_def keepsT_def deferT_def split: prod.splits sum.splits)

lemma step_mapErr:
  "tripleT P t Q E \<Longrightarrow> keepsT E c \<Longrightarrow> tripleT P (onErrorT c (mapErrT f t)) Q E"
  by (intro triple_onError triple_mapErr)

lemma fill_temp_sealed:
  assumes "n \<noteq> p"
  shows "tripleT (\<lambda>k. ok k \<and> views k p = V \<and> temp k n [] False) (fill_temp fs wrap n mode x)
           (\<lambda>_ k. ok k \<and> views k p = V \<and> temp k n x True) (\<lambda>k. ok k \<and> views k p = V)"
  unfolding fill_temp_def
proof (intro triple_bind)
  show "tripleT (\<lambda>k. ok k \<and> views k p = V \<and> temp k n [] False)
      (onErrorT (fs_Close fs n) (mapErrT (wrap ChmodStage) (fs_Chmod fs n mode)))
      (\<lambda>_ k. ok k \<and> views k p = V \<and> temp k n [] False) (\<lambda>k. ok k \<and> views k p = V)"
    by (rule step_mapErr [OF triple_conseq [OF triple_keeps [OF keeps_both [OF chmod(1) chmod(2)]]] close(1)]) auto
  show "tripleT (\<lambda>k. ok k \<and> views k p = V \<and> temp k n [] False)
      (onErrorT (fs_Close fs n) (mapErrT (wrap WriteStage) (fs_Write fs n x)))
      (\<lambda>_ k. ok k \<and> views k p = V \<and> temp k n x False) (\<lambda>k. ok k \<and> views k p = V)"
    by (rule step_mapErr [OF append_temp [OF assms] close(1)])
  show "tripleT (\<lambda>k. ok k \<and> views k p = V \<and> temp k n x False)
      (onErrorT (fs_Close fs n) (mapErrT (wrap SyncStage) (fs_Sync fs n)))
      (\<lambda>_ k. ok k \<and> views k p = V \<and> temp k n x True) (\<lambda>k. ok k \<and> views k p = V)"
    by (rule step_mapErr [OF sync_temp [OF assms] close(1)])
  show "tripleT (\<lambda>k. ok k \<and> views k p = V \<and> temp k n x True)
      (mapErrT (wrap CloseStage) (fs_Close fs n))
      (\<lambda>_ k. ok k \<and> views k p = V \<and> temp k n x True) (\<lambda>k. ok k \<and> views k p = V)"
    by (rule triple_mapErr [OF triple_conseq [OF triple_keeps [OF keeps_both [OF close(1) close(2)]]]]) auto
qed

text \<open>Whatever fails, the target holds what it held or the new data; \<open>rest\<close> is what the caller
  does after the rename.\<close>

lemma replace_file_bound:
  assumes pattern: "\<not> has_prefix (dir @ ''/'' @ pattern) p"
    and rest: "tripleT (\<lambda>k. ok k \<and> views k p \<subseteq> insert (Some x) V \<and> placed k p x) rest
      (\<lambda>_ k. ok k \<and> views k p = {Some x}) (\<lambda>k. ok k \<and> views k p \<subseteq> insert (Some x) V)"
  shows "tripleT (\<lambda>k. ok k \<and> views k p = V) (replace_file fs wrap dir pattern p mode x rest)
      (\<lambda>_ k. ok k \<and> views k p = {Some x}) (\<lambda>k. ok k \<and> views k p \<subseteq> insert (Some x) V)"
  unfolding replace_file_def
proof (rule triple_bind)
  show "tripleT (\<lambda>k. ok k \<and> views k p = V) (mapErrT (wrap CreateStage) (fs_CreateTemp fs dir pattern))
      (\<lambda>n k. (ok k \<and> views k p = V \<and> temp k n [] False) \<and> n \<noteq> p) (\<lambda>k. ok k \<and> views k p \<subseteq> insert (Some x) V)"
  proof (rule triple_mapErr, rule triple_conseq [OF create [where p = p and V = V]])
    fix n k
    assume k: "ok k \<and> (n \<noteq> p \<longrightarrow> views k p = V) \<and> temp k n [] False \<and> has_prefix (dir @ ''/'' @ pattern) n"
    with pattern have "n \<noteq> p" by metis
    with k show "(ok k \<and> views k p = V \<and> temp k n [] False) \<and> n \<noteq> p" by simp
  qed auto
next
  fix n
  show "tripleT (\<lambda>k. (ok k \<and> views k p = V \<and> temp k n [] False) \<and> n \<noteq> p)
     (deferT (fs_Remove fs n) (bindT (fill_temp fs wrap n mode x)
         (\<lambda>_. bindT (mapErrT (wrap RenameStage) (fs_Rename fs n p)) (\<lambda>_. rest))))
     (\<lambda>_ k. ok k \<and> views k p = {Some x}) (\<lambda>k. ok k \<and> views k p \<subseteq> insert (Some x) V)"
  proof (rule triple_pure)
    assume n: "n \<noteq> p"
    have filled: "tripleT (\<lambda>k. ok k \<and> views k p = V \<and> temp k n [] False) (fill_temp fs wrap n mode x)
        (\<lambda>_ k. ok k \<and> views k p = V \<and> temp k n x True) (\<lambda>k. ok k \<and> views k p \<subseteq> insert (Some x) V)"
      by (rule triple_conseq [OF fill_temp_sealed [OF n]]) auto
    have moved: "tripleT (\<lambda>k. ok k \<and> views k p = V \<and> temp k n x True) (mapErrT (wrap RenameStage) (fs_Rename fs n p))
        (\<lambda>_ k. ok k \<and> views k p \<subseteq> insert (Some x) V \<and> placed k p x) (\<lambda>k. ok k \<and> views k p \<subseteq> insert (Some x) V)"
      by (rule triple_mapErr [OF triple_conseq [OF rename [OF n]]]) auto
    show "tripleT (\<lambda>k. ok k \<and> views k p = V \<and> temp k n [] False)
       (deferT (fs_Remove fs n) (bindT (fill_temp fs wrap n mode x)
           (\<lambda>_. bindT (mapErrT (wrap RenameStage) (fs_Rename fs n p)) (\<lambda>_. rest))))
       (\<lambda>_ k. ok k \<and> views k p = {Some x}) (\<lambda>k. ok k \<and> views k p \<subseteq> insert (Some x) V)"
      by (rule triple_defer [OF triple_bind [OF filled triple_bind [OF moved rest]]
            remove [OF n] keeps_bound [OF remove [OF n], where Q = "\<lambda>W. W \<subseteq> insert (Some x) V"]])
  qed
qed

lemma SyncDir_settles:
  assumes "has_prefix (dir @ ''/'') p"
  shows "tripleT (\<lambda>k. ok k \<and> views k p \<subseteq> insert (Some x) V \<and> placed k p x) (SyncDir fs dir)
      (\<lambda>_ k. ok k \<and> views k p = {Some x}) (\<lambda>k. ok k \<and> views k p \<subseteq> insert (Some x) V)"
proof -
  let ?B = "\<lambda>k. ok k \<and> views k p \<subseteq> insert (Some x) V"
  have bound: "keepsT ?B t" if "\<And>V. keepsT (\<lambda>k. ok k \<and> views k p = V) t" for t :: "('k, unit) tx"
    by (rule keeps_bound [where Q = "\<lambda>W. W \<subseteq> insert (Some x) V", OF that])
  have opened: "tripleT (\<lambda>k. ?B k \<and> placed k p x) (fs_Open fs dir) (\<lambda>_ k. ?B k \<and> placed k p x) ?B"
    by (rule triple_conseq [OF triple_keeps [OF keeps_both [OF bound [OF open_dir(1)] open_dir(2)]]]) auto
  have synced: "tripleT (\<lambda>k. ?B k \<and> placed k p x) (fs_SyncOpenDir fs dir) (\<lambda>_ k. ok k \<and> views k p = {Some x}) ?B"
  proof (rule tripleI)
    fix k e k' assume k: "?B k \<and> placed k p x" and run: "fs_SyncOpenDir fs dir k = (Inl e, k')"
    then show "?B k'" using triple_error [OF sync_dir [of p "views k p" x dir] _ run] by simp
  next
    fix k u k' assume k: "?B k \<and> placed k p x" and run: "fs_SyncOpenDir fs dir k = (Inr u, k')"
    then show "ok k' \<and> views k' p = {Some x}"
      using triple_value [OF sync_dir [of p "views k p" x dir] _ run] assms by simp
  qed
  have "tripleT (\<lambda>k. ?B k \<and> placed k p x) (SyncDir fs dir) (\<lambda>_ k. ok k \<and> views k p = {Some x}) ?B"
    unfolding SyncDir_def if_not_P [OF posix]
    by (rule triple_bind [OF opened triple_defer [OF synced close(1) bound [OF close(1)]]])
  then show ?thesis by simp
qed

lemma WriteAtomicFile_bound:
  assumes dir: "p = filepath_Dir p @ ''/'' @ filepath_Base p"
  shows "tripleT (\<lambda>k. ok k \<and> views k p = V) (WriteAtomicFile fs p x mode)
      (\<lambda>_ k. ok k \<and> views k p = {Some x}) (\<lambda>k. ok k \<and> views k p \<subseteq> insert (Some x) V)"
proof -
  have len: "has_prefix q s \<Longrightarrow> length q \<le> length s" for q s :: string
    by (induction q s rule: has_prefix.induct) auto
  have "length p = length (filepath_Dir p) + 1 + length (filepath_Base p)"
    using arg_cong [OF dir, of length] by simp
  then have pattern: "\<not> has_prefix (filepath_Dir p @ ''/'' @ ''.'' @ filepath_Base p @ ''-'') p"
    by (auto dest!: len)
  have "has_prefix q (q @ r)" for q r :: string by (induction q) auto
  from this [of "filepath_Dir p @ ''/''" "filepath_Base p"] dir
  have "has_prefix (filepath_Dir p @ ''/'') p" by simp
  from replace_file_bound [OF pattern SyncDir_settles [OF this]] show ?thesis
    unfolding WriteAtomicFile_def Let_def
    by (intro triple_head [OF mkdir]) auto
qed

end

section \<open>A disk\<close>

text \<open>An inode holds the data written so far and whether it has been synced since. The names in
  the cache may be ahead of those on the medium. The script says how the next calls end: a call
  that fails on writing has written some bytes; when the script is used up the power is gone, and
  no call changes anything any more.\<close>

record inode =
  in_Data :: string
  in_Synced :: bool

datatype call_outcome = Works | Fails nat

record disk =
  dk_Inodes :: "(nat, inode) gomap"
  dk_Next :: nat
  dk_Names :: "(string, nat) gomap"
  dk_Durable :: "(string, nat) gomap"
  dk_Script :: "call_outcome list"
  dk_Clock :: gotime

definition scripted :: "(disk \<Rightarrow> (goerror + 'a) \<times> disk) \<Rightarrow> (nat \<Rightarrow> disk \<Rightarrow> disk) \<Rightarrow> (disk, 'a) tx" where
  "scripted f partial d =
     (case dk_Script d of
        [] \<Rightarrow> (Inl (Errorf ''power lost''), d)
      | Works # s \<Rightarrow> f (d\<lparr>dk_Script := s\<rparr>)
      | Fails n # s \<Rightarrow> (Inl (Errorf ''input/output error''), partial n (d\<lparr>dk_Script := s\<rparr>)))"

definition plain_call :: "(disk, unit) tx" where
  "plain_call = scripted (\<lambda>d. (Inr (), d)) (\<lambda>_ d. d)"

text \<open>A name no file has: longer than every name.\<close>

definition fresh_name :: "disk \<Rightarrow> string \<Rightarrow> string" where
  "fresh_name d stem = stem @ replicate (Suc (sum_list (map (length \<circ> fst) (dk_Names d @ dk_Durable d)))) (CHR ''0'')"

definition disk_CreateTemp :: "string \<Rightarrow> string \<Rightarrow> (disk, string) tx" where
  "disk_CreateTemp dir pattern =
     scripted (\<lambda>d. let n = fresh_name d (dir @ ''/'' @ pattern); i = dk_Next d
                   in (Inr n, d\<lparr>dk_Inodes := gomap_put i \<lparr>in_Data = [], in_Synced = False\<rparr> (dk_Inodes d),
                               dk_Next := Suc i, dk_Names := gomap_put n i (dk_Names d)\<rparr>))
       (\<lambda>_ d. d)"

definition edit_inode :: "string \<Rightarrow> (inode \<Rightarrow> inode) \<Rightarrow> disk \<Rightarrow> disk" where
  "edit_inode n f d =
     (case map_of (dk_Names d) n of
        None \<Rightarrow> d
      | Some i \<Rightarrow> (case map_of (dk_Inodes d) i of
                     None \<Rightarrow> d
                   | Some nd \<Rightarrow> d\<lparr>dk_Inodes := gomap_put i (f nd) (dk_Inodes d)\<rparr>))"

definition append_data :: "string \<Rightarrow> inode \<Rightarrow> inode" where
  "append_data x nd = nd\<lparr>in_Data := in_Data nd @ x, in_Synced := False\<rparr>"

definition disk_Write :: "string \<Rightarrow> string \<Rightarrow> (disk, unit) tx" where
  "disk_Write n x =
     scripted (\<lambda>d. (Inr (), edit_inode n (append_data x) d)) (\<lambda>m. edit_inode n (append_data (take m x)))"

definition disk_Sync :: "string \<Rightarrow> (disk, unit) tx" where
  "disk_Sync n = scripted (\<lambda>d. (Inr (), edit_inode n (\<lambda>nd. nd\<lparr>in_Synced := True\<rparr>) d)) (\<lambda>_ d. d)"

definition disk_Rename :: "string \<Rightarrow> string \<Rightarrow> (disk, unit) tx" where
  "disk_Rename n p =
     scripted (\<lambda>d. case map_of (dk_Names d) n of
                     None \<Rightarrow> (Inl (Sentinel SyscallENOENT), d)
                   | Some i \<Rightarrow> (Inr (), d\<lparr>dk_Names := gomap_put p i (gomap_del n (dk_Names d))\<rparr>))
       (\<lambda>_ d. d)"

definition disk_Remove :: "string \<Rightarrow> (disk, unit) tx" where
  "disk_Remove n =
     scripted (\<lambda>d. if map_of (dk_Names d) n = None then (Inl (Sentinel ErrNotExist), d)
                   else (Inr (), d\<lparr>dk_Names := gomap_del n (dk_Names d)\<rparr>))
       (\<lambda>_ d. d)"

definition disk_SyncOpenDir :: "string \<Rightarrow> (disk, unit) tx" where
  "disk_SyncOpenDir dir =
     scripted (\<lambda>d. (Inr (), d\<lparr>dk_Durable := filter (\<lambda>e. has_prefix (dir @ ''/'') (fst e)) (dk_Names d) @
                                            filter (\<lambda>e. \<not> has_prefix (dir @ ''/'') (fst e)) (dk_Durable d)\<rparr>))
       (\<lambda>_ d. d)"

definition disk_content :: "disk \<Rightarrow> string \<Rightarrow> string option" where
  "disk_content d p =
     (case map_of (dk_Names d) p of
        None \<Rightarrow> None
      | Some i \<Rightarrow> map_option in_Data (map_of (dk_Inodes d) i))"

definition disk_ReadFile :: "string \<Rightarrow> (disk, string) tx" where
  "disk_ReadFile p d = (case disk_content d p of None \<Rightarrow> (Inl (Sentinel ErrNotExist), d) | Some x \<Rightarrow> (Inr x, d))"

text \<open>\<^verbatim>\<open>os.WriteFile\<close> truncates the file in place before it writes.\<close>

definition put_file :: "string \<Rightarrow> string \<Rightarrow> disk \<Rightarrow> disk" where
  "put_file p x d =
     (case map_of (dk_Names d) p of
        Some i \<Rightarrow> d\<lparr>dk_Inodes := gomap_put i \<lparr>in_Data = x, in_Synced = False\<rparr> (dk_Inodes d)\<rparr>
      | None \<Rightarrow> d\<lparr>dk_Inodes := gomap_put (dk_Next d) \<lparr>in_Data = x, in_Synced = False\<rparr> (dk_Inodes d),
                  dk_Next := Suc (dk_Next d), dk_Names := gomap_put p (dk_Next d) (dk_Names d)\<rparr>)"

definition disk_WriteFile :: "string \<Rightarrow> string \<Rightarrow> (disk, unit) tx" where
  "disk_WriteFile p x = scripted (\<lambda>d. (Inr (), put_file p x d)) (\<lambda>n. put_file p (take n x))"

definition disk_Stat :: "string \<Rightarrow> (disk, unit) tx" where
  "disk_Stat p d = (if map_of (dk_Names d) p = None then (Inl (Sentinel ErrNotExist), d) else (Inr (), d))"

definition disk_ReadDir :: "string \<Rightarrow> (disk, (string \<times> bool) list) tx" where
  "disk_ReadDir dir d =
     (Inr (map (\<lambda>p. (drop (Suc (length dir)) p, False))
             (filter (\<lambda>p. has_prefix (dir @ ''/'') p) (sort (map fst (dk_Names d))))), d)"

definition disk_fs :: "disk file_system" where
  "disk_fs = \<lparr>fs_MkdirAll = (\<lambda>_. plain_call), fs_CreateTemp = disk_CreateTemp, fs_Chmod = (\<lambda>_ _. plain_call),
     fs_Write = disk_Write, fs_Sync = disk_Sync, fs_Close = (\<lambda>_. plain_call), fs_Rename = disk_Rename,
     fs_Remove = disk_Remove, fs_Open = (\<lambda>_. plain_call), fs_SyncOpenDir = disk_SyncOpenDir,
     fs_ReadFile = disk_ReadFile, fs_WriteFile = disk_WriteFile, fs_Stat = disk_Stat,
     fs_ReadDir = disk_ReadDir, fs_GOOS = ''linux'', fs_Now = dk_Clock\<rparr>"

text \<open>After a loss of power a name is as it was in the cache or on the medium (\<open>kept\<close>), and of an
  unsynced file some first bytes are left (\<open>left\<close>).\<close>

definition survives :: "bool \<Rightarrow> nat \<Rightarrow> disk \<Rightarrow> string \<Rightarrow> string option" where
  "survives kept left d p =
     (case map_of (if kept then dk_Names d else dk_Durable d) p of
        None \<Rightarrow> None
      | Some i \<Rightarrow> map_option (\<lambda>nd. if in_Synced nd then in_Data nd else take left (in_Data nd)) (map_of (dk_Inodes d) i))"

definition power_cycle :: "bool \<Rightarrow> nat \<Rightarrow> disk \<Rightarrow> disk" where
  "power_cycle kept left d =
     (let names = (if kept then dk_Names d else dk_Durable d)
      in d\<lparr>dk_Names := names, dk_Durable := names,
           dk_Inodes := gomap_map (\<lambda>_ nd. if in_Synced nd then nd
                          else \<lparr>in_Data = take left (in_Data nd), in_Synced = True\<rparr>) (dk_Inodes d)\<rparr>)"

definition crash_views :: "disk \<Rightarrow> string \<Rightarrow> string option set" where
  "crash_views d p = {survives kept left d p | kept left. True}"

definition named_by :: "disk \<Rightarrow> string \<Rightarrow> nat \<Rightarrow> bool" where
  "named_by d a i \<longleftrightarrow> map_of (dk_Names d) a = Some i \<or> map_of (dk_Durable d) a = Some i"

text \<open>No two names share an inode, and numbers are handed out once.\<close>

definition names_ok :: "disk \<Rightarrow> bool" where
  "names_ok d \<longleftrightarrow> (\<forall>a b i. named_by d a i \<and> named_by d b i \<longrightarrow> a = b) \<and> (\<forall>a i. named_by d a i \<longrightarrow> i < dk_Next d)"

definition disk_temp :: "disk \<Rightarrow> string \<Rightarrow> string \<Rightarrow> bool \<Rightarrow> bool" where
  "disk_temp d n x b \<longleftrightarrow>
     (\<exists>i. map_of (dk_Names d) n = Some i \<and> map_of (dk_Durable d) n = None \<and>
          map_of (dk_Inodes d) i = Some \<lparr>in_Data = x, in_Synced = b\<rparr>)"

definition disk_placed :: "disk \<Rightarrow> string \<Rightarrow> string \<Rightarrow> bool" where
  "disk_placed d p x \<longleftrightarrow>
     (\<exists>i. map_of (dk_Names d) p = Some i \<and> map_of (dk_Inodes d) i = Some \<lparr>in_Data = x, in_Synced = True\<rparr>)"

lemma survives_script [simp]: "survives kept left (d\<lparr>dk_Script := s\<rparr>) p = survives kept left d p"
  by (auto simp: survives_def split: option.splits)

lemma power_cycle_content: "disk_content (power_cycle kept left d) p = survives kept left d p"
  by (auto simp: disk_content_def power_cycle_def survives_def Let_def option.map_comp comp_def
      split: option.splits intro!: option.map_cong)

lemma script_irrelevant [simp]:
  "names_ok (d\<lparr>dk_Script := s\<rparr>) = names_ok d" "crash_views (d\<lparr>dk_Script := s\<rparr>) p = crash_views d p"
  "disk_temp (d\<lparr>dk_Script := s\<rparr>) n x b = disk_temp d n x b" "disk_placed (d\<lparr>dk_Script := s\<rparr>) p x = disk_placed d p x"
  "named_by (d\<lparr>dk_Script := s\<rparr>) a i = named_by d a i"
  by (simp_all add: names_ok_def crash_views_def disk_temp_def disk_placed_def named_by_def)

lemma triple_scripted:
  assumes "\<And>d r d'. P d \<Longrightarrow> f d = (r, d') \<Longrightarrow> case r of Inl _ \<Rightarrow> E d' | Inr a \<Rightarrow> Q a d'"
    and "\<And>n d. P d \<Longrightarrow> E (partial n d)" and "\<And>d. P d \<Longrightarrow> E d" and "\<And>d s. P (d\<lparr>dk_Script := s\<rparr>) = P d"
  shows "tripleT P (scripted f partial) Q E"
  unfolding tripleT_def
proof (intro allI impI)
  fix d assume P: "P d"
  show "case scripted f partial d of (Inl e, d') \<Rightarrow> E d' | (Inr a, d') \<Rightarrow> Q a d'"
  proof (cases "dk_Script d")
    case Nil
    with P assms(3) show ?thesis by (simp add: scripted_def)
  next
    case (Cons c s)
    from P assms(4) have "P (d\<lparr>dk_Script := s\<rparr>)" by simp
    then show ?thesis
      using Cons assms(1) [of "d\<lparr>dk_Script := s\<rparr>"] assms(2)
      by (auto simp: scripted_def split: call_outcome.splits prod.splits sum.splits)
  qed
qed

lemma keeps_scripted:
  assumes "\<And>d. P d \<Longrightarrow> P (snd (f d))" and "\<And>n d. P d \<Longrightarrow> P (partial n d)" and "\<And>d s. P (d\<lparr>dk_Script := s\<rparr>) = P d"
  shows "keepsT P (scripted f partial)"
  using assms by (auto simp: keepsT_def scripted_def split: list.splits call_outcome.splits)

lemma keeps_plain: "(\<And>d s. P (d\<lparr>dk_Script := s\<rparr>) = P d) \<Longrightarrow> keepsT P plain_call"
  unfolding plain_call_def by (rule keeps_scripted) auto

lemma views_same:
  "(\<And>kept left. survives kept left d p = survives kept left d' p) \<Longrightarrow> crash_views d p = crash_views d' p"
  by (simp add: crash_views_def)

lemma fresh_name_new: "map_of (dk_Names d) (fresh_name d stem) = None \<and> map_of (dk_Durable d) (fresh_name d stem) = None"
proof -
  have longer: "x \<in> set xs \<Longrightarrow> length (fst x) \<le> sum_list (map (length \<circ> fst) xs)" for x :: "string \<times> nat" and xs
    by (induction xs) auto
  have "fresh_name d stem \<notin> fst ` set (dk_Names d @ dk_Durable d)"
    using longer [of _ "dk_Names d @ dk_Durable d"] by (fastforce simp: fresh_name_def)
  then show ?thesis by (auto simp: map_of_eq_None_iff)
qed

lemma names_okI:
  assumes "\<And>a b i. named_by d a i \<Longrightarrow> named_by d b i \<Longrightarrow> a = b" and "\<And>a i. named_by d a i \<Longrightarrow> i < dk_Next d"
  shows "names_ok d"
  using assms unfolding names_ok_def by blast

lemma names_ok_sub:
  assumes "names_ok d" and "\<And>a i. named_by d' a i \<Longrightarrow> named_by d a i" and "dk_Next d \<le> dk_Next d'"
  shows "names_ok d'"
  using assms unfolding names_ok_def by (meson order_less_le_trans)

lemma edit_inode_other:
  assumes "names_ok d" and "n \<noteq> p"
  shows "names_ok (edit_inode n f d)" "crash_views (edit_inode n f d) p = crash_views d p"
proof -
  show "names_ok (edit_inode n f d)"
    using assms(1) by (auto simp: edit_inode_def names_ok_def named_by_def split: option.splits)
  have "survives kept left (edit_inode n f d) p = survives kept left d p" for kept left
    using assms by (auto simp: edit_inode_def survives_def names_ok_def named_by_def split: option.splits)
  then show "crash_views (edit_inode n f d) p = crash_views d p" by (rule views_same)
qed

lemma edit_inode_temp:
  "disk_temp d n x b \<Longrightarrow> disk_temp (edit_inode n f d) n (in_Data (f \<lparr>in_Data = x, in_Synced = b\<rparr>)) (in_Synced (f \<lparr>in_Data = x, in_Synced = b\<rparr>))"
  by (auto simp: disk_temp_def edit_inode_def)

text \<open>The calls that change names.\<close>

lemma new_temp_ok:
  assumes "names_ok d" and n: "map_of (dk_Names d) n = None" "map_of (dk_Durable d) n = None"
    and d': "d' = d\<lparr>dk_Inodes := gomap_put (dk_Next d) nd (dk_Inodes d), dk_Next := Suc (dk_Next d),
                    dk_Names := gomap_put n (dk_Next d) (dk_Names d)\<rparr>"
  shows "names_ok d'" "n \<noteq> p \<Longrightarrow> crash_views d' p = crash_views d p"
proof -
  have old: "named_by d a i \<Longrightarrow> i < dk_Next d" for a i using assms(1) by (auto simp: names_ok_def)
  have nb: "named_by d' a i \<longleftrightarrow> (if a = n then i = dk_Next d else named_by d a i)" for a i
    using n d' by (auto simp: named_by_def)
  have nxt: "dk_Next d' = Suc (dk_Next d)" using d' by simp
  show "names_ok d'"
  proof (rule names_okI)
    fix a b i assume "named_by d' a i" "named_by d' b i"
    then show "a = b" using assms(1) old [of a i] old [of b i] by (auto simp: nb names_ok_def split: if_splits)
  next
    fix a i assume "named_by d' a i"
    then show "i < dk_Next d'" using old [of a i] nxt by (auto simp: nb split: if_splits)
  qed
  assume "n \<noteq> p"
  then have "survives kept left d' p = survives kept left d p" for kept left
    using d' old [of p] by (auto simp: survives_def named_by_def split: option.splits)
  then show "crash_views d' p = crash_views d p" by (rule views_same)
qed

lemma renamed_ok:
  assumes ok: "names_ok d" and temp: "disk_temp d n x True" and n: "n \<noteq> p" and i: "map_of (dk_Names d) n = Some i"
    and d': "d' = d\<lparr>dk_Names := gomap_put p i (gomap_del n (dk_Names d))\<rparr>"
  shows "names_ok d'" "crash_views d' p \<subseteq> insert (Some x) (crash_views d p)" "disk_placed d' p x"
proof -
  from temp i have nd: "map_of (dk_Inodes d) i = Some \<lparr>in_Data = x, in_Synced = True\<rparr>" and new: "map_of (dk_Durable d) n = None"
    by (auto simp: disk_temp_def)
  from ok i have alone: "named_by d a i \<Longrightarrow> a = n" for a by (auto simp: names_ok_def named_by_def)
  have nb: "named_by d' a j \<longleftrightarrow> (a = p \<and> j = i) \<or> (a \<noteq> p \<and> a \<noteq> n \<and> map_of (dk_Names d) a = Some j) \<or>
      map_of (dk_Durable d) a = Some j" for a j
    using d' by (auto simp: named_by_def)
  have not_i: "map_of (dk_Durable d) a \<noteq> Some i" for a using alone [of a] new by (auto simp: named_by_def)
  have sub: "named_by d' a j \<Longrightarrow> (a = p \<and> j = i) \<or> (named_by d a j \<and> j \<noteq> i)" for a j
    using nb [of a j] alone [of a] not_i [of a] by (auto simp: named_by_def)
  show "names_ok d'"
    proof (rule names_okI)
    fix a b j assume "named_by d' a j" "named_by d' b j"
    with sub [of a j] sub [of b j] ok show "a = b" by (auto simp: names_ok_def)
  next
    fix a j assume "named_by d' a j"
    with sub [of a j] ok i d' show "j < dk_Next d'" by (auto simp: names_ok_def named_by_def)
  qed
  have "survives kept left d' p \<in> insert (Some x) (crash_views d p)" for kept left
  proof (cases kept)
    case True
    with d' nd show ?thesis by (simp add: survives_def)
  next
    case False
    with d' have "survives kept left d' p = survives False left d p" by (simp add: survives_def split: option.splits)
    then show ?thesis by (auto simp: crash_views_def)
  qed
  then show "crash_views d' p \<subseteq> insert (Some x) (crash_views d p)" by (auto simp: crash_views_def)
  show "disk_placed d' p x" using nd d' by (simp add: disk_placed_def)
qed

lemma removed_ok:
  assumes "names_ok d" and "n \<noteq> p" and "d' = d\<lparr>dk_Names := gomap_del n (dk_Names d)\<rparr>"
  shows "names_ok d'" "crash_views d' p = crash_views d p"
proof -
  have sub: "named_by d' a j \<Longrightarrow> named_by d a j" for a j using assms(3) by (auto simp: named_by_def split: if_splits)
  then show "names_ok d'" by (rule names_ok_sub [OF assms(1)]) (use assms(3) in auto)
  show "crash_views d' p = crash_views d p"
    using assms(2,3) by (intro views_same) (auto simp: survives_def split: option.splits)
qed

lemma map_of_keep: "map_of (filter (\<lambda>e. P (fst e)) m) k = (if P k then map_of m k else None)"
  by (induction m) auto

lemma synced_dir_ok:
  assumes ok: "names_ok d" and placed: "disk_placed d p x"
    and d': "d' = d\<lparr>dk_Durable := filter (\<lambda>e. has_prefix (dir @ ''/'') (fst e)) (dk_Names d) @
                              filter (\<lambda>e. \<not> has_prefix (dir @ ''/'') (fst e)) (dk_Durable d)\<rparr>"
  shows "names_ok d'" "crash_views d' p \<subseteq> insert (Some x) (crash_views d p)"
    "has_prefix (dir @ ''/'') p \<Longrightarrow> crash_views d' p = {Some x}"
proof -
  have durable: "map_of (dk_Durable d') a = (if has_prefix (dir @ ''/'') a then map_of (dk_Names d) a else map_of (dk_Durable d) a)" for a
    using map_of_keep [of "\<lambda>q. has_prefix (dir @ ''/'') q" "dk_Names d" a]
      map_of_keep [of "\<lambda>q. \<not> has_prefix (dir @ ''/'') q" "dk_Durable d" a]
    by (auto simp: d' map_add_def split: option.splits)
  have "named_by d' a j \<Longrightarrow> named_by d a j" for a j
    using durable [of a] d' by (auto simp: named_by_def split: if_splits)
  then show "names_ok d'" by (rule names_ok_sub [OF ok]) (use d' in auto)
  have kept: "survives True left d' p = Some x" for left
    using placed d' by (auto simp: survives_def disk_placed_def)
  have lost: "survives False left d' p = (if has_prefix (dir @ ''/'') p then Some x else survives False left d p)" for left
    using placed durable [of p] d' by (auto simp: survives_def disk_placed_def split: option.splits)
  have "survives kept left d' p \<in> insert (Some x) (crash_views d p)" for kept left
    using kept [of left] lost [of left] by (cases kept) (auto simp: crash_views_def)
  then show "crash_views d' p \<subseteq> insert (Some x) (crash_views d p)" by (auto simp: crash_views_def)
  assume "has_prefix (dir @ ''/'') p"
  then have "survives kept left d' p = Some x" for kept left
    using kept [of left] lost [of left] by (cases kept) auto
  then show "crash_views d' p = {Some x}" by (auto simp: crash_views_def)
qed

section \<open>The disk keeps the contract\<close>

lemmas disk_call_defs = disk_fs_def disk_CreateTemp_def disk_Write_def disk_Sync_def disk_Rename_def disk_Remove_def
  disk_SyncOpenDir_def

interpretation cached: durable_files disk_fs names_ok crash_views disk_temp disk_placed
proof (unfold_locales, goal_cases create chmod1 chmod2 chmod3 append sync close1 close2 close3 rename remove open1 open2 syncdir mkdir goos)
  case (create p V dir pattern)
  have prefix: "has_prefix q (q @ r)" for q r :: string by (induction q) auto
  show ?case
    unfolding disk_call_defs file_system.simps
  proof (rule triple_scripted)
    fix d r d'
    assume P: "names_ok d \<and> crash_views d p = V"
      and run: "(let n = fresh_name d (dir @ ''/'' @ pattern); i = dk_Next d
         in (Inr n, d\<lparr>dk_Inodes := gomap_put i \<lparr>in_Data = [], in_Synced = False\<rparr> (dk_Inodes d),
                      dk_Next := Suc i, dk_Names := gomap_put n i (dk_Names d)\<rparr>)) = (r, d')"
    let ?n = "fresh_name d (dir @ ''/'' @ pattern)"
    from run have r: "r = Inr ?n" and d': "d' = d\<lparr>dk_Inodes := gomap_put (dk_Next d) \<lparr>in_Data = [], in_Synced = False\<rparr> (dk_Inodes d),
        dk_Next := Suc (dk_Next d), dk_Names := gomap_put ?n (dk_Next d) (dk_Names d)\<rparr>"
      by (auto simp: Let_def)
    note new = fresh_name_new [of d "dir @ ''/'' @ pattern"]
    have "disk_temp d' ?n [] False" using new d' by (simp add: disk_temp_def)
    moreover have "has_prefix (dir @ ''/'' @ pattern) ?n" unfolding fresh_name_def by (rule prefix)
    ultimately show "case r of Inl _ \<Rightarrow> names_ok d' \<and> crash_views d' p = V
        | Inr n \<Rightarrow> names_ok d' \<and> (n \<noteq> p \<longrightarrow> crash_views d' p = V) \<and> disk_temp d' n [] False \<and> has_prefix (dir @ ''/'' @ pattern) n"
      using r P new_temp_ok [OF _ _ _ d'] new by simp
  qed auto
next
  case (append n p V x)
  show ?case
    unfolding disk_call_defs file_system.simps
    by (rule triple_scripted)
      (use append edit_inode_other [OF _ append] edit_inode_temp [of _ n "[]" False "append_data x"] in \<open>auto simp: append_data_def\<close>)
next
  case (sync n p V x b)
  show ?case
    unfolding disk_call_defs file_system.simps
    by (rule triple_scripted)
      (use edit_inode_other [OF _ sync] edit_inode_temp [of _ n x b "\<lambda>nd. nd\<lparr>in_Synced := True\<rparr>"] in auto)
next
  case (rename n p V x)
  show ?case
    unfolding disk_call_defs file_system.simps
  proof (rule triple_scripted)
    fix d r d'
    assume P: "names_ok d \<and> crash_views d p = V \<and> disk_temp d n x True"
      and run: "(case map_of (dk_Names d) n of None \<Rightarrow> (Inl (Sentinel SyscallENOENT), d)
         | Some i \<Rightarrow> (Inr (), d\<lparr>dk_Names := gomap_put p i (gomap_del n (dk_Names d))\<rparr>)) = (r, d')"
    from P obtain i where i: "map_of (dk_Names d) n = Some i" by (auto simp: disk_temp_def)
    with run have "r = Inr ()" and d': "d' = d\<lparr>dk_Names := gomap_put p i (gomap_del n (dk_Names d))\<rparr>" by auto
    with P renamed_ok [OF _ _ rename i d', of x]
    show "case r of Inl _ \<Rightarrow> names_ok d' \<and> crash_views d' p = V
        | Inr _ \<Rightarrow> names_ok d' \<and> crash_views d' p \<subseteq> insert (Some x) V \<and> disk_placed d' p x"
      by simp
  qed auto
next
  case (remove q p V)
  show ?case
    unfolding disk_call_defs file_system.simps
    by (rule keeps_scripted) (use removed_ok [OF _ remove refl] in auto)
next
  case (syncdir p V x dir)
  show ?case
    unfolding disk_call_defs file_system.simps
    by (rule triple_scripted) (use synced_dir_ok [OF _ _ refl, of _ p x dir] in auto)
qed (simp_all add: disk_fs_def keeps_plain)

end
