(* ===== verification/Store_Properties.thy ===== *)
theory Store_Properties
  imports Disk_Model Supervision_Facts Sample_Manager
begin

text \<open>
  The desired-state file under failing calls and loss of power, on the disk of
  \<^verbatim>\<open>Disk_Model\<close>.
\<close>

section \<open>Saving\<close>

text \<open>A path whose directory and base are its own parts, and which is not one of the temporary
  names.\<close>

definition store_path :: "string \<Rightarrow> bool" where
  "store_path p \<longleftrightarrow> p = filepath_Dir p @ ''/'' @ filepath_Base p \<and> filepath_Dir p \<noteq> [] \<and> filepath_Dir p \<noteq> ''.'' \<and>
     \<not> has_prefix ''.desired.json.tmp-'' (filepath_Base p)"

lemma has_prefix_append: "has_prefix (q @ r) (q @ s) \<longleftrightarrow> has_prefix r s"
  by (induction q) auto

lemma store_path_dir:
  assumes "store_path p"
  shows "has_prefix (filepath_Dir p @ ''/'') p" "\<not> has_prefix (filepath_Dir p @ ''/'' @ ''.desired.json.tmp-'') p"
proof -
  let ?q = "filepath_Dir p @ ''/''"
  from assms have p: "p = ?q @ filepath_Base p" by (simp add: store_path_def)
  have "has_prefix (?q @ []) (?q @ filepath_Base p)" by (simp only: has_prefix_append) simp
  then show "has_prefix ?q p" using p by simp
  have "\<not> has_prefix (?q @ ''.desired.json.tmp-'') (?q @ filepath_Base p)"
    using assms by (simp only: has_prefix_append store_path_def simp_thms)
  then show "\<not> has_prefix (filepath_Dir p @ ''/'' @ ''.desired.json.tmp-'') p" using p by simp
qed

lemma save_bound:
  assumes p: "store_path p" and x: "\<And>now. now = dk_Clock d \<Longrightarrow> marshal (stamped now s) = Inr x"
    and ok: "names_ok d" and run: "desired_Save disk_fs marshal None p s d = (r, d')"
  shows "crash_views d' p \<subseteq> insert (Some (x @ [CHR 0x0A])) (crash_views d p)"
    "r = Inr () \<Longrightarrow> crash_views d' p = {Some (x @ [CHR 0x0A])}"
proof -
  let ?x = "x @ [CHR 0x0A]" and ?V = "crash_views d p"
  let ?B = "\<lambda>k. names_ok k \<and> crash_views k p \<subseteq> insert (Some ?x) ?V"
  let ?dir = "filepath_Dir p"
  have bound: "keepsT ?B t" if "\<And>V. keepsT (\<lambda>k. names_ok k \<and> crash_views k p = V) t" for t :: "(disk, unit) tx"
    by (rule cached.keeps_bound [where Q = "\<lambda>W. W \<subseteq> insert (Some ?x) ?V", OF that])
  have chmod: "tripleT (\<lambda>k. names_ok k \<and> crash_views k p \<subseteq> insert (Some ?x) ?V \<and> disk_placed k p ?x)
      (mapErrT (Wrapf ''protect desired-state file: %w'') (fs_Chmod disk_fs p 384))
      (\<lambda>_ k. names_ok k \<and> crash_views k p \<subseteq> insert (Some ?x) ?V \<and> disk_placed k p ?x) ?B"
    by (rule triple_mapErr [OF triple_conseq [OF triple_keeps [OF
          cached.keeps_both [OF bound [OF cached.chmod(1)] cached.chmod(3)]]]]) auto
  note rest = triple_bind [OF chmod triple_mapErr [OF cached.SyncDir_settles [OF store_path_dir(1) [OF p]]]]
  note replace = cached.replace_file_bound [OF store_path_dir(2) [OF p] rest, where wrap = desired_stage and mode = 384]
  have mkdir: "tripleT (\<lambda>k. (names_ok k \<and> crash_views k p = ?V) \<and> dk_Clock k = dk_Clock d)
      (mapErrT (Wrapf ''create desired-state directory: %w'') (fs_MkdirAll disk_fs ?dir))
      (\<lambda>_ k. (names_ok k \<and> crash_views k p = ?V) \<and> dk_Clock k = dk_Clock d) ?B"
  proof -
    have "keepsT (\<lambda>k. (names_ok k \<and> crash_views k p = ?V) \<and> dk_Clock k = dk_Clock d) (fs_MkdirAll disk_fs ?dir)"
      unfolding disk_fs_def file_system.simps by (rule keeps_plain) simp
    then show ?thesis by (rule triple_mapErr [OF triple_conseq [OF triple_keeps]]) auto
  qed
  have stamp: "tripleT (\<lambda>k. (names_ok k \<and> crash_views k p = ?V) \<and> dk_Clock k = dk_Clock d) (getT (fs_Now disk_fs))
      (\<lambda>now k. (names_ok k \<and> crash_views k p = ?V) \<and> now = dk_Clock d) ?B"
    by (rule triple_get) (simp add: disk_fs_def)
  have "tripleT (\<lambda>k. (names_ok k \<and> crash_views k p = ?V) \<and> dk_Clock k = dk_Clock d) (desired_Save disk_fs marshal None p s)
      (\<lambda>_ k. names_ok k \<and> crash_views k p = {Some ?x}) ?B"
  proof -
    have dir: "p \<noteq> []" "?dir \<noteq> ''.''" "?dir \<noteq> []" using p unfolding store_path_def by (auto; fastforce)+
    show ?thesis
      unfolding desired_Save_def Let_def option.case if_not_P [OF dir(1)] using dir
      by (simp only: simp_thms if_False, intro triple_bind [OF mkdir] triple_bind [OF stamp] triple_pure)
        (simp add: x fromSum_def replace)
  qed
  note saved = this
  have pre: "(names_ok d \<and> crash_views d p = ?V) \<and> dk_Clock d = dk_Clock d" using ok by simp
  show "r = Inr () \<Longrightarrow> crash_views d' p = {Some ?x}" using triple_value [OF saved pre] run by simp
  show "crash_views d' p \<subseteq> insert (Some ?x) ?V"
    using triple_value [OF saved pre, of "()" d'] triple_error [OF saved pre, of _ d'] run by (cases r) auto
qed

section \<open>Loading after a loss of power\<close>

definition decoded :: "(string \<Rightarrow> goerror + persisted_file) \<Rightarrow> string \<Rightarrow> goerror + persisted_file" where
  "decoded unmarshal data =
     (case unmarshal data of
        Inl e \<Rightarrow> Inl (Wrapf ''decode desired state: %w'' e)
      | Inr s \<Rightarrow> if pd_Schema s \<noteq> DesiredStateSchema then Inl (Errorf ''unsupported desired-state schema %d'')
                 else Inr (fill_profile s))"

lemma Load_content:
  "p \<noteq> [] \<Longrightarrow> desired_Load disk_fs unmarshal None p d =
     ((case disk_content d p of None \<Rightarrow> Inl (Sentinel ErrNotExist) | Some x \<Rightarrow> decoded unmarshal x), d)"
  by (auto simp: desired_Load_def disk_fs_def disk_ReadFile_def bindT_apply decoded_def fromSum_def throwT_def returnT_def
      split: option.splits sum.splits)

lemma settled_content:
  assumes "\<And>left. survives True left d p = Some old"
  shows "disk_content d p = Some old"
proof -
  from assms [of 0] obtain i nd where "map_of (dk_Names d) p = Some i" "map_of (dk_Inodes d) i = Some nd"
    by (auto simp: survives_def split: option.splits)
  with assms [of "length (in_Data nd)"] show ?thesis by (auto simp: survives_def disk_content_def split: if_splits)
qed

lemma decoded_stamped:
  "unmarshal y = Inr (stamped now s) \<Longrightarrow> decoded unmarshal y = Inr (stamped now s)"
  by (simp add: decoded_def stamped_def fill_profile_def)

text \<open>C8: saving the desired state, whichever of its calls fail and wherever the power goes, leaves a
  file that loads as the state saved before or as the new one; when saving succeeded it loads as the
  new one. The file was on the medium before, and the encoding is one the decoder reverses.\<close>

theorem desired_state_survives_power_loss:
  assumes codec: "\<forall>v x. marshal v = Inr x \<longrightarrow> unmarshal (x @ [CHR 0x0A]) = Inr v"
    and encodes: "\<exists>x. marshal (stamped (dk_Clock d) s) = Inr x"
    and p: "store_path p" and ok: "names_ok d" and settled: "\<forall>kept left. survives kept left d p = Some old"
    and run: "desired_Save disk_fs marshal None p s d = (r, d')"
  shows "fst (desired_Load disk_fs unmarshal None p (power_cycle kept left d')) \<in>
           (if r = Inr () then {} else {fst (desired_Load disk_fs unmarshal None p d)}) \<union> {Inr (stamped (dk_Clock d) s)}"
proof -
  from encodes obtain x where x: "marshal (stamped (dk_Clock d) s) = Inr x" by blast
  have new: "decoded unmarshal (x @ [CHR 0x0A]) = Inr (stamped (dk_Clock d) s)"
    using codec x by (intro decoded_stamped) blast
  have nonempty: "p \<noteq> []" using p by (auto simp: store_path_def)
  have "crash_views d p = {Some old}" using settled by (auto simp: crash_views_def)
  moreover have "disk_content d p = Some old" by (rule settled_content) (simp add: settled)
  moreover have "survives kept left d' p \<in> crash_views d' p" by (auto simp: crash_views_def)
  moreover note save_bound [OF p _ ok run] x
  ultimately show ?thesis
    using new by (auto simp: Load_content [OF nonempty] power_cycle_content)
qed

text \<open>Two states of one role and an encoding of the two.\<close>

definition home_desired :: "bool \<Rightarrow> persisted_desired" where
  "home_desired on = \<lparr>pd_Schema = 1, pd_ActiveProfile = ''default'', pd_Roles = [(''home'', on)]\<rparr>"

definition two_marshal :: "persisted_file \<Rightarrow> goerror + string" where
  "two_marshal v =
     (if v = stamped 5 (home_desired True) then Inr ''on''
      else if v = stamped 5 (home_desired False) then Inr ''off'' else Inl (Errorf ''unsupported value''))"

definition two_unmarshal :: "string \<Rightarrow> goerror + persisted_file" where
  "two_unmarshal x =
     (if x = ''on'' @ [CHR 0x0A] then Inr (stamped 5 (home_desired True))
      else if x = ''off'' @ [CHR 0x0A] then Inr (stamped 5 (home_desired False)) else Inl (Errorf ''unexpected end of JSON input''))"

lemma two_codec: "\<forall>v x. two_marshal v = Inr x \<longrightarrow> two_unmarshal (x @ [CHR 0x0A]) = Inr v"
proof (intro allI impI)
  fix v x assume m: "two_marshal v = Inr x"
  show "two_unmarshal (x @ [CHR 0x0A]) = Inr v"
  proof (cases "v = stamped 5 (home_desired True)")
    case True
    with m show ?thesis by (simp add: two_marshal_def two_unmarshal_def)
  next
    case False
    with m show ?thesis by (simp add: two_marshal_def two_unmarshal_def split: if_splits)
  qed
qed

definition desired_path :: string where
  "desired_path = ''/var/lib/kikimora/desired.json''"

definition home_disk :: "call_outcome list \<Rightarrow> disk" where
  "home_disk script = \<lparr>dk_Inodes = [(0, \<lparr>in_Data = ''on'' @ [CHR 0x0A], in_Synced = True\<rparr>)], dk_Next = 1,
     dk_Names = [(desired_path, 0)], dk_Durable = [(desired_path, 0)], dk_Script = script, dk_Clock = 5\<rparr>"

lemma home_disk_settled:
  "names_ok (home_disk script)" "survives kept left (home_disk script) desired_path = Some (''on'' @ [CHR 0x0A])"
  by (auto simp: home_disk_def names_ok_def named_by_def survives_def split: if_splits)

lemma desired_path_ok: "store_path desired_path"
  by code_simp

text \<open>The power goes after the rename and before the directory is synced: either state may be
  found. With every call working it is the new one.\<close>

theorem desired_state_survives_power_loss_witness:
  "fst (desired_Load disk_fs two_unmarshal None desired_path (power_cycle False 0
      (snd (desired_Save disk_fs two_marshal None desired_path (home_desired False) (home_disk (replicate 7 Works)))))) \<in>
     {Inr (stamped 5 (home_desired True)), Inr (stamped 5 (home_desired False))} \<and>
   fst (desired_Load disk_fs two_unmarshal None desired_path (power_cycle False 0
      (snd (desired_Save disk_fs two_marshal None desired_path (home_desired False) (home_disk (replicate 12 Works)))))) =
     Inr (stamped 5 (home_desired False))"
proof -
  have clock: "dk_Clock (home_disk script) = 5" for script by (simp add: home_disk_def)
  have "two_marshal (stamped 5 (home_desired False)) = Inr ''off''" by code_simp
  then have encodes: "\<exists>x. two_marshal (stamped (dk_Clock (home_disk script)) (home_desired False)) = Inr x" for script
    unfolding clock by blast
  have whole: "fst (desired_Save disk_fs two_marshal None desired_path (home_desired False) (home_disk (replicate 12 Works))) = Inr ()"
    by code_simp
  have start: "fst (desired_Load disk_fs two_unmarshal None desired_path (home_disk (replicate 7 Works))) = Inr (stamped 5 (home_desired True))"
    by code_simp
  note survives = desired_state_survives_power_loss [OF two_codec encodes desired_path_ok home_disk_settled(1) _ surjective_pairing,
      where kept = False and left = 0 and old = "''on'' @ [CHR 0x0A]", OF allI [OF allI [OF home_disk_settled(2)]]]
  from survives [of "replicate 7 Works"] survives [of "replicate 12 Works"] show ?thesis
    by (auto simp: clock start whole split: if_splits)
qed

section \<open>A save that fails after the rename\<close>

text \<open>When only the sync of the directory fails, the caller gets an error and readers get the new
  state.\<close>

lemma scripted_works:
  "dk_Script d = Works # s \<Longrightarrow> scripted f g d = f (d\<lparr>dk_Script := s\<rparr>)"
  "dk_Script d = Works # s \<Longrightarrow> plain_call d = (Inr (), d\<lparr>dk_Script := s\<rparr>)"
  "dk_Script d = Fails n # s \<Longrightarrow> scripted f g d = (Inl (Errorf ''input/output error''), g n (d\<lparr>dk_Script := s\<rparr>))"
  by (simp_all add: scripted_def plain_call_def)

lemma cleanup_content:
  "disk_content (snd (plain_call d)) p = disk_content d p" "dk_Clock (snd (plain_call d)) = dk_Clock d"
  "n \<noteq> p \<Longrightarrow> disk_content (snd (disk_Remove n d)) p = disk_content d p" "dk_Clock (snd (disk_Remove n d)) = dk_Clock d"
  by (auto simp: plain_call_def disk_Remove_def scripted_def disk_content_def split: list.splits call_outcome.splits option.splits)

lemma save_dir_sync_fails:
  assumes p: "store_path p" and x: "marshal (stamped (dk_Clock d) s) = Inr x"
    and script: "dk_Script d = replicate 9 Works @ Fails n # rest"
  shows "\<exists>e d'. desired_Save disk_fs marshal None p s d = (Inl e, d') \<and> disk_content d' p = Some (x @ [CHR 0x0A]) \<and>
     dk_Clock d' = dk_Clock d"
proof -
  let ?n = "fresh_name (d\<lparr>dk_Script := replicate 7 Works @ Fails n # rest\<rparr>) (filepath_Dir p @ ''/'' @ ''.desired.json.tmp-'')"
  have "has_prefix q (q @ r)" for q r :: string by (induction q) auto
  then have "?n \<noteq> p" using store_path_dir(2) [OF p] unfolding fresh_name_def by metis
  moreover have "p \<noteq> []" "filepath_Dir p \<noteq> ''.''" "filepath_Dir p \<noteq> []" using p by (auto simp: store_path_def)
  ultimately show ?thesis
    using x script
    by (simp add: desired_Save_def replace_file_def fill_temp_def SyncDir_def disk_fs_def disk_CreateTemp_def disk_Write_def
        disk_Sync_def disk_Rename_def disk_SyncOpenDir_def scripted_works bindT_apply mapErrT_def onErrorT_def deferT_def
        fromSum_def Let_def eval_nat_numeral edit_inode_def append_data_def cleanup_content)
      (simp add: disk_content_def)
qed

section \<open>Commands over the store\<close>

text \<open>
  The commands of the core manager on top of the desired-state file: the manager's host is the
  disk of \<^verbatim>\<open>Disk_Model\<close>.
\<close>

text \<open>What a disconnect asks the store to write.\<close>

definition desired_without :: "string \<Rightarrow> 'k world \<Rightarrow> persisted_desired" where
  "desired_without name w =
     \<lparr>pd_Schema = 1, pd_ActiveProfile = bk_activeProfile (book w),
      pd_Roles = gomap_put name False (gomap_map (\<lambda>_. mr_enabled) (dv_Roles (ew_Driver w)))\<rparr>"

lemma gomap_map_put: "gomap_map f (gomap_put k v m) = gomap_put k (f k v) (gomap_map f m)"
  by (induction m) (auto simp: gomap_map_def)

lemma desired_switched:
  assumes "role_of name w = Some r"
  shows "desiredStateLocked (switch_off name w) = desired_without name w"
  using assms
  by (simp add: switch_off_def desiredStateLocked_def desired_without_def product_disconnect_def on_product_def update_book_def set_role_def
      update_driver_def book_def gomap_map_put)

lemma persist_refused:
  assumes "ms_Save ms = Some save" and "save (ctx_err ms w) (desiredStateLocked w) (host w) = (Inl e, d')"
  shows "\<exists>w'. persistDesiredLocked ms w = (Inl e, w') \<and> host w' = d'"
  using assms
  by (simp add: persistDesiredLocked_def on_host_def on_selected_def on_kernel_def host_def set_status_def update_book_def
      update_driver_def)

text \<open>C40: a disconnect whose save fails after the rename, on syncing the directory, is refused and
  rolled back in memory, yet the file already says the role is off: the role stays enabled in the
  running core, and the next start of the core leaves it disconnected.\<close>

theorem refused_disconnect_is_recorded:
  assumes role: "role_of name w = Some r" "mr_enabled r"
    and save: "ms_Save ms = Some (\<lambda>ctx. desired_Save disk_fs marshal ctx p)" and p: "store_path p"
    and script: "dk_Script (host w) = replicate 9 Works @ Fails n # rest"
    and codec: "marshal (stamped (dk_Clock (host w)) (desired_without name w)) = Inr x"
      "unmarshal (x @ [CHR 0x0A]) = Inr (stamped (dk_Clock (host w)) (desired_without name w))"
  shows "\<exists>e w' r' s. DisconnectRole ms name w = (Inl e, w') \<and> role_of name w' = Some r' \<and> mr_enabled r' \<and>
     fst (desired_Load disk_fs unmarshal None p (host w')) = Inr s \<and> map_of (pd_Roles s) name = Some False"
proof -
  let ?w1 = "switch_off name w"
  have store: "ms_Save (background ms) = Some (\<lambda>ctx. desired_Save disk_fs marshal ctx p)" "ctx_err (background ms) ?w1 = None"
    using save by (simp_all add: background_def ctx_err_def)
  have host1: "host ?w1 = host w"
    by (simp add: host_def switch_off_def product_disconnect_def on_product_def update_book_def set_role_def update_driver_def split: option.splits)
  from save_dir_sync_fails [where marshal = marshal and d = "host w" and s = "desired_without name w" and x = x, OF p codec(1) script] obtain e d' where
    saved: "desired_Save disk_fs marshal None p (desired_without name w) (host w) = (Inl e, d')" "disk_content d' p = Some (x @ [CHR 0x0A])"
    by blast
  then obtain w2 where w2: "persistDesiredLocked (background ms) ?w1 = (Inl e, w2)" "host w2 = d'"
    using persist_refused [OF store(1), of ?w1 e d'] unfolding store(2) host1 desired_switched [OF role(1)] by blast
  let ?w' = "on_product (SetRoleDesired name (mr_enabled r))
      (set_role name (\<lambda>r'. r'\<lparr>mr_enabled := mr_enabled r, mr_operation := mr_operation r\<rparr>) w2)"
  have run: "DisconnectRole ms name w = (Inl (Wrapf ''persist desired state: %w'' e), ?w')"
    using role(1) w2(1) by (simp add: DisconnectRole_def disconnect_section_def bindT_apply)
  have at: "\<exists>r'. role_of name ?w' = Some r' \<and> mr_enabled r'"
    using role persist_reads(1) [OF w2(1), of name] by (simp add: switch_off_def product_disconnect_def)
  have "host ?w' = d'"
    using w2(2) by (simp add: host_def on_product_def set_role_def update_driver_def split: option.splits)
  moreover have "decoded unmarshal (x @ [CHR 0x0A]) = Inr (stamped (dk_Clock (host w)) (desired_without name w))"
    using codec(2) by (rule decoded_stamped [where unmarshal = unmarshal and y = "x @ [CHR 0x0A]"])
  moreover have "p \<noteq> []" using p by (auto simp: store_path_def)
  moreover have "map_of (pd_Roles (stamped t (desired_without name w))) name = Some False" for t
    by (simp add: stamped_def fill_profile_def desired_without_def)
  ultimately have "fst (desired_Load disk_fs unmarshal None p (host ?w')) = Inr (stamped (dk_Clock (host w)) (desired_without name w)) \<and>
      map_of (pd_Roles (stamped (dk_Clock (host w)) (desired_without name w))) name = Some False"
    using saved(2) by (simp add: Load_content)
  with run at show ?thesis by blast
qed

definition disk_env :: "disk manager_env" where
  "disk_env = \<lparr>se_Routes = None, se_RoleRuntime = (\<lambda>_. None), se_ZoneRoles = [], se_StateDir = (\<lambda>_. None), se_Capacity = 1,
     se_Managed = [], se_AuthorityError = [], se_WriteCheckpoint = (\<lambda>_ _. returnT ()), se_Windows = False, se_Failpoint = None\<rparr>"

definition disk_manager :: "disk manager_services" where
  "disk_manager = (manager_on (quiet_services disk_env))\<lparr>ms_Save := Some (\<lambda>ctx. desired_Save disk_fs two_marshal ctx desired_path)\<rparr>"

definition disk_world :: "disk world" where
  "disk_world = update_book (\<lambda>b. b\<lparr>bk_activeProfile := ''default''\<rparr>)
     (home_world (NewSelectedRouteManager (home_disk (replicate 9 Works @ [Fails 0]))))"

theorem refused_disconnect_is_recorded_witness:
  "\<exists>e w' r' s. DisconnectRole disk_manager ''home'' disk_world = (Inl e, w') \<and> role_of ''home'' w' = Some r' \<and> mr_enabled r' \<and>
     fst (desired_Load disk_fs two_unmarshal None desired_path (host w')) = Inr s \<and> map_of (pd_Roles s) ''home'' = Some False"
proof -
  have role: "role_of ''home'' disk_world = Some home_role" "mr_enabled home_role" by code_simp+
  have script: "dk_Script (host disk_world) = replicate 9 Works @ Fails 0 # []" by code_simp
  have codec: "two_marshal (stamped (dk_Clock (host disk_world)) (desired_without ''home'' disk_world)) = Inr ''off''"
    "two_unmarshal (''off'' @ [CHR 0x0A]) = Inr (stamped (dk_Clock (host disk_world)) (desired_without ''home'' disk_world))"
    by code_simp+
  have "ms_Save disk_manager = Some (\<lambda>ctx. desired_Save disk_fs two_marshal ctx desired_path)" by (simp add: disk_manager_def)
  from refused_disconnect_is_recorded [where marshal = two_marshal and unmarshal = two_unmarshal and w = disk_world and
      name = "''home''" and x = "''off''", OF role this desired_path_ok script codec] show ?thesis .
qed

end
