(* ===== verification/Toad_Runtime.thy ===== *)
theory Toad_Runtime
  imports Recovery_Driver File_Store
begin

text \<open>
  The Toad process (\<^verbatim>\<open>toad/internal/toadruntime/runtime.go\<close>): one protocol instance with its
  managed interface, the control requests of the core and the health loop that watches the
  interface and repairs it. The protocol backend (\<^verbatim>\<open>backend/backend.go\<close>), the interface reader and
  the repairer act on a host state; an optional interface a backend does not implement is
  \<^term>\<open>None\<close>. Each method and each tick of the health loop is one step. A tick and
  \<^verbatim>\<open>Quiesce\<close> hold the runtime's mutex from end to end; \<^verbatim>\<open>Start\<close>, \<^verbatim>\<open>Stop\<close> and \<^verbatim>\<open>Validate\<close> release it
  around the backend's work and \<^verbatim>\<open>Rebind\<close> and \<^verbatim>\<open>RestartTransport\<close> take it only to publish, so in the
  code a tick or another request may come between their sections: such runs are not modelled. The channel that wakes
  subscribers is closed whenever the revision is bumped; it is the revision here.
\<close>

section \<open>Services\<close>

record expectation =
  ex_IfIndex :: int
  ex_MTU :: int
  ex_Addresses :: "netprefix list"

record toad_interface =
  if_Name :: string
  if_IfIndex :: int
  if_MTU :: int
  if_Addresses :: "string list"

record backend_health =
  he_State :: string
  he_Reason :: string
  he_Connected :: bool
  he_LastHandshakeAge :: "int option"
  he_RXBytes :: u64
  he_TXBytes :: u64
  he_Endpoint :: string

record backend_validation =
  bv_Healthy :: bool
  bv_State :: string
  bv_Reason :: string

record 'k toad_backend =
  be_Start :: "('k, unit) tx"
  be_Health :: "'k \<Rightarrow> backend_health \<times> 'k"
  be_Close :: "('k, unit) tx"
  be_Validate :: "('k \<Rightarrow> backend_validation \<times> 'k) option"
  be_LocalInterfaceExpectation :: "('k, expectation) tx option"
  be_TransportEndpoints :: "('k, transport_endpoint list) tx option"
  be_Rebind :: "(underlay_binding \<Rightarrow> ('k, unit) tx) option"
  be_RestartTransport :: "(underlay_binding \<Rightarrow> ('k, unit) tx) option"

text \<open>What ends a wait of \<^verbatim>\<open>waitInterface\<close>.\<close>

datatype wait_event = PollTick | PollDeadline | PollCancelled goerror

record 'k toad_services =
  tv_cfg :: "role_config option"
  tv_backend :: "'k toad_backend option"
  tv_readInterface :: "('k, toad_interface) tx option"
  tv_repairer :: "(string \<Rightarrow> expectation \<Rightarrow> ('k, unit) tx) option"
  tv_fs :: "'k file_system"
  tv_marshal :: "observed_state \<Rightarrow> goerror + string"
  tv_wait :: "'k \<Rightarrow> wait_event \<times> 'k"

section \<open>State\<close>

record toad_runtime =
  tr_generation :: u64
  tr_state :: observed_state
  tr_revision :: u64
  tr_started :: bool
  tr_endpoints :: "transport_endpoint list"
  tr_repairInterval :: gotime
  tr_nextRepair :: gotime

record 'k toad_world =
  tw_runtime :: toad_runtime
  tw_host :: 'k

definition Millisecond :: gotime where
  "Millisecond = 1000000"

definition New :: "toad_runtime" where
  "New = \<lparr>tr_generation = 0, tr_state = observed_zero, tr_revision = 1, tr_started = False, tr_endpoints = [],
     tr_repairInterval = 1000 * Millisecond, tr_nextRepair = 0\<rparr>"

definition on_toad :: "('k, 'a) tx \<Rightarrow> ('k toad_world, 'a) tx" where
  "on_toad t w = (case t (tw_host w) of (r, k) \<Rightarrow> (r, w\<lparr>tw_host := k\<rparr>))"

definition edit_runtime :: "(toad_runtime \<Rightarrow> toad_runtime) \<Rightarrow> 'k toad_world \<Rightarrow> 'k toad_world" where
  "edit_runtime f w = w\<lparr>tw_runtime := f (tw_runtime w)\<rparr>"

definition toad_now :: "'k toad_services \<Rightarrow> 'k toad_world \<Rightarrow> gotime" where
  "toad_now sv w = fs_Now (tv_fs sv) (tw_host w)"

definition toad_bump :: "'k toad_world \<Rightarrow> 'k toad_world" where
  "toad_bump = edit_runtime (\<lambda>r. r\<lparr>tr_revision := tr_revision r + 1\<rparr>)"

section \<open>Readiness\<close>

definition addr_IsLinkLocalUnicast :: "addr \<Rightarrow> bool" where
  "addr_IsLinkLocalUnicast a =
     (case addr_Unmap a of
        AddrZero \<Rightarrow> False
      | Addr4 v \<Rightarrow> drop_bit 16 v = 0xA9FE
      | Addr6 v z \<Rightarrow> drop_bit 118 v = 0x3FA)"

definition interfaceIdentityReady :: "role_config option \<Rightarrow> toad_interface \<Rightarrow> bool" where
  "interfaceIdentityReady cfg i \<longleftrightarrow> cfg \<noteq> None \<and> 0 < if_IfIndex i \<and> if_Name i \<noteq> [] \<and> 0 < if_MTU i"

definition observed_prefixes :: "toad_interface \<Rightarrow> netprefix list" where
  "observed_prefixes i = List.map_filter ParsePrefix (if_Addresses i)"

definition usable_addr :: "addr \<Rightarrow> bool" where
  "usable_addr a \<longleftrightarrow> addr_IsValid a \<and> \<not> addr_IsLinkLocalUnicast a"

definition observedFamily :: "netprefix list \<Rightarrow> int \<Rightarrow> bool" where
  "observedFamily observed family \<longleftrightarrow>
     (\<exists>p \<in> set observed. usable_addr (prefix_Addr p) \<and> (family = 4) = addr_Is4 (prefix_Addr p))"

definition openConnectDisableIPv6 :: "role_config \<Rightarrow> bool" where
  "openConnectDisableIPv6 c = (case cf_OpenConnect c of None \<Rightarrow> False | Some oc \<Rightarrow> oc_DisableIPv6 oc)"

definition notObservedReason :: "bool \<Rightarrow> bool \<Rightarrow> string \<Rightarrow> string" where
  "notObservedReason configured observed missing = (if \<not> configured \<or> observed then [] else missing)"

definition family_state :: "bool \<Rightarrow> bool \<Rightarrow> string \<Rightarrow> family_readiness" where
  "family_state configured observed missing =
     \<lparr>fr_Configured = configured, fr_Ready = (configured \<and> observed),
      fr_Reason = notObservedReason configured observed missing\<rparr>"

definition no_expectation :: route_families where
  "no_expectation =
     \<lparr>rf_IPv4 = \<lparr>fr_Configured = False, fr_Ready = False, fr_Reason = ''negotiated interface expectation is unavailable''\<rparr>,
      rf_IPv6 = \<lparr>fr_Configured = False, fr_Ready = False, fr_Reason = ''negotiated interface expectation is unavailable''\<rparr>\<rparr>"

text \<open>The prefixes of one family among the configured addresses.\<close>

definition configured_prefixes :: "role_config \<Rightarrow> bool \<Rightarrow> netprefix list" where
  "configured_prefixes c v4 = filter (\<lambda>p. addr_Is4 (prefix_Addr p) = v4) (List.map_filter ParsePrefix (cf_Address c))"

definition configured_family :: "role_config \<Rightarrow> netprefix list \<Rightarrow> bool \<Rightarrow> string \<Rightarrow> family_readiness" where
  "configured_family c observed v4 missing =
     (let ps = configured_prefixes c v4 in family_state (ps \<noteq> []) (set ps \<subseteq> set observed) missing)"

definition negotiated :: "expectation \<Rightarrow> bool \<Rightarrow> bool" where
  "negotiated e v4 \<longleftrightarrow>
     (\<exists>p \<in> set (ex_Addresses e). usable_addr (prefix_Addr p) \<and> addr_Is4 (prefix_Addr p) = v4)"

definition interfaceFamilyReadiness ::
  "role_config option \<Rightarrow> toad_interface \<Rightarrow> expectation option \<Rightarrow> route_families" where
  "interfaceFamilyReadiness cfg i expect =
     (case cfg of
        None \<Rightarrow> families_zero
      | Some c \<Rightarrow>
          let observed = observed_prefixes i
          in if cf_Protocol c = ''openconnect'' then
               (case expect of
                  None \<Rightarrow> no_expectation
                | Some e \<Rightarrow>
                    \<lparr>rf_IPv4 = family_state (negotiated e True) (observedFamily observed 4)
                                 ''negotiated IPv4 prefix is missing from the interface'',
                     rf_IPv6 = (if openConnectDisableIPv6 c
                                then \<lparr>fr_Configured = False, fr_Ready = False, fr_Reason = ''IPv6 is disabled by configuration''\<rparr>
                                else family_state (negotiated e False) (observedFamily observed 6)
                                       ''negotiated IPv6 prefix is missing from the interface'')\<rparr>)
             else
               \<lparr>rf_IPv4 = configured_family c observed True ''a configured IPv4 prefix is missing from the interface'',
                rf_IPv6 = configured_family c observed False ''a configured IPv6 prefix is missing from the interface''\<rparr>)"

definition interfaceStructurallyReady :: "role_config option \<Rightarrow> toad_interface \<Rightarrow> bool" where
  "interfaceStructurallyReady cfg i \<longleftrightarrow>
     interfaceIdentityReady cfg i \<and> families_Ready (interfaceFamilyReadiness cfg i None)"

definition currentFamiliesLocked :: "'k toad_services \<Rightarrow> toad_interface \<Rightarrow> 'k \<Rightarrow> route_families \<times> 'k" where
  "currentFamiliesLocked sv i k =
     (case tv_cfg sv of
        None \<Rightarrow> (interfaceFamilyReadiness None i None, k)
      | Some c \<Rightarrow>
          if cf_Protocol c \<noteq> ''openconnect'' then (interfaceFamilyReadiness (Some c) i None, k)
          else case Option.bind (tv_backend sv) be_LocalInterfaceExpectation of
                 None \<Rightarrow> (interfaceFamilyReadiness (Some c) i None, k)
               | Some report \<Rightarrow>
                   (case report k of
                      (Inl _, k') \<Rightarrow> (no_expectation, k')
                    | (Inr e, k') \<Rightarrow> (interfaceFamilyReadiness (Some c) i (Some e), k')))"

section \<open>Snapshots\<close>

definition go_Milliseconds :: "int \<Rightarrow> int" where
  "go_Milliseconds d = (if 0 \<le> d then d div Millisecond else - ((- d) div Millisecond))"

definition fromHealth ::
  "role_config \<Rightarrow> toad_interface \<Rightarrow> backend_health \<Rightarrow> u64 \<Rightarrow> route_families \<Rightarrow> gotime \<Rightarrow> observed_state" where
  "fromHealth c i h generation families now =
     \<lparr>ob_Schema = 1, ob_Name = cf_Name c, ob_Protocol = cf_Protocol c, ob_Generation = generation,
      ob_State = he_State h, ob_Reason = he_Reason h,
      ob_RouteReady = (interfaceIdentityReady (Some c) i \<and> families_Ready families),
      ob_InterfaceName = if_Name i, ob_IfIndex = if_IfIndex i, ob_MTU = if_MTU i, ob_Addresses = if_Addresses i,
      ob_Families = families, ob_Connected = he_Connected h,
      ob_LastHandshakeAgeMS = map_option go_Milliseconds (he_LastHandshakeAge h), ob_RXBytes = he_RXBytes h,
      ob_TXBytes = he_TXBytes h, ob_Endpoint = he_Endpoint h, ob_UpdatedAt = now\<rparr>"

definition sameInterface :: "observed_state \<Rightarrow> observed_state \<Rightarrow> bool" where
  "sameInterface a b \<longleftrightarrow>
     ob_InterfaceName a = ob_InterfaceName b \<and> ob_IfIndex a = ob_IfIndex b \<and> ob_MTU a = ob_MTU b \<and>
     sort (ob_Addresses a) = sort (ob_Addresses b)"

definition sameSession :: "observed_state \<Rightarrow> observed_state \<Rightarrow> bool" where
  "sameSession a b \<longleftrightarrow>
     ob_Connected a = ob_Connected b \<and> ob_RXBytes a = ob_RXBytes b \<and> ob_TXBytes a = ob_TXBytes b \<and>
     ob_Endpoint a = ob_Endpoint b \<and> ob_LastHandshakeAgeMS a = ob_LastHandshakeAgeMS b"

definition toad_capabilities :: "'k toad_services \<Rightarrow> capabilities" where
  "toad_capabilities sv =
     \<lparr>cap_Validate = True, cap_Rebind = (Option.bind (tv_backend sv) be_Rebind \<noteq> None),
      cap_RestartTransportKeepingTUN = (Option.bind (tv_backend sv) be_RestartTransport \<noteq> None),
      cap_ReportsLiveEndpoints = (Option.bind (tv_backend sv) be_TransportEndpoints \<noteq> None)\<rparr>"

definition toadSnapshotLocked :: "'k toad_services \<Rightarrow> toad_runtime \<Rightarrow> toad_snapshot" where
  "toadSnapshotLocked sv r =
     (let s = tr_state r
      in \<lparr>ts_ProtocolVersion = ProtocolVersion, ts_Revision = tr_revision r, ts_Generation = tr_generation r,
          ts_State = ob_State s, ts_Reason = ob_Reason s, ts_InterfaceName = ob_InterfaceName s, ts_IfIndex = ob_IfIndex s,
          ts_MTU = ob_MTU s, ts_Addresses = ob_Addresses s, ts_RouteReady = ob_RouteReady s, ts_Families = ob_Families s,
          ts_SessionConnected = ob_Connected s, ts_LastHandshakeAgeMS = ob_LastHandshakeAgeMS s, ts_RXBytes = ob_RXBytes s,
          ts_TXBytes = ob_TXBytes s, ts_Endpoint = ob_Endpoint s, ts_Capabilities = toad_capabilities sv,
          ts_Endpoints = tr_endpoints r, ts_UpdatedAt = ob_UpdatedAt s\<rparr>)"

text \<open>One pass of \<^verbatim>\<open>WaitForRevision\<close>: it returns, or goes on waiting.\<close>

definition WaitForRevision :: "'k toad_services \<Rightarrow> u64 \<Rightarrow> toad_runtime \<Rightarrow> toad_snapshot option" where
  "WaitForRevision sv seen r = (if seen < tr_revision r then Some (toadSnapshotLocked sv r) else None)"

definition stamp_state :: "gotime \<Rightarrow> observed_state \<Rightarrow> observed_state" where
  "stamp_state now s = s\<lparr>ob_Schema := 1, ob_UpdatedAt := now\<rparr>"

definition publishLocked :: "'k toad_services \<Rightarrow> ('k toad_world, unit) tx" where
  "publishLocked sv w =
     (let r = tw_runtime w
      in if \<not> tr_started r \<and> ob_State (tr_state r) = [] then (Inr (), w)
         else on_toad (Writer_Write (tv_fs sv) (tv_marshal sv) stamp_state
                (case tv_cfg sv of None \<Rightarrow> [] | Some c \<Rightarrow> cf_StateDir c) (tr_state r)) w)"

section \<open>Control operations\<close>

definition refreshEndpoints :: "'k toad_services \<Rightarrow> 'k toad_world \<Rightarrow> 'k toad_world" where
  "refreshEndpoints sv w =
     (case Option.bind (tv_backend sv) be_TransportEndpoints of
        None \<Rightarrow> w
      | Some report \<Rightarrow>
          (case on_toad report w of
             (Inl _, w') \<Rightarrow> w'
           | (Inr values, w') \<Rightarrow> edit_runtime (\<lambda>r. r\<lparr>tr_endpoints := values\<rparr>) w'))"

definition interfaceTimeout :: "role_config \<Rightarrow> gotime" where
  "interfaceTimeout c = (if cf_Protocol c = ''openconnect'' then 30000 * Millisecond else 3000 * Millisecond)"

text \<open>The deadline timer fires after at most \<^term>\<open>timeout div (50 * Millisecond)\<close> ticks.\<close>

definition ready_interface :: "goerror + toad_interface \<Rightarrow> toad_interface option" where
  "ready_interface seen = (case seen of Inl _ \<Rightarrow> None | Inr i \<Rightarrow> if 0 < if_IfIndex i then Some i else None)"

definition wait_timeout :: goerror where
  "wait_timeout = Errorf ''managed interface did not become ready within %s''"

fun waitInterface ::
  "('k, toad_interface) tx \<Rightarrow> ('k \<Rightarrow> wait_event \<times> 'k) \<Rightarrow> nat \<Rightarrow> ('k, toad_interface) tx" where
  "waitInterface read wait 0 k =
     (case read k of
        (seen, k1) \<Rightarrow> (case ready_interface seen of Some i \<Rightarrow> (Inr i, k1) | None \<Rightarrow> (Inl wait_timeout, k1)))"
| "waitInterface read wait (Suc n) k =
     (case read k of
        (seen, k1) \<Rightarrow>
          (case ready_interface seen of
             Some i \<Rightarrow> (Inr i, k1)
           | None \<Rightarrow>
               (case wait k1 of
                  (PollTick, k2) \<Rightarrow> waitInterface read wait n k2
                | (PollDeadline, k2) \<Rightarrow> (Inl wait_timeout, k2)
                | (PollCancelled e, k2) \<Rightarrow> (Inl e, k2))))"

definition poll_limit :: "role_config \<Rightarrow> nat" where
  "poll_limit c = nat (interfaceTimeout c div (50 * Millisecond))"

definition begin_session ::
  "'k toad_services \<Rightarrow> 'k toad_backend \<Rightarrow> role_config \<Rightarrow> u64 \<Rightarrow> toad_interface \<Rightarrow> 'k toad_world \<Rightarrow> 'k toad_world" where
  "begin_session sv b c requested i w =
     (let generation = (if requested = 0 then word_of_int (toad_now sv w) else requested)
      in case currentFamiliesLocked sv i (tw_host w) of
           (families, k1) \<Rightarrow>
             (case be_Health b k1 of
                (h, k2) \<Rightarrow>
                  let w2 = w\<lparr>tw_host := k2\<rparr>
                  in toad_bump (edit_runtime (\<lambda>r. r\<lparr>tr_generation := generation,
                              tr_state := fromHealth c i h generation families (toad_now sv w2), tr_started := True\<rparr>) w2)))"

definition toad_Start :: "'k toad_services \<Rightarrow> start_request \<Rightarrow> ('k toad_world, unit) tx" where
  "toad_Start sv req w =
     (if tr_started (tw_runtime w) then (Inr (), w)
      else case (tv_backend sv, tv_cfg sv, tv_readInterface sv) of
             (Some b, Some c, Some read) \<Rightarrow>
               bindT (on_toad (be_Start b)) (\<lambda>_ w1.
                 let w2 = refreshEndpoints sv w1
                 in case on_toad (waitInterface read (tv_wait sv) (poll_limit c)) w2 of
                      (Inl e, w3) \<Rightarrow> (Inl e, snd (on_toad (be_Close b) w3))
                    | (Inr i, w3) \<Rightarrow> publishLocked sv (begin_session sv b c (sr_Generation req) i w3)) w
           | _ \<Rightarrow> (Inl (Errorf ''runtime is incomplete''), w))"

definition toad_Quiesce :: "'k toad_services \<Rightarrow> ('k toad_world, unit) tx" where
  "toad_Quiesce sv w =
     (if \<not> tr_started (tw_runtime w) then (Inr (), w)
      else publishLocked sv (toad_bump (edit_runtime (\<lambda>r. r\<lparr>tr_state := (tr_state r)
             \<lparr>ob_State := ''quiesced'', ob_Reason := ''transport quiesced''\<rparr>\<rparr>) w)))"

definition toad_Stop :: "'k toad_services \<Rightarrow> ('k toad_world, unit) tx" where
  "toad_Stop sv w =
     (if \<not> tr_started (tw_runtime w) then (Inr (), w)
      else case publishLocked sv (toad_bump (edit_runtime (\<lambda>r. r\<lparr>tr_started := False, tr_state := (tr_state r)
                  \<lparr>ob_State := ''stopped'', ob_Reason := ''stopped by control request''\<rparr>\<rparr>) w)) of
             (published, w1) \<Rightarrow>
               (case tv_backend sv of
                  None \<Rightarrow> (published, w1)
                | Some b \<Rightarrow>
                    (case on_toad (be_Close b) w1 of
                       (closed, w2) \<Rightarrow> (case published of Inl e \<Rightarrow> Inl e | Inr _ \<Rightarrow> closed, w2))))"

definition unhealthy :: "string \<Rightarrow> string \<Rightarrow> validation_result" where
  "unhealthy state reason = \<lparr>vr_Healthy = False, vr_State = state, vr_Reason = reason, vr_Families = families_zero\<rparr>"

definition validate_backend ::
  "'k toad_services \<Rightarrow> route_families \<Rightarrow> 'k toad_world \<Rightarrow> validation_result \<times> 'k toad_world" where
  "validate_backend sv families w =
     (let structural = (if families_Ready families
            then \<lparr>vr_Healthy = True, vr_State = ''ready'', vr_Reason = ''managed route target is structurally ready'',
                  vr_Families = families\<rparr>
            else \<lparr>vr_Healthy = False, vr_State = ''degraded'',
                  vr_Reason = ''no configured address family is usable on the managed interface'', vr_Families = families\<rparr>)
      in case Option.bind (tv_backend sv) be_Validate of
           None \<Rightarrow> (structural, w)
         | Some validate \<Rightarrow>
             (case validate (tw_host w) of
                (v, k) \<Rightarrow>
                  let w' = w\<lparr>tw_host := k\<rparr>
                  in if bv_Healthy v then (structural, w')
                     else (\<lparr>vr_Healthy = False, vr_State = bv_State v, vr_Reason = bv_Reason v,
                            vr_Families = \<lparr>rf_IPv4 = \<lparr>fr_Configured = fr_Configured (rf_IPv4 families), fr_Ready = False, fr_Reason = bv_Reason v\<rparr>,
                                           rf_IPv6 = \<lparr>fr_Configured = fr_Configured (rf_IPv6 families), fr_Ready = False, fr_Reason = bv_Reason v\<rparr>\<rparr>\<rparr>, w')))"

definition toad_Validate :: "'k toad_services \<Rightarrow> 'k toad_world \<Rightarrow> validation_result \<times> 'k toad_world" where
  "toad_Validate sv w =
     (let expected = ob_IfIndex (tr_state (tw_runtime w))
      in if \<not> tr_started (tw_runtime w) then (unhealthy ''stopped'' ''runtime is stopped'', w)
         else case tv_readInterface sv of
                None \<Rightarrow> (unhealthy ''degraded'' ''managed interface reader is unavailable'', w)
              | Some read \<Rightarrow>
                  (case on_toad read w of
                     (Inl _, w1) \<Rightarrow> (unhealthy ''degraded'' ''managed interface is unavailable'', w1)
                   | (Inr i, w1) \<Rightarrow>
                       if \<not> interfaceIdentityReady (tv_cfg sv) i
                         then (unhealthy ''degraded'' ''managed route target is structurally unavailable'', w1)
                       else if 0 < expected \<and> if_IfIndex i \<noteq> expected
                         then (unhealthy ''degraded'' ''managed interface identity changed'', w1)
                       else (case currentFamiliesLocked sv i (tw_host w1) of
                               (families, k) \<Rightarrow> validate_backend sv families (w1\<lparr>tw_host := k\<rparr>))))"

text \<open>An error that is an \<^verbatim>\<open>*toadctl.APIError\<close> travels as it is.\<close>

datatype call_error = Plain goerror | Api api_error

definition toad_fail :: "toad_response \<Rightarrow> string \<Rightarrow> call_error \<Rightarrow> toad_response" where
  "toad_fail response code err =
     response\<lparr>rsp_OK := False, rsp_Error := Some (case err of
         Api e \<Rightarrow> e
       | Plain e \<Rightarrow> \<lparr>ae_Code = code, ae_Message = error_text e, ae_Retryable = True\<rparr>)\<rparr>"

definition unsupported_call :: "string \<Rightarrow> call_error" where
  "unsupported_call message = Api \<lparr>ae_Code = ''capability_unsupported'', ae_Message = message, ae_Retryable = False\<rparr>"

definition toad_Rebind :: "'k toad_services \<Rightarrow> underlay_binding \<Rightarrow> 'k toad_world \<Rightarrow> call_error option \<times> 'k toad_world" where
  "toad_Rebind sv binding w =
     (case Option.bind (tv_backend sv) be_Rebind of
        None \<Rightarrow> (Some (unsupported_call ''rebind is not supported by this Toad''), w)
      | Some rebind \<Rightarrow>
          (case on_toad (rebind binding) w of (Inl e, w') \<Rightarrow> (Some (Plain e), w') | (Inr _, w') \<Rightarrow> (None, w')))"

definition toad_RestartTransport :: "'k toad_services \<Rightarrow> underlay_binding \<Rightarrow> 'k toad_world \<Rightarrow> call_error option \<times> 'k toad_world" where
  "toad_RestartTransport sv binding w =
     (case Option.bind (tv_backend sv) be_RestartTransport of
        None \<Rightarrow> (Some (unsupported_call ''transport restart is not supported by this Toad''), w)
      | Some restart \<Rightarrow>
          (case on_toad (restart binding) w of (Inl e, w') \<Rightarrow> (Some (Plain e), w') | (Inr _, w') \<Rightarrow> (None, w')))"

definition requireGeneration :: "toad_runtime \<Rightarrow> u64 \<Rightarrow> call_error option" where
  "requireGeneration r generation =
     (if generation = 0 then None
      else if \<not> tr_started r \<or> tr_generation r \<noteq> generation
        then Some (Api \<lparr>ae_Code = ''stale_generation'', ae_Message = ''request targets a stale Toad generation'', ae_Retryable = True\<rparr>)
      else None)"

definition generation_methods :: "string list" where
  "generation_methods = [''Quiesce'', ''Stop'', ''Validate'', ''Rebind'', ''RestartTransport'']"

text \<open>The reply of an operation that ends in a snapshot or an error.\<close>

definition reply :: "'k toad_services \<Rightarrow> toad_response \<Rightarrow> string \<Rightarrow> call_error option \<times> 'k toad_world \<Rightarrow> toad_response \<times> 'k toad_world" where
  "reply sv res code outcome =
     (case outcome of
        (Some e, w) \<Rightarrow> (toad_fail res code e, w)
      | (None, w) \<Rightarrow> (res\<lparr>rsp_OK := True, rsp_Snapshot := Some (toadSnapshotLocked sv (tw_runtime w))\<rparr>, w))"

definition plain_error :: "(goerror + unit) \<times> 'w \<Rightarrow> call_error option \<times> 'w" where
  "plain_error x = (case x of (Inl e, w) \<Rightarrow> (Some (Plain e), w) | (Inr _, w) \<Rightarrow> (None, w))"

definition dispatch :: "'k toad_services \<Rightarrow> toad_request \<Rightarrow> toad_response \<Rightarrow> 'k toad_world \<Rightarrow> toad_response \<times> 'k toad_world" where
  "dispatch sv req res w =
     (let m = rq_Method req
      in if m = ''Handshake'' then reply sv (res\<lparr>rsp_Capabilities := Some (toad_capabilities sv)\<rparr>) [] (None, w)
         else if m = ''Start'' then
           (let start = (case rq_Start req of None \<Rightarrow> \<lparr>sr_Generation = rq_Generation req, sr_Underlay = binding_zero\<rparr> | Some s \<Rightarrow> s)
            in reply sv res ''start_failed'' (plain_error (toad_Start sv start w)))
         else if m = ''Quiesce'' then reply sv res ''quiesce_failed'' (plain_error (toad_Quiesce sv w))
         else if m = ''Stop'' then reply sv res ''stop_failed'' (plain_error (toad_Stop sv w))
         else if m = ''Inspect'' \<or> m = ''Snapshot'' \<or> m = ''Subscribe'' then reply sv res [] (None, w)
         else if m = ''Validate'' then
           (case toad_Validate sv w of (v, w') \<Rightarrow> reply sv (res\<lparr>rsp_Validation := Some v\<rparr>) [] (None, w'))
         else if m = ''Rebind'' then reply sv res ''capability_unsupported'' (toad_Rebind sv (BindingValue req) w)
         else if m = ''RestartTransport'' then
           reply sv res ''capability_unsupported'' (toad_RestartTransport sv (BindingValue req) w)
         else (toad_fail res ''unsupported_method'' (Plain (Errorf ''unsupported method %q'')), w))"

definition toad_Handle :: "'k toad_services \<Rightarrow> toad_request \<Rightarrow> 'k toad_world \<Rightarrow> toad_response \<times> 'k toad_world" where
  "toad_Handle sv req w =
     (let res = response_zero\<lparr>rsp_Version := ProtocolVersion, rsp_ID := rq_ID req\<rparr>
      in case (if rq_Method req \<in> set generation_methods then requireGeneration (tw_runtime w) (rq_Generation req) else None) of
           Some e \<Rightarrow> (toad_fail res ''stale_generation'' e, w)
         | None \<Rightarrow> dispatch sv req res w)"

section \<open>The health loop\<close>

definition healthLoopInterval :: gotime where
  "healthLoopInterval = 250 * Millisecond"

definition degraded :: "string \<Rightarrow> observed_state \<Rightarrow> observed_state" where
  "degraded reason s = s\<lparr>ob_State := ''degraded'', ob_Reason := reason, ob_RouteReady := False\<rparr>"

definition read_now :: "'k toad_services \<Rightarrow> ('k toad_world, toad_interface) tx" where
  "read_now sv =
     (case tv_readInterface sv of
        None \<Rightarrow> throwT (Errorf ''managed interface reader is unavailable'')
      | Some read \<Rightarrow> on_toad read)"

definition families_now :: "'k toad_services \<Rightarrow> toad_interface \<Rightarrow> 'k toad_world \<Rightarrow> route_families \<times> 'k toad_world" where
  "families_now sv i w = (case currentFamiliesLocked sv i (tw_host w) of (f, k) \<Rightarrow> (f, w\<lparr>tw_host := k\<rparr>))"

text \<open>The interface after a repair that reported success.\<close>

definition after_repair ::
  "'k toad_services \<Rightarrow> role_config \<Rightarrow> backend_health \<Rightarrow> int \<Rightarrow> toad_interface \<Rightarrow> 'k toad_world \<Rightarrow> observed_state \<times> 'k toad_world" where
  "after_repair sv c h known i w =
     (case families_now sv i w of
        (families, w1) \<Rightarrow>
          let next = fromHealth c i h (tr_generation (tw_runtime w1)) families (toad_now sv w1)
          in if 0 < known \<and> if_IfIndex i \<noteq> known then (degraded ''managed interface identity changed'' next, w1)
             else if families_Ready families then (next, edit_runtime (\<lambda>r. r\<lparr>tr_nextRepair := 0\<rparr>) w1)
             else (degraded ''managed interface drift persists after repair'' next, w1))"

definition attempt_repair ::
  "'k toad_services \<Rightarrow> role_config \<Rightarrow> backend_health \<Rightarrow> int \<Rightarrow> (string \<Rightarrow> expectation \<Rightarrow> ('k, unit) tx) \<Rightarrow>
     ('k, expectation) tx \<Rightarrow> observed_state \<Rightarrow> 'k toad_world \<Rightarrow> observed_state \<times> 'k toad_world" where
  "attempt_repair sv c h known repair report next w =
     (let now = toad_now sv w;
          interval = (if tr_repairInterval (tw_runtime w) \<le> 0 then 1000 * Millisecond else tr_repairInterval (tw_runtime w));
          w1 = edit_runtime (\<lambda>r. r\<lparr>tr_nextRepair := now + interval\<rparr>) w
      in case on_toad report w1 of
           (Inl _, w2) \<Rightarrow> (degraded ''managed interface drift expectation unavailable'' next, w2)
         | (Inr expected, w2) \<Rightarrow>
             (case on_toad (repair (cf_Interface c) (expected\<lparr>ex_IfIndex := known\<rparr>)) w2 of
                (Inl _, w3) \<Rightarrow> (degraded ''managed interface drift repair failed'' next, w3)
              | (Inr _, w3) \<Rightarrow>
                  (case read_now sv w3 of
                     (Inl _, w4) \<Rightarrow> (degraded ''managed interface drift reread failed'' next, w4)
                   | (Inr i, w4) \<Rightarrow> after_repair sv c h known i w4)))"

definition handle_drift ::
  "'k toad_services \<Rightarrow> role_config \<Rightarrow> backend_health \<Rightarrow> int \<Rightarrow> (string \<Rightarrow> expectation \<Rightarrow> ('k, unit) tx) \<Rightarrow>
     observed_state \<Rightarrow> 'k toad_world \<Rightarrow> observed_state \<times> 'k toad_world" where
  "handle_drift sv c h known repair next w =
     (let next = degraded ''managed interface drift detected'' next; now = toad_now sv w
      in if ob_RouteReady (tr_state (tw_runtime w))
           then (next, edit_runtime (\<lambda>r. r\<lparr>tr_nextRepair := now + healthLoopInterval\<rparr>) w)
         else if now < tr_nextRepair (tw_runtime w) then (next, w)
         else case Option.bind (tv_backend sv) be_LocalInterfaceExpectation of
                None \<Rightarrow> (next, w)
              | Some report \<Rightarrow> attempt_repair sv c h known repair report next w)"

definition settle_tick :: "'k toad_services \<Rightarrow> observed_state \<Rightarrow> 'k toad_world \<Rightarrow> 'k toad_world" where
  "settle_tick sv next w =
     (let s = tr_state (tw_runtime w)
      in if ob_State next \<noteq> ob_State s \<or> ob_Reason next \<noteq> ob_Reason s \<or> \<not> sameInterface next s \<or>
            ob_RouteReady next \<noteq> ob_RouteReady s \<or> ob_Families next \<noteq> ob_Families s \<or> \<not> sameSession next s
         then snd (publishLocked sv (toad_bump (edit_runtime (\<lambda>r. r\<lparr>tr_state := next\<rparr>) w)))
         else w)"

definition next_state ::
  "'k toad_services \<Rightarrow> role_config \<Rightarrow> 'k toad_backend \<Rightarrow> 'k toad_world \<Rightarrow> observed_state \<times> 'k toad_world" where
  "next_state sv c b w =
     (case be_Health b (tw_host w) of
        (h, k) \<Rightarrow>
          let w1 = w\<lparr>tw_host := k\<rparr>; known = ob_IfIndex (tr_state (tw_runtime w))
          in case read_now sv w1 of
               (seen, w2) \<Rightarrow>
                 let i = (case seen of Inl _ \<Rightarrow> \<lparr>if_Name = cf_Interface c, if_IfIndex = 0, if_MTU = 0, if_Addresses = []\<rparr> | Inr i \<Rightarrow> i)
                 in case families_now sv i w2 of
                      (families, w3) \<Rightarrow>
                        let structural = (interfaceIdentityReady (Some c) i \<and> families_Ready families);
                            next = fromHealth c i h (tr_generation (tw_runtime w)) families (toad_now sv w3)
                        in if isl seen then (degraded ''managed interface is unavailable'' next, w3)
                           else if 0 < known \<and> 0 < if_IfIndex i \<and> if_IfIndex i \<noteq> known
                             then (degraded ''managed interface identity changed'' next, w3)
                           else if \<not> structural \<and> cf_Protocol c = ''openconnect''
                             then (next\<lparr>ob_State := ''degraded'',
                                    ob_Reason := ''OpenConnect negotiated interface drift requires transport recovery''\<rparr>, w3)
                           else (case tv_repairer sv of
                                   Some repair \<Rightarrow>
                                     if \<not> structural \<and> 0 < if_IfIndex i then handle_drift sv c h known repair next w3
                                     else (next, w3)
                                 | None \<Rightarrow> (next, w3)))"

text \<open>One tick of \<^verbatim>\<open>RunHealthLoop\<close>.\<close>

definition health_tick :: "'k toad_services \<Rightarrow> 'k toad_world \<Rightarrow> 'k toad_world" where
  "health_tick sv w =
     (if \<not> tr_started (tw_runtime w) then w
      else case (tv_cfg sv, tv_backend sv) of
             (Some c, Some b) \<Rightarrow> (case next_state sv c b w of (next, w') \<Rightarrow> settle_tick sv next w')
           | _ \<Rightarrow> w)"

text \<open>What happens to a Toad: a tick, a request, or something on the host. \<open>env\<close> is what the host
  may do on its own.\<close>

inductive toad_step :: "'k toad_services \<Rightarrow> ('k \<Rightarrow> 'k \<Rightarrow> bool) \<Rightarrow> 'k toad_world \<Rightarrow> 'k toad_world \<Rightarrow> bool"
  for sv env where
  step_tick: "toad_step sv env w (health_tick sv w)"
| step_request: "toad_step sv env w (snd (toad_Handle sv req w))"
| step_host: "env (tw_host w) k \<Longrightarrow> toad_step sv env w (w\<lparr>tw_host := k\<rparr>)"

section \<open>The repairer and the reader of Linux\<close>

text \<open>
  The Linux repairer of a managed interface (\<^verbatim>\<open>platform/interface_repair_linux.go\<close>) and the
  interface reader the Toad process gives its runtime (\<^verbatim>\<open>cmd/kikimora-toad/main.go\<close>). The netlink
  calls and those of package \<^verbatim>\<open>net\<close> are parameters.
\<close>

record link_attrs =
  la_Name :: string
  la_Index :: int
  la_MTU :: int
  la_Up :: bool

text \<open>\<open>nl_LinkByName\<close> gives no attributes for a link whose \<^verbatim>\<open>Attrs()\<close> are nil; an entry of
  \<open>nl_AddrList\<close> without \<^verbatim>\<open>IPNet\<close> is \<^term>\<open>None\<close>. \<open>nl_ParseAddr\<close> is the error of
  \<^verbatim>\<open>netlink.ParseAddr\<close>, if any.\<close>

record 'k netlink_ops =
  nl_LinkByName :: "string \<Rightarrow> ('k, link_attrs option) tx"
  nl_LinkSetMTU :: "string \<Rightarrow> int \<Rightarrow> ('k, unit) tx"
  nl_AddrList :: "string \<Rightarrow> ('k, string option list) tx"
  nl_AddrAdd :: "string \<Rightarrow> netprefix \<Rightarrow> ('k, unit) tx"
  nl_LinkSetUp :: "string \<Rightarrow> ('k, unit) tx"
  nl_ParseAddr :: "string \<Rightarrow> goerror option"
  nl_InterfaceByName :: "string \<Rightarrow> ('k, link_attrs) tx"
  nl_Addrs :: "string \<Rightarrow> ('k, string list) tx"

definition verifyRepairIdentity :: "string \<Rightarrow> int \<Rightarrow> expectation \<Rightarrow> goerror option" where
  "verifyRepairIdentity name actual expected =
     (if 0 < ex_IfIndex expected \<and> actual \<noteq> ex_IfIndex expected
      then Some (Errorf ''managed interface %q identity changed: ifindex=%d, expected=%d'') else None)"

definition listed_prefixes :: "string option list \<Rightarrow> netprefix list" where
  "listed_prefixes items = List.map_filter (\<lambda>item. Option.bind item ParsePrefix) items"

definition add_missing :: "'k netlink_ops \<Rightarrow> string \<Rightarrow> netprefix list \<Rightarrow> netprefix \<Rightarrow> ('k, unit) tx" where
  "add_missing nl name listed p =
     (if \<not> prefix_IsValid p \<or> p \<in> set listed then returnT ()
      else case nl_ParseAddr nl (prefix_String p) of
             Some e \<Rightarrow> throwT (Wrapf ''convert expected address %s for %q: %w'' e)
           | None \<Rightarrow> mapErrT (Wrapf ''restore address %s on %q: %w'') (nl_AddrAdd nl name p))"

definition RepairInterface :: "'k netlink_ops \<Rightarrow> string \<Rightarrow> expectation \<Rightarrow> ('k, unit) tx" where
  "RepairInterface nl name expected =
     (if name = [] then throwT (Errorf ''managed interface name is empty'')
      else
        bindT (mapErrT (Wrapf ''lookup managed interface %q: %w'') (nl_LinkByName nl name)) (\<lambda>link.
        case link of
          None \<Rightarrow> throwT (Errorf ''managed interface %q has invalid attributes'')
        | Some attrs \<Rightarrow>
            if la_Index attrs \<le> 0 then throwT (Errorf ''managed interface %q has invalid attributes'')
            else case verifyRepairIdentity name (la_Index attrs) expected of
                   Some e \<Rightarrow> throwT e
                 | None \<Rightarrow>
                     bindT (if 0 < ex_MTU expected \<and> la_MTU attrs \<noteq> ex_MTU expected
                            then mapErrT (Wrapf ''restore MTU %d on %q: %w'') (nl_LinkSetMTU nl name (ex_MTU expected))
                            else returnT ()) (\<lambda>_.
                     bindT (mapErrT (Wrapf ''read addresses on %q: %w'') (nl_AddrList nl name)) (\<lambda>existing.
                     bindT (eachT (add_missing nl name (listed_prefixes existing)) (ex_Addresses expected)) (\<lambda>_.
                     bindT (if la_Up attrs then returnT ()
                            else mapErrT (Wrapf ''restore link-up on %q: %w'') (nl_LinkSetUp nl name)) (\<lambda>_.
                     bindT (mapErrT (Wrapf ''verify addresses on %q: %w'') (nl_AddrList nl name)) (\<lambda>verify.
                     if list_all (\<lambda>p. prefix_IsValid p \<longrightarrow> p \<in> set (listed_prefixes verify)) (ex_Addresses expected)
                     then returnT () else throwT (Errorf ''address %s was not restored on %q'')))))))) "

definition readManagedInterface :: "'k netlink_ops \<Rightarrow> string \<Rightarrow> ('k, toad_interface) tx" where
  "readManagedInterface nl name =
     bindT (nl_InterfaceByName nl name) (\<lambda>attrs.
     bindT (mapErrT (Wrapf ''read addresses for %s: %w'') (nl_Addrs nl name)) (\<lambda>raw.
     returnT \<lparr>if_Name = la_Name attrs, if_IfIndex = la_Index attrs, if_MTU = la_MTU attrs,
              if_Addresses = sort (map prefix_String (List.map_filter ParsePrefix raw))\<rparr>))"

section \<open>A host with one link\<close>

record lab_link =
  ll_Index :: int
  ll_MTU :: int
  ll_Up :: bool
  ll_Addresses :: "netprefix list"

record lab_host =
  lh_Link :: "lab_link option"
  lh_Clock :: gotime

definition on_link :: "(lab_link \<Rightarrow> 'a) \<Rightarrow> (lab_link \<Rightarrow> lab_link) \<Rightarrow> (lab_host, 'a) tx" where
  "on_link get edit k =
     (case lh_Link k of
        None \<Rightarrow> (Inl (Errorf ''Link not found''), k)
      | Some l \<Rightarrow> (Inr (get l), k\<lparr>lh_Link := Some (edit l)\<rparr>))"

definition lab_attrs :: "string \<Rightarrow> lab_link \<Rightarrow> link_attrs" where
  "lab_attrs name l = \<lparr>la_Name = name, la_Index = ll_Index l, la_MTU = ll_MTU l, la_Up = ll_Up l\<rparr>"

definition lab_InterfaceByName :: "string \<Rightarrow> (lab_host, link_attrs) tx" where
  "lab_InterfaceByName name k =
     (case lh_Link k of
        None \<Rightarrow> (Inl (Errorf ''no such network interface''), k)
      | Some l \<Rightarrow> if ll_Index l \<le> 0 \<or> ll_MTU l \<le> 0 then (Inl (Errorf ''invalid network interface''), k)
                  else (Inr (lab_attrs name l), k))"

definition lab_netlink :: "lab_host netlink_ops" where
  "lab_netlink =
     \<lparr>nl_LinkByName = (\<lambda>name. on_link (\<lambda>l. Some (lab_attrs name l)) id),
      nl_LinkSetMTU = (\<lambda>name mtu. on_link (\<lambda>_. ()) (\<lambda>l. l\<lparr>ll_MTU := mtu\<rparr>)),
      nl_AddrList = (\<lambda>name. on_link (\<lambda>l. map (Some \<circ> prefix_String) (ll_Addresses l)) id),
      nl_AddrAdd = (\<lambda>name p. on_link (\<lambda>_. ()) (\<lambda>l. l\<lparr>ll_Addresses := ll_Addresses l @ [p]\<rparr>)),
      nl_LinkSetUp = (\<lambda>name. on_link (\<lambda>_. ()) (\<lambda>l. l\<lparr>ll_Up := True\<rparr>)),
      nl_ParseAddr = (\<lambda>text. None),
      nl_InterfaceByName = lab_InterfaceByName,
      nl_Addrs = (\<lambda>name. on_link (\<lambda>l. map prefix_String (ll_Addresses l)) id)\<rparr>"

definition lab_files :: "lab_host file_system" where
  "lab_files = \<lparr>fs_MkdirAll = (\<lambda>_. returnT ()), fs_CreateTemp = (\<lambda>_ _. returnT ''tmp''), fs_Chmod = (\<lambda>_ _. returnT ()),
     fs_Write = (\<lambda>_ _. returnT ()), fs_Sync = (\<lambda>_. returnT ()), fs_Close = (\<lambda>_. returnT ()), fs_Rename = (\<lambda>_ _. returnT ()),
     fs_Remove = (\<lambda>_. returnT ()), fs_Open = (\<lambda>_. returnT ()), fs_SyncOpenDir = (\<lambda>_. returnT ()),
     fs_ReadFile = (\<lambda>_. throwT (Sentinel ErrNotExist)),
     fs_WriteFile = (\<lambda>_ _. returnT ()), fs_Stat = (\<lambda>_. throwT (Sentinel ErrNotExist)), fs_ReadDir = (\<lambda>_. returnT []), fs_GOOS = ''linux'', fs_Now = lh_Clock\<rparr>"

definition lab_prefix :: netprefix where
  "lab_prefix = Prefix (Addr4 0x0A4D0002) 25"

definition lab_config :: role_config where
  "lab_config = \<lparr>cf_Name = ''home'', cf_Protocol = ''amneziawg2'', cf_Interface = ''kk-awg0'', cf_Address = [''10.77.0.2/24''],
     cf_MTU = 1380, cf_StateDir = ''/run/home'', cf_AWG2 = None, cf_VLESS = None, cf_OpenConnect = None, cf_LeshyZone = [],
     cf_Source = [], cf_StaticFile = [], cf_Command = [], cf_RulePriority = 0, cf_legacyVPNPath = [], cf_Profiles = []\<rparr>"

definition lab_backend :: "lab_host toad_backend" where
  "lab_backend = \<lparr>be_Start = returnT (),
     be_Health = (\<lambda>k. (\<lparr>he_State = ''online'', he_Reason = [], he_Connected = True, he_LastHandshakeAge = None, he_RXBytes = 0,
       he_TXBytes = 0, he_Endpoint = []\<rparr>, k)),
     be_Close = returnT (), be_Validate = None,
     be_LocalInterfaceExpectation = Some (returnT \<lparr>ex_IfIndex = 0, ex_MTU = 1380, ex_Addresses = [lab_prefix]\<rparr>),
     be_TransportEndpoints = None, be_Rebind = None, be_RestartTransport = None\<rparr>"

definition lab_services :: "lab_host toad_services" where
  "lab_services = \<lparr>tv_cfg = Some lab_config, tv_backend = Some lab_backend,
     tv_readInterface = Some (readManagedInterface lab_netlink ''kk-awg0''),
     tv_repairer = Some (RepairInterface lab_netlink), tv_fs = lab_files, tv_marshal = (\<lambda>_. Inr ''{}''),
     tv_wait = (\<lambda>k. (PollTick, k))\<rparr>"

definition lab_link_at :: "int \<Rightarrow> netprefix list \<Rightarrow> lab_link" where
  "lab_link_at index ps = \<lparr>ll_Index = index, ll_MTU = 1380, ll_Up = True, ll_Addresses = ps\<rparr>"

definition lab_world :: "toad_runtime \<Rightarrow> lab_link option \<Rightarrow> gotime \<Rightarrow> lab_host toad_world" where
  "lab_world r link now = \<lparr>tw_runtime = r, tw_host = \<lparr>lh_Link = link, lh_Clock = now\<rparr>\<rparr>"

definition lab_started :: "int \<Rightarrow> lab_host toad_world" where
  "lab_started index = snd (toad_Start lab_services \<lparr>sr_Generation = 1, sr_Underlay = binding_zero\<rparr>
     (lab_world New (Some (lab_link_at index [lab_prefix])) 1000))"

text \<open>The world with the host moved on.\<close>

definition lab_at :: "lab_link option \<Rightarrow> gotime \<Rightarrow> lab_host toad_world \<Rightarrow> lab_host toad_world" where
  "lab_at link now w = w\<lparr>tw_host := \<lparr>lh_Link = link, lh_Clock = now\<rparr>\<rparr>"

text \<open>The interface has lost its address, and the tick that saw it has published that.\<close>

definition lab_drifted :: "lab_host toad_world" where
  "lab_drifted = lab_at (Some (lab_link_at 7 [])) 300000000
     (health_tick lab_services (lab_at (Some (lab_link_at 7 [])) 2000 (lab_started 7)))"

definition stuck_services :: "lab_host toad_services" where
  "stuck_services = lab_services\<lparr>tv_repairer := Some (\<lambda>name e. throwT (Errorf ''operation not permitted''))\<rparr>"

end
