(* ===== verification/Runtime_Facts.thy ===== *)
theory Runtime_Facts
  imports Toad_Runtime
begin

text \<open>
  What the operations of the Toad runtime leave of its state, as lemmas the properties share.
\<close>

section \<open>Calls on the host\<close>

lemma on_toad_runtime [simp]: "tw_runtime (snd (on_toad t w)) = tw_runtime w"
  by (simp add: on_toad_def split: prod.splits)

lemma on_toad_keeps: "on_toad t w = (r, w') \<Longrightarrow> tw_runtime w' = tw_runtime w"
  using on_toad_runtime [of t w] by simp

lemma publish_runtime [simp]: "tw_runtime (snd (publishLocked sv w)) = tw_runtime w"
  by (simp add: publishLocked_def Let_def)

lemma publish_keeps: "publishLocked sv w = (r, w') \<Longrightarrow> tw_runtime w' = tw_runtime w"
  using publish_runtime [of sv w] by simp

lemma edit_runtime_simps [simp]:
  "tw_runtime (edit_runtime f w) = f (tw_runtime w)" "tw_host (edit_runtime f w) = tw_host w"
  by (simp_all add: edit_runtime_def)

lemma toad_bump_simps [simp]:
  "tw_runtime (toad_bump w) = (tw_runtime w)\<lparr>tr_revision := tr_revision (tw_runtime w) + 1\<rparr>" "tw_host (toad_bump w) = tw_host w"
  by (simp_all add: toad_bump_def)

lemma read_now_keeps: "read_now sv w = (r, w') \<Longrightarrow> tw_runtime w' = tw_runtime w"
  by (auto simp: read_now_def split: option.splits dest: on_toad_keeps)

lemma families_now_keeps: "families_now sv i w = (f, w') \<Longrightarrow> tw_runtime w' = tw_runtime w"
  by (auto simp: families_now_def split: prod.splits)

lemma refreshEndpoints_keeps:
  "tr_state (tw_runtime (refreshEndpoints sv w)) = tr_state (tw_runtime w)"
  "tr_started (tw_runtime (refreshEndpoints sv w)) = tr_started (tw_runtime w)"
  "tr_revision (tw_runtime (refreshEndpoints sv w)) = tr_revision (tw_runtime w)"
  "tr_nextRepair (tw_runtime (refreshEndpoints sv w)) = tr_nextRepair (tw_runtime w)"
  "tr_repairInterval (tw_runtime (refreshEndpoints sv w)) = tr_repairInterval (tw_runtime w)"
  by (auto simp: refreshEndpoints_def split: option.splits prod.splits sum.splits dest: on_toad_keeps)

lemma validate_backend_keeps: "tw_runtime (snd (validate_backend sv f w)) = tw_runtime w"
  by (auto simp: validate_backend_def Let_def split: option.splits prod.splits)

lemma toad_Validate_keeps: "tw_runtime (snd (toad_Validate sv w)) = tw_runtime w"
  by (auto simp: toad_Validate_def Let_def validate_backend_keeps split: option.splits prod.splits sum.splits
      dest: on_toad_keeps)

lemma toad_Rebind_keeps: "tw_runtime (snd (toad_Rebind sv b w)) = tw_runtime w"
  by (auto simp: toad_Rebind_def split: option.splits prod.splits sum.splits dest: on_toad_keeps)

lemma toad_RestartTransport_keeps: "tw_runtime (snd (toad_RestartTransport sv b w)) = tw_runtime w"
  by (auto simp: toad_RestartTransport_def split: option.splits prod.splits sum.splits dest: on_toad_keeps)

lemma snd_reply [simp]: "snd (reply sv res code outcome) = snd outcome"
  by (auto simp: reply_def split: prod.splits option.splits)

lemma snd_plain_error [simp]: "snd (plain_error x) = snd x"
  by (auto simp: plain_error_def split: prod.splits sum.splits)

section \<open>Requests\<close>

text \<open>A request leaves the runtime alone, or runs one of the three operations that change it.\<close>

lemma Handle_cases:
  obtains (same) "tw_runtime (snd (toad_Handle sv req w)) = tw_runtime w"
  | (start) s where "snd (toad_Handle sv req w) = snd (toad_Start sv s w)"
  | (quiesce) "snd (toad_Handle sv req w) = snd (toad_Quiesce sv w)"
  | (stop) "snd (toad_Handle sv req w) = snd (toad_Stop sv w)"
proof (cases "if rq_Method req \<in> set generation_methods then requireGeneration (tw_runtime w) (rq_Generation req) else None")
  case (Some e)
  then show ?thesis by (intro same) (simp add: toad_Handle_def Let_def)
next
  case None
  then have run: "toad_Handle sv req w = dispatch sv req (response_zero\<lparr>rsp_Version := ProtocolVersion, rsp_ID := rq_ID req\<rparr>) w"
    by (simp only: toad_Handle_def Let_def option.case)
  have stable: "tw_runtime w' = tw_runtime w" if "toad_Validate sv w = (v, w')" for v w'
    using toad_Validate_keeps [of sv w] that by simp
  consider "rq_Method req = ''Start''" | "rq_Method req = ''Quiesce''" | "rq_Method req = ''Stop''"
    | "rq_Method req \<notin> {''Start'', ''Quiesce'', ''Stop''}" by blast
  then show ?thesis
  proof cases
    case 1
    then show ?thesis by (intro start) (simp add: run dispatch_def Let_def)
  next
    case 2
    then show ?thesis by (intro quiesce) (simp add: run dispatch_def Let_def)
  next
    case 3
    then show ?thesis by (intro stop) (simp add: run dispatch_def Let_def)
  next
    case 4
    then show ?thesis
      by (intro same) (auto simp: run dispatch_def Let_def toad_Rebind_keeps toad_RestartTransport_keeps split: prod.splits
          dest!: stable)
  qed
qed

text \<open>The state a request leaves.\<close>

lemma quiesce_state:
  "tw_runtime (snd (toad_Quiesce sv w)) =
     (if tr_started (tw_runtime w)
      then (tw_runtime w)\<lparr>tr_revision := tr_revision (tw_runtime w) + 1,
             tr_state := (tr_state (tw_runtime w))\<lparr>ob_State := ''quiesced'', ob_Reason := ''transport quiesced''\<rparr>\<rparr>
      else tw_runtime w)"
  by (simp add: toad_Quiesce_def)

lemma stop_state:
  "tw_runtime (snd (toad_Stop sv w)) =
     (if tr_started (tw_runtime w)
      then (tw_runtime w)\<lparr>tr_revision := tr_revision (tw_runtime w) + 1, tr_started := False,
             tr_state := (tr_state (tw_runtime w))\<lparr>ob_State := ''stopped'', ob_Reason := ''stopped by control request''\<rparr>\<rparr>
      else tw_runtime w)"
  by (auto simp: toad_Stop_def split: prod.splits option.splits sum.splits dest!: on_toad_keeps publish_keeps)

lemma start_cases:
  obtains (same) "tr_state (tw_runtime (snd (toad_Start sv s w))) = tr_state (tw_runtime w)"
      "tr_started (tw_runtime (snd (toad_Start sv s w))) = tr_started (tw_runtime w)"
      "tr_nextRepair (tw_runtime (snd (toad_Start sv s w))) = tr_nextRepair (tw_runtime w)"
      "tr_repairInterval (tw_runtime (snd (toad_Start sv s w))) = tr_repairInterval (tw_runtime w)"
  | (begun) b c i w3 where "tv_backend sv = Some b" "tv_cfg sv = Some c" "\<not> tr_started (tw_runtime w)"
      "tw_runtime (snd (toad_Start sv s w)) = tw_runtime (begin_session sv b c (sr_Generation s) i w3)"
      "tr_nextRepair (tw_runtime w3) = tr_nextRepair (tw_runtime w)" "tr_repairInterval (tw_runtime w3) = tr_repairInterval (tw_runtime w)"
proof (cases "tr_started (tw_runtime w)")
  case True
  then show ?thesis by (intro same) (simp_all add: toad_Start_def)
next
  case stopped: False
  show ?thesis
  proof (cases "(tv_backend sv, tv_cfg sv, tv_readInterface sv)")
    case (fields ob oc oread)
    show ?thesis
    proof (cases "ob = None \<or> oc = None \<or> oread = None")
      case True
      with stopped fields show ?thesis by (intro same) (auto simp: toad_Start_def split: option.splits)
    next
      case False
      with fields obtain b c read where sv: "tv_backend sv = Some b" "tv_cfg sv = Some c" "tv_readInterface sv = Some read"
        by auto
      obtain r1 w1 where w1: "on_toad (be_Start b) w = (r1, w1)" by force
      obtain r3 w3 where w3: "on_toad (waitInterface read (tv_wait sv) (poll_limit c)) (refreshEndpoints sv w1) = (r3, w3)" by force
      show ?thesis
      proof (cases "\<exists>u i. r1 = Inr u \<and> r3 = Inr i")
        case True
        then obtain u i where "r1 = Inr u" "r3 = Inr i" by blast
        with stopped sv w1 w3 on_toad_keeps [OF w1] on_toad_keeps [OF w3] show ?thesis
          by (intro begun [of b c i w3]) (simp_all add: toad_Start_def bindT_apply Let_def refreshEndpoints_keeps)
      next
        case False
        with stopped sv w1 w3 on_toad_keeps [OF w1] on_toad_keeps [OF w3] show ?thesis
          by (intro same) (auto simp: toad_Start_def bindT_apply Let_def refreshEndpoints_keeps split: sum.splits prod.splits dest!: on_toad_keeps)
      qed
    qed
  qed
qed

section \<open>Ticks\<close>

text \<open>A tick computes a snapshot that is not route-ready, or one of an interface it has read.\<close>

definition plausible :: "'k toad_services \<Rightarrow> role_config \<Rightarrow> observed_state \<Rightarrow> bool" where
  "plausible sv c s \<longleftrightarrow>
     \<not> ob_RouteReady s \<or> (\<exists>i h g k now. s = fromHealth c i h g (fst (currentFamiliesLocked sv i k)) now)"

lemma read_plausible: "plausible sv c (fromHealth c i h g (fst (currentFamiliesLocked sv i k)) now)"
  unfolding plausible_def by blast

lemma degraded_plausible [simp]: "plausible sv c (degraded reason s)" "\<not> ob_RouteReady (degraded reason s)"
  by (simp_all add: plausible_def degraded_def)

definition same_but_repair :: "toad_runtime \<Rightarrow> toad_runtime \<Rightarrow> bool" where
  "same_but_repair r r' \<longleftrightarrow> r' = r\<lparr>tr_nextRepair := tr_nextRepair r'\<rparr>"

lemma same_but_repair_refl [simp]: "same_but_repair r r"
  by (simp add: same_but_repair_def)

lemma same_but_repair_edit [simp]: "same_but_repair r (r\<lparr>tr_nextRepair := t\<rparr>)"
  by (simp add: same_but_repair_def)

lemma same_but_repair_trans: "same_but_repair r r' \<Longrightarrow> same_but_repair r' r'' \<Longrightarrow> same_but_repair r r''"
  by (cases r; cases r'; cases r''; simp add: same_but_repair_def)

lemma same_but_repairD:
  assumes "same_but_repair r r'"
  shows "tr_state r' = tr_state r" "tr_started r' = tr_started r" "tr_revision r' = tr_revision r"
    "tr_generation r' = tr_generation r" "tr_endpoints r' = tr_endpoints r" "tr_repairInterval r' = tr_repairInterval r"
  using assms by (cases r; cases r'; simp add: same_but_repair_def)+

lemma after_repair_form:
  assumes "after_repair sv c h known i w = (nx, w')"
  shows "plausible sv c nx" "same_but_repair (tw_runtime w) (tw_runtime w')"
    "tr_nextRepair (tw_runtime w') = tr_nextRepair (tw_runtime w) \<or>
       nx = fromHealth c i h (tr_generation (tw_runtime w)) (ob_Families nx) (ob_UpdatedAt nx) \<and> families_Ready (ob_Families nx)"
proof -
  obtain f w1 where f: "families_now sv i w = (f, w1)" by force
  then have k: "f = fst (currentFamiliesLocked sv i (tw_host w))" "tw_runtime w1 = tw_runtime w"
    by (auto simp: families_now_def split: prod.splits)
  show "plausible sv c nx"
    using assms read_plausible [of sv c i h "tr_generation (tw_runtime w)" "tw_host w" "toad_now sv w1"] k
    by (auto simp: after_repair_def f Let_def split: if_splits)
  show "same_but_repair (tw_runtime w) (tw_runtime w')"
    "tr_nextRepair (tw_runtime w') = tr_nextRepair (tw_runtime w) \<or>
       nx = fromHealth c i h (tr_generation (tw_runtime w)) (ob_Families nx) (ob_UpdatedAt nx) \<and> families_Ready (ob_Families nx)"
    using assms k by (auto simp: after_repair_def f Let_def fromHealth_def split: if_splits)
qed

text \<open>An attempt moves the nx one out by the interval, whatever becomes of it, unless it leaves a
  usable family.\<close>

definition repair_gap :: "toad_runtime \<Rightarrow> gotime" where
  "repair_gap r = (if tr_repairInterval r \<le> 0 then 1000 * Millisecond else tr_repairInterval r)"

lemma attempt_repair_form:
  assumes "attempt_repair sv c h known repair report nx w = (nx', w')"
  shows "plausible sv c nx'" "same_but_repair (tw_runtime w) (tw_runtime w')"
    "tr_nextRepair (tw_runtime w') = toad_now sv w + repair_gap (tw_runtime w) \<or>
       (\<exists>i. nx' = fromHealth c i h (tr_generation (tw_runtime w)) (ob_Families nx') (ob_UpdatedAt nx') \<and>
            families_Ready (ob_Families nx') \<and> (\<exists>k k'. read_now sv k = (Inr i, k')))"
proof -
  let ?w1 = "edit_runtime (\<lambda>r. r\<lparr>tr_nextRepair := toad_now sv w + repair_gap (tw_runtime w)\<rparr>) w"
  obtain r2 w2 where r2: "on_toad report ?w1 = (r2, w2)" by force
  note k2 = on_toad_keeps [OF r2]
  have goals: "plausible sv c nx' \<and> same_but_repair (tw_runtime w) (tw_runtime w') \<and>
    (tr_nextRepair (tw_runtime w') = toad_now sv w + repair_gap (tw_runtime w) \<or>
       (\<exists>i. nx' = fromHealth c i h (tr_generation (tw_runtime w)) (ob_Families nx') (ob_UpdatedAt nx') \<and>
            families_Ready (ob_Families nx') \<and> (\<exists>k k'. read_now sv k = (Inr i, k'))))"
  proof (cases r2)
    case (Inl e)
    with assms r2 k2 show ?thesis by (auto simp: attempt_repair_def Let_def repair_gap_def)
  next
    case (Inr expected)
    obtain r3 w3 where r3: "on_toad (repair (cf_Interface c) (expected\<lparr>ex_IfIndex := known\<rparr>)) w2 = (r3, w3)" by force
    note k3 = on_toad_keeps [OF r3]
    obtain r4 w4 where r4: "read_now sv w3 = (r4, w4)" by force
    note k4 = read_now_keeps [OF r4]
    show ?thesis
    proof (cases "isl r3 \<or> isl r4")
      case True
      with assms r2 Inr r3 r4 k2 k3 k4 show ?thesis
        by (auto simp: attempt_repair_def Let_def repair_gap_def split: sum.splits)
    next
      case False
      then obtain u i where "r3 = Inr u" and i: "r4 = Inr i" by (cases r3; cases r4; auto)
      with assms r2 Inr r3 r4 have after: "after_repair sv c h known i w4 = (nx', w')"
        by (auto simp: attempt_repair_def Let_def repair_gap_def split: sum.splits)
      have "tw_runtime w4 = (tw_runtime w)\<lparr>tr_nextRepair := toad_now sv w + repair_gap (tw_runtime w)\<rparr>"
        using k2 k3 k4 by simp
      with after_repair_form [OF after] r4 i show ?thesis
        by (auto intro: same_but_repair_trans [OF same_but_repair_edit])
    qed
  qed
  then show "plausible sv c nx'" "same_but_repair (tw_runtime w) (tw_runtime w')"
    "tr_nextRepair (tw_runtime w') = toad_now sv w + repair_gap (tw_runtime w) \<or>
       (\<exists>i. nx' = fromHealth c i h (tr_generation (tw_runtime w)) (ob_Families nx') (ob_UpdatedAt nx') \<and>
            families_Ready (ob_Families nx') \<and> (\<exists>k k'. read_now sv k = (Inr i, k')))"
    by blast+
qed

lemma handle_drift_form:
  assumes "handle_drift sv c h known repair nx w = (nx', w')"
  shows "plausible sv c nx' \<and> same_but_repair (tw_runtime w) (tw_runtime w')"
  using assms attempt_repair_form(1,2)
  by (auto simp: handle_drift_def Let_def split: if_splits option.splits)

text \<open>The reading a tick starts from.\<close>

definition tick_reads ::
  "'k toad_services \<Rightarrow> role_config \<Rightarrow> 'k toad_backend \<Rightarrow> 'k toad_world \<Rightarrow>
     backend_health \<times> (goerror + toad_interface) \<times> toad_interface \<times> route_families \<times> 'k toad_world" where
  "tick_reads sv c b w =
     (case be_Health b (tw_host w) of
        (h, k) \<Rightarrow>
          (case read_now sv (w\<lparr>tw_host := k\<rparr>) of
             (seen, w2) \<Rightarrow>
               let i = (case seen of Inl _ \<Rightarrow> \<lparr>if_Name = cf_Interface c, if_IfIndex = 0, if_MTU = 0, if_Addresses = []\<rparr> | Inr i \<Rightarrow> i)
               in case families_now sv i w2 of (f, w3) \<Rightarrow> (h, seen, i, f, w3)))"

lemma tick_reads_keeps:
  assumes "tick_reads sv c b w = (h, seen, i, f, w3)"
  shows "tw_runtime w3 = tw_runtime w" "\<exists>k. f = fst (currentFamiliesLocked sv i k)"
    "\<not> isl seen \<Longrightarrow> \<exists>k k'. read_now sv k = (Inr i, k')"
    "isl seen \<Longrightarrow> if_IfIndex i = 0"
proof -
  obtain h' k where h: "be_Health b (tw_host w) = (h', k)" by force
  obtain seen' w2 where seen: "read_now sv (w\<lparr>tw_host := k\<rparr>) = (seen', w2)" by force
  let ?i = "case seen' of Inl _ \<Rightarrow> \<lparr>if_Name = cf_Interface c, if_IfIndex = 0, if_MTU = 0, if_Addresses = []\<rparr> | Inr i \<Rightarrow> i"
  obtain f' w3' where f: "families_now sv ?i w2 = (f', w3')" by force
  have eqs: "seen = seen'" "i = ?i" "f = f'" "w3 = w3'" using assms by (auto simp: tick_reads_def h seen f Let_def)
  show "tw_runtime w3 = tw_runtime w" using eqs read_now_keeps [OF seen] families_now_keeps [OF f] by simp
  show "\<exists>k. f = fst (currentFamiliesLocked sv i k)"
    using eqs f by (auto simp: families_now_def split: prod.splits) (metis fst_conv)
  show "\<not> isl seen \<Longrightarrow> \<exists>k k'. read_now sv k = (Inr i, k')" using eqs seen by (cases seen') auto
  show "isl seen \<Longrightarrow> if_IfIndex i = 0" using eqs by (cases seen') auto
qed

lemma next_state_alt:
  assumes "tick_reads sv c b w = (h, seen, i, f, w3)"
  shows "next_state sv c b w =
     (let structural = (interfaceIdentityReady (Some c) i \<and> families_Ready f); known = ob_IfIndex (tr_state (tw_runtime w));
          nx = fromHealth c i h (tr_generation (tw_runtime w)) f (toad_now sv w3)
      in if isl seen then (degraded ''managed interface is unavailable'' nx, w3)
         else if 0 < known \<and> 0 < if_IfIndex i \<and> if_IfIndex i \<noteq> known then (degraded ''managed interface identity changed'' nx, w3)
         else if \<not> structural \<and> cf_Protocol c = ''openconnect''
           then (nx\<lparr>ob_State := ''degraded'', ob_Reason := ''OpenConnect negotiated interface drift requires transport recovery''\<rparr>, w3)
         else (case tv_repairer sv of
                 Some repair \<Rightarrow> if \<not> structural \<and> 0 < if_IfIndex i then handle_drift sv c h known repair nx w3 else (nx, w3)
               | None \<Rightarrow> (nx, w3)))"
proof -
  obtain h' k where h: "be_Health b (tw_host w) = (h', k)" by force
  obtain seen' w2 where seen: "read_now sv (w\<lparr>tw_host := k\<rparr>) = (seen', w2)" by force
  let ?i = "case seen' of Inl _ \<Rightarrow> \<lparr>if_Name = cf_Interface c, if_IfIndex = 0, if_MTU = 0, if_Addresses = []\<rparr> | Inr i \<Rightarrow> i"
  obtain f' w3' where f: "families_now sv ?i w2 = (f', w3')" by force
  have eqs: "h = h'" "seen = seen'" "i = ?i" "f = f'" "w3 = w3'" using assms by (auto simp: tick_reads_def h seen f Let_def)
  show ?thesis unfolding eqs by (simp only: next_state_def h seen f Let_def prod.case)
qed

lemma next_state_form:
  assumes "next_state sv c b w = (nx, w')"
  shows "plausible sv c nx \<and> same_but_repair (tw_runtime w) (tw_runtime w')"
proof -
  obtain h seen i f w3 where reads: "tick_reads sv c b w = (h, seen, i, f, w3)" by (metis prod_cases5)
  note keeps = tick_reads_keeps [OF reads]
  from keeps(2) have read: "plausible sv c (fromHealth c i h g f now)" for g now by (auto intro: read_plausible)
  have closed: "\<not> (interfaceIdentityReady (Some c) i \<and> families_Ready f) \<Longrightarrow>
      plausible sv c ((fromHealth c i h g f now)\<lparr>ob_State := a, ob_Reason := r\<rparr>)" for g now a r
    by (simp add: plausible_def fromHealth_def)
  show ?thesis
  proof (cases "\<exists>known repair nx0. handle_drift sv c h known repair nx0 w3 = (nx, w')")
    case True
    then show ?thesis using handle_drift_form keeps(1) by metis
  next
    case False
    with assms read closed keeps(1) show ?thesis
      by (auto simp: next_state_alt [OF reads] Let_def split: if_splits option.splits)
  qed
qed

lemma settle_tick_runtime:
  "tw_runtime (settle_tick sv nx w) \<in>
     {tw_runtime w, (tw_runtime w)\<lparr>tr_revision := tr_revision (tw_runtime w) + 1, tr_state := nx\<rparr>}"
  by (simp add: settle_tick_def Let_def)

lemma tick_cases:
  obtains (idle) "health_tick sv w = w"
  | (ran) c b nx w' where "tr_started (tw_runtime w)" "tv_cfg sv = Some c" "tv_backend sv = Some b" "next_state sv c b w = (nx, w')"
      "health_tick sv w = settle_tick sv nx w'"
proof (cases "tr_started (tw_runtime w) \<and> tv_cfg sv \<noteq> None \<and> tv_backend sv \<noteq> None")
  case True
  then obtain c b where sv: "tr_started (tw_runtime w)" "tv_cfg sv = Some c" "tv_backend sv = Some b" by auto
  obtain nx w' where n: "next_state sv c b w = (nx, w')" by force
  show ?thesis by (rule ran [OF sv n]) (simp add: health_tick_def sv n)
next
  case False
  then show ?thesis by (intro idle) (auto simp: health_tick_def split: option.splits)
qed

end
