(* ===== verification/Runtime_Properties.thy ===== *)
theory Runtime_Properties
  imports Runtime_Facts Toad_Runtime
begin

text \<open>
  Properties of the Toad runtime over its runs: what a route-ready snapshot stands for, when the
  repairer is called, and what a validation of the core rests on.
\<close>

section \<open>Route-ready snapshots\<close>

text \<open>What a snapshot's own addresses say of one family: every configured prefix of the family is among
  them, and there is one; or, for OpenConnect, some usable address of it is.\<close>

definition snapshot_prefixes :: "observed_state \<Rightarrow> netprefix list" where
  "snapshot_prefixes s = List.map_filter ParsePrefix (ob_Addresses s)"

definition family_carried :: "role_config \<Rightarrow> observed_state \<Rightarrow> bool \<Rightarrow> bool" where
  "family_carried c s v4 \<longleftrightarrow>
     (if cf_Protocol c = ''openconnect''
      then \<exists>p \<in> set (snapshot_prefixes s). addr_Is4 (prefix_Addr p) = v4 \<and> usable_addr (prefix_Addr p)
      else (\<exists>a \<in> set (cf_Address c). \<exists>p. ParsePrefix a = Some p \<and> addr_Is4 (prefix_Addr p) = v4) \<and>
           (\<forall>a \<in> set (cf_Address c). \<forall>p. ParsePrefix a = Some p \<and> addr_Is4 (prefix_Addr p) = v4 \<longrightarrow>
              p \<in> set (snapshot_prefixes s)))"

definition shown_ready :: "observed_state \<Rightarrow> bool \<Rightarrow> bool" where
  "shown_ready s v4 = fr_Ready (if v4 then rf_IPv4 (ob_Families s) else rf_IPv6 (ob_Families s))"

text \<open>A route-ready snapshot has an interface and a ready family; a family it shows as ready is carried
  by its addresses, and for a protocol with configured addresses exactly the carried ones are.\<close>

definition backed :: "'k toad_services \<Rightarrow> observed_state \<Rightarrow> bool" where
  "backed sv s \<longleftrightarrow> (ob_RouteReady s \<longrightarrow>
     0 < ob_IfIndex s \<and> ob_InterfaceName s \<noteq> [] \<and> 0 < ob_MTU s \<and> (shown_ready s True \<or> shown_ready s False) \<and>
     (\<exists>c. tv_cfg sv = Some c \<and>
        (\<forall>v4. (shown_ready s v4 \<longrightarrow> family_carried c s v4) \<and>
              (cf_Protocol c \<noteq> ''openconnect'' \<and> family_carried c s v4 \<longrightarrow> shown_ready s v4))))"

lemma map_filter_member: "y \<in> set (List.map_filter f xs) \<longleftrightarrow> (\<exists>x \<in> set xs. f x = Some y)"
  by (induction xs) (auto simp: map_filter_simps split: option.splits)

lemma configured_carried:
  assumes "cf_Protocol c \<noteq> ''openconnect''" and "ob_Addresses s = if_Addresses i"
  shows "family_carried c s v4 \<longleftrightarrow> configured_prefixes c v4 \<noteq> [] \<and> set (configured_prefixes c v4) \<subseteq> set (observed_prefixes i)"
proof -
  have obs: "snapshot_prefixes s = observed_prefixes i" by (simp add: snapshot_prefixes_def observed_prefixes_def assms(2))
  have mem: "p \<in> set (configured_prefixes c v4) \<longleftrightarrow> (\<exists>a \<in> set (cf_Address c). ParsePrefix a = Some p) \<and> addr_Is4 (prefix_Addr p) = v4" for p
    by (auto simp: configured_prefixes_def map_filter_member)
  have "configured_prefixes c v4 \<noteq> [] \<longleftrightarrow> (\<exists>p. p \<in> set (configured_prefixes c v4))" by (cases "configured_prefixes c v4") auto
  with assms(1) show ?thesis unfolding family_carried_def obs subset_iff mem by auto
qed

lemma carried_families:
  assumes "ob_Families s = interfaceFamilyReadiness (Some c) i e" and "ob_Addresses s = if_Addresses i"
  shows "(shown_ready s v4 \<longrightarrow> family_carried c s v4) \<and>
    (cf_Protocol c \<noteq> ''openconnect'' \<and> family_carried c s v4 \<longrightarrow> shown_ready s v4)"
proof (cases "cf_Protocol c = ''openconnect''")
  case True
  have obs: "snapshot_prefixes s = observed_prefixes i" by (simp add: snapshot_prefixes_def observed_prefixes_def assms(2))
  have "shown_ready s v4 \<longrightarrow> observedFamily (observed_prefixes i) (if v4 then 4 else 6)"
    using True by (auto simp: shown_ready_def assms(1) interfaceFamilyReadiness_def family_state_def no_expectation_def Let_def
        split: option.splits)
  moreover have "observedFamily (observed_prefixes i) (if v4 then 4 else 6) \<longleftrightarrow> family_carried c s v4"
    using True by (auto simp: observedFamily_def family_carried_def obs)
  ultimately show ?thesis using True by simp
next
  case False
  then have "shown_ready s v4 \<longleftrightarrow> family_carried c s v4"
    unfolding configured_carried [OF False assms(2)]
    by (auto simp: shown_ready_def assms(1) interfaceFamilyReadiness_def configured_family_def family_state_def Let_def)
  then show ?thesis by simp
qed

lemma fromHealth_backed:
  assumes "tv_cfg sv = Some c"
  shows "backed sv (fromHealth c i h g (fst (currentFamiliesLocked sv i k)) now)"
  unfolding backed_def
proof
  let ?f = "fst (currentFamiliesLocked sv i k)"
  let ?s = "fromHealth c i h g ?f now"
  assume "ob_RouteReady ?s"
  then have ready: "interfaceIdentityReady (Some c) i" "families_Ready ?f" by (simp_all add: fromHealth_def)
  moreover from this(2) assms obtain e where "?f = interfaceFamilyReadiness (Some c) i e"
    by (auto simp: currentFamiliesLocked_def no_expectation_def families_Ready_def split: if_splits option.splits prod.splits sum.splits)
  then have families: "ob_Families ?s = interfaceFamilyReadiness (Some c) i e" "ob_Addresses ?s = if_Addresses i"
    by (simp_all add: fromHealth_def)
  from ready(2) have "shown_ready ?s True \<or> shown_ready ?s False"
    by (simp add: shown_ready_def families_Ready_def fromHealth_def)
  with carried_families [OF families] ready(1) assms
  show "0 < ob_IfIndex ?s \<and> ob_InterfaceName ?s \<noteq> [] \<and> 0 < ob_MTU ?s \<and> (shown_ready ?s True \<or> shown_ready ?s False) \<and>
     (\<exists>c. tv_cfg sv = Some c \<and>
        (\<forall>v4. (shown_ready ?s v4 \<longrightarrow> family_carried c ?s v4) \<and>
              (cf_Protocol c \<noteq> ''openconnect'' \<and> family_carried c ?s v4 \<longrightarrow> shown_ready ?s v4)))"
    by (simp add: fromHealth_def interfaceIdentityReady_def)
qed

lemma plausible_backed: "tv_cfg sv = Some c \<Longrightarrow> plausible sv c s \<Longrightarrow> backed sv s"
  by (auto simp: plausible_def intro: fromHealth_backed) (simp add: backed_def)

lemma backed_relabel [simp]: "backed sv (s\<lparr>ob_State := a, ob_Reason := r\<rparr>) = backed sv s"
  by (simp add: backed_def family_carried_def snapshot_prefixes_def shown_ready_def)

lemma begin_session_backed:
  assumes "tv_cfg sv = Some c"
  shows "backed sv (tr_state (tw_runtime (begin_session sv b c g i w)))"
proof -
  obtain f k1 where f: "currentFamiliesLocked sv i (tw_host w) = (f, k1)" by force
  obtain h k2 where h: "be_Health b k1 = (h, k2)" by force
  show ?thesis
    using fromHealth_backed [OF assms, of i h _ "tw_host w"] f by (simp add: begin_session_def Let_def h)
qed

lemma step_backed:
  assumes "toad_step sv env w w'" and "backed sv (tr_state (tw_runtime w))"
  shows "backed sv (tr_state (tw_runtime w'))"
  using assms
proof cases
  case step_tick
  show ?thesis
  proof (cases sv w rule: tick_cases)
    case idle
    with step_tick assms(2) show ?thesis by simp
  next
    case (ran c b nx w2)
    note form = next_state_form [OF ran(4)]
    from form ran(2) have "backed sv nx" by (blast intro: plausible_backed)
    moreover have "tr_state (tw_runtime w2) = tr_state (tw_runtime w)" using same_but_repairD(1) form by blast
    ultimately show ?thesis
      using settle_tick_runtime [of sv nx w2] step_tick assms(2) ran(5) by auto
  qed
next
  case (step_request req)
  show ?thesis
  proof (cases sv req w rule: Handle_cases)
    case (start s)
    then show ?thesis
    proof (cases sv s w rule: start_cases)
      case same
      with start step_request assms(2) show ?thesis by simp
    next
      case (begun b c i w3)
      with start step_request begin_session_backed [OF begun(2)] show ?thesis by simp
    qed
  qed (use step_request assms(2) in \<open>simp_all add: quiesce_state stop_state\<close>)
qed (use assms in simp)

text \<open>C9: in every run of a Toad, through starts, stops, ticks, repairs and whatever the host does, a
  snapshot that says it is route-ready names an interface with an index, a name and an MTU and shows
  a family as ready. Each family it shows as ready is carried by its own address list: every
  configured prefix of that family is in it, and there is one (for OpenConnect: a usable address
  of that family is). With configured addresses a family so carried is also shown as ready.\<close>

theorem ready_snapshot_backed:
  assumes "(toad_step sv env)\<^sup>*\<^sup>* \<lparr>tw_runtime = New, tw_host = k\<rparr> w"
  shows "backed sv (tr_state (tw_runtime w))"
  using assms
proof (induction rule: rtranclp_induct)
  case base
  show ?case by (simp add: New_def observed_zero_def backed_def)
next
  case (step w1 w2)
  then show ?case by (blast intro: step_backed)
qed

theorem ready_snapshot_backed_witness:
  "ob_RouteReady (tr_state (tw_runtime (lab_started 7))) \<and> backed lab_services (tr_state (tw_runtime (lab_started 7)))"
proof -
  let ?req = "\<lparr>rq_Version = 1, rq_ID = [], rq_Method = ''Start'', rq_Generation = 0,
      rq_Start = Some \<lparr>sr_Generation = 1, sr_Underlay = binding_zero\<rparr>, rq_Binding = None\<rparr>"
  let ?w = "lab_world New (Some (lab_link_at 7 [lab_prefix])) 1000"
  have "toad_step lab_services (\<lambda>_ _. False) ?w (snd (toad_Handle lab_services ?req ?w))" by (rule step_request)
  moreover have "snd (toad_Handle lab_services ?req ?w) = lab_started 7"
    by (simp add: toad_Handle_def Let_def generation_methods_def dispatch_def lab_started_def)
  ultimately have run: "(toad_step lab_services (\<lambda>_ _. False))\<^sup>*\<^sup>* \<lparr>tw_runtime = New, tw_host = tw_host ?w\<rparr> (lab_started 7)"
    by (simp add: lab_world_def)
  have "ob_RouteReady (tr_state (tw_runtime (lab_started 7)))" by code_simp
  then show ?thesis using ready_snapshot_backed [OF run] by (rule conjI)
qed

section \<open>Repairs\<close>

text \<open>A tick calls the repairer when its outcome depends on what the repairer does.\<close>

definition consults_repairer :: "'k toad_services \<Rightarrow> 'k toad_world \<Rightarrow> bool" where
  "consults_repairer sv w \<longleftrightarrow>
     (\<exists>f g. health_tick (sv\<lparr>tv_repairer := Some f\<rparr>) w \<noteq> health_tick (sv\<lparr>tv_repairer := Some g\<rparr>) w)"

text \<open>The time at which a tick looks at the clock, once it has read the interface.\<close>

definition tick_clock :: "'k toad_services \<Rightarrow> 'k toad_world \<Rightarrow> gotime" where
  "tick_clock sv w =
     (case (tv_cfg sv, tv_backend sv) of
        (Some c, Some b) \<Rightarrow> (case tick_reads sv c b w of (_, _, _, _, w3) \<Rightarrow> toad_now sv w3)
      | _ \<Rightarrow> toad_now sv w)"

lemma readings_irrelevant [simp]:
  "read_now (sv\<lparr>tv_repairer := x\<rparr>) = read_now sv" "currentFamiliesLocked (sv\<lparr>tv_repairer := x\<rparr>) i k = currentFamiliesLocked sv i k"
  "publishLocked (sv\<lparr>tv_repairer := x\<rparr>) w = publishLocked sv w" "toad_now (sv\<lparr>tv_repairer := x\<rparr>) w = toad_now sv w"
  by (auto simp: read_now_def currentFamiliesLocked_def publishLocked_def toad_now_def Let_def split: option.splits)

lemma repairer_irrelevant [simp]:
  "tick_reads (sv\<lparr>tv_repairer := x\<rparr>) c b w = tick_reads sv c b w" "settle_tick (sv\<lparr>tv_repairer := x\<rparr>) nx w = settle_tick sv nx w"
  by (simp_all add: tick_reads_def families_now_def settle_tick_def Let_def)

text \<open>The conditions under which a tick reaches the repairer.\<close>

lemma consulted:
  assumes "consults_repairer sv w"
  obtains c b h seen i f w3 report where
    "tr_started (tw_runtime w)" "tv_cfg sv = Some c" "tv_backend sv = Some b" "tick_reads sv c b w = (h, seen, i, f, w3)"
    "\<not> isl seen" "cf_Protocol c \<noteq> ''openconnect''" "\<not> (interfaceIdentityReady (Some c) i \<and> families_Ready f)"
    "0 < if_IfIndex i" "ob_IfIndex (tr_state (tw_runtime w)) \<le> 0 \<or> if_IfIndex i = ob_IfIndex (tr_state (tw_runtime w))"
    "\<not> ob_RouteReady (tr_state (tw_runtime w))" "tr_nextRepair (tw_runtime w) \<le> toad_now sv w3"
    "be_LocalInterfaceExpectation b = Some report"
proof -
  obtain f g where differ: "health_tick (sv\<lparr>tv_repairer := Some f\<rparr>) w \<noteq> health_tick (sv\<lparr>tv_repairer := Some g\<rparr>) w"
    using assms by (auto simp: consults_repairer_def)
  then have started: "tr_started (tw_runtime w)" by (rule contrapos_np) (simp add: health_tick_def)
  from differ have "tv_cfg sv \<noteq> None \<and> tv_backend sv \<noteq> None"
    by (rule contrapos_np) (auto simp: health_tick_def split: option.splits)
  then obtain c b where sv: "tv_cfg sv = Some c" "tv_backend sv = Some b" by auto
  obtain h seen i fam w3 where reads: "tick_reads sv c b w = (h, seen, i, fam, w3)" by (metis prod_cases5)
  note alt = next_state_alt [of "sv\<lparr>tv_repairer := Some f\<rparr>" for f, OF repairer_irrelevant(1) [THEN trans, OF reads]]
  have keeps: "tw_runtime w3 = tw_runtime w" by (rule tick_reads_keeps(1) [OF reads])
  have differ: "next_state (sv\<lparr>tv_repairer := Some f\<rparr>) c b w \<noteq> next_state (sv\<lparr>tv_repairer := Some g\<rparr>) c b w"
  proof
    have tick: "health_tick (sv\<lparr>tv_repairer := Some q\<rparr>) w =
        (case next_state (sv\<lparr>tv_repairer := Some q\<rparr>) c b w of (nx, w') \<Rightarrow> settle_tick sv nx w')" for q
      using sv started by (simp add: health_tick_def split: prod.splits)
    assume "next_state (sv\<lparr>tv_repairer := Some f\<rparr>) c b w = next_state (sv\<lparr>tv_repairer := Some g\<rparr>) c b w"
    with differ tick show False by simp
  qed
  have "\<not> isl seen" "cf_Protocol c \<noteq> ''openconnect''" "\<not> (interfaceIdentityReady (Some c) i \<and> families_Ready fam)"
    "0 < if_IfIndex i" "ob_IfIndex (tr_state (tw_runtime w)) \<le> 0 \<or> if_IfIndex i = ob_IfIndex (tr_state (tw_runtime w))"
    using differ unfolding alt Let_def by (auto split: if_splits)
  moreover from this differ have "handle_drift (sv\<lparr>tv_repairer := Some f\<rparr>) c h (ob_IfIndex (tr_state (tw_runtime w))) f
      (fromHealth c i h (tr_generation (tw_runtime w)) fam (toad_now sv w3)) w3 \<noteq>
    handle_drift (sv\<lparr>tv_repairer := Some g\<rparr>) c h (ob_IfIndex (tr_state (tw_runtime w))) g
      (fromHealth c i h (tr_generation (tw_runtime w)) fam (toad_now sv w3)) w3"
    unfolding alt Let_def by (auto split: if_splits)
  then have "\<not> ob_RouteReady (tr_state (tw_runtime w)) \<and> tr_nextRepair (tw_runtime w) \<le> toad_now sv w3 \<and>
      be_LocalInterfaceExpectation b \<noteq> None"
    using sv keeps by (auto simp: handle_drift_def Let_def split: if_splits option.splits)
  ultimately show ?thesis using that started sv reads by blast
qed

text \<open>C10: the repairer is called only for a started Toad whose protocol is not OpenConnect, and only
  after a snapshot that is not route-ready has been published: the tick that first sees the drift
  publishes and leaves the interface alone. A repair never touches an interface whose index differs
  from the published one, unless none is published. The exception is real: a reading that fails
  publishes no index, and the next link that is found under the name is repaired whatever its
  index, as the last lemma of Toad_Core_Properties shows.\<close>

theorem repair_only_after_closing:
  assumes "consults_repairer sv w"
  shows "\<exists>c b h seen i f w3. tv_cfg sv = Some c \<and> tv_backend sv = Some b \<and> tick_reads sv c b w = (h, seen, i, f, w3) \<and>
     tr_started (tw_runtime w) \<and> \<not> ob_RouteReady (tr_state (tw_runtime w)) \<and> cf_Protocol c \<noteq> ''openconnect'' \<and> \<not> isl seen \<and>
     (ob_IfIndex (tr_state (tw_runtime w)) \<le> 0 \<or> if_IfIndex i = ob_IfIndex (tr_state (tw_runtime w)))"
  using assms by (rule consulted) blast

lemma lab_consults: "consults_repairer lab_services lab_drifted"
proof -
  let ?f = "\<lambda>name e. throwT (Errorf ''refused'')" and ?g = "RepairInterface lab_netlink"
  have "health_tick (lab_services\<lparr>tv_repairer := Some ?f\<rparr>) lab_drifted \<noteq> health_tick (lab_services\<lparr>tv_repairer := Some ?g\<rparr>) lab_drifted"
    by code_simp
  then show ?thesis unfolding consults_repairer_def by blast
qed

theorem repair_only_after_closing_witness:
  "\<not> ob_RouteReady (tr_state (tw_runtime lab_drifted)) \<and> ob_IfIndex (tr_state (tw_runtime lab_drifted)) = 7 \<and>
   (\<exists>h seen i f w3. tick_reads lab_services lab_config lab_backend lab_drifted = (h, seen, i, f, w3) \<and> if_IfIndex i = 7)"
proof -
  have "ob_IfIndex (tr_state (tw_runtime lab_drifted)) = 7" by code_simp
  with repair_only_after_closing [OF lab_consults] show ?thesis by (auto simp: lab_services_def)
qed

text \<open>A tick from a closed state that ends in one.\<close>

definition closed :: "'k toad_world \<Rightarrow> bool" where
  "closed w \<longleftrightarrow> \<not> ob_RouteReady (tr_state (tw_runtime w))"

definition sane_reader :: "'k toad_services \<Rightarrow> bool" where
  "sane_reader sv \<longleftrightarrow> (\<forall>k i k'. read_now sv k = (Inr i, k') \<longrightarrow> interfaceIdentityReady (tv_cfg sv) i)"

lemma settle_tick_ready: "ob_RouteReady (tr_state (tw_runtime (settle_tick sv nx w))) = ob_RouteReady nx"
  by (auto simp: settle_tick_def Let_def)

lemma settle_tick_repair: "tr_nextRepair (tw_runtime (settle_tick sv nx w)) = tr_nextRepair (tw_runtime w)"
  by (auto simp: settle_tick_def Let_def)

lemma attempt_stays_closed:
  assumes sane: "sane_reader sv" and cfg: "tv_cfg sv = Some c"
    and run: "attempt_repair sv c h known repair report nx w = (nx', w')" and closed: "\<not> ob_RouteReady nx'"
  shows "tr_nextRepair (tw_runtime w') = toad_now sv w + repair_gap (tw_runtime w)"
  using attempt_repair_form(3) [OF run]
proof
  assume "\<exists>i. nx' = fromHealth c i h (tr_generation (tw_runtime w)) (ob_Families nx') (ob_UpdatedAt nx') \<and>
            families_Ready (ob_Families nx') \<and> (\<exists>k k'. read_now sv k = (Inr i, k'))"
  then obtain i where i: "nx' = fromHealth c i h (tr_generation (tw_runtime w)) (ob_Families nx') (ob_UpdatedAt nx')"
    "families_Ready (ob_Families nx')" "interfaceIdentityReady (Some c) i"
    using sane cfg by (auto simp: sane_reader_def)
  from arg_cong [OF i(1), of ob_RouteReady] i(2,3) have "ob_RouteReady nx'" by (simp add: fromHealth_def)
  with closed show ?thesis by simp
qed simp

lemma closed_tick:
  assumes sane: "sane_reader sv" and start: "closed w" and stop: "closed (health_tick sv w)"
    and ran: "tr_started (tw_runtime w)" "tv_cfg sv = Some c" "tv_backend sv = Some b" "tick_reads sv c b w = (h, seen, i, f, w3)"
  shows "tr_nextRepair (tw_runtime (health_tick sv w)) = tr_nextRepair (tw_runtime w) \<or>
      tr_nextRepair (tw_runtime (health_tick sv w)) = toad_now sv w3 + repair_gap (tw_runtime w) \<and>
        tr_nextRepair (tw_runtime w) \<le> toad_now sv w3" (is ?kept)
    and "consults_repairer sv w \<Longrightarrow> tv_repairer sv \<noteq> None \<Longrightarrow>
      tr_nextRepair (tw_runtime (health_tick sv w)) = toad_now sv w3 + repair_gap (tw_runtime w)"
proof -
  let ?known = "ob_IfIndex (tr_state (tw_runtime w))"
  let ?nx = "fromHealth c i h (tr_generation (tw_runtime w)) f (toad_now sv w3)"
  have keeps: "tw_runtime w3 = tw_runtime w" by (rule tick_reads_keeps(1) [OF ran(4)])
  obtain nx w' where nx: "next_state sv c b w = (nx, w')" by force
  have tick: "health_tick sv w = settle_tick sv nx w'" using ran nx by (simp add: health_tick_def)
  have closed: "\<not> ob_RouteReady nx" using stop by (simp add: tick closed_def settle_tick_ready)
  have attempted: "tr_nextRepair (tw_runtime w') = toad_now sv w3 + repair_gap (tw_runtime w)"
    if "attempt_repair sv c h ?known repair report n w3 = (nx, w')" for repair report n
    using attempt_stays_closed [OF sane ran(2) that closed] keeps by simp
  have drift: "tr_nextRepair (tw_runtime w') = tr_nextRepair (tw_runtime w) \<or>
      tr_nextRepair (tw_runtime w') = toad_now sv w3 + repair_gap (tw_runtime w) \<and> tr_nextRepair (tw_runtime w) \<le> toad_now sv w3"
    if "handle_drift sv c h ?known repair ?nx w3 = (nx, w')" for repair
    using that start keeps attempted
    by (auto simp: handle_drift_def closed_def Let_def split: if_splits option.splits)
  show ?kept
    using nx drift keeps unfolding next_state_alt [OF ran(4)]
    by (auto simp: tick settle_tick_repair Let_def split: if_splits option.splits)
  show "tr_nextRepair (tw_runtime (health_tick sv w)) = toad_now sv w3 + repair_gap (tw_runtime w)"
    if "consults_repairer sv w" "tv_repairer sv \<noteq> None"
    using that(1)
  proof (rule consulted)
    fix c' b' h' seen' i' f' w3' report
    assume at: "tv_cfg sv = Some c'" "tv_backend sv = Some b'" "tick_reads sv c' b' w = (h', seen', i', f', w3')"
      "\<not> isl seen'" "cf_Protocol c' \<noteq> ''openconnect''" "\<not> (interfaceIdentityReady (Some c') i' \<and> families_Ready f')"
      "0 < if_IfIndex i'" "?known \<le> 0 \<or> if_IfIndex i' = ?known" "tr_nextRepair (tw_runtime w) \<le> toad_now sv w3'"
      "be_LocalInterfaceExpectation b' = Some report"
    then have same: "c' = c" "b' = b" "seen' = seen" "i' = i" "f' = f" "w3' = w3" using ran by simp_all
    from that(2) obtain repair where repair: "tv_repairer sv = Some repair" by auto
    have "next_state sv c b w = handle_drift sv c h ?known repair ?nx w3"
      using at(4-8) unfolding next_state_alt [OF ran(4)] same by (auto simp: repair Let_def)
    also have "\<dots> = attempt_repair sv c h ?known repair report (degraded ''managed interface drift detected'' ?nx) w3"
      using at(2,9,10) start keeps unfolding same by (simp add: handle_drift_def closed_def Let_def)
    finally show ?thesis using nx attempted by (simp add: tick settle_tick_repair)
  qed
qed

text \<open>Between two states of a run in which no snapshot was route-ready.\<close>

definition closed_step :: "'k toad_services \<Rightarrow> ('k \<Rightarrow> 'k \<Rightarrow> bool) \<Rightarrow> 'k toad_world \<Rightarrow> 'k toad_world \<Rightarrow> bool" where
  "closed_step sv env w w' \<longleftrightarrow> toad_step sv env w w' \<and> closed w \<and> closed w'"

lemma request_repair:
  "tr_nextRepair (tw_runtime (snd (toad_Handle sv req w))) = tr_nextRepair (tw_runtime w) \<and>
   tr_repairInterval (tw_runtime (snd (toad_Handle sv req w))) = tr_repairInterval (tw_runtime w)"
proof (cases sv req w rule: Handle_cases)
  case (start s)
  then show ?thesis
  proof (cases sv s w rule: start_cases)
    case (begun b c i w3)
    then show ?thesis using start by (simp add: begin_session_def Let_def split: prod.splits)
  qed simp
qed (simp_all add: quiesce_state stop_state)

lemma tick_interval: "tr_repairInterval (tw_runtime (health_tick sv w)) = tr_repairInterval (tw_runtime w)"
proof (cases sv w rule: tick_cases)
  case (ran c b nx w')
  have "tr_repairInterval (tw_runtime w') = tr_repairInterval (tw_runtime w)"
    using next_state_form [OF ran(4)] same_but_repairD(6) by blast
  with ran(5) settle_tick_runtime [of sv nx w'] show ?thesis by auto
qed simp

lemma closed_step_bound:
  assumes sane: "sane_reader sv" and step: "closed_step sv env w w'" and bound: "T \<le> tr_nextRepair (tw_runtime w)"
  shows "T \<le> tr_nextRepair (tw_runtime w') \<and> tr_repairInterval (tw_runtime w') = tr_repairInterval (tw_runtime w)"
proof -
  from step have "toad_step sv env w w'" and closed: "closed w" "closed w'" by (auto simp: closed_step_def)
  then show ?thesis
  proof cases
    case step_tick
    show ?thesis
    proof (cases sv w rule: tick_cases)
      case (ran c b nx w2)
      obtain h seen i f w3 where reads: "tick_reads sv c b w = (h, seen, i, f, w3)" by (metis prod_cases5)
      have positive: "0 < repair_gap (tw_runtime w)" by (simp add: repair_gap_def Millisecond_def)
      from closed_tick(1) [OF sane closed(1) _ ran(1,2,3) reads] closed step_tick bound positive tick_interval [of sv w]
      show ?thesis by auto
    qed (use step_tick bound in simp)
  qed (use bound request_repair [of sv _ w] in auto)
qed

text \<open>C11: while the interface stays unusable, two repairs are at least the repair interval apart,
  whatever ticks, requests and events lie between them: an attempt that fails, or succeeds without
  restoring a family, is not repeated before the interval is over. A reading that succeeds gives an
  interface with an index, a name and an MTU.\<close>

theorem repairs_rate_limited:
  assumes sane: "sane_reader sv" and repairer: "tv_repairer sv \<noteq> None"
    and first: "consults_repairer sv w1" and run: "(closed_step sv env)\<^sup>*\<^sup>* (health_tick sv w1) w2"
    and stays: "closed (health_tick sv w1)" and second: "consults_repairer sv w2"
  shows "tick_clock sv w1 + repair_gap (tw_runtime w1) \<le> tick_clock sv w2"
proof -
  from first obtain c b h seen i f w3 where at1: "tr_started (tw_runtime w1)" "tv_cfg sv = Some c" "tv_backend sv = Some b"
    "tick_reads sv c b w1 = (h, seen, i, f, w3)" "\<not> ob_RouteReady (tr_state (tw_runtime w1))" by (rule consulted)
  then have clock1: "tick_clock sv w1 = toad_now sv w3" by (simp add: tick_clock_def)
  have "closed w1" using at1(5) by (simp add: closed_def)
  from closed_tick(2) [OF sane this stays at1(1-4) first repairer]
  have "tick_clock sv w1 + repair_gap (tw_runtime w1) \<le> tr_nextRepair (tw_runtime (health_tick sv w1))" by (simp add: clock1)
  from run this have "tick_clock sv w1 + repair_gap (tw_runtime w1) \<le> tr_nextRepair (tw_runtime w2)"
    by (induction rule: rtranclp_induct) (use closed_step_bound [OF sane] in blast)+
  moreover from second have "tr_nextRepair (tw_runtime w2) \<le> tick_clock sv w2"
    by (rule consulted) (simp add: tick_clock_def)
  ultimately show ?thesis by simp
qed

lemma stuck_sane: "sane_reader stuck_services"
  by (auto simp: sane_reader_def stuck_services_def lab_services_def read_now_def on_toad_def readManagedInterface_def
      lab_netlink_def lab_InterfaceByName_def bindT_apply mapErrT_def on_link_def lab_attrs_def interfaceIdentityReady_def
      split: prod.splits option.splits sum.splits if_splits)

text \<open>A repairer that fails: it is tried at 0.3 s and again at 1.4 s.\<close>

theorem repairs_rate_limited_witness:
  "tick_clock stuck_services lab_drifted + 1000000000 \<le>
     tick_clock stuck_services (lab_at (Some (lab_link_at 7 [])) 1400000000 (health_tick stuck_services lab_drifted))"
proof -
  let ?w1 = "health_tick stuck_services lab_drifted"
  let ?w2 = "lab_at (Some (lab_link_at 7 [])) 1400000000 ?w1"
  have consults: "consults_repairer stuck_services w"
    if "health_tick (stuck_services\<lparr>tv_repairer := Some (\<lambda>name e. throwT (Errorf ''refused''))\<rparr>) w \<noteq>
        health_tick (stuck_services\<lparr>tv_repairer := Some (RepairInterface lab_netlink)\<rparr>) w" for w
    using that unfolding consults_repairer_def by blast
  have 1: "consults_repairer stuck_services lab_drifted" by (rule consults) code_simp
  have 2: "consults_repairer stuck_services ?w2" by (rule consults) code_simp
  have closed: "closed ?w1" "closed ?w2" by code_simp+
  have "toad_step stuck_services (\<lambda>_ _. True) ?w1 ?w2" unfolding lab_at_def by (rule step_host) simp
  with closed have run: "(closed_step stuck_services (\<lambda>_ _. True))\<^sup>*\<^sup>* ?w1 ?w2" by (simp add: closed_step_def r_into_rtranclp)
  have "repair_gap (tw_runtime lab_drifted) = 1000000000" by code_simp
  with repairs_rate_limited [OF stuck_sane _ 1 run closed(1) 2] show ?thesis by (simp add: stuck_services_def)
qed

end
