(* ===== verification/Toad_Core_Properties.thy ===== *)
theory Toad_Core_Properties
  imports Runtime_Properties Toad_Runtime Sample_Manager
begin

text \<open>
  The Toad runtime under the core: a validation of the recovery driver answered by a Toad, the
  runs of the runtime on a host with one link, and an identity that is forgotten.
\<close>

section \<open>Validation through the control socket\<close>

text \<open>The socket of a Toad that lives in the host: \<open>look\<close> and \<open>store\<close> reach its state.\<close>

definition toad_socket ::
  "'t toad_services \<Rightarrow> ('k \<Rightarrow> 't toad_world) \<Rightarrow> ('t toad_world \<Rightarrow> 'k \<Rightarrow> 'k) \<Rightarrow> string \<Rightarrow> toad_request \<Rightarrow> ('k, toad_response) tx" where
  "toad_socket tsv look store socket req k = (case toad_Handle tsv req (look k) of (res, t) \<Rightarrow> (Inr res, store t k))"

text \<open>The interface the Toad would read now is one it can route by.\<close>

definition interface_usable :: "'t toad_services \<Rightarrow> 't toad_world \<Rightarrow> bool" where
  "interface_usable tsv t \<longleftrightarrow>
     (\<exists>read i k e. tv_readInterface tsv = Some read \<and> read (tw_host t) = (Inr i, k) \<and> interfaceIdentityReady (tv_cfg tsv) i \<and>
        families_Ready (interfaceFamilyReadiness (tv_cfg tsv) i e) \<and>
        (0 < ob_IfIndex (tr_state (tw_runtime t)) \<longrightarrow> if_IfIndex i = ob_IfIndex (tr_state (tw_runtime t))))"

lemma validate_backend_healthy:
  assumes "validate_backend sv families w = (v, w')" "vr_Healthy v"
  shows "families_Ready families"
  using assms by (auto simp: validate_backend_def Let_def split: option.splits prod.splits if_splits)

lemma current_families_form:
  assumes "currentFamiliesLocked sv i k = (f, k')" "families_Ready f"
  shows "\<exists>e. families_Ready (interfaceFamilyReadiness (tv_cfg sv) i e)"
  using assms by (auto simp: currentFamiliesLocked_def no_expectation_def families_Ready_def
      split: option.splits if_splits prod.splits sum.splits)

lemma toad_Validate_healthy:
  assumes "toad_Validate sv t = (v, t')" "vr_Healthy v"
  shows "tr_started (tw_runtime t)" "interface_usable sv t"
proof -
  have off: "\<not> vr_Healthy (unhealthy s r)" for s r by (simp add: unhealthy_def)
  show started: "tr_started (tw_runtime t)"
  proof (rule ccontr)
    assume "\<not> tr_started (tw_runtime t)"
    with assms show False by (auto simp: toad_Validate_def unhealthy_def)
  qed
  from assms off started obtain read where read: "tv_readInterface sv = Some read"
    by (cases "tv_readInterface sv") (auto simp: toad_Validate_def Let_def)
  obtain r k where rk: "read (tw_host t) = (r, k)" by force
  let ?t = "t\<lparr>tw_host := k\<rparr>"
  have on: "on_toad read t = (r, ?t)" using rk by (simp add: on_toad_def)
  from assms off started read on obtain i where i: "r = Inr i"
    by (cases r) (auto simp: toad_Validate_def Let_def)
  obtain f k' where f: "currentFamiliesLocked sv i k = (f, k')" by force
  from assms off started read on i f have checks: "interfaceIdentityReady (tv_cfg sv) i"
    "0 < ob_IfIndex (tr_state (tw_runtime t)) \<longrightarrow> if_IfIndex i = ob_IfIndex (tr_state (tw_runtime t))"
    "validate_backend sv f (?t\<lparr>tw_host := k'\<rparr>) = (v, t')"
    by (auto simp: toad_Validate_def Let_def split: if_splits)
  from current_families_form [OF f validate_backend_healthy [OF checks(3) assms(2)]] checks read rk i
  show "interface_usable sv t" by (auto simp: interface_usable_def)
qed

lemma Handle_validate:
  assumes "toad_Handle sv req t = (res, t')" "rq_Method req = ''Validate''" "rsp_OK res" "rq_Generation req \<noteq> 0"
  obtains v t1 where "toad_Validate sv t = (v, t1)" "rsp_Validation res = Some v" "tr_generation (tw_runtime t) = rq_Generation req"
proof -
  obtain v t1 where v: "toad_Validate sv t = (v, t1)" by force
  have "rsp_OK res \<Longrightarrow> requireGeneration (tw_runtime t) (rq_Generation req) = None"
    using assms(1,2) by (auto simp: toad_Handle_def Let_def generation_methods_def toad_fail_def split: option.splits)
  with assms v that show ?thesis
    by (auto simp: toad_Handle_def Let_def generation_methods_def requireGeneration_def dispatch_def reply_def split: if_splits)
qed

text \<open>C12: when the core's validation of a role succeeds and the answer came from a Toad, the Toad is
  started, runs the generation the core holds for the role, and the interface it read has an
  identity, the published index, and a usable family.\<close>

theorem validated_role_has_interface:
  assumes call: "rv_Call sv = toad_socket tsv look store" and run: "ValidateRole sv name w = (Inr (), w')"
  shows "\<exists>product. controller_Role (ew_Controller w) name = Some product \<and>
     tr_generation (tw_runtime (look (host w))) = rr_ToadGeneration product \<and>
     tr_started (tw_runtime (look (host w))) \<and> interface_usable tsv (look (host w))"
proof -
  let ?t = "look (host w)"
  from run obtain token c where begin_: "BeginValidation name (ew_Controller w) = (Some token, c)"
    by (auto simp: ValidateRole_def split: prod.splits option.splits)
  then obtain product where product: "controller_Role (ew_Controller w) name = Some product"
    and gen: "vt_ToadGeneration token = rr_ToadGeneration product" "rr_ToadGeneration product \<noteq> 0"
    by (auto simp: BeginValidation_def controller_Role_def split: option.splits if_splits)
  let ?w = "w\<lparr>ew_Controller := c\<rparr>"
  let ?req = "\<lparr>rq_Version = ProtocolVersion, rq_ID = [], rq_Method = ''Validate'', rq_Generation = vt_ToadGeneration token,
      rq_Start = None, rq_Binding = None\<rparr>"
  obtain res t' where handled: "toad_Handle tsv ?req ?t = (res, t')" by force
  have failing: "fst (fail_validation n p tok e u) = Inr () \<Longrightarrow> False" for n p tok e u by (simp add: fail_validation_def)
  obtain p w1 where settled: "read_validation name p token res w1 = (Inr (), w')"
  proof -
    from run begin_ failing obtain r where r: "map_of (dv_Roles (ew_Driver w)) name = Some r"
      "mr_process r \<noteq> None" "mr_controlSocket r \<noteq> []"
      by (auto simp: ValidateRole_def Let_def fail_validation_def split: option.splits if_splits)
    have "\<exists>u. on_host (rv_Call sv (mr_controlSocket r) ?req) ?w = (Inr res, u)"
      using handled by (simp add: call toad_socket_def on_host_def on_selected_def on_kernel_def host_def)
    then obtain u where "tryT (on_host (rv_Call sv (mr_controlSocket r) ?req)) ?w = (Inr (Inr res), u)"
      by (auto simp: tryT_def)
    with run begin_ r show ?thesis by (intro that) (auto simp: ValidateRole_def Let_def bindT_apply)
  qed
  then have ok: "rsp_OK res" by (auto simp: read_validation_def fail_validation_def split: if_splits)
  from Handle_validate [OF handled _ this] gen obtain v t1 where v: "toad_Validate tsv ?t = (v, t1)" "rsp_Validation res = Some v"
    "tr_generation (tw_runtime ?t) = rr_ToadGeneration product" by auto
  from settled ok v(2) obtain w2 where "settle_validation name p token v w2 = (Inr (), w')"
    by (auto simp: read_validation_def bindT_apply requireT_apply split: prod.splits sum.splits if_splits)
  then have "vr_Healthy v" by (auto simp: settle_validation_def split: if_splits prod.splits bool.splits)
  with toad_Validate_healthy [OF v(1)] product v(3) show ?thesis by blast
qed

definition toad_env :: "lab_host toad_world manager_env" where
  "toad_env = \<lparr>se_Routes = None, se_RoleRuntime = (\<lambda>_. None), se_ZoneRoles = [], se_StateDir = (\<lambda>_. None), se_Capacity = 1,
     se_Managed = [], se_AuthorityError = [], se_WriteCheckpoint = (\<lambda>_ _. returnT ()), se_Windows = False, se_Failpoint = None\<rparr>"

text \<open>The core whose only role is the Toad of the link host.\<close>

definition socket_services :: "lab_host toad_world recovery_services" where
  "socket_services = (quiet_services toad_env)\<lparr>rv_Call := toad_socket lab_services (\<lambda>t. t) (\<lambda>t _. t)\<rparr>"

theorem validated_role_has_interface_witness:
  "fst (ValidateRole socket_services ''home'' (home_world (NewSelectedRouteManager (lab_started 7)))) = Inr () \<and>
   interface_usable lab_services (lab_started 7) \<and> tr_generation (tw_runtime (lab_started 7)) = 1"
proof -
  let ?w = "home_world (NewSelectedRouteManager (lab_started 7))"
  have ok: "fst (ValidateRole socket_services ''home'' ?w) = Inr ()" by code_simp
  then obtain w' where run: "ValidateRole socket_services ''home'' ?w = (Inr (), w')" by (metis prod.collapse)
  have "rv_Call socket_services = toad_socket lab_services (\<lambda>t. t) (\<lambda>t _. t)" by (simp add: socket_services_def)
  from validated_role_has_interface [OF this run] ok show ?thesis
    by (auto simp: host_def home_world_def NewRecoveryDriver_def NewSelectedRouteManager_def controller_Role_def NewController_def
        home_runtime_def role_zero_def)
qed

section \<open>An identity that is forgotten\<close>

text \<open>One reading that fails makes the runtime publish index 0, and index 0 is what it takes for
  the known identity afterwards. The next tick that reads an interface of the same name without a
  usable family repairs it, whatever its index: the expectation carries index 0, which the Linux
  repairer accepts for any link.\<close>

lemma failed_reading_forgets_identity:
  assumes sv: "tv_cfg sv = Some c" "tv_backend sv = Some b" "be_LocalInterfaceExpectation b = Some report"
      "tv_repairer sv = Some (RepairInterface nl)" "cf_Protocol c \<noteq> ''openconnect''"
    and started: "tr_started (tw_runtime w)" and fails: "tick_reads sv c b w = (h, Inl e, i, f, w3)"
    and later: "tw_runtime w' = tw_runtime (health_tick sv w)"
    and reads: "tick_reads sv c b w' = (h', Inr j', j, f', w3')" "0 < if_IfIndex j" "\<not> families_Ready f'"
      "tr_nextRepair (tw_runtime w) \<le> toad_now sv w3'"
  shows "ob_IfIndex (tr_state (tw_runtime w')) = 0 \<and>
    next_state sv c b w' = attempt_repair sv c h' 0 (RepairInterface nl) report
       (degraded ''managed interface drift detected'' (fromHealth c j h' (tr_generation (tw_runtime w')) f' (toad_now sv w3'))) w3' \<and>
    verifyRepairIdentity (cf_Interface c) (if_IfIndex j) (x\<lparr>ex_IfIndex := 0\<rparr>) = None"
proof -
  let ?nx = "degraded ''managed interface is unavailable'' (fromHealth c i h (tr_generation (tw_runtime w)) f (toad_now sv w3))"
  have keeps: "tw_runtime w3 = tw_runtime w" "if_IfIndex i = 0" using tick_reads_keeps(1,4) [OF fails] by simp_all
  have "next_state sv c b w = (?nx, w3)" by (simp add: next_state_alt [OF fails] Let_def)
  then have tick: "health_tick sv w = settle_tick sv ?nx w3" using sv started by (simp add: health_tick_def)
  have nx: "ob_IfIndex ?nx = 0" "\<not> ob_RouteReady ?nx" using keeps(2) by (simp_all add: degraded_def fromHealth_def)
  have "ob_IfIndex (tr_state (tw_runtime (settle_tick sv ?nx w3))) = 0"
    using nx(1) by (auto simp: settle_tick_def Let_def sameInterface_def)
  then have zero: "ob_IfIndex (tr_state (tw_runtime w')) = 0" using later tick by simp
  have closed: "\<not> ob_RouteReady (tr_state (tw_runtime w'))" using later tick nx(2) by (simp add: settle_tick_ready)
  have next_repair: "tr_nextRepair (tw_runtime w') = tr_nextRepair (tw_runtime w)"
    using later tick keeps(1) by (simp add: settle_tick_repair)
  have w3': "tw_runtime w3' = tw_runtime w'" by (rule tick_reads_keeps(1) [OF reads(1)])
  have "next_state sv c b w' = handle_drift sv c h' 0 (RepairInterface nl)
       (fromHealth c j h' (tr_generation (tw_runtime w')) f' (toad_now sv w3')) w3'"
    using sv reads(2,3) zero by (simp add: next_state_alt [OF reads(1)] Let_def)
  also have "\<dots> = attempt_repair sv c h' 0 (RepairInterface nl) report
       (degraded ''managed interface drift detected'' (fromHealth c j h' (tr_generation (tw_runtime w')) f' (toad_now sv w3'))) w3'"
    using sv closed next_repair reads(4) w3' by (simp add: handle_drift_def Let_def)
  finally show ?thesis using zero by (simp add: verifyRepairIdentity_def)
qed

text \<open>The Toad starts on link 7; the reading fails once; link 8 appears under the same name with no
  address and is given the Toad's address.\<close>

lemma failed_reading_forgets_identity_witness:
  "let lost = health_tick lab_services (lab_at None 2000 (lab_started 7));
       replaced = lab_at (Some (lab_link_at 8 [])) 3000 lost
   in ob_IfIndex (tr_state (tw_runtime (lab_started 7))) = 7 \<and> ob_IfIndex (tr_state (tw_runtime replaced)) = 0 \<and>
      lh_Link (tw_host (health_tick lab_services replaced)) = Some (lab_link_at 8 [lab_prefix])"
proof -
  let ?w = "lab_at None 2000 (lab_started 7)"
  let ?lost = "health_tick lab_services ?w"
  let ?replaced = "lab_at (Some (lab_link_at 8 [])) 3000 ?lost"
  obtain h seen i f w3 where fails: "tick_reads lab_services lab_config lab_backend ?w = (h, seen, i, f, w3)" by (metis prod_cases5)
  have "isl (fst (snd (tick_reads lab_services lab_config lab_backend ?w)))" by code_simp
  with fails obtain e where e: "seen = Inl e" by (auto simp: isl_def)
  obtain h' seen' j f' w3' where reads: "tick_reads lab_services lab_config lab_backend ?replaced = (h', seen', j, f', w3')"
    by (metis prod_cases5)
  have "(case tick_reads lab_services lab_config lab_backend ?replaced of
      (_, seen', j, f', w3') \<Rightarrow> \<not> isl seen' \<and> 0 < if_IfIndex j \<and> \<not> families_Ready f' \<and> 0 \<le> toad_now lab_services w3')"
    by code_simp
  with reads have at: "\<not> isl seen'" "0 < if_IfIndex j" "\<not> families_Ready f'" "0 \<le> toad_now lab_services w3'" by simp_all
  then obtain j' where j': "seen' = Inr j'" by (cases seen') auto
  have start: "tr_started (tw_runtime ?w)" "tr_nextRepair (tw_runtime ?w) = 0" "ob_IfIndex (tr_state (tw_runtime (lab_started 7))) = 7"
    by code_simp+
  have report: "be_LocalInterfaceExpectation lab_backend = Some (returnT \<lparr>ex_IfIndex = 0, ex_MTU = 1380, ex_Addresses = [lab_prefix]\<rparr>)"
    by (simp add: lab_backend_def)
  have "ob_IfIndex (tr_state (tw_runtime ?replaced)) = 0"
    using failed_reading_forgets_identity [OF _ _ report _ _ start(1) fails [unfolded e] _ reads [unfolded j'] at(2,3)] start(2) at(4)
    by (simp add: lab_services_def lab_config_def lab_at_def)
  moreover have "lh_Link (tw_host (health_tick lab_services ?replaced)) = Some (lab_link_at 8 [lab_prefix])" by code_simp
  ultimately show ?thesis using start(3) by (simp add: Let_def)
qed

end
