(* ===== verification/Config_Validate.thy ===== *)
theory Config_Validate
  imports Role_Config File_Store
begin

text \<open>
  Checking and loading a role's configuration (\<^verbatim>\<open>config/config.go\<close>: \<^verbatim>\<open>Validate\<close>, \<^verbatim>\<open>Load\<close>,
  \<^verbatim>\<open>LoadWithLegacy\<close>, \<^verbatim>\<open>Encode\<close>) and the legacy \<^verbatim>\<open>vpn.conf\<close> (\<^verbatim>\<open>legacyconfig/vpnconf.go\<close>).
  \<^verbatim>\<open>Validate\<close> fills defaults into the configuration it checks, so here it returns the
  configuration. TOML and \<^verbatim>\<open>strconv.Unquote\<close> are parameters.
\<close>

section \<open>Names\<close>

definition is_lower :: "char \<Rightarrow> bool" where
  "is_lower c = (97 \<le> (of_char c :: int) \<and> (of_char c :: int) \<le> 122)"

definition is_upper :: "char \<Rightarrow> bool" where
  "is_upper c = (65 \<le> (of_char c :: int) \<and> (of_char c :: int) \<le> 90)"

definition is_alnum :: "char \<Rightarrow> bool" where
  "is_alnum c = (is_lower c \<or> is_upper c \<or> is_digit c)"

definition name_char :: "char \<Rightarrow> bool" where
  "name_char c = (is_alnum c \<or> c = CHR ''_'' \<or> c = CHR ''.'' \<or> c = CHR ''-'')"

definition instanceNameRE :: "string \<Rightarrow> bool" where
  "instanceNameRE s = (s \<noteq> [] \<and> is_alnum (hd s) \<and> list_all name_char s \<and> length s \<le> 64)"

definition interfaceNameRE :: "string \<Rightarrow> bool" where
  "interfaceNameRE s = (s \<noteq> [] \<and> list_all name_char s \<and> length s \<le> 63)"

section \<open>Protocol sections\<close>

text \<open>The maps the source ranges over give an error of the same form for each key.\<close>

definition in_port_range :: "int \<Rightarrow> bool" where
  "in_port_range v = (0 \<le> v \<and> v \<le> 65535)"

definition awg2_validate :: "awg2_config \<Rightarrow> goerror option" where
  "awg2_validate c =
     (if TrimSpace (aw_PrivateKey c) = [] then Some (Errorf ''awg2.private_key is required'')
      else if TrimSpace (aw_PeerPublicKey c) = [] then Some (Errorf ''awg2.peer_public_key is required'')
      else if TrimSpace (aw_Endpoint c) = [] then Some (Errorf ''awg2.endpoint is required'')
      else if aw_AllowedIPs c = [] then Some (Errorf ''awg2.allowed_ips must not be empty'')
      else if \<not> list_all (\<lambda>raw. ParsePrefix raw \<noteq> None) (aw_AllowedIPs c)
        then Some (Errorf ''invalid awg2.allowed_ips entry %q: %w'')
      else if \<not> in_port_range (aw_PersistentKeepalive c)
        then Some (Errorf ''awg2.persistent_keepalive must be in range 0..65535'')
      else if aw_JC c < 0 \<or> aw_JMin c < 0 \<or> aw_JMax c < 0 \<or> aw_JMax c < aw_JMin c
        then Some (Errorf ''invalid AWG2 Jc/Jmin/Jmax values'')
      else case aw_S c of (s1, s2, s3, s4) \<Rightarrow>
             if \<not> list_all in_port_range [s1, s2, s3, s4] then Some (Errorf ''awg2.%s must be in range 0..65535'') else None)"

definition vless_validate :: "vless_config \<Rightarrow> goerror + vless_config" where
  "vless_validate c =
     (if \<not> list_all (\<lambda>v. TrimSpace v \<noteq> []) [vl_Endpoint c, vl_UUID c, vl_ServerName c, vl_PublicKey c]
      then Inl (Errorf ''vless_reality.%s is required'')
      else let c = (if vl_Transport c = [] then c\<lparr>vl_Transport := ''raw''\<rparr> else c)
           in if vl_Transport c \<notin> {''raw'', ''tcp'', ''xhttp''}
                then Inl (Errorf ''vless_reality.transport %q is not supported in Stage 0'')
              else if vl_Flow c \<notin> {[], ''xtls-rprx-vision''}
                then Inl (Errorf ''vless_reality.flow %q is not supported in Stage 0'')
              else Inr c)"

definition token_check :: "openconnect_config \<Rightarrow> goerror option" where
  "token_check c =
     (if oc_TokenMode c = ''none'' then
        (if oc_TokenSecretFile c \<noteq> [] then Some (Errorf ''openconnect.token_secret_file requires a token_mode'') else None)
      else if oc_TokenMode c = ''totp'' then
        (if oc_TokenSecretFile c = [] \<or> \<not> filepath_IsAbs (oc_TokenSecretFile c)
         then Some (Errorf ''openconnect.token_secret_file must be an absolute path for TOTP'') else None)
      else Some (Errorf ''openconnect.token_mode %q is not supported yet''))"

definition openconnect_validate :: "url_parser \<Rightarrow> openconnect_config \<Rightarrow> goerror + openconnect_config" where
  "openconnect_validate parse c =
     (if TrimSpace (oc_Gateway c) = [] then Inl (Errorf ''openconnect.gateway is required'')
      else if ContainsAny (oc_Gateway c) [CHR '' '', CHR 0x09, CHR 0x0D, CHR 0x0A]
        then Inl (Errorf ''openconnect.gateway must not contain whitespace'')
      else case parseOpenConnectGateway parse (oc_Gateway c) of
             Inl e \<Rightarrow> Inl e
           | Inr _ \<Rightarrow>
               if ContainsAny (oc_AuthGroup c) [CHR 0x0D, CHR 0x0A]
                 then Inl (Errorf ''openconnect.auth_group must not contain line breaks'')
               else if TrimSpace (oc_Username c) = [] then Inl (Errorf ''openconnect.username is required'')
               else let c = (if oc_VPNProtocol c = [] then c\<lparr>oc_VPNProtocol := ''anyconnect''\<rparr> else c)
                    in if oc_VPNProtocol c \<noteq> ''anyconnect''
                         then Inl (Errorf ''openconnect.vpn_protocol %q is not supported yet'')
                       else if oc_PasswordFile c \<noteq> [] \<and> \<not> filepath_IsAbs (oc_PasswordFile c)
                         then Inl (Errorf ''openconnect.password_file must be absolute when set'')
                       else let c = (if oc_TokenMode c = [] then c\<lparr>oc_TokenMode := ''none''\<rparr> else c)
                            in case token_check c of
                                 Some e \<Rightarrow> Inl e
                               | None \<Rightarrow>
                                   if oc_ReconnectTimeout c < 0 \<or> 86400 < oc_ReconnectTimeout c
                                   then Inl (Errorf ''openconnect.reconnect_timeout must be in range 0..86400'')
                                   else Inr c)"

section \<open>The whole configuration\<close>

fun validate_profiles :: "string list \<Rightarrow> string list \<Rightarrow> goerror option" where
  "validate_profiles seen [] = None"
| "validate_profiles seen (p # ps) =
     (if p = [] then Some (Errorf ''profile name must not be empty'')
      else if \<not> instanceNameRE p then Some (Errorf ''invalid profile name %q'')
      else if p \<in> set seen then Some (Errorf ''duplicate profile %q'')
      else validate_profiles (p # seen) ps)"

definition validate_section :: "url_parser \<Rightarrow> role_config \<Rightarrow> goerror + role_config" where
  "validate_section parse c =
     (if cf_Protocol c = ''amneziawg2'' then
        (if cf_Address c = [] then Inl (Errorf ''at least one address is required'')
         else case cf_AWG2 c of
                None \<Rightarrow> Inl (Errorf ''protocol amneziawg2 requires [awg2]'')
              | Some section \<Rightarrow>
                  if cf_VLESS c \<noteq> None \<or> cf_OpenConnect c \<noteq> None
                  then Inl (Errorf ''protocol amneziawg2 must not contain other protocol sections'')
                  else (case awg2_validate section of Some e \<Rightarrow> Inl e | None \<Rightarrow> Inr c))
      else if cf_Protocol c = ''vless-reality'' then
        (if cf_Address c = [] then Inl (Errorf ''at least one address is required'')
         else case cf_VLESS c of
                None \<Rightarrow> Inl (Errorf ''protocol vless-reality requires [vless_reality]'')
              | Some section \<Rightarrow>
                  if cf_AWG2 c \<noteq> None \<or> cf_OpenConnect c \<noteq> None
                  then Inl (Errorf ''protocol vless-reality must not contain other protocol sections'')
                  else (case vless_validate section of Inl e \<Rightarrow> Inl e | Inr s \<Rightarrow> Inr (c\<lparr>cf_VLESS := Some s\<rparr>)))
      else if cf_Protocol c = ''openconnect'' then
        (case cf_OpenConnect c of
           None \<Rightarrow> Inl (Errorf ''protocol openconnect requires [openconnect]'')
         | Some section \<Rightarrow>
             if cf_AWG2 c \<noteq> None \<or> cf_VLESS c \<noteq> None
             then Inl (Errorf ''protocol openconnect must not contain other protocol sections'')
             else (case openconnect_validate parse section of Inl e \<Rightarrow> Inl e | Inr s \<Rightarrow> Inr (c\<lparr>cf_OpenConnect := Some s\<rparr>)))
      else Inl (Errorf ''unsupported protocol %q''))"

definition config_Validate :: "url_parser \<Rightarrow> role_config \<Rightarrow> goerror + role_config" where
  "config_Validate parse c =
     (if \<not> instanceNameRE (cf_Name c) then Inl (Errorf ''invalid name %q'')
      else if \<not> interfaceNameRE (cf_Interface c) then Inl (Errorf ''invalid interface name %q'')
      else if cf_MTU c < 576 \<or> 9000 < cf_MTU c then Inl (Errorf ''mtu must be in range 576..9000, got %d'')
      else if cf_StateDir c = [] \<or> \<not> filepath_IsAbs (cf_StateDir c) then Inl (Errorf ''state_dir must be an absolute path'')
      else let c = (if cf_Profiles c = [] then c\<lparr>cf_Profiles := [''default'']\<rparr> else c)
           in case validate_profiles [] (cf_Profiles c) of
                Some e \<Rightarrow> Inl e
              | None \<Rightarrow>
                  if \<not> list_all (\<lambda>raw. ParsePrefix raw \<noteq> None) (cf_Address c) then Inl (Errorf ''invalid address %q: %w'')
                  else case validate_section parse c of
                         Inl e \<Rightarrow> Inl e
                       | Inr c \<Rightarrow>
                           (case TransportEndpointSpecs parse (Some c) of
                              Inl e \<Rightarrow> Inl (Wrapf ''invalid transport endpoint: %w'' e)
                            | Inr _ \<Rightarrow> Inr c))"

text \<open>TOML and URLs.\<close>

record config_codec =
  cc_Decode :: "string \<Rightarrow> goerror + role_config"
  cc_Encode :: "role_config \<Rightarrow> goerror + string"
  cc_URL :: url_parser

definition decode_config :: "config_codec \<Rightarrow> string \<Rightarrow> goerror + role_config" where
  "decode_config cc data =
     (case cc_Decode cc data of
        Inl e \<Rightarrow> Inl (Wrapf ''decode TOML: %w'' e)
      | Inr c \<Rightarrow> config_Validate (cc_URL cc) c)"

definition config_Load :: "config_codec \<Rightarrow> 'k file_system \<Rightarrow> string \<Rightarrow> ('k, role_config) tx" where
  "config_Load cc fs path =
     bindT (mapErrT (Wrapf ''read config: %w'') (fs_ReadFile fs path)) (\<lambda>data. fromSum (decode_config cc data))"

definition config_Encode :: "config_codec \<Rightarrow> role_config option \<Rightarrow> goerror + string" where
  "config_Encode cc cfg =
     (case cfg of
        None \<Rightarrow> Inl (Errorf ''config is nil'')
      | Some c \<Rightarrow>
          (case config_Validate (cc_URL cc) c of
             Inl e \<Rightarrow> Inl e
           | Inr c \<Rightarrow> map_sum (Wrapf ''encode TOML: %w'') id (cc_Encode cc c)))"

section \<open>The legacy file\<close>

record legacy_role =
  lr_Name :: string
  lr_Interface :: string
  lr_DeviceFile :: string
  lr_EndpointProvider :: string
  lr_ProviderArgs :: string

record legacy_config =
  lc_Roles :: "(string, legacy_role) gomap"
  lc_VPNLinkReadySuccesses :: int

definition legacy_role_zero :: legacy_role where
  "legacy_role_zero = \<lparr>lr_Name = [], lr_Interface = [], lr_DeviceFile = [], lr_EndpointProvider = [], lr_ProviderArgs = []\<rparr>"

definition assignmentRE :: "string \<Rightarrow> bool" where
  "assignmentRE s = (s \<noteq> [] \<and> is_upper (hd s) \<and> list_all (\<lambda>c. is_upper c \<or> is_digit c \<or> c = CHR ''_'') s)"

text \<open>\<^verbatim>\<open>strings.Cut\<close>\<close>

definition strings_Cut :: "string \<Rightarrow> char \<Rightarrow> (string \<times> string) option" where
  "strings_Cut s c =
     (if c \<in> set s then Some (takeWhile (\<lambda>x. x \<noteq> c) s, drop 1 (dropWhile (\<lambda>x. x \<noteq> c) s)) else None)"

definition parseValue :: "(string \<Rightarrow> goerror + string) \<Rightarrow> string \<Rightarrow> goerror + string" where
  "parseValue unquote raw =
     (if raw = [] then Inr []
      else if ContainsAny raw [CHR 0x60, CHR 0x0D, CHR 0x0A, CHR '';''] \<or> strings_Contains raw ''$('' \<or> strings_Contains raw ''${''
        then Inl (Errorf ''unsafe shell expression'')
      else if hd raw = CHR 0x22 then
        (if length raw < 2 \<or> last raw \<noteq> CHR 0x22 then Inl (Errorf ''unterminated double-quoted value'')
         else map_sum (Wrapf ''invalid quoted value: %w'') id (unquote raw))
      else if hd raw = CHR 0x27 then
        (if length raw < 2 \<or> last raw \<noteq> CHR 0x27 then Inl (Errorf ''unterminated single-quoted value'')
         else Inr (butlast (tl raw)))
      else if ContainsAny raw [CHR '' '', CHR 0x09] then Inl (Errorf ''unquoted whitespace is not allowed'')
      else Inr raw)"

definition ready_successes :: "string \<Rightarrow> legacy_config \<Rightarrow> goerror + legacy_config" where
  "ready_successes v cfg =
     (if v = [] then Inl (Errorf ''value is empty'')
      else case Atoi v of
             None \<Rightarrow> Inl (Errorf ''invalid ready success count %q'')
           | Some n \<Rightarrow> if n < 1 \<or> 100 < n then Inl (Errorf ''invalid ready success count %q'')
                        else Inr (cfg\<lparr>lc_VPNLinkReadySuccesses := n\<rparr>))"

definition legacy_assign :: "legacy_config \<Rightarrow> string \<Rightarrow> string \<Rightarrow> goerror + legacy_config" where
  "legacy_assign cfg key v =
     (if key = ''VPN_LINK_READY_SUCCESSES'' then ready_successes v cfg
      else case strings_Cut key (CHR ''_'') of
             None \<Rightarrow> Inr cfg
           | Some (roleName, field) \<Rightarrow>
               if roleName \<noteq> ''PRIMARY'' \<and> roleName \<noteq> ''SECONDARY'' then Inr cfg
               else let name = strings_ToLower roleName;
                        role = (case map_of (lc_Roles cfg) name of None \<Rightarrow> legacy_role_zero | Some r \<Rightarrow> r)\<lparr>lr_Name := name\<rparr>;
                        store = (\<lambda>r. Inr (cfg\<lparr>lc_Roles := gomap_put name r (lc_Roles cfg)\<rparr>))
                    in if field = ''INTERFACE'' then store (role\<lparr>lr_Interface := v\<rparr>)
                       else if field = ''DEVICE_FILE'' then store (role\<lparr>lr_DeviceFile := v\<rparr>)
                       else if field = ''ENDPOINT_PROVIDER'' then
                         (if v \<notin> {''static'', ''command'', ''happ''} then Inl (Errorf ''unsupported endpoint provider %q'')
                          else store (role\<lparr>lr_EndpointProvider := v\<rparr>))
                       else if field = ''ENDPOINT_PROVIDER_ARGS'' then store (role\<lparr>lr_ProviderArgs := v\<rparr>)
                       else Inr cfg)"

definition legacy_line :: "(string \<Rightarrow> goerror + string) \<Rightarrow> legacy_config \<Rightarrow> string \<Rightarrow> goerror + legacy_config" where
  "legacy_line unquote cfg raw =
     (let text = TrimSpace raw
      in if text = [] \<or> has_prefix ''#'' text then Inr cfg
         else case strings_Cut text (CHR ''='') of
                None \<Rightarrow> Inl (Errorf ''legacy vpn config line %d: expected assignment'')
              | Some (k, v) \<Rightarrow>
                  let key = TrimSpace k
                  in if \<not> assignmentRE key then Inl (Errorf ''legacy vpn config line %d: invalid key %q'')
                     else case parseValue unquote (TrimSpace v) of
                            Inl e \<Rightarrow> Inl (Wrapf ''legacy vpn config line %d (%s): %w'' e)
                          | Inr w \<Rightarrow> map_sum (Wrapf ''legacy vpn config line %d (%s): %w'') id (legacy_assign cfg key w))"

text \<open>A line too long for the scanner ends the loop with its error.\<close>

fun legacy_lines :: "(string \<Rightarrow> goerror + string) \<Rightarrow> legacy_config \<Rightarrow> string list \<Rightarrow> goerror + legacy_config" where
  "legacy_lines unquote cfg [] = Inr cfg"
| "legacy_lines unquote cfg (raw # rest) =
     (if MaxScanTokenSize \<le> int (length raw) then Inl (Wrapf ''read legacy vpn config: %w'' (Errorf ''bufio.Scanner: token too long''))
      else case legacy_line unquote cfg (drop_cr raw) of Inl e \<Rightarrow> Inl e | Inr cfg' \<Rightarrow> legacy_lines unquote cfg' rest)"

definition legacy_Parse :: "(string \<Rightarrow> goerror + string) \<Rightarrow> string \<Rightarrow> goerror + legacy_config" where
  "legacy_Parse unquote data = legacy_lines unquote \<lparr>lc_Roles = [], lc_VPNLinkReadySuccesses = 0\<rparr> (raw_lines data)"

definition legacy_Load :: "(string \<Rightarrow> goerror + string) \<Rightarrow> 'k file_system \<Rightarrow> string \<Rightarrow> ('k, legacy_config) tx" where
  "legacy_Load unquote fs path =
     bindT (mapErrT (Wrapf ''open legacy vpn config: %w'') (fs_ReadFile fs path)) (\<lambda>data. fromSum (legacy_Parse unquote data))"

definition legacy_Role :: "legacy_config \<Rightarrow> string \<Rightarrow> legacy_role option" where
  "legacy_Role cfg name = map_of (lc_Roles cfg) (strings_ToLower name)"

definition strings_Join :: "string list \<Rightarrow> string" where
  "strings_Join parts = (case parts of [] \<Rightarrow> [] | p # ps \<Rightarrow> p @ concat (map (\<lambda>q. CHR '' '' # q) ps))"

definition overlay_legacy :: "string \<Rightarrow> string \<Rightarrow> legacy_role \<Rightarrow> role_config \<Rightarrow> goerror + role_config" where
  "overlay_legacy legacyPath providerDir role cfg =
     (let cfg = (if lr_Interface role \<noteq> [] then cfg\<lparr>cf_Interface := lr_Interface role\<rparr> else cfg);
          provider = (if lr_EndpointProvider role = [] then ''static'' else lr_EndpointProvider role);
          cfg = cfg\<lparr>cf_Source := (if provider = ''command'' then ''command-compat'' else provider), cf_legacyVPNPath := legacyPath\<rparr>
      in if provider = ''static''
           then Inr (cfg\<lparr>cf_StaticFile := filepath_Join (filepath_Join (filepath_Dir legacyPath) ''endpoints'') (lr_Name role @ ''.txt'')\<rparr>)
         else if provider = ''command'' \<or> provider = ''happ'' then
           (if providerDir = [] then Inl (Errorf ''provider directory is required for legacy %s provider'')
            else Inr (cfg\<lparr>cf_Command := strings_Join
                   ([filepath_Join providerDir provider, lr_Name role] @ strings_Fields (lr_ProviderArgs role))\<rparr>))
         else Inr cfg)"

definition LoadWithLegacy ::
  "config_codec \<Rightarrow> (string \<Rightarrow> goerror + string) \<Rightarrow> 'k file_system \<Rightarrow> string \<Rightarrow> string \<Rightarrow> string \<Rightarrow> ('k, role_config) tx" where
  "LoadWithLegacy cc unquote fs path legacyPath providerDir =
     bindT (config_Load cc fs path) (\<lambda>cfg.
       if legacyPath = [] then returnT cfg
       else
         bindT (legacy_Load unquote fs legacyPath) (\<lambda>legacy.
         case legacy_Role legacy (cf_Name cfg) of
           None \<Rightarrow> returnT cfg
         | Some role \<Rightarrow>
             bindT (fromSum (overlay_legacy legacyPath providerDir role cfg)) (\<lambda>cfg.
             fromSum (config_Validate (cc_URL cc) cfg))))"

end
