(* ===== verification/Config_Files.thy ===== *)
theory Config_Files
  imports Config_Validate
begin

text \<open>
  The files the core writes for the operator (\<^verbatim>\<open>config/create.go\<close>, \<^verbatim>\<open>create_profiles.go\<close>,
  \<^verbatim>\<open>profiles_registry.go\<close>, \<^verbatim>\<open>routing.go\<close>, \<^verbatim>\<open>routing_lists.go\<close>, \<^verbatim>\<open>bypass.go\<close>,
  \<^verbatim>\<open>leshy_config.go\<close>, \<^verbatim>\<open>leshy_zones.go\<close>, \<^verbatim>\<open>ownership.go\<close>): tunnels, the registry of profiles, the routing lists of the roles, the bypass
  mode and the generated router configuration.
\<close>

section \<open>Tunnels\<close>

record tunnel_spec =
  tn_Name :: string
  tn_Protocol :: string
  tn_Profile :: string
  tn_Endpoint :: string
  tn_Address :: "string list"
  tn_PrivateKey :: string
  tn_PeerPublicKey :: string
  tn_PresharedKey :: string
  tn_AllowedIPs :: "string list"
  tn_UUID :: string
  tn_ServerName :: string
  tn_PublicKey :: string
  tn_ShortID :: string
  tn_Flow :: string
  tn_Gateway :: string
  tn_Username :: string
  tn_PasswordFile :: string
  tn_TokenSecretFile :: string
  tn_AuthGroup :: string

definition config_zero :: role_config where
  "config_zero = \<lparr>cf_Name = [], cf_Protocol = [], cf_Interface = [], cf_Address = [], cf_MTU = 0, cf_StateDir = [],
     cf_AWG2 = None, cf_VLESS = None, cf_OpenConnect = None, cf_LeshyZone = [], cf_Source = [], cf_StaticFile = [],
     cf_Command = [], cf_RulePriority = 0, cf_legacyVPNPath = [], cf_Profiles = []\<rparr>"

definition spec_awg2 :: "tunnel_spec \<Rightarrow> goerror + awg2_config" where
  "spec_awg2 s =
     (if TrimSpace (tn_Endpoint s) = [] then Inl (Errorf ''amneziawg2 tunnel needs an endpoint (host:port)'')
      else if tn_Address s = [] then Inl (Errorf ''amneziawg2 tunnel needs at least one address (for example 10.8.1.3/32)'')
      else if TrimSpace (tn_PrivateKey s) = [] \<or> TrimSpace (tn_PeerPublicKey s) = []
        then Inl (Errorf ''amneziawg2 tunnel needs private_key and peer_public_key'')
      else Inr \<lparr>aw_PrivateKey = TrimSpace (tn_PrivateKey s), aw_PeerPublicKey = TrimSpace (tn_PeerPublicKey s),
                aw_PresharedKey = TrimSpace (tn_PresharedKey s), aw_Endpoint = TrimSpace (tn_Endpoint s),
                aw_AllowedIPs = (if tn_AllowedIPs s = [] then [''0.0.0.0/0''] else tn_AllowedIPs s),
                aw_PersistentKeepalive = 0, aw_JC = 0, aw_JMin = 0, aw_JMax = 0, aw_S = (0, 0, 0, 0),
                aw_H = ([], [], [], []), aw_I = ([], [], [], [], [])\<rparr>)"

definition spec_vless :: "tunnel_spec \<Rightarrow> goerror + vless_config" where
  "spec_vless s =
     (if TrimSpace (tn_Endpoint s) = [] then Inl (Errorf ''vless-reality tunnel needs an endpoint (host:port)'')
      else if TrimSpace (tn_UUID s) = [] \<or> TrimSpace (tn_PublicKey s) = [] \<or> TrimSpace (tn_ServerName s) = []
        then Inl (Errorf ''vless-reality tunnel needs uuid, server_name and public_key'')
      else Inr \<lparr>vl_Endpoint = TrimSpace (tn_Endpoint s), vl_UUID = TrimSpace (tn_UUID s),
                vl_ServerName = TrimSpace (tn_ServerName s), vl_PublicKey = TrimSpace (tn_PublicKey s),
                vl_ShortID = TrimSpace (tn_ShortID s), vl_Flow = TrimSpace (tn_Flow s), vl_Fingerprint = [],
                vl_Transport = [], vl_SpiderX = [], vl_XHTTP = None\<rparr>)"

definition spec_openconnect :: "tunnel_spec \<Rightarrow> goerror + openconnect_config" where
  "spec_openconnect s =
     (let gateway = (if TrimSpace (tn_Gateway s) = [] then TrimSpace (tn_Endpoint s) else TrimSpace (tn_Gateway s));
          password = TrimSpace (tn_PasswordFile s); token = TrimSpace (tn_TokenSecretFile s)
      in if gateway = [] then Inl (Errorf ''openconnect tunnel needs a gateway'')
         else if TrimSpace (tn_Username s) = [] then Inl (Errorf ''openconnect tunnel needs a username'')
         else if password = [] \<and> token = [] then Inl (Errorf ''openconnect tunnel needs password_file or token_secret_file'')
         else Inr \<lparr>oc_Gateway = gateway, oc_VPNProtocol = [], oc_AuthGroup = TrimSpace (tn_AuthGroup s),
                   oc_Username = TrimSpace (tn_Username s), oc_PasswordFile = password, oc_TokenMode = [],
                   oc_TokenSecretFile = token, oc_UserAgent = [], oc_ServerCert = [], oc_DisableUDP = False,
                   oc_DisableIPv6 = False, oc_HttpAuth = [], oc_ReconnectTimeout = 0, oc_OpenConnectBinary = []\<rparr>)"

definition toConfig :: "tunnel_spec \<Rightarrow> goerror + role_config" where
  "toConfig s =
     (let name = TrimSpace (tn_Name s); protocol = TrimSpace (tn_Protocol s); profile = TrimSpace (tn_Profile s);
          cfg = config_zero\<lparr>cf_Name := name, cf_Protocol := protocol, cf_Profiles := (if profile = [] then [] else [profile])\<rparr>
      in if \<not> instanceNameRE name then Inl (Errorf ''invalid tunnel name %q'')
         else if profile \<noteq> [] \<and> \<not> instanceNameRE profile then Inl (Errorf ''invalid profile name %q'')
         else if protocol = ''amneziawg2'' then map_sum id (\<lambda>x. cfg\<lparr>cf_AWG2 := Some x\<rparr>) (spec_awg2 s)
         else if protocol = ''vless-reality'' then map_sum id (\<lambda>x. cfg\<lparr>cf_VLESS := Some x\<rparr>) (spec_vless s)
         else if protocol = ''openconnect'' then map_sum id (\<lambda>x. cfg\<lparr>cf_OpenConnect := Some x\<rparr>) (spec_openconnect s)
         else Inl (Errorf ''unsupported protocol %q''))"

text \<open>A loop over the directory; a file that does not load is skipped.\<close>

fun taken_addresses :: "config_codec \<Rightarrow> 'k file_system \<Rightarrow> string \<Rightarrow> (string \<times> bool) list \<Rightarrow> 'k \<Rightarrow> string list \<times> 'k" where
  "taken_addresses cc fs dir [] k = ([], k)"
| "taken_addresses cc fs dir ((entry, isDir) # rest) k =
     (if isDir \<or> \<not> has_prefix (rev ''.toml'') (rev entry) then taken_addresses cc fs dir rest k
      else case config_Load cc fs (filepath_Join dir entry) k of
             (Inl _, k1) \<Rightarrow> taken_addresses cc fs dir rest k1
           | (Inr c, k1) \<Rightarrow>
               (case taken_addresses cc fs dir rest k1 of
                  (taken, k2) \<Rightarrow> (map (addr_String \<circ> prefix_Addr) (List.map_filter ParsePrefix (cf_Address c)) @ taken, k2)))"

definition candidate_address :: "nat \<Rightarrow> string" where
  "candidate_address n = ''10.9.0.'' @ show_dec (int n)"

definition assignTunnelAddress :: "config_codec \<Rightarrow> 'k file_system \<Rightarrow> string \<Rightarrow> 'k \<Rightarrow> string \<times> 'k" where
  "assignTunnelAddress cc fs dir k =
     (case fs_ReadDir fs dir k of
        (entries, k1) \<Rightarrow>
          (case taken_addresses cc fs dir (case entries of Inl _ \<Rightarrow> [] | Inr es \<Rightarrow> es) k1 of
             (taken, k2) \<Rightarrow>
               (case find (\<lambda>n. candidate_address n \<notin> set taken) [2..<255] of
                  Some n \<Rightarrow> (candidate_address n @ ''/32'', k2)
                | None \<Rightarrow> (''10.9.0.2/32'', k2))))"

definition slug_char :: "char \<Rightarrow> char" where
  "slug_char c = (if name_char c then c else CHR ''-'')"

definition tunnelInterface :: "string \<Rightarrow> string" where
  "tunnelInterface name = take 63 (''kk-'' @ (if name = [] then ''tun'' else map slug_char name))"

definition complete_config :: "string \<Rightarrow> string list \<Rightarrow> role_config \<Rightarrow> role_config" where
  "complete_config dir address cfg =
     cfg\<lparr>cf_Address := address, cf_Interface := tunnelInterface (cf_Name cfg), cf_MTU := 1380,
         cf_StateDir := filepath_Join (filepath_Join (filepath_Dir dir) ''state'') (cf_Name cfg), cf_LeshyZone := cf_Name cfg\<rparr>"

definition config_path :: "string \<Rightarrow> string \<Rightarrow> string" where
  "config_path dir name = filepath_Join dir (name @ ''.toml'')"

definition write_config :: "config_codec \<Rightarrow> 'k file_system \<Rightarrow> string \<Rightarrow> role_config \<Rightarrow> ('k, unit) tx" where
  "write_config cc fs path cfg =
     bindT (fromSum (map_sum (Wrapf ''encode tunnel %q: %w'') id (cc_Encode cc cfg))) (\<lambda>data.
     mapErrT (Wrapf ''write %s: %w'') (fs_WriteFile fs path data))"

definition config_CreateTunnel :: "config_codec \<Rightarrow> 'k file_system \<Rightarrow> string \<Rightarrow> tunnel_spec \<Rightarrow> ('k, string) tx" where
  "config_CreateTunnel cc fs dir spec =
     bindT (fromSum (toConfig spec)) (\<lambda>cfg.
     bindT (if tn_Address spec \<noteq> [] then returnT (tn_Address spec)
            else (\<lambda>k. case assignTunnelAddress cc fs dir k of (a, k') \<Rightarrow> (Inr [a], k'))) (\<lambda>address.
     let cfg = complete_config dir address cfg; path = config_path dir (cf_Name cfg)
     in bindT (mapErrT (Wrapf ''create toads directory: %w'') (fs_MkdirAll fs dir)) (\<lambda>_ k.
        case fs_Stat fs path k of
          (Inr _, k1) \<Rightarrow> (Inl (Errorf ''tunnel %q already exists''), k1)
        | (Inl e, k1) \<Rightarrow>
            if \<not> os_IsNotExist e then (Inl (Wrapf ''inspect %s: %w'' e), k1)
            else bindT (write_config cc fs path cfg) (\<lambda>_ k.
                   case config_Load cc fs path k of
                     (Inr _, k2) \<Rightarrow> (Inr path, k2)
                   | (Inl e, k2) \<Rightarrow> (Inl (Wrapf ''tunnel %q is not usable: %w'' e), snd (fs_Remove fs path k2))) k1)))"

fun profile_membership :: "string list \<Rightarrow> string list \<Rightarrow> goerror + string list" where
  "profile_membership seen [] = Inr []"
| "profile_membership seen (p # ps) =
     (let q = TrimSpace p
      in if q = [] then Inl (Errorf ''profile name must not be empty'')
         else if \<not> instanceNameRE q then Inl (Errorf ''invalid profile name %q'')
         else if q \<in> set seen then profile_membership seen ps
         else map_sum id ((#) q) (profile_membership (q # seen) ps))"

definition config_SetTunnelProfiles ::
  "config_codec \<Rightarrow> 'k file_system \<Rightarrow> string \<Rightarrow> string \<Rightarrow> string list \<Rightarrow> ('k, string) tx" where
  "config_SetTunnelProfiles cc fs dir raw profiles =
     (let name = TrimSpace raw; path = config_path dir name
      in if \<not> instanceNameRE name then throwT (Errorf ''invalid tunnel name %q'')
         else
           bindT (fromSum (profile_membership [] profiles)) (\<lambda>membership.
           if membership = [] then throwT (Errorf ''tunnel %q needs at least one profile'')
           else
             bindT (mapErrT (Wrapf ''load tunnel %q: %w'') (config_Load cc fs path)) (\<lambda>cfg.
             bindT (write_config cc fs path (cfg\<lparr>cf_Profiles := membership\<rparr>)) (\<lambda>_.
             bindT (mapErrT (Wrapf ''tunnel %q is not usable after the move: %w'') (config_Load cc fs path)) (\<lambda>_.
             returnT path)))))"

definition config_SetTunnelProfile ::
  "config_codec \<Rightarrow> 'k file_system \<Rightarrow> string \<Rightarrow> string \<Rightarrow> string \<Rightarrow> ('k, string) tx" where
  "config_SetTunnelProfile cc fs dir name profile = config_SetTunnelProfiles cc fs dir name [profile]"

definition config_RemoveTunnel :: "'k file_system \<Rightarrow> string \<Rightarrow> string \<Rightarrow> ('k, unit) tx" where
  "config_RemoveTunnel fs dir raw =
     (let name = TrimSpace raw; path = config_path dir name
      in if \<not> instanceNameRE name then throwT (Errorf ''invalid tunnel name %q'')
         else
           bindT (mapErrT (Wrapf ''tunnel %q is not configured: %w'') (fs_Stat fs path)) (\<lambda>_.
           mapErrT (Wrapf ''remove %s: %w'') (fs_Remove fs path)))"

section \<open>The registry of profiles\<close>

definition declaredProfilesPath :: "string \<Rightarrow> string" where
  "declaredProfilesPath dir = filepath_Join dir ''profiles.list''"

definition parse_registry :: "string \<Rightarrow> string list" where
  "parse_registry data =
     foldl (\<lambda>names line. let name = TrimSpace line
              in if name = [] \<or> \<not> instanceNameRE name \<or> name \<in> set names then names else names @ [name])
       [] (split_on (CHR 0x0A) data)"

definition ReadDeclaredProfiles :: "'k file_system \<Rightarrow> string \<Rightarrow> ('k, string list) tx" where
  "ReadDeclaredProfiles fs dir k =
     (case fs_ReadFile fs (declaredProfilesPath dir) k of
        (Inl e, k') \<Rightarrow> if errorsIs e ErrNotExist then (Inr [], k') else (Inl (Wrapf ''read declared profiles: %w'' e), k')
      | (Inr data, k') \<Rightarrow> (Inr (parse_registry data), k'))"

definition print_registry :: "string list \<Rightarrow> string" where
  "print_registry names = concat (map (\<lambda>n. n @ [CHR 0x0A]) names)"

definition AddDeclaredProfile :: "'k file_system \<Rightarrow> string \<Rightarrow> string \<Rightarrow> ('k, bool) tx" where
  "AddDeclaredProfile fs dir raw =
     (let name = TrimSpace raw; fails = Wrapf ''write profile registry: %w''
      in if \<not> instanceNameRE name then throwT (Errorf ''invalid profile name %q'')
         else
           bindT (ReadDeclaredProfiles fs dir) (\<lambda>names.
           if name \<in> set names then returnT False
           else
             bindT (mapErrT fails (fs_CreateTemp fs dir ''.profiles-'')) (\<lambda>temp.
             onErrorT (fs_Remove fs temp)
               (bindT (onErrorT (fs_Close fs temp) (mapErrT fails (fs_Write fs temp (print_registry (sort (names @ [name])))))) (\<lambda>_.
                bindT (mapErrT fails (fs_Close fs temp)) (\<lambda>_.
                bindT (mapErrT fails (fs_Chmod fs temp 384)) (\<lambda>_.
                bindT (mapErrT (Wrapf ''replace profile registry: %w'') (fs_Rename fs temp (declaredProfilesPath dir))) (\<lambda>_.
                returnT True))))))))"

section \<open>Routing lists\<close>

definition BypassList :: string where
  "BypassList = ''bypass''"

definition BypassDirect :: string where
  "BypassDirect = ''direct''"

definition ValidRoutingList :: "string \<Rightarrow> bool" where
  "ValidRoutingList name \<longleftrightarrow> name \<noteq> BypassList \<and> instanceNameRE name"

definition label_char :: "char \<Rightarrow> bool" where
  "label_char c = (is_lower c \<or> is_digit c)"

definition domain_label :: "string \<Rightarrow> bool" where
  "domain_label l = (l \<noteq> [] \<and> label_char (hd l) \<and> label_char (last l) \<and> list_all (\<lambda>c. label_char c \<or> c = CHR ''-'') l)"

definition routingDomainRE :: "string \<Rightarrow> bool" where
  "routingDomainRE s =
     (let body = (if has_prefix ''*.'' s then drop 2 s else s); labels = split_on (CHR ''.'') body
      in 2 \<le> length labels \<and> list_all domain_label labels)"

text \<open>What \<^verbatim>\<open>net.ParseIP\<close> and \<^verbatim>\<open>net.ParseCIDR\<close> accept: an address without a zone, and one
  with a mask length, which may have leading zeros.\<close>

definition accepted_IP :: "string \<Rightarrow> addr option" where
  "accepted_IP s =
     (case ParseAddr s of
        None \<Rightarrow> None
      | Some a \<Rightarrow> if addr_withoutZone a = a then Some a else None)"

definition accepts_CIDR :: "string \<Rightarrow> bool" where
  "accepts_CIDR s =
     (case strings_Cut s (CHR ''/'') of
        None \<Rightarrow> False
      | Some (ip, len) \<Rightarrow>
          (case accepted_IP ip of
             None \<Rightarrow> False
           | Some a \<Rightarrow> len \<noteq> [] \<and> list_all is_digit len \<and>
               foldl (\<lambda>n c. n * 10 + (of_char c - 48)) 0 len \<le> int (addr_BitLen a)))"

definition ValidateRoutingEntry :: "string \<Rightarrow> goerror option" where
  "ValidateRoutingEntry entry =
     (let v = strings_ToLower (TrimSpace entry)
      in if v = [] then Some (Errorf ''empty entry'')
         else if accepts_CIDR v \<or> accepted_IP v \<noteq> None \<or> routingDomainRE v then None
         else Some (Errorf ''%q is neither a domain, an IP address nor a CIDR block''))"

fun routing_entries :: "string list \<Rightarrow> goerror + string list" where
  "routing_entries [] = Inr []"
| "routing_entries (raw # rest) =
     (let line = TrimSpace raw
      in if line = [] \<or> has_prefix ''#'' line then routing_entries rest
         else case ValidateRoutingEntry line of
                Some e \<Rightarrow> Inl (Wrapf ''line %d: %w'' e)
              | None \<Rightarrow> map_sum id ((#) (strings_ToLower line)) (routing_entries rest))"

definition ValidateRoutingContent :: "string \<Rightarrow> goerror + string list" where
  "ValidateRoutingContent content = routing_entries (split_on (CHR 0x0A) content)"

fun normalized_lines :: "string list \<Rightarrow> goerror + string list" where
  "normalized_lines [] = Inr []"
| "normalized_lines (raw # rest) =
     (let line = TrimSpace raw
      in if line = [] then normalized_lines rest
         else if has_prefix ''#'' line then map_sum id ((#) line) (normalized_lines rest)
         else case ValidateRoutingEntry line of
                Some e \<Rightarrow> Inl (Wrapf ''line %d: %w'' e)
              | None \<Rightarrow> map_sum id ((#) (strings_ToLower line)) (normalized_lines rest))"

definition normalizeRoutingContent :: "string \<Rightarrow> goerror + string list" where
  "normalizeRoutingContent content = normalized_lines (split_on (CHR 0x0A) content)"

definition list_path :: "string \<Rightarrow> string \<Rightarrow> string" where
  "list_path dir name = filepath_Join dir (name @ ''.txt'')"

definition byte_order_mark :: string where
  "byte_order_mark = [CHR 0xEF, CHR 0xBB, CHR 0xBF]"

definition TrimPrefix :: "string \<Rightarrow> string \<Rightarrow> string" where
  "TrimPrefix s p = (if has_prefix p s then drop (length p) s else s)"

definition ReadRoutingList :: "'k file_system \<Rightarrow> string \<Rightarrow> string \<Rightarrow> ('k, string) tx" where
  "ReadRoutingList fs dir name k =
     (if \<not> ValidRoutingList name then (Inl (Errorf ''unknown routing list %q''), k)
      else case fs_ReadFile fs (list_path dir name) k of
             (Inl e, k') \<Rightarrow> if os_IsNotExist e then (Inr [], k') else (Inl (Wrapf ''read %s list: %w'' e), k')
           | (Inr data, k') \<Rightarrow> (Inr (TrimPrefix data byte_order_mark), k'))"

text \<open>Writing beside the target and renaming, without syncing.\<close>

definition replace_unsynced :: "'k file_system \<Rightarrow> (goerror \<Rightarrow> goerror) \<Rightarrow> (goerror \<Rightarrow> goerror) \<Rightarrow> string \<Rightarrow> string \<Rightarrow> ('k, unit) tx" where
  "replace_unsynced fs writeErr renameErr path data =
     (let temporary = path @ ''.tmp''
      in bindT (mapErrT writeErr (fs_WriteFile fs temporary data)) (\<lambda>_.
         onErrorT (fs_Remove fs temporary) (mapErrT renameErr (fs_Rename fs temporary path))))"

definition WriteRoutingList :: "'k file_system \<Rightarrow> string \<Rightarrow> string \<Rightarrow> string \<Rightarrow> ('k, unit) tx" where
  "WriteRoutingList fs dir name content =
     (if \<not> ValidRoutingList name then throwT (Errorf ''unknown routing list %q'')
      else
        bindT (fromSum (normalizeRoutingContent content)) (\<lambda>lines.
        bindT (mapErrT (Wrapf ''create routing directory: %w'') (fs_MkdirAll fs dir)) (\<lambda>_.
        replace_unsynced fs (Wrapf ''write %s list: %w'') (Wrapf ''replace %s list: %w'') (list_path dir name) (print_registry lines))))"

definition ListRoutingFiles :: "'k file_system \<Rightarrow> string \<Rightarrow> ('k, string list) tx" where
  "ListRoutingFiles fs dir k =
     (case fs_ReadDir fs dir k of
        (Inl e, k') \<Rightarrow> if os_IsNotExist e then (Inr [], k') else (Inl (Wrapf ''read routing directory: %w'' e), k')
      | (Inr entries, k') \<Rightarrow>
          (Inr (sort (filter ValidRoutingList (map (\<lambda>e. butlast (butlast (butlast (butlast (fst e)))))
             (filter (\<lambda>e. \<not> snd e \<and> has_prefix (rev ''.txt'') (rev (fst e))) entries)))), k'))"

section \<open>The bypass mode\<close>

definition ReadBypassMode :: "'k file_system \<Rightarrow> string \<Rightarrow> 'k \<Rightarrow> string \<times> 'k" where
  "ReadBypassMode fs path k =
     (case fs_ReadFile fs path k of
        (Inl _, k') \<Rightarrow> (BypassDirect, k')
      | (Inr data, k') \<Rightarrow> (if TrimSpace data = [] then BypassDirect else TrimSpace data, k'))"

definition WriteBypassMode :: "'k file_system \<Rightarrow> string \<Rightarrow> string \<Rightarrow> ('k, unit) tx" where
  "WriteBypassMode fs path raw =
     (let mode = (if TrimSpace raw = [] then BypassDirect else TrimSpace raw)
      in if mode \<noteq> BypassDirect \<and> \<not> instanceNameRE mode then throwT (Errorf ''invalid bypass mode %q'')
         else
           bindT (mapErrT (Wrapf ''create bypass directory: %w'') (fs_MkdirAll fs (filepath_Dir path))) (\<lambda>_.
           replace_unsynced fs (Wrapf ''write bypass mode: %w'') (Wrapf ''replace bypass mode: %w'') path (mode @ [CHR 0x0A])))"

section \<open>The router configuration\<close>

record leshy_server =
  ls_ListenAddress :: string
  ls_Upstreams :: "string list"
  ls_DNSProtocol :: string
  ls_RoutingBackend :: string
  ls_KikimoraSocket :: string
  ls_WriterLock :: string

record leshy_zone_spec =
  lz_Name :: string
  lz_Mode :: string
  lz_RouteTarget :: string
  lz_Domains :: "string list"
  lz_Patterns :: "string list"
  lz_StaticRoutes :: "string list"
  lz_IPv6 :: "bool option"

definition DefaultLeshyIPv6 :: bool where
  "DefaultLeshyIPv6 = True"

text \<open>A path of the Windows layout: its parts under \<^verbatim>\<open>C:\<close>.\<close>

definition windows_path :: "string list \<Rightarrow> string" where
  "windows_path parts = ''C:'' @ concat (map (\<lambda>p. CHR 0x5C # p) parts)"

definition LeshyWriterLockPath :: "string \<Rightarrow> string" where
  "LeshyWriterLockPath goos =
     (if goos = ''windows'' then windows_path [''ProgramData'', ''Kikimora'', ''state'', ''leshy-writer.lock''] else ''/run/kikimora/leshy-writer.lock'')"

definition default_listen :: string where
  "default_listen = ''127.0.0.1:53053''"

definition default_upstreams :: "string list" where
  "default_upstreams = [''1.1.1.1:53'', ''8.8.8.8:53'']"

text \<open>\<open>decode\<close> reads the server table of a TOML file, absent keys as zero values.\<close>

definition ReadLeshyServer :: "(string \<Rightarrow> goerror + leshy_server) \<Rightarrow> 'k file_system \<Rightarrow> string \<Rightarrow> 'k \<Rightarrow> leshy_server \<times> 'k" where
  "ReadLeshyServer decode fs path k =
     (let server = \<lparr>ls_ListenAddress = default_listen, ls_Upstreams = default_upstreams, ls_DNSProtocol = [],
            ls_RoutingBackend = [], ls_KikimoraSocket = [], ls_WriterLock = LeshyWriterLockPath (fs_GOOS fs)\<rparr>
      in case fs_ReadFile fs path k of
           (Inl _, k') \<Rightarrow> (server, k')
         | (Inr data, k') \<Rightarrow>
             (case decode data of
                Inl _ \<Rightarrow> (server, k')
              | Inr p \<Rightarrow>
                  (server\<lparr>ls_ListenAddress := (if ls_ListenAddress p \<noteq> [] then ls_ListenAddress p else ls_ListenAddress server),
                          ls_Upstreams := (if ls_Upstreams p \<noteq> [] then ls_Upstreams p else ls_Upstreams server),
                          ls_DNSProtocol := (if ls_DNSProtocol p \<noteq> [] then ls_DNSProtocol p else ls_DNSProtocol server),
                          ls_RoutingBackend := ls_RoutingBackend p, ls_KikimoraSocket := ls_KikimoraSocket p\<rparr>, k')))"

definition ValidateDNSProtocol :: "string \<Rightarrow> goerror option" where
  "ValidateDNSProtocol p =
     (if p \<in> {[], ''udp'', ''tcp''} then None else Some (Errorf ''unsupported dns_protocol %q: want, udp or tcp''))"

text \<open>\<open>quote\<close> is the verb \<^verbatim>\<open>%q\<close>.\<close>

definition text_line :: "string \<Rightarrow> string" where
  "text_line s = s @ [CHR 0x0A]"

definition quoted_key :: "(string \<Rightarrow> string) \<Rightarrow> string \<Rightarrow> string \<Rightarrow> string" where
  "quoted_key quote key v = text_line (key @ '' = '' @ quote v)"

definition quoted_list :: "(string \<Rightarrow> string) \<Rightarrow> string \<Rightarrow> string list \<Rightarrow> string" where
  "quoted_list quote key vs =
     text_line (key @ '' = ['') @ concat (map (\<lambda>v. text_line (''    '' @ quote v @ '','')) vs) @ text_line '']''"

definition server_text :: "(string \<Rightarrow> string) \<Rightarrow> leshy_server \<Rightarrow> goerror + string" where
  "server_text quote s =
     (let head = text_line ''# Generated by Kikimora from the roles and their Leshy lists. Do not edit:'' @
                 text_line ''# change the list on the role page, the core rewrites this file.'' @ text_line ''[server]'' @
                 quoted_key quote ''listen_address'' (ls_ListenAddress s) @ quoted_list quote ''default_upstream'' (ls_Upstreams s) @
                 (if ls_DNSProtocol s \<noteq> [] then quoted_key quote ''dns_protocol'' (ls_DNSProtocol s) else []) @
                 (if ls_WriterLock s \<noteq> [] then quoted_key quote ''writer_lock'' (ls_WriterLock s) else [])
      in if ls_RoutingBackend s = ''kikimora'' then
           (if ls_KikimoraSocket s = [] then Inl (Errorf ''routing_backend = kikimora requires kikimora_socket'')
            else Inr (head @ quoted_key quote ''routing_backend'' ''kikimora'' @ quoted_key quote ''kikimora_socket'' (ls_KikimoraSocket s)))
         else if ls_RoutingBackend s = [] then Inr head
         else Inl (Errorf ''unknown routing backend %q''))"

definition zone_empty :: "leshy_zone_spec \<Rightarrow> bool" where
  "zone_empty z \<longleftrightarrow> lz_Domains z = [] \<and> lz_Patterns z = [] \<and> lz_StaticRoutes z = []"

definition zone_text :: "(string \<Rightarrow> string) \<Rightarrow> leshy_zone_spec \<Rightarrow> string" where
  "zone_text quote z =
     (if zone_empty z then []
      else text_line [] @ text_line ''[[zones]]'' @ quoted_key quote ''name'' (lz_Name z) @
           quoted_key quote ''mode'' (if lz_Mode z = [] then ''inclusive'' else lz_Mode z) @ text_line ''dns_servers = []'' @
           quoted_key quote ''route_type'' ''dev'' @ quoted_key quote ''route_target'' (lz_RouteTarget z) @
           text_line (''ipv6 = '' @ (if (case lz_IPv6 z of None \<Rightarrow> DefaultLeshyIPv6 | Some b \<Rightarrow> b) then ''true'' else ''false'')) @
           quoted_list quote ''domains'' (lz_Domains z) @ quoted_list quote ''patterns'' (lz_Patterns z) @
           quoted_list quote ''static_routes'' (lz_StaticRoutes z))"

definition leshy_text :: "(string \<Rightarrow> string) \<Rightarrow> leshy_server \<Rightarrow> leshy_zone_spec list \<Rightarrow> goerror + string" where
  "leshy_text quote raw zones =
     (let s = raw\<lparr>ls_ListenAddress := (if ls_ListenAddress raw = [] then default_listen else ls_ListenAddress raw),
                  ls_Upstreams := (if ls_Upstreams raw = [] then default_upstreams else ls_Upstreams raw)\<rparr>
      in case ValidateDNSProtocol (ls_DNSProtocol s) of
           Some e \<Rightarrow> Inl e
         | None \<Rightarrow> map_sum id (\<lambda>head. head @ concat (map (zone_text quote) zones)) (server_text quote s))"

definition WriteLeshyConfig ::
  "(string \<Rightarrow> string) \<Rightarrow> 'k file_system \<Rightarrow> string \<Rightarrow> leshy_server \<Rightarrow> leshy_zone_spec list \<Rightarrow> ('k, unit) tx" where
  "WriteLeshyConfig quote fs path server zones =
     bindT (fromSum (leshy_text quote server zones)) (\<lambda>text.
     bindT (mapErrT (Wrapf ''create leshy config directory: %w'') (fs_MkdirAll fs (filepath_Dir path))) (\<lambda>_.
     replace_unsynced fs (Wrapf ''write leshy config: %w'') (Wrapf ''replace leshy config: %w'') path text))"

definition RoleZoneTarget :: "string \<Rightarrow> string \<Rightarrow> string" where
  "RoleZoneTarget vpnDir role = filepath_Join vpnDir (role @ ''.dev'')"

fun role_zones ::
  "'k file_system \<Rightarrow> string \<Rightarrow> string \<Rightarrow> string list \<Rightarrow> ('k, leshy_zone_spec list) tx" where
  "role_zones fs dir vpnDir [] = returnT []"
| "role_zones fs dir vpnDir (name # names) =
     bindT (ReadRoutingList fs dir name) (\<lambda>content.
     bindT (fromSum (map_sum (Wrapf ''%s list: %w'') id (ValidateRoutingContent content))) (\<lambda>entries.
     bindT (role_zones fs dir vpnDir names) (\<lambda>zones.
     returnT (\<lparr>lz_Name = name, lz_Mode = [], lz_RouteTarget = RoleZoneTarget vpnDir name, lz_Domains = entries,
               lz_Patterns = [], lz_StaticRoutes = [], lz_IPv6 = None\<rparr> # zones))))"

definition BuildLeshyZones ::
  "'k file_system \<Rightarrow> string \<Rightarrow> string \<Rightarrow> string \<Rightarrow> ('k, leshy_zone_spec list) tx" where
  "BuildLeshyZones fs dir vpnDir bypassMode =
     bindT (ListRoutingFiles fs dir) (\<lambda>names.
     bindT (role_zones fs dir vpnDir names) (\<lambda>zones.
     returnT (zones @
       (if bypassMode \<noteq> [] \<and> bypassMode \<noteq> BypassDirect \<and> ValidRoutingList bypassMode
        then [\<lparr>lz_Name = BypassList, lz_Mode = [], lz_RouteTarget = RoleZoneTarget vpnDir bypassMode, lz_Domains = [],
               lz_Patterns = [''.*''], lz_StaticRoutes = [], lz_IPv6 = None\<rparr>]
        else []))))"

section \<open>The zones of the generated file\<close>

definition DefaultLeshyConfigPath :: "string \<Rightarrow> string" where
  "DefaultLeshyConfigPath goos =
     (if goos = ''windows'' then windows_path [''ProgramData'', ''leshy'', ''config.toml'']
      else ''/etc/kikimora/leshy/config.toml'')"

definition DefaultLeshyVPNDir :: "string \<Rightarrow> string" where
  "DefaultLeshyVPNDir goos =
     (if goos = ''windows'' then windows_path [''ProgramData'', ''Kikimora'', ''leshy'', ''vpn'']
      else ''/run/kikimora/leshy/vpn'')"

definition DefaultRoutingDir :: "string \<Rightarrow> string" where
  "DefaultRoutingDir goos =
     (if goos = ''windows'' then windows_path [''ProgramData'', ''Kikimora'', ''leshy'', ''domains'']
      else ''/etc/kikimora/leshy/domains'')"

definition DefaultBypassPath :: "string \<Rightarrow> string" where
  "DefaultBypassPath goos =
     (if goos = ''windows'' then windows_path [''ProgramData'', ''Kikimora'', ''leshy'', ''bypass.conf'']
      else ''/etc/kikimora/leshy/bypass.conf'')"

record leshy_zone =
  zn_Name :: string
  zn_Mode :: string
  zn_RouteTarget :: string

definition ReadLeshyZones ::
  "(string \<Rightarrow> goerror + leshy_zone list) \<Rightarrow> 'k file_system \<Rightarrow> string \<Rightarrow> ('k, leshy_zone list) tx" where
  "ReadLeshyZones decode fs path k =
     (case fs_ReadFile fs path k of
        (Inl e, k') \<Rightarrow> if os_IsNotExist e then (Inr [], k') else (Inl (Wrapf ''read leshy config: %w'' e), k')
      | (Inr data, k') \<Rightarrow> (map_sum (Wrapf ''parse leshy config: %w'') id (decode data), k'))"

section \<open>The switches for IPv6\<close>

record ipv6_settings =
  v6_Schema :: int
  v6_Roles :: "(string, bool) gomap"

record ipv6_codec =
  v6_Marshal :: "ipv6_settings \<Rightarrow> goerror + string"
  v6_Unmarshal :: "string \<Rightarrow> goerror + ipv6_settings"

definition roleIPv6SettingsSchema :: int where
  "roleIPv6SettingsSchema = 1"

definition roleIPv6SettingsPath :: "string \<Rightarrow> string" where
  "roleIPv6SettingsPath dir = filepath_Join dir ''role-ipv6.json''"

definition ReadRoleIPv6Settings ::
  "ipv6_codec \<Rightarrow> 'k file_system \<Rightarrow> string \<Rightarrow> 'k \<Rightarrow> (string, bool) gomap \<times> 'k" where
  "ReadRoleIPv6Settings jc fs dir k =
     (case fs_ReadFile fs (roleIPv6SettingsPath dir) k of
        (Inl _, k') \<Rightarrow> ([], k')
      | (Inr data, k') \<Rightarrow>
          (case v6_Unmarshal jc data of
             Inl _ \<Rightarrow> ([], k')
           | Inr s \<Rightarrow> (if v6_Schema s \<noteq> roleIPv6SettingsSchema then [] else v6_Roles s, k')))"

text \<open>On an error before the close the temporary file is removed and stays open.\<close>

definition writeAtomicJSONFile ::
  "'k file_system \<Rightarrow> ('a \<Rightarrow> goerror + string) \<Rightarrow> string \<Rightarrow> 'a \<Rightarrow> ('k, unit) tx" where
  "writeAtomicJSONFile fs marshal path v =
     (let dir = filepath_Dir path
      in bindT (fs_MkdirAll fs dir) (\<lambda>_.
         bindT (fromSum (marshal v)) (\<lambda>b.
         bindT (fs_CreateTemp fs dir ''.ipv6-'') (\<lambda>name.
         deferT (fs_Remove fs name)
           (bindT (fs_Chmod fs name 384) (\<lambda>_.
            bindT (fs_Write fs name (b @ [CHR 0x0A])) (\<lambda>_.
            bindT (fs_Sync fs name) (\<lambda>_.
            bindT (fs_Close fs name) (\<lambda>_.
            bindT (fs_Rename fs name path) (\<lambda>_.
            SyncDir fs dir))))))))))"

definition WriteRoleIPv6Setting ::
  "ipv6_codec \<Rightarrow> 'k file_system \<Rightarrow> string \<Rightarrow> string \<Rightarrow> bool \<Rightarrow> ('k, (string, bool) gomap) tx" where
  "WriteRoleIPv6Setting jc fs dir role enabled k =
     (case ReadRoleIPv6Settings jc fs dir k of
        (settings, k1) \<Rightarrow>
          let settings = gomap_put role enabled settings
          in bindT (writeAtomicJSONFile fs (v6_Marshal jc) (roleIPv6SettingsPath dir)
                      \<lparr>v6_Schema = roleIPv6SettingsSchema, v6_Roles = settings\<rparr>)
               (\<lambda>_. returnT settings) k1)"

section \<open>Ownership of the installation\<close>

record owners =
  ow_RoutingOwner :: string
  ow_TunnelOwner :: string
  ow_EndpointOwner :: string

definition owners_Normalized :: "owners \<Rightarrow> owners" where
  "owners_Normalized o1 =
     (let o2 = (if ow_RoutingOwner o1 = [] then o1\<lparr>ow_RoutingOwner := ''legacy''\<rparr> else o1);
          o3 = (if ow_TunnelOwner o2 = [] then o2\<lparr>ow_TunnelOwner := ''external''\<rparr> else o2)
      in if ow_EndpointOwner o3 = [] then o3\<lparr>ow_EndpointOwner := ow_RoutingOwner o3\<rparr> else o3)"

definition owners_Valid :: "owners \<Rightarrow> goerror option" where
  "owners_Valid raw =
     (let w = owners_Normalized raw
      in if ow_RoutingOwner w \<notin> {''legacy'', ''go''} \<or> ow_EndpointOwner w \<notin> {''legacy'', ''go''} \<or>
            ow_TunnelOwner w \<notin> {''external'', ''go''} then Some (Errorf ''invalid orchestration ownership values'')
         else if ow_RoutingOwner w = ''legacy'' \<and> ow_TunnelOwner w = ''go''
           then Some (Errorf ''legacy routing owner cannot run with Go-owned Toad tunnels'')
         else None)"

definition LoadOwnership :: "(string \<Rightarrow> goerror + owners) \<Rightarrow> 'k file_system \<Rightarrow> string \<Rightarrow> ('k, owners) tx" where
  "LoadOwnership decode fs path =
     bindT (mapErrT (Wrapf ''read ownership config: %w'') (fs_ReadFile fs path)) (\<lambda>data.
     bindT (fromSum (map_sum (Wrapf ''decode ownership config: %w'') id (decode data))) (\<lambda>raw.
     let w = owners_Normalized raw
     in case owners_Valid w of Some e \<Rightarrow> throwT e | None \<Rightarrow> returnT w))"

end
