(* ===== verification/Config_Commands.thy ===== *)
theory Config_Commands
  imports Config_Files Core_Manager
begin

text \<open>
  The configuration commands of the core manager (\<^verbatim>\<open>control/config_api.go\<close>): tunnels and
  profiles, which change files first and the running composition after them, and the router's
  lists, switches and generated configuration, which are files only.
\<close>

section \<open>Services\<close>

text \<open>The file system, the codecs and the paths of the manager. \<open>cs_Reload\<close> is the hook of
  \<^verbatim>\<open>reloadLeshy\<close>.\<close>

record 'k config_services =
  cs_FS :: "'k file_system"
  cs_Codec :: config_codec
  cs_Unquote :: "string \<Rightarrow> goerror + string"
  cs_Server :: "string \<Rightarrow> goerror + leshy_server"
  cs_IPv6 :: ipv6_codec
  cs_Quote :: "string \<Rightarrow> string"
  cs_Reload :: "('k, unit) tx"
  cs_configDir :: string
  cs_routingDir :: string
  cs_leshyConfigPath :: string
  cs_bypassConfigPath :: string

definition no_config_dir :: goerror where
  "no_config_dir = Errorf ''the core has no configuration directory''"

section \<open>Tunnels\<close>

definition CreateTunnel :: "'k config_services \<Rightarrow> tunnel_spec option \<Rightarrow> ('k, string) tx" where
  "CreateTunnel cs spec =
     (case spec of
        None \<Rightarrow> throwT (Errorf ''tunnel spec is required'')
      | Some s \<Rightarrow>
          if cs_configDir cs = [] then throwT no_config_dir
          else config_CreateTunnel (cs_Codec cs) (cs_FS cs) (cs_configDir cs) s)"

definition set_profiles :: "string \<Rightarrow> string list \<Rightarrow> 'k world \<Rightarrow> 'k world" where
  "set_profiles name profiles = set_role name (\<lambda>r. r\<lparr>mr_cfg := map_option (\<lambda>c. c\<lparr>cf_Profiles := profiles\<rparr>) (mr_cfg r)\<rparr>)"

definition SetTunnelProfiles :: "'k config_services \<Rightarrow> string \<Rightarrow> string list \<Rightarrow> ('k world, string) tx" where
  "SetTunnelProfiles cs name profiles =
     (if cs_configDir cs = [] then throwT no_config_dir
      else if profiles = [] then throwT (Errorf ''role %q needs at least one profile'')
      else
        bindT (on_host (config_SetTunnelProfiles (cs_Codec cs) (cs_FS cs) (cs_configDir cs) name profiles)) (\<lambda>path w.
          (Inr path,
           if role_of name w = None then w else bumpLocked (rebuildProfileMapLocked (set_profiles name profiles w)))))"

definition RemoveTunnel :: "'k config_services \<Rightarrow> string \<Rightarrow> ('k, unit) tx" where
  "RemoveTunnel cs name =
     (if cs_configDir cs = [] then throwT no_config_dir else config_RemoveTunnel (cs_FS cs) (cs_configDir cs) name)"

section \<open>Profiles\<close>

fun wanted_roles :: "string list \<Rightarrow> goerror + string list" where
  "wanted_roles [] = Inr []"
| "wanted_roles (r # rs) =
     (if TrimSpace r = [] then Inl (Errorf ''role name must not be empty'')
      else map_sum id ((#) (TrimSpace r)) (wanted_roles rs))"

definition without_profile :: "string \<Rightarrow> string list \<Rightarrow> string list" where
  "without_profile name profiles =
     (let left = filter (\<lambda>p. p \<noteq> name) profiles in if left = [] then [''default''] else left)"

text \<open>The memberships that change, in the order the roles are visited.\<close>

definition membership_change :: "string \<Rightarrow> string list \<Rightarrow> string \<times> manager_role \<Rightarrow> (string \<times> string list) option" where
  "membership_change name wanted nr =
     (case nr of (roleName, r) \<Rightarrow>
        let profiles = role_profiles_of r; has = name \<in> set profiles
        in if roleName \<in> set wanted \<and> \<not> has then Some (roleName, profiles @ [name])
           else if roleName \<notin> set wanted \<and> has then Some (roleName, without_profile name profiles)
           else None)"

definition membership_changes :: "string \<Rightarrow> string list \<Rightarrow> 'k world \<Rightarrow> (string \<times> string list) list" where
  "membership_changes name wanted w = List.map_filter (membership_change name wanted) (dv_Roles (ew_Driver w))"

definition apply_memberships :: "(string \<times> string list) list \<Rightarrow> 'k world \<Rightarrow> 'k world" where
  "apply_memberships changes w = foldl (\<lambda>w (role, profiles). set_profiles role profiles w) w changes"

definition write_memberships :: "'k config_services \<Rightarrow> (string \<times> string list) list \<Rightarrow> ('k, unit) tx" where
  "write_memberships cs =
     eachT (\<lambda>(role, profiles).
       if cs_configDir cs = [] then returnT ()
       else bindT (config_SetTunnelProfiles (cs_Codec cs) (cs_FS cs) (cs_configDir cs) role profiles) (\<lambda>_. returnT ()))"

definition SetProfileRoles :: "'k config_services \<Rightarrow> string \<Rightarrow> string list \<Rightarrow> ('k world, unit) tx" where
  "SetProfileRoles cs profile roles =
     (let name = TrimSpace profile
      in if name = ''default'' then throwT (Errorf ''the default profile always contains every role'')
         else
           bindT (fromSum (wanted_roles roles)) (\<lambda>wanted w.
             if map_of (bk_profileToRoles (book w)) name = None then (Inl (Errorf ''unknown profile %q''), w)
             else if \<not> list_all (\<lambda>r. role_of r w \<noteq> None) wanted then (Inl (Errorf ''unknown role %q''), w)
             else let changes = membership_changes name wanted w
                  in bindT (on_host (write_memberships cs changes)) (\<lambda>_ w.
                       (Inr (), bumpLocked (rebuildProfileMapLocked (apply_memberships changes w)))) w))"

text \<open>The number of profiles the registry gained comes back with an error too.\<close>

definition CreateProfile ::
  "'k config_services \<Rightarrow> string \<Rightarrow> string list \<Rightarrow> 'k world \<Rightarrow> (int \<times> goerror option) \<times> 'k world" where
  "CreateProfile cs profile roles w =
     (let name = TrimSpace profile
      in if cs_configDir cs = [] then ((0, Some no_config_dir), w)
         else case on_host (AddDeclaredProfile (cs_FS cs) (cs_configDir cs) name) w of
                (Inl e, w1) \<Rightarrow> ((0, Some e), w1)
              | (Inr added, w1) \<Rightarrow>
                  let w2 = bumpLocked (rebuildProfileMapLocked (update_book (\<lambda>b.
                             if name \<in> set (bk_declaredProfiles b) then b
                             else b\<lparr>bk_declaredProfiles := bk_declaredProfiles b @ [name]\<rparr>) w1));
                      count = (if added then 1 else 0)
                  in if roles = [] then ((count, None), w2)
                     else case SetProfileRoles cs name roles w2 of
                            (Inl e, w3) \<Rightarrow> ((count, Some e), w3)
                          | (Inr _, w3) \<Rightarrow> ((count, None), w3))"

section \<open>The router\<close>

definition routingDirectory :: "'k config_services \<Rightarrow> string" where
  "routingDirectory cs = (if cs_routingDir cs \<noteq> [] then cs_routingDir cs else DefaultRoutingDir (fs_GOOS (cs_FS cs)))"

definition bypassPath :: "'k config_services \<Rightarrow> string" where
  "bypassPath cs = (if cs_bypassConfigPath cs \<noteq> [] then cs_bypassConfigPath cs else DefaultBypassPath (fs_GOOS (cs_FS cs)))"

definition RoutingListNames :: "'k world \<Rightarrow> string list" where
  "RoutingListNames w = namesLocked w"

definition zone_policy :: "(string, bool) gomap \<Rightarrow> leshy_zone_spec \<Rightarrow> leshy_zone_spec" where
  "zone_policy settings z =
     z\<lparr>lz_IPv6 := Some (case map_of settings (lz_Name z) of None \<Rightarrow> DefaultLeshyIPv6 | Some b \<Rightarrow> b)\<rparr>"

text \<open>\<open>socket\<close> is \<^verbatim>\<open>managedSocketForGeneration\<close>.\<close>

definition managed_server :: "string \<Rightarrow> leshy_server \<Rightarrow> leshy_server" where
  "managed_server socket server =
     (if socket \<noteq> [] then server\<lparr>ls_RoutingBackend := ''kikimora'', ls_KikimoraSocket := socket\<rparr>
      else server\<lparr>ls_RoutingBackend := [], ls_KikimoraSocket := []\<rparr>)"

definition RegenerateLeshyConfig :: "'k config_services \<Rightarrow> string \<Rightarrow> ('k, unit) tx" where
  "RegenerateLeshyConfig cs socket k =
     (let fs = cs_FS cs; goos = fs_GOOS fs;
          path = (if cs_leshyConfigPath cs = [] then DefaultLeshyConfigPath goos else cs_leshyConfigPath cs)
      in case ReadLeshyServer (cs_Server cs) fs path k of (server, k1) \<Rightarrow>
         (case ReadBypassMode fs (bypassPath cs) k1 of (mode, k2) \<Rightarrow>
            bindT (BuildLeshyZones fs (routingDirectory cs) (DefaultLeshyVPNDir goos) mode) (\<lambda>zones k3.
              case ReadRoleIPv6Settings (cs_IPv6 cs) fs (routingDirectory cs) k3 of (settings, k4) \<Rightarrow>
                WriteLeshyConfig (cs_Quote cs) fs path (managed_server socket server) (map (zone_policy settings) zones) k4) k2))"

text \<open>The socket the manager had before is back in place afterwards.\<close>

definition RegenerateLeshyConfigForMode :: "'k config_services \<Rightarrow> string \<Rightarrow> string \<Rightarrow> ('k, unit) tx" where
  "RegenerateLeshyConfigForMode cs mode socket =
     (if mode = ''managed'' then
        (if socket = [] then throwT (Errorf ''managed mode requires the kikimora_socket path'')
         else RegenerateLeshyConfig cs socket)
      else if mode = ''local'' then RegenerateLeshyConfig cs []
      else throwT (Errorf ''unknown committed mode %q''))"

definition RoleIPv6 :: "'k config_services \<Rightarrow> string \<Rightarrow> 'k \<Rightarrow> bool \<times> 'k" where
  "RoleIPv6 cs role k =
     (case ReadRoleIPv6Settings (cs_IPv6 cs) (cs_FS cs) (routingDirectory cs) k of
        (settings, k') \<Rightarrow> (case map_of settings role of None \<Rightarrow> DefaultLeshyIPv6 | Some b \<Rightarrow> b, k'))"

definition SetRoleIPv6 :: "'k config_services \<Rightarrow> string \<Rightarrow> string \<Rightarrow> bool \<Rightarrow> ('k world, unit) tx" where
  "SetRoleIPv6 cs socket role enabled w =
     (if role_of role w = None then (Inl (Errorf ''unknown role %q''), w)
      else on_host (bindT (WriteRoleIPv6Setting (cs_IPv6 cs) (cs_FS cs) (routingDirectory cs) role enabled) (\<lambda>_.
                    RegenerateLeshyConfig cs socket)) w)"

definition BypassMode :: "'k config_services \<Rightarrow> 'k \<Rightarrow> string \<times> 'k" where
  "BypassMode cs = ReadBypassMode (cs_FS cs) (bypassPath cs)"

definition SetBypassMode :: "'k config_services \<Rightarrow> string \<Rightarrow> string \<Rightarrow> ('k, unit) tx" where
  "SetBypassMode cs socket mode =
     bindT (WriteBypassMode (cs_FS cs) (bypassPath cs) mode) (\<lambda>_. RegenerateLeshyConfig cs socket)"

definition RoutingList :: "'k config_services \<Rightarrow> string \<Rightarrow> ('k, string) tx" where
  "RoutingList cs name = ReadRoutingList (cs_FS cs) (routingDirectory cs) name"

definition SetRoutingList :: "'k config_services \<Rightarrow> string \<Rightarrow> string \<Rightarrow> ('k, unit) tx" where
  "SetRoutingList cs name content = WriteRoutingList (cs_FS cs) (routingDirectory cs) name content"

end
