(* ===== verification/Routing_Lists.thy ===== *)
theory Routing_Lists
  imports Config_Commands Disk_Model
begin

text \<open>
  Routing lists round trip: a list that was saved reads back as the same entries, and saving what
  was read changes nothing. A saved list has one trimmed line per comment or entry, its entries in
  lower case, and no byte order mark.
\<close>

section \<open>Text\<close>

definition lower_char :: "char \<Rightarrow> char" where
  "lower_char c = (if CHR ''A'' \<le> c \<and> c \<le> CHR ''Z'' then char_of (of_char c + 32 :: nat) else c)"

lemma ToLower_map: "strings_ToLower s = map lower_char s"
  by (simp add: strings_ToLower_def lower_char_def)

lemma upper_char: "CHR ''A'' \<le> c \<and> c \<le> CHR ''Z'' \<longleftrightarrow> 65 \<le> (of_char c :: nat) \<and> of_char c \<le> (90 :: nat)"
  by (simp add: less_eq_char_def)

lemma lower_char_code: "of_char (lower_char c) = (if 65 \<le> (of_char c :: nat) \<and> of_char c \<le> (90 :: nat) then of_char c + 32 else of_char c :: nat)"
  by (simp add: lower_char_def upper_char)

lemma char_code_eq: "c = d \<longleftrightarrow> (of_char c :: nat) = of_char d"
  by simp

lemma lower_char_idem [simp]: "lower_char (lower_char c) = lower_char c"
  unfolding char_code_eq lower_char_code by auto

lemma lower_char_other: "\<not> (65 \<le> (of_char d :: nat) \<and> of_char d \<le> (122 :: nat)) \<Longrightarrow> lower_char c = d \<longleftrightarrow> c = d"
  unfolding char_code_eq lower_char_code by auto

lemma lower_space [simp]: "is_space (lower_char c) \<longleftrightarrow> is_space c"
  by (simp add: is_space_def lower_char_other)

lemma TrimSpace_map: "(\<And>c. is_space (f c) = is_space c) \<Longrightarrow> TrimSpace (map f s) = map f (TrimSpace s)"
  by (simp add: TrimSpace_def dropWhile_map rev_map comp_def)

lemma TrimSpace_lower [simp]: "TrimSpace (strings_ToLower s) = strings_ToLower (TrimSpace s)"
  by (simp add: ToLower_map TrimSpace_map)

lemma ToLower_idem [simp]: "strings_ToLower (strings_ToLower s) = strings_ToLower s"
  by (simp add: ToLower_map)

lemma dropWhile_back: "\<not> P (hd xs) \<Longrightarrow> xs \<noteq> [] \<Longrightarrow> dropWhile P xs = xs"
  by (cases xs) auto

lemma TrimSpace_ends:
  assumes "TrimSpace s \<noteq> []"
  shows "\<not> is_space (hd (TrimSpace s))" "\<not> is_space (last (TrimSpace s))"
proof -
  let ?d = "dropWhile is_space s" and ?r = "dropWhile is_space (rev (dropWhile is_space s))"
  have r: "?r \<noteq> []" using assms by (simp add: TrimSpace_def)
  have d: "?d \<noteq> []"
  proof
    assume "?d = []"
    with r show False by (simp only: rev.simps dropWhile.simps simp_thms)
  qed
  have "last (TrimSpace s) = hd ?r" using r by (simp add: TrimSpace_def last_rev)
  with hd_dropWhile [OF r] show "\<not> is_space (last (TrimSpace s))" by simp
  obtain t where t: "rev ?d = t @ ?r" using takeWhile_dropWhile_id [of is_space "rev ?d"] by metis
  then have "?d = rev ?r @ rev t" by (metis rev_append rev_rev_ident)
  then have "hd ?d = hd (rev ?r)" using r by (metis hd_append2 rev_is_Nil_conv)
  with hd_dropWhile [OF d] show "\<not> is_space (hd (TrimSpace s))" by (simp add: TrimSpace_def)
qed

lemma TrimSpace_idem [simp]: "TrimSpace (TrimSpace s) = TrimSpace s"
proof (cases "TrimSpace s = []")
  case False
  note ends = TrimSpace_ends [OF False]
  have "dropWhile is_space (TrimSpace s) = TrimSpace s" using ends(1) False by (rule dropWhile_back)
  moreover have "dropWhile is_space (rev (TrimSpace s)) = rev (TrimSpace s)"
    using ends(2) False by (intro dropWhile_back) (simp_all add: hd_rev)
  ultimately show ?thesis by (subst (1) TrimSpace_def) simp
next
  case True
  have "TrimSpace [] = []" by (simp add: TrimSpace_def)
  then show ?thesis by (simp only: True)
qed

lemma set_TrimSpace: "set (TrimSpace s) \<subseteq> set s"
proof -
  have "set (dropWhile is_space t) \<subseteq> set t" for t :: string by (auto dest: set_dropWhileD)
  then show ?thesis unfolding TrimSpace_def by (metis (no_types) dual_order.trans set_rev)
qed

section \<open>Lines\<close>

lemma split_on_clean: "d \<notin> set s \<Longrightarrow> split_on d (s @ d # t) = s # split_on d t"
  by (induction s) auto

lemma split_on_fields: "f \<in> set (split_on d s) \<Longrightarrow> d \<notin> set f"
  by (induction s arbitrary: f) (auto split: if_splits list.splits)

lemma split_print:
  "list_all (\<lambda>l. CHR 0x0A \<notin> set l) ls \<Longrightarrow> split_on (CHR 0x0A) (print_registry ls) = ls @ [[]]"
proof (induction ls)
  case Nil
  show ?case by (simp add: print_registry_def)
next
  case (Cons l ls)
  have "print_registry (l # ls) = l @ CHR 0x0A # print_registry ls" by (simp add: print_registry_def)
  with Cons show ?case by (simp add: split_on_clean)
qed

section \<open>Saved lists\<close>

text \<open>A line of a saved list.\<close>

definition saved_line :: "string \<Rightarrow> bool" where
  "saved_line l \<longleftrightarrow> l \<noteq> [] \<and> TrimSpace l = l \<and> CHR 0x0A \<notin> set l \<and>
     (has_prefix ''#'' l \<or> strings_ToLower l = l \<and> ValidateRoutingEntry l = None)"

lemma has_prefix_hash: "has_prefix ''#'' l \<longleftrightarrow> l \<noteq> [] \<and> hd l = CHR ''#''"
  by (cases l) auto

lemma hash_lower [simp]: "has_prefix ''#'' (strings_ToLower l) \<longleftrightarrow> has_prefix ''#'' l"
  by (cases l) (simp_all add: has_prefix_hash ToLower_map lower_char_other eq_commute [of "CHR ''#''"])

lemma ToLower_empty [simp]: "strings_ToLower l = [] \<longleftrightarrow> l = []"
  by (simp add: ToLower_map)

lemma newline_lower [simp]: "CHR 0x0A \<in> set (strings_ToLower l) \<longleftrightarrow> CHR 0x0A \<in> set l"
proof -
  have "lower_char c = CHR 0x0A \<longleftrightarrow> c = CHR 0x0A" for c by (rule lower_char_other) simp
  then show ?thesis unfolding ToLower_map set_map by (metis image_iff)
qed

lemma ValidateRoutingEntry_lower: "ValidateRoutingEntry (strings_ToLower l) = ValidateRoutingEntry l"
  by (simp add: ValidateRoutingEntry_def Let_def)

lemma normalized_saved:
  "normalized_lines raw = Inr ls \<Longrightarrow> list_all (\<lambda>r. CHR 0x0A \<notin> set r) raw \<Longrightarrow>
     list_all saved_line ls \<and>
     routing_entries raw = Inr (filter (\<lambda>l. \<not> has_prefix ''#'' l) ls)"
proof (induction raw arbitrary: ls)
  case (Cons r raw)
  let ?l = "TrimSpace r"
  have clean: "CHR 0x0A \<notin> set ?l" using Cons.prems(2) set_TrimSpace [of r] by auto
  have tail: "list_all (\<lambda>r. CHR 0x0A \<notin> set r) raw" using Cons.prems(2) by simp
  consider "?l = []" | "?l \<noteq> []" "has_prefix ''#'' ?l" | "?l \<noteq> []" "\<not> has_prefix ''#'' ?l" by blast
  then show ?case
  proof cases
    case 1
    with Cons.prems Cons.IH [OF _ tail] show ?thesis by simp
  next
    case 2
    with Cons.prems obtain rest where rest: "normalized_lines raw = Inr rest" "ls = ?l # rest"
      by (cases "normalized_lines raw") auto
    with 2 Cons.IH [OF rest(1) tail] clean show ?thesis by (simp add: saved_line_def)
  next
    case 3
    with Cons.prems have ok: "ValidateRoutingEntry ?l = None" by (auto simp: Let_def split: option.splits)
    with 3 Cons.prems obtain rest where rest: "normalized_lines raw = Inr rest" "ls = strings_ToLower ?l # rest"
      by (cases "normalized_lines raw") auto
    with 3 ok Cons.IH [OF rest(1) tail] clean show ?thesis
      by (simp add: saved_line_def ValidateRoutingEntry_lower)
  qed
qed simp

lemma saved_normalized:
  "list_all saved_line ls \<Longrightarrow> normalized_lines (ls @ [[]]) = Inr ls \<and>
     routing_entries (ls @ [[]]) = Inr (filter (\<lambda>l. \<not> has_prefix ''#'' l) ls)"
proof (induction ls)
  case Nil
  show ?case by (simp add: TrimSpace_def)
next
  case (Cons l ls)
  then show ?case by (cases "has_prefix ''#'' l") (auto simp: saved_line_def)
qed

lemma normalize_again:
  assumes "normalizeRoutingContent content = Inr ls"
  shows "list_all saved_line ls" "normalizeRoutingContent (print_registry ls) = Inr ls"
    "ValidateRoutingContent (print_registry ls) = ValidateRoutingContent content"
proof -
  have "list_all (\<lambda>r. CHR 0x0A \<notin> set r) (split_on (CHR 0x0A) content)"
    by (auto simp: list_all_iff dest: split_on_fields)
  note saved = normalized_saved [OF assms [unfolded normalizeRoutingContent_def] this]
  then show "list_all saved_line ls" by simp
  moreover from this have "list_all (\<lambda>l. CHR 0x0A \<notin> set l) ls" by (auto simp: list_all_iff saved_line_def)
  ultimately show "normalizeRoutingContent (print_registry ls) = Inr ls"
    "ValidateRoutingContent (print_registry ls) = ValidateRoutingContent content"
    using saved saved_normalized [of ls]
    by (simp_all add: normalizeRoutingContent_def ValidateRoutingContent_def split_print)
qed

section \<open>No byte order mark\<close>

text \<open>The first byte of what the validator accepts.\<close>

definition mark_free :: "string \<Rightarrow> bool" where
  "mark_free s \<longleftrightarrow> s \<noteq> [] \<and> hd s \<noteq> CHR 0xEF"

lemma parseIPv4_head: "parseIPv4 s = Some a \<Longrightarrow> mark_free s"
proof -
  assume "parseIPv4 s = Some a"
  then have fields: "list_all (\<lambda>x. x \<noteq> None) (map parse_octet (split_on (CHR ''.'') s))"
    by (auto simp: parseIPv4_def parseIPv4Fields_def Let_def split: if_splits)
  show ?thesis
  proof (cases s)
    case Nil
    with fields show ?thesis by (simp add: parse_octet_def)
  next
    case (Cons c cs)
    with fields have "c \<noteq> CHR ''.''" by (auto simp: parse_octet_def)
    with Cons fields have "is_digit c" by (auto simp: parse_octet_def Let_def split: list.splits if_splits)
    with Cons show ?thesis by (auto simp: mark_free_def is_digit_def)
  qed
qed

lemma parse_hex_group_head: "parse_hex_group s \<noteq> None \<Longrightarrow> mark_free s"
  by (cases s) (auto simp: parse_hex_group_def Let_def mark_free_def hex_value_def split: if_splits)

lemma parse_groups_head: "parse_groups (Suc n) s acc ell \<noteq> None \<Longrightarrow> mark_free s"
  by (rule parse_hex_group_head) (auto split: option.splits)

lemma parseIPv6_head:
  assumes "parseIPv6 s = Some a"
  shows "mark_free s"
proof -
  let ?t = "takeWhile (\<lambda>c. c \<noteq> CHR ''%'') s"
  have "take 2 ?t = ''::'' \<or> parse_groups (Suc 7) ?t [] None \<noteq> None"
    using assms by (auto simp: parseIPv6_def Let_def eval_nat_numeral split: if_splits option.splits)
  then have "mark_free ?t"
  proof
    assume "take 2 ?t = ''::''"
    then show ?thesis by (cases ?t) (auto simp: mark_free_def)
  qed (rule parse_groups_head)
  then show ?thesis by (cases s) (auto simp: mark_free_def split: if_splits)
qed

lemma ParseAddr_head: "ParseAddr s = Some a \<Longrightarrow> mark_free s"
proof -
  have "ParseAddr_scan s t = Some a \<Longrightarrow> mark_free s" for t
    by (induction t) (auto split: if_splits dest: parseIPv4_head parseIPv6_head)
  then show "ParseAddr s = Some a \<Longrightarrow> mark_free s" by (simp add: ParseAddr_def)
qed

lemma accepted_IP_head: "accepted_IP s \<noteq> None \<Longrightarrow> mark_free s"
  by (auto simp: accepted_IP_def split: option.splits dest: ParseAddr_head)

lemma accepts_CIDR_head: "accepts_CIDR s \<Longrightarrow> mark_free s"
proof -
  assume "accepts_CIDR s"
  then have "mark_free (takeWhile (\<lambda>x. x \<noteq> CHR ''/'') s)"
    by (auto simp: accepts_CIDR_def strings_Cut_def split: option.splits if_splits intro!: accepted_IP_head)
  then show ?thesis by (cases s) (auto simp: mark_free_def split: if_splits)
qed

lemma label_char_head: "label_char c \<Longrightarrow> c \<noteq> CHR 0xEF"
  by (auto simp: label_char_def is_lower_def is_digit_def)

lemma routingDomainRE_head: "routingDomainRE s \<Longrightarrow> mark_free s"
proof (cases s)
  case Nil
  then show "routingDomainRE s \<Longrightarrow> mark_free s" by (simp add: routingDomainRE_def Let_def)
next
  case (Cons c cs)
  assume re: "routingDomainRE s"
  show ?thesis
  proof (cases "has_prefix ''*.'' s")
    case True
    with Cons show ?thesis by (auto simp: mark_free_def)
  next
    case False
    with re have labels: "list_all domain_label (split_on (CHR ''.'') s)" by (simp add: routingDomainRE_def Let_def)
    with Cons have "c \<noteq> CHR ''.''" by (auto simp: domain_label_def)
    with Cons labels have "label_char c" by (auto simp: domain_label_def split: list.splits)
    with Cons show ?thesis by (auto simp: mark_free_def dest: label_char_head)
  qed
qed

lemma entry_head: "ValidateRoutingEntry l = None \<Longrightarrow> mark_free (strings_ToLower (TrimSpace l))"
proof -
  let ?v = "strings_ToLower (TrimSpace l)"
  assume "ValidateRoutingEntry l = None"
  then have "accepts_CIDR ?v \<or> accepted_IP ?v \<noteq> None \<or> routingDomainRE ?v"
    by (simp add: ValidateRoutingEntry_def Let_def split: if_splits)
  then show ?thesis using accepts_CIDR_head accepted_IP_head routingDomainRE_head by blast
qed

lemma saved_line_head: "saved_line l \<Longrightarrow> mark_free l"
  using entry_head [of l] by (auto simp: saved_line_def mark_free_def has_prefix_hash)

lemma saved_no_mark: "list_all saved_line ls \<Longrightarrow> TrimPrefix (print_registry ls) byte_order_mark = print_registry ls"
proof (cases ls)
  case (Cons l rest)
  assume "list_all saved_line ls"
  with Cons have "mark_free l" by (simp add: saved_line_head)
  with Cons have "hd (print_registry ls) \<noteq> CHR 0xEF" "print_registry ls \<noteq> []" by (auto simp: print_registry_def mark_free_def)
  then show ?thesis by (cases "print_registry ls") (auto simp: TrimPrefix_def byte_order_mark_def)
qed (simp add: print_registry_def TrimPrefix_def byte_order_mark_def)

section \<open>On the disk\<close>

lemma put_content [simp]: "disk_content (put_file p x d) p = Some x"
  by (simp add: disk_content_def put_file_def split: option.splits)

lemma WriteFile_content:
  "disk_WriteFile p x d = (Inr u, d') \<Longrightarrow> disk_content d' p = Some x"
  by (auto simp: disk_WriteFile_def scripted_def split: list.splits call_outcome.splits)

lemma Rename_content:
  "disk_Rename n p d = (Inr u, d') \<Longrightarrow> disk_content d' p = disk_content d n"
  by (auto simp: disk_Rename_def scripted_def disk_content_def split: list.splits call_outcome.splits option.splits)

lemma replaced_content:
  assumes "replace_unsynced disk_fs f g p x d = (Inr (), d')"
  shows "disk_content d' p = Some x"
proof -
  from assms obtain d1 where "disk_WriteFile (p @ ''.tmp'') x d = (Inr (), d1)" "disk_Rename (p @ ''.tmp'') p d1 = (Inr (), d')"
    by (auto simp: replace_unsynced_def disk_fs_def bindT_apply mapErrT_def onErrorT_def Let_def split: prod.splits sum.splits)
  then show ?thesis by (simp add: WriteFile_content Rename_content)
qed

text \<open>C38: a routing list that was saved reads back as text with the same entries, in the same order
  and in lower case, and saving that text again writes the very same file: the comments and the
  entries survive any number of edits, and what was saved never fails to load.\<close>

theorem routing_list_roundtrip:
  assumes fs: "cs_FS cs = disk_fs"
    and saved: "SetRoutingList cs name content d = (Inr (), d')"
  shows "\<exists>text. RoutingList cs name d' = (Inr text, d') \<and> ValidateRoutingContent text = ValidateRoutingContent content \<and>
     (\<exists>entries. ValidateRoutingContent text = Inr entries) \<and>
     (\<forall>d1 d2. SetRoutingList cs name text d1 = (Inr (), d2) \<longrightarrow>
        disk_content d2 (list_path (routingDirectory cs) name) = disk_content d' (list_path (routingDirectory cs) name))"
proof -
  let ?p = "list_path (routingDirectory cs) name"
  have step: "ValidRoutingList name \<and> (\<exists>ls. normalizeRoutingContent c = Inr ls \<and> disk_content k' ?p = Some (print_registry ls))"
    if "SetRoutingList cs name c k = (Inr (), k')" for c k k'
    using that unfolding SetRoutingList_def WriteRoutingList_def fs
    by (auto simp: bindT_apply throwT_def fromSum_def mapErrT_def split: if_splits sum.splits prod.splits dest: replaced_content)
  from step [OF saved] obtain ls where ls: "ValidRoutingList name" "normalizeRoutingContent content = Inr ls"
    "disk_content d' ?p = Some (print_registry ls)" by blast
  note again = normalize_again [OF ls(2)]
  have "RoutingList cs name d' = (Inr (print_registry ls), d')"
    using ls(1,3) saved_no_mark [OF again(1)]
    by (simp add: RoutingList_def ReadRoutingList_def fs disk_fs_def disk_ReadFile_def)
  moreover have "\<exists>entries. ValidateRoutingContent (print_registry ls) = Inr entries"
  proof -
    have "list_all (\<lambda>l. CHR 0x0A \<notin> set l) ls" using again(1) by (auto simp: list_all_iff saved_line_def)
    then show ?thesis using saved_normalized [OF again(1)] by (simp add: ValidateRoutingContent_def split_print)
  qed
  moreover have "disk_content d2 ?p = disk_content d' ?p" if "SetRoutingList cs name (print_registry ls) d1 = (Inr (), d2)" for d1 d2
    using step [OF that] again(2) ls(3) by auto
  ultimately show ?thesis using again(3) by blast
qed

text \<open>A file system for examples: the codecs know nothing.\<close>

definition bare_services :: "'k file_system \<Rightarrow> 'k config_services" where
  "bare_services fs = \<lparr>cs_FS = fs, cs_Codec = \<lparr>cc_Decode = (\<lambda>_. Inl (Errorf ''decode'')), cc_Encode = (\<lambda>_. Inl (Errorf ''encode'')),
       cc_URL = (\<lambda>_. Inl (Errorf ''parse''))\<rparr>, cs_Unquote = Inr, cs_Server = (\<lambda>_. Inl (Errorf ''decode'')),
     cs_IPv6 = \<lparr>v6_Marshal = (\<lambda>_. Inl (Errorf ''encode'')), v6_Unmarshal = (\<lambda>_. Inl (Errorf ''decode''))\<rparr>, cs_Quote = (\<lambda>s. s),
     cs_Reload = returnT (), cs_configDir = ''/etc/kikimora/toads'', cs_routingDir = [], cs_leshyConfigPath = [], cs_bypassConfigPath = []\<rparr>"

definition blank_disk :: "call_outcome list \<Rightarrow> disk" where
  "blank_disk script = \<lparr>dk_Inodes = [], dk_Next = 0, dk_Names = [], dk_Durable = [], dk_Script = script, dk_Clock = 5\<rparr>"

definition home_list :: string where
  "home_list = ''# work'' @ [CHR 0x0D, CHR 0x0A] @ ''  Example.COM '' @ [CHR 0x0A, CHR 0x0A] @ ''10.0.0.0/8'' @ [CHR 0x0A] @ ''2001:DB8::1''"

theorem routing_list_roundtrip_witness:
  "\<exists>text. RoutingList (bare_services disk_fs) ''home''
       (snd (SetRoutingList (bare_services disk_fs) ''home'' home_list (blank_disk [Works, Works, Works]))) =
     (Inr text, snd (SetRoutingList (bare_services disk_fs) ''home'' home_list (blank_disk [Works, Works, Works]))) \<and>
     ValidateRoutingContent text = Inr [''example.com'', ''10.0.0.0/8'', ''2001:db8::1'']"
proof -
  have "fst (SetRoutingList (bare_services disk_fs) ''home'' home_list (blank_disk [Works, Works, Works])) = Inr ()" by code_simp
  then have "SetRoutingList (bare_services disk_fs) ''home'' home_list (blank_disk [Works, Works, Works]) =
    (Inr (), snd (SetRoutingList (bare_services disk_fs) ''home'' home_list (blank_disk [Works, Works, Works])))"
    by (metis prod.collapse)
  moreover have "cs_FS (bare_services disk_fs) = disk_fs" by (simp add: bare_services_def)
  moreover have "ValidateRoutingContent home_list = Inr [''example.com'', ''10.0.0.0/8'', ''2001:db8::1'']" by code_simp
  ultimately show ?thesis using routing_list_roundtrip [where cs = "bare_services disk_fs"] by metis
qed

end
