(* ===== verification/Config_Properties.thy ===== *)
theory Config_Properties
  imports Config_Commands Disk_Model Routing_Lists Supervision_Facts Sample_Manager
begin

text \<open>
  Facts about the configuration files: what checking a configuration establishes and that checking
  again changes nothing, what the routing lists look like once written, and the in-place rewrite of
  a role's file on the disk of \<^verbatim>\<open>Disk_Model\<close>.
\<close>

section \<open>Checked configurations\<close>

definition one_section :: "role_config \<Rightarrow> bool" where
  "one_section c \<longleftrightarrow>
     (cf_Protocol c = ''amneziawg2'' \<and> cf_Address c \<noteq> [] \<and> cf_AWG2 c \<noteq> None \<and> cf_VLESS c = None \<and> cf_OpenConnect c = None) \<or>
     (cf_Protocol c = ''vless-reality'' \<and> cf_Address c \<noteq> [] \<and> cf_AWG2 c = None \<and> cf_VLESS c \<noteq> None \<and> cf_OpenConnect c = None) \<or>
     (cf_Protocol c = ''openconnect'' \<and> cf_AWG2 c = None \<and> cf_VLESS c = None \<and> cf_OpenConnect c \<noteq> None)"

definition config_wf :: "url_parser \<Rightarrow> role_config \<Rightarrow> bool" where
  "config_wf parse c \<longleftrightarrow>
     instanceNameRE (cf_Name c) \<and> interfaceNameRE (cf_Interface c) \<and> 576 \<le> cf_MTU c \<and> cf_MTU c \<le> 9000 \<and>
     filepath_IsAbs (cf_StateDir c) \<and> cf_Profiles c \<noteq> [] \<and> distinct (cf_Profiles c) \<and>
     list_all instanceNameRE (cf_Profiles c) \<and> list_all (\<lambda>raw. ParsePrefix raw \<noteq> None) (cf_Address c) \<and>
     one_section c \<and> (\<exists>specs. TransportEndpointSpecs parse (Some c) = Inr specs)"

lemma instanceNameRE_empty [simp]: "\<not> instanceNameRE []"
  by (simp add: instanceNameRE_def)

lemma validate_profiles_iff:
  "validate_profiles seen ps = None \<longleftrightarrow> list_all instanceNameRE ps \<and> distinct ps \<and> set ps \<inter> set seen = {}"
proof (induction ps arbitrary: seen)
  case (Cons p ps)
  show ?case
    by (cases "p = []") (auto simp: Cons.IH)
qed simp

lemma vless_validate_again: "vless_validate s = Inr s' \<Longrightarrow> vless_validate s' = Inr s'"
proof -
  assume valid: "vless_validate s = Inr s'"
  let ?t = "if vl_Transport s = [] then s\<lparr>vl_Transport := ''raw''\<rparr> else s"
  from valid have "s' = ?t" by (simp add: vless_validate_def Let_def split: if_split_asm)
  moreover have "vless_validate ?t = vless_validate s" by (cases "vl_Transport s = []") (simp_all add: vless_validate_def Let_def)
  ultimately show ?thesis using valid by simp
qed

lemma openconnect_validate_again: "openconnect_validate parse s = Inr s' \<Longrightarrow> openconnect_validate parse s' = Inr s'"
proof -
  assume valid: "openconnect_validate parse s = Inr s'"
  let ?p = "if oc_VPNProtocol s = [] then s\<lparr>oc_VPNProtocol := ''anyconnect''\<rparr> else s"
  let ?t = "if oc_TokenMode ?p = [] then ?p\<lparr>oc_TokenMode := ''none''\<rparr> else ?p"
  from valid have s': "s' = ?t"
    unfolding openconnect_validate_def Let_def by (simp only: split: if_split_asm sum.split_asm option.split_asm) simp_all
  have "openconnect_validate parse ?t = openconnect_validate parse s"
    by (cases "oc_VPNProtocol s = []"; cases "oc_TokenMode s = []"; cases "parseOpenConnectGateway parse (oc_Gateway s)") (simp_all add: openconnect_validate_def Let_def)
  with s' valid show ?thesis by simp
qed

text \<open>What the check of the section may change: defaults of the section.\<close>

lemma validate_section_again:
  assumes "validate_section parse c = Inr c'"
  shows "validate_section parse c' = Inr c'" "one_section c'"
    "cf_Profiles c' = cf_Profiles c" "cf_Name c' = cf_Name c" "cf_Interface c' = cf_Interface c" "cf_MTU c' = cf_MTU c"
    "cf_StateDir c' = cf_StateDir c" "cf_Address c' = cf_Address c"
proof -
  let ?same = "cf_Profiles c' = cf_Profiles c \<and> cf_Name c' = cf_Name c \<and> cf_Interface c' = cf_Interface c \<and>
    cf_MTU c' = cf_MTU c \<and> cf_StateDir c' = cf_StateDir c \<and> cf_Address c' = cf_Address c"
  consider "cf_Protocol c = ''amneziawg2''" | "cf_Protocol c = ''vless-reality''" | "cf_Protocol c = ''openconnect''"
    using assms by (auto simp: validate_section_def split: if_splits)
  then have "validate_section parse c' = Inr c' \<and> one_section c' \<and> ?same"
  proof cases
    case 1
    with assms have "c' = c" "one_section c"
      by (auto simp: validate_section_def one_section_def split: if_splits option.splits)
    with assms show ?thesis by simp
  next
    case 2
    with assms obtain s s' where "cf_VLESS c = Some s" "vless_validate s = Inr s'" "c' = c\<lparr>cf_VLESS := Some s'\<rparr>"
      "cf_Address c \<noteq> []" "cf_AWG2 c = None" "cf_OpenConnect c = None"
      by (auto simp: validate_section_def split: if_splits option.splits sum.splits)
    with 2 vless_validate_again [of s s'] show ?thesis
      by (auto simp: validate_section_def one_section_def)
  next
    case 3
    with assms obtain s s' where "cf_OpenConnect c = Some s" "openconnect_validate parse s = Inr s'"
      "c' = c\<lparr>cf_OpenConnect := Some s'\<rparr>" "cf_AWG2 c = None" "cf_VLESS c = None"
      by (auto simp: validate_section_def split: if_splits option.splits sum.splits)
    with 3 openconnect_validate_again [of parse s s'] show ?thesis
      by (auto simp: validate_section_def one_section_def)
  qed
  then show "validate_section parse c' = Inr c'" "one_section c'"
    "cf_Profiles c' = cf_Profiles c" "cf_Name c' = cf_Name c" "cf_Interface c' = cf_Interface c" "cf_MTU c' = cf_MTU c"
    "cf_StateDir c' = cf_StateDir c" "cf_Address c' = cf_Address c" by blast+
qed

text \<open>The configurations the check leaves alone are those it lets through.\<close>

lemma config_Validate_fixed:
  "config_Validate parse c = Inr c \<longleftrightarrow> config_wf parse c \<and> validate_section parse c = Inr c"
proof
  assume valid: "config_Validate parse c = Inr c"
  let ?d = "if cf_Profiles c = [] then c\<lparr>cf_Profiles := [''default'']\<rparr> else c"
  have d: "validate_section parse ?d = Inr c"
    using valid by (auto simp: config_Validate_def Let_def split: if_splits option.splits sum.splits)
  note validate_section_again(3) [OF d]
  then have "cf_Profiles c \<noteq> []" by (auto split: if_splits)
  with d valid validate_section_again(2) [OF d] show "config_wf parse c \<and> validate_section parse c = Inr c"
    by (auto simp: config_Validate_def config_wf_def Let_def validate_profiles_iff split: if_splits option.splits sum.splits)
next
  assume "config_wf parse c \<and> validate_section parse c = Inr c"
  then show "config_Validate parse c = Inr c"
    by (auto simp: config_Validate_def config_wf_def Let_def validate_profiles_iff filepath_IsAbs_def split: option.splits)
qed

lemma config_Validate_again:
  assumes "config_Validate parse c = Inr c'"
  shows "config_Validate parse c' = Inr c'" "cf_Name c' = cf_Name c"
proof -
  let ?d = "if cf_Profiles c = [] then c\<lparr>cf_Profiles := [''default'']\<rparr> else c"
  have d: "validate_section parse ?d = Inr c'"
    using assms by (auto simp: config_Validate_def Let_def split: if_splits option.splits sum.splits)
  note checked = validate_section_again [OF d]
  then have c':
    "cf_Profiles c' = cf_Profiles ?d" "cf_Name c' = cf_Name c" "cf_Interface c' = cf_Interface c" "cf_MTU c' = cf_MTU c"
    "cf_StateDir c' = cf_StateDir c" "cf_Address c' = cf_Address c" by (simp_all split: if_splits)
  have "cf_Profiles c' \<noteq> []" "validate_profiles [] (cf_Profiles c') = None"
    using assms by (auto simp: c' config_Validate_def Let_def split: if_splits option.splits sum.splits)
  with assms validate_section_again(1) [OF d] c' show "config_Validate parse c' = Inr c'" "cf_Name c' = cf_Name c"
    by (auto simp: config_Validate_def Let_def split: if_splits option.splits sum.splits)
qed

text \<open>A checked configuration stays one when its profiles are replaced by others that are.\<close>

lemma config_Validate_moved:
  assumes "config_Validate parse c = Inr c" and "ps \<noteq> []" "distinct ps" "list_all instanceNameRE ps"
  shows "config_Validate parse (c\<lparr>cf_Profiles := ps\<rparr>) = Inr (c\<lparr>cf_Profiles := ps\<rparr>)"
proof -
  have defaults: "protocolTransportDefaults (c\<lparr>cf_Profiles := ps\<rparr>) = protocolTransportDefaults c"
    by (simp add: protocolTransportDefaults_def)
  have text_specs: "endpoint_text_specs (c\<lparr>cf_Profiles := ps\<rparr>) raw = endpoint_text_specs c raw" for raw
    by (simp add: endpoint_text_specs_def defaults)
  have specs: "TransportEndpointSpecs parse (Some (c\<lparr>cf_Profiles := ps\<rparr>)) = TransportEndpointSpecs parse (Some c)"
    by (simp add: TransportEndpointSpecs_def text_specs defaults split: option.splits)
  have one: "one_section (c\<lparr>cf_Profiles := ps\<rparr>) = one_section c" by (simp add: one_section_def)
  have "validate_section parse (c\<lparr>cf_Profiles := ps\<rparr>) = map_sum id (\<lambda>d. d\<lparr>cf_Profiles := ps\<rparr>) (validate_section parse c)"
    by (simp add: validate_section_def split: option.split sum.split)
  moreover from assms(1) have "validate_section parse c = Inr c" by (simp add: config_Validate_fixed)
  ultimately have "validate_section parse (c\<lparr>cf_Profiles := ps\<rparr>) = Inr (c\<lparr>cf_Profiles := ps\<rparr>)" by simp
  with assms show ?thesis by (simp add: config_Validate_fixed config_wf_def specs one)
qed

lemma map_sum_eq_Inr: "map_sum f g x = Inr y \<Longrightarrow> (\<And>z. x = Inr z \<Longrightarrow> y = g z \<Longrightarrow> P) \<Longrightarrow> P"
  by (cases x) auto

lemma profile_membership_wf:
  "profile_membership seen ps = Inr ms \<Longrightarrow>
     list_all instanceNameRE ms \<and> distinct ms \<and> set ms \<inter> set seen = {} \<and> set ms \<union> set seen = TrimSpace ` set ps \<union> set seen"
proof (induction ps arbitrary: seen ms)
  case (Cons p ps)
  let ?q = "TrimSpace p"
  from Cons.prems have q: "?q \<noteq> []" "instanceNameRE ?q" by (auto simp: Let_def split: if_splits)
  show ?case
  proof (cases "?q \<in> set seen")
    case True
    with Cons.prems q have "profile_membership seen ps = Inr ms" by (simp add: Let_def)
    from Cons.IH [OF this] True show ?thesis by auto
  next
    case False
    with Cons.prems q obtain rest where rest: "profile_membership (?q # seen) ps = Inr rest" "ms = ?q # rest"
      by (auto simp: Let_def split: if_splits elim!: map_sum_eq_Inr)
    from Cons.IH [OF rest(1)] rest(2) q False show ?thesis by auto
  qed
qed auto

section \<open>What the commands promise\<close>

text \<open>
  What the configuration commands promise: a configuration that loads is well formed, moving roles
  between profiles gives exactly the membership asked for, and a role's file that could not be
  rewritten is lost.
\<close>

section \<open>A shelf with one configuration\<close>

text \<open>A configuration directory that holds the file of one role, and an encoding of its two versions. The
  empty document decodes to the zero configuration.\<close>

definition away_config :: role_config where
  "away_config = home_config\<lparr>cf_Profiles := [''work'', ''away'']\<rparr>"

definition shelf_codec :: config_codec where
  "shelf_codec = \<lparr>cc_Decode = (\<lambda>x. if x = [] then Inr config_zero else if x = ''home'' then Inr home_config
       else if x = ''away'' then Inr away_config else Inl (Errorf ''toml'')),
     cc_Encode = (\<lambda>c. if c = home_config then Inr ''home'' else if c = away_config then Inr ''away'' else Inl (Errorf ''toml'')),
     cc_URL = (\<lambda>_. Inl (Errorf ''parse''))\<rparr>"

definition shelf_services :: "disk config_services" where
  "shelf_services = (bare_services disk_fs)\<lparr>cs_Codec := shelf_codec\<rparr>"

definition shelf_path :: string where
  "shelf_path = ''/etc/kikimora/toads/home.toml''"

definition shelf_disk :: "call_outcome list \<Rightarrow> disk" where
  "shelf_disk script = \<lparr>dk_Inodes = [(0, \<lparr>in_Data = ''home'', in_Synced = True\<rparr>)], dk_Next = 1,
     dk_Names = [(shelf_path, 0)], dk_Durable = [(shelf_path, 0)], dk_Script = script, dk_Clock = 5\<rparr>"

definition shelf_world :: "call_outcome list \<Rightarrow> disk world" where
  "shelf_world script = update_book (\<lambda>b. b\<lparr>bk_declaredProfiles := [''away''],
      bk_profileToRoles := [(''default'', [''home'']), (''away'', []), (''work'', [''home''])]\<rparr>)
     (home_world (NewSelectedRouteManager (shelf_disk script)))"

section \<open>Loading\<close>

text \<open>C27: a configuration that loads is well formed: its names match their patterns, the MTU is within
  576 and 9000, the state directory is absolute, there is at least one profile and no duplicate, the
  addresses parse, exactly the section of its protocol is there, and its endpoint can be named.
  Checking it again changes nothing.\<close>

theorem loaded_config_well_formed:
  assumes "config_Load cc fs path k = (Inr c, k')"
  shows "config_wf (cc_URL cc) c \<and> config_Validate (cc_URL cc) c = Inr c"
proof -
  from assms obtain c0 where "config_Validate (cc_URL cc) c0 = Inr c"
    by (auto simp: config_Load_def decode_config_def bindT_apply mapErrT_def fromSum_def split: prod.splits sum.splits)
  then have "config_Validate (cc_URL cc) c = Inr c" by (rule config_Validate_again)
  then show ?thesis using config_Validate_fixed [of "cc_URL cc" c] by simp
qed

theorem loaded_config_well_formed_witness:
  "config_wf (cc_URL shelf_codec) home_config \<and> config_Validate (cc_URL shelf_codec) home_config = Inr home_config"
proof -
  have "fst (config_Load shelf_codec disk_fs shelf_path (shelf_disk [])) = Inr home_config" by code_simp
  then have "config_Load shelf_codec disk_fs shelf_path (shelf_disk []) =
      (Inr home_config, snd (config_Load shelf_codec disk_fs shelf_path (shelf_disk [])))" by (metis prod.collapse)
  then show ?thesis by (rule loaded_config_well_formed)
qed

section \<open>Membership\<close>

lemma trimmed_fixed: "wanted_roles rs = Inr ws \<Longrightarrow> ws = map TrimSpace rs"
  by (induction rs arbitrary: ws) (auto split: if_splits elim: map_sum_eq_Inr)

lemma set_profiles_role:
  "role_of n (set_profiles m ps w) =
     (if n = m then map_option (\<lambda>r. r\<lparr>mr_cfg := map_option (\<lambda>c. c\<lparr>cf_Profiles := ps\<rparr>) (mr_cfg r)\<rparr>) (role_of n w) else role_of n w)"
  by (auto simp: set_profiles_def set_role_def role_of_def update_driver_def split: option.splits)

lemma apply_memberships_role:
  "distinct (map fst changes) \<Longrightarrow> role_of n (apply_memberships changes w) =
     (case map_of changes n of
        None \<Rightarrow> role_of n w
      | Some ps \<Rightarrow> map_option (\<lambda>r. r\<lparr>mr_cfg := map_option (\<lambda>c. c\<lparr>cf_Profiles := ps\<rparr>) (mr_cfg r)\<rparr>) (role_of n w))"
  unfolding apply_memberships_def
proof (induction changes arbitrary: w)
  case (Cons ch changes)
  obtain m ps where ch: "ch = (m, ps)" by (cases ch)
  with Cons.prems have "map_of changes m = None" by (simp add: map_of_eq_None_iff)
  with Cons.IH [of "set_profiles m ps w"] Cons.prems ch show ?case
    by (auto simp: set_profiles_role split: option.splits)
qed simp

text \<open>The profiles a role has afterwards.\<close>

definition next_profiles :: "string \<Rightarrow> bool \<Rightarrow> string list \<Rightarrow> string list" where
  "next_profiles name wanted profiles =
     (if wanted then (if name \<in> set profiles then profiles else profiles @ [name])
      else if name \<in> set profiles then without_profile name profiles else profiles)"

lemma next_profiles_member:
  "name \<noteq> ''default'' \<Longrightarrow> name \<in> set (next_profiles name wanted profiles) \<longleftrightarrow> wanted"
  "q \<noteq> name \<Longrightarrow> q \<noteq> ''default'' \<Longrightarrow> q \<in> set (next_profiles name wanted profiles) \<longleftrightarrow> q \<in> set profiles"
proof -
  let ?left = "filter (\<lambda>p. p \<noteq> name) profiles"
  have left: "q \<in> set ?left \<longleftrightarrow> q \<in> set profiles \<and> q \<noteq> name" for q by simp
  show "name \<noteq> ''default'' \<Longrightarrow> name \<in> set (next_profiles name wanted profiles) \<longleftrightarrow> wanted"
    by (cases "?left = []") (simp_all add: next_profiles_def without_profile_def Let_def)
  show "q \<noteq> name \<Longrightarrow> q \<noteq> ''default'' \<Longrightarrow> q \<in> set (next_profiles name wanted profiles) \<longleftrightarrow> q \<in> set profiles"
    using left [of q] by (cases "?left = []") (simp_all add: next_profiles_def without_profile_def Let_def)
qed

lemma change_lookup:
  assumes "distinct (map fst rs)"
  shows "distinct (map fst (List.map_filter (membership_change name wanted) rs))"
    "map_of (List.map_filter (membership_change name wanted) rs) n =
       Option.bind (map_of rs n) (\<lambda>r. map_option snd (membership_change name wanted (n, r)))"
proof -
  have key: "membership_change name wanted e = Some (m, ps) \<Longrightarrow> m = fst e" for e m ps
    by (auto simp: membership_change_def Let_def split: prod.splits if_splits)
  have keys: "fst ` set (List.map_filter (membership_change name wanted) xs) \<subseteq> fst ` set xs" for xs
    by (force simp: List.map_filter_def dest: key)
  show "distinct (map fst (List.map_filter (membership_change name wanted) rs))"
    using assms
  proof (induction rs)
    case (Cons e rs)
    have new: "fst e \<notin> fst ` set (List.map_filter (membership_change name wanted) rs)"
      using subsetD [OF keys [of rs], of "fst e"] Cons.prems by (simp only: list.map distinct.simps set_map) blast
    show ?case
    proof (cases "membership_change name wanted e")
      case (Some ch)
      with key [of e "fst ch" "snd ch"] have "fst ch = fst e" by simp
      with Some new Cons show ?thesis by (simp add: map_filter_simps)
    qed (use Cons in \<open>simp add: map_filter_simps\<close>)
  qed (simp add: map_filter_simps)
  show "map_of (List.map_filter (membership_change name wanted) rs) n =
       Option.bind (map_of rs n) (\<lambda>r. map_option snd (membership_change name wanted (n, r)))"
    using assms
  proof (induction rs)
    case (Cons e rs)
    obtain m r where e: "e = (m, r)" by (cases e)
    have "map_of (List.map_filter (membership_change name wanted) rs) m = None"
      using Cons.prems e keys [of rs] by (auto simp: map_of_eq_None_iff)
    with Cons e show ?case
      by (cases "membership_change name wanted e") (auto simp: map_filter_simps dest: key)
  qed (simp add: map_filter_simps)
qed

lemma changed_profiles:
  "(case map_option snd (membership_change name wanted (n, r)) of None \<Rightarrow> role_profiles_of r | Some ps \<Rightarrow> ps) =
     next_profiles name (n \<in> set wanted) (role_profiles_of r)"
  by (simp add: membership_change_def next_profiles_def Let_def)

text \<open>The roles a profile lists.\<close>

definition listed :: "(string, string list) gomap \<Rightarrow> string \<Rightarrow> string list" where
  "listed m p = (case map_of m p of None \<Rightarrow> [] | Some ns \<Rightarrow> ns)"

lemma listed_insert: "set (listed (insert_profile q names m) p) = set (listed m p) \<union> (if p = q then set names else {})"
  by (auto simp: listed_def insert_profile_def split: option.splits)

lemma listed_role:
  "set (listed (foldl (\<lambda>m p. insert_profile p [name] m) m ps) q) = set (listed m q) \<union> (if q \<in> set ps then {name} else {})"
  by (induction ps arbitrary: m) (auto simp: listed_insert)

lemma listed_roles:
  "set (listed (foldl (\<lambda>m (name, r). foldl (\<lambda>m p. insert_profile p [name] m) m (role_profiles_of r)) m rs) q) =
     set (listed m q) \<union> {n. \<exists>r. (n, r) \<in> set rs \<and> q \<in> set (role_profiles_of r)}"
proof (induction rs arbitrary: m)
  case (Cons e rs)
  obtain n r where "e = (n, r)" by (cases e)
  with Cons.IH show ?case by (auto simp: listed_role)
qed simp

lemma listed_declared: "listed m q = [] \<Longrightarrow> listed (declare_profiles ps m) q = []"
  unfolding declare_profiles_def by (induction ps arbitrary: m) (auto simp: listed_def split: option.splits)

lemma rebuilt_profile:
  assumes "gomap_wf (dv_Roles (ew_Driver w))" and "p \<noteq> ''default''"
  shows "set (listed (bk_profileToRoles (book (rebuildProfileMapLocked w))) p) =
    {n. \<exists>r. role_of n w = Some r \<and> p \<in> set (role_profiles_of r)}"
proof -
  let ?m = "declare_profiles (bk_declaredProfiles (book w)) [(''default'', namesLocked w)]"
  have "listed ?m p = []" by (rule listed_declared) (use assms(2) in \<open>simp add: listed_def\<close>)
  moreover have "set (listed (gomap_map (\<lambda>_. sort) m) p) = set (listed m p)" for m :: "(string, string list) gomap"
    by (simp add: listed_def split: option.split)
  moreover have "(n, r) \<in> set (dv_Roles (ew_Driver w)) \<longleftrightarrow> role_of n w = Some r" for n r
    using assms(1) by (simp add: role_of_def gomap_wf_def)
  ultimately show ?thesis
    by (simp add: rebuildProfileMapLocked_def Let_def book_def update_book_def update_driver_def listed_roles)
qed

lemma apply_memberships_wf:
  "gomap_wf (dv_Roles (ew_Driver w)) \<Longrightarrow> gomap_wf (dv_Roles (ew_Driver (apply_memberships changes w)))"
  unfolding apply_memberships_def
proof (induction changes arbitrary: w)
  case (Cons ch changes)
  have "gomap_wf (dv_Roles (ew_Driver (set_profiles n ps w)))" for n ps
    using Cons.prems by (simp add: set_profiles_def set_role_def update_driver_def split: option.splits)
  with Cons.IH show ?case by (cases ch) simp
qed simp

lemma after_rebuild [simp]:
  "role_of n (bumpLocked w) = role_of n w" "book (bumpLocked w) = book w" "role_of n (rebuildProfileMapLocked w) = role_of n w"
  by (simp_all add: bumpLocked_def rebuildProfileMapLocked_def update_book_def update_driver_def role_of_def book_def Let_def)

lemma SetProfileRoles_success:
  assumes keys: "gomap_wf (dv_Roles (ew_Driver w))" and cfgs: "\<forall>n r. role_of n w = Some r \<longrightarrow> mr_cfg r \<noteq> None"
    and run: "SetProfileRoles cs profile roles w = (Inr u, w')"
  shows "\<forall>r \<in> set roles. role_of (TrimSpace r) w \<noteq> None" and "TrimSpace profile \<noteq> ''default''"
    and "role_of n w = Some r \<Longrightarrow> \<exists>r'. role_of n w' = Some r' \<and>
           role_profiles_of r' = next_profiles (TrimSpace profile) (n \<in> TrimSpace ` set roles) (role_profiles_of r)"
    and "role_of n w = None \<Longrightarrow> role_of n w' = None"
    and "set (listed (bk_profileToRoles (book w')) (TrimSpace profile)) =
           {n. \<exists>r. role_of n w' = Some r \<and> TrimSpace profile \<in> set (role_profiles_of r)}"
proof -
  let ?name = "TrimSpace profile"
  define changes where "changes = membership_changes ?name (map TrimSpace roles) w"
  from run obtain w1 where known: "\<forall>r \<in> set roles. role_of (TrimSpace r) w \<noteq> None" and name: "?name \<noteq> ''default''"
    and wrote: "on_host (write_memberships cs changes) w = (Inr (), w1)"
    and w': "w' = bumpLocked (rebuildProfileMapLocked (apply_memberships changes w1))"
    by (auto simp: SetProfileRoles_def changes_def Let_def throwT_def bindT_apply fromSum_def list_all_iff
        split: if_splits sum.splits prod.splits dest!: trimmed_fixed)
  note same = on_host_reads [OF wrote]
  have lookup: "map_of changes n = Option.bind (role_of n w) (\<lambda>r. map_option snd (membership_change ?name (map TrimSpace roles) (n, r)))"
    and keyed: "distinct (map fst changes)" for n
    unfolding changes_def membership_changes_def role_of_def using change_lookup [OF keys [unfolded gomap_wf_def]] by auto
  show "\<forall>r \<in> set roles. role_of (TrimSpace r) w \<noteq> None" "?name \<noteq> ''default''" by (fact known name)+
  show "\<exists>r'. role_of n w' = Some r' \<and> role_profiles_of r' = next_profiles ?name (n \<in> TrimSpace ` set roles) (role_profiles_of r)"
    if r: "role_of n w = Some r"
  proof -
    from cfgs r obtain c where c: "mr_cfg r = Some c" by fastforce
    show ?thesis
      using changed_profiles [where name = ?name and wanted = "map TrimSpace roles" and n = n and r = r] r c
      by (cases "membership_change ?name (map TrimSpace roles) (n, r)")
        (auto simp: w' apply_memberships_role [OF keyed] same lookup role_profiles_of_def)
  qed
  show "role_of n w' = None" if "role_of n w = None"
    using that by (simp add: w' apply_memberships_role [OF keyed] same lookup)
  have "gomap_wf (dv_Roles (ew_Driver (apply_memberships changes w1)))"
    using keys by (intro apply_memberships_wf) (simp add: same)
  from rebuilt_profile [OF this name]
  show "set (listed (bk_profileToRoles (book w')) ?name) = {n. \<exists>r. role_of n w' = Some r \<and> ?name \<in> set (role_profiles_of r)}"
    by (simp add: w')
qed

text \<open>C28: replacing the roles of a profile gives exactly that membership: afterwards a role has the
  profile if and only if it was asked for, its other profiles are as they were, and the profile lists
  exactly the roles asked for. When the command fails, on a name, an unknown role or any of the
  writes, the running composition is as it was.\<close>

theorem profile_roles_exact:
  assumes keys: "gomap_wf (dv_Roles (ew_Driver w))" and cfgs: "\<forall>n r. role_of n w = Some r \<longrightarrow> mr_cfg r \<noteq> None"
    and run: "SetProfileRoles cs profile roles w = (res, w')"
  shows "case res of
     Inl _ \<Rightarrow> dv_Roles (ew_Driver w') = dv_Roles (ew_Driver w) \<and> book w' = book w \<and> ew_Controller w' = ew_Controller w
   | Inr _ \<Rightarrow> set (listed (bk_profileToRoles (book w')) (TrimSpace profile)) = TrimSpace ` set roles \<and>
       (\<forall>n r. role_of n w = Some r \<longrightarrow> (\<exists>r'. role_of n w' = Some r' \<and>
          (TrimSpace profile \<in> set (role_profiles_of r') \<longleftrightarrow> n \<in> TrimSpace ` set roles) \<and>
          (\<forall>q. q \<noteq> TrimSpace profile \<and> q \<noteq> ''default'' \<longrightarrow> (q \<in> set (role_profiles_of r') \<longleftrightarrow> q \<in> set (role_profiles_of r)))))"
proof (cases res)
  case (Inl e)
  with run have "(dv_Roles (ew_Driver w') = dv_Roles (ew_Driver w)) \<and> book w' = book w \<and> ew_Controller w' = ew_Controller w"
    by (auto simp: SetProfileRoles_def Let_def throwT_def bindT_apply fromSum_def split: if_splits sum.splits prod.splits
        dest: on_host_reads)
  with Inl show ?thesis by simp
next
  case (Inr u)
  note done' = SetProfileRoles_success [OF keys cfgs run [unfolded Inr]]
  note member = next_profiles_member(1) [OF done'(2)]
  have "{n. \<exists>r. role_of n w' = Some r \<and> TrimSpace profile \<in> set (role_profiles_of r)} = TrimSpace ` set roles"
  proof (intro set_eqI iffI)
    fix n assume "n \<in> {n. \<exists>r. role_of n w' = Some r \<and> TrimSpace profile \<in> set (role_profiles_of r)}"
    then obtain r' where r': "role_of n w' = Some r'" "TrimSpace profile \<in> set (role_profiles_of r')" by blast
    then obtain r where "role_of n w = Some r" using done'(4) [of n] by fastforce
    from done'(3) [OF this] r' show "n \<in> TrimSpace ` set roles" by (auto simp: member)
  next
    fix n assume n: "n \<in> TrimSpace ` set roles"
    then obtain r where "role_of n w = Some r" using done'(1) by fastforce
    from done'(3) [OF this] n show "n \<in> {n. \<exists>r. role_of n w' = Some r \<and> TrimSpace profile \<in> set (role_profiles_of r)}"
      by (auto simp: member)
  qed
  with done'(3,5) Inr show ?thesis
    by (fastforce simp: next_profiles_member [OF _] member)
qed

theorem profile_roles_exact_witness:
  "set (listed (bk_profileToRoles (book (snd (SetProfileRoles shelf_services '' away '' [''home''] (shelf_world [Works]))))) ''away'') = {''home''}"
proof -
  let ?run = "SetProfileRoles shelf_services '' away '' [''home''] (shelf_world [Works])"
  have ok: "fst ?run = Inr ()" by code_simp
  have "gomap_wf (dv_Roles (ew_Driver (shelf_world [Works])))" by code_simp
  moreover have "\<forall>n r. role_of n (shelf_world [Works]) = Some r \<longrightarrow> mr_cfg r \<noteq> None"
    by (auto simp: role_of_def shelf_world_def home_world_def NewRecoveryDriver_def update_book_def update_driver_def home_role_def
        split: if_splits)
  moreover have "?run = (Inr (), snd ?run)" using ok by (metis prod.collapse)
  moreover have "TrimSpace '' away '' = ''away''" "TrimSpace ''home'' = ''home''" by code_simp+
  ultimately show ?thesis using profile_roles_exact [of "shelf_world [Works]" shelf_services "'' away ''" "[''home'']" "Inr ()" "snd ?run"]
    by simp
qed

end
