(* ===== verification/Core_Boot.thy ===== *)
theory Core_Boot
  imports Config_Commands
begin

text \<open>
  Starting the core (\<^verbatim>\<open>newManagerWithDeps\<close> of \<^verbatim>\<open>control/control.go\<close>) and the mode the
  installation is in (\<^verbatim>\<open>control/selected_routes.go\<close>: the marker, \<^verbatim>\<open>EnableManagedSelectedRoutes\<close>,
  \<^verbatim>\<open>DisableManagedSelectedRoutes\<close>, \<^verbatim>\<open>restoreManagedCheckpoints\<close>). The watchers a new manager
  starts are the environment of the later theories.
\<close>

section \<open>The marker\<close>

record managed_marker =
  mk_Schema :: int
  mk_Socket :: string
  mk_CoreVersion :: string
  mk_ManagedZones :: "string list"

record marker_codec =
  mk_Marshal :: "managed_marker \<Rightarrow> goerror + string"
  mk_Unmarshal :: "string \<Rightarrow> goerror + managed_marker"
  mk_BuildVersion :: string

text \<open>\<^verbatim>\<open>managedSocket\<close> and \<^verbatim>\<open>managedSelectedRoles\<close> of the manager.\<close>

record managed_mode =
  mm_Socket :: string
  mm_Roles :: "(string, bool) gomap"

definition managedModeMarkerSchema :: int where
  "managedModeMarkerSchema = 1"

definition managedMarkerPath :: "'k config_services \<Rightarrow> string" where
  "managedMarkerPath cs = (if cs_configDir cs = [] then [] else filepath_Join (cs_configDir cs) ''leshy-managed.json'')"

definition writeManagedMarker ::
  "marker_codec \<Rightarrow> 'k config_services \<Rightarrow> string \<Rightarrow> string list \<Rightarrow> ('k, unit) tx" where
  "writeManagedMarker mc cs socket zones =
     (if managedMarkerPath cs = [] then throwT no_config_dir
      else WriteAtomicJSON (cs_FS cs) (mk_Marshal mc) (managedMarkerPath cs)
             \<lparr>mk_Schema = managedModeMarkerSchema, mk_Socket = socket, mk_CoreVersion = mk_BuildVersion mc, mk_ManagedZones = zones\<rparr>
             384)"

definition clearManagedMarker :: "'k config_services \<Rightarrow> ('k, unit) tx" where
  "clearManagedMarker cs =
     (if managedMarkerPath cs = [] then returnT ()
      else tolerateT os_IsNotExist (fs_Remove (cs_FS cs) (managedMarkerPath cs)))"

fun zones_error :: "string list \<Rightarrow> string list \<Rightarrow> goerror option" where
  "zones_error seen [] = None"
| "zones_error seen (z # zs) =
     (if z = [] then Some (Errorf ''managed marker %s has an empty managed zone'')
      else if z \<in> set seen then Some (Errorf ''managed marker %s records zone %q twice'')
      else zones_error (z # seen) zs)"

definition marker_error :: "managed_marker \<Rightarrow> goerror option" where
  "marker_error marker =
     (if mk_Schema marker \<noteq> managedModeMarkerSchema then Some (Errorf ''managed marker %s has unsupported schema %d'')
      else if mk_Socket marker = [] then Some (Errorf ''managed marker %s has an empty socket'')
      else zones_error [] (mk_ManagedZones marker))"

definition readManagedMarker :: "marker_codec \<Rightarrow> 'k file_system \<Rightarrow> string \<Rightarrow> ('k, managed_marker option) tx" where
  "readManagedMarker mc fs path k =
     (case fs_ReadFile fs path k of
        (Inl e, k') \<Rightarrow> if errorsIs e ErrNotExist then (Inr None, k') else (Inl (Wrapf ''read managed marker: %w'' e), k')
      | (Inr data, k') \<Rightarrow>
          (case mk_Unmarshal mc data of
             Inl e \<Rightarrow> (Inl (Wrapf ''managed marker %s is malformed: %w'' e), k')
           | Inr marker \<Rightarrow> (case marker_error marker of Some e \<Rightarrow> (Inl e, k') | None \<Rightarrow> (Inr (Some marker), k'))))"

definition readManagedMarkerFile :: "marker_codec \<Rightarrow> 'k config_services \<Rightarrow> ('k, managed_marker option) tx" where
  "readManagedMarkerFile mc cs =
     (if managedMarkerPath cs = [] then returnT None else readManagedMarker mc (cs_FS cs) (managedMarkerPath cs))"

section \<open>Switching the mode\<close>

definition managed_zone :: "manager_role \<Rightarrow> string" where
  "managed_zone r = ep_Zone (EffectiveEndpointPolicy (mr_cfg r))"

text \<open>The roles with a zone, in the order they are visited.\<close>

definition zoned_roles :: "(string, manager_role) gomap \<Rightarrow> (string \<times> string) list" where
  "zoned_roles roles =
     List.map_filter (\<lambda>(name, r). if mr_cfg r = None \<or> managed_zone r = [] then None else Some (name, managed_zone r)) roles"

definition arm_roles :: "string list \<Rightarrow> managed_mode \<Rightarrow> managed_mode" where
  "arm_roles names mode = mode\<lparr>mm_Roles := foldl (\<lambda>m n. gomap_put n True m) (mm_Roles mode) names\<rparr>"

definition EnableManagedSelectedRoutes ::
  "marker_codec \<Rightarrow> 'k config_services \<Rightarrow> string \<Rightarrow> bool \<Rightarrow> (managed_mode \<times> 'k world, unit) tx" where
  "EnableManagedSelectedRoutes mc cs socketPath leshySupportsManaged s =
     (if socketPath = [] then (Inl (Errorf ''managed mode requires the kikimora_socket path''), s)
      else if \<not> leshySupportsManaged
        then (Inl (Errorf ''the installed Leshy does not advertise managed backend support; staying in legacy-file mode''), s)
      else case s of (mode, w) \<Rightarrow>
             let zoned = zoned_roles (dv_Roles (ew_Driver w));
                 mode = arm_roles (map fst zoned) (mode\<lparr>mm_Socket := socketPath\<rparr>)
             in (case on_host (bindT (writeManagedMarker mc cs socketPath (map snd zoned)) (\<lambda>_.
                        RegenerateLeshyConfig cs (mm_Socket mode))) w of
                   (r, w') \<Rightarrow> (r, mode, w')))"

definition DisableManagedSelectedRoutes :: "'k config_services \<Rightarrow> (managed_mode \<times> 'k world, unit) tx" where
  "DisableManagedSelectedRoutes cs s =
     (case s of (mode, w) \<Rightarrow>
        let mode = \<lparr>mm_Socket = [], mm_Roles = gomap_map (\<lambda>_ _. False) (mm_Roles mode)\<rparr>
        in (case on_host (bindT (clearManagedMarker cs) (\<lambda>_. RegenerateLeshyConfig cs (mm_Socket mode))) w of
              (r, w') \<Rightarrow> (r, mode, w')))"

definition ManagedModeActive :: "managed_mode \<Rightarrow> bool" where
  "ManagedModeActive mode \<longleftrightarrow> mm_Socket mode \<noteq> []"

definition applyManagedMarker :: "managed_marker \<Rightarrow> (string, manager_role) gomap \<Rightarrow> managed_mode \<Rightarrow> managed_mode" where
  "applyManagedMarker marker roles mode =
     arm_roles (map fst (filter (\<lambda>(name, zone). zone \<in> set (mk_ManagedZones marker)) (zoned_roles roles)))
       (mode\<lparr>mm_Socket := mk_Socket marker\<rparr>)"

text \<open>\<open>read\<close> is \<^verbatim>\<open>ReadSelectedRoutesCheckpoint\<close>.\<close>

definition role_stateDir :: "(string, manager_role) gomap \<Rightarrow> string \<Rightarrow> string option" where
  "role_stateDir roles name =
     (case map_of roles name of
        None \<Rightarrow> None
      | Some r \<Rightarrow> if mr_cfg r = None \<or> role_state_dir r = [] then None else Some (role_state_dir r))"

definition restoreManagedCheckpoints ::
  "'k manager_env \<Rightarrow> (string \<Rightarrow> 'k \<Rightarrow> goerror + selected_checkpoint) \<Rightarrow> managed_mode \<Rightarrow> ('k selected_manager, unit) tx" where
  "restoreManagedCheckpoints env read mode =
     eachT (\<lambda>name m. restore_managed_role env name
              (read (filepath_Join (case se_StateDir env name of None \<Rightarrow> [] | Some dir \<Rightarrow> dir) ''selected-routes.json'') (sm_Kernel m)) m)
       (map fst (filter snd (mm_Roles mode)))"

section \<open>A new manager\<close>

definition new_role :: "string \<Rightarrow> role_config \<Rightarrow> manager_role" where
  "new_role path cfg = \<lparr>mr_cfg = Some cfg, mr_process = None, mr_enabled = False, mr_observed = observed_zero,
     mr_stateValid = False, mr_streamed = False, mr_controlSocket = [], mr_everRouteReady = False, mr_configPath = path,
     mr_lastError = [], mr_operation = 0, mr_validationInFlight = False, mr_recoveryInFlight = False,
     mr_validationPendingEpoch = 0, mr_startPending = False, mr_startReason = []\<rparr>"

fun load_roles ::
  "'k config_services \<Rightarrow> string \<Rightarrow> string \<Rightarrow> string list \<Rightarrow> (string, manager_role) gomap \<Rightarrow> ('k, (string, manager_role) gomap) tx" where
  "load_roles cs legacyPath providerDir [] roles = returnT roles"
| "load_roles cs legacyPath providerDir (path # paths) roles =
     bindT (mapErrT (Wrapf ''load Toad config %q: %w'')
              (LoadWithLegacy (cs_Codec cs) (cs_Unquote cs) (cs_FS cs) path legacyPath providerDir)) (\<lambda>cfg.
     if map_of roles (cf_Name cfg) \<noteq> None then throwT (Errorf ''duplicate Toad name %q'')
     else load_roles cs legacyPath providerDir paths (gomap_put (cf_Name cfg) (new_role path cfg) roles))"

definition configDirectory :: "string list \<Rightarrow> string" where
  "configDirectory paths = (case paths of [] \<Rightarrow> [] | p # _ \<Rightarrow> filepath_Dir p)"

definition role_specs :: "(string, manager_role) gomap \<Rightarrow> role_spec list" where
  "role_specs roles =
     map (\<lambda>name. config_spec (name,
            case Option.bind (map_of roles name) mr_cfg of None \<Rightarrow> config_zero | Some c \<Rightarrow> c)) (sort (map fst roles))"

text \<open>The manager once its roles are known, on a selected-route manager.\<close>

definition manager_of :: "(string, manager_role) gomap \<Rightarrow> string list \<Rightarrow> 'k selected_manager \<Rightarrow> 'k world" where
  "manager_of roles declared selected =
     rebuildProfileMapLocked
       \<lparr>ew_Controller = NewController (role_specs roles),
        ew_Driver = (NewRecoveryDriver selected roles underlay_zero)
          \<lparr>dv_Revision := 1, dv_Book := new_book\<lparr>bk_declaredProfiles := declared\<rparr>\<rparr>\<rparr>"

definition boot_env :: "'k manager_env \<Rightarrow> (string, manager_role) gomap \<Rightarrow> managed_mode \<Rightarrow> 'k manager_env" where
  "boot_env env roles mode =
     env\<lparr>se_StateDir := role_stateDir roles, se_ZoneRoles := zone_index (role_specs roles), se_Managed := mm_Roles mode\<rparr>"

definition NewManager ::
  "marker_codec \<Rightarrow> 'k config_services \<Rightarrow> 'k manager_env \<Rightarrow> (string \<Rightarrow> 'k \<Rightarrow> goerror + selected_checkpoint) \<Rightarrow>
     string \<Rightarrow> string \<Rightarrow> string list \<Rightarrow> ('k, managed_mode \<times> 'k world) tx" where
  "NewManager mc cs env read legacyPath providerDir paths =
     (let cs = (if cs_configDir cs = [] then cs\<lparr>cs_configDir := configDirectory paths\<rparr> else cs);
          local_mode = \<lparr>mm_Socket = [], mm_Roles = []\<rparr>
      in bindT (load_roles cs legacyPath providerDir paths []) (\<lambda>roles.
         bindT (if cs_configDir cs = [] then returnT [] else ReadDeclaredProfiles (cs_FS cs) (cs_configDir cs)) (\<lambda>declared.
         bindT (readManagedMarkerFile mc cs) (\<lambda>found k.
           case found of
             None \<Rightarrow> (Inr (local_mode, manager_of roles declared (NewSelectedRouteManager k)), k)
           | Some marker \<Rightarrow>
               let mode = applyManagedMarker marker roles local_mode
               in case restoreManagedCheckpoints (boot_env env roles mode) read mode (NewSelectedRouteManager k) of
                    (Inl e, m) \<Rightarrow> (Inl e, sm_Kernel m)
                  | (Inr _, m) \<Rightarrow> (Inr (mode, manager_of roles declared m), sm_Kernel m)))))"

end
