(* ===== verification/Boot_Properties.thy ===== *)
theory Boot_Properties
  imports Core_Boot Config_Properties
begin

text \<open>
  Starting the core: what a started manager looks like, that the managed mode is found again after
  a restart or a loss of power, and what keeps a core from starting.
\<close>

section \<open>A started manager\<close>

lemma LoadWithLegacy_valid:
  assumes "LoadWithLegacy cc unquote fs path legacyPath providerDir k = (Inr c, k')"
  shows "config_wf (cc_URL cc) c"
proof -
  have "config_Validate (cc_URL cc) c = Inr c"
    if "config_Validate (cc_URL cc) c0 = Inr c" for c0 using config_Validate_again(1) [OF that] .
  moreover have "\<exists>c0. config_Validate (cc_URL cc) c0 = Inr c"
    using assms
    by (auto simp: LoadWithLegacy_def config_Load_def decode_config_def bindT_apply mapErrT_def fromSum_def returnT_def
        split: if_splits option.splits prod.splits sum.splits)
  ultimately have "config_Validate (cc_URL cc) c = Inr c" by blast
  then show ?thesis using config_Validate_fixed by blast
qed

text \<open>The configurations of the paths, one each, and the roles they make.\<close>

definition loads_as :: "'k config_services \<Rightarrow> string \<Rightarrow> string \<Rightarrow> string \<Rightarrow> role_config \<Rightarrow> bool" where
  "loads_as cs legacyPath providerDir path c \<longleftrightarrow>
     (\<exists>k k'. LoadWithLegacy (cs_Codec cs) (cs_Unquote cs) (cs_FS cs) path legacyPath providerDir k = (Inr c, k'))"

lemma load_roles_loaded:
  assumes "load_roles cs legacyPath providerDir paths roles k = (Inr roles', k')" and "gomap_wf roles"
  shows "\<exists>cfgs. list_all2 (loads_as cs legacyPath providerDir) paths cfgs \<and> distinct (map cf_Name cfgs) \<and> gomap_wf roles' \<and>
     (\<forall>c \<in> set cfgs. map_of roles (cf_Name c) = None) \<and>
     (\<forall>n r. map_of roles' n = Some r \<longleftrightarrow>
        map_of roles n = Some r \<or> (\<exists>(path, c) \<in> set (zip paths cfgs). cf_Name c = n \<and> r = new_role path c))"
  using assms
proof (induction paths arbitrary: roles k)
  case (Cons path paths)
  from Cons.prems(1) obtain c k1 where load: "LoadWithLegacy (cs_Codec cs) (cs_Unquote cs) (cs_FS cs) path legacyPath providerDir k = (Inr c, k1)"
    and fresh: "map_of roles (cf_Name c) = None"
    and rest: "load_roles cs legacyPath providerDir paths (gomap_put (cf_Name c) (new_role path c) roles) k1 = (Inr roles', k')"
    by (auto simp: bindT_apply mapErrT_def throwT_def split: prod.splits sum.splits if_splits)
  from Cons.IH [OF rest] Cons.prems(2) obtain cfgs where all: "list_all2 (loads_as cs legacyPath providerDir) paths cfgs"
    and names: "distinct (map cf_Name cfgs)" and wf: "gomap_wf roles'"
    and apart: "\<forall>x \<in> set cfgs. map_of (gomap_put (cf_Name c) (new_role path c) roles) (cf_Name x) = None"
    and exact: "\<forall>n r. map_of roles' n = Some r \<longleftrightarrow> map_of (gomap_put (cf_Name c) (new_role path c) roles) n = Some r \<or>
        (\<exists>(path, c) \<in> set (zip paths cfgs). cf_Name c = n \<and> r = new_role path c)" by auto
  have "loads_as cs legacyPath providerDir path c" using load by (auto simp: loads_as_def)
  with all have "list_all2 (loads_as cs legacyPath providerDir) (path # paths) (c # cfgs)" by simp
  moreover have "distinct (map cf_Name (c # cfgs))" using names apart by (force split: if_splits)
  moreover have "\<forall>x \<in> set (c # cfgs). map_of roles (cf_Name x) = None" using apart fresh by (auto split: if_splits)
  moreover have "map_of roles' n = Some r \<longleftrightarrow>
      map_of roles n = Some r \<or> (\<exists>(path, c) \<in> set (zip (path # paths) (c # cfgs)). cf_Name c = n \<and> r = new_role path c)" for n r
    using exact fresh by auto
  ultimately show ?case using wf by blast
qed (auto simp: returnT_def)

lemma NewController_keys: "fst ` set (co_Roles (NewController specs)) = sp_ID ` set specs"
proof -
  have "fst ` set (co_Roles (foldl (\<lambda>c s. c\<lparr>co_Specs := gomap_put (sp_ID s) s (co_Specs c),
      co_Roles := gomap_put (sp_ID s) role_zero (co_Roles c)\<rparr>) c specs)) = fst ` set (co_Roles c) \<union> sp_ID ` set specs" for c :: controller
    by (induction specs arbitrary: c) (auto simp: dom_map_of_conv_image_fst [symmetric])
  then show ?thesis by (simp add: NewController_def)
qed

lemma flag_empty [simp]: "\<not> flag [] n"
  by (simp add: flag_def)

lemma armed: "flag (mm_Roles (arm_roles names mode)) n \<longleftrightarrow> n \<in> set names \<or> flag (mm_Roles mode) n"
proof -
  have "flag (foldl (\<lambda>m n. gomap_put n True m) m names) n \<longleftrightarrow> n \<in> set names \<or> flag m n" for m
    by (induction names arbitrary: m) auto
  then show ?thesis by (simp add: arm_roles_def)
qed

lemma zoned_roles_iff:
  "(n, z) \<in> set (zoned_roles roles) \<longleftrightarrow> z \<noteq> [] \<and> (\<exists>r. (n, r) \<in> set roles \<and> mr_cfg r \<noteq> None \<and> managed_zone r = z)"
  by (force simp: zoned_roles_def List.map_filter_def split: if_splits)

lemma manager_of_reads:
  "dv_Roles (ew_Driver (manager_of roles declared m)) = roles" "ew_Controller (manager_of roles declared m) = NewController (role_specs roles)"
  "bk_tasks (book (manager_of roles declared m)) = []" "bk_recoveryRetryPending (book (manager_of roles declared m)) = []"
  "bk_startRetryPending (book (manager_of roles declared m)) = []" "host (manager_of roles declared m) = sm_Kernel m"
  by (simp_all add: manager_of_def rebuildProfileMapLocked_def update_book_def update_driver_def book_def new_book_def Let_def
      NewRecoveryDriver_def host_def)

text \<open>A role as the start of the core leaves it: known by its configuration, and nothing going on.\<close>

definition at_start :: "string \<Rightarrow> role_config \<Rightarrow> manager_role \<Rightarrow> bool" where
  "at_start path c r \<longleftrightarrow> mr_cfg r = Some c \<and> mr_configPath r = path \<and> \<not> mr_enabled r \<and> mr_process r = None \<and>
     \<not> mr_stateValid r \<and> \<not> mr_startPending r \<and> \<not> mr_validationInFlight r \<and> \<not> mr_recoveryInFlight r \<and> mr_lastError r = []"

lemma new_role_at_start: "at_start path c (new_role path c)"
  by (simp add: at_start_def new_role_def)

text \<open>C15: a core that starts has loaded one configuration from each of the paths it was given, all well
  formed and under different names, and knows exactly their roles: each path has its role under the
  name in its configuration, and there is no other. All of them are off, without a process, a task
  or a raised flag; the product controller knows the same roles; and a role is managed only if it
  has a zone.\<close>

theorem booted_core_well_formed:
  assumes "NewManager mc cs env read legacyPath providerDir paths k = (Inr (mode, w), k')"
  shows "gomap_wf (dv_Roles (ew_Driver w)) \<and>
    (\<exists>cfgs. list_all2 (loads_as cs legacyPath providerDir) paths cfgs \<and> distinct (map cf_Name cfgs) \<and>
       (\<forall>c \<in> set cfgs. config_wf (cc_URL (cs_Codec cs)) c) \<and>
       (\<forall>(path, c) \<in> set (zip paths cfgs). \<exists>r. role_of (cf_Name c) w = Some r \<and> at_start path c r) \<and>
       (\<forall>n r. role_of n w = Some r \<longrightarrow> n \<in> cf_Name ` set cfgs)) \<and>
    fst ` set (co_Roles (ew_Controller w)) = fst ` set (dv_Roles (ew_Driver w)) \<and>
    bk_tasks (book w) = [] \<and> bk_recoveryRetryPending (book w) = [] \<and> bk_startRetryPending (book w) = [] \<and>
    (\<forall>n. flag (mm_Roles mode) n \<longrightarrow> (\<exists>r. role_of n w = Some r \<and> managed_zone r \<noteq> [])) \<and> host w = k'"
proof -
  let ?cs = "if cs_configDir cs = [] then cs\<lparr>cs_configDir := configDirectory paths\<rparr> else cs"
  from assms obtain roles k1 declared m where load: "load_roles ?cs legacyPath providerDir paths [] k = (Inr roles, k1)"
    and w: "w = manager_of roles declared m" "k' = sm_Kernel m"
    and mode: "mode = \<lparr>mm_Socket = [], mm_Roles = []\<rparr> \<or>
      (\<exists>marker. mode = applyManagedMarker marker roles \<lparr>mm_Socket = [], mm_Roles = []\<rparr>)"
    by (fastforce simp: NewManager_def Let_def bindT_apply NewSelectedRouteManager_def
        split: prod.splits sum.splits option.splits)
  have same: "loads_as ?cs legacyPath providerDir = loads_as cs legacyPath providerDir" by (simp add: loads_as_def fun_eq_iff)
  from load_roles_loaded [OF load] obtain cfgs where all: "list_all2 (loads_as cs legacyPath providerDir) paths cfgs"
    and names: "distinct (map cf_Name cfgs)" and wf: "gomap_wf roles"
    and exact: "\<And>n r. map_of roles n = Some r \<longleftrightarrow> (\<exists>(path, c) \<in> set (zip paths cfgs). cf_Name c = n \<and> r = new_role path c)"
    unfolding same by auto
  have valid: "\<forall>c \<in> set cfgs. config_wf (cc_URL (cs_Codec cs)) c"
    using all LoadWithLegacy_valid by (fastforce simp: list_all2_conv_all_nth loads_as_def in_set_conv_nth)
  have known: "\<forall>(path, c) \<in> set (zip paths cfgs). \<exists>r. role_of (cf_Name c) w = Some r \<and> at_start path c r"
    using exact new_role_at_start by (fastforce simp: w role_of_def manager_of_reads)
  have only: "n \<in> cf_Name ` set cfgs" if "role_of n w = Some r" for n r
    using that exact [of n r] by (auto simp: w role_of_def manager_of_reads dest: set_zip_rightD)
  have "sp_ID ` set (role_specs roles) = fst ` set roles"
    by (simp add: role_specs_def config_spec_def image_image)
  moreover have "\<exists>r. role_of n w = Some r \<and> managed_zone r \<noteq> []" if "flag (mm_Roles mode) n" for n
  proof -
    from mode that obtain z where "(n, z) \<in> set (zoned_roles roles)"
      by (auto simp: applyManagedMarker_def armed)
    then show ?thesis using wf by (auto simp: zoned_roles_iff w role_of_def manager_of_reads gomap_mem_iff)
  qed
  ultimately show ?thesis
    using wf all names valid known only by (auto simp: w manager_of_reads NewController_keys)
qed

text \<open>A marker encoding that knows two markers, and no checkpoints.\<close>

definition one_marker :: "string list \<Rightarrow> managed_marker" where
  "one_marker zones = \<lparr>mk_Schema = 1, mk_Socket = ''/run/core.sock'', mk_CoreVersion = ''1.0'', mk_ManagedZones = zones\<rparr>"

definition two_markers :: marker_codec where
  "two_markers = \<lparr>mk_Marshal = (\<lambda>v. if v = one_marker [''z''] then Inr ''once'' else if v = one_marker [''z'', ''z''] then Inr ''twice''
       else Inl (Errorf ''json'')),
     mk_Unmarshal = (\<lambda>x. if x = ''once'' @ [CHR 0x0A] then Inr (one_marker [''z'']) else if x = ''twice'' @ [CHR 0x0A] then Inr (one_marker [''z'', ''z''])
       else Inl (Errorf ''json'')),
     mk_BuildVersion = ''1.0''\<rparr>"

definition no_env :: "disk manager_env" where
  "no_env = \<lparr>se_Routes = None, se_RoleRuntime = (\<lambda>_. None), se_ZoneRoles = [], se_StateDir = (\<lambda>_. None), se_Capacity = 1,
     se_Managed = [], se_AuthorityError = [], se_WriteCheckpoint = (\<lambda>_ _. returnT ()), se_Windows = False, se_Failpoint = None\<rparr>"

definition no_checkpoint :: "string \<Rightarrow> disk \<Rightarrow> goerror + selected_checkpoint" where
  "no_checkpoint path d = Inl (Sentinel ErrNotExist)"

definition shelf_boot :: "disk \<Rightarrow> (goerror + managed_mode \<times> disk world) \<times> disk" where
  "shelf_boot = NewManager two_markers shelf_services no_env no_checkpoint [] [] [shelf_path]"

theorem booted_core_well_formed_witness:
  "\<exists>mode w k' r c. shelf_boot (shelf_disk []) = (Inr (mode, w), k') \<and> fst ` set (co_Roles (ew_Controller w)) = {''home''} \<and>
     role_of ''home'' w = Some r \<and> at_start shelf_path c r \<and> config_wf (cc_URL (cs_Codec shelf_services)) c"
proof -
  let ?run = "shelf_boot (shelf_disk [])"
  have ok: "case fst ?run of Inl _ \<Rightarrow> False | Inr (mode, w) \<Rightarrow> map fst (dv_Roles (ew_Driver w)) = [''home'']" by code_simp
  then obtain mode w where w: "fst ?run = Inr (mode, w)" "map fst (dv_Roles (ew_Driver w)) = [''home'']"
    by (auto split: sum.splits prod.splits)
  then have run: "?run = (Inr (mode, w), snd ?run)" by (metis prod.collapse)
  from w(2) have keys: "fst ` set (dv_Roles (ew_Driver w)) = {''home''}" by (metis list.set(1,2) set_map)
  note booted = booted_core_well_formed [OF run [unfolded shelf_boot_def]]
  then obtain c r where "role_of (cf_Name c) w = Some r" "at_start shelf_path c r" "config_wf (cc_URL (cs_Codec shelf_services)) c"
    by (auto simp: list_all2_Cons1)
  moreover from this(1) keys have "cf_Name c = ''home''" by (force simp: role_of_def dest: map_of_SomeD)
  moreover have "fst ` set (co_Roles (ew_Controller w)) = {''home''}" using booted keys by simp
  ultimately show ?thesis using run by metis
qed

section \<open>Reading changes nothing\<close>

lemma disk_read [intro]: "keepsT (\<lambda>k. k = d) (fs_ReadFile disk_fs p)"
  by (auto simp: keepsT_def disk_fs_def disk_ReadFile_def split: option.splits)

lemma config_Load_reads: "keepsT (\<lambda>k. k = d) (config_Load cc disk_fs p)"
  unfolding config_Load_def by (intro keepsT_bind keepsT_mapErr disk_read keepsT_fromSum)

lemma LoadWithLegacy_reads: "keepsT (\<lambda>k. k = d) (LoadWithLegacy cc unquote disk_fs p legacyPath providerDir)"
  unfolding LoadWithLegacy_def legacy_Load_def
  by (intro keepsT_bind keepsT_mapErr keepsT_if keepsT_option config_Load_reads disk_read keepsT_fromSum keepsT_return)

lemma load_roles_reads:
  "cs_FS cs = disk_fs \<Longrightarrow> keepsT (\<lambda>k. k = d) (load_roles cs legacyPath providerDir paths roles)"
proof (induction paths arbitrary: roles)
  case (Cons path paths)
  then show ?case
    by (auto intro!: keepsT_bind keepsT_mapErr keepsT_if LoadWithLegacy_reads)
qed simp

section \<open>The marker\<close>

lemma zones_error_iff:
  "zones_error seen zs = None \<longleftrightarrow> [] \<notin> set zs \<and> distinct zs \<and> set zs \<inter> set seen = {}"
  by (induction zs arbitrary: seen) auto

definition marker_for :: "marker_codec \<Rightarrow> string \<Rightarrow> string list \<Rightarrow> managed_marker" where
  "marker_for mc socket zones =
     \<lparr>mk_Schema = managedModeMarkerSchema, mk_Socket = socket, mk_CoreVersion = mk_BuildVersion mc, mk_ManagedZones = zones\<rparr>"

lemma marker_error_for:
  "marker_error (marker_for mc socket zones) = None \<longleftrightarrow> socket \<noteq> [] \<and> [] \<notin> set zones \<and> distinct zones"
  by (simp add: marker_error_def marker_for_def zones_error_iff)

lemma marker_written:
  assumes fs: "cs_FS cs = disk_fs" and p: "managedMarkerPath cs = filepath_Dir (managedMarkerPath cs) @ ''/'' @ filepath_Base (managedMarkerPath cs)"
    and ok: "names_ok d" and run: "writeManagedMarker mc cs socket zones d = (Inr (), d')"
  shows "\<exists>x. mk_Marshal mc (marker_for mc socket zones) = Inr x \<and> names_ok d' \<and>
     (\<forall>kept left. survives kept left d' (managedMarkerPath cs) = Some (x @ [CHR 0x0A]))"
proof -
  let ?p = "managedMarkerPath cs"
  from run obtain x where x: "mk_Marshal mc (marker_for mc socket zones) = Inr x"
    and write_run: "WriteAtomicFile disk_fs ?p (x @ [CHR 0x0A]) 384 d = (Inr (), d')"
    by (auto simp: writeManagedMarker_def WriteAtomicJSON_def fs throwT_def marker_for_def split: if_splits sum.splits)
  from triple_value [OF cached.WriteAtomicFile_bound [OF p, where V = "crash_views d ?p"] _ write_run] ok
  have "names_ok d'" "crash_views d' ?p = {Some (x @ [CHR 0x0A])}" by auto
  moreover have "survives kept left d' ?p \<in> crash_views d' ?p" for kept left by (auto simp: crash_views_def)
  ultimately show ?thesis using x by blast
qed

lemma marker_read:
  assumes fs: "cs_FS cs = disk_fs" and p: "managedMarkerPath cs \<noteq> []"
    and content: "disk_content d (managedMarkerPath cs) = Some y" and y: "mk_Unmarshal mc y = Inr (marker_for mc socket zones)"
  shows "readManagedMarkerFile mc cs d =
    (if socket \<noteq> [] \<and> [] \<notin> set zones \<and> distinct zones then Inr (Some (marker_for mc socket zones))
     else Inl (the (marker_error (marker_for mc socket zones))), d)"
  using p content y marker_error_for [of mc socket zones]
  by (auto simp: readManagedMarkerFile_def readManagedMarker_def fs disk_fs_def disk_ReadFile_def split: option.splits)

text \<open>C20: a marker that was written is what the core finds at its next start, after a loss of power too:
  it restores the same socket and zones. But a marker with a zone twice, which two roles of one zone
  give, is refused: the core that wrote it does not start again.\<close>

theorem managed_marker_roundtrip:
  assumes fs: "cs_FS cs = disk_fs" and p: "managedMarkerPath cs = filepath_Dir (managedMarkerPath cs) @ ''/'' @ filepath_Base (managedMarkerPath cs)"
    and codec: "\<forall>v x. mk_Marshal mc v = Inr x \<longrightarrow> mk_Unmarshal mc (x @ [CHR 0x0A]) = Inr v"
    and ok: "names_ok d" and socket: "socket \<noteq> []" and zones: "[] \<notin> set zones"
    and run: "writeManagedMarker mc cs socket zones d = (Inr (), d')"
  shows "(\<exists>e. fst (readManagedMarkerFile mc cs (power_cycle kept left d')) =
     (if distinct zones then Inr (Some \<lparr>mk_Schema = 1, mk_Socket = socket, mk_CoreVersion = mk_BuildVersion mc, mk_ManagedZones = zones\<rparr>)
      else Inl e)) \<and>
    (\<not> distinct zones \<longrightarrow> cs_configDir cs \<noteq> [] \<longrightarrow>
       (\<exists>e. fst (NewManager mc cs env read legacyPath providerDir paths (power_cycle kept left d')) = Inl e))"
proof -
  let ?d = "power_cycle kept left d'"
  from marker_written [OF fs p ok run] obtain x where x: "mk_Marshal mc (marker_for mc socket zones) = Inr x"
    "survives kept left d' (managedMarkerPath cs) = Some (x @ [CHR 0x0A])" by blast
  have path: "managedMarkerPath cs \<noteq> []" using run by (auto simp: writeManagedMarker_def throwT_def split: if_splits)
  have y: "mk_Unmarshal mc (x @ [CHR 0x0A]) = Inr (marker_for mc socket zones)" using codec x(1) by blast
  have content: "disk_content ?d (managedMarkerPath cs) = Some (x @ [CHR 0x0A])" using x(2) by (simp add: power_cycle_content)
  note found = marker_read [OF fs path content y]
  have "\<exists>e. fst (NewManager mc cs env read legacyPath providerDir paths ?d) = Inl e"
    if "\<not> distinct zones" and dir: "cs_configDir cs \<noteq> []"
  proof -
    have still: "load_roles cs legacyPath providerDir ps roles ?d = (r, d2) \<Longrightarrow> d2 = ?d" for ps roles r d2
      using keepsTD [OF load_roles_reads [OF fs, of ?d]] by blast
    have declared: "ReadDeclaredProfiles disk_fs dir ?d = (r, d2) \<Longrightarrow> d2 = ?d" for dir r d2
      by (auto simp: ReadDeclaredProfiles_def disk_fs_def disk_ReadFile_def split: option.splits prod.splits sum.splits)
    show ?thesis
      using that(1) dir found
      by (auto simp: NewManager_def Let_def bindT_apply fs split: prod.splits sum.splits dest!: still declared)
  qed
  with found socket zones show ?thesis by (auto simp: marker_for_def managedModeMarkerSchema_def)
qed

theorem managed_marker_roundtrip_witness:
  "fst (readManagedMarkerFile two_markers shelf_services (power_cycle False 0
      (snd (writeManagedMarker two_markers shelf_services ''/run/core.sock'' [''z''] (shelf_disk (replicate 12 Works)))))) =
     Inr (Some (one_marker [''z''])) \<and>
   (\<exists>e. fst (shelf_boot (power_cycle False 0
      (snd (writeManagedMarker two_markers shelf_services ''/run/core.sock'' [''z'', ''z''] (shelf_disk (replicate 12 Works)))))) = Inl e)"
proof -
  have fs: "cs_FS shelf_services = disk_fs" and dir: "cs_configDir shelf_services \<noteq> []" and version: "mk_BuildVersion two_markers = ''1.0''"
    by (simp_all add: shelf_services_def bare_services_def two_markers_def)
  have path: "managedMarkerPath shelf_services = filepath_Dir (managedMarkerPath shelf_services) @ ''/'' @ filepath_Base (managedMarkerPath shelf_services)"
    by code_simp
  have codec: "\<forall>v x. mk_Marshal two_markers v = Inr x \<longrightarrow> mk_Unmarshal two_markers (x @ [CHR 0x0A]) = Inr v"
    by (auto simp: two_markers_def split: if_splits)
  have ok: "names_ok (shelf_disk (replicate 12 Works))"
    by (auto simp: shelf_disk_def names_ok_def named_by_def split: if_splits)
  have ran: "fst (writeManagedMarker two_markers shelf_services ''/run/core.sock'' [''z''] (shelf_disk (replicate 12 Works))) = Inr ()"
    "fst (writeManagedMarker two_markers shelf_services ''/run/core.sock'' [''z'', ''z''] (shelf_disk (replicate 12 Works))) = Inr ()"
    by code_simp+
  note marked = managed_marker_roundtrip [where kept = False and left = 0 and socket = "''/run/core.sock''" and env = no_env and read = no_checkpoint
      and legacyPath = "[]" and providerDir = "[]" and paths = "[shelf_path]", OF fs path codec ok]
  have pair: "run = (Inr (), snd run)" if "fst run = Inr ()" for run :: "(goerror + unit) \<times> disk" using that by (metis prod.collapse)
  from marked [OF _ _ pair [OF ran(1)]] marked [OF _ _ pair [OF ran(2)]] dir show ?thesis
    by (simp add: one_marker_def shelf_boot_def version)
qed

section \<open>A role's file that could not be rewritten\<close>

lemma load_roles_fails:
  assumes fs: "cs_FS cs = disk_fs" and bad: "fst (config_Load (cs_Codec cs) disk_fs path d) = Inl e" and "path \<in> set paths"
  shows "\<exists>e. fst (load_roles cs legacyPath providerDir paths roles d) = Inl e"
  using assms(3)
proof (induction paths arbitrary: roles)
  case (Cons q paths)
  show ?case
  proof (cases "LoadWithLegacy (cs_Codec cs) (cs_Unquote cs) disk_fs q legacyPath providerDir d")
    case (Pair r d1)
    then have d1: "d1 = d" using keepsTD [OF LoadWithLegacy_reads [of d]] by blast
    show ?thesis
    proof (cases r)
      case (Inl e')
      with Pair show ?thesis by (simp add: fs bindT_apply mapErrT_def)
    next
      case (Inr c)
      have "q \<noteq> path"
      proof
        assume "q = path"
        with bad Pair Inr show False
          by (auto simp: LoadWithLegacy_def bindT_apply split: prod.splits sum.splits)
      qed
      with Cons.prems have "path \<in> set paths" by simp
      with Cons.IH Pair Inr d1 show ?thesis by (simp add: fs bindT_apply mapErrT_def throwT_def)
    qed
  qed
qed simp

lemma config_zero_invalid: "config_Validate parse config_zero = Inl (Errorf ''invalid name %q'')"
  by (simp add: config_Validate_def config_zero_def)

lemma host_put: "host (snd (on_host t w)) = snd (t (host w))" "fst (on_host t w) = fst (t (host w))"
  by (simp_all add: on_host_def on_selected_def on_kernel_def host_def update_driver_def split: prod.splits)

text \<open>Moving a role to other profiles rewrites its file in place. When that write fails with nothing
  written, the command reports the failure and leaves the running composition alone, but the role's
  configuration is gone: the file is empty, it does not load any more, and a core given it does not
  start.\<close>

lemma failed_profile_move_destroys_config:
  assumes fs: "cs_FS cs = disk_fs" and dir: "cs_configDir cs \<noteq> []" and name: "instanceNameRE (TrimSpace name)"
    and profiles: "profile_membership [] profiles = Inr ms" "ms \<noteq> []"
    and loads: "fst (config_Load (cs_Codec cs) disk_fs (config_path (cs_configDir cs) (TrimSpace name)) (host w)) = Inr c"
    and encodes: "cc_Encode (cs_Codec cs) (c\<lparr>cf_Profiles := ms\<rparr>) = Inr x"
    and script: "dk_Script (host w) = Fails 0 # rest"
    and empty: "cc_Decode (cs_Codec cs) [] = Inr config_zero"
    and started: "config_path (cs_configDir cs) (TrimSpace name) \<in> set paths"
  shows "\<exists>e e' e'' w'. SetTunnelProfiles cs name profiles w = (Inl e, w') \<and>
     dv_Roles (ew_Driver w') = dv_Roles (ew_Driver w) \<and> book w' = book w \<and>
     fst (config_Load (cs_Codec cs) disk_fs (config_path (cs_configDir cs) (TrimSpace name)) (host w')) = Inl e' \<and>
     fst (NewManager mc cs env read legacyPath providerDir paths (host w')) = Inl e''"
proof -
  let ?p = "config_path (cs_configDir cs) (TrimSpace name)" and ?t = "config_SetTunnelProfiles (cs_Codec cs) disk_fs (cs_configDir cs) name profiles"
  let ?d = "put_file ?p [] ((host w)\<lparr>dk_Script := rest\<rparr>)"
  have "profiles \<noteq> []" using profiles by auto
  have loaded: "config_Load (cs_Codec cs) disk_fs ?p (host w) = (Inr c, host w)"
    using loads keepsTD [OF config_Load_reads [of "host w"] refl] by (metis prod.collapse)
  have host_run: "?t (host w) = (Inl (Wrapf ''write %s: %w'' (Errorf ''input/output error'')), ?d)"
    using name profiles loaded encodes script
    by (simp add: config_SetTunnelProfiles_def write_config_def bindT_apply fromSum_def mapErrT_def Let_def
        disk_fs_def [THEN arg_cong [where f = fs_WriteFile]] disk_WriteFile_def scripted_def)
  let ?w = "snd (on_host ?t w)"
  have run: "SetTunnelProfiles cs name profiles w = (Inl (Wrapf ''write %s: %w'' (Errorf ''input/output error'')), ?w)"
    using dir \<open>profiles \<noteq> []\<close> host_put(2) [of ?t w] host_run
    by (cases "on_host ?t w") (simp add: SetTunnelProfiles_def fs bindT_apply)
  have host': "host ?w = ?d" using host_put(1) [of ?t w] host_run by simp
  have bad: "fst (config_Load (cs_Codec cs) disk_fs ?p ?d) = Inl (Errorf ''invalid name %q'')"
    by (simp add: config_Load_def bindT_apply mapErrT_def fromSum_def decode_config_def empty config_zero_invalid
        disk_fs_def disk_ReadFile_def)
  from load_roles_fails [OF fs bad started, of legacyPath providerDir "[]"] obtain e'' where
    "fst (load_roles cs legacyPath providerDir paths [] ?d) = Inl e''" by blast
  then have "fst (NewManager mc cs env read legacyPath providerDir paths ?d) = Inl e''"
    using dir by (cases "load_roles cs legacyPath providerDir paths [] ?d") (simp add: NewManager_def Let_def bindT_apply)
  with run bad host' show ?thesis
    using on_host_reads(2,3) [OF surjective_pairing, of ?t w] by metis
qed

lemma failed_profile_move_destroys_config_witness:
  "\<exists>e e' e'' w'. SetTunnelProfiles shelf_services ''home'' [''work'', ''away''] (shelf_world [Fails 0]) = (Inl e, w') \<and>
     dv_Roles (ew_Driver w') = dv_Roles (ew_Driver (shelf_world [Fails 0])) \<and> book w' = book (shelf_world [Fails 0]) \<and>
     fst (config_Load (cs_Codec shelf_services) disk_fs shelf_path (host w')) = Inl e' \<and>
     fst (shelf_boot (host w')) = Inl e''"
proof -
  have fs: "cs_FS shelf_services = disk_fs" and dir: "cs_configDir shelf_services \<noteq> []"
    by (simp_all add: shelf_services_def bare_services_def)
  have path: "config_path (cs_configDir shelf_services) (TrimSpace ''home'') = shelf_path" by code_simp
  have "instanceNameRE (TrimSpace ''home'')" "profile_membership [] [''work'', ''away''] = Inr [''work'', ''away'']"
    "[''work'', ''away''] \<noteq> []"
    "fst (config_Load (cs_Codec shelf_services) disk_fs (config_path (cs_configDir shelf_services) (TrimSpace ''home'')) (host (shelf_world [Fails 0]))) = Inr home_config"
    "cc_Encode (cs_Codec shelf_services) (home_config\<lparr>cf_Profiles := [''work'', ''away'']\<rparr>) = Inr ''away''"
    "dk_Script (host (shelf_world [Fails 0])) = Fails 0 # []" "cc_Decode (cs_Codec shelf_services) [] = Inr config_zero"
    "config_path (cs_configDir shelf_services) (TrimSpace ''home'') \<in> set [shelf_path]"
    by code_simp+
  note this = failed_profile_move_destroys_config [OF fs dir this, where mc = two_markers and env = no_env and read = no_checkpoint and
      legacyPath = "[]" and providerDir = "[]"]
  then show ?thesis unfolding path shelf_boot_def .
qed

end
