(* ===== verification/Control_Frames.thy ===== *)
theory Control_Frames
  imports Kikimora_Prelude "HOL-Library.Word"
begin

text \<open>
  The frames of the local control protocol (\<^verbatim>\<open>readFrame\<close>, \<^verbatim>\<open>writeFrame\<close> and
  \<^verbatim>\<open>writeAll\<close> of \<^verbatim>\<open>control/api.go\<close>): a payload of at most one MiB after its length in four
  bytes, most significant first. Bytes are characters, the encoding of the payload is a parameter.
\<close>

section \<open>Frames\<close>

definition max_frame :: nat where
  "max_frame = 1024 * 1024"

definition PutUint32 :: "32 word \<Rightarrow> string" where
  "PutUint32 v = map (\<lambda>i. char_of (unat (drop_bit i v) mod 256)) [24, 16, 8, 0]"

definition BigEndianUint32 :: "string \<Rightarrow> 32 word" where
  "BigEndianUint32 bs = word_of_nat (foldl (\<lambda>a c. a * 256 + of_char c) 0 bs)"

text \<open>\<^verbatim>\<open>io.ReadFull\<close> on a connection that will deliver the given bytes and then end.\<close>

definition ReadFull :: "nat \<Rightarrow> (string, string) tx" where
  "ReadFull n s = (if length s < n then (Inl (Errorf ''unexpected EOF''), []) else (Inr (take n s), drop n s))"

definition control_readFrame :: "(string \<Rightarrow> goerror + 'v) \<Rightarrow> (string, 'v) tx" where
  "control_readFrame unmarshal =
     bindT (ReadFull 4) (\<lambda>header.
       let size = BigEndianUint32 header
       in if size = 0 \<or> word_of_nat max_frame < size then throwT (Errorf ''invalid frame size %d'')
          else bindT (ReadFull (unat size)) (\<lambda>payload. fromSum (unmarshal payload)))"

text \<open>\<open>wr data\<close> is \<^verbatim>\<open>w.Write\<close>: how many bytes it took, and an error.\<close>

function writeAll :: "(string \<Rightarrow> 'k \<Rightarrow> (nat \<times> goerror option) \<times> 'k) \<Rightarrow> string \<Rightarrow> ('k, unit) tx" where
  "writeAll wr data k =
     (if data = [] then (Inr (), k)
      else case wr data k of
             ((n, Some e), k') \<Rightarrow> (Inl e, k')
           | ((n, None), k') \<Rightarrow> if n = 0 then (Inl (Errorf ''short write''), k') else writeAll wr (drop n data) k')"
  by pat_completeness auto

termination by (relation "measure (\<lambda>(wr, data, k). length data)") auto

declare writeAll.simps [simp del]

definition control_writeFrame ::
  "(string \<Rightarrow> 'k \<Rightarrow> (nat \<times> goerror option) \<times> 'k) \<Rightarrow> ('v \<Rightarrow> goerror + string) \<Rightarrow> 'v \<Rightarrow> ('k, unit) tx" where
  "control_writeFrame wr marshal v =
     bindT (fromSum (marshal v)) (\<lambda>payload.
       if payload = [] \<or> max_frame < length payload then throwT (Errorf ''invalid response size'')
       else bindT (writeAll wr (PutUint32 (word_of_nat (length payload)))) (\<lambda>_. writeAll wr payload))"

section \<open>What a connection does\<close>

text \<open>A writer that takes at least one byte of what it is given and passes on what it took.\<close>

locale byte_sink =
  fixes wr :: "string \<Rightarrow> 'k \<Rightarrow> (nat \<times> goerror option) \<times> 'k"
    and sent :: "'k \<Rightarrow> string"
  assumes takes: "data \<noteq> [] \<Longrightarrow> \<exists>n k'. wr data k = ((n, None), k') \<and> 0 < n \<and> n \<le> length data \<and> sent k' = sent k @ take n data"
begin

lemma writeAll_sends: "\<exists>k'. writeAll wr data k = (Inr (), k') \<and> sent k' = sent k @ data"
proof (induction data arbitrary: k rule: length_induct)
  case (1 data)
  show ?case
  proof (cases "data = []")
    case False
    from takes [OF this] obtain n k1 where n: "wr data k = ((n, None), k1)" "0 < n" "n \<le> length data" "sent k1 = sent k @ take n data" by blast
    then have "length (drop n data) < length data" by simp
    with "1.IH" obtain k' where "writeAll wr (drop n data) k1 = (Inr (), k')" "sent k' = sent k1 @ drop n data" by blast
    with n False show ?thesis by (subst writeAll.simps) simp
  qed (simp add: writeAll.simps)
qed

end

section \<open>The header\<close>

lemma PutUint32_length [simp]: "length (PutUint32 v) = 4"
  by (simp add: PutUint32_def)

lemma base256:
  "n < 2 ^ 32 \<Longrightarrow> ((n div 2 ^ 24 mod 256 * 256 + n div 2 ^ 16 mod 256) * 256 + n div 2 ^ 8 mod 256) * 256 + n mod 256 = (n :: nat)"
proof -
  assume n: "n < 2 ^ 32"
  have "n div 2 ^ 24 < 256" using n by (simp add: less_mult_imp_div_less)
  then have "n div 2 ^ 24 mod 256 = n div 2 ^ 24" by simp
  moreover have "n div 2 ^ 16 = n div 2 ^ 24 * 256 + n div 2 ^ 16 mod 256"
    using div_mult_mod_eq [of "n div 2 ^ 16" 256] by (simp add: div_mult2_eq [symmetric])
  moreover have "n div 2 ^ 8 = n div 2 ^ 16 * 256 + n div 2 ^ 8 mod 256"
    using div_mult_mod_eq [of "n div 2 ^ 8" 256] by (simp add: div_mult2_eq [symmetric])
  moreover have "n = n div 2 ^ 8 * 256 + n mod 256" by simp
  ultimately show ?thesis by presburger
qed

lemma uint32_roundtrip: "BigEndianUint32 (PutUint32 v) = v"
proof -
  have v: "unat v < 2 ^ 32" using unsigned_less [of v, where ?'a = nat] by simp
  have byte: "of_char (char_of (m mod 256) :: char) = (m mod 256 :: nat)" for m by simp
  have nth: "unat (drop_bit i v) = unat v div 2 ^ i" for i using unat_drop_bit_eq [of i v] by (simp only: drop_bit_eq_div [where ?'a = nat])
  have "foldl (\<lambda>a c. a * 256 + of_char c) 0 (PutUint32 v) = unat v"
    unfolding PutUint32_def list.map foldl.simps byte nth
    using base256 [OF v] by (simp only: mult_zero_left add_0 power_0 div_by_1)
  then show ?thesis unfolding BigEndianUint32_def by simp
qed

lemma readFrame_frame:
  assumes "payload \<noteq> []" "length payload \<le> max_frame"
  shows "control_readFrame unmarshal (PutUint32 (word_of_nat (length payload)) @ payload @ rest) = (unmarshal payload, rest)"
proof -
  have bound: "length payload < 2 ^ 32" using assms(2) by (simp add: max_frame_def)
  then have size: "unat (word_of_nat (length payload) :: 32 word) = length payload" by (simp add: unat_of_nat take_bit_nat_eq_self)
  have "word_of_nat (length payload) \<noteq> (0 :: 32 word)" using size assms(1) by (metis length_0_conv unsigned_0)
  moreover have "\<not> word_of_nat max_frame < (word_of_nat (length payload) :: 32 word)"
    using assms(2) size by (simp add: word_less_nat_alt unat_of_nat max_frame_def)
  ultimately show ?thesis
    by (cases "unmarshal payload") (simp_all add: control_readFrame_def bindT_apply ReadFull_def uint32_roundtrip size fromSum_def Let_def)
qed

context byte_sink
begin

lemma writeFrame_sends:
  assumes "marshal v = Inr payload" "payload \<noteq> []" "length payload \<le> max_frame"
  shows "\<exists>k'. control_writeFrame wr marshal v k = (Inr (), k') \<and> sent k' = sent k @ PutUint32 (word_of_nat (length payload)) @ payload"
proof -
  let ?h = "PutUint32 (word_of_nat (length payload))"
  from writeAll_sends [of ?h k] obtain k1 where k1: "writeAll wr ?h k = (Inr (), k1)" "sent k1 = sent k @ ?h" by blast
  from writeAll_sends [of payload k1] obtain k2 where "writeAll wr payload k1 = (Inr (), k2)" "sent k2 = sent k1 @ payload" by blast
  with k1 assms show ?thesis by (simp add: control_writeFrame_def bindT_apply fromSum_def)
qed

end

section \<open>A connection that takes pieces\<close>

text \<open>The pieces it takes, in order, and then everything; each piece is at least one byte.\<close>

record pipe =
  pp_Pieces :: "nat list"
  pp_Sent :: string

definition pipe_write :: "string \<Rightarrow> pipe \<Rightarrow> (nat \<times> goerror option) \<times> pipe" where
  "pipe_write data p =
     (let n = min (length data) (case pp_Pieces p of [] \<Rightarrow> length data | m # _ \<Rightarrow> Suc m)
      in ((n, None), p\<lparr>pp_Pieces := drop 1 (pp_Pieces p), pp_Sent := pp_Sent p @ take n data\<rparr>))"

interpretation pieces: byte_sink pipe_write pp_Sent
proof
  fix data :: string and p
  assume "data \<noteq> []"
  then show "\<exists>n p'. pipe_write data p = ((n, None), p') \<and> 0 < n \<and> n \<le> length data \<and> pp_Sent p' = pp_Sent p @ take n data"
    by (auto simp: pipe_write_def Let_def split: list.splits)
qed

text \<open>C37: whatever pieces a connection takes a frame in, writing a message sends its length and its
  payload whole, and reading gives the message back and leaves what follows alone. A message is
  refused for its size by the writer, never by the reader.\<close>

theorem control_frame_roundtrip:
  assumes codec: "marshal v = Inr payload" "unmarshal payload = Inr v"
  shows "case control_writeFrame pipe_write marshal v \<lparr>pp_Pieces = ms, pp_Sent = []\<rparr> of
      (Inl e, p) \<Rightarrow> (payload = [] \<or> max_frame < length payload) \<and> pp_Sent p = []
    | (Inr _, p) \<Rightarrow> control_readFrame unmarshal (pp_Sent p @ rest) = (Inr v, rest)"
proof (cases "payload = [] \<or> max_frame < length payload")
  case True
  with codec show ?thesis by (auto simp: control_writeFrame_def bindT_apply fromSum_def throwT_def)
next
  case False
  let ?p0 = "\<lparr>pp_Pieces = ms, pp_Sent = []\<rparr>"
  have bounds: "payload \<noteq> []" "length payload \<le> max_frame" using False by auto
  from pieces.writeFrame_sends [where marshal = marshal and v = v and payload = payload and k = ?p0, OF codec(1) bounds] obtain p where
    "control_writeFrame pipe_write marshal v ?p0 = (Inr (), p)" "pp_Sent p = PutUint32 (word_of_nat (length payload)) @ payload" by auto
  with readFrame_frame [OF bounds, of unmarshal rest] codec(2) show ?thesis by simp
qed

theorem control_frame_roundtrip_witness:
  "control_readFrame (\<lambda>x. Inr x) (pp_Sent (snd (control_writeFrame pipe_write (\<lambda>x. Inr x) ''hello'' \<lparr>pp_Pieces = [0, 2, 0], pp_Sent = []\<rparr>)) @ ''next'') =
     (Inr ''hello'', ''next'')"
proof -
  let ?run = "control_writeFrame pipe_write (\<lambda>x. Inr x) ''hello'' \<lparr>pp_Pieces = [0, 2, 0], pp_Sent = []\<rparr>"
  from control_frame_roundtrip [where marshal = "\<lambda>x. Inr x" and unmarshal = "\<lambda>x. Inr x" and v = "''hello''" and payload = "''hello''"
      and ms = "[0, 2, 0]" and rest = "''next''", OF refl refl] show ?thesis
    by (cases ?run; cases "fst ?run") (simp_all add: max_frame_def)
qed

end
