(* ===== verification/Control_Auth.thy ===== *)
theory Control_Auth
  imports File_Store
begin

text \<open>
  The privileged control credential (\<^verbatim>\<open>control/auth_key.go\<close>): 32 bytes, kept in a file as 64
  hexadecimal characters and a newline. The source of randomness is a parameter.
\<close>

definition privilegedAuthKeyBytes :: nat where
  "privilegedAuthKeyBytes = 32"

definition PrivilegedAuthKeyPath :: "string \<Rightarrow> string" where
  "PrivilegedAuthKeyPath stateDir = filepath_Join stateDir ''control-route-auth.key''"

text \<open>\<^verbatim>\<open>encoding/hex\<close>: lower case out, either case in.\<close>

definition hex_char :: "nat \<Rightarrow> char" where
  "hex_char n = ''0123456789abcdef'' ! n"

definition hex_byte :: "char \<Rightarrow> string" where
  "hex_byte c = [hex_char (of_char c div 16), hex_char (of_char c mod 16)]"

definition hex_EncodeToString :: "string \<Rightarrow> string" where
  "hex_EncodeToString bs = concat (map hex_byte bs)"

fun hex_DecodeString :: "string \<Rightarrow> goerror + string" where
  "hex_DecodeString [] = Inr []"
| "hex_DecodeString [c] = Inl (Errorf ''encoding/hex: odd length hex string'')"
| "hex_DecodeString (a # b # cs) =
     (case (hex_value a, hex_value b) of
        (Some x, Some y) \<Rightarrow> map_sum id ((#) (char_of (nat (x * 16 + y)))) (hex_DecodeString cs)
      | _ \<Rightarrow> Inl (Errorf ''encoding/hex: invalid byte''))"

definition parsePrivilegedAuthKey :: "string \<Rightarrow> goerror + string" where
  "parsePrivilegedAuthKey raw =
     (if raw = [] \<or> last raw \<noteq> CHR 0x0A then Inl (Errorf ''credential must end with one newline'')
      else let text = butlast raw
           in if length text \<noteq> 2 * privilegedAuthKeyBytes
              then Inl (Errorf ''credential must be exactly %d hex characters, got %d'')
              else map_sum (Wrapf ''credential is not hexadecimal: %w'') id (hex_DecodeString text))"

definition encodePrivilegedAuthKey :: "string \<Rightarrow> string" where
  "encodePrivilegedAuthKey key = hex_EncodeToString key"

definition verifyPrivilegedAuth :: "string \<Rightarrow> string \<Rightarrow> bool" where
  "verifyPrivilegedAuth key presented \<longleftrightarrow> presented = encodePrivilegedAuthKey key"

text \<open>\<^verbatim>\<open>writePrivilegedAuthFile\<close> on Unix.\<close>

definition createPrivilegedAuthKey :: "'k file_system \<Rightarrow> (nat \<Rightarrow> ('k, string) tx) \<Rightarrow> string \<Rightarrow> ('k, string) tx" where
  "createPrivilegedAuthKey fs rand path =
     bindT (mapErrT (Wrapf ''generate privileged auth key: %w'') (rand privilegedAuthKeyBytes)) (\<lambda>raw.
     bindT (WriteAtomicFile fs path (hex_EncodeToString raw @ [CHR 0x0A]) 384) (\<lambda>_. returnT raw))"

definition EnsurePrivilegedAuthKey ::
  "'k file_system \<Rightarrow> (nat \<Rightarrow> ('k, string) tx) \<Rightarrow> string \<Rightarrow> bool \<Rightarrow> ('k, string) tx" where
  "EnsurePrivilegedAuthKey fs rand stateDir managed k =
     (let path = PrivilegedAuthKeyPath stateDir
      in case fs_ReadFile fs path k of
           (Inr raw, k') \<Rightarrow>
             (case parsePrivilegedAuthKey raw of
                Inr key \<Rightarrow> (Inr key, k')
              | Inl e \<Rightarrow>
                  if managed then (Inl (Wrapf ''privileged auth key %s is malformed: %w'' e), k')
                  else createPrivilegedAuthKey fs rand path k')
         | (Inl e, k') \<Rightarrow>
             if \<not> errorsIs e ErrNotExist then (Inl (Wrapf ''read privileged auth key: %w'' e), k')
             else if managed then (Inl (Errorf ''managed installation is missing its privileged auth key %s''), k')
             else createPrivilegedAuthKey fs rand path k')"

section \<open>Round trip\<close>

lemma hex_char_value: "n < 16 \<Longrightarrow> hex_value (hex_char n) = Some (int n)"
proof -
  assume "n < 16"
  then have "n \<in> set [0..<16]" by simp
  then show ?thesis by (auto simp: hex_char_def hex_value_def Let_def upt_rec eval_nat_numeral)
qed

lemma hex_byte_roundtrip: "hex_DecodeString (hex_byte c @ cs) = map_sum id ((#) c) (hex_DecodeString cs)"
proof -
  have small: "(of_char c :: nat) < 256" by (rule nat_of_char_less_256)
  then have "(of_char c :: nat) div 16 < 16" "(of_char c :: nat) mod 16 < 16" by (simp_all add: less_mult_imp_div_less)
  moreover have "nat (int (of_char c div 16) * 16 + int (of_char c mod 16)) = (of_char c :: nat)"
    by (simp add: nat_add_distrib nat_mult_distrib)
  ultimately show ?thesis by (simp add: hex_byte_def hex_char_value)
qed

lemma hex_roundtrip: "hex_DecodeString (hex_EncodeToString bs) = Inr bs"
proof (induction bs)
  case (Cons c cs)
  have "hex_EncodeToString (c # cs) = hex_byte c @ hex_EncodeToString cs" by (simp add: hex_EncodeToString_def)
  with Cons show ?case by (simp add: hex_byte_roundtrip)
qed (simp add: hex_EncodeToString_def)

lemma hex_length: "length (hex_EncodeToString bs) = 2 * length bs"
  by (induction bs) (simp_all add: hex_EncodeToString_def hex_byte_def)

lemma key_roundtrip:
  "length key = privilegedAuthKeyBytes \<Longrightarrow> parsePrivilegedAuthKey (encodePrivilegedAuthKey key @ [CHR 0x0A]) = Inr key"
  by (simp add: parsePrivilegedAuthKey_def encodePrivilegedAuthKey_def hex_length hex_roundtrip Let_def)

lemma hex_injective: "hex_EncodeToString a = hex_EncodeToString b \<Longrightarrow> a = b"
  by (metis hex_roundtrip sum.inject(2))

end
