(* ===== verification/Control_Api.thy ===== *)
theory Control_Api
  imports Control_Auth Core_Boot Core_Snapshot
begin

text \<open>
  The control API of the core (\<^verbatim>\<open>control/api.go\<close>, \<^verbatim>\<open>leshy_routes_api.go\<close> and
  \<^verbatim>\<open>checkPrivilegedAuth\<close> of \<^verbatim>\<open>control.go\<close>): one request is checked, carried out on the
  manager and answered. A request that makes the core panic has no answer. Connections and their
  goroutines, contexts and the debug log are left out; the frames are those of
  \<^verbatim>\<open>Control_Frames\<close>.
\<close>

section \<open>Requests and responses\<close>

definition APIVersion :: int where
  "APIVersion = 3"

record api_request =
  aq_Version :: int
  aq_ID :: string
  aq_Method :: string
  aq_Role :: string
  aq_Profile :: string
  aq_Tunnel :: "tunnel_spec option"
  aq_Profiles :: "string list"
  aq_Roles :: "string list"
  aq_List :: string
  aq_Content :: string
  aq_Mode :: string
  aq_Enabled :: "bool option"
  aq_LeshyRoute :: "leshy_intent option"
  aq_PrivilegedAuth :: string

record api_failure =
  af_Code :: string
  af_Message :: string
  af_Role :: string
  af_Retryable :: bool

record api_response =
  ar_Version :: int
  ar_MinVersion :: int
  ar_MaxVersion :: int
  ar_ID :: string
  ar_OK :: bool
  ar_Error :: string
  ar_Capabilities :: "string list"
  ar_Snapshot :: "manager_snapshot option"
  ar_APIError :: "api_failure option"
  ar_Message :: string
  ar_Lists :: "(string, string) gomap"
  ar_Zones :: "leshy_zone list"
  ar_BypassMode :: string
  ar_LeshyRoute :: "leshy_result option"

definition response_to :: "api_request \<Rightarrow> api_response" where
  "response_to q = \<lparr>ar_Version = aq_Version q, ar_MinVersion = 0, ar_MaxVersion = 0, ar_ID = aq_ID q, ar_OK = False, ar_Error = [],
     ar_Capabilities = [], ar_Snapshot = None, ar_APIError = None, ar_Message = [], ar_Lists = [], ar_Zones = [],
     ar_BypassMode = [], ar_LeshyRoute = None\<rparr>"

definition refuse :: "api_failure \<Rightarrow> api_response \<Rightarrow> api_response" where
  "refuse e r = r\<lparr>ar_Error := af_Message e, ar_APIError := Some e\<rparr>"

definition ManagedSelectedRoutesCapability :: string where
  "ManagedSelectedRoutesCapability = ''managed_selected_routes_v1''"

definition api_capabilities :: "string list" where
  "api_capabilities =
     [''Handshake'', ''GetSnapshot'', ''Subscribe'', ''ConnectAll'', ''DisconnectAll'', ''ConnectRole'', ''DisconnectRole'',
      ''RetryRole'', ''SetActiveProfile'', ''RediscoverEndpoints'', ''ValidateRole'', ''GetDiagnosticsSnapshot'',
      ''SetDiagnosticsCapture'', ''CreateDiagnosticsBundle'', ''CreateTunnel'', ''RemoveTunnel'', ''CreateProfile'',
      ''SetProfileRoles'', ''SetTunnelProfiles'', ''GetRoutingLists'', ''SetRoutingList'', ''SetBypassMode'',
      ManagedSelectedRoutesCapability]"

definition leshyRouteMethods :: "string \<Rightarrow> bool" where
  "leshyRouteMethods m \<longleftrightarrow> m \<in> {''EnsureLeshyRoute'', ''ForgetLeshyRoute'', ''FlushLeshyZone''}"

section \<open>State and services\<close>

text \<open>\<open>ap_Auth\<close> is the credential, absent on an installation without a state directory. The diagnostics
  collector is a service; \<open>as_HasRoutes\<close> says whether the selected-route manager is there.\<close>

record 'k api_state =
  ap_World :: "'k world"
  ap_Mode :: managed_mode
  ap_Auth :: "string option"
  ap_LegacyAuthRequests :: u64

record 'k api_services =
  as_Manager :: "'k manager_services"
  as_Config :: "'k config_services"
  as_Zones :: "string \<Rightarrow> goerror + leshy_zone list"
  as_Capture :: "(bool \<Rightarrow> ('k, unit) tx) option"
  as_Bundle :: "(string \<Rightarrow> ('k, string) tx) option"
  as_HasRoutes :: bool

definition schema2ManagedActive :: bool where
  "schema2ManagedActive = False"

definition auth_required :: "string \<Rightarrow> string \<Rightarrow> api_failure" where
  "auth_required meth text =
     \<lparr>af_Code = ''privileged_auth_required'', af_Message = text, af_Role = meth, af_Retryable = False\<rparr>"

definition checkPrivilegedAuth :: "string \<Rightarrow> string \<Rightarrow> 'k api_state \<Rightarrow> api_failure option \<times> 'k api_state" where
  "checkPrivilegedAuth meth presented s =
     (case ap_Auth s of
        None \<Rightarrow> (None, s)
      | Some key \<Rightarrow>
          if presented \<noteq> [] then
            (if verifyPrivilegedAuth key presented then (None, s)
             else (Some (auth_required meth ''privileged method requires the service credential''), s))
          else if schema2ManagedActive
            then (Some (auth_required meth ''schema2 managed mode requires the service credential''), s)
          else (None, s\<lparr>ap_LegacyAuthRequests := ap_LegacyAuthRequests s + 1\<rparr>))"

section \<open>Commands\<close>

text \<open>The commands that only report success, and those that leave a message.\<close>

definition no_collector :: goerror where
  "no_collector = Errorf ''diagnostics capture is not configured on this host''"

definition SetDiagnosticsCapture :: "'k api_services \<Rightarrow> bool \<Rightarrow> ('k world, unit) tx" where
  "SetDiagnosticsCapture sv on =
     (case as_Capture sv of
        None \<Rightarrow> throwT no_collector
      | Some capture \<Rightarrow> bindT (on_host (capture on)) (\<lambda>_ w. (Inr (), bumpLocked w)))"

definition BundleDiagnostics :: "'k api_services \<Rightarrow> string \<Rightarrow> ('k world, string) tx" where
  "BundleDiagnostics sv out = (case as_Bundle sv of None \<Rightarrow> throwT no_collector | Some bundle \<Rightarrow> on_host (bundle out))"

definition plain_command :: "'k api_services \<Rightarrow> string \<Rightarrow> api_request \<Rightarrow> ('k world, unit) tx option" where
  "plain_command sv socket q =
     (let ms = as_Manager sv; cs = as_Config sv; m = aq_Method q
      in if m = ''ConnectAll'' then Some (ConnectAll ms)
         else if m = ''DisconnectAll'' then Some (DisconnectAll ms)
         else if m = ''ConnectRole'' then Some (ConnectRole ms (aq_Role q))
         else if m = ''DisconnectRole'' then Some (DisconnectRole ms (aq_Role q))
         else if m = ''RetryRole'' then Some (RetryRole ms (aq_Role q))
         else if m = ''SetActiveProfile'' then Some (SetActiveProfile ms (aq_Profile q))
         else if m = ''RediscoverEndpoints'' then Some (RediscoverEndpoints (aq_Role q))
         else if m = ''ValidateRole'' then Some (ValidateRole (wired ms) (aq_Role q))
         else if m = ''SetDiagnosticsCapture'' then
           Some (case aq_Enabled q of None \<Rightarrow> throwT (Errorf ''SetDiagnosticsCapture requires enabled'') | Some on \<Rightarrow> SetDiagnosticsCapture sv on)
         else if m = ''SetRoleIPv6'' then
           Some (case aq_Enabled q of None \<Rightarrow> throwT (Errorf ''SetRoleIPv6 requires enabled'') | Some on \<Rightarrow> SetRoleIPv6 cs socket (aq_Role q) on)
         else None)"

text \<open>The hook of the router: a failure is only mentioned.\<close>

definition after_reload :: "'k config_services \<Rightarrow> string \<Rightarrow> string \<Rightarrow> ('k, string) tx" where
  "after_reload cs done_text failed_text k =
     (case cs_Reload cs k of (Inl e, k') \<Rightarrow> (Inr (failed_text @ error_text e), k') | (Inr _, k') \<Rightarrow> (Inr done_text, k'))"

definition api_SetBypassMode :: "'k config_services \<Rightarrow> string \<Rightarrow> string \<Rightarrow> ('k, string) tx" where
  "api_SetBypassMode cs socket mode =
     bindT (SetBypassMode cs socket mode) (\<lambda>_.
       after_reload cs (''bypass mode saved: '' @ mode) ''bypass mode saved, but Leshy did not restart: '')"

definition api_SetRoutingList :: "'k config_services \<Rightarrow> string \<Rightarrow> string \<Rightarrow> string \<Rightarrow> ('k, string) tx" where
  "api_SetRoutingList cs socket name content =
     (if name = BypassList then throwT (Errorf ''bypass is a global rule, not a list'')
      else bindT (SetRoutingList cs name content) (\<lambda>_ k.
             case RegenerateLeshyConfig cs socket k of
               (Inl e, k') \<Rightarrow> (Inr (name @ '' list saved, but the router config was not rewritten: '' @ error_text e), k')
             | (Inr _, k') \<Rightarrow> after_reload cs (name @ '' list saved; Leshy restarted'') (name @ '' list saved, but Leshy did not restart: '') k'))"

definition api_CreateProfile :: "'k config_services \<Rightarrow> string \<Rightarrow> string list \<Rightarrow> ('k world, string) tx" where
  "api_CreateProfile cs profile roles w =
     (case CreateProfile cs profile roles w of
        ((added, Some e), w') \<Rightarrow> (Inl e, w')
      | ((added, None), w') \<Rightarrow>
          (Inr (''profile '' @ cs_Quote cs profile @ (if added = 0 then '' is already registered'' else '' created'') @
            (if roles \<noteq> [] then '' with '' @ show_dec (int (length roles)) @ '' role(s)'' else [])), w'))"

definition join_comma :: "string list \<Rightarrow> string" where
  "join_comma ps = (case ps of [] \<Rightarrow> [] | q # qs \<Rightarrow> q @ concat (map (\<lambda>x. '', '' @ x) qs))"

definition message_command :: "'k api_services \<Rightarrow> string \<Rightarrow> api_request \<Rightarrow> ('k world, string) tx option" where
  "message_command sv socket q =
     (let cs = as_Config sv; m = aq_Method q; say = (\<lambda>f t. bindT t (\<lambda>x. returnT (f x)))
      in if m = ''CreateTunnel'' then
           Some (say (\<lambda>path. ''created '' @ path @ ''; restart the core to load it'') (on_host (CreateTunnel cs (aq_Tunnel q))))
         else if m = ''SetBypassMode'' then Some (on_host (api_SetBypassMode cs socket (aq_Mode q)))
         else if m = ''SetRoutingList'' then Some (on_host (api_SetRoutingList cs socket (aq_List q) (aq_Content q)))
         else if m = ''RemoveTunnel'' then
           Some (bindT (on_host (RemoveTunnel cs (aq_Role q))) (\<lambda>_. returnT (''removed '' @ aq_Role q @ ''; restart the core to unload it'')))
         else if m = ''CreateProfile'' then Some (api_CreateProfile cs (aq_Profile q) (aq_Roles q))
         else if m = ''SetProfileRoles'' then
           Some (bindT (SetProfileRoles cs (aq_Profile q) (aq_Roles q)) (\<lambda>_.
             returnT (''profile '' @ cs_Quote cs (aq_Profile q) @ '' now contains '' @ show_dec (int (length (aq_Roles q))) @ '' role(s)'')))
         else if m = ''SetTunnelProfiles'' then
           Some (say (\<lambda>path. ''moved '' @ aq_Role q @ '' to ['' @ join_comma (aq_Profiles q) @ '']'') (SetTunnelProfiles cs (aq_Role q) (aq_Profiles q)))
         else if m = ''CreateDiagnosticsBundle'' then Some (BundleDiagnostics sv [])
         else None)"

text \<open>The lists up to the first that cannot be read.\<close>

fun read_lists :: "'k config_services \<Rightarrow> string list \<Rightarrow> 'k \<Rightarrow> ((string, string) gomap \<times> goerror option) \<times> 'k" where
  "read_lists cs [] k = (([], None), k)"
| "read_lists cs (name # names) k =
     (case RoutingList cs name k of
        (Inl e, k') \<Rightarrow> (([], Some e), k')
      | (Inr content, k') \<Rightarrow> (case read_lists cs names k' of ((found, err), k'') \<Rightarrow> (((name, content) # found, err), k'')))"

definition GetRoutingLists ::
  "'k api_services \<Rightarrow> 'k world \<Rightarrow> ((api_response \<Rightarrow> api_response) \<times> goerror option) \<times> 'k world" where
  "GetRoutingLists sv w =
     (let cs = as_Config sv
      in case on_host (ReadLeshyZones (as_Zones sv) (cs_FS cs) (DefaultLeshyConfigPath (fs_GOOS (cs_FS cs)))) w of (zones, w1) \<Rightarrow>
         (case on_host (\<lambda>k. case BypassMode cs k of (mode, k') \<Rightarrow> (Inr mode, k')) w1 of (mode, w2) \<Rightarrow>
            (case on_host (\<lambda>k. case read_lists cs (RoutingListNames w) k of (x, k') \<Rightarrow> (Inr x, k')) w2 of (read, w3) \<Rightarrow>
               case read of
                 Inl e \<Rightarrow> ((id, Some e), w3)
               | Inr (found, err) \<Rightarrow>
                   ((\<lambda>r. r\<lparr>ar_Zones := (case zones of Inl _ \<Rightarrow> [] | Inr zs \<Rightarrow> zs),
                          ar_BypassMode := (case mode of Inl _ \<Rightarrow> [] | Inr m \<Rightarrow> m), ar_Lists := found\<rparr>, err), w3))))"

section \<open>Routes\<close>

definition isLeshyRouteVerdictError :: "goerror \<Rightarrow> bool" where
  "isLeshyRouteVerdictError e \<longleftrightarrow> isDeniedErr e \<or> isConflictErr e"

text \<open>How a method ends: with an edit of the response and perhaps an error, with a verdict that is
  answered at once, or in a panic.\<close>

datatype api_outcome =
    Done "api_response \<Rightarrow> api_response" "goerror option"
  | Verdict "api_response \<Rightarrow> api_response"
  | Panic

definition ensure_route :: "'k api_services \<Rightarrow> leshy_intent \<Rightarrow> 'k world \<Rightarrow> (leshy_result \<times> goerror option) \<times> 'k world" where
  "ensure_route sv intent w =
     (case Ensure (env_at (ms_Recovery (as_Manager sv)) w) intent (dv_Selected (ew_Driver w)) of
        (r, m) \<Rightarrow> (r, update_driver (\<lambda>d. d\<lparr>dv_Selected := m\<rparr>) w))"

definition forget_route :: "'k api_services \<Rightarrow> leshy_intent \<Rightarrow> ('k world, unit) tx" where
  "forget_route sv intent w = on_selected (Forget (env_at (ms_Recovery (as_Manager sv)) w) intent) w"

definition flush_zone :: "'k api_services \<Rightarrow> string \<Rightarrow> 'k world \<Rightarrow> goerror option \<times> 'k world" where
  "flush_zone sv zone w =
     (case FlushZone (env_at (ms_Recovery (as_Manager sv)) w) zone (dv_Selected (ew_Driver w)) of
        (e, m) \<Rightarrow> (e, update_driver (\<lambda>d. d\<lparr>dv_Selected := m\<rparr>) w))"

text \<open>\<^verbatim>\<open>request.LeshyRoute.Zone\<close> is read before the pointer is checked.\<close>

definition route_command :: "'k api_services \<Rightarrow> api_request \<Rightarrow> 'k world \<Rightarrow> api_outcome \<times> 'k world" where
  "route_command sv q w =
     (if \<not> as_HasRoutes sv then (Done id (Some (Errorf ''managed selected routes are not wired'')), w)
      else if aq_Method q = ''EnsureLeshyRoute'' then
        (case aq_LeshyRoute q of
           None \<Rightarrow> (Done id (Some (Errorf ''EnsureLeshyRoute requires leshy_route'')), w)
         | Some intent \<Rightarrow>
             (case ensure_route sv intent w of
                ((result, err), w') \<Rightarrow>
                  let edit = (\<lambda>r. r\<lparr>ar_LeshyRoute := Some result\<rparr>)
                  in case err of
                       None \<Rightarrow> (Done edit None, w')
                     | Some e \<Rightarrow> (if isLeshyRouteVerdictError e then Verdict edit else Done edit (Some e), w')))
      else if aq_Method q = ''ForgetLeshyRoute'' then
        (case aq_LeshyRoute q of
           None \<Rightarrow> (Done id (Some (Errorf ''ForgetLeshyRoute requires leshy_route'')), w)
         | Some intent \<Rightarrow> (case forget_route sv intent w of (Inl e, w') \<Rightarrow> (Done id (Some e), w') | (Inr _, w') \<Rightarrow> (Done id None, w')))
      else
        (case aq_LeshyRoute q of
           None \<Rightarrow> (Panic, w)
         | Some intent \<Rightarrow>
             if li_Zone intent = [] then (Done id (Some (Errorf ''FlushLeshyZone requires leshy_route.zone'')), w)
             else (case flush_zone sv (li_Zone intent) w of (e, w') \<Rightarrow> (Done id e, w'))))"

section \<open>Handling a request\<close>

definition with_snapshot :: "'k api_services \<Rightarrow> 'k world \<Rightarrow> api_response \<Rightarrow> api_response option" where
  "with_snapshot sv w r =
     map_option (\<lambda>snap. r\<lparr>ar_Snapshot := Some snap\<rparr>) (manager_snapshotLocked (rv_ParseURL (ms_Recovery (as_Manager sv))) w)"

definition run_method :: "'k api_services \<Rightarrow> api_request \<Rightarrow> managed_mode \<Rightarrow> 'k world \<Rightarrow> api_outcome \<times> 'k world" where
  "run_method sv q mode w =
     (let m = aq_Method q
      in if m = ''Handshake'' then
           (Done (\<lambda>r. r\<lparr>ar_Capabilities := api_capabilities, ar_MinVersion := 1, ar_MaxVersion := APIVersion\<rparr>) None, w)
         else if m \<in> {''Snapshot'', ''GetSnapshot'', ''Subscribe'', ''GetDiagnosticsSnapshot''} then (Done id None, w)
         else if m = ''GetRoutingLists'' then (case GetRoutingLists sv w of ((edit, err), w') \<Rightarrow> (Done edit err, w'))
         else if leshyRouteMethods m then route_command sv q w
         else case plain_command sv (mm_Socket mode) q of
                Some t \<Rightarrow> (case t w of (Inl e, w') \<Rightarrow> (Done id (Some e), w') | (Inr _, w') \<Rightarrow> (Done id None, w'))
              | None \<Rightarrow>
                  (case message_command sv (mm_Socket mode) q of
                     Some t \<Rightarrow>
                       (case t w of
                          (Inl e, w') \<Rightarrow> (Done id (Some e), w')
                        | (Inr text, w') \<Rightarrow> (Done (\<lambda>r. r\<lparr>ar_Message := text\<rparr>) None, w'))
                   | None \<Rightarrow> (Done id (Some (Errorf ''unsupported method %q'')), w)))"

definition unsupported :: "api_request \<Rightarrow> string \<Rightarrow> api_failure" where
  "unsupported q text = \<lparr>af_Code = ''unsupported_version'', af_Message = text, af_Role = [], af_Retryable = False\<rparr>"

definition command_failed :: "api_request \<Rightarrow> goerror \<Rightarrow> api_failure" where
  "command_failed q e = \<lparr>af_Code = ''command_failed'', af_Message = error_text e, af_Role = aq_Role q, af_Retryable = True\<rparr>"

text \<open>A missing answer is a panic: the one above, or the snapshot of a role without configuration.\<close>

definition finish_request :: "'k api_services \<Rightarrow> api_request \<Rightarrow> api_outcome \<Rightarrow> 'k world \<Rightarrow> api_response option" where
  "finish_request sv q outcome w =
     (case outcome of
        Panic \<Rightarrow> None
      | Verdict edit \<Rightarrow> Some ((edit (response_to q))\<lparr>ar_OK := True\<rparr>)
      | Done edit (Some e) \<Rightarrow> Some (refuse (command_failed q e) (edit (response_to q)))
      | Done edit None \<Rightarrow>
          let r = (edit (response_to q))\<lparr>ar_OK := True\<rparr>
          in if aq_Method q = ''Handshake'' then Some r else with_snapshot sv w r)"

definition Handle :: "'k api_services \<Rightarrow> api_request \<Rightarrow> 'k api_state \<Rightarrow> api_response option \<times> 'k api_state" where
  "Handle sv q s =
     (if aq_Version q < 1 \<or> APIVersion < aq_Version q
        then (Some (refuse (unsupported q ''unsupported API version %d'') (response_to q)), s)
      else if aq_Version q < 3 \<and> leshyRouteMethods (aq_Method q)
        then (Some (refuse (unsupported q ''method %q requires API version 3'') (response_to q)), s)
      else case (if leshyRouteMethods (aq_Method q) then checkPrivilegedAuth (aq_Method q) (aq_PrivilegedAuth q) s else (None, s)) of
             (Some e, s1) \<Rightarrow> (Some (refuse e (response_to q)), s1)
           | (None, s1) \<Rightarrow>
               (case run_method sv q (ap_Mode s1) (ap_World s1) of
                  (outcome, w) \<Rightarrow> (finish_request sv q outcome w, s1\<lparr>ap_World := w\<rparr>)))"

section \<open>Subscriptions\<close>

text \<open>The fields a subscriber is told about.\<close>

definition bool_text :: "bool \<Rightarrow> string" where
  "bool_text b = (if b then ''true'' else ''false'')"

definition join_unit :: "string list \<Rightarrow> string" where
  "join_unit ps = (case ps of [] \<Rightarrow> [] | q # qs \<Rightarrow> q @ concat (map (\<lambda>x. CHR 0x1F # x) qs))"

definition join_names :: "string list \<Rightarrow> string" where
  "join_names ps = (case ps of [] \<Rightarrow> [] | q # qs \<Rightarrow> q @ concat (map (\<lambda>x. CHR '','' # x) qs))"

definition subscriptionFingerprint :: "manager_snapshot \<Rightarrow> string" where
  "subscriptionFingerprint s =
     join_unit ([sp_CoreState s, sp_AggregateState s, sp_ActiveProfile s, sp_UnderlaySummary s, join_names (sp_Profiles s)] @
       concat (map (\<lambda>r. [sn_ID r, sn_State r, sn_Reason r, en_State (sn_Endpoint r),
                         bool_text (pu_Published (sn_Publication r)), bool_text (pk_Active (sn_Parking r))]) (sp_Roles s)))"

text \<open>One turn of \<^verbatim>\<open>serveSubscription\<close> on a snapshot that \<^verbatim>\<open>WaitForRevision\<close> returned: what is
  sent, and what is remembered.\<close>

record subscription =
  su_Last :: string
  su_Revision :: u64

definition subscription_turn ::
  "int \<Rightarrow> string \<Rightarrow> manager_snapshot \<Rightarrow> subscription \<Rightarrow> api_response option \<times> subscription" where
  "subscription_turn version ident snap u =
     (let fp = subscriptionFingerprint snap
      in if fp = su_Last u then (None, u\<lparr>su_Revision := sp_Revision snap\<rparr>)
         else (Some ((response_to \<lparr>aq_Version = version, aq_ID = ident, aq_Method = [], aq_Role = [], aq_Profile = [], aq_Tunnel = None,
                       aq_Profiles = [], aq_Roles = [], aq_List = [], aq_Content = [], aq_Mode = [], aq_Enabled = None,
                       aq_LeshyRoute = None, aq_PrivilegedAuth = []\<rparr>)\<lparr>ar_OK := True, ar_Snapshot := Some snap\<rparr>),
               \<lparr>su_Last = fp, su_Revision = sp_Revision snap\<rparr>))"

end
