(* ===== verification/Api_Properties.thy ===== *)
theory Api_Properties
  imports Control_Api Manager_Outcomes Sample_Host Routing_Lists Sample_Manager
begin

text \<open>
  What a client of the control API may rely on: a refused request changes nothing, an answer that
  says a route is applied means the core owns it, and which request takes the core down.
\<close>

section \<open>Samples\<close>

text \<open>A host without files, and a core with one ready role over the platform of \<^verbatim>\<open>Sample_Host\<close>.\<close>

definition no_files :: "unit file_system" where
  "no_files = \<lparr>fs_MkdirAll = (\<lambda>_. throwT (Sentinel ErrNotExist)), fs_CreateTemp = (\<lambda>_ _. throwT (Sentinel ErrNotExist)),
     fs_Chmod = (\<lambda>_ _. throwT (Sentinel ErrNotExist)), fs_Write = (\<lambda>_ _. throwT (Sentinel ErrNotExist)),
     fs_Sync = (\<lambda>_. throwT (Sentinel ErrNotExist)), fs_Close = (\<lambda>_. throwT (Sentinel ErrNotExist)),
     fs_Rename = (\<lambda>_ _. throwT (Sentinel ErrNotExist)), fs_Remove = (\<lambda>_. throwT (Sentinel ErrNotExist)),
     fs_Open = (\<lambda>_. throwT (Sentinel ErrNotExist)), fs_SyncOpenDir = (\<lambda>_. throwT (Sentinel ErrNotExist)),
     fs_ReadFile = (\<lambda>_. throwT (Sentinel ErrNotExist)), fs_WriteFile = (\<lambda>_ _. throwT (Sentinel ErrNotExist)),
     fs_Stat = (\<lambda>_. throwT (Sentinel ErrNotExist)), fs_ReadDir = (\<lambda>_. throwT (Sentinel ErrNotExist)),
     fs_GOOS = ''linux'', fs_Now = (\<lambda>_. 0)\<rparr>"

definition route_api :: "unit api_services" where
  "route_api = \<lparr>as_Manager = manager_on (quiet_services (open_env 7)), as_Config = bare_services no_files,
     as_Zones = (\<lambda>_. Inr []), as_Capture = None, as_Bundle = None, as_HasRoutes = True\<rparr>"

definition route_core :: "string option \<Rightarrow> unit api_state" where
  "route_core key = \<lparr>ap_World = (home_world (NewSelectedRouteManager ()))
       \<lparr>ew_Controller := (NewController [])\<lparr>co_Roles := [(''home'', sample_runtime 7)]\<rparr>\<rparr>,
     ap_Mode = \<lparr>mm_Socket = [], mm_Roles = []\<rparr>, ap_Auth = key, ap_LegacyAuthRequests = 0\<rparr>"

definition route_request :: "string \<Rightarrow> leshy_intent option \<Rightarrow> string \<Rightarrow> api_request" where
  "route_request meth intent token = \<lparr>aq_Version = 3, aq_ID = ''1'', aq_Method = meth, aq_Role = [], aq_Profile = [], aq_Tunnel = None,
     aq_Profiles = [], aq_Roles = [], aq_List = [], aq_Content = [], aq_Mode = [], aq_Enabled = None, aq_LeshyRoute = intent,
     aq_PrivilegedAuth = token\<rparr>"

section \<open>Refusals\<close>

text \<open>C13: a request of an unknown version, a route asked asked for in an older version, and a route
  asked with a wrong credential are refused for good, before anything of the core changes: the
  answer is a failure that is not to be retried, without a snapshot.\<close>

theorem refused_request_changes_nothing:
  assumes "aq_Version q < 1 \<or> APIVersion < aq_Version q \<or> (leshyRouteMethods (aq_Method q) \<and>
     (aq_Version q < 3 \<or>
      (aq_PrivilegedAuth q \<noteq> [] \<and> (\<exists>key. ap_Auth s = Some key \<and> aq_PrivilegedAuth q \<noteq> encodePrivilegedAuthKey key))))"
  shows "\<exists>r e. Handle sv q s = (Some r, s) \<and> \<not> ar_OK r \<and> ar_APIError r = Some e \<and> \<not> af_Retryable e \<and> ar_Snapshot r = None"
  using assms
  by (auto simp: Handle_def checkPrivilegedAuth_def verifyPrivilegedAuth_def refuse_def response_to_def unsupported_def
      auth_required_def split: option.splits)

theorem refused_request_changes_nothing_witness:
  "\<exists>r e. Handle route_api (route_request ''EnsureLeshyRoute'' (Some sample_intent) ''00'') (route_core (Some ''k'')) =
       (Some r, route_core (Some ''k'')) \<and> \<not> ar_OK r \<and> ar_APIError r = Some e \<and> \<not> af_Retryable e \<and> ar_Snapshot r = None"
proof -
  have "leshyRouteMethods (aq_Method (route_request ''EnsureLeshyRoute'' (Some sample_intent) ''00''))"
    "aq_PrivilegedAuth (route_request ''EnsureLeshyRoute'' (Some sample_intent) ''00'') = ''00''"
    "ap_Auth (route_core (Some ''k'')) = Some ''k''" "''00'' \<noteq> encodePrivilegedAuthKey ''k''"
    by code_simp+
  then show ?thesis by (intro refused_request_changes_nothing) auto
qed

section \<open>Answers about routes\<close>

lemma route_dispatch:
  assumes "leshyRouteMethods (aq_Method q)"
  shows "run_method sv q mode w = route_command sv q w"
  using assms by (auto simp: run_method_def leshyRouteMethods_def Let_def)

lemma verdict_state:
  assumes "Ensure env intent m = ((res, Some e), m')" "isLeshyRouteVerdictError e"
  shows "lr_State res \<in> {''denied'', ''conflict''}"
  using assms by (auto simp: Ensure_def isLeshyRouteVerdictError_def split: prod.splits option.splits if_splits)

text \<open>C14: an answer to a route request that is marked OK carries a verdict. When it says applied or
  already applied, the intent passed every gate of the core and its record is active and owns the
  identity the platform normalized; otherwise it says denied or conflict. Any other failure is
  answered with an error.\<close>

theorem answered_route_is_active:
  assumes asked: "aq_Method q = ''EnsureLeshyRoute''" "aq_LeshyRoute q = Some intent"
    and ok: "manager_ok (dv_Selected (ew_Driver (ap_World s)))"
    and run: "Handle sv q s = (Some r, s')" and answered: "ar_OK r"
  shows "\<exists>res. ar_LeshyRoute r = Some res \<and>
    (lr_State res \<in> {''denied'', ''conflict''} \<or>
     (lr_State res \<in> {''applied'', ''already-applied''} \<and>
      (\<exists>role prefix runtime rm i. admitted (env_at (ms_Recovery (as_Manager sv)) (ap_World s)) intent role prefix runtime (dv_Selected (ew_Driver (ap_World s))) \<and>
         se_Routes (rv_Env (ms_Recovery (as_Manager sv))) = Some rm \<and> normalized rm role prefix (ts_IfIndex (rr_Toad runtime)) i \<and>
         active_on (role, prefix) i (registry_abs (sm_Registry (dv_Selected (ew_Driver (ap_World s'))))))))"
proof -
  let ?env = "env_at (ms_Recovery (as_Manager sv)) (ap_World s)" and ?m = "dv_Selected (ew_Driver (ap_World s))"
  have route: "leshyRouteMethods (aq_Method q)" using asked by (simp add: leshyRouteMethods_def)
  from run answered obtain outcome w where w: "route_command sv q (ap_World s) = (outcome, w)"
    "finish_request sv q outcome w = Some r" "ap_World s' = w"
    using route
    by (auto simp: Handle_def route_dispatch checkPrivilegedAuth_def refuse_def response_to_def split: if_splits option.splits prod.splits)
  obtain res err m' where ensured: "Ensure ?env intent ?m = ((res, err), m')" by (metis prod.collapse)
  have selected: "dv_Selected (ew_Driver (update_driver (\<lambda>d. d\<lparr>dv_Selected := m'\<rparr>) (ap_World s))) = m'" by (simp add: update_driver_def)
  have shown: "ar_LeshyRoute r = Some res \<and> sm_Registry (dv_Selected (ew_Driver w)) = sm_Registry m' \<and> (\<forall>e. err = Some e \<longrightarrow> isLeshyRouteVerdictError e)"
    using w(1,2) asked answered ensured selected
    by (auto simp: route_command_def ensure_route_def finish_request_def with_snapshot_def refuse_def response_to_def Let_def
        split: if_splits option.splits prod.splits)
  show ?thesis
  proof (cases err)
    case (Some e)
    with shown ensured verdict_state [of ?env intent ?m res e m'] show ?thesis by auto
  next
    case None
    with ensured have "ensure_intent ?env intent ?m = ((res, None), m')"
      by (auto simp: Ensure_def split: prod.splits option.splits if_splits)
    from ensure_intent_success [OF achieves_active ok this] obtain role prefix runtime rm i where
      "admitted ?env intent role prefix runtime ?m" "se_Routes ?env = Some rm" "normalized rm role prefix (ts_IfIndex (rr_Toad runtime)) i"
      "active_on (role, prefix) i (registry_abs (sm_Registry m'))" "lr_State res \<in> {''applied'', ''already-applied''}"
      unfolding ensured_def by blast
    moreover have "se_Routes ?env = se_Routes (rv_Env (ms_Recovery (as_Manager sv)))" by (simp add: env_at_def)
    moreover have "registry_abs (sm_Registry (dv_Selected (ew_Driver (ap_World s')))) = registry_abs (sm_Registry m')" using shown w(3) by simp
    ultimately show ?thesis using shown by metis
  qed
qed

theorem answered_route_is_active_witness:
  "\<exists>r res s'. Handle route_api (route_request ''EnsureLeshyRoute'' (Some sample_intent) []) (route_core (Some ''k'')) = (Some r, s') \<and>
     ar_LeshyRoute r = Some res \<and> lr_State res \<in> {''applied'', ''already-applied''} \<and>
     (\<exists>role prefix i. active_on (role, prefix) i (registry_abs (sm_Registry (dv_Selected (ew_Driver (ap_World s'))))))"
proof -
  let ?q = "route_request ''EnsureLeshyRoute'' (Some sample_intent) []" and ?s = "route_core (Some ''k'')"
  let ?run = "Handle route_api ?q ?s"
  have evaluated: "case fst ?run of None \<Rightarrow> False | Some r \<Rightarrow> ar_OK r \<and> map_option lr_State (ar_LeshyRoute r) = Some ''applied''" by code_simp
  then obtain r where r: "?run = (Some r, snd ?run)" "ar_OK r" "map_option lr_State (ar_LeshyRoute r) = Some ''applied''"
    by (cases ?run) (auto split: option.splits)
  have asked: "aq_Method ?q = ''EnsureLeshyRoute''" "aq_LeshyRoute ?q = Some sample_intent" by (simp_all add: route_request_def)
  have ok: "manager_ok (dv_Selected (ew_Driver (ap_World ?s)))"
    by (simp add: route_core_def home_world_def NewRecoveryDriver_def NewSelectedRouteManager_def manager_ok_def registry_ok_def
        valid_under_def disk_ok_def)
  from answered_route_is_active [OF asked ok r(1,2)] r(1,3) show ?thesis by fastforce
qed

section \<open>Requests without an answer\<close>

lemma those_all: "(\<And>x. x \<in> set xs \<Longrightarrow> f x \<noteq> None) \<Longrightarrow> those (map f xs) \<noteq> None"
proof (induction xs)
  case (Cons x xs)
  from Cons.prems [of x] obtain y where "f x = Some y" by auto
  with Cons show ?case by simp
qed simp

lemma snapshot_fails:
  assumes "manager_snapshotLocked parse w = None"
  shows "\<exists>n r. (n, r) \<in> set (dv_Roles (ew_Driver w)) \<and> mr_cfg r = None"
proof (rule ccontr)
  assume none: "\<not> ?thesis"
  have "(case role_of n w of None \<Rightarrow> None | Some r \<Rightarrow> snapshotRoleLocked parse n r w) \<noteq> None" if "n \<in> set (namesLocked w)" for n
  proof -
    from that obtain r where r: "role_of n w = Some r" "(n, r) \<in> set (dv_Roles (ew_Driver w))"
      by (auto simp: namesLocked_def role_of_def) (metis map_of_SomeD weak_map_of_SomeI)
    with none obtain c where "mr_cfg r = Some c" by fastforce
    with r show ?thesis by (simp add: snapshotRoleLocked_def Let_def split: prod.splits)
  qed
  from those_all [of "namesLocked w" "\<lambda>n. case role_of n w of None \<Rightarrow> None | Some r \<Rightarrow> snapshotRoleLocked parse n r w", OF this] assms
  show False by (auto simp: manager_snapshotLocked_def Let_def split: option.splits)
qed

lemma no_panic:
  assumes "run_method sv q mode w = (outcome, w')" and "aq_Method q \<noteq> ''FlushLeshyZone'' \<or> aq_LeshyRoute q \<noteq> None"
  shows "outcome \<noteq> Panic"
proof (cases "leshyRouteMethods (aq_Method q)")
  case True
  with assms show ?thesis unfolding route_dispatch [OF True]
    by (auto simp: route_command_def leshyRouteMethods_def Let_def split: if_splits option.splits prod.splits sum.splits)
next
  case False
  with assms(1) show ?thesis
    by (auto simp: run_method_def Let_def split: if_splits option.splits prod.splits sum.splits)
qed

text \<open>Flushing a zone without naming a route takes the core down, whatever credential the core
  holds, if the client sends none: the zone is read through the missing route before the route is
  checked. Every other request is answered, except by a core that has a role without configuration.\<close>

lemma flush_without_route_crashes:
  assumes "as_HasRoutes sv" and "aq_Version q = 3" "aq_Method q = ''FlushLeshyZone''" "aq_LeshyRoute q = None" "aq_PrivilegedAuth q = []"
  shows "fst (Handle sv q s) = None \<and>
    (\<forall>q' s' s''. Handle sv q' s' = (None, s'') \<and> (aq_Method q' \<noteq> ''FlushLeshyZone'' \<or> aq_LeshyRoute q' \<noteq> None) \<longrightarrow>
       (\<exists>n r. (n, r) \<in> set (dv_Roles (ew_Driver (ap_World s''))) \<and> mr_cfg r = None))"
proof -
  have here: "fst (Handle sv q s) = None"
  proof (cases "checkPrivilegedAuth ''FlushLeshyZone'' [] s")
    case (Pair e s1)
    then have "e = None" by (auto simp: checkPrivilegedAuth_def schema2ManagedActive_def split: option.splits)
    moreover have "route_command sv q w = (Panic, w)" for w using assms by (simp add: route_command_def)
    ultimately show ?thesis
      using assms Pair route_dispatch [of q sv]
      by (simp add: Handle_def APIVersion_def finish_request_def leshyRouteMethods_def)
  qed
  have "\<exists>n r. (n, r) \<in> set (dv_Roles (ew_Driver (ap_World s''))) \<and> mr_cfg r = None"
    if run: "Handle sv q' s' = (None, s'')" and other: "aq_Method q' \<noteq> ''FlushLeshyZone'' \<or> aq_LeshyRoute q' \<noteq> None" for q' s' s''
  proof -
    from run obtain mode w outcome w' where w: "run_method sv q' mode w = (outcome, w')" "finish_request sv q' outcome w' = None"
      "ap_World s'' = w'"
      by (auto simp: Handle_def split: if_splits option.splits prod.splits)
    have "outcome \<noteq> Panic" using no_panic [OF w(1) other] .
    with w(2) have "\<exists>parse. manager_snapshotLocked parse w' = None"
      by (auto simp: finish_request_def with_snapshot_def Let_def split: api_outcome.splits option.splits if_splits)
    then show ?thesis using snapshot_fails w(3) by blast
  qed
  with here show ?thesis by blast
qed

lemma flush_without_route_crashes_witness:
  "fst (Handle route_api (route_request ''FlushLeshyZone'' None []) (route_core (Some ''k''))) = None"
proof -
  have "as_HasRoutes route_api" "aq_Version (route_request ''FlushLeshyZone'' None []) = 3"
    "aq_Method (route_request ''FlushLeshyZone'' None []) = ''FlushLeshyZone''"
    "aq_LeshyRoute (route_request ''FlushLeshyZone'' None []) = None" "aq_PrivilegedAuth (route_request ''FlushLeshyZone'' None []) = []"
    by (simp_all add: route_api_def route_request_def)
  from flush_without_route_crashes [OF this] show ?thesis by blast
qed

end
