(* ===== verification/Mode_Transition.thy ===== *)
theory Mode_Transition
  imports Control_Auth
begin

text \<open>
  The journal of a change between local and managed mode (\<^verbatim>\<open>control/mode_transition.go\<close>): the
  record, its validation, the durable files of the journal and of the committed generation, and the
  decision meant for a start that finds a journal. Only tests call these functions; the core's own
  start (\<^verbatim>\<open>Core_Boot\<close>) does not read the journal. Modes and phases are strings, as in the file. The
  random bytes and the SHA-256 sum are parameters.
\<close>

section \<open>The record\<close>

definition ManagedLeshyLocal :: string where
  "ManagedLeshyLocal = ''local''"

definition ManagedLeshyManaged :: string where
  "ManagedLeshyManaged = ''managed''"

definition ManagedTransitionPrepared :: string where
  "ManagedTransitionPrepared = ''prepared''"

definition ManagedTransitionConfigWritten :: string where
  "ManagedTransitionConfigWritten = ''config_written''"

definition ManagedTransitionMarkerWritten :: string where
  "ManagedTransitionMarkerWritten = ''marker_written''"

definition managedLeshyTransitionSchema :: int where
  "managedLeshyTransitionSchema = 1"

record mode_transition =
  mt_Schema :: int
  mt_ID :: string
  mt_From :: string
  mt_To :: string
  mt_Phase :: string
  mt_Socket :: string
  mt_FromActivationID :: string
  mt_ToActivationID :: string
  mt_FromGeneration :: u64
  mt_ToGeneration :: u64
  mt_Zones :: "string list"
  mt_ConfigSHA256 :: string

definition TransitionJournalPath :: "string \<Rightarrow> string" where
  "TransitionJournalPath stateDir = filepath_Join stateDir ''leshy-mode-transition.json''"

definition ModeGenerationPath :: "string \<Rightarrow> string" where
  "ModeGenerationPath stateDir = filepath_Join stateDir ''leshy-mode-generation.json''"

record mode_generation =
  mo_Schema :: int
  mo_LastCommittedGeneration :: u64

section \<open>Identifiers and zones\<close>

definition NewActivationID :: "goerror + string \<Rightarrow> goerror + string" where
  "NewActivationID raw = map_sum (Wrapf ''generate activation id: %w'') hex_EncodeToString raw"

definition newTransitionID :: "goerror + string \<Rightarrow> goerror + string" where
  "newTransitionID raw = map_sum (Wrapf ''generate transition id: %w'') hex_EncodeToString raw"

text \<open>The loop over the zones with what it has seen.\<close>

fun distinct_zones :: "string list \<Rightarrow> string list \<Rightarrow> string list" where
  "distinct_zones seen [] = []"
| "distinct_zones seen (z # zs) =
     (if z = [] \<or> z \<in> set seen then distinct_zones seen zs else z # distinct_zones (z # seen) zs)"

definition canonicalTransitionZones :: "string list \<Rightarrow> string list" where
  "canonicalTransitionZones zones = sort (distinct_zones [] zones)"

definition lowerHex :: "nat \<Rightarrow> string \<Rightarrow> bool" where
  "lowerHex n s \<longleftrightarrow> length s = n \<and> list_all (\<lambda>c. c \<in> set ''0123456789abcdef'') s"

section \<open>Validation\<close>

text \<open>\<open>previous\<close> is absent for the first zone.\<close>

fun zone_order_error :: "string option \<Rightarrow> string list \<Rightarrow> goerror option" where
  "zone_order_error previous [] = None"
| "zone_order_error previous (z # zs) =
     (if z = [] then Some (Errorf ''zone %d is empty'')
      else if (case previous of None \<Rightarrow> False | Some p \<Rightarrow> z \<le> p)
        then Some (Errorf ''zones must be canonical sorted unique names'')
      else zone_order_error (Some z) zs)"

definition activation_error :: "mode_transition \<Rightarrow> goerror option" where
  "activation_error t =
     (if mt_From t = ManagedLeshyLocal \<and> mt_FromActivationID t \<noteq> []
        then Some (Errorf ''from activation id must be empty when transitioning from local mode'')
      else if mt_From t = ManagedLeshyManaged \<and> mt_FromActivationID t = []
        then Some (Errorf ''from activation id is required when transitioning from managed mode'')
      else if mt_To t = ManagedLeshyManaged \<and> mt_ToActivationID t = []
        then Some (Errorf ''to activation id is required when transitioning to managed mode'')
      else if mt_To t = ManagedLeshyManaged \<and> mt_Socket t = []
        then Some (Errorf ''transition to managed mode requires the target socket'')
      else if mt_To t = ManagedLeshyLocal \<and> mt_ToActivationID t \<noteq> []
        then Some (Errorf ''to activation id must be empty when transitioning to local mode'')
      else None)"

definition transition_Validate :: "mode_transition \<Rightarrow> goerror option" where
  "transition_Validate t =
     (if mt_Schema t \<noteq> managedLeshyTransitionSchema then Some (Errorf ''unknown transition schema %d'')
      else if \<not> lowerHex 32 (mt_ID t) then Some (Errorf ''transition id must be 32 lowercase hex characters'')
      else if mt_From t = mt_To t then Some (Errorf ''transition with from == to %q is invalid'')
      else if mt_From t \<notin> {ManagedLeshyLocal, ManagedLeshyManaged} then Some (Errorf ''unknown transition from mode %q'')
      else if mt_To t \<notin> {ManagedLeshyLocal, ManagedLeshyManaged} then Some (Errorf ''unknown transition to mode %q'')
      else if mt_Phase t \<notin> {ManagedTransitionPrepared, ManagedTransitionConfigWritten, ManagedTransitionMarkerWritten}
        then Some (Errorf ''unknown transition phase %q'')
      else if mt_ToGeneration t \<noteq> mt_FromGeneration t + 1
        then Some (Errorf ''to generation %d must be from generation %d plus one'')
      else case activation_error t of
             Some e \<Rightarrow> Some e
           | None \<Rightarrow>
               (case zone_order_error None (mt_Zones t) of
                  Some e \<Rightarrow> Some e
                | None \<Rightarrow> if lowerHex 64 (mt_ConfigSHA256 t) then None
                          else Some (Errorf ''config sha256 must be 64 lowercase hex characters'')))"

definition NewManagedLeshyTransition ::
  "goerror + string \<Rightarrow> string \<Rightarrow> string \<Rightarrow> string \<Rightarrow> string \<Rightarrow> string \<Rightarrow> u64 \<Rightarrow> string list \<Rightarrow> string \<Rightarrow>
     goerror + mode_transition" where
  "NewManagedLeshyTransition raw from to socket fromID toID fromGeneration zones digest =
     (if fromGeneration = - 1 then Inl (Errorf ''mode generation overflow: from generation is MaxUint64'')
      else case newTransitionID raw of
             Inl e \<Rightarrow> Inl e
           | Inr ident \<Rightarrow>
               let t = \<lparr>mt_Schema = managedLeshyTransitionSchema, mt_ID = ident, mt_From = from, mt_To = to,
                        mt_Phase = ManagedTransitionPrepared, mt_Socket = socket, mt_FromActivationID = fromID,
                        mt_ToActivationID = toID, mt_FromGeneration = fromGeneration, mt_ToGeneration = fromGeneration + 1,
                        mt_Zones = canonicalTransitionZones zones, mt_ConfigSHA256 = digest\<rparr>
               in case transition_Validate t of Some e \<Rightarrow> Inl e | None \<Rightarrow> Inr t)"

section \<open>Files\<close>

definition WriteTransitionJournal ::
  "'k file_system \<Rightarrow> (mode_transition \<Rightarrow> goerror + string) \<Rightarrow> string \<Rightarrow> mode_transition \<Rightarrow> ('k, unit) tx" where
  "WriteTransitionJournal fs marshal stateDir t =
     (case transition_Validate t of
        Some e \<Rightarrow> throwT (Wrapf ''refusing to write an invalid transition: %w'' e)
      | None \<Rightarrow> WriteAtomicJSON fs marshal (TransitionJournalPath stateDir) t 384)"

definition ReadTransitionJournal ::
  "'k file_system \<Rightarrow> (string \<Rightarrow> goerror + mode_transition) \<Rightarrow> string \<Rightarrow> ('k, mode_transition option) tx" where
  "ReadTransitionJournal fs unmarshal stateDir k =
     (case fs_ReadFile fs (TransitionJournalPath stateDir) k of
        (Inl e, k') \<Rightarrow> if errorsIs e ErrNotExist then (Inr None, k') else (Inl (Wrapf ''read transition journal: %w'' e), k')
      | (Inr raw, k') \<Rightarrow>
          (case unmarshal raw of
             Inl e \<Rightarrow> (Inl (Wrapf ''decode transition journal: %w'' e), k')
           | Inr t \<Rightarrow>
               (case transition_Validate t of
                  Some e \<Rightarrow> (Inl (Wrapf ''transition journal is invalid: %w'' e), k')
                | None \<Rightarrow> (Inr (Some t), k'))))"

definition RemoveTransitionJournal :: "'k file_system \<Rightarrow> string \<Rightarrow> ('k, unit) tx" where
  "RemoveTransitionJournal fs stateDir = RemoveDurable fs (TransitionJournalPath stateDir)"

definition ReadCommittedModeGeneration ::
  "'k file_system \<Rightarrow> (string \<Rightarrow> goerror + mode_generation) \<Rightarrow> string \<Rightarrow> ('k, u64) tx" where
  "ReadCommittedModeGeneration fs unmarshal stateDir k =
     (case fs_ReadFile fs (ModeGenerationPath stateDir) k of
        (Inl e, k') \<Rightarrow> if errorsIs e ErrNotExist then (Inr 0, k') else (Inl (Wrapf ''read mode generation: %w'' e), k')
      | (Inr raw, k') \<Rightarrow>
          (case unmarshal raw of
             Inl e \<Rightarrow> (Inl (Wrapf ''decode mode generation: %w'' e), k')
           | Inr s \<Rightarrow>
               if mo_Schema s \<noteq> 1 then (Inl (Errorf ''mode generation schema %d is not supported''), k')
               else (Inr (mo_LastCommittedGeneration s), k')))"

definition WriteCommittedModeGeneration ::
  "'k file_system \<Rightarrow> (mode_generation \<Rightarrow> goerror + string) \<Rightarrow> string \<Rightarrow> u64 \<Rightarrow> ('k, unit) tx" where
  "WriteCommittedModeGeneration fs marshal stateDir generation =
     WriteAtomicJSON fs marshal (ModeGenerationPath stateDir)
       \<lparr>mo_Schema = 1, mo_LastCommittedGeneration = generation\<rparr> 384"

section \<open>Recovery and digests\<close>

datatype transition_recovery = RecoveryRollForward | RecoveryVerifyAndClean

definition planTransitionRecovery :: "u64 \<Rightarrow> mode_transition \<Rightarrow> goerror + transition_recovery" where
  "planTransitionRecovery committed t =
     (if committed = mt_FromGeneration t then Inr RecoveryRollForward
      else if committed = mt_ToGeneration t then Inr RecoveryVerifyAndClean
      else Inl (Errorf ''stale transition journal: committed generation %d matches neither from %d nor to %d''))"

definition sha256Hex :: "(string \<Rightarrow> string) \<Rightarrow> string \<Rightarrow> string" where
  "sha256Hex sha data = hex_EncodeToString (sha data)"

definition activationIDFingerprint :: "(string \<Rightarrow> string) \<Rightarrow> string \<Rightarrow> string" where
  "activationIDFingerprint sha activationID = (if activationID = [] then [] else take 12 (sha256Hex sha activationID))"

definition configDigest :: "(string \<Rightarrow> string) \<Rightarrow> string \<Rightarrow> string" where
  "configDigest sha configBytes = sha256Hex sha configBytes"

definition ensureTerminalNewline :: "string \<Rightarrow> string" where
  "ensureTerminalNewline data = rev (dropWhile (\<lambda>c. c = CHR 0x0A) (rev data)) @ [CHR 0x0A]"

end
