(* ===== verification/Transition_Properties.thy ===== *)
theory Transition_Properties
  imports Mode_Transition Disk_Model
begin

text \<open>
  The journal of a mode change and the committed generation under loss of power: two files that
  are replaced one after the other on the disk of \<^verbatim>\<open>Disk_Model\<close> and read back. Nothing in the core calls
  these functions yet: the lemmas say what a start that read the two files could rely on.
\<close>

section \<open>Files that are not written\<close>

text \<open>A settled file \<open>p\<close>, one with a single view, keeps it while another file is renamed into place
  and a directory is synced.\<close>

locale separate_files = durable_files +
  assumes rename_other: "n \<noteq> p \<Longrightarrow> q \<noteq> p \<Longrightarrow> n \<noteq> q \<Longrightarrow>
      tripleT (\<lambda>k. ok k \<and> views k p = {v} \<and> temp k n x True) (fs_Rename fs n q) (\<lambda>_ k. ok k \<and> views k p = {v})
        (\<lambda>k. ok k \<and> views k p = {v})"
    and sync_other: "keepsT (\<lambda>k. ok k \<and> views k p = {v}) (fs_SyncOpenDir fs dir)"
begin

lemma SyncDir_other: "keepsT (\<lambda>k. ok k \<and> views k p = {v}) (SyncDir fs dir)"
proof -
  have "keepsT (\<lambda>k. ok k \<and> views k p = {v}) (deferT (fs_Close fs dir) (fs_SyncOpenDir fs dir))"
    by (rule triple_keeps_back [OF triple_defer [OF triple_keeps [OF sync_other] close(1) close(1)]])
  then show ?thesis
    unfolding SyncDir_def if_not_P [OF posix] by (intro keepsT_bind open_dir(1))
qed

lemma WriteAtomicFile_other:
  assumes q: "q = filepath_Dir q @ ''/'' @ filepath_Base q" and other: "q \<noteq> p"
    and temp: "\<not> has_prefix (filepath_Dir q @ ''/'' @ ''.'' @ filepath_Base q @ ''-'') p"
  shows "keepsT (\<lambda>k. ok k \<and> views k p = {v}) (WriteAtomicFile fs q x mode)"
proof -
  let ?P = "\<lambda>k. ok k \<and> views k p = {v}"
  let ?stem = "filepath_Dir q @ ''/'' @ ''.'' @ filepath_Base q @ ''-''"
  have len: "has_prefix a s \<Longrightarrow> length a \<le> length s" for a s :: string
    by (induction a s rule: has_prefix.induct) auto
  have "length q = length (filepath_Dir q) + 1 + length (filepath_Base q)"
    using arg_cong [OF q, of length] by simp
  then have self: "\<not> has_prefix ?stem q" by (auto dest!: len)
  have replaced: "tripleT ?P (replace_file fs wrap (filepath_Dir q) (''.'' @ filepath_Base q @ ''-'') q mode x
      (SyncDir fs (filepath_Dir q))) (\<lambda>_. ?P) ?P" for wrap
    unfolding replace_file_def
  proof (rule triple_bind)
    show "tripleT ?P (mapErrT (wrap CreateStage) (fs_CreateTemp fs (filepath_Dir q) (''.'' @ filepath_Base q @ ''-'')))
        (\<lambda>n k. (ok k \<and> views k p = {v} \<and> temp k n [] False) \<and> n \<noteq> p \<and> n \<noteq> q) ?P"
      by (rule triple_mapErr, rule triple_conseq [OF create [where p = p and V = "{v}"]]) (use temp self in auto)
  next
    fix n
    show "tripleT (\<lambda>k. (ok k \<and> views k p = {v} \<and> temp k n [] False) \<and> n \<noteq> p \<and> n \<noteq> q)
       (deferT (fs_Remove fs n) (bindT (fill_temp fs wrap n mode x)
           (\<lambda>_. bindT (mapErrT (wrap RenameStage) (fs_Rename fs n q)) (\<lambda>_. SyncDir fs (filepath_Dir q)))))
       (\<lambda>_. ?P) ?P"
    proof (rule triple_pure)
      assume n: "n \<noteq> p \<and> n \<noteq> q"
      show "tripleT (\<lambda>k. ok k \<and> views k p = {v} \<and> temp k n [] False)
         (deferT (fs_Remove fs n) (bindT (fill_temp fs wrap n mode x)
             (\<lambda>_. bindT (mapErrT (wrap RenameStage) (fs_Rename fs n q)) (\<lambda>_. SyncDir fs (filepath_Dir q)))))
         (\<lambda>_. ?P) ?P"
        by (rule triple_defer [OF triple_bind [OF fill_temp_sealed triple_bind [OF
              triple_mapErr [OF rename_other] triple_keeps [OF SyncDir_other]]] remove remove])
          (use n other in auto)
    qed
  qed
  have "keepsT ?P (replace_file fs wrap (filepath_Dir q) (''.'' @ filepath_Base q @ ''-'') q mode x
      (SyncDir fs (filepath_Dir q)))" for wrap
    by (rule triple_keeps_back [OF replaced])
  then show ?thesis unfolding WriteAtomicFile_def Let_def by (intro keepsT_bind mkdir)
qed

end

lemma renamed_other:
  assumes "n \<noteq> p" and "q \<noteq> p"
  shows "crash_views (d\<lparr>dk_Names := gomap_put q i (gomap_del n (dk_Names d))\<rparr>) p = crash_views d p"
  using assms by (intro views_same) (auto simp: survives_def split: option.splits)

lemma settled_views: "crash_views d p = {v} \<longleftrightarrow> (\<forall>kept left. survives kept left d p = v)"
  by (auto simp: crash_views_def)

lemma synced_other:
  assumes ok: "names_ok d" and settled: "crash_views d p = {v}"
    and d': "d' = d\<lparr>dk_Durable := filter (\<lambda>e. has_prefix (dir @ ''/'') (fst e)) (dk_Names d) @
                              filter (\<lambda>e. \<not> has_prefix (dir @ ''/'') (fst e)) (dk_Durable d)\<rparr>"
  shows "names_ok d'" "crash_views d' p = {v}"
proof -
  have durable: "map_of (dk_Durable d') a = (if has_prefix (dir @ ''/'') a then map_of (dk_Names d) a else map_of (dk_Durable d) a)" for a
    using map_of_keep [of "\<lambda>q. has_prefix (dir @ ''/'') q" "dk_Names d" a]
      map_of_keep [of "\<lambda>q. \<not> has_prefix (dir @ ''/'') q" "dk_Durable d" a]
    by (auto simp: d' map_add_def split: option.splits)
  have "named_by d' a j \<Longrightarrow> named_by d a j" for a j
    using durable [of a] d' by (auto simp: named_by_def split: if_splits)
  then show "names_ok d'" by (rule names_ok_sub [OF ok]) (use d' in auto)
  have "survives kept left d' p = survives (kept \<or> has_prefix (dir @ ''/'') p) left d p" for kept left
    using durable [of p] d' by (auto simp: survives_def split: option.splits)
  with settled show "crash_views d' p = {v}" by (simp add: settled_views)
qed

interpretation apart: separate_files disk_fs names_ok crash_views disk_temp disk_placed
proof (unfold_locales, goal_cases rename sync)
  case (rename n p q v x)
  show ?case
    unfolding disk_call_defs file_system.simps
  proof (rule triple_scripted)
    fix d r d'
    assume P: "names_ok d \<and> crash_views d p = {v} \<and> disk_temp d n x True"
      and run: "(case map_of (dk_Names d) n of None \<Rightarrow> (Inl (Sentinel SyscallENOENT), d)
         | Some i \<Rightarrow> (Inr (), d\<lparr>dk_Names := gomap_put q i (gomap_del n (dk_Names d))\<rparr>)) = (r, d')"
    from P obtain i where i: "map_of (dk_Names d) n = Some i" by (auto simp: disk_temp_def)
    with run have "r = Inr ()" and d': "d' = d\<lparr>dk_Names := gomap_put q i (gomap_del n (dk_Names d))\<rparr>" by auto
    with P renamed_ok(1) [OF _ _ rename(3) i d', of x] renamed_other [OF rename(1,2), where d = d and i = i]
    show "case r of Inl _ \<Rightarrow> names_ok d' \<and> crash_views d' p = {v} | Inr _ \<Rightarrow> names_ok d' \<and> crash_views d' p = {v}"
      by simp
  qed auto
next
  case (sync p v dir)
  show ?case
    unfolding disk_call_defs file_system.simps
    by (rule keeps_scripted) (use synced_other [OF _ _ refl, of _ p v dir] in auto)
qed

section \<open>Reading back\<close>

lemma WriteAtomicJSON_views:
  assumes p: "p = filepath_Dir p @ ''/'' @ filepath_Base p" and ok: "names_ok d" and x: "marshal v = Inr x"
    and run: "WriteAtomicJSON disk_fs marshal p v mode d = (r, d')"
  shows "crash_views d' p \<subseteq> insert (Some (x @ [CHR 0x0A])) (crash_views d p)"
    "r = Inr () \<Longrightarrow> crash_views d' p = {Some (x @ [CHR 0x0A])}"
proof -
  have run: "WriteAtomicFile disk_fs p (x @ [CHR 0x0A]) mode d = (r, d')" using x run by (simp add: WriteAtomicJSON_def)
  note bound = cached.WriteAtomicFile_bound [OF p, where V = "crash_views d p" and x = "x @ [CHR 0x0A]" and mode = mode]
  show "r = Inr () \<Longrightarrow> crash_views d' p = {Some (x @ [CHR 0x0A])}"
    using triple_value [OF bound _ run [THEN trans]] ok by simp
  show "crash_views d' p \<subseteq> insert (Some (x @ [CHR 0x0A])) (crash_views d p)"
    using triple_value [OF bound, of d "()" d'] triple_error [OF bound, of d _ d'] ok run by (cases r) auto
qed

lemma WriteAtomicJSON_other:
  assumes q: "q = filepath_Dir q @ ''/'' @ filepath_Base q" "q \<noteq> p"
      "\<not> has_prefix (filepath_Dir q @ ''/'' @ ''.'' @ filepath_Base q @ ''-'') p"
    and ok: "names_ok d" "crash_views d p = {v}" and run: "WriteAtomicJSON disk_fs marshal q w mode d = (r, d')"
  shows "names_ok d'" "crash_views d' p = {v}"
proof -
  have "names_ok d' \<and> crash_views d' p = {v}"
  proof (cases "marshal w")
    case (Inl e)
    with run ok show ?thesis by (simp add: WriteAtomicJSON_def throwT_def)
  next
    case (Inr x)
    then have "WriteAtomicFile disk_fs q (x @ [CHR 0x0A]) mode d = (r, d')" using run by (simp add: WriteAtomicJSON_def)
    with ok show ?thesis using keepsTD [OF apart.WriteAtomicFile_other [OF q]] by blast
  qed
  then show "names_ok d'" "crash_views d' p = {v}" by auto
qed

definition journal_result :: "(string \<Rightarrow> goerror + mode_transition) \<Rightarrow> string option \<Rightarrow> goerror + mode_transition option" where
  "journal_result unmarshal file =
     (case file of
        None \<Rightarrow> Inr None
      | Some raw \<Rightarrow>
          (case unmarshal raw of
             Inl e \<Rightarrow> Inl (Wrapf ''decode transition journal: %w'' e)
           | Inr t \<Rightarrow> (case transition_Validate t of
                         Some e \<Rightarrow> Inl (Wrapf ''transition journal is invalid: %w'' e) | None \<Rightarrow> Inr (Some t))))"

definition generation_result :: "(string \<Rightarrow> goerror + mode_generation) \<Rightarrow> string option \<Rightarrow> goerror + u64" where
  "generation_result unmarshal file =
     (case file of
        None \<Rightarrow> Inr 0
      | Some raw \<Rightarrow>
          (case unmarshal raw of
             Inl e \<Rightarrow> Inl (Wrapf ''decode mode generation: %w'' e)
           | Inr s \<Rightarrow> if mo_Schema s \<noteq> 1 then Inl (Errorf ''mode generation schema %d is not supported'')
                      else Inr (mo_LastCommittedGeneration s)))"

lemma reads_after_crash:
  "fst (ReadTransitionJournal disk_fs unmarshal dir (power_cycle kept left d)) =
     journal_result unmarshal (survives kept left d (TransitionJournalPath dir))"
  "fst (ReadCommittedModeGeneration disk_fs unmarshalG dir (power_cycle kept left d)) =
     generation_result unmarshalG (survives kept left d (ModeGenerationPath dir))"
  by (auto simp: ReadTransitionJournal_def ReadCommittedModeGeneration_def disk_fs_def disk_ReadFile_def power_cycle_content
      journal_result_def generation_result_def split: option.splits sum.splits)

text \<open>The two files lie in one directory, and neither has the name of the other's temporary file.\<close>

definition state_dir :: "string \<Rightarrow> bool" where
  "state_dir dir \<longleftrightarrow>
     (let j = TransitionJournalPath dir; g = ModeGenerationPath dir
      in j = filepath_Dir j @ ''/'' @ filepath_Base j \<and> g = filepath_Dir g @ ''/'' @ filepath_Base g \<and> j \<noteq> g \<and>
         \<not> has_prefix (filepath_Dir g @ ''/'' @ ''.'' @ filepath_Base g @ ''-'') j \<and>
         \<not> has_prefix (filepath_Dir j @ ''/'' @ ''.'' @ filepath_Base j @ ''-'') g)"

lemma new_transition:
  assumes "NewManagedLeshyTransition raw from to socket fromID toID g zones digest = Inr t"
  shows "transition_Validate t = None" "mt_FromGeneration t = g" "mt_ToGeneration t = g + 1"
  using assms by (auto simp: NewManagedLeshyTransition_def Let_def split: if_splits sum.splits option.splits)

text \<open>What the commit of the generation leaves in its file.\<close>

lemma committed_file:
  assumes codec: "\<forall>v x. marshal v = Inr x \<longrightarrow> unmarshal (x @ [CHR 0x0A]) = Inr v"
    and path: "ModeGenerationPath dir = filepath_Dir (ModeGenerationPath dir) @ ''/'' @ filepath_Base (ModeGenerationPath dir)"
    and ok: "names_ok d" and old: "crash_views d (ModeGenerationPath dir) = {old}"
    and run: "WriteCommittedModeGeneration disk_fs marshal dir g d = (r, d')"
  shows "generation_result unmarshal (survives kept left d' (ModeGenerationPath dir)) \<in>
           insert (Inr g) (if r = Inr () then {} else {generation_result unmarshal old})"
proof (cases "marshal \<lparr>mo_Schema = 1, mo_LastCommittedGeneration = g\<rparr>")
  case (Inl e)
  then have "r \<noteq> Inr ()" "d' = d" using run by (auto simp: WriteCommittedModeGeneration_def WriteAtomicJSON_def throwT_def)
  with old show ?thesis by (simp add: settled_views)
next
  case (Inr x)
  note views = WriteAtomicJSON_views [OF path ok Inr run [unfolded WriteCommittedModeGeneration_def]]
  have "generation_result unmarshal (Some (x @ [CHR 0x0A])) = Inr g" using codec Inr by (simp add: generation_result_def)
  moreover have "survives kept left d' (ModeGenerationPath dir) \<in> crash_views d' (ModeGenerationPath dir)"
    by (auto simp: crash_views_def)
  ultimately show ?thesis using views old by auto
qed

text \<open>When the journal of a mode change has been written for the committed generation and the next
  generation is then committed, wherever one of the calls fails or the power goes, reading the two
  files gives that very journal and a generation for which the comparison decides: roll forward while
  the old generation stands, clean up once the new one does. The journal is never found stale.\<close>

lemma transition_recovery_decides:
  assumes codec: "\<forall>v x. marshalT v = Inr x \<longrightarrow> unmarshalT (x @ [CHR 0x0A]) = Inr v"
      "\<forall>v x. marshalG v = Inr x \<longrightarrow> unmarshalG (x @ [CHR 0x0A]) = Inr v"
    and dir: "state_dir dir" and ok: "names_ok d"
    and counter: "\<forall>kept left. survives kept left d (ModeGenerationPath dir) = old"
      "generation_result unmarshalG old = Inr g"
    and new: "NewManagedLeshyTransition raw from to socket fromID toID g zones digest = Inr t"
    and journal: "WriteTransitionJournal disk_fs marshalT dir t d = (Inr (), d1)"
    and commit: "WriteCommittedModeGeneration disk_fs marshalG dir (mt_ToGeneration t) d1 = (r, d2)"
  shows "\<exists>c. fst (ReadTransitionJournal disk_fs unmarshalT dir (power_cycle kept left d2)) = Inr (Some t) \<and>
           fst (ReadCommittedModeGeneration disk_fs unmarshalG dir (power_cycle kept left d2)) = Inr c \<and>
           (c = g + 1 \<or> c = g \<and> r \<noteq> Inr ()) \<and>
           planTransitionRecovery c t = Inr (if c = g then RecoveryRollForward else RecoveryVerifyAndClean)"
proof -
  note t = new_transition [OF new]
  let ?j = "TransitionJournalPath dir" and ?g = "ModeGenerationPath dir"
  from dir have paths: "?j = filepath_Dir ?j @ ''/'' @ filepath_Base ?j" "?j \<noteq> ?g"
      "\<not> has_prefix (filepath_Dir ?j @ ''/'' @ ''.'' @ filepath_Base ?j @ ''-'') ?g"
      "?g = filepath_Dir ?g @ ''/'' @ filepath_Base ?g" "?g \<noteq> ?j"
      "\<not> has_prefix (filepath_Dir ?g @ ''/'' @ ''.'' @ filepath_Base ?g @ ''-'') ?j"
    unfolding state_dir_def Let_def by (blast, blast, blast, blast, metis, blast)
  from journal t(1) have json: "WriteAtomicJSON disk_fs marshalT ?j t 384 d = (Inr (), d1)"
    by (simp add: WriteTransitionJournal_def)
  then obtain x where x: "marshalT t = Inr x" by (cases "marshalT t") (auto simp: WriteAtomicJSON_def throwT_def)
  have settled: "crash_views d ?g = {old}" using counter(1) by (simp add: settled_views)
  note written = WriteAtomicJSON_views(2) [OF paths(1) ok x json refl]
    and kept_counter = WriteAtomicJSON_other [OF paths(1-3) ok settled json]
  have "crash_views d2 ?j = {Some (x @ [CHR 0x0A])}"
    using WriteAtomicJSON_other(2) [OF paths(4-6) kept_counter(1) written commit [unfolded WriteCommittedModeGeneration_def]] .
  then have "journal_result unmarshalT (survives kept left d2 ?j) = Inr (Some t)"
    using codec(1) x t(1) by (auto simp: settled_views journal_result_def)
  moreover have "\<exists>c. generation_result unmarshalG (survives kept left d2 ?g) = Inr c \<and> (c = g + 1 \<or> c = g \<and> r \<noteq> Inr ())"
    using committed_file [OF codec(2) paths(4) kept_counter commit, of kept left] by (auto simp: t(3) counter(2) split: if_splits)
  moreover have "planTransitionRecovery c t = Inr (if c = g then RecoveryRollForward else RecoveryVerifyAndClean)"
    if "c = g + 1 \<or> c = g \<and> r \<noteq> Inr ()" for c using that by (auto simp: planTransitionRecovery_def t(2,3))
  ultimately show ?thesis unfolding reads_after_crash by blast
qed

text \<open>A concrete change to managed mode in a directory without either file.\<close>

definition sample_hex :: "nat \<Rightarrow> string" where
  "sample_hex n = replicate n (CHR ''a'')"

definition to_managed :: mode_transition where
  "to_managed = \<lparr>mt_Schema = 1, mt_ID = sample_hex 32, mt_From = ''local'', mt_To = ''managed'', mt_Phase = ''prepared'',
     mt_Socket = ''/run/k.sock'', mt_FromActivationID = [], mt_ToActivationID = ''id'', mt_FromGeneration = 0,
     mt_ToGeneration = 1, mt_Zones = [''home'', ''work''], mt_ConfigSHA256 = sample_hex 64\<rparr>"

definition one_marshal :: "'a \<Rightarrow> 'a \<Rightarrow> goerror + string" where
  "one_marshal v w = (if w = v then Inr ''{}'' else Inl (Errorf ''unsupported value''))"

definition one_unmarshal :: "'a \<Rightarrow> string \<Rightarrow> goerror + 'a" where
  "one_unmarshal v x = (if x = ''{}'' @ [CHR 0x0A] then Inr v else Inl (Errorf ''unexpected end of JSON input''))"

definition committed_one :: mode_generation where
  "committed_one = \<lparr>mo_Schema = 1, mo_LastCommittedGeneration = 1\<rparr>"

definition empty_disk :: "call_outcome list \<Rightarrow> disk" where
  "empty_disk script = \<lparr>dk_Inodes = [], dk_Next = 0, dk_Names = [], dk_Durable = [], dk_Script = script, dk_Clock = 5\<rparr>"

definition journaled :: "call_outcome list \<Rightarrow> disk" where
  "journaled script = snd (WriteTransitionJournal disk_fs (one_marshal to_managed) ''/var/lib/kikimora'' to_managed (empty_disk script))"

text \<open>The power goes between the rename of the counter and the sync of its directory.\<close>

lemma transition_recovery_decides_witness:
  "\<exists>c r d2. WriteCommittedModeGeneration disk_fs (one_marshal committed_one) ''/var/lib/kikimora'' 1
       (journaled (replicate 16 Works)) = (r, d2) \<and> r \<noteq> Inr () \<and>
     fst (ReadCommittedModeGeneration disk_fs (one_unmarshal committed_one) ''/var/lib/kikimora'' (power_cycle False 0 d2)) = Inr c \<and>
     planTransitionRecovery c to_managed = Inr (if c = 0 then RecoveryRollForward else RecoveryVerifyAndClean)"
proof -
  let ?d = "empty_disk (replicate 16 Works)" and ?dir = "''/var/lib/kikimora''"
  have codec: "\<forall>w x. one_marshal v w = Inr x \<longrightarrow> one_unmarshal v (x @ [CHR 0x0A]) = Inr w" for v :: 'b
    by (auto simp: one_marshal_def one_unmarshal_def)
  have dir: "state_dir ?dir" by code_simp
  have ok: "names_ok ?d" by (simp add: empty_disk_def names_ok_def named_by_def)
  have counter: "\<forall>kept left. survives kept left ?d (ModeGenerationPath ?dir) = None"
    by (simp add: empty_disk_def survives_def)
  have first: "generation_result (one_unmarshal committed_one) None = Inr 0" by (simp add: generation_result_def)
  have new: "NewManagedLeshyTransition (Inr (replicate 16 (CHR 0xAA))) ''local'' ''managed'' ''/run/k.sock'' [] ''id'' 0
      [''work'', ''home'', [], ''work''] (sample_hex 64) = Inr to_managed" by code_simp
  have "fst (WriteTransitionJournal disk_fs (one_marshal to_managed) ?dir to_managed ?d) = Inr ()" by code_simp
  then have journal: "WriteTransitionJournal disk_fs (one_marshal to_managed) ?dir to_managed ?d = (Inr (), journaled (replicate 16 Works))"
    unfolding journaled_def by (metis prod.collapse)
  let ?commit = "WriteCommittedModeGeneration disk_fs (one_marshal committed_one) ?dir (mt_ToGeneration to_managed) (journaled (replicate 16 Works))"
  have to: "mt_ToGeneration to_managed = 1" by (simp add: to_managed_def)
  have fails: "isl (fst ?commit)" by code_simp
  from transition_recovery_decides [OF codec codec dir ok counter first new journal prod.collapse [symmetric], where kept = False and left = 0]
  obtain c where "fst (ReadCommittedModeGeneration disk_fs (one_unmarshal committed_one) ?dir (power_cycle False 0 (snd ?commit))) = Inr c"
    "planTransitionRecovery c to_managed = Inr (if c = 0 then RecoveryRollForward else RecoveryVerifyAndClean)" by blast
  moreover have "?commit = (fst ?commit, snd ?commit)" by simp
  moreover have "fst ?commit \<noteq> Inr ()" using fails by (cases "fst ?commit") auto
  ultimately show ?thesis unfolding to by blast
qed

section \<open>Canonical zones\<close>

lemma distinct_zones_facts:
  "set (distinct_zones seen zs) = set zs - {[]} - set seen" "distinct (distinct_zones seen zs)"
  by (induction zs arbitrary: seen) auto

lemma zone_order_iff:
  "zone_order_error previous zs = None \<longleftrightarrow>
     [] \<notin> set zs \<and> sorted_wrt (<) zs \<and> (\<forall>p. previous = Some p \<longrightarrow> (\<forall>z \<in> set zs. p < z))"
proof (induction zs arbitrary: previous)
  case (Cons z zs)
  have "z \<le> p \<longleftrightarrow> \<not> p < z" for p by auto
  with Cons show ?case by (cases previous) (auto intro: less_trans)
qed simp

text \<open>The zones a transition is made with are never the reason to refuse it: they are put in order,
  empty and repeated names left out.\<close>

lemma canonical_zones_accepted:
  "zone_order_error None (canonicalTransitionZones zones) = None" "set (canonicalTransitionZones zones) = set zones - {[]}"
proof -
  let ?zs = "distinct_zones [] zones"
  have "sorted_wrt (<) (sort ?zs)"
    using distinct_zones_facts(2) [of "[]" zones] by (simp add: strict_sorted_iff)
  then show "zone_order_error None (canonicalTransitionZones zones) = None" "set (canonicalTransitionZones zones) = set zones - {[]}"
    using distinct_zones_facts(1) [of "[]" zones] by (auto simp: zone_order_iff canonicalTransitionZones_def)
qed

text \<open>The journal of a change after the last generation: no transition is made for it, but one that
  is read passes the validation, since the sum wraps round, and with the counter at zero it counts as
  committed.\<close>

lemma wrapped_journal_accepted:
  assumes "transition_Validate t = None"
  shows "transition_Validate (t\<lparr>mt_FromGeneration := - 1, mt_ToGeneration := 0\<rparr>) = None"
    "planTransitionRecovery 0 (t\<lparr>mt_FromGeneration := - 1, mt_ToGeneration := 0\<rparr>) = Inr RecoveryVerifyAndClean"
    "isl (NewManagedLeshyTransition raw from to socket fromID toID (- 1) zones digest)"
  using assms
  by (auto simp: transition_Validate_def activation_error_def planTransitionRecovery_def NewManagedLeshyTransition_def
      split: if_splits)

end
