(* ===== verification/Underlay_Path.thy ===== *)
theory Underlay_Path
  imports Linux_Routes Toad_Runtime
begin

text \<open>
  The physical underlay on Linux (\<^verbatim>\<open>platform/linux/netlink/snapshot.go\<close>): the default route of each
  family in the main table that belongs to none of the excluded interfaces, its gateway and its
  preferred source. The netlink calls are parameters; a link without attributes is absent.
\<close>

section \<open>Addresses\<close>

definition addr_IsLoopback :: "addr \<Rightarrow> bool" where
  "addr_IsLoopback a =
     (case addr_Unmap a of AddrZero \<Rightarrow> False | Addr4 v \<Rightarrow> drop_bit 24 v = 0x7F | Addr6 v z \<Rightarrow> v = 1 \<and> z = [])"

definition addr_IsMulticast :: "addr \<Rightarrow> bool" where
  "addr_IsMulticast a =
     (case addr_Unmap a of AddrZero \<Rightarrow> False | Addr4 v \<Rightarrow> drop_bit 28 v = 0xE | Addr6 v z \<Rightarrow> drop_bit 120 v = 0xFF)"

definition addr_IsGlobalUnicast :: "addr \<Rightarrow> bool" where
  "addr_IsGlobalUnicast a \<longleftrightarrow>
     a \<noteq> AddrZero \<and> a \<noteq> Addr4 0 \<and> a \<noteq> Addr4 0xFFFFFFFF \<and> a \<noteq> Addr6 0 [] \<and>
     \<not> addr_IsLoopback a \<and> \<not> addr_IsMulticast a \<and> \<not> addr_IsLinkLocalUnicast a"

text \<open>The order of \<^verbatim>\<open>netip.Addr.Compare\<close> among addresses of one family without a zone.\<close>

fun addr_value :: "addr \<Rightarrow> int" where
  "addr_value AddrZero = 0"
| "addr_value (Addr4 w) = uint w"
| "addr_value (Addr6 w z) = uint w"

definition sortAddrs :: "addr list \<Rightarrow> addr list" where
  "sortAddrs = sort_key addr_value"

text \<open>\<^verbatim>\<open>addr\<close>: the address of a \<^verbatim>\<open>net.IP\<close> in the family, if it has one.\<close>

definition source_addr :: "addr \<Rightarrow> int \<Rightarrow> addr option" where
  "source_addr raw family =
     (case addr_Unmap raw of
        Addr4 w \<Rightarrow> if family = FAMILY_V4 then Some (Addr4 w) else None
      | Addr6 w z \<Rightarrow> if family = FAMILY_V4 then None else Some (Addr6 w [])
      | AddrZero \<Rightarrow> None)"

definition validSource :: "addr \<Rightarrow> int \<Rightarrow> bool" where
  "validSource src family \<longleftrightarrow>
     addr_IsValid src \<and> \<not> addr_Is4In6 src \<and> (if family = FAMILY_V4 then addr_Is4 src else addr_Is6 src)"

definition gatewayIsLinkLocal :: "addr \<Rightarrow> bool" where
  "gatewayIsLinkLocal raw =
     (case source_addr raw FAMILY_V6 of None \<Rightarrow> False | Some v \<Rightarrow> \<not> addr_Is4In6 v \<and> addr_IsLinkLocalUnicast v)"

section \<open>The source of routes\<close>

record nl_link =
  lk_Name :: string
  lk_MTU :: int

record 'k nl_source =
  so_RouteListFiltered :: "int \<Rightarrow> nl_route \<Rightarrow> nl_filter list \<Rightarrow> ('k, nl_route list) tx"
  so_RouteGetWithOptions :: "addr \<Rightarrow> int \<Rightarrow> ('k, nl_route list) tx"
  so_LinkByIndex :: "int \<Rightarrow> ('k, nl_link option) tx"
  so_AddrList :: "int \<Rightarrow> int \<Rightarrow> ('k, addr list) tx"
  so_Now :: "'k \<Rightarrow> gotime"

definition usable_source :: "addr \<Rightarrow> int \<Rightarrow> addr option" where
  "usable_source raw family =
     (case source_addr raw family of None \<Rightarrow> None | Some a \<Rightarrow> if validSource a family then Some a else None)"

text \<open>The source the kernel names for the gateway.\<close>

definition resolved_source :: "nl_route \<Rightarrow> int \<Rightarrow> nl_route list \<Rightarrow> addr option" where
  "resolved_source route family routes =
     (case List.map_filter (\<lambda>r. if nr_LinkIndex r \<noteq> 0 \<and> nr_LinkIndex r \<noteq> nr_LinkIndex route then None
                                else usable_source (nr_Src r) family) routes of
        [] \<Rightarrow> None
      | a # _ \<Rightarrow> Some a)"

definition listed_source :: "nl_route \<Rightarrow> int \<Rightarrow> addr list \<Rightarrow> addr option" where
  "listed_source route family addrs =
     (let ok = filter (\<lambda>a. \<not> addr_IsUnspecified a \<and> \<not> addr_IsMulticast a) (List.map_filter (\<lambda>ip. usable_source ip family) addrs);
          global = filter (\<lambda>a. addr_IsGlobalUnicast a \<and> \<not> addr_IsLinkLocalUnicast a) ok;
          linkLocal = filter (\<lambda>a. \<not> (addr_IsGlobalUnicast a \<and> \<not> addr_IsLinkLocalUnicast a) \<and>
                                   family = FAMILY_V6 \<and> addr_IsLinkLocalUnicast a) ok
      in case sortAddrs global of
           a # _ \<Rightarrow> Some a
         | [] \<Rightarrow>
             if family = FAMILY_V6 \<and> gatewayIsLinkLocal (nr_Gw route)
             then (case sortAddrs linkLocal of a # _ \<Rightarrow> Some a | [] \<Rightarrow> None) else None)"

definition gateway_source :: "'k nl_source \<Rightarrow> nl_route \<Rightarrow> int \<Rightarrow> 'k \<Rightarrow> addr option \<times> 'k" where
  "gateway_source src route family k =
     (if nr_Gw route \<noteq> AddrZero \<and> 0 < nr_LinkIndex route then
        (case so_RouteGetWithOptions src (nr_Gw route) (nr_LinkIndex route) k of
           (Inl _, k') \<Rightarrow> (None, k')
         | (Inr routes, k') \<Rightarrow> (resolved_source route family routes, k'))
      else (None, k))"

definition preferredSource :: "'k nl_source \<Rightarrow> nl_route \<Rightarrow> int \<Rightarrow> 'k \<Rightarrow> addr option \<times> 'k" where
  "preferredSource src route family k =
     (case usable_source (nr_Src route) family of
        Some a \<Rightarrow> (Some a, k)
      | None \<Rightarrow>
          (case gateway_source src route family k of
             (Some a, k1) \<Rightarrow> (Some a, k1)
           | (None, k1) \<Rightarrow>
               (case so_AddrList src (nr_LinkIndex route) family k1 of
                  (Inl _, k2) \<Rightarrow> (None, k2)
                | (Inr addrs, k2) \<Rightarrow> (listed_source route family addrs, k2))))"

section \<open>The default path\<close>

definition is_default :: "nl_route \<Rightarrow> bool" where
  "is_default route \<longleftrightarrow>
     (case nr_Dst route of None \<Rightarrow> True | Some d \<Rightarrow> ipnet_String d = ''0.0.0.0/0'' \<or> ipnet_String d = ''::/0'')"

definition eligible :: "string list \<Rightarrow> nl_route \<Rightarrow> nl_link \<Rightarrow> bool" where
  "eligible excluded route link \<longleftrightarrow>
     nr_LinkIndex route \<noteq> 1 \<and> lk_Name link \<noteq> ''lo'' \<and> lk_Name link \<noteq> ''leshy-dns0'' \<and> lk_Name link \<notin> set excluded"

fun path_candidates :: "'k nl_source \<Rightarrow> string list \<Rightarrow> nl_route list \<Rightarrow> 'k \<Rightarrow> (nl_route \<times> nl_link) list \<times> 'k" where
  "path_candidates src excluded [] k = ([], k)"
| "path_candidates src excluded (route # routes) k =
     (if \<not> is_default route \<or> nr_LinkIndex route \<le> 0 then path_candidates src excluded routes k
      else case so_LinkByIndex src (nr_LinkIndex route) k of
             (Inr (Some link), k1) \<Rightarrow>
               (case path_candidates src excluded routes k1 of
                  (cs, k2) \<Rightarrow> (if eligible excluded route link then (route, link) # cs else cs, k2))
           | (_, k1) \<Rightarrow> path_candidates src excluded routes k1)"

text \<open>The stable sort by priority, then interface index, then name: by the last key first.\<close>

definition sort_candidates :: "(nl_route \<times> nl_link) list \<Rightarrow> (nl_route \<times> nl_link) list" where
  "sort_candidates cs =
     sort_key (nr_Priority \<circ> fst) (sort_key (nr_LinkIndex \<circ> fst) (sort_key (lk_Name \<circ> snd) cs))"

definition winner_path :: "'k nl_source \<Rightarrow> int \<Rightarrow> nl_route \<Rightarrow> nl_link \<Rightarrow> 'k \<Rightarrow> net_path \<times> 'k" where
  "winner_path src family route link k =
     (case preferredSource src route family k of
        (source, k') \<Rightarrow>
          (\<lparr>pa_Family = (if family = FAMILY_V4 then 4 else if family = FAMILY_V6 then 6 else family),
            pa_IfIndex = nr_LinkIndex route, pa_Interface = lk_Name link,
            pa_Gateway = (if nr_Gw route = AddrZero then AddrZero
                          else case source_addr (nr_Gw route) family of None \<Rightarrow> AddrZero | Some a \<Rightarrow> a),
            pa_PreferredSrc = (case source of None \<Rightarrow> AddrZero | Some a \<Rightarrow> a), pa_MTU = lk_MTU link,
            pa_Table = nr_Table route, pa_Metric = word_of_int (nr_Priority route)\<rparr>, k'))"

definition defaultPath :: "'k nl_source \<Rightarrow> int \<Rightarrow> string list \<Rightarrow> 'k \<Rightarrow> net_path option \<times> 'k" where
  "defaultPath src family excluded k =
     (case so_RouteListFiltered src family (nl_route_zero\<lparr>nr_Table := 254\<rparr>) [RT_FILTER_TABLE] k of
        (Inl _, k1) \<Rightarrow> (None, k1)
      | (Inr routes, k1) \<Rightarrow>
          (case path_candidates src excluded routes k1 of
             (cs, k2) \<Rightarrow>
               (case sort_candidates cs of
                  [] \<Rightarrow> (None, k2)
                | (route, link) # _ \<Rightarrow> (case winner_path src family route link k2 of (p, k3) \<Rightarrow> (Some p, k3)))))"

definition linux_Snapshot :: "'k nl_source \<Rightarrow> string list \<Rightarrow> ('k, netstate_snapshot) tx" where
  "linux_Snapshot src excluded k =
     (case defaultPath src FAMILY_V4 excluded k of
        (p4, k1) \<Rightarrow>
          (case defaultPath src FAMILY_V6 excluded k1 of
             (p6, k2) \<Rightarrow> (Inr (netstate_zero\<lparr>ns_IPv4 := p4, ns_IPv6 := p6, ns_ObservedAt := so_Now src k2\<rparr>), k2)))"

end
