(* ===== verification/Coalescer.thy ===== *)
theory Coalescer
  imports Netstate
begin

text \<open>
  The loop of the coalescer (\<^verbatim>\<open>netstate/coalescer.go\<close>, \<^verbatim>\<open>Run\<close>): invalidations of the underlay are
  gathered until nothing new has come for the settle time, or until the burst has lasted the maximum,
  and then one snapshot is built, compared and handed on. The channel and the timer deliver events;
  an event carries the times the code reads while it handles it. The builder, the handler of changes
  and the context act on a host state.
\<close>

section \<open>The loop\<close>

record 'k coalescer =
  cl_Settle :: gotime
  cl_Maximum :: gotime
  cl_Build :: "('k, netstate_snapshot) tx option"
  cl_Changed :: "(net_change \<Rightarrow> ('k, unit) tx) option"
  cl_CtxErr :: "'k \<Rightarrow> goerror option"

text \<open>The locals of \<^verbatim>\<open>Run\<close>: \<open>cq_timer\<close> is the time at which the channel the loop listens to fires, absent
  when \<^verbatim>\<open>timerC\<close> is nil; a zero \<^verbatim>\<open>burst\<close> is absent.\<close>

record coalescer_state =
  cq_current :: netstate_snapshot
  cq_timer :: "gotime option"
  cq_burst :: "gotime option"
  cq_resume :: bool

text \<open>An invalidation comes with the time the burst would start at, the time the timer is set and the
  time at which its length is checked.\<close>

datatype coalescer_event = CtxDone goerror | ChannelClosed | Invalidated string gotime gotime gotime | TimerFired

definition coalescer_begin :: "netstate_snapshot \<Rightarrow> coalescer_state" where
  "coalescer_begin initial = \<lparr>cq_current = initial, cq_timer = None, cq_burst = None, cq_resume = False\<rparr>"

definition with_defaults :: "'k coalescer \<Rightarrow> 'k coalescer" where
  "with_defaults c =
     c\<lparr>cl_Settle := (if cl_Settle c \<le> 0 then 150 * 1000000 else cl_Settle c),
       cl_Maximum := (if cl_Maximum c \<le> 0 then 1000 * 1000000 else cl_Maximum c)\<rparr>"

text \<open>\<^verbatim>\<open>publish\<close> with its calls; the result is an error or the change that was handed on.\<close>

definition publish_now :: "'k coalescer \<Rightarrow> netstate_snapshot \<Rightarrow> bool \<Rightarrow> 'k \<Rightarrow> (goerror + unit) \<times> netstate_snapshot \<times> 'k" where
  "publish_now c cur resume k =
     (case (cl_Build c, cl_Changed c) of
        (Some build, Some change) \<Rightarrow>
          (case build k of
             (built, k1) \<Rightarrow>
               (case coalescer_publish built (cl_CtxErr c k1) cur resume of
                  (cur', Inl e) \<Rightarrow> (Inl e, cur', k1)
                | (cur', Inr None) \<Rightarrow> (Inr (), cur', k1)
                | (cur', Inr (Some ch)) \<Rightarrow> (case change ch k1 of (r, k2) \<Rightarrow> (r, cur', k2))))
      | _ \<Rightarrow> (Inr (), cur, k))"

definition end_burst :: "'k coalescer \<Rightarrow> coalescer_state \<Rightarrow> 'k \<Rightarrow> (goerror + unit) option \<times> coalescer_state \<times> 'k" where
  "end_burst c s k =
     (case publish_now c (cq_current s) (cq_resume s) k of
        (Inl e, cur, k') \<Rightarrow> (Some (Inl e), s\<lparr>cq_current := cur, cq_timer := None\<rparr>, k')
      | (Inr _, cur, k') \<Rightarrow> (None, \<lparr>cq_current = cur, cq_timer = None, cq_burst = None, cq_resume = False\<rparr>, k'))"

definition note_invalidation :: "'k coalescer \<Rightarrow> string \<Rightarrow> gotime \<Rightarrow> gotime \<Rightarrow> coalescer_state \<Rightarrow> coalescer_state" where
  "note_invalidation c source t0 t1 s =
     s\<lparr>cq_resume := cq_resume s \<or> source = ''resume'',
       cq_burst := (case cq_burst s of None \<Rightarrow> Some t0 | Some b \<Rightarrow> Some b),
       cq_timer := Some (t1 + cl_Settle c)\<rparr>"

definition burst_over :: "'k coalescer \<Rightarrow> gotime \<Rightarrow> coalescer_state \<Rightarrow> bool" where
  "burst_over c now s = (case cq_burst s of None \<Rightarrow> False | Some b \<Rightarrow> cl_Maximum c \<le> now - b)"

definition coalescer_turn :: "'k coalescer \<Rightarrow> coalescer_event \<Rightarrow> coalescer_state \<Rightarrow> 'k \<Rightarrow> (goerror + unit) option \<times> coalescer_state \<times> 'k" where
  "coalescer_turn c ev s k =
     (case ev of
        CtxDone e \<Rightarrow> (Some (Inl e), s, k)
      | ChannelClosed \<Rightarrow> (Some (Inr ()), s, k)
      | Invalidated source t0 t1 t2 \<Rightarrow>
          let s1 = note_invalidation c source t0 t1 s
          in if burst_over c t2 s1 then end_burst c (s1\<lparr>cq_timer := None\<rparr>) k else (None, s1, k)
      | TimerFired \<Rightarrow> end_burst c (s\<lparr>cq_timer := None\<rparr>) k)"

fun coalescer_loop :: "'k coalescer \<Rightarrow> coalescer_event list \<Rightarrow> coalescer_state \<Rightarrow> 'k \<Rightarrow> (goerror + unit) option \<times> coalescer_state \<times> 'k" where
  "coalescer_loop c [] s k = (None, s, k)"
| "coalescer_loop c (ev # evs) s k =
     (case coalescer_turn c ev s k of
        (None, s', k') \<Rightarrow> coalescer_loop c evs s' k'
      | (Some r, s', k') \<Rightarrow> (Some r, s', k'))"

definition coalescer_Run :: "'k coalescer \<Rightarrow> netstate_snapshot \<Rightarrow> coalescer_event list \<Rightarrow> 'k \<Rightarrow> (goerror + unit) option \<times> coalescer_state \<times> 'k" where
  "coalescer_Run c initial evs k =
     (let c' = with_defaults c; s = coalescer_begin initial
      in if cl_Build c = None then (Some (Inl (Errorf ''coalescer snapshot builder is nil'')), s, k)
         else if cl_Changed c = None then (Some (Inl (Errorf ''coalescer change handler is nil'')), s, k)
         else coalescer_loop c' evs s k)"

section \<open>Bursts\<close>

text \<open>
  Bursts of invalidations: what the coalescer has been asked and not yet published, when it will
  publish it, and that a resume among it reaches the handler.
\<close>

section \<open>States of the loop\<close>

text \<open>\<open>coalescing c s asked clock\<close>: the loop is in state \<open>s\<close>, the invalidations since the last publication
  are \<open>asked\<close> with the times they came, and the clock was last read at \<open>clock\<close>. The clock does not
  run backwards.\<close>

inductive coalescing :: "'k coalescer \<Rightarrow> coalescer_state \<Rightarrow> (string \<times> gotime) list \<Rightarrow> gotime \<Rightarrow> bool" for c where
  coalescing_begin: "coalescing c (coalescer_begin initial) [] clock"
| coalescing_gather: "coalescing c s asked clock \<Longrightarrow> clock \<le> t0 \<Longrightarrow> t0 \<le> t1 \<Longrightarrow> t1 \<le> t2 \<Longrightarrow>
    \<not> burst_over c t2 (note_invalidation c source t0 t1 s) \<Longrightarrow>
    coalescer_turn c (Invalidated source t0 t1 t2) s k = (None, s', k') \<Longrightarrow>
    coalescing c s' (asked @ [(source, t0)]) t2"
| coalescing_full: "coalescing c s asked clock \<Longrightarrow> clock \<le> t0 \<Longrightarrow> t0 \<le> t1 \<Longrightarrow> t1 \<le> t2 \<Longrightarrow>
    burst_over c t2 (note_invalidation c source t0 t1 s) \<Longrightarrow>
    coalescer_turn c (Invalidated source t0 t1 t2) s k = (None, s', k') \<Longrightarrow> coalescing c s' [] t2"
| coalescing_timer: "coalescing c s asked clock \<Longrightarrow> cq_timer s \<noteq> None \<Longrightarrow>
    coalescer_turn c TimerFired s k = (None, s', k') \<Longrightarrow> coalescing c s' [] clock"

lemma end_burst_quiet:
  "end_burst c s k = (None, s', k') \<Longrightarrow> cq_timer s' = None \<and> cq_burst s' = None \<and> \<not> cq_resume s'"
  by (auto simp: end_burst_def split: prod.splits sum.splits)

text \<open>What is pending shows in the locals, and the timer is set so that it is published in time.\<close>

definition burst_tracked :: "'k coalescer \<Rightarrow> coalescer_state \<Rightarrow> (string \<times> gotime) list \<Rightarrow> bool" where
  "burst_tracked c s asked \<longleftrightarrow>
     (case asked of
        [] \<Rightarrow> cq_burst s = None \<and> cq_timer s = None \<and> \<not> cq_resume s
      | (_, b) # _ \<Rightarrow> cq_burst s = Some b \<and> cq_resume s = (''resume'' \<in> fst ` set asked) \<and>
          (\<exists>f. cq_timer s = Some f \<and> f < b + cl_Maximum c + cl_Settle c))"

lemma coalescing_tracked: "coalescing c s asked clock \<Longrightarrow> burst_tracked c s asked"
proof (induction rule: coalescing.induct)
  case (coalescing_gather s asked clock t0 t1 t2 source k s' k')
  then have s': "s' = note_invalidation c source t0 t1 s" by (simp add: coalescer_turn_def Let_def)
  show ?case
  proof (cases asked)
    case Nil
    with coalescing_gather s' show ?thesis
      by (auto simp: burst_tracked_def note_invalidation_def burst_over_def)
  next
    case (Cons a rest)
    with coalescing_gather s' show ?thesis
      by (auto simp: burst_tracked_def note_invalidation_def burst_over_def split: prod.splits)
  qed
qed (auto simp: burst_tracked_def coalescer_begin_def coalescer_turn_def Let_def dest!: end_burst_quiet)

section \<open>A publication\<close>

text \<open>A publication that succeeds with a resume pending has handed a change with the resume on, or the
  loop has ended.\<close>

lemma end_burst_resumes:
  assumes "end_burst c s k = (None, s', k')" and "cq_resume s" and "cl_Build c = Some build" and "cl_Changed c = Some change"
  shows "\<exists>snap k1 ch. build k = (Inr snap, k1) \<and> change ch k1 = (Inr (), k') \<and> ch_Resume ch \<and>
           cq_current s' = ch_Snapshot ch \<and> IdentityEqual (ch_Snapshot ch) snap"
proof -
  obtain built k1 where build: "build k = (built, k1)" by fastforce
  with assms obtain snap where snap: "built = Inr snap"
    by (cases built) (auto simp: end_burst_def publish_now_def coalescer_publish_def)
  obtain merged reason changed where cmp: "Compare (cq_current s) snap = (merged, reason, changed)" by (metis prod_cases3)
  from assms build snap cmp have ctx: "cl_CtxErr c k1 = None"
    by (cases "cl_CtxErr c k1") (auto simp: end_burst_def publish_now_def coalescer_publish_def)
  let ?m = "if changed then merged else snap\<lparr>ns_Epoch := ns_Epoch (cq_current s)\<rparr>"
  let ?ch = "\<lparr>ch_Snapshot = ?m, ch_Reason = (if changed then reason else ChangeResumeValidation), ch_Resume = True\<rparr>"
  have pub: "coalescer_publish built (cl_CtxErr c k1) (cq_current s) (cq_resume s) = (?m, Inr (Some ?ch))"
    using snap cmp ctx assms(2) by (simp add: coalescer_publish_def Let_def)
  obtain r k2 where r: "change ?ch k1 = (r, k2)" by fastforce
  from assms(1) have "r = Inr ()" "k2 = k'" "cq_current s' = ?m"
    by (auto simp: end_burst_def publish_now_def assms(3,4) build pub r split: sum.splits)
  moreover have "IdentityEqual ?m snap"
    using cmp by (auto simp: Compare_def Let_def IdentityEqual_iff split: if_splits prod.splits)
  ultimately show ?thesis using build snap r by (intro exI [of _ snap] exI [of _ k1] exI [of _ ?ch]) simp
qed

end
