(* ===== verification/Underlay_Watch.thy ===== *)
theory Underlay_Watch
  imports Core_Supervision Coalescer
begin

text \<open>
  The watchers of the core manager (\<^verbatim>\<open>control/control.go\<close>): the convergence of the underlay through the
  coalescer and its supervision, the watcher of kernel events, the audit, the watcher of sleep, and the
  supervision of who manages the interfaces of the Toads. Each runs in a goroutine of its own; what it
  does with one event is one step. The observers' health, the queue of invalidations and the maps of
  interface ownership are the fields of the manager that only these goroutines use.
\<close>

section \<open>State\<close>

record observer_state =
  os_NetlinkHealthy :: bool
  os_UnderlayConvergerHealthy :: bool
  os_SleepHealthy :: bool
  os_NetworkManagerHealthy :: bool
  os_NetlinkLastError :: string
  os_ConvergerLastError :: string
  os_SleepLastError :: string
  os_NetworkManagerLastError :: string

record interface_ownership =
  io_Present :: bool
  io_Managed :: bool

record 'k core_watch =
  ww_World :: "'k world"
  ww_underlayInvalidations :: "string list"
  ww_observers :: observer_state
  ww_managedOwnership :: "(string, interface_ownership) gomap"
  ww_networkManagerBlocked :: "(string, bool) gomap"

record 'k watch_services =
  wv_Build :: "string list \<Rightarrow> ('k, netstate_snapshot) tx"
  wv_EnsureUnmanaged :: "(string \<Rightarrow> 'k \<Rightarrow> (interface_ownership \<times> goerror option) \<times> 'k) option"
  wv_CtxErr :: "'k \<Rightarrow> goerror option"
  wv_Now :: "'k \<Rightarrow> gotime"

definition edit_world :: "('k world \<Rightarrow> 'k world) \<Rightarrow> 'k core_watch \<Rightarrow> 'k core_watch" where
  "edit_world f s = s\<lparr>ww_World := f (ww_World s)\<rparr>"

text \<open>The error fields: kept when there is neither an error nor health.\<close>

definition new_error :: "bool \<Rightarrow> goerror option \<Rightarrow> string \<Rightarrow> string" where
  "new_error healthy err old = (case err of Some e \<Rightarrow> error_text e | None \<Rightarrow> if healthy then [] else old)"

definition observer_health :: "string \<Rightarrow> bool \<Rightarrow> goerror option \<Rightarrow> observer_state \<Rightarrow> observer_state" where
  "observer_health kind healthy err s =
     (if kind = ''netlink''
        then s\<lparr>os_NetlinkHealthy := healthy, os_NetlinkLastError := new_error healthy err (os_NetlinkLastError s)\<rparr>
      else if kind = ''converger''
        then s\<lparr>os_UnderlayConvergerHealthy := healthy, os_ConvergerLastError := new_error healthy err (os_ConvergerLastError s)\<rparr>
      else if kind = ''sleep''
        then s\<lparr>os_SleepHealthy := healthy, os_SleepLastError := new_error healthy err (os_SleepLastError s)\<rparr>
      else if kind = ''networkmanager''
        then s\<lparr>os_NetworkManagerHealthy := healthy, os_NetworkManagerLastError := new_error healthy err (os_NetworkManagerLastError s)\<rparr>
      else s)"

definition setObserverHealth :: "string \<Rightarrow> bool \<Rightarrow> goerror option \<Rightarrow> 'k core_watch \<Rightarrow> 'k core_watch" where
  "setObserverHealth kind healthy err s =
     edit_world bumpLocked (s\<lparr>ww_observers := observer_health kind healthy err (ww_observers s)\<rparr>)"

text \<open>The channel has room for 64 invalidations; one more is dropped.\<close>

definition queueUnderlayInvalidation :: "string \<Rightarrow> 'k core_watch \<Rightarrow> 'k core_watch" where
  "queueUnderlayInvalidation source s =
     (if length (ww_underlayInvalidations s) < 64
      then s\<lparr>ww_underlayInvalidations := ww_underlayInvalidations s @ [source]\<rparr> else s)"

section \<open>The underlay\<close>

definition SnapshotUnderlayExclusions :: "'k world \<Rightarrow> string list" where
  "SnapshotUnderlayExclusions w = List.map_filter (\<lambda>(_, r). map_option cf_Interface (mr_cfg r)) (dv_Roles (ew_Driver w))"

definition watch_host :: "('k, 'a) tx \<Rightarrow> ('k core_watch, 'a) tx" where
  "watch_host t s = (case on_host t (ww_World s) of (r, w) \<Rightarrow> (r, s\<lparr>ww_World := w\<rparr>))"

definition converger_Build :: "'k watch_services \<Rightarrow> ('k core_watch, netstate_snapshot) tx" where
  "converger_Build wv s =
     (case watch_host (wv_Build wv (SnapshotUnderlayExclusions (ww_World s))) s of
        (Inl e, s1) \<Rightarrow> (Inl e, s1)
      | (Inr snap, s1) \<Rightarrow> (Inr snap, setObserverHealth ''converger'' True None s1))"

definition underlay_coalescer :: "'k watch_services \<Rightarrow> 'k core_watch coalescer" where
  "underlay_coalescer wv =
     \<lparr>cl_Settle = 250 * 1000000, cl_Maximum = 2000 * 1000000, cl_Build = Some (converger_Build wv),
      cl_Changed = Some (\<lambda>change s.
        (Inr (), edit_world (applyUnderlayChange (wv_Now wv (host (ww_World s))) change) s)),
      cl_CtxErr = (\<lambda>s. wv_CtxErr wv (host (ww_World s)))\<rparr>"

text \<open>The supervised converger: in the loop of the coalescer, waiting before it starts again, or
  ended.\<close>

datatype converger_phase = Converging coalescer_state | Waiting | Ended

record 'k converger =
  cv_Watch :: "'k core_watch"
  cv_Phase :: converger_phase
  cv_Backoff :: backoff

definition converger_restart :: "'k watch_services \<Rightarrow> 'k converger \<Rightarrow> 'k converger" where
  "converger_restart wv c =
     c\<lparr>cv_Phase := (if wv_CtxErr wv (host (ww_World (cv_Watch c))) \<noteq> None then Ended
                    else Converging (coalescer_begin (currentUnderlay (ww_World (cv_Watch c)))))\<rparr>"

definition converger_ended :: "'k watch_services \<Rightarrow> goerror + unit \<Rightarrow> 'k core_watch \<Rightarrow> 'k converger \<Rightarrow> 'k converger" where
  "converger_ended wv r s c =
     (if wv_CtxErr wv (host (ww_World s)) \<noteq> None then c\<lparr>cv_Watch := s, cv_Phase := Ended\<rparr>
      else c\<lparr>cv_Watch := setObserverHealth ''converger'' False
               (Some (case r of Inl e \<Rightarrow> Wrapf ''underlay coalescer: %w'' e | Inr _ \<Rightarrow> Errorf ''underlay coalescer: %!w(<nil>)'')) s,
             cv_Phase := Waiting, cv_Backoff := snd (backoff_Next (cv_Backoff c))\<rparr>)"

definition converger_loop_turn :: "'k watch_services \<Rightarrow> coalescer_event \<Rightarrow> coalescer_state \<Rightarrow> 'k converger \<Rightarrow> 'k converger" where
  "converger_loop_turn wv ev q c =
     (case coalescer_turn (underlay_coalescer wv) ev q (cv_Watch c) of
        (None, q', s') \<Rightarrow> c\<lparr>cv_Watch := s', cv_Phase := Converging q'\<rparr>
      | (Some r, q', s') \<Rightarrow> converger_ended wv r s' c)"

text \<open>What can happen to the converger: it takes the first invalidation from the queue, its timer fires,
  or the delay before a restart is over.\<close>

datatype converger_event = TakeInvalidation gotime gotime gotime | BurstTimer | DelayOver

definition converger_turn :: "'k watch_services \<Rightarrow> converger_event \<Rightarrow> 'k converger \<Rightarrow> 'k converger" where
  "converger_turn wv ev c =
     (case (ev, cv_Phase c) of
        (TakeInvalidation t0 t1 t2, Converging q) \<Rightarrow>
          (case ww_underlayInvalidations (cv_Watch c) of
             [] \<Rightarrow> c
           | source # rest \<Rightarrow>
               converger_loop_turn wv (Invalidated source t0 t1 t2) q
                 (c\<lparr>cv_Watch := (cv_Watch c)\<lparr>ww_underlayInvalidations := rest\<rparr>\<rparr>))
      | (BurstTimer, Converging q) \<Rightarrow> if cq_timer q = None then c else converger_loop_turn wv TimerFired q c
      | (DelayOver, Waiting) \<Rightarrow>
          converger_restart wv (c\<lparr>cv_Watch := queueUnderlayInvalidation ''coalescer-restart'' (cv_Watch c)\<rparr>)
      | _ \<Rightarrow> c)"

section \<open>Kernel events, the audit and sleep\<close>

definition watchUnderlay_begin :: "'k core_watch \<Rightarrow> 'k core_watch" where
  "watchUnderlay_begin = queueUnderlayInvalidation ''initial''"

definition audit_tick :: "'k core_watch \<Rightarrow> 'k core_watch" where
  "audit_tick = queueUnderlayInvalidation ''audit''"

definition watch_begins :: "string \<Rightarrow> 'k core_watch \<Rightarrow> 'k core_watch" where
  "watch_begins kind = setObserverHealth kind True None"

text \<open>A watcher has returned \<open>err\<close>; \<open>text\<close> is the error made up for a watcher that returned none.\<close>

definition watch_ended :: "'k watch_services \<Rightarrow> string \<Rightarrow> string \<Rightarrow> goerror option \<Rightarrow> 'k core_watch \<Rightarrow> 'k core_watch" where
  "watch_ended wv kind text err s =
     (if wv_CtxErr wv (host (ww_World s)) \<noteq> None then s
      else setObserverHealth kind False (Some (case err of Some e \<Rightarrow> e | None \<Rightarrow> Errorf text)) s)"

definition sleep_event :: "bool \<Rightarrow> 'k core_watch \<Rightarrow> 'k core_watch" where
  "sleep_event preparing s =
     (let s1 = edit_world (update_book (\<lambda>b. b\<lparr>bk_suspended := preparing\<rparr>)) s
      in if preparing then s1 else queueUnderlayInvalidation ''resume'' s1)"

section \<open>Who manages the interfaces\<close>

definition ownership_candidates :: "'k world \<Rightarrow> (string \<times> string \<times> nat option) list" where
  "ownership_candidates w =
     List.map_filter (\<lambda>(name, r).
         case mr_cfg r of
           None \<Rightarrow> None
         | Some c \<Rightarrow> if cf_Interface c = [] then None else Some (name, cf_Interface c, mr_process r))
       (dv_Roles (ew_Driver w))"

definition ownership_reason :: "interface_ownership \<Rightarrow> goerror option \<Rightarrow> string" where
  "ownership_reason own err =
     (case err of
        Some e \<Rightarrow> error_text e
      | None \<Rightarrow> if io_Present own \<and> io_Managed own then ''NetworkManager owns managed Toad interface'' else [])"

definition ownership_zero :: interface_ownership where
  "ownership_zero = \<lparr>io_Present = False, io_Managed = False\<rparr>"

definition record_ownership :: "string \<Rightarrow> interface_ownership \<Rightarrow> bool \<Rightarrow> string \<Rightarrow> 'k core_watch \<Rightarrow> 'k core_watch" where
  "record_ownership name own blocked reason s =
     (let previous = (case map_of (ww_managedOwnership s) name of None \<Rightarrow> ownership_zero | Some p \<Rightarrow> p);
          wasBlocked = flag (ww_networkManagerBlocked s) name;
          s1 = s\<lparr>ww_managedOwnership := gomap_put name own (ww_managedOwnership s)\<rparr>;
          s2 = (if blocked
                then edit_world (set_role name (\<lambda>r. r\<lparr>mr_lastError := reason\<rparr>))
                       (s1\<lparr>ww_networkManagerBlocked := gomap_put name True (ww_networkManagerBlocked s1)\<rparr>)
                else edit_world (\<lambda>w. if wasBlocked then set_role name (\<lambda>r. r\<lparr>mr_lastError := []\<rparr>) w else w)
                       (s1\<lparr>ww_networkManagerBlocked := gomap_del name (ww_networkManagerBlocked s1)\<rparr>))
      in if previous \<noteq> own \<or> wasBlocked \<noteq> blocked then edit_world bumpLocked s2 else s2)"

definition settle_ownership :: "string \<Rightarrow> nat option \<Rightarrow> bool \<Rightarrow> bool \<Rightarrow> string \<Rightarrow> 'k world \<Rightarrow> 'k world" where
  "settle_ownership name p blocked wasBlocked reason w =
     (if blocked then on_product (MarkRecovering name reason) w
      else case p of
             None \<Rightarrow> w
           | Some process \<Rightarrow>
               if wasBlocked then
                 (case RequestRoleValidation name ''NetworkManager ownership restored'' (ew_Controller w) of
                    (accepted, c) \<Rightarrow>
                      let w1 = w\<lparr>ew_Controller := c\<rparr> in if accepted then scheduleValidation name process w1 else w1)
               else w)"

text \<open>One candidate after the other; a cancelled context ends the pass.\<close>

fun ensure_candidates ::
  "'k watch_services \<Rightarrow> (string \<Rightarrow> 'k \<Rightarrow> (interface_ownership \<times> goerror option) \<times> 'k) \<Rightarrow> (string \<times> string \<times> nat option) list \<Rightarrow>
     'k core_watch \<Rightarrow> 'k core_watch" where
  "ensure_candidates wv verify [] s = s"
| "ensure_candidates wv verify ((name, iface, p) # rest) s =
     (case verify iface (host (ww_World s)) of
        ((own, err), k) \<Rightarrow>
          let s1 = edit_world (\<lambda>w. snd (on_host (putT (\<lambda>_. k)) w)) s
          in if wv_CtxErr wv k \<noteq> None then s1
             else
               let blocked = (err \<noteq> None \<or> io_Present own \<and> io_Managed own);
                   reason = ownership_reason own err;
                   wasBlocked = flag (ww_networkManagerBlocked s1) name
               in ensure_candidates wv verify rest
                    (edit_world (settle_ownership name p blocked wasBlocked reason)
                      (record_ownership name own blocked reason s1)))"

definition ensureManagedInterfaceOwnership :: "'k watch_services \<Rightarrow> 'k core_watch \<Rightarrow> 'k core_watch" where
  "ensureManagedInterfaceOwnership wv s =
     (case wv_EnsureUnmanaged wv of
        None \<Rightarrow> s
      | Some verify \<Rightarrow> ensure_candidates wv verify (ownership_candidates (ww_World s)) s)"

text \<open>The watcher of interface managers starts with a pass, makes one for each event, and records its
  end. \<^verbatim>\<open>MarkReady\<close> of its back-off has no effect anybody reads.\<close>

definition ownership_watch_begins :: "'k watch_services \<Rightarrow> 'k core_watch \<Rightarrow> 'k core_watch" where
  "ownership_watch_begins wv s = watch_begins ''networkmanager'' (ensureManagedInterfaceOwnership wv s)"

section \<open>What the watchers see\<close>

text \<open>The steps of the goroutines, in any order: the converger turns, an event of the kernel or the audit asks
  for a snapshot, the host goes to sleep or wakes up, the interfaces are verified, a watcher starts
  or ends.\<close>

datatype observation =
  Converged converger_event
| Asked string
| Slept bool
| Verified
| Watching string
| Stopped string string "goerror option"

definition observe :: "'k watch_services \<Rightarrow> observation \<Rightarrow> 'k converger \<Rightarrow> 'k converger" where
  "observe wv ob c =
     (case ob of
        Converged ev \<Rightarrow> converger_turn wv ev c
      | Asked source \<Rightarrow> c\<lparr>cv_Watch := queueUnderlayInvalidation source (cv_Watch c)\<rparr>
      | Slept preparing \<Rightarrow> c\<lparr>cv_Watch := sleep_event preparing (cv_Watch c)\<rparr>
      | Verified \<Rightarrow> c\<lparr>cv_Watch := ensureManagedInterfaceOwnership wv (cv_Watch c)\<rparr>
      | Watching kind \<Rightarrow> c\<lparr>cv_Watch := watch_begins kind (cv_Watch c)\<rparr>
      | Stopped kind text err \<Rightarrow> c\<lparr>cv_Watch := watch_ended wv kind text err (cv_Watch c)\<rparr>)"

end
