(* ===== verification/Watch_Properties.thy ===== *)
theory Watch_Properties
  imports Underlay_Watch Coalescer Supervision_Facts Sample_Manager
begin

text \<open>
  The coalescer under the core manager: a resume is published in time and makes every role
  validate again, and what becomes of it when the snapshot cannot be built.
\<close>

section \<open>Times of a burst\<close>

lemma coalescing_times:
  "coalescing c s asked clock \<Longrightarrow> sorted (map snd asked) \<and> (\<forall>e \<in> set asked. snd e \<le> clock)"
  by (induction rule: coalescing.induct) (auto simp: sorted_append)

lemma pending_timer:
  assumes "coalescing c s asked clock" and "(source, t) \<in> set asked"
  shows "\<exists>f. cq_timer s = Some f \<and> f < t + cl_Maximum c + cl_Settle c"
proof (cases asked)
  case (Cons a rest)
  from coalescing_times [OF assms(1)] assms(2) Cons have "snd a \<le> t" by auto
  then show ?thesis using coalescing_tracked [OF assms(1)] Cons by (auto simp: burst_tracked_def split: prod.splits)
qed (use assms in simp)

section \<open>What the watchers leave alone\<close>

lemma edit_world_world [simp]: "ww_World (edit_world f s) = f (ww_World s)"
  "ww_underlayInvalidations (edit_world f s) = ww_underlayInvalidations s"
  by (simp_all add: edit_world_def)

lemma observer_world [simp]:
  "ww_World (setObserverHealth kind healthy err s) = bumpLocked (ww_World s)"
  "ww_underlayInvalidations (setObserverHealth kind healthy err s) = ww_underlayInvalidations s"
  by (simp_all add: setObserverHealth_def)

lemma queue_world [simp]: "ww_World (queueUnderlayInvalidation source s) = ww_World s"
  by (simp add: queueUnderlayInvalidation_def)

lemma bump_views [simp]:
  "ew_Controller (bumpLocked w) = ew_Controller w" "currentUnderlay (bumpLocked w) = currentUnderlay w"
  "host (bumpLocked w) = host w"
  by (simp_all add: bumpLocked_def update_driver_def currentUnderlay_def host_def)

lemma host_call_views:
  "ew_Controller (snd (on_host t w)) = ew_Controller w" "currentUnderlay (snd (on_host t w)) = currentUnderlay w"
  by (auto simp: on_host_def on_selected_def on_kernel_def update_driver_def currentUnderlay_def split: prod.splits)

lemma build_views:
  assumes "converger_Build wv s = (r, s')"
  shows "ew_Controller (ww_World s') = ew_Controller (ww_World s)"
    "currentUnderlay (ww_World s') = currentUnderlay (ww_World s)"
    "ww_underlayInvalidations s' = ww_underlayInvalidations s"
    "r = Inr snap \<Longrightarrow> \<exists>excl k k'. wv_Build wv excl k = (Inr snap, k')"
proof -
  obtain x w where run: "on_host (wv_Build wv (SnapshotUnderlayExclusions (ww_World s))) (ww_World s) = (x, w)" by fastforce
  note v = host_call_views [of "wv_Build wv (SnapshotUnderlayExclusions (ww_World s))" "ww_World s", unfolded run snd_conv]
  show "ew_Controller (ww_World s') = ew_Controller (ww_World s)"
    "currentUnderlay (ww_World s') = currentUnderlay (ww_World s)"
    "ww_underlayInvalidations s' = ww_underlayInvalidations s"
    using assms run v by (auto simp: converger_Build_def watch_host_def split: sum.splits)
  assume "r = Inr snap"
  then have "x = Inr snap" using assms run by (auto simp: converger_Build_def watch_host_def split: sum.splits)
  then show "\<exists>excl k k'. wv_Build wv excl k = (Inr snap, k')"
    using run by (auto simp: on_host_def on_selected_def on_kernel_def split: prod.splits)
qed

section \<open>A resume that is published\<close>

lemma spawn_controller [simp]: "ew_Controller (spawn t w) = ew_Controller w"
  by (simp add: spawn_def update_book_def update_driver_def)

lemma resume_change_unready:
  assumes "ch_Resume change" and "map_of (co_Roles (ew_Controller (applyUnderlayChange now change w))) role = Some r"
    and "rr_Desired r"
  shows "rr_State r \<noteq> RoleReady"
proof -
  obtain merged reason changed where "Compare (currentUnderlay w) (ch_Snapshot change) = (merged, reason, changed)"
    by (metis prod_cases3)
  with assms(1) have "\<exists>c. ew_Controller (applyUnderlayChange now change w) = RequestResumeValidation c"
    by (simp add: applyUnderlayChange_def Let_def) blast
  then obtain c where "ew_Controller (applyUnderlayChange now change w) = RequestResumeValidation c" ..
  with assms(2) obtain r0 where "r = resume_role r0" by auto
  with assms(3) show ?thesis by (simp add: resume_role_def split: if_splits)
qed

text \<open>The clock does not run backwards.\<close>

definition in_order :: "gotime \<Rightarrow> coalescer_event \<Rightarrow> bool" where
  "in_order clock ev = (case ev of Invalidated source t0 t1 t2 \<Rightarrow> clock \<le> t0 \<and> t0 \<le> t1 \<and> t1 \<le> t2 | _ \<Rightarrow> True)"

lemma published_unready:
  assumes "end_burst (underlay_coalescer wv) q s = (None, q', s')" "cq_resume q"
    and "map_of (co_Roles (ew_Controller (ww_World s'))) role = Some r" "rr_Desired r"
  shows "rr_State r \<noteq> RoleReady"
proof -
  obtain snap s1 ch where "ch_Resume ch"
    "(Inr (), edit_world (applyUnderlayChange (wv_Now wv (host (ww_World s1))) ch) s1) = (Inr () :: goerror + unit, s')"
    using end_burst_resumes [OF assms(1,2), of "converger_Build wv"] by (auto simp: underlay_coalescer_def)
  then show ?thesis using resume_change_unready assms(3,4) by fastforce
qed

text \<open>C17: a resume the coalescer of the core has taken is never forgotten: its timer is set to fire less
  than two and a quarter seconds after the resume came, and every further turn of the loop that
  does not end it, whether the timer fires or another invalidation comes, either keeps the timer
  within that bound or has published. Once it has published, at the timer or at the maximum length
  of the burst, no desired role is shown Ready any more on a validation from before the sleep.\<close>

theorem resume_revalidates_in_time:
  assumes "coalescing (underlay_coalescer wv) q asked clock" and "(''resume'', t) \<in> set asked"
  shows "(\<exists>f. cq_timer q = Some f \<and> f < t + 2250 * 1000000) \<and>
     (\<forall>ev s q' s'. in_order clock ev \<and> coalescer_turn (underlay_coalescer wv) ev q s = (None, q', s') \<longrightarrow>
        (\<exists>f. cq_timer q' = Some f \<and> f < t + 2250 * 1000000) \<or>
        (\<forall>role r. map_of (co_Roles (ew_Controller (ww_World s'))) role = Some r \<and> rr_Desired r \<longrightarrow> rr_State r \<noteq> RoleReady))"
proof (intro conjI allI impI)
  show "\<exists>f. cq_timer q = Some f \<and> f < t + 2250 * 1000000"
    using pending_timer [OF assms] by (auto simp: underlay_coalescer_def)
next
  fix ev s q' s'
  let ?c = "underlay_coalescer wv"
  assume turn: "in_order clock ev \<and> coalescer_turn ?c ev q s = (None, q', s')"
  have resume: "cq_resume q"
    using coalescing_tracked [OF assms(1)] assms(2) by (force simp: burst_tracked_def split: list.splits prod.splits)
  show "(\<exists>f. cq_timer q' = Some f \<and> f < t + 2250 * 1000000) \<or>
      (\<forall>role r. map_of (co_Roles (ew_Controller (ww_World s'))) role = Some r \<and> rr_Desired r \<longrightarrow> rr_State r \<noteq> RoleReady)"
  proof (cases ev)
    case (Invalidated source t0 t1 t2)
    let ?q = "note_invalidation ?c source t0 t1 q"
    have noted: "cq_resume (?q\<lparr>cq_timer := None\<rparr>)" using resume by (simp add: note_invalidation_def)
    show ?thesis
    proof (cases "burst_over ?c t2 ?q")
      case True
      with turn Invalidated have "end_burst ?c (?q\<lparr>cq_timer := None\<rparr>) s = (None, q', s')" by (simp add: coalescer_turn_def Let_def)
      from published_unready [OF this noted] show ?thesis by blast
    next
      case False
      with turn Invalidated have "coalescing ?c q' (asked @ [(source, t0)]) t2"
        using coalescing_gather [OF assms(1)] by (auto simp: in_order_def)
      from pending_timer [OF this, of "''resume''" t] assms(2) show ?thesis by (auto simp: underlay_coalescer_def)
    qed
  next
    case TimerFired
    with turn have "end_burst ?c (q\<lparr>cq_timer := None\<rparr>) s = (None, q', s')" by (simp add: coalescer_turn_def)
    from published_unready [OF this] resume show ?thesis by auto
  qed (use turn in \<open>simp_all add: coalescer_turn_def\<close>)
qed

text \<open>A host that is a network, up or still down after the sleep and up at the next attempt, and a role
  validated before the sleep.\<close>

definition wake_services :: "bool watch_services" where
  "wake_services = \<lparr>wv_Build = (\<lambda>excl up. (if up then Inr home_underlay else Inl (Errorf ''network is down''), True)),
     wv_EnsureUnmanaged = None, wv_CtxErr = (\<lambda>up. None), wv_Now = (\<lambda>up. 0)\<rparr>"

definition wake_world :: "bool \<Rightarrow> bool world" where
  "wake_world up = (home_world (NewSelectedRouteManager up))
     \<lparr>ew_Controller := (NewController [])\<lparr>co_Underlay := home_underlay,
        co_Roles := [(''home'', home_runtime\<lparr>rr_State := RoleReady, rr_ValidatedEpoch := 2\<rparr>)]\<rparr>\<rparr>"

definition wake_watch :: "bool \<Rightarrow> string list \<Rightarrow> bool core_watch" where
  "wake_watch up queue = \<lparr>ww_World = wake_world up, ww_underlayInvalidations = queue,
     ww_observers = \<lparr>os_NetlinkHealthy = True, os_UnderlayConvergerHealthy = True, os_SleepHealthy = True,
       os_NetworkManagerHealthy = True, os_NetlinkLastError = [], os_ConvergerLastError = [], os_SleepLastError = [],
       os_NetworkManagerLastError = []\<rparr>, ww_managedOwnership = [], ww_networkManagerBlocked = []\<rparr>"

definition woken :: coalescer_state where
  "woken = note_invalidation (underlay_coalescer wake_services) ''resume'' 5 6 (coalescer_begin home_underlay)"

definition home_after :: "'k core_watch \<Rightarrow> role_state option" where
  "home_after s = map_option rr_State (map_of (co_Roles (ew_Controller (ww_World s))) ''home'')"

lemma woken_coalescing: "coalescing (underlay_coalescer wake_services) woken [(''resume'', 5)] 7"
proof -
  let ?c = "underlay_coalescer wake_services"
  have open': "\<not> burst_over ?c 7 (note_invalidation ?c ''resume'' 5 6 (coalescer_begin home_underlay))"
    by (simp add: burst_over_def note_invalidation_def coalescer_begin_def underlay_coalescer_def)
  then have "coalescer_turn ?c (Invalidated ''resume'' 5 6 7) (coalescer_begin home_underlay) k = (None, woken, k)" for k
    by (simp add: coalescer_turn_def woken_def)
  from coalescing_gather [OF coalescing_begin [of ?c home_underlay 0] _ _ _ open' this] show ?thesis by simp
qed

text \<open>The timer fires, or two seconds after the resume another invalidation comes.\<close>

lemma home_unready:
  assumes "\<forall>role r. map_of (co_Roles (ew_Controller (ww_World s))) role = Some r \<and> rr_Desired r \<longrightarrow> rr_State r \<noteq> RoleReady"
    and "map_option rr_Desired (map_of (co_Roles (ew_Controller (ww_World s))) ''home'') = Some True"
  shows "home_after s \<noteq> Some RoleReady"
  using assms by (auto simp: home_after_def)

theorem resume_revalidates_in_time_witness:
  "(\<exists>f. cq_timer woken = Some f \<and> f < 5 + 2250 * 1000000) \<and> home_after (wake_watch True []) = Some RoleReady \<and>
   home_after (snd (snd (coalescer_turn (underlay_coalescer wake_services) TimerFired woken (wake_watch True [])))) \<noteq> Some RoleReady \<and>
   home_after (snd (snd (coalescer_turn (underlay_coalescer wake_services)
     (Invalidated ''netlink'' 2000000005 2000000005 2000000005) woken (wake_watch True [])))) \<noteq> Some RoleReady"
proof -
  let ?turn = "\<lambda>ev. coalescer_turn (underlay_coalescer wake_services) ev woken (wake_watch True [])"
  let ?ev = "Invalidated ''netlink'' 2000000005 2000000005 2000000005"
  note all = resume_revalidates_in_time [OF woken_coalescing, of 5]
  have published: "home_after (snd (snd (?turn ev))) \<noteq> Some RoleReady"
    if "in_order 7 ev" "fst (?turn ev) = None" "cq_timer (fst (snd (?turn ev))) = None"
      "map_option rr_Desired (map_of (co_Roles (ew_Controller (ww_World (snd (snd (?turn ev)))))) ''home'') = Some True" for ev
  proof -
    from that(2) have "?turn ev = (None, fst (snd (?turn ev)), snd (snd (?turn ev)))" by (metis prod.collapse)
    with all that(1,3) have "\<forall>role r. map_of (co_Roles (ew_Controller (ww_World (snd (snd (?turn ev)))))) role = Some r \<and> rr_Desired r \<longrightarrow>
        rr_State r \<noteq> RoleReady" by fastforce
    from home_unready [OF this that(4)] show ?thesis .
  qed
  have 1: "home_after (snd (snd (?turn TimerFired))) \<noteq> Some RoleReady" by (rule published) code_simp+
  have 2: "home_after (snd (snd (?turn ?ev))) \<noteq> Some RoleReady" by (rule published) code_simp+
  have "home_after (wake_watch True []) = Some RoleReady" by code_simp
  with all 1 2 show ?thesis by simp
qed

section \<open>A resume that is lost\<close>

text \<open>Nothing pending asks for a validation, and the loop, if it runs, compares with the underlay \<open>u\<close>.\<close>

definition forgets_resume :: "controller \<Rightarrow> netstate_snapshot \<Rightarrow> 'k converger \<Rightarrow> bool" where
  "forgets_resume product u c \<longleftrightarrow>
     ew_Controller (ww_World (cv_Watch c)) = product \<and> currentUnderlay (ww_World (cv_Watch c)) = u \<and>
     ''resume'' \<notin> set (ww_underlayInvalidations (cv_Watch c)) \<and>
     (\<forall>q. cv_Phase c = Converging q \<longrightarrow> \<not> cq_resume q \<and> IdentityEqual (cq_current q) u)"

lemma identity_trans: "IdentityEqual a u \<Longrightarrow> IdentityEqual u b \<Longrightarrow> IdentityEqual a b"
  by (simp add: IdentityEqual_iff)

lemma Compare_same: "IdentityEqual a b \<Longrightarrow> Compare a b = (b\<lparr>ns_Epoch := ns_Epoch a\<rparr>, ReasonNone, False)"
  by (simp add: Compare_def)

lemma publish_same:
  assumes build: "converger_Build wv s = (built, s1)" and same: "\<And>snap. built = Inr snap \<Longrightarrow> IdentityEqual cur snap"
  shows "publish_now (underlay_coalescer wv) cur False s =
           (case built of Inl e \<Rightarrow> (Inl e, cur, s1) | Inr _ \<Rightarrow> (Inr (), cur, s1))"
  using assms by (auto simp: publish_now_def underlay_coalescer_def coalescer_publish_def Compare_same split: sum.splits)

lemma ended_forgets:
  assumes "ew_Controller (ww_World s) = product" "currentUnderlay (ww_World s) = u"
    "''resume'' \<notin> set (ww_underlayInvalidations s)"
  shows "forgets_resume product u (converger_ended wv r s c)"
  using assms by (simp add: forgets_resume_def converger_ended_def)

lemma loop_turn_forgets:
  assumes same: "\<And>excl k snap k'. wv_Build wv excl k = (Inr snap, k') \<Longrightarrow> IdentityEqual u snap"
    and c: "forgets_resume product u c" and q: "\<not> cq_resume q" "IdentityEqual (cq_current q) u"
    and ev: "ev = TimerFired \<or> (\<exists>source t0 t1 t2. source \<noteq> ''resume'' \<and> ev = Invalidated source t0 t1 t2)"
  shows "forgets_resume product u (converger_loop_turn wv ev q c)"
proof -
  let ?s = "cv_Watch c"
  obtain built s1 where build: "converger_Build wv ?s = (built, s1)" by fastforce
  note v = build_views [OF build]
  have over: "forgets_resume product u
      (case end_burst (underlay_coalescer wv) q' ?s of
         (None, q'', s') \<Rightarrow> c\<lparr>cv_Watch := s', cv_Phase := Converging q''\<rparr> | (Some r, q'', s') \<Rightarrow> converger_ended wv r s' c)"
    if q': "\<not> cq_resume q'" "IdentityEqual (cq_current q') u" for q'
  proof -
    have "IdentityEqual (cq_current q') snap" if "built = Inr snap" for snap
      using v(4) [OF that] same identity_trans [OF q'(2)] by blast
    note publish = publish_same [OF build this]
    show ?thesis
      using v c q' publish by (cases built) (auto simp: end_burst_def forgets_resume_def converger_ended_def)
  qed
  have noted: "\<not> cq_resume (note_invalidation x source t0 t1 q)" "cq_current (note_invalidation x source t0 t1 q) = cq_current q"
    if "source \<noteq> ''resume''" for x :: "'a core_watch coalescer" and source t0 t1
    using that q by (simp_all add: note_invalidation_def)
  from ev show ?thesis
  proof (elim disjE exE conjE)
    assume "ev = TimerFired"
    then show ?thesis using over [of "q\<lparr>cq_timer := None\<rparr>"] q by (simp add: converger_loop_turn_def coalescer_turn_def)
  next
    fix source t0 t1 t2
    assume src: "source \<noteq> ''resume''" and ev: "ev = Invalidated source t0 t1 t2"
    let ?q = "note_invalidation (underlay_coalescer wv) source t0 t1 q"
    note n = noted [OF src, of "underlay_coalescer wv" t0 t1]
    show ?thesis
      using over [of "?q\<lparr>cq_timer := None\<rparr>"] n q c ev
      by (auto simp: converger_loop_turn_def coalescer_turn_def Let_def forgets_resume_def split: if_splits)
  qed
qed

lemma turn_forgets:
  assumes same: "\<And>excl k snap k'. wv_Build wv excl k = (Inr snap, k') \<Longrightarrow> IdentityEqual u snap"
    and c: "forgets_resume product u c"
  shows "forgets_resume product u (converger_turn wv ev c)"
proof (cases "cv_Phase c")
  case (Converging q)
  with c have q: "\<not> cq_resume q" "IdentityEqual (cq_current q) u" by (auto simp: forgets_resume_def)
  show ?thesis
  proof (cases ev)
    case (TakeInvalidation t0 t1 t2)
    show ?thesis
    proof (cases "ww_underlayInvalidations (cv_Watch c)")
      case Nil
      with TakeInvalidation Converging c show ?thesis by (simp add: converger_turn_def)
    next
      case (Cons source rest)
      let ?c = "c\<lparr>cv_Watch := (cv_Watch c)\<lparr>ww_underlayInvalidations := rest\<rparr>\<rparr>"
      from c Cons have "forgets_resume product u ?c" "source \<noteq> ''resume''" by (auto simp: forgets_resume_def)
      with loop_turn_forgets [where wv = wv and u = u and product = product and c = ?c and q = q and ev = "Invalidated source t0 t1 t2", OF same]
        q TakeInvalidation Converging Cons
      show ?thesis by (simp add: converger_turn_def)
    qed
  qed (use loop_turn_forgets [OF same c q] c Converging in \<open>simp_all add: converger_turn_def\<close>)
next
  case Waiting
  have "IdentityEqual u u" by (simp add: IdentityEqual_iff)
  with Waiting c show ?thesis
    by (cases ev) (auto simp: converger_turn_def converger_restart_def forgets_resume_def queueUnderlayInvalidation_def
        coalescer_begin_def split: if_splits)
qed (use c in \<open>cases ev; simp add: converger_turn_def\<close>)

text \<open>C18: a resume is lost when the snapshot cannot be built at the end of its burst: the coalescer ends with its
  flag, and the one that replaces it is woken by an invalidation that is not a resume. As long as no
  other resume comes and the underlay found later is the one before, the product is never told, and
  roles stay Ready on validations from before the sleep.\<close>

theorem failed_build_loses_resume:
  assumes "cv_Phase c = Converging q" and "cq_resume q" and "cq_timer q \<noteq> None"
    and queue: "''resume'' \<notin> set (ww_underlayInvalidations (cv_Watch c))"
    and fails: "converger_Build wv (cv_Watch c) = (Inl e, s1)"
    and same: "\<forall>excl k snap k'. wv_Build wv excl k = (Inr snap, k') \<longrightarrow> IdentityEqual (currentUnderlay (ww_World (cv_Watch c))) snap"
    and steps: "\<forall>f \<in> set fs. (\<exists>ev. f = converger_turn wv ev) \<or>
      (\<exists>source. source \<noteq> ''resume'' \<and> f = (\<lambda>c. c\<lparr>cv_Watch := queueUnderlayInvalidation source (cv_Watch c)\<rparr>))"
  shows "ew_Controller (ww_World (cv_Watch (fold id (converger_turn wv BurstTimer # fs) c))) =
           ew_Controller (ww_World (cv_Watch c))"
proof -
  let ?u = "currentUnderlay (ww_World (cv_Watch c))" and ?product = "ew_Controller (ww_World (cv_Watch c))"
  note v = build_views [OF fails]
  have "end_burst (underlay_coalescer wv) (q\<lparr>cq_timer := None\<rparr>) (cv_Watch c) = (Some (Inl e), q\<lparr>cq_timer := None\<rparr>, s1)"
    using fails by (simp add: end_burst_def publish_now_def underlay_coalescer_def coalescer_publish_def)
  then have "converger_turn wv BurstTimer c = converger_ended wv (Inl e) s1 c"
    using assms(1,3) by (auto simp: converger_turn_def converger_loop_turn_def coalescer_turn_def)
  then have first: "forgets_resume ?product ?u (converger_turn wv BurstTimer c)"
    using v queue by (auto intro!: ended_forgets)
  have "forgets_resume ?product ?u c' \<Longrightarrow> forgets_resume ?product ?u (fold id gs c')" if "set gs \<subseteq> set fs" for gs c'
    using that
  proof (induction gs arbitrary: c')
    case (Cons f gs)
    from Cons.prems(2) steps have "(\<exists>ev. f = converger_turn wv ev) \<or>
      (\<exists>source. source \<noteq> ''resume'' \<and> f = (\<lambda>c. c\<lparr>cv_Watch := queueUnderlayInvalidation source (cv_Watch c)\<rparr>))" by auto
    then have "forgets_resume ?product ?u (f c')"
    proof (elim disjE exE conjE)
      fix ev assume "f = converger_turn wv ev"
      then show ?thesis using turn_forgets [where wv = wv, OF _ Cons.prems(1)] same by blast
    qed (use Cons.prems(1) in \<open>simp add: forgets_resume_def queueUnderlayInvalidation_def\<close>)
    with Cons show ?case by simp
  qed simp
  from this [OF subset_refl first] show ?thesis by (simp add: forgets_resume_def)
qed

text \<open>The network comes up right after the failed attempt: the role stays Ready.\<close>

definition asleep :: "bool converger" where
  "asleep = \<lparr>cv_Watch = wake_watch False [], cv_Phase = Converging woken, cv_Backoff = backoff_zero\<rparr>"

definition next_attempt :: "(bool converger \<Rightarrow> bool converger) list" where
  "next_attempt = [converger_turn wake_services DelayOver, converger_turn wake_services (TakeInvalidation 8 8 8),
     converger_turn wake_services BurstTimer]"

theorem failed_build_loses_resume_witness:
  "os_UnderlayConvergerHealthy (ww_observers (cv_Watch (fold id (converger_turn wake_services BurstTimer # next_attempt) asleep))) \<and>
   home_after (cv_Watch (fold id (converger_turn wake_services BurstTimer # next_attempt) asleep)) = Some RoleReady"
proof -
  have phase: "cv_Phase asleep = Converging woken" "cq_resume woken" "cq_timer woken \<noteq> None"
    "''resume'' \<notin> set (ww_underlayInvalidations (cv_Watch asleep))"
    by (simp_all add: asleep_def woken_def note_invalidation_def coalescer_begin_def wake_watch_def)
  let ?build = "converger_Build wake_services (cv_Watch asleep)"
  have "isl (fst ?build)" by code_simp
  then obtain e where build: "?build = (Inl e, snd ?build)" by (cases ?build; cases "fst ?build") auto
  have u: "currentUnderlay (ww_World (cv_Watch asleep)) = home_underlay"
    by (simp add: asleep_def wake_watch_def wake_world_def home_world_def currentUnderlay_def NewRecoveryDriver_def)
  have same: "\<forall>excl k snap k'. wv_Build wake_services excl k = (Inr snap, k') \<longrightarrow>
      IdentityEqual (currentUnderlay (ww_World (cv_Watch asleep))) snap"
    unfolding u by (auto simp: wake_services_def IdentityEqual_iff split: if_splits)
  have steps: "\<forall>f \<in> set next_attempt. (\<exists>ev. f = converger_turn wake_services ev) \<or>
      (\<exists>source. source \<noteq> ''resume'' \<and> f = (\<lambda>c. c\<lparr>cv_Watch := queueUnderlayInvalidation source (cv_Watch c)\<rparr>))"
    by (auto simp: next_attempt_def)
  have "home_after (cv_Watch asleep) = Some RoleReady" by code_simp
  with failed_build_loses_resume [OF phase build same steps]
  have "home_after (cv_Watch (fold id (converger_turn wake_services BurstTimer # next_attempt) asleep)) = Some RoleReady"
    by (simp add: home_after_def)
  moreover have "os_UnderlayConvergerHealthy (ww_observers (cv_Watch (fold id (converger_turn wake_services BurstTimer # next_attempt) asleep)))"
    by code_simp
  ultimately show ?thesis by blast
qed

section \<open>A sleep watcher that ends\<close>

text \<open>A watcher of sleep that ends between the two events of a suspension leaves the manager suspended: the
  end touches only the observers' health, and until the next pair of events no change of the underlay
  starts a validation or a recovery.\<close>

lemma sleep_watcher_end_stays_suspended:
  "bk_suspended (book (ww_World (watch_begins ''sleep'' (watch_ended wv ''sleep'' text err (sleep_event True s)))))"
  by (simp add: watch_begins_def watch_ended_def setObserverHealth_def edit_world_def sleep_event_def bumpLocked_def book_def
      update_book_def update_driver_def)

lemma suspended_change_starts_nothing:
  "bk_suspended (book w) \<Longrightarrow> bk_tasks (book (applyUnderlayChange now change w)) = bk_tasks (book w)"
  by (simp add: applyUnderlayChange_def Let_def bumpLocked_def book_def update_driver_def split: prod.splits)

end
