(* ===== verification/Underlay_Properties.thy ===== *)
theory Underlay_Properties
  imports Underlay_Path Watch_Properties
begin

text \<open>
  The underlay the core converges to on Linux: never an interface of a Toad, and the cheapest of
  the default routes that are left.
\<close>

section \<open>The default path\<close>

lemma candidates_from:
  "path_candidates src excluded routes k = (cs, k') \<Longrightarrow> (route, link) \<in> set cs \<Longrightarrow>
     route \<in> set routes \<and> is_default route \<and> 0 < nr_LinkIndex route \<and> eligible excluded route link"
proof (induction routes arbitrary: k cs k')
  case (Cons r routes)
  show ?case
  proof (cases "\<not> is_default r \<or> nr_LinkIndex r \<le> 0")
    case True
    with Cons.prems Cons.IH show ?thesis by auto
  next
    case False
    obtain found k1 where found: "so_LinkByIndex src (nr_LinkIndex r) k = (found, k1)" by fastforce
    obtain cs' k2 where rest: "path_candidates src excluded routes k1 = (cs', k2)" by fastforce
    from Cons.prems(1) False found rest
    have "set cs \<subseteq> set cs' \<union> (if \<exists>l. found = Inr (Some l) \<and> eligible excluded r l then {(r, the (projr found))} else {})"
      by (auto split: sum.splits option.splits if_splits)
    with Cons.prems(2) have "(route, link) \<in> set cs' \<or> (route = r \<and> eligible excluded r link)" by (auto split: if_splits)
    with Cons.IH [OF rest] False show ?thesis by auto
  qed
qed simp

lemma sort_key_first:
  assumes "sort_key f xs = y # ys"
  shows "y \<in> set xs" "x \<in> set xs \<Longrightarrow> f y \<le> f x"
proof -
  have mem: "set (y # ys) = set xs" using assms by (metis set_sort)
  then show "y \<in> set xs" by auto
  have "sorted (map f (y # ys))" using assms by (metis sorted_sort_key)
  then show "x \<in> set xs \<Longrightarrow> f y \<le> f x" using mem by auto
qed

lemma defaultPath_facts:
  assumes "defaultPath src family excluded k = (Some p, k')"
  shows "pa_Interface p \<notin> set excluded \<and> pa_Interface p \<noteq> ''lo'' \<and> pa_Interface p \<noteq> ''leshy-dns0'' \<and> 1 < pa_IfIndex p"
proof -
  from assms obtain routes k1 cs k2 route link rest where
    cs: "path_candidates src excluded routes k1 = (cs, k2)" and first: "sort_candidates cs = (route, link) # rest"
    and p: "winner_path src family route link k2 = (p, k')"
    by (auto simp: defaultPath_def split: prod.splits sum.splits list.splits)
  have "(route, link) \<in> set cs" using sort_key_first(1) [OF first [unfolded sort_candidates_def]] by simp
  from candidates_from [OF cs this] p show ?thesis
    by (auto simp: eligible_def winner_path_def split: prod.splits)
qed

text \<open>No default route that may be used is cheaper than the one that is.\<close>

lemma defaultPath_cheapest:
  assumes "so_RouteListFiltered src family (nl_route_zero\<lparr>nr_Table := 254\<rparr>) [RT_FILTER_TABLE] k = (Inr routes, k1)"
    and "path_candidates src excluded routes k1 = (cs, k2)" and "(route, link) \<in> set cs"
  shows "\<exists>p k' best. defaultPath src family excluded k = (Some p, k') \<and> nr_Priority best \<le> nr_Priority route \<and>
           pa_Metric p = word_of_int (nr_Priority best) \<and> pa_IfIndex p = nr_LinkIndex best \<and> best \<in> fst ` set cs"
proof -
  have "set (sort_candidates cs) = set cs" by (simp add: sort_candidates_def)
  with assms(3) obtain best blink rest where first: "sort_candidates cs = (best, blink) # rest"
    by (cases "sort_candidates cs") auto
  note f = sort_key_first [OF first [unfolded sort_candidates_def]]
  obtain p k' where p: "winner_path src family best blink k2 = (p, k')" by fastforce
  have "defaultPath src family excluded k = (Some p, k')" using assms(1,2) first p by (simp add: defaultPath_def)
  moreover have "nr_Priority best \<le> nr_Priority route" using f(2) [of "(route, link)"] assms(3) by simp
  moreover have "pa_Metric p = word_of_int (nr_Priority best)" "pa_IfIndex p = nr_LinkIndex best"
    using p by (auto simp: winner_path_def split: prod.splits)
  moreover have "best \<in> fst ` set cs" using f(1) by force
  ultimately show ?thesis by blast
qed

section \<open>The underlay of the core\<close>

definition physical_path :: "string list \<Rightarrow> net_path option \<Rightarrow> bool" where
  "physical_path excluded path \<longleftrightarrow>
     (\<forall>p. path = Some p \<longrightarrow> pa_Interface p \<notin> set excluded \<and> pa_Interface p \<noteq> ''lo'' \<and> pa_Interface p \<noteq> ''leshy-dns0'' \<and>
        1 < pa_IfIndex p)"

definition physical :: "string list \<Rightarrow> netstate_snapshot \<Rightarrow> bool" where
  "physical excluded u \<longleftrightarrow> physical_path excluded (ns_IPv4 u) \<and> physical_path excluded (ns_IPv6 u)"

lemma linux_Snapshot_physical:
  "linux_Snapshot src excluded k = (Inr snap, k') \<Longrightarrow> physical excluded snap"
  by (auto simp: linux_Snapshot_def physical_def physical_path_def dest!: defaultPath_facts split: prod.splits)

text \<open>The interfaces of the roles do not change while the watchers run.\<close>

lemma exclusions_kept [simp]:
  "SnapshotUnderlayExclusions (bumpLocked w) = SnapshotUnderlayExclusions w"
  "SnapshotUnderlayExclusions (spawn t w) = SnapshotUnderlayExclusions w"
  "SnapshotUnderlayExclusions (update_book f w) = SnapshotUnderlayExclusions w"
  "SnapshotUnderlayExclusions (w\<lparr>ew_Controller := x\<rparr>) = SnapshotUnderlayExclusions w"
  "currentUnderlay (spawn t w) = currentUnderlay w" "currentUnderlay (update_book f w) = currentUnderlay w"
  "currentUnderlay (w\<lparr>ew_Controller := x\<rparr>) = currentUnderlay w"
  by (simp_all add: SnapshotUnderlayExclusions_def bumpLocked_def spawn_def update_book_def update_driver_def currentUnderlay_def)

lemma exclusions_host [simp]: "SnapshotUnderlayExclusions (snd (on_host t w)) = SnapshotUnderlayExclusions w"
  by (auto simp: SnapshotUnderlayExclusions_def on_host_def on_selected_def on_kernel_def update_driver_def split: prod.splits)

lemma exclusions_pending [simp]:
  "List.map_filter (\<lambda>(x, r). map_option cf_Interface (mr_cfg r)) (gomap_map (\<lambda>_ r. r\<lparr>mr_validationPendingEpoch := n\<rparr>) m) =
     List.map_filter (\<lambda>(x, r). map_option cf_Interface (mr_cfg r)) m"
  by (induction m) (auto simp: gomap_map_def List.map_filter_simps split: option.splits)

lemma change_physical:
  assumes "physical excluded (ch_Snapshot change)" and "physical excluded (currentUnderlay w)"
    and "SnapshotUnderlayExclusions w = excluded"
  shows "physical excluded (currentUnderlay (applyUnderlayChange now change w))"
    "SnapshotUnderlayExclusions (applyUnderlayChange now change w) = excluded"
proof -
  obtain merged reason changed where cmp: "Compare (currentUnderlay w) (ch_Snapshot change) = (merged, reason, changed)"
    by (metis prod_cases3)
  have "ns_IPv4 merged = ns_IPv4 (ch_Snapshot change)" "ns_IPv6 merged = ns_IPv6 (ch_Snapshot change)"
    using cmp by (auto simp: Compare_def Let_def split: if_splits)
  with assms(1) have merged: "physical excluded merged" by (simp add: physical_def)
  have same: "physical excluded ((dv_Underlay (ew_Driver w))\<lparr>ns_ObservedAt := t\<rparr>)" for t
    using assms(2) by (simp add: physical_def currentUnderlay_def)
  show "physical excluded (currentUnderlay (applyUnderlayChange now change w))"
    using assms(2) merged same by (simp add: applyUnderlayChange_def cmp Let_def)
      (simp add: update_driver_def currentUnderlay_def)
  show "SnapshotUnderlayExclusions (applyUnderlayChange now change w) = excluded"
    using assms(3) by (simp add: applyUnderlayChange_def cmp Let_def)
      (simp add: SnapshotUnderlayExclusions_def update_driver_def)
qed


lemma build_physical:
  assumes "wv_Build wv = linux_Snapshot src" and "converger_Build wv s = (r, s')"
    and "SnapshotUnderlayExclusions (ww_World s) = excluded"
  shows "SnapshotUnderlayExclusions (ww_World s') = excluded" "r = Inr snap \<Longrightarrow> physical excluded snap"
proof -
  obtain x w where run: "on_host (wv_Build wv excluded) (ww_World s) = (x, w)" by fastforce
  have "SnapshotUnderlayExclusions w = excluded"
    using exclusions_host [of "wv_Build wv excluded" "ww_World s"] run assms(3) by simp
  then show "SnapshotUnderlayExclusions (ww_World s') = excluded"
    using assms(2,3) run by (auto simp: converger_Build_def watch_host_def split: sum.splits)
  assume "r = Inr snap"
  then have "x = Inr snap" using assms(2,3) run by (auto simp: converger_Build_def watch_host_def split: sum.splits)
  then show "physical excluded snap"
    using run assms(1) linux_Snapshot_physical
    by (auto simp: on_host_def on_selected_def on_kernel_def split: prod.splits)
qed

definition watch_physical :: "string list \<Rightarrow> 'k core_watch \<Rightarrow> bool" where
  "watch_physical excluded s \<longleftrightarrow>
     SnapshotUnderlayExclusions (ww_World s) = excluded \<and> physical excluded (currentUnderlay (ww_World s))"

lemma physical_merged: "Compare old snap = (merged, reason, changed) \<Longrightarrow> physical excluded snap \<Longrightarrow> physical excluded merged"
  by (auto simp: Compare_def Let_def physical_def split: if_splits)

lemma publish_physical:
  assumes "wv_Build wv = linux_Snapshot src" and "watch_physical excluded s"
    and "publish_now (underlay_coalescer wv) cur resume s = (r, cur', s')"
  shows "watch_physical excluded s'"
proof -
  obtain built s1 where build: "converger_Build wv s = (built, s1)" by fastforce
  from assms(2) have excl: "SnapshotUnderlayExclusions (ww_World s) = excluded" by (simp add: watch_physical_def)
  note b = build_physical [OF assms(1) build excl] and v = build_views [OF build]
  show ?thesis
  proof (cases built)
    case (Inl e)
    with assms(2,3) b(1) v show ?thesis
      by (auto simp: publish_now_def underlay_coalescer_def build coalescer_publish_def watch_physical_def)
  next
    case (Inr snap)
    obtain merged reason changed where cmp: "Compare cur snap = (merged, reason, changed)" by (metis prod_cases3)
    note merged = physical_merged [OF cmp b(2) [OF Inr]]
    have snap: "physical excluded (snap\<lparr>ns_Epoch := e\<rparr>)" for e using b(2) [OF Inr] by (simp add: physical_def)
    have same: "watch_physical excluded s1" using assms(2) b(1) v by (simp add: watch_physical_def)
    have "watch_physical excluded (edit_world (applyUnderlayChange now ch) s1)" if "physical excluded (ch_Snapshot ch)" for now ch
      using same that by (simp add: watch_physical_def change_physical)
    with same merged snap show ?thesis
      using assms(3) Inr cmp
      by (auto simp: publish_now_def underlay_coalescer_def build coalescer_publish_def Let_def split: if_splits option.splits)
  qed
qed

lemma end_burst_physical:
  "wv_Build wv = linux_Snapshot src \<Longrightarrow> watch_physical excluded s \<Longrightarrow>
   end_burst (underlay_coalescer wv) q s = (r, q', s') \<Longrightarrow> watch_physical excluded s'"
  by (auto simp: end_burst_def split: prod.splits sum.splits dest!: publish_physical)

lemma coalescer_turn_physical:
  "wv_Build wv = linux_Snapshot src \<Longrightarrow> watch_physical excluded s \<Longrightarrow>
   coalescer_turn (underlay_coalescer wv) ev q s = (r, q', s') \<Longrightarrow> watch_physical excluded s'"
  by (auto simp: coalescer_turn_def Let_def split: coalescer_event.splits if_splits dest!: end_burst_physical)

lemma observer_physical [simp]:
  "watch_physical excluded (setObserverHealth kind healthy err s) = watch_physical excluded s"
  "watch_physical excluded (queueUnderlayInvalidation source s) = watch_physical excluded s"
  by (simp_all add: watch_physical_def)

lemma converger_turn_physical:
  assumes "wv_Build wv = linux_Snapshot src" and "watch_physical excluded (cv_Watch c)"
  shows "watch_physical excluded (cv_Watch (converger_turn wv ev c))"
proof -
  have ended: "watch_physical excluded (cv_Watch (converger_ended wv r s c'))" if "watch_physical excluded s" for r s and c' :: "'a converger"
    using that by (simp add: converger_ended_def)
  have loop: "watch_physical excluded (cv_Watch (converger_loop_turn wv ev' q c'))"
    if "watch_physical excluded (cv_Watch c')" for ev' q and c' :: "'a converger"
    using coalescer_turn_physical [OF assms(1) that] ended
    by (auto simp: converger_loop_turn_def split: prod.splits option.splits)
  have rest: "watch_physical excluded ((cv_Watch c)\<lparr>ww_underlayInvalidations := queue\<rparr>)" for queue
    using assms(2) by (simp add: watch_physical_def)
  show ?thesis
    using assms(2) rest
    by (auto simp: converger_turn_def converger_restart_def intro!: loop split: converger_event.splits converger_phase.splits list.splits)
qed

lemma set_role_views:
  assumes "\<And>r. mr_cfg (f r) = mr_cfg r"
  shows "SnapshotUnderlayExclusions (set_role name f w) = SnapshotUnderlayExclusions w"
    "currentUnderlay (set_role name f w) = currentUnderlay w"
proof -
  have put: "map_of m name = Some r \<Longrightarrow>
      List.map_filter (\<lambda>(_, r). map_option cf_Interface (mr_cfg r)) (gomap_put name (f r) m) =
      List.map_filter (\<lambda>(_, r). map_option cf_Interface (mr_cfg r)) m" for m r
    using assms by (induction m) (auto simp: List.map_filter_simps split: if_splits option.splits)
  then show "SnapshotUnderlayExclusions (set_role name f w) = SnapshotUnderlayExclusions w"
    by (simp add: SnapshotUnderlayExclusions_def set_role_def role_of_def update_driver_def split: option.splits)
  show "currentUnderlay (set_role name f w) = currentUnderlay w"
    by (simp add: currentUnderlay_def set_role_def update_driver_def split: option.splits)
qed

lemma validation_views:
  "SnapshotUnderlayExclusions (scheduleValidation name p w) = SnapshotUnderlayExclusions w"
  "currentUnderlay (scheduleValidation name p w) = currentUnderlay w"
  by (simp_all add: scheduleValidation_def set_role_views Let_def split: option.splits)

lemma settle_views:
  "SnapshotUnderlayExclusions (settle_ownership name p blocked was reason w) = SnapshotUnderlayExclusions w"
  "currentUnderlay (settle_ownership name p blocked was reason w) = currentUnderlay w"
  by (simp_all add: settle_ownership_def on_product_def validation_views Let_def split: option.splits prod.splits)

lemma settle_physical:
  "watch_physical excluded (edit_world (settle_ownership name p blocked was reason) s) = watch_physical excluded s"
  by (simp add: watch_physical_def settle_views)

lemma record_physical: "watch_physical excluded (record_ownership name own blocked reason s) = watch_physical excluded s"
proof -
  have "watch_physical excluded (edit_world f (s\<lparr>ww_managedOwnership := a, ww_networkManagerBlocked := b\<rparr>)) = watch_physical excluded s"
    if "\<And>w. SnapshotUnderlayExclusions (f w) = SnapshotUnderlayExclusions w" "\<And>w. currentUnderlay (f w) = currentUnderlay w" for f a b
    using that by (simp add: watch_physical_def)
  note this [simp]
  show ?thesis by (simp add: record_ownership_def Let_def set_role_views) (simp add: watch_physical_def set_role_views)
qed

lemma ensure_physical: "watch_physical excluded s \<Longrightarrow> watch_physical excluded (ensure_candidates wv verify cs s)"
proof (induction wv verify cs s rule: ensure_candidates.induct)
  case (2 wv verify name iface p rest s)
  obtain own err k where verified: "verify iface (host (ww_World s)) = ((own, err), k)" by (metis prod_cases3 prod.collapse)
  let ?s1 = "edit_world (\<lambda>w. snd (on_host (putT (\<lambda>_. k)) w)) s"
  have "watch_physical excluded ?s1" using "2.prems" by (simp add: watch_physical_def host_call_views)
  then show ?case
    using "2.IH" [OF verified [symmetric] refl refl _ refl refl refl] verified by (auto simp: Let_def record_physical settle_physical)
qed simp

lemma observe_physical:
  assumes "wv_Build wv = linux_Snapshot src" and "watch_physical excluded (cv_Watch c)"
  shows "watch_physical excluded (cv_Watch (observe wv ob c))"
proof -
  have "watch_physical excluded (sleep_event preparing (cv_Watch c))" for preparing
    using assms(2) by (simp add: sleep_event_def Let_def) (simp add: watch_physical_def)
  then show ?thesis
    using assms converger_turn_physical
    by (auto simp: observe_def watch_begins_def watch_ended_def ensureManagedInterfaceOwnership_def ensure_physical
        split: observation.splits option.splits)
qed

text \<open>C16: on Linux, whatever the observers see and in whatever order, the underlay of the core is never the
  interface of a Toad, the loopback or the interface of the resolver: the route that carries the
  tunnels' own packets is never one of the tunnels.\<close>

theorem underlay_never_a_toad:
  assumes "wv_Build wv = linux_Snapshot src"
    and "physical excluded (currentUnderlay (ww_World (cv_Watch c)))"
    and "SnapshotUnderlayExclusions (ww_World (cv_Watch c)) = excluded"
  shows "physical excluded (currentUnderlay (ww_World (cv_Watch (fold (observe wv) obs c))))"
proof -
  have "watch_physical excluded (cv_Watch (fold (observe wv) obs c))"
    if "watch_physical excluded (cv_Watch c)" for c
    using that by (induction obs arbitrary: c) (simp_all add: observe_physical [OF assms(1)])
  with assms(2,3) show ?thesis by (simp add: watch_physical_def)
qed

text \<open>A host on which the default route of the tunnel \<^verbatim>\<open>tun0\<close> is cheaper than the one of the network card;
  the state of the host is of no interest.\<close>

definition split_source :: "unit nl_source" where
  "split_source = \<lparr>so_RouteListFiltered = (\<lambda>family r f k.
       (Inr (if family = FAMILY_V4
             then [nl_route_zero\<lparr>nr_LinkIndex := 7, nr_Priority := 50\<rparr>,
                   nl_route_zero\<lparr>nr_LinkIndex := 3, nr_Priority := 600, nr_Table := 254\<rparr>] else []), k)),
     so_RouteGetWithOptions = (\<lambda>a i k. (Inr [], k)),
     so_LinkByIndex = (\<lambda>i k. (Inr (Some \<lparr>lk_Name = (if i = 7 then ''tun0'' else ''wlan0''), lk_MTU = 1500\<rparr>), k)),
     so_AddrList = (\<lambda>i f k. (Inr [], k)), so_Now = (\<lambda>k. 0)\<rparr>"

definition split_services :: "unit watch_services" where
  "split_services = \<lparr>wv_Build = linux_Snapshot split_source, wv_EnsureUnmanaged = None, wv_CtxErr = (\<lambda>k. None), wv_Now = (\<lambda>k. 0)\<rparr>"

definition split_converger :: "unit converger" where
  "split_converger = \<lparr>cv_Watch = \<lparr>ww_World = home_world (NewSelectedRouteManager ()), ww_underlayInvalidations = [],
       ww_observers = \<lparr>os_NetlinkHealthy = True, os_UnderlayConvergerHealthy = True, os_SleepHealthy = True,
         os_NetworkManagerHealthy = True, os_NetlinkLastError = [], os_ConvergerLastError = [], os_SleepLastError = [],
         os_NetworkManagerLastError = []\<rparr>, ww_managedOwnership = [], ww_networkManagerBlocked = []\<rparr>,
     cv_Phase = Converging (coalescer_begin home_underlay), cv_Backoff = backoff_zero\<rparr>"

definition split_path :: "observation list \<Rightarrow> (string \<times> int) option" where
  "split_path obs = map_option (\<lambda>p. (pa_Interface p, pa_IfIndex p))
     (ns_IPv4 (currentUnderlay (ww_World (cv_Watch (fold (observe split_services) obs split_converger)))))"

definition split_run :: "observation list" where
  "split_run = [Asked ''netlink'', Converged (TakeInvalidation 1 2 3), Converged BurstTimer]"

theorem underlay_never_a_toad_witness:
  "split_path [] = Some (''eth0'', 2) \<and>
   (\<exists>p. ns_IPv4 (currentUnderlay (ww_World (cv_Watch (fold (observe split_services) split_run split_converger)))) = Some p \<and>
      pa_Interface p = ''wlan0'' \<and> pa_IfIndex p = 3 \<and> pa_Interface p \<notin> {''tun0'', ''lo'', ''leshy-dns0''})"
proof -
  have host: "wv_Build split_services = linux_Snapshot split_source" by (simp add: split_services_def)
  have toads: "SnapshotUnderlayExclusions (ww_World (cv_Watch split_converger)) = [''tun0'']" by code_simp
  have "currentUnderlay (ww_World (cv_Watch split_converger)) = home_underlay" by code_simp
  then have "physical [''tun0''] (currentUnderlay (ww_World (cv_Watch split_converger)))"
    by (simp add: physical_def physical_path_def home_underlay_def netstate_zero_def)
  note safe = underlay_never_a_toad [OF host this toads, of split_run]
  have "split_path split_run = Some (''wlan0'', 3)" by code_simp
  then obtain p where p: "ns_IPv4 (currentUnderlay (ww_World (cv_Watch (fold (observe split_services) split_run split_converger)))) = Some p"
    "pa_Interface p = ''wlan0''" "pa_IfIndex p = 3"
    by (auto simp: split_path_def)
  moreover from safe p(1) have "pa_Interface p \<notin> {''tun0'', ''lo'', ''leshy-dns0''}"
    by (simp add: physical_def physical_path_def)
  moreover have "split_path [] = Some (''eth0'', 2)" by code_simp
  ultimately show ?thesis by blast
qed

end
