(* ===== verification/Spec2Isabelle.thy ===== *)
theory Spec2Isabelle
  imports Core_Properties Routing_Properties Linux_Properties Linux_Platform Windows_Properties Sample_Host Parking_Outcomes Driver_Properties Ownership_Properties Restart_Properties Supervision_Properties Command_Properties Store_Properties Runtime_Properties Toad_Core_Properties Routing_Lists Config_Properties Boot_Properties Control_Frames Api_Properties Transition_Properties Underlay_Properties
begin

text \<open>
  \<^bold>\<open>Kikimora: a verification of the core of the split-tunnel controller.\<close>

  Kikimora (\<^verbatim>\<open>src/toad\<close>, Go) keeps several VPN transports ("Toads") alive over a changing physical
  network and routes selected destinations through them. Leshy, a DNS resolver, asks the core to
  route a destination through the role of its zone; the core owns these routes in the kernel's
  table, protects them while a transport is down by parking them on unreachable routes, and
  restores them after recovery. Everything it owns is checkpointed before the kernel is changed.

  \<^bold>\<open>The theories and what they model\<close>

  \<^item> \<^verbatim>\<open>Kikimora_Prelude\<close>: errors, maps, transactions (a state that survives an error), and the
    triples and invariants of transactions the component proofs share.
  \<^item> \<^verbatim>\<open>Netip\<close>: the part of Go's \<^verbatim>\<open>net/netip\<close> the sources use (addresses, prefixes, parsing, printing).
  \<^item> \<^verbatim>\<open>Netstate\<close> (\<^verbatim>\<open>internal/netstate\<close>): underlay snapshots, identity, epochs. \<^verbatim>\<open>Coalescer\<close>: the loop that
    gathers invalidations into bursts, with its timer and its flag.
  \<^item> \<^verbatim>\<open>File_Store\<close> (\<^verbatim>\<open>internal/fsutil\<close>, \<^verbatim>\<open>internal/state\<close>, \<^verbatim>\<open>control/desired_state.go\<close>): the atomic replacement of a
    file and its durable removal over the calls of the file system, the store of the desired state. \<^verbatim>\<open>Disk_Model\<close>
    is a disk with a medium and a cache on which every call may fail and the power may go; it states
    what the calls promise as a locale.
  \<^item> \<^verbatim>\<open>Toadctl\<close> (\<^verbatim>\<open>internal/toadctl\<close>): messages and frames of the Toad control protocol, requests,
    responses and their methods.
  \<^item> \<^verbatim>\<open>Toad_Runtime\<close> (\<^verbatim>\<open>internal/toadruntime\<close>): the process of one transport over its backend and the reader of its
    interface: start, stop, requests, the health loop and its repairs, and the
    repairer of Linux (\<^verbatim>\<open>platform/interface_repair_linux.go\<close>).
  \<^item> \<^verbatim>\<open>Routing_Core\<close>, \<^verbatim>\<open>Selected_Registry\<close>, \<^verbatim>\<open>Selected_Plan\<close> (\<^verbatim>\<open>internal/routing\<close>): executors, the registry of
    owned routes with its two state machines (routes and parks, parks behind pointers), the
    planner. \<^verbatim>\<open>Registry_Refinement\<close> and \<^verbatim>\<open>Registry_Runs\<close> refine the registry to a map of values.
  \<^item> \<^verbatim>\<open>Parking\<close> (\<^verbatim>\<open>internal/parking\<close>), \<^verbatim>\<open>Endpoint\<close> (\<^verbatim>\<open>internal/endpoint\<close>).
  \<^item> \<^verbatim>\<open>Core_Controller\<close>, \<^verbatim>\<open>Core_Recovery\<close> (\<^verbatim>\<open>internal/core\<close>): the product state machine of the roles and
    the recovery engine over a driver.
  \<^item> \<^verbatim>\<open>Selected_Manager\<close>, \<^verbatim>\<open>Selected_Operations\<close>, \<^verbatim>\<open>Selected_Parking\<close>, \<^verbatim>\<open>Selected_Reconciler\<close>
    (\<^verbatim>\<open>internal/control/selected_*.go\<close>): the manager of selected routes over a platform writer, the
    intents, parking and restoration, and the audit of the kernel's table.
  \<^item> \<^verbatim>\<open>Manager_Facts\<close>, \<^verbatim>\<open>Manager_Invariants\<close>, \<^verbatim>\<open>Manager_Traces\<close>, \<^verbatim>\<open>Manager_Outcomes\<close>, \<^verbatim>\<open>Parking_Outcomes\<close>: the lemmas about the manager. \<^verbatim>\<open>Sample_Host\<close> is a concrete platform for
    the witnesses.
  \<^item> \<^verbatim>\<open>Role_Config\<close> (\<^verbatim>\<open>internal/config\<close>): endpoint policies and their check, the transport endpoints and
    the credentials of a role. \<^verbatim>\<open>Config_Validate\<close>: decoding, the check of a configuration and the
    legacy file; \<^verbatim>\<open>Config_Files\<close>: creating and changing configurations, profiles, routing lists, the
    configuration of Leshy. \<^verbatim>\<open>Config_Commands\<close> (\<^verbatim>\<open>control/config_api.go\<close>): the same as commands of
    the core manager.
  \<^item> \<^verbatim>\<open>Manager_Book\<close> (\<^verbatim>\<open>internal/supervisor/backoff.go\<close>, the type \<^verbatim>\<open>Manager\<close> of
    \<^verbatim>\<open>internal/control/control.go\<close>): the back-offs, streaks and flags of the core manager and the
    goroutines it has started, with their contexts.
  \<^item> \<^verbatim>\<open>Recovery_Driver\<close>, \<^verbatim>\<open>Driver_Steps\<close> (\<^verbatim>\<open>internal/control/recovery_driver.go\<close>): the driver the recovery engine
    calls, each step on its managed and its legacy branch, the ownership checkpoint and the release of
    a role, over a world that holds the product controller, the selected-route manager and the
    manager's roles. \<^verbatim>\<open>Driver_Facts\<close> and \<^verbatim>\<open>Driver_Runs\<close> state what a step leaves alone, as locales of views
    of the world, and run the sequences.
  \<^item> \<^verbatim>\<open>Core_Manager\<close>, \<^verbatim>\<open>Core_Supervision\<close>, \<^verbatim>\<open>Core_Snapshot\<close> (\<^verbatim>\<open>internal/control/control.go\<close>): the commands of the
    operator, starting, stopping and replacing processes, the desired state; the recovery worker,
    validations, observations, exits, timers and shutdown; the rows shown to clients. Every goroutine
    is a task of the book and \<open>run_task\<close> its body; \<open>background_step\<close> and \<open>manager_step\<close> are the steps of the
    manager without and with its commands, \<open>interleaved_step\<close> those with replacements under way. \<^verbatim>\<open>Supervision_Facts\<close> and \<^verbatim>\<open>Supervision_Runs\<close> follow flags and
    goroutines through every operation; \<^verbatim>\<open>Sample_Manager\<close> has concrete worlds.
  \<^item> \<^verbatim>\<open>Underlay_Watch\<close> (\<^verbatim>\<open>internal/control/control.go\<close>): the watchers of the core manager, of the underlay, of sleep
    and of the interfaces, with the converger and its restarts. \<^verbatim>\<open>Underlay_Path\<close>
    (\<^verbatim>\<open>platform/linux/netlink/snapshot.go\<close>): the default path of Linux.
  \<^item> \<^verbatim>\<open>Core_Boot\<close> (\<^verbatim>\<open>newManagerWithDeps\<close> and the marker of the managed mode), \<^verbatim>\<open>Mode_Transition\<close>
    (\<^verbatim>\<open>control/mode_transition.go\<close>): the start of the core and the journal of a change of mode, which no
    start reads yet.
  \<^item> \<^verbatim>\<open>Control_Frames\<close>, \<^verbatim>\<open>Control_Auth\<close>, \<^verbatim>\<open>Control_Api\<close> (\<^verbatim>\<open>control/api.go\<close>, \<^verbatim>\<open>control/auth_key.go\<close>): frames, credentials,
    every method of the control API and its answers, subscriptions.
  \<^item> \<^verbatim>\<open>Linux_Routes\<close> (\<^verbatim>\<open>internal/platform/linux/netlink\<close>): the Linux route writer over the netlink
    library: endpoint policies, parking operations, selected routes, managed parks and observation.
    \<^verbatim>\<open>Linux_Facts\<close> logs its calls, \<^verbatim>\<open>Linux_Properties\<close> runs it on a table that obeys, \<^verbatim>\<open>Endpoint_Plan\<close> is
    about the endpoint planner.
  \<^item> \<^verbatim>\<open>Windows_Routes\<close> (\<^verbatim>\<open>internal/platform/windows/routes\<close>): the Windows route writer over the IP Helper
    interface: operations, endpoint routes, selected routes with their coherent cache, loopback parks
    and effective metrics. \<^verbatim>\<open>Windows_Facts\<close> logs its calls and follows its cache.
  \<^item> \<^verbatim>\<open>Linux_Platform\<close> states what the manager relies on when it calls a platform, as a locale, and shows
    that the Linux writer provides it.
  \<^item> The theories that end in \<^verbatim>\<open>_Properties\<close>, \<^verbatim>\<open>Control_Frames\<close>, \<^verbatim>\<open>Routing_Lists\<close> and this
    theory hold the properties.

  \<^bold>\<open>How state and code correspond\<close>

  A Go struct is a record, a string enumeration a datatype (with a constructor for any other string
  where a decoded file may contain one), a map an association list with distinct keys, a pointer to a
  park an index into a heap, an error a value of \<^typ>\<open>goerror\<close>. Methods of a receiver are transactions
  on its record. Locks are left out: each operation of a role runs under that role's lock from its
  first to its last transition, so operations are interleaved as whole steps. In the core manager,
  which releases its lock between critical sections, whole steps are a restriction: goroutine bodies
  and commands run one after the other in any order. Where the sections decide a property they are
  taken apart: \<open>interleaved_step\<close> lets any step come between the two sections of a process
  replacement, under the context of its recovery, and C4 is stated over it;
  C23 puts a recovery between the two sections of a disconnect, and
  C19 a disconnect between those of a recovery request. A context is a
  number of the book with the set of those cancelled; a deadline that passes shows in the error of the
  call it ends. The platform, the resolver, Leshy, the Toad sockets, the launcher and its
  processes, the desired-state store and the files are parameters; every call may change the host's
  state, also when it fails or only observes, so nothing is assumed of other writers.

  \<^bold>\<open>What is shown\<close>

  Safety of the write-ahead protocol and of withdrawal (C1, C2), an
  invariant of all runs of the selected-route manager (C3), what success means to
  Leshy (C24, C26, C14). Of the core manager: a
  disconnect is final (C4), flags have goroutines (C5), a failed
  recovery stays frozen and a successful one reopens the role (C6,
  C7), commands are atomic (C21, C28), three
  failures end a recovery (C22), the
  desired state survives a loss of power (C8), the core starts well formed
  (C15) and refuses a bad request (C13). Of the Toads: what
  a ready snapshot and a validation mean (C9, C12), when an
  interface is repaired (C10, C11). Of the underlay: it is never a
  tunnel (C16), a resume is answered in time (C17), epochs and
  validations (C30, C31), the order of a recovery
  (C32). Of the files: configurations that load are well formed (C27), round
  trips (C20, C37, C38). The registry refines a map
  (C29). The writers mutate only with the record's authority
  (C33, C35), succeed on a table that obeys
  (C34) and return (C36). Deviations, each with a run that shows it:
  C25, C18, C23,
  C19, C39, C40. Lemmas next to them show further
  contracts and deviations of the same operations.

  \<^bold>\<open>Fuel\<close>

  Three loops have a bound: \<^verbatim>\<open>stableSnapshot\<close>, whose deadline is a number of attempts; \<^verbatim>\<open>waitInterface\<close>, whose
  deadline and period give the number of polls; and the refresh of the Windows cache, which in the
  code retries for as long as notifications interrupt it: C36 shows that more rounds
  than notifications are enough. The other theorems hold for every bound.

  \<^bold>\<open>Not modelled\<close>

  The syntax of TOML and JSON, which encoders and decoders are parameters; the import of profiles, the
  transports themselves, the collector of diagnostics and the daemons' entry points; sockets and pipes
  below the frames; the underlay of Windows and macOS; deadlines (a call that ends for one returns an
  error of its service); the delays of timers, except those of the coalescer; letters and spaces of
  Unicode beyond ASCII; a tick or a request of a Toad between the sections of another. Errors joined
  by \<^verbatim>\<open>errors.Join\<close> are represented by the first.
\<close>

section \<open>The host asked by the selected-route manager\<close>

text \<open>C1: every kernel mutation of a route that an ensured intent requests is authorized beforehand by the
  checkpoint on disk: at that moment the role's last durable checkpoint holds exactly the record
  the platform is given, in state Applying. The role of the zone has a state directory.\<close>

theorem ensure_write_ahead:
  assumes "\<And>role. zone_role env (li_Zone intent) = Some role \<Longrightarrow> persistent env role"
    and "trace_of m = []"
  shows "write_ahead (sm_Disk m) (trace_of (snd (Ensure (logged_env env) intent m)))"
proof -
  from assms(2) have "logged_ok (sm_Disk m) m" by (simp add: logged_ok_def)
  from Ensure_logged [OF assms(1) this] show ?thesis by (simp add: logged_ok_def)
qed

theorem ensure_write_ahead_witness:
  "write_ahead (sm_Disk sample_manager) (trace_of (snd (Ensure (logged_env (sample_env 7)) sample_intent sample_manager))) \<and>
   list_ex is_mutation (trace_of (snd (Ensure (logged_env (sample_env 7)) sample_intent sample_manager)))"
proof -
  have dir: "persistent (sample_env 7) role" for role by (simp add: persistent_def sample_env_def)
  have "trace_of sample_manager = []" by (simp add: sample_manager_def NewSelectedRouteManager_def)
  from ensure_write_ahead [OF dir this] show ?thesis by (rule conjI) code_simp
qed

text \<open>C2: a withdrawal removes a route only when its record has a park that is active and owns its
  desired identity, and only after the platform reported that very park as present: no
  observation that it is gone comes in between.\<close>

theorem withdraw_only_covered:
  assumes "trace_of m = []"
  shows "covered [] (trace_of (snd (WithdrawSelected (logged_env env) role m)))"
  by (rule WithdrawSelected_logged [OF assms])

theorem withdraw_only_covered_witness:
  "covered [] (trace_of (snd (WithdrawSelected (logged_env (sample_env 7)) ''home'' parked_manager))) \<and>
   list_ex is_mutation (trace_of (snd (WithdrawSelected (logged_env (sample_env 7)) ''home'' parked_manager)))"
proof -
  have "trace_of parked_manager = []" by (simp add: parked_manager_def fresh_trace_def)
  from withdraw_only_covered [OF this] show ?thesis by (rule conjI) code_simp
qed

section \<open>Runs of the manager and the reconciler\<close>

text \<open>C3: whatever sequence of intents, flushes, freezes, restores, parks, withdrawals, audits and
  kernel events a fresh manager goes through, under environments, platforms and failpoints
  that change at every step, its registry stays well formed, and RestoreRole accepts every
  checkpoint it left on disk and gets back exactly its entries. The check a restart makes before,
  when it reads the file, accepts the checkpoint if and only if every entry has one of the two
  sources, with a host prefix when it comes from DNS, and generations that are not zero: nothing
  else of what the manager wrote can make that reader refuse it. (That the file carries the
  platform it is read on, a restart checks by itself.)\<close>

theorem run_leaves_restartable_state:
  "registry_ok (sm_Registry (rq_Manager (run_all ops (new_reconciler k)))) \<and>
   (\<forall>role c. map_of (sm_Disk (rq_Manager (run_all ops (new_reconciler k)))) role = Some c \<and> role \<noteq> [] \<longrightarrow>
      (\<exists>r es. ck_Entries c = Some es \<and> RestoreRole c NewMemorySelectedRegistry = (Inr (), r) \<and>
         registry_abs r = map_of (map (\<lambda>v. ((sr_Role v, sr_Prefix v), v)) es) \<and>
         (ValidateSelectedRoutesCheckpoint c role [] = None \<longleftrightarrow> list_all reader_demands es)))"
proof -
  have "manager_ok (rq_Manager (run_all ops (new_reconciler k)))"
    by (rule run_all_ok [OF new_reconciler_ok])
  then show ?thesis
    using checkpoint_restarts checkpoint_readable unfolding manager_ok_def disk_ok_def by blast
qed

theorem run_leaves_restartable_state_witness:
  "\<exists>c g. map_of (sm_Disk (rq_Manager (run_all [(open_env 7, SysEnsure sample_intent)] (new_reconciler ())))) ''home'' = Some c \<and>
     RestoreRole c NewMemorySelectedRegistry = (Inr (), g) \<and> ValidateSelectedRoutesCheckpoint c ''home'' [] = None"
proof -
  let ?r = "run_all [(open_env 7, SysEnsure sample_intent)] (new_reconciler ())"
  have "case map_of (sm_Disk (rq_Manager ?r)) ''home'' of None \<Rightarrow> False
      | Some c \<Rightarrow> (case ck_Entries c of None \<Rightarrow> False | Some es \<Rightarrow> list_all reader_demands es)" by code_simp
  then obtain c es where "map_of (sm_Disk (rq_Manager ?r)) ''home'' = Some c" "ck_Entries c = Some es" "list_all reader_demands es"
    by (auto split: option.splits)
  with run_leaves_restartable_state [of "[(open_env 7, SysEnsure sample_intent)]" "()"] show ?thesis by force
qed

section \<open>What an operation leaves behind\<close>

text \<open>An intent that is reported without an error passed every gate (one role for the zone, a
  canonical prefix, an open authority gate for a managed role, a role that is not frozen, desired,
  healthy, ready for the family and on an interface, and capacity for a DNS destination), and
  its record is now active, owning exactly the identity the platform normalized for that
  interface.\<close>

lemma ensure_success_active:
  assumes "manager_ok m" and "Ensure env intent m = ((res, None), m')"
  shows "\<exists>role prefix runtime rm i. admitted env intent role prefix runtime m \<and> se_Routes env = Some rm \<and>
           normalized rm role prefix (ts_IfIndex (rr_Toad runtime)) i \<and>
           active_on (role, prefix) i (registry_abs (sm_Registry m')) \<and>
           lr_State res \<in> {''applied'', ''already-applied''}"
proof -
  from assms(2) have "ensure_intent env intent m = ((res, None), m')"
    by (auto simp: Ensure_def split: prod.splits option.splits if_splits)
  from ensure_intent_success [OF achieves_active assms(1) this] show ?thesis unfolding ensured_def by blast
qed

lemma ensure_success_active_witness:
  "\<exists>res m'. Ensure (logged_env (sample_env 7)) sample_intent sample_manager = ((res, None), m') \<and>
     lr_State res \<in> {''applied'', ''already-applied''}"
proof -
  let ?run = "Ensure (logged_env (sample_env 7)) sample_intent sample_manager"
  have ok: "manager_ok sample_manager"
    by (simp add: sample_manager_def NewSelectedRouteManager_def manager_ok_def registry_ok_def valid_under_def disk_ok_def)
  have "snd (fst ?run) = None" by code_simp
  then obtain res m' where run: "?run = ((res, None), m')" by (metis prod.collapse)
  from ensure_success_active [OF ok run] run show ?thesis by blast
qed

text \<open>An intent that misses a gate is denied, and neither the registry, nor the host, nor a
  checkpoint on disk is touched.\<close>

lemma ensure_refusal_touches_nothing:
  assumes "\<And>role prefix runtime. \<not> admitted env intent role prefix runtime m"
  shows "\<exists>res e m'. Ensure env intent m = ((res, Some e), m') \<and> lr_State res = ''denied'' \<and>
           sm_Registry m' = sm_Registry m \<and> sm_Kernel m' = sm_Kernel m \<and> sm_Disk m' = sm_Disk m"
proof -
  from ensure_intent_refused [OF assms] obtain res e m' where
    "ensure_intent env intent m = ((res, Some e), m')" "isDeniedErr e" "\<not> isConflictErr e"
    "sm_Registry m' = sm_Registry m" "sm_Kernel m' = sm_Kernel m" "sm_Disk m' = sm_Disk m" by blast
  then show ?thesis by (auto simp: Ensure_def countRoleStat_def)
qed

text \<open>C24: when parking a role succeeds, every record of the role that is not retiring is covered by an
  active park that owns exactly its desired identity.\<close>

theorem park_registered_covers:
  assumes "manager_ok m" and "ParkRegistered env role m = (Inr u, m')"
    and "registry_abs (sm_Registry m') (role, p) = Some v" and "sr_State v \<noteq> SelectedRetiring"
  shows "park_proven v"
  using triple_value [OF ParkRegistered_triple assms(1, 2)] parking_loop_end [OF _ assms(3, 4)] by blast

theorem park_registered_covers_witness:
  "\<exists>v. registry_abs (sm_Registry (snd (ParkRegistered (sample_env 7) ''home'' frozen_manager))) (''home'', sample_prefix) = Some v \<and>
     park_proven v"
proof -
  let ?run = "ParkRegistered (sample_env 7) ''home'' frozen_manager"
  have ok: "manager_ok frozen_manager" unfolding frozen_manager_def by (rule run_manager_ok)
  have "fst ?run = Inr ()" by code_simp
  then have run: "?run = (Inr (), snd ?run)" by (metis prod.collapse)
  have st: "map_option sr_State (registry_abs (sm_Registry (snd ?run)) (''home'', sample_prefix)) = Some SelectedActive" by code_simp
  then obtain v where v: "registry_abs (sm_Registry (snd ?run)) (''home'', sample_prefix) = Some v" "sr_State v = SelectedActive"
    by auto
  then have "sr_State v \<noteq> SelectedRetiring" by simp
  from park_registered_covers [OF ok run v(1) this] v(1) show ?thesis by blast
qed

text \<open>When the observation of a restoration succeeds, no record of the role is parked any more.\<close>

lemma observed_restoration_unparks:
  assumes "manager_ok m" and "ObserveRestoration env role m = (Inr u, m')"
    and "registry_abs (sm_Registry m') (role, p) = Some v"
  shows "sr_Park v = None"
proof -
  from keepsTD [OF ObserveRestoration_ok assms(1, 2)] have ok: "manager_ok m'" .
  from snapshot_has [OF ok assms(3)] obtain e where
    e: "e \<in> set (registry_Snapshot role (sm_Registry m'))" "stuck role e v m'" by blast
  from assms(2) have "list_all (\<lambda>e. sr_Park e = None) (registry_Snapshot role (sm_Registry m'))"
    by (auto simp: ObserveRestoration_def bindT_Inr_iff requireT_apply split: option.splits if_splits)
  with e stuck_read [OF e(2)] show ?thesis by (auto simp: list_all_iff read_record_def deref_def with_park_def)
qed

section \<open>Where the code differs from its comments\<close>

text \<open>C25: a park interrupted in state Applying is never finished: parking the role again and
  observing its restoration both fail for every platform and leave the record as it is, because
  the retry marks the park Applying again and only a Pending park may be marked.\<close>

theorem interrupted_park_is_stuck:
  assumes "manager_ok m" and "registry_abs (sm_Registry m) (role, p) = Some v"
    and "sr_State v \<noteq> SelectedRetiring" and "sr_Park v = Some k" and "sk_State k = SelectedParkApplying"
  shows "(\<exists>e m'. ParkRegistered env role m = (Inl e, m') \<and> registry_abs (sm_Registry m') (role, p) = Some v) \<and>
         (\<exists>e m'. ObserveRestoration env role m = (Inl e, m') \<and> registry_abs (sm_Registry m') (role, p) = Some v)"
  using ParkRegistered_stuck [OF assms, of env] ObserveRestoration_stuck [OF assms(1, 2, 4, 5), of env] by blast

theorem interrupted_park_is_stuck_witness:
  "\<exists>e m'. ParkRegistered (sample_env 7) ''home'' interrupted_manager = (Inl e, m')"
proof -
  have ok: "manager_ok interrupted_manager" unfolding interrupted_manager_def by (rule run_manager_ok)
  let ?rec = "registry_abs (sm_Registry interrupted_manager) (''home'', sample_prefix)"
  have st: "map_option (\<lambda>v. (sr_State v, map_option sk_State (sr_Park v))) ?rec = Some (SelectedActive, Some SelectedParkApplying)"
    by code_simp
  then obtain v k where v: "?rec = Some v" "sr_State v = SelectedActive" "sr_Park v = Some k" "sk_State k = SelectedParkApplying"
    by auto
  then have "sr_State v \<noteq> SelectedRetiring" by simp
  from interrupted_park_is_stuck [OF ok v(1) this v(3, 4), of "sample_env 7"] show ?thesis by blast
qed

text \<open>The audit never finishes a retirement: for a retiring record without a park the planner
  refuses every set of rows, so the audit fails and quarantines the role.\<close>

lemma audit_quarantines_retiring:
  assumes "sr_State entry = SelectedRetiring" and "sr_Park entry = None"
    and "\<not> rl_restorePending (roleState role (rq_Manager r))"
  shows "\<exists>e r'. auditRecord env role entry rows r = (Inl e, r') \<and>
           rl_integrityQuarantined (roleState role (rq_Manager r')) \<and>
           registry_abs (sm_Registry (rq_Manager r')) = registry_abs (sm_Registry (rq_Manager r))"
  using audit_retiring [OF assms, of env rows] by (auto simp: failSelectedRouteIntegrity_def)

text \<open>A restore may change the routing table without a durable authorization: after an apply
  that stopped behind its Applying checkpoint, a restore onto another interface reserves the new
  identity in memory only and drives the mutation at once.\<close>

lemma restore_mutates_unauthorized:
  "\<not> write_ahead (sm_Disk crashed_manager)
       (trace_of (snd (Restore (logged_env (sample_env 9)) ''home'' True True crashed_manager)))"
  by code_simp

text \<open>A restore makes no platform call for the records that a withdrawal left active on the
  same interface: it only writes the checkpoint, so their kernel rows are not added back.\<close>

lemma restore_skips_withdrawn:
  assumes "se_Routes env = Some rm" and "se_RoleRuntime env role = Some runtime" and "0 < ts_IfIndex (rr_Toad runtime)"
    and "list_all (\<lambda>e. sr_State e = SelectedActive \<and> sr_Owned e = Some (sr_Desired e) \<and>
           si_IfIndex (sr_Desired e) = ts_IfIndex (rr_Toad runtime)) (registry_Snapshot role (sm_Registry m))"
  shows "Restore env role v4 v6 m = checkpointNow env role (update_role role (\<lambda>s. s\<lparr>rl_restores := rl_restores s + 1\<rparr>) m)"
  by (rule Restore_skips [OF assms(1 - 3)]) (use assms(4) in \<open>simp add: list_all_iff\<close>)

lemma restore_skips_withdrawn_witness:
  "let m = snd (WithdrawSelected (logged_env (sample_env 7)) ''home'' parked_manager) in
     Restore (logged_env (sample_env 7)) ''home'' True True m =
       checkpointNow (logged_env (sample_env 7)) ''home'' (update_role ''home'' (\<lambda>s. s\<lparr>rl_restores := rl_restores s + 1\<rparr>) m)"
proof -
  let ?m = "snd (WithdrawSelected (logged_env (sample_env 7)) ''home'' parked_manager)"
  have "list_all (\<lambda>e. sr_State e = SelectedActive \<and> sr_Owned e = Some (sr_Desired e) \<and>
      si_IfIndex (sr_Desired e) = ts_IfIndex (rr_Toad (sample_runtime 7))) (registry_Snapshot ''home'' (sm_Registry ?m))"
    by code_simp
  from restore_skips_withdrawn [OF _ _ _ this] show ?thesis by (simp add: sample_env_def sample_runtime_def Let_def)
qed

text \<open>Reopening a role for new intents leaves a pending startup restore pending, and makes every
  verification token of the role stale, so that the completion check fails for any role with a
  record until the records are proved again.\<close>

lemma unfreeze_leaves_restore_pending:
  assumes "registry_Snapshot role (sm_Registry m) \<noteq> []"
    and "list_all (\<lambda>(p, t). sv_RouteGeneration t = rl_routeGeneration (roleState role m)) (rl_verification (roleState role m))"
  shows "rl_restorePending (roleState role (snd (Unfreeze role m))) = rl_restorePending (roleState role m) \<and>
         \<not> fst (CompleteStartupRestore role (snd (Unfreeze role m)))"
proof -
  let ?m = "snd (Unfreeze role m)"
  from assms(1) obtain e where e: "e \<in> set (registry_Snapshot role (sm_Registry ?m))"
    by (cases "registry_Snapshot role (sm_Registry m)") (auto simp: Unfreeze_def Let_def)
  have "sv_RouteGeneration t \<noteq> rl_routeGeneration (roleState role ?m)"
    if "map_of (rl_verification (roleState role ?m)) (sr_Prefix e) = Some t" for t
    using that assms(2) by (auto simp: Unfreeze_def Let_def list_all_iff dest!: map_of_SomeD)
  from startup_stale [OF e this] show ?thesis by (simp add: Unfreeze_pending)
qed

section \<open>The manager on Linux\<close>

definition linux_sample_env :: "(nl_route list \<times> nl_call list) manager_env" where
  "linux_sample_env = linux_env table_netlink (\<lambda>_. 0) (\<lambda>path c. returnT ())
     \<lparr>se_Routes = None, se_RoleRuntime = (\<lambda>role. if role = ''home'' then Some (sample_runtime 7) else None),
      se_ZoneRoles = [(''z'', [''home''])], se_StateDir = (\<lambda>_. Some ''/var/lib/toad''), se_Capacity = SelectedRouteCapacity,
      se_Managed = [], se_AuthorityError = [], se_WriteCheckpoint = (\<lambda>path c. returnT ()), se_Windows = False,
      se_Failpoint = None\<rparr>"

text \<open>C26: on Linux, an intent answered with "applied" passed every gate, its record is active with
  exactly the identity the Linux writer normalizes for the interface of the role, and the kernel
  rows read last show that route exactly once, with nothing beside it but parks.\<close>

theorem linux_ensure_shown:
  assumes "manager_ok m" and "Ensure (linux_env nl sequence writer env) intent m = ((res, None), m')"
    and "lr_State res = ''applied''"
  shows "\<exists>role prefix runtime i. admitted (linux_env nl sequence writer env) intent role prefix runtime m \<and>
    linux_NormalizeSelectedRoute \<lparr>sd_Role = role, sd_Prefix = prefix, sd_IfIndex = ts_IfIndex (rr_Toad runtime),
      sd_Gateway = AddrZero\<rparr> = Inr i \<and>
    active_on (role, prefix) i (registry_abs (sm_Registry m')) \<and> linux_shown prefix i (sm_Kernel m')"
proof -
  let ?env = "linux_env nl sequence writer env"
  from assms(2) have "ensure_intent ?env intent m = ((res, None), m')"
    by (auto simp: Ensure_def split: prod.splits option.splits if_splits)
  from ensure_intent_success [OF linux.drives_show assms(1) this] assms(3) obtain role prefix runtime rm i where
    "admitted ?env intent role prefix runtime m" "se_Routes ?env = Some rm"
    "normalized rm role prefix (ts_IfIndex (rr_Toad runtime)) i"
    "active_on (role, prefix) i (registry_abs (sm_Registry m'))" "linux_shown prefix i (sm_Kernel m')"
    by (auto simp: ensured_def)
  moreover from this(2, 3) have "linux_NormalizeSelectedRoute \<lparr>sd_Role = role, sd_Prefix = prefix,
      sd_IfIndex = ts_IfIndex (rr_Toad runtime), sd_Gateway = AddrZero\<rparr> = Inr i"
    by (auto simp: normalized_def linux_env_def linux_route_manager_def fromSum_def split: sum.splits)
  ultimately show ?thesis by blast
qed

theorem linux_ensure_shown_witness:
  "\<exists>res m' prefix i. Ensure linux_sample_env sample_intent (NewSelectedRouteManager ([], [])) = ((res, None), m') \<and>
     fst (sm_Kernel m') = [reported (selectedRouteFor sample_prefix (table_identity 7))] \<and> linux_shown prefix i (sm_Kernel m')"
proof -
  let ?run = "Ensure linux_sample_env sample_intent (NewSelectedRouteManager ([], []))"
  have ok: "manager_ok (NewSelectedRouteManager ([], []) :: (nl_route list \<times> nl_call list) selected_manager)"
    by (simp add: NewSelectedRouteManager_def manager_ok_def registry_ok_def valid_under_def disk_ok_def)
  have "snd (fst ?run) = None \<and> lr_State (fst (fst ?run)) = ''applied'' \<and>
    fst (sm_Kernel (snd ?run)) = [reported (selectedRouteFor sample_prefix (table_identity 7))]" by code_simp
  then obtain res m' where run: "?run = ((res, None), m')" "lr_State res = ''applied''"
    "fst (sm_Kernel m') = [reported (selectedRouteFor sample_prefix (table_identity 7))]" by (cases ?run) auto
  from linux_ensure_shown [OF ok run(1) [unfolded linux_sample_env_def] run(2)] run show ?thesis by blast
qed

end
